(* ===== verification/Prelude.thy ===== *)
theory Prelude
  imports Main "HOL-Library.Word"
begin

text \<open>
  Shared vocabulary of the development: the machine types of the C code, C strings inside
  fixed-size buffers, bounds-respecting buffer writes (\<open>memcpy\<close>, \<open>memset\<close>), and the value of a
  big-endian digit list.  Every component theory imports this one.
\<close>

unbundle bit_operations_syntax

section \<open>Machine types\<close>

text \<open>
  \<open>uint8_t\<close>, \<open>uint32_t\<close> and \<open>uint64_t\<close> are words of their width.  \<open>size_t\<close> values are natural
  numbers: they count the elements of objects in memory, which are far shorter than \<open>2 ^ 56\<close>, so
  no \<open>size_t\<close> expression of the code wraps.  A cast of a \<open>size_t\<close> to \<open>int\<close> is \<open>c_int\<close>.
\<close>

type_synonym byte = "8 word"
type_synonym bytes = "byte list"
type_synonym u32 = "32 word"
type_synonym u64 = "64 word"

definition c_int :: "nat \<Rightarrow> int" where
  "c_int n = signed_take_bit 31 (int n)"

lemma c_int_id: "n < 2 ^ 31 \<Longrightarrow> c_int n = int n"
  unfolding c_int_def by (rule signed_take_bit_int_eq_self) auto

named_theorems buf_simps \<open>lengths and contents of buffers after writes\<close>

section \<open>C strings\<close>

abbreviation NUL :: char where "NUL \<equiv> CHR 0x00"

definition c_string :: "string \<Rightarrow> string" where
  "c_string buffer = takeWhile (\<lambda>c. c \<noteq> NUL) buffer"

lemma c_string_terminated [buf_simps]:
  "NUL \<notin> set s \<Longrightarrow> c_string (s @ NUL # rest) = s"
  unfolding c_string_def by (induction s) auto

lemma c_string_no_NUL: "NUL \<notin> set (c_string b)"
  unfolding c_string_def by (auto dest: set_takeWhileD)

text \<open>The cast between \<open>char\<close> and \<open>uint8_t\<close>.\<close>

definition byte_of_char :: "char \<Rightarrow> byte" where
  "byte_of_char c = of_nat (of_char c)"

definition char_of_byte :: "byte \<Rightarrow> char" where
  "char_of_byte b = char_of (unat b)"

lemma char_of_byte_of_char [simp]: "char_of_byte (byte_of_char c) = c"
proof -
  have "(of_char c :: nat) < 256" by (metis mod_less_divisor of_char_mod_256 zero_less_numeral)
  then have "unat (of_nat (of_char c) :: byte) = of_char c"
    by (simp add: unat_of_nat)
  then show ?thesis by (simp add: char_of_byte_def byte_of_char_def)
qed

lemma byte_of_char_inject: "byte_of_char c = byte_of_char d \<longleftrightarrow> c = d"
  by (metis char_of_byte_of_char)

section \<open>Writing into a buffer\<close>

text \<open>\<open>memcpy (buf + off, src, length src)\<close>.\<close>

definition write_at :: "'a list \<Rightarrow> nat \<Rightarrow> 'a list \<Rightarrow> 'a list" where
  "write_at buf off src = take off buf @ src @ drop (off + length src) buf"

lemma length_write_at [simp, buf_simps]:
  "off + length src \<le> length buf \<Longrightarrow> length (write_at buf off src) = length buf"
  by (simp add: write_at_def)

lemma take_write_at [buf_simps]:
  "off \<le> length buf \<Longrightarrow> take (off + length src) (write_at buf off src) = take off buf @ src"
  by (simp add: write_at_def)

lemma take_write_at_le [buf_simps]:
  "n \<le> off \<Longrightarrow> off \<le> length buf \<Longrightarrow> take n (write_at buf off src) = take n buf"
  by (simp add: write_at_def min_def)

lemma drop_write_at [buf_simps]:
  "off + length src \<le> n \<Longrightarrow> off + length src \<le> length buf \<Longrightarrow>
   drop n (write_at buf off src) = drop n buf"
  by (simp add: write_at_def add.commute)

lemma write_at_0 [simp]: "write_at buf 0 src = src @ drop (length src) buf"
  by (simp add: write_at_def)

lemma write_at_Nil [simp]: "write_at buf off [] = buf"
  by (simp add: write_at_def)

lemma c_string_write_at_0:
  "NUL \<notin> set s \<Longrightarrow> c_string (write_at buf 0 (s @ [NUL])) = s"
  by (simp add: c_string_terminated)

section \<open>Counting a leading run\<close>

fun leading :: "'a \<Rightarrow> 'a list \<Rightarrow> nat" where
  "leading z [] = 0"
| "leading z (x # xs) = (if x = z then Suc (leading z xs) else 0)"

lemma leading_le: "leading z xs \<le> length xs"
  by (induction xs) auto

lemma leading_split: "xs = replicate (leading z xs) z @ drop (leading z xs) xs"
  by (induction xs) auto

lemma take_leading: "take (leading z xs) xs = replicate (leading z xs) z"
  by (induction xs) auto

lemma hd_drop_leading: "drop (leading z xs) xs \<noteq> [] \<Longrightarrow> hd (drop (leading z xs) xs) \<noteq> z"
  by (induction xs) auto

lemma leading_eq_length: "leading z xs = length xs \<longleftrightarrow> xs = replicate (length xs) z"
  by (induction xs) auto

lemma leading_append: "ys \<noteq> [] \<Longrightarrow> hd ys \<noteq> z \<Longrightarrow> leading z (replicate n z @ ys) = n"
  by (induction n) (cases ys; simp)+

lemma leading_replicate [simp]: "leading z (replicate n z) = n"
  by (induction n) auto

lemma drop_leading_Nil_iff: "drop (leading z xs) xs = [] \<longleftrightarrow> xs = replicate (length xs) z"
  using leading_le [of z xs] leading_eq_length [of z xs] by auto

section \<open>Big-endian digit values\<close>

fun be_val :: "nat \<Rightarrow> nat list \<Rightarrow> nat" where
  "be_val b [] = 0"
| "be_val b (d # ds) = d * b ^ length ds + be_val b ds"

lemma be_val_append: "be_val b (xs @ ys) = be_val b xs * b ^ length ys + be_val b ys"
  by (induction xs) (auto simp: power_add algebra_simps)

lemma be_val_replicate_0 [simp]: "be_val b (replicate n 0) = 0"
  by (induction n) auto

lemma be_val_zeros: "be_val b (replicate n 0 @ ds) = be_val b ds"
  by (simp add: be_val_append)

lemma be_val_less: "\<forall>d \<in> set ds. d < b \<Longrightarrow> be_val b ds < b ^ length ds"
proof (induction ds)
  case Nil
  then show ?case by simp
next
  case (Cons d ds)
  then have *: "be_val b ds < b ^ length ds" and "Suc d \<le> b" by auto
  from * have "be_val b (d # ds) < Suc d * b ^ length ds" by simp
  also have "\<dots> \<le> b * b ^ length ds"
    using \<open>Suc d \<le> b\<close> by (rule mult_le_mono1)
  finally show ?case by simp
qed

lemma be_val_ge: "ds \<noteq> [] \<Longrightarrow> hd ds \<noteq> 0 \<Longrightarrow> b ^ (length ds - 1) \<le> be_val b ds"
  by (cases ds) (auto intro: trans_le_add1)

lemma be_val_inj_length:
  "length xs = length ys \<Longrightarrow> \<forall>d \<in> set xs. d < b \<Longrightarrow> \<forall>d \<in> set ys. d < b \<Longrightarrow>
   be_val b xs = be_val b ys \<Longrightarrow> xs = ys"
proof (induction xs ys rule: list_induct2)
  case Nil
  then show ?case by simp
next
  case (Cons x xs y ys)
  let ?B = "b ^ length ys"
  have lx: "be_val b xs < ?B" using be_val_less [of xs b] Cons by simp
  have ly: "be_val b ys < ?B" using be_val_less [of ys b] Cons by simp
  have eq: "x * ?B + be_val b xs = y * ?B + be_val b ys" using Cons by simp
  have nz: "?B \<noteq> 0" using lx by (metis not_less_zero)
  have "(x * ?B + be_val b xs) div ?B = x" using lx div_mult_self3 [OF nz] by simp
  moreover have "(y * ?B + be_val b ys) div ?B = y" using ly div_mult_self3 [OF nz] by simp
  ultimately have "x = y" using eq by simp
  with eq Cons show ?case by simp
qed

lemma be_val_length_le:
  assumes "1 < b" and "\<forall>d \<in> set ys. d < b" and "xs \<noteq> []" and "hd xs \<noteq> 0"
    and "be_val b xs = be_val b ys"
  shows "length xs \<le> length ys"
proof -
  have "b ^ (length xs - 1) < b ^ length ys"
    using be_val_ge [OF assms(3,4), of b] be_val_less [OF assms(2)] assms(5) by simp
  then have "length xs - 1 < length ys"
    using assms(1) by simp
  then show ?thesis by simp
qed

text \<open>Digit lists without leading zero are determined by their value.\<close>

lemma be_val_canonical:
  assumes "1 < b" and "\<forall>d \<in> set xs. d < b" and "\<forall>d \<in> set ys. d < b"
    and "xs = [] \<or> hd xs \<noteq> 0" and "ys = [] \<or> hd ys \<noteq> 0"
    and eq: "be_val b xs = be_val b ys"
  shows "xs = ys"
proof -
  have pos: "0 < be_val b zs" if "zs \<noteq> []" "hd zs \<noteq> 0" for zs
  proof -
    have "0 < b ^ (length zs - 1)" using assms(1) by simp
    with be_val_ge [OF that, of b] show ?thesis by linarith
  qed
  show ?thesis
  proof (cases "xs = [] \<or> ys = []")
    case True
    have "0 < be_val b xs" if "xs \<noteq> []" using pos [OF that] assms(4) that by blast
    moreover have "0 < be_val b ys" if "ys \<noteq> []" using pos [OF that] assms(5) that by blast
    ultimately show ?thesis using True eq by (metis be_val.simps(1) less_irrefl)
  next
    case False
    then have "length xs \<le> length ys" "length ys \<le> length xs"
      using be_val_length_le [OF assms(1,3), of xs] be_val_length_le [OF assms(1,2), of ys] assms(4,5) eq
      by auto
    then have "length xs = length ys" by simp
    then show ?thesis using be_val_inj_length assms(2,3) eq by blast
  qed
qed


text \<open>The canonical digits of a number, most significant first, no digit for zero.\<close>

function digits_of :: "nat \<Rightarrow> nat \<Rightarrow> nat list" where
  "digits_of b n = (if n = 0 \<or> b \<le> 1 then [] else digits_of b (n div b) @ [n mod b])"
  by pat_completeness auto
termination
  by (relation "measure snd") (auto intro: div_less_dividend)

declare digits_of.simps [simp del]

lemma digits_of_0 [simp]: "digits_of b 0 = []"
  by (subst digits_of.simps) simp

lemma be_val_digits_of [simp]: "1 < b \<Longrightarrow> be_val b (digits_of b n) = n"
proof (induction b n rule: digits_of.induct)
  case (1 b n)
  then show ?case by (subst digits_of.simps) (auto simp: be_val_append)
qed

lemma digits_of_less: "1 < b \<Longrightarrow> \<forall>d \<in> set (digits_of b n). d < b"
proof (induction b n rule: digits_of.induct)
  case (1 b n)
  then show ?case by (subst digits_of.simps) auto
qed

lemma digits_of_Nil_iff [simp]: "1 < b \<Longrightarrow> digits_of b n = [] \<longleftrightarrow> n = 0"
  by (simp add: digits_of.simps [of b n])

lemma digits_of_no_leading_0: "1 < b \<Longrightarrow> digits_of b n = [] \<or> hd (digits_of b n) \<noteq> 0"
proof (induction b n rule: digits_of.induct)
  case (1 b n)
  show ?case
  proof (cases "n = 0")
    case False
    have eq: "digits_of b n = digits_of b (n div b) @ [n mod b]"
      using False 1 by (subst digits_of.simps) simp
    show ?thesis
    proof (cases "n div b = 0")
      case True
      then have "n < b" using 1 by (simp add: div_eq_0_iff)
      with True False eq show ?thesis by simp
    next
      case nz: False
      then have "digits_of b (n div b) \<noteq> []" using 1 by simp
      then show ?thesis using 1 False eq by simp
    qed
  qed simp
qed

text \<open>Dropping the leading zeros of any digit list gives the canonical one.\<close>

lemma drop_leading_digits_of:
  assumes "1 < b" and "\<forall>d \<in> set ds. d < b"
  shows "drop (leading 0 ds) ds = digits_of b (be_val b ds)"
proof (rule be_val_canonical [OF assms(1)])
  show "\<forall>d \<in> set (drop (leading 0 ds) ds). d < b"
    using assms(2) by (auto dest: in_set_dropD)
  show "\<forall>d \<in> set (digits_of b (be_val b ds)). d < b"
    by (rule digits_of_less [OF assms(1)])
  show "drop (leading 0 ds) ds = [] \<or> hd (drop (leading 0 ds) ds) \<noteq> 0"
    using hd_drop_leading [of 0 ds] by blast
  show "digits_of b (be_val b ds) = [] \<or> hd (digits_of b (be_val b ds)) \<noteq> 0"
    by (rule digits_of_no_leading_0 [OF assms(1)])
  have "be_val b ds = be_val b (replicate (leading 0 ds) 0 @ drop (leading 0 ds) ds)"
    by (rule arg_cong) (rule leading_split)
  then show "be_val b (drop (leading 0 ds) ds) = be_val b (digits_of b (be_val b ds))"
    using assms(1) by (simp add: be_val_zeros)
qed

lemma digits_of_be_val:
  "1 < b \<Longrightarrow> \<forall>d \<in> set ds. d < b \<Longrightarrow> ds = [] \<or> hd ds \<noteq> 0 \<Longrightarrow> digits_of b (be_val b ds) = ds"
  by (rule be_val_canonical [of b])
    (use digits_of_less [of b "be_val b ds"] digits_of_no_leading_0 [of b "be_val b ds"] in simp_all)

lemma leading_map: "(\<And>x. x \<in> set xs \<Longrightarrow> f x = f z \<longleftrightarrow> x = z) \<Longrightarrow> leading (f z) (map f xs) = leading z xs"
  by (induction xs) auto

text \<open>The decimal numeral \<open>printf\<close> writes for an unsigned value.\<close>

definition decimal :: "nat \<Rightarrow> string" where
  "decimal n = (if n = 0 then ''0'' else map (\<lambda>d. char_of (48 + d)) (digits_of 10 n))"

end
