(* ===== verification/Base58.thy ===== *)
theory Base58
  imports Prelude
begin

text \<open>
  \<open>solana/solana_encoding.c\<close>, base 58: \<open>solana_base58_value\<close>, \<open>solana_base58_encode\<close> and
  \<open>solana_base58_decode\<close>.  Both directions run the same in-place multiply-and-add pass over a
  big-endian digit buffer; the locale \<open>digit_conversion\<close> states what a pass needs of its two bases
  and of the buffer estimate, and is interpreted for the two instances of the code.
\<close>

section \<open>The alphabet\<close>

definition solana_base58_alphabet :: string where
  "solana_base58_alphabet = ''123456789ABCDEFGHJKLMNPQRSTUVWXYZabcdefghijkmnopqrstuvwxyz''"

definition solana_base58_value :: "char \<Rightarrow> int" where
  "solana_base58_value ch =
     (let c = int (of_char ch) in
      if c \<ge> 49 \<and> c \<le> 57 then c - 49
      else if c \<ge> 65 \<and> c \<le> 72 then c - 65 + 9
      else if c \<ge> 74 \<and> c \<le> 78 then c - 74 + 17
      else if c \<ge> 80 \<and> c \<le> 90 then c - 80 + 22
      else if c \<ge> 97 \<and> c \<le> 107 then c - 97 + 33
      else if c \<ge> 109 \<and> c \<le> 122 then c - 109 + 44
      else -1)"

abbreviation b58_char :: "nat \<Rightarrow> char" where
  "b58_char n \<equiv> solana_base58_alphabet ! n"

abbreviation b58_valid :: "char \<Rightarrow> bool" where
  "b58_valid c \<equiv> 0 \<le> solana_base58_value c"

lemma length_alphabet [simp]: "length solana_base58_alphabet = 58"
  by (simp add: solana_base58_alphabet_def)

lemma alphabet_values: "map solana_base58_value solana_base58_alphabet = map int [0..<58]"
proof -
  have "[0..<58::nat] = 0 # 1 # [2..<58]" by (simp add: upt_conv_Cons)
  then show ?thesis
    by (simp add: solana_base58_alphabet_def solana_base58_value_def upt_rec_numeral)
qed

lemma value_of_alphabet [simp]: "n < 58 \<Longrightarrow> solana_base58_value (b58_char n) = int n"
proof -
  assume n: "n < 58"
  then have "solana_base58_value (b58_char n) = map solana_base58_value solana_base58_alphabet ! n"
    by simp
  with n show ?thesis by (simp only: alphabet_values) simp
qed

lemma b58_valid_in_alphabet: "b58_valid c \<Longrightarrow> c \<in> set solana_base58_alphabet"
proof -
  let ?codes = "[49..<58] @ [65..<73] @ [74..<79] @ [80..<91] @ [97..<108] @ [109..<123::nat]"
  assume "b58_valid c"
  then have "of_char c \<in> set ?codes"
    unfolding set_append set_upt Un_iff atLeastLessThan_iff solana_base58_value_def Let_def
    by (simp split: if_splits)
  then have "char_of (of_char c :: nat) \<in> set (map char_of ?codes)"
    by (simp only: set_map image_eqI)
  then have "c \<in> set (map char_of ?codes)"
    by (simp only: char_of_char)
  also have "map char_of ?codes = solana_base58_alphabet"
    by (simp add: upt_rec_numeral solana_base58_alphabet_def char_of_def bit_0)
  finally show ?thesis .
qed

lemma b58_valid_obtain: "b58_valid c \<Longrightarrow> \<exists>n < 58. c = b58_char n"
  by (metis b58_valid_in_alphabet in_set_conv_nth length_alphabet)

lemma value_less: "solana_base58_value c < 58"
  using b58_valid_obtain [of c] by (cases "b58_valid c") auto

lemma value_nat_less [simp]: "nat (solana_base58_value c) < 58"
  using value_less [of c] by arith

lemma alphabet_of_value: "b58_valid c \<Longrightarrow> b58_char (nat (solana_base58_value c)) = c"
  using b58_valid_obtain [of c] by auto

lemma b58_char_0: "b58_char 0 = CHR ''1''"
  by (simp add: solana_base58_alphabet_def)

lemma b58_char_inject: "m < 58 \<Longrightarrow> n < 58 \<Longrightarrow> b58_char m = b58_char n \<longleftrightarrow> m = n"
  by (metis of_nat_eq_iff value_of_alphabet)

lemma b58_char_not_NUL: "n < 58 \<Longrightarrow> b58_char n \<noteq> NUL"
proof
  assume n: "n < 58" and "b58_char n = NUL"
  then have "solana_base58_value NUL = int n" using value_of_alphabet by metis
  then show False by (simp add: solana_base58_value_def Let_def)
qed

lemma b58_valid_iff: "b58_valid c \<longleftrightarrow> c \<in> set solana_base58_alphabet"
  using b58_valid_in_alphabet
  by (metis in_set_conv_nth length_alphabet of_nat_0_le_iff value_of_alphabet)

section \<open>The multiply-and-add pass\<close>

text \<open>
  The inner \<open>while (j > 0u)\<close> loop of both functions, counting \<open>j\<close> down over \<open>buffer\<close>:
  \<open>carry += mul * buffer[j - 1]; buffer[j - 1] = carry % base; carry /= base\<close>.
\<close>

fun carry_pass :: "nat \<Rightarrow> nat \<Rightarrow> bytes \<Rightarrow> nat \<Rightarrow> nat \<Rightarrow> bytes \<times> nat" where
  "carry_pass mul base buffer 0 carry = (buffer, carry)"
| "carry_pass mul base buffer (Suc j) carry =
     (let carry = carry + mul * unat (buffer ! j) in
      carry_pass mul base (buffer[j := of_nat (carry mod base)]) j (carry div base))"

text \<open>The largest value \<open>carry\<close> takes during a pass, to be compared with \<open>INT_MAX\<close>.\<close>

fun carry_peak :: "nat \<Rightarrow> nat \<Rightarrow> bytes \<Rightarrow> nat \<Rightarrow> nat \<Rightarrow> nat" where
  "carry_peak mul base buffer 0 carry = carry"
| "carry_peak mul base buffer (Suc j) carry =
     (let carry = carry + mul * unat (buffer ! j) in
      max carry (carry_peak mul base (buffer[j := of_nat (carry mod base)]) j (carry div base)))"

definition digits_below :: "nat \<Rightarrow> bytes \<Rightarrow> bool" where
  "digits_below b ds \<longleftrightarrow> (\<forall>d \<in> set ds. unat d < b)"

lemma length_carry_pass [simp]:
  "length (fst (carry_pass mul base buffer j carry)) = length buffer"
  by (induction mul base buffer j carry rule: carry_pass.induct) (auto simp: Let_def)

lemma drop_carry_pass:
  "j \<le> length buffer \<Longrightarrow> drop j (fst (carry_pass mul base buffer j carry)) = drop j buffer"
proof (induction mul base buffer j carry rule: carry_pass.induct)
  case (2 mul base buffer j carry)
  let ?c = "carry + mul * unat (buffer ! j)"
  let ?b = "buffer[j := of_nat (?c mod base)]"
  have "drop j (fst (carry_pass mul base ?b j (?c div base))) = drop j ?b"
    using 2 by (simp add: Let_def)
  then have "tl (drop j (fst (carry_pass mul base ?b j (?c div base)))) = tl (drop j ?b)"
    by (rule arg_cong)
  then have "drop (Suc j) (fst (carry_pass mul base ?b j (?c div base))) = drop (Suc j) ?b"
    by (simp only: drop_Suc tl_drop)
  then show ?case by (simp add: Let_def)
qed simp

definition digit_step :: "nat \<Rightarrow> nat \<Rightarrow> bytes \<Rightarrow> nat \<Rightarrow> bytes" where
  "digit_step mul base buffer d = fst (carry_pass mul base buffer (length buffer) d)"

locale digit_conversion =
  fixes mul base num den :: nat
  assumes mul_range: "1 < mul" "mul \<le> 256"
    and base_range: "1 < base" "base \<le> 256"
    and den_pos: "0 < den"
    and growth: "mul ^ den \<le> base ^ num"
begin

lemma unat_digit: "unat (of_nat (c mod base) :: byte) = c mod base"
proof -
  have "c mod base < base" using base_range by simp
  then have "c mod base < 256" using base_range by linarith
  then show ?thesis by (simp add: unat_of_nat)
qed

lemma pass_digits:
  "digits_below base buffer \<Longrightarrow> j \<le> length buffer \<Longrightarrow>
   digits_below base (fst (carry_pass mul base buffer j carry))"
proof (induction j arbitrary: buffer carry)
  case (Suc j)
  let ?c = "carry + mul * unat (buffer ! j)"
  have "unat (of_nat (?c mod base) :: byte) < base"
    using base_range by (simp add: unat_digit)
  then have "digits_below base (buffer[j := of_nat (?c mod base)])"
    using Suc.prems set_update_subset_insert unfolding digits_below_def by fastforce
  then show ?case using Suc by (simp add: Let_def)
qed simp

lemma pass_value:
  "j \<le> length buffer \<Longrightarrow> carry_pass mul base buffer j carry = (buffer', carry') \<Longrightarrow>
   be_val base (map unat (take j buffer')) + carry' * base ^ j =
   mul * be_val base (map unat (take j buffer)) + carry"
proof (induction j arbitrary: buffer carry)
  case (Suc j)
  let ?c = "carry + mul * unat (buffer ! j)"
  let ?b = "buffer[j := of_nat (?c mod base)]"
  have j: "j < length buffer" using Suc.prems(1) by simp
  have run: "carry_pass mul base ?b j (?c div base) = (buffer', carry')"
    using Suc.prems(2) by (simp add: Let_def)
  have IH: "be_val base (map unat (take j buffer')) + carry' * base ^ j =
      mul * be_val base (map unat (take j buffer)) + ?c div base"
    using Suc.IH [OF _ run] j by simp
  have "drop j buffer' = drop j ?b"
    using drop_carry_pass [of j ?b mul base "?c div base"] run j by simp
  then have "buffer' ! j = ?b ! j"
    using j length_carry_pass [of mul base ?b j "?c div base"] run
    by (metis fst_conv hd_drop_conv_nth length_list_update)
  then have last: "unat (buffer' ! j) = ?c mod base"
    using j by (simp add: unat_digit)
  have lb: "length buffer' = length buffer"
    using length_carry_pass [of mul base ?b j "?c div base"] run by simp
  have "be_val base (map unat (take (Suc j) buffer')) + carry' * base ^ Suc j =
      (be_val base (map unat (take j buffer')) + carry' * base ^ j) * base + ?c mod base"
    using j lb by (simp add: take_Suc_conv_app_nth be_val_append last algebra_simps)
  also have "\<dots> = (mul * be_val base (map unat (take j buffer))) * base + (?c div base * base + ?c mod base)"
    by (simp only: IH distrib_right add.assoc)
  also have "\<dots> = mul * (be_val base (map unat (take j buffer)) * base) + ?c"
    by (simp only: div_mult_mod_eq mult.assoc)
  also have "\<dots> = mul * be_val base (map unat (take (Suc j) buffer)) + carry"
    using j by (simp add: take_Suc_conv_app_nth be_val_append algebra_simps)
  finally show ?case .
qed simp

lemma pass_peak:
  "digits_below base buffer \<Longrightarrow> j \<le> length buffer \<Longrightarrow> carry < mul \<Longrightarrow>
   carry_peak mul base buffer j carry < mul * base"
proof (induction j arbitrary: buffer carry)
  case 0
  have "mul * 1 \<le> mul * base" using base_range by (intro mult_le_mono2) simp
  with 0 show ?case unfolding carry_peak.simps by linarith
next
  case (Suc j)
  let ?c = "carry + mul * unat (buffer ! j)"
  have "unat (buffer ! j) < base" using Suc.prems by (simp add: digits_below_def)
  then have "mul * Suc (unat (buffer ! j)) \<le> mul * base" by (intro mult_le_mono2) simp
  then have c: "?c < mul * base" using Suc.prems(3) by simp
  then have "?c div base < mul" by (simp add: less_mult_imp_div_less)
  moreover have "digits_below base (buffer[j := of_nat (?c mod base)])"
    using Suc.prems base_range set_update_subset_insert unat_digit unfolding digits_below_def by fastforce
  ultimately show ?case using c Suc by (simp add: Let_def)
qed

text \<open>A whole run: the digits of the input are folded into a zeroed buffer that is long enough.\<close>

lemma run_value:
  "digits_below base buffer \<Longrightarrow>
   be_val base (map unat buffer) * mul ^ length ds + be_val mul ds < base ^ length buffer \<Longrightarrow>
   be_val base (map unat (foldl (digit_step mul base) buffer ds)) =
     be_val base (map unat buffer) * mul ^ length ds + be_val mul ds
   \<and> length (foldl (digit_step mul base) buffer ds) = length buffer
   \<and> digits_below base (foldl (digit_step mul base) buffer ds)"
proof (induction ds arbitrary: buffer)
  case (Cons d ds)
  obtain b' c' where run: "carry_pass mul base buffer (length buffer) d = (b', c')"
    by (cases "carry_pass mul base buffer (length buffer) d") auto
  have lb: "length b' = length buffer" using length_carry_pass [of mul base buffer _ d] run by (metis fst_conv)
  have db: "digits_below base b'" using pass_digits [OF Cons.prems(1) order_refl, of d] run by simp
  let ?v = "be_val base (map unat buffer)"
  have val: "be_val base (map unat b') + c' * base ^ length buffer = mul * ?v + d"
    using pass_value [OF order_refl run] lb by simp
  have total: "(mul * ?v + d) * mul ^ length ds + be_val mul ds < base ^ length buffer"
    using Cons.prems(2) by (simp add: algebra_simps)
  have "mul * ?v + d \<le> (mul * ?v + d) * mul ^ length ds" using mul_range by simp
  then have small: "mul * ?v + d < base ^ length buffer"
    by (rule le_less_trans [OF trans_le_add1 total])
  have "c' = 0"
  proof (rule ccontr)
    assume "c' \<noteq> 0"
    then have "1 * base ^ length buffer \<le> c' * base ^ length buffer" by (intro mult_le_mono1) simp
    with val small show False by linarith
  qed
  then have v': "be_val base (map unat b') = mul * ?v + d" using val by simp
  have "be_val base (map unat b') * mul ^ length ds + be_val mul ds < base ^ length b'"
    using total v' lb by simp
  from Cons.IH [OF db this] show ?case
    using run v' lb by (simp add: digit_step_def algebra_simps)
qed simp

text \<open>The buffer estimate \<open>n * num / den + 1\<close> of the code is always large enough.\<close>

lemma estimate: "mul ^ n < base ^ (n * num div den + 1)"
proof -
  let ?k = "n * num div den + 1"
  have "n * num < den * ?k" using den_pos
    by (metis add.commute dividend_less_times_div mult.commute mult_Suc_right plus_1_eq_Suc)
  then have "base ^ (n * num) < base ^ (den * ?k)" using base_range by simp
  moreover have "(mul ^ n) ^ den \<le> base ^ (n * num)"
    using power_mono [OF growth, of n] by (simp add: power_mult [symmetric] mult.commute)
  moreover have "base ^ (den * ?k) = (base ^ ?k) ^ den"
    by (simp only: power_mult [symmetric] mult.commute)
  ultimately have "(mul ^ n) ^ den < (base ^ ?k) ^ den"
    by linarith
  then show ?thesis by (rule power_less_imp_less_base) simp
qed

lemma convert_value:
  assumes "\<forall>d \<in> set ds. d < mul" and "sz = length ds * num div den + 1"
  defines "res \<equiv> foldl (digit_step mul base) (replicate sz 0) ds"
  shows "be_val base (map unat res) = be_val mul ds" and "length res = sz" and "digits_below base res"
proof -
  have "be_val mul ds < base ^ sz"
    using be_val_less [OF assms(1)] estimate [of "length ds"] assms(2) by simp
  moreover have "digits_below base (replicate sz 0)"
    using base_range by (simp add: digits_below_def)
  ultimately show "be_val base (map unat res) = be_val mul ds" "length res = sz" "digits_below base res"
    using run_value [of "replicate sz 0" ds] by (simp_all add: res_def)
qed

text \<open>Skipping the leading zero digits leaves the canonical digits of the value.\<close>

lemma convert_digits:
  assumes "\<forall>d \<in> set ds. d < mul" and "sz = length ds * num div den + 1"
  defines "res \<equiv> foldl (digit_step mul base) (replicate sz 0) ds"
  shows "map unat (drop (leading 0 res) res) = digits_of base (be_val mul ds)"
    and "sz - leading 0 res = length (digits_of base (be_val mul ds))"
proof -
  note conv = convert_value [OF assms(1,2), folded res_def]
  have "leading 0 (map unat res) = leading 0 res"
    using leading_map [of res unat 0] by (simp add: unat_eq_zero)
  then have "map unat (drop (leading 0 res) res) = drop (leading 0 (map unat res)) (map unat res)"
    by (simp add: drop_map)
  also have "\<dots> = digits_of base (be_val base (map unat res))"
    using conv(3) base_range by (intro drop_leading_digits_of) (auto simp: digits_below_def)
  finally show eq: "map unat (drop (leading 0 res) res) = digits_of base (be_val mul ds)"
    by (simp add: conv(1))
  show "sz - leading 0 res = length (digits_of base (be_val mul ds))"
    unfolding eq [symmetric] using conv(2) by simp
qed

end

interpretation enc: digit_conversion 256 58 138 100
  by unfold_locales simp_all

lemma growth_58_256: "(58::nat) ^ 1000 \<le> 256 ^ 733"
proof -
  have "(58::nat) ^ 1000 = (58 ^ 22) ^ 45 * 58 ^ 10"
    unfolding power_mult [symmetric] power_add [symmetric]
    by (rule arg_cong [where f = "power 58"]) simp
  also have "\<dots> \<le> (2 ^ 129) ^ 45 * 2 ^ 59"
    by (intro mult_le_mono power_mono) simp_all
  also have "\<dots> = ((2::nat) ^ 8) ^ 733"
    unfolding power_mult [symmetric] power_add [symmetric]
    by (rule arg_cong [where f = "power 2"]) simp
  also have "(2::nat) ^ 8 = 256" by simp
  finally show ?thesis .
qed

interpretation dec: digit_conversion 58 256 733 1000
  by unfold_locales (rule growth_58_256 | simp)+

section \<open>Encoding\<close>

text \<open>
  \<open>calloc\<close> says for which sizes the allocation of the scratch buffer succeeds; \<open>data\<close> and
  \<open>out\<close> are \<open>None\<close> for a null pointer, and \<open>out\<close> is returned with the bytes that were written.
\<close>

definition encode_loop :: "bytes \<Rightarrow> bytes \<Rightarrow> bytes" where
  "encode_loop buffer data = foldl (digit_step 256 58) buffer (map unat data)"

definition solana_base58_encode ::
    "(nat \<Rightarrow> bool) \<Rightarrow> bytes option \<Rightarrow> string option \<Rightarrow> nat \<Rightarrow> int \<times> string option" where
  "solana_base58_encode calloc data_ptr out_ptr out_size =
     (case (data_ptr, out_ptr) of
        (Some data, Some out) \<Rightarrow>
          if out_size > 0 then
            let zeros = leading 0 data in
            if length data = zeros then
              if out_size \<ge> zeros + 1
              then (c_int zeros, Some (write_at out 0 (replicate zeros (b58_char 0) @ [NUL])))
              else (0, out_ptr)
            else
              let sz = ((length data - zeros) * 138) div 100 + 1 in
              if calloc sz then
                let buffer = encode_loop (replicate sz 0) (drop zeros data);
                    idx = leading 0 buffer in
                if zeros + (sz - idx) + 1 \<le> out_size
                then (c_int (zeros + (sz - idx)),
                      Some (write_at out 0
                        (replicate zeros (b58_char 0)
                         @ map (\<lambda>d. b58_char (unat d)) (drop idx buffer) @ [NUL])))
                else (0, out_ptr)
              else (0, out_ptr)
          else (0, out_ptr)
      | _ \<Rightarrow> (0, out_ptr))"

section \<open>Decoding\<close>

text \<open>
  The digit loop with its \<open>break\<close> on a character outside the alphabet: it returns the buffer and
  the unread rest of the input, which is empty exactly when \<open>input_index\<close> reached \<open>input_len\<close>.
\<close>

fun decode_loop :: "bytes \<Rightarrow> string \<Rightarrow> bytes \<times> string" where
  "decode_loop buffer [] = (buffer, [])"
| "decode_loop buffer (c # cs) =
     (let carry = solana_base58_value c in
      if carry < 0 then (buffer, c # cs)
      else decode_loop (digit_step 58 256 buffer (nat carry)) cs)"

definition solana_base58_decode ::
    "(nat \<Rightarrow> bool) \<Rightarrow> string option \<Rightarrow> bytes option \<Rightarrow> nat \<Rightarrow> int \<times> bytes option" where
  "solana_base58_decode calloc input_ptr out_ptr out_size =
     (case (input_ptr, out_ptr) of
        (Some input, Some out) \<Rightarrow>
          if out_size > 0 \<and> length input > 0 then
            let zeros = leading (b58_char 0) input;
                sz = ((length input - zeros) * 733) div 1000 + 1 in
            if calloc sz then
              (case decode_loop (replicate sz 0) (drop zeros input) of
                 (buffer, rest) \<Rightarrow>
                   if rest = [] then
                     let idx = leading 0 buffer in
                     if zeros + (sz - idx) \<le> out_size
                     then (c_int (zeros + (sz - idx)),
                           Some (write_at out 0 (replicate zeros 0 @ drop idx buffer)))
                     else (0, out_ptr)
                   else (0, out_ptr))
            else (0, out_ptr)
          else (0, out_ptr)
      | _ \<Rightarrow> (0, out_ptr))"

section \<open>What the two functions compute\<close>

text \<open>
  The reference: base 58 text is one \<open>1\<close> per leading zero byte, followed by the base 58 digits of
  the number the bytes spell, and back.  It mentions neither buffers nor passes.
\<close>

definition base58_text :: "bytes \<Rightarrow> string" where
  "base58_text data =
     replicate (leading 0 data) (CHR ''1'') @ map b58_char (digits_of 58 (be_val 256 (map unat data)))"

definition base58_bytes :: "string \<Rightarrow> bytes option" where
  "base58_bytes s =
     (if list_all (\<lambda>c. c \<in> set solana_base58_alphabet) s
      then Some (replicate (leading (CHR ''1'') s) 0
        @ map of_nat (digits_of 256 (be_val 58 (map (\<lambda>c. nat (solana_base58_value c)) s))))
      else None)"

lemma unat_bytes_less: "\<forall>d \<in> set (map unat (bs :: bytes)). d < 256"
proof -
  have "unat (b :: byte) < 256" for b by (rule order.strict_trans2 [OF unsigned_less]) simp
  then show ?thesis by simp
qed

lemma be_val_drop_leading: "be_val b (map unat (drop (leading 0 bs) bs)) = be_val b (map unat (bs :: bytes))"
proof -
  have "map unat bs = map unat (replicate (leading 0 bs) 0 @ drop (leading 0 bs) bs)"
    by (rule arg_cong) (rule leading_split)
  then show ?thesis by (simp add: be_val_zeros)
qed

lemma encode_loop_result:
  assumes "sz = length data * 138 div 100 + 1"
  defines "buffer \<equiv> encode_loop (replicate sz 0) data"
  shows "map unat (drop (leading 0 buffer) buffer) = digits_of 58 (be_val 256 (map unat data))"
    and "sz - leading 0 buffer = length (digits_of 58 (be_val 256 (map unat data)))"
  using enc.convert_digits [of "map unat data" sz] unat_bytes_less [of data] assms(1)
  unfolding buffer_def encode_loop_def by simp_all

lemma base58_text_zeros:
  "leading 0 data = length data \<Longrightarrow> base58_text data = replicate (length data) (CHR ''1'')"
proof -
  assume l: "leading 0 data = length data"
  then have "map unat data = replicate (length data) 0"
    by (metis leading_eq_length map_replicate unat_0)
  then show ?thesis using l by (metis append_Nil2 base58_text_def be_val_replicate_0 digits_of_0 list.simps(8))
qed

lemma base58_text_no_NUL: "NUL \<notin> set (base58_text data)"
proof
  assume "NUL \<in> set (base58_text data)"
  then obtain d where "d \<in> set (digits_of 58 (be_val 256 (map unat data)))" and "b58_char d = NUL"
    by (auto simp: base58_text_def split: if_splits)
  moreover have "\<forall>d \<in> set (digits_of 58 (be_val 256 (map unat data))). d < 58"
    by (rule digits_of_less) simp
  ultimately show False using b58_char_not_NUL by metis
qed

lemma encode_characterised:
  fixes data :: bytes
  assumes "out_size < 2 ^ 31"
  defines "n \<equiv> length data - leading 0 data"
  shows "solana_base58_encode calloc (Some data) (Some out) out_size =
    (if length (base58_text data) < out_size \<and> (n = 0 \<or> calloc (n * 138 div 100 + 1))
     then (int (length (base58_text data)), Some (write_at out 0 (base58_text data @ [NUL])))
     else (0, Some out))"
proof (cases "length data = leading 0 data")
  case True
  then have "base58_text data = replicate (length data) (b58_char 0)" and "n = 0"
    by (simp_all add: base58_text_zeros b58_char_0 n_def)
  then show ?thesis using assms True by (auto simp: solana_base58_encode_def c_int_id Let_def)
next
  case False
  define sz where "sz = n * 138 div 100 + 1"
  define buffer where "buffer = encode_loop (replicate sz 0) (drop (leading 0 data) data)"
  let ?ds = "digits_of 58 (be_val 256 (map unat data))"
  have n: "n = length (drop (leading 0 data) data)" "n \<noteq> 0"
    using False leading_le [of 0 data] by (simp_all add: n_def)
  have digits: "map unat (drop (leading 0 buffer) buffer) = ?ds"
    and len: "sz - leading 0 buffer = length ?ds"
    using encode_loop_result [OF sz_def [unfolded n(1)]] by (simp_all only: buffer_def be_val_drop_leading)
  have "map (\<lambda>d. b58_char (unat d)) (drop (leading 0 buffer) buffer) = map b58_char ?ds"
    unfolding digits [symmetric] by simp
  then have enc_text: "replicate (leading 0 data) (b58_char 0)
      @ map (\<lambda>d. b58_char (unat d)) (drop (leading 0 buffer) buffer) @ [NUL] = base58_text data @ [NUL]"
    by (simp add: base58_text_def b58_char_0)
  have size: "leading 0 data + (sz - leading 0 buffer) = length (base58_text data)"
    by (simp add: len base58_text_def)
  show ?thesis
    unfolding solana_base58_encode_def Let_def option.case prod.case n_def [symmetric]
      sz_def [symmetric] buffer_def [symmetric] enc_text size
    using assms(1) False n(2) by (simp add: c_int_id)
qed

lemma decode_loop_valid:
  "list_all b58_valid s \<Longrightarrow>
   decode_loop buffer s = (foldl (digit_step 58 256) buffer (map (\<lambda>c. nat (solana_base58_value c)) s), [])"
  by (induction s arbitrary: buffer) auto

lemma decode_loop_invalid: "\<not> list_all b58_valid s \<Longrightarrow> snd (decode_loop buffer s) \<noteq> []"
  by (induction s arbitrary: buffer) (auto simp: Let_def)

lemma b58_char_1_valid: "b58_valid (CHR ''1'')"
  by (metis b58_char_0 of_nat_0_le_iff value_of_alphabet zero_less_numeral)

lemma valid_drop_leading: "list_all b58_valid (drop (leading (CHR ''1'') s) s) \<longleftrightarrow> list_all b58_valid s"
proof -
  have "list_all b58_valid s \<longleftrightarrow>
      list_all b58_valid (replicate (leading (CHR ''1'') s) (CHR ''1'') @ drop (leading (CHR ''1'') s) s)"
    by (rule arg_cong) (rule leading_split)
  moreover have "list_all b58_valid (replicate (leading (CHR ''1'') s) (CHR ''1''))"
    using b58_char_1_valid by (simp add: list_all_iff)
  ultimately show ?thesis by simp
qed

lemma value_drop_leading:
  "be_val 58 (map (\<lambda>c. nat (solana_base58_value c)) (drop (leading (CHR ''1'') s) s)) =
   be_val 58 (map (\<lambda>c. nat (solana_base58_value c)) s)"
proof -
  have "nat (solana_base58_value (CHR ''1'')) = 0"
    using value_of_alphabet [of 0] b58_char_0 by simp
  moreover have "map (\<lambda>c. nat (solana_base58_value c)) s = map (\<lambda>c. nat (solana_base58_value c))
      (replicate (leading (CHR ''1'') s) (CHR ''1'') @ drop (leading (CHR ''1'') s) s)"
    by (rule arg_cong) (rule leading_split)
  ultimately show ?thesis by (simp add: be_val_zeros)
qed

lemma map_of_nat_unat [simp]: "map of_nat (map unat (bs :: bytes)) = bs"
  by (induction bs) auto

lemma decode_loop_result:
  assumes "sz = length s * 733 div 1000 + 1" and "list_all b58_valid s"
  defines "buffer \<equiv> fst (decode_loop (replicate sz 0) s)"
    and "ds \<equiv> digits_of 256 (be_val 58 (map (\<lambda>c. nat (solana_base58_value c)) s))"
  shows "drop (leading 0 buffer) buffer = map of_nat ds" and "sz - leading 0 buffer = length ds"
proof -
  have v: "\<forall>d \<in> set (map (\<lambda>c. nat (solana_base58_value c)) s). d < 58"
    using value_less by auto
  have "map unat (drop (leading 0 buffer) buffer) = ds" and len: "sz - leading 0 buffer = length ds"
    using dec.convert_digits [OF v] assms(1) decode_loop_valid [OF assms(2)]
    unfolding buffer_def ds_def by simp_all
  then show "drop (leading 0 buffer) buffer = map of_nat ds"
    by (metis map_of_nat_unat)
  show "sz - leading 0 buffer = length ds" by (rule len)
qed

lemma base58_bytes_alt:
  "base58_bytes s = (if list_all b58_valid s
     then Some (replicate (leading (CHR ''1'') s) 0
       @ map of_nat (digits_of 256 (be_val 58 (map (\<lambda>c. nat (solana_base58_value c)) s)))) else None)"
  by (simp add: base58_bytes_def b58_valid_iff)

lemma decode_characterised:
  assumes "out_size < 2 ^ 31"
  shows "solana_base58_decode calloc (Some s) (Some out) out_size =
    (case base58_bytes s of
       None \<Rightarrow> (0, Some out)
     | Some bs \<Rightarrow>
         if s \<noteq> [] \<and> 0 < out_size \<and> length bs \<le> out_size
            \<and> calloc ((length s - leading (CHR ''1'') s) * 733 div 1000 + 1)
         then (int (length bs), Some (write_at out 0 bs)) else (0, Some out))"
proof -
  define z where "z = leading (CHR ''1'') s"
  define sz where "sz = (length s - z) * 733 div 1000 + 1"
  obtain buffer rest where loop: "decode_loop (replicate sz 0) (drop z s) = (buffer, rest)" by fastforce
  note folded = solana_base58_decode_def Let_def option.case prod.case b58_char_0
    z_def [symmetric] sz_def [symmetric] loop base58_bytes_alt
  show ?thesis
  proof (cases "list_all b58_valid s")
    case False
    then have "rest \<noteq> []"
      using decode_loop_invalid [of "drop z s" "replicate sz 0"] loop
      by (simp add: z_def valid_drop_leading)
    then show ?thesis using False unfolding folded by simp
  next
    case True
    let ?ds = "digits_of 256 (be_val 58 (map (\<lambda>c. nat (solana_base58_value c)) s))"
    have v: "list_all b58_valid (drop z s)" using True by (simp add: z_def valid_drop_leading)
    have rest: "rest = []" and buffer: "buffer = fst (decode_loop (replicate sz 0) (drop z s))"
      using decode_loop_valid [OF v, of "replicate sz 0"] loop by auto
    have sz: "sz = length (drop z s) * 733 div 1000 + 1"
      by (simp only: sz_def length_drop)
    have digits: "drop (leading 0 buffer) buffer = map of_nat ?ds"
      and len: "sz - leading 0 buffer = length ?ds"
      using decode_loop_result [OF sz v] unfolding buffer z_def value_drop_leading by simp_all
    show ?thesis
      using True assms unfolding folded rest digits len by (auto simp: c_int_id)
  qed
qed

section \<open>Text and bytes determine each other\<close>

lemma nat_values_of_digits:
  "\<forall>d \<in> set ds. d < 58 \<Longrightarrow> map (\<lambda>c. nat (solana_base58_value c)) (map b58_char ds) = ds"
  by (induction ds) auto

lemma valid_text: "list_all b58_valid (base58_text data)"
proof -
  have "\<forall>d \<in> set (digits_of 58 (be_val 256 (map unat data))). d < 58" by (rule digits_of_less) simp
  then show ?thesis using b58_char_1_valid by (auto simp: base58_text_def list_all_iff)
qed

lemma leading_text: "leading (CHR ''1'') (base58_text data) = leading 0 data"
proof -
  define ds where "ds = digits_of 58 (be_val 256 (map unat data))"
  have small: "\<forall>d \<in> set ds. d < 58" and nz: "ds = [] \<or> hd ds \<noteq> 0"
    unfolding ds_def by (rule digits_of_less, simp) (rule digits_of_no_leading_0, simp)
  show ?thesis
  proof (cases "ds = []")
    case False
    then have "hd (map b58_char ds) \<noteq> b58_char 0"
      using nz small b58_char_inject [of "hd ds" 0] by (cases ds) auto
    with False show ?thesis
      unfolding base58_text_def ds_def [symmetric] b58_char_0 [symmetric] by (intro leading_append) auto
  qed (simp add: base58_text_def ds_def)
qed

lemma value_text:
  "be_val 58 (map (\<lambda>c. nat (solana_base58_value c)) (base58_text data)) = be_val 256 (map unat data)"
proof -
  have "\<forall>d \<in> set (digits_of 58 (be_val 256 (map unat data))). d < 58" by (rule digits_of_less) simp
  then have "map (\<lambda>c. nat (solana_base58_value c)) (base58_text data) =
      replicate (leading 0 data) 0 @ digits_of 58 (be_val 256 (map unat data))"
    using nat_values_of_digits [of "digits_of 58 (be_val 256 (map unat data))"]
      value_of_alphabet [of 0]
    unfolding base58_text_def b58_char_0 [symmetric] map_append by simp
  then show ?thesis by (simp add: be_val_zeros)
qed

lemma digits_of_bytes:
  "digits_of 256 (be_val 256 (map unat (data :: bytes))) = map unat (drop (leading 0 data) data)"
proof -
  have "hd (map unat (drop (leading 0 data) data)) \<noteq> 0" if "drop (leading 0 data) data \<noteq> []"
    using hd_drop_leading [OF that] that by (simp add: hd_map unat_eq_zero)
  then have "map unat (drop (leading 0 data) data) = [] \<or> hd (map unat (drop (leading 0 data) data)) \<noteq> 0"
    by (metis list.simps(8))
  then have "digits_of 256 (be_val 256 (map unat (drop (leading 0 data) data)))
      = map unat (drop (leading 0 data) data)"
    using digits_of_be_val [of 256 "map unat (drop (leading 0 data) data)"]
      unat_bytes_less [of "drop (leading 0 data) data"] by fastforce
  then show ?thesis by (simp add: be_val_drop_leading)
qed

lemma base58_bytes_text: "base58_bytes (base58_text data) = Some data"
proof -
  have "replicate (leading 0 data) 0 @ drop (leading 0 data) data = data"
    by (rule leading_split [symmetric])
  then show ?thesis
    by (simp only: base58_bytes_alt valid_text leading_text value_text digits_of_bytes
        map_of_nat_unat if_True)
qed

lemma unat_of_nat_digits:
  "\<forall>d \<in> set ds. d < 256 \<Longrightarrow> map unat (map of_nat ds :: bytes) = ds"
  by (induction ds) (auto simp: unat_of_nat)

lemma base58_text_bytes:
  assumes "base58_bytes s = Some bs"
  shows "base58_text bs = s"
proof -
  let ?vs = "map (\<lambda>c. nat (solana_base58_value c)) s"
  let ?ds = "digits_of 256 (be_val 58 ?vs)"
  define z where "z = leading (CHR ''1'') s"
  have v: "list_all b58_valid s" and bs: "bs = replicate z 0 @ map of_nat ?ds"
    using assms by (auto simp: base58_bytes_alt z_def split: if_splits)
  have d256: "\<forall>d \<in> set ?ds. d < 256" by (rule digits_of_less) simp
  have unats: "map unat bs = replicate z 0 @ ?ds"
    unfolding bs map_append unat_of_nat_digits [OF d256] by simp
  have "leading 0 bs = leading 0 (map unat bs)"
    using leading_map [of bs unat 0] by (simp add: unat_eq_zero)
  also have "\<dots> = z" unfolding unats
    using digits_of_no_leading_0 [of 256 "be_val 58 ?vs"]
    by (cases "?ds = []") (simp_all add: leading_append)
  finally have lead: "leading 0 bs = z" .
  have "be_val 256 (map unat bs) = be_val 58 ?vs"
    unfolding unats be_val_zeros by simp
  then have "be_val 256 (map unat bs) = be_val 58 (drop z ?vs)"
    using value_drop_leading [of s] by (simp add: z_def drop_map)
  moreover have "digits_of 58 (be_val 58 (drop z ?vs)) = drop z ?vs"
  proof (rule digits_of_be_val)
    show "\<forall>d \<in> set (drop z ?vs). d < 58" using set_drop_subset [of z ?vs] by auto
    show "drop z ?vs = [] \<or> hd (drop z ?vs) \<noteq> 0"
    proof (cases "drop z s = []")
      case False
      then have "hd (drop z s) \<noteq> b58_char 0"
        using hd_drop_leading [of "CHR ''1''" s] b58_char_0 by (simp add: z_def)
      moreover have "b58_valid (hd (drop z s))"
        using v list.set_sel(1) [OF False] set_drop_subset [of z s] by (auto simp: list_all_iff)
      ultimately have "hd (drop z s) \<noteq> b58_char 0" and "b58_valid (hd (drop z s))" by auto
      then have "nat (solana_base58_value (hd (drop z s))) \<noteq> 0"
        using alphabet_of_value by metis
      then show ?thesis using False by (simp add: drop_map hd_map)
    qed (simp add: drop_map)
  qed simp
  ultimately have "base58_text bs = replicate z (CHR ''1'') @ map b58_char (drop z ?vs)"
    by (simp add: base58_text_def lead)
  also have "map b58_char (drop z ?vs) = drop z s"
    using v alphabet_of_value by (simp add: drop_map [symmetric] list_all_iff map_idI)
  also have "replicate z (CHR ''1'') @ drop z s = s"
    unfolding z_def by (rule leading_split [symmetric])
  finally show ?thesis .
qed

text \<open>The length of the text, from the estimate of the scratch buffer.\<close>

lemma length_digits_of_le:
  assumes "1 < b" and "n < b ^ k"
  shows "length (digits_of b n) \<le> k"
proof (cases "digits_of b n = []")
  case False
  then have "b ^ (length (digits_of b n) - 1) \<le> n"
    using be_val_ge [of "digits_of b n" b] digits_of_no_leading_0 [OF assms(1), of n] assms(1) by simp
  then have "b ^ (length (digits_of b n) - 1) < b ^ k" using assms(2) by simp
  then show ?thesis using assms(1) by simp
qed simp

lemma length_base58_text: "length (base58_text data) \<le> length data * 138 div 100 + 1"
proof -
  define z where "z = leading 0 data"
  have z: "z \<le> length data" unfolding z_def by (rule leading_le)
  have "be_val 256 (map unat data) < 256 ^ (length data - z)"
    using be_val_less [OF unat_bytes_less, of "drop z data"] be_val_drop_leading [of 256 data]
    by (simp add: z_def)
  also have "\<dots> < 58 ^ ((length data - z) * 138 div 100 + 1)" by (rule enc.estimate)
  finally have "length (digits_of 58 (be_val 256 (map unat data))) \<le> (length data - z) * 138 div 100 + 1"
    by (intro length_digits_of_le) simp_all
  then have "length (base58_text data) \<le> z + ((length data - z) * 138 div 100 + 1)"
    by (simp add: base58_text_def z_def)
  also have "\<dots> \<le> length data * 138 div 100 + 1" using z by arith
  finally show ?thesis .
qed

lemma base58_text_nonempty: "data \<noteq> [] \<Longrightarrow> base58_text data \<noteq> []"
  using base58_bytes_text [of data] by (auto simp: base58_bytes_alt)

section \<open>Properties\<close>

lemmas base58_eval = base58_text_def digits_of.simps solana_base58_alphabet_def

text \<open>
  C7: decoding the text that \<open>solana_base58_encode\<close> left in its buffer gives back exactly the
  encoded bytes, leading zero bytes included.
\<close>

theorem base58_roundtrip:
  assumes "solana_base58_encode calloc (Some data) (Some out) out_size = (r, Some text_buf)"
    and "0 < r" and "out_size < 2 ^ 31"
    and "length data \<le> m" and "m < 2 ^ 31" and "\<And>n. calloc n"
  shows "solana_base58_decode calloc (Some (c_string text_buf)) (Some dest) m
    = (int (length data), Some (write_at dest 0 data))"
proof -
  from assms(1,2) have "r = int (length (base58_text data))"
    and tb: "text_buf = write_at out 0 (base58_text data @ [NUL])"
    by (auto simp: encode_characterised [OF assms(3)] split: if_splits)
  then have "base58_text data \<noteq> []" using assms(2) by auto
  then have "data \<noteq> []" by (auto simp: base58_text_def)
  moreover have "c_string text_buf = base58_text data"
    unfolding tb by (rule c_string_write_at_0 [OF base58_text_no_NUL])
  ultimately show ?thesis
    using assms(4,6) \<open>base58_text data \<noteq> []\<close>
    by (cases "m = 0") (auto simp: decode_characterised [OF assms(5)] base58_bytes_text)
qed

theorem base58_roundtrip_witness:
  "solana_base58_decode (\<lambda>_. True)
     (Some (c_string (snd (5, write_at (replicate 8 NUL) 0 (base58_text [0, 97, 98] @ [NUL])))))
     (Some [9, 9, 9, 9]) 4 = (3, Some [0, 97, 98, 9])"
proof -
  have "solana_base58_encode (\<lambda>_. True) (Some [0, 97, 98]) (Some (replicate 8 NUL)) 8
      = (4, Some (write_at (replicate 8 NUL) 0 (base58_text [0, 97, 98] @ [NUL])))"
    by (simp add: encode_characterised base58_eval)
  from base58_roundtrip [OF this, of 4 "[9, 9, 9, 9]"] show ?thesis by simp
qed

text \<open>
  Text that \<open>solana_base58_decode\<close> accepts is the only text of the bytes it returns: encoding
  them again gives the input back, so no two strings decode to the same key.
\<close>

theorem base58_decode_canonical:
  assumes "solana_base58_decode calloc (Some s) (Some out) out_size = (r, Some bytes_buf)"
    and "0 < r" and "out_size < 2 ^ 31" and "out_size \<le> length out"
    and "length s < n" and "n < 2 ^ 31" and "\<And>k. calloc k"
  shows "solana_base58_encode calloc (Some (take (nat r) bytes_buf)) (Some dest) n
    = (int (length s), Some (write_at dest 0 (s @ [NUL])))"
proof -
  from assms(1,2) obtain bs where bs: "base58_bytes s = Some bs" "length bs \<le> out_size"
    and r: "r = int (length bs)" and buf: "bytes_buf = write_at out 0 bs"
    by (auto simp: decode_characterised [OF assms(3)] split: option.splits if_splits)
  have "take (nat r) bytes_buf = bs" by (simp add: r buf)
  then show ?thesis
    using assms(5,7) by (simp add: encode_characterised [OF assms(6)] base58_text_bytes [OF bs(1)])
qed

theorem base58_decode_canonical_witness:
  "solana_base58_encode (\<lambda>_. True) (Some (take (nat 2) [0, 1, 9])) (Some [NUL, NUL, NUL]) 3
    = (2, Some (write_at [NUL, NUL, NUL] 0 (''12'' @ [NUL])))"
proof -
  have bytes: "base58_bytes ''12'' = Some [0, 1]"
    by (simp add: base58_bytes_alt solana_base58_value_def digits_of.simps)
  have "solana_base58_decode (\<lambda>_. True) (Some ''12'') (Some [9, 9, 9]) 3 = (2, Some [0, 1, 9])"
    by (simp add: decode_characterised bytes)
  from base58_decode_canonical [OF this, of 3 "[NUL, NUL, NUL]"] show ?thesis by simp
qed

text \<open>
  C10: \<open>solana_base58_encode\<close> returns the length of the reference text and writes that text with its
  terminator, or returns 0 and leaves the buffer as it was; it fails exactly when text and
  terminator do not fit or the scratch buffer cannot be allocated.
\<close>

theorem base58_encode_computes:
  fixes data :: bytes
  assumes "out_size < 2 ^ 31"
  shows "solana_base58_encode calloc (Some data) (Some out) out_size =
    (if length (base58_text data) < out_size
        \<and> (leading 0 data = length data
           \<or> calloc ((length data - leading 0 data) * 138 div 100 + 1))
     then (int (length (base58_text data)), Some (write_at out 0 (base58_text data @ [NUL])))
     else (0, Some out))"
proof -
  have "length data - leading 0 data = 0 \<longleftrightarrow> leading 0 data = length data"
    using leading_le [of 0 data] by auto
  then show ?thesis using encode_characterised [OF assms, of calloc data out] by simp
qed

theorem base58_encode_computes_witness:
  "solana_base58_encode (\<lambda>_. True) (Some [1, 0]) (Some [NUL, NUL]) 2 = (0, Some [NUL, NUL])
   \<and> solana_base58_encode (\<lambda>_. True) (Some [1, 0]) (Some [NUL, NUL, NUL]) 3 = (2, Some (''5R'' @ [NUL]))"
  using base58_encode_computes [of 2 "\<lambda>_. True" "[1, 0]" "[NUL, NUL]"]
    base58_encode_computes [of 3 "\<lambda>_. True" "[1, 0]" "[NUL, NUL, NUL]"] by (simp add: base58_eval)

text \<open>
  C11: \<open>solana_base58_decode\<close> accepts a string exactly when every character is in the alphabet and
  the bytes fit; a rejected string leaves the output untouched and returns 0.
\<close>

theorem base58_decode_computes:
  assumes "out_size < 2 ^ 31" and "\<And>n. calloc n"
  shows "solana_base58_decode calloc (Some s) (Some out) out_size =
    (case base58_bytes s of
       None \<Rightarrow> (0, Some out)
     | Some bs \<Rightarrow> if s \<noteq> [] \<and> 0 < out_size \<and> length bs \<le> out_size
         then (int (length bs), Some (write_at out 0 bs)) else (0, Some out))"
  using decode_characterised [OF assms(1), of calloc s out] assms(2) by (simp split: option.splits)

theorem base58_decode_computes_witness:
  "solana_base58_decode (\<lambda>_. True) (Some ''1O'') (Some [7, 7]) 2 = (0, Some [7, 7])"
proof -
  have "base58_bytes ''1O'' = None" by (simp add: base58_bytes_alt solana_base58_value_def)
  then show ?thesis using base58_decode_computes [of 2 "\<lambda>_. True" "''1O''" "[7, 7]"] by simp
qed

text \<open>
  A 32-byte public key needs at most 45 characters and a 64-byte signature at most 89, so the
  96 and 128 byte buffers of \<open>main.c\<close> always receive them: encoding can only fail by allocation.
\<close>

lemma base58_key_fits:
  assumes "length data = 32 \<and> 96 \<le> out_size \<or> length data = 64 \<and> 128 \<le> out_size"
    and "out_size < 2 ^ 31" and "\<And>n. calloc n"
  shows "\<exists>text. solana_base58_encode calloc (Some data) (Some out) out_size =
      (int (length text), Some (write_at out 0 (text @ [NUL])))
    \<and> 0 < length text \<and> length text \<le> (if length data = 32 then 45 else 89)"
proof -
  have "data \<noteq> []" using assms(1) by auto
  then have "base58_text data \<noteq> []" by (rule base58_text_nonempty)
  moreover have len: "length (base58_text data) \<le> (if length data = 32 then 45 else 89)"
    using length_base58_text [of data] assms(1) by auto
  moreover have "length (base58_text data) < out_size" using len assms(1) by auto
  ultimately show ?thesis
    using assms(3) encode_characterised [OF assms(2), of calloc data out] by auto
qed

text \<open>
  The \<open>int carry\<close> of both digit loops never exceeds \<open>256 * 58\<close>, far below \<open>INT_MAX\<close>, as long
  as the buffer holds digits of its base, which every step preserves.
\<close>

lemma base58_carry_bounded:
  assumes "digits_below 58 eb" and "e < 256" and "digits_below 256 db" and "d < 58"
  shows "carry_peak 256 58 eb (length eb) e < 14848 \<and> digits_below 58 (digit_step 256 58 eb e)
    \<and> carry_peak 58 256 db (length db) d < 14848 \<and> digits_below 256 (digit_step 58 256 db d)"
  using enc.pass_peak [OF assms(1) order_refl assms(2)] dec.pass_peak [OF assms(3) order_refl assms(4)]
    enc.pass_digits [OF assms(1) order_refl] dec.pass_digits [OF assms(3) order_refl]
  by (simp add: digit_step_def)

theorem base58_carry_bounded_witness:
  "carry_peak 256 58 [57, 57] (length [57, 57 :: byte]) 255 < 14848
    \<and> digits_below 58 (digit_step 256 58 [57, 57] 255)
    \<and> carry_peak 58 256 [255] (length [255 :: byte]) 57 < 14848
    \<and> digits_below 256 (digit_step 58 256 [255] 57)"
  by (rule base58_carry_bounded) (simp_all add: digits_below_def)

end
