(* ===== verification/Base64.thy ===== *)
theory Base64
  imports Prelude
begin

text \<open>
  \<open>solana/solana_encoding.c\<close>, base 64: \<open>solana_base64_encode\<close>, which turns the signed transaction
  into the text that is sent, against a reference decoder written from the format alone.
\<close>

section \<open>Encoding\<close>

definition base64_table :: string where
  "base64_table = ''ABCDEFGHIJKLMNOPQRSTUVWXYZabcdefghijklmnopqrstuvwxyz0123456789+/''"

text \<open>One turn of the loop, on the bytes that are left: up to three of them give four characters.\<close>

definition base64_quad :: "bytes \<Rightarrow> string" where
  "base64_quad left =
     (let remaining = length left;
          octet_a = ucast (left ! 0) :: u32;
          octet_b = (if remaining > 1 then ucast (left ! 1) else 0) :: u32;
          octet_c = (if remaining > 2 then ucast (left ! 2) else 0) :: u32;
          triple = push_bit 16 octet_a OR push_bit 8 octet_b OR octet_c
      in [base64_table ! unat (drop_bit 18 triple AND 0x3f),
          base64_table ! unat (drop_bit 12 triple AND 0x3f),
          if remaining > 1 then base64_table ! unat (drop_bit 6 triple AND 0x3f) else CHR ''='',
          if remaining > 2 then base64_table ! unat (triple AND 0x3f) else CHR ''=''])"

function base64_loop :: "bytes \<Rightarrow> string" where
  "base64_loop left = (if left = [] then [] else base64_quad left @ base64_loop (drop 3 left))"
  by pat_completeness auto
termination by (relation "measure length") auto

declare base64_loop.simps [simp del]

definition base64_encoded_len :: "nat \<Rightarrow> nat" where
  "base64_encoded_len data_len = 4 * ((data_len + 2) div 3)"

definition solana_base64_encode :: "bytes option \<Rightarrow> string option \<Rightarrow> nat \<Rightarrow> nat \<times> string option" where
  "solana_base64_encode data_ptr out_ptr out_size =
     (case (data_ptr, out_ptr) of
        (Some data, Some out) \<Rightarrow>
          let encoded_len = base64_encoded_len (length data) in
          if out_size \<ge> encoded_len + 1
          then (encoded_len, Some (write_at (write_at out 0 (base64_loop data)) encoded_len [NUL]))
          else (0, out_ptr)
      | _ \<Rightarrow> (0, out_ptr))"

section \<open>The reference decoder\<close>

text \<open>
  RFC 4648: four characters of the alphabet spell a 24-bit number, that is three bytes; one or two
  \<open>=\<close> at the end drop one or two of them.
\<close>

definition base64_value :: "char \<Rightarrow> nat" where
  "base64_value c = leading True (map (\<lambda>t. t \<noteq> c) base64_table)"

fun base64_decode :: "string \<Rightarrow> bytes option" where
  "base64_decode [] = Some []"
| "base64_decode (p # q # r # s # rest) =
     (let v = ((base64_value p * 64 + base64_value q) * 64
               + (if r = CHR ''='' then 0 else base64_value r)) * 64
              + (if s = CHR ''='' then 0 else base64_value s);
          bytes = map of_nat [v div 65536, v div 256 mod 256, v mod 256]
      in if r = CHR ''='' then (if s = CHR ''='' \<and> rest = [] then Some (take 1 bytes) else None)
         else if s = CHR ''='' then (if rest = [] then Some (take 2 bytes) else None)
         else map_option (\<lambda>bs. bytes @ bs) (base64_decode rest))"
| "base64_decode _ = None"

section \<open>Lemmas\<close>

lemma length_base64_table [simp]: "length base64_table = 64"
  by (simp add: base64_table_def)

lemma distinct_base64_table: "distinct base64_table"
  by (simp add: base64_table_def)

lemma base64_table_chars: "CHR ''='' \<notin> set base64_table" "NUL \<notin> set base64_table"
  by (simp_all add: base64_table_def)

lemma base64_char_neq [simp]:
  "n < 64 \<Longrightarrow> base64_table ! n \<noteq> CHR ''=''" "n < 64 \<Longrightarrow> base64_table ! n \<noteq> NUL"
  using base64_table_chars nth_mem [of n base64_table] by (metis length_base64_table)+

lemma leading_index:
  "distinct xs \<Longrightarrow> n < length xs \<Longrightarrow> leading True (map (\<lambda>t. t \<noteq> xs ! n) xs) = n"
proof (induction xs arbitrary: n)
  case (Cons x xs)
  then show ?case by (cases n) (auto simp: nth_mem)
qed simp

lemma base64_value_table [simp]: "n < 64 \<Longrightarrow> base64_value (base64_table ! n) = n"
  unfolding base64_value_def by (rule leading_index [OF distinct_base64_table]) simp

lemma unat_and_3f: "unat (w AND 0x3f :: u32) = unat w mod 64"
proof -
  have "w AND 0x3f = take_bit 6 w" by (simp add: take_bit_eq_mask mask_eq_exp_minus_1)
  then have "unat (w AND 0x3f) = take_bit 6 (unat w)" by (simp only: unsigned_take_bit_eq)
  then show ?thesis by (simp add: take_bit_eq_mod)
qed

lemma unat_triple:
  fixes a b c :: byte
  shows "unat (push_bit 16 (ucast a) OR push_bit 8 (ucast b) OR ucast c :: u32)
    = unat a * 65536 + unat b * 256 + unat c"
proof -
  let ?a = "ucast a :: u32" and ?b = "ucast b :: u32" and ?c = "ucast c :: u32"
  have less: "unat a < 256" "unat b < 256" "unat c < 256"
    using unsigned_less [of a] unsigned_less [of b] unsigned_less [of c] by simp_all
  have "push_bit 8 ?b OR ?c = push_bit 8 ?b + ?c"
    by (rule disjunctive_add [symmetric]) (auto simp: bit_simps dest: bit_imp_le_length)
  moreover have "push_bit 16 ?a OR (push_bit 8 ?b OR ?c) = push_bit 16 ?a + (push_bit 8 ?b OR ?c)"
    by (rule disjunctive_add [symmetric]) (auto simp: bit_simps dest: bit_imp_le_length)
  ultimately have "push_bit 16 ?a OR push_bit 8 ?b OR ?c = of_nat (unat a * 65536 + unat b * 256 + unat c)"
    by (simp add: push_bit_eq_mult or.assoc algebra_simps)
  moreover have "unat (of_nat (unat a * 65536 + unat b * 256 + unat c) :: u32)
      = unat a * 65536 + unat b * 256 + unat c"
    unfolding unat_of_nat using less by simp
  ultimately show ?thesis by (simp only:)
qed

text \<open>The four characters of one full or partial group.\<close>

lemma div_64_steps:
  "(n::nat) < 16777216 \<Longrightarrow>
   ((n div 262144 mod 64 * 64 + n div 4096 mod 64) * 64 + n div 64 mod 64) * 64 + n mod 64 = n"
proof -
  assume n: "n < 16777216"
  have "n div 262144 < 64" using n by (simp add: div_less_iff_less_mult)
  moreover have "n div 262144 * 64 + n div 4096 mod 64 = n div 4096"
    using div_mult_mod_eq [of "n div 4096" 64] by (simp add: div_mult2_eq [symmetric])
  moreover have "n div 4096 * 64 + n div 64 mod 64 = n div 64"
    using div_mult_mod_eq [of "n div 64" 64] by (simp add: div_mult2_eq [symmetric])
  ultimately show ?thesis using div_mult_mod_eq [of n 64] by simp
qed

lemma bytes_of_24:
  fixes a b c :: byte
  defines "n \<equiv> unat a * 65536 + unat b * 256 + unat c"
  shows "n < 16777216" "n div 65536 = unat a" "n div 256 mod 256 = unat b" "n mod 256 = unat c"
proof -
  have less: "unat a < 256" "unat b < 256" "unat c < 256"
    using unsigned_less [of a] unsigned_less [of b] unsigned_less [of c] by simp_all
  show "n < 16777216" using less by (simp add: n_def)
  show "n div 65536 = unat a"
  proof -
    have "unat b * 256 + unat c < 65536" using less by simp
    then show ?thesis unfolding n_def add.assoc by (simp add: div_mult_self3)
  qed
  have "n div 256 = unat a * 256 + unat b" using less unfolding n_def by simp
  then show "n div 256 mod 256 = unat b" using less by simp
  show "n mod 256 = unat c" using less unfolding n_def by (simp add: mod_add_eq [symmetric] mod_mult_right_eq)
qed

lemma base64_quad_chars:
  fixes a b c :: byte
  assumes "left \<noteq> []" and "a = left ! 0"
    and "b = (if 1 < length left then left ! 1 else 0)"
    and "c = (if 2 < length left then left ! 2 else 0)"
  defines "n \<equiv> unat a * 65536 + unat b * 256 + unat c"
  shows "base64_quad left = [base64_table ! (n div 262144 mod 64), base64_table ! (n div 4096 mod 64),
    if 1 < length left then base64_table ! (n div 64 mod 64) else CHR ''='',
    if 2 < length left then base64_table ! (n mod 64) else CHR ''='']"
proof -
  have "(if length left > 1 then ucast (left ! 1) else 0 :: u32) = ucast b"
    and "(if length left > 2 then ucast (left ! 2) else 0 :: u32) = ucast c"
    unfolding assms by simp_all
  then show ?thesis
    unfolding base64_quad_def Let_def assms(2) [symmetric]
    by (simp only: unat_and_3f unat_drop_bit_eq unat_triple n_def [symmetric])
      (simp add: drop_bit_eq_div)
qed

text \<open>Decoding one group undoes it.\<close>

lemma base64_decode_sextets:
  assumes "p < 64" "q < 64" "r < 64" "s < 64"
  shows "base64_decode (base64_table ! p # base64_table ! q # base64_table ! r # base64_table ! s # rest) =
      map_option ((@) (map of_nat (let v = ((p * 64 + q) * 64 + r) * 64 + s
        in [v div 65536, v div 256 mod 256, v mod 256]))) (base64_decode rest)"
    and "base64_decode [base64_table ! p, base64_table ! q, base64_table ! r, CHR ''=''] =
      Some (map of_nat (let v = ((p * 64 + q) * 64 + r) * 64 in [v div 65536, v div 256 mod 256]))"
    and "base64_decode [base64_table ! p, base64_table ! q, CHR ''='', CHR ''=''] =
      Some (map of_nat (let v = ((p * 64 + q) * 64) * 64 in [v div 65536]))"
  unfolding base64_decode.simps Let_def using assms by simp_all

lemmas base64_sextets_of = base64_decode_sextets
  [OF mod_less_divisor mod_less_divisor mod_less_divisor mod_less_divisor,
   OF zero_less_numeral zero_less_numeral zero_less_numeral zero_less_numeral]

lemma base64_decode_full:
  "base64_decode (base64_quad [a, b, c] @ rest) = map_option ((@) [a, b, c]) (base64_decode rest)"
proof -
  define n where "n = unat a * 65536 + unat b * 256 + unat c"
  note facts = bytes_of_24 [of a b c, folded n_def]
  have quad: "base64_quad [a, b, c] @ rest = base64_table ! (n div 262144 mod 64)
      # base64_table ! (n div 4096 mod 64) # base64_table ! (n div 64 mod 64) # base64_table ! (n mod 64) # rest"
    using base64_quad_chars [of "[a, b, c]" a b c] by (simp add: n_def)
  show ?thesis
    unfolding quad base64_sextets_of(1) div_64_steps [OF facts(1)] Let_def facts(2-4) by simp
qed

lemma base64_decode_two: "base64_decode (base64_quad [a, b]) = Some [a, b]"
proof -
  define n where "n = unat a * 65536 + unat b * 256 + unat (0 :: byte)"
  note facts = bytes_of_24 [of a b 0, folded n_def]
  have low: "n mod 64 = 0" unfolding n_def by (simp add: mod_add_eq [symmetric] mod_mult_right_eq)
  note v = div_64_steps [OF facts(1), unfolded low add_0_right]
  have quad: "base64_quad [a, b] = [base64_table ! (n div 262144 mod 64),
      base64_table ! (n div 4096 mod 64), base64_table ! (n div 64 mod 64), CHR ''='']"
    using base64_quad_chars [of "[a, b]" a b 0] by (simp add: n_def)
  show ?thesis unfolding quad base64_sextets_of(2) v Let_def facts(2-4) by simp
qed

lemma base64_decode_one: "base64_decode (base64_quad [a]) = Some [a]"
proof -
  define n where "n = unat a * 65536 + unat (0 :: byte) * 256 + unat (0 :: byte)"
  note facts = bytes_of_24 [of a 0 0, folded n_def]
  have low: "n mod 64 = 0" "n div 64 mod 64 = 0" unfolding n_def by simp_all
  note v = div_64_steps [OF facts(1), unfolded low add_0_right]
  have quad: "base64_quad [a] = [base64_table ! (n div 262144 mod 64),
      base64_table ! (n div 4096 mod 64), CHR ''='', CHR ''='']"
    using base64_quad_chars [of "[a]" a 0 0] by (simp add: n_def)
  show ?thesis unfolding quad base64_sextets_of(3) v Let_def facts(2-4) by simp
qed

lemma base64_loop_Cons3: "base64_loop (a # b # c # rest) = base64_quad [a, b, c] @ base64_loop rest"
  by (simp add: base64_loop.simps [of "a # b # c # rest"] base64_quad_def)

lemma base64_decode_loop: "base64_decode (base64_loop data) = Some data"
proof (induction data rule: base64_loop.induct)
  case (1 data)
  consider "data = []" | a where "data = [a]" | a b where "data = [a, b]"
    | a b c rest where "data = a # b # c # rest"
    by (metis neq_Nil_conv)
  then show ?case
  proof cases
    case 4
    then show ?thesis using 1 by (simp add: base64_loop_Cons3 base64_decode_full del: base64_decode.simps)
  qed (simp_all add: base64_loop.simps base64_decode_one base64_decode_two del: base64_decode.simps(2))
qed

lemma length_base64_quad [simp]: "length (base64_quad left) = 4"
  by (simp add: base64_quad_def Let_def)

lemma length_base64_loop: "length (base64_loop data) = base64_encoded_len (length data)"
proof (induction data rule: base64_loop.induct)
  case (1 data)
  show ?case
  proof (cases "data = []")
    case False
    then have "(length data + 2) div 3 = Suc ((length data - 3 + 2) div 3)"
    proof (cases "length data < 3")
      case True
      moreover have "length data \<noteq> 0" using False by simp
      ultimately have "length data = 1 \<or> length data = 2" by arith
      then show ?thesis by auto
    qed (simp add: le_div_geq)
    with 1 False show ?thesis by (simp add: base64_loop.simps [of data] base64_encoded_len_def)
  qed (simp add: base64_loop.simps base64_encoded_len_def)
qed

lemma base64_quad_no_NUL: "left \<noteq> [] \<Longrightarrow> NUL \<notin> set (base64_quad left)"
  by (auto simp: base64_quad_chars [OF _ refl refl refl] dest: sym [of NUL])

lemma base64_loop_no_NUL: "NUL \<notin> set (base64_loop data)"
  by (induction data rule: base64_loop.induct)
    (subst base64_loop.simps, auto dest: base64_quad_no_NUL)

lemma base64_encode_buffer:
  assumes "base64_encoded_len (length data) < out_size"
  shows "solana_base64_encode (Some data) (Some out) out_size =
    (base64_encoded_len (length data), Some (write_at out 0 (base64_loop data @ [NUL])))"
  using assms by (simp add: solana_base64_encode_def Let_def write_at_def length_base64_loop [symmetric])

lemma base64_encode_decodes:
  assumes "base64_encoded_len (length data) < out_size"
    and "solana_base64_encode (Some data) (Some out) out_size = (r, Some buf)"
  shows "base64_decode (c_string buf) = Some data" and "r = length (c_string buf)"
  using assms base64_encode_buffer [OF assms(1), of out]
  by (auto simp: c_string_terminated base64_loop_no_NUL base64_decode_loop length_base64_loop)

section \<open>Properties\<close>

text \<open>
  \<open>solana_base64_encode\<close> writes standard base 64: a decoder written from the format reads the
  buffer back to the encoded bytes, the returned length is that of the text, and nothing past the
  terminator changes; when the text and its terminator do not fit it returns 0 and writes nothing.
\<close>

theorem base64_encode_correct:
  fixes data :: bytes
  assumes "out_size \<le> length out"
  shows "(\<exists>buf. solana_base64_encode (Some data) (Some out) out_size = (length (c_string buf), Some buf)
      \<and> base64_decode (c_string buf) = Some data \<and> length buf = length out
      \<and> length (c_string buf) = 4 * ((length data + 2) div 3)
      \<and> drop (length (c_string buf) + 1) buf = drop (length (c_string buf) + 1) out)
    \<or> (out_size \<le> 4 * ((length data + 2) div 3)
      \<and> solana_base64_encode (Some data) (Some out) out_size = (0, Some out))"
proof (cases "base64_encoded_len (length data) < out_size")
  case True
  note run = base64_encode_buffer [OF True, of out]
  note decoded = base64_encode_decodes [OF True run]
  have "length (base64_loop data @ [NUL]) \<le> length out"
    using True assms by (simp add: length_base64_loop)
  then show ?thesis using run decoded length_base64_loop [of data]
    by (intro disjI1 exI [of _ "write_at out 0 (base64_loop data @ [NUL])"])
      (simp add: base64_encoded_len_def)
qed (simp add: solana_base64_encode_def base64_encoded_len_def Let_def not_less)

theorem base64_encode_correct_witness:
  "(\<exists>buf. solana_base64_encode (Some [77, 97]) (Some (replicate 8 NUL)) 8 = (length (c_string buf), Some buf)
      \<and> base64_decode (c_string buf) = Some [77, 97] \<and> length buf = length (replicate 8 NUL)
      \<and> length (c_string buf) = 4 * ((length [77, 97 :: byte] + 2) div 3)
      \<and> drop (length (c_string buf) + 1) buf = drop (length (c_string buf) + 1) (replicate 8 NUL))
    \<or> (8 \<le> 4 * ((length [77, 97 :: byte] + 2) div 3)
      \<and> solana_base64_encode (Some [77, 97]) (Some (replicate 8 NUL)) 8 = (0, Some (replicate 8 NUL)))"
  by (rule base64_encode_correct) simp

end
