(* ===== verification/Sha512.thy ===== *)
theory Sha512
  imports Prelude
begin

text \<open>
  \<open>keypair/sha512.c\<close>: the compression function with its rotated register arguments, the streaming
  context (\<open>sha512_init\<close>, \<open>sha512_update\<close>, \<open>sha512_final\<close>), and the one-shot \<open>sha512\<close>.  The reference is
  the hash of FIPS 180-4 (a shifting register file, a padded message, one fold over its blocks).
  \<open>ctx_absorbed\<close> relates a context to the bytes it has taken in.
\<close>

section \<open>Constants and bit functions\<close>

abbreviation (input) UINT64_C :: "u64 \<Rightarrow> u64" where
  "UINT64_C c \<equiv> c"

definition sha512_K :: "u64 list" where
  "sha512_K =
    [UINT64_C 0x428a2f98d728ae22, UINT64_C 0x7137449123ef65cd, UINT64_C 0xb5c0fbcfec4d3b2f,
     UINT64_C 0xe9b5dba58189dbbc, UINT64_C 0x3956c25bf348b538, UINT64_C 0x59f111f1b605d019,
     UINT64_C 0x923f82a4af194f9b, UINT64_C 0xab1c5ed5da6d8118, UINT64_C 0xd807aa98a3030242,
     UINT64_C 0x12835b0145706fbe, UINT64_C 0x243185be4ee4b28c, UINT64_C 0x550c7dc3d5ffb4e2,
     UINT64_C 0x72be5d74f27b896f, UINT64_C 0x80deb1fe3b1696b1, UINT64_C 0x9bdc06a725c71235,
     UINT64_C 0xc19bf174cf692694, UINT64_C 0xe49b69c19ef14ad2, UINT64_C 0xefbe4786384f25e3,
     UINT64_C 0x0fc19dc68b8cd5b5, UINT64_C 0x240ca1cc77ac9c65, UINT64_C 0x2de92c6f592b0275,
     UINT64_C 0x4a7484aa6ea6e483, UINT64_C 0x5cb0a9dcbd41fbd4, UINT64_C 0x76f988da831153b5,
     UINT64_C 0x983e5152ee66dfab, UINT64_C 0xa831c66d2db43210, UINT64_C 0xb00327c898fb213f,
     UINT64_C 0xbf597fc7beef0ee4, UINT64_C 0xc6e00bf33da88fc2, UINT64_C 0xd5a79147930aa725,
     UINT64_C 0x06ca6351e003826f, UINT64_C 0x142929670a0e6e70, UINT64_C 0x27b70a8546d22ffc,
     UINT64_C 0x2e1b21385c26c926, UINT64_C 0x4d2c6dfc5ac42aed, UINT64_C 0x53380d139d95b3df,
     UINT64_C 0x650a73548baf63de, UINT64_C 0x766a0abb3c77b2a8, UINT64_C 0x81c2c92e47edaee6,
     UINT64_C 0x92722c851482353b, UINT64_C 0xa2bfe8a14cf10364, UINT64_C 0xa81a664bbc423001,
     UINT64_C 0xc24b8b70d0f89791, UINT64_C 0xc76c51a30654be30, UINT64_C 0xd192e819d6ef5218,
     UINT64_C 0xd69906245565a910, UINT64_C 0xf40e35855771202a, UINT64_C 0x106aa07032bbd1b8,
     UINT64_C 0x19a4c116b8d2d0c8, UINT64_C 0x1e376c085141ab53, UINT64_C 0x2748774cdf8eeb99,
     UINT64_C 0x34b0bcb5e19b48a8, UINT64_C 0x391c0cb3c5c95a63, UINT64_C 0x4ed8aa4ae3418acb,
     UINT64_C 0x5b9cca4f7763e373, UINT64_C 0x682e6ff3d6b2b8a3, UINT64_C 0x748f82ee5defb2fc,
     UINT64_C 0x78a5636f43172f60, UINT64_C 0x84c87814a1f0ab72, UINT64_C 0x8cc702081a6439ec,
     UINT64_C 0x90befffa23631e28, UINT64_C 0xa4506cebde82bde9, UINT64_C 0xbef9a3f7b2c67915,
     UINT64_C 0xc67178f2e372532b, UINT64_C 0xca273eceea26619c, UINT64_C 0xd186b8c721c0c207,
     UINT64_C 0xeada7dd6cde0eb1e, UINT64_C 0xf57d4f7fee6ed178, UINT64_C 0x06f067aa72176fba,
     UINT64_C 0x0a637dc5a2c898a6, UINT64_C 0x113f9804bef90dae, UINT64_C 0x1b710b35131c471b,
     UINT64_C 0x28db77f523047d84, UINT64_C 0x32caab7b40c72493, UINT64_C 0x3c9ebe0a15c9bebc,
     UINT64_C 0x431d67c49c100d4c, UINT64_C 0x4cc5d4becb3e42b6, UINT64_C 0x597f299cfc657e2a,
     UINT64_C 0x5fcb6fab3ad6faec, UINT64_C 0x6c44198c4a475817]"

definition ROR64c :: "u64 \<Rightarrow> nat \<Rightarrow> u64" where
  "ROR64c x y = (drop_bit (y mod 64) x OR push_bit (64 - y mod 64) x)"

definition Ch :: "u64 \<Rightarrow> u64 \<Rightarrow> u64 \<Rightarrow> u64" where
  "Ch x y z = z XOR (x AND (y XOR z))"

definition Maj :: "u64 \<Rightarrow> u64 \<Rightarrow> u64 \<Rightarrow> u64" where
  "Maj x y z = ((x OR y) AND z) OR (x AND y)"

definition Sigma0 :: "u64 \<Rightarrow> u64" where
  "Sigma0 x = ROR64c x 28 XOR ROR64c x 34 XOR ROR64c x 39"

definition Sigma1 :: "u64 \<Rightarrow> u64" where
  "Sigma1 x = ROR64c x 14 XOR ROR64c x 18 XOR ROR64c x 41"

definition Gamma0 :: "u64 \<Rightarrow> u64" where
  "Gamma0 x = ROR64c x 1 XOR ROR64c x 8 XOR drop_bit 7 x"

definition Gamma1 :: "u64 \<Rightarrow> u64" where
  "Gamma1 x = ROR64c x 19 XOR ROR64c x 61 XOR drop_bit 6 x"

definition STORE64H :: "u64 \<Rightarrow> bytes" where
  "STORE64H x = map (\<lambda>k. ucast (drop_bit k x AND 255)) [56, 48, 40, 32, 24, 16, 8, 0]"

definition LOAD64H :: "bytes \<Rightarrow> u64" where
  "LOAD64H y = push_bit 56 (ucast (y ! 0)) OR push_bit 48 (ucast (y ! 1))
     OR push_bit 40 (ucast (y ! 2)) OR push_bit 32 (ucast (y ! 3))
     OR push_bit 24 (ucast (y ! 4)) OR push_bit 16 (ucast (y ! 5))
     OR push_bit 8 (ucast (y ! 6)) OR ucast (y ! 7)"

section \<open>Compression\<close>

record sha512_context =
  md_length :: u64
  md_state :: "u64 list"
  md_curlen :: nat
  md_buf :: bytes

text \<open>\<open>W[0..15]\<close> are loaded from the block, \<open>W[16..79]\<close> computed from their predecessors.\<close>

definition schedule_step :: "u64 list \<Rightarrow> nat \<Rightarrow> u64 list" where
  "schedule_step W i =
     W @ [Gamma1 (W ! (i - 2)) + W ! (i - 7) + Gamma0 (W ! (i - 15)) + W ! (i - 16)]"

definition sha512_schedule :: "bytes \<Rightarrow> u64 list" where
  "sha512_schedule block =
     foldl schedule_step (map (\<lambda>i. LOAD64H (drop (8 * i) block)) [0..<16]) [16..<80]"

text \<open>The macro \<open>RND\<close>; its arguments \<open>a .. h\<close> are the indices of the elements of \<open>S\<close> it is given.\<close>

definition sha512_rnd ::
    "u64 list \<Rightarrow> nat \<Rightarrow> nat \<Rightarrow> nat \<Rightarrow> nat \<Rightarrow> nat \<Rightarrow> nat \<Rightarrow> nat \<Rightarrow> nat \<Rightarrow> nat \<Rightarrow> u64 list \<Rightarrow> u64 list" where
  "sha512_rnd W i a b c d e f g h S =
     (let t0 = S ! h + Sigma1 (S ! e) + Ch (S ! e) (S ! f) (S ! g) + sha512_K ! i + W ! i;
          t1 = Sigma0 (S ! a) + Maj (S ! a) (S ! b) (S ! c);
          S = S[d := S ! d + t0]
      in S[h := t0 + t1])"

definition sha512_eight_rounds :: "u64 list \<Rightarrow> u64 list \<Rightarrow> nat \<Rightarrow> u64 list" where
  "sha512_eight_rounds W S i =
     (let S = sha512_rnd W (i + 0) 0 1 2 3 4 5 6 7 S;
          S = sha512_rnd W (i + 1) 7 0 1 2 3 4 5 6 S;
          S = sha512_rnd W (i + 2) 6 7 0 1 2 3 4 5 S;
          S = sha512_rnd W (i + 3) 5 6 7 0 1 2 3 4 S;
          S = sha512_rnd W (i + 4) 4 5 6 7 0 1 2 3 S;
          S = sha512_rnd W (i + 5) 3 4 5 6 7 0 1 2 S;
          S = sha512_rnd W (i + 6) 2 3 4 5 6 7 0 1 S;
          S = sha512_rnd W (i + 7) 1 2 3 4 5 6 7 0 S
      in S)"

definition sha512_compress :: "sha512_context \<Rightarrow> bytes \<Rightarrow> sha512_context" where
  "sha512_compress md block =
     (let W = sha512_schedule block;
          S = foldl (sha512_eight_rounds W) (md_state md) [0, 8, 16, 24, 32, 40, 48, 56, 64, 72]
      in md\<lparr>md_state := map2 (+) (md_state md) S\<rparr>)"

section \<open>The streaming context\<close>

definition sha512_init :: "sha512_context \<Rightarrow> sha512_context" where
  "sha512_init md = md\<lparr>md_curlen := 0, md_length := 0, md_state :=
     [0x6a09e667f3bcc908, 0xbb67ae8584caa73b, 0x3c6ef372fe94f82b, 0xa54ff53a5f1d36f1,
      0x510e527fade682d1, 0x9b05688c2b3e6c1f, 0x1f83d9abfb41bd6b, 0x5be0cd19137e2179]\<rparr>"

text \<open>
  The \<open>while (inlen > 0)\<close> loop.  A context with \<open>curlen > 128\<close> never enters it (the guard of
  \<open>sha512_update\<close>), so that case of the recursion stops at once.
\<close>

function update_loop :: "sha512_context \<Rightarrow> bytes \<Rightarrow> sha512_context" where
  "update_loop md inp =
     (if inp = [] \<or> md_curlen md > 128 then md
      else if md_curlen md = 0 \<and> length inp \<ge> 128 then
        let md = sha512_compress md (take 128 inp) in
        update_loop (md\<lparr>md_length := md_length md + 128 * 8\<rparr>) (drop 128 inp)
      else
        let n = min (length inp) (128 - md_curlen md);
            md = md\<lparr>md_buf := write_at (md_buf md) (md_curlen md) (take n inp),
                    md_curlen := md_curlen md + n\<rparr>;
            md = (if md_curlen md = 128 then
                    (let md = sha512_compress md (md_buf md) in
                     md\<lparr>md_length := md_length md + 8 * 128, md_curlen := 0\<rparr>)
                  else md)
        in update_loop md (drop n inp))"
  by pat_completeness auto
termination
  by (relation "measure (\<lambda>(md, inp). 2 * length inp + (if md_curlen md = 128 then 1 else 0))")
    (auto simp: Let_def sha512_compress_def split: if_splits)

declare update_loop.simps [simp del]

definition sha512_update :: "sha512_context \<Rightarrow> bytes option \<Rightarrow> int \<times> sha512_context" where
  "sha512_update md in_ptr =
     (case in_ptr of
        None \<Rightarrow> (1, md)
      | Some inp \<Rightarrow>
          if md_curlen md > length (md_buf md) then (1, md) else (0, update_loop md inp))"

text \<open>\<open>while (md->curlen < n) md->buf[md->curlen++] = 0\<close>.\<close>

definition zero_fill :: "nat \<Rightarrow> sha512_context \<Rightarrow> sha512_context" where
  "zero_fill n md =
     (if md_curlen md < n
      then md\<lparr>md_buf := write_at (md_buf md) (md_curlen md) (replicate (n - md_curlen md) 0), md_curlen := n\<rparr>
      else md)"

definition sha512_final :: "sha512_context \<Rightarrow> bytes option \<Rightarrow> int \<times> sha512_context \<times> bytes option" where
  "sha512_final md out_ptr =
     (case out_ptr of
        None \<Rightarrow> (1, md, None)
      | Some out \<Rightarrow>
          if md_curlen md \<ge> length (md_buf md) then (1, md, out_ptr)
          else
            let md = md\<lparr>md_length := md_length md + of_nat (md_curlen md) * 8\<rparr>;
                md = md\<lparr>md_buf := (md_buf md)[md_curlen md := 0x80], md_curlen := md_curlen md + 1\<rparr>;
                md = (if md_curlen md > 112
                      then (let md = zero_fill 128 md; md = sha512_compress md (md_buf md)
                            in md\<lparr>md_curlen := 0\<rparr>)
                      else md);
                md = zero_fill 120 md;
                md = md\<lparr>md_buf := write_at (md_buf md) 120 (STORE64H (md_length md))\<rparr>;
                md = sha512_compress md (md_buf md)
            in (0, md, Some (write_at out 0 (concat (map STORE64H (md_state md))))))"

definition sha512 :: "sha512_context \<Rightarrow> bytes option \<Rightarrow> bytes option \<Rightarrow> int \<times> bytes option" where
  "sha512 ctx message_ptr out_ptr =
     (let ctx = sha512_init ctx in
      case sha512_update ctx message_ptr of
        (ret, ctx) \<Rightarrow>
          if ret \<noteq> 0 then (ret, out_ptr)
          else (case sha512_final ctx out_ptr of
                  (ret, ctx, out) \<Rightarrow> if ret \<noteq> 0 then (ret, out) else (0, out)))"

section \<open>The reference hash of FIPS 180-4\<close>

definition fips_ch :: "u64 \<Rightarrow> u64 \<Rightarrow> u64 \<Rightarrow> u64" where
  "fips_ch x y z = (x AND y) XOR (NOT x AND z)"

definition fips_maj :: "u64 \<Rightarrow> u64 \<Rightarrow> u64 \<Rightarrow> u64" where
  "fips_maj x y z = (x AND y) XOR (x AND z) XOR (y AND z)"

definition fips_SIGMA0 :: "u64 \<Rightarrow> u64" where
  "fips_SIGMA0 x = word_rotr 28 x XOR word_rotr 34 x XOR word_rotr 39 x"

definition fips_SIGMA1 :: "u64 \<Rightarrow> u64" where
  "fips_SIGMA1 x = word_rotr 14 x XOR word_rotr 18 x XOR word_rotr 41 x"

definition fips_sigma0 :: "u64 \<Rightarrow> u64" where
  "fips_sigma0 x = word_rotr 1 x XOR word_rotr 8 x XOR drop_bit 7 x"

definition fips_sigma1 :: "u64 \<Rightarrow> u64" where
  "fips_sigma1 x = word_rotr 19 x XOR word_rotr 61 x XOR drop_bit 6 x"

fun fips_word :: "bytes \<Rightarrow> nat \<Rightarrow> u64" where
  "fips_word block t =
     (if t < 16 then of_nat (be_val 256 (map unat (take 8 (drop (8 * t) block))))
      else fips_sigma1 (fips_word block (t - 2)) + fips_word block (t - 7)
           + fips_sigma0 (fips_word block (t - 15)) + fips_word block (t - 16))"

declare fips_word.simps [simp del]

fun fips_round :: "bytes \<Rightarrow> u64 list \<Rightarrow> nat \<Rightarrow> u64 list" where
  "fips_round block [a, b, c, d, e, f, g, h] t =
     (let T1 = h + fips_SIGMA1 e + fips_ch e f g + sha512_K ! t + fips_word block t;
          T2 = fips_SIGMA0 a + fips_maj a b c
      in [T1 + T2, a, b, c, d + T1, e, f, g])"
| "fips_round block regs t = regs"

definition fips_compress :: "u64 list \<Rightarrow> bytes \<Rightarrow> u64 list" where
  "fips_compress H block = map2 (+) H (foldl (fips_round block) H [0..<80])"

definition fips_IV :: "u64 list" where
  "fips_IV =
     [0x6a09e667f3bcc908, 0xbb67ae8584caa73b, 0x3c6ef372fe94f82b, 0xa54ff53a5f1d36f1,
      0x510e527fade682d1, 0x9b05688c2b3e6c1f, 0x1f83d9abfb41bd6b, 0x5be0cd19137e2179]"

function blocks :: "bytes \<Rightarrow> bytes list" where
  "blocks m = (if m = [] then [] else take 128 m # blocks (drop 128 m))"
  by pat_completeness auto
termination by (relation "measure length") auto

declare blocks.simps [simp del]

definition be_bytes :: "nat \<Rightarrow> nat \<Rightarrow> bytes" where
  "be_bytes n v = map (\<lambda>i. of_nat (v div 256 ^ i)) (rev [0..<n])"

definition fips_pad :: "bytes \<Rightarrow> bytes" where
  "fips_pad m = m @ 0x80 # replicate ((239 - length m mod 128) mod 128) 0 @ be_bytes 16 (8 * length m)"

definition fips_sha512 :: "bytes \<Rightarrow> bytes" where
  "fips_sha512 m =
     concat (map (\<lambda>w. be_bytes 8 (unat w)) (foldl fips_compress fips_IV (blocks (fips_pad m))))"

section \<open>The compression function is the reference one\<close>

lemma word_rotr_ROR64c: "0 < n \<Longrightarrow> n < 64 \<Longrightarrow> ROR64c x n = word_rotr n x"
proof (rule bit_word_eqI)
  fix i assume n: "0 < n" "n < 64" and "i < LENGTH(64)"
  then have i: "i < 64" by simp
  show "bit (ROR64c x n) i = bit (word_rotr n x) i"
  proof (cases "i < 64 - n")
    case True
    then have "(i + n) mod 64 = n + i" by simp
    then show ?thesis using n i True by (simp add: ROR64c_def bit_simps add.commute)
  next
    case False
    then have "(i + n) mod 64 = i - (64 - n)" using n i by (simp add: mod_if)
    moreover have "\<not> bit x (n + i)" using False by (auto dest: bit_imp_le_length)
    ultimately show ?thesis using n i False by (simp add: ROR64c_def bit_simps)
  qed
qed

lemma Ch_fips: "Ch x y z = fips_ch x y z"
  unfolding Ch_def fips_ch_def by (rule bit_eqI) (auto simp: bit_simps)

lemma Maj_fips: "Maj x y z = fips_maj x y z"
  unfolding Maj_def fips_maj_def by (rule bit_eqI) (auto simp: bit_simps)

lemma Sigma_fips:
  "Sigma0 x = fips_SIGMA0 x" "Sigma1 x = fips_SIGMA1 x"
  "Gamma0 x = fips_sigma0 x" "Gamma1 x = fips_sigma1 x"
  by (simp_all add: Sigma0_def Sigma1_def Gamma0_def Gamma1_def fips_SIGMA0_def fips_SIGMA1_def
      fips_sigma0_def fips_sigma1_def word_rotr_ROR64c)

text \<open>
  After \<open>k\<close> of the eight rounds, register \<open>a\<close> of the reference is element \<open>8 - k\<close> of \<open>S\<close>, and so
  on cyclically: the code renames registers where the reference shifts them.
\<close>

definition regs_view :: "nat \<Rightarrow> u64 list \<Rightarrow> u64 list" where
  "regs_view k S = map (\<lambda>j. S ! ((j + (8 - k)) mod 8)) [0, 1, 2, 3, 4, 5, 6, 7]"

lemma length_8_cases:
  "length S = 8 \<Longrightarrow> \<exists>a b c d e f g h. S = [a, b, c, d, e, f, g, h]"
  by (auto simp: numeral_eq_Suc length_Suc_conv)

lemma length_sha512_rnd [simp]: "length (sha512_rnd W t a b c d e f g h S) = length S"
  by (simp add: sha512_rnd_def Let_def)

lemma rnd_view:
  assumes "length S = 8" and "W ! t = fips_word block t"
  shows "regs_view 1 (sha512_rnd W t 0 1 2 3 4 5 6 7 S) = fips_round block (regs_view 0 S) t"
    and "regs_view 2 (sha512_rnd W t 7 0 1 2 3 4 5 6 S) = fips_round block (regs_view 1 S) t"
    and "regs_view 3 (sha512_rnd W t 6 7 0 1 2 3 4 5 S) = fips_round block (regs_view 2 S) t"
    and "regs_view 4 (sha512_rnd W t 5 6 7 0 1 2 3 4 S) = fips_round block (regs_view 3 S) t"
    and "regs_view 5 (sha512_rnd W t 4 5 6 7 0 1 2 3 S) = fips_round block (regs_view 4 S) t"
    and "regs_view 6 (sha512_rnd W t 3 4 5 6 7 0 1 2 S) = fips_round block (regs_view 5 S) t"
    and "regs_view 7 (sha512_rnd W t 2 3 4 5 6 7 0 1 S) = fips_round block (regs_view 6 S) t"
    and "regs_view 8 (sha512_rnd W t 1 2 3 4 5 6 7 0 S) = fips_round block (regs_view 7 S) t"
  using length_8_cases [OF assms(1)]
  by (auto simp: regs_view_def sha512_rnd_def Let_def assms(2) Sigma_fips Ch_fips Maj_fips)

lemma regs_view_ends: "length S = 8 \<Longrightarrow> regs_view 0 S = S" "length S = 8 \<Longrightarrow> regs_view 8 S = S"
  using length_8_cases by (fastforce simp: regs_view_def)+

lemma eight_rounds_fips:
  assumes "length S = 8" and "\<And>j. j < 8 \<Longrightarrow> W ! (i + j) = fips_word block (i + j)"
  shows "sha512_eight_rounds W S i = foldl (fips_round block) S [i ..< i + 8]"
    and "length (sha512_eight_rounds W S i) = 8"
proof -
  have upt: "[i ..< i + 8] = [i + 0, i + 1, i + 2, i + 3, i + 4, i + 5, i + 6, i + 7]"
    by (simp add: upt_rec numeral_eq_Suc)
  have w: "W ! (i + 0) = fips_word block (i + 0)" "W ! (i + 1) = fips_word block (i + 1)"
     "W ! (i + 2) = fips_word block (i + 2)" "W ! (i + 3) = fips_word block (i + 3)"
     "W ! (i + 4) = fips_word block (i + 4)" "W ! (i + 5) = fips_word block (i + 5)"
     "W ! (i + 6) = fips_word block (i + 6)" "W ! (i + 7) = fips_word block (i + 7)"
    by (rule assms(2), simp)+
  show len: "length (sha512_eight_rounds W S i) = 8"
    using assms(1) by (simp add: sha512_eight_rounds_def)
  have "sha512_eight_rounds W S i = regs_view 8 (sha512_eight_rounds W S i)"
    using regs_view_ends(2) [OF len] by simp
  also have "\<dots> = foldl (fips_round block) (regs_view 0 S) [i ..< i + 8]"
    unfolding upt foldl_Cons foldl_Nil sha512_eight_rounds_def Let_def
    by (simp only: rnd_view assms(1) w length_sha512_rnd)
  finally show "sha512_eight_rounds W S i = foldl (fips_round block) S [i ..< i + 8]"
    by (simp add: regs_view_ends(1) [OF assms(1)])
qed

text \<open>The message schedule.\<close>

lemma bit_ucast_byte: "bit (ucast (b :: byte) :: u64) n \<longleftrightarrow> bit b n"
  by (auto simp: bit_simps dest: bit_imp_le_length)

lemma foldl_bytes_value:
  "foldl (\<lambda>acc b. push_bit 8 acc OR ucast b) (w :: u64) bs =
   w * 256 ^ length bs + of_nat (be_val 256 (map unat (bs :: bytes)))"
proof (induction bs arbitrary: w)
  case (Cons b bs)
  have "push_bit 8 w OR ucast b = push_bit 8 w + ucast b"
    by (rule disjunctive_add [symmetric]) (auto simp: bit_simps dest: bit_imp_le_length)
  then show ?case using Cons by (simp add: push_bit_eq_mult algebra_simps)
qed simp

lemma LOAD64H_value:
  assumes "length y = 8"
  shows "LOAD64H y = of_nat (be_val 256 (map unat y))"
proof -
  obtain a b c d e f g h where y: "y = [a, b, c, d, e, f, g, h]"
    using assms by (auto simp: numeral_eq_Suc length_Suc_conv)
  have "LOAD64H y = foldl (\<lambda>acc b. push_bit 8 acc OR ucast b) 0 y"
    unfolding LOAD64H_def y by (simp add: push_bit_or push_bit_push_bit or.assoc)
  then show ?thesis by (simp only: foldl_bytes_value) simp
qed

text \<open>Storing is writing the big-endian digits, and loading undoes it.\<close>

lemma STORE64H_be_bytes: "STORE64H x = be_bytes 8 (unat x)"
proof -
  have "ucast (drop_bit k x AND 255) = (of_nat (unat x div 2 ^ k) :: byte)" for k
  proof -
    have "(of_nat (unat x div 2 ^ k) :: byte) = ucast (drop_bit k x)"
      by (metis drop_bit_eq_div of_nat_unat unat_drop_bit_eq unsigned_ucast_eq ucast_id of_nat_unat)
    moreover have m: "(255 :: u64) = mask 8" by (simp add: mask_eq_exp_minus_1)
    have "ucast (drop_bit k x AND 255) = (ucast (drop_bit k x) :: byte)"
      unfolding m by (rule bit_word_eqI) (auto simp: bit_simps)
    ultimately show ?thesis by simp
  qed
  note digit = this
  have "rev [0..<8] = [7, 6, 5, 4, 3, 2, 1, 0 :: nat]" by (simp add: upt_conv_Cons)
  then show ?thesis
    unfolding STORE64H_def be_bytes_def by (simp only: list.map digit) simp
qed

lemma schedule_prefix:
  assumes "128 \<le> length block" and "16 \<le> n" and "n \<le> 80"
  shows "foldl schedule_step (map (\<lambda>i. LOAD64H (drop (8 * i) block)) [0..<16]) [16..<n]
    = map (fips_word block) [0..<n]"
  using assms(2,3)
proof (induction n rule: nat_induct_at_least)
  case base
  have "LOAD64H (drop (8 * i) block) = fips_word block i" if "i < 16" for i
  proof -
    have "length (take 8 (drop (8 * i) block)) = 8" using that assms(1) by simp
    from LOAD64H_value [OF this] show ?thesis
      using that by (simp add: fips_word.simps [of block i] LOAD64H_def)
  qed
  then show ?case by simp
next
  case (Suc n)
  then have IH: "foldl schedule_step (map (\<lambda>i. LOAD64H (drop (8 * i) block)) [0..<16]) [16..<n]
    = map (fips_word block) [0..<n]" by simp
  have upt: "[16..<Suc n] = [16..<n] @ [n]" using Suc by simp
  show ?case
    unfolding upt foldl_append foldl_Cons foldl_Nil IH
    using Suc(1) by (simp add: schedule_step_def Sigma_fips fips_word.simps [of block n])
qed

lemma schedule_word:
  "128 \<le> length block \<Longrightarrow> t < 80 \<Longrightarrow> sha512_schedule block ! t = fips_word block t"
  unfolding sha512_schedule_def by (subst schedule_prefix) simp_all

lemma rounds_chain:
  assumes "length S = 8" and "\<And>t. t < 80 \<Longrightarrow> W ! t = fips_word block t" and "n \<le> 10"
  shows "foldl (sha512_eight_rounds W) S (map (\<lambda>k. 8 * k) [0..<n]) = foldl (fips_round block) S [0..<8 * n]
    \<and> length (foldl (sha512_eight_rounds W) S (map (\<lambda>k. 8 * k) [0..<n])) = 8"
  using assms(3)
proof (induction n)
  case (Suc n)
  let ?S = "foldl (sha512_eight_rounds W) S (map (\<lambda>k. 8 * k) [0..<n])"
  have IH: "?S = foldl (fips_round block) S [0..<8 * n]" "length ?S = 8" using Suc by auto
  have w: "W ! (8 * n + j) = fips_word block (8 * n + j)" if "j < 8" for j
    using that Suc.prems by (intro assms(2)) simp
  have "[0..<8 * Suc n] = [0..<8 * n] @ [8 * n ..< 8 * n + 8]"
    by (metis add.commute le_add1 mult_Suc_right upt_add_eq_append zero_le)
  then show ?case
    using eight_rounds_fips [OF IH(2) w] IH by simp
qed (simp add: assms(1))

lemma compress_fips:
  assumes "length (md_state md) = 8" and "128 \<le> length block"
  shows "sha512_compress md block = md\<lparr>md_state := fips_compress (md_state md) block\<rparr>"
proof -
  have ten: "[0, 8, 16, 24, 32, 40, 48, 56, 64, 72 :: nat] = map (\<lambda>k. 8 * k) [0..<10]"
    by (simp add: upt_conv_Cons)
  have "foldl (sha512_eight_rounds (sha512_schedule block)) (md_state md) (map (\<lambda>k. 8 * k) [0..<10])
    = foldl (fips_round block) (md_state md) [0..<8 * 10]"
    using rounds_chain [OF assms(1) schedule_word [OF assms(2)], of 10] by blast
  then show ?thesis
    unfolding sha512_compress_def Let_def ten by (simp add: fips_compress_def)
qed

lemma length_fips_round: "length regs = 8 \<Longrightarrow> length (fips_round block regs t) = 8"
  using length_8_cases [of regs] by (auto simp: Let_def)

lemma length_fips_compress [simp]: "length H = 8 \<Longrightarrow> length (fips_compress H block) = 8"
proof -
  assume "length H = 8"
  then have "length (foldl (fips_round block) H ts) = 8" for ts
    by (induction ts arbitrary: H) (auto simp: length_fips_round)
  with \<open>length H = 8\<close> show ?thesis by (simp add: fips_compress_def)
qed

lemma length_fips_foldl [simp]: "length H = 8 \<Longrightarrow> length (foldl fips_compress H bs) = 8"
  by (induction bs arbitrary: H) auto

section \<open>What a context has absorbed\<close>

definition whole :: "bytes \<Rightarrow> nat" where
  "whole m = length m - length m mod 128"

definition ctx_absorbed :: "sha512_context \<Rightarrow> bytes \<Rightarrow> bool" where
  "ctx_absorbed md m \<longleftrightarrow>
     length (md_buf md) = 128 \<and> md_curlen md = length m mod 128 \<and>
     take (md_curlen md) (md_buf md) = drop (whole m) m \<and>
     md_length md = of_nat (8 * whole m) \<and>
     md_state md = foldl fips_compress fips_IV (blocks (take (whole m) m))"

lemma length_fips_IV [simp]: "length fips_IV = 8"
  by (simp add: fips_IV_def)

lemma blocks_append: "128 dvd length a \<Longrightarrow> blocks (a @ b) = blocks a @ blocks b"
proof (induction a rule: blocks.induct)
  case (1 a)
  show ?case
  proof (cases "a = []")
    case False
    then have "128 \<le> length a" using 1(2) by (auto dest: dvd_imp_le)
    moreover have "128 dvd length (drop 128 a)" using 1(2) by (simp add: dvd_diff_nat)
    ultimately show ?thesis
      using 1(1) False by (simp add: blocks.simps [of "a @ b"] blocks.simps [of a])
  qed (simp add: blocks.simps [of "[]"])
qed

lemma blocks_single: "length b = 128 \<Longrightarrow> blocks b = [b]"
  by (simp add: blocks.simps [of b] blocks.simps [of "[]"]) auto

lemma whole_dvd: "128 dvd whole m"
  unfolding whole_def by (metis dvd_minus_mod)

lemma whole_le: "whole m \<le> length m"
  by (simp add: whole_def)

lemma length_minus_whole [simp]: "length m - whole m = length m mod 128"
  by (simp add: whole_def)

lemma absorb_short:
  "length m mod 128 + length x < 128 \<Longrightarrow>
   whole (m @ x) = whole m \<and> length (m @ x) mod 128 = length m mod 128 + length x"
proof -
  assume s: "length m mod 128 + length x < 128"
  have "(length m + length x) mod 128 = (length m mod 128 + length x) mod 128"
    by (simp add: mod_add_left_eq)
  then have eq: "(length m + length x) mod 128 = length m mod 128 + length x" using s by simp
  have "length m mod 128 \<le> length m" by simp
  then show ?thesis using eq by (simp add: whole_def)
qed

lemma absorb_block:
  assumes "length m mod 128 + length x = 128"
  shows "whole (m @ x) = whole m + 128" and "length (m @ x) mod 128 = 0"
    and "whole (m @ x) = length (m @ x)"
    and "blocks (m @ x) = blocks (take (whole m) m) @ [drop (whole m) m @ x]"
proof -
  have "(length m + length x) mod 128 = (length m mod 128 + length x) mod 128"
    by (simp add: mod_add_left_eq)
  then show z: "length (m @ x) mod 128 = 0" using assms by simp
  then show w: "whole (m @ x) = length (m @ x)" by (simp add: whole_def)
  have "length m mod 128 \<le> length m" by simp
  then show "whole (m @ x) = whole m + 128" using w assms by (simp add: whole_def)
  have split: "m @ x = take (whole m) m @ (drop (whole m) m @ x)" by simp
  have "length (drop (whole m) m @ x) = 128" using assms whole_le [of m] by (simp add: whole_def)
  moreover have "128 dvd length (take (whole m) m)" using whole_dvd [of m] whole_le [of m] by simp
  ultimately show "blocks (m @ x) = blocks (take (whole m) m) @ [drop (whole m) m @ x]"
    by (subst split) (simp only: blocks_append blocks_single)
qed

lemma absorbed_init: "length (md_buf md) = 128 \<Longrightarrow> ctx_absorbed (sha512_init md) []"
  by (simp add: ctx_absorbed_def sha512_init_def whole_def fips_IV_def blocks.simps [of "[]"])

lemma absorbed_state_length: "ctx_absorbed md m \<Longrightarrow> length (md_state md) = 8"
  by (simp add: ctx_absorbed_def)

lemma compress_frame [simp]:
  "md_length (sha512_compress md b) = md_length md"
  "md_curlen (sha512_compress md b) = md_curlen md"
  "md_buf (sha512_compress md b) = md_buf md"
  by (simp_all add: sha512_compress_def Let_def)

lemma absorbed_compress:
  assumes "ctx_absorbed md m" and "length m mod 128 + length x = 128"
    and "md_state md' = md_state (sha512_compress md0 (drop (whole m) m @ x))"
    and "md_state md0 = md_state md"
    and "md_length md' = md_length md + 1024" and "md_curlen md' = 0" and "length (md_buf md') = 128"
  shows "ctx_absorbed md' (m @ x)"
proof -
  let ?block = "drop (whole m) m @ x"
  have "128 \<le> length ?block" using assms(2) whole_le [of m] by (simp add: whole_def)
  then have "sha512_compress md0 ?block = md0\<lparr>md_state := fips_compress (md_state md) ?block\<rparr>"
    using absorbed_state_length [OF assms(1)] assms(4) by (metis compress_fips)
  then show ?thesis
    using assms absorb_block [OF assms(2)] by (simp add: ctx_absorbed_def)
qed

lemma absorbed_short:
  assumes "ctx_absorbed md m" and "length m mod 128 + length x < 128"
    and "md' = md\<lparr>md_buf := write_at (md_buf md) (md_curlen md) x, md_curlen := md_curlen md + length x\<rparr>"
  shows "ctx_absorbed md' (m @ x)"
proof -
  have cur: "md_curlen md = length m mod 128" "length (md_buf md) = 128"
    and held: "take (length m mod 128) (md_buf md) = drop (whole m) m"
    using assms(1) by (auto simp: ctx_absorbed_def)
  then have "take (length m mod 128 + length x) (write_at (md_buf md) (length m mod 128) x)
      = drop (whole m) m @ x"
    using assms(2) by (simp add: take_write_at)
  then show ?thesis
    using assms cur absorb_short [OF assms(2)] whole_le [of m] by (simp add: ctx_absorbed_def)
qed

lemma absorbed_update_loop:
  "ctx_absorbed md m \<Longrightarrow> ctx_absorbed (update_loop md inp) (m @ inp)"
proof (induction md inp arbitrary: m rule: update_loop.induct)
  case (1 md inp)
  have cur: "md_curlen md = length m mod 128" "md_curlen md < 128" "length (md_buf md) = 128"
    and held: "take (md_curlen md) (md_buf md) = drop (whole m) m"
    using 1(3) by (auto simp: ctx_absorbed_def)
  consider (empty) "inp = []" | (direct) "inp \<noteq> []" "md_curlen md = 0" "128 \<le> length inp"
    | (part) "inp \<noteq> []" "\<not> (md_curlen md = 0 \<and> 128 \<le> length inp)" by metis
  then show ?case
  proof cases
    case empty
    then show ?thesis using 1(3) by (simp add: update_loop.simps)
  next
    case direct
    let ?md = "sha512_compress md (take 128 inp)"
    let ?md' = "?md\<lparr>md_length := md_length ?md + 128 * 8\<rparr>"
    have "drop (whole m) m = []" using cur direct held by simp
    then have "ctx_absorbed ?md' (m @ take 128 inp)"
      using cur direct by (intro absorbed_compress [OF 1(3), of _ _ md]) simp_all
    then have "ctx_absorbed (update_loop ?md' (drop 128 inp)) ((m @ take 128 inp) @ drop 128 inp)"
      using cur direct by (intro 1(1)) auto
    then show ?thesis using cur direct by (simp add: update_loop.simps [of md inp] Let_def)
  next
    case part
    define n where "n = min (length inp) (128 - md_curlen md)"
    define mid where "mid = md\<lparr>md_buf := write_at (md_buf md) (md_curlen md) (take n inp),
        md_curlen := md_curlen md + n\<rparr>"
    define nxt where "nxt = (if md_curlen mid = 128
        then (sha512_compress mid (md_buf mid))
          \<lparr>md_length := md_length (sha512_compress mid (md_buf mid)) + 8 * 128, md_curlen := 0\<rparr>
        else mid)"
    have n: "length (take n inp) = n" "md_curlen md + n \<le> 128" using cur by (auto simp: n_def)
    have "ctx_absorbed nxt (m @ take n inp)"
    proof (cases "md_curlen md + n = 128")
      case True
      then have "md_buf mid = drop (whole m) m @ take n inp"
        using held cur n by (simp add: mid_def write_at_def)
      then show ?thesis using True cur n
        by (intro absorbed_compress [OF 1(3), of _ _ mid]) (simp_all add: nxt_def mid_def)
    next
      case False
      then show ?thesis using cur n
        by (intro absorbed_short [OF 1(3)]) (simp_all add: nxt_def mid_def)
    qed
    then have "ctx_absorbed (update_loop nxt (drop n inp)) ((m @ take n inp) @ drop n inp)"
      using cur part by (intro 1(2) [OF _ _ n_def mid_def]) (auto simp: nxt_def Let_def)
    moreover have "update_loop md inp = update_loop nxt (drop n inp)"
    proof -
      have c: "\<not> (inp = [] \<or> md_curlen md > 128)" using cur part by simp
      show ?thesis
        unfolding update_loop.simps [of md inp] if_not_P [OF c] if_not_P [OF part(2)] Let_def
          n_def [symmetric] mid_def [symmetric] nxt_def by (rule refl)
    qed
    ultimately show ?thesis by simp
  qed
qed

section \<open>Padding\<close>

lemma length_be_bytes [simp]: "length (be_bytes n v) = n"
  by (simp add: be_bytes_def)

lemma be_bytes_high_zero:
  assumes "v < 256 ^ 8"
  shows "be_bytes 16 v = replicate 8 0 @ be_bytes 8 v"
proof -
  define hi where "hi = rev [8..<16::nat]"
  have "[0..<8 + 8] = [0..<8] @ [8..<8 + 8::nat]" by (rule upt_add_eq_append) simp
  then have split: "rev [0..<16] = hi @ rev [0..<8::nat]" unfolding hi_def by (simp del: upt_rec_numeral)
  have "of_nat (v div 256 ^ i) = (0 :: byte)" if "i \<in> set hi" for i
  proof -
    have "(256::nat) ^ 8 \<le> 256 ^ i" using that by (intro power_increasing) (auto simp: hi_def)
    then show ?thesis using assms by simp
  qed
  then have "map (\<lambda>i. of_nat (v div 256 ^ i) :: byte) hi = map (\<lambda>_. 0) hi" by (intro map_cong refl)
  also have "\<dots> = replicate 8 0" unfolding map_replicate_const by (simp add: hi_def del: upt_rec_numeral)
  finally show ?thesis unfolding be_bytes_def split map_append by simp
qed

lemma whole_multiple: "length x mod 128 = 0 \<Longrightarrow> whole (m @ x) = whole m + length x"
  by (simp add: whole_def mod_add_right_eq [of "length m" "length x", symmetric])

lemma pad_fill:
  assumes "r < 128"
  shows "(r + (1 + (239 - r) mod 128 + 16)) mod 128 = (0 :: nat)"
proof (cases "r \<le> 111")
  case True
  then have "239 - r = (111 - r) + 128" by simp
  then have "(239 - r) mod 128 = 111 - r" by (simp only: mod_add_self2) simp
  then show ?thesis using True by simp
next
  case False
  then have "(239 - r) mod 128 = 239 - r" by simp
  then show ?thesis using assms by simp
qed

lemma pad_length: "128 dvd length (fips_pad m)"
proof -
  define k where "k = (239 - length m mod 128) mod 128"
  have "(length m mod 128 + (1 + k + 16)) mod 128 = 0"
    unfolding k_def by (rule pad_fill) simp
  then have "(length m + (1 + k + 16)) mod 128 = 0"
    by (simp only: mod_add_left_eq)
  then show ?thesis by (simp add: fips_pad_def k_def [symmetric] mod_eq_0_iff_dvd add.assoc)
qed

lemma replicate_join: "a + b = c \<Longrightarrow> replicate a x @ replicate b x @ t = replicate c x @ t"
  by (auto simp: replicate_add)

lemma pad_blocks:
  assumes "8 * length m < 2 ^ 64"
  shows "length m mod 128 \<le> 111 \<Longrightarrow> blocks (fips_pad m) = blocks (take (whole m) m)
      @ [drop (whole m) m @ 0x80 # replicate (119 - length m mod 128) 0 @ be_bytes 8 (8 * length m)]"
    and "112 \<le> length m mod 128 \<Longrightarrow> blocks (fips_pad m) = blocks (take (whole m) m)
      @ [drop (whole m) m @ 0x80 # replicate (127 - length m mod 128) 0,
         replicate 120 0 @ be_bytes 8 (8 * length m)]"
proof -
  define r where "r = length m mod 128"
  have r: "r < 128" by (simp add: r_def)
  have held: "length (drop (whole m) m) = r" by (simp add: r_def)
  have dvd: "128 dvd length (take (whole m) m)" using whole_dvd [of m] whole_le [of m] by simp
  have "8 * length m < 256 ^ 8" using assms by simp
  note high = be_bytes_high_zero [OF this]
  have split: "blocks (fips_pad m) = blocks (take (whole m) m) @ blocks (drop (whole m) m
      @ 0x80 # replicate ((239 - r) mod 128) 0 @ replicate 8 0 @ be_bytes 8 (8 * length m))"
  proof -
    have "m @ t = take (whole m) m @ drop (whole m) m @ t" for t
      by (simp flip: append_assoc)
    then show ?thesis
      unfolding blocks_append [OF dvd, symmetric] fips_pad_def high r_def by (rule arg_cong)
  qed
  show "blocks (fips_pad m) = blocks (take (whole m) m)
      @ [drop (whole m) m @ 0x80 # replicate (119 - length m mod 128) 0 @ be_bytes 8 (8 * length m)]"
    if "length m mod 128 \<le> 111"
  proof -
    have le: "r \<le> 111" using that by (simp add: r_def)
    then have "239 - r = (111 - r) + 128" by simp
    then have k: "(239 - r) mod 128 = 111 - r" by (simp only: mod_add_self2) simp
    have z: "replicate (111 - r) (0::byte) @ replicate 8 0 @ t = replicate (119 - r) 0 @ t" for t
      by (rule replicate_join) (use le in simp)
    show ?thesis unfolding split k z r_def [symmetric]
      by (subst blocks_single) (use held le in simp_all)
  qed
  show "blocks (fips_pad m) = blocks (take (whole m) m)
      @ [drop (whole m) m @ 0x80 # replicate (127 - length m mod 128) 0,
         replicate 120 0 @ be_bytes 8 (8 * length m)]"
    if "112 \<le> length m mod 128"
  proof -
    have ge: "112 \<le> r" using that by (simp add: r_def)
    then have k: "(239 - r) mod 128 = 239 - r" by simp
    have z: "drop (whole m) m @ 0x80 # replicate (239 - r) (0::byte) @ replicate 8 0 @ t
        = (drop (whole m) m @ 0x80 # replicate (127 - r) 0) @ (replicate 120 0 @ t)" for t
      using r by (simp add: replicate_join [of "239 - r" 8 "247 - r"] replicate_join [of "127 - r" 120 "247 - r"])
    have "length (drop (whole m) m @ 0x80 # replicate (127 - r) 0) = 128" using held r by simp
    then show ?thesis unfolding split k z r_def [symmetric]
      by (subst blocks_append) (simp_all only: blocks_single, simp_all add: blocks_single)
  qed
qed

text \<open>The three stages of \<open>sha512_final\<close>: the length and the \<open>0x80\<close> byte, the spill, the last block.\<close>

definition final_open :: "sha512_context \<Rightarrow> sha512_context" where
  "final_open md = md\<lparr>md_length := md_length md + of_nat (md_curlen md) * 8,
     md_buf := (md_buf md)[md_curlen md := 0x80], md_curlen := md_curlen md + 1\<rparr>"

definition final_spill :: "sha512_context \<Rightarrow> sha512_context" where
  "final_spill md =
     (if md_curlen md > 112
      then (sha512_compress (zero_fill 128 md) (md_buf (zero_fill 128 md)))\<lparr>md_curlen := 0\<rparr> else md)"

definition final_last :: "sha512_context \<Rightarrow> sha512_context" where
  "final_last md = (zero_fill 120 md)
     \<lparr>md_buf := write_at (md_buf (zero_fill 120 md)) 120 (STORE64H (md_length (zero_fill 120 md)))\<rparr>"

lemma final_stages:
  assumes "md_curlen md < length (md_buf md)"
  defines "md' \<equiv> final_last (final_spill (final_open md))"
  defines "done' \<equiv> sha512_compress md' (md_buf md')"
  shows "sha512_final md (Some out) = (0, done', Some (write_at out 0 (concat (map STORE64H (md_state done')))))"
  using assms(1) unfolding done'_def md'_def
  by (simp add: sha512_final_def Let_def final_open_def final_spill_def final_last_def)

lemma open_absorbed:
  assumes "ctx_absorbed md m" and "8 * length m < 2 ^ 64"
  defines "r \<equiv> length m mod 128"
  shows "\<exists>rest. length rest = 127 - r \<and> final_open md = md\<lparr>md_length := of_nat (8 * length m),
      md_buf := drop (whole m) m @ 0x80 # rest, md_curlen := r + 1\<rparr>"
proof -
  define h where "h = drop (whole m) m"
  have r: "r < 128" "length h = r" by (simp_all add: r_def h_def)
  have ctx: "md_curlen md = r" "length (md_buf md) = 128" "take r (md_buf md) = h"
    "md_length md = of_nat (8 * whole m)"
    using assms(1) by (auto simp: ctx_absorbed_def r_def h_def)
  have "whole m + r = length m" by (simp add: r_def whole_def)
  moreover have "md_length md + of_nat (md_curlen md) * 8 = of_nat (8 * (whole m + r))"
    by (simp add: ctx algebra_simps)
  ultimately have len: "md_length md + of_nat (md_curlen md) * 8 = of_nat (8 * length m)" by simp
  have "md_buf md = h @ drop r (md_buf md)" using ctx(3) by (metis append_take_drop_id)
  moreover have "drop r (md_buf md) \<noteq> []" using r ctx by simp
  ultimately obtain x rest where buf: "md_buf md = h @ x # rest"
    by (metis list.exhaust)
  then have "length rest = 127 - r" using ctx(2) r by simp
  moreover have "final_open md = md\<lparr>md_length := of_nat (8 * length m), md_buf := h @ 0x80 # rest,
      md_curlen := r + 1\<rparr>"
    unfolding final_open_def len using ctx(1) r by (simp add: buf list_update_append)
  ultimately show ?thesis unfolding h_def by blast
qed

lemma final_absorbed:
  assumes "ctx_absorbed md m" and "8 * length m < 2 ^ 64"
  shows "\<exists>md'. sha512_final md (Some out) = (0, md', Some (write_at out 0 (fips_sha512 m)))"
proof -
  define r where "r = length m mod 128"
  define h where "h = drop (whole m) m"
  define pre where "pre = blocks (take (whole m) m)"
  define l where "l = be_bytes 8 (8 * length m)"
  have r: "r < 128" "length h = r" by (simp_all add: r_def h_def)
  have state: "length (md_state md) = 8" by (rule absorbed_state_length [OF assms(1)])
  have ctx: "md_curlen md < length (md_buf md)" "md_state md = foldl fips_compress fips_IV pre"
    using assms(1) by (auto simp: ctx_absorbed_def pre_def)
  have "unat (of_nat (8 * length m) :: u64) = 8 * length m"
    by (subst unat_of_nat) (use assms(2) in simp)
  then have len: "STORE64H (of_nat (8 * length m)) = l" by (simp only: STORE64H_be_bytes l_def)
  obtain rest where rest: "length rest = 127 - r"
    and opened: "final_open md = md\<lparr>md_length := of_nat (8 * length m),
      md_buf := h @ 0x80 # rest, md_curlen := r + 1\<rparr>"
    using open_absorbed [OF assms(1,2)] unfolding r_def h_def by blast
  let ?md' = "final_last (final_spill (final_open md))"
  have "md_state (sha512_compress ?md' (md_buf ?md')) = foldl fips_compress fips_IV (blocks (fips_pad m))"
  proof (cases "r \<le> 111")
    case True
    let ?b = "h @ 0x80 # replicate (119 - r) 0 @ l"
    have suc: "120 - r = Suc (119 - r)" using True by simp
    have "final_spill (final_open md) = final_open md" using True by (simp add: final_spill_def opened)
    then have b: "md_buf ?md' = ?b" "md_state ?md' = md_state md"
      using True r rest len
      by (simp_all add: final_last_def zero_fill_def opened write_at_def l_def suc)
    have "md_state (sha512_compress ?md' ?b) = fips_compress (md_state md) ?b"
      by (subst compress_fips) (use state r True b in \<open>simp_all add: l_def\<close>)
    then show ?thesis
      using True pad_blocks(1) [OF assms(2)] b by (simp add: r_def h_def pre_def ctx(2) l_def)
  next
    case False
    let ?b1 = "h @ 0x80 # replicate (127 - r) 0"
    let ?b2 = "replicate 120 0 @ l"
    let ?z = "zero_fill 128 (final_open md)"
    have z: "md_buf ?z = ?b1" "md_state ?z = md_state md" "md_length ?z = of_nat (8 * length m)"
      using False r rest by (cases "r = 127"; simp add: zero_fill_def opened write_at_def)+
    have b1: "md_state (sha512_compress ?z ?b1) = fips_compress (md_state md) ?b1"
      by (subst compress_fips) (use state r z in simp_all)
    have spill: "final_spill (final_open md) = (sha512_compress ?z ?b1)\<lparr>md_curlen := 0\<rparr>"
      using False z by (simp add: final_spill_def opened)
    have "length ?b1 = 128" using r by simp
    then have b: "md_buf ?md' = ?b2" "md_state ?md' = fips_compress (md_state md) ?b1"
      unfolding spill using z b1 len by (simp_all add: final_last_def zero_fill_def write_at_def l_def)
    have "md_state (sha512_compress ?md' ?b2) = fips_compress (md_state ?md') ?b2"
      by (subst compress_fips) (use state b in \<open>simp_all add: l_def\<close>)
    then show ?thesis
      using False pad_blocks(2) [OF assms(2)] b by (simp add: r_def h_def pre_def ctx(2) l_def)
  qed
  moreover have "STORE64H = (\<lambda>w. be_bytes 8 (unat w))" by (rule ext) (rule STORE64H_be_bytes)
  ultimately show ?thesis
    unfolding final_stages [OF ctx(1)] fips_sha512_def by simp
qed

lemma length_fips_sha512 [simp]: "length (fips_sha512 m) = 64"
proof -
  have "length (concat (map (\<lambda>w. be_bytes 8 (unat w)) ws)) = 8 * length ws" for ws :: "u64 list"
    by (induction ws) auto
  then show ?thesis by (simp add: fips_sha512_def)
qed

section \<open>The contract of a streaming hash\<close>

text \<open>
  What the clients (\<open>sha512\<close> itself and the HMAC of \<open>wallet_crypto.c\<close>) use of the three streaming
  operations: a context holds the concatenation of what it was given, and finishing it yields the
  hash of that, whatever the chunks were.
\<close>

locale streaming_hash =
  fixes start :: "'c" and feed :: "'c \<Rightarrow> bytes \<Rightarrow> 'c" and finish :: "'c \<Rightarrow> bytes"
    and hash :: "bytes \<Rightarrow> bytes" and holds :: "'c \<Rightarrow> bytes \<Rightarrow> bool" and capacity :: nat
  assumes holds_start: "holds start []"
    and holds_feed: "holds c m \<Longrightarrow> holds (feed c x) (m @ x)"
    and finish_hash: "holds c m \<Longrightarrow> length m < capacity \<Longrightarrow> finish c = hash m"
begin

lemma holds_chunks: "holds c m \<Longrightarrow> holds (foldl feed c xs) (m @ concat xs)"
proof (induction xs arbitrary: c m)
  case (Cons x xs)
  show ?case using Cons(1) [OF holds_feed [OF Cons(2), of x]] by simp
qed simp

lemma finish_chunks: "length (concat xs) < capacity \<Longrightarrow> finish (foldl feed start xs) = hash (concat xs)"
  using holds_chunks [OF holds_start, of xs] finish_hash by simp

lemma chunks_irrelevant:
  "concat xs = concat ys \<Longrightarrow> length (concat xs) < capacity \<Longrightarrow>
   finish (foldl feed start xs) = finish (foldl feed start ys)"
  using finish_chunks [of xs] finish_chunks [of ys] by simp

lemma finish_two: "length a + length b < capacity \<Longrightarrow> finish (feed (feed start a) b) = hash (a @ b)"
  using finish_chunks [of "[a, b]"] by simp

end

text \<open>A context whose buffer has its declared 128 bytes, and the digest \<open>sha512_final\<close> writes.\<close>

definition sha512_fresh :: sha512_context where
  "sha512_fresh = \<lparr>md_length = 0, md_state = [], md_curlen = 0, md_buf = replicate 128 0\<rparr>"

definition sha512_digest :: "sha512_context \<Rightarrow> bytes" where
  "sha512_digest md =
     (case sha512_final md (Some (replicate 64 0)) of (ret, md', out) \<Rightarrow>
        (case out of Some d \<Rightarrow> d | None \<Rightarrow> []))"

lemma update_absorbed:
  "ctx_absorbed md m \<Longrightarrow>
   sha512_update md (Some x) = (0, update_loop md x) \<and> ctx_absorbed (update_loop md x) (m @ x)"
  using absorbed_update_loop [of md m x] by (auto simp: sha512_update_def ctx_absorbed_def)

lemma digest_absorbed: "ctx_absorbed md m \<Longrightarrow> 8 * length m < 2 ^ 64 \<Longrightarrow> sha512_digest md = fips_sha512 m"
  using final_absorbed [of md m "replicate 64 0"] by (auto simp: sha512_digest_def)

interpretation stream: streaming_hash "sha512_init sha512_fresh"
    "\<lambda>md x. snd (sha512_update md (Some x))" sha512_digest fips_sha512 ctx_absorbed "2 ^ 61"
proof unfold_locales
  show "ctx_absorbed (sha512_init sha512_fresh) []"
    by (rule absorbed_init) (simp add: sha512_fresh_def)
  show "ctx_absorbed (snd (sha512_update md (Some x))) (m @ x)" if "ctx_absorbed md m" for md m x
    using update_absorbed [OF that] by simp
  show "sha512_digest md = fips_sha512 m" if "ctx_absorbed md m" "length m < 2 ^ 61" for md m
    using digest_absorbed [OF that(1)] that(2) by simp
qed

lemma sha512_computes:
  assumes "length (md_buf ctx) = 128" and "length m < 2 ^ 61"
  shows "sha512 ctx (Some m) (Some out) = (0, Some (write_at out 0 (fips_sha512 m)))"
proof -
  have "ctx_absorbed (update_loop (sha512_init ctx) m) m"
    and "sha512_update (sha512_init ctx) (Some m) = (0, update_loop (sha512_init ctx) m)"
    using update_absorbed [OF absorbed_init [OF assms(1)], of m] by auto
  then show ?thesis
    using final_absorbed [of "update_loop (sha512_init ctx) m" m out] assms(2)
    by (auto simp: sha512_def Let_def)
qed

text \<open>
  C6: the optimised one-shot hash (streaming buffer, in-place padding, eight rounds with renamed
  registers) returns 0 and writes exactly the FIPS 180-4 digest of the whole message into the
  first 64 bytes of the output, for every message shorter than \<open>2 ^ 61\<close> bytes.
\<close>

theorem sha512_is_fips:
  assumes "length (md_buf ctx) = 128" and "length m < 2 ^ 61" and "64 \<le> length out"
  shows "sha512 ctx (Some m) (Some out) = (0, Some (fips_sha512 m @ drop 64 out))"
  using sha512_computes [OF assms(1,2)] by simp

lemma sha512_is_fips_witness:
  "sha512 sha512_fresh (Some [0x61, 0x62, 0x63]) (Some (replicate 65 7)) = (0, Some (fips_sha512 [0x61, 0x62, 0x63] @ [7]))"
  using sha512_is_fips [of sha512_fresh "[0x61, 0x62, 0x63]" "replicate 65 7"]
  by (simp add: sha512_fresh_def)

text \<open>
  Feeding a message to a context in any chunks gives one digest: two ways of cutting the same
  bytes, of any lengths and with empty pieces, end in the same 64 bytes.
\<close>

theorem sha512_chunks_irrelevant:
  assumes "concat xs = concat ys" and "length (concat xs) < 2 ^ 61"
  shows "sha512_digest (foldl (\<lambda>md x. snd (sha512_update md (Some x))) (sha512_init sha512_fresh) xs)
    = sha512_digest (foldl (\<lambda>md x. snd (sha512_update md (Some x))) (sha512_init sha512_fresh) ys)"
  using assms by (rule stream.chunks_irrelevant)

lemma sha512_chunks_irrelevant_witness:
  "sha512_digest (foldl (\<lambda>md x. snd (sha512_update md (Some x))) (sha512_init sha512_fresh) [replicate 130 1, [], [2]])
    = sha512_digest (foldl (\<lambda>md x. snd (sha512_update md (Some x))) (sha512_init sha512_fresh) [replicate 130 1 @ [2]])"
  by (rule sha512_chunks_irrelevant) simp_all

end
