(* ===== verification/Calc_Session.thy ===== *)
theory Calc_Session
  imports Prelude
begin

text \<open>
  \<open>calc_session.c\<close> and \<open>calc_session.h\<close>: the status codes every component returns, the session
  with its cable and calculator handles, and the polling thread.  The calls into the link library
  are recorded as a trace of resource events; \<open>ti_env\<close> holds the answers of those that talk to
  hardware or allocate.  Two pure functions of \<open>ticalcs\<close> are modelled from their source.
\<close>

section \<open>Status codes and models\<close>

datatype app_status =
  APP_OK | APP_ERR_NO_CALC | APP_ERR_NO_CABLE | APP_ERR_ALLOC | APP_ERR_NOT_READY
| APP_ERR_IO | APP_ERR_THREAD | APP_ERR_CRYPTO

definition status_code :: "app_status \<Rightarrow> int" where
  "status_code s =
     (case s of APP_OK \<Rightarrow> 0 | APP_ERR_NO_CALC \<Rightarrow> 1 | APP_ERR_NO_CABLE \<Rightarrow> 2 | APP_ERR_ALLOC \<Rightarrow> 3
      | APP_ERR_NOT_READY \<Rightarrow> 4 | APP_ERR_IO \<Rightarrow> 5 | APP_ERR_THREAD \<Rightarrow> 6 | APP_ERR_CRYPTO \<Rightarrow> 7)"

datatype CableModel =
  CABLE_NUL | CABLE_GRY | CABLE_BLK | CABLE_PAR | CABLE_SLV | CABLE_USB | CABLE_VTI | CABLE_TIE
| CABLE_ILP | CABLE_DEV | CABLE_TCPC | CABLE_TCPS

datatype CableFamily =
  CABLE_FAMILY_UNKNOWN | CABLE_FAMILY_DBUS | CABLE_FAMILY_USB_TI8X | CABLE_FAMILY_USB_TI9X
| CABLE_FAMILY_USB_NSPIRE

datatype CableVariant =
  CABLE_VARIANT_UNKNOWN | CABLE_VARIANT_TIGLUSB | CABLE_VARIANT_TI84P | CABLE_VARIANT_TI84PSE
| CABLE_VARIANT_TI84PCSE | CABLE_VARIANT_TI84PCE | CABLE_VARIANT_TI83PCE | CABLE_VARIANT_TI82A
| CABLE_VARIANT_TI89TM | CABLE_VARIANT_NSPIRE | CABLE_VARIANT_TI84PT

datatype CalcModel =
  CALC_NONE | CALC_TI73 | CALC_TI82 | CALC_TI83 | CALC_TI83P | CALC_TI84P | CALC_TI85 | CALC_TI86
| CALC_TI89 | CALC_TI89T | CALC_TI92 | CALC_TI92P | CALC_V200 | CALC_TI84P_USB | CALC_TI89T_USB
| CALC_NSPIRE | CALC_TI80 | CALC_TI84PC | CALC_TI84PC_USB | CALC_TI83PCE_USB | CALC_TI84PCE_USB
| CALC_TI82A_USB | CALC_TI84PT_USB

record CableDeviceInfo =
  family :: CableFamily
  variant :: CableVariant

definition ticalcs_device_info_to_model :: "CableDeviceInfo option \<Rightarrow> CalcModel" where
  "ticalcs_device_info_to_model info =
     (case info of
        None \<Rightarrow> CALC_NONE
      | Some d \<Rightarrow>
          if family d = CABLE_FAMILY_DBUS then CALC_NONE
          else if family d = CABLE_FAMILY_USB_TI8X then
            (if variant d = CABLE_VARIANT_TI84P \<or> variant d = CABLE_VARIANT_TI84PSE then CALC_TI84P_USB
             else if variant d = CABLE_VARIANT_TI84PCSE then CALC_TI84PC_USB
             else if variant d = CABLE_VARIANT_TI84PCE then CALC_TI84PCE_USB
             else if variant d = CABLE_VARIANT_TI83PCE then CALC_TI83PCE_USB
             else if variant d = CABLE_VARIANT_TI82A then CALC_TI82A_USB
             else if variant d = CABLE_VARIANT_TI84PT then CALC_TI84PT_USB
             else CALC_TI84PCE_USB)
          else if family d = CABLE_FAMILY_USB_TI9X then CALC_TI89T_USB
          else if family d = CABLE_FAMILY_USB_NSPIRE then CALC_NSPIRE
          else CALC_NONE)"

definition ticalcs_remap_model_from_usb :: "CableModel \<Rightarrow> CalcModel \<Rightarrow> CalcModel" where
  "ticalcs_remap_model_from_usb c m =
     (if c = CABLE_USB then
        (if m = CALC_TI84P_USB then CALC_TI84P
         else if m = CALC_TI84PC_USB then CALC_TI84PC
         else if m = CALC_TI89T_USB then CALC_TI89T
         else m)
      else m)"

section \<open>The session\<close>

type_synonym handle = nat

record CalcSession =
  cable :: "handle option"
  calc :: "handle option"
  cable_model :: CableModel
  calc_model :: CalcModel
  port_number :: nat
  poll_interval_ms :: int
  poll_active :: int
  poll_thread_started :: int

text \<open>
  What the library answers: the device list (\<open>None\<close> for a NULL list with count 0), the probe's
  status and detected model, the new handles (\<open>None\<close> for NULL), and the status of attaching.
\<close>

record ti_env =
  usb_devices :: "CableDeviceInfo list option"
  probe :: "CableModel \<Rightarrow> nat \<Rightarrow> int \<times> CalcModel"
  new_cable :: "CableModel \<Rightarrow> nat \<Rightarrow> handle option"
  new_calc :: "CalcModel \<Rightarrow> handle option"
  attach :: "handle \<Rightarrow> handle \<Rightarrow> int"

datatype lib_event =
  Devices_listed | Devices_freed | Cable_new handle | Calc_new handle | Attached handle handle
| Timeout_set handle nat | Calc_del handle | Cable_del handle

definition calc_session_cleanup :: "CalcSession option \<Rightarrow> CalcSession option \<times> lib_event list" where
  "calc_session_cleanup session_ptr =
     (case session_ptr of
        None \<Rightarrow> (None, [])
      | Some s \<Rightarrow>
          (let (s, ev1) = (case calc s of Some h \<Rightarrow> (s\<lparr>calc := None\<rparr>, [Calc_del h]) | None \<Rightarrow> (s, []));
               (s, ev2) = (case cable s of Some h \<Rightarrow> (s\<lparr>cable := None\<rparr>, [Cable_del h]) | None \<Rightarrow> (s, []))
           in (Some (s\<lparr>poll_active := 0, poll_thread_started := 0\<rparr>), ev1 @ ev2)))"

text \<open>The steps of \<open>calc_session_open\<close> in its order, each guarded by \<open>status == APP_OK\<close>.\<close>

definition open_select :: "ti_env \<Rightarrow> CableDeviceInfo \<Rightarrow> CalcSession \<Rightarrow> app_status \<times> CalcSession" where
  "open_select env dev s =
     (let s = s\<lparr>cable_model := (if family dev = CABLE_FAMILY_DBUS then CABLE_SLV else CABLE_USB)\<rparr>;
          s = s\<lparr>calc_model := ticalcs_device_info_to_model (Some dev)\<rparr>;
          s = s\<lparr>calc_model := ticalcs_remap_model_from_usb (cable_model s) (calc_model s)\<rparr>
      in if calc_model s = CALC_NONE then
           (let (probe_status, m) = probe env (cable_model s) (port_number s);
                s = s\<lparr>calc_model := m\<rparr>
            in (if probe_status \<noteq> 0 then APP_ERR_NO_CALC else APP_OK, s))
         else (APP_OK, s))"

definition open_cable :: "ti_env \<Rightarrow> app_status \<times> CalcSession \<times> lib_event list \<Rightarrow> app_status \<times> CalcSession \<times> lib_event list" where
  "open_cable env = (\<lambda>(status, s, ev).
     if status = APP_OK then
       (let s = s\<lparr>cable := new_cable env (cable_model s) (port_number s)\<rparr>
        in case cable s of None \<Rightarrow> (APP_ERR_NO_CABLE, s, ev) | Some h \<Rightarrow> (status, s, ev @ [Cable_new h]))
     else (status, s, ev))"

definition open_calc :: "ti_env \<Rightarrow> app_status \<times> CalcSession \<times> lib_event list \<Rightarrow> app_status \<times> CalcSession \<times> lib_event list" where
  "open_calc env = (\<lambda>(status, s, ev).
     if status = APP_OK then
       (let s = s\<lparr>calc := new_calc env (calc_model s)\<rparr>
        in case calc s of None \<Rightarrow> (APP_ERR_ALLOC, s, ev) | Some h \<Rightarrow> (status, s, ev @ [Calc_new h]))
     else (status, s, ev))"

definition open_attach :: "ti_env \<Rightarrow> app_status \<times> CalcSession \<times> lib_event list \<Rightarrow> app_status \<times> CalcSession \<times> lib_event list" where
  "open_attach env = (\<lambda>(status, s, ev).
     if status = APP_OK then
       (case (calc s, cable s) of
          (Some c, Some b) \<Rightarrow>
            if attach env c b \<noteq> 0 then (APP_ERR_NO_CABLE, s, ev) else (status, s, ev @ [Attached c b])
        | _ \<Rightarrow> (APP_ERR_NO_CABLE, s, ev))
     else (status, s, ev))"

definition open_timeout :: "app_status \<times> CalcSession \<times> lib_event list \<Rightarrow> app_status \<times> CalcSession \<times> lib_event list" where
  "open_timeout = (\<lambda>(status, s, ev).
     (status, s, ev @ (if status = APP_OK then (case cable s of Some b \<Rightarrow> [Timeout_set b 250] | None \<Rightarrow> []) else [])))"

definition calc_session_open :: "ti_env \<Rightarrow> CalcSession option \<Rightarrow> app_status \<times> CalcSession option \<times> lib_event list" where
  "calc_session_open env session_ptr =
     (case session_ptr of
        None \<Rightarrow> (APP_ERR_NO_CALC, None, [])
      | Some s \<Rightarrow>
          (let devs = usb_devices env;
               listed = (if devs = None then [] else [Devices_listed]);
               (status, s, ev) =
                 (case devs of
                    Some (dev # _) \<Rightarrow>
                      if family dev = CABLE_FAMILY_UNKNOWN then (APP_ERR_NO_CABLE, s, listed)
                      else (let (status, s) = open_select env dev s
                            in open_timeout (open_attach env (open_calc env (open_cable env (status, s, listed)))))
                  | _ \<Rightarrow> (APP_ERR_NO_CALC, s, listed));
               ev = (if devs = None then ev else ev @ [Devices_freed])
           in if status \<noteq> APP_OK
              then (let (sp, ev') = calc_session_cleanup (Some s) in (status, sp, ev @ ev'))
              else (status, Some s, ev)))"

definition calc_session_start_polling :: "bool \<Rightarrow> CalcSession option \<Rightarrow> int \<Rightarrow> app_status \<times> CalcSession option" where
  "calc_session_start_polling thread_ok session_ptr interval_ms =
     (case session_ptr of
        None \<Rightarrow> (APP_ERR_NO_CALC, None)
      | Some s \<Rightarrow>
          if calc s \<noteq> None then
            (let s = s\<lparr>poll_interval_ms := interval_ms, poll_active := 1\<rparr>
             in if \<not> thread_ok then (APP_ERR_THREAD, Some (s\<lparr>poll_active := 0\<rparr>))
                else (APP_OK, Some (s\<lparr>poll_thread_started := 1\<rparr>)))
          else (APP_ERR_NO_CALC, Some s))"

text \<open>The second component says whether the thread was joined.\<close>

definition calc_session_stop_polling :: "CalcSession option \<Rightarrow> CalcSession option \<times> bool" where
  "calc_session_stop_polling session_ptr =
     (case session_ptr of
        None \<Rightarrow> (None, False)
      | Some s \<Rightarrow>
          if poll_thread_started s \<noteq> 0
          then (Some (s\<lparr>poll_active := 0, poll_thread_started := 0\<rparr>), True)
          else (Some s, False))"

section \<open>What a trace of library calls leaves behind\<close>

text \<open>
  The resource discipline of the library: handles are deleted once, a calculator handle is
  attached to a cable only while both live, a cable is deleted after the calculator attached to
  it, and the device list is freed once.  \<open>None\<close> is a violation.
\<close>

record resources =
  lists :: nat
  cables :: "handle set"
  calcs :: "handle set"
  links :: "(handle \<times> handle) set"

definition no_resources :: resources where
  "no_resources = \<lparr>lists = 0, cables = {}, calcs = {}, links = {}\<rparr>"

fun use_event :: "lib_event \<Rightarrow> resources \<Rightarrow> resources option" where
  "use_event Devices_listed r = Some (r\<lparr>lists := lists r + 1\<rparr>)"
| "use_event Devices_freed r = (if lists r > 0 then Some (r\<lparr>lists := lists r - 1\<rparr>) else None)"
| "use_event (Cable_new h) r = (if h \<in> cables r then None else Some (r\<lparr>cables := insert h (cables r)\<rparr>))"
| "use_event (Calc_new h) r = (if h \<in> calcs r then None else Some (r\<lparr>calcs := insert h (calcs r)\<rparr>))"
| "use_event (Attached c b) r =
     (if c \<in> calcs r \<and> b \<in> cables r then Some (r\<lparr>links := insert (c, b) (links r)\<rparr>) else None)"
| "use_event (Timeout_set b t) r = (if b \<in> cables r then Some r else None)"
| "use_event (Calc_del c) r =
     (if c \<in> calcs r then Some (r\<lparr>calcs := calcs r - {c}, links := {l \<in> links r. fst l \<noteq> c}\<rparr>) else None)"
| "use_event (Cable_del b) r =
     (if b \<in> cables r \<and> (\<forall>l \<in> links r. snd l \<noteq> b) then Some (r\<lparr>cables := cables r - {b}\<rparr>) else None)"

fun use_events :: "lib_event list \<Rightarrow> resources \<Rightarrow> resources option" where
  "use_events [] r = Some r"
| "use_events (e # es) r = (case use_event e r of None \<Rightarrow> None | Some r' \<Rightarrow> use_events es r')"

definition session_resources :: "CalcSession \<Rightarrow> resources" where
  "session_resources s =
     \<lparr>lists = 0, cables = set_option (cable s), calcs = set_option (calc s),
      links = {(c, b). calc s = Some c \<and> cable s = Some b}\<rparr>"

lemma use_events_append:
  "use_events (xs @ ys) r = (case use_events xs r of None \<Rightarrow> None | Some r' \<Rightarrow> use_events ys r')"
  by (induction xs arbitrary: r) (auto split: option.splits)

lemma select_frame:
  "open_select env dev s = (st, s') \<Longrightarrow> cable s' = cable s \<and> calc s' = calc s"
  by (auto simp: open_select_def Let_def split: if_splits prod.splits)

lemma cleanup_releases:
  "calc_session_cleanup (Some s) = (Some s', ev) \<Longrightarrow>
   cable s' = None \<and> calc s' = None \<and> poll_active s' = 0 \<and> poll_thread_started s' = 0 \<and>
   ev = (case calc s of Some h \<Rightarrow> [Calc_del h] | None \<Rightarrow> [])
        @ (case cable s of Some h \<Rightarrow> [Cable_del h] | None \<Rightarrow> [])"
  by (auto simp: calc_session_cleanup_def Let_def split: option.splits)

text \<open>
  Every path through the open steps leaves the trace lawful and the live handles in the session.
\<close>

lemma open_steps:
  assumes "cable s = None" and "calc s = None"
    and "open_timeout (open_attach env (open_calc env (open_cable env (st, s, ev)))) = (st', s', ev')"
  shows "\<exists>evs. ev' = ev @ evs \<and>
     (st' = APP_OK \<longrightarrow> (\<exists>c b. calc s' = Some c \<and> cable s' = Some b \<and>
        evs = [Cable_new b, Calc_new c, Attached c b, Timeout_set b 250])) \<and>
     (st' \<noteq> APP_OK \<longrightarrow> (\<exists>b c. cable s' = b \<and> calc s' = c \<and> (b = None \<longrightarrow> c = None) \<and>
        evs = (case b of Some h \<Rightarrow> [Cable_new h] | None \<Rightarrow> [])
              @ (case c of Some h \<Rightarrow> [Calc_new h] | None \<Rightarrow> [])))"
  using assms
  by (auto simp: open_cable_def open_calc_def open_attach_def open_timeout_def Let_def
      split: option.splits if_splits prod.splits)

lemma open_outcome:
  assumes "cable s = None" and "calc s = None"
    and "calc_session_open env (Some s) = (st, Some s', ev)"
  shows "use_events ev no_resources = Some (session_resources s')"
    and "st = APP_OK \<Longrightarrow> calc s' \<noteq> None \<and> cable s' \<noteq> None"
    and "st \<noteq> APP_OK \<Longrightarrow> calc s' = None \<and> cable s' = None"
proof -
  consider (nodev) "usb_devices env = None \<or> usb_devices env = Some []"
    | (unknown) dev rest where "usb_devices env = Some (dev # rest)" "family dev = CABLE_FAMILY_UNKNOWN"
    | (known) dev rest where "usb_devices env = Some (dev # rest)" "family dev \<noteq> CABLE_FAMILY_UNKNOWN"
    by (metis list.exhaust option.exhaust)
  then have "use_events ev no_resources = Some (session_resources s') \<and>
    (st = APP_OK \<longrightarrow> calc s' \<noteq> None \<and> cable s' \<noteq> None) \<and>
    (st \<noteq> APP_OK \<longrightarrow> calc s' = None \<and> cable s' = None)"
  proof cases
    case nodev
    then show ?thesis using assms
      by (auto simp: calc_session_open_def calc_session_cleanup_def Let_def session_resources_def
          no_resources_def)
  next
    case unknown
    then show ?thesis using assms
      by (auto simp: calc_session_open_def calc_session_cleanup_def Let_def session_resources_def
          no_resources_def)
  next
    case known
    obtain st1 s1 where sel: "open_select env dev s = (st1, s1)" by fastforce
    obtain st2 s2 ev2 where steps:
      "open_timeout (open_attach env (open_calc env (open_cable env (st1, s1, [Devices_listed])))) = (st2, s2, ev2)"
      by (metis prod_cases3)
    have fresh: "cable s1 = None" "calc s1 = None" using select_frame [OF sel] assms(1,2) by auto
    obtain evs where evs': "ev2 = [Devices_listed] @ evs \<and>
       (st2 = APP_OK \<longrightarrow> (\<exists>c b. calc s2 = Some c \<and> cable s2 = Some b \<and>
          evs = [Cable_new b, Calc_new c, Attached c b, Timeout_set b 250])) \<and>
       (st2 \<noteq> APP_OK \<longrightarrow> (\<exists>b c. cable s2 = b \<and> calc s2 = c \<and> (b = None \<longrightarrow> c = None) \<and>
          evs = (case b of Some h \<Rightarrow> [Cable_new h] | None \<Rightarrow> [])
                @ (case c of Some h \<Rightarrow> [Calc_new h] | None \<Rightarrow> [])))"
      using open_steps [OF fresh steps] by (elim exE)
    note evs = evs' [THEN conjunct1]
    note ok = evs' [THEN conjunct2, THEN conjunct1, rule_format]
    note bad = evs' [THEN conjunct2, THEN conjunct2, rule_format]
    have "calc_session_open env (Some s) =
       (if st2 \<noteq> APP_OK then (let (sp, ev') = calc_session_cleanup (Some s2) in (st2, sp, (ev2 @ [Devices_freed]) @ ev'))
        else (st2, Some s2, ev2 @ [Devices_freed]))"
      using known by (simp add: calc_session_open_def sel steps)
    then have result: "(if st2 \<noteq> APP_OK
        then (let (sp, ev') = calc_session_cleanup (Some s2) in (st2, sp, (ev2 @ [Devices_freed]) @ ev'))
        else (st2, Some s2, ev2 @ [Devices_freed])) = (st, Some s', ev)"
      using assms(3) by simp
    show ?thesis
    proof (cases "st2 = APP_OK")
      case True
      then show ?thesis using result ok evs
        by (auto simp: session_resources_def no_resources_def)
    next
      case False
      obtain s3 ev3 where cl: "calc_session_cleanup (Some s2) = (Some s3, ev3)"
        by (cases "calc s2"; cases "cable s2") (simp_all add: calc_session_cleanup_def)
      have r: "st = st2" "s' = s3" "ev = (ev2 @ [Devices_freed]) @ ev3" using result False cl by auto
      have live: "use_events evs no_resources = Some (no_resources
          \<lparr>cables := set_option (cable s2), calcs := set_option (calc s2)\<rparr>)"
        using bad [OF False] by (cases "cable s2"; cases "calc s2") (simp_all add: no_resources_def)
      have "use_events ev3 (no_resources\<lparr>cables := set_option (cable s2), calcs := set_option (calc s2)\<rparr>)
          = Some no_resources"
        using cleanup_releases [OF cl]
        by (cases "cable s2"; cases "calc s2") (simp_all add: no_resources_def)
      moreover have "use_events ([Devices_listed] @ evs @ [Devices_freed]) no_resources
          = use_events evs no_resources"
        using bad [OF False] by (cases "cable s2"; cases "calc s2") (simp_all add: no_resources_def)
      moreover have "ev = ([Devices_listed] @ evs @ [Devices_freed]) @ ev3" by (simp add: r evs)
      ultimately have "use_events ev no_resources = Some no_resources"
        by (simp only: use_events_append [of _ ev3] live option.case)
      moreover have "session_resources s' = no_resources"
        using cleanup_releases [OF cl] by (simp add: r session_resources_def no_resources_def)
      ultimately show ?thesis using cleanup_releases [OF cl] False by (simp add: r)
    qed
  qed
  then show "use_events ev no_resources = Some (session_resources s')"
    and "st = APP_OK \<Longrightarrow> calc s' \<noteq> None \<and> cable s' \<noteq> None"
    and "st \<noteq> APP_OK \<Longrightarrow> calc s' = None \<and> cable s' = None" by auto
qed

lemma cleanup_returns_resources:
  "use_events (snd (calc_session_cleanup (Some s))) (session_resources s) = Some no_resources"
  by (auto simp: calc_session_cleanup_def Let_def session_resources_def no_resources_def
      split: option.splits)

section \<open>The polling thread\<close>

definition CALC_SESSION_MAX_POLL_CYCLES :: nat where
  "CALC_SESSION_MAX_POLL_CYCLES = 3600000"

datatype poll_message = Calculator_ready | Calculator_not_ready

text \<open>One cycle's readiness report, given the answer of \<open>ticalcs_calc_isready\<close> and \<open>last_ready\<close>.\<close>

definition poll_report :: "int \<Rightarrow> int \<Rightarrow> poll_message list \<times> int" where
  "poll_report ready last_ready =
     (if ready = 0 \<and> last_ready \<noteq> 1 then ([Calculator_ready], 1)
      else if ready \<noteq> 0 \<and> last_ready \<noteq> 0 then ([Calculator_not_ready], 0)
      else ([], last_ready))"

text \<open>
  The loop of the thread: \<open>active k\<close> is what cycle \<open>k\<close> reads from the volatile \<open>poll_active\<close>,
  \<open>isready k\<close> the library's answer in it.  It returns what was printed and the cycles run.
\<close>

function poll_loop :: "(nat \<Rightarrow> int) \<Rightarrow> (nat \<Rightarrow> int) \<Rightarrow> bool \<Rightarrow> nat \<Rightarrow> int \<Rightarrow> poll_message list \<times> nat" where
  "poll_loop active isready attached k last_ready =
     (if active k \<noteq> 0 \<and> k < CALC_SESSION_MAX_POLL_CYCLES then
        (let (out, last_ready) = (if attached then poll_report (isready k) last_ready else ([], last_ready));
             (out', n) = poll_loop active isready attached (k + 1) last_ready
         in (out @ out', n))
      else ([], k))"
  by pat_completeness auto
termination by (relation "measure (\<lambda>(_, _, _, k, _). CALC_SESSION_MAX_POLL_CYCLES - k)") auto

declare poll_loop.simps [simp del]

definition calc_session_polling_thread ::
    "(nat \<Rightarrow> int) \<Rightarrow> (nat \<Rightarrow> int) \<Rightarrow> CalcSession option \<Rightarrow> poll_message list \<times> nat \<times> CalcSession option" where
  "calc_session_polling_thread active isready arg =
     (case arg of
        None \<Rightarrow> ([], 0, None)
      | Some s \<Rightarrow>
          (let (out, n) = poll_loop active isready (calc s \<noteq> None) 0 (-1)
           in (out, n, Some (s\<lparr>poll_active := 0\<rparr>))))"

definition readiness :: "int \<Rightarrow> poll_message" where
  "readiness answer = (if answer = 0 then Calculator_ready else Calculator_not_ready)"

definition seen :: "int \<Rightarrow> poll_message list" where
  "seen last_ready =
     (if last_ready = 1 then [Calculator_ready] else if last_ready = 0 then [Calculator_not_ready] else [])"

text \<open>The reports are the changes of the sequence of readiness answers.\<close>

lemma poll_loop_reports:
  "last_ready \<in> {-1, 0, 1} \<Longrightarrow> poll_loop active isready True k last_ready = (out, n) \<Longrightarrow>
   k \<le> n \<and> n \<le> max k CALC_SESSION_MAX_POLL_CYCLES \<and>
   (\<forall>j. k \<le> j \<and> j < n \<longrightarrow> active j \<noteq> 0) \<and>
   seen last_ready @ out = remdups_adj (seen last_ready @ map (\<lambda>j. readiness (isready j)) [k..<n])"
proof (induction "CALC_SESSION_MAX_POLL_CYCLES - k" arbitrary: k last_ready out)
  case 0
  then show ?case by (subst (asm) poll_loop.simps) (auto simp: seen_def)
next
  case (Suc d)
  show ?case
  proof (cases "active k \<noteq> 0")
    case False
    then show ?thesis using Suc.prems by (subst (asm) poll_loop.simps) (auto simp: seen_def)
  next
    case True
    have lt: "k < CALC_SESSION_MAX_POLL_CYCLES" using Suc.hyps(2) by simp
    obtain out1 l1 where rep: "poll_report (isready k) last_ready = (out1, l1)" by fastforce
    obtain out2 n2 where rest: "poll_loop active isready True (k + 1) l1 = (out2, n2)" by fastforce
    have out: "out = out1 @ out2" "n = n2"
      using Suc.prems(2) True lt rep rest by (subst (asm) poll_loop.simps, simp)+
    have l1: "l1 \<in> {-1, 0, 1}" using rep Suc.prems(1) by (auto simp: poll_report_def split: if_splits)
    have IH: "k + 1 \<le> n" "n \<le> max (k + 1) CALC_SESSION_MAX_POLL_CYCLES"
      "\<forall>j. k + 1 \<le> j \<and> j < n \<longrightarrow> active j \<noteq> 0"
      "seen l1 @ out2 = remdups_adj (seen l1 @ map (\<lambda>j. readiness (isready j)) [k + 1..<n])"
      using Suc.hyps(1) [OF _ l1 rest [folded out(2)]] Suc.hyps(2) by auto
    have active: "\<forall>j. k \<le> j \<and> j < n \<longrightarrow> active j \<noteq> 0"
      using IH(3) True by (metis Suc_eq_plus1 Suc_leI le_neq_implies_less)
    have upt: "[k..<n] = k # [k + 1..<n]" using IH(1) by (simp add: upt_conv_Cons)
    have "seen last_ready @ out = remdups_adj (seen last_ready @ map (\<lambda>j. readiness (isready j)) [k..<n])"
      unfolding upt out(1) using rep IH(4) Suc.prems(1)
      by (auto simp: poll_report_def seen_def readiness_def split: if_splits)
    then show ?thesis using IH(1,2) active lt by auto
  qed
qed

lemma poll_loop_stops:
  "poll_loop active isready attached k l = (out, n) \<Longrightarrow> k \<le> CALC_SESSION_MAX_POLL_CYCLES \<Longrightarrow>
   n = CALC_SESSION_MAX_POLL_CYCLES \<or> active n = 0"
proof (induction "CALC_SESSION_MAX_POLL_CYCLES - k" arbitrary: k l out)
  case 0
  then show ?case by (subst (asm) poll_loop.simps) auto
next
  case (Suc d)
  show ?case
  proof (cases "active k = 0")
    case False
    obtain out1 l1 where rep: "(if attached then poll_report (isready k) l else ([], l)) = (out1, l1)" by fastforce
    obtain out2 n2 where rest: "poll_loop active isready attached (k + 1) l1 = (out2, n2)" by fastforce
    have lt: "k < CALC_SESSION_MAX_POLL_CYCLES" using Suc.hyps(2) by simp
    have n: "n = n2" using Suc.prems(1) False lt rep rest by (subst (asm) poll_loop.simps) simp
    show ?thesis using Suc.hyps(1) [OF _ rest [folded n]] Suc.hyps(2) by simp
  qed (use Suc.prems(1) in \<open>subst (asm) poll_loop.simps, simp\<close>)
qed

section \<open>\<open>main\<close> and the polling thread, interleaved\<close>

text \<open>
  \<open>main\<close> starts the thread and calls \<open>ticalcs_calc_isready\<close> itself before it stops the thread.
  That call, in either thread, is three steps: it tests \<open>handle->busy\<close> (and answers \<open>ERR_BUSY\<close>),
  sets it, and clears it with the device's answer, taken from the set \<open>A\<close>.  The menu and the
  cleanup run after the join.
\<close>

datatype poll_pc =
  P_none | P_test nat | P_check nat | P_claim nat | P_call nat | P_sleep nat | P_exit | P_done

datatype main_pc =
  M_start | M_check | M_claim | M_call | M_stop | M_join | M_menu | M_final_stop | M_final_join
| M_cleanup | M_end

record system =
  sess :: CalcSession
  busy :: bool
  ppc :: poll_pc
  mpc :: main_pc
  err :: app_status

inductive step :: "int set \<Rightarrow> system \<Rightarrow> system \<Rightarrow> bool" for A where
  start_ok: "mpc S = M_start \<Longrightarrow> calc_session_start_polling True (Some (sess S)) 1000 = (APP_OK, Some s') \<Longrightarrow>
     step A S (S\<lparr>sess := s', ppc := P_test 0, mpc := M_check\<rparr>)"
| start_failed: "mpc S = M_start \<Longrightarrow> calc_session_start_polling ok (Some (sess S)) 1000 = (st, Some s') \<Longrightarrow>
     st \<noteq> APP_OK \<Longrightarrow> step A S (S\<lparr>sess := s', err := st, mpc := M_final_stop\<rparr>)"
| main_busy: "mpc S = M_check \<Longrightarrow> busy S \<Longrightarrow> step A S (S\<lparr>err := APP_ERR_NOT_READY, mpc := M_final_stop\<rparr>)"
| main_free: "mpc S = M_check \<Longrightarrow> \<not> busy S \<Longrightarrow> step A S (S\<lparr>mpc := M_claim\<rparr>)"
| main_claim: "mpc S = M_claim \<Longrightarrow> step A S (S\<lparr>busy := True, mpc := M_call\<rparr>)"
| main_ready: "mpc S = M_call \<Longrightarrow> 0 \<in> A \<Longrightarrow> step A S (S\<lparr>busy := False, mpc := M_stop\<rparr>)"
| main_unready: "mpc S = M_call \<Longrightarrow> a \<in> A \<Longrightarrow> a \<noteq> 0 \<Longrightarrow>
     step A S (S\<lparr>busy := False, err := APP_ERR_NOT_READY, mpc := M_final_stop\<rparr>)"
| stop_signal: "mpc S = M_stop \<Longrightarrow> poll_thread_started (sess S) \<noteq> 0 \<Longrightarrow>
     step A S (S\<lparr>sess := (sess S)\<lparr>poll_active := 0\<rparr>, mpc := M_join\<rparr>)"
| stop_idle: "mpc S = M_stop \<Longrightarrow> poll_thread_started (sess S) = 0 \<Longrightarrow> step A S (S\<lparr>mpc := M_menu\<rparr>)"
| stop_join: "mpc S = M_join \<Longrightarrow> ppc S = P_done \<Longrightarrow>
     step A S (S\<lparr>sess := (sess S)\<lparr>poll_thread_started := 0\<rparr>, mpc := M_menu\<rparr>)"
| menu: "mpc S = M_menu \<Longrightarrow> step A S (S\<lparr>mpc := M_final_stop\<rparr>)"
| final_signal: "mpc S = M_final_stop \<Longrightarrow> poll_thread_started (sess S) \<noteq> 0 \<Longrightarrow>
     step A S (S\<lparr>sess := (sess S)\<lparr>poll_active := 0\<rparr>, mpc := M_final_join\<rparr>)"
| final_idle: "mpc S = M_final_stop \<Longrightarrow> poll_thread_started (sess S) = 0 \<Longrightarrow> step A S (S\<lparr>mpc := M_cleanup\<rparr>)"
| final_join: "mpc S = M_final_join \<Longrightarrow> ppc S = P_done \<Longrightarrow>
     step A S (S\<lparr>sess := (sess S)\<lparr>poll_thread_started := 0\<rparr>, mpc := M_cleanup\<rparr>)"
| cleanup: "mpc S = M_cleanup \<Longrightarrow> calc_session_cleanup (Some (sess S)) = (Some s', ev) \<Longrightarrow>
     step A S (S\<lparr>sess := s', mpc := M_end\<rparr>)"
| poll_on: "ppc S = P_test n \<Longrightarrow> poll_active (sess S) \<noteq> 0 \<Longrightarrow> n < CALC_SESSION_MAX_POLL_CYCLES \<Longrightarrow>
     step A S (S\<lparr>ppc := (if calc (sess S) \<noteq> None then P_check n else P_sleep n)\<rparr>)"
| poll_off: "ppc S = P_test n \<Longrightarrow> poll_active (sess S) = 0 \<or> \<not> n < CALC_SESSION_MAX_POLL_CYCLES \<Longrightarrow>
     step A S (S\<lparr>ppc := P_exit\<rparr>)"
| poll_busy: "ppc S = P_check n \<Longrightarrow> busy S \<Longrightarrow> step A S (S\<lparr>ppc := P_sleep n\<rparr>)"
| poll_free: "ppc S = P_check n \<Longrightarrow> \<not> busy S \<Longrightarrow> step A S (S\<lparr>ppc := P_claim n\<rparr>)"
| poll_claim: "ppc S = P_claim n \<Longrightarrow> step A S (S\<lparr>busy := True, ppc := P_call n\<rparr>)"
| poll_answer: "ppc S = P_call n \<Longrightarrow> a \<in> A \<Longrightarrow> step A S (S\<lparr>busy := False, ppc := P_sleep n\<rparr>)"
| poll_wake: "ppc S = P_sleep n \<Longrightarrow> step A S (S\<lparr>ppc := P_test (n + 1)\<rparr>)"
| poll_exit: "ppc S = P_exit \<Longrightarrow> step A S (S\<lparr>sess := (sess S)\<lparr>poll_active := 0\<rparr>, ppc := P_done\<rparr>)"

text \<open>\<open>main\<close> after a successful \<open>calc_session_open\<close>.\<close>

definition initial :: "system \<Rightarrow> bool" where
  "initial S \<longleftrightarrow> mpc S = M_start \<and> ppc S = P_none \<and> \<not> busy S \<and> err S = APP_OK \<and>
     calc (sess S) \<noteq> None \<and> cable (sess S) \<noteq> None \<and> poll_thread_started (sess S) = 0"

inductive reachable :: "int set \<Rightarrow> system \<Rightarrow> bool" for A where
  reach_init: "initial S \<Longrightarrow> reachable A S"
| reach_step: "reachable A S \<Longrightarrow> step A S S' \<Longrightarrow> reachable A S'"

inductive_cases step_cases: "step A S S'"

definition in_thread :: "poll_pc \<Rightarrow> bool" where
  "in_thread p \<longleftrightarrow> p \<noteq> P_none \<and> p \<noteq> P_done"

definition touches_handle :: "poll_pc \<Rightarrow> bool" where
  "touches_handle p \<longleftrightarrow> (\<exists>n. p = P_check n \<or> p = P_claim n \<or> p = P_call n)"

text \<open>
  The invariant: a thread that has not finished is a started one, whose handle lives, and which
  has counted at most the maximal number of cycles; \<open>main\<close> is before its join.
\<close>

fun cycle_of :: "poll_pc \<Rightarrow> nat" where
  "cycle_of (P_test n) = n"
| "cycle_of (P_check n) = n + 1"
| "cycle_of (P_claim n) = n + 1"
| "cycle_of (P_call n) = n + 1"
| "cycle_of (P_sleep n) = n + 1"
| "cycle_of _ = 0"

definition sys_inv :: "system \<Rightarrow> bool" where
  "sys_inv S \<longleftrightarrow>
     (in_thread (ppc S) \<longrightarrow> poll_thread_started (sess S) \<noteq> 0 \<and>
        mpc S \<in> {M_check, M_claim, M_call, M_stop, M_join, M_final_stop, M_final_join}) \<and>
     (mpc S = M_start \<longrightarrow> ppc S = P_none \<and> poll_thread_started (sess S) = 0) \<and>
     (poll_thread_started (sess S) \<noteq> 0 \<longrightarrow> ppc S \<noteq> P_none) \<and>
     (mpc S \<in> {M_join, M_final_join} \<longrightarrow> poll_thread_started (sess S) \<noteq> 0) \<and>
     (mpc S \<noteq> M_end \<longrightarrow> calc (sess S) \<noteq> None) \<and>
     (mpc S = M_end \<longrightarrow> calc (sess S) = None \<and> cable (sess S) = None) \<and>
     cycle_of (ppc S) \<le> CALC_SESSION_MAX_POLL_CYCLES"

lemma start_polling_result:
  "calc_session_start_polling ok (Some s) i = (st, Some s') \<Longrightarrow> calc s \<noteq> None \<Longrightarrow>
   calc s' = calc s \<and> cable s' = cable s \<and>
   (st = APP_OK \<longrightarrow> poll_thread_started s' = 1 \<and> poll_active s' = 1) \<and>
   (st \<noteq> APP_OK \<longrightarrow> poll_thread_started s' = poll_thread_started s)"
  by (auto simp: calc_session_start_polling_def Let_def split: if_splits)

lemma sys_inv_step: "step A S S' \<Longrightarrow> sys_inv S \<Longrightarrow> sys_inv S'"
proof (induction rule: step.induct)
  case (start_ok S s')
  then show ?case using start_polling_result [OF start_ok(2)]
    by (auto simp: sys_inv_def in_thread_def)
next
  case (start_failed S ok st s')
  then show ?case using start_polling_result [OF start_failed(2)]
    by (auto simp: sys_inv_def in_thread_def)
next
  case (cleanup S s' ev)
  then show ?case using cleanup_releases [OF cleanup(2)]
    by (auto simp: sys_inv_def in_thread_def)
qed (auto simp: sys_inv_def in_thread_def)

lemma sys_inv_reachable: "reachable A S \<Longrightarrow> sys_inv S"
proof (induction rule: reachable.induct)
  case (reach_init S)
  then show ?case by (simp add: initial_def sys_inv_def in_thread_def)
qed (rule sys_inv_step)

text \<open>A thread that has not finished can always move; so can \<open>main\<close>, unless it waits for the thread.\<close>

lemma thread_moves: "in_thread (ppc S) \<Longrightarrow> A \<noteq> {} \<Longrightarrow> \<exists>S'. step A S S'"
  unfolding in_thread_def
  by (cases "ppc S"; cases "poll_active (sess S) = 0"; cases "busy S")
    (blast intro: step.poll_on step.poll_off step.poll_busy step.poll_free step.poll_claim
      step.poll_answer step.poll_wake step.poll_exit)+

lemma main_moves:
  assumes "sys_inv S" and "A \<noteq> {}" and "mpc S \<noteq> M_end" and "ppc S = P_none \<or> ppc S = P_done"
  shows "\<exists>S'. step A S S'"
proof (cases "mpc S")
  case M_start
  then obtain s' where "calc_session_start_polling True (Some (sess S)) 1000 = (APP_OK, Some s')"
    using assms(1) by (auto simp: sys_inv_def calc_session_start_polling_def Let_def)
  then show ?thesis using step.start_ok M_start by blast
next
  case M_cleanup
  obtain s' ev where "calc_session_cleanup (Some (sess S)) = (Some s', ev)"
    by (cases "calc (sess S)"; cases "cable (sess S)") (simp_all add: calc_session_cleanup_def)
  then show ?thesis using step.cleanup M_cleanup by blast
next
  case M_join
  then have "ppc S = P_done" using assms by (auto simp: sys_inv_def)
  then show ?thesis using step.stop_join M_join by blast
next
  case M_final_join
  then have "ppc S = P_done" using assms by (auto simp: sys_inv_def)
  then show ?thesis using step.final_join M_final_join by blast
next
  case M_call
  obtain a where "a \<in> A" using assms(2) by blast
  then show ?thesis using step.main_ready step.main_unready M_call by (cases "a = 0") blast+
next
  case M_check
  then show ?thesis using step.main_busy step.main_free by (cases "busy S") blast+
next
  case M_stop
  then show ?thesis using step.stop_signal step.stop_idle by (cases "poll_thread_started (sess S) = 0") blast+
next
  case M_final_stop
  then show ?thesis using step.final_signal step.final_idle by (cases "poll_thread_started (sess S) = 0") blast+
qed (use assms(3) step.main_claim step.menu in blast)+

text \<open>A run in which both threads are inside the call, and one in which \<open>main\<close> is told it is busy.\<close>

definition demo_session :: CalcSession where
  "demo_session = \<lparr>cable = Some 1, calc = Some 2, cable_model = CABLE_SLV, calc_model = CALC_TI83P,
     port_number = 1, poll_interval_ms = 0, poll_active = 0, poll_thread_started = 0\<rparr>"

definition demo_system :: system where
  "demo_system = \<lparr>sess = demo_session, busy = False, ppc = P_none, mpc = M_start, err = APP_OK\<rparr>"

definition demo_polling :: CalcSession where
  "demo_polling = demo_session\<lparr>poll_interval_ms := 1000, poll_active := 1, poll_thread_started := 1\<rparr>"

lemma demo_started: "reachable A (demo_system\<lparr>sess := demo_polling, ppc := P_test 0, mpc := M_check\<rparr>)"
proof (rule reach_step [OF reach_init step.start_ok])
  show "initial demo_system" by (simp add: initial_def demo_system_def demo_session_def)
qed (simp_all add: demo_system_def demo_session_def demo_polling_def calc_session_start_polling_def)

lemma demo_polling_at:
  "reachable A (demo_system\<lparr>sess := demo_polling, mpc := M_check, ppc := P_claim 0\<rparr>)"
proof -
  let ?S1 = "demo_system\<lparr>sess := demo_polling, ppc := P_test 0, mpc := M_check\<rparr>"
  let ?S2 = "?S1\<lparr>ppc := P_check 0\<rparr>"
  have "step A ?S1 (?S1\<lparr>ppc := (if calc (sess ?S1) \<noteq> None then P_check 0 else P_sleep 0)\<rparr>)"
    by (rule step.poll_on) (simp_all add: demo_polling_def CALC_SESSION_MAX_POLL_CYCLES_def)
  then have "reachable A ?S2"
    using reach_step [OF demo_started] by (simp add: demo_polling_def demo_session_def)
  moreover have "step A ?S2 (?S2\<lparr>ppc := P_claim 0\<rparr>)"
    by (rule step.poll_free) (simp_all add: demo_system_def)
  ultimately show ?thesis using reach_step by fastforce
qed

lemma race_both_inside: "\<exists>S. reachable A S \<and> ppc S = P_call 0 \<and> mpc S = M_call"
proof -
  let ?S1 = "demo_system\<lparr>sess := demo_polling, mpc := M_check, ppc := P_claim 0\<rparr>"
  let ?S2 = "?S1\<lparr>mpc := M_claim\<rparr>"
  let ?S3 = "?S2\<lparr>busy := True, ppc := P_call 0\<rparr>"
  let ?S4 = "?S3\<lparr>busy := True, mpc := M_call\<rparr>"
  have "reachable A ?S2"
    by (rule reach_step [OF demo_polling_at step.main_free]) (simp_all add: demo_system_def)
  then have "reachable A ?S3" by (rule reach_step [OF _ step.poll_claim]) simp
  then have "reachable A ?S4" by (rule reach_step [OF _ step.main_claim]) simp
  then show ?thesis by (rule exI [where x = ?S4, OF conjI]) simp
qed

lemma race_spurious_refusal:
  "\<exists>S. reachable {0} S \<and> mpc S = M_final_stop \<and> err S = APP_ERR_NOT_READY"
proof -
  let ?S1 = "demo_system\<lparr>sess := demo_polling, mpc := M_check, ppc := P_claim 0\<rparr>"
  let ?S2 = "?S1\<lparr>busy := True, ppc := P_call 0\<rparr>"
  let ?S3 = "?S2\<lparr>err := APP_ERR_NOT_READY, mpc := M_final_stop\<rparr>"
  have "reachable {0} ?S2" by (rule reach_step [OF demo_polling_at step.poll_claim]) simp
  then have "reachable {0} ?S3" by (rule reach_step [OF _ step.main_busy]) simp_all
  then show ?thesis by (rule exI [where x = ?S3, OF conjI]) simp
qed

section \<open>Properties\<close>

text \<open>
  C27: opening a session is lawful in every outcome of the library: no handle is used before it
  exists or freed twice, the device list is always freed, success leaves exactly the session's
  two handles live and linked, any failure leaves nothing live and both pointers NULL, and the
  cleanup of an opened session returns everything, the calculator before its cable.
\<close>

theorem session_open_resources:
  assumes "cable s = None" and "calc s = None"
    and "calc_session_open env (Some s) = (st, Some s', ev)"
  shows "use_events ev no_resources = Some (session_resources s') \<and>
    (if st = APP_OK then calc s' \<noteq> None \<and> cable s' \<noteq> None
     else calc s' = None \<and> cable s' = None) \<and>
    use_events (ev @ snd (calc_session_cleanup (Some s'))) no_resources = Some no_resources"
  using open_outcome [OF assms] cleanup_returns_resources [of s']
  by (simp add: use_events_append)

definition demo_env :: "int \<Rightarrow> ti_env" where
  "demo_env attached = \<lparr>usb_devices = Some [\<lparr>family = CABLE_FAMILY_DBUS, variant = CABLE_VARIANT_TIGLUSB\<rparr>],
     probe = (\<lambda>c p. (0, CALC_TI83P)), new_cable = (\<lambda>c p. Some 1), new_calc = (\<lambda>m. Some 2),
     attach = (\<lambda>c b. attached)\<rparr>"

definition demo_closed :: CalcSession where
  "demo_closed = demo_session\<lparr>cable := None, calc := None\<rparr>"

lemmas demo_open_defs = demo_env_def demo_closed_def demo_session_def calc_session_open_def
  open_select_def open_cable_def open_calc_def open_attach_def open_timeout_def
  ticalcs_device_info_to_model_def ticalcs_remap_model_from_usb_def calc_session_cleanup_def

lemma session_open_resources_witness:
  "use_events [Devices_listed, Cable_new 1, Calc_new 2, Devices_freed, Calc_del 2, Cable_del 1] no_resources
     = Some no_resources
   \<and> use_events [Devices_listed, Cable_new 1, Calc_new 2, Attached 2 1, Timeout_set 1 250, Devices_freed]
       no_resources = Some (session_resources demo_session)"
proof
  have "calc_session_open (demo_env 7) (Some demo_closed) = (APP_ERR_NO_CABLE, Some demo_closed,
     [Devices_listed, Cable_new 1, Calc_new 2, Devices_freed, Calc_del 2, Cable_del 1])"
    by (simp add: demo_open_defs)
  from session_open_resources [OF _ _ this]
  show "use_events [Devices_listed, Cable_new 1, Calc_new 2, Devices_freed, Calc_del 2, Cable_del 1] no_resources
     = Some no_resources"
    by (simp add: demo_closed_def demo_session_def session_resources_def no_resources_def)
  have "calc_session_open (demo_env 0) (Some demo_closed) = (APP_OK, Some demo_session,
     [Devices_listed, Cable_new 1, Calc_new 2, Attached 2 1, Timeout_set 1 250, Devices_freed])"
    by (simp add: demo_open_defs)
  from session_open_resources [OF _ _ this]
  show "use_events [Devices_listed, Cable_new 1, Calc_new 2, Attached 2 1, Timeout_set 1 250, Devices_freed]
       no_resources = Some (session_resources demo_session)"
    by (simp add: demo_closed_def)
qed

text \<open>
  The polling thread ends after at most 3,600,000 cycles, runs while \<open>poll_active\<close> is set,
  and prints one line exactly when the readiness of the calculator changes.
\<close>

lemma polling_reports_changes:
  assumes "calc s \<noteq> None" and "calc_session_polling_thread active isready (Some s) = (out, n, s')"
  shows "out = remdups_adj (map (\<lambda>k. readiness (isready k)) [0..<n]) \<and>
    n \<le> 3600000 \<and> (n = 3600000 \<or> active n = 0) \<and> (\<forall>k < n. active k \<noteq> 0) \<and>
    s' = Some (s\<lparr>poll_active := 0\<rparr>)"
proof -
  have loop: "poll_loop active isready True 0 (-1) = (out, n)" and s': "s' = Some (s\<lparr>poll_active := 0\<rparr>)"
    using assms by (auto simp: calc_session_polling_thread_def split: prod.splits)
  show ?thesis
    using poll_loop_reports [OF _ loop] poll_loop_stops [OF loop] s'
    unfolding CALC_SESSION_MAX_POLL_CYCLES_def [symmetric] by (simp add: seen_def)
qed

lemma polling_reports_changes_witness:
  "[Calculator_ready, Calculator_not_ready] =
     remdups_adj (map (\<lambda>k. readiness (if k < 2 then 0 else 5 :: int)) [0..<4 :: nat])"
proof -
  have few: "0 < CALC_SESSION_MAX_POLL_CYCLES" "Suc 0 < CALC_SESSION_MAX_POLL_CYCLES"
    "Suc (Suc 0) < CALC_SESSION_MAX_POLL_CYCLES" "Suc (Suc (Suc 0)) < CALC_SESSION_MAX_POLL_CYCLES"
    by (simp_all add: CALC_SESSION_MAX_POLL_CYCLES_def)
  have "calc_session_polling_thread (\<lambda>k. if k < 4 then 1 else 0) (\<lambda>k. if k < 2 then 0 else 5) (Some demo_session)
    = ([Calculator_ready, Calculator_not_ready], 4, Some demo_session)"
    by (simp add: calc_session_polling_thread_def poll_loop.simps poll_report_def demo_session_def few)
  from polling_reports_changes [OF _ this] show ?thesis by (simp add: demo_session_def)
qed

text \<open>
  C9: in no interleaving of \<open>main\<close> and the thread does the thread use the calculator handle after
  \<open>main\<close> deleted it; when \<open>main\<close> ends the thread is gone and both handles are released.
\<close>

theorem no_use_after_cleanup:
  assumes "reachable A S"
  shows "(if touches_handle (ppc S) then calc (sess S) \<noteq> None \<and> poll_thread_started (sess S) \<noteq> 0 else True) \<and>
    (mpc S \<in> {M_menu, M_cleanup, M_end} \<longrightarrow> \<not> in_thread (ppc S)) \<and>
    (mpc S = M_end \<longrightarrow> calc (sess S) = None \<and> cable (sess S) = None) \<and>
    cycle_of (ppc S) \<le> 3600000"
proof -
  have inv: "sys_inv S" by (rule sys_inv_reachable [OF assms])
  have "touches_handle (ppc S) \<Longrightarrow> in_thread (ppc S)" by (auto simp: touches_handle_def in_thread_def)
  then show ?thesis
    using inv unfolding CALC_SESSION_MAX_POLL_CYCLES_def [symmetric] sys_inv_def
    by (cases "mpc S") auto
qed

lemma no_use_after_cleanup_witness:
  "calc demo_polling \<noteq> None \<and> poll_thread_started demo_polling \<noteq> 0"
  using no_use_after_cleanup [OF demo_polling_at [of "{}"]] by (simp add: touches_handle_def split: if_splits)

text \<open>
  C24: no interleaving deadlocks: until \<open>main\<close> has ended some step is possible, so neither join
  waits for a thread that was never started or cannot finish.
\<close>

theorem shutdown_no_deadlock:
  assumes "reachable A S" and "a \<in> A" and "mpc S \<noteq> M_end"
  shows "\<exists>S'. step A S S'"
proof (cases "in_thread (ppc S)")
  case True
  then show ?thesis using thread_moves assms(2) by blast
next
  case False
  then show ?thesis
    using main_moves [OF sys_inv_reachable [OF assms(1)] _ assms(3)] assms(2) by (auto simp: in_thread_def)
qed

lemma shutdown_no_deadlock_witness:
  "\<exists>S'. step {0} (demo_system\<lparr>sess := demo_polling, ppc := P_test 0, mpc := M_check\<rparr>) S'"
  by (rule shutdown_no_deadlock [OF demo_started, of 0]) simp_all

text \<open>
  C40: the ready check of \<open>main\<close> races with the thread it has just started: both can be inside
  \<open>ticalcs_calc_isready\<close> on the one handle at once, and \<open>main\<close> can be told \<open>ERR_BUSY\<close> and give up
  with \<open>APP_ERR_NOT_READY\<close> although the calculator answers ready every time it is asked.
\<close>

theorem ready_check_races:
  "(\<exists>S. reachable {0} S \<and> (\<exists>n. ppc S = P_call n) \<and> mpc S = M_call) \<and>
   (\<exists>S. reachable {0} S \<and> mpc S = M_final_stop \<and> err S = APP_ERR_NOT_READY)"
  using race_both_inside race_spurious_refusal by blast

end
