(* ===== verification/Wallet_Crypto.thy ===== *)
theory Wallet_Crypto
  imports Sha512 Calc_Session
begin

text \<open>
  \<open>wallet_crypto.c\<close> and \<open>keypair/seed.c\<close>: random bytes, HMAC-SHA-512, PBKDF2, the two stream keys,
  and the sealed private-key blob (version, salt, nonce, ciphertext, MAC).  The references are
  RFC 2104 and RFC 8018 over the reference hash.  Local buffers that are wiped before a function
  returns are not part of its result.  \<open>/dev/urandom\<close> is the list of what its next reads return.
\<close>

section \<open>Randomness\<close>

datatype urandom = Open_failed | Read bytes

text \<open>The result of \<open>fread\<close> is not looked at: a short read leaves the rest of \<open>seed\<close> as it was.\<close>

definition ed25519_create_seed :: "urandom list \<Rightarrow> bytes \<Rightarrow> int \<times> bytes \<times> urandom list" where
  "ed25519_create_seed entropy seed =
     (case entropy of
        Read bs # rest \<Rightarrow> (0, write_at seed 0 (take 32 bs), rest)
      | Open_failed # rest \<Rightarrow> (1, seed, rest)
      | [] \<Rightarrow> (1, seed, []))"

definition WALLET_BLOB_VERSION :: byte where "WALLET_BLOB_VERSION = 1"
definition WALLET_SALT_LEN :: nat where "WALLET_SALT_LEN = 16"
definition WALLET_NONCE_LEN :: nat where "WALLET_NONCE_LEN = 12"
definition WALLET_MAC_LEN :: nat where "WALLET_MAC_LEN = 32"
definition WALLET_PRIVATE_KEY_LEN :: nat where "WALLET_PRIVATE_KEY_LEN = 64"
definition WALLET_SEED_LEN :: nat where "WALLET_SEED_LEN = 32"
definition WALLET_BLOB_LEN :: nat where
  "WALLET_BLOB_LEN = 1 + WALLET_SALT_LEN + WALLET_NONCE_LEN + WALLET_PRIVATE_KEY_LEN + WALLET_MAC_LEN"

lemmas wallet_lens = WALLET_SALT_LEN_def WALLET_NONCE_LEN_def WALLET_MAC_LEN_def
  WALLET_PRIVATE_KEY_LEN_def WALLET_SEED_LEN_def WALLET_BLOB_LEN_def

text \<open>\<open>stale\<close> is what the uninitialised stack array \<open>seed\<close> holds when an iteration starts.\<close>

function random_loop :: "bytes \<Rightarrow> urandom list \<Rightarrow> bytes \<Rightarrow> nat \<Rightarrow> nat \<Rightarrow> app_status \<times> bytes \<times> urandom list" where
  "random_loop stale entropy buffer offset len =
     (if offset < len then
        (let copy_len = len - offset;
             (ret, seed, entropy) = ed25519_create_seed entropy stale
         in if ret \<noteq> 0 then (APP_ERR_IO, buffer, entropy)
            else (let copy_len = (if copy_len > WALLET_SEED_LEN then WALLET_SEED_LEN else copy_len)
                  in random_loop stale entropy (write_at buffer offset (take copy_len seed)) (offset + copy_len) len))
      else (APP_OK, buffer, entropy))"
  by pat_completeness auto
termination
  by (relation "measure (\<lambda>(_, _, _, offset, len). len - offset)") (auto simp: WALLET_SEED_LEN_def)

declare random_loop.simps [simp del]

definition wallet_random_bytes ::
    "bytes \<Rightarrow> urandom list \<Rightarrow> bytes option \<Rightarrow> nat \<Rightarrow> app_status \<times> bytes option \<times> urandom list" where
  "wallet_random_bytes stale entropy buffer_ptr len =
     (case buffer_ptr of
        None \<Rightarrow> (APP_ERR_IO, None, entropy)
      | Some buffer \<Rightarrow>
          (case random_loop stale entropy buffer 0 len of (status, buffer, entropy) \<Rightarrow> (status, Some buffer, entropy)))"

definition wallet_secure_zero :: "bytes option \<Rightarrow> nat \<Rightarrow> bytes option" where
  "wallet_secure_zero ptr len =
     (case ptr of None \<Rightarrow> None | Some bs \<Rightarrow> Some (write_at bs 0 (replicate len 0)))"

section \<open>HMAC, PBKDF2 and the stream keys\<close>

definition hmac_sha512 :: "bytes \<Rightarrow> bytes \<Rightarrow> bytes \<Rightarrow> bytes" where
  "hmac_sha512 key data out_digest =
     (let key = (if length key > 128
                 then (case sha512 sha512_fresh (Some key) (Some (replicate 64 0)) of
                         (_, Some temp_key) \<Rightarrow> temp_key | (_, None) \<Rightarrow> [])
                 else key);
          kopad = write_at (replicate 128 0) 0 key;
          kipad = write_at (replicate 128 0) 0 key;
          kopad = map (\<lambda>b. b XOR 0x5c) kopad;
          kipad = map (\<lambda>b. b XOR 0x36) kipad;
          ctx = sha512_init sha512_fresh;
          (_, ctx) = sha512_update ctx (Some kipad);
          (_, ctx) = sha512_update ctx (Some data);
          (_, ctx, inner_digest) = sha512_final ctx (Some (replicate 64 0));
          ctx = sha512_init ctx;
          (_, ctx) = sha512_update ctx (Some kopad);
          (_, ctx) = sha512_update ctx inner_digest;
          (_, ctx, out) = sha512_final ctx (Some out_digest)
      in (case out of Some d \<Rightarrow> d | None \<Rightarrow> out_digest))"

text \<open>The inner loop: \<open>n\<close> further iterations on \<open>(u, t)\<close>.\<close>

primrec pbkdf2_iterate :: "bytes \<Rightarrow> nat \<Rightarrow> bytes \<times> bytes \<Rightarrow> bytes \<times> bytes" where
  "pbkdf2_iterate password 0 ut = ut"
| "pbkdf2_iterate password (Suc n) ut =
     (let u = hmac_sha512 password (fst ut) (fst ut); t = map2 (XOR) (snd ut) u
      in pbkdf2_iterate password n (u, t))"

definition pbkdf2_block :: "bytes \<Rightarrow> bytes \<Rightarrow> nat \<Rightarrow> u32 \<Rightarrow> bytes" where
  "pbkdf2_block password salt iterations block_index =
     (let first_input = write_at (replicate 20 0) 0 salt;
          first_input = first_input[length salt + 0 := ucast (drop_bit 24 block_index AND 0xff)];
          first_input = first_input[length salt + 1 := ucast (drop_bit 16 block_index AND 0xff)];
          first_input = first_input[length salt + 2 := ucast (drop_bit 8 block_index AND 0xff)];
          first_input = first_input[length salt + 3 := ucast (block_index AND 0xff)];
          u = hmac_sha512 password (take (length salt + 4) first_input) (replicate 64 0)
      in snd (pbkdf2_iterate password (iterations - 1) (u, u)))"

definition pbkdf2_write :: "bytes \<Rightarrow> bytes \<Rightarrow> nat \<Rightarrow> bytes \<Rightarrow> nat \<Rightarrow> bytes" where
  "pbkdf2_write password salt iterations output block_index =
     (let offset = (block_index - 1) * 64;
          copy_len = length output - offset;
          t = pbkdf2_block password salt iterations (of_nat block_index);
          copy_len = (if copy_len > 64 then 64 else copy_len)
      in write_at output offset (take copy_len t))"

definition pbkdf2_hmac_sha512 ::
    "bytes option \<Rightarrow> bytes option \<Rightarrow> u32 \<Rightarrow> bytes option \<Rightarrow> app_status \<times> bytes option" where
  "pbkdf2_hmac_sha512 password salt iterations output =
     (case (password, salt, output) of
        (Some password, Some salt, Some out) \<Rightarrow>
          if iterations = 0 then (APP_ERR_IO, output)
          else if length salt > WALLET_SALT_LEN then (APP_ERR_IO, output)
          else (APP_OK, Some (foldl (pbkdf2_write password salt (unat iterations)) out
                               [1 ..< (length out + 64 - 1) div 64 + 1]))
      | _ \<Rightarrow> (APP_ERR_IO, output))"

definition derive_stream_key :: "bytes option \<Rightarrow> bytes option \<Rightarrow> string option \<Rightarrow> bytes option \<Rightarrow> bytes option" where
  "derive_stream_key master_key nonce label derived =
     (case (master_key, nonce, label, derived) of
        (Some master_key, Some nonce, Some label, Some out) \<Rightarrow>
          if length nonce > WALLET_NONCE_LEN then derived
          else
            (let info = replicate (16 + WALLET_NONCE_LEN) 0;
                 label = map byte_of_char (c_string label);
                 label_len = (if length label > length info then length info else length label);
                 info = write_at info 0 (take label_len label);
                 info = write_at info label_len nonce;
                 digest = hmac_sha512 (take 64 master_key) (take (label_len + length nonce) info) (replicate 64 0);
                 copy_len = (if length out > 64 then 64 else length out)
             in Some (write_at out 0 (take copy_len digest)))
      | _ \<Rightarrow> derived)"

definition constant_time_compare :: "bytes option \<Rightarrow> bytes option \<Rightarrow> nat \<Rightarrow> int" where
  "constant_time_compare a b len =
     (case (a, b) of
        (Some a, Some b) \<Rightarrow>
          (let diff = foldl (\<lambda>diff index. diff OR (a ! index XOR b ! index)) 0 [0..<len]
           in if diff \<noteq> 0 then 1 else 0)
      | _ \<Rightarrow> 1)"

definition PBKDF2_ITERATIONS :: u32 where "PBKDF2_ITERATIONS = 200000"

section \<open>Sealing and opening the private key\<close>

definition wallet_encrypt_private_key ::
    "bytes \<Rightarrow> urandom list \<Rightarrow> string option \<Rightarrow> bytes option \<Rightarrow> nat \<Rightarrow> bytes option \<Rightarrow> nat
     \<Rightarrow> app_status \<times> bytes option \<times> urandom list" where
  "wallet_encrypt_private_key stale entropy password private_key private_key_len out_blob out_blob_len =
     (case (password, private_key, out_blob) of
        (Some password, Some private_key, Some blob) \<Rightarrow>
          if private_key_len = WALLET_PRIVATE_KEY_LEN \<and> out_blob_len \<ge> WALLET_BLOB_LEN then
            (let password = map byte_of_char (c_string password) in
             if length password > 0 then
               (let (salt_status, salt, entropy) = wallet_random_bytes stale entropy (Some (replicate 16 0)) WALLET_SALT_LEN;
                    (nonce_status, nonce, entropy) = wallet_random_bytes stale entropy (Some (replicate 12 0)) WALLET_NONCE_LEN
                in if salt_status = APP_OK \<and> nonce_status = APP_OK then
                     (let (status, master_key) =
                            pbkdf2_hmac_sha512 (Some password) salt PBKDF2_ITERATIONS (Some (replicate 64 0))
                      in if status = APP_OK then
                           (let keystream = derive_stream_key master_key nonce (Some ''ENC'') (Some (replicate 64 0));
                                mac_key = derive_stream_key master_key nonce (Some ''MAC'') (Some (replicate 64 0));
                                ciphertext = map (\<lambda>index. private_key ! index XOR the keystream ! index) [0..<64];
                                auth_input = write_at (replicate 76 0) 0 (the nonce);
                                auth_input = write_at auth_input WALLET_NONCE_LEN ciphertext;
                                mac_full = hmac_sha512 (the mac_key) auth_input (replicate 64 0);
                                mac_truncated = take WALLET_MAC_LEN mac_full;
                                blob = blob[0 := WALLET_BLOB_VERSION];
                                blob = write_at blob 1 (the salt);
                                blob = write_at blob (1 + 16) (the nonce);
                                blob = write_at blob (1 + 16 + 12) ciphertext;
                                blob = write_at blob (1 + 16 + 12 + 64) mac_truncated
                            in (APP_OK, Some blob, entropy))
                         else (APP_ERR_CRYPTO, out_blob, entropy))
                   else (APP_ERR_IO, out_blob, entropy))
             else (APP_ERR_IO, out_blob, entropy))
          else (APP_ERR_IO, out_blob, entropy)
      | _ \<Rightarrow> (APP_ERR_IO, out_blob, entropy))"

text \<open>The status of \<open>wallet_decrypt_private_key\<close> and the output buffer before the final wipe.\<close>

definition decrypt_body ::
    "string option \<Rightarrow> bytes option \<Rightarrow> nat \<Rightarrow> bytes option \<Rightarrow> nat \<Rightarrow> app_status \<times> bytes option" where
  "decrypt_body password blob blob_len out_private_key private_key_len =
     (case (password, blob, out_private_key) of
        (Some password, Some blob, Some out) \<Rightarrow>
          if blob_len \<ge> WALLET_BLOB_LEN \<and> private_key_len = WALLET_PRIVATE_KEY_LEN then
            (let password = map byte_of_char (c_string password) in
             if length password > 0 then
               (if blob ! 0 = WALLET_BLOB_VERSION then
                  (let salt = take WALLET_SALT_LEN (drop 1 blob);
                       nonce = take WALLET_NONCE_LEN (drop (1 + WALLET_SALT_LEN) blob);
                       ciphertext = take WALLET_PRIVATE_KEY_LEN (drop (1 + WALLET_SALT_LEN + WALLET_NONCE_LEN) blob);
                       mac = drop (1 + WALLET_SALT_LEN + WALLET_NONCE_LEN + WALLET_PRIVATE_KEY_LEN) blob;
                       (status, master_key) =
                         pbkdf2_hmac_sha512 (Some password) (Some salt) PBKDF2_ITERATIONS (Some (replicate 64 0))
                   in if status = APP_OK then
                        (let mac_key = derive_stream_key master_key (Some nonce) (Some ''MAC'') (Some (replicate 64 0));
                             auth_input = write_at (replicate 76 0) 0 nonce;
                             auth_input = write_at auth_input WALLET_NONCE_LEN ciphertext;
                             mac_full = hmac_sha512 (the mac_key) auth_input (replicate 64 0);
                             mac_mismatch = constant_time_compare (Some mac) (Some mac_full) WALLET_MAC_LEN
                         in if mac_mismatch = 0 then
                              (let keystream = derive_stream_key master_key (Some nonce) (Some ''ENC'') (Some (replicate 64 0))
                               in (APP_OK, Some (write_at out 0
                                     (map (\<lambda>index. ciphertext ! index XOR the keystream ! index) [0..<64]))))
                            else (APP_ERR_CRYPTO, Some out))
                      else (APP_ERR_CRYPTO, Some out))
                else (APP_ERR_CRYPTO, Some out))
             else (APP_ERR_IO, Some out))
          else (APP_ERR_IO, Some out)
      | _ \<Rightarrow> (APP_ERR_IO, out_private_key))"

definition wallet_decrypt_private_key ::
    "string option \<Rightarrow> bytes option \<Rightarrow> nat \<Rightarrow> bytes option \<Rightarrow> nat \<Rightarrow> app_status \<times> bytes option" where
  "wallet_decrypt_private_key password blob blob_len out_private_key private_key_len =
     (let (status, out) = decrypt_body password blob blob_len out_private_key private_key_len
      in (status,
          if status \<noteq> APP_OK \<and> out \<noteq> None \<and> private_key_len = WALLET_PRIVATE_KEY_LEN
          then wallet_secure_zero out private_key_len else out))"

section \<open>References\<close>

text \<open>RFC 2104 over a hash of block size \<open>B\<close>.\<close>

definition rfc_hmac :: "(bytes \<Rightarrow> bytes) \<Rightarrow> nat \<Rightarrow> bytes \<Rightarrow> bytes \<Rightarrow> bytes" where
  "rfc_hmac H B key m =
     (let K = (if length key > B then H key else key);
          K0 = K @ replicate (B - length K) 0
      in H (map (\<lambda>b. b XOR 0x5c) K0 @ H (map (\<lambda>b. b XOR 0x36) K0 @ m)))"

text \<open>RFC 8018: the iterates \<open>U_j\<close>, their sum \<open>F\<close>, and the derived key.\<close>

fun rfc_U :: "(bytes \<Rightarrow> bytes \<Rightarrow> bytes) \<Rightarrow> bytes \<Rightarrow> bytes \<Rightarrow> nat \<Rightarrow> nat \<Rightarrow> bytes" where
  "rfc_U prf P S i 0 = prf P (S @ be_bytes 4 i)"
| "rfc_U prf P S i (Suc j) = prf P (rfc_U prf P S i j)"

definition rfc_F :: "(bytes \<Rightarrow> bytes \<Rightarrow> bytes) \<Rightarrow> bytes \<Rightarrow> bytes \<Rightarrow> nat \<Rightarrow> nat \<Rightarrow> bytes" where
  "rfc_F prf P S c i = foldl (map2 (XOR)) (rfc_U prf P S i 0) (map (rfc_U prf P S i) [1..<c])"

definition rfc_pbkdf2 :: "(bytes \<Rightarrow> bytes \<Rightarrow> bytes) \<Rightarrow> bytes \<Rightarrow> bytes \<Rightarrow> nat \<Rightarrow> nat \<Rightarrow> bytes" where
  "rfc_pbkdf2 prf P S c dkLen =
     take dkLen (concat (map (rfc_F prf P S c) [1 ..< (dkLen + 63) div 64 + 1]))"

abbreviation prf_sha512 :: "bytes \<Rightarrow> bytes \<Rightarrow> bytes" where
  "prf_sha512 \<equiv> rfc_hmac fips_sha512 128"

section \<open>HMAC and PBKDF2 are the reference ones\<close>

lemma final_absorbed_buf:
  assumes "ctx_absorbed md m" and "8 * length m < 2 ^ 64"
  shows "\<exists>md'. sha512_final md (Some out) = (0, md', Some (write_at out 0 (fips_sha512 m)))
     \<and> length (md_buf md') = 128"
proof -
  have cur: "md_curlen md < 128" "length (md_buf md) = 128" using assms(1) by (auto simp: ctx_absorbed_def)
  have "length (md_buf (final_last (final_spill (final_open md)))) = 128"
    using cur by (auto simp: final_last_def final_spill_def final_open_def zero_fill_def STORE64H_be_bytes)
  then show ?thesis
    using final_absorbed [OF assms, of out] final_stages [of md out] cur by auto
qed

lemma absorbed_two:
  assumes "length (md_buf md) = 128"
  shows "\<exists>md'. sha512_update (sha512_init md) (Some a) = (0, md') \<and>
     (\<exists>md''. sha512_update md' (Some b) = (0, md'') \<and> ctx_absorbed md'' (a @ b))"
  using update_absorbed [OF absorbed_init [OF assms], of a] update_absorbed by fastforce

lemma hmac_computes:
  assumes "length key < 2 ^ 60" and "length data < 2 ^ 60"
  shows "hmac_sha512 key data out = write_at out 0 (prf_sha512 key data)"
proof -
  define K where "K = (if length key > 128 then fips_sha512 key else key)"
  define K0 where "K0 = K @ replicate (128 - length K) 0"
  have fresh: "length (md_buf sha512_fresh) = 128" by (simp add: sha512_fresh_def)
  have k: "(if length key > 128
       then (case sha512 sha512_fresh (Some key) (Some (replicate 64 0)) of
               (_, Some temp_key) \<Rightarrow> temp_key | (_, None) \<Rightarrow> []) else key) = K"
    using sha512_computes [OF fresh, of key "replicate 64 0"] assms(1) by (simp add: K_def)
  have "length K \<le> 128" by (simp add: K_def)
  then have pad: "write_at (replicate 128 0) 0 K = K0" by (simp add: K0_def)
  define ipad where "ipad = map (\<lambda>b. b XOR 0x36) K0"
  define opad where "opad = map (\<lambda>b. b XOR 0x5c) K0"
  have len: "length ipad = 128" "length opad = 128" using \<open>length K \<le> 128\<close> by (simp_all add: ipad_def opad_def K0_def)
  obtain c1 c2 where c: "sha512_update (sha512_init sha512_fresh) (Some ipad) = (0, c1)"
    "sha512_update c1 (Some data) = (0, c2)" "ctx_absorbed c2 (ipad @ data)"
    using absorbed_two [OF fresh] by blast
  obtain c3 where c3: "sha512_final c2 (Some (replicate 64 0)) = (0, c3, Some (fips_sha512 (ipad @ data)))"
    "length (md_buf c3) = 128"
    using final_absorbed_buf [OF c(3), of "replicate 64 0"] len assms(2) by auto
  obtain c4 c5 where o: "sha512_update (sha512_init c3) (Some opad) = (0, c4)"
    "sha512_update c4 (Some (fips_sha512 (ipad @ data))) = (0, c5)"
    "ctx_absorbed c5 (opad @ fips_sha512 (ipad @ data))"
    using absorbed_two [OF c3(2)] by blast
  obtain c6 where "sha512_final c5 (Some out)
      = (0, c6, Some (write_at out 0 (fips_sha512 (opad @ fips_sha512 (ipad @ data)))))"
    using final_absorbed_buf [OF o(3), of out] len by auto
  then show ?thesis
    unfolding hmac_sha512_def Let_def k pad ipad_def [symmetric] opad_def [symmetric] rfc_hmac_def
      K_def [symmetric] K0_def [symmetric]
    by (simp add: c c3 o)
qed

lemma length_prf [simp]: "length (prf_sha512 k m) = 64"
  by (simp add: rfc_hmac_def Let_def)

lemma hmac_prf: "length key < 2 ^ 60 \<Longrightarrow> length data < 2 ^ 60 \<Longrightarrow> length out = 64 \<Longrightarrow>
   hmac_sha512 key data out = prf_sha512 key data"
  by (simp add: hmac_computes)

lemma length_rfc_U [simp]: "length (rfc_U prf_sha512 P S i j) = 64"
  by (cases j) simp_all

lemma iterate_U:
  assumes "length P < 2 ^ 60"
  shows "pbkdf2_iterate P n (rfc_U prf_sha512 P S i j, t)
    = (rfc_U prf_sha512 P S i (j + n), foldl (map2 (XOR)) t (map (rfc_U prf_sha512 P S i) [j + 1..<j + n + 1]))"
proof (induction n arbitrary: j t)
  case (Suc n)
  have "hmac_sha512 P (rfc_U prf_sha512 P S i j) (rfc_U prf_sha512 P S i j) = rfc_U prf_sha512 P S i (Suc j)"
    using assms by (simp add: hmac_prf)
  moreover have "[j + 1..<j + Suc n + 1] = (j + 1) # [Suc j + 1..<Suc j + n + 1]"
    by (simp add: upt_conv_Cons)
  ultimately show ?case using Suc [of "Suc j"] by (simp add: Let_def)
qed simp

lemma ucast_byte_of_u32: "ucast (drop_bit k (x :: u32) AND 0xff) = (of_nat (unat x div 2 ^ k) :: byte)"
proof -
  have "(of_nat (unat x div 2 ^ k) :: byte) = ucast (drop_bit k x)"
    by (metis drop_bit_eq_div of_nat_unat unat_drop_bit_eq unsigned_ucast_eq ucast_id of_nat_unat)
  moreover have m: "(255 :: u32) = mask 8" by (simp add: mask_eq_exp_minus_1)
  have "ucast (drop_bit k x AND 255) = (ucast (drop_bit k x) :: byte)"
    unfolding m by (rule bit_word_eqI) (auto simp: bit_simps)
  ultimately show ?thesis by simp
qed

lemma be_bytes_4: "be_bytes 4 v =
   [of_nat (v div 2 ^ 24), of_nat (v div 2 ^ 16), of_nat (v div 2 ^ 8), of_nat v]"
proof -
  have "rev [0..<4] = [3, 2, 1, 0 :: nat]" by (simp add: upt_conv_Cons)
  then show ?thesis unfolding be_bytes_def by simp
qed

lemma first_input:
  fixes w :: u32
  assumes "length salt \<le> 16"
  shows "take (length salt + 4)
     (((((write_at (replicate 20 0) 0 salt)
        [length salt + 0 := ucast (drop_bit 24 w AND 0xff)])
        [length salt + 1 := ucast (drop_bit 16 w AND 0xff)])
        [length salt + 2 := ucast (drop_bit 8 w AND 0xff)])
        [length salt + 3 := ucast (w AND 0xff)]) = salt @ be_bytes 4 (unat w)"
proof -
  have "replicate (20 - length salt) (0 :: byte) = [0, 0, 0, 0] @ replicate (16 - length salt) 0"
    using assms replicate_join [of 4 "16 - length salt" "20 - length salt" "0 :: byte" "[]"]
    by (simp add: eval_nat_numeral)
  moreover have "ucast (w AND 0xff) = (of_nat (unat w) :: byte)" using ucast_byte_of_u32 [of 0 w] by simp
  ultimately show ?thesis
    by (simp add: list_update_append be_bytes_4 ucast_byte_of_u32)
qed

lemma block_F:
  assumes "length P < 2 ^ 60" and "length S \<le> 16" and "0 < c" and "i < 2 ^ 32"
  shows "pbkdf2_block P S c (of_nat i) = rfc_F prf_sha512 P S c i"
proof -
  have i: "unat (of_nat i :: u32) = i" using assms(4) by (subst unat_of_nat) simp
  have u: "hmac_sha512 P (S @ be_bytes 4 i) (replicate 64 0) = rfc_U prf_sha512 P S i 0"
    using assms(1,2) by (simp add: hmac_prf)
  have "0 + (c - 1) + 1 = c" using assms(3) by simp
  then show ?thesis
    unfolding pbkdf2_block_def Let_def first_input [OF assms(2)] i u iterate_U [OF assms(1)]
    by (simp add: rfc_F_def)
qed

lemma length_foldl_map2:
  "length t = 64 \<Longrightarrow> \<forall>x \<in> set xs. length x = 64 \<Longrightarrow> length (foldl (map2 (XOR)) (t :: bytes) xs) = 64"
  by (induction xs arbitrary: t) auto

lemma length_rfc_F [simp]: "length (rfc_F prf_sha512 P S c i) = 64"
  unfolding rfc_F_def by (rule length_foldl_map2) auto

lemma length_blocks: "length (concat (map (rfc_F prf_sha512 P S c) xs)) = 64 * length xs"
  by (induction xs) auto

lemma write_blocks:
  assumes "length P < 2 ^ 60" and "length S \<le> 16" and "0 < c" and "length out \<le> 2 ^ 32"
    and "k \<le> (length out + 63) div 64"
  shows "foldl (pbkdf2_write P S c) out [1..<k + 1]
    = take (length out) (concat (map (rfc_F prf_sha512 P S c) [1..<k + 1])) @ drop (64 * k) out"
  using assms(5)
proof (induction k)
  case (Suc k)
  define C where "C = concat (map (rfc_F prf_sha512 P S c) [1..<k + 1])"
  define t where "t = rfc_F prf_sha512 P S c (k + 1)"
  have C: "length C = 64 * k" by (simp add: C_def length_blocks)
  have t: "length t = 64" by (simp add: t_def)
  have lt: "64 * k < length out" using Suc.prems by linarith
  have IH: "foldl (pbkdf2_write P S c) out [1..<k + 1] = C @ drop (64 * k) out"
    using Suc.IH Suc.prems unfolding C_def [symmetric] using C lt by simp
  have idx: "k + 1 < 2 ^ 32" using lt assms(4) by simp
  have upt: "[1..<Suc k + 1] = [1..<k + 1] @ [k + 1]" by simp
  have blk: "pbkdf2_block P S c (of_nat (k + 1)) = t"
    unfolding t_def by (rule block_F [OF assms(1,2,3) idx])
  define n where "n = (if length out - 64 * k > 64 then 64 else length out - 64 * k)"
  have len: "length (C @ drop (64 * k) out) = length out" "k * 64 = 64 * k" using C lt by simp_all
  have "pbkdf2_write P S c (C @ drop (64 * k) out) (k + 1) = write_at (C @ drop (64 * k) out) (64 * k) (take n t)"
    unfolding pbkdf2_write_def Let_def blk len diff_add_inverse2 n_def by (rule refl)
  also have "\<dots> = C @ take n t @ drop (64 * k + n) out"
    using C t by (simp add: write_at_def n_def add.commute)
  also have "\<dots> = take (length out) (C @ t) @ drop (64 * Suc k) out"
    using C t lt by (auto simp: n_def add.commute)
  finally show ?case unfolding upt foldl_append IH by (simp add: C_def t_def)
qed simp

lemma pbkdf2_computes:
  assumes "length P < 2 ^ 60" and "length S \<le> 16" and "c \<noteq> 0" and "length out \<le> 2 ^ 32"
  shows "pbkdf2_hmac_sha512 (Some P) (Some S) c (Some out)
    = (APP_OK, Some (rfc_pbkdf2 prf_sha512 P S (unat c) (length out)))"
proof -
  have c: "0 < unat c" using assms(3) by (simp add: unat_gt_0)
  define n where "n = (length out + 63) div 64"
  have "length out \<le> 64 * n" unfolding n_def by linarith
  then have w: "foldl (pbkdf2_write P S (unat c)) out [1..<n + 1]
      = take (length out) (concat (map (rfc_F prf_sha512 P S (unat c)) [1..<n + 1]))"
    using write_blocks [OF assms(1,2) c assms(4), of n] by (simp add: n_def del: upt_Suc)
  have n: "(length out + 64 - 1) div 64 = n" by (simp add: n_def)
  show ?thesis
    using assms(2,3) w unfolding pbkdf2_hmac_sha512_def rfc_pbkdf2_def prod.case option.case n n_def [symmetric]
    by (simp add: wallet_lens del: upt_Suc)
qed

section \<open>The other helpers\<close>

lemma xor_eq_zero_iff: "(a :: byte) XOR b = 0 \<longleftrightarrow> a = b"
  by (metis xor.assoc xor_self_eq xor.left_neutral)

lemma diff_zero_iff:
  "foldl (\<lambda>diff index. diff OR (a ! index XOR b ! index)) d ixs = (0 :: byte)
   \<longleftrightarrow> d = 0 \<and> (\<forall>i \<in> set ixs. a ! i = b ! i)"
  by (induction ixs arbitrary: d) (auto simp: or_eq_0_iff xor_eq_zero_iff)

lemma compare_equal:
  assumes "n \<le> length a" and "n \<le> length b"
  shows "constant_time_compare (Some a) (Some b) n = (if take n a = take n b then 0 else 1)"
proof -
  have "(\<forall>i \<in> set [0..<n]. a ! i = b ! i) \<longleftrightarrow> take n a = take n b"
    using assms by (auto simp: list_eq_iff_nth_eq min_def)
  then show ?thesis by (simp add: constant_time_compare_def diff_zero_iff)
qed

definition stream_key :: "bytes \<Rightarrow> bytes \<Rightarrow> string \<Rightarrow> bytes" where
  "stream_key master nonce label = prf_sha512 master (map byte_of_char label @ nonce)"

lemma length_stream_key [simp]: "length (stream_key m n l) = 64"
  by (simp add: stream_key_def)

lemma derive_computes:
  assumes "length master = 64" and "length nonce = 12" and "NUL \<notin> set label" and "length label \<le> 16"
  shows "derive_stream_key (Some master) (Some nonce) (Some label) (Some (replicate 64 0))
    = Some (stream_key master nonce label)"
proof -
  define l where "l = map byte_of_char label"
  have l: "length l = length label" by (simp add: l_def)
  have "c_string label = label" using assms(3) unfolding c_string_def by (induction label) auto
  then have cl: "map byte_of_char (c_string label) = l" by (simp add: l_def)
  have info: "take (length l + 12) (write_at (l @ drop (length l) (replicate 28 0)) (length l) nonce) = l @ nonce"
    using assms(2,4) l by (simp add: write_at_def)
  show ?thesis
    unfolding derive_stream_key_def prod.case option.case Let_def cl
    using assms l info by (simp add: wallet_lens hmac_prf stream_key_def l_def [symmetric])
qed

lemma seed_length: "length stale = 32 \<Longrightarrow> ed25519_create_seed e stale = (r, seed, e') \<Longrightarrow> length seed = 32"
  by (auto simp: ed25519_create_seed_def split: list.splits urandom.splits)

lemma random_loop_length:
  "length stale = 32 \<Longrightarrow> n \<le> length buffer \<Longrightarrow> random_loop stale e buffer off n = (st, b, e') \<Longrightarrow>
   length b = length buffer"
proof (induction stale e buffer off n rule: random_loop.induct)
  case (1 stale e buffer off n)
  show ?case
  proof (cases "off < n")
    case True
    obtain r seed e1 where cs: "ed25519_create_seed e stale = (r, seed, e1)" by (metis prod_cases3)
    show ?thesis
    proof (cases "r = 0")
      case False
      then show ?thesis using 1(4) True cs by (subst (asm) random_loop.simps) simp
    next
      case ok: True
      define c where "c = (if n - off > WALLET_SEED_LEN then WALLET_SEED_LEN else n - off)"
      have next': "random_loop stale e1 (write_at buffer off (take c seed)) (off + c) n = (st, b, e')"
        using 1(4) True cs ok by (subst (asm) random_loop.simps) (simp add: c_def [symmetric] Let_def)
      have len: "length (write_at buffer off (take c seed)) = length buffer"
        using seed_length [OF 1(2) cs] True 1(3) by (simp add: c_def wallet_lens)
      have "length b = length (write_at buffer off (take c seed))"
        by (rule 1(1) [OF True refl refl cs [symmetric] refl _ c_def 1(2)  _ next']) (use ok len 1(3) in simp_all)
      then show ?thesis using len by simp
    qed
  qed (use 1(4) in \<open>subst (asm) random_loop.simps, simp\<close>)
qed

lemma random_bytes_length:
  "length stale = 32 \<Longrightarrow> wallet_random_bytes stale e (Some (replicate n 0)) n = (st, bp, e') \<Longrightarrow>
   \<exists>b. bp = Some b \<and> length b = n"
  using random_loop_length [of stale n "replicate n 0" e 0]
  by (auto simp: wallet_random_bytes_def split: prod.splits)

section \<open>The sealed blob\<close>

definition master_key :: "bytes \<Rightarrow> bytes \<Rightarrow> bytes" where
  "master_key pw salt = rfc_pbkdf2 prf_sha512 pw salt (unat PBKDF2_ITERATIONS) 64"

definition cipher :: "bytes \<Rightarrow> bytes \<Rightarrow> bytes \<Rightarrow> bytes \<Rightarrow> bytes" where
  "cipher pw salt nonce text' = map2 (XOR) text' (stream_key (master_key pw salt) nonce ''ENC'')"

definition tag :: "bytes \<Rightarrow> bytes \<Rightarrow> bytes \<Rightarrow> bytes \<Rightarrow> bytes" where
  "tag pw salt nonce ct =
     take 32 (prf_sha512 (stream_key (master_key pw salt) nonce ''MAC'') (nonce @ ct))"

definition seal :: "bytes \<Rightarrow> bytes \<Rightarrow> bytes \<Rightarrow> bytes \<Rightarrow> bytes" where
  "seal pw salt nonce key =
     WALLET_BLOB_VERSION # salt @ nonce @ cipher pw salt nonce key @ tag pw salt nonce (cipher pw salt nonce key)"

lemma length_rfc_pbkdf2: "length (rfc_pbkdf2 prf_sha512 P S c 64) = 64"
  unfolding rfc_pbkdf2_def by (simp add: rfc_F_def [symmetric] length_blocks)

lemma length_master_key [simp]: "length (master_key pw salt) = 64"
  by (simp add: master_key_def length_rfc_pbkdf2)

lemma length_cipher [simp]: "length (cipher pw salt nonce k) = min (length k) 64"
  by (simp add: cipher_def)

lemma length_tag [simp]: "length (tag pw salt nonce ct) = 32"
  by (simp add: tag_def)

lemma length_seal:
  "length salt = 16 \<Longrightarrow> length nonce = 12 \<Longrightarrow> length key = 64 \<Longrightarrow> length (seal pw salt nonce key) = 125"
  by (simp add: seal_def)

lemma xor_index_map2:
  "length a = 64 \<Longrightarrow> length b = 64 \<Longrightarrow> map (\<lambda>i. a ! i XOR b ! i :: byte) [0..<64] = map2 (XOR) a b"
  by (rule nth_equalityI) auto

lemma cipher_twice:
  assumes "length key = 64"
  shows "cipher pw salt nonce (cipher pw salt nonce key) = key"
proof -
  have "length ks = length k \<Longrightarrow> map2 (XOR) (map2 (XOR) k ks) ks = (k :: bytes)" for k ks
    by (induction k ks rule: list_induct2') (auto simp: xor.assoc)
  then show ?thesis unfolding cipher_def using assms by simp
qed

lemma master_computes:
  assumes "length pw < 2 ^ 60" and "length salt = 16"
  shows "pbkdf2_hmac_sha512 (Some pw) (Some salt) PBKDF2_ITERATIONS (Some (replicate 64 0))
    = (APP_OK, Some (master_key pw salt))"
  using pbkdf2_computes [of pw salt PBKDF2_ITERATIONS "replicate 64 0"] assms
  by (simp add: master_key_def PBKDF2_ITERATIONS_def)

lemma auth_input:
  "length nonce = 12 \<Longrightarrow> length ct = 64 \<Longrightarrow>
   write_at (write_at (replicate 76 0) 0 nonce) WALLET_NONCE_LEN ct = nonce @ ct"
  by (simp add: write_at_def wallet_lens)

lemma encrypt_computes:
  fixes pw :: string
  assumes "length stale = 32" and "c_string pw \<noteq> []" and "length (c_string pw) < 2 ^ 60"
    and "length key = 64" and "length blob = blob_len" and "125 \<le> blob_len"
    and "wallet_random_bytes stale e (Some (replicate 16 0)) WALLET_SALT_LEN = (APP_OK, Some salt, e1)"
    and "wallet_random_bytes stale e1 (Some (replicate 12 0)) WALLET_NONCE_LEN = (APP_OK, Some nonce, e2)"
  shows "wallet_encrypt_private_key stale e (Some pw) (Some key) WALLET_PRIVATE_KEY_LEN (Some blob) blob_len
    = (APP_OK, Some (seal (map byte_of_char (c_string pw)) salt nonce key @ drop 125 blob), e2)"
proof -
  define p where "p = map byte_of_char (c_string pw)"
  have p: "0 < length p" "length p < 2 ^ 60" using assms(2,3) by (simp_all add: p_def)
  have salt: "length salt = 16" and nonce: "length nonce = 12"
    using random_bytes_length [OF assms(1), of e 16] random_bytes_length [OF assms(1), of e1 12] assms(7,8)
    by (auto simp: wallet_lens)
  have ks: "derive_stream_key (Some (master_key p salt)) (Some nonce) (Some ''ENC'') (Some (replicate 64 0))
      = Some (stream_key (master_key p salt) nonce ''ENC'')"
    "derive_stream_key (Some (master_key p salt)) (Some nonce) (Some ''MAC'') (Some (replicate 64 0))
      = Some (stream_key (master_key p salt) nonce ''MAC'')"
    using nonce by (simp_all add: derive_computes)
  define ct where "ct = cipher p salt nonce key"
  have ct: "map (\<lambda>i. key ! i XOR stream_key (master_key p salt) nonce ''ENC'' ! i) [0..<64] = ct" "length ct = 64"
    using assms(4) by (simp_all add: xor_index_map2 ct_def cipher_def)
  have mac: "take WALLET_MAC_LEN (hmac_sha512 (stream_key (master_key p salt) nonce ''MAC'') (nonce @ ct) (replicate 64 0))
      = tag p salt nonce ct"
    using nonce ct by (simp add: hmac_prf tag_def wallet_lens)
  obtain b0 brest where blob: "blob = b0 # brest" using assms(5,6) by (cases blob) auto
  have "write_at (write_at (write_at (write_at (blob[0 := WALLET_BLOB_VERSION]) 1 salt) (1 + 16) nonce) (1 + 16 + 12) ct)
      (1 + 16 + 12 + 64) (tag p salt nonce ct) = seal p salt nonce key @ drop 125 blob"
    using salt nonce ct by (simp add: write_at_def seal_def ct_def [symmetric] blob)
  moreover have "WALLET_BLOB_LEN \<le> blob_len" using assms(6) by (simp add: wallet_lens)
  ultimately show ?thesis
    unfolding wallet_encrypt_private_key_def prod.case option.case Let_def p_def [symmetric] assms(7)
      assms(8) master_computes [OF p(2) salt] option.sel ks ct(1) auth_input [OF nonce ct(2)] mac
    using p(1) by simp
qed

definition blob_salt :: "bytes \<Rightarrow> bytes" where "blob_salt blob = take 16 (drop 1 blob)"
definition blob_nonce :: "bytes \<Rightarrow> bytes" where "blob_nonce blob = take 12 (drop 17 blob)"
definition blob_cipher :: "bytes \<Rightarrow> bytes" where "blob_cipher blob = take 64 (drop 29 blob)"
definition blob_mac :: "bytes \<Rightarrow> bytes" where "blob_mac blob = take 32 (drop 93 blob)"

lemmas blob_parts = blob_salt_def blob_nonce_def blob_cipher_def blob_mac_def

lemma seal_parts:
  assumes "length salt = 16" and "length nonce = 12" and "length key = 64"
  shows "blob_salt (seal pw salt nonce key @ rest) = salt" "blob_nonce (seal pw salt nonce key @ rest) = nonce"
    "blob_cipher (seal pw salt nonce key @ rest) = cipher pw salt nonce key"
    "blob_mac (seal pw salt nonce key @ rest) = tag pw salt nonce (cipher pw salt nonce key)"
  using assms by (simp_all add: blob_parts seal_def)

lemma decrypt_computes:
  fixes pw :: string
  assumes "c_string pw \<noteq> []" and "length (c_string pw) < 2 ^ 60"
    and "125 \<le> length blob" and "blob ! 0 = WALLET_BLOB_VERSION" and "64 \<le> length out"
  defines "p \<equiv> map byte_of_char (c_string pw)"
  shows "wallet_decrypt_private_key (Some pw) (Some blob) (length blob) (Some out) WALLET_PRIVATE_KEY_LEN
    = (if blob_mac blob = tag p (blob_salt blob) (blob_nonce blob) (blob_cipher blob)
       then (APP_OK, Some (cipher p (blob_salt blob) (blob_nonce blob) (blob_cipher blob) @ drop 64 out))
       else (APP_ERR_CRYPTO, Some (replicate 64 0 @ drop 64 out)))"
proof -
  define salt where "salt = blob_salt blob"
  define nonce where "nonce = blob_nonce blob"
  define ct where "ct = blob_cipher blob"
  have p: "0 < length p" "length p < 2 ^ 60" using assms(1,2) by (simp_all add: p_def)
  have len: "length salt = 16" "length nonce = 12" "length ct = 64"
    using assms(3) by (simp_all add: salt_def nonce_def ct_def blob_parts)
  have parts: "take WALLET_SALT_LEN (drop 1 blob) = salt"
    "take WALLET_NONCE_LEN (drop (1 + WALLET_SALT_LEN) blob) = nonce"
    "take WALLET_PRIVATE_KEY_LEN (drop (1 + WALLET_SALT_LEN + WALLET_NONCE_LEN) blob) = ct"
    "drop (1 + WALLET_SALT_LEN + WALLET_NONCE_LEN + WALLET_PRIVATE_KEY_LEN) blob = drop 93 blob"
    by (simp_all add: salt_def nonce_def ct_def blob_parts wallet_lens)
  have ks: "derive_stream_key (Some (master_key p salt)) (Some nonce) (Some ''ENC'') (Some (replicate 64 0))
      = Some (stream_key (master_key p salt) nonce ''ENC'')"
    "derive_stream_key (Some (master_key p salt)) (Some nonce) (Some ''MAC'') (Some (replicate 64 0))
      = Some (stream_key (master_key p salt) nonce ''MAC'')"
    using len by (simp_all add: derive_computes)
  have plain: "map (\<lambda>i. ct ! i XOR stream_key (master_key p salt) nonce ''ENC'' ! i) [0..<64] = cipher p salt nonce ct"
    using len by (simp add: xor_index_map2 cipher_def)
  let ?full = "hmac_sha512 (stream_key (master_key p salt) nonce ''MAC'') (nonce @ ct) (replicate 64 0)"
  have full: "length ?full = 64" "take 32 ?full = tag p salt nonce ct"
    using len by (simp_all add: hmac_prf tag_def)
  have cmp: "constant_time_compare (Some (drop 93 blob)) (Some ?full) WALLET_MAC_LEN
      = (if blob_mac blob = tag p salt nonce ct then 0 else 1)"
    using assms(3) full by (subst compare_equal) (simp_all add: wallet_lens blob_mac_def)
  have big: "WALLET_BLOB_LEN \<le> length blob" using assms(3) by (simp add: wallet_lens)
  have body: "decrypt_body (Some pw) (Some blob) (length blob) (Some out) WALLET_PRIVATE_KEY_LEN
    = (if blob_mac blob = tag p salt nonce ct
       then (APP_OK, Some (write_at out 0 (cipher p salt nonce ct))) else (APP_ERR_CRYPTO, Some out))"
    unfolding decrypt_body_def prod.case option.case Let_def p_def [symmetric] parts
      master_computes [OF p(2) len(1)] option.sel ks plain auth_input [OF len(2,3)] cmp
    using p(1) big assms(4) by simp
  show ?thesis
    unfolding wallet_decrypt_private_key_def body salt_def [symmetric] nonce_def [symmetric] ct_def [symmetric]
    using len by (simp add: wallet_secure_zero_def wallet_lens)
qed

lemma decrypt_failure_leaves:
  assumes "wallet_decrypt_private_key pw blob n (Some out) len = (st, out')" and "st \<noteq> APP_OK"
  shows "out' = Some (if len = WALLET_PRIVATE_KEY_LEN then replicate 64 0 @ drop 64 out else out)"
proof -
  obtain st0 o0 where b: "decrypt_body pw blob n (Some out) len = (st0, o0)" by fastforce
  have "st0 \<noteq> APP_OK \<Longrightarrow> o0 = Some out"
    using b unfolding decrypt_body_def Let_def
    by (auto split: option.splits if_splits prod.splits)
  then show ?thesis using assms b by (auto simp: wallet_decrypt_private_key_def wallet_secure_zero_def wallet_lens)
qed

lemma blob_front:
  assumes "length b = 125"
  shows "blob_salt (take 93 b @ m) = blob_salt b" "blob_nonce (take 93 b @ m) = blob_nonce b" "blob_cipher (take 93 b @ m) = blob_cipher b"
  using assms by (simp_all add: blob_parts drop_take)

lemma decrypt_any:
  fixes pw :: string
  assumes "length (c_string pw) < 2 ^ 60" and "64 \<le> length out"
  defines "p \<equiv> map byte_of_char (c_string pw)"
  shows "wallet_decrypt_private_key (Some pw) (Some blob) (length blob) (Some out) WALLET_PRIVATE_KEY_LEN
    = (if c_string pw = [] \<or> length blob < 125 then (APP_ERR_IO, Some (replicate 64 0 @ drop 64 out))
       else if blob ! 0 = WALLET_BLOB_VERSION \<and> blob_mac blob = tag p (blob_salt blob) (blob_nonce blob) (blob_cipher blob)
       then (APP_OK, Some (cipher p (blob_salt blob) (blob_nonce blob) (blob_cipher blob) @ drop 64 out))
       else (APP_ERR_CRYPTO, Some (replicate 64 0 @ drop 64 out)))"
proof -
  consider (io) "c_string pw = [] \<or> length blob < 125" | (version) "c_string pw \<noteq> []" "125 \<le> length blob" "blob ! 0 \<noteq> WALLET_BLOB_VERSION"
    | (mac) "c_string pw \<noteq> []" "125 \<le> length blob" "blob ! 0 = WALLET_BLOB_VERSION" by fastforce
  then show ?thesis
  proof cases
    case io
    then have "decrypt_body (Some pw) (Some blob) (length blob) (Some out) WALLET_PRIVATE_KEY_LEN = (APP_ERR_IO, Some out)"
      by (auto simp: decrypt_body_def wallet_lens Let_def)
    then show ?thesis using io by (auto simp: wallet_decrypt_private_key_def wallet_secure_zero_def wallet_lens)
  next
    case version
    then have "decrypt_body (Some pw) (Some blob) (length blob) (Some out) WALLET_PRIVATE_KEY_LEN = (APP_ERR_CRYPTO, Some out)"
      by (simp add: decrypt_body_def wallet_lens)
    then show ?thesis using version by (simp add: wallet_decrypt_private_key_def wallet_secure_zero_def wallet_lens)
  next
    case mac
    from decrypt_computes [OF mac(1) assms(1) mac(2,3) assms(2)] show ?thesis using mac by (simp add: p_def)
  qed
qed

lemma encrypt_ok_inv:
  fixes pw :: string
  assumes "length stale = 32" and "length (c_string pw) < 2 ^ 60" and "length key = 64"
    and "length blob = blob_len"
    and "wallet_encrypt_private_key stale e (Some pw) (Some key) WALLET_PRIVATE_KEY_LEN (Some blob) blob_len
       = (APP_OK, blob', e')"
  shows "\<exists>salt nonce. length salt = 16 \<and> length nonce = 12 \<and> c_string pw \<noteq> [] \<and> 125 \<le> blob_len \<and>
     blob' = Some (seal (map byte_of_char (c_string pw)) salt nonce key @ drop 125 blob)"
proof -
  obtain s1 saltp e1 where r1: "wallet_random_bytes stale e (Some (replicate 16 0)) WALLET_SALT_LEN = (s1, saltp, e1)"
    by (metis prod_cases3)
  obtain s2 noncep e2 where r2: "wallet_random_bytes stale e1 (Some (replicate 12 0)) WALLET_NONCE_LEN = (s2, noncep, e2)"
    by (metis prod_cases3)
  obtain salt where salt: "saltp = Some salt" "length salt = 16"
    using random_bytes_length [OF assms(1) r1 [unfolded WALLET_SALT_LEN_def]] by blast
  obtain nonce where nonce: "noncep = Some nonce" "length nonce = 12"
    using random_bytes_length [OF assms(1) r2 [unfolded WALLET_NONCE_LEN_def]] by blast
  have ok: "WALLET_BLOB_LEN \<le> blob_len" "c_string pw \<noteq> []" "s1 = APP_OK" "s2 = APP_OK"
    using assms(5) r1 r2 by (auto simp: wallet_encrypt_private_key_def Let_def split: if_splits)
  have "125 \<le> blob_len" using ok(1) by (simp add: wallet_lens)
  then show ?thesis
    using encrypt_computes [OF assms(1) ok(2) assms(2,3,4) _ r1 [unfolded salt ok] r2 [unfolded nonce ok]]
      assms(5) salt nonce ok by auto
qed

lemma random_loop_reads:
  assumes "\<forall>r \<in> set rs. length r = 32" and "length stale = 32"
  shows "off \<le> n \<Longrightarrow> n \<le> length buffer \<Longrightarrow> length rs = (n - off + 31) div 32 \<Longrightarrow>
   random_loop stale (map Read rs @ rest) buffer off n
     = (APP_OK, take off buffer @ take (n - off) (concat rs) @ drop n buffer, rest)"
  using assms(1)
proof (induction rs arbitrary: off buffer)
  case Nil
  then have "off = n" by simp
  then show ?case by (simp add: random_loop.simps)
next
  case (Cons r rs)
  then have lt: "off < n" and r: "length r = 32" by auto
  define c where "c = (if n - off > WALLET_SEED_LEN then WALLET_SEED_LEN else n - off)"
  have "c \<le> n - off" by (simp add: c_def)
  then have c: "c \<le> 32" "off + c \<le> n" "n - (off + c) = n - off - c" using lt by (simp_all add: c_def wallet_lens)
  have "length rs = (n - (off + c) + 31) div 32"
  proof (cases "32 < n - off")
    case True
    then have "n - off + 31 = (n - (off + c) + 31) + 32" by (simp add: c_def wallet_lens)
    then have "(n - off + 31) div 32 = Suc ((n - (off + c) + 31) div 32)" by simp
    then show ?thesis using Cons.prems(3) by simp
  next
    case False
    then have "(n - off + 31) div 32 = 1" "c = n - off" using lt by (simp_all add: c_def wallet_lens)
    then show ?thesis using Cons.prems(3) by simp
  qed
  note len_rs = this
  have "length (write_at buffer off (take c r)) = length buffer" using Cons.prems(2) lt c r by simp
  then have room: "n \<le> length (write_at buffer off (take c r))" using Cons.prems(2) by simp
  have full: "\<forall>r \<in> set rs. length r = 32" using Cons.prems(4) by simp
  have IH: "random_loop stale (map Read rs @ rest) (write_at buffer off (take c r)) (off + c) n
     = (APP_OK, take (off + c) (write_at buffer off (take c r)) @ take (n - (off + c)) (concat rs)
          @ drop n (write_at buffer off (take c r)), rest)"
    by (rule Cons.IH [OF c(2) room len_rs full])
  have "take (n - off) (concat (r # rs)) = take c r @ take (n - (off + c)) (concat rs)"
    using r lt by (auto simp: c_def wallet_lens)
  moreover have "random_loop stale (map Read (r # rs) @ rest) buffer off n
     = random_loop stale (map Read rs @ rest) (write_at buffer off (take c r)) (off + c) n"
    using lt r assms(2) by (subst random_loop.simps) (simp add: ed25519_create_seed_def c_def)
  moreover have "take (off + c) (write_at buffer off (take c r)) = take off buffer @ take c r"
    "drop n (write_at buffer off (take c r)) = drop n buffer"
    using lt c r Cons.prems(2) take_write_at [of off buffer "take c r"] by (simp_all add: drop_write_at)
  ultimately show ?case by (simp add: IH)
qed

section \<open>Properties\<close>

text \<open>
  C1: a blob sealed under a password opens under it and gives back the same 64 bytes, whatever
  the salt and nonce were and whatever the output buffer held.
\<close>

theorem wallet_roundtrip:
  assumes "length stale = 32" and "length (c_string pw) < 2 ^ 60" and "length key = 64"
    and "length blob = blob_len" and "length out = 64"
    and "wallet_encrypt_private_key stale e (Some pw) (Some key) WALLET_PRIVATE_KEY_LEN (Some blob) blob_len
       = (APP_OK, Some blob', e')"
  shows "wallet_decrypt_private_key (Some pw) (Some blob') blob_len (Some out) WALLET_PRIVATE_KEY_LEN
    = (APP_OK, Some key)"
proof -
  obtain salt nonce where len: "length salt = 16" "length nonce = 12" and pw: "c_string pw \<noteq> []" "125 \<le> blob_len"
    and blob': "blob' = seal (map byte_of_char (c_string pw)) salt nonce key @ drop 125 blob"
    using encrypt_ok_inv [OF assms(1,2,3,4,6)] by auto
  have l: "length blob' = blob_len" using length_seal [OF len assms(3)] assms(4) pw(2) by (simp add: blob')
  have "blob' ! 0 = WALLET_BLOB_VERSION" by (simp add: blob' seal_def)
  then show ?thesis
    using decrypt_computes [OF pw(1) assms(2), of blob' out] pw(2) l assms(3,5) len
    by (simp add: blob' seal_parts cipher_twice)
qed

lemma encrypt_demo:
  assumes "length stale = 32" "length key = 64" and pw: "c_string pw = ''pw''"
  shows "\<exists>salt nonce. wallet_encrypt_private_key stale [Read (replicate 32 1), Read (replicate 32 2)]
     (Some pw) (Some key) WALLET_PRIVATE_KEY_LEN (Some (replicate 125 0)) 125
     = (APP_OK, Some (seal (map byte_of_char ''pw'') salt nonce key), [])"
proof -
  have r1: "wallet_random_bytes stale [Read (replicate 32 1), Read (replicate 32 2)]
      (Some (replicate 16 0)) WALLET_SALT_LEN = (APP_OK, Some (replicate 16 1), [Read (replicate 32 2)])"
    using random_loop_reads [of "[replicate 32 1]" stale 0 16 "replicate 16 0" "[Read (replicate 32 2)]"]
    assms(1) by (simp add: wallet_random_bytes_def wallet_lens)
  have r2: "wallet_random_bytes stale [Read (replicate 32 2)]
      (Some (replicate 12 0)) WALLET_NONCE_LEN = (APP_OK, Some (replicate 12 2), [])"
    using random_loop_reads [of "[replicate 32 2]" stale 0 12 "replicate 12 0" "[]"]
    assms(1) by (simp add: wallet_random_bytes_def wallet_lens)
  show ?thesis
    using encrypt_computes [of stale pw key "replicate 125 0" 125, OF _ _ _ _ _ _ r1 r2] assms
    by (auto simp: pw)
qed

lemma wallet_roundtrip_witness:
  "\<exists>blob'. wallet_decrypt_private_key (Some ''pw'') (Some blob') 125 (Some (replicate 64 3)) WALLET_PRIVATE_KEY_LEN
     = (APP_OK, Some (replicate 64 7))"
proof -
  have pw: "c_string ''pw'' = ''pw''" by (simp add: c_string_def)
  obtain salt nonce where "wallet_encrypt_private_key (replicate 32 9) [Read (replicate 32 1), Read (replicate 32 2)]
     (Some ''pw'') (Some (replicate 64 7)) WALLET_PRIVATE_KEY_LEN (Some (replicate 125 0)) 125
     = (APP_OK, Some (seal (map byte_of_char ''pw'') salt nonce (replicate 64 7)), [])"
    using encrypt_demo [of "replicate 32 9" "replicate 64 7", OF _ _ pw] by auto
  then show ?thesis
    by (intro exI, rule wallet_roundtrip [rotated 5]) (simp_all add: pw)
qed

text \<open>
  C23: the hand-written HMAC computes RFC 2104 over FIPS SHA-512 for every key length, the hashing
  of keys longer than a block included.
\<close>

theorem hmac_is_rfc2104:
  assumes "length key < 2 ^ 60" and "length data < 2 ^ 60" and "length out = 64"
  shows "hmac_sha512 key data out = rfc_hmac fips_sha512 128 key data"
  using assms by (rule hmac_prf)

lemma hmac_is_rfc2104_witness:
  "hmac_sha512 (replicate 200 0xaa) [1, 2] (replicate 64 0)
   = fips_sha512 (map (\<lambda>b. b XOR 0x5c) (fips_sha512 (replicate 200 0xaa) @ replicate 64 0)
       @ fips_sha512 (map (\<lambda>b. b XOR 0x36) (fips_sha512 (replicate 200 0xaa) @ replicate 64 0) @ [1, 2]))"
  using hmac_is_rfc2104 [of "replicate 200 0xaa" "[1, 2]" "replicate 64 0"] by (simp add: rfc_hmac_def Let_def)

text \<open>
  C12: \<open>pbkdf2_hmac_sha512\<close> derives the key of RFC 8018 for any output length, iteration count and
  salt of at most 16 bytes: the block counter is appended big-endian, the iterates are summed,
  and the last block is cut to the length asked for.
\<close>

theorem pbkdf2_is_rfc8018:
  assumes "length P < 2 ^ 60" and "length S \<le> 16" and "c \<noteq> 0" and "length out \<le> 2 ^ 32"
  shows "pbkdf2_hmac_sha512 (Some P) (Some S) c (Some out)
    = (APP_OK, Some (rfc_pbkdf2 (rfc_hmac fips_sha512 128) P S (unat c) (length out)))"
  using assms by (rule pbkdf2_computes)

lemma pbkdf2_is_rfc8018_witness:
  "pbkdf2_hmac_sha512 (Some [1]) (Some [2, 3]) 2 (Some (replicate 70 0))
    = (APP_OK, Some (rfc_pbkdf2 (rfc_hmac fips_sha512 128) [1] [2, 3] 2 70))"
  using pbkdf2_is_rfc8018 [of "[1]" "[2, 3]" 2 "replicate 70 0"] by simp

text \<open>
  C5: when a blob opens.  For every blob and every password of fewer than \<open>2^60\<close> characters, with a buffer
  of 64 bytes: an empty password or a blob shorter than 125 bytes is \<open>APP_ERR_IO\<close>; otherwise the blob opens,
  and gives its ciphertext deciphered under the password, exactly when its first byte is the version 1 and
  its stored MAC is the tag of its nonce and ciphertext under the password; a wrong version or a wrong MAC is
  \<open>APP_ERR_CRYPTO\<close>.  Whenever it does not open, the 64 output bytes are zero.
\<close>

theorem decrypt_authenticates:
  fixes pw :: string
  assumes "length (c_string pw) < 2 ^ 60" and "length out = 64"
  shows "wallet_decrypt_private_key (Some pw) (Some blob) (length blob) (Some out) WALLET_PRIVATE_KEY_LEN
    = (let p = map byte_of_char (c_string pw)
       in if c_string pw = [] \<or> length blob < 125 then (APP_ERR_IO, Some (replicate 64 0))
          else if blob ! 0 = WALLET_BLOB_VERSION \<and> blob_mac blob = tag p (blob_salt blob) (blob_nonce blob) (blob_cipher blob)
          then (APP_OK, Some (cipher p (blob_salt blob) (blob_nonce blob) (blob_cipher blob)))
          else (APP_ERR_CRYPTO, Some (replicate 64 0)))"
  unfolding Let_def using decrypt_any [OF assms(1), of out blob] assms(2) by simp

text \<open>A sealed blob opens; with another version, with its MAC changed, without its last byte or without a password it does not.\<close>

lemma decrypt_authenticates_witness:
  "let b = seal (map byte_of_char ''pw'') (replicate 16 1) (replicate 12 2) (replicate 64 7);
       open_with = (\<lambda>pw b. wallet_decrypt_private_key (Some pw) (Some b) (length b) (Some (replicate 64 3)) WALLET_PRIVATE_KEY_LEN)
   in open_with ''pw'' b = (APP_OK, Some (replicate 64 7))
    \<and> open_with ''pw'' (2 # tl b) = (APP_ERR_CRYPTO, Some (replicate 64 0))
    \<and> open_with ''pw'' (take 93 b @ map (\<lambda>x. x XOR 1) (drop 93 b)) = (APP_ERR_CRYPTO, Some (replicate 64 0))
    \<and> open_with ''pw'' (take 124 b) = (APP_ERR_IO, Some (replicate 64 0))
    \<and> open_with '''' b = (APP_ERR_IO, Some (replicate 64 0))"
proof -
  let ?pw = "map byte_of_char ''pw''" and ?s = "replicate 16 1 :: bytes" and ?n = "replicate 12 2 :: bytes" and ?k = "replicate 64 7 :: bytes"
  let ?b = "seal ?pw ?s ?n ?k"
  let ?bad = "take 93 ?b @ map (\<lambda>x. x XOR 1) (drop 93 ?b)"
  have l: "length ?b = 125" by (rule length_seal) simp_all
  have c: "c_string ''pw'' = ''pw''" "c_string '''' = []" by (simp_all add: c_string_def)
  have b0: "?b ! 0 = WALLET_BLOB_VERSION" by (simp add: seal_def)
  have good: "blob_salt ?b = ?s" "blob_nonce ?b = ?n" "blob_cipher ?b = cipher ?pw ?s ?n ?k" "blob_mac ?b = tag ?pw ?s ?n (cipher ?pw ?s ?n ?k)"
    using seal_parts [of ?s ?n ?k ?pw "[]"] by simp_all
  have parts: "blob_salt ?bad = ?s" "blob_nonce ?bad = ?n" "blob_cipher ?bad = cipher ?pw ?s ?n ?k"
    unfolding blob_front [OF l] good(1-3) by (rule refl)+
  have mac: "blob_mac ?bad = map (\<lambda>x. x XOR 1) (blob_mac ?b)"
    using l by (simp add: blob_mac_def)
  have ne: "map (\<lambda>x. x XOR 1) xs \<noteq> xs" if nonempty: "xs \<noteq> []" for xs :: bytes
  proof -
    obtain x ys where xs: "xs = x # ys" using nonempty by (cases xs) auto
    have "x XOR 1 \<noteq> x"
    proof
      assume "x XOR 1 = x"
      then have "x XOR (x XOR 1) = x XOR x" by simp
      then show False by (simp flip: xor.assoc)
    qed
    then show ?thesis by (simp add: xs)
  qed
  have "blob_mac ?b \<noteq> []" unfolding good(4) by (metis length_tag list.size(3) zero_neq_numeral)
  then have bad: "blob_mac ?bad \<noteq> tag ?pw ?s ?n (cipher ?pw ?s ?n ?k)"
    unfolding mac good(4) [symmetric] by (rule ne)
  have lb: "length ?bad = 125" "length (2 # tl ?b) = 125" "length (take 124 ?b) = 124" using l by simp_all
  have v: "(2 # tl ?b) ! 0 \<noteq> WALLET_BLOB_VERSION" by (simp add: WALLET_BLOB_VERSION_def)
  have pw: "length (c_string ''pw'') < 2 ^ 60" "length (c_string '''') < 2 ^ 60" unfolding c by simp_all
  have k: "cipher ?pw ?s ?n (cipher ?pw ?s ?n ?k) = ?k" by (rule cipher_twice) simp
  show ?thesis
    unfolding Let_def
  proof (intro conjI)
    show "wallet_decrypt_private_key (Some ''pw'') (Some ?b) (length ?b) (Some (replicate 64 3)) WALLET_PRIVATE_KEY_LEN = (APP_OK, Some ?k)"
      using decrypt_authenticates [OF pw(1), of "replicate 64 3" ?b] l b0 unfolding c Let_def good k by simp
    show "wallet_decrypt_private_key (Some ''pw'') (Some (2 # tl ?b)) (length (2 # tl ?b)) (Some (replicate 64 3)) WALLET_PRIVATE_KEY_LEN
        = (APP_ERR_CRYPTO, Some (replicate 64 0))"
      using decrypt_authenticates [OF pw(1), of "replicate 64 3" "2 # tl ?b"] lb(2) v unfolding c Let_def by simp
    show "wallet_decrypt_private_key (Some ''pw'') (Some ?bad) (length ?bad) (Some (replicate 64 3)) WALLET_PRIVATE_KEY_LEN
        = (APP_ERR_CRYPTO, Some (replicate 64 0))"
      using decrypt_authenticates [OF pw(1), of "replicate 64 3" ?bad] lb(1) bad unfolding c Let_def parts by simp
    show "wallet_decrypt_private_key (Some ''pw'') (Some (take 124 ?b)) (length (take 124 ?b)) (Some (replicate 64 3)) WALLET_PRIVATE_KEY_LEN
        = (APP_ERR_IO, Some (replicate 64 0))"
      using decrypt_authenticates [OF pw(1), of "replicate 64 3" "take 124 ?b"] lb(3) unfolding c Let_def by simp
    show "wallet_decrypt_private_key (Some '''') (Some ?b) (length ?b) (Some (replicate 64 3)) WALLET_PRIVATE_KEY_LEN
        = (APP_ERR_IO, Some (replicate 64 0))"
      using decrypt_authenticates [OF pw(2), of "replicate 64 3" ?b] unfolding c Let_def by simp
  qed
qed

text \<open>
  C30: what a failing call leaves in the output buffer, whatever the other arguments.  With the length of a
  private key, 64, as the length of the buffer its first 64 bytes are zero; with any other length the buffer
  is as it was, since the wipe is for that length only.
\<close>

theorem decrypt_failure_zeroes:
  assumes "wallet_decrypt_private_key pw blob n (Some out) len = (st, out')" and "st \<noteq> APP_OK"
  shows "out' = Some (if len = WALLET_PRIVATE_KEY_LEN then replicate 64 0 @ drop 64 out else out)"
  using assms by (rule decrypt_failure_leaves)

lemma decrypt_failure_zeroes_witness:
  "wallet_decrypt_private_key (Some '''') (Some (replicate 125 1)) 125 (Some (replicate 64 3)) 64 = (APP_ERR_IO, Some (replicate 64 0))
    \<and> wallet_decrypt_private_key None (Some [1]) 1 (Some (replicate 70 3)) 64 = (APP_ERR_IO, Some (replicate 64 0 @ replicate 6 3))
    \<and> wallet_decrypt_private_key (Some ''pw'') (Some (replicate 125 1)) 125 (Some [3, 3, 3]) 3 = (APP_ERR_IO, Some [3, 3, 3])"
proof -
  have st: "fst (wallet_decrypt_private_key (Some '''') (Some (replicate 125 1)) 125 (Some (replicate 64 3)) 64) = APP_ERR_IO"
    "fst (wallet_decrypt_private_key None (Some [1]) 1 (Some (replicate 70 3)) 64) = APP_ERR_IO"
    "fst (wallet_decrypt_private_key (Some ''pw'') (Some (replicate 125 1)) 125 (Some [3, 3, 3]) 3) = APP_ERR_IO"
    by (simp_all add: wallet_decrypt_private_key_def decrypt_body_def c_string_def wallet_lens)
  have leaves: "wallet_decrypt_private_key pw blob n (Some out) len
      = (APP_ERR_IO, Some (if len = WALLET_PRIVATE_KEY_LEN then replicate 64 0 @ drop 64 out else out))"
    if "fst (wallet_decrypt_private_key pw blob n (Some out) len) = APP_ERR_IO" for pw blob n out len
    using decrypt_failure_zeroes [of pw blob n out len APP_ERR_IO "snd (wallet_decrypt_private_key pw blob n (Some out) len)"] that
    by (simp add: prod_eq_iff)
  show ?thesis using leaves [OF st(1)] leaves [OF st(2)] leaves [OF st(3)] by (simp add: WALLET_PRIVATE_KEY_LEN_def)
qed

text \<open>
  When every read of \<open>/dev/urandom\<close> is complete, the buffer is filled with the bytes read, in
  order, 32 per read and as many reads as needed; bytes past the length asked for are kept.
\<close>

lemma random_bytes_complete_reads:
  assumes "\<forall>r \<in> set rs. length r = 32" and "length stale = 32" and "n \<le> length buffer"
    and "length rs = (n + 31) div 32"
  shows "wallet_random_bytes stale (map Read rs @ rest) (Some buffer) n
    = (APP_OK, Some (take n (concat rs) @ drop n buffer), rest)"
  using random_loop_reads [OF assms(1,2), of 0 n buffer rest] assms(3,4) by (simp add: wallet_random_bytes_def)

lemma random_bytes_complete_reads_witness:
  "wallet_random_bytes (replicate 32 0) [Read (replicate 32 5), Read (replicate 32 6), Open_failed] (Some (replicate 41 0)) 40
    = (APP_OK, Some (replicate 32 5 @ replicate 8 6 @ [0]), [Open_failed])"
  using random_bytes_complete_reads [of "[replicate 32 5, replicate 32 6]" "replicate 32 0" 40 "replicate 41 0" "[Open_failed]"]
  by simp

text \<open>
  A short read of \<open>/dev/urandom\<close> goes unnoticed: the call reports success and the bytes not
  read are what the stack held before, all of them when nothing was read.
\<close>

theorem random_bytes_short_read:
  assumes "length stale = 32" and "length r \<le> n" and "0 < n" and "n \<le> 32"
  shows "wallet_random_bytes stale (Read r # rest) (Some (replicate n 0)) n
    = (APP_OK, Some (r @ take (n - length r) (drop (length r) stale)), rest)"
  using assms
  by (simp add: wallet_random_bytes_def random_loop.simps ed25519_create_seed_def wallet_lens)

lemma random_bytes_short_read_witness:
  "wallet_random_bytes (replicate 32 9) [Read []] (Some (replicate 16 0)) 16 = (APP_OK, Some (replicate 16 9), [])"
  using random_bytes_short_read [of "replicate 32 9" "[]" 16 "[]"] by simp

end
