(* ===== verification/Limbs.thy ===== *)
theory Limbs
  imports Prelude
begin

text \<open>
  Multi-limb signed integers, as \<open>fe.c\<close> and \<open>sc.c\<close> keep them: a list of limbs, the carry step
  \<open>c = (x_i + r) >> w; x_j += c * m; x_i -= c << w\<close>, and the reduction step of \<open>sc.c\<close>.  Two
  facts about each: what it does to the value the limbs stand for (locale \<open>limb_value\<close>), and
  how an interval for every limb passes through it.  Signed arithmetic is exact: an overflow
  would be undefined in C, and the interval lemmas are what excludes it.
\<close>

type_synonym limbs = "int list"

definition int32 :: "int \<Rightarrow> int" where
  "int32 x = signed_take_bit 31 x"

lemma int32_id: "- (2 ^ 31) \<le> x \<Longrightarrow> x < 2 ^ 31 \<Longrightarrow> int32 x = x"
  unfolding int32_def by (rule signed_take_bit_int_eq_self) simp_all

section \<open>Steps\<close>

text \<open>\<open>Carry r w i m j\<close> and \<open>Spread i [(j, m), ...]\<close> (add \<open>x_i * m\<close> to each \<open>x_j\<close>, clear \<open>x_i\<close>).\<close>

datatype limb_op = Carry int nat nat int nat | Spread nat "(nat \<times> int) list"

definition carry_step :: "int \<Rightarrow> nat \<Rightarrow> nat \<Rightarrow> int \<Rightarrow> nat \<Rightarrow> limbs \<Rightarrow> limbs" where
  "carry_step r w i m j h =
     (let c = (h ! i + r) div 2 ^ w;
          h = h[j := h ! j + c * m]
      in h[i := h ! i - c * 2 ^ w])"

definition add_multiples :: "int \<Rightarrow> (nat \<times> int) list \<Rightarrow> limbs \<Rightarrow> limbs" where
  "add_multiples x js h = foldl (\<lambda>h (j, m). h[j := h ! j + x * m]) h js"

definition spread_step :: "nat \<Rightarrow> (nat \<times> int) list \<Rightarrow> limbs \<Rightarrow> limbs" where
  "spread_step i js h = (add_multiples (h ! i) js h)[i := 0]"

fun limb_step :: "limb_op \<Rightarrow> limbs \<Rightarrow> limbs" where
  "limb_step (Carry r w i m j) h = carry_step r w i m j h"
| "limb_step (Spread i js) h = spread_step i js h"

definition limb_run :: "limb_op list \<Rightarrow> limbs \<Rightarrow> limbs" where
  "limb_run ops h = foldl (\<lambda>h p. limb_step p h) h ops"

lemma limb_run_Nil [simp]: "limb_run [] h = h"
  and limb_run_Cons [simp]: "limb_run (p # ps) h = limb_run ps (limb_step p h)"
  by (simp_all add: limb_run_def)

lemma limb_run_append: "limb_run (ps @ qs) h = limb_run qs (limb_run ps h)"
  by (simp add: limb_run_def)

lemma length_add_multiples [simp]: "length (add_multiples x js h) = length h"
  unfolding add_multiples_def by (induction js arbitrary: h) (auto split: prod.splits)

lemma length_limb_step [simp]: "length (limb_step p h) = length h"
  by (cases p) (simp_all add: carry_step_def spread_step_def Let_def)

lemma length_limb_run [simp]: "length (limb_run ps h) = length h"
  by (induction ps arbitrary: h) auto

section \<open>Values\<close>

text \<open>
  The contract of a limb vector: \<open>N\<close> limbs with weights, read modulo \<open>M\<close>.  A step is
  \<open>harmless\<close> when it moves the value by a multiple of \<open>M\<close>, which its indices and factors decide.
\<close>

definition limb_val :: "nat \<Rightarrow> (nat \<Rightarrow> int) \<Rightarrow> limbs \<Rightarrow> int" where
  "limb_val N weight h = (\<Sum>i<N. h ! i * weight i)"

fun harmless :: "nat \<Rightarrow> (nat \<Rightarrow> int) \<Rightarrow> int \<Rightarrow> limb_op \<Rightarrow> bool" where
  "harmless N weight M (Carry r w i m j) \<longleftrightarrow>
     i < N \<and> j < N \<and> i \<noteq> j \<and> M dvd m * weight j - 2 ^ w * weight i"
| "harmless N weight M (Spread i js) \<longleftrightarrow>
     i < N \<and> list_all (\<lambda>(j, m). j < N \<and> j \<noteq> i) js \<and> M dvd (\<Sum>(j, m)\<leftarrow>js. m * weight j) - weight i"

locale limb_value =
  fixes N :: nat and weight :: "nat \<Rightarrow> int" and M :: int
  assumes positive_modulus: "0 < M"
begin

abbreviation val :: "limbs \<Rightarrow> int" where
  "val \<equiv> limb_val N weight"

lemma val_update: "length h = N \<Longrightarrow> i < N \<Longrightarrow> val (h[i := x]) = val h + (x - h ! i) * weight i"
proof -
  assume len: "length h = N" and i: "i < N"
  have "val (h[i := x]) = (\<Sum>k\<in>{..<N}. h ! k * weight k + (if k = i then (x - h ! i) * weight i else 0))"
    unfolding limb_val_def by (rule sum.cong) (auto simp: len i nth_list_update algebra_simps)
  also have "\<dots> = val h + (x - h ! i) * weight i"
    unfolding sum.distrib limb_val_def using i by (simp add: sum.delta)
  finally show ?thesis .
qed

lemma carry_val:
  assumes "length h = N" and "harmless N weight M (Carry r w i m j)"
  shows "M dvd val (carry_step r w i m j h) - val h"
proof -
  define c where "c = (h ! i + r) div 2 ^ w"
  have ij: "i < N" "j < N" "i \<noteq> j" and dvd: "M dvd m * weight j - 2 ^ w * weight i"
    using assms(2) by auto
  have "val (carry_step r w i m j h) - val h = c * (m * weight j - 2 ^ w * weight i)"
    unfolding carry_step_def Let_def c_def [symmetric] using ij assms(1)
    by (simp add: val_update algebra_simps)
  then show ?thesis using dvd by simp
qed

lemma add_multiples_val:
  "length h = N \<Longrightarrow> \<forall>(j, m) \<in> set js. j < N \<Longrightarrow>
   val (add_multiples x js h) = val h + x * (\<Sum>(j, m)\<leftarrow>js. m * weight j)"
proof (induction js arbitrary: h)
  case (Cons a js)
  obtain j m where a: "a = (j, m)" by fastforce
  have "val (add_multiples x js (h[j := h ! j + x * m])) = val (h[j := h ! j + x * m]) + x * (\<Sum>(j, m)\<leftarrow>js. m * weight j)"
    by (rule Cons.IH) (use Cons.prems in auto)
  then show ?case using Cons.prems a by (simp add: add_multiples_def val_update algebra_simps)
qed (simp add: add_multiples_def)

lemma add_multiples_nth:
  "\<forall>(j, m) \<in> set js. j \<noteq> i \<Longrightarrow> add_multiples x js h ! i = h ! i"
  by (induction js arbitrary: h) (auto simp: add_multiples_def split: prod.splits)

lemma spread_val:
  assumes "length h = N" and "harmless N weight M (Spread i js)"
  shows "M dvd val (spread_step i js h) - val h"
proof -
  have i: "i < N" and js: "\<forall>(j, m) \<in> set js. j < N" "\<forall>(j, m) \<in> set js. j \<noteq> i"
    and dvd: "M dvd (\<Sum>(j, m)\<leftarrow>js. m * weight j) - weight i"
    using assms(2) by (auto simp: list_all_iff)
  have "val (spread_step i js h) = val (add_multiples (h ! i) js h) + (0 - h ! i) * weight i"
    unfolding spread_step_def using assms(1) i by (simp add: val_update add_multiples_nth [OF js(2)])
  also have "\<dots> - val h = h ! i * ((\<Sum>(j, m)\<leftarrow>js. m * weight j) - weight i)"
    using add_multiples_val [OF assms(1) js(1), of "h ! i"] by (simp add: algebra_simps)
  finally show ?thesis using dvd by simp
qed

lemma step_val: "length h = N \<Longrightarrow> harmless N weight M p \<Longrightarrow> M dvd val (limb_step p h) - val h"
  by (cases p) (simp_all add: carry_val spread_val)

lemma run_dvd: "length h = N \<Longrightarrow> \<forall>p \<in> set ps. harmless N weight M p \<Longrightarrow> M dvd val (limb_run ps h) - val h"
proof (induction ps arbitrary: h)
  case (Cons p ps)
  have "M dvd val (limb_run ps (limb_step p h)) - val (limb_step p h)"
    by (rule Cons.IH) (use Cons.prems in auto)
  moreover have "M dvd val (limb_step p h) - val h" by (rule step_val) (use Cons.prems in auto)
  ultimately show ?case using dvd_add by fastforce
qed simp

lemma run_val: "length h = N \<Longrightarrow> \<forall>p \<in> set ps. harmless N weight M p \<Longrightarrow> val (limb_run ps h) mod M = val h mod M"
  using run_dvd by (metis mod_eq_dvd_iff)

end

section \<open>Intervals\<close>

type_synonym intervals = "(int \<times> int) list"

definition within :: "limbs \<Rightarrow> intervals \<Rightarrow> bool" where
  "within h b \<longleftrightarrow> list_all2 (\<lambda>x (l, u). l \<le> x \<and> x \<le> u) h b"

definition carry_bounds :: "int \<Rightarrow> nat \<Rightarrow> nat \<Rightarrow> int \<Rightarrow> nat \<Rightarrow> intervals \<Rightarrow> intervals" where
  "carry_bounds r w i m j b =
     (let (l, u) = b ! i;
          cl = (l + r) div 2 ^ w; cu = (u + r) div 2 ^ w;
          (jl, ju) = b ! j;
          b = b[j := (jl + cl * m, ju + cu * m)]
      in b[i := (- r, 2 ^ w - 1 - r)])"

definition spread_bounds :: "nat \<Rightarrow> (nat \<times> int) list \<Rightarrow> intervals \<Rightarrow> intervals" where
  "spread_bounds i js b =
     (let (l, u) = b ! i
      in (foldl (\<lambda>b (j, m). b[j := (fst (b ! j) + min (l * m) (u * m), snd (b ! j) + max (l * m) (u * m))]) b js)
           [i := (0, 0)])"

fun step_bounds :: "limb_op \<Rightarrow> intervals \<Rightarrow> intervals" where
  "step_bounds (Carry r w i m j) b = carry_bounds r w i m j b"
| "step_bounds (Spread i js) b = spread_bounds i js b"

definition run_bounds :: "limb_op list \<Rightarrow> intervals \<Rightarrow> intervals" where
  "run_bounds ops b = foldl (\<lambda>b p. step_bounds p b) b ops"

fun well_formed :: "nat \<Rightarrow> limb_op \<Rightarrow> bool" where
  "well_formed n (Carry r w i m j) \<longleftrightarrow> i < n \<and> j < n \<and> i \<noteq> j \<and> 0 \<le> m"
| "well_formed n (Spread i js) \<longleftrightarrow> i < n \<and> list_all (\<lambda>(j, m). j < n \<and> j \<noteq> i) js"

lemma within_nth: "within h b \<Longrightarrow> i < length h \<Longrightarrow> fst (b ! i) \<le> h ! i \<and> h ! i \<le> snd (b ! i)"
  unfolding within_def by (auto dest: list_all2_nthD split: prod.splits)

lemma within_length: "within h b \<Longrightarrow> length h = length b"
  unfolding within_def by (rule list_all2_lengthD)

lemma within_update: "within h b \<Longrightarrow> l \<le> x \<Longrightarrow> x \<le> u \<Longrightarrow> within (h[i := x]) (b[i := (l, u)])"
  unfolding within_def by (rule list_all2_update_cong) simp_all

lemma rounding_remainder:
  "- r \<le> x - (x + r) div 2 ^ w * 2 ^ w \<and> x - (x + r) div 2 ^ w * 2 ^ w \<le> 2 ^ w - 1 - (r :: int)"
proof -
  have "(x + r) div 2 ^ w * 2 ^ w + (x + r) mod 2 ^ w = x + r" by (rule div_mult_mod_eq)
  moreover have "0 \<le> (x + r) mod 2 ^ w" "(x + r) mod 2 ^ w < 2 ^ w" by simp_all
  ultimately show ?thesis by linarith
qed

lemma carry_within:
  assumes "within h b" and "well_formed (length h) (Carry r w i m j)"
  shows "within (carry_step r w i m j h) (carry_bounds r w i m j b)"
proof -
  define c where "c = (h ! i + r) div 2 ^ w"
  obtain l u where bi: "b ! i = (l, u)" by fastforce
  obtain jl ju where bj: "b ! j = (jl, ju)" by fastforce
  have ij: "i < length h" "j < length h" "i \<noteq> j" "0 \<le> m" using assms(2) by auto
  have hi: "l \<le> h ! i" "h ! i \<le> u" using within_nth [OF assms(1) ij(1)] bi by auto
  have hj: "jl \<le> h ! j" "h ! j \<le> ju" using within_nth [OF assms(1) ij(2)] bj by auto
  have c: "(l + r) div 2 ^ w \<le> c" "c \<le> (u + r) div 2 ^ w"
    unfolding c_def using hi by (auto intro: zdiv_mono1)
  have 1: "within (h[j := h ! j + c * m]) (b[j := (jl + (l + r) div 2 ^ w * m, ju + (u + r) div 2 ^ w * m)])"
    using hj c ij by (intro within_update assms(1)) (auto intro: add_mono mult_right_mono)
  have 2: "- r \<le> h ! i - c * 2 ^ w" "h ! i - c * 2 ^ w \<le> 2 ^ w - 1 - r"
    unfolding c_def using rounding_remainder by auto
  show ?thesis
    using within_update [OF 1 2, of i] ij
    by (simp add: carry_step_def carry_bounds_def Let_def bi bj c_def [symmetric])
qed

lemma multiples_within:
  assumes "l \<le> x" and "x \<le> u"
  shows "within h b \<Longrightarrow> list_all (\<lambda>(j, m). j < length h) js \<Longrightarrow>
    within (add_multiples x js h)
      (foldl (\<lambda>b (j, m). b[j := (fst (b ! j) + min (l * m) (u * m), snd (b ! j) + max (l * m) (u * m))]) b js)"
proof (induction js arbitrary: h b)
  case (Cons a js)
  obtain j m where a: "a = (j, m)" by fastforce
  have hj: "fst (b ! j) \<le> h ! j" "h ! j \<le> snd (b ! j)" using within_nth [OF Cons.prems(1)] Cons.prems(2) a by auto
  have xm: "min (l * m) (u * m) \<le> x * m" "x * m \<le> max (l * m) (u * m)"
    using assms by (cases "0 \<le> m"; simp add: min_le_iff_disj le_max_iff_disj mult_right_mono mult_right_mono_neg)+
  have "within (h[j := h ! j + x * m])
      (b[j := (fst (b ! j) + min (l * m) (u * m), snd (b ! j) + max (l * m) (u * m))])"
    using hj xm by (intro within_update Cons.prems(1)) simp_all
  from Cons.IH [OF this] show ?case using Cons.prems a by (simp add: add_multiples_def)
qed (simp add: add_multiples_def)

lemma step_within:
  assumes "within h b" and "well_formed (length h) p"
  shows "within (limb_step p h) (step_bounds p b)"
proof (cases p)
  case (Carry r w i m j)
  then show ?thesis using carry_within assms by simp
next
  case (Spread i js)
  obtain l u where bi: "b ! i = (l, u)" by fastforce
  have "l \<le> h ! i" "h ! i \<le> u" using within_nth [OF assms(1), of i] assms(2) Spread bi by auto
  moreover have "list_all (\<lambda>(j, m). j < length h) js" using assms(2) Spread by (auto simp: list_all_iff)
  ultimately have "within (add_multiples (h ! i) js h)
      (foldl (\<lambda>b (j, m). b[j := (fst (b ! j) + min (l * m) (u * m), snd (b ! j) + max (l * m) (u * m))]) b js)"
    by (intro multiples_within assms(1))
  then show ?thesis
    using Spread bi by (simp add: spread_step_def spread_bounds_def Let_def within_update)
qed

lemma run_within:
  "within h b \<Longrightarrow> \<forall>p \<in> set ps. well_formed (length h) p \<Longrightarrow> within (limb_run ps h) (run_bounds ps b)"
proof (induction ps arbitrary: h b)
  case (Cons p ps)
  have "within (limb_run ps (limb_step p h)) (run_bounds ps (step_bounds p b))"
    by (rule Cons.IH) (use Cons.prems step_within in auto)
  then show ?case by (simp add: run_bounds_def)
qed (simp add: run_bounds_def)

end
