(* ===== verification/Limb_Range.thy ===== *)
theory Limb_Range
  imports Limbs
begin

text \<open>
  When the signed integers of a limb computation stay in 64 bits: \<open>run_fits\<close> looks at every
  intermediate result of a list of steps, \<open>run_safe\<close> decides it for all limb vectors within given
  intervals.  In C an overflow of these integers would be undefined, so the functions over unbounded
  integers are faithful exactly where \<open>run_fits\<close> holds.
\<close>

definition i64 :: "int \<Rightarrow> bool" where
  "i64 x \<longleftrightarrow> - (2 ^ 63) \<le> x \<and> x < 2 ^ 63"

lemma i64_between: "i64 l \<Longrightarrow> i64 u \<Longrightarrow> l \<le> x \<Longrightarrow> x \<le> u \<Longrightarrow> i64 x"
  by (simp add: i64_def)

fun multiples_fit :: "int \<Rightarrow> (nat \<times> int) list \<Rightarrow> limbs \<Rightarrow> bool" where
  "multiples_fit x [] h \<longleftrightarrow> True"
| "multiples_fit x ((j, m) # js) h \<longleftrightarrow> i64 (x * m) \<and> i64 (h ! j + x * m) \<and> multiples_fit x js (h[j := h ! j + x * m])"

fun step_fits :: "limb_op \<Rightarrow> limbs \<Rightarrow> bool" where
  "step_fits (Carry r w i m j) h \<longleftrightarrow>
     (let c = (h ! i + r) div 2 ^ w
      in i64 (h ! i) \<and> i64 (h ! i + r) \<and> i64 (c * m) \<and> i64 (h ! j + c * m) \<and> i64 (c * 2 ^ w) \<and> i64 (h ! i - c * 2 ^ w))"
| "step_fits (Spread i js) h \<longleftrightarrow> i64 (h ! i) \<and> multiples_fit (h ! i) js h"

fun run_fits :: "limb_op list \<Rightarrow> limbs \<Rightarrow> bool" where
  "run_fits [] h \<longleftrightarrow> True"
| "run_fits (p # ps) h \<longleftrightarrow> step_fits p h \<and> run_fits ps (limb_step p h)"

section \<open>Deciding it on intervals\<close>

fun multiples_safe :: "int \<Rightarrow> int \<Rightarrow> (nat \<times> int) list \<Rightarrow> intervals \<Rightarrow> bool" where
  "multiples_safe l u [] b \<longleftrightarrow> True"
| "multiples_safe l u ((j, m) # js) b \<longleftrightarrow>
     (let lo = min (l * m) (u * m); hi = max (l * m) (u * m); jl = fst (b ! j) + lo; ju = snd (b ! j) + hi
      in i64 lo \<and> i64 hi \<and> i64 jl \<and> i64 ju \<and> multiples_safe l u js (b[j := (jl, ju)]))"

fun step_safe :: "limb_op \<Rightarrow> intervals \<Rightarrow> bool" where
  "step_safe (Carry r w i m j) b \<longleftrightarrow>
     (let (l, u) = b ! i; cl = (l + r) div 2 ^ w; cu = (u + r) div 2 ^ w; (jl, ju) = b ! j
      in list_all i64 [l, u, l + r, u + r, cl * m, cu * m, jl + cl * m, ju + cu * m, cl * 2 ^ w, cu * 2 ^ w,
           - r, 2 ^ w - 1 - r])"
| "step_safe (Spread i js) b \<longleftrightarrow> i64 (fst (b ! i)) \<and> i64 (snd (b ! i)) \<and> multiples_safe (fst (b ! i)) (snd (b ! i)) js b"

fun run_safe :: "limb_op list \<Rightarrow> intervals \<Rightarrow> bool" where
  "run_safe [] b \<longleftrightarrow> True"
| "run_safe (p # ps) b \<longleftrightarrow> step_safe p b \<and> run_safe ps (step_bounds p b)"

lemma multiple_between:
  assumes "l \<le> x" "x \<le> (u :: int)"
  shows "min (l * m) (u * m) \<le> x * m" "x * m \<le> max (l * m) (u * m)"
  using assms by (cases "0 \<le> m"; simp add: min_le_iff_disj le_max_iff_disj mult_right_mono mult_right_mono_neg)+

lemma multiples_fit:
  assumes "l \<le> x" "x \<le> u"
  shows "multiples_safe l u js b \<Longrightarrow> within h b \<Longrightarrow> list_all (\<lambda>(j, m). j < length h) js \<Longrightarrow> multiples_fit x js h"
proof (induction js arbitrary: h b)
  case (Cons a js)
  obtain j m where a: "a = (j, m)" by fastforce
  let ?lo = "min (l * m) (u * m)" and ?hi = "max (l * m) (u * m)"
  have x: "?lo \<le> x * m" "x * m \<le> ?hi" using multiple_between assms by blast+
  have hj: "fst (b ! j) \<le> h ! j" "h ! j \<le> snd (b ! j)" using within_nth [OF Cons.prems(2)] Cons.prems(3) a by auto
  have s: "i64 ?lo" "i64 ?hi" "i64 (fst (b ! j) + ?lo)" "i64 (snd (b ! j) + ?hi)"
    "multiples_safe l u js (b[j := (fst (b ! j) + ?lo, snd (b ! j) + ?hi)])"
    using Cons.prems(1) by (simp_all add: a Let_def)
  have "within (h[j := h ! j + x * m]) (b[j := (fst (b ! j) + ?lo, snd (b ! j) + ?hi)])"
    by (rule within_update [OF Cons.prems(2)]) (use x hj in linarith)+
  from Cons.IH [OF s(5) this] Cons.prems(3)
  have "multiples_fit x js (h[j := h ! j + x * m])" by (simp add: a list_all_iff)
  moreover have "i64 (x * m)" by (rule i64_between [OF s(1,2) x])
  moreover have "i64 (h ! j + x * m)" by (rule i64_between [OF s(3,4)]) (use x hj in linarith)+
  ultimately show ?case by (simp add: a)
qed simp

lemma carry_fits:
  assumes "step_safe (Carry r w i m j) b" and "within h b" and "well_formed (length h) (Carry r w i m j)"
  shows "step_fits (Carry r w i m j) h"
proof -
  define c where "c = (h ! i + r) div 2 ^ w"
  obtain l u where bi: "b ! i = (l, u)" by fastforce
  obtain jl ju where bj: "b ! j = (jl, ju)" by fastforce
  have ij: "i < length h" "j < length h" "0 \<le> m" using assms(3) by auto
  have hi: "l \<le> h ! i" "h ! i \<le> u" using within_nth [OF assms(2) ij(1)] bi by auto
  have hj: "jl \<le> h ! j" "h ! j \<le> ju" using within_nth [OF assms(2) ij(2)] bj by auto
  let ?cl = "(l + r) div 2 ^ w" and ?cu = "(u + r) div 2 ^ w"
  have c: "?cl \<le> c" "c \<le> ?cu" unfolding c_def using hi by (auto intro: zdiv_mono1)
  have cm: "?cl * m \<le> c * m" "c * m \<le> ?cu * m" "?cl * 2 ^ w \<le> c * 2 ^ w" "c * 2 ^ w \<le> ?cu * 2 ^ w"
    using c ij(3) by (simp_all add: mult_right_mono)
  have rem: "- r \<le> h ! i - c * 2 ^ w" "h ! i - c * 2 ^ w \<le> 2 ^ w - 1 - r"
    unfolding c_def using rounding_remainder by auto
  have s: "i64 l" "i64 u" "i64 (l + r)" "i64 (u + r)" "i64 (?cl * m)" "i64 (?cu * m)" "i64 (jl + ?cl * m)" "i64 (ju + ?cu * m)"
    "i64 (?cl * 2 ^ w)" "i64 (?cu * 2 ^ w)" "i64 (- r)" "i64 (2 ^ w - 1 - r)"
    using assms(1) by (simp_all add: bi bj Let_def)
  show ?thesis
    unfolding step_fits.simps Let_def c_def [symmetric]
    using i64_between [OF s(1,2) hi] i64_between [OF s(3,4), of "h ! i + r"] i64_between [OF s(5,6) cm(1,2)]
      i64_between [OF s(7,8), of "h ! j + c * m"] i64_between [OF s(9,10) cm(3,4)] i64_between [OF s(11,12) rem] hi hj cm
    by (simp add: add_mono)
qed

lemma step_safe_fits:
  assumes "step_safe p b" and "within h b" and "well_formed (length h) p"
  shows "step_fits p h"
proof (cases p)
  case (Carry r w i m j)
  then show ?thesis using carry_fits assms by simp
next
  case (Spread i js)
  have i: "fst (b ! i) \<le> h ! i" "h ! i \<le> snd (b ! i)" using within_nth [OF assms(2)] assms(3) Spread by auto
  have js: "list_all (\<lambda>(j, m). j < length h) js" using assms(3) Spread by (auto simp: list_all_iff)
  have s: "i64 (fst (b ! i))" "i64 (snd (b ! i))" "multiples_safe (fst (b ! i)) (snd (b ! i)) js b"
    using assms(1) Spread by simp_all
  show ?thesis using i64_between [OF s(1,2) i] multiples_fit [OF i s(3) assms(2) js] Spread by simp
qed

lemma run_safe_fits:
  "run_safe ps b \<Longrightarrow> within h b \<Longrightarrow> \<forall>p \<in> set ps. well_formed (length h) p \<Longrightarrow> run_fits ps h"
proof (induction ps arbitrary: h b)
  case (Cons p ps)
  then have "run_fits ps (limb_step p h)" using step_within by (intro Cons.IH [of "step_bounds p b"]) auto
  then show ?case using Cons.prems step_safe_fits by auto
qed simp

end
