(* ===== verification/Little_Endian.thy ===== *)
theory Little_Endian
  imports Prelude
begin

text \<open>
  Numbers written in little-endian digits, for the byte arrays the field and the scalars are read from
  and written to.  \<open>le_val b ds\<close> is the number of the digits \<open>ds\<close> in base \<open>b\<close>, \<open>bytes_val\<close> the one of
  an array of bytes.
\<close>

fun le_val :: "int \<Rightarrow> int list \<Rightarrow> int" where
  "le_val b [] = 0"
| "le_val b (d # ds) = d + b * le_val b ds"

definition bytes_val :: "bytes \<Rightarrow> int" where
  "bytes_val s = le_val 256 (map uint s)"

lemma le_val_append: "le_val b (xs @ ys) = le_val b xs + b ^ length xs * le_val b ys"
  by (induction xs) (simp_all add: algebra_simps)

lemma le_val_bounds: "\<forall>d \<in> set ds. 0 \<le> d \<and> d < b \<Longrightarrow> 0 \<le> le_val b ds \<and> le_val b ds < b ^ length ds"
proof (induction ds)
  case (Cons d ds)
  then have IH: "0 \<le> le_val b ds" "le_val b ds \<le> b ^ length ds - 1" and d: "0 \<le> d" "d < b" by auto
  have "b * le_val b ds \<le> b * (b ^ length ds - 1)" using IH(2) d by (intro mult_left_mono) auto
  then have "d + b * le_val b ds < b ^ Suc (length ds)" using d by (simp add: algebra_simps)
  then show ?case using IH(1) d by simp
qed simp

lemma bytes_val_bounds: "0 \<le> bytes_val s" "bytes_val s < 256 ^ length s"
proof -
  have "\<forall>d \<in> set (map uint s). 0 \<le> d \<and> d < 256" by (auto simp: uint_lt2p [where 'a = 8, simplified])
  from le_val_bounds [OF this] show "0 \<le> bytes_val s" "bytes_val s < 256 ^ length s"
    by (simp_all add: bytes_val_def)
qed

text \<open>The digits of a number.\<close>

lemma le_val_digits:
  assumes "0 < b"
  shows "le_val b (map (\<lambda>i. v div b ^ i mod b) [0..<n]) = v mod b ^ n"
proof (induction n)
  case (Suc n)
  have "v mod b ^ Suc n = b ^ n * (v div b ^ n mod b) + v mod b ^ n"
    using assms zmod_zmult2_eq [of b v "b ^ n"] by (simp add: mult.commute)
  then show ?case using Suc by (simp add: le_val_append)
qed simp

lemma le_val_div: "0 < b \<Longrightarrow> \<forall>d \<in> set ds. 0 \<le> d \<and> d < b \<Longrightarrow> k \<le> length ds \<Longrightarrow> le_val b ds div b ^ k = le_val b (drop k ds)"
proof -
  assume "0 < b" and d: "\<forall>d \<in> set ds. 0 \<le> d \<and> d < b" and k: "k \<le> length ds"
  have t: "0 \<le> le_val b (take k ds)" "le_val b (take k ds) < b ^ k"
    using le_val_bounds [of "take k ds" b] d k by (auto dest: in_set_takeD)
  have "le_val b ds = le_val b (take k ds) + b ^ k * le_val b (drop k ds)"
    using k le_val_append [of b "take k ds" "drop k ds"] by simp
  moreover have "b ^ k \<noteq> 0" using \<open>0 < b\<close> by simp
  ultimately show ?thesis using t by (simp add: div_pos_pos_trivial)
qed

lemma le_val_mod: "\<forall>d \<in> set ds. 0 \<le> d \<and> d < b \<Longrightarrow> le_val b ds mod b ^ k = le_val b (take k ds)"
proof -
  assume d: "\<forall>d \<in> set ds. 0 \<le> d \<and> d < b"
  have t: "0 \<le> le_val b (take k ds)" "le_val b (take k ds) < b ^ length (take k ds)"
    using le_val_bounds [of "take k ds" b] d by (auto dest: in_set_takeD)
  show ?thesis
  proof (cases "k \<le> length ds")
    case True
    then have "le_val b ds = le_val b (take k ds) + b ^ k * le_val b (drop k ds)"
      using le_val_append [of b "take k ds" "drop k ds"] by simp
    then show ?thesis using t True by (simp add: min_absorb1 mod_pos_pos_trivial)
  next
    case False
    show ?thesis
    proof (cases "ds = []")
      case True
      then show ?thesis by simp
    next
      case ne: False
      then have b: "0 < b" using d by (cases ds) auto
      have "b ^ length ds \<le> b ^ k" using b False by (intro power_increasing) auto
      then show ?thesis using t False by simp
    qed
  qed
qed

lemma bytes_val_slice:
  "k + n \<le> length s \<Longrightarrow> bytes_val (take n (drop k s)) = bytes_val s div 2 ^ (8 * k) mod 2 ^ (8 * n)"
proof -
  assume "k + n \<le> length s"
  moreover have u: "\<forall>d \<in> set (map uint s). 0 \<le> d \<and> d < 256" by (auto simp: uint_lt2p [where 'a = 8, simplified])
  moreover have "\<forall>d \<in> set (map uint (drop k s)). 0 \<le> d \<and> d < 256" by (auto simp: uint_lt2p [where 'a = 8, simplified])
  ultimately have "bytes_val s div 256 ^ k mod 256 ^ n = bytes_val (take n (drop k s))"
    unfolding bytes_val_def by (simp add: le_val_div le_val_mod take_map drop_map)
  then show ?thesis by (simp add: power_mult)
qed

text \<open>Limbs of \<open>w\<close> bits of a nonnegative number: the last one takes what is left.\<close>

lemma limbs_sum:
  "(\<Sum>i<n. (v div 2 ^ (w * i) mod 2 ^ w) * 2 ^ (w * i)) + v div 2 ^ (w * n) * 2 ^ (w * n) = (v :: int)"
proof (induction n)
  case (Suc n)
  let ?a = "v div 2 ^ (w * n)"
  have "?a div 2 ^ w = v div 2 ^ (w * Suc n)" by (simp add: zdiv_zmult2_eq [symmetric] power_add mult.commute)
  then have "?a = v div 2 ^ (w * Suc n) * 2 ^ w + ?a mod 2 ^ w" by (metis div_mult_mod_eq)
  then have "?a * 2 ^ (w * n) = (v div 2 ^ (w * Suc n) * 2 ^ w + ?a mod 2 ^ w) * 2 ^ (w * n)" by (rule arg_cong)
  also have "\<dots> = v div 2 ^ (w * Suc n) * 2 ^ (w * Suc n) + (?a mod 2 ^ w) * 2 ^ (w * n)"
    by (simp add: power_add algebra_simps)
  finally show ?case using Suc by simp
qed simp

end
