(* ===== verification/Field.thy ===== *)
theory Field
  imports Limbs
begin

text \<open>
  \<open>keypair/fe.c\<close>: the field of integers modulo \<open>2 ^ 255 - 19\<close> in ten limbs of alternately 26 and
  25 bits.  A function that writes its result through a pointer returns it.  The products of
  \<open>fe_mul\<close> and \<open>fe_sq\<close> are named as in the code; the carries are lists of \<open>fe_carry\<close> steps in the
  order of the code.  \<open>fe_val\<close> is the number a limb vector stands for.
\<close>

section \<open>Loading, constants, linear operations\<close>

definition load_3 :: "bytes \<Rightarrow> nat \<Rightarrow> u64" where
  "load_3 s i =
     (let result = ucast (s ! i);
          result = result OR push_bit 8 (ucast (s ! (i + 1)))
      in result OR push_bit 16 (ucast (s ! (i + 2))))"

definition load_4 :: "bytes \<Rightarrow> nat \<Rightarrow> u64" where
  "load_4 s i =
     (let result = ucast (s ! i);
          result = result OR push_bit 8 (ucast (s ! (i + 1)));
          result = result OR push_bit 16 (ucast (s ! (i + 2)))
      in result OR push_bit 24 (ucast (s ! (i + 3))))"

definition fe_0 :: limbs where "fe_0 = [0, 0, 0, 0, 0, 0, 0, 0, 0, 0]"

definition fe_1 :: limbs where "fe_1 = [1, 0, 0, 0, 0, 0, 0, 0, 0, 0]"

definition fe_add :: "limbs \<Rightarrow> limbs \<Rightarrow> limbs" where
  "fe_add f g = map (\<lambda>i. f ! i + g ! i) [0, 1, 2, 3, 4, 5, 6, 7, 8, 9]"

definition fe_sub :: "limbs \<Rightarrow> limbs \<Rightarrow> limbs" where
  "fe_sub f g = map (\<lambda>i. f ! i - g ! i) [0, 1, 2, 3, 4, 5, 6, 7, 8, 9]"

definition fe_neg :: "limbs \<Rightarrow> limbs" where
  "fe_neg f = map (\<lambda>i. - (f ! i)) [0, 1, 2, 3, 4, 5, 6, 7, 8, 9]"

definition fe_copy :: "limbs \<Rightarrow> limbs" where
  "fe_copy f = map (\<lambda>i. f ! i) [0, 1, 2, 3, 4, 5, 6, 7, 8, 9]"

text \<open>The mask \<open>b\<close> is \<open>0\<close> or all ones: \<open>(unsigned int) (- (int) b)\<close>.\<close>

definition fe_cmov :: "limbs \<Rightarrow> limbs \<Rightarrow> int \<Rightarrow> limbs" where
  "fe_cmov f g b =
     map (\<lambda>i. let x = f ! i XOR g ! i; x = x AND (- b) in f ! i XOR x) [0, 1, 2, 3, 4, 5, 6, 7, 8, 9]"

definition fe_cswap :: "limbs \<Rightarrow> limbs \<Rightarrow> int \<Rightarrow> limbs \<times> limbs" where
  "fe_cswap f g b =
     (map (\<lambda>i. let x = f ! i XOR g ! i; x = x AND (- b) in f ! i XOR x) [0, 1, 2, 3, 4, 5, 6, 7, 8, 9],
      map (\<lambda>i. let x = f ! i XOR g ! i; x = x AND (- b) in g ! i XOR x) [0, 1, 2, 3, 4, 5, 6, 7, 8, 9])"

section \<open>Carries\<close>

definition fe_carry :: "nat \<Rightarrow> limb_op" where
  "fe_carry i =
     (if i = 9 then Carry (2 ^ 24) 25 9 19 0
      else if even i then Carry (2 ^ 25) 26 i 1 (i + 1)
      else Carry (2 ^ 24) 25 i 1 (i + 1))"

definition fe_mul_carries :: "limb_op list" where
  "fe_mul_carries = map fe_carry [0, 4, 1, 5, 2, 6, 3, 7, 4, 8, 9, 0]"

definition fe_odd_even_carries :: "limb_op list" where
  "fe_odd_even_carries = map fe_carry [9, 1, 3, 5, 7, 0, 2, 4, 6, 8]"

definition fe_frombytes :: "bytes \<Rightarrow> limbs" where
  "fe_frombytes s =
     (let h = [sint (load_4 s 0), sint (push_bit 6 (load_3 s 4)), sint (push_bit 5 (load_3 s 7)),
               sint (push_bit 3 (load_3 s 10)), sint (push_bit 2 (load_3 s 13)), sint (load_4 s 16),
               sint (push_bit 7 (load_3 s 20)), sint (push_bit 5 (load_3 s 23)),
               sint (push_bit 4 (load_3 s 26)), sint (push_bit 2 (load_3 s 29 AND 8388607))]
      in map int32 (limb_run fe_odd_even_carries h))"

section \<open>Multiplication and squaring\<close>

definition fe_mul_sums :: "limbs \<Rightarrow> limbs \<Rightarrow> limbs" where
  "fe_mul_sums f g =
     (let f0 = f ! 0; f1 = f ! 1; f2 = f ! 2; f3 = f ! 3; f4 = f ! 4; f5 = f ! 5; f6 = f ! 6;
          f7 = f ! 7; f8 = f ! 8; f9 = f ! 9; g0 = g ! 0; g1 = g ! 1; g2 = g ! 2; g3 = g ! 3;
          g4 = g ! 4; g5 = g ! 5; g6 = g ! 6; g7 = g ! 7; g8 = g ! 8; g9 = g ! 9; g1_19 = 19 * g1;
          g2_19 = 19 * g2; g3_19 = 19 * g3; g4_19 = 19 * g4; g5_19 = 19 * g5; g6_19 = 19 * g6;
          g7_19 = 19 * g7; g8_19 = 19 * g8; g9_19 = 19 * g9; f1_2 = 2 * f1; f3_2 = 2 * f3;
          f5_2 = 2 * f5; f7_2 = 2 * f7; f9_2 = 2 * f9; f0g0 = f0 * g0; f0g1 = f0 * g1;
          f0g2 = f0 * g2; f0g3 = f0 * g3; f0g4 = f0 * g4; f0g5 = f0 * g5; f0g6 = f0 * g6;
          f0g7 = f0 * g7; f0g8 = f0 * g8; f0g9 = f0 * g9; f1g0 = f1 * g0; f1g1_2 = f1_2 * g1;
          f1g2 = f1 * g2; f1g3_2 = f1_2 * g3; f1g4 = f1 * g4; f1g5_2 = f1_2 * g5; f1g6 = f1 * g6;
          f1g7_2 = f1_2 * g7; f1g8 = f1 * g8; f1g9_38 = f1_2 * g9_19; f2g0 = f2 * g0;
          f2g1 = f2 * g1; f2g2 = f2 * g2; f2g3 = f2 * g3; f2g4 = f2 * g4; f2g5 = f2 * g5;
          f2g6 = f2 * g6; f2g7 = f2 * g7; f2g8_19 = f2 * g8_19; f2g9_19 = f2 * g9_19;
          f3g0 = f3 * g0; f3g1_2 = f3_2 * g1; f3g2 = f3 * g2; f3g3_2 = f3_2 * g3; f3g4 = f3 * g4;
          f3g5_2 = f3_2 * g5; f3g6 = f3 * g6; f3g7_38 = f3_2 * g7_19; f3g8_19 = f3 * g8_19;
          f3g9_38 = f3_2 * g9_19; f4g0 = f4 * g0; f4g1 = f4 * g1; f4g2 = f4 * g2; f4g3 = f4 * g3;
          f4g4 = f4 * g4; f4g5 = f4 * g5; f4g6_19 = f4 * g6_19; f4g7_19 = f4 * g7_19;
          f4g8_19 = f4 * g8_19; f4g9_19 = f4 * g9_19; f5g0 = f5 * g0; f5g1_2 = f5_2 * g1;
          f5g2 = f5 * g2; f5g3_2 = f5_2 * g3; f5g4 = f5 * g4; f5g5_38 = f5_2 * g5_19;
          f5g6_19 = f5 * g6_19; f5g7_38 = f5_2 * g7_19; f5g8_19 = f5 * g8_19;
          f5g9_38 = f5_2 * g9_19; f6g0 = f6 * g0; f6g1 = f6 * g1; f6g2 = f6 * g2; f6g3 = f6 * g3;
          f6g4_19 = f6 * g4_19; f6g5_19 = f6 * g5_19; f6g6_19 = f6 * g6_19; f6g7_19 = f6 * g7_19;
          f6g8_19 = f6 * g8_19; f6g9_19 = f6 * g9_19; f7g0 = f7 * g0; f7g1_2 = f7_2 * g1;
          f7g2 = f7 * g2; f7g3_38 = f7_2 * g3_19; f7g4_19 = f7 * g4_19; f7g5_38 = f7_2 * g5_19;
          f7g6_19 = f7 * g6_19; f7g7_38 = f7_2 * g7_19; f7g8_19 = f7 * g8_19;
          f7g9_38 = f7_2 * g9_19; f8g0 = f8 * g0; f8g1 = f8 * g1; f8g2_19 = f8 * g2_19;
          f8g3_19 = f8 * g3_19; f8g4_19 = f8 * g4_19; f8g5_19 = f8 * g5_19; f8g6_19 = f8 * g6_19;
          f8g7_19 = f8 * g7_19; f8g8_19 = f8 * g8_19; f8g9_19 = f8 * g9_19; f9g0 = f9 * g0;
          f9g1_38 = f9_2 * g1_19; f9g2_19 = f9 * g2_19; f9g3_38 = f9_2 * g3_19;
          f9g4_19 = f9 * g4_19; f9g5_38 = f9_2 * g5_19; f9g6_19 = f9 * g6_19;
          f9g7_38 = f9_2 * g7_19; f9g8_19 = f9 * g8_19; f9g9_38 = f9_2 * g9_19;
          h0 = f0g0 + f1g9_38 + f2g8_19 + f3g7_38 + f4g6_19 + f5g5_38 + f6g4_19 + f7g3_38 + f8g2_19 + f9g1_38;
          h1 = f0g1 + f1g0 + f2g9_19 + f3g8_19 + f4g7_19 + f5g6_19 + f6g5_19 + f7g4_19 + f8g3_19 + f9g2_19;
          h2 = f0g2 + f1g1_2 + f2g0 + f3g9_38 + f4g8_19 + f5g7_38 + f6g6_19 + f7g5_38 + f8g4_19 + f9g3_38;
          h3 = f0g3 + f1g2 + f2g1 + f3g0 + f4g9_19 + f5g8_19 + f6g7_19 + f7g6_19 + f8g5_19 + f9g4_19;
          h4 = f0g4 + f1g3_2 + f2g2 + f3g1_2 + f4g0 + f5g9_38 + f6g8_19 + f7g7_38 + f8g6_19 + f9g5_38;
          h5 = f0g5 + f1g4 + f2g3 + f3g2 + f4g1 + f5g0 + f6g9_19 + f7g8_19 + f8g7_19 + f9g6_19;
          h6 = f0g6 + f1g5_2 + f2g4 + f3g3_2 + f4g2 + f5g1_2 + f6g0 + f7g9_38 + f8g8_19 + f9g7_38;
          h7 = f0g7 + f1g6 + f2g5 + f3g4 + f4g3 + f5g2 + f6g1 + f7g0 + f8g9_19 + f9g8_19;
          h8 = f0g8 + f1g7_2 + f2g6 + f3g5_2 + f4g4 + f5g3_2 + f6g2 + f7g1_2 + f8g0 + f9g9_38;
          h9 = f0g9 + f1g8 + f2g7 + f3g6 + f4g5 + f5g4 + f6g3 + f7g2 + f8g1 + f9g0
      in [h0, h1, h2, h3, h4, h5, h6, h7, h8, h9])"

definition fe_mul :: "limbs \<Rightarrow> limbs \<Rightarrow> limbs" where
  "fe_mul f g = map int32 (limb_run fe_mul_carries (fe_mul_sums f g))"

definition fe_mul121666 :: "limbs \<Rightarrow> limbs" where
  "fe_mul121666 f = map int32 (limb_run fe_odd_even_carries
     (map (\<lambda>i. f ! i * 121666) [0, 1, 2, 3, 4, 5, 6, 7, 8, 9]))"

definition fe_sq_sums :: "limbs \<Rightarrow> limbs" where
  "fe_sq_sums f =
     (let f0 = f ! 0; f1 = f ! 1; f2 = f ! 2; f3 = f ! 3; f4 = f ! 4; f5 = f ! 5; f6 = f ! 6;
          f7 = f ! 7; f8 = f ! 8; f9 = f ! 9; f0_2 = 2 * f0; f1_2 = 2 * f1; f2_2 = 2 * f2;
          f3_2 = 2 * f3; f4_2 = 2 * f4; f5_2 = 2 * f5; f6_2 = 2 * f6; f7_2 = 2 * f7;
          f5_38 = 38 * f5; f6_19 = 19 * f6; f7_38 = 38 * f7; f8_19 = 19 * f8; f9_38 = 38 * f9;
          f0f0 = f0 * f0; f0f1_2 = f0_2 * f1; f0f2_2 = f0_2 * f2; f0f3_2 = f0_2 * f3;
          f0f4_2 = f0_2 * f4; f0f5_2 = f0_2 * f5; f0f6_2 = f0_2 * f6; f0f7_2 = f0_2 * f7;
          f0f8_2 = f0_2 * f8; f0f9_2 = f0_2 * f9; f1f1_2 = f1_2 * f1; f1f2_2 = f1_2 * f2;
          f1f3_4 = f1_2 * f3_2; f1f4_2 = f1_2 * f4; f1f5_4 = f1_2 * f5_2; f1f6_2 = f1_2 * f6;
          f1f7_4 = f1_2 * f7_2; f1f8_2 = f1_2 * f8; f1f9_76 = f1_2 * f9_38; f2f2 = f2 * f2;
          f2f3_2 = f2_2 * f3; f2f4_2 = f2_2 * f4; f2f5_2 = f2_2 * f5; f2f6_2 = f2_2 * f6;
          f2f7_2 = f2_2 * f7; f2f8_38 = f2_2 * f8_19; f2f9_38 = f2 * f9_38; f3f3_2 = f3_2 * f3;
          f3f4_2 = f3_2 * f4; f3f5_4 = f3_2 * f5_2; f3f6_2 = f3_2 * f6; f3f7_76 = f3_2 * f7_38;
          f3f8_38 = f3_2 * f8_19; f3f9_76 = f3_2 * f9_38; f4f4 = f4 * f4; f4f5_2 = f4_2 * f5;
          f4f6_38 = f4_2 * f6_19; f4f7_38 = f4 * f7_38; f4f8_38 = f4_2 * f8_19;
          f4f9_38 = f4 * f9_38; f5f5_38 = f5 * f5_38; f5f6_38 = f5_2 * f6_19;
          f5f7_76 = f5_2 * f7_38; f5f8_38 = f5_2 * f8_19; f5f9_76 = f5_2 * f9_38;
          f6f6_19 = f6 * f6_19; f6f7_38 = f6 * f7_38; f6f8_38 = f6_2 * f8_19;
          f6f9_38 = f6 * f9_38; f7f7_38 = f7 * f7_38; f7f8_38 = f7_2 * f8_19;
          f7f9_76 = f7_2 * f9_38; f8f8_19 = f8 * f8_19; f8f9_38 = f8 * f9_38;
          f9f9_38 = f9 * f9_38; h0 = f0f0 + f1f9_76 + f2f8_38 + f3f7_76 + f4f6_38 + f5f5_38;
          h1 = f0f1_2 + f2f9_38 + f3f8_38 + f4f7_38 + f5f6_38;
          h2 = f0f2_2 + f1f1_2 + f3f9_76 + f4f8_38 + f5f7_76 + f6f6_19;
          h3 = f0f3_2 + f1f2_2 + f4f9_38 + f5f8_38 + f6f7_38;
          h4 = f0f4_2 + f1f3_4 + f2f2 + f5f9_76 + f6f8_38 + f7f7_38;
          h5 = f0f5_2 + f1f4_2 + f2f3_2 + f6f9_38 + f7f8_38;
          h6 = f0f6_2 + f1f5_4 + f2f4_2 + f3f3_2 + f7f9_76 + f8f8_19;
          h7 = f0f7_2 + f1f6_2 + f2f5_2 + f3f4_2 + f8f9_38;
          h8 = f0f8_2 + f1f7_4 + f2f6_2 + f3f5_4 + f4f4 + f9f9_38;
          h9 = f0f9_2 + f1f8_2 + f2f7_2 + f3f6_2 + f4f5_2
      in [h0, h1, h2, h3, h4, h5, h6, h7, h8, h9])"

definition fe_sq :: "limbs \<Rightarrow> limbs" where
  "fe_sq f = map int32 (limb_run fe_mul_carries (fe_sq_sums f))"

definition fe_sq2 :: "limbs \<Rightarrow> limbs" where
  "fe_sq2 f = map int32 (limb_run fe_mul_carries (map (\<lambda>x. x + x) (fe_sq_sums f)))"

section \<open>Powers\<close>

text \<open>\<open>fe_sq (t, z); for (i = 1; i < n; ++i) fe_sq (t, t)\<close>.\<close>

definition fe_sq_times :: "nat \<Rightarrow> limbs \<Rightarrow> limbs" where
  "fe_sq_times n z = (fe_sq ^^ (n - 1)) (fe_sq z)"

definition fe_invert :: "limbs \<Rightarrow> limbs" where
  "fe_invert z =
     (let t0 = fe_sq_times 1 z;
          t1 = fe_sq_times 2 t0;
          t1 = fe_mul z t1;
          t0 = fe_mul t0 t1;
          t2 = fe_sq_times 1 t0;
          t1 = fe_mul t1 t2;
          t2 = fe_sq_times 5 t1;
          t1 = fe_mul t2 t1;
          t2 = fe_sq_times 10 t1;
          t2 = fe_mul t2 t1;
          t3 = fe_sq_times 20 t2;
          t2 = fe_mul t3 t2;
          t2 = fe_sq_times 10 t2;
          t1 = fe_mul t2 t1;
          t2 = fe_sq_times 50 t1;
          t2 = fe_mul t2 t1;
          t3 = fe_sq_times 100 t2;
          t2 = fe_mul t3 t2;
          t2 = fe_sq_times 50 t2;
          t1 = fe_mul t2 t1;
          t1 = fe_sq_times 5 t1
      in fe_mul t1 t0)"

definition fe_pow22523 :: "limbs \<Rightarrow> limbs" where
  "fe_pow22523 z =
     (let t0 = fe_sq_times 1 z;
          t1 = fe_sq_times 2 t0;
          t1 = fe_mul z t1;
          t0 = fe_mul t0 t1;
          t0 = fe_sq_times 1 t0;
          t0 = fe_mul t1 t0;
          t1 = fe_sq_times 5 t0;
          t0 = fe_mul t1 t0;
          t1 = fe_sq_times 10 t0;
          t1 = fe_mul t1 t0;
          t2 = fe_sq_times 20 t1;
          t1 = fe_mul t2 t1;
          t1 = fe_sq_times 10 t1;
          t0 = fe_mul t1 t0;
          t1 = fe_sq_times 50 t0;
          t1 = fe_mul t1 t0;
          t2 = fe_sq_times 100 t1;
          t1 = fe_mul t2 t1;
          t1 = fe_sq_times 50 t1;
          t0 = fe_mul t1 t0;
          t0 = fe_sq_times 2 t0
      in fe_mul t0 z)"

section \<open>Bytes\<close>

text \<open>The quotient \<open>q\<close> of \<open>fe_tobytes\<close>.\<close>

definition fe_quotient :: "limbs \<Rightarrow> int" where
  "fe_quotient h =
     (let q = (19 * h ! 9 + 2 ^ 24) div 2 ^ 25;
          q = (h ! 0 + q) div 2 ^ 26;
          q = (h ! 1 + q) div 2 ^ 25;
          q = (h ! 2 + q) div 2 ^ 26;
          q = (h ! 3 + q) div 2 ^ 25;
          q = (h ! 4 + q) div 2 ^ 26;
          q = (h ! 5 + q) div 2 ^ 25;
          q = (h ! 6 + q) div 2 ^ 26;
          q = (h ! 7 + q) div 2 ^ 25;
          q = (h ! 8 + q) div 2 ^ 26
      in (h ! 9 + q) div 2 ^ 25)"

definition fe_floor_carries :: "limb_op list" where
  "fe_floor_carries =
     [Carry 0 26 0 1 1, Carry 0 25 1 1 2, Carry 0 26 2 1 3, Carry 0 25 3 1 4, Carry 0 26 4 1 5,
      Carry 0 25 5 1 6, Carry 0 26 6 1 7, Carry 0 25 7 1 8, Carry 0 26 8 1 9, Carry 0 25 9 0 0]"

definition fe_pack :: "limbs \<Rightarrow> int list" where
  "fe_pack h =
     [drop_bit 0 (h ! 0),
      drop_bit 8 (h ! 0),
      drop_bit 16 (h ! 0),
      drop_bit 24 (h ! 0) OR push_bit 2 (h ! 1),
      drop_bit 6 (h ! 1),
      drop_bit 14 (h ! 1),
      drop_bit 22 (h ! 1) OR push_bit 3 (h ! 2),
      drop_bit 5 (h ! 2),
      drop_bit 13 (h ! 2),
      drop_bit 21 (h ! 2) OR push_bit 5 (h ! 3),
      drop_bit 3 (h ! 3),
      drop_bit 11 (h ! 3),
      drop_bit 19 (h ! 3) OR push_bit 6 (h ! 4),
      drop_bit 2 (h ! 4),
      drop_bit 10 (h ! 4),
      drop_bit 18 (h ! 4),
      drop_bit 0 (h ! 5),
      drop_bit 8 (h ! 5),
      drop_bit 16 (h ! 5),
      drop_bit 24 (h ! 5) OR push_bit 1 (h ! 6),
      drop_bit 7 (h ! 6),
      drop_bit 15 (h ! 6),
      drop_bit 23 (h ! 6) OR push_bit 3 (h ! 7),
      drop_bit 5 (h ! 7),
      drop_bit 13 (h ! 7),
      drop_bit 21 (h ! 7) OR push_bit 4 (h ! 8),
      drop_bit 4 (h ! 8),
      drop_bit 12 (h ! 8),
      drop_bit 20 (h ! 8) OR push_bit 6 (h ! 9),
      drop_bit 2 (h ! 9),
      drop_bit 10 (h ! 9),
      drop_bit 18 (h ! 9)]"

definition fe_tobytes :: "limbs \<Rightarrow> bytes" where
  "fe_tobytes h =
     (let q = fe_quotient h;
          h = h[0 := h ! 0 + 19 * q];
          h = limb_run fe_floor_carries h
      in map word_of_int (fe_pack h))"

definition fe_isnegative :: "limbs \<Rightarrow> int" where
  "fe_isnegative f = (let s = fe_tobytes f in uint (s ! 0 AND 1))"

definition fe_isnonzero :: "limbs \<Rightarrow> int" where
  "fe_isnonzero f =
     (let s = fe_tobytes f; r = foldl (\<lambda>r i. r OR s ! i) (s ! 0) [1..<32]
      in if r \<noteq> 0 then 1 else 0)"

end
