(* ===== verification/Field_Value.thy ===== *)
theory Field_Value
  imports Field Limb_Range
begin

text \<open>
  What the field operations of \<open>fe.c\<close> compute.  The ten limbs of a vector stand for the number
  \<open>fe_val\<close>; the contract \<open>limb_value\<close> of theory Limbs is interpreted here for their weights and
  the modulus \<open>2 ^ 255 - 19\<close>.  The bounds are those of the comments of \<open>fe.c\<close>, which exclude an
  overflow of the 32-bit and 64-bit integers of the code.
\<close>

section \<open>The contract\<close>

definition fe_weight :: "nat \<Rightarrow> int" where
  "fe_weight i = 2 ^ ((51 * i + 1) div 2)"

definition p25519 :: int where "p25519 = 2 ^ 255 - 19"

definition fe_val :: "limbs \<Rightarrow> int" where "fe_val = limb_val 10 fe_weight"

interpretation fe: limb_value 10 fe_weight p25519
  by unfold_locales (simp add: p25519_def)

lemma fe_index: "i < 10 \<longleftrightarrow> i \<in> {0, 1, 2, 3, 4, 5, 6, 7, 8, 9 :: nat}"
  by auto

lemma ten_indices: "[0, 1, 2, 3, 4, 5, 6, 7, 8, 9 :: nat] = [0..<10]"
  by code_simp

lemma sum_below_10: "(\<Sum>i<10. f i) = f 0 + f 1 + f 2 + f 3 + f 4 + f 5 + f 6 + f 7 + f 8 + f (9 :: nat)"
  for f :: "nat \<Rightarrow> int"
  by (simp add: eval_nat_numeral)

lemma fe_carry_harmless:
  assumes "i < 10"
  shows "harmless 10 fe_weight p25519 (fe_carry i)"
proof -
  have "i = 0 \<or> i = 1 \<or> i = 2 \<or> i = 3 \<or> i = 4 \<or> i = 5 \<or> i = 6 \<or> i = 7 \<or> i = 8 \<or> i = 9" using assms by auto
  then show ?thesis by (elim disjE) (simp_all add: fe_carry_def fe_weight_def p25519_def)
qed

lemma fe_carries_harmless:
  "\<forall>p \<in> set fe_mul_carries. harmless 10 fe_weight p25519 p"
  "\<forall>p \<in> set fe_odd_even_carries. harmless 10 fe_weight p25519 p"
  by (simp_all add: fe_mul_carries_def fe_odd_even_carries_def fe_carry_harmless del: harmless.simps)

section \<open>Products\<close>

text \<open>The limb \<open>k\<close> of a product collects \<open>f i * g j\<close> with \<open>i + j = k\<close> modulo ten, doubled for two odd
  indices and times 19 after wrapping around.\<close>

definition fe_factor :: "nat \<Rightarrow> nat \<Rightarrow> int" where
  "fe_factor i j = (if odd i \<and> odd j then 2 else 1) * (if i + j < 10 then 1 else 19)"

definition fe_column :: "nat \<Rightarrow> limbs \<Rightarrow> limbs \<Rightarrow> int" where
  "fe_column k f g = (\<Sum>i<10. fe_factor i ((k + 10 - i) mod 10) * (f ! i * g ! ((k + 10 - i) mod 10)))"

lemma fe_mul_columns: "fe_mul_sums f g = map (\<lambda>k. fe_column k f g) [0, 1, 2, 3, 4, 5, 6, 7, 8, 9]"
  unfolding fe_mul_sums_def Let_def list.map fe_column_def sum_below_10
  by (intro arg_cong2 [of _ _ _ _ Cons] refl; simp add: fe_factor_def flip: numeral_2_eq_2)

lemma fe_sq_sums_eq: "fe_sq_sums f = fe_mul_sums f f"
  unfolding fe_sq_sums_def fe_mul_sums_def Let_def by (simp add: algebra_simps)

lemma fe_sq_eq_mul: "fe_sq f = fe_mul f f"
  by (simp add: fe_sq_def fe_mul_def fe_sq_sums_eq)

lemma fe_weight_mult:
  assumes "i < 10" "j < 10"
  shows "p25519 dvd fe_weight i * fe_weight j - fe_factor i j * fe_weight ((i + j) mod 10)"
proof -
  let ?o = "if odd i \<and> odd j then 1 else 0 :: nat" and ?w = "if i + j < 10 then 0 else 255 :: nat"
  have "\<forall>i\<in>{0, 1, 2, 3, 4, 5, 6, 7, 8, 9}. \<forall>j\<in>{0, 1, 2, 3, 4, 5, 6, 7, 8, 9 :: nat}.
      (51 * i + 1) div 2 + (51 * j + 1) div 2
      = (51 * ((i + j) mod 10) + 1) div 2 + (if odd i \<and> odd j then 1 else 0) + (if i + j < 10 then 0 else 255)"
    by simp
  then have "(51 * i + 1) div 2 + (51 * j + 1) div 2 = (51 * ((i + j) mod 10) + 1) div 2 + ?o + ?w"
    using assms unfolding fe_index by blast
  then have "fe_weight i * fe_weight j = fe_weight ((i + j) mod 10) * 2 ^ ?o * 2 ^ ?w"
    unfolding fe_weight_def power_add [symmetric] by (rule arg_cong)
  then show ?thesis
    by (auto simp: fe_factor_def p25519_def)
qed

lemma fe_columns_sum:
  "(\<Sum>k<10. fe_column k f g * fe_weight k)
   = (\<Sum>i<10. \<Sum>j<10. f ! i * g ! j * (fe_factor i j * fe_weight ((i + j) mod 10)))"
proof -
  have "(\<Sum>k<10. fe_column k f g * fe_weight k)
      = (\<Sum>i<10. \<Sum>k<10. fe_factor i ((k + 10 - i) mod 10) * (f ! i * g ! ((k + 10 - i) mod 10)) * fe_weight k)"
    unfolding fe_column_def sum_distrib_right by (rule sum.swap)
  also have "\<dots> = (\<Sum>i<10. \<Sum>j<10. f ! i * g ! j * (fe_factor i j * fe_weight ((i + j) mod 10)))"
  proof (rule sum.cong [OF refl])
    fix i :: nat assume "i \<in> {..<10}"
    then have i: "i < 10" by simp
    show "(\<Sum>k<10. fe_factor i ((k + 10 - i) mod 10) * (f ! i * g ! ((k + 10 - i) mod 10)) * fe_weight k)
        = (\<Sum>j<10. f ! i * g ! j * (fe_factor i j * fe_weight ((i + j) mod 10)))"
      by (rule sum.reindex_bij_witness [of _ "\<lambda>j. (i + j) mod 10" "\<lambda>k. (k + 10 - i) mod 10"])
        (use i in \<open>auto simp: mod_simps mod_if algebra_simps\<close>)
  qed
  finally show ?thesis .
qed

lemma fe_mul_sums_val: "p25519 dvd fe_val f * fe_val g - fe_val (fe_mul_sums f g)"
proof -
  have v: "fe_val (fe_mul_sums f g) = (\<Sum>k<10. fe_column k f g * fe_weight k)"
    unfolding fe_val_def limb_val_def fe_mul_columns
    by (rule sum.cong) (auto simp: fe_index nth_Cons')
  have "fe_val f * fe_val g = (\<Sum>i<10. \<Sum>j<10. f ! i * g ! j * (fe_weight i * fe_weight j))"
    unfolding fe_val_def limb_val_def sum_product by (simp add: mult_ac)
  then have "fe_val f * fe_val g - fe_val (fe_mul_sums f g)
      = (\<Sum>i<10. \<Sum>j<10. f ! i * g ! j * (fe_weight i * fe_weight j - fe_factor i j * fe_weight ((i + j) mod 10)))"
    unfolding v fe_columns_sum by (simp add: sum_subtractf right_diff_distrib)
  also have "p25519 dvd \<dots>"
    by (intro dvd_sum dvd_mult) (simp add: fe_weight_mult)
  finally show ?thesis .
qed

section \<open>Bounds\<close>

text \<open>
  \<open>fe_loose\<close> is what \<open>fe.c\<close> asks of the inputs of a multiplication, \<open>1.65 * 2 ^ 26\<close> and
  \<open>1.65 * 2 ^ 25\<close>; \<open>fe_tight\<close> what it promises of the result, \<open>1.01 * 2 ^ 25\<close> and \<open>1.01 * 2 ^ 24\<close>.
\<close>

definition loose_bound :: "nat \<Rightarrow> int" where
  "loose_bound i = (if even i then 110729625 else 55364812)"

definition tight_bound :: "nat \<Rightarrow> int" where
  "tight_bound i = (if even i then 33889976 else 16944988)"

definition fe_bounded :: "(nat \<Rightarrow> int) \<Rightarrow> limbs \<Rightarrow> bool" where
  "fe_bounded B f \<longleftrightarrow> length f = 10 \<and> list_all (\<lambda>i. \<bar>f ! i\<bar> \<le> B i) [0, 1, 2, 3, 4, 5, 6, 7, 8, 9]"

abbreviation fe_loose :: "limbs \<Rightarrow> bool" where "fe_loose \<equiv> fe_bounded loose_bound"
abbreviation fe_tight :: "limbs \<Rightarrow> bool" where "fe_tight \<equiv> fe_bounded tight_bound"

lemma fe_bounded_nth: "fe_bounded B f \<Longrightarrow> i < 10 \<Longrightarrow> \<bar>f ! i\<bar> \<le> B i"
  by (auto simp: fe_bounded_def fe_index)

lemma fe_tight_loose: "fe_tight f \<Longrightarrow> fe_loose f"
  by (simp add: fe_bounded_def tight_bound_def loose_bound_def)

definition column_bound :: "nat \<Rightarrow> int" where
  "column_bound k = (\<Sum>i<10. fe_factor i ((k + 10 - i) mod 10) * (loose_bound i * loose_bound ((k + 10 - i) mod 10)))"

lemma abs_product_le: "\<bar>x\<bar> \<le> a \<Longrightarrow> \<bar>y\<bar> \<le> b \<Longrightarrow> 0 \<le> c \<Longrightarrow> \<bar>c * (x * y)\<bar> \<le> c * (a * b)"
  for a b c :: int
  by (auto simp: abs_mult intro!: mult_left_mono mult_mono)

lemma fe_column_bound: "fe_loose f \<Longrightarrow> fe_loose g \<Longrightarrow> \<bar>fe_column k f g\<bar> \<le> column_bound k"
  unfolding fe_column_def column_bound_def
  by (rule order_trans [OF sum_abs], rule sum_mono, rule abs_product_le)
    (auto simp: fe_factor_def fe_bounded_nth)

text \<open>The intervals of the limbs before the carries, and what the carries make of them.\<close>

lemma column_bounds:
  "map column_bound [0, 1, 2, 3, 4, 5, 6, 7, 8, 9]
   = [1526500696134443485, 944100830127147000, 1195452352106279851, 723401934772749000, 864404008078116217,
      502703039418351000, 533355664049952583, 282004144063953000, 202307320021788949, 61305248709555000]"
  by (simp add: column_bound_def sum_below_10 fe_factor_def loose_bound_def flip: numeral_2_eq_2)

definition column_intervals :: intervals where
  "column_intervals = map (\<lambda>u. (- u, u)) (map column_bound [0, 1, 2, 3, 4, 5, 6, 7, 8, 9])"

definition tight_intervals :: intervals where
  "tight_intervals = map (\<lambda>i. (- tight_bound i, tight_bound i)) [0, 1, 2, 3, 4, 5, 6, 7, 8, 9]"

definition covers :: "intervals \<Rightarrow> intervals \<Rightarrow> bool" where
  "covers b b' \<longleftrightarrow> list_all2 (\<lambda>(l, u) (l', u'). l' \<le> l \<and> u \<le> u') b b'"

lemma within_covers: "within h b \<Longrightarrow> covers b b' \<Longrightarrow> within h b'"
  unfolding within_def covers_def by (erule (1) list_all2_trans [rotated]) (auto split: prod.splits)

lemma mul_carries_safe: "run_safe fe_mul_carries column_intervals"
  unfolding column_intervals_def column_bounds
  by (simp add: fe_mul_carries_def fe_carry_def carry_bounds_def i64_def)

lemma mul_carries_bounds: "covers (run_bounds fe_mul_carries column_intervals) tight_intervals"
  unfolding column_intervals_def column_bounds tight_intervals_def
  by (simp add: run_bounds_def fe_mul_carries_def fe_carry_def carry_bounds_def covers_def tight_bound_def)

lemma length_fe_mul_sums [simp]: "length (fe_mul_sums f g) = 10"
  by (simp add: fe_mul_columns)

lemma fe_mul_sums_within: "fe_loose f \<Longrightarrow> fe_loose g \<Longrightarrow> within (fe_mul_sums f g) column_intervals"
  using fe_column_bound [of f g] by (simp add: fe_mul_columns column_intervals_def within_def abs_le_iff minus_le_iff)

lemma fe_carry_well_formed: "i < 10 \<Longrightarrow> well_formed 10 (fe_carry i)"
  by (auto simp: fe_carry_def)

lemma fe_carries_well_formed:
  "\<forall>p \<in> set fe_mul_carries. well_formed 10 p" "\<forall>p \<in> set fe_odd_even_carries. well_formed 10 p"
  by (simp_all add: fe_mul_carries_def fe_odd_even_carries_def fe_carry_well_formed del: well_formed.simps)

lemma within_tight: "within h tight_intervals \<longleftrightarrow> fe_tight h"
  unfolding within_def tight_intervals_def fe_bounded_def ten_indices
  by (simp add: list_all2_conv_all_nth list_all_iff abs_le_iff minus_le_iff Ball_def conj_commute cong: conj_cong)

lemma tight_int32: "fe_tight h \<Longrightarrow> map int32 h = h"
proof (rule map_idI)
  fix x assume "fe_tight h" "x \<in> set h"
  then obtain i where i: "i < 10" "x = h ! i" by (auto simp: in_set_conv_nth fe_bounded_def)
  then have "\<bar>x\<bar> \<le> 33889976" using fe_bounded_nth [OF \<open>fe_tight h\<close> i(1)] by (simp add: tight_bound_def split: if_splits)
  then show "int32 x = x" by (intro int32_id) auto
qed

text \<open>One multiplication: the carried sums fit, are tight, and stand for the product.\<close>

lemma fe_mul_run:
  assumes "fe_loose f" "fe_loose g"
  shows "run_fits fe_mul_carries (fe_mul_sums f g)" and "fe_mul f g = limb_run fe_mul_carries (fe_mul_sums f g)"
    and "fe_tight (fe_mul f g)"
proof -
  have w: "within (fe_mul_sums f g) column_intervals" by (rule fe_mul_sums_within [OF assms])
  show "run_fits fe_mul_carries (fe_mul_sums f g)"
    using run_safe_fits [OF mul_carries_safe w] fe_carries_well_formed by simp
  have "within (limb_run fe_mul_carries (fe_mul_sums f g)) tight_intervals"
    using run_within [OF w, of fe_mul_carries] fe_carries_well_formed within_covers mul_carries_bounds by simp
  then have t: "fe_tight (limb_run fe_mul_carries (fe_mul_sums f g))" by (simp add: within_tight)
  then show "fe_mul f g = limb_run fe_mul_carries (fe_mul_sums f g)" by (simp add: fe_mul_def tight_int32)
  with t show "fe_tight (fe_mul f g)" by simp
qed

lemma fe_mul_val:
  assumes "fe_loose f" "fe_loose g"
  shows "fe_val (fe_mul f g) mod p25519 = fe_val f * fe_val g mod p25519"
proof -
  have "fe_val (fe_mul f g) mod p25519 = fe_val (fe_mul_sums f g) mod p25519"
    unfolding fe_mul_run(2) [OF assms] fe_val_def using fe.run_val fe_carries_harmless(1) by simp
  also have "\<dots> = fe_val f * fe_val g mod p25519"
    using fe_mul_sums_val [of f g] by (simp add: mod_eq_dvd_iff dvd_diff_commute)
  finally show ?thesis .
qed

lemma fe_sq_times_val:
  assumes "fe_loose z" "0 < n"
  shows "fe_tight (fe_sq_times n z) \<and> fe_val (fe_sq_times n z) mod p25519 = fe_val z ^ (2 ^ n) mod p25519"
  using assms(2)
proof (induction n)
  case (Suc n)
  show ?case
  proof (cases "n = 0")
    case True
    then show ?thesis using fe_mul_run(3) fe_mul_val assms by (simp add: fe_sq_times_def fe_sq_eq_mul power2_eq_square)
  next
    case False
    then have IH: "fe_tight (fe_sq_times n z)" "fe_val (fe_sq_times n z) mod p25519 = fe_val z ^ (2 ^ n) mod p25519"
      using Suc.IH by auto
    have s: "fe_sq_times (Suc n) z = fe_mul (fe_sq_times n z) (fe_sq_times n z)"
      using False by (cases n) (simp_all add: fe_sq_times_def fe_sq_eq_mul)
    have "fe_val (fe_sq_times (Suc n) z) mod p25519 = (fe_val z ^ (2 ^ n)) * (fe_val z ^ (2 ^ n)) mod p25519"
      unfolding s using fe_mul_val [of "fe_sq_times n z" "fe_sq_times n z"] IH fe_tight_loose by (metis mod_mult_cong)
    then show ?thesis using s IH fe_mul_run(3) fe_tight_loose by (simp add: power_add [symmetric] mult_2)
  qed
qed simp

section \<open>Powers\<close>

definition has_power :: "limbs \<Rightarrow> limbs \<Rightarrow> nat \<Rightarrow> bool" where
  "has_power z h e \<longleftrightarrow> fe_loose h \<and> fe_val h mod p25519 = fe_val z ^ e mod p25519"

lemma has_power_self: "fe_loose z \<Longrightarrow> has_power z z 1"
  by (simp add: has_power_def)

lemma has_power_mul: "has_power z a i \<Longrightarrow> has_power z b j \<Longrightarrow> has_power z (fe_mul a b) (i + j)"
  unfolding has_power_def power_add by (metis fe_mul_run(3) fe_mul_val fe_tight_loose mod_mult_cong)

lemma has_power_sq_times: "has_power z a i \<Longrightarrow> 0 < n \<Longrightarrow> has_power z (fe_sq_times n a) (i * 2 ^ n)"
  unfolding has_power_def power_mult by (metis fe_sq_times_val fe_tight_loose power_mod)

lemmas powers = has_power_self has_power_mul has_power_sq_times

lemma fe_invert_has_power:
  assumes z: "fe_loose z"
  shows "has_power z (fe_invert z) (2 ^ 255 - 21)"
proof -
  have "\<exists>e. has_power z (fe_invert z) e \<and> e = 2 ^ 255 - 21"
    unfolding fe_invert_def Let_def
    by (rule exI, rule conjI, (rule has_power_mul has_power_sq_times has_power_self z | simp; fail)+)
  then show ?thesis by auto
qed

lemma fe_pow22523_has_power:
  assumes z: "fe_loose z"
  shows "has_power z (fe_pow22523 z) (2 ^ 252 - 3)"
proof -
  have "\<exists>e. has_power z (fe_pow22523 z) e \<and> e = 2 ^ 252 - 3"
    unfolding fe_pow22523_def Let_def
    by (rule exI, rule conjI, (rule has_power_mul has_power_sq_times has_power_self z | simp; fail)+)
  then show ?thesis by auto
qed

section \<open>Properties\<close>

text \<open>
  C14: Multiplication of field elements is right and does not overflow.  For inputs within the bounds
  \<open>fe.c\<close> asks for, every intermediate sum and carry of \<open>fe_mul\<close> fits in 64 bits, the result is within
  the tighter bounds it promises - so products may be multiplied again - and stands for the product
  modulo \<open>2 ^ 255 - 19\<close>; and the separate code of \<open>fe_sq\<close> computes limb for limb the same as \<open>fe_mul\<close>
  of an element with itself.  (The multiples of single limbs taken before the sums are not part of the claim.)
\<close>

theorem fe_mul_correct:
  assumes "fe_loose f" "fe_loose g"
  shows "run_fits fe_mul_carries (fe_mul_sums f g) \<and> fe_tight (fe_mul f g)
    \<and> fe_val (fe_mul f g) mod p25519 = fe_val f * fe_val g mod p25519 \<and> fe_sq f = fe_mul f f"
  using fe_mul_run [OF assms] fe_mul_val [OF assms] fe_sq_eq_mul by blast

lemma fe_mul_correct_witness:
  "fe_val (fe_mul (replicate 10 (- 55364812)) (replicate 10 55364812)) mod p25519
   = fe_val (replicate 10 (- 55364812)) * fe_val (replicate 10 55364812) mod p25519"
proof -
  have "fe_loose (replicate 10 (- 55364812))" "fe_loose (replicate 10 55364812)"
    by (simp_all add: fe_bounded_def loose_bound_def)
  then show ?thesis using fe_mul_correct by blast
qed

text \<open>
  C15: Inversion and the root exponent are the powers they should be.  \<open>fe_invert\<close> raises to
  \<open>2 ^ 255 - 21\<close>, two below the modulus, which inverts by Fermat; \<open>fe_pow22523\<close>
  to \<open>2 ^ 252 - 3\<close>, as the square root of decompression needs; both for every element within bounds,
  with a result within bounds.
\<close>

theorem fe_invert_power:
  assumes "fe_loose z"
  shows "fe_loose (fe_invert z) \<and> fe_val (fe_invert z) mod p25519 = fe_val z ^ (2 ^ 255 - 21) mod p25519
    \<and> fe_loose (fe_pow22523 z) \<and> fe_val (fe_pow22523 z) mod p25519 = fe_val z ^ (2 ^ 252 - 3) mod p25519"
  using fe_invert_has_power [OF assms] fe_pow22523_has_power [OF assms] unfolding has_power_def by blast

lemma fe_invert_power_witness:
  "fe_val (fe_invert [7, -3, 0, 0, 0, 0, 0, 0, 0, 1]) mod p25519 = fe_val [7, -3, 0, 0, 0, 0, 0, 0, 0, 1] ^ (2 ^ 255 - 21) mod p25519"
proof -
  have "fe_loose [7, -3, 0, 0, 0, 0, 0, 0, 0, 1]" by (simp add: fe_bounded_def loose_bound_def)
  then show ?thesis using fe_invert_power by blast
qed

end
