(* ===== verification/Scalar.thy ===== *)
theory Scalar
  imports Field
begin

text \<open>
  \<open>keypair/sc.c\<close>: scalars modulo the order of the base point, in limbs of 21 bits.  The straight
  code of \<open>sc_reduce\<close> is a list of steps in its order: \<open>sc_spread i\<close> clears limb \<open>i\<close> into the six
  limbs from \<open>i - 12\<close>, \<open>sc_round\<close> and \<open>sc_floor\<close> carry.  \<open>sc_muladd\<close> ends with the same list.
\<close>

definition sc_spread :: "nat \<Rightarrow> limb_op" where
  "sc_spread i = Spread i
     [(i - 12, 666643), (i - 11, 470296), (i - 10, 654183), (i - 9, - 997805), (i - 8, 136657), (i - 7, - 683901)]"

definition sc_round :: "nat \<Rightarrow> limb_op" where
  "sc_round i = Carry (2 ^ 20) 21 i 1 (i + 1)"

definition sc_floor :: "nat \<Rightarrow> limb_op" where
  "sc_floor i = Carry 0 21 i 1 (i + 1)"

definition sc_reduce_ops :: "limb_op list" where
  "sc_reduce_ops =
     map sc_spread [23, 22, 21, 20, 19, 18] @
     map sc_round [6, 8, 10, 12, 14, 16, 7, 9, 11, 13, 15] @
     map sc_spread [17, 16, 15, 14, 13, 12] @
     map sc_round [0, 2, 4, 6, 8, 10, 1, 3, 5, 7, 9, 11] @
     map sc_spread [12] @
     map sc_floor [0, 1, 2, 3, 4, 5, 6, 7, 8, 9, 10, 11] @
     map sc_spread [12] @
     map sc_floor [0, 1, 2, 3, 4, 5, 6, 7, 8, 9, 10]"

definition sc_load_24 :: "bytes \<Rightarrow> limbs" where
  "sc_load_24 s =
     [sint (2097151 AND load_3 s 0),
      sint (2097151 AND drop_bit 5 (load_4 s 2)),
      sint (2097151 AND drop_bit 2 (load_3 s 5)),
      sint (2097151 AND drop_bit 7 (load_4 s 7)),
      sint (2097151 AND drop_bit 4 (load_4 s 10)),
      sint (2097151 AND drop_bit 1 (load_3 s 13)),
      sint (2097151 AND drop_bit 6 (load_4 s 15)),
      sint (2097151 AND drop_bit 3 (load_3 s 18)),
      sint (2097151 AND load_3 s 21),
      sint (2097151 AND drop_bit 5 (load_4 s 23)),
      sint (2097151 AND drop_bit 2 (load_3 s 26)),
      sint (2097151 AND drop_bit 7 (load_4 s 28)),
      sint (2097151 AND drop_bit 4 (load_4 s 31)),
      sint (2097151 AND drop_bit 1 (load_3 s 34)),
      sint (2097151 AND drop_bit 6 (load_4 s 36)),
      sint (2097151 AND drop_bit 3 (load_3 s 39)),
      sint (2097151 AND load_3 s 42),
      sint (2097151 AND drop_bit 5 (load_4 s 44)),
      sint (2097151 AND drop_bit 2 (load_3 s 47)),
      sint (2097151 AND drop_bit 7 (load_4 s 49)),
      sint (2097151 AND drop_bit 4 (load_4 s 52)),
      sint (2097151 AND drop_bit 1 (load_3 s 55)),
      sint (2097151 AND drop_bit 6 (load_4 s 57)),
      sint (drop_bit 3 (load_4 s 60))]"

definition sc_load_12 :: "bytes \<Rightarrow> limbs" where
  "sc_load_12 s =
     [sint (2097151 AND load_3 s 0),
      sint (2097151 AND drop_bit 5 (load_4 s 2)),
      sint (2097151 AND drop_bit 2 (load_3 s 5)),
      sint (2097151 AND drop_bit 7 (load_4 s 7)),
      sint (2097151 AND drop_bit 4 (load_4 s 10)),
      sint (2097151 AND drop_bit 1 (load_3 s 13)),
      sint (2097151 AND drop_bit 6 (load_4 s 15)),
      sint (2097151 AND drop_bit 3 (load_3 s 18)),
      sint (2097151 AND load_3 s 21),
      sint (2097151 AND drop_bit 5 (load_4 s 23)),
      sint (2097151 AND drop_bit 2 (load_3 s 26)),
      sint (drop_bit 7 (load_4 s 28))]"

definition sc_pack :: "limbs \<Rightarrow> int list" where
  "sc_pack h =
     [drop_bit 0 (h ! 0),
      drop_bit 8 (h ! 0),
      drop_bit 16 (h ! 0) OR push_bit 5 (h ! 1),
      drop_bit 3 (h ! 1),
      drop_bit 11 (h ! 1),
      drop_bit 19 (h ! 1) OR push_bit 2 (h ! 2),
      drop_bit 6 (h ! 2),
      drop_bit 14 (h ! 2) OR push_bit 7 (h ! 3),
      drop_bit 1 (h ! 3),
      drop_bit 9 (h ! 3),
      drop_bit 17 (h ! 3) OR push_bit 4 (h ! 4),
      drop_bit 4 (h ! 4),
      drop_bit 12 (h ! 4),
      drop_bit 20 (h ! 4) OR push_bit 1 (h ! 5),
      drop_bit 7 (h ! 5),
      drop_bit 15 (h ! 5) OR push_bit 6 (h ! 6),
      drop_bit 2 (h ! 6),
      drop_bit 10 (h ! 6),
      drop_bit 18 (h ! 6) OR push_bit 3 (h ! 7),
      drop_bit 5 (h ! 7),
      drop_bit 13 (h ! 7),
      drop_bit 0 (h ! 8),
      drop_bit 8 (h ! 8),
      drop_bit 16 (h ! 8) OR push_bit 5 (h ! 9),
      drop_bit 3 (h ! 9),
      drop_bit 11 (h ! 9),
      drop_bit 19 (h ! 9) OR push_bit 2 (h ! 10),
      drop_bit 6 (h ! 10),
      drop_bit 14 (h ! 10) OR push_bit 7 (h ! 11),
      drop_bit 1 (h ! 11),
      drop_bit 9 (h ! 11),
      drop_bit 17 (h ! 11)]"

text \<open>The first 32 bytes of \<open>s\<close> are overwritten.\<close>

definition sc_reduce :: "bytes \<Rightarrow> bytes" where
  "sc_reduce s = write_at s 0 (map word_of_int (sc_pack (limb_run sc_reduce_ops (sc_load_24 s))))"

definition sc_muladd_sums :: "limbs \<Rightarrow> limbs \<Rightarrow> limbs \<Rightarrow> limbs" where
  "sc_muladd_sums a b c =
     [c ! 0 + a ! 0 * b ! 0,
      c ! 1 + a ! 0 * b ! 1 + a ! 1 * b ! 0,
      c ! 2 + a ! 0 * b ! 2 + a ! 1 * b ! 1 + a ! 2 * b ! 0,
      c ! 3 + a ! 0 * b ! 3 + a ! 1 * b ! 2 + a ! 2 * b ! 1 + a ! 3 * b ! 0,
      c ! 4 + a ! 0 * b ! 4 + a ! 1 * b ! 3 + a ! 2 * b ! 2 + a ! 3 * b ! 1 + a ! 4 * b ! 0,
      c ! 5 + a ! 0 * b ! 5 + a ! 1 * b ! 4 + a ! 2 * b ! 3 + a ! 3 * b ! 2 + a ! 4 * b ! 1 + a ! 5 * b ! 0,
      c ! 6 + a ! 0 * b ! 6 + a ! 1 * b ! 5 + a ! 2 * b ! 4 + a ! 3 * b ! 3 + a ! 4 * b ! 2 + a ! 5 * b ! 1 + a ! 6 * b ! 0,
      c ! 7 + a ! 0 * b ! 7 + a ! 1 * b ! 6 + a ! 2 * b ! 5 + a ! 3 * b ! 4 + a ! 4 * b ! 3 + a ! 5 * b ! 2 + a ! 6 * b ! 1 + a ! 7 * b ! 0,
      c ! 8 + a ! 0 * b ! 8 + a ! 1 * b ! 7 + a ! 2 * b ! 6 + a ! 3 * b ! 5 + a ! 4 * b ! 4 + a ! 5 * b ! 3 + a ! 6 * b ! 2 + a ! 7 * b ! 1 + a ! 8 * b ! 0,
      c ! 9 + a ! 0 * b ! 9 + a ! 1 * b ! 8 + a ! 2 * b ! 7 + a ! 3 * b ! 6 + a ! 4 * b ! 5 + a ! 5 * b ! 4 + a ! 6 * b ! 3 + a ! 7 * b ! 2 + a ! 8 * b ! 1 + a ! 9 * b ! 0,
      c ! 10 + a ! 0 * b ! 10 + a ! 1 * b ! 9 + a ! 2 * b ! 8 + a ! 3 * b ! 7 + a ! 4 * b ! 6 + a ! 5 * b ! 5 + a ! 6 * b ! 4 + a ! 7 * b ! 3 + a ! 8 * b ! 2 + a ! 9 * b ! 1 + a ! 10 * b ! 0,
      c ! 11 + a ! 0 * b ! 11 + a ! 1 * b ! 10 + a ! 2 * b ! 9 + a ! 3 * b ! 8 + a ! 4 * b ! 7 + a ! 5 * b ! 6 + a ! 6 * b ! 5 + a ! 7 * b ! 4 + a ! 8 * b ! 3 + a ! 9 * b ! 2 + a ! 10 * b ! 1 + a ! 11 * b ! 0,
      a ! 1 * b ! 11 + a ! 2 * b ! 10 + a ! 3 * b ! 9 + a ! 4 * b ! 8 + a ! 5 * b ! 7 + a ! 6 * b ! 6 + a ! 7 * b ! 5 + a ! 8 * b ! 4 + a ! 9 * b ! 3 + a ! 10 * b ! 2 + a ! 11 * b ! 1,
      a ! 2 * b ! 11 + a ! 3 * b ! 10 + a ! 4 * b ! 9 + a ! 5 * b ! 8 + a ! 6 * b ! 7 + a ! 7 * b ! 6 + a ! 8 * b ! 5 + a ! 9 * b ! 4 + a ! 10 * b ! 3 + a ! 11 * b ! 2,
      a ! 3 * b ! 11 + a ! 4 * b ! 10 + a ! 5 * b ! 9 + a ! 6 * b ! 8 + a ! 7 * b ! 7 + a ! 8 * b ! 6 + a ! 9 * b ! 5 + a ! 10 * b ! 4 + a ! 11 * b ! 3,
      a ! 4 * b ! 11 + a ! 5 * b ! 10 + a ! 6 * b ! 9 + a ! 7 * b ! 8 + a ! 8 * b ! 7 + a ! 9 * b ! 6 + a ! 10 * b ! 5 + a ! 11 * b ! 4,
      a ! 5 * b ! 11 + a ! 6 * b ! 10 + a ! 7 * b ! 9 + a ! 8 * b ! 8 + a ! 9 * b ! 7 + a ! 10 * b ! 6 + a ! 11 * b ! 5,
      a ! 6 * b ! 11 + a ! 7 * b ! 10 + a ! 8 * b ! 9 + a ! 9 * b ! 8 + a ! 10 * b ! 7 + a ! 11 * b ! 6,
      a ! 7 * b ! 11 + a ! 8 * b ! 10 + a ! 9 * b ! 9 + a ! 10 * b ! 8 + a ! 11 * b ! 7,
      a ! 8 * b ! 11 + a ! 9 * b ! 10 + a ! 10 * b ! 9 + a ! 11 * b ! 8,
      a ! 9 * b ! 11 + a ! 10 * b ! 10 + a ! 11 * b ! 9,
      a ! 10 * b ! 11 + a ! 11 * b ! 10,
      a ! 11 * b ! 11,
      0]"

definition sc_muladd_ops :: "limb_op list" where
  "sc_muladd_ops =
     map sc_round [0, 2, 4, 6, 8, 10, 12, 14, 16, 18, 20, 22, 1, 3, 5, 7, 9, 11, 13, 15, 17, 19, 21] @
     sc_reduce_ops"

definition sc_muladd :: "bytes \<Rightarrow> bytes \<Rightarrow> bytes \<Rightarrow> bytes" where
  "sc_muladd a b c =
     map word_of_int (sc_pack (limb_run sc_muladd_ops
       (sc_muladd_sums (sc_load_12 a) (sc_load_12 b) (sc_load_12 c))))"

end
