(* ===== verification/Scalar_Value.thy ===== *)
theory Scalar_Value
  imports Scalar Limb_Range Little_Endian
begin

text \<open>
  What the scalar operations of \<open>sc.c\<close> compute.  The 24 limbs of 21 bits stand for the number
  \<open>sc_val\<close>; the contract \<open>limb_value\<close> is interpreted for them and the order of the base point.  The
  final carries are exact, and the two last reductions leave the one residue below the order.
\<close>

section \<open>The contract\<close>

definition sc_weight :: "nat \<Rightarrow> int" where
  "sc_weight i = 2 ^ (21 * i)"

definition group_order :: int where
  "group_order = 2 ^ 252 + 27742317777372353535851937790883648493"

definition sc_val :: "limbs \<Rightarrow> int" where "sc_val = limb_val 24 sc_weight"

interpretation sc: limb_value 24 sc_weight group_order
  by unfold_locales (simp add: group_order_def)

lemma sc_spread_harmless:
  assumes "12 \<le> i" "i < 24"
  shows "harmless 24 sc_weight group_order (sc_spread i)"
proof -
  define d where "d = i - 12"
  then have d: "i = 12 + d" "d < 12" using assms by auto
  have "(\<Sum>(j, m)\<leftarrow>[(d, 666643), (Suc d, 470296), (Suc (Suc d), 654183), (3 + d, - 997805),
        (4 + d, 136657), (5 + d, - 683901)].
      m * sc_weight j) - sc_weight i
    = 2 ^ (21 * d) * (666643 + 470296 * 2 ^ 21 + 654183 * 2 ^ 42 - 997805 * 2 ^ 63 + 136657 * 2 ^ 84 - 683901 * 2 ^ 105 - 2 ^ 252)"
    by (simp add: sc_weight_def d(1) power_add algebra_simps)
  also have "666643 + 470296 * 2 ^ 21 + 654183 * 2 ^ 42 - 997805 * 2 ^ 63 + 136657 * 2 ^ 84 - 683901 * 2 ^ 105 - 2 ^ 252 = - group_order"
    by (simp add: group_order_def)
  finally show ?thesis
    using d by (simp add: sc_spread_def)
qed

lemma sc_carry_harmless: "i < 23 \<Longrightarrow> harmless 24 sc_weight M (sc_round i)" "i < 23 \<Longrightarrow> harmless 24 sc_weight M (sc_floor i)"
  by (simp_all add: sc_round_def sc_floor_def sc_weight_def power_add)

text \<open>Carries alone move nothing: the value stays the same number.\<close>

lemma exact_run:
  assumes "length h = 24" "\<And>M. \<forall>p \<in> set ps. harmless 24 sc_weight M p"
  shows "sc_val (limb_run ps h) = sc_val h"
proof -
  let ?d = "limb_val 24 sc_weight (limb_run ps h) - limb_val 24 sc_weight h"
  have "\<bar>?d\<bar> + 1 dvd ?d"
    by (rule limb_value.run_dvd [OF limb_value.intro assms(1) assms(2)]) simp
  then have "?d = 0" using zdvd_imp_le [of "\<bar>?d\<bar> + 1" "\<bar>?d\<bar>"] by (cases "?d = 0") auto
  then show ?thesis by (simp add: sc_val_def)
qed

section \<open>Loading\<close>

lemma or_shifted:
  fixes x y :: u64
  assumes "uint x < 2 ^ k" "uint y * 2 ^ k < 2 ^ 64"
  shows "uint (x OR push_bit k y) = uint x + 2 ^ k * uint y"
proof -
  have "uint (push_bit k y) = take_bit 64 (push_bit k (uint y))" by (simp add: unsigned_push_bit_eq del: push_bit_eq_mult)
  also have "\<dots> = push_bit k (uint y)" by (rule take_bit_int_eq_self) (use assms(2) in \<open>simp_all add: push_bit_eq_mult\<close>)
  finally have "uint (x OR push_bit k y) = uint x OR push_bit k (uint y)" by (simp add: unsigned_or_eq)
  also have "\<dots> = uint x + push_bit k (uint y)"
  proof (rule disjunctive_add [symmetric])
    fix n
    have "uint x = take_bit k (uint x)" using assms(1) by (simp add: take_bit_int_eq_self)
    then have "bit (uint x) n \<Longrightarrow> n < k" by (metis bit_take_bit_iff)
    then show "\<not> bit (uint x) n \<or> \<not> bit (push_bit k (uint y)) n" by (auto simp: bit_push_bit_iff)
  qed
  finally show ?thesis by (simp add: push_bit_eq_mult mult.commute)
qed

lemma uint_byte_less: "uint (b :: byte) < 256"
  using uint_lt2p [of b] by simp

lemma uint_load_3:
  assumes "i + 3 \<le> length s"
  shows "uint (load_3 s i) = take_bit 24 (drop_bit (8 * i) (bytes_val s))"
proof -
  have b: "uint (s ! i) < 256" "uint (s ! (i + 1)) < 256" "uint (s ! (i + 2)) < 256" by (rule uint_byte_less)+
  have u: "uint (ucast (x :: byte) :: u64) = uint x" for x by (simp add: unsigned_ucast_eq take_bit_int_eq_self uint_byte_less order.strict_trans [OF uint_byte_less])
  have 1: "uint (ucast (s ! i) OR push_bit 8 (ucast (s ! (i + 1))) :: u64) = uint (s ! i) + 256 * uint (s ! (i + 1))"
    using or_shifted [of "ucast (s ! i)" 8 "ucast (s ! (i + 1))"] b by (simp add: u)
  have 2: "uint (ucast (s ! i) OR push_bit 8 (ucast (s ! (i + 1))) :: u64) < 2 ^ 16"
    unfolding 1 using b by simp
  have "uint (load_3 s i) = uint (s ! i) + 256 * uint (s ! (i + 1)) + 65536 * uint (s ! (i + 2))"
    using or_shifted [OF 2, of "ucast (s ! (i + 2))"] b 1
    by (simp add: load_3_def Let_def u)
  also have "\<dots> = bytes_val (take 3 (drop i s))"
  proof -
    have "take 3 (drop i s) = [s ! i, s ! (i + 1), s ! (i + 2)]"
      using assms by (intro nth_equalityI) (auto simp: less_Suc_eq numeral_3_eq_3 nth_Cons')
    then show ?thesis by (simp add: bytes_val_def)
  qed
  also have "\<dots> = take_bit 24 (drop_bit (8 * i) (bytes_val s))"
    using bytes_val_slice [OF assms] by (simp add: take_bit_eq_mod drop_bit_eq_div)
  finally show ?thesis .
qed

lemma uint_load_4:
  assumes "i + 4 \<le> length s"
  shows "uint (load_4 s i) = take_bit 32 (drop_bit (8 * i) (bytes_val s))"
proof -
  have b: "uint (s ! i) < 256" "uint (s ! (i + 1)) < 256" "uint (s ! (i + 2)) < 256" "uint (s ! (i + 3)) < 256"
    by (rule uint_byte_less)+
  have u: "uint (ucast (x :: byte) :: u64) = uint x" for x
    by (simp add: unsigned_ucast_eq take_bit_int_eq_self order.strict_trans [OF uint_byte_less])
  have t: "load_4 s i = load_3 s i OR push_bit 24 (ucast (s ! (i + 3)))"
    by (simp add: load_4_def load_3_def Let_def)
  have l3: "uint (load_3 s i) = bytes_val (take 3 (drop i s))"
    using uint_load_3 [of i s] bytes_val_slice [of i 3 s] assms by (simp add: take_bit_eq_mod drop_bit_eq_div)
  have "uint (load_3 s i) < 2 ^ 24"
    using uint_load_3 [of i s] assms by (simp add: take_bit_int_less_exp [of 24, simplified])
  from or_shifted [OF this, of "ucast (s ! (i + 3))"] b
  have "uint (load_4 s i) = uint (load_3 s i) + 2 ^ 24 * uint (s ! (i + 3))" unfolding t by (simp add: u)
  also have "\<dots> = bytes_val (take 4 (drop i s))"
  proof -
    have "take 4 (drop i s) = take 3 (drop i s) @ [s ! (i + 3)]"
      using assms take_Suc_conv_app_nth [of 3 "drop i s"] by (simp add: add.commute)
    then show ?thesis using assms unfolding l3 by (simp add: bytes_val_def le_val_append)
  qed
  also have "\<dots> = take_bit 32 (drop_bit (8 * i) (bytes_val s))"
    using bytes_val_slice [OF assms] by (simp add: take_bit_eq_mod drop_bit_eq_div)
  finally show ?thesis .
qed

lemma small_sint: "uint w < 2 ^ 63 \<Longrightarrow> sint w = uint w" for w :: u64
proof -
  assume "uint w < 2 ^ 63"
  moreover have "- (2 ^ 63) \<le> uint w" by (rule order_trans [OF _ unsigned_greater_eq]) simp
  ultimately have "signed_take_bit 63 (uint w) = uint w" by (rule signed_take_bit_int_eq_self [rotated])
  then show "sint w = uint w" by (simp add: sint_uint)
qed

lemma uint_drop_bit: "uint (drop_bit d w) = drop_bit d (uint w)" for w :: u64
proof -
  have "take_bit 64 (uint w) = uint w" using uint_lt2p [of w] by (simp add: take_bit_int_eq_self)
  then show ?thesis by (simp add: unsigned_drop_bit_eq)
qed

text \<open>A limb of 21 bits cut out of a loaded word is a digit of the number of the bytes.\<close>

lemma loaded_limb:
  fixes w :: u64
  assumes "uint w = take_bit n (drop_bit k B)" "21 + d \<le> n"
  shows "sint (2097151 AND drop_bit d w) = take_bit 21 (drop_bit (k + d) B)"
proof -
  have m: "(2097151 :: u64) = mask 21" by (simp add: mask_eq_exp_minus_1)
  have "take_bit 64 (uint w) = uint w" using uint_lt2p [of w] by (simp add: take_bit_int_eq_self)
  then have "uint (2097151 AND drop_bit d w) = take_bit 21 (drop_bit d (uint w))"
    unfolding m by (simp add: and.commute [of "mask 21"] take_bit_eq_mask [symmetric] unsigned_take_bit_eq unsigned_drop_bit_eq)
  also have "\<dots> = take_bit 21 (drop_bit (k + d) B)"
    unfolding assms(1) by (rule bit_eqI) (use assms(2) in \<open>auto simp: bit_simps ac_simps\<close>)
  finally have e: "uint (2097151 AND drop_bit d w) = take_bit 21 (drop_bit (k + d) B)" .
  have "take_bit 21 (drop_bit (k + d) B) < 2 ^ 21" by (rule take_bit_int_less_exp)
  then show ?thesis using small_sint [of "2097151 AND drop_bit d w"] e by simp
qed

lemma last_limb:
  fixes w :: u64
  assumes "uint w = take_bit 32 (drop_bit k B)" "0 \<le> B" "B < 2 ^ (k + 32)"
  shows "sint (drop_bit d w) = drop_bit (k + d) B"
proof -
  have "take_bit (k + 32) B = B" using assms(2,3) by (simp add: take_bit_int_eq_self)
  then have d: "take_bit 32 (drop_bit k B) = drop_bit k B" by (metis add_diff_cancel_left' drop_bit_take_bit)
  then have w: "uint w = drop_bit k B" using assms(1) by simp
  have "drop_bit k B < 2 ^ 32" "0 \<le> drop_bit k B"
    using take_bit_int_less_exp [of 32 "drop_bit k B"] assms(2) unfolding d by simp_all
  have e: "uint (drop_bit d w) = drop_bit (k + d) B" using w by (simp add: uint_drop_bit add.commute)
  have "drop_bit (k + d) B = take_bit (32 - d) (drop_bit d (drop_bit k B))"
    using drop_bit_take_bit [of d 32 "drop_bit k B"] unfolding d by (simp add: add.commute)
  then have "drop_bit (k + d) B < 2 ^ (32 - d)" by (metis take_bit_int_less_exp)
  moreover have "(2 :: int) ^ (32 - d) \<le> 2 ^ 32" by (rule power_increasing) auto
  ultimately show ?thesis using small_sint [of "drop_bit d w"] e by simp
qed

lemmas loads = uint_load_3 uint_load_4

text \<open>The limbs loaded are the digits in base \<open>2 ^ 21\<close>; the last one takes the rest.\<close>

definition digits_21 :: "nat \<Rightarrow> int \<Rightarrow> limbs" where
  "digits_21 n v = map (\<lambda>i. take_bit 21 (drop_bit (21 * i) v)) [0..<n] @ [drop_bit (21 * n) v]"

lemma sc_load_24_digits:
  assumes "length s = 64"
  shows "sc_load_24 s = digits_21 23 (bytes_val s)"
proof -
  have B: "0 \<le> bytes_val s" "bytes_val s < 2 ^ 512" using bytes_val_bounds [of s] assms by simp_all
  have l0: "sint (2097151 AND load_3 s i) = take_bit 21 (drop_bit (8 * i) (bytes_val s))" if "i + 3 \<le> 64" for i
    using loaded_limb [OF uint_load_3, of i s 0] that assms by simp
  have l3: "sint (2097151 AND drop_bit d (load_3 s i)) = take_bit 21 (drop_bit (8 * i + d) (bytes_val s))"
    if "i + 3 \<le> 64" "d \<le> 3" for i d
    using loaded_limb [OF uint_load_3, of i s d] that assms by simp
  have l4: "sint (2097151 AND drop_bit d (load_4 s i)) = take_bit 21 (drop_bit (8 * i + d) (bytes_val s))"
    if "i + 4 \<le> 64" "d \<le> 11" for i d
    using loaded_limb [OF uint_load_4, of i s d] that assms by simp
  have l: "sint (drop_bit 3 (load_4 s 60)) = drop_bit 483 (bytes_val s)"
    using last_limb [OF uint_load_4, of 60 s 3] B assms by simp
  show ?thesis unfolding sc_load_24_def digits_21_def l by (simp add: l0 l3 l4 upt_rec)
qed

lemma sc_load_12_digits:
  assumes "length s = 32"
  shows "sc_load_12 s = digits_21 11 (bytes_val s)"
proof -
  have B: "0 \<le> bytes_val s" "bytes_val s < 2 ^ 256" using bytes_val_bounds [of s] assms by simp_all
  have l0: "sint (2097151 AND load_3 s i) = take_bit 21 (drop_bit (8 * i) (bytes_val s))" if "i + 3 \<le> 32" for i
    using loaded_limb [OF uint_load_3, of i s 0] that assms by simp
  have l3: "sint (2097151 AND drop_bit d (load_3 s i)) = take_bit 21 (drop_bit (8 * i + d) (bytes_val s))"
    if "i + 3 \<le> 32" "d \<le> 3" for i d
    using loaded_limb [OF uint_load_3, of i s d] that assms by simp
  have l4: "sint (2097151 AND drop_bit d (load_4 s i)) = take_bit 21 (drop_bit (8 * i + d) (bytes_val s))"
    if "i + 4 \<le> 32" "d \<le> 11" for i d
    using loaded_limb [OF uint_load_4, of i s d] that assms by simp
  have l: "sint (drop_bit 7 (load_4 s 28)) = drop_bit 231 (bytes_val s)"
    using last_limb [OF uint_load_4, of 28 s 7] B assms by simp
  show ?thesis unfolding sc_load_12_def digits_21_def l by (simp add: l0 l3 l4 upt_rec)
qed

lemma length_digits [simp]: "length (digits_21 n v) = Suc n"
  by (simp add: digits_21_def)

lemma digits_nth: "i \<le> n \<Longrightarrow> digits_21 n v ! i = (if i < n then take_bit 21 (drop_bit (21 * i) v) else drop_bit (21 * n) v)"
  by (simp add: digits_21_def nth_append)

lemma digits_sum: "(\<Sum>i<Suc n. digits_21 n v ! i * sc_weight i) = v"
proof -
  have "(\<Sum>i<n. digits_21 n v ! i * sc_weight i) = (\<Sum>i<n. (v div 2 ^ (21 * i) mod 2 ^ 21) * 2 ^ (21 * i))"
    by (rule sum.cong) (simp_all add: digits_nth sc_weight_def take_bit_eq_mod drop_bit_eq_div)
  then show ?thesis using limbs_sum [where v = v and w = 21 and n = n]
    by (simp add: digits_nth sc_weight_def drop_bit_eq_div)
qed

lemma sc_val_load_24: "length s = 64 \<Longrightarrow> sc_val (sc_load_24 s) = bytes_val s"
  using digits_sum [of 23 "bytes_val s"] by (simp add: sc_val_def limb_val_def sc_load_24_digits)

text \<open>Limbs in range are the digits of their value.\<close>

lemma digits_unique:
  assumes "length h = Suc n" "\<forall>i<n. 0 \<le> h ! i \<and> h ! i < 2 ^ 21" "(\<Sum>i<Suc n. h ! i * sc_weight i) = v"
  shows "h = digits_21 n v"
proof -
  have sum: "(\<Sum>i<k. h ! i * sc_weight i) = le_val (2 ^ 21) (take k h)" if "k \<le> Suc n" for k
    using that
  proof (induction k)
    case (Suc k)
    then have "take (Suc k) h = take k h @ [h ! k]" using assms(1) by (simp add: take_Suc_conv_app_nth)
    moreover have "sc_weight k = (2 ^ 21) ^ k" by (simp only: sc_weight_def power_mult)
    ultimately show ?case using Suc assms(1) by (simp add: le_val_append mult.commute)
  qed simp
  have v: "v = le_val (2 ^ 21) h" using sum [of "Suc n"] assms(1,3) by simp
  have split: "v = le_val (2 ^ 21) (take k h) + (2 ^ 21) ^ k * le_val (2 ^ 21) (drop k h)" if "k \<le> Suc n" for k
    using le_val_append [of "2 ^ 21" "take k h" "drop k h"] that assms(1) by (simp add: v min_def)
  have small: "0 \<le> le_val (2 ^ 21) (take k h) \<and> le_val (2 ^ 21) (take k h) < (2 ^ 21) ^ k" if "k \<le> n" for k
  proof -
    have "\<forall>d \<in> set (take k h). 0 \<le> d \<and> d < 2 ^ 21" using assms(2) that by (auto simp: in_set_conv_nth)
    from le_val_bounds [OF this] show ?thesis using that assms(1) by simp
  qed
  have q: "v div (2 ^ 21) ^ k = le_val (2 ^ 21) (drop k h)" if "k \<le> n" for k
    using split [of k] small [of k] that by (simp add: div_pos_pos_trivial)
  show ?thesis
  proof (rule nth_equalityI)
    fix i assume "i < length h"
    then have i: "i \<le> n" using assms(1) by simp
    have d: "drop i h = h ! i # drop (Suc i) h" using i assms(1) by (simp add: Cons_nth_drop_Suc)
    show "h ! i = digits_21 n v ! i"
    proof (cases "i = n")
      case True
      then show ?thesis using q [of n] d assms(1) by (simp add: digits_nth drop_bit_eq_div power_mult)
    next
      case False
      then have "v div (2 ^ 21) ^ i mod 2 ^ 21 = h ! i" using q [of i] d i assms(2) by simp
      then show ?thesis using False i by (simp add: digits_nth take_bit_eq_mod drop_bit_eq_div power_mult)
    qed
  qed (use assms(1) in simp)
qed

section \<open>Packing\<close>

lemma pack_inside:
  "a + 8 \<le> 21 \<Longrightarrow> e = c + a \<Longrightarrow> take_bit 8 (drop_bit a (take_bit 21 (drop_bit c v))) = take_bit 8 (drop_bit e v)" for v :: int
  by (rule bit_eqI) (auto simp: bit_simps ac_simps)

lemma pack_top: "e = c + a \<Longrightarrow> take_bit 8 (drop_bit a (drop_bit c v)) = take_bit 8 (drop_bit e v)" for v :: int
  by (simp add: add.commute)

lemma pack_across:
  fixes v :: int
  assumes "0 < a" "a < 21" "b = 21 - a" "e = c + a" "\<And>n. n < 8 \<Longrightarrow> bit u n = bit v (c + 21 + n)"
  shows "take_bit 8 (drop_bit a (take_bit 21 (drop_bit c v)) OR push_bit b u) = take_bit 8 (drop_bit e v)"
proof (rule bit_eqI)
  fix n
  have "b \<le> n \<Longrightarrow> n < 8 \<Longrightarrow> bit u (n - b) = bit v (c + a + n)" using assms(5) [of "n - b"] assms(1-3) by (simp add: ac_simps)
  then show "bit (take_bit 8 (drop_bit a (take_bit 21 (drop_bit c v)) OR push_bit b u)) n = bit (take_bit 8 (drop_bit e v)) n"
    using assms(1-4) by (cases "n + a < 21") (auto simp: bit_simps ac_simps)
qed

lemma sc_pack_bytes:
  fixes v :: int
  shows "map (take_bit 8) (sc_pack (digits_21 11 v @ zs)) = map (\<lambda>k. take_bit 8 (drop_bit (8 * k) v)) [0..<32]"
proof -
  have n: "(digits_21 11 v @ zs) ! i = take_bit 21 (drop_bit (21 * i) v)" if "i < 11" for i
    using that by (simp add: nth_append digits_nth)
  have l: "(digits_21 11 v @ zs) ! 11 = drop_bit (21 * 11) v" by (simp add: nth_append digits_nth)
  have i: "(0 :: nat) < 11" "(1 :: nat) < 11" "(2 :: nat) < 11" "(3 :: nat) < 11" "(4 :: nat) < 11" "(5 :: nat) < 11"
    "(6 :: nat) < 11" "(7 :: nat) < 11" "(8 :: nat) < 11" "(9 :: nat) < 11" "(10 :: nat) < 11" by simp_all
  have u: "[0..<32] = [0, 1, 2, 3, 4, 5, 6, 7, 8, 9, 10, 11, 12, 13, 14, 15, 16, 17, 18, 19, 20, 21, 22, 23, 24, 25, 26,
      27, 28, 29, 30, 31 :: nat]" by code_simp
  note d = n [OF i(1)] n [OF i(2)] n [OF i(3)] n [OF i(4)] n [OF i(5)] n [OF i(6)] n [OF i(7)] n [OF i(8)] n [OF i(9)]
    n [OF i(10)] n [OF i(11)] l
  show ?thesis
    unfolding sc_pack_def list.map d u
    by (intro arg_cong2 [of _ _ _ _ Cons] refl;
        ((rule pack_inside; simp; fail) | (rule pack_top; simp; fail) | (rule pack_across; simp add: bit_simps; fail)))
qed

text \<open>The bytes packed from the digits of a number below \<open>2 ^ 256\<close> are that number.\<close>

lemma packed_value:
  assumes "0 \<le> v" "v < 2 ^ 256"
  shows "bytes_val (map word_of_int (sc_pack (digits_21 11 v @ zs))) = v"
proof -
  have "map uint (map word_of_int (sc_pack (digits_21 11 v @ zs)) :: bytes) = map (take_bit 8) (sc_pack (digits_21 11 v @ zs))"
    by (simp add: unsigned_of_int)
  also have "\<dots> = map (\<lambda>i. v div 256 ^ i mod 256) [0..<32]"
    unfolding sc_pack_bytes by (simp add: take_bit_eq_mod drop_bit_eq_div power_mult)
  finally have "bytes_val (map word_of_int (sc_pack (digits_21 11 v @ zs))) = v mod 256 ^ 32"
    unfolding bytes_val_def using le_val_digits [of 256 v 32] by simp
  then show ?thesis using assms by (simp add: mod_pos_pos_trivial)
qed

section \<open>The last reductions\<close>

text \<open>
  After the reductions and rounding carries the value lies between \<open>- (2 ^ 252)\<close> and \<open>2 ^ 252\<close>; one
  exact carry chain, one multiple of the order and a second chain give the residue.
\<close>

definition sc_start :: "limb_op list" where
  "sc_start =
     map sc_spread [23, 22, 21, 20, 19, 18] @
     map sc_round [6, 8, 10, 12, 14, 16, 7, 9, 11, 13, 15] @
     map sc_spread [17, 16, 15, 14, 13, 12] @
     map sc_round [0, 2, 4, 6, 8, 10, 1, 3, 5, 7, 9, 11] @
     map sc_spread [12]"

definition sc_chain :: "limb_op list" where
  "sc_chain = map sc_floor [0, 1, 2, 3, 4, 5, 6, 7, 8, 9, 10]"

lemma sc_reduce_ops_split:
  "sc_reduce_ops = sc_start @ (sc_chain @ [sc_floor 11]) @ [sc_spread 12] @ sc_chain"
  by (simp add: sc_reduce_ops_def sc_start_def sc_chain_def)

lemma floor_nth:
  assumes "length h = 24" "i < 23"
  shows "limb_step (sc_floor i) h ! i = h ! i mod 2 ^ 21"
    and "k \<noteq> i \<Longrightarrow> k \<noteq> i + 1 \<Longrightarrow> limb_step (sc_floor i) h ! k = h ! k"
  using assms by (simp_all add: sc_floor_def carry_step_def Let_def minus_mult_div_eq_mod [symmetric] mult.commute)

text \<open>A chain of floor carries leaves digits behind it and touches nothing past its end.\<close>

lemma floor_chain:
  assumes "length h = 24" "n < 24"
  shows "(\<forall>i<n. 0 \<le> limb_run (map sc_floor [0..<n]) h ! i \<and> limb_run (map sc_floor [0..<n]) h ! i < 2 ^ 21)
    \<and> (\<forall>k>n. limb_run (map sc_floor [0..<n]) h ! k = h ! k)"
  using assms(2)
proof (induction n)
  case (Suc n)
  let ?g = "limb_run (map sc_floor [0..<n]) h"
  have r: "limb_run (map sc_floor [0..<Suc n]) h = limb_step (sc_floor n) ?g" by (simp add: limb_run_append)
  have l: "length ?g = 24" using assms(1) by simp
  have n: "n < 23" using Suc.prems by simp
  have IH: "\<forall>i<n. 0 \<le> ?g ! i \<and> ?g ! i < 2 ^ 21" "\<forall>k>n. ?g ! k = h ! k" using Suc by auto
  have "0 \<le> limb_step (sc_floor n) ?g ! i \<and> limb_step (sc_floor n) ?g ! i < 2 ^ 21" if "i < Suc n" for i
  proof (cases "i = n")
    case True
    then show ?thesis using floor_nth(1) [OF l n] by simp
  next
    case False
    then show ?thesis using floor_nth(2) [OF l n, of i] IH(1) that by simp
  qed
  moreover have "limb_step (sc_floor n) ?g ! k = h ! k" if "Suc n < k" for k
    using floor_nth(2) [OF l n, of k] IH(2) that by simp
  ultimately show ?case unfolding r by simp
qed simp

lemma sc_chain_upt: "sc_chain = map sc_floor [0..<11]" "sc_chain @ [sc_floor 11] = map sc_floor [0..<12]"
proof -
  have "[0..<11] = [0, 1, 2, 3, 4, 5, 6, 7, 8, 9, 10 :: nat]" "[0..<12] = [0, 1, 2, 3, 4, 5, 6, 7, 8, 9, 10, 11 :: nat]" by code_simp+
  then show "sc_chain = map sc_floor [0..<11]" "sc_chain @ [sc_floor 11] = map sc_floor [0..<12]" by (simp_all add: sc_chain_def)
qed

lemma floor_chain_val: "length h = 24 \<Longrightarrow> n < 24 \<Longrightarrow> sc_val (limb_run (map sc_floor [0..<n]) h) = sc_val h"
  by (rule exact_run) (auto intro!: sc_carry_harmless)

text \<open>A vector with zeros from limb \<open>n + 1\<close> on and digits before limb \<open>n\<close> is the digits of its value.\<close>

lemma sc_digits:
  assumes "length h = 24" "n < 24" "\<forall>i<n. 0 \<le> h ! i \<and> h ! i < 2 ^ 21" "\<forall>k>n. k < 24 \<longrightarrow> h ! k = 0"
  shows "h = digits_21 n (sc_val h) @ replicate (23 - n) 0"
proof -
  have "sc_val h = (\<Sum>i<Suc n. h ! i * sc_weight i)"
    unfolding sc_val_def limb_val_def
    by (rule sum.mono_neutral_right) (use assms(2,4) in \<open>auto simp: Suc_le_eq not_less\<close>)
  then have "take (Suc n) h = digits_21 n (sc_val h)"
    using assms(1,2,3) by (intro digits_unique) simp_all
  moreover have "drop (Suc n) h = replicate (23 - n) 0"
    by (rule nth_equalityI) (use assms in auto)
  ultimately show ?thesis by (metis append_take_drop_id)
qed

lemma last_spread:
  assumes "length h = 24"
  shows "sc_val (limb_step (sc_spread 12) h) = sc_val h - h ! 12 * group_order"
    and "\<forall>k>12. limb_step (sc_spread 12) h ! k = h ! k" "limb_step (sc_spread 12) h ! 12 = 0"
  using assms
  by (simp_all add: sc_spread_def spread_step_def add_multiples_def sc_val_def limb_val_def sc_weight_def group_order_def
      eval_nat_numeral nth_list_update algebra_simps)

text \<open>From a value within \<open>2 ^ 252\<close> of zero to the digits of its residue.\<close>

definition sc_finish :: "limb_op list" where
  "sc_finish = (sc_chain @ [sc_floor 11]) @ [sc_spread 12] @ sc_chain"

lemma finish_digits:
  assumes h: "length h = 24" "\<forall>k\<ge>12. k < 24 \<longrightarrow> h ! k = 0" and v: "- (2 ^ 252) \<le> sc_val h" "sc_val h < 2 ^ 252"
  shows "limb_run sc_finish h = digits_21 11 (sc_val h mod group_order) @ replicate 12 0"
proof -
  let ?g = "limb_run (map sc_floor [0..<12]) h"
  have g: "length ?g = 24" "\<forall>i<12. 0 \<le> ?g ! i \<and> ?g ! i < 2 ^ 21" "\<forall>k>12. k < 24 \<longrightarrow> ?g ! k = 0" "sc_val ?g = sc_val h"
    using floor_chain [OF h(1), of 12] floor_chain_val [OF h(1), of 12] h by auto
  have d: "?g = digits_21 12 (sc_val h) @ replicate 11 0" using sc_digits [of ?g 12] g by simp
  have "?g ! 12 = sc_val h div 2 ^ 252"
    by (subst d) (simp add: nth_append digits_nth drop_bit_eq_div)
  moreover have "sc_val h div 2 ^ 252 = (if sc_val h < 0 then -1 else 0)"
    using v int_div_pos_eq [of "sc_val h" "2 ^ 252" "-1" "sc_val h + 2 ^ 252"] by (auto simp: div_pos_pos_trivial)
  ultimately have q: "?g ! 12 = (if sc_val h < 0 then -1 else 0)" by simp
  let ?f = "limb_step (sc_spread 12) ?g"
  have f: "length ?f = 24" "\<forall>k\<ge>12. k < 24 \<longrightarrow> ?f ! k = 0" using last_spread [OF g(1)] g(1,3) by (auto simp: le_less)
  have "sc_val ?f = (if sc_val h < 0 then sc_val h + group_order else sc_val h)"
    using last_spread(1) [OF g(1)] q g(4) by simp
  also have "\<dots> = sc_val h mod group_order"
  proof (cases "sc_val h < 0")
    case True
    have "(sc_val h + group_order) mod group_order = sc_val h + group_order"
      by (rule mod_pos_pos_trivial) (use True v in \<open>simp_all add: group_order_def\<close>)
    then show ?thesis using True by simp
  next
    case False
    then show ?thesis using v by (simp add: mod_pos_pos_trivial group_order_def)
  qed
  finally have val: "sc_val ?f = sc_val h mod group_order" .
  let ?e = "limb_run (map sc_floor [0..<11]) ?f"
  have e: "length ?e = 24" "\<forall>i<11. 0 \<le> ?e ! i \<and> ?e ! i < 2 ^ 21" "\<forall>k>11. k < 24 \<longrightarrow> ?e ! k = 0" "sc_val ?e = sc_val ?f"
    using floor_chain [OF f(1), of 11] floor_chain_val [OF f(1), of 11] f by auto
  have "limb_run sc_finish h = ?e"
    unfolding sc_finish_def sc_chain_upt(2) unfolding limb_run_append sc_chain_upt(1) by simp
  then show ?thesis using sc_digits [of ?e 11] e val by simp
qed

lemma group_order_bounds: "0 < group_order" "group_order < 2 ^ 256"
  by (simp_all add: group_order_def)

lemma sc_run_value:
  assumes "length h0 = 24" "h = limb_run sc_start h0" "\<forall>k\<ge>12. k < 24 \<longrightarrow> h ! k = 0" "- (2 ^ 252) \<le> sc_val h" "sc_val h < 2 ^ 252"
  shows "bytes_val (map word_of_int (sc_pack (limb_run sc_reduce_ops h0))) = sc_val h0 mod group_order"
proof -
  have l: "length h = 24" using assms(1,2) by simp
  have "sc_val h mod group_order = sc_val h0 mod group_order"
    unfolding assms(2) sc_val_def using assms(1)
    by (intro sc.run_val) (auto simp: sc_start_def intro!: sc_spread_harmless sc_carry_harmless simp del: harmless.simps)
  moreover have "limb_run sc_reduce_ops h0 = limb_run sc_finish h"
    unfolding sc_reduce_ops_split sc_finish_def limb_run_append assms(2) ..
  moreover have "0 \<le> sc_val h mod group_order" "sc_val h mod group_order < 2 ^ 256"
    using group_order_bounds pos_mod_bound [of group_order "sc_val h"] by (simp, linarith)
  ultimately show ?thesis
    using finish_digits [OF l assms(3-5)] packed_value by simp
qed

section \<open>Bounds\<close>

definition reduce_intervals :: intervals where
  "reduce_intervals = replicate 23 (0, 2 ^ 21 - 1) @ [(0, 2 ^ 29 - 1)]"

lemma sc_ops_well_formed: "\<forall>p \<in> set sc_reduce_ops. well_formed 24 p"
  by (simp add: sc_reduce_ops_def sc_spread_def sc_round_def sc_floor_def)

text \<open>What the intervals must say before the last reductions.\<close>

definition interval_value :: "(int \<times> int \<Rightarrow> int) \<Rightarrow> intervals \<Rightarrow> int" where
  "interval_value side b = le_val (2 ^ 21) (map side b)"

definition narrow :: "intervals \<Rightarrow> bool" where
  "narrow b \<longleftrightarrow> list_all (\<lambda>(l, u). l = 0 \<and> u = 0) (drop 12 b)
     \<and> - (2 ^ 252) \<le> interval_value fst b \<and> interval_value snd b < 2 ^ 252"

lemma le_val_mono: "list_all2 (\<le>) xs ys \<Longrightarrow> 0 \<le> b \<Longrightarrow> le_val b xs \<le> le_val b ys"
  by (induction rule: list_all2_induct) (simp_all add: add_mono mult_left_mono)

lemma sc_val_le_val: "length h = 24 \<Longrightarrow> sc_val h = le_val (2 ^ 21) h"
proof -
  have "(\<Sum>i<length h. h ! i * sc_weight i) = le_val (2 ^ 21) h"
  proof (induction h rule: rev_induct)
    case (snoc x xs)
    have "sc_weight (length xs) = (2 ^ 21) ^ length xs" by (simp only: sc_weight_def power_mult)
    then show ?case using snoc by (simp add: le_val_append nth_append mult.commute)
  qed simp
  then show "length h = 24 \<Longrightarrow> sc_val h = le_val (2 ^ 21) h" by (simp add: sc_val_def limb_val_def)
qed

lemma within_narrow:
  assumes "within h b" "narrow b" "length h = 24"
  shows "\<forall>k\<ge>12. k < 24 \<longrightarrow> h ! k = 0" "- (2 ^ 252) \<le> sc_val h" "sc_val h < 2 ^ 252"
proof -
  have l: "length b = 24" using within_length [OF assms(1)] assms(3) by simp
  have "list_all2 (\<le>) (map fst b) h" "list_all2 (\<le>) h (map snd b)"
    using within_nth [OF assms(1)] within_length [OF assms(1)] by (auto simp: list_all2_conv_all_nth)
  then have "interval_value fst b \<le> sc_val h" "sc_val h \<le> interval_value snd b"
    unfolding interval_value_def sc_val_le_val [OF assms(3)] by (auto intro: le_val_mono)
  then show "- (2 ^ 252) \<le> sc_val h" "sc_val h < 2 ^ 252" using assms(2) by (auto simp: narrow_def)
  show "\<forall>k\<ge>12. k < 24 \<longrightarrow> h ! k = 0"
  proof (intro allI impI)
    fix k assume k: "(12 :: nat) \<le> k" "k < 24"
    have "drop 12 b ! (k - 12) = b ! k" using k l by simp
    moreover have "drop 12 b ! (k - 12) \<in> set (drop 12 b)" using k l by (intro nth_mem) simp
    ultimately have "b ! k = (0, 0)" using assms(2) unfolding narrow_def list_all_iff by auto
    then show "h ! k = 0" using within_nth [OF assms(1), of k] k assms(3) by simp
  qed
qed

lemma start_narrow: "narrow (run_bounds sc_start reduce_intervals)"
  by code_simp

lemma reduce_safe: "run_safe sc_reduce_ops reduce_intervals"
  by code_simp

lemma sc_load_24_within: "length s = 64 \<Longrightarrow> within (sc_load_24 s) reduce_intervals"
proof -
  assume s: "length s = 64"
  have B: "0 \<le> bytes_val s" "bytes_val s < 2 ^ 512" using bytes_val_bounds [of s] s by simp_all
  have "drop_bit 483 (bytes_val s) < 2 ^ 29"
    using B by (simp add: drop_bit_eq_div div_less_iff_less_mult)
  moreover have "take_bit 21 x \<le> 2097151" for x :: int using take_bit_int_less_exp [of 21 x] by simp
  ultimately show ?thesis
    unfolding sc_load_24_digits [OF s] within_def reduce_intervals_def digits_21_def
    using B by (intro list_all2_appendI) (auto simp: list_all2_conv_all_nth)
qed

lemma sc_reduce_run:
  assumes "length s = 64"
  shows "run_fits sc_reduce_ops (sc_load_24 s)"
    and "bytes_val (take 32 (sc_reduce s)) = bytes_val s mod group_order" and "drop 32 (sc_reduce s) = drop 32 s"
proof -
  have l: "length (sc_load_24 s) = 24" by (simp add: sc_load_24_def)
  note w = sc_load_24_within [OF assms]
  show "run_fits sc_reduce_ops (sc_load_24 s)"
    using run_safe_fits [OF reduce_safe w] sc_ops_well_formed l by simp
  have "within (limb_run sc_start (sc_load_24 s)) (run_bounds sc_start reduce_intervals)"
    using run_within [OF w, of sc_start] sc_ops_well_formed l by (auto simp: sc_reduce_ops_split)
  note n = within_narrow [OF this start_narrow]
  have v: "bytes_val (map word_of_int (sc_pack (limb_run sc_reduce_ops (sc_load_24 s)))) = sc_val (sc_load_24 s) mod group_order"
    by (rule sc_run_value [OF l refl n]) (simp_all add: l)
  have p: "length (sc_pack x) = 32" for x by (simp add: sc_pack_def)
  then show "bytes_val (take 32 (sc_reduce s)) = bytes_val s mod group_order"
    using v sc_val_load_24 [OF assms] by (simp add: sc_reduce_def)
  show "drop 32 (sc_reduce s) = drop 32 s" using p by (simp add: sc_reduce_def)
qed

section \<open>Products\<close>

definition sc_column :: "nat \<Rightarrow> limbs \<Rightarrow> limbs \<Rightarrow> limbs \<Rightarrow> int" where
  "sc_column k a b c =
     (if k < 12 then c ! k else 0) + (\<Sum>i<12. if i \<le> k \<and> k < i + 12 then a ! i * b ! (k - i) else 0)"

lemma sum_below_12: "(\<Sum>i<12. f i) = f 0 + f 1 + f 2 + f 3 + f 4 + f 5 + f 6 + f 7 + f 8 + f 9 + f 10 + f (11 :: nat)"
  for f :: "nat \<Rightarrow> int"
  by (simp add: eval_nat_numeral)

lemma upt_24: "[0..<24] = [0, 1, 2, 3, 4, 5, 6, 7, 8, 9, 10, 11, 12, 13, 14, 15, 16, 17, 18, 19, 20, 21, 22, 23 :: nat]"
  by code_simp

lemma sc_muladd_columns: "sc_muladd_sums a b c = map (\<lambda>k. sc_column k a b c) [0..<24]"
  unfolding sc_muladd_sums_def upt_24 list.map sc_column_def sum_below_12
  by (intro arg_cong2 [of _ _ _ _ Cons] refl; simp)

text \<open>The number of twelve limbs.\<close>

definition val_12 :: "limbs \<Rightarrow> int" where
  "val_12 a = (\<Sum>i<12. a ! i * sc_weight i)"

lemma val_12_load: "length s = 32 \<Longrightarrow> val_12 (sc_load_12 s) = bytes_val s"
  using digits_sum [of 11 "bytes_val s"] by (simp add: val_12_def sc_load_12_digits)

lemma sc_muladd_val: "sc_val (sc_muladd_sums a b c) = val_12 a * val_12 b + val_12 c"
proof -
  have w: "sc_weight i * sc_weight j = sc_weight (i + j)" for i j by (simp add: sc_weight_def power_add distrib_left)
  have "sc_val (sc_muladd_sums a b c) = (\<Sum>k<24. sc_column k a b c * sc_weight k)"
    unfolding sc_val_def limb_val_def sc_muladd_columns by (rule sum.cong) simp_all
  also have "\<dots> = (\<Sum>k<24. (if k < 12 then c ! k else 0) * sc_weight k)
      + (\<Sum>k<24. \<Sum>i<12. (if i \<le> k \<and> k < i + 12 then a ! i * b ! (k - i) else 0) * sc_weight k)"
    by (simp add: sc_column_def distrib_right sum.distrib sum_distrib_right)
  also have "(\<Sum>k<24. (if k < 12 then c ! k else 0) * sc_weight k) = val_12 c"
    unfolding val_12_def by (rule sum.mono_neutral_cong_right) auto
  also have "(\<Sum>k<24. \<Sum>i<12. (if i \<le> k \<and> k < i + 12 then a ! i * b ! (k - i) else 0) * sc_weight k)
      = (\<Sum>i<12. \<Sum>k<24. (if i \<le> k \<and> k < i + 12 then a ! i * b ! (k - i) else 0) * sc_weight k)" by (rule sum.swap)
  also have "\<dots> = (\<Sum>i<12. \<Sum>j<12. a ! i * b ! j * (sc_weight i * sc_weight j))"
  proof (rule sum.cong [OF refl])
    fix i :: nat assume "i \<in> {..<12}"
    then have i: "i < 12" by simp
    have "(\<Sum>k<24. (if i \<le> k \<and> k < i + 12 then a ! i * b ! (k - i) else 0) * sc_weight k)
        = (\<Sum>k\<in>{i..<i + 12}. a ! i * b ! (k - i) * sc_weight k)"
      by (rule sum.mono_neutral_cong_right) (use i in auto)
    also have "\<dots> = (\<Sum>j<12. a ! i * b ! j * sc_weight (i + j))"
      by (rule sum.reindex_bij_witness [of _ "\<lambda>j. i + j" "\<lambda>k. k - i"]) auto
    finally show "(\<Sum>k<24. (if i \<le> k \<and> k < i + 12 then a ! i * b ! (k - i) else 0) * sc_weight k)
        = (\<Sum>j<12. a ! i * b ! j * (sc_weight i * sc_weight j))" by (simp add: w)
  qed
  also have "\<dots> = val_12 a * val_12 b"
    unfolding val_12_def sum_product by (simp add: mult_ac)
  finally show ?thesis by simp
qed

text \<open>Limbs of a 32-byte number: 21 bits each, and 25 bits for the last one.\<close>

definition widest :: limbs where
  "widest = replicate 11 (2 ^ 21 - 1) @ [2 ^ 25 - 1]"

definition between :: "limbs \<Rightarrow> bool" where
  "between a \<longleftrightarrow> length a = 12 \<and> (\<forall>i<12. 0 \<le> a ! i \<and> a ! i \<le> widest ! i)"

lemma sc_load_12_between: "length s = 32 \<Longrightarrow> between (sc_load_12 s)"
proof -
  assume s: "length s = 32"
  have B: "0 \<le> bytes_val s" "bytes_val s < 2 ^ 256" using bytes_val_bounds [of s] s by simp_all
  have "drop_bit 231 (bytes_val s) < 2 ^ 25"
    using B by (simp add: drop_bit_eq_div div_less_iff_less_mult)
  moreover have "take_bit 21 x \<le> 2097151" for x :: int using take_bit_int_less_exp [of 21 x] by simp
  ultimately show ?thesis
    unfolding between_def sc_load_12_digits [OF s] widest_def
    using B by (auto simp: digits_nth nth_append nth_Cons' not_less le_Suc_eq)
qed

lemma sc_column_mono:
  assumes "between a" "between b" "between c"
  shows "0 \<le> sc_column k a b c" "sc_column k a b c \<le> sc_column k widest widest widest"
proof -
  have a: "0 \<le> a ! i" "a ! i \<le> widest ! i" and b: "0 \<le> b ! i" "b ! i \<le> widest ! i" and c: "0 \<le> c ! i" "c ! i \<le> widest ! i"
    if "i < 12" for i using assms that unfolding between_def by auto
  have "0 \<le> (\<Sum>i<12. if i \<le> k \<and> k < i + 12 then a ! i * b ! (k - i) else 0)"
    by (rule sum_nonneg) (auto intro!: mult_nonneg_nonneg a b)
  moreover have "(\<Sum>i<12. if i \<le> k \<and> k < i + 12 then a ! i * b ! (k - i) else 0)
      \<le> (\<Sum>i<12. if i \<le> k \<and> k < i + 12 then widest ! i * widest ! (k - i) else 0)"
  proof (rule sum_mono)
    fix i :: nat assume "i \<in> {..<12}"
    then have i: "i < 12" by simp
    then have "k < i + 12 \<Longrightarrow> i \<le> k \<Longrightarrow> a ! i * b ! (k - i) \<le> widest ! i * widest ! (k - i)"
      by (intro mult_mono a b order_trans [OF a]) auto
    then show "(if i \<le> k \<and> k < i + 12 then a ! i * b ! (k - i) else 0)
        \<le> (if i \<le> k \<and> k < i + 12 then widest ! i * widest ! (k - i) else 0)" by auto
  qed
  ultimately show "0 \<le> sc_column k a b c" "sc_column k a b c \<le> sc_column k widest widest widest"
    using c [of k] unfolding sc_column_def by (auto intro: add_mono add_nonneg_nonneg)
qed

definition muladd_intervals :: intervals where
  "muladd_intervals = map (\<lambda>u. (0, u)) (sc_muladd_sums widest widest widest)"

lemma sc_muladd_within:
  "between a \<Longrightarrow> between b \<Longrightarrow> between c \<Longrightarrow> within (sc_muladd_sums a b c) muladd_intervals"
  unfolding muladd_intervals_def within_def sc_muladd_columns
  by (simp add: list_all2_conv_all_nth sc_column_mono)

definition muladd_rounds :: "limb_op list" where
  "muladd_rounds = map sc_round [0, 2, 4, 6, 8, 10, 12, 14, 16, 18, 20, 22, 1, 3, 5, 7, 9, 11, 13, 15, 17, 19, 21]"

lemma muladd_columns:
  "sc_muladd_sums widest widest widest =
     [4398044413952, 8796086730753, 13194129047554, 17592171364355, 21990213681156, 26388255997957, 30786298314758,
      35184340631559, 39582382948360, 43980425265161, 48378467581962, 184717873774603, 180319797903371,
      175921755586570, 171523713269769, 167125670952968, 162727628636167, 158329586319366, 153931544002565,
      149533501685764, 145135459368963, 140737417052162, 1125899839733761, 0]"
proof -
  have "replicate 11 x = [x, x, x, x, x, x, x, x, x, x, x]" for x :: int by (simp add: eval_nat_numeral)
  then have "widest = [2097151, 2097151, 2097151, 2097151, 2097151, 2097151, 2097151, 2097151, 2097151, 2097151, 2097151, 33554431]"
    by (simp add: widest_def)
  note w = this
  show ?thesis unfolding sc_muladd_sums_def w by simp
qed

lemma muladd_narrow: "narrow (run_bounds (muladd_rounds @ sc_start) muladd_intervals)"
  by code_simp

lemma muladd_safe: "run_safe sc_muladd_ops muladd_intervals"
  by code_simp

text \<open>Twelve limbs are read from the first 32 bytes.\<close>

lemma sc_load_12_take: "32 \<le> length s \<Longrightarrow> sc_load_12 s = sc_load_12 (take 32 s)"
  by (simp add: sc_load_12_def load_3_def load_4_def)

lemma muladd_ops_split: "sc_muladd_ops = muladd_rounds @ sc_reduce_ops"
  by (simp add: sc_muladd_ops_def muladd_rounds_def)

lemma muladd_ops_well_formed: "\<forall>p \<in> set sc_muladd_ops. well_formed 24 p"
  using sc_ops_well_formed by (auto simp: muladd_ops_split muladd_rounds_def sc_round_def)

lemma sc_muladd_run:
  assumes "32 \<le> length a" "32 \<le> length b" "32 \<le> length c"
  shows "run_fits sc_muladd_ops (sc_muladd_sums (sc_load_12 a) (sc_load_12 b) (sc_load_12 c))"
    and "bytes_val (sc_muladd a b c)
      = (bytes_val (take 32 a) * bytes_val (take 32 b) + bytes_val (take 32 c)) mod group_order"
proof -
  let ?A = "take 32 a" and ?B = "take 32 b" and ?C = "take 32 c"
  let ?h = "sc_muladd_sums (sc_load_12 ?A) (sc_load_12 ?B) (sc_load_12 ?C)"
  let ?g = "limb_run muladd_rounds ?h"
  have n: "length ?A = 32" "length ?B = 32" "length ?C = 32" using assms by simp_all
  have eq: "sc_muladd_sums (sc_load_12 a) (sc_load_12 b) (sc_load_12 c) = ?h"
    using sc_load_12_take [OF assms(1)] sc_load_12_take [OF assms(2)] sc_load_12_take [OF assms(3)] by simp
  have l: "length ?h = 24" by (simp add: sc_muladd_columns)
  have w: "within ?h muladd_intervals" by (intro sc_muladd_within sc_load_12_between n)
  show "run_fits sc_muladd_ops (sc_muladd_sums (sc_load_12 a) (sc_load_12 b) (sc_load_12 c))"
    unfolding eq using run_safe_fits [OF muladd_safe w] muladd_ops_well_formed l by simp
  have "\<forall>p \<in> set (muladd_rounds @ sc_start). well_formed 24 p"
    using muladd_ops_well_formed by (auto simp: muladd_ops_split sc_reduce_ops_split)
  then have "within (limb_run (muladd_rounds @ sc_start) ?h) (run_bounds (muladd_rounds @ sc_start) muladd_intervals)"
    using run_within [OF w, of "muladd_rounds @ sc_start"] l by auto
  note f = within_narrow [OF this muladd_narrow, unfolded limb_run_append]
  have "bytes_val (map word_of_int (sc_pack (limb_run sc_reduce_ops ?g))) = sc_val ?g mod group_order"
    by (rule sc_run_value [OF _ refl f]) (simp_all add: l)
  moreover have "sc_val ?g = sc_val ?h"
    by (rule exact_run [OF l]) (auto simp: muladd_rounds_def intro!: sc_carry_harmless simp del: harmless.simps)
  moreover have "sc_val ?h = bytes_val ?A * bytes_val ?B + bytes_val ?C"
    unfolding sc_muladd_val val_12_load [OF n(1)] val_12_load [OF n(2)] val_12_load [OF n(3)] ..
  ultimately show "bytes_val (sc_muladd a b c)
      = (bytes_val (take 32 a) * bytes_val (take 32 b) + bytes_val (take 32 c)) mod group_order"
    by (simp add: sc_muladd_def eq muladd_ops_split limb_run_append)
qed

section \<open>The property\<close>

text \<open>
  C13: Scalars are reduced right and without overflow.  For every 64-byte digest \<open>sc_reduce\<close> leaves in
  the first 32 bytes the one representative below the group order and the other bytes as they were;
  for all 32-byte scalars, reduced or not, \<open>sc_muladd\<close> writes the 32 bytes of \<open>a * b + c\<close> modulo the
  group order; and in both every intermediate result of the straight code fits in 64 bits.
\<close>

theorem scalars_mod_order:
  assumes "length s = 64" "length a = 32" "length b = 32" "length c = 32"
  shows "run_fits sc_reduce_ops (sc_load_24 s)
    \<and> bytes_val (take 32 (sc_reduce s)) = bytes_val s mod group_order \<and> drop 32 (sc_reduce s) = drop 32 s
    \<and> run_fits sc_muladd_ops (sc_muladd_sums (sc_load_12 a) (sc_load_12 b) (sc_load_12 c))
    \<and> bytes_val (sc_muladd a b c) = (bytes_val a * bytes_val b + bytes_val c) mod group_order"
  using sc_reduce_run [OF assms(1)] sc_muladd_run [of a b c] assms(2-4) by simp

lemma scalars_mod_order_witness:
  "bytes_val (take 32 (sc_reduce (replicate 64 255))) = bytes_val (replicate 64 255) mod group_order
   \<and> bytes_val (sc_muladd (replicate 32 255) (replicate 32 255) (replicate 32 255))
     = (bytes_val (replicate 32 255) * bytes_val (replicate 32 255) + bytes_val (replicate 32 255)) mod group_order"
  using scalars_mod_order [of "replicate 64 255" "replicate 32 255" "replicate 32 255" "replicate 32 255"] by simp

end
