(* ===== verification/Group.thy ===== *)
theory Group
  imports Field Precomp
begin

text \<open>
  \<open>keypair/ge.c\<close>: points of the Edwards curve in the representations of \<open>ge.h\<close>, addition and
  doubling, decompression, and the two scalar multiplications.  A result written through a
  pointer is returned; a structure filled field by field is built from the same calls in order.
  Signed chars are integers: every value they take here is within their range.
\<close>

record ge_p2 =
  p2_X :: limbs
  p2_Y :: limbs
  p2_Z :: limbs

record ge_p3 =
  p3_X :: limbs
  p3_Y :: limbs
  p3_Z :: limbs
  p3_T :: limbs

record ge_p1p1 =
  p1_X :: limbs
  p1_Y :: limbs
  p1_Z :: limbs
  p1_T :: limbs

record ge_cached =
  YplusX :: limbs
  YminusX :: limbs
  c_Z :: limbs
  T2d :: limbs

section \<open>Addition, doubling, conversions\<close>

definition ge_add :: "ge_p3 \<Rightarrow> ge_cached \<Rightarrow> ge_p1p1" where
  "ge_add p q =
     (let X = fe_add (p3_Y p) (p3_X p);
          Y = fe_sub (p3_Y p) (p3_X p);
          Z = fe_mul X (YplusX q);
          Y = fe_mul Y (YminusX q);
          T = fe_mul (T2d q) (p3_T p);
          X = fe_mul (p3_Z p) (c_Z q);
          t0 = fe_add X X;
          X = fe_sub Z Y;
          Y = fe_add Z Y;
          Z = fe_add t0 T;
          T = fe_sub t0 T
      in \<lparr>p1_X = X, p1_Y = Y, p1_Z = Z, p1_T = T\<rparr>)"

definition ge_sub :: "ge_p3 \<Rightarrow> ge_cached \<Rightarrow> ge_p1p1" where
  "ge_sub p q =
     (let X = fe_add (p3_Y p) (p3_X p);
          Y = fe_sub (p3_Y p) (p3_X p);
          Z = fe_mul X (YminusX q);
          Y = fe_mul Y (YplusX q);
          T = fe_mul (T2d q) (p3_T p);
          X = fe_mul (p3_Z p) (c_Z q);
          t0 = fe_add X X;
          X = fe_sub Z Y;
          Y = fe_add Z Y;
          Z = fe_sub t0 T;
          T = fe_add t0 T
      in \<lparr>p1_X = X, p1_Y = Y, p1_Z = Z, p1_T = T\<rparr>)"

definition ge_madd :: "ge_p3 \<Rightarrow> ge_precomp \<Rightarrow> ge_p1p1" where
  "ge_madd p q =
     (let X = fe_add (p3_Y p) (p3_X p);
          Y = fe_sub (p3_Y p) (p3_X p);
          Z = fe_mul X (yplusx q);
          Y = fe_mul Y (yminusx q);
          T = fe_mul (xy2d q) (p3_T p);
          t0 = fe_add (p3_Z p) (p3_Z p);
          X = fe_sub Z Y;
          Y = fe_add Z Y;
          Z = fe_add t0 T;
          T = fe_sub t0 T
      in \<lparr>p1_X = X, p1_Y = Y, p1_Z = Z, p1_T = T\<rparr>)"

definition ge_msub :: "ge_p3 \<Rightarrow> ge_precomp \<Rightarrow> ge_p1p1" where
  "ge_msub p q =
     (let X = fe_add (p3_Y p) (p3_X p);
          Y = fe_sub (p3_Y p) (p3_X p);
          Z = fe_mul X (yminusx q);
          Y = fe_mul Y (yplusx q);
          T = fe_mul (xy2d q) (p3_T p);
          t0 = fe_add (p3_Z p) (p3_Z p);
          X = fe_sub Z Y;
          Y = fe_add Z Y;
          Z = fe_sub t0 T;
          T = fe_add t0 T
      in \<lparr>p1_X = X, p1_Y = Y, p1_Z = Z, p1_T = T\<rparr>)"

definition ge_p1p1_to_p2 :: "ge_p1p1 \<Rightarrow> ge_p2" where
  "ge_p1p1_to_p2 p =
     \<lparr>p2_X = fe_mul (p1_X p) (p1_T p), p2_Y = fe_mul (p1_Y p) (p1_Z p), p2_Z = fe_mul (p1_Z p) (p1_T p)\<rparr>"

definition ge_p1p1_to_p3 :: "ge_p1p1 \<Rightarrow> ge_p3" where
  "ge_p1p1_to_p3 p =
     \<lparr>p3_X = fe_mul (p1_X p) (p1_T p), p3_Y = fe_mul (p1_Y p) (p1_Z p),
      p3_Z = fe_mul (p1_Z p) (p1_T p), p3_T = fe_mul (p1_X p) (p1_Y p)\<rparr>"

definition ge_p2_0 :: ge_p2 where
  "ge_p2_0 = \<lparr>p2_X = fe_0, p2_Y = fe_1, p2_Z = fe_1\<rparr>"

definition ge_p2_dbl :: "ge_p2 \<Rightarrow> ge_p1p1" where
  "ge_p2_dbl p =
     (let X = fe_sq (p2_X p);
          Z = fe_sq (p2_Y p);
          T = fe_sq2 (p2_Z p);
          Y = fe_add (p2_X p) (p2_Y p);
          t0 = fe_sq Y;
          Y = fe_add Z X;
          Z = fe_sub Z X;
          X = fe_sub t0 Y;
          T = fe_sub T Z
      in \<lparr>p1_X = X, p1_Y = Y, p1_Z = Z, p1_T = T\<rparr>)"

definition ge_p3_0 :: ge_p3 where
  "ge_p3_0 = \<lparr>p3_X = fe_0, p3_Y = fe_1, p3_Z = fe_1, p3_T = fe_0\<rparr>"

definition ge_p3_to_p2 :: "ge_p3 \<Rightarrow> ge_p2" where
  "ge_p3_to_p2 p = \<lparr>p2_X = fe_copy (p3_X p), p2_Y = fe_copy (p3_Y p), p2_Z = fe_copy (p3_Z p)\<rparr>"

definition ge_p3_dbl :: "ge_p3 \<Rightarrow> ge_p1p1" where
  "ge_p3_dbl p = (let q = ge_p3_to_p2 p in ge_p2_dbl q)"

definition ge_d :: limbs where
  "ge_d = [- 10913610, 13857413, - 15372611, 6949391, 114729, - 8787816, - 6275908, - 3247719, - 18696448,
           - 12055116]"

definition ge_sqrtm1 :: limbs where
  "ge_sqrtm1 = [- 32595792, - 7943725, 9377950, 3500415, 12389472, - 272473, - 25146209, - 2005654, 326686,
                11406482]"

definition ge_d2 :: limbs where
  "ge_d2 = [- 21827239, - 5839606, - 30745221, 13898782, 229458, 15978800, - 12551817, - 6495438, 29715968,
            9444199]"

definition ge_p3_to_cached :: "ge_p3 \<Rightarrow> ge_cached" where
  "ge_p3_to_cached p =
     \<lparr>YplusX = fe_add (p3_Y p) (p3_X p), YminusX = fe_sub (p3_Y p) (p3_X p),
      c_Z = fe_copy (p3_Z p), T2d = fe_mul (p3_T p) ge_d2\<rparr>"

section \<open>Compression and decompression\<close>

definition affine_tobytes :: "limbs \<Rightarrow> limbs \<Rightarrow> limbs \<Rightarrow> bytes" where
  "affine_tobytes X Y Z =
     (let recip = fe_invert Z;
          x = fe_mul X recip;
          y = fe_mul Y recip;
          s = fe_tobytes y
      in s[31 := s ! 31 XOR word_of_int (fe_isnegative x * 2 ^ 7)])"

definition ge_p3_tobytes :: "ge_p3 \<Rightarrow> bytes" where
  "ge_p3_tobytes h = affine_tobytes (p3_X h) (p3_Y h) (p3_Z h)"

definition ge_tobytes :: "ge_p2 \<Rightarrow> bytes" where
  "ge_tobytes h = affine_tobytes (p2_X h) (p2_Y h) (p2_Z h)"

text \<open>
  On failure \<open>h->T\<close> is not written and \<open>h->X\<close>, \<open>h->Y\<close>, \<open>h->Z\<close> are: the record keeps the old \<open>T\<close>.
\<close>

definition ge_frombytes_negate_vartime :: "ge_p3 \<Rightarrow> bytes \<Rightarrow> int \<times> ge_p3" where
  "ge_frombytes_negate_vartime h s =
     (let Y = fe_frombytes s;
          Z = fe_1;
          u = fe_sq Y;
          v = fe_mul u ge_d;
          u = fe_sub u Z;
          v = fe_add v Z;
          v3 = fe_sq v;
          v3 = fe_mul v3 v;
          X = fe_sq v3;
          X = fe_mul X v;
          X = fe_mul X u;
          X = fe_pow22523 X;
          X = fe_mul X v3;
          X = fe_mul X u;
          vxx = fe_sq X;
          vxx = fe_mul vxx v;
          check = fe_sub vxx u
      in if fe_isnonzero check \<noteq> 0 \<and> fe_isnonzero (fe_add vxx u) \<noteq> 0
         then (-1, h\<lparr>p3_X := X, p3_Y := Y, p3_Z := Z\<rparr>)
         else (let X = (if fe_isnonzero check \<noteq> 0 then fe_mul X ge_sqrtm1 else X);
                   X = (if fe_isnegative X = uint (drop_bit 7 (s ! 31)) then fe_neg X else X);
                   T = fe_mul X Y
               in (0, \<lparr>p3_X = X, p3_Y = Y, p3_Z = Z, p3_T = T\<rparr>)))"

section \<open>Sliding windows and the verifier's double multiplication\<close>

text \<open>\<open>for (k = i + b; k < 256; ++k)\<close>: the carry of the subtraction runs to the first zero.\<close>

function slide_carry :: "nat \<Rightarrow> int list \<Rightarrow> int list" where
  "slide_carry k r =
     (if k < 256 then
        (if r ! k = 0 then r[k := 1] else slide_carry (k + 1) (r[k := 0]))
      else r)"
  by pat_completeness auto
termination by (relation "measure (\<lambda>(k, _). 256 - k)") auto

function slide_b :: "nat \<Rightarrow> nat \<Rightarrow> int list \<Rightarrow> int list" where
  "slide_b i b r =
     (if b \<le> 6 \<and> i + b < 256 then
        (if r ! (i + b) \<noteq> 0 then
           (if r ! i + r ! (i + b) * 2 ^ b \<le> 15 then
              slide_b i (b + 1) (r[i := r ! i + r ! (i + b) * 2 ^ b, i + b := 0])
            else if r ! i - r ! (i + b) * 2 ^ b \<ge> - 15 then
              slide_b i (b + 1) (slide_carry (i + b) (r[i := r ! i - r ! (i + b) * 2 ^ b]))
            else r)
         else slide_b i (b + 1) r)
      else r)"
  by pat_completeness auto
termination by (relation "measure (\<lambda>(_, b, _). 7 - b)") auto

declare slide_carry.simps [simp del] slide_b.simps [simp del]

definition slide_bits :: "bytes \<Rightarrow> int list" where
  "slide_bits a = map (\<lambda>i. uint (1 AND drop_bit (i mod 8) (a ! (i div 8)))) [0..<256]"

definition slide :: "bytes \<Rightarrow> int list" where
  "slide a = foldl (\<lambda>r i. if r ! i \<noteq> 0 then slide_b i 1 r else r) (slide_bits a) [0..<256]"

definition ge_odd_multiples :: "ge_p3 \<Rightarrow> ge_cached list" where
  "ge_odd_multiples A =
     (let A2 = ge_p1p1_to_p3 (ge_p3_dbl A)
      in foldl (\<lambda>Ai i. Ai @ [ge_p3_to_cached (ge_p1p1_to_p3 (ge_add A2 (Ai ! i)))])
           [ge_p3_to_cached A] [0, 1, 2, 3, 4, 5, 6])"

text \<open>One iteration of the main loop: double, then add or subtract a table entry of each scalar.\<close>

definition ge_double_step :: "int list \<Rightarrow> int list \<Rightarrow> ge_cached list \<Rightarrow> ge_p2 \<Rightarrow> nat \<Rightarrow> ge_p2" where
  "ge_double_step aslide bslide Ai r i =
     (let t = ge_p2_dbl r;
          t = (if aslide ! i > 0 then ge_add (ge_p1p1_to_p3 t) (Ai ! nat (aslide ! i div 2))
               else if aslide ! i < 0 then ge_sub (ge_p1p1_to_p3 t) (Ai ! nat ((- (aslide ! i)) div 2))
               else t);
          t = (if bslide ! i > 0 then ge_madd (ge_p1p1_to_p3 t) (Bi ! nat (bslide ! i div 2))
               else if bslide ! i < 0 then ge_msub (ge_p1p1_to_p3 t) (Bi ! nat ((- (bslide ! i)) div 2))
               else t)
      in ge_p1p1_to_p2 t)"

definition ge_double_scalarmult_vartime :: "bytes \<Rightarrow> ge_p3 \<Rightarrow> bytes \<Rightarrow> ge_p2" where
  "ge_double_scalarmult_vartime a A b =
     (let aslide = slide a;
          bslide = slide b;
          Ai = ge_odd_multiples A
      in foldl (ge_double_step aslide bslide Ai) ge_p2_0
           (dropWhile (\<lambda>i. aslide ! i = 0 \<and> bslide ! i = 0) (rev [0..<256])))"

section \<open>The signer's fixed-base multiplication\<close>

definition ge_equal :: "int \<Rightarrow> int \<Rightarrow> byte" where
  "ge_equal b c =
     (let ub = word_of_int b; uc = word_of_int c;
          x = ub XOR uc :: byte;
          y = ucast x :: u64;
          y = y - 1;
          y = drop_bit 63 y
      in ucast y)"

definition ge_negative :: "int \<Rightarrow> byte" where
  "ge_negative b = (let x = word_of_int b :: u64; x = drop_bit 63 x in ucast x)"

definition ge_cmov :: "ge_precomp \<Rightarrow> ge_precomp \<Rightarrow> byte \<Rightarrow> ge_precomp" where
  "ge_cmov t u b =
     \<lparr>yplusx = fe_cmov (yplusx t) (yplusx u) (uint b), yminusx = fe_cmov (yminusx t) (yminusx u) (uint b),
      xy2d = fe_cmov (xy2d t) (xy2d u) (uint b)\<rparr>"

definition ge_select :: "nat \<Rightarrow> int \<Rightarrow> ge_precomp" where
  "ge_select pos b =
     (let bnegative = ge_negative b;
          babs = word_of_int (b - ((- uint bnegative) AND b) * 2) :: byte;
          t = \<lparr>yplusx = fe_1, yminusx = fe_1, xy2d = fe_0\<rparr>;
          t = foldl (\<lambda>t j. ge_cmov t (base ! pos ! j) (ge_equal (sint babs) (int j + 1))) t [0, 1, 2, 3, 4, 5, 6, 7];
          minust = \<lparr>yplusx = fe_copy (yminusx t), yminusx = fe_copy (yplusx t), xy2d = fe_neg (xy2d t)\<rparr>
      in ge_cmov t minust bnegative)"

text \<open>The signed radix-16 digits of the scalar, and the carry out of each of the first 63.\<close>

definition ge_nibbles :: "bytes \<Rightarrow> int list" where
  "ge_nibbles a = concat (map (\<lambda>i. [uint (drop_bit 0 (a ! i) AND 15), uint (drop_bit 4 (a ! i) AND 15)]) [0..<32])"

definition ge_recode_step :: "int list \<times> int \<Rightarrow> nat \<Rightarrow> int list \<times> int" where
  "ge_recode_step ec i =
     (let (e, carry) = ec;
          e = e[i := e ! i + carry];
          carry = e ! i + 8;
          carry = carry div 2 ^ 4
      in (e[i := e ! i - carry * 2 ^ 4], carry))"

definition ge_recode :: "bytes \<Rightarrow> int list" where
  "ge_recode a =
     (let (e, carry) = foldl ge_recode_step (ge_nibbles a, 0) [0..<63]
      in e[63 := e ! 63 + carry])"

definition ge_add_digit :: "int list \<Rightarrow> ge_p3 \<Rightarrow> nat \<Rightarrow> ge_p3" where
  "ge_add_digit e h i = (let t = ge_select (i div 2) (e ! i); r = ge_madd h t in ge_p1p1_to_p3 r)"

definition ge_scalarmult_base :: "bytes \<Rightarrow> ge_p3" where
  "ge_scalarmult_base a =
     (let e = ge_recode a;
          h = foldl (ge_add_digit e) ge_p3_0 (map (\<lambda>k. 2 * k + 1) [0..<32]);
          r = ge_p3_dbl h;
          s = ge_p1p1_to_p2 r;
          r = ge_p2_dbl s;
          s = ge_p1p1_to_p2 r;
          r = ge_p2_dbl s;
          s = ge_p1p1_to_p2 r;
          r = ge_p2_dbl s;
          h = ge_p1p1_to_p3 r
      in foldl (ge_add_digit e) h (map (\<lambda>k. 2 * k) [0..<32]))"

end
