(* ===== verification/Ed25519.thy ===== *)
theory Ed25519
  imports Scalar Group Sha512
begin

text \<open>
  \<open>keypair/sign.c\<close>, \<open>verify.c\<close>, \<open>keypair.c\<close>, \<open>key_exchange.c\<close> and \<open>add_scalar.c\<close>: the operations the
  wallet calls, over the models of the hash, the field, the scalars and the curve.  An output array
  is passed in with its old contents and returned.
\<close>

section \<open>Keys\<close>

text \<open>The statements on \<open>expanded\<close> after the hash: clearing and setting the bits of the scalar.\<close>

definition clamp :: "bytes \<Rightarrow> bytes" where
  "clamp e =
     (let e = e[0 := e ! 0 AND 248];
          e = e[31 := e ! 31 AND 63]
      in e[31 := e ! 31 OR 64])"

definition ed25519_expand_seed :: "bytes \<Rightarrow> bytes \<Rightarrow> bytes" where
  "ed25519_expand_seed expanded seed =
     (let (ret, out) = sha512 sha512_fresh (Some (take 32 seed)) (Some expanded)
      in clamp (case out of Some e \<Rightarrow> e | None \<Rightarrow> expanded))"

definition ed25519_create_keypair :: "bytes \<Rightarrow> bytes option \<Rightarrow> bytes \<Rightarrow> bytes \<times> bytes option" where
  "ed25519_create_keypair public_key private_key seed =
     (let expanded_seed = ed25519_expand_seed (replicate 64 0) seed;
          A = ge_scalarmult_base (take 32 expanded_seed);
          public_key = write_at public_key 0 (ge_p3_tobytes A)
      in (public_key,
          (case private_key of None \<Rightarrow> None | Some pk \<Rightarrow> Some (write_at pk 0 (take 32 seed)))))"

definition ed25519_derive_public_key :: "bytes \<Rightarrow> bytes \<Rightarrow> bytes" where
  "ed25519_derive_public_key public_key private_key =
     (let expanded_seed = ed25519_expand_seed (replicate 64 0) private_key;
          A = ge_scalarmult_base (take 32 expanded_seed)
      in write_at public_key 0 (ge_p3_tobytes A))"

section \<open>Signing and verifying\<close>

text \<open>\<open>sha512_init\<close>, one \<open>sha512_update\<close> per part, \<open>sha512_final\<close> into a buffer of 64 bytes.\<close>

definition hash_parts :: "sha512_context \<Rightarrow> bytes list \<Rightarrow> bytes \<times> sha512_context" where
  "hash_parts hash parts =
     (let hash = foldl (\<lambda>hash p. snd (sha512_update hash (Some p))) (sha512_init hash) parts
      in (case sha512_final hash (Some (replicate 64 0)) of
            (_, hash, Some digest) \<Rightarrow> (digest, hash)
          | (_, hash, None) \<Rightarrow> (replicate 64 0, hash)))"

definition ed25519_sign :: "bytes \<Rightarrow> bytes \<Rightarrow> bytes \<Rightarrow> bytes \<Rightarrow> bytes" where
  "ed25519_sign signature message public_key private_key =
     (let expanded_private = ed25519_expand_seed (replicate 64 0) private_key;
          (r, hash) = hash_parts sha512_fresh [take 32 (drop 32 expanded_private), message];
          r = sc_reduce r;
          R = ge_scalarmult_base (take 32 r);
          signature = write_at signature 0 (ge_p3_tobytes R);
          (hram, hash) = hash_parts hash [take 32 signature, take 32 public_key, message];
          hram = sc_reduce hram
      in write_at signature 32 (sc_muladd hram expanded_private r))"

definition consttime_equal :: "bytes \<Rightarrow> bytes \<Rightarrow> bool" where
  "consttime_equal x y =
     (let r = x ! 0 XOR y ! 0;
          r = foldl (\<lambda>r i. r OR (x ! i XOR y ! i)) r [1..<32]
      in r = 0)"

definition ed25519_verify :: "ge_p3 \<Rightarrow> bytes \<Rightarrow> bytes \<Rightarrow> bytes \<Rightarrow> int" where
  "ed25519_verify A signature message public_key =
     (if signature ! 63 AND 224 \<noteq> 0 then 0
      else (let (ret, A) = ge_frombytes_negate_vartime A public_key in
        if ret \<noteq> 0 then 0
        else (let (h, hash) = hash_parts sha512_fresh [take 32 signature, take 32 public_key, message];
                  h = sc_reduce h;
                  R = ge_double_scalarmult_vartime h A (take 32 (drop 32 signature));
                  checker = ge_tobytes R
              in if \<not> consttime_equal checker signature then 0 else 1)))"

section \<open>Key exchange and scalar addition\<close>

record ladder =
  x2 :: limbs
  z2 :: limbs
  x3 :: limbs
  z3 :: limbs
  swap :: int

definition swap_by :: "int \<Rightarrow> ladder \<Rightarrow> ladder" where
  "swap_by b L =
     (let (a, c) = fe_cswap (x2 L) (x3 L) b; (e, f) = fe_cswap (z2 L) (z3 L) b
      in L\<lparr>x2 := a, x3 := c, z2 := e, z3 := f\<rparr>)"

definition ladder_step :: "bytes \<Rightarrow> limbs \<Rightarrow> ladder \<Rightarrow> nat \<Rightarrow> ladder" where
  "ladder_step e x1 L pos =
     (let b = uint (drop_bit (pos mod 8) (e ! (pos div 8)) AND 1);
          L = swap_by (swap L XOR b) L;
          tmp0 = fe_sub (x3 L) (z3 L);
          tmp1 = fe_sub (x2 L) (z2 L);
          x2' = fe_add (x2 L) (z2 L);
          z2' = fe_add (x3 L) (z3 L);
          z3' = fe_mul tmp0 x2';
          z2' = fe_mul z2' tmp1;
          tmp0 = fe_sq tmp1;
          tmp1 = fe_sq x2';
          x3' = fe_add z3' z2';
          z2' = fe_sub z3' z2';
          x2' = fe_mul tmp1 tmp0;
          tmp1 = fe_sub tmp1 tmp0;
          z2' = fe_sq z2';
          z3' = fe_mul121666 tmp1;
          x3' = fe_sq x3';
          tmp0 = fe_add tmp0 z3';
          z3' = fe_mul x1 z2';
          z2' = fe_mul tmp1 tmp0
      in \<lparr>x2 = x2', z2 = z2', x3 = x3', z3 = z3', swap = b\<rparr>)"

definition ed25519_key_exchange :: "bytes \<Rightarrow> bytes \<Rightarrow> bytes" where
  "ed25519_key_exchange public_key private_key =
     (let e = clamp (take 32 private_key);
          x1 = fe_frombytes public_key;
          tmp1 = fe_1;
          tmp0 = fe_add x1 tmp1;
          tmp1 = fe_sub tmp1 x1;
          tmp1 = fe_invert tmp1;
          x1 = fe_mul tmp0 tmp1;
          L = \<lparr>x2 = fe_1, z2 = fe_0, x3 = fe_copy x1, z3 = fe_1, swap = 0\<rparr>;
          L = foldl (ladder_step e x1) L (rev [0..<255]);
          L = swap_by (swap L) L;
          z2' = fe_invert (z2 L);
          x2' = fe_mul (x2 L) z2'
      in fe_tobytes x2')"

text \<open>With a private key the function returns at once; the point \<open>public_key_unpacked\<close> is not checked.\<close>

definition ed25519_add_scalar :: "ge_p3 \<Rightarrow> bytes option \<Rightarrow> bytes option \<Rightarrow> bytes \<Rightarrow> bytes option \<times> bytes option" where
  "ed25519_add_scalar unpacked public_key private_key scalar =
     (let n = take 31 scalar @ [scalar ! 31 AND 127] in
      if private_key \<noteq> None then (public_key, private_key)
      else (case public_key of
              None \<Rightarrow> (public_key, private_key)
            | Some pk \<Rightarrow>
                (let (ret, P) = ge_frombytes_negate_vartime unpacked pk;
                     P = P\<lparr>p3_X := fe_neg (p3_X P)\<rparr>;
                     P = P\<lparr>p3_T := fe_neg (p3_T P)\<rparr>;
                     T = ge_p3_to_cached P;
                     nB = ge_scalarmult_base n;
                     A = ge_p1p1_to_p3 (ge_add nB T)
                 in (Some (write_at pk 0 (ge_p3_tobytes A)), private_key))))"

end
