(* ===== verification/Signature.thy ===== *)
theory Signature
  imports Ed25519 Scalar_Value
begin

text \<open>
  What \<open>ed25519_sign\<close> of \<open>sign.c\<close> writes: the point of the nonce and the number that the equation of
  EdDSA prescribes, with the nonce and the challenge read from the digests as numbers modulo the order.
  The reference \<open>rfc_sign\<close> is over integers and the reference hash; the point operations are those
  of \<open>ge.c\<close>.
\<close>

section \<open>Bytes and numbers\<close>

definition number_bytes :: "nat \<Rightarrow> int \<Rightarrow> bytes" where
  "number_bytes n v = map (\<lambda>i. word_of_int (v div 256 ^ i)) [0..<n]"

lemma length_number_bytes [simp]: "length (number_bytes n v) = n"
  by (simp add: number_bytes_def)

lemma number_bytes_unique: "length s = n \<Longrightarrow> bytes_val s = v \<Longrightarrow> s = number_bytes n v"
proof (rule nth_equalityI)
  assume s: "length s = n" "bytes_val s = v"
  fix i assume "i < length s"
  then have i: "i + 1 \<le> length s" by simp
  then have "take 1 (drop i s) = [s ! i]" by (simp add: take_Suc hd_drop_conv_nth)
  then have "uint (s ! i) = v div 256 ^ i mod 256"
    using bytes_val_slice [OF i] s by (simp add: bytes_val_def power_mult)
  then have "s ! i = word_of_int (v div 256 ^ i mod 256)" by (metis word_of_int_uint)
  moreover have "word_of_int (x mod 256) = (word_of_int x :: byte)" for x
    by (simp add: word_of_int_eq_iff take_bit_eq_mod)
  ultimately show "s ! i = number_bytes n v ! i" using i s by (simp add: number_bytes_def)
qed simp

section \<open>The hash over several parts\<close>

lemma length_zero_fill: "length (md_buf md) = 128 \<Longrightarrow> n \<le> 128 \<Longrightarrow> length (md_buf (zero_fill n md)) = 128"
  by (simp add: zero_fill_def)

lemma length_STORE64H [simp]: "length (STORE64H x) = 8"
  by (simp add: STORE64H_be_bytes)

lemma final_keeps_buffer:
  assumes "ctx_absorbed md m" and "sha512_final md (Some out) = (ret, md', out')"
  shows "length (md_buf md') = 128"
proof -
  have l: "length (md_buf md) = 128" "md_curlen md < length (md_buf md)" using assms(1) by (auto simp: ctx_absorbed_def)
  have o: "length (md_buf (final_open md)) = 128" using l by (simp add: final_open_def)
  have s: "length (md_buf (final_spill (final_open md))) = 128" using length_zero_fill [OF o] o by (simp add: final_spill_def)
  have f: "length (md_buf (final_last (final_spill (final_open md)))) = 128"
    using length_zero_fill [OF s, of 120] by (simp add: final_last_def)
  show ?thesis using assms(2) f unfolding final_stages [OF l(2)] by auto
qed

lemma updates_absorbed:
  "ctx_absorbed md m \<Longrightarrow> ctx_absorbed (foldl (\<lambda>md p. snd (sha512_update md (Some p))) md parts) (m @ concat parts)"
proof (induction parts arbitrary: md m)
  case (Cons p parts)
  have "ctx_absorbed (snd (sha512_update md (Some p))) (m @ p)" using update_absorbed [OF Cons.prems] by simp
  from Cons.IH [OF this] show ?case by simp
qed simp

lemma hash_parts_computes:
  assumes "length (md_buf hash) = 128" and "length (concat parts) < 2 ^ 61"
  shows "fst (hash_parts hash parts) = fips_sha512 (concat parts)"
    and "length (md_buf (snd (hash_parts hash parts))) = 128"
proof -
  let ?h = "foldl (\<lambda>md p. snd (sha512_update md (Some p))) (sha512_init hash) parts"
  have a: "ctx_absorbed ?h (concat parts)" using updates_absorbed [OF absorbed_init [OF assms(1)], of parts] by simp
  have "8 * length (concat parts) < 2 ^ 64" using assms(2) by simp
  from final_absorbed [OF a this, of "replicate 64 0"] obtain md'
    where f: "sha512_final ?h (Some (replicate 64 0)) = (0, md', Some (write_at (replicate 64 0) 0 (fips_sha512 (concat parts))))"
    by blast
  show "fst (hash_parts hash parts) = fips_sha512 (concat parts)"
    and "length (md_buf (snd (hash_parts hash parts))) = 128"
    using final_keeps_buffer [OF a f] by (simp_all add: hash_parts_def Let_def f)
qed

section \<open>The signature\<close>

lemma expand_seed_digest:
  "length seed \<ge> 32 \<Longrightarrow> ed25519_expand_seed (replicate 64 0) seed = clamp (fips_sha512 (take 32 seed))"
  using sha512_computes [of sha512_fresh "take 32 seed" "replicate 64 0"]
  by (simp add: ed25519_expand_seed_def sha512_fresh_def)

lemma length_clamp [simp]: "length (clamp e) = length e"
  by (simp add: clamp_def Let_def)

lemma ge_p3_tobytes_32 [simp]: "length (ge_p3_tobytes A) = 32"
  by (simp add: ge_p3_tobytes_def affine_tobytes_def fe_tobytes_def fe_pack_def Let_def)

definition rfc_sign :: "bytes \<Rightarrow> bytes \<Rightarrow> bytes \<Rightarrow> bytes" where
  "rfc_sign message public_key private_key =
     (let e = clamp (fips_sha512 private_key);
          r = bytes_val (fips_sha512 (drop 32 e @ message)) mod group_order;
          R = ge_p3_tobytes (ge_scalarmult_base (number_bytes 32 r));
          k = bytes_val (fips_sha512 (R @ public_key @ message)) mod group_order
      in R @ number_bytes 32 ((k * bytes_val (take 32 e) + r) mod group_order))"

lemma sc_reduce_bytes:
  assumes "length s = 64"
  shows "take 32 (sc_reduce s) = number_bytes 32 (bytes_val s mod group_order)" "length (sc_reduce s) = 64"
proof -
  have "length (sc_pack h) = 32" for h by (simp add: sc_pack_def)
  then show l: "length (sc_reduce s) = 64" using assms by (simp add: sc_reduce_def)
  show "take 32 (sc_reduce s) = number_bytes 32 (bytes_val s mod group_order)"
    using sc_reduce_run(2) [OF assms] l by (intro number_bytes_unique) simp_all
qed

lemma sign_computes:
  assumes "64 \<le> length signature" and "32 \<le> length public_key" and "32 \<le> length private_key"
    and "length message < 2 ^ 61 - 64"
  shows "ed25519_sign signature message public_key private_key
    = rfc_sign message (take 32 public_key) (take 32 private_key) @ drop 64 signature"
proof -
  define e where "e = clamp (fips_sha512 (take 32 private_key))"
  define h1 where "h1 = hash_parts sha512_fresh [take 32 (drop 32 e), message]"
  define d where "d = fips_sha512 (drop 32 e @ message)"
  define R where "R = ge_p3_tobytes (ge_scalarmult_base (take 32 (sc_reduce d)))"
  define sig1 where "sig1 = write_at signature 0 R"
  define k where "k = fips_sha512 (R @ take 32 public_key @ message)"
  have e: "length e = 64" by (simp add: e_def)
  have h1: "fst h1 = d" "length (md_buf (snd h1)) = 128"
    unfolding h1_def d_def using hash_parts_computes [of sha512_fresh "[take 32 (drop 32 e), message]"] e assms(4)
    by (simp_all add: sha512_fresh_def)
  have R: "length R = 32" by (simp add: R_def)
  have s1: "take 32 sig1 = R" "drop 32 sig1 = drop 32 signature" using R by (simp_all add: sig1_def)
  have h2: "fst (hash_parts (snd h1) [take 32 sig1, take 32 public_key, message]) = k"
    using hash_parts_computes(1) [OF h1(2), of "[take 32 sig1, take 32 public_key, message]"] R assms(2,4)
    by (simp add: k_def s1)
  have dk: "length d = 64" "length k = 64" by (simp_all add: d_def k_def)
  have S: "sc_muladd (sc_reduce k) e (sc_reduce d)
      = number_bytes 32 ((bytes_val k mod group_order * bytes_val (take 32 e) + bytes_val d mod group_order) mod group_order)"
    using sc_muladd_run(2) [of "sc_reduce k" e "sc_reduce d"] e sc_reduce_bytes(2) dk sc_reduce_run(2)
    by (intro number_bytes_unique) (simp_all add: sc_muladd_def sc_pack_def)
  have "ed25519_sign signature message public_key private_key = write_at sig1 32 (sc_muladd (sc_reduce k) e (sc_reduce d))"
    unfolding ed25519_sign_def expand_seed_digest [OF assms(3)] e_def [symmetric] Let_def h1_def [symmetric]
    unfolding split_beta h1(1) R_def [symmetric] unfolding sig1_def [symmetric] h2 ..
  also have "\<dots> = R @ sc_muladd (sc_reduce k) e (sc_reduce d) @ drop 64 signature"
  proof -
    have "length (sc_muladd (sc_reduce k) e (sc_reduce d)) = 32" by (simp add: S)
    moreover have "drop 64 sig1 = drop 64 signature" using R assms(1) by (simp add: sig1_def)
    ultimately show ?thesis using s1(1) by (simp add: write_at_def)
  qed
  also have "\<dots> = rfc_sign message (take 32 public_key) (take 32 private_key) @ drop 64 signature"
    unfolding rfc_sign_def Let_def e_def [symmetric] d_def [symmetric] S
    by (simp add: sc_reduce_bytes(1) [OF dk(1)] R_def k_def)
  finally show ?thesis .
qed

section \<open>The property\<close>

text \<open>
  C8: Signing implements the equation of EdDSA.  For every message, key pair and old content of the
  64-byte buffer, \<open>ed25519_sign\<close> writes the encoding \<open>R\<close> of the nonce's point and the 32 bytes of
  \<open>(H(R, A, M) * a + r)\<close> modulo the group order, where the nonce \<open>r\<close> is the digest of the second half
  of the expanded key and the message, and nothing after the 64 bytes: the streaming hash reused for
  both digests, the limb arithmetic and the in-place buffers refine the reference \<open>rfc_sign\<close>.
\<close>

theorem sign_is_eddsa:
  assumes "64 \<le> length signature" and "length public_key = 32" and "length private_key = 32"
    and "length message < 2 ^ 61 - 64"
  shows "ed25519_sign signature message public_key private_key = rfc_sign message public_key private_key @ drop 64 signature"
  using sign_computes [of signature public_key private_key message] assms by simp

lemma sign_is_eddsa_witness:
  "ed25519_sign (replicate 65 7) [1, 2, 3] (replicate 32 9) (replicate 32 5)
   = rfc_sign [1, 2, 3] (replicate 32 9) (replicate 32 5) @ [7]"
  using sign_is_eddsa [of "replicate 65 7" "replicate 32 9" "replicate 32 5" "[1, 2, 3]"] by simp

end
