(* ===== verification/Transaction.thy ===== *)
theory Transaction
  imports Base58 Base64 Ed25519 Wallet_Crypto
begin

text \<open>
  The transaction builder of \<open>main.c\<close>: the three append functions with their bounds checks, and
  \<open>solana_build_transfer_transaction\<close> stage by stage.  The reference is a reader of the wire
  format of a legacy Solana message (\<open>parse_message\<close>), written without the builder in view.
\<close>

section \<open>Appending\<close>

type_synonym appended = "int \<times> bytes option \<times> nat option"

definition solana_append_u8 :: "bytes option \<Rightarrow> nat \<Rightarrow> nat option \<Rightarrow> byte \<Rightarrow> appended" where
  "solana_append_u8 buffer buffer_size offset value =
     (case (buffer, offset) of
        (Some b, Some off) \<Rightarrow>
          if off \<ge> buffer_size then (0, buffer, offset) else (1, Some (b[off := value]), Some (off + 1))
      | _ \<Rightarrow> (0, buffer, offset))"

text \<open>\<open>buffer_size - *offset\<close> is a \<open>size_t\<close> difference.\<close>

definition solana_append_bytes :: "bytes option \<Rightarrow> nat \<Rightarrow> nat option \<Rightarrow> bytes option \<Rightarrow> appended" where
  "solana_append_bytes buffer buffer_size offset data =
     (case (buffer, offset, data) of
        (Some b, Some off, Some d) \<Rightarrow>
          if (int buffer_size - int off) mod 2 ^ 64 < int (length d) then (0, buffer, offset)
          else (1, Some (write_at b off d), Some (off + length d))
      | _ \<Rightarrow> (0, buffer, offset))"

function shortvec_loop :: "bytes \<Rightarrow> nat \<Rightarrow> nat \<Rightarrow> nat \<Rightarrow> int \<times> bytes \<times> nat" where
  "shortvec_loop buffer buffer_size current value =
     (let byte = of_nat (value mod 128) :: byte;
          value = value div 128;
          byte = (if value \<noteq> 0 then byte OR 0x80 else byte)
      in if current \<ge> buffer_size then (0, buffer, current)
         else (let buffer = buffer[current := byte]; current = current + 1
               in if value \<noteq> 0 then shortvec_loop buffer buffer_size current value
                  else (1, buffer, current)))"
  by pat_completeness auto
termination by (relation "measure (\<lambda>(_, _, _, value). value)") auto

declare shortvec_loop.simps [simp del]

definition solana_append_shortvec :: "bytes option \<Rightarrow> nat \<Rightarrow> nat option \<Rightarrow> nat \<Rightarrow> appended" where
  "solana_append_shortvec buffer buffer_size offset value =
     (case (buffer, offset) of
        (Some b, Some off) \<Rightarrow>
          (let (ok, b, current_offset) = shortvec_loop b buffer_size off value
           in if ok = 0 then (0, Some b, offset) else (1, Some b, Some current_offset))
      | _ \<Rightarrow> (0, buffer, offset))"

text \<open>\<open>status &= append (...)\<close>, and the first append of such a sequence.\<close>

definition and_append :: "(bytes option \<Rightarrow> nat option \<Rightarrow> appended) \<Rightarrow> appended \<Rightarrow> appended" where
  "and_append f a =
     (let (status, buffer, offset) = a; (s, buffer, offset) = f buffer offset
      in (status AND s, buffer, offset))"

section \<open>The builder\<close>

definition SOLANA_MAX_MESSAGE_LEN :: nat where "SOLANA_MAX_MESSAGE_LEN = 512"
definition SOLANA_MAX_TRANSACTION_LEN :: nat where "SOLANA_MAX_TRANSACTION_LEN = 1024"
definition SOLANA_MAX_MEMO_LENGTH :: nat where "SOLANA_MAX_MEMO_LENGTH = 120"

definition SOLANA_SYSTEM_PROGRAM_ID :: bytes where
  "SOLANA_SYSTEM_PROGRAM_ID = replicate 32 0"

definition SOLANA_MEMO_PROGRAM_BASE58 :: string where
  "SOLANA_MEMO_PROGRAM_BASE58 = ''MemoSq4gqABAXKb96qnH8TysNcWxMyWCqXgDLGmfcHr''"

abbreviation put_u8 :: "byte \<Rightarrow> bytes option \<Rightarrow> nat option \<Rightarrow> appended" where
  "put_u8 v b off \<equiv> solana_append_u8 b SOLANA_MAX_MESSAGE_LEN off v"

abbreviation put_bytes :: "bytes \<Rightarrow> bytes option \<Rightarrow> nat option \<Rightarrow> appended" where
  "put_bytes d b off \<equiv> solana_append_bytes b SOLANA_MAX_MESSAGE_LEN off (Some d)"

abbreviation put_shortvec :: "nat \<Rightarrow> bytes option \<Rightarrow> nat option \<Rightarrow> appended" where
  "put_shortvec n b off \<equiv> solana_append_shortvec b SOLANA_MAX_MESSAGE_LEN off n"

text \<open>Header, account keys, blockhash, number of instructions.\<close>

definition append_accounts ::
    "bool \<Rightarrow> byte \<Rightarrow> nat \<Rightarrow> nat \<Rightarrow> bytes \<Rightarrow> bytes \<Rightarrow> bytes \<Rightarrow> bytes \<Rightarrow> bytes option \<Rightarrow> nat option \<Rightarrow> appended" where
  "append_accounts include_memo readonly_unsigned account_key_count instruction_count
       from_public_key to_public_key memo_program_id recent_blockhash message message_len =
     (let a = put_u8 1 message message_len;
          a = and_append (put_u8 0) a;
          a = and_append (put_u8 readonly_unsigned) a;
          a = and_append (put_shortvec account_key_count) a;
          a = and_append (put_bytes (take 32 from_public_key)) a;
          a = and_append (put_bytes (take 32 to_public_key)) a;
          a = and_append (put_bytes SOLANA_SYSTEM_PROGRAM_ID) a;
          a = (if include_memo \<and> fst a \<noteq> 0 then and_append (put_bytes memo_program_id) a else a);
          a = and_append (put_bytes (take 32 recent_blockhash)) a
      in and_append (put_shortvec instruction_count) a)"

definition append_transfer_header :: "bytes option \<Rightarrow> nat option \<Rightarrow> appended" where
  "append_transfer_header message message_len =
     (let a = put_u8 2 message message_len;
          a = and_append (put_shortvec 2) a;
          a = and_append (put_u8 0) a
      in and_append (put_u8 1) a)"

definition instruction_data :: "u64 \<Rightarrow> bytes" where
  "instruction_data lamports =
     [2, 0, 0, 0, ucast (lamports AND 0xff), ucast (drop_bit 8 lamports AND 0xff),
      ucast (drop_bit 16 lamports AND 0xff), ucast (drop_bit 24 lamports AND 0xff),
      ucast (drop_bit 32 lamports AND 0xff), ucast (drop_bit 40 lamports AND 0xff),
      ucast (drop_bit 48 lamports AND 0xff), ucast (drop_bit 56 lamports AND 0xff)]"

text \<open>\<open>if ((append1 == 0) || (append2 == 0)) status = APP_ERR_IO\<close>: the second only after the first.\<close>

definition then_append :: "(bytes option \<Rightarrow> nat option \<Rightarrow> appended) \<Rightarrow> appended \<Rightarrow> appended" where
  "then_append f a = (let (status, buffer, offset) = a in if status = 0 then a else f buffer offset)"

definition append_memo :: "byte \<Rightarrow> bytes \<Rightarrow> nat \<Rightarrow> bytes option \<Rightarrow> nat option \<Rightarrow> appended" where
  "append_memo memo_program_index memo memo_len message message_len =
     (let a = put_u8 memo_program_index message message_len;
          a = and_append (put_shortvec 0) a;
          a = and_append (put_shortvec memo_len) a
      in and_append (put_bytes (take memo_len memo)) a)"

text \<open>The message, from the point where \<open>status\<close> is \<open>APP_OK\<close>: status, buffer and length.\<close>

definition build_message ::
    "(nat \<Rightarrow> bool) \<Rightarrow> bytes \<Rightarrow> bytes \<Rightarrow> u64 \<Rightarrow> bytes \<Rightarrow> string option \<Rightarrow> nat \<Rightarrow> app_status \<times> bytes \<times> nat" where
  "build_message calloc from_public_key to_public_key lamports recent_blockhash memo memo_len =
     (let message = replicate SOLANA_MAX_MESSAGE_LEN 0;
          include_memo = (memo \<noteq> None \<and> memo_len > 0);
          (decoded, id) = (if include_memo
             then solana_base58_decode calloc (Some SOLANA_MEMO_PROGRAM_BASE58) (Some (replicate 32 0)) 32
             else (32, Some (replicate 32 0)));
          memo_program_id = the id
      in if decoded \<noteq> 32 then (APP_ERR_IO, message, 0)
         else
           (let account_key_count = (if include_memo then 4 else 3);
                instruction_count = (if include_memo then 2 else 1);
                readonly_unsigned = (if include_memo then 2 else 1);
                a = append_accounts include_memo readonly_unsigned account_key_count instruction_count
                      from_public_key to_public_key memo_program_id recent_blockhash (Some message) (Some 0);
                a = then_append append_transfer_header a;
                a = then_append (put_shortvec 12) a;
                a = then_append (put_bytes (instruction_data lamports)) a;
                a = (if include_memo
                     then then_append (append_memo (of_nat (account_key_count - 1))
                            (map byte_of_char (the memo)) memo_len) a
                     else a);
                (status, message, message_len) = a
            in (if status = 0 then APP_ERR_IO else APP_OK, the message, the message_len)))"

definition solana_build_transfer_transaction ::
    "(nat \<Rightarrow> bool) \<Rightarrow> bytes option \<Rightarrow> bytes option \<Rightarrow> u64 \<Rightarrow> bytes option \<Rightarrow> bytes option \<Rightarrow> string option \<Rightarrow> nat
     \<Rightarrow> string option \<Rightarrow> nat \<Rightarrow> string option \<Rightarrow> nat \<Rightarrow> app_status \<times> string option \<times> string option" where
  "solana_build_transfer_transaction calloc from_ptr to_ptr lamports blockhash_ptr private_ptr memo memo_len
       out_base64 out_base64_size out_signature_base58 signature_base58_size =
     (case (from_ptr, to_ptr, blockhash_ptr, private_ptr, out_base64) of
        (Some from_public_key, Some to_public_key, Some recent_blockhash, Some private_key, Some out) \<Rightarrow>
          if memo_len > SOLANA_MAX_MEMO_LENGTH \<or> (memo_len > 0 \<and> memo = None)
          then (APP_ERR_IO, out_base64, out_signature_base58)
          else
            (let (status, message, message_len) =
                   build_message calloc from_public_key to_public_key lamports recent_blockhash memo memo_len
             in if status \<noteq> APP_OK then (status, out_base64, out_signature_base58)
                else
                  (let signature = ed25519_sign (replicate 64 0) (take message_len message) from_public_key private_key;
                       size = SOLANA_MAX_TRANSACTION_LEN;
                       a = solana_append_shortvec (Some (replicate size 0)) size (Some 0) 1;
                       a = then_append (\<lambda>b off. solana_append_bytes b size off (Some signature)) a;
                       a = then_append (\<lambda>b off. solana_append_bytes b size off (Some (take message_len message))) a;
                       (ok, transaction, transaction_len) = a
                   in if ok = 0 then (APP_ERR_IO, out_base64, out_signature_base58)
                      else
                        (let (n, out_base64) =
                               solana_base64_encode (Some (take (the transaction_len) (the transaction))) (Some out) out_base64_size
                         in if n = 0 then (APP_ERR_IO, out_base64, out_signature_base58)
                            else if out_signature_base58 \<noteq> None \<and> signature_base58_size > 0 then
                              (let (k, sig_text) =
                                     solana_base58_encode calloc (Some signature) out_signature_base58 signature_base58_size
                               in (if k \<le> 0 then APP_ERR_IO else APP_OK, out_base64, sig_text))
                            else (APP_OK, out_base64, out_signature_base58))))
      | _ \<Rightarrow> (APP_ERR_IO, out_base64, out_signature_base58))"

section \<open>The wire format\<close>

text \<open>Compact lengths: seven bits a byte, least significant first, the top bit set on all but the last.\<close>

fun shortvec_decode :: "bytes \<Rightarrow> (nat \<times> bytes) option" where
  "shortvec_decode [] = None"
| "shortvec_decode (b # bs) =
     (if unat b < 128 then Some (unat b, bs)
      else (case shortvec_decode bs of
              None \<Rightarrow> None | Some (n, rest) \<Rightarrow> Some (unat b - 128 + 128 * n, rest)))"

definition read_bytes :: "nat \<Rightarrow> bytes \<Rightarrow> (bytes \<times> bytes) option" where
  "read_bytes n bs = (if length bs < n then None else Some (take n bs, drop n bs))"

fun read_many :: "nat \<Rightarrow> (bytes \<Rightarrow> ('a \<times> bytes) option) \<Rightarrow> bytes \<Rightarrow> ('a list \<times> bytes) option" where
  "read_many 0 rd bs = Some ([], bs)"
| "read_many (Suc n) rd bs =
     (case rd bs of None \<Rightarrow> None
      | Some (x, bs) \<Rightarrow> (case read_many n rd bs of None \<Rightarrow> None | Some (xs, bs) \<Rightarrow> Some (x # xs, bs)))"

definition read_counted :: "bytes \<Rightarrow> (bytes \<times> bytes) option" where
  "read_counted bs = (case shortvec_decode bs of None \<Rightarrow> None | Some (n, rest) \<Rightarrow> read_bytes n rest)"

record instruction =
  program_index :: byte
  account_indices :: bytes
  data :: bytes

definition read_instruction :: "bytes \<Rightarrow> (instruction \<times> bytes) option" where
  "read_instruction bs =
     (case bs of [] \<Rightarrow> None
      | p # bs \<Rightarrow>
         (case read_counted bs of None \<Rightarrow> None
          | Some (accs, bs) \<Rightarrow>
             (case read_counted bs of None \<Rightarrow> None
              | Some (d, bs) \<Rightarrow> Some (\<lparr>program_index = p, account_indices = accs, data = d\<rparr>, bs))))"

record solana_message =
  required_signatures :: byte
  readonly_signed :: byte
  readonly_unsigned :: byte
  account_keys :: "bytes list"
  recent_blockhash :: bytes
  instructions :: "instruction list"

definition parse_message :: "bytes \<Rightarrow> solana_message option" where
  "parse_message bs =
     (case bs of
        a # b # c # bs \<Rightarrow>
          (case shortvec_decode bs of None \<Rightarrow> None
           | Some (n, bs) \<Rightarrow>
              (case read_many n (read_bytes 32) bs of None \<Rightarrow> None
               | Some (keys, bs) \<Rightarrow>
                  (case read_bytes 32 bs of None \<Rightarrow> None
                   | Some (bh, bs) \<Rightarrow>
                      (case shortvec_decode bs of None \<Rightarrow> None
                       | Some (k, bs) \<Rightarrow>
                          (case read_many k read_instruction bs of
                             Some (ins, []) \<Rightarrow>
                               Some \<lparr>required_signatures = a, readonly_signed = b, readonly_unsigned = c,
                                 account_keys = keys, recent_blockhash = bh, instructions = ins\<rparr>
                           | _ \<Rightarrow> None)))))
      | _ \<Rightarrow> None)"

text \<open>The intended transfer: the system program's instruction 2 with the amount, and the memo.\<close>

definition le_bytes :: "nat \<Rightarrow> nat \<Rightarrow> bytes" where
  "le_bytes n v = map (\<lambda>i. of_nat (v div 256 ^ i)) [0..<n]"

definition transfer_message :: "bytes \<Rightarrow> bytes \<Rightarrow> bytes \<Rightarrow> nat \<Rightarrow> bytes option \<Rightarrow> bytes \<Rightarrow> solana_message" where
  "transfer_message from to blockhash lamports memo memo_program =
     \<lparr>required_signatures = 1, readonly_signed = 0,
      readonly_unsigned = (if memo = None then 1 else 2),
      account_keys = [from, to, replicate 32 0] @ (if memo = None then [] else [memo_program]),
      recent_blockhash = blockhash,
      instructions =
        \<lparr>program_index = 2, account_indices = [0, 1], data = [2, 0, 0, 0] @ le_bytes 8 lamports\<rparr>
        # (case memo of None \<Rightarrow> [] | Some m \<Rightarrow> [\<lparr>program_index = 3, account_indices = [], data = m\<rparr>])\<rparr>"

section \<open>Appending keeps what was written\<close>

text \<open>\<open>written N a bs\<close>: the append succeeded and the buffer of \<open>N\<close> bytes starts with exactly \<open>bs\<close>.\<close>

definition written :: "nat \<Rightarrow> appended \<Rightarrow> bytes \<Rightarrow> bool" where
  "written N a bs \<longleftrightarrow>
     (\<exists>b. a = (1, Some b, Some (length bs)) \<and> length b = N \<and> length bs \<le> N \<and> take (length bs) b = bs)"

lemma written_start: "length b = N \<Longrightarrow> written N (1, Some b, Some 0) []"
  by (simp add: written_def)

lemma take_list_update_next: "n < length b \<Longrightarrow> take (Suc n) (b[n := v]) = take n b @ [v]"
  by (simp add: take_Suc_conv_app_nth)

lemma append_u8_written:
  assumes "written N (1, b, off) bs" and "length bs < N"
  shows "written N (solana_append_u8 b N off v) (bs @ [v])"
  using assms by (auto simp: written_def solana_append_u8_def take_list_update_next)

lemma append_bytes_written:
  assumes "written N (1, b, off) bs" and "length bs + length d \<le> N" and "N < 2 ^ 64"
  shows "written N (solana_append_bytes b N off (Some d)) (bs @ d)"
proof -
  have "int N - int (length bs) = int (N - length bs)" using assms(2) by simp
  moreover have "int (N - length bs) mod 2 ^ 64 = int (N - length bs)"
    using assms(3) by (intro mod_pos_pos_trivial) auto
  ultimately show ?thesis
    using assms(1,2) by (auto simp: written_def solana_append_bytes_def take_write_at)
qed

fun shortvec_encode :: "nat \<Rightarrow> bytes" where
  "shortvec_encode v =
     (if v < 128 then [of_nat v] else (of_nat (v mod 128) OR 0x80) # shortvec_encode (v div 128))"

declare shortvec_encode.simps [simp del]

lemma shortvec_encode_nonempty [simp]: "shortvec_encode v \<noteq> []"
  by (subst shortvec_encode.simps) simp

lemma shortvec_loop_written:
  "length bs + length (shortvec_encode v) \<le> N \<Longrightarrow> length b = N \<Longrightarrow> take (length bs) b = bs \<Longrightarrow>
   \<exists>b'. shortvec_loop b N (length bs) v = (1, b', length bs + length (shortvec_encode v))
     \<and> length b' = N \<and> take (length bs + length (shortvec_encode v)) b' = bs @ shortvec_encode v"
proof (induction v arbitrary: b bs rule: shortvec_encode.induct)
  case (1 v)
  show ?case
  proof (cases "v < 128")
    case True
    then have e: "shortvec_encode v = [of_nat v]" "v div 128 = 0" "v mod 128 = v"
      by (simp_all add: shortvec_encode.simps)
    then show ?thesis using 1(2-4)
      by (subst shortvec_loop.simps) (simp add: Let_def take_list_update_next)
  next
    case False
    define c :: byte where "c = of_nat (v mod 128) OR 0x80"
    have e: "shortvec_encode v = c # shortvec_encode (v div 128)" "v div 128 \<noteq> 0"
      using False by (simp_all add: shortvec_encode.simps [of v] c_def)
    have lt: "length bs < N" using 1(2) e by simp
    have "\<exists>b'. shortvec_loop (b[length bs := c]) N (length (bs @ [c])) (v div 128)
        = (1, b', length (bs @ [c]) + length (shortvec_encode (v div 128)))
      \<and> length b' = N \<and> take (length (bs @ [c]) + length (shortvec_encode (v div 128))) b'
        = (bs @ [c]) @ shortvec_encode (v div 128)"
      by (rule 1(1) [OF False]) (use 1(2-4) e lt in \<open>simp_all add: take_list_update_next\<close>)
    then show ?thesis
      using lt e by (subst shortvec_loop.simps) (simp add: Let_def c_def [symmetric])
  qed
qed

lemma append_shortvec_written:
  assumes "written N (1, b, off) bs" and "length bs + length (shortvec_encode v) \<le> N"
  shows "written N (solana_append_shortvec b N off v) (bs @ shortvec_encode v)"
  using assms shortvec_loop_written [of bs v N]
  by (fastforce simp: written_def solana_append_shortvec_def)

lemma written_ok: "written N a bs \<Longrightarrow> \<exists>b off. a = (1, b, off)"
  by (auto simp: written_def)

lemma and_append_written:
  assumes "written N a bs" and "\<And>b off. written N (1, b, off) bs \<Longrightarrow> written N (f b off) (bs @ d)"
  shows "written N (and_append f a) (bs @ d)"
proof -
  obtain b off where a: "a = (1, b, off)" using written_ok [OF assms(1)] by blast
  then have "written N (f b off) (bs @ d)" using assms by simp
  moreover obtain b' off' where "f b off = (1, b', off')" using written_ok [OF calculation] by blast
  ultimately show ?thesis by (simp add: and_append_def a)
qed

lemma then_append_written:
  assumes "written N a bs" and "\<And>b off. written N (1, b, off) bs \<Longrightarrow> written N (f b off) (bs @ d)"
  shows "written N (then_append f a) (bs @ d)"
proof -
  obtain b off where "a = (1, b, off)" using written_ok [OF assms(1)] by blast
  then show ?thesis using assms by (simp add: then_append_def)
qed

lemma shortvec_small: "v < 128 \<Longrightarrow> shortvec_encode v = [of_nat v]"
  by (simp add: shortvec_encode.simps)

lemma shortvec_roundtrip: "shortvec_decode (shortvec_encode v @ rest) = Some (v, rest)"
proof (induction v rule: shortvec_encode.induct)
  case (1 v)
  show ?case
  proof (cases "v < 128")
    case True
    then have "unat (of_nat v :: byte) = v" by (simp add: unat_of_nat)
    then show ?thesis using True by (simp add: shortvec_small)
  next
    case False
    define c :: byte where "c = of_nat (v mod 128) OR 0x80"
    have "(of_nat (v mod 128) :: byte) OR 0x80 = of_nat (v mod 128) + 0x80"
    proof (rule disjunctive_add [symmetric])
      fix n
      have m: "v mod 128 = take_bit 7 v" by (simp add: take_bit_eq_mod)
      have h: "(0x80 :: byte) = push_bit 7 1" by simp
      show "\<not> bit (of_nat (v mod 128) :: byte) n \<or> \<not> bit (0x80 :: byte) n"
      proof -
        have "bit (0x80 :: byte) n \<Longrightarrow> 7 \<le> n" unfolding h by (simp only: bit_push_bit_iff)
        then show ?thesis unfolding m by (auto simp: bit_simps)
      qed
    qed
    then have "c = of_nat (v mod 128 + 128)" by (simp add: c_def)
    moreover have "v mod 128 + 128 < 256" by simp
    ultimately have "unat c = v mod 128 + 128" by (simp only: unat_of_nat) simp
    moreover have "v mod 128 + 128 * (v div 128) = v" by simp
    ultimately show ?thesis using 1 False by (simp add: shortvec_encode.simps [of v] c_def [symmetric])
  qed
qed

lemma and_u8: "written N a bs \<Longrightarrow> length bs < N \<Longrightarrow>
    written N (and_append (\<lambda>b off. solana_append_u8 b N off v) a) (bs @ [v])"
  and and_bytes: "written N a bs \<Longrightarrow> length bs + length d \<le> N \<Longrightarrow> N < 2 ^ 64 \<Longrightarrow>
    written N (and_append (\<lambda>b off. solana_append_bytes b N off (Some d)) a) (bs @ d)"
  and and_shortvec: "written N a bs \<Longrightarrow> length bs < N \<Longrightarrow> n < 128 \<Longrightarrow>
    written N (and_append (\<lambda>b off. solana_append_shortvec b N off n) a) (bs @ [of_nat n])"
  and then_bytes: "written N a bs \<Longrightarrow> length bs + length d \<le> N \<Longrightarrow> N < 2 ^ 64 \<Longrightarrow>
    written N (then_append (\<lambda>b off. solana_append_bytes b N off (Some d)) a) (bs @ d)"
  and then_shortvec: "written N a bs \<Longrightarrow> length bs < N \<Longrightarrow> n < 128 \<Longrightarrow>
    written N (then_append (\<lambda>b off. solana_append_shortvec b N off n) a) (bs @ [of_nat n])"
proof -
  have sv: "written N (solana_append_shortvec b N off n) (bs @ [of_nat n])"
    if "written N (1, b, off) bs" "length bs < N" "n < 128" for b off
    using append_shortvec_written [OF that(1), of n] that(2,3) by (simp add: shortvec_small)
  show "written N a bs \<Longrightarrow> length bs < N \<Longrightarrow>
      written N (and_append (\<lambda>b off. solana_append_u8 b N off v) a) (bs @ [v])"
    by (rule and_append_written) (auto intro: append_u8_written)
  show "written N a bs \<Longrightarrow> length bs + length d \<le> N \<Longrightarrow> N < 2 ^ 64 \<Longrightarrow>
      written N (and_append (\<lambda>b off. solana_append_bytes b N off (Some d)) a) (bs @ d)"
    by (rule and_append_written) (auto intro: append_bytes_written)
  show "written N a bs \<Longrightarrow> length bs < N \<Longrightarrow> n < 128 \<Longrightarrow>
      written N (and_append (\<lambda>b off. solana_append_shortvec b N off n) a) (bs @ [of_nat n])"
    by (rule and_append_written) (auto intro: sv)
  show "written N a bs \<Longrightarrow> length bs + length d \<le> N \<Longrightarrow> N < 2 ^ 64 \<Longrightarrow>
      written N (then_append (\<lambda>b off. solana_append_bytes b N off (Some d)) a) (bs @ d)"
    by (rule then_append_written) (auto intro: append_bytes_written)
  show "written N a bs \<Longrightarrow> length bs < N \<Longrightarrow> n < 128 \<Longrightarrow>
      written N (then_append (\<lambda>b off. solana_append_shortvec b N off n) a) (bs @ [of_nat n])"
    by (rule then_append_written) (auto intro: sv)
qed

section \<open>The message\<close>

definition message_bytes :: "bytes \<Rightarrow> bytes \<Rightarrow> bytes \<Rightarrow> u64 \<Rightarrow> bytes option \<Rightarrow> bytes \<Rightarrow> bytes" where
  "message_bytes from to blockhash lamports memo memo_id =
     [1, 0, if memo = None then 1 else 2, if memo = None then 3 else 4] @ from @ to @ replicate 32 0
     @ (if memo = None then [] else memo_id) @ blockhash @ [if memo = None then 1 else 2]
     @ [2, 2, 0, 1, 12] @ instruction_data lamports
     @ (case memo of None \<Rightarrow> [] | Some m \<Rightarrow> [3, 0, of_nat (length m)] @ m)"

lemma max_message: "SOLANA_MAX_MESSAGE_LEN = 512"
  by (rule SOLANA_MAX_MESSAGE_LEN_def)

lemma written_fst: "written N a bs \<Longrightarrow> fst a = 1"
  by (auto simp: written_def)

lemma accounts_written:
  assumes "length from = 32" and "length to = 32" and "length bh = 32" and "length mid = 32"
    and "written 512 (1, m, l) []" and "nk < 128" and "ni < 128"
  shows "written 512 (append_accounts has_memo ro nk ni from to mid bh m l)
    ([1, 0, ro, of_nat nk] @ from @ to @ replicate 32 0 @ (if has_memo then mid else []) @ bh @ [of_nat ni])"
proof -
  have 1: "written 512 (solana_append_u8 m 512 l 1) [1]"
    using append_u8_written [OF assms(5)] by simp
  note 2 = and_u8 [OF 1, of 0] and_u8 [of 512 _ "[1, 0]" ro] and_shortvec [of 512 _ "[1, 0, ro]" nk]
  let ?a4 = "and_append (put_shortvec nk) (and_append (put_u8 ro) (and_append (put_u8 0) (put_u8 1 m l)))"
  have 4: "written 512 ?a4 [1, 0, ro, of_nat nk]" using 2 assms(6) by (simp add: max_message)
  let ?a5 = "and_append (put_bytes from) ?a4"
  have 5: "written 512 ?a5 ([1, 0, ro, of_nat nk] @ from)"
    unfolding max_message by (rule and_bytes [OF 4 [unfolded max_message]]) (simp_all add: assms)
  let ?a6 = "and_append (put_bytes to) ?a5"
  have 6: "written 512 ?a6 (([1, 0, ro, of_nat nk] @ from) @ to)"
    unfolding max_message by (rule and_bytes [OF 5 [unfolded max_message]]) (simp_all add: assms)
  let ?a7 = "and_append (put_bytes SOLANA_SYSTEM_PROGRAM_ID) ?a6"
  have 7: "written 512 ?a7 ((([1, 0, ro, of_nat nk] @ from) @ to) @ SOLANA_SYSTEM_PROGRAM_ID)"
    unfolding max_message
    by (rule and_bytes [OF 6 [unfolded max_message]]) (simp_all add: assms SOLANA_SYSTEM_PROGRAM_ID_def)
  let ?a8 = "if has_memo \<and> fst ?a7 \<noteq> 0 then and_append (put_bytes mid) ?a7 else ?a7"
  let ?bs8 = "((([1, 0, ro, of_nat nk] @ from) @ to) @ SOLANA_SYSTEM_PROGRAM_ID) @ (if has_memo then mid else [])"
  have 8: "written 512 ?a8 ?bs8"
  proof (cases has_memo)
    case True
    have "written 512 (and_append (put_bytes mid) ?a7)
        (((([1, 0, ro, of_nat nk] @ from) @ to) @ SOLANA_SYSTEM_PROGRAM_ID) @ mid)"
      unfolding max_message
      by (rule and_bytes [OF 7 [unfolded max_message]]) (simp_all add: assms SOLANA_SYSTEM_PROGRAM_ID_def)
    then show ?thesis using True written_fst [OF 7] by simp
  qed (use 7 in simp)
  have l8: "length ?bs8 \<le> 132" using assms by (simp add: SOLANA_SYSTEM_PROGRAM_ID_def)
  let ?a9 = "and_append (put_bytes bh) ?a8"
  have 9: "written 512 ?a9 (?bs8 @ bh)"
    unfolding max_message by (rule and_bytes [OF 8 [unfolded max_message]]) (use l8 assms in simp_all)
  have 10: "written 512 (and_append (put_shortvec ni) ?a9) ((?bs8 @ bh) @ [of_nat ni])"
    unfolding max_message by (rule and_shortvec [OF 9 [unfolded max_message]]) (use l8 assms in simp_all)
  have t: "take 32 from = from" "take 32 to = to" "take 32 bh = bh" using assms by simp_all
  show ?thesis
    using 10 unfolding append_accounts_def Let_def t by (simp add: SOLANA_SYSTEM_PROGRAM_ID_def)
qed

definition memo_program :: bytes where
  "memo_program =
     [0x05, 0x4a, 0x53, 0x5a, 0x99, 0x29, 0x21, 0x06, 0x4d, 0x24, 0xe8, 0x71, 0x60, 0xda, 0x38, 0x7c,
      0x7c, 0x35, 0xb5, 0xdd, 0xbc, 0x92, 0xbb, 0x81, 0xe4, 0x1f, 0xa8, 0x40, 0x41, 0x05, 0x44, 0x8d]"

lemma memo_program_base58: "base58_bytes SOLANA_MEMO_PROGRAM_BASE58 = Some memo_program"
proof -
  have same_number: "be_val 58 (map (\<lambda>c. nat (solana_base58_value c)) SOLANA_MEMO_PROGRAM_BASE58)
      = be_val 256 (map unat memo_program)"
    by (simp add: SOLANA_MEMO_PROGRAM_BASE58_def memo_program_def solana_base58_value_def)
  have "digits_of 256 (be_val 256 (map unat memo_program)) = map unat memo_program"
    by (rule digits_of_be_val) (simp_all add: memo_program_def)
  moreover have "list_all b58_valid SOLANA_MEMO_PROGRAM_BASE58"
    by (simp add: SOLANA_MEMO_PROGRAM_BASE58_def solana_base58_value_def)
  moreover have "leading (CHR ''1'') SOLANA_MEMO_PROGRAM_BASE58 = 0"
    by (simp add: SOLANA_MEMO_PROGRAM_BASE58_def)
  ultimately show ?thesis unfolding base58_bytes_alt same_number by (simp add: o_def)
qed

lemma length_memo_program [simp]: "length memo_program = 32"
  by (simp add: memo_program_def)

lemma decode_memo_program:
  assumes "\<And>n. calloc n"
  shows "solana_base58_decode calloc (Some SOLANA_MEMO_PROGRAM_BASE58) (Some (replicate 32 0)) 32
    = (32, Some memo_program)"
  using assms memo_program_base58
  by (simp add: decode_characterised SOLANA_MEMO_PROGRAM_BASE58_def)

lemma length_instruction_data [simp]: "length (instruction_data lamports) = 12"
  by (simp add: instruction_data_def)

lemma header_written:
  assumes "written 512 a bs" and "length bs + 4 \<le> 512"
  shows "written 512 (then_append append_transfer_header a) (bs @ [2, 2, 0, 1])"
proof (rule then_append_written [OF assms(1)])
  fix b off assume w: "written 512 (1, b, off) bs"
  have 1: "written 512 (solana_append_u8 b 512 off 2) (bs @ [2])"
    by (rule append_u8_written [OF w]) (use assms(2) in simp)
  have 2: "written 512 (and_append (\<lambda>b off. solana_append_shortvec b 512 off 2) (solana_append_u8 b 512 off 2))
      ((bs @ [2]) @ [of_nat 2])"
    by (rule and_shortvec [OF 1]) (use assms(2) in simp_all)
  note 3 = and_u8 [OF 2, of 0]
  note 4 = and_u8 [of 512 _ "((bs @ [2]) @ [of_nat 2]) @ [0]" 1]
  show "written 512 (append_transfer_header b off) (bs @ [2, 2, 0, 1])"
    using 4 [OF 3] assms(2) by (simp add: append_transfer_header_def Let_def max_message)
qed

lemma memo_written:
  assumes "written 512 a bs" and "length bs + 3 + n \<le> 512" and "n < 128" and "n \<le> length memo"
  shows "written 512 (then_append (append_memo i memo n) a) (bs @ [i, 0, of_nat n] @ take n memo)"
proof (rule then_append_written [OF assms(1)])
  fix b off assume w: "written 512 (1, b, off) bs"
  have 1: "written 512 (solana_append_u8 b 512 off i) (bs @ [i])"
    by (rule append_u8_written [OF w]) (use assms(2) in simp)
  have 2: "written 512 (and_append (\<lambda>b off. solana_append_shortvec b 512 off 0) (solana_append_u8 b 512 off i))
      ((bs @ [i]) @ [of_nat 0])"
    by (rule and_shortvec [OF 1]) (use assms(2) in simp_all)
  note 3 = and_shortvec [OF 2, of n]
  note 4 = and_bytes [of 512 _ "((bs @ [i]) @ [of_nat 0]) @ [of_nat n]" "take n memo"]
  show "written 512 (append_memo i memo n b off) (bs @ [i, 0, of_nat n] @ take n memo)"
    using 4 [OF 3] assms(2-4) by (simp add: append_memo_def Let_def max_message)
qed

lemma build_message_computes:
  assumes len: "length from = 32" "length to = 32" "length bh = 32"
    and calloc: "\<And>n. calloc n" and n: "n \<le> 120"
    and m: "n = 0 \<and> m = None \<or> 0 < n \<and> (\<exists>s. memo = Some s \<and> n \<le> length s \<and> m = Some (map byte_of_char (take n s)))"
  shows "\<exists>buffer. build_message calloc from to lamports bh memo n
      = (APP_OK, buffer, length (message_bytes from to bh lamports m memo_program))
    \<and> take (length (message_bytes from to bh lamports m memo_program)) buffer
      = message_bytes from to bh lamports m memo_program"
proof -
  define inc where "inc = (memo \<noteq> None \<and> 0 < n)"
  define mid where "mid = (if inc then memo_program else replicate 32 0)"
  have inc: "inc \<longleftrightarrow> m \<noteq> None" using m by (auto simp: inc_def)
  have id: "(if inc then solana_base58_decode calloc (Some SOLANA_MEMO_PROGRAM_BASE58) (Some (replicate 32 0)) 32
      else (32, Some (replicate 32 0))) = (32, Some mid)"
    using decode_memo_program [OF calloc] by (simp add: mid_def)
  let ?nk = "if inc then 4 else 3" and ?ni = "if inc then 2 else 1" and ?ro = "if inc then 2 else 1 :: byte"
  let ?a1 = "append_accounts inc ?ro ?nk ?ni from to mid bh (Some (replicate SOLANA_MAX_MESSAGE_LEN 0)) (Some 0)"
  let ?b1 = "[1, 0, ?ro, of_nat ?nk] @ from @ to @ replicate 32 0 @ (if inc then mid else []) @ bh @ [of_nat ?ni]"
  have 1: "written 512 ?a1 ?b1"
    by (rule accounts_written) (use len in \<open>simp_all add: mid_def max_message written_def\<close>)
  have lb1: "length ?b1 \<le> 165" using len by (simp add: mid_def)
  let ?a2 = "then_append append_transfer_header ?a1"
  have 2: "written 512 ?a2 (?b1 @ [2, 2, 0, 1])" by (rule header_written [OF 1]) (use lb1 in simp)
  let ?a3 = "then_append (put_shortvec 12) ?a2"
  have 3: "written 512 ?a3 ((?b1 @ [2, 2, 0, 1]) @ [of_nat 12])"
    unfolding max_message by (rule then_shortvec [OF 2 [unfolded max_message]]) (use lb1 in simp_all)
  let ?a4 = "then_append (put_bytes (instruction_data lamports)) ?a3"
  let ?b4 = "((?b1 @ [2, 2, 0, 1]) @ [of_nat 12]) @ instruction_data lamports"
  have 4: "written 512 ?a4 ?b4"
    unfolding max_message by (rule then_bytes [OF 3 [unfolded max_message]]) (use lb1 in simp_all)
  have lb4: "length ?b4 \<le> 182" using lb1 by simp
  let ?a5 = "if inc then then_append (append_memo (of_nat (?nk - 1)) (map byte_of_char (the memo)) n) ?a4 else ?a4"
  have 5: "written 512 ?a5 (message_bytes from to bh lamports m memo_program)"
  proof (cases inc)
    case True
    then obtain s where s: "memo = Some s" "n \<le> length s" "m = Some (map byte_of_char (take n s))"
      using m by (auto simp: inc_def)
    have "written 512 (then_append (append_memo 3 (map byte_of_char s) n) ?a4)
        (?b4 @ [3, 0, of_nat n] @ take n (map byte_of_char s))"
      by (rule memo_written [OF 4]) (use lb4 n s in simp_all)
    then show ?thesis using True s by (simp add: message_bytes_def mid_def take_map min.absorb2)
  next
    case False
    then show ?thesis using 4 inc by (simp add: message_bytes_def)
  qed
  obtain buffer where b: "?a5 = (1, Some buffer, Some (length (message_bytes from to bh lamports m memo_program)))"
    "take (length (message_bytes from to bh lamports m memo_program)) buffer
      = message_bytes from to bh lamports m memo_program"
    using 5 unfolding written_def by blast
  show ?thesis
    unfolding build_message_def Let_def inc_def [symmetric] id prod.case option.sel b(1)
    using b(2) by simp
qed

section \<open>The reader accepts the message\<close>

lemma instruction_data_le: "instruction_data lamports = [2, 0, 0, 0] @ le_bytes 8 (unat lamports)"
proof -
  have "instruction_data lamports = [2, 0, 0, 0] @ rev (STORE64H lamports)"
    by (simp add: instruction_data_def STORE64H_def)
  then show ?thesis by (simp add: STORE64H_be_bytes be_bytes_def le_bytes_def rev_map)
qed

lemma length_le_bytes [simp]: "length (le_bytes n v) = n"
  by (simp add: le_bytes_def)

lemma read_bytes_append: "length k = n \<Longrightarrow> read_bytes n (k @ rest) = Some (k, rest)"
  by (simp add: read_bytes_def)

lemma read_keys:
  "\<forall>k \<in> set ks. length k = 32 \<Longrightarrow> length ks = n \<Longrightarrow>
   read_many n (read_bytes 32) (concat ks @ rest) = Some (ks, rest)"
proof (induction ks arbitrary: n)
  case (Cons k ks)
  then show ?case by (cases n) (simp_all add: read_bytes_append)
qed simp

lemma read_counted_append:
  assumes "length d < 128"
  shows "read_counted (of_nat (length d) # d @ rest) = Some (d, rest)"
proof -
  have "shortvec_decode (shortvec_encode (length d) @ d @ rest) = Some (length d, d @ rest)"
    by (rule shortvec_roundtrip)
  then show ?thesis using assms by (simp add: read_counted_def shortvec_small read_bytes_append)
qed

lemma read_instruction_append:
  assumes "length accs < 128" and "length d < 128"
  shows "read_instruction (p # (of_nat (length accs) # accs) @ (of_nat (length d) # d) @ rest)
    = Some (\<lparr>program_index = p, account_indices = accs, data = d\<rparr>, rest)"
  using read_counted_append [OF assms(1), of "(of_nat (length d) # d) @ rest"]
    read_counted_append [OF assms(2), of rest] by (simp add: read_instruction_def)

lemma read_transfer:
  "read_instruction ([2, 2, 0, 1, 12] @ instruction_data lamports @ rest)
   = Some (\<lparr>program_index = 2, account_indices = [0, 1], data = [2, 0, 0, 0] @ le_bytes 8 (unat lamports)\<rparr>, rest)"
  using read_instruction_append [of "[0, 1]" "instruction_data lamports" 2 rest]
  by (simp add: instruction_data_le)

lemma read_memo:
  assumes "length d < 128"
  shows "read_instruction ([3, 0, of_nat (length d)] @ d @ rest)
    = Some (\<lparr>program_index = 3, account_indices = [], data = d\<rparr>, rest)"
  using read_instruction_append [of "[]" d 3 rest] assms by simp

lemma parse_message_bytes:
  assumes "length from = 32" and "length to = 32" and "length bh = 32" and "length mid = 32"
    and "case m of None \<Rightarrow> True | Some d \<Rightarrow> length d < 128"
  shows "parse_message (message_bytes from to bh lamports m mid)
    = Some (transfer_message from to bh (unat lamports) m mid)"
proof (cases m)
  case None
  define keys where "keys = [from, to, replicate 32 0 :: bytes]"
  have k: "read_many 3 (read_bytes 32) (concat keys @ rest) = Some (keys, rest)" for rest
    by (rule read_keys) (simp_all add: keys_def assms)
  have "message_bytes from to bh lamports m mid
    = 1 # 0 # 1 # 3 # concat keys @ bh @ 1 # [2, 2, 0, 1, 12] @ instruction_data lamports @ []"
    by (simp add: message_bytes_def None keys_def)
  moreover have "read_many 1 read_instruction ([2, 2, 0, 1, 12] @ instruction_data lamports @ [])
    = Some ([\<lparr>program_index = 2, account_indices = [0, 1], data = [2, 0, 0, 0] @ le_bytes 8 (unat lamports)\<rparr>], [])"
    using read_transfer [of lamports "[]"] by simp
  ultimately show ?thesis
    using k read_bytes_append [OF assms(3)] by (simp add: parse_message_def transfer_message_def None keys_def)
next
  case (Some d)
  then have d: "length d < 128" using assms(5) by simp
  define keys where "keys = [from, to, replicate 32 0 :: bytes, mid]"
  define ins where "ins = [2, 2, 0, 1, 12] @ instruction_data lamports @ [3, 0, of_nat (length d)] @ d @ []"
  have k: "read_many 4 (read_bytes 32) (concat keys @ rest) = Some (keys, rest)" for rest
    by (rule read_keys) (simp_all add: keys_def assms)
  have "message_bytes from to bh lamports m mid = 1 # 0 # 2 # 4 # concat keys @ bh @ 2 # ins"
    by (simp add: message_bytes_def Some keys_def ins_def)
  moreover have "read_many 2 read_instruction ins
    = Some ([\<lparr>program_index = 2, account_indices = [0, 1], data = [2, 0, 0, 0] @ le_bytes 8 (unat lamports)\<rparr>,
             \<lparr>program_index = 3, account_indices = [], data = d\<rparr>], [])"
    unfolding ins_def numeral_2_eq_2 read_many.simps read_transfer option.case prod.case
      read_memo [OF d] by simp
  ultimately show ?thesis
    using k read_bytes_append [OF assms(3)] by (simp add: parse_message_def transfer_message_def Some keys_def)
qed

lemma length_message_bytes:
  assumes "length from = 32" and "length to = 32" and "length bh = 32"
  shows "length (message_bytes from to bh lamports m memo_program)
    = (case m of None \<Rightarrow> 150 | Some d \<Rightarrow> 185 + length d)"
  using assms by (simp add: message_bytes_def split: option.split)

section \<open>The signed transaction\<close>

lemma length_fe_tobytes [simp]: "length (fe_tobytes h) = 32"
  by (simp add: fe_tobytes_def fe_pack_def Let_def)

lemma length_ge_p3_tobytes [simp]: "length (ge_p3_tobytes h) = 32"
  by (simp add: ge_p3_tobytes_def affine_tobytes_def Let_def)

lemma length_sc_muladd [simp]: "length (sc_muladd a b c) = 32"
  by (simp add: sc_muladd_def sc_pack_def)

lemma length_ed25519_sign [simp]: "length sig = 64 \<Longrightarrow> length (ed25519_sign sig m pk sk) = 64"
  by (simp add: ed25519_sign_def Let_def split: prod.splits)

lemma signed_bytes:
  assumes "length sig = 64" and "length msg \<le> 512"
  shows "\<exists>b. then_append (\<lambda>b off. solana_append_bytes b 1024 off (Some msg))
      (then_append (\<lambda>b off. solana_append_bytes b 1024 off (Some sig))
        (solana_append_shortvec (Some (replicate 1024 0)) 1024 (Some 0) 1)) = (1, Some b, Some (65 + length msg))
    \<and> take (65 + length msg) b = 1 # sig @ msg"
proof -
  have "written 1024 (solana_append_shortvec (Some (replicate 1024 0)) 1024 (Some 0) 1) ([] @ shortvec_encode 1)"
    by (rule append_shortvec_written) (simp_all add: written_def shortvec_small)
  then have 1: "written 1024 (solana_append_shortvec (Some (replicate 1024 0)) 1024 (Some 0) 1) [1]"
    by (simp add: shortvec_small)
  note 2 = then_bytes [OF 1, of sig]
  note 3 = then_bytes [OF 2, of msg]
  show ?thesis using 3 assms by (auto simp: written_def)
qed

lemma build_computes:
  fixes priv :: bytes
  assumes len: "length from = 32" "length to = 32" "length bh = 32"
    and calloc: "\<And>n. calloc n" and n: "n \<le> 120"
    and m: "n = 0 \<and> m = None \<or> 0 < n \<and> (\<exists>s. memo = Some s \<and> n \<le> length s \<and> m = Some (map byte_of_char (take n s)))"
    and out: "base64_encoded_len (65 + length (message_bytes from to bh lamports m memo_program)) < out_size"
    and sig: "89 < sig_size" "sig_size < 2 ^ 31"
  defines "msg \<equiv> message_bytes from to bh lamports m memo_program"
  defines "sg \<equiv> ed25519_sign (replicate 64 0) msg from priv"
  shows "solana_build_transfer_transaction calloc (Some from) (Some to) lamports (Some bh) (Some priv) memo n
      (Some out) out_size (Some sig_out) sig_size
    = (APP_OK, Some (write_at out 0 (base64_loop (1 # sg @ msg) @ [NUL])),
       Some (write_at sig_out 0 (base58_text sg @ [NUL])))"
proof -
  have lsg: "length sg = 64" by (simp add: sg_def)
  have lm: "length msg \<le> 305"
    using length_message_bytes [OF len, of lamports m] n m by (auto simp: msg_def)
  obtain buffer where b: "build_message calloc from to lamports bh memo n = (APP_OK, buffer, length msg)"
    "take (length msg) buffer = msg"
    using build_message_computes [where calloc = calloc and lamports = lamports, OF len calloc n m] unfolding msg_def by blast
  obtain t where t: "then_append (\<lambda>b off. solana_append_bytes b 1024 off (Some msg))
      (then_append (\<lambda>b off. solana_append_bytes b 1024 off (Some sg))
        (solana_append_shortvec (Some (replicate 1024 0)) 1024 (Some 0) 1)) = (1, Some t, Some (65 + length msg))"
    "take (65 + length msg) t = 1 # sg @ msg"
    using signed_bytes [OF lsg, of msg] lm by auto
  have l64: "length (1 # sg @ msg) = 65 + length msg" using lsg by simp
  have b64: "solana_base64_encode (Some (1 # sg @ msg)) (Some out) out_size
      = (base64_encoded_len (65 + length msg), Some (write_at out 0 (base64_loop (1 # sg @ msg) @ [NUL])))"
    using base64_encode_buffer [of "1 # sg @ msg" out_size out] out l64 by (simp add: msg_def)
  have "base64_encoded_len (65 + length msg) \<noteq> 0" by (simp add: base64_encoded_len_def)
  note nz = this
  have "length (base58_text sg) \<le> 89" using length_base58_text [of sg] lsg by simp
  moreover have "sg \<noteq> []" using lsg by auto
  then have "0 < length (base58_text sg)" using base58_text_nonempty [of sg] by simp
  ultimately have b58: "solana_base58_encode calloc (Some sg) (Some sig_out) sig_size
      = (int (length (base58_text sg)), Some (write_at sig_out 0 (base58_text sg @ [NUL])))"
    "\<not> int (length (base58_text sg)) \<le> 0"
    using encode_characterised [OF sig(2), of calloc sg sig_out] sig(1) calloc by auto
  have memo_ok: "\<not> (n > SOLANA_MAX_MEMO_LENGTH \<or> (n > 0 \<and> memo = None))"
    using n m by (auto simp: SOLANA_MAX_MEMO_LENGTH_def)
  have size: "SOLANA_MAX_TRANSACTION_LEN = 1024" by (rule SOLANA_MAX_TRANSACTION_LEN_def)
  show ?thesis
    unfolding solana_build_transfer_transaction_def prod.case option.case if_not_P [OF memo_ok] b(1) Let_def
      b(2) size sg_def [symmetric] t(1) option.sel t(2) b64
    using nz b58 sig(1) by simp
qed

section \<open>Properties\<close>

text \<open>
  C2: with keys and blockhash of 32 bytes, an optional memo of 1 to 120 bytes and the buffers of
  the caller, building never fails, and what is sent is right: the base 64 text decodes to one
  signature followed by the message that was signed with the sender's keys, the reader of the wire
  format takes that message for exactly the intended transfer (accounts, blockhash, amount,
  memo), and the second output is the signature in base 58.
\<close>

theorem transaction_is_intended_transfer:
  assumes "length from = 32" and "length to = 32" and "length bh = 32"
    and "\<And>n. calloc n" and "n \<le> 120"
    and "n = 0 \<and> m = None \<or> 0 < n \<and> (\<exists>s. memo = Some s \<and> n \<le> length s \<and> m = Some (map byte_of_char (take n s)))"
    and "512 \<le> out_size" and "128 \<le> sig_size" and "sig_size < 2 ^ 31"
  shows "\<exists>out' sig_out' msg sg.
    solana_build_transfer_transaction calloc (Some from) (Some to) lamports (Some bh) (Some priv) memo n
      (Some out) out_size (Some sig_out) sig_size = (APP_OK, Some out', Some sig_out')
    \<and> base64_decode (c_string out') = Some (1 # sg @ msg)
    \<and> sg = ed25519_sign (replicate 64 0) msg from priv \<and> length sg = 64
    \<and> parse_message msg = Some (transfer_message from to bh (unat lamports) m memo_program)
    \<and> c_string sig_out' = base58_text sg"
proof -
  let ?msg = "message_bytes from to bh lamports m memo_program"
  let ?sg = "ed25519_sign (replicate 64 0) ?msg from priv"
  have "length ?msg \<le> 305"
    using length_message_bytes [OF assms(1-3), of lamports m] assms(5,6) by auto
  then have fits: "base64_encoded_len (65 + length ?msg) < out_size"
    using assms(7) by (simp add: base64_encoded_len_def)
  have run: "solana_build_transfer_transaction calloc (Some from) (Some to) lamports (Some bh) (Some priv) memo n
      (Some out) out_size (Some sig_out) sig_size
    = (APP_OK, Some (write_at out 0 (base64_loop (1 # ?sg @ ?msg) @ [NUL])),
       Some (write_at sig_out 0 (base58_text ?sg @ [NUL])))"
    by (rule build_computes [where calloc = calloc, OF assms(1-6) fits]) (use assms(8,9) in simp_all)
  have "base64_decode (c_string (write_at out 0 (base64_loop (1 # ?sg @ ?msg) @ [NUL]))) = Some (1 # ?sg @ ?msg)"
    by (simp add: c_string_terminated base64_loop_no_NUL base64_decode_loop)
  moreover have "parse_message ?msg = Some (transfer_message from to bh (unat lamports) m memo_program)"
    by (rule parse_message_bytes [OF assms(1-3)]) (use assms(5,6) in auto)
  moreover have "c_string (write_at sig_out 0 (base58_text ?sg @ [NUL])) = base58_text ?sg"
    by (rule c_string_write_at_0 [OF base58_text_no_NUL])
  ultimately show ?thesis using run by (metis length_ed25519_sign length_replicate)
qed

lemma transaction_is_intended_transfer_witness:
  "\<exists>out' sig_out' msg sg.
    solana_build_transfer_transaction (\<lambda>_. True) (Some (replicate 32 1)) (Some (replicate 32 2)) 5000
      (Some (replicate 32 3)) (Some (replicate 64 4)) (Some ''hi'') 2 (Some (replicate 512 NUL)) 512
      (Some (replicate 128 NUL)) 128 = (APP_OK, Some out', Some sig_out')
    \<and> base64_decode (c_string out') = Some (1 # sg @ msg)
    \<and> sg = ed25519_sign (replicate 64 0) msg (replicate 32 1) (replicate 64 4) \<and> length sg = 64
    \<and> parse_message msg = Some (transfer_message (replicate 32 1) (replicate 32 2) (replicate 32 3)
        (unat (5000 :: u64)) (Some (map byte_of_char ''hi'')) memo_program)
    \<and> c_string sig_out' = base58_text sg"
  by (rule transaction_is_intended_transfer) simp_all

text \<open>
  The compact length encoding is read back for every length: appending it to a buffer with
  room writes bytes the decoder turns into the same number, and a buffer without room is reported
  without moving the offset.
\<close>

theorem shortvec_append_roundtrip:
  assumes "length b = N" and "off \<le> N"
  shows "(\<exists>b' off'. solana_append_shortvec (Some b) N (Some off) v = (1, Some b', Some off')
      \<and> take off b' = take off b \<and> off < off' \<and> off' \<le> N
      \<and> shortvec_decode (drop off (take off' b')) = Some (v, []))
    \<or> (\<exists>b'. solana_append_shortvec (Some b) N (Some off) v = (0, Some b', Some off)
      \<and> N < off + length (shortvec_encode v))"
proof (cases "off + length (shortvec_encode v) \<le> N")
  case True
  have w: "written N (1, Some b, Some off) (take off b)" using assms by (simp add: written_def)
  have l: "length (take off b) = off" using assms by simp
  from append_shortvec_written [OF w, of v] True l obtain b' where
    r: "solana_append_shortvec (Some b) N (Some off) v = (1, Some b', Some (off + length (shortvec_encode v)))"
    and t: "take (off + length (shortvec_encode v)) b' = take off b @ shortvec_encode v"
    by (auto simp: written_def)
  have "take off b' = take off (take (off + length (shortvec_encode v)) b')" by simp
  then have "take off b' = take off b" using l t by simp
  moreover have "shortvec_decode (drop off (take (off + length (shortvec_encode v)) b')) = Some (v, [])"
    using shortvec_roundtrip [of v "[]"] l by (simp add: t)
  moreover have "0 < length (shortvec_encode v)" by simp
  ultimately show ?thesis using r True by (intro disjI1 exI conjI) (assumption | simp)+
next
  case False
  have "N < cur + length (shortvec_encode v) \<Longrightarrow> cur \<le> N \<Longrightarrow> \<exists>b'' c. shortvec_loop b' N cur v = (0, b'', c)" for b' cur
  proof (induction v arbitrary: b' cur rule: shortvec_encode.induct)
    case (1 v)
    show ?case
    proof (cases "cur = N")
      case True
      then show ?thesis by (subst shortvec_loop.simps) (simp add: Let_def)
    next
      case False
      then have big: "\<not> v < 128" using 1(2,3) by (auto simp: shortvec_small)
      then have e: "shortvec_encode v = (of_nat (v mod 128) OR 0x80) # shortvec_encode (v div 128)"
        by (simp add: shortvec_encode.simps [of v])
      have "\<exists>b'' c. shortvec_loop (b'[cur := of_nat (v mod 128) OR 0x80]) N (cur + 1) (v div 128) = (0, b'', c)"
        by (rule 1(1) [OF big]) (use 1(2,3) False e in simp_all)
      then show ?thesis using 1(3) False big by (subst shortvec_loop.simps) (simp add: Let_def)
    qed
  qed
  then obtain b'' c where "shortvec_loop b N off v = (0, b'', c)" using False assms(2) by fastforce
  then show ?thesis using False by (simp add: solana_append_shortvec_def)
qed

lemma shortvec_append_roundtrip_witness:
  "(\<exists>b' off'. solana_append_shortvec (Some [9, 9, 9]) 3 (Some 1) 300 = (1, Some b', Some off')
      \<and> take 1 b' = take 1 [9, 9, 9] \<and> 1 < off' \<and> off' \<le> 3
      \<and> shortvec_decode (drop 1 (take off' b')) = Some (300, []))
    \<or> (\<exists>b'. solana_append_shortvec (Some [9, 9, 9]) 3 (Some 1) 300 = (0, Some b', Some 1)
      \<and> 3 < 1 + length (shortvec_encode 300))"
  by (rule shortvec_append_roundtrip) simp_all

text \<open>
  A NULL argument or a memo that is too long is refused before anything is written: the
  status is \<open>APP_ERR_IO\<close> and both outputs are unchanged.
\<close>

lemma transaction_bad_arguments:
  assumes "from = None \<or> to = None \<or> bh = None \<or> priv = None \<or> out = None \<or> 120 < n \<or> 0 < n \<and> memo = None"
  shows "solana_build_transfer_transaction calloc from to lamports bh priv memo n out out_size sig_out sig_size
    = (APP_ERR_IO, out, sig_out)"
  using assms
  by (auto simp: solana_build_transfer_transaction_def SOLANA_MAX_MEMO_LENGTH_def split: option.splits)

lemma transaction_bad_arguments_witness:
  "solana_build_transfer_transaction (\<lambda>_. True) (Some []) (Some []) 1 (Some []) (Some []) (Some (replicate 200 CHR ''x'')) 121
      (Some [NUL]) 1 None 0 = (APP_ERR_IO, Some [NUL], None)"
  by (rule transaction_bad_arguments) simp

end
