(* ===== verification/Solana_Client.thy ===== *)
theory Solana_Client
  imports Prelude
begin

text \<open>
  \<open>solana/solana_client.c\<close>: the JSON-RPC client.  The state is the client structure and the static
  flag of \<open>solana_ensure_curl_initialized\<close>.  \<open>http_env\<close> holds what the allocator and libcurl answer
  during one call: whether each allocation succeeds, the chunks handed to the write callback, the
  outcome of the transfer and the HTTP status.  Allocations, releases and the bytes sent are a
  trace of events.  libcurl is used as documented: a transfer whose callback reports fewer bytes
  than it was given ends with an error.
\<close>

section \<open>State\<close>

definition SOLANA_OK :: int where "SOLANA_OK = 0"
definition SOLANA_ERROR_INVALID_ARGUMENT :: int where "SOLANA_ERROR_INVALID_ARGUMENT = -1"
definition SOLANA_ERROR_ALLOCATION_FAILED :: int where "SOLANA_ERROR_ALLOCATION_FAILED = -2"
definition SOLANA_ERROR_CURL :: int where "SOLANA_ERROR_CURL = -3"
definition SOLANA_ERROR_HTTP_STATUS :: int where "SOLANA_ERROR_HTTP_STATUS = -4"

lemmas solana_status_defs = SOLANA_OK_def SOLANA_ERROR_INVALID_ARGUMENT_def
  SOLANA_ERROR_ALLOCATION_FAILED_def SOLANA_ERROR_CURL_def SOLANA_ERROR_HTTP_STATUS_def

definition SOLANA_DEFAULT_TIMEOUT_MS :: int where "SOLANA_DEFAULT_TIMEOUT_MS = 10000"

record solana_client =
  rpc_url :: "string option"
  timeout_ms :: int
  next_request_id :: u64

record curl_global =
  initialized :: bool
  init_status :: int

record http_env =
  params_alloc :: bool
  payload_alloc :: bool
  easy_init :: bool
  slist_append :: bool
  chunks :: "(string \<times> bool) list"
  transfer_ok :: bool
  http_status :: int
  empty_alloc :: bool

datatype res = R_params | R_payload | R_handle | R_headers | R_response

datatype client_event = Acquire res | Release res | Post string int string

section \<open>The response buffer\<close>

text \<open>
  \<open>data\<close> is \<open>None\<close> for NULL and otherwise the \<open>length\<close> bytes before the terminator; the flag of a
  chunk says whether \<open>realloc\<close> succeeded.
\<close>

definition solana_write_callback :: "string \<Rightarrow> bool \<Rightarrow> string option \<Rightarrow> nat \<times> string option" where
  "solana_write_callback contents realloc_ok data =
     (if length contents > 0 \<and> realloc_ok
      then (length contents, Some ((case data of None \<Rightarrow> [] | Some d \<Rightarrow> d) @ contents))
      else (0, data))"

text \<open>\<open>curl_easy_perform\<close>: chunks are delivered until the callback takes less than it was given.\<close>

fun perform :: "(string \<times> bool) list \<Rightarrow> bool \<Rightarrow> string option \<Rightarrow> bool \<times> string option" where
  "perform [] ok data = (ok, data)"
| "perform ((c, r) # cs) ok data =
     (case solana_write_callback c r data of
        (n, data) \<Rightarrow> if n \<noteq> length c then (False, data) else perform cs ok data)"

section \<open>Client\<close>

definition solana_ensure_curl_initialized :: "bool \<Rightarrow> curl_global \<Rightarrow> int \<times> curl_global" where
  "solana_ensure_curl_initialized global_init_ok g =
     (let g = (if \<not> initialized g
               then g\<lparr>init_status := (if global_init_ok then init_status g else SOLANA_ERROR_CURL), initialized := True\<rparr>
               else g)
      in (init_status g, g))"

definition solana_client_init ::
    "bool \<Rightarrow> bool \<Rightarrow> curl_global \<Rightarrow> solana_client option \<Rightarrow> string option \<Rightarrow> int \<times> solana_client option \<times> curl_global" where
  "solana_client_init global_init_ok alloc_ok g client url =
     (case (client, url) of
        (Some c, Some u) \<Rightarrow>
          if c_string u = [] then (SOLANA_ERROR_INVALID_ARGUMENT, client, g)
          else (let (status, g) = solana_ensure_curl_initialized global_init_ok g
                in if status \<noteq> SOLANA_OK then (status, client, g)
                   else if \<not> alloc_ok then (SOLANA_ERROR_ALLOCATION_FAILED, client, g)
                   else (SOLANA_OK,
                         Some (c\<lparr>rpc_url := Some (c_string u), timeout_ms := SOLANA_DEFAULT_TIMEOUT_MS, next_request_id := 1\<rparr>), g))
      | _ \<Rightarrow> (SOLANA_ERROR_INVALID_ARGUMENT, client, g))"

definition solana_client_cleanup :: "solana_client option \<Rightarrow> solana_client option" where
  "solana_client_cleanup client =
     (case client of None \<Rightarrow> None
      | Some c \<Rightarrow> Some (c\<lparr>rpc_url := None, timeout_ms := SOLANA_DEFAULT_TIMEOUT_MS, next_request_id := 1\<rparr>))"

definition solana_client_set_timeout :: "solana_client option \<Rightarrow> int \<Rightarrow> solana_client option" where
  "solana_client_set_timeout client ms =
     (case client of None \<Rightarrow> None
      | Some c \<Rightarrow> Some (if ms \<le> 0 then c\<lparr>timeout_ms := SOLANA_DEFAULT_TIMEOUT_MS\<rparr> else c\<lparr>timeout_ms := ms\<rparr>))"

definition solana_client_get_timeout :: "solana_client option \<Rightarrow> int" where
  "solana_client_get_timeout client =
     (case client of None \<Rightarrow> SOLANA_DEFAULT_TIMEOUT_MS | Some c \<Rightarrow> timeout_ms c)"

section \<open>Requests\<close>

text \<open>The check of \<open>snprintf\<close>'s result against the length computed before.\<close>

definition printed_ok :: "string \<Rightarrow> bool" where
  "printed_ok s \<longleftrightarrow> \<not> (c_int (length s) < 0 \<or> nat (c_int (length s)) \<noteq> length s)"

definition rpc_payload :: "u64 \<Rightarrow> string \<Rightarrow> string \<Rightarrow> string" where
  \<open>rpc_payload request_id verb params =
     ''{"jsonrpc":"2.0","id":'' @ decimal (unat request_id) @ '',"method":"'' @ verb
     @ ''","params":'' @ params @ ''}''\<close>

text \<open>From the point where the payload is printed: status, buffer, HTTP status and the events so far.\<close>

definition rpc_transfer ::
    "http_env \<Rightarrow> solana_client \<Rightarrow> string \<Rightarrow> int \<Rightarrow> int \<times> string option \<times> client_event list" where
  "rpc_transfer env c payload status =
     (let (status, ev1) =
            (if status = SOLANA_OK then
               (if easy_init env then (status, [Acquire R_handle]) else (SOLANA_ERROR_CURL, []))
             else (status, []));
          (status, ev2) =
            (if status = SOLANA_OK then
               (if slist_append env then (status, [Acquire R_headers]) else (SOLANA_ERROR_ALLOCATION_FAILED, []))
             else (status, []));
          (status, data, http, ev3) =
            (if status = SOLANA_OK then
               (let (ok, data) = perform (chunks env) (transfer_ok env) None;
                    ev = Post (the (rpc_url c)) (timeout_ms c) payload
                         # (if data \<noteq> None then [Acquire R_response] else [])
                in if ok then (status, data, http_status env, ev) else (SOLANA_ERROR_CURL, data, 0, ev))
             else (status, None, 0, []));
          (status, data, ev4) =
            (if status = SOLANA_OK \<and> data = None then
               (if empty_alloc env then (status, Some [], [Acquire R_response])
                else (SOLANA_ERROR_ALLOCATION_FAILED, None, []))
             else (status, data, []));
          status = (if status = SOLANA_OK \<and> (http < 200 \<or> http \<ge> 300) then SOLANA_ERROR_HTTP_STATUS else status);
          ev5 = (if ev2 \<noteq> [] then [Release R_headers] else []) @ (if ev1 \<noteq> [] then [Release R_handle] else [])
      in (status, data, ev1 @ ev2 @ ev3 @ ev4 @ ev5))"

definition solana_client_rpc_request ::
    "http_env \<Rightarrow> solana_client option \<Rightarrow> string option \<Rightarrow> string option \<Rightarrow> string option option
     \<Rightarrow> int \<times> solana_client option \<times> string option option \<times> client_event list" where
  "solana_client_rpc_request env client verb params_json out_response =
     (case (client, verb, out_response) of
        (Some c, Some verb, Some _) \<Rightarrow>
          if rpc_url c = None \<or> c_string verb = [] then (SOLANA_ERROR_INVALID_ARGUMENT, client, out_response, [])
          else
            (let params = (case params_json of
                             Some p \<Rightarrow> if c_string p \<noteq> [] then c_string p else ''[]'' | None \<Rightarrow> ''[]'');
                 request_id = next_request_id c;
                 c = c\<lparr>next_request_id := request_id + 1\<rparr>;
                 payload = rpc_payload request_id (c_string verb) params;
                 status = (if \<not> payload_alloc env then SOLANA_ERROR_ALLOCATION_FAILED
                           else if \<not> printed_ok payload then SOLANA_ERROR_CURL else SOLANA_OK);
                 ev0 = (if payload_alloc env then [Acquire R_payload] else []);
                 (status, data, ev) = rpc_transfer env c payload status;
                 ev = ev0 @ ev @ (if payload_alloc env then [Release R_payload] else [])
             in if status = SOLANA_OK \<or> status = SOLANA_ERROR_HTTP_STATUS
                then (status, Some c, Some data, ev)
                else (status, Some c, Some None, ev @ (if data \<noteq> None then [Release R_response] else [])))
      | _ \<Rightarrow> (SOLANA_ERROR_INVALID_ARGUMENT, client, out_response, []))"

definition solana_client_get_latest_blockhash ::
    "http_env \<Rightarrow> solana_client option \<Rightarrow> string option option
     \<Rightarrow> int \<times> solana_client option \<times> string option option \<times> client_event list" where
  \<open>solana_client_get_latest_blockhash env client out_response =
     solana_client_rpc_request env client (Some ''getLatestBlockhash'')
       (Some ''[{"commitment":"finalized"}]'') out_response\<close>

text \<open>
  The four requests with a printed parameter list share their code word for word but for the
  template, the verb and the argument: the output is reset, the arguments are checked, the
  parameters are printed into a fresh block, sent, and freed.
\<close>

definition request_with_params ::
    "http_env \<Rightarrow> solana_client option \<Rightarrow> string option \<Rightarrow> (string \<Rightarrow> string) \<Rightarrow> string \<Rightarrow> string option option
     \<Rightarrow> int \<times> solana_client option \<times> string option option \<times> client_event list" where
  "request_with_params env client argument template verb out_response =
     (let out_response = map_option (\<lambda>_. None) out_response
      in case (client, argument, out_response) of
           (Some c, Some a, Some _) \<Rightarrow>
             if c_string a = [] then (SOLANA_ERROR_INVALID_ARGUMENT, client, out_response, [])
             else if \<not> params_alloc env then (SOLANA_ERROR_ALLOCATION_FAILED, client, out_response, [])
             else if \<not> printed_ok (template (c_string a))
             then (SOLANA_ERROR_CURL, client, out_response, [Acquire R_params, Release R_params])
             else (let (status, client, out_response, ev) =
                         solana_client_rpc_request env client (Some verb) (Some (template (c_string a))) out_response
                   in (status, client, out_response, Acquire R_params # ev @ [Release R_params]))
         | _ \<Rightarrow> (SOLANA_ERROR_INVALID_ARGUMENT, client, out_response, []))"

definition airdrop_params :: "u64 \<Rightarrow> string \<Rightarrow> string" where
  \<open>airdrop_params lamports key = ''["'' @ key @ ''",'' @ decimal (unat lamports) @ '']''\<close>

definition solana_client_request_airdrop ::
    "http_env \<Rightarrow> solana_client option \<Rightarrow> string option \<Rightarrow> u64 \<Rightarrow> string option option
     \<Rightarrow> int \<times> solana_client option \<times> string option option \<times> client_event list" where
  "solana_client_request_airdrop env client public_key lamports out_response =
     request_with_params env client public_key (airdrop_params lamports) ''requestAirdrop'' out_response"

definition solana_client_get_balance ::
    "http_env \<Rightarrow> solana_client option \<Rightarrow> string option \<Rightarrow> string option option
     \<Rightarrow> int \<times> solana_client option \<times> string option option \<times> client_event list" where
  \<open>solana_client_get_balance env client public_key out_response =
     request_with_params env client public_key (\<lambda>k. ''["'' @ k @ ''",{"commitment":"confirmed"}]'')
       ''getBalance'' out_response\<close>

definition solana_client_get_signature_status ::
    "http_env \<Rightarrow> solana_client option \<Rightarrow> string option \<Rightarrow> string option option
     \<Rightarrow> int \<times> solana_client option \<times> string option option \<times> client_event list" where
  \<open>solana_client_get_signature_status env client signature out_response =
     request_with_params env client signature (\<lambda>k. ''[["'' @ k @ ''"],{"searchTransactionHistory":true}]'')
       ''getSignatureStatuses'' out_response\<close>

definition solana_client_send_transaction ::
    "http_env \<Rightarrow> solana_client option \<Rightarrow> string option \<Rightarrow> string option option
     \<Rightarrow> int \<times> solana_client option \<times> string option option \<times> client_event list" where
  \<open>solana_client_send_transaction env client transaction out_response =
     request_with_params env client transaction (\<lambda>k. ''["'' @ k @ ''",{"encoding":"base64"}]'')
       ''sendTransaction'' out_response\<close>

section \<open>Ownership\<close>

text \<open>A resource is acquired only when it is not held and released only when it is.\<close>

fun own :: "client_event list \<Rightarrow> res set \<Rightarrow> res set option" where
  "own [] held = Some held"
| "own (Acquire r # es) held = (if r \<in> held then None else own es (insert r held))"
| "own (Release r # es) held = (if r \<in> held then own es (held - {r}) else None)"
| "own (Post u t p # es) held = own es held"

lemma own_append: "own (xs @ ys) held = (case own xs held of None \<Rightarrow> None | Some h \<Rightarrow> own ys h)"
  by (induction xs held rule: own.induct) auto

definition posts :: "client_event list \<Rightarrow> client_event list" where
  "posts es = [e \<leftarrow> es. case e of Post _ _ _ \<Rightarrow> True | _ \<Rightarrow> False]"

definition taken :: "string option \<Rightarrow> string" where
  "taken data = (case data of None \<Rightarrow> [] | Some d \<Rightarrow> d)"

lemma perform_data:
  "perform cs ok data = (True, d) \<Longrightarrow>
   ok \<and> taken d = taken data @ concat (map fst cs) \<and> (d = None \<longleftrightarrow> data = None \<and> concat (map fst cs) = [])"
  by (induction cs ok data rule: perform.induct)
    (auto simp: solana_write_callback_def taken_def split: if_splits option.splits prod.splits)

lemma transfer_early:
  "st0 \<noteq> SOLANA_OK \<Longrightarrow> rpc_transfer env c payload st0 = (st0, None, [])"
  "\<not> easy_init env \<Longrightarrow> rpc_transfer env c payload SOLANA_OK = (SOLANA_ERROR_CURL, None, [])"
  "easy_init env \<Longrightarrow> \<not> slist_append env \<Longrightarrow>
   rpc_transfer env c payload SOLANA_OK = (SOLANA_ERROR_ALLOCATION_FAILED, None, [Acquire R_handle, Release R_handle])"
  by (simp_all add: rpc_transfer_def solana_status_defs)

lemma transfer_late:
  assumes "easy_init env" and "slist_append env" and "perform (chunks env) (transfer_ok env) None = (ok, d)"
  shows "rpc_transfer env c payload SOLANA_OK =
    (let full = ok \<and> d = None \<and> empty_alloc env;
         d' = (if full then Some [] else d);
         http_ok = (200 \<le> http_status env \<and> http_status env < 300)
     in (if \<not> ok then SOLANA_ERROR_CURL
         else if d' = None then SOLANA_ERROR_ALLOCATION_FAILED
         else if http_ok then SOLANA_OK else SOLANA_ERROR_HTTP_STATUS,
         d',
         [Acquire R_handle, Acquire R_headers, Post (the (rpc_url c)) (timeout_ms c) payload]
         @ (if d' \<noteq> None then [Acquire R_response] else []) @ [Release R_headers, Release R_handle]))"
  using assms by (cases d; cases ok; simp add: rpc_transfer_def solana_status_defs Let_def not_le not_less)

lemma transfer_own:
  assumes "rpc_transfer env c payload st0 = (st, data, ev)" and "held \<inter> {R_handle, R_headers, R_response} = {}"
  shows "own ev held = Some (if data \<noteq> None then insert R_response held else held)"
    and "st = SOLANA_OK \<or> st = SOLANA_ERROR_HTTP_STATUS \<Longrightarrow> st0 \<noteq> SOLANA_ERROR_HTTP_STATUS \<Longrightarrow> data \<noteq> None"
proof -
  obtain ok d where p: "perform (chunks env) (transfer_ok env) None = (ok, d)" by fastforce
  have fresh: "R_handle \<notin> held" "R_headers \<notin> held" "R_response \<notin> held" using assms(2) by auto
  have rem: "insert R_headers (insert R_handle held) - {R_headers} - {R_handle} = held"
    "insert R_response (insert R_headers (insert R_handle held)) - {R_headers} - {R_handle} = insert R_response held"
    "insert R_handle held - {R_handle} = held"
    using fresh by auto
  consider "st0 \<noteq> SOLANA_OK" | "st0 = SOLANA_OK" "\<not> easy_init env"
    | "st0 = SOLANA_OK" "easy_init env" "\<not> slist_append env"
    | "st0 = SOLANA_OK" "easy_init env" "slist_append env" by blast
  then have "own ev held = Some (if data \<noteq> None then insert R_response held else held) \<and>
    (st = SOLANA_OK \<or> st = SOLANA_ERROR_HTTP_STATUS \<longrightarrow> st0 \<noteq> SOLANA_ERROR_HTTP_STATUS \<longrightarrow> data \<noteq> None)"
  proof cases
    case 4
    define d' where "d' = (if ok \<and> d = None \<and> empty_alloc env then Some [] else d)"
    define e where "e = [Acquire R_handle, Acquire R_headers, Post (the (rpc_url c)) (timeout_ms c) payload]
         @ (if d' \<noteq> None then [Acquire R_response] else []) @ [Release R_headers, Release R_handle]"
    define st' where "st' = (if \<not> ok then SOLANA_ERROR_CURL else if d' = None then SOLANA_ERROR_ALLOCATION_FAILED
         else if 200 \<le> http_status env \<and> http_status env < 300 then SOLANA_OK else SOLANA_ERROR_HTTP_STATUS)"
    have "rpc_transfer env c payload st0 = (st', d', e)"
      unfolding 4(1) transfer_late [OF 4(2,3) p] Let_def d'_def e_def st'_def by (rule refl)
    then have eqs: "data = d'" "ev = e" "st = st'" using assms(1) by simp_all
    have "own e held = Some (if d' \<noteq> None then insert R_response held else held)"
      using fresh rem by (cases "d' = None") (simp_all add: e_def)
    moreover have "st' = SOLANA_OK \<or> st' = SOLANA_ERROR_HTTP_STATUS \<longrightarrow> d' \<noteq> None"
      by (simp add: st'_def solana_status_defs)
    ultimately show ?thesis using eqs by simp
  next
    case 1
    then show ?thesis using assms(1) by (auto simp: transfer_early)
  next
    case 2
    then have "st = SOLANA_ERROR_CURL \<and> data = None \<and> ev = []" using assms(1) by (auto simp: transfer_early)
    then show ?thesis by (simp add: solana_status_defs)
  next
    case 3
    then have "st = SOLANA_ERROR_ALLOCATION_FAILED \<and> data = None \<and> ev = [Acquire R_handle, Release R_handle]"
      using assms(1) by (auto simp: transfer_early)
    then show ?thesis using fresh rem by (simp add: solana_status_defs)
  qed
  then show "own ev held = Some (if data \<noteq> None then insert R_response held else held)"
    and "st = SOLANA_OK \<or> st = SOLANA_ERROR_HTTP_STATUS \<Longrightarrow> st0 \<noteq> SOLANA_ERROR_HTTP_STATUS \<Longrightarrow> data \<noteq> None"
    by blast+
qed

lemma rpc_own:
  assumes "solana_client_rpc_request env client m p (Some None) = (st, client', Some out, ev)"
    and "held \<inter> {R_payload, R_handle, R_headers, R_response} = {}"
  shows "own ev held = Some (if out \<noteq> None then insert R_response held else held) \<and>
    (out \<noteq> None \<longleftrightarrow> st = SOLANA_OK \<or> st = SOLANA_ERROR_HTTP_STATUS)"
proof (cases "\<exists>c m'. client = Some c \<and> m = Some m' \<and> rpc_url c \<noteq> None \<and> c_string m' \<noteq> []")
  case False
  then have "st = SOLANA_ERROR_INVALID_ARGUMENT \<and> out = None \<and> ev = []"
    using assms(1) by (auto simp: solana_client_rpc_request_def split: option.splits if_splits)
  then show ?thesis by (simp add: solana_status_defs)
next
  case True
  then obtain c m' u where cm: "client = Some c" "m = Some m'" "rpc_url c = Some u" "c_string m' \<noteq> []" by blast
  define params where "params = (case p of Some p \<Rightarrow> if c_string p \<noteq> [] then c_string p else ''[]'' | None \<Rightarrow> ''[]'')"
  define pay where "pay = rpc_payload (next_request_id c) (c_string m') params"
  define st0 where "st0 = (if \<not> payload_alloc env then SOLANA_ERROR_ALLOCATION_FAILED
       else if \<not> printed_ok pay then SOLANA_ERROR_CURL else SOLANA_OK)"
  obtain st1 data ev1 where t: "rpc_transfer env (c\<lparr>next_request_id := next_request_id c + 1\<rparr>) pay st0 = (st1, data, ev1)"
    by (metis prod_cases3)
  define pre where "pre = (if payload_alloc env then [Acquire R_payload] else [])"
  define post where "post = (if payload_alloc env then [Release R_payload] else [])"
  have "solana_client_rpc_request env client m p (Some None) = (if st1 = SOLANA_OK \<or> st1 = SOLANA_ERROR_HTTP_STATUS
      then (st1, Some (c\<lparr>next_request_id := next_request_id c + 1\<rparr>), Some data, pre @ ev1 @ post)
      else (st1, Some (c\<lparr>next_request_id := next_request_id c + 1\<rparr>), Some None,
            (pre @ ev1 @ post) @ (if data \<noteq> None then [Release R_response] else [])))"
    using cm
    by (simp add: solana_client_rpc_request_def Let_def params_def [symmetric] pay_def [symmetric]
        st0_def [symmetric] pre_def [symmetric] post_def [symmetric] t del: append_assoc cong: if_cong)
  note run = this [unfolded assms(1), symmetric]
  define h1 where "h1 = (if payload_alloc env then insert R_payload held else held)"
  have "h1 \<inter> {R_handle, R_headers, R_response} = {}" using assms(2) by (auto simp: h1_def)
  note o1 = transfer_own [OF t this]
  have st0: "st0 \<noteq> SOLANA_ERROR_HTTP_STATUS" by (simp add: st0_def solana_status_defs)
  define w where "w = pre @ ev1 @ post"
  have w: "own w held = Some (if data \<noteq> None then insert R_response held else held)"
    using o1(1) assms(2) by (auto simp: w_def own_append pre_def post_def h1_def insert_commute split: if_splits)
  have "R_response \<notin> held" using assms(2) by auto
  then show ?thesis
    using run [folded w_def] o1(2) [OF _ st0] w by (auto simp: own_append split: if_splits)
qed

lemma params_own:
  assumes "request_with_params env client arg template verb (Some o0) = (st, client', Some out, ev)"
  shows "own ev {} = Some (if out \<noteq> None then {R_response} else {}) \<and>
    (out \<noteq> None \<longleftrightarrow> st = SOLANA_OK \<or> st = SOLANA_ERROR_HTTP_STATUS)"
proof (cases "\<exists>c a. client = Some c \<and> arg = Some a \<and> c_string a \<noteq> [] \<and> params_alloc env \<and> printed_ok (template (c_string a))")
  case False
  then show ?thesis
    using assms by (auto simp: request_with_params_def Let_def solana_status_defs split: option.splits if_splits)
next
  case True
  then obtain a where a: "arg = Some a" "c_string a \<noteq> []" "params_alloc env" "printed_ok (template (c_string a))" by blast
  obtain st1 c1 o1 ev1 where r: "solana_client_rpc_request env client (Some verb) (Some (template (c_string a))) (Some None)
      = (st1, c1, o1, ev1)" by (metis prod_cases4)
  have res: "st = st1" "Some out = o1" "ev = Acquire R_params # ev1 @ [Release R_params]"
    using assms True a r by (auto simp: request_with_params_def)
  have "own ev1 {R_params} = Some (if out \<noteq> None then insert R_response {R_params} else {R_params}) \<and>
    (out \<noteq> None \<longleftrightarrow> st1 = SOLANA_OK \<or> st1 = SOLANA_ERROR_HTTP_STATUS)"
    by (rule rpc_own) (use r res in auto)
  then show ?thesis by (auto simp: res own_append)
qed

lemma get_latest_blockhash_own:
  "solana_client_get_latest_blockhash env client (Some None) = (st, client', Some out, ev) \<Longrightarrow>
   own ev {} = Some (if out \<noteq> None then {R_response} else {}) \<and>
   (out \<noteq> None \<longleftrightarrow> st = SOLANA_OK \<or> st = SOLANA_ERROR_HTTP_STATUS)"
  unfolding solana_client_get_latest_blockhash_def by (drule rpc_own [where held = "{}"]) simp_all

section \<open>What is sent and what comes back\<close>

text \<open>
  A transport that answers: every allocation succeeds, libcurl hands over the chunks of
  \<open>response\<close> in non-empty pieces that are all stored, and reports \<open>http\<close>.
\<close>

definition answers :: "http_env \<Rightarrow> string \<Rightarrow> int \<Rightarrow> bool" where
  "answers env response http \<longleftrightarrow>
     params_alloc env \<and> payload_alloc env \<and> easy_init env \<and> slist_append env \<and> transfer_ok env \<and> empty_alloc env
     \<and> http_status env = http \<and> concat (map fst (chunks env)) = response
     \<and> (\<forall>c \<in> set (chunks env). fst c \<noteq> [] \<and> snd c)"

definition http_result :: "int \<Rightarrow> int" where
  "http_result http = (if 200 \<le> http \<and> http < 300 then SOLANA_OK else SOLANA_ERROR_HTTP_STATUS)"

lemma perform_answers:
  "\<forall>c \<in> set cs. fst c \<noteq> [] \<and> snd c \<Longrightarrow>
   \<exists>d. perform cs True data = (True, d) \<and> taken d = taken data @ concat (map fst cs)
     \<and> (d = None \<longleftrightarrow> data = None \<and> cs = [])"
  by (induction cs True data rule: perform.induct)
    (auto simp: solana_write_callback_def taken_def split: option.splits)

lemma transfer_answers:
  assumes "answers env response http"
  shows "\<exists>ev. rpc_transfer env c payload SOLANA_OK = (http_result http, Some response, ev)
    \<and> posts ev = [Post (the (rpc_url c)) (timeout_ms c) payload]"
proof -
  from assms obtain d where d: "perform (chunks env) (transfer_ok env) None = (True, d)" "taken d = response"
    using perform_answers [of "chunks env" None] by (auto simp: answers_def taken_def)
  have "(if True \<and> d = None \<and> empty_alloc env then Some [] else d) = Some response"
    using d(2) assms by (cases d) (auto simp: answers_def taken_def)
  then show ?thesis
    using assms transfer_late [OF _ _ d(1)] by (simp add: answers_def http_result_def posts_def Let_def)
qed

lemma rpc_answers:
  assumes "answers env response http" and "rpc_url c = Some url" and "c_string m \<noteq> []" and "c_string p \<noteq> []"
    and "printed_ok (rpc_payload (next_request_id c) (c_string m) (c_string p))"
  shows "\<exists>ev. solana_client_rpc_request env (Some c) (Some m) (Some p) (Some out)
      = (http_result http, Some (c\<lparr>next_request_id := next_request_id c + 1\<rparr>), Some (Some response), ev)
    \<and> posts ev = [Post url (timeout_ms c) (rpc_payload (next_request_id c) (c_string m) (c_string p))]"
proof -
  define pay where "pay = rpc_payload (next_request_id c) (c_string m) (c_string p)"
  define c' where "c' = c\<lparr>next_request_id := next_request_id c + 1\<rparr>"
  obtain ev where ev: "rpc_transfer env c' pay SOLANA_OK = (http_result http, Some response, ev)"
      "posts ev = [Post url (timeout_ms c) pay]"
    using transfer_answers [OF assms(1), of c' pay] assms(2) by (auto simp: c'_def)
  have "payload_alloc env" using assms(1) by (simp add: answers_def)
  moreover have "http_result http = SOLANA_OK \<or> http_result http = SOLANA_ERROR_HTTP_STATUS"
    by (simp add: http_result_def)
  ultimately have "solana_client_rpc_request env (Some c) (Some m) (Some p) (Some out)
      = (http_result http, Some c', Some (Some response), Acquire R_payload # ev @ [Release R_payload])"
    using assms(2-5) ev(1)
    by (simp add: solana_client_rpc_request_def Let_def pay_def [symmetric] c'_def [symmetric])
  then show ?thesis using ev(2) unfolding pay_def [symmetric] c'_def [symmetric] by (auto simp: posts_def)
qed

lemma params_answers:
  assumes "answers env response http" and "rpc_url c = Some url" and "c_string a \<noteq> []" and "c_string verb = verb"
    and "verb \<noteq> []" and "c_string (template (c_string a)) = template (c_string a)" and "template (c_string a) \<noteq> []"
    and "printed_ok (template (c_string a))"
    and "printed_ok (rpc_payload (next_request_id c) verb (template (c_string a)))"
  shows "\<exists>ev. request_with_params env (Some c) (Some a) template verb (Some out)
      = (http_result http, Some (c\<lparr>next_request_id := next_request_id c + 1\<rparr>), Some (Some response), ev)
    \<and> posts ev = [Post url (timeout_ms c) (rpc_payload (next_request_id c) verb (template (c_string a)))]"
proof -
  obtain ev where ev: "solana_client_rpc_request env (Some c) (Some verb) (Some (template (c_string a))) (Some None)
      = (http_result http, Some (c\<lparr>next_request_id := next_request_id c + 1\<rparr>), Some (Some response), ev)"
    and posts: "posts ev = [Post url (timeout_ms c) (rpc_payload (next_request_id c) verb (template (c_string a)))]"
    using rpc_answers [OF assms(1,2), of verb "template (c_string a)" None] assms(4-7,9) by auto
  have "params_alloc env" using assms(1) by (simp add: answers_def)
  then have "request_with_params env (Some c) (Some a) template verb (Some out)
      = (http_result http, Some (c\<lparr>next_request_id := next_request_id c + 1\<rparr>), Some (Some response),
         Acquire R_params # ev @ [Release R_params])"
    using assms(3,8) ev by (simp add: request_with_params_def)
  then show ?thesis using posts by (auto simp: posts_def)
qed

lemma c_string_NUL_free: "NUL \<notin> set s \<Longrightarrow> c_string s = s"
  unfolding c_string_def by (induction s) auto
lemma printed_ok_small: "length s < 2 ^ 31 \<Longrightarrow> printed_ok s"
  by (simp add: printed_ok_def c_int_id)

lemma length_decimal_u64: "length (decimal (unat (x :: u64))) \<le> 20"
proof -
  have "length (digits_of 10 (unat x)) \<le> 20"
  proof (rule ccontr)
    assume a: "\<not> length (digits_of 10 (unat x)) \<le> 20"
    then have ne: "digits_of 10 (unat x) \<noteq> []" by (metis list.size(3) zero_le)
    then have "hd (digits_of 10 (unat x)) \<noteq> 0" using digits_of_no_leading_0 [of 10 "unat x"] by fastforce
    from be_val_ge [OF ne this] have "10 ^ (length (digits_of 10 (unat x)) - 1) \<le> be_val 10 (digits_of 10 (unat x))" .
    moreover have "(10::nat) ^ 20 \<le> 10 ^ (length (digits_of 10 (unat x)) - 1)"
      using a by (intro power_increasing) auto
    moreover have "unat x < 2 ^ 64" using unsigned_less [of x, where 'a = nat] by simp
    ultimately show False by simp
  qed
  then show ?thesis by (simp add: decimal_def)
qed

lemma decimal_one: "decimal 1 = ''1''"
  by code_simp

section \<open>Properties\<close>

text \<open>
  C25: every request gives back all it acquired, in any environment (allocation, connection and
  transfer failures at every point): after the call the response buffer is held if and only if
  the output is not NULL, nothing else is held, and nothing is released twice.  The output is a
  response exactly for the statuses OK and HTTP error, which is when the caller must free it.
\<close>

theorem responses_owned_by_caller:
  assumes "F \<in> {solana_client_get_latest_blockhash env client, solana_client_get_balance env client key,
      solana_client_request_airdrop env client key lamports, solana_client_get_signature_status env client key,
      solana_client_send_transaction env client key}"
    and "F (Some None) = (st, client', Some out, ev)"
  shows "own ev {} = Some (if out \<noteq> None then {R_response} else {}) \<and>
    (out \<noteq> None \<longleftrightarrow> st = SOLANA_OK \<or> st = SOLANA_ERROR_HTTP_STATUS)"
proof -
  consider "solana_client_get_latest_blockhash env client (Some None) = (st, client', Some out, ev)"
    | template verb where "request_with_params env client key template verb (Some None) = (st, client', Some out, ev)"
    using assms by (auto simp: solana_client_get_balance_def solana_client_request_airdrop_def
        solana_client_get_signature_status_def solana_client_send_transaction_def)
  then show ?thesis by cases (blast dest: get_latest_blockhash_own params_own)+
qed

lemma responses_owned_by_caller_witness:
  "\<exists>st client' out ev. solana_client_get_balance
      \<lparr>params_alloc = True, payload_alloc = True, easy_init = True, slist_append = True,
       chunks = [(''{}'', True), (''ab'', False)], transfer_ok = True, http_status = 200, empty_alloc = True\<rparr>
      (Some \<lparr>rpc_url = Some ''u'', timeout_ms = 1, next_request_id = 1\<rparr>) (Some ''k'') (Some None) = (st, client', Some out, ev)
    \<and> own ev {} = Some (if out \<noteq> None then {R_response} else {})
    \<and> (out \<noteq> None \<longleftrightarrow> st = SOLANA_OK \<or> st = SOLANA_ERROR_HTTP_STATUS) \<and> out = None \<and> posts ev \<noteq> []"
proof -
  let ?env = "\<lparr>params_alloc = True, payload_alloc = True, easy_init = True, slist_append = True,
       chunks = [(''{}'', True), (''ab'', False)], transfer_ok = True, http_status = 200, empty_alloc = True\<rparr>"
  let ?c = "Some \<lparr>rpc_url = Some ''u'', timeout_ms = 1, next_request_id = 1\<rparr>"
  have "case solana_client_get_balance ?env ?c (Some ''k'') (Some None) of
      (st, client', out, ev) \<Rightarrow> out = Some None \<and> posts ev \<noteq> []" by code_simp
  then obtain st client' ev where r: "solana_client_get_balance ?env ?c (Some ''k'') (Some None) = (st, client', Some None, ev)"
      "posts ev \<noteq> []"
    by (auto split: prod.splits)
  show ?thesis
    using responses_owned_by_caller [of "solana_client_get_balance ?env ?c (Some ''k'')" ?env ?c "Some ''k''" 0] r by blast
qed

text \<open>
  C26: when the transport answers, each request posts exactly one JSON-RPC message to the
  configured URL with the configured timeout - the request's verb and its parameters around the
  caller's argument - takes the next request id, and hands the caller the concatenation of the
  received chunks, with the status of the HTTP answer.
\<close>

theorem requests_on_the_wire:
  assumes "answers env response http" and "rpc_url c = Some url" and "NUL \<notin> set key" and "key \<noteq> []"
    and "length key < 2 ^ 30"
    and \<open>(F, verb, params) \<in>
      {(solana_client_get_balance env (Some c) (Some key), ''getBalance'', ''["'' @ key @ ''",{"commitment":"confirmed"}]''),
       (solana_client_request_airdrop env (Some c) (Some key) lamports, ''requestAirdrop'',
          ''["'' @ key @ ''",'' @ decimal (unat lamports) @ '']''),
       (solana_client_get_signature_status env (Some c) (Some key), ''getSignatureStatuses'',
          ''[["'' @ key @ ''"],{"searchTransactionHistory":true}]''),
       (solana_client_send_transaction env (Some c) (Some key), ''sendTransaction'',
          ''["'' @ key @ ''",{"encoding":"base64"}]''),
       (solana_client_get_latest_blockhash env (Some c), ''getLatestBlockhash'', ''[{"commitment":"finalized"}]'')}\<close>
  shows \<open>\<exists>ev. F (Some out) = (http_result http, Some (c\<lparr>next_request_id := next_request_id c + 1\<rparr>), Some (Some response), ev)
    \<and> posts ev = [Post url (timeout_ms c)
        (''{"jsonrpc":"2.0","id":'' @ decimal (unat (next_request_id c)) @ '',"method":"'' @ verb
         @ ''","params":'' @ params @ ''}'')]\<close>
proof -
  have key: "c_string key = key" using assms(3) by (rule c_string_NUL_free)
  have dec: "NUL \<notin> set (decimal (unat (x :: u64)))" for x
  proof -
    have "(char_of (48 + d) :: char) \<noteq> NUL" if "d < 10" for d :: nat
    proof -
      from that have "(of_char (char_of (48 + d) :: char) :: nat) = 48 + d" by simp
      moreover have "(of_char NUL :: nat) = 0" by simp
      ultimately show ?thesis by (metis add_is_0 zero_neq_numeral)
    qed
    note nz = this
    show ?thesis
    proof
      assume "NUL \<in> set (decimal (unat x))"
      then have "NUL \<in> (\<lambda>d. char_of (48 + d)) ` set (digits_of 10 (unat x))"
        by (simp add: decimal_def split: if_splits)
      then obtain d where d: "NUL = char_of (48 + d)" "d \<in> set (digits_of 10 (unat x))" by (rule imageE)
      have "\<forall>d \<in> set (digits_of 10 (unat x)). d < 10" by (rule digits_of_less) simp
      then show False using nz [of d] d by simp
    qed
  qed
  have len: "length (decimal (unat (x :: u64))) \<le> 20" for x by (rule length_decimal_u64)
  have nul: "NUL \<notin> set params" and pne: "params \<noteq> []" and pl: "length params < 2 ^ 30 + 100"
    using assms(3,5,6) dec [of lamports] len [of lamports] by auto
  have m: "NUL \<notin> set verb" "verb \<noteq> []" "length verb < 30" using assms(6) by auto
  have cs: "c_string params = params" "c_string verb = verb" using nul m(1) by (auto intro: c_string_NUL_free)
  have "length (rpc_payload (next_request_id c) verb params) < 2 ^ 31"
    using pl m(3) len [of "next_request_id c"] by (simp add: rpc_payload_def)
  then have ok: "printed_ok (rpc_payload (next_request_id c) verb params)" "printed_ok params"
    using pl by (auto intro: printed_ok_small)
  consider "F = solana_client_get_latest_blockhash env (Some c)" "verb = ''getLatestBlockhash''"
      \<open>params = ''[{"commitment":"finalized"}]''\<close>
    | template where "F = (\<lambda>out. request_with_params env (Some c) (Some key) template verb out)" "template key = params"
    using assms(6) by (auto simp: solana_client_get_balance_def [abs_def] solana_client_request_airdrop_def [abs_def]
        solana_client_get_signature_status_def [abs_def] solana_client_send_transaction_def [abs_def] airdrop_params_def)
  then have "\<exists>ev. F (Some out) = (http_result http, Some (c\<lparr>next_request_id := next_request_id c + 1\<rparr>), Some (Some response), ev)
    \<and> posts ev = [Post url (timeout_ms c) (rpc_payload (next_request_id c) verb params)]"
  proof cases
    case 1
    then show ?thesis
      using rpc_answers [OF assms(1,2), of verb params out] cs ok m pne
      by (simp add: solana_client_get_latest_blockhash_def)
  next
    case 2
    then show ?thesis
      using params_answers [OF assms(1,2), of key verb template out] key cs ok m pne assms(4) by simp
  qed
  then show ?thesis by (simp add: rpc_payload_def)
qed

lemma requests_on_the_wire_witness:
  \<open>\<exists>ev. solana_client_get_balance
      \<lparr>params_alloc = True, payload_alloc = True, easy_init = True, slist_append = True,
       chunks = [(''{'', True), (''}'', True)], transfer_ok = True, http_status = 200, empty_alloc = True\<rparr>
      (Some \<lparr>rpc_url = Some ''u'', timeout_ms = 5, next_request_id = 1\<rparr>) (Some ''k'') (Some None)
    = (SOLANA_OK, Some \<lparr>rpc_url = Some ''u'', timeout_ms = 5, next_request_id = 2\<rparr>, Some (Some ''{}''), ev)
    \<and> posts ev = [Post ''u'' 5
        ''{"jsonrpc":"2.0","id":1,"method":"getBalance","params":["k",{"commitment":"confirmed"}]}'']\<close>
proof -
  let ?env = "\<lparr>params_alloc = True, payload_alloc = True, easy_init = True, slist_append = True,
       chunks = [(''{'', True), (''}'', True)], transfer_ok = True, http_status = 200, empty_alloc = True\<rparr>"
  let ?c = "\<lparr>rpc_url = Some ''u'', timeout_ms = 5, next_request_id = 1\<rparr>"
  have "answers ?env ''{}'' 200" by (simp add: answers_def)
  then show ?thesis
    using requests_on_the_wire [of ?env "''{}''" 200 ?c "''u''" "''k''" "solana_client_get_balance ?env (Some ?c) (Some ''k'')"
        "''getBalance''" \<open>''["k",{"commitment":"confirmed"}]''\<close> 0 None]
    by (simp add: decimal_one decimal_one [unfolded One_nat_def] http_result_def)
qed

end
