(* ===== verification/Ti_Types.thy ===== *)
theory Ti_Types
  imports Calc_Session
begin

text \<open>
  The variable types of the calculators (\<open>libtifiles\<close>): the tables of \<open>typesoldz80.cc\<close>,
  \<open>types83p.cc\<close>, \<open>types68k.cc\<close> and \<open>typesnsp.cc\<close>, the per-model searches of \<open>internal.h\<close>, and the
  dispatchers of \<open>typesxx.cc\<close>.  A table holds its \<open>MAXTYPES\<close> rows; the row of null pointers that
  ends it is never read (\<open>table_lengths\<close>).  \<open>gettext\<close> is the translation of messages, a parameter.
\<close>

section \<open>Rows and searches\<close>

record TIXX_DATA =
  type :: string
  fext :: string
  icon :: string
  desc :: string

record TI83p_DATA =
  type83p :: string
  fext83p :: string
  fext84pc :: string
  fext83pce :: string
  fext84pce :: string
  fext82a :: string
  fext84pt :: string
  icon83p :: string
  desc83p :: string

record TI68k_DATA =
  type68k :: string
  fext89 :: string
  fext92 :: string
  fext92p :: string
  fextv200 :: string
  icon68k :: string
  desc68k :: string

abbreviation tixx_row :: "string \<Rightarrow> string \<Rightarrow> string \<Rightarrow> string \<Rightarrow> TIXX_DATA" where
  "tixx_row t f i d \<equiv> \<lparr>type = t, fext = f, icon = i, desc = d\<rparr>"

abbreviation ti83p_row ::
    "string \<Rightarrow> string \<Rightarrow> string \<Rightarrow> string \<Rightarrow> string \<Rightarrow> string \<Rightarrow> string \<Rightarrow> string \<Rightarrow> string \<Rightarrow> TI83p_DATA" where
  "ti83p_row t a b c d e f i de \<equiv>
     \<lparr>type83p = t, fext83p = a, fext84pc = b, fext83pce = c, fext84pce = d, fext82a = e, fext84pt = f,
      icon83p = i, desc83p = de\<rparr>"

abbreviation ti68k_row ::
    "string \<Rightarrow> string \<Rightarrow> string \<Rightarrow> string \<Rightarrow> string \<Rightarrow> string \<Rightarrow> string \<Rightarrow> TI68k_DATA" where
  "ti68k_row t a b c d i de \<equiv>
     \<lparr>type68k = t, fext89 = a, fext92 = b, fext92p = c, fextv200 = d, icon68k = i, desc68k = de\<rparr>"

text \<open>\<open>strcmp\<close> and \<open>g_ascii_strcasecmp\<close> as tests for equality.\<close>

definition same_string :: "string \<Rightarrow> string \<Rightarrow> bool" where
  "same_string a b = (c_string a = c_string b)"

definition g_ascii_tolower :: "char \<Rightarrow> char" where
  "g_ascii_tolower c = (if 65 \<le> (of_char c :: nat) \<and> (of_char c :: nat) \<le> 90 then char_of (of_char c + 32 :: nat) else c)"

definition same_string_nocase :: "string \<Rightarrow> string \<Rightarrow> bool" where
  "same_string_nocase a b = (map g_ascii_tolower (c_string a) = map g_ascii_tolower (c_string b))"

text \<open>
  The three shapes of code \<open>internal.h\<close> repeats for every model: the field of a row that is known
  (its extension has no question mark), the extension of a row, and the loop that looks for the
  first row with a property and leaves its counter at \<open>maxtypes\<close> when there is none.
\<close>

definition known_row :: "('a \<Rightarrow> string) \<Rightarrow> ('a \<Rightarrow> string) \<Rightarrow> 'a list \<Rightarrow> nat \<Rightarrow> string \<Rightarrow> byte \<Rightarrow> string" where
  "known_row ext field table maxtypes otherwise data =
     (if unat data < maxtypes
      then (if ext (table ! unat data) ! 2 \<noteq> CHR ''?'' then field (table ! unat data) else otherwise)
      else otherwise)"

definition row_fext :: "('a \<Rightarrow> string) \<Rightarrow> 'a list \<Rightarrow> nat \<Rightarrow> string \<Rightarrow> byte \<Rightarrow> string" where
  "row_fext ext table maxtypes otherwise data =
     (if unat data < maxtypes then ext (table ! unat data) else otherwise)"

function first_row :: "('a \<Rightarrow> bool) \<Rightarrow> 'a list \<Rightarrow> nat \<Rightarrow> nat \<Rightarrow> nat" where
  "first_row hit table maxtypes i =
     (if i < maxtypes then (if hit (table ! i) then i else first_row hit table maxtypes (i + 1)) else i)"
  by pat_completeness auto
termination by (relation "measure (\<lambda>(_, _, maxtypes, i). maxtypes - i)") auto

declare first_row.simps [simp del]

section \<open>The tables\<close>

abbreviation TI73_MAXTYPES :: nat where "TI73_MAXTYPES \<equiv> 48"
abbreviation TI82_MAXTYPES :: nat where "TI82_MAXTYPES \<equiv> 48"
abbreviation TI83_MAXTYPES :: nat where "TI83_MAXTYPES \<equiv> 48"
abbreviation TI85_MAXTYPES :: nat where "TI85_MAXTYPES \<equiv> 48"
abbreviation TI86_MAXTYPES :: nat where "TI86_MAXTYPES \<equiv> 48"
abbreviation TI83p_MAXTYPES :: nat where "TI83p_MAXTYPES \<equiv> 48"
abbreviation TI84pc_MAXTYPES :: nat where "TI84pc_MAXTYPES \<equiv> 48"
abbreviation TI83pce_MAXTYPES :: nat where "TI83pce_MAXTYPES \<equiv> 48"
abbreviation TI84pce_MAXTYPES :: nat where "TI84pce_MAXTYPES \<equiv> 48"
abbreviation TI82a_MAXTYPES :: nat where "TI82a_MAXTYPES \<equiv> 48"
abbreviation TI84pt_MAXTYPES :: nat where "TI84pt_MAXTYPES \<equiv> 48"
abbreviation TI89_MAXTYPES :: nat where "TI89_MAXTYPES \<equiv> 48"
abbreviation TI92_MAXTYPES :: nat where "TI92_MAXTYPES \<equiv> 48"
abbreviation TI92p_MAXTYPES :: nat where "TI92p_MAXTYPES \<equiv> 48"
abbreviation V200_MAXTYPES :: nat where "V200_MAXTYPES \<equiv> 48"
abbreviation NSP_MAXTYPES :: nat where "NSP_MAXTYPES \<equiv> 2"

definition TI73_CONST :: "TIXX_DATA list" where
  "TI73_CONST = [
    tixx_row ''REAL'' ''73n'' ''Real'' ''Real'',
    tixx_row ''LIST'' ''73l'' ''List'' ''List'',
    tixx_row ''MAT'' ''73m'' ''Matrix'' ''Matrix'',
    tixx_row ''EQU'' ''73e'' ''Equation'' ''Equation'',
    tixx_row ''STR'' ''73s'' ''String'' ''String'',
    tixx_row ''PRGM'' ''73p'' ''Program'' ''Program'',
    tixx_row ''ASM'' ''73p'' ''Asm Program'' ''Asm Program'',
    tixx_row ''PIC'' ''73i'' ''Picture'' ''Picture'',
    tixx_row ''GDB'' ''73d'' ''GDB'' ''GDB'',
    tixx_row '''' ''73?'' ''Unknown'' ''Unknown'',
    tixx_row '''' ''73?'' ''Unknown'' ''Unknown'',
    tixx_row ''WDW'' ''73w'' ''Window Setup'' ''Window Setup'',
    tixx_row ''CPLX'' ''73c'' ''Complex'' ''Complex'',
    tixx_row '''' ''73?'' ''Unknown'' ''Unknown'',
    tixx_row '''' ''73?'' ''Unknown'' ''Unknown'',
    tixx_row ''WINDW'' ''73w'' ''Window'' ''Window Setup'',
    tixx_row ''ZSTO'' ''73z'' ''Zoom'' ''Zoom'',
    tixx_row ''TABLE'' ''73t'' ''Table Setup'' ''Table Setup'',
    tixx_row '''' ''73?'' ''Unknown'' ''Unknown'',
    tixx_row ''BKUP'' ''73b'' ''Backup'' ''Backup'']
   @ replicate 5 (tixx_row '''' ''73?'' ''Unknown'' ''Unknown'')
   @ [
    tixx_row ''DIR'' ''73?'' ''Unknown'' ''Unknown'',
    tixx_row ''AVAR'' ''73v'' ''App Var'' ''App Var'']
   @ replicate 8 (tixx_row '''' ''73?'' ''Unknown'' ''Unknown'')
   @ [
    tixx_row ''AMS'' ''73u'' ''OS upgrade'' ''OS upgrade'',
    tixx_row ''APPL'' ''73k'' ''Application'' ''Application'',
    tixx_row ''CERT'' ''73q'' ''Certificate'' ''Certificate'',
    tixx_row ''IDLIST'' ''73?'' ''Unknown'' ''Unknown'']
   @ replicate 9 (tixx_row '''' ''73?'' ''Unknown'' ''Unknown'')"

definition TI82_CONST :: "TIXX_DATA list" where
  "TI82_CONST = [
    tixx_row ''REAL'' ''82n'' ''Real'' ''Real'',
    tixx_row ''LIST'' ''82l'' ''List'' ''List'',
    tixx_row ''MAT'' ''82m'' ''Matrix'' ''Matrix'',
    tixx_row ''YVAR'' ''82y'' ''Y-Var'' ''Y-Var'',
    tixx_row '''' ''82?'' ''Unknown'' ''Unknown'',
    tixx_row ''PRGM'' ''82p'' ''Program'' ''Program'',
    tixx_row ''PPGM'' ''82p'' ''Protected Program'' ''Protected Program'',
    tixx_row ''PIC'' ''82i'' ''Picture'' ''Picture'',
    tixx_row ''GDB'' ''82d'' ''GDB'' ''GDB'',
    tixx_row '''' ''82?'' ''Unknown'' ''Unknown'',
    tixx_row '''' ''82?'' ''Unknown'' ''Unknown'',
    tixx_row ''WINDW'' ''82w'' ''Window Setup'' ''Window Setup'',
    tixx_row ''ZSTO'' ''82z'' ''Zoom'' ''Zoom'',
    tixx_row ''TABLE'' ''82t'' ''Table Setup'' ''Table Setup'',
    tixx_row ''LCD'' ''82?'' ''LCD'' ''LCD'',
    tixx_row ''BKUP'' ''82b'' ''Backup'' ''Backup'']
   @ replicate 32 (tixx_row '''' ''82?'' ''Unknown'' ''Unknown'')"

definition TI83_CONST :: "TIXX_DATA list" where
  "TI83_CONST = [
    tixx_row ''REAL'' ''83n'' ''Real'' ''Real'',
    tixx_row ''LIST'' ''83l'' ''List'' ''List'',
    tixx_row ''MAT'' ''83m'' ''Matrix'' ''Matrix'',
    tixx_row ''YVAR'' ''83y'' ''Y-Var'' ''Y-Var'',
    tixx_row ''STR'' ''83s'' ''String'' ''String'',
    tixx_row ''PRGM'' ''83p'' ''Program'' ''Program'',
    tixx_row ''ASM'' ''83p'' ''Asm Program'' ''Asm Program'',
    tixx_row ''PIC'' ''83i'' ''Picture'' ''Picture'',
    tixx_row ''GDB'' ''83d'' ''GDB'' ''GDB'',
    tixx_row '''' ''83?'' ''Unknown'' ''Unknown'',
    tixx_row '''' ''83?'' ''Unknown'' ''Unknown'',
    tixx_row '''' ''83?'' ''Unknown'' ''Unknown'',
    tixx_row ''CPLX'' ''83c'' ''Complex'' ''Complex'',
    tixx_row '''' ''83?'' ''Unknown'' ''Unknown'',
    tixx_row '''' ''83?'' ''Unknown'' ''Unknown'',
    tixx_row ''WINDW'' ''83w'' ''Window'' ''Window Setup'',
    tixx_row ''ZSTO'' ''83z'' ''Zoom'' ''Zoom'',
    tixx_row ''TABLE'' ''83t'' ''Table Setup'' ''Table Setup'',
    tixx_row '''' ''83?'' ''Unknown'' ''Unknown'',
    tixx_row ''BKUP'' ''83b'' ''Backup'' ''Backup'']
   @ replicate 5 (tixx_row '''' ''83?'' ''Unknown'' ''Unknown'')
   @ [
    tixx_row ''DIR'' ''83?'' ''Unknown'' ''Unknown'']
   @ replicate 22 (tixx_row '''' ''83?'' ''Unknown'' ''Unknown'')"

definition TI85_CONST :: "TIXX_DATA list" where
  "TI85_CONST = [
    tixx_row ''REAL'' ''85n'' ''Real'' ''Real'',
    tixx_row ''CPLX'' ''85c'' ''Complex'' ''Complex'',
    tixx_row ''VECT'' ''85v'' ''Vector'' ''Vector'',
    tixx_row ''CVECT'' ''85v'' ''Complex Vector'' ''Complex Vector'',
    tixx_row ''LIST'' ''85l'' ''List'' ''List'',
    tixx_row ''CLIST'' ''85l'' ''Complex List'' ''Complex List'',
    tixx_row ''MAT'' ''85m'' ''Matrix'' ''Matrix'',
    tixx_row ''CMAT'' ''85m'' ''Complex Matrix'' ''Complex Matrix'',
    tixx_row ''CONS'' ''85k'' ''Constant'' ''Constant'',
    tixx_row ''CCONS'' ''85c'' ''Complex Constant'' ''Complex Constant'',
    tixx_row ''EQU'' ''85y'' ''Equation'' ''Equation'',
    tixx_row '''' ''85?'' ''Unknown'' ''Unknown'',
    tixx_row ''STR'' ''85s'' ''String'' ''String'']
   @ replicate 4 (tixx_row ''GDB'' ''85d'' ''GDB'' ''GDB'')
   @ [
    tixx_row ''PIC'' ''85i'' ''Picture'' ''Picture'',
    tixx_row ''PRGM'' ''85p'' ''Program'' ''Program'',
    tixx_row ''RANGE'' ''85r'' ''Range'' ''Range'',
    tixx_row ''SCRN'' ''85?'' ''Screen'' ''Screen'',
    tixx_row ''DIR'' ''85?'' ''Directory'' ''Directory'',
    tixx_row '''' ''85?'' ''Unknown'' ''Unknown'',
    tixx_row ''WND'' ''85w'' ''Window Setup'' ''Window Setup'',
    tixx_row ''POLAR'' ''85?'' ''Polar'' ''Polar'',
    tixx_row ''PARAM'' ''85?'' ''Parametric'' ''Parametric'',
    tixx_row ''DIFEQ'' ''85?'' ''Diff Equ'' ''Diff Equ'',
    tixx_row ''ZRCL'' ''85z'' ''Zoom'' ''Zoom'',
    tixx_row '''' ''85?'' ''Unknown'' ''Unknown'',
    tixx_row ''BKUP'' ''85b'' ''Backup'' ''Backup'']
   @ replicate 12 (tixx_row '''' ''85?'' ''Unknown'' ''Unknown'')
   @ [
    tixx_row ''YVAR'' ''85y'' ''Y-Var'' ''Y-Var'']
   @ replicate 5 (tixx_row '''' ''85?'' ''Unknown'' ''Unknown'')"

definition TI86_CONST :: "TIXX_DATA list" where
  "TI86_CONST = [
    tixx_row ''REAL'' ''86n'' ''Real'' ''Real'',
    tixx_row ''CPLX'' ''86c'' ''Complex'' ''Complex'',
    tixx_row ''VECT'' ''86v'' ''Vector'' ''Vector'',
    tixx_row ''CVECT'' ''86v'' ''Complex Vector'' ''Complex Vector'',
    tixx_row ''LIST'' ''86l'' ''List'' ''List'',
    tixx_row ''CLIST'' ''86l'' ''Complex List'' ''Complex List'',
    tixx_row ''MAT'' ''86m'' ''Matrix'' ''Matrix'',
    tixx_row ''CMAT'' ''86m'' ''Complex Matrix'' ''Complex Matrix'',
    tixx_row ''CONS'' ''86k'' ''Constant'' ''Constant'',
    tixx_row ''CCONS'' ''86k'' ''Complex Constant'' ''Complex Constant'',
    tixx_row ''EQU'' ''86y'' ''Equation'' ''Equation'',
    tixx_row '''' ''86?'' ''Unknown'' ''Unknown'',
    tixx_row ''STR'' ''86s'' ''String'' ''String'']
   @ replicate 4 (tixx_row ''GDB'' ''86d'' ''GDB'' ''GDB'')
   @ [
    tixx_row ''PIC'' ''86i'' ''Picture'' ''Picture'',
    tixx_row ''PRGM'' ''86p'' ''Program'' ''Program'',
    tixx_row ''RANGE'' ''86r'' ''Range'' ''Range'',
    tixx_row ''SCRN'' ''86?'' ''Screen'' ''Screen'',
    tixx_row ''DIR'' ''86?'' ''Directory'' ''Directory'',
    tixx_row '''' ''86?'' ''Unknown'' ''Unknown'',
    tixx_row ''WIND'' ''86w'' ''Func'' ''Window Setup'',
    tixx_row ''WIND'' ''86w'' ''Pol'' ''Window Setup'',
    tixx_row ''WIND'' ''86w'' ''Param'' ''Window Setup'',
    tixx_row ''WIND'' ''86w'' ''DifEq'' ''Window Setup'',
    tixx_row ''WIND'' ''86w'' ''ZRCL'' ''Window Setup'',
    tixx_row '''' ''86?'' ''Unknown'' ''Unknown'',
    tixx_row ''BKUP'' ''86b'' ''Backup'' ''Backup'']
   @ replicate 18 (tixx_row '''' ''86?'' ''Unknown'' ''Unknown'')"

definition TI83p_CONST :: "TI83p_DATA list" where
  "TI83p_CONST = [
    ti83p_row ''REAL'' ''8Xn'' ''8Xn'' ''8Xn'' ''8Xn'' ''8Xn'' ''8Xn'' ''Real'' ''Real'',
    ti83p_row ''LIST'' ''8Xl'' ''8Xl'' ''8Xl'' ''8Xl'' ''8Xl'' ''8Xl'' ''List'' ''List'',
    ti83p_row ''MAT'' ''8Xm'' ''8Xm'' ''8Xm'' ''8Xm'' ''8Xm'' ''8Xm'' ''Matrix'' ''Matrix'',
    ti83p_row ''EQU'' ''8Xe'' ''8Xe'' ''8Xe'' ''8Xe'' ''8Xe'' ''8Xe'' ''Equation'' ''Equation'',
    ti83p_row ''STR'' ''8Xs'' ''8Xs'' ''8Xs'' ''8Xs'' ''8Xs'' ''8Xs'' ''String'' ''String'',
    ti83p_row ''PRGM'' ''8Xp'' ''8Xp'' ''8Xp'' ''8Xp'' ''8Xp'' ''8Xp'' ''Program'' ''Program'',
    ti83p_row ''PPRGM'' ''8Xp'' ''8Xp'' ''8Xp'' ''8Xp'' ''8Xp'' ''8Xp'' ''Asm Program'' ''Asm Program'',
    ti83p_row ''PIC'' ''8Xi'' ''8Ci'' ''8Ci'' ''8Ci'' ''8Xi'' ''8Xi'' ''Picture'' ''Picture'',
    ti83p_row ''GDB'' ''8Xd'' ''8Xd'' ''8Xd'' ''8Xd'' ''8Xd'' ''8Xd'' ''GDB'' ''GDB'',
    ti83p_row '''' ''8X?'' ''8X?'' ''8X?'' ''8X?'' ''8X?'' ''8X?'' ''Unknown'' ''Unknown'',
    ti83p_row '''' ''8X?'' ''8X?'' ''8X?'' ''8X?'' ''8X?'' ''8X?'' ''Unknown'' ''Unknown'',
    ti83p_row ''EQU'' ''8Xe'' ''8Xe'' ''8Xe'' ''8Xe'' ''8Xe'' ''8Xe'' ''Equation'' ''Equation'',
    ti83p_row ''CPLX'' ''8Xc'' ''8Xc'' ''8Xc'' ''8Xc'' ''8Xc'' ''8Xc'' ''Complex'' ''Complex'',
    ti83p_row ''LIST'' ''8Xl'' ''8Xl'' ''8Xl'' ''8Xl'' ''8Xl'' ''8Xl'' ''List'' ''List'',
    ti83p_row '''' ''8X?'' ''8X?'' ''8X?'' ''8X?'' ''8X?'' ''8X?'' ''Unknown'' ''Unknown'',
    ti83p_row ''WINDW'' ''8Xw'' ''8Xw'' ''8Xw'' ''8Xw'' ''8Xw'' ''8Xw'' ''Window Setup'' ''Window Setup'',
    ti83p_row ''ZSTO'' ''8Xz'' ''8Xz'' ''8Xz'' ''8Xz'' ''8Xz'' ''8Xz'' ''Zoom'' ''Zoom'',
    ti83p_row ''TABLE'' ''8Xt'' ''8Xt'' ''8Xt'' ''8Xt'' ''8Xt'' ''8Xt'' ''Table Setup'' ''Table Setup'',
    ti83p_row '''' ''8X?'' ''8X?'' ''8X?'' ''8X?'' ''8X?'' ''8X?'' ''Unknown'' ''Unknown'',
    ti83p_row ''BKUP'' ''8Xb'' ''8Xb'' ''8Xb'' ''8Xb'' ''8Xb'' ''8Xb'' ''Backup'' ''Backup'',
    ti83p_row '''' ''8X?'' ''8X?'' ''8X?'' ''8X?'' ''8X?'' ''8X?'' ''Unknown'' ''Unknown'',
    ti83p_row ''APPV'' ''8Xv'' ''8Xv'' ''8Xv'' ''8Xv'' ''8Xv'' ''8Xv'' ''App Var'' ''App Var'',
    ti83p_row ''TPRGM'' ''8Xp'' ''8Xp'' ''8Xp'' ''8Xp'' ''8Xp'' ''8Xp'' ''Program'' ''Program'',
    ti83p_row ''GRP'' ''8Xo'' ''8Xo'' ''8Xo'' ''8Xo'' ''8Xo'' ''8Xo'' ''Group Var'' ''Group Var'',
    ti83p_row ''REAL'' ''8Xn'' ''8Xn'' ''8Xn'' ''8Xn'' ''8Xn'' ''8Xn'' ''Real'' ''Real'',
    ti83p_row ''DIR'' ''8X?'' ''8X?'' ''8X?'' ''8X?'' ''8X?'' ''8X?'' ''Unknown'' ''Unknown'',
    ti83p_row ''IMAGE'' ''8Xa'' ''8Ca'' ''8Ca'' ''8Ca'' ''8Xa'' ''8Xa'' ''Image'' ''Image'',
    ti83p_row ''CPLX'' ''8Xc'' ''8Xc'' ''8Xc'' ''8Xc'' ''8Xc'' ''8Xc'' ''Complex'' ''Complex'',
    ti83p_row ''REAL'' ''8Xn'' ''8Xn'' ''8Xn'' ''8Xn'' ''8Xn'' ''8Xn'' ''Real'' ''Real'',
    ti83p_row ''CPLX'' ''8Xc'' ''8Xc'' ''8Xc'' ''8Xc'' ''8Xc'' ''8Xc'' ''Complex'' ''Complex'',
    ti83p_row ''CPLX'' ''8Xc'' ''8Xc'' ''8Xc'' ''8Xc'' ''8Xc'' ''8Xc'' ''Complex'' ''Complex'',
    ti83p_row ''CPLX'' ''8Xc'' ''8Xc'' ''8Xc'' ''8Xc'' ''8Xc'' ''8Xc'' ''Complex'' ''Complex'',
    ti83p_row ''REAL'' ''8Xn'' ''8Xn'' ''8Xn'' ''8Xn'' ''8Xn'' ''8Xn'' ''Real'' ''Real'',
    ti83p_row ''REAL'' ''8Xn'' ''8Xn'' ''8Xn'' ''8Xn'' ''8Xn'' ''8Xn'' ''Real'' ''Real'',
    ti83p_row '''' ''8X?'' ''8X?'' ''8X?'' ''8X?'' ''8X?'' ''8X?'' ''Unknown'' ''Unknown'',
    ti83p_row ''AMS'' ''8Xu'' ''8Cu'' ''8Pu'' ''8Eu'' ''82u'' ''8Xu'' ''OS upgrade'' ''OS upgrade'',
    ti83p_row ''APPL'' ''8Xk'' ''8Ck'' ''8Ek'' ''8Ek'' ''8X?'' ''8X?'' ''Application'' ''Application'',
    ti83p_row ''CERT'' ''8Xq'' ''8Cq'' ''8Pq'' ''8Eq'' ''8X?'' ''8X?'' ''Certificate'' ''Certificate'',
    ti83p_row ''IDLIST'' ''8Xidl'' ''8Cidl'' ''8Pidl'' ''8Eidl'' ''8Xidl'' ''8Xidl'' ''Unknown'' ''Unknown'']
   @ replicate 9 (ti83p_row '''' ''8X?'' ''8X?'' ''8X?'' ''8X?'' ''8X?'' ''8X?'' ''Unknown'' ''Unknown'')"

definition TI68k_CONST :: "TI68k_DATA list" where
  "TI68k_CONST = [
    ti68k_row ''EXPR'' ''89e'' ''92e'' ''9xe'' ''v2e'' ''Expression'' ''Expression'',
    ti68k_row '''' ''89?'' ''92?'' ''9x?'' ''v2?'' ''Unknown'' ''Unknown'',
    ti68k_row '''' ''89?'' ''92?'' ''9x?'' ''v2?'' ''Unknown'' ''Unknown'',
    ti68k_row '''' ''89?'' ''92?'' ''9x?'' ''v2?'' ''Unknown'' ''Unknown'',
    ti68k_row ''LIST'' ''89l'' ''92l'' ''9xl'' ''v2l'' ''List'' ''List'',
    ti68k_row '''' ''89?'' ''92?'' ''9x?'' ''v2?'' ''Unknown'' ''Unknown'',
    ti68k_row ''MAT'' ''89m'' ''92m'' ''9xm'' ''v2m'' ''Matrix'' ''Matrix'',
    ti68k_row '''' ''89?'' ''92?'' ''9x?'' ''v2?'' ''Unknown'' ''Unknown'',
    ti68k_row '''' ''89?'' ''92?'' ''9x?'' ''v2?'' ''Unknown'' ''Unknown'',
    ti68k_row '''' ''89?'' ''92?'' ''9x?'' ''v2?'' ''Unknown'' ''Unknown'',
    ti68k_row ''DATA'' ''89c'' ''92c'' ''9xc'' ''v2c'' ''Data'' ''Data'',
    ti68k_row ''TEXT'' ''89t'' ''92t'' ''9xt'' ''v2t'' ''Text'' ''Text'',
    ti68k_row ''STR'' ''89s'' ''92s'' ''9xs'' ''v2s'' ''String'' ''String'',
    ti68k_row ''GDB'' ''89d'' ''92d'' ''9xd'' ''v2d'' ''GDB'' ''GDB'',
    ti68k_row ''FIG'' ''89a'' ''92a'' ''9xa'' ''v2a'' ''Figure'' ''Figure'',
    ti68k_row '''' ''89?'' ''92?'' ''9x?'' ''v2?'' ''Unknown'' ''Unknown'',
    ti68k_row ''PIC'' ''89i'' ''92i'' ''9xi'' ''v2i'' ''Picture'' ''Picture'',
    ti68k_row '''' ''89?'' ''92?'' ''9x?'' ''v2?'' ''Unknown'' ''Unknown'',
    ti68k_row ''PRGM'' ''89p'' ''92p'' ''9xp'' ''v2p'' ''Program'' ''Program'',
    ti68k_row ''FUNC'' ''89f'' ''92f'' ''9xf'' ''v2f'' ''Function'' ''Function'',
    ti68k_row ''MAC'' ''89x'' ''92x'' ''9xx'' ''v2x'' ''Macro'' ''Macro'',
    ti68k_row '''' ''89?'' ''92?'' ''9x?'' ''v2?'' ''Unknown'' ''Unknown'',
    ti68k_row '''' ''89?'' ''92?'' ''9x?'' ''v2?'' ''Unknown'' ''Unknown'',
    ti68k_row '''' ''89?'' ''92?'' ''9x?'' ''v2?'' ''Unknown'' ''Unknown'',
    ti68k_row ''CLOCK'' ''89clk'' ''92?'' ''9xclk'' ''v2clk'' ''Unknown'' ''Unknown'',
    ti68k_row '''' ''89?'' ''92?'' ''9x?'' ''v2?'' ''Unknown'' ''Unknown'',
    ti68k_row ''RDIR'' ''89?'' ''92?'' ''9x?'' ''v2?'' ''Unknown'' ''Unknown'',
    ti68k_row ''LDIR'' ''89?'' ''92?'' ''9x?'' ''v2?'' ''Unknown'' ''Unknown'',
    ti68k_row ''OTH'' ''89y'' ''92?'' ''9xy'' ''v2y'' ''Zipped'' ''Other (Zipped, etc.)'',
    ti68k_row ''BKUP'' ''89g'' ''92b'' ''9xg'' ''v2g'' ''Backup'' ''Backup'',
    ti68k_row '''' ''89?'' ''92?'' ''9x?'' ''v2?'' ''Unknown'' ''Unknown'',
    ti68k_row ''DIR'' ''89?'' ''92?'' ''9x?'' ''v2?'' ''Unknown'' ''Unknown'',
    ti68k_row '''' ''89?'' ''92?'' ''9x?'' ''v2?'' ''Unknown'' ''Unknown'',
    ti68k_row ''ASM'' ''89z'' ''92z'' ''9xz'' ''v2z'' ''Asm Program'' ''Asm Program'',
    ti68k_row ''IDLIST'' ''89idl'' ''92?'' ''9xidl'' ''v2idl'' ''ID-LIST'' ''ID-LIST'',
    ti68k_row ''AMS'' ''89u'' ''92?'' ''9xu'' ''v2u'' ''OS upgrade'' ''OS upgrade'',
    ti68k_row ''APPL'' ''89k'' ''92?'' ''9xk'' ''v2k'' ''Application'' ''Application'',
    ti68k_row ''CERT'' ''89q'' ''92?'' ''9xq'' ''v2q'' ''Certificate'' ''Certificate'',
    ti68k_row ''LOCKED'' ''89?'' ''92?'' ''9x?'' ''v2?'' ''Unknown'' ''Unknown'',
    ti68k_row ''ARCHIV'' ''89?'' ''92?'' ''9x?'' ''v2?'' ''Unknown'' ''Unknown'']
   @ replicate 8 (ti68k_row '''' ''89?'' ''92?'' ''9x?'' ''v2?'' ''Unknown'' ''Unknown'')"

definition NSP_CONST :: "TIXX_DATA list" where
  "NSP_CONST = [
    tixx_row ''TNS'' ''tns'' ''TIicon1'' ''Document'',
    tixx_row ''DIR'' ''???'' ''Directory'' ''Directory'']"

section \<open>The searches of internal.h\<close>

definition tixx_byte2type :: "TIXX_DATA list \<Rightarrow> nat \<Rightarrow> byte \<Rightarrow> string" where
  "tixx_byte2type vardefs maxtypes data = known_row fext type vardefs maxtypes [] data"

definition ti83p_byte2type :: "byte \<Rightarrow> string" where
  "ti83p_byte2type data = known_row fext83p type83p TI83p_CONST TI83p_MAXTYPES [] data"

abbreviation "ti84p_byte2type \<equiv> ti83p_byte2type"

definition ti84pc_byte2type :: "byte \<Rightarrow> string" where
  "ti84pc_byte2type data = known_row fext84pc type83p TI83p_CONST TI84pc_MAXTYPES [] data"

definition ti83pce_byte2type :: "byte \<Rightarrow> string" where
  "ti83pce_byte2type data = known_row fext83pce type83p TI83p_CONST TI83pce_MAXTYPES [] data"

definition ti84pce_byte2type :: "byte \<Rightarrow> string" where
  "ti84pce_byte2type data = known_row fext84pce type83p TI83p_CONST TI84pce_MAXTYPES [] data"

definition ti82a_byte2type :: "byte \<Rightarrow> string" where
  "ti82a_byte2type data = known_row fext82a type83p TI83p_CONST TI82a_MAXTYPES [] data"

definition ti84pt_byte2type :: "byte \<Rightarrow> string" where
  "ti84pt_byte2type data = known_row fext84pt type83p TI83p_CONST TI84pt_MAXTYPES [] data"

definition ti89_byte2type :: "byte \<Rightarrow> string" where
  "ti89_byte2type data = known_row fext89 type68k TI68k_CONST TI89_MAXTYPES [] data"

abbreviation "ti89t_byte2type \<equiv> ti89_byte2type"

definition ti92_byte2type :: "byte \<Rightarrow> string" where
  "ti92_byte2type data = known_row fext92 type68k TI68k_CONST TI92_MAXTYPES [] data"

definition ti92p_byte2type :: "byte \<Rightarrow> string" where
  "ti92p_byte2type data = known_row fext92p type68k TI68k_CONST TI92p_MAXTYPES [] data"

definition v200_byte2type :: "byte \<Rightarrow> string" where
  "v200_byte2type data = known_row fextv200 type68k TI68k_CONST V200_MAXTYPES [] data"

definition tixx_type2byte :: "TIXX_DATA list \<Rightarrow> nat \<Rightarrow> string \<Rightarrow> byte" where
  "tixx_type2byte vardefs maxtypes s = of_nat (first_row (\<lambda>r. same_string (type r) s) vardefs maxtypes 0)"

definition ti83p_type2byte :: "string \<Rightarrow> byte" where
  "ti83p_type2byte s = of_nat (first_row (\<lambda>r. same_string (type83p r) s \<and> fext83p r ! 2 \<noteq> CHR ''?'') TI83p_CONST TI83p_MAXTYPES 0)"

abbreviation "ti84p_type2byte \<equiv> ti83p_type2byte"

definition ti84pc_type2byte :: "string \<Rightarrow> byte" where
  "ti84pc_type2byte s = of_nat (first_row (\<lambda>r. same_string (type83p r) s \<and> fext84pc r ! 2 \<noteq> CHR ''?'') TI83p_CONST TI84pc_MAXTYPES 0)"

definition ti83pce_type2byte :: "string \<Rightarrow> byte" where
  "ti83pce_type2byte s = of_nat (first_row (\<lambda>r. same_string (type83p r) s \<and> fext83pce r ! 2 \<noteq> CHR ''?'') TI83p_CONST TI83pce_MAXTYPES 0)"

definition ti84pce_type2byte :: "string \<Rightarrow> byte" where
  "ti84pce_type2byte s = of_nat (first_row (\<lambda>r. same_string (type83p r) s \<and> fext84pce r ! 2 \<noteq> CHR ''?'') TI83p_CONST TI84pce_MAXTYPES 0)"

definition ti82a_type2byte :: "string \<Rightarrow> byte" where
  "ti82a_type2byte s = of_nat (first_row (\<lambda>r. same_string (type83p r) s \<and> fext82a r ! 2 \<noteq> CHR ''?'') TI83p_CONST TI82a_MAXTYPES 0)"

definition ti84pt_type2byte :: "string \<Rightarrow> byte" where
  "ti84pt_type2byte s = of_nat (first_row (\<lambda>r. same_string (type83p r) s \<and> fext84pt r ! 2 \<noteq> CHR ''?'') TI83p_CONST TI84pt_MAXTYPES 0)"

definition ti89_type2byte :: "string \<Rightarrow> byte" where
  "ti89_type2byte s = of_nat (first_row (\<lambda>r. same_string (type68k r) s \<and> fext89 r ! 2 \<noteq> CHR ''?'') TI68k_CONST TI89_MAXTYPES 0)"

abbreviation "ti89t_type2byte \<equiv> ti89_type2byte"

definition ti92_type2byte :: "string \<Rightarrow> byte" where
  "ti92_type2byte s = of_nat (first_row (\<lambda>r. same_string (type68k r) s \<and> fext92 r ! 2 \<noteq> CHR ''?'') TI68k_CONST TI92_MAXTYPES 0)"

definition ti92p_type2byte :: "string \<Rightarrow> byte" where
  "ti92p_type2byte s = of_nat (first_row (\<lambda>r. same_string (type68k r) s \<and> fext92p r ! 2 \<noteq> CHR ''?'') TI68k_CONST TI92p_MAXTYPES 0)"

definition v200_type2byte :: "string \<Rightarrow> byte" where
  "v200_type2byte s = of_nat (first_row (\<lambda>r. same_string (type68k r) s \<and> fextv200 r ! 2 \<noteq> CHR ''?'') TI68k_CONST V200_MAXTYPES 0)"

definition tixx_byte2fext :: "TIXX_DATA list \<Rightarrow> nat \<Rightarrow> byte \<Rightarrow> string \<Rightarrow> string" where
  "tixx_byte2fext vardefs maxtypes data otherwise = row_fext fext vardefs maxtypes otherwise data"

definition ti83p_byte2fext :: "byte \<Rightarrow> string" where
  "ti83p_byte2fext data = row_fext fext83p TI83p_CONST TI83p_MAXTYPES ''8x?'' data"

abbreviation "ti84p_byte2fext \<equiv> ti83p_byte2fext"

definition ti84pc_byte2fext :: "byte \<Rightarrow> string" where
  "ti84pc_byte2fext data = row_fext fext84pc TI83p_CONST TI84pc_MAXTYPES ''8C?'' data"

definition ti83pce_byte2fext :: "byte \<Rightarrow> string" where
  "ti83pce_byte2fext data = row_fext fext83pce TI83p_CONST TI83pce_MAXTYPES ''8C?'' data"

definition ti84pce_byte2fext :: "byte \<Rightarrow> string" where
  "ti84pce_byte2fext data = row_fext fext84pce TI83p_CONST TI84pce_MAXTYPES ''8C?'' data"

definition ti82a_byte2fext :: "byte \<Rightarrow> string" where
  "ti82a_byte2fext data = row_fext fext82a TI83p_CONST TI82a_MAXTYPES ''8X?'' data"

definition ti84pt_byte2fext :: "byte \<Rightarrow> string" where
  "ti84pt_byte2fext data = row_fext fext84pt TI83p_CONST TI84pt_MAXTYPES ''8X?'' data"

definition ti89_byte2fext :: "byte \<Rightarrow> string" where
  "ti89_byte2fext data = row_fext fext89 TI68k_CONST TI89_MAXTYPES ''89?'' data"

abbreviation "ti89t_byte2fext \<equiv> ti89_byte2fext"

definition ti92_byte2fext :: "byte \<Rightarrow> string" where
  "ti92_byte2fext data = row_fext fext92 TI68k_CONST TI92_MAXTYPES ''92?'' data"

definition ti92p_byte2fext :: "byte \<Rightarrow> string" where
  "ti92p_byte2fext data = row_fext fext92p TI68k_CONST TI92p_MAXTYPES ''9x?'' data"

definition v200_byte2fext :: "byte \<Rightarrow> string" where
  "v200_byte2fext data = row_fext fextv200 TI68k_CONST V200_MAXTYPES ''v2?'' data"

definition tixx_fext2byte :: "TIXX_DATA list \<Rightarrow> nat \<Rightarrow> string \<Rightarrow> byte" where
  "tixx_fext2byte vardefs maxtypes s = of_nat (first_row (\<lambda>r. same_string_nocase (fext r) s) vardefs maxtypes 0)"

definition ti83p_fext2byte :: "string \<Rightarrow> byte" where
  "ti83p_fext2byte s = of_nat (first_row (\<lambda>r. same_string_nocase (fext83p r) s) TI83p_CONST TI83p_MAXTYPES 0)"

abbreviation "ti84p_fext2byte \<equiv> ti83p_fext2byte"

definition ti84pc_fext2byte :: "string \<Rightarrow> byte" where
  "ti84pc_fext2byte s = of_nat (first_row (\<lambda>r. same_string_nocase (fext84pc r) s) TI83p_CONST TI84pc_MAXTYPES 0)"

definition ti83pce_fext2byte :: "string \<Rightarrow> byte" where
  "ti83pce_fext2byte s = of_nat (first_row (\<lambda>r. same_string_nocase (fext83pce r) s) TI83p_CONST TI83pce_MAXTYPES 0)"

definition ti84pce_fext2byte :: "string \<Rightarrow> byte" where
  "ti84pce_fext2byte s = of_nat (first_row (\<lambda>r. same_string_nocase (fext84pce r) s) TI83p_CONST TI84pce_MAXTYPES 0)"

definition ti82a_fext2byte :: "string \<Rightarrow> byte" where
  "ti82a_fext2byte s = of_nat (first_row (\<lambda>r. same_string_nocase (fext82a r) s) TI83p_CONST TI82a_MAXTYPES 0)"

definition ti84pt_fext2byte :: "string \<Rightarrow> byte" where
  "ti84pt_fext2byte s = of_nat (first_row (\<lambda>r. same_string_nocase (fext84pt r) s) TI83p_CONST TI84pt_MAXTYPES 0)"

definition ti89_fext2byte :: "string \<Rightarrow> byte" where
  "ti89_fext2byte s = of_nat (first_row (\<lambda>r. same_string_nocase (fext89 r) s) TI68k_CONST TI89_MAXTYPES 0)"

abbreviation "ti89t_fext2byte \<equiv> ti89_fext2byte"

definition ti92_fext2byte :: "string \<Rightarrow> byte" where
  "ti92_fext2byte s = of_nat (first_row (\<lambda>r. same_string_nocase (fext92 r) s) TI68k_CONST TI92_MAXTYPES 0)"

definition ti92p_fext2byte :: "string \<Rightarrow> byte" where
  "ti92p_fext2byte s = of_nat (first_row (\<lambda>r. same_string_nocase (fext92p r) s) TI68k_CONST TI92p_MAXTYPES 0)"

definition v200_fext2byte :: "string \<Rightarrow> byte" where
  "v200_fext2byte s = of_nat (first_row (\<lambda>r. same_string_nocase (fextv200 r) s) TI68k_CONST V200_MAXTYPES 0)"

definition tixx_byte2desc :: "(string \<Rightarrow> string) \<Rightarrow> TIXX_DATA list \<Rightarrow> nat \<Rightarrow> byte \<Rightarrow> string" where
  "tixx_byte2desc gettext vardefs maxtypes data = known_row fext desc vardefs maxtypes (gettext ''Unknown'') data"

definition ti83p_byte2desc :: "(string \<Rightarrow> string) \<Rightarrow> byte \<Rightarrow> string" where
  "ti83p_byte2desc gettext data = known_row fext83p desc83p TI83p_CONST TI83p_MAXTYPES (gettext ''Unknown'') data"

abbreviation "ti84p_byte2desc \<equiv> ti83p_byte2desc"

definition ti84pc_byte2desc :: "(string \<Rightarrow> string) \<Rightarrow> byte \<Rightarrow> string" where
  "ti84pc_byte2desc gettext data = known_row fext84pc desc83p TI83p_CONST TI84pc_MAXTYPES (gettext ''Unknown'') data"

definition ti83pce_byte2desc :: "(string \<Rightarrow> string) \<Rightarrow> byte \<Rightarrow> string" where
  "ti83pce_byte2desc gettext data = known_row fext83pce desc83p TI83p_CONST TI83pce_MAXTYPES (gettext ''Unknown'') data"

definition ti84pce_byte2desc :: "(string \<Rightarrow> string) \<Rightarrow> byte \<Rightarrow> string" where
  "ti84pce_byte2desc gettext data = known_row fext84pce desc83p TI83p_CONST TI84pce_MAXTYPES (gettext ''Unknown'') data"

definition ti82a_byte2desc :: "(string \<Rightarrow> string) \<Rightarrow> byte \<Rightarrow> string" where
  "ti82a_byte2desc gettext data = known_row fext82a desc83p TI83p_CONST TI82a_MAXTYPES (gettext ''Unknown'') data"

definition ti84pt_byte2desc :: "(string \<Rightarrow> string) \<Rightarrow> byte \<Rightarrow> string" where
  "ti84pt_byte2desc gettext data = known_row fext84pt desc83p TI83p_CONST TI84pt_MAXTYPES (gettext ''Unknown'') data"

definition ti89_byte2desc :: "(string \<Rightarrow> string) \<Rightarrow> byte \<Rightarrow> string" where
  "ti89_byte2desc gettext data = known_row fext89 desc68k TI68k_CONST TI89_MAXTYPES (gettext ''Unknown'') data"

abbreviation "ti89t_byte2desc \<equiv> ti89_byte2desc"

definition ti92_byte2desc :: "(string \<Rightarrow> string) \<Rightarrow> byte \<Rightarrow> string" where
  "ti92_byte2desc gettext data = known_row fext92 desc68k TI68k_CONST TI92_MAXTYPES (gettext ''Unknown'') data"

definition ti92p_byte2desc :: "(string \<Rightarrow> string) \<Rightarrow> byte \<Rightarrow> string" where
  "ti92p_byte2desc gettext data = known_row fext92p desc68k TI68k_CONST TI92p_MAXTYPES (gettext ''Unknown'') data"

definition v200_byte2desc :: "(string \<Rightarrow> string) \<Rightarrow> byte \<Rightarrow> string" where
  "v200_byte2desc gettext data = known_row fextv200 desc68k TI68k_CONST V200_MAXTYPES (gettext ''Unknown'') data"

definition tixx_byte2icon :: "TIXX_DATA list \<Rightarrow> nat \<Rightarrow> byte \<Rightarrow> string" where
  "tixx_byte2icon vardefs maxtypes data = known_row fext icon vardefs maxtypes ''Unknown'' data"

definition ti83p_byte2icon :: "byte \<Rightarrow> string" where
  "ti83p_byte2icon data = known_row fext83p icon83p TI83p_CONST TI83p_MAXTYPES ''Unknown'' data"

abbreviation "ti84p_byte2icon \<equiv> ti83p_byte2icon"

definition ti84pc_byte2icon :: "byte \<Rightarrow> string" where
  "ti84pc_byte2icon data = known_row fext84pc icon83p TI83p_CONST TI84pc_MAXTYPES ''Unknown'' data"

definition ti83pce_byte2icon :: "byte \<Rightarrow> string" where
  "ti83pce_byte2icon data = known_row fext83pce icon83p TI83p_CONST TI83pce_MAXTYPES ''Unknown'' data"

definition ti84pce_byte2icon :: "byte \<Rightarrow> string" where
  "ti84pce_byte2icon data = known_row fext84pce icon83p TI83p_CONST TI84pce_MAXTYPES ''Unknown'' data"

definition ti82a_byte2icon :: "byte \<Rightarrow> string" where
  "ti82a_byte2icon data = known_row fext82a icon83p TI83p_CONST TI82a_MAXTYPES ''Unknown'' data"

definition ti84pt_byte2icon :: "byte \<Rightarrow> string" where
  "ti84pt_byte2icon data = known_row fext84pt icon83p TI83p_CONST TI84pt_MAXTYPES ''Unknown'' data"

definition ti89_byte2icon :: "byte \<Rightarrow> string" where
  "ti89_byte2icon data = known_row fext89 icon68k TI68k_CONST TI89_MAXTYPES ''Unknown'' data"

abbreviation "ti89t_byte2icon \<equiv> ti89_byte2icon"

definition ti92_byte2icon :: "byte \<Rightarrow> string" where
  "ti92_byte2icon data = known_row fext92 icon68k TI68k_CONST TI92_MAXTYPES ''Unknown'' data"

definition ti92p_byte2icon :: "byte \<Rightarrow> string" where
  "ti92p_byte2icon data = known_row fext92p icon68k TI68k_CONST TI92p_MAXTYPES ''Unknown'' data"

definition v200_byte2icon :: "byte \<Rightarrow> string" where
  "v200_byte2icon data = known_row fextv200 icon68k TI68k_CONST V200_MAXTYPES ''Unknown'' data"

section \<open>The dispatchers of typesxx.cc\<close>

definition tifiles_vartype2string :: "CalcModel \<Rightarrow> byte \<Rightarrow> string" where
  "tifiles_vartype2string model data =
     (case model of
       CALC_TI73 \<Rightarrow> tixx_byte2type TI73_CONST TI73_MAXTYPES data
     | CALC_TI82 \<Rightarrow> tixx_byte2type TI82_CONST TI82_MAXTYPES data
     | CALC_TI83 \<Rightarrow> tixx_byte2type TI83_CONST TI83_MAXTYPES data
     | CALC_TI83P \<Rightarrow> ti83p_byte2type data
     | CALC_TI84P \<Rightarrow> ti84p_byte2type data
     | CALC_TI84P_USB \<Rightarrow> ti84p_byte2type data
     | CALC_TI82A_USB \<Rightarrow> ti82a_byte2type data
     | CALC_TI84PT_USB \<Rightarrow> ti84pt_byte2type data
     | CALC_TI84PC \<Rightarrow> ti84pc_byte2type data
     | CALC_TI84PC_USB \<Rightarrow> ti84pc_byte2type data
     | CALC_TI83PCE_USB \<Rightarrow> ti83pce_byte2type data
     | CALC_TI84PCE_USB \<Rightarrow> ti84pce_byte2type data
     | CALC_TI85 \<Rightarrow> tixx_byte2type TI85_CONST TI85_MAXTYPES data
     | CALC_TI86 \<Rightarrow> tixx_byte2type TI86_CONST TI86_MAXTYPES data
     | CALC_TI89 \<Rightarrow> ti89_byte2type data
     | CALC_TI89T \<Rightarrow> ti89t_byte2type data
     | CALC_TI89T_USB \<Rightarrow> ti89t_byte2type data
     | CALC_TI92 \<Rightarrow> ti92_byte2type data
     | CALC_TI92P \<Rightarrow> ti92p_byte2type data
     | CALC_V200 \<Rightarrow> v200_byte2type data
     | CALC_NSPIRE \<Rightarrow> tixx_byte2type NSP_CONST NSP_MAXTYPES data
     | _ \<Rightarrow> [])"

definition tifiles_string2vartype :: "CalcModel \<Rightarrow> string option \<Rightarrow> byte" where
  "tifiles_string2vartype model s =
     (case s of
        None \<Rightarrow> 0
      | Some s \<Rightarrow>
       (case model of
          CALC_TI73 \<Rightarrow> tixx_type2byte TI73_CONST TI73_MAXTYPES s
        | CALC_TI82 \<Rightarrow> tixx_type2byte TI82_CONST TI82_MAXTYPES s
        | CALC_TI83 \<Rightarrow> tixx_type2byte TI83_CONST TI83_MAXTYPES s
        | CALC_TI83P \<Rightarrow> ti83p_type2byte s
        | CALC_TI84P \<Rightarrow> ti84p_type2byte s
        | CALC_TI84P_USB \<Rightarrow> ti84p_type2byte s
        | CALC_TI82A_USB \<Rightarrow> ti82a_type2byte s
        | CALC_TI84PT_USB \<Rightarrow> ti84pt_type2byte s
        | CALC_TI84PC \<Rightarrow> ti84pc_type2byte s
        | CALC_TI84PC_USB \<Rightarrow> ti84pc_type2byte s
        | CALC_TI83PCE_USB \<Rightarrow> ti83pce_type2byte s
        | CALC_TI84PCE_USB \<Rightarrow> ti84pce_type2byte s
        | CALC_TI85 \<Rightarrow> tixx_type2byte TI85_CONST TI85_MAXTYPES s
        | CALC_TI86 \<Rightarrow> tixx_type2byte TI86_CONST TI86_MAXTYPES s
        | CALC_TI89 \<Rightarrow> ti89_type2byte s
        | CALC_TI89T \<Rightarrow> ti89t_type2byte s
        | CALC_TI89T_USB \<Rightarrow> ti89t_type2byte s
        | CALC_TI92 \<Rightarrow> ti92_type2byte s
        | CALC_TI92P \<Rightarrow> ti92p_type2byte s
        | CALC_V200 \<Rightarrow> v200_type2byte s
        | CALC_NSPIRE \<Rightarrow> tixx_type2byte NSP_CONST NSP_MAXTYPES s
        | _ \<Rightarrow> 0))"

definition tifiles_vartype2fext :: "CalcModel \<Rightarrow> byte \<Rightarrow> string" where
  "tifiles_vartype2fext model data =
     (case model of
       CALC_TI73 \<Rightarrow> tixx_byte2fext TI73_CONST TI73_MAXTYPES data ''73?''
     | CALC_TI82 \<Rightarrow> tixx_byte2fext TI82_CONST TI82_MAXTYPES data ''82?''
     | CALC_TI83 \<Rightarrow> tixx_byte2fext TI83_CONST TI83_MAXTYPES data ''83?''
     | CALC_TI83P \<Rightarrow> ti83p_byte2fext data
     | CALC_TI84P \<Rightarrow> ti84p_byte2fext data
     | CALC_TI84P_USB \<Rightarrow> ti84p_byte2fext data
     | CALC_TI82A_USB \<Rightarrow> ti82a_byte2fext data
     | CALC_TI84PT_USB \<Rightarrow> ti84pt_byte2fext data
     | CALC_TI84PC \<Rightarrow> ti84pc_byte2fext data
     | CALC_TI84PC_USB \<Rightarrow> ti84pc_byte2fext data
     | CALC_TI83PCE_USB \<Rightarrow> ti83pce_byte2fext data
     | CALC_TI84PCE_USB \<Rightarrow> ti84pce_byte2fext data
     | CALC_TI85 \<Rightarrow> tixx_byte2fext TI85_CONST TI85_MAXTYPES data ''85?''
     | CALC_TI86 \<Rightarrow> tixx_byte2fext TI86_CONST TI86_MAXTYPES data ''86?''
     | CALC_TI89 \<Rightarrow> ti89_byte2fext data
     | CALC_TI89T \<Rightarrow> ti89t_byte2fext data
     | CALC_TI89T_USB \<Rightarrow> ti89t_byte2fext data
     | CALC_TI92 \<Rightarrow> ti92_byte2fext data
     | CALC_TI92P \<Rightarrow> ti92p_byte2fext data
     | CALC_V200 \<Rightarrow> v200_byte2fext data
     | CALC_NSPIRE \<Rightarrow> tixx_byte2fext NSP_CONST NSP_MAXTYPES data ''tn?''
     | _ \<Rightarrow> [])"

definition tifiles_fext2vartype :: "CalcModel \<Rightarrow> string option \<Rightarrow> byte" where
  "tifiles_fext2vartype model s =
     (case s of
        None \<Rightarrow> 0
      | Some s \<Rightarrow>
       (case model of
          CALC_TI73 \<Rightarrow> tixx_fext2byte TI73_CONST TI73_MAXTYPES s
        | CALC_TI82 \<Rightarrow> tixx_fext2byte TI82_CONST TI82_MAXTYPES s
        | CALC_TI83 \<Rightarrow> tixx_fext2byte TI83_CONST TI83_MAXTYPES s
        | CALC_TI83P \<Rightarrow> ti83p_fext2byte s
        | CALC_TI84P \<Rightarrow> ti84p_fext2byte s
        | CALC_TI84P_USB \<Rightarrow> ti84p_fext2byte s
        | CALC_TI82A_USB \<Rightarrow> ti82a_fext2byte s
        | CALC_TI84PT_USB \<Rightarrow> ti84pt_fext2byte s
        | CALC_TI84PC \<Rightarrow> ti84pc_fext2byte s
        | CALC_TI84PC_USB \<Rightarrow> ti84pc_fext2byte s
        | CALC_TI83PCE_USB \<Rightarrow> ti83pce_fext2byte s
        | CALC_TI84PCE_USB \<Rightarrow> ti84pce_fext2byte s
        | CALC_TI85 \<Rightarrow> tixx_fext2byte TI85_CONST TI85_MAXTYPES s
        | CALC_TI86 \<Rightarrow> tixx_fext2byte TI86_CONST TI86_MAXTYPES s
        | CALC_TI89 \<Rightarrow> ti89_fext2byte s
        | CALC_TI89T \<Rightarrow> ti89t_fext2byte s
        | CALC_TI89T_USB \<Rightarrow> ti89t_fext2byte s
        | CALC_TI92 \<Rightarrow> ti92_fext2byte s
        | CALC_TI92P \<Rightarrow> ti92p_fext2byte s
        | CALC_V200 \<Rightarrow> v200_fext2byte s
        | CALC_NSPIRE \<Rightarrow> tixx_fext2byte NSP_CONST NSP_MAXTYPES s
        | _ \<Rightarrow> 0))"

definition tifiles_vartype2type :: "(string \<Rightarrow> string) \<Rightarrow> CalcModel \<Rightarrow> byte \<Rightarrow> string" where
  "tifiles_vartype2type gettext model vartype =
     (case model of
       CALC_TI73 \<Rightarrow> tixx_byte2desc gettext TI73_CONST TI73_MAXTYPES vartype
     | CALC_TI82 \<Rightarrow> tixx_byte2desc gettext TI82_CONST TI82_MAXTYPES vartype
     | CALC_TI83 \<Rightarrow> tixx_byte2desc gettext TI83_CONST TI83_MAXTYPES vartype
     | CALC_TI83P \<Rightarrow> ti83p_byte2desc gettext vartype
     | CALC_TI84P \<Rightarrow> ti84p_byte2desc gettext vartype
     | CALC_TI84P_USB \<Rightarrow> ti84p_byte2desc gettext vartype
     | CALC_TI82A_USB \<Rightarrow> ti82a_byte2desc gettext vartype
     | CALC_TI84PT_USB \<Rightarrow> ti84pt_byte2desc gettext vartype
     | CALC_TI84PC \<Rightarrow> ti84pc_byte2desc gettext vartype
     | CALC_TI84PC_USB \<Rightarrow> ti84pc_byte2desc gettext vartype
     | CALC_TI83PCE_USB \<Rightarrow> ti83pce_byte2desc gettext vartype
     | CALC_TI84PCE_USB \<Rightarrow> ti84pce_byte2desc gettext vartype
     | CALC_TI85 \<Rightarrow> tixx_byte2desc gettext TI85_CONST TI85_MAXTYPES vartype
     | CALC_TI86 \<Rightarrow> tixx_byte2desc gettext TI86_CONST TI86_MAXTYPES vartype
     | CALC_TI89 \<Rightarrow> ti89_byte2desc gettext vartype
     | CALC_TI89T \<Rightarrow> ti89t_byte2desc gettext vartype
     | CALC_TI89T_USB \<Rightarrow> ti89t_byte2desc gettext vartype
     | CALC_TI92 \<Rightarrow> ti92_byte2desc gettext vartype
     | CALC_TI92P \<Rightarrow> ti92p_byte2desc gettext vartype
     | CALC_V200 \<Rightarrow> v200_byte2desc gettext vartype
     | CALC_NSPIRE \<Rightarrow> tixx_byte2desc gettext NSP_CONST NSP_MAXTYPES vartype
     | _ \<Rightarrow> [])"

definition tifiles_vartype2icon :: "CalcModel \<Rightarrow> byte \<Rightarrow> string" where
  "tifiles_vartype2icon model vartype =
     (case model of
       CALC_TI73 \<Rightarrow> tixx_byte2icon TI73_CONST TI73_MAXTYPES vartype
     | CALC_TI82 \<Rightarrow> tixx_byte2icon TI82_CONST TI82_MAXTYPES vartype
     | CALC_TI83 \<Rightarrow> tixx_byte2icon TI83_CONST TI83_MAXTYPES vartype
     | CALC_TI83P \<Rightarrow> ti83p_byte2icon vartype
     | CALC_TI84P \<Rightarrow> ti84p_byte2icon vartype
     | CALC_TI84P_USB \<Rightarrow> ti84p_byte2icon vartype
     | CALC_TI82A_USB \<Rightarrow> ti82a_byte2icon vartype
     | CALC_TI84PT_USB \<Rightarrow> ti84pt_byte2icon vartype
     | CALC_TI84PC \<Rightarrow> ti84pc_byte2icon vartype
     | CALC_TI84PC_USB \<Rightarrow> ti84pc_byte2icon vartype
     | CALC_TI83PCE_USB \<Rightarrow> ti83pce_byte2icon vartype
     | CALC_TI84PCE_USB \<Rightarrow> ti84pce_byte2icon vartype
     | CALC_TI85 \<Rightarrow> tixx_byte2icon TI85_CONST TI85_MAXTYPES vartype
     | CALC_TI86 \<Rightarrow> tixx_byte2icon TI86_CONST TI86_MAXTYPES vartype
     | CALC_TI89 \<Rightarrow> ti89_byte2icon vartype
     | CALC_TI89T \<Rightarrow> ti89t_byte2icon vartype
     | CALC_TI89T_USB \<Rightarrow> ti89t_byte2icon vartype
     | CALC_TI92 \<Rightarrow> ti92_byte2icon vartype
     | CALC_TI92P \<Rightarrow> ti92p_byte2icon vartype
     | CALC_V200 \<Rightarrow> v200_byte2icon vartype
     | CALC_NSPIRE \<Rightarrow> tixx_byte2icon NSP_CONST NSP_MAXTYPES vartype
     | _ \<Rightarrow> [])"

definition tifiles_folder_type :: "CalcModel \<Rightarrow> byte" where
  "tifiles_folder_type model =
     (case model of
       CALC_NONE \<Rightarrow> - 1
     | CALC_TI73 \<Rightarrow> 0x19
     | CALC_TI80 \<Rightarrow> - 1
     | CALC_TI82 \<Rightarrow> - 1
     | CALC_TI83 \<Rightarrow> 0x19
     | CALC_TI83P \<Rightarrow> 0x19
     | CALC_TI84P \<Rightarrow> 0x19
     | CALC_TI84PC \<Rightarrow> 0x19
     | CALC_TI84P_USB \<Rightarrow> 0x19
     | CALC_TI84PC_USB \<Rightarrow> 0x19
     | CALC_TI83PCE_USB \<Rightarrow> 0x19
     | CALC_TI84PCE_USB \<Rightarrow> 0x19
     | CALC_TI82A_USB \<Rightarrow> 0x19
     | CALC_TI84PT_USB \<Rightarrow> 0x19
     | CALC_TI85 \<Rightarrow> - 1
     | CALC_TI86 \<Rightarrow> 0x15
     | CALC_TI89 \<Rightarrow> 0x1F
     | CALC_TI89T \<Rightarrow> 0x1F
     | CALC_TI89T_USB \<Rightarrow> 0x1F
     | CALC_TI92 \<Rightarrow> 0x1F
     | CALC_TI92P \<Rightarrow> 0x1F
     | CALC_V200 \<Rightarrow> 0x1F
     | CALC_NSPIRE \<Rightarrow> 0x01)"

definition tifiles_flash_type :: "CalcModel \<Rightarrow> byte" where
  "tifiles_flash_type model =
     (case model of
       CALC_NONE \<Rightarrow> - 1
     | CALC_TI73 \<Rightarrow> 0x24
     | CALC_TI80 \<Rightarrow> - 1
     | CALC_TI82 \<Rightarrow> - 1
     | CALC_TI83 \<Rightarrow> - 1
     | CALC_TI83P \<Rightarrow> 0x24
     | CALC_TI84P \<Rightarrow> 0x24
     | CALC_TI84PC \<Rightarrow> 0x24
     | CALC_TI84P_USB \<Rightarrow> 0x24
     | CALC_TI84PC_USB \<Rightarrow> 0x24
     | CALC_TI83PCE_USB \<Rightarrow> 0x24
     | CALC_TI84PCE_USB \<Rightarrow> 0x24
     | CALC_TI82A_USB \<Rightarrow> - 1
     | CALC_TI84PT_USB \<Rightarrow> - 1
     | CALC_TI85 \<Rightarrow> - 1
     | CALC_TI86 \<Rightarrow> - 1
     | CALC_TI89 \<Rightarrow> 0x24
     | CALC_TI89T \<Rightarrow> 0x24
     | CALC_TI89T_USB \<Rightarrow> 0x24
     | CALC_TI92 \<Rightarrow> - 1
     | CALC_TI92P \<Rightarrow> 0x24
     | CALC_V200 \<Rightarrow> 0x24
     | CALC_NSPIRE \<Rightarrow> - 1)"

definition tifiles_idlist_type :: "CalcModel \<Rightarrow> byte" where
  "tifiles_idlist_type model =
     (case model of
       CALC_NONE \<Rightarrow> - 1
     | CALC_TI73 \<Rightarrow> 0x26
     | CALC_TI80 \<Rightarrow> - 1
     | CALC_TI82 \<Rightarrow> - 1
     | CALC_TI83 \<Rightarrow> - 1
     | CALC_TI83P \<Rightarrow> 0x26
     | CALC_TI84P \<Rightarrow> 0x26
     | CALC_TI84PC \<Rightarrow> 0x26
     | CALC_TI84P_USB \<Rightarrow> 0x26
     | CALC_TI84PC_USB \<Rightarrow> 0x26
     | CALC_TI83PCE_USB \<Rightarrow> 0x26
     | CALC_TI84PCE_USB \<Rightarrow> 0x26
     | CALC_TI82A_USB \<Rightarrow> 0x26
     | CALC_TI84PT_USB \<Rightarrow> 0x26
     | CALC_TI85 \<Rightarrow> - 1
     | CALC_TI86 \<Rightarrow> - 1
     | CALC_TI89 \<Rightarrow> 0x22
     | CALC_TI89T \<Rightarrow> 0x22
     | CALC_TI89T_USB \<Rightarrow> 0x22
     | CALC_TI92 \<Rightarrow> - 1
     | CALC_TI92P \<Rightarrow> 0x22
     | CALC_V200 \<Rightarrow> 0x22
     | CALC_NSPIRE \<Rightarrow> - 1)"

definition tifiles_calctype2signature :: "CalcModel \<Rightarrow> string option" where
  "tifiles_calctype2signature model =
     (case model of
       CALC_NONE \<Rightarrow> Some ''**TI??**''
     | CALC_TI73 \<Rightarrow> Some ''**TI73**''
     | CALC_TI82 \<Rightarrow> Some ''**TI82**''
     | CALC_TI83 \<Rightarrow> Some ''**TI83**''
     | CALC_TI83P \<Rightarrow> Some ''**TI83F*''
     | CALC_TI84P \<Rightarrow> Some ''**TI83F*''
     | CALC_TI84PC \<Rightarrow> Some ''**TI83F*''
     | CALC_TI84P_USB \<Rightarrow> Some ''**TI83F*''
     | CALC_TI84PC_USB \<Rightarrow> Some ''**TI83F*''
     | CALC_TI83PCE_USB \<Rightarrow> Some ''**TI83F*''
     | CALC_TI84PCE_USB \<Rightarrow> Some ''**TI83F*''
     | CALC_TI82A_USB \<Rightarrow> Some ''**TI83F*''
     | CALC_TI84PT_USB \<Rightarrow> Some ''**TI83F*''
     | CALC_TI85 \<Rightarrow> Some ''**TI85**''
     | CALC_TI86 \<Rightarrow> Some ''**TI86**''
     | CALC_TI89 \<Rightarrow> Some ''**TI89**''
     | CALC_TI89T \<Rightarrow> Some ''**TI89**''
     | CALC_TI89T_USB \<Rightarrow> Some ''**TI89**''
     | CALC_TI92 \<Rightarrow> Some ''**TI92**''
     | CALC_TI92P \<Rightarrow> Some ''**TI92P*''
     | CALC_V200 \<Rightarrow> Some ''**TI92P*''
     | CALC_NSPIRE \<Rightarrow> Some ''''
     | _ \<Rightarrow> None)"

definition tifiles_signature2calctype :: "string option \<Rightarrow> CalcModel" where
  "tifiles_signature2calctype s =
     (case s of
        Some s \<Rightarrow>
          if same_string_nocase s ''**TI73**'' then CALC_TI73
          else if same_string_nocase s ''**TI82**'' then CALC_TI82
          else if same_string_nocase s ''**TI83**'' then CALC_TI83
          else if same_string_nocase s ''**TI83F*'' then CALC_TI83P
          else if same_string_nocase s ''**TI85**'' then CALC_TI85
          else if same_string_nocase s ''**TI86**'' then CALC_TI86
          else if same_string_nocase s ''**TI89**'' then CALC_TI89
          else if same_string_nocase s ''**TI92**'' then CALC_TI92
          else if same_string_nocase s ''**TI92P*'' then CALC_TI92P
          else if same_string_nocase s ''**V200**'' then CALC_V200
          else CALC_NONE
      | None \<Rightarrow> CALC_NONE)"

section \<open>What the searches find\<close>

lemma first_row_bounds: "i \<le> maxtypes \<Longrightarrow> i \<le> first_row hit table maxtypes i \<and> first_row hit table maxtypes i \<le> maxtypes"
proof (induction hit table maxtypes i rule: first_row.induct)
  case (1 hit table maxtypes i)
  then show ?case using first_row.simps [of hit table maxtypes i] by (cases "i < maxtypes") (auto split: if_splits)
qed

lemma first_row_hit: "first_row hit table maxtypes i < maxtypes \<Longrightarrow> hit (table ! first_row hit table maxtypes i)"
proof (induction hit table maxtypes i rule: first_row.induct)
  case (1 hit table maxtypes i)
  then show ?case using first_row.simps [of hit table maxtypes i] by (auto split: if_splits)
qed

lemma first_row_none:
  "first_row hit table maxtypes i = maxtypes \<Longrightarrow> i \<le> j \<Longrightarrow> j < maxtypes \<Longrightarrow> \<not> hit (table ! j)"
proof (induction hit table maxtypes i rule: first_row.induct)
  case (1 hit table maxtypes i)
  then show ?case
    using first_row.simps [of hit table maxtypes i] by (cases "j = i") (auto split: if_splits)
qed

lemma first_row_cases:
  assumes "maxtypes < 256"
  obtains (found) i where "unat (of_nat (first_row hit table maxtypes 0) :: byte) = i" "i < maxtypes" "hit (table ! i)"
  | (absent) "unat (of_nat (first_row hit table maxtypes 0) :: byte) = maxtypes" "\<And>j. j < maxtypes \<Longrightarrow> \<not> hit (table ! j)"
proof -
  let ?i = "first_row hit table maxtypes 0"
  have le: "?i \<le> maxtypes" using first_row_bounds [of 0 maxtypes hit table] by simp
  then have u: "unat (of_nat ?i :: byte) = ?i" using assms by (simp add: unat_of_nat take_bit_eq_mod)
  show thesis
  proof (cases "?i < maxtypes")
    case True
    then show ?thesis using first_row_hit [OF True] u found by simp
  next
    case False
    then show ?thesis using first_row_none [of hit table maxtypes 0] u le absent by simp
  qed
qed

text \<open>Every row of a table has text without a NUL and an extension of at least three characters.\<close>

definition plain_table :: "('a \<Rightarrow> string) \<Rightarrow> ('a \<Rightarrow> string) \<Rightarrow> 'a list \<Rightarrow> nat \<Rightarrow> bool" where
  "plain_table ext field table maxtypes \<longleftrightarrow>
     length table = maxtypes \<and> maxtypes < 256
     \<and> list_all (\<lambda>r. NUL \<notin> set (field r) \<and> NUL \<notin> set (ext r) \<and> length (ext r) \<ge> 3) table"

text \<open>No row without a question mark shares its type name with a row that has one.\<close>

definition names_apart :: "('a \<Rightarrow> string) \<Rightarrow> ('a \<Rightarrow> string) \<Rightarrow> 'a list \<Rightarrow> bool" where
  "names_apart ext field table \<longleftrightarrow>
     list_all (\<lambda>r. ext r ! 2 \<noteq> CHR ''?'' \<longrightarrow> list_all (\<lambda>r'. field r' = field r \<longrightarrow> ext r' ! 2 \<noteq> CHR ''?'') table) table"

lemma c_string_plain: "NUL \<notin> set s \<Longrightarrow> c_string s = s"
  unfolding c_string_def by (induction s) auto

lemma same_string_plain: "NUL \<notin> set a \<Longrightarrow> NUL \<notin> set b \<Longrightarrow> same_string a b \<longleftrightarrow> a = b"
  by (simp add: same_string_def c_string_plain)

lemma same_string_nocase_plain:
  "NUL \<notin> set a \<Longrightarrow> NUL \<notin> set b \<Longrightarrow> same_string_nocase a b \<longleftrightarrow> map g_ascii_tolower a = map g_ascii_tolower b"
  by (simp add: same_string_nocase_def c_string_plain)

lemma plain_row:
  assumes "plain_table ext field table maxtypes" "i < maxtypes"
  shows "NUL \<notin> set (field (table ! i))" "NUL \<notin> set (ext (table ! i))" "maxtypes < 256"
  using assms by (auto simp: plain_table_def list_all_length)

lemma known_row_plain:
  "plain_table ext field table maxtypes \<Longrightarrow> NUL \<notin> set (known_row ext field table maxtypes [] d)"
  by (simp add: known_row_def plain_row)

lemma row_fext_plain:
  "plain_table ext field table maxtypes \<Longrightarrow> NUL \<notin> set other \<Longrightarrow> NUL \<notin> set (row_fext ext table maxtypes other d)"
  by (simp add: row_fext_def plain_row)

lemma known_row_hit:
  "unat d < maxtypes \<Longrightarrow> ext (table ! unat d) ! 2 \<noteq> CHR ''?''
   \<Longrightarrow> known_row ext field table maxtypes other d = field (table ! unat d)"
  "unat d < maxtypes \<Longrightarrow> ext (table ! unat d) ! 2 = CHR ''?'' \<Longrightarrow> known_row ext field table maxtypes other d = other"
  "\<not> unat d < maxtypes \<Longrightarrow> known_row ext field table maxtypes other d = other"
  by (simp_all add: known_row_def)

lemma checked_type_back:
  fixes d :: byte
  assumes p: "plain_table ext field table maxtypes"
  defines "s \<equiv> known_row ext field table maxtypes [] d"
  shows "known_row ext field table maxtypes []
           (of_nat (first_row (\<lambda>r. same_string (field r) s \<and> ext r ! 2 \<noteq> CHR ''?'') table maxtypes 0)) = s"
proof -
  have s: "NUL \<notin> set s" unfolding s_def by (rule known_row_plain [OF p])
  have m: "maxtypes < 256" using p by (simp add: plain_table_def)
  show ?thesis
  proof (cases rule: first_row_cases [OF m, of "\<lambda>r. same_string (field r) s \<and> ext r ! 2 \<noteq> CHR ''?''" table])
    case (1 i)
    then show ?thesis using plain_row [OF p] s by (simp add: known_row_def same_string_plain)
  next
    case 2
    have "s = []"
    proof (rule ccontr)
      assume "s \<noteq> []"
      then have "unat d < maxtypes" "ext (table ! unat d) ! 2 \<noteq> CHR ''?''" "s = field (table ! unat d)"
        by (auto simp: s_def known_row_def split: if_splits)
      then show False using 2(2) [of "unat d"] by (simp add: same_string_def)
    qed
    then show ?thesis using 2(1) by (simp add: known_row_def)
  qed
qed

lemma unchecked_type_back:
  fixes d :: byte
  assumes p: "plain_table ext field table maxtypes" and n: "names_apart ext field table"
  defines "s \<equiv> known_row ext field table maxtypes [] d"
  shows "known_row ext field table maxtypes [] (of_nat (first_row (\<lambda>r. same_string (field r) s) table maxtypes 0)) = s"
proof -
  have s: "NUL \<notin> set s" unfolding s_def by (rule known_row_plain [OF p])
  have m: "maxtypes < 256" and l: "length table = maxtypes" using p by (simp_all add: plain_table_def)
  have d: "s \<noteq> [] \<Longrightarrow> unat d < maxtypes \<and> ext (table ! unat d) ! 2 \<noteq> CHR ''?'' \<and> s = field (table ! unat d)"
    by (auto simp: s_def known_row_def split: if_splits)
  show ?thesis
  proof (cases rule: first_row_cases [OF m, of "\<lambda>r. same_string (field r) s" table])
    case (1 i)
    then have i: "field (table ! i) = s" using plain_row [OF p] s by (simp add: same_string_plain)
    show ?thesis
    proof (cases "s = []")
      case True
      then show ?thesis using 1 i by (simp add: known_row_def)
    next
      case False
      then have "ext (table ! i) ! 2 \<noteq> CHR ''?''"
        using d n 1(2) i l unfolding names_apart_def list_all_length by metis
      then show ?thesis using 1 i by (simp add: known_row_def)
    qed
  next
    case 2
    have "s = []" using d 2(2) [of "unat d"] by (auto simp: same_string_def)
    then show ?thesis using 2(1) by (simp add: known_row_def)
  qed
qed

lemma fext_back:
  fixes d :: byte
  assumes p: "plain_table ext field table maxtypes" and o: "NUL \<notin> set other"
  defines "s \<equiv> row_fext ext table maxtypes other d"
  shows "map g_ascii_tolower
           (row_fext ext table maxtypes other
             (of_nat (first_row (\<lambda>r. same_string_nocase (ext r) s) table maxtypes 0))) = map g_ascii_tolower s"
proof -
  have s: "NUL \<notin> set s" unfolding s_def by (rule row_fext_plain [OF p o])
  have m: "maxtypes < 256" using p by (simp add: plain_table_def)
  show ?thesis
  proof (cases rule: first_row_cases [OF m, of "\<lambda>r. same_string_nocase (ext r) s" table])
    case (1 i)
    then show ?thesis using plain_row [OF p] s by (simp add: row_fext_def same_string_nocase_plain)
  next
    case 2
    have "s = other"
      using 2(2) [of "unat d"] by (auto simp: s_def row_fext_def same_string_nocase_def split: if_splits)
    then show ?thesis using 2(1) by (simp add: row_fext_def)
  qed
qed

section \<open>The tables are plain\<close>

lemma TI73_CONST_plain: "plain_table fext type TI73_CONST 48" "names_apart fext type TI73_CONST"
  by code_simp+

lemma TI82_CONST_plain: "plain_table fext type TI82_CONST 48" "names_apart fext type TI82_CONST"
  by code_simp+

lemma TI83_CONST_plain: "plain_table fext type TI83_CONST 48" "names_apart fext type TI83_CONST"
  by code_simp+

lemma TI85_CONST_plain: "plain_table fext type TI85_CONST 48" "names_apart fext type TI85_CONST"
  by code_simp+

lemma TI86_CONST_plain: "plain_table fext type TI86_CONST 48" "names_apart fext type TI86_CONST"
  by code_simp+

lemma NSP_CONST_plain: "plain_table fext type NSP_CONST 2" "names_apart fext type NSP_CONST"
  by code_simp+

lemma fext83p_plain: "plain_table fext83p type83p TI83p_CONST 48"
  by code_simp

lemma fext84pc_plain: "plain_table fext84pc type83p TI83p_CONST 48"
  by code_simp

lemma fext83pce_plain: "plain_table fext83pce type83p TI83p_CONST 48"
  by code_simp

lemma fext84pce_plain: "plain_table fext84pce type83p TI83p_CONST 48"
  by code_simp

lemma fext82a_plain: "plain_table fext82a type83p TI83p_CONST 48"
  by code_simp

lemma fext84pt_plain: "plain_table fext84pt type83p TI83p_CONST 48"
  by code_simp

lemma fext89_plain: "plain_table fext89 type68k TI68k_CONST 48"
  by code_simp

lemma fext92_plain: "plain_table fext92 type68k TI68k_CONST 48"
  by code_simp

lemma fext92p_plain: "plain_table fext92p type68k TI68k_CONST 48"
  by code_simp

lemma fextv200_plain: "plain_table fextv200 type68k TI68k_CONST 48"
  by code_simp

lemmas plain_tables =
  TI73_CONST_plain TI82_CONST_plain TI83_CONST_plain TI85_CONST_plain TI86_CONST_plain NSP_CONST_plain
  fext83p_plain fext84pc_plain fext83pce_plain fext84pce_plain fext82a_plain fext84pt_plain
  fext89_plain fext92_plain fext92p_plain fextv200_plain

lemmas byte2type_defs =
  tixx_byte2type_def ti83p_byte2type_def ti84pc_byte2type_def ti83pce_byte2type_def ti84pce_byte2type_def
  ti82a_byte2type_def ti84pt_byte2type_def ti89_byte2type_def ti92_byte2type_def ti92p_byte2type_def
  v200_byte2type_def

lemmas type2byte_defs =
  tixx_type2byte_def ti83p_type2byte_def ti84pc_type2byte_def ti83pce_type2byte_def ti84pce_type2byte_def
  ti82a_type2byte_def ti84pt_type2byte_def ti89_type2byte_def ti92_type2byte_def ti92p_type2byte_def
  v200_type2byte_def

lemmas byte2fext_defs =
  tixx_byte2fext_def ti83p_byte2fext_def ti84pc_byte2fext_def ti83pce_byte2fext_def ti84pce_byte2fext_def
  ti82a_byte2fext_def ti84pt_byte2fext_def ti89_byte2fext_def ti92_byte2fext_def ti92p_byte2fext_def
  v200_byte2fext_def

lemmas fext2byte_defs =
  tixx_fext2byte_def ti83p_fext2byte_def ti84pc_fext2byte_def ti83pce_fext2byte_def ti84pce_fext2byte_def
  ti82a_fext2byte_def ti84pt_fext2byte_def ti89_fext2byte_def ti92_fext2byte_def ti92p_fext2byte_def
  v200_fext2byte_def

lemma type_name_back:
  "tifiles_vartype2string m (tifiles_string2vartype m (Some (tifiles_vartype2string m d))) = tifiles_vartype2string m d"
  by (cases m)
    (simp_all add: tifiles_vartype2string_def tifiles_string2vartype_def byte2type_defs type2byte_defs
       checked_type_back unchecked_type_back plain_tables)

lemmas fext_tables_back =
  TI73_CONST_plain(1) [THEN fext_back] TI82_CONST_plain(1) [THEN fext_back] TI83_CONST_plain(1) [THEN fext_back]
  TI85_CONST_plain(1) [THEN fext_back] TI86_CONST_plain(1) [THEN fext_back] NSP_CONST_plain(1) [THEN fext_back]
  fext83p_plain [THEN fext_back] fext84pc_plain [THEN fext_back] fext83pce_plain [THEN fext_back]
  fext84pce_plain [THEN fext_back] fext82a_plain [THEN fext_back] fext84pt_plain [THEN fext_back]
  fext89_plain [THEN fext_back] fext92_plain [THEN fext_back] fext92p_plain [THEN fext_back]
  fextv200_plain [THEN fext_back]

lemma type_fext_back:
  "map g_ascii_tolower (tifiles_vartype2fext m (tifiles_fext2vartype m (Some (tifiles_vartype2fext m d))))
   = map g_ascii_tolower (tifiles_vartype2fext m d)"
  by (cases m)
    (simp_all add: tifiles_vartype2fext_def tifiles_fext2vartype_def byte2fext_defs fext2byte_defs
       fext_tables_back)

lemma signatures_read:
  "tifiles_signature2calctype (Some ''**TI??**'') = CALC_NONE"
  "tifiles_signature2calctype (Some ''**TI73**'') = CALC_TI73"
  "tifiles_signature2calctype (Some ''**TI82**'') = CALC_TI82"
  "tifiles_signature2calctype (Some ''**TI83**'') = CALC_TI83"
  "tifiles_signature2calctype (Some ''**TI83F*'') = CALC_TI83P"
  "tifiles_signature2calctype (Some ''**TI85**'') = CALC_TI85"
  "tifiles_signature2calctype (Some ''**TI86**'') = CALC_TI86"
  "tifiles_signature2calctype (Some ''**TI89**'') = CALC_TI89"
  "tifiles_signature2calctype (Some ''**TI92**'') = CALC_TI92"
  "tifiles_signature2calctype (Some ''**TI92P*'') = CALC_TI92P"
  by (simp_all add: tifiles_signature2calctype_def same_string_nocase_def g_ascii_tolower_def c_string_def)
    (simp_all add: char_of_def)

lemma signature_back:
  "m \<noteq> CALC_NSPIRE \<Longrightarrow> m \<noteq> CALC_TI80 \<Longrightarrow>
   tifiles_calctype2signature (tifiles_signature2calctype (tifiles_calctype2signature m)) = tifiles_calctype2signature m"
  by (cases m) (simp_all add: tifiles_calctype2signature_def signatures_read)

text \<open>
  The tables of variable types are inverse to each other on every model: looking up the name
  of a type and searching for that name gives a type of the same name, for every byte; the same
  holds for file extensions up to case; and the signature of every calculator but the Nspire is
  read back as a calculator with the same signature.
\<close>

lemma vartype_tables_inverse:
  "tifiles_vartype2string m (tifiles_string2vartype m (Some (tifiles_vartype2string m d))) = tifiles_vartype2string m d
   \<and> map g_ascii_tolower (tifiles_vartype2fext m (tifiles_fext2vartype m (Some (tifiles_vartype2fext m d))))
     = map g_ascii_tolower (tifiles_vartype2fext m d)
   \<and> (m \<noteq> CALC_NSPIRE \<and> m \<noteq> CALC_TI80 \<longrightarrow>
      (\<exists>sig. tifiles_calctype2signature m = Some sig
         \<and> tifiles_calctype2signature (tifiles_signature2calctype (Some sig)) = Some sig))"
proof -
  have "m \<noteq> CALC_TI80 \<Longrightarrow> \<exists>sig. tifiles_calctype2signature m = Some sig"
    by (cases m) (simp_all add: tifiles_calctype2signature_def)
  then show ?thesis using type_name_back type_fext_back signature_back by metis
qed

lemma first_row_absent:
  "length table = maxtypes \<Longrightarrow> list_all (\<lambda>r. \<not> hit r) table \<Longrightarrow> first_row hit table maxtypes 0 = maxtypes"
  using first_row_hit [of hit table maxtypes 0] first_row_bounds [of 0 maxtypes hit table]
  by (metis le0 le_neq_implies_less list_all_length)

definition no_String :: "('a \<Rightarrow> string) \<Rightarrow> 'a list \<Rightarrow> bool" where
  "no_String field table \<longleftrightarrow> list_all (\<lambda>r. \<not> same_string (field r) ''String'') table"

lemma no_String_row:
  assumes "plain_table ext field table maxtypes" "no_String field table"
  shows "first_row (\<lambda>r. same_string (field r) ''String'') table maxtypes 0 = maxtypes"
    "first_row (\<lambda>r. same_string (field r) ''String'' \<and> hit r) table maxtypes 0 = maxtypes"
  using assms by (auto intro!: first_row_absent simp: no_String_def plain_table_def list_all_iff)

lemma no_String_tables:
  "no_String type TI73_CONST" "no_String type TI82_CONST" "no_String type TI83_CONST" "no_String type TI85_CONST"
  "no_String type TI86_CONST" "no_String type83p TI83p_CONST" "no_String type68k TI68k_CONST"
  "no_String type NSP_CONST"
  by code_simp+

lemmas no_String_rows =
  TI73_CONST_plain(1) [THEN no_String_row(1)] TI82_CONST_plain(1) [THEN no_String_row(1)]
  TI83_CONST_plain(1) [THEN no_String_row(1)] TI85_CONST_plain(1) [THEN no_String_row(1)]
  TI86_CONST_plain(1) [THEN no_String_row(1)] NSP_CONST_plain(1) [THEN no_String_row(1)]
  fext83p_plain [THEN no_String_row(2)] fext89_plain [THEN no_String_row(2)]

lemma no_String_type:
  "m \<noteq> CALC_NONE \<Longrightarrow> m \<noteq> CALC_TI80 \<Longrightarrow>
   tifiles_string2vartype m (Some ''String'') = (if m = CALC_NSPIRE then 2 else 48)"
  by (cases m) (simp_all add: tifiles_string2vartype_def type2byte_defs no_String_rows no_String_tables)

lemma STR_type:
  "tifiles_calctype2signature m = Some ''**TI83F*'' \<Longrightarrow> tifiles_string2vartype m (Some ''STR'') = 4"
proof -
  have *: "tifiles_string2vartype CALC_TI83P (Some ''STR'') = 4" "tifiles_string2vartype CALC_TI84P (Some ''STR'') = 4"
    "tifiles_string2vartype CALC_TI84P_USB (Some ''STR'') = 4" "tifiles_string2vartype CALC_TI82A_USB (Some ''STR'') = 4"
    "tifiles_string2vartype CALC_TI84PT_USB (Some ''STR'') = 4" "tifiles_string2vartype CALC_TI84PC (Some ''STR'') = 4"
    "tifiles_string2vartype CALC_TI84PC_USB (Some ''STR'') = 4" "tifiles_string2vartype CALC_TI83PCE_USB (Some ''STR'') = 4"
    "tifiles_string2vartype CALC_TI84PCE_USB (Some ''STR'') = 4"
    by code_simp+
  assume "tifiles_calctype2signature m = Some ''**TI83F*''"
  then show ?thesis using * by (cases m) (simp_all add: tifiles_calctype2signature_def)
qed

lemma byte_48_unknown: "tifiles_vartype2string m 48 = []" "tifiles_vartype2string CALC_NSPIRE 2 = []"
  by (cases m) (simp_all add: tifiles_vartype2string_def byte2type_defs known_row_def)

text \<open>
  The type the application looks up for its strings does not exist.  The tables name the type
  by \<open>STR\<close> and keep \<open>String\<close> for its icon, so the search for \<open>String\<close> runs off the end of the
  table on every calculator with a table: the answer is the number of rows, which is not zero, so
  the caller's test for a failed search cannot fire, and no type of that number exists.  On the
  TI-83 Plus family the string type is 4.
\<close>

theorem string_type_lookup_misses:
  assumes "m \<noteq> CALC_NONE" "m \<noteq> CALC_TI80"
  shows "tifiles_string2vartype m (Some ''String'') \<noteq> 0
    \<and> tifiles_vartype2string m (tifiles_string2vartype m (Some ''String'')) = []
    \<and> (tifiles_calctype2signature m = Some ''**TI83F*'' \<longrightarrow>
         tifiles_string2vartype m (Some ''String'') = 48 \<and> tifiles_string2vartype m (Some ''STR'') = 4)"
proof -
  have "tifiles_calctype2signature m = Some ''**TI83F*'' \<Longrightarrow> m \<noteq> CALC_NSPIRE"
    by (auto simp: tifiles_calctype2signature_def)
  then show ?thesis using no_String_type [OF assms] byte_48_unknown(1) [of m] byte_48_unknown(2) STR_type [of m] by simp
qed

lemma string_type_lookup_misses_witness:
  "tifiles_string2vartype CALC_TI84P_USB (Some ''String'') = 48
   \<and> tifiles_string2vartype CALC_TI84P_USB (Some ''STR'') = 4"
  using string_type_lookup_misses [of CALC_TI84P_USB] by (simp add: tifiles_calctype2signature_def)

end
