(* ===== verification/Charset.thy ===== *)
theory Charset
  imports Prelude
begin

text \<open>
  The character sets of the calculators (\<open>libticonv\<close>, \<open>charset.cc\<close>): the eight tables and the
  conversions to and from UTF-16.  A UTF-16 string is the list of its code units, up to the
  terminating zero; TI text is a list of bytes up to the zero byte.  A
  conversion that would read past the terminator has the result \<open>None\<close>.  The buffers are as long
  as the callers make them, so the results are the written text.
\<close>

type_synonym utf16 = "16 word list"

section \<open>The tables\<close>

definition ti9x_charset :: "u64 list" where
  "ti9x_charset = [
    0, 1, 2, 3, 4, 5, 6, 7, 8, 9, 10, 0x2934, 12, 13, 0x2693, 0x2713,
    0x25FE, 0x25C2, 0x25B8, 0x25B4, 0x25BE, 0x2190, 0x2192, 0x2191, 0x2193, 0x25C0, 0x25B6, 0x2B06, 0x222A, 0x2229, 0x2282, 0x2208,
    32, 33, 34, 35, 36, 37, 38, 39, 40, 41, 42, 43, 44, 45, 46, 47,
    48, 49, 50, 51, 52, 53, 54, 55, 56, 57, 58, 59, 60, 61, 62, 63,
    64, 65, 66, 67, 68, 69, 70, 71, 72, 73, 74, 75, 76, 77, 78, 79,
    80, 81, 82, 83, 84, 85, 86, 87, 88, 89, 90, 91, 92, 93, 94, 95,
    96, 97, 98, 99, 100, 101, 102, 103, 104, 105, 106, 107, 108, 109, 110, 111,
    112, 113, 114, 115, 116, 117, 118, 119, 120, 121, 122, 123, 124, 125, 126, 0x25C6,
    0x3B1, 0x3B2, 0x393, 0x3B3, 0x394, 0x3B4, 0x3B5, 0x3B6, 0x3B8, 0x3BB, 0x3BE, 0x3A0, 0x3C0, 0x3C1, 0x3A3, 0x3C3,
    0x3C4, 0x3C6, 0x3C8, 0x3A9, 0x3C9, 0xD875DDA4, 0x212F, 0xD875DC8A, 0x2B3, 0x22BA, 0x780305, 0x790305, 0x2264, 0x2260, 0x2265, 0x2220,
    0x2026, 161, 162, 163, 164, 165, 166, 167, 0x221A, 169, 170, 171, 172, 0x2212, 174, 175,
    176, 177, 178, 179, 180, 181, 182, 183, 0x207A, 185, 186, 187, 0x2202, 0x222B, 0x221E, 191,
    192, 193, 194, 195, 196, 197, 198, 199, 200, 201, 202, 203, 204, 205, 206, 207,
    208, 209, 210, 211, 212, 213, 214, 215, 216, 217, 218, 219, 220, 221, 222, 223,
    224, 225, 226, 227, 228, 229, 230, 231, 232, 233, 234, 235, 236, 237, 238, 239,
    240, 241, 242, 243, 244, 245, 246, 247, 248, 249, 250, 251, 252, 253, 254, 255]"

definition ti73_charset :: "u64 list" where
  "ti73_charset = [
    0, 0x3B7, 117, 118, 119, 0x25B6, 0x2191, 0x2193, 0x222B, 120, 176, 184, 183, 0x22BA, 179, 70,
    0x221A, 180, 178, 0x2220, 176, 0x2B3, 0x22BA, 0x2264, 0x2260, 0x2265, 0x2212, 0xD875DDA4, 0x2192, 63, 0x2191, 0x2193,
    32, 33, 34, 35, 0x2074, 37, 38, 39, 40, 41, 42, 43, 44, 45, 46, 47,
    48, 49, 50, 51, 52, 53, 54, 55, 56, 57, 58, 59, 60, 61, 62, 63,
    64, 65, 66, 67, 68, 69, 70, 71, 72, 73, 74, 75, 76, 77, 78, 79,
    80, 81, 82, 83, 84, 85, 86, 87, 88, 89, 90, 0x3B8, 92, 93, 94, 95,
    96, 97, 98, 99, 100, 101, 102, 103, 104, 105, 106, 107, 108, 109, 110, 111,
    112, 113, 114, 115, 116, 117, 118, 119, 120, 121, 122, 123, 124, 125, 126, 61,
    0x2080, 0x2081, 0x2082, 0x2083, 0x2084, 0x2085, 0x2086, 0x2087, 0x2088, 0x2089, 193, 192, 194, 196, 225, 224,
    226, 228, 201, 200, 202, 204, 232, 231, 233, 235, 205, 204, 206, 207, 237, 236,
    238, 239, 211, 210, 212, 214, 243, 242, 244, 246, 218, 217, 219, 220, 250, 249,
    251, 252, 199, 231, 209, 204, 39, 96, 168, 191, 161, 0x3B1, 0x3B2, 0x3B3, 0x394, 0x3B4,
    0x3B5, 91, 0x3BB, 0x3BC, 0x3C0, 0x3C1, 0x3A3, 0x3C3, 0x3C4, 0x3D5, 0x3A9, 120, 121, 63, 0x2026, 0x25C0,
    0x25FE, 63, 0x2212, 178, 176, 179, 10, 95, 95, 169, 76, 0x212F, 76, 78, 95, 0x2192,
    95, 95, 95, 95, 95, 95, 95, 95, 95, 95, 95, 95, 95, 95, 95, 95,
    95, 95, 95, 95, 95, 95, 95, 95, 95, 95, 95, 95, 95, 95, 95, 95]"

definition ti80_charset :: "u64 list" where
  "ti80_charset = [
    32, 0x2588, 95, 0x2191, 65, 0x25B6, 37, 40, 41, 34, 44, 33, 176, 39, 0x2B3, 180,
    178, 97, 98, 99, 100, 101, 110, 114, 0x2423, 120, 121, 0x2081, 0x2080, 0x3C0, 0xFFFF, 61,
    88, 89, 84, 82, 0x3B8, 0x2025, 0x25A1, 0x207A, 0x2D9, 123, 125, 179, 46, 0x1D07, 0x2044, 58,
    48, 49, 50, 51, 52, 53, 54, 55, 56, 57, 61, 0x2260, 62, 0x2265, 60, 0x2264,
    63, 65, 66, 67, 68, 69, 70, 71, 72, 73, 74, 75, 76, 77, 78, 79,
    80, 81, 82, 83, 84, 85, 86, 87, 88, 89, 90, 0x3B8, 43, 45, 215, 47,
    94, 0x207B, 0x221A, 0x3A3, 0x3C3, 0x1E8B, 0x1E8F, 0x394, 0x1D1B, 0x2191, 0x2193, 0x2E3, 247, 95, 95, 95,
    95, 95, 95, 95, 95, 0x2592, 0x2AF0, 179, 95, 95, 95, 95, 95, 95, 95, 95,
    32, 0x2588, 95, 0x2191, 65, 0x25B6, 37, 40, 41, 34, 44, 33, 176, 39, 0x2B3, 180,
    178, 97, 98, 99, 100, 101, 110, 114, 0x2423, 120, 121, 0x2081, 0x2080, 0x3C0, 0xFFFF, 61,
    88, 89, 84, 82, 0x3B8, 0x2025, 0x25A1, 0x207A, 0x2D9, 123, 125, 179, 46, 0x1D07, 0x2044, 58,
    48, 49, 50, 51, 52, 53, 54, 55, 56, 57, 61, 0x2260, 62, 0x2265, 60, 0x2264,
    63, 65, 66, 67, 68, 69, 70, 71, 72, 73, 74, 75, 76, 77, 78, 79,
    80, 81, 82, 83, 84, 85, 86, 87, 88, 89, 90, 0x3B8, 43, 45, 215, 47,
    94, 0x207B, 0x221A, 0x3A3, 0x3C3, 0x1E8B, 0x1E8F, 0x394, 0x1D1B, 0x2191, 0x2193, 0x2E3, 247, 95, 95, 95,
    95, 95, 95, 95, 95, 0x2592, 0x2AF0, 179, 95, 95, 95, 95, 95, 95, 95, 95]"

definition ti82_charset :: "u64 list" where
  "ti82_charset = [
    0, 98, 111, 100, 104, 0x25B6, 0x2191, 0x2193, 0x222B, 120, 176, 184, 183, 0x22BA, 179, 70,
    0x221A, 180, 178, 0x2220, 176, 0x2B3, 0x22BA, 0x2264, 0x2260, 0x2265, 0x2212, 0xD875DDA4, 0x2192, 63, 0x2191, 0x2193,
    32, 33, 34, 35, 0x2074, 37, 38, 39, 40, 41, 42, 43, 44, 45, 46, 47,
    48, 49, 50, 51, 52, 53, 54, 55, 56, 57, 58, 59, 60, 61, 62, 63,
    64, 65, 66, 67, 68, 69, 70, 71, 72, 73, 74, 75, 76, 77, 78, 79,
    80, 81, 82, 83, 84, 85, 86, 87, 88, 89, 90, 0x3B8, 92, 93, 94, 95,
    96, 97, 98, 99, 100, 101, 102, 103, 104, 105, 106, 107, 108, 109, 110, 111,
    112, 113, 114, 115, 116, 117, 118, 119, 120, 121, 122, 123, 124, 125, 126, 61,
    0x2080, 0x2081, 0x2082, 0x2083, 0x2084, 0x2085, 0x2086, 0x2087, 0x2088, 0x2089, 193, 192, 194, 196, 225, 224,
    226, 228, 201, 200, 202, 204, 232, 231, 233, 235, 205, 204, 206, 207, 237, 236,
    238, 239, 211, 210, 212, 214, 243, 242, 244, 246, 218, 217, 219, 220, 250, 249,
    251, 252, 199, 231, 209, 204, 39, 96, 168, 191, 161, 0x3B1, 0x3B2, 0x3B3, 0x394, 0x3B4,
    0x3B5, 91, 0x3BB, 0x3BC, 0x3C0, 0x3C1, 0x3A3, 0x3C3, 0x3C4, 0x3D5, 0x3A9, 120, 121, 63, 0x2026, 0x25C0,
    0x25FE, 63, 0x2212, 178, 176, 179, 10, 0x3B7, 0x25B6, 95, 95, 95, 95, 95, 95, 95,
    95, 95, 95, 95, 95, 95, 95, 95, 95, 95, 95, 95, 95, 95, 95, 95,
    95, 95, 95, 95, 95, 95, 95, 95, 95, 95, 95, 95, 95, 95, 95, 95]"

definition ti83_charset :: "u64 list" where
  "ti83_charset = [
    0, 0x3B7, 117, 118, 119, 0x25B6, 0x2191, 0x2193, 0x222B, 120, 176, 184, 183, 0x22BA, 179, 70,
    0x221A, 180, 178, 0x2220, 176, 0x2B3, 0x22BA, 0x2264, 0x2260, 0x2265, 0x2212, 0xD875DDA4, 0x2192, 63, 0x2191, 0x2193,
    32, 33, 34, 35, 0x2074, 37, 38, 39, 40, 41, 42, 43, 44, 45, 46, 47,
    48, 49, 50, 51, 52, 53, 54, 55, 56, 57, 58, 59, 60, 61, 62, 63,
    64, 65, 66, 67, 68, 69, 70, 71, 72, 73, 74, 75, 76, 77, 78, 79,
    80, 81, 82, 83, 84, 85, 86, 87, 88, 89, 90, 0x3B8, 92, 93, 94, 95,
    96, 97, 98, 99, 100, 101, 102, 103, 104, 105, 106, 107, 108, 109, 110, 111,
    112, 113, 114, 115, 116, 117, 118, 119, 120, 121, 122, 123, 124, 125, 126, 61,
    0x2080, 0x2081, 0x2082, 0x2083, 0x2084, 0x2085, 0x2086, 0x2087, 0x2088, 0x2089, 193, 192, 194, 196, 225, 224,
    226, 228, 201, 200, 202, 204, 232, 231, 233, 235, 205, 204, 206, 207, 237, 236,
    238, 239, 211, 210, 212, 214, 243, 242, 244, 246, 218, 217, 219, 220, 250, 249,
    251, 252, 199, 231, 209, 204, 39, 96, 168, 191, 161, 0x3B1, 0x3B2, 0x3B3, 0x394, 0x3B4,
    0x3B5, 91, 0x3BB, 0x3BC, 0x3C0, 0x3C1, 0x3A3, 0x3C3, 0x3C4, 0x3D5, 0x3A9, 120, 121, 63, 0x2026, 0x25C0,
    0x25FE, 63, 0x2212, 178, 176, 179, 10, 0xD875DC8A, 63, 0x3C7, 70, 0x212F, 76, 78, 95, 0x2192,
    95, 95, 95, 95, 95, 95, 95, 95, 95, 95, 95, 95, 95, 95, 95, 95,
    95, 95, 95, 95, 95, 95, 95, 95, 95, 95, 95, 95, 95, 95, 95, 95]"

definition ti83p_charset :: "u64 list" where
  "ti83p_charset = [
    0, 0x3B7, 117, 118, 119, 0x25B6, 0x2191, 0x2193, 0x222B, 215, 176, 184, 183, 0x22BA, 179, 70,
    0x221A, 180, 178, 0x2220, 176, 0x2B3, 0x22BA, 0x2264, 0x2260, 0x2265, 0x2212, 0xD875DDA4, 0x2192, 63, 0x2191, 0x2193,
    32, 33, 34, 35, 0x2074, 37, 38, 39, 40, 41, 42, 43, 44, 45, 46, 47,
    48, 49, 50, 51, 52, 53, 54, 55, 56, 57, 58, 59, 60, 61, 62, 63,
    64, 65, 66, 67, 68, 69, 70, 71, 72, 73, 74, 75, 76, 77, 78, 79,
    80, 81, 82, 83, 84, 85, 86, 87, 88, 89, 90, 0x3B8, 92, 93, 94, 95,
    96, 97, 98, 99, 100, 101, 102, 103, 104, 105, 106, 107, 108, 109, 110, 111,
    112, 113, 114, 115, 116, 117, 118, 119, 120, 121, 122, 123, 124, 125, 126, 61,
    0x2080, 0x2081, 0x2082, 0x2083, 0x2084, 0x2085, 0x2086, 0x2087, 0x2088, 0x2089, 193, 192, 194, 196, 225, 224,
    226, 228, 201, 200, 202, 203, 233, 232, 234, 235, 205, 204, 206, 207, 237, 236,
    238, 239, 211, 210, 212, 214, 243, 242, 244, 246, 218, 217, 219, 220, 250, 249,
    251, 252, 199, 231, 209, 241, 39, 96, 168, 191, 161, 0x3B1, 0x3B2, 0x3B3, 0x394, 0x3B4,
    0x3B5, 91, 0x3BB, 0x3BC, 0x3C0, 0x3C1, 0x3A3, 0x3C3, 0x3C4, 0x3D5, 0x3A9, 0x780305, 0x790305, 164, 0x2026, 0x25C0,
    0x25FE, 63, 0x2212, 178, 176, 179, 10, 0xD875DC8A, 63, 0x3C7, 70, 0x212F, 76, 78, 95, 0x2192,
    95, 95, 95, 95, 95, 95, 95, 95, 95, 95, 95, 95, 95, 95, 95, 95,
    95, 95, 36, 95, 223, 95, 95, 95, 95, 95, 95, 95, 95, 95, 95, 95]"

definition ti85_charset :: "u64 list" where
  "ti85_charset = [
    0, 98, 111, 100, 104, 0x25B6, 0x2191, 0x2193, 0x222B, 120, 65, 66, 67, 68, 69, 70,
    0x221A, 180, 178, 0x2220, 176, 0x2B3, 0x22BA, 0x2264, 0x2260, 0x2265, 0x2212, 0xD875DDA4, 0x2192, 63, 0x2191, 0x2193,
    32, 33, 34, 35, 0x2074, 37, 38, 39, 40, 41, 42, 43, 44, 45, 46, 47,
    48, 49, 50, 51, 52, 53, 54, 55, 56, 57, 58, 59, 60, 61, 62, 63,
    64, 65, 66, 67, 68, 69, 70, 71, 72, 73, 74, 75, 76, 77, 78, 79,
    80, 81, 82, 83, 84, 85, 86, 87, 88, 89, 90, 91, 92, 93, 94, 95,
    96, 97, 98, 99, 100, 101, 102, 103, 104, 105, 106, 107, 108, 109, 110, 111,
    112, 113, 114, 115, 116, 117, 118, 119, 120, 121, 122, 123, 124, 125, 126, 61,
    0x2080, 0x2081, 0x2082, 0x2083, 0x2084, 0x2085, 0x2086, 0x2087, 0x2088, 0x2089, 193, 192, 194, 196, 225, 224,
    226, 228, 201, 200, 202, 204, 232, 231, 233, 235, 205, 204, 206, 207, 237, 236,
    238, 239, 211, 210, 212, 214, 243, 242, 244, 246, 218, 217, 219, 220, 250, 249,
    251, 252, 199, 231, 209, 204, 39, 96, 168, 191, 161, 0x3B1, 0x3B2, 0x3B3, 0x394, 0x3B4,
    0x3B5, 0x3B8, 0x3BB, 0x3BC, 0x3C0, 0x3C1, 0x3A3, 0x3C3, 0x3C4, 0x3D5, 0x3A9, 120, 121, 63, 0x2026, 0x25C0,
    0x25FE, 63, 0x2212, 178, 176, 179, 10, 0x26B6, 95, 95, 95, 95, 95, 95, 95, 95,
    95, 95, 95, 95, 95, 95, 95, 95, 95, 95, 95, 95, 95, 95, 95, 95,
    95, 95, 95, 95, 95, 95, 95, 95, 95, 95, 95, 95, 95, 95, 95, 95]"

definition ti86_charset :: "u64 list" where
  "ti86_charset = [
    0, 98, 111, 100, 104, 0x25B6, 0x2191, 0x2193, 0x222B, 120, 65, 66, 67, 68, 69, 70,
    0x221A, 180, 178, 0x2220, 176, 0x2B3, 0x22BA, 0x2264, 0x2260, 0x2265, 0x2212, 0xD875DDA4, 0x2192, 63, 0x2191, 0x2193,
    32, 33, 34, 35, 0x2074, 37, 38, 39, 40, 41, 42, 43, 44, 45, 46, 47,
    48, 49, 50, 51, 52, 53, 54, 55, 56, 57, 58, 59, 60, 61, 62, 63,
    64, 65, 66, 67, 68, 69, 70, 71, 72, 73, 74, 75, 76, 77, 78, 79,
    80, 81, 82, 83, 84, 85, 86, 87, 88, 89, 90, 91, 92, 93, 94, 95,
    96, 97, 98, 99, 100, 101, 102, 103, 104, 105, 106, 107, 108, 109, 110, 111,
    112, 113, 114, 115, 116, 117, 118, 119, 120, 121, 122, 123, 124, 125, 126, 61,
    0x2080, 0x2081, 0x2082, 0x2083, 0x2084, 0x2085, 0x2086, 0x2087, 0x2088, 0x2089, 193, 192, 194, 196, 225, 224,
    226, 228, 201, 200, 202, 204, 232, 231, 233, 235, 205, 204, 206, 207, 237, 236,
    238, 239, 211, 210, 212, 214, 243, 242, 244, 246, 218, 217, 219, 220, 250, 249,
    251, 252, 199, 231, 209, 204, 39, 96, 168, 191, 161, 0x3B1, 0x3B2, 0x3B3, 0x394, 0x3B4,
    0x3B5, 0x3B8, 0x3BB, 0x3BC, 0x3C0, 0x3C1, 0x3A3, 0x3C3, 0x3C4, 0x3D5, 0x3A9, 0x780305, 0x790305, 63, 0x2026, 0x25C0,
    0x25FE, 63, 0x2212, 178, 176, 179, 10, 0x26B6, 95, 95, 95, 95, 95, 95, 95, 95,
    95, 95, 95, 95, 95, 95, 95, 95, 95, 95, 95, 95, 95, 95, 95, 95,
    95, 95, 95, 95, 95, 95, 95, 95, 95, 95, 95, 95, 95, 95, 95, 95]"

section \<open>From a character set to UTF-16\<close>

definition units :: "u64 \<Rightarrow> utf16" where
  "units c = (if c < 0x10000 then [ucast c] else [ucast (drop_bit 16 c), ucast (c AND 0xffff)])"

definition ticonv_nonusb_to_utf16 :: "u64 list \<Rightarrow> bytes option \<Rightarrow> utf16 option" where
  "ticonv_nonusb_to_utf16 charset ti =
     map_option (\<lambda>p. concat (map (\<lambda>b. units (charset ! unat b)) (takeWhile (\<lambda>b. b \<noteq> 0) p))) ti"

section \<open>From UTF-16 to a character set\<close>

text \<open>The search loops: the first code with the value, else the byte written before.\<close>

fun code_of_loop :: "u64 list \<Rightarrow> u64 \<Rightarrow> u32 \<Rightarrow> u32 option" where
  "code_of_loop [] c i = None"
| "code_of_loop (v # vs) c i = (if v = c then Some i else code_of_loop vs c (i + 1))"

definition code_of :: "u64 list \<Rightarrow> u64 \<Rightarrow> byte \<Rightarrow> byte" where
  "code_of charset c otherwise =
     (case code_of_loop charset c 0 of Some i \<Rightarrow> ucast i | None \<Rightarrow> otherwise)"

fun utf16_to_nonusb_loop :: "u64 list \<Rightarrow> utf16 \<Rightarrow> bytes option" where
  "utf16_to_nonusb_loop charset [] = Some []"
| "utf16_to_nonusb_loop charset (c # p) =
     (if c AND 0xfc00 = 0xd800 then
        (case p of
           [] \<Rightarrow> None
         | d # p \<Rightarrow> map_option ((#) (code_of charset (push_bit 16 (ucast c) OR ucast d) 63)) (utf16_to_nonusb_loop charset p))
      else if c < 256 \<and> charset ! unat c = ucast c then
        (case p of
           [] \<Rightarrow> map_option ((#) (ucast c)) (utf16_to_nonusb_loop charset p)
         | d # p' \<Rightarrow>
             if c = 120 \<and> d = 0x0305 then
               map_option ((#) (code_of charset 0x00780305 (ucast c))) (utf16_to_nonusb_loop charset p')
             else if c = 121 \<and> d = 0x0305 then
               map_option ((#) (code_of charset 0x00790305 (ucast c))) (utf16_to_nonusb_loop charset p')
             else map_option ((#) (ucast c)) (utf16_to_nonusb_loop charset p))
      else map_option ((#) (code_of charset (ucast c) 63)) (utf16_to_nonusb_loop charset p))"

definition ticonv_utf16_to_nonusb :: "u64 list \<Rightarrow> utf16 option \<Rightarrow> bytes option" where
  "ticonv_utf16_to_nonusb charset utf16 =
     (case utf16 of
        None \<Rightarrow> None
      | Some p \<Rightarrow> utf16_to_nonusb_loop charset (takeWhile (\<lambda>c. c \<noteq> 0) p))"

text \<open>The TI-80 and the TI-83 Plus have loops of their own.\<close>

fun utf16_to_ti80_loop :: "utf16 \<Rightarrow> bytes option" where
  "utf16_to_ti80_loop [] = Some []"
| "utf16_to_ti80_loop (c # p) =
     (if (c \<ge> 48 \<and> c \<le> 57) \<or> (c \<ge> 65 \<and> c \<le> 90) then map_option ((#) (ucast c)) (utf16_to_ti80_loop p)
      else if c = 0x03b8 then map_option ((#) 91) (utf16_to_ti80_loop p)
      else if c = 0x3c0 then map_option (\<lambda>q. 29 # 30 # q) (utf16_to_ti80_loop p)
      else if c = 0x03a3 then map_option ((#) 99) (utf16_to_ti80_loop p)
      else if c = 0x03c3 then map_option ((#) 100) (utf16_to_ti80_loop p)
      else if c = 0x2080 then map_option ((#) 28) (utf16_to_ti80_loop p)
      else if c = 0x2081 then map_option ((#) 27) (utf16_to_ti80_loop p)
      else if c \<ge> 0xd800 \<and> c \<le> 0xdbff then
        (case p of [] \<Rightarrow> None | _ # p \<Rightarrow> map_option ((#) 64) (utf16_to_ti80_loop p))
      else map_option ((#) 64) (utf16_to_ti80_loop p))"

text \<open>The switch of \<open>ticonv_utf16_to_ti83p\<close>.\<close>

definition ti83p_switch :: "(16 word \<times> byte) list" where
  "ti83p_switch = [
    (0x3B7, 1), (0x2074, 36), (0x3B8, 91), (0x2080, 128), (0x2081, 129), (0x2082, 130), (0x2083, 131), (0x2084, 132),
    (0x2085, 133), (0x2086, 134), (0x2087, 135), (0x2088, 136), (0x2089, 137), (193, 138), (192, 139), (194, 140),
    (196, 141), (225, 142), (224, 143), (226, 144), (228, 145), (201, 146), (200, 147), (202, 148),
    (203, 149), (233, 150), (232, 151), (234, 152), (235, 153), (205, 154), (204, 155), (206, 156),
    (207, 157), (237, 158), (236, 159), (238, 160), (239, 161), (211, 162), (210, 163), (212, 164),
    (214, 165), (243, 166), (242, 167), (244, 168), (246, 169), (218, 170), (217, 171), (219, 172),
    (220, 173), (250, 174), (249, 175), (251, 176), (252, 177), (199, 178), (231, 179), (209, 180),
    (241, 181), (0x3B1, 187), (0x3B2, 188), (0x3B3, 189), (0x394, 190), (0x3B4, 191), (0x3B5, 192), (91, 193),
    (0x3BB, 194), (0x3BC, 195), (0x3C0, 196), (0x3C1, 197), (0x3A3, 198), (0x3C3, 199), (0x3C4, 200), (0x3D5, 201),
    (0x3A9, 202)]"

fun utf16_to_ti83p_loop :: "utf16 \<Rightarrow> bytes option" where
  "utf16_to_ti83p_loop [] = Some []"
| "utf16_to_ti83p_loop (c # p) =
     (if (c \<ge> 32 \<and> c \<le> 35) \<or> (c \<ge> 37 \<and> c \<le> 90) \<or> (c \<ge> 92 \<and> c \<le> 126)
      then map_option ((#) (ucast c)) (utf16_to_ti83p_loop p)
      else (case map_of ti83p_switch c of
              Some b \<Rightarrow> map_option ((#) b) (utf16_to_ti83p_loop p)
            | None \<Rightarrow>
                if c \<ge> 0xd800 \<and> c \<le> 0xdbff then
                  (case p of [] \<Rightarrow> None | _ # p \<Rightarrow> map_option ((#) 63) (utf16_to_ti83p_loop p))
                else map_option ((#) 63) (utf16_to_ti83p_loop p)))"

section \<open>The conversions by model\<close>

definition ticonv_ti9x_to_utf16 :: "bytes option \<Rightarrow> utf16 option" where
  "ticonv_ti9x_to_utf16 ti = ticonv_nonusb_to_utf16 ti9x_charset ti"

definition ticonv_utf16_to_ti9x :: "utf16 option \<Rightarrow> bytes option" where
  "ticonv_utf16_to_ti9x utf16 = ticonv_utf16_to_nonusb ti9x_charset utf16"

definition ticonv_ti73_to_utf16 :: "bytes option \<Rightarrow> utf16 option" where
  "ticonv_ti73_to_utf16 ti = ticonv_nonusb_to_utf16 ti73_charset ti"

definition ticonv_utf16_to_ti73 :: "utf16 option \<Rightarrow> bytes option" where
  "ticonv_utf16_to_ti73 utf16 = ticonv_utf16_to_nonusb ti73_charset utf16"

definition ticonv_ti80_to_utf16 :: "bytes option \<Rightarrow> utf16 option" where
  "ticonv_ti80_to_utf16 ti = ticonv_nonusb_to_utf16 ti80_charset ti"

definition ticonv_utf16_to_ti80 :: "utf16 option \<Rightarrow> bytes option" where
  "ticonv_utf16_to_ti80 utf16 = (case utf16 of None \<Rightarrow> None | Some p \<Rightarrow> utf16_to_ti80_loop (takeWhile (\<lambda>c. c \<noteq> 0) p))"

definition ticonv_ti82_to_utf16 :: "bytes option \<Rightarrow> utf16 option" where
  "ticonv_ti82_to_utf16 ti = ticonv_nonusb_to_utf16 ti82_charset ti"

definition ticonv_utf16_to_ti82 :: "utf16 option \<Rightarrow> bytes option" where
  "ticonv_utf16_to_ti82 utf16 = ticonv_utf16_to_nonusb ti82_charset utf16"

definition ticonv_ti83_to_utf16 :: "bytes option \<Rightarrow> utf16 option" where
  "ticonv_ti83_to_utf16 ti = ticonv_nonusb_to_utf16 ti83_charset ti"

definition ticonv_utf16_to_ti83 :: "utf16 option \<Rightarrow> bytes option" where
  "ticonv_utf16_to_ti83 utf16 = ticonv_utf16_to_nonusb ti83_charset utf16"

definition ticonv_ti83p_to_utf16 :: "bytes option \<Rightarrow> utf16 option" where
  "ticonv_ti83p_to_utf16 ti = ticonv_nonusb_to_utf16 ti83p_charset ti"

definition ticonv_utf16_to_ti83p :: "utf16 option \<Rightarrow> bytes option" where
  "ticonv_utf16_to_ti83p utf16 = (case utf16 of None \<Rightarrow> None | Some p \<Rightarrow> utf16_to_ti83p_loop (takeWhile (\<lambda>c. c \<noteq> 0) p))"

definition ticonv_ti85_to_utf16 :: "bytes option \<Rightarrow> utf16 option" where
  "ticonv_ti85_to_utf16 ti = ticonv_nonusb_to_utf16 ti85_charset ti"

definition ticonv_utf16_to_ti85 :: "utf16 option \<Rightarrow> bytes option" where
  "ticonv_utf16_to_ti85 utf16 = ticonv_utf16_to_nonusb ti85_charset utf16"

definition ticonv_ti86_to_utf16 :: "bytes option \<Rightarrow> utf16 option" where
  "ticonv_ti86_to_utf16 ti = ticonv_nonusb_to_utf16 ti86_charset ti"

definition ticonv_utf16_to_ti86 :: "utf16 option \<Rightarrow> bytes option" where
  "ticonv_utf16_to_ti86 utf16 = ticonv_utf16_to_nonusb ti86_charset utf16"

section \<open>Text that survives the way through UTF-16\<close>

text \<open>
  A code survives when, alone, it comes back.  Its units are not zero, which would end the string,
  and do not begin with the combining overline, which the way back joins to the character before it.
\<close>

definition survives :: "u64 list \<Rightarrow> byte \<Rightarrow> bool" where
  "survives charset b \<longleftrightarrow> b \<noteq> 0 \<and> 0 \<notin> set (units (charset ! unat b))
     \<and> hd (units (charset ! unat b)) \<noteq> 0x0305
     \<and> utf16_to_nonusb_loop charset (units (charset ! unat b)) = Some [b]"

lemma units_ne [simp]: "units v \<noteq> []"
  by (simp add: units_def)

lemma nonusb_loop_ne: "utf16_to_nonusb_loop t (c # p) \<noteq> Some []"
  by (auto simp: utf16_to_nonusb_loop.simps(2) split: list.splits)

declare utf16_to_nonusb_loop.simps(2) [simp del]

lemma nonusb_two_units:
  assumes "c AND 0xfc00 \<noteq> 0xd800"
    and "\<not> (c < 256 \<and> t ! unat c = ucast c \<and> (c = 120 \<or> c = 121) \<and> d = 0x0305)"
  shows "\<exists>x. utf16_to_nonusb_loop t [c, d] = map_option ((#) x) (utf16_to_nonusb_loop t [d])"
proof (cases "c < 256 \<and> t ! unat c = ucast c")
  case True
  then have "utf16_to_nonusb_loop t [c, d] = map_option ((#) (ucast c)) (utf16_to_nonusb_loop t [d])"
    using assms utf16_to_nonusb_loop.simps(2) [of t c "[d]"] by(auto)
  then show ?thesis by blast
next
  case False
  then have "utf16_to_nonusb_loop t [c, d] = map_option ((#) (code_of t (ucast c) 63)) (utf16_to_nonusb_loop t [d])"
    using assms utf16_to_nonusb_loop.simps(2) [of t c "[d]"] by(auto)
  then show ?thesis by blast
qed

text \<open>A code that survives alone survives in front of any text that does not begin with an overline.\<close>

lemma survives_advances:
  assumes "survives t b" and rest: "rest = [] \<or> hd rest \<noteq> 0x0305"
  shows "utf16_to_nonusb_loop t (units (t ! unat b) @ rest) = map_option ((#) b) (utf16_to_nonusb_loop t rest)"
proof -
  let ?v = "t ! unat b"
  have s: "utf16_to_nonusb_loop t (units ?v) = Some [b]" using assms(1) by (simp add: survives_def)
  show ?thesis
  proof (cases "?v < 0x10000")
    case True
    then show ?thesis using s rest
      by (cases rest) (auto simp: units_def utf16_to_nonusb_loop.simps(2) split: if_splits)
  next
    case False
    let ?c = "ucast (drop_bit 16 ?v) :: 16 word" and ?d = "ucast (?v AND 0xffff) :: 16 word"
    have u: "units ?v = [?c, ?d]" using False by (simp add: units_def)
    show ?thesis
    proof (cases "?c AND 0xfc00 = 0xd800")
      case True
      then show ?thesis using s by (simp add: u utf16_to_nonusb_loop.simps(2))
    next
      case n: False
      have "?c < 256 \<and> t ! unat ?c = ucast ?c \<and> (?c = 120 \<or> ?c = 121) \<and> ?d = 0x0305"
      proof (rule ccontr)
        assume "\<not> ?thesis"
        from nonusb_two_units [OF n this] obtain x
          where "utf16_to_nonusb_loop t [?c, ?d] = map_option ((#) x) (utf16_to_nonusb_loop t [?d])" by blast
        then have "map_option ((#) x) (utf16_to_nonusb_loop t [?d]) = Some [b]" using s u by simp
        then show False using nonusb_loop_ne [of t ?d "[]"] by (cases "utf16_to_nonusb_loop t [?d]") auto
      qed
      then show ?thesis using s n by (auto simp: u utf16_to_nonusb_loop.simps(2))
    qed
  qed
qed

lemma survives_all:
  assumes s: "\<And>b. b \<in> set s \<Longrightarrow> survives t b"
  shows "utf16_to_nonusb_loop t (concat (map (\<lambda>b. units (t ! unat b)) s)) = Some s"
  using s
proof (induction s)
  case (Cons b s)
  let ?rest = "concat (map (\<lambda>b. units (t ! unat b)) s)"
  have "?rest = [] \<or> hd ?rest \<noteq> 0x0305"
  proof (cases s)
    case (Cons a as)
    then show ?thesis using Cons.prems [of a] Cons by (simp add: survives_def)
  qed simp
  then show ?case using survives_advances [of t b ?rest] Cons by simp
qed simp

lemma nonusb_roundtrip:
  assumes s: "\<And>b. b \<in> set s \<Longrightarrow> survives t b"
  shows "ticonv_utf16_to_nonusb t (ticonv_nonusb_to_utf16 t (Some s)) = Some s"
proof -
  have z: "\<And>b. b \<in> set s \<Longrightarrow> b \<noteq> 0" using s by (auto simp: survives_def)
  then have 1: "takeWhile (\<lambda>b. b \<noteq> 0) s = s" by (simp add: takeWhile_eq_all_conv)
  have "u \<noteq> 0" if "u \<in> set (concat (map (\<lambda>b. units (t ! unat b)) s))" for u
    using that s by (auto simp: survives_def)
  then have 2: "takeWhile (\<lambda>c. c \<noteq> 0) (concat (map (\<lambda>b. units (t ! unat b)) s))
      = concat (map (\<lambda>b. units (t ! unat b)) s)"
    by (subst takeWhile_eq_all_conv) blast
  show ?thesis
    unfolding ticonv_utf16_to_nonusb_def ticonv_nonusb_to_utf16_def
    using survives_all [OF s] by (simp add: 1 2)
qed

section \<open>The same for the TI-83 Plus\<close>

definition survives83p :: "byte \<Rightarrow> bool" where
  "survives83p b \<longleftrightarrow> b \<noteq> 0 \<and> utf16_to_ti83p_loop (units (ti83p_charset ! unat b)) = Some [b]
     \<and> 0 \<notin> set (units (ti83p_charset ! unat b)) \<and> length (units (ti83p_charset ! unat b)) = 1"

lemma survives83p_advances:
  assumes "survives83p b"
  shows "utf16_to_ti83p_loop (units (ti83p_charset ! unat b) @ rest) = map_option ((#) b) (utf16_to_ti83p_loop rest)"
proof -
  from assms obtain c where "units (ti83p_charset ! unat b) = [c]" "utf16_to_ti83p_loop [c] = Some [b]"
    by (auto simp: survives83p_def length_Suc_conv)
  then show ?thesis by (auto split: if_splits option.splits)
qed

lemma survives83p_all:
  "(\<And>b. b \<in> set s \<Longrightarrow> survives83p b) \<Longrightarrow>
   utf16_to_ti83p_loop (concat (map (\<lambda>b. units (ti83p_charset ! unat b)) s)) = Some s"
  by (induction s) (simp_all add: survives83p_advances)

lemma ti83p_roundtrip:
  assumes s: "\<And>b. b \<in> set s \<Longrightarrow> survives83p b"
  shows "ticonv_utf16_to_ti83p (ticonv_ti83p_to_utf16 (Some s)) = Some s"
proof -
  have z: "\<And>b. b \<in> set s \<Longrightarrow> b \<noteq> 0" using s by (auto simp: survives83p_def)
  then have 1: "takeWhile (\<lambda>b. b \<noteq> 0) s = s" by (simp add: takeWhile_eq_all_conv)
  have "u \<noteq> 0" if "u \<in> set (concat (map (\<lambda>b. units (ti83p_charset ! unat b)) s))" for u
    using that s by (auto simp: survives83p_def)
  then have 2: "takeWhile (\<lambda>c. c \<noteq> 0) (concat (map (\<lambda>b. units (ti83p_charset ! unat b)) s))
      = concat (map (\<lambda>b. units (ti83p_charset ! unat b)) s)"
    by (subst takeWhile_eq_all_conv) blast
  show ?thesis
    unfolding ticonv_utf16_to_ti83p_def ticonv_ti83p_to_utf16_def ticonv_nonusb_to_utf16_def
    using survives83p_all [OF s] by (simp add: 1 2)
qed

section \<open>Printable text\<close>

lemma ucast_byte:
  fixes b :: byte
  shows "unat (ucast b :: 16 word) = unat b" "unat (ucast b :: u64) = unat b" "unat b < 256"
    "ucast (ucast b :: 16 word) = (ucast b :: u64)" "ucast (ucast b :: u64) = (ucast b :: 16 word)"
    "ucast (ucast b :: 16 word) = b"
proof -
  have "unat b < 2 ^ LENGTH(8)" by (rule unsigned_less)
  then show l: "unat b < 256" by simp
  then show u: "unat (ucast b :: 16 word) = unat b" "unat (ucast b :: u64) = unat b"
    by (simp_all add: unsigned_ucast_eq take_bit_nat_eq_self)
  have "unat (ucast (ucast b :: 16 word) :: u64) = unat (ucast b :: u64)"
    using l by (simp only: unsigned_ucast_eq [of "ucast b :: 16 word"] u(1,2)) (simp add: take_bit_nat_def)
  then show "ucast (ucast b :: 16 word) = (ucast b :: u64)" by (simp only: word_unat_eq_iff)
  have "unat (ucast (ucast b :: u64) :: 16 word) = unat (ucast b :: 16 word)"
    using l by (simp only: unsigned_ucast_eq [of "ucast b :: u64"] u(1,2)) (simp add: take_bit_nat_def)
  then show "ucast (ucast b :: u64) = (ucast b :: 16 word)" by (simp only: word_unat_eq_iff)
  have "unat (ucast (ucast b :: 16 word) :: byte) = unat b"
    using l by (simp only: unsigned_ucast_eq [of "ucast b :: 16 word"] u(1,2)) (simp add: take_bit_nat_def)
  then show "ucast (ucast b :: 16 word) = b" by (simp only: word_unat_eq_iff)
qed

lemma identity_units: "t ! unat b = ucast (b :: byte) \<Longrightarrow> units (t ! unat b) = [ucast b]"
  using ucast_byte(2,3) [of b] by (simp add: units_def word_less_nat_alt ucast_byte(5))

lemma identity_survives:
  assumes t: "t ! unat b = ucast b" and "b \<noteq> 0"
  shows "survives t b"
proof -
  have l: "(ucast b :: 16 word) < 256" using ucast_byte(1,3) [of b] by (simp add: word_less_nat_alt)
  have "(ucast b :: 16 word) AND 0xfc00 \<le> ucast b" by (rule word_and_le2)
  with l have "(ucast b :: 16 word) AND 0xfc00 < 256" by (rule le_less_trans [rotated])
  then have "(ucast b :: 16 word) AND 0xfc00 \<noteq> 0xd800" by auto
  then have "utf16_to_nonusb_loop t [ucast b] = Some [b]"
    using assms l by (simp add: ucast_byte(1,4,6) utf16_to_nonusb_loop.simps(2))
  moreover have "(ucast b :: 16 word) \<noteq> 0" "(ucast b :: 16 word) \<noteq> 0x0305"
    using assms(2) l ucast_byte(6) [of b] by (metis unsigned_0, auto)
  ultimately show ?thesis using assms(2) by (simp add: survives_def identity_units [OF t])
qed
definition same_at :: "u64 list \<Rightarrow> nat list \<Rightarrow> bool" where
  "same_at t ns \<longleftrightarrow> list_all (\<lambda>n. t ! n = of_nat n) ns"


lemma same_at_survives:
  assumes "same_at t ns" "unat b \<in> set ns" "b \<noteq> 0"
  shows "survives t b"
proof (rule identity_survives)
  have "t ! unat b = of_nat (unat b)" using assms by (simp add: same_at_def list_all_iff)
  then show "t ! unat b = ucast b" by simp
qed (rule assms)

definition run_at :: "u64 list \<Rightarrow> nat \<Rightarrow> nat \<Rightarrow> bool" where
  "run_at t m n \<longleftrightarrow> take (n - m) (drop m t) = map of_nat [m..<n]"

lemma run_at_same: "run_at t m n \<Longrightarrow> same_at t [m..<n]"
proof -
  assume r: "run_at t m n"
  have "t ! k = of_nat k" if k: "m \<le> k" "k < n" for k
  proof -
    have l: "length (take (n - m) (drop m t)) = n - m" using r by (simp add: run_at_def)
    have "t ! k = take (n - m) (drop m t) ! (k - m)" using k l by (simp add: min_def split: if_splits)
    also have "\<dots> = map of_nat [m..<n] ! (k - m)" using r by (simp only: run_at_def)
    also have "\<dots> = of_nat k" using k by simp
    finally show ?thesis .
  qed
  then show ?thesis by (simp add: same_at_def list_all_iff)
qed

lemma runs:
  "run_at ti9x_charset 32 36" "run_at ti9x_charset 37 91" "run_at ti9x_charset 92 127"
  "run_at ti73_charset 32 36" "run_at ti73_charset 37 91" "run_at ti73_charset 92 127"
  "run_at ti82_charset 32 36" "run_at ti82_charset 37 91" "run_at ti82_charset 92 127"
  "run_at ti83_charset 32 36" "run_at ti83_charset 37 91" "run_at ti83_charset 92 127"
  "run_at ti83p_charset 32 36" "run_at ti83p_charset 37 91" "run_at ti83p_charset 92 127"
  "run_at ti85_charset 32 36" "run_at ti85_charset 37 91" "run_at ti85_charset 92 127"
  "run_at ti86_charset 32 36" "run_at ti86_charset 37 91" "run_at ti86_charset 92 127"
  by (simp_all add: run_at_def ti9x_charset_def ti73_charset_def ti82_charset_def ti83_charset_def
      ti83p_charset_def ti85_charset_def ti86_charset_def upt_rec_numeral)

lemmas same_tables = runs [THEN run_at_same]

definition nonusb_tables :: "u64 list set" where
  "nonusb_tables = {ti9x_charset, ti73_charset, ti82_charset, ti83_charset, ti85_charset, ti86_charset}"

text \<open>Codes 36 and 91, the dollar sign and the bracket of ASCII, are other signs in some sets.\<close>

definition printable :: "byte \<Rightarrow> bool" where
  "printable b \<longleftrightarrow> 32 \<le> b \<and> b \<le> 126 \<and> b \<noteq> 36 \<and> b \<noteq> 91"

lemma printable_cases:
  assumes "printable b"
  shows "b \<noteq> 0" "unat b \<in> set [32..<36] \<or> unat b \<in> set [37..<91] \<or> unat b \<in> set [92..<127]"
proof -
  have r: "32 \<le> unat b" "unat b \<le> 126" using assms by (simp_all add: printable_def word_le_nat_alt)
  then show "b \<noteq> 0" by auto
  have "unat b \<noteq> 36" "unat b \<noteq> 91" using assms by (simp_all add: printable_def word_unat_eq_iff)
  then have "unat b \<in> {32..<36} \<or> unat b \<in> {37..<91} \<or> unat b \<in> {92..<127}" using r by auto
  then show "unat b \<in> set [32..<36] \<or> unat b \<in> set [37..<91] \<or> unat b \<in> set [92..<127]"
    unfolding set_upt .
qed

lemma printable_runs:
  assumes "t \<in> nonusb_tables"
  shows "same_at t [32..<36]" "same_at t [37..<91]" "same_at t [92..<127]"
  using assms unfolding nonusb_tables_def
  by (elim insertE emptyE; simp only: same_tables)+

lemma printable_survives:
  assumes "t \<in> nonusb_tables" "printable b"
  shows "survives t b"
  using printable_cases [OF assms(2)] printable_runs [OF assms(1)]
  by (metis same_at_survives)

lemma ti83p_plain:
  "(c \<ge> 32 \<and> c \<le> 35) \<or> (c \<ge> 37 \<and> c \<le> 90) \<or> (c \<ge> 92 \<and> c \<le> 126) \<Longrightarrow>
   utf16_to_ti83p_loop (c # p) = map_option ((#) (ucast c)) (utf16_to_ti83p_loop p)"
  unfolding utf16_to_ti83p_loop.simps(2) by (rule if_P)

lemma printable_survives83p:
  assumes "printable b"
  shows "survives83p b"
proof -
  let ?c = "ucast b :: 16 word"
  have "same_at ti83p_charset ns \<Longrightarrow> unat b \<in> set ns \<Longrightarrow> ti83p_charset ! unat b = of_nat (unat b)" for ns
    by (simp add: same_at_def list_all_iff)
  then have t: "ti83p_charset ! unat b = ucast b" using printable_cases(2) [OF assms] same_tables(13,14,15) by auto
  have "(?c \<ge> 32 \<and> ?c \<le> 35) \<or> (?c \<ge> 37 \<and> ?c \<le> 90) \<or> (?c \<ge> 92 \<and> ?c \<le> 126)"
    using printable_cases(2) [OF assms] unfolding word_le_nat_alt ucast_byte(1) set_upt by auto
  then have "utf16_to_ti83p_loop [?c] = Some [b]"
    by (simp only: ti83p_plain utf16_to_ti83p_loop.simps(1) option.map ucast_byte(6))
  moreover have "?c \<noteq> 0" using printable_cases(1) [OF assms] ucast_byte(6) [of b] by (metis unsigned_0)
  ultimately show ?thesis using printable_cases(1) [OF assms] by (simp add: survives83p_def identity_units [OF t, unfolded t] t)
qed

text \<open>
  Text survives the way from a calculator's character set to UTF-16 and back.  On every
  calculator whose set has a table (but the TI-80, whose reverse is unfinished), a byte string
  comes back unchanged if each of its bytes does alone; every printable ASCII character does, the
  dollar sign and the opening bracket apart.
\<close>

theorem charset_roundtrip:
  "(t \<in> nonusb_tables \<and> (\<forall>b\<in>set s. printable b \<or> survives t b) \<longrightarrow>
      ticonv_utf16_to_nonusb t (ticonv_nonusb_to_utf16 t (Some s)) = Some s)
   \<and> ((\<forall>b\<in>set s. printable b \<or> survives83p b) \<longrightarrow>
      ticonv_utf16_to_ti83p (ticonv_ti83p_to_utf16 (Some s)) = Some s)"
proof (intro conjI impI; (elim conjE)?)
  assume "t \<in> nonusb_tables" "\<forall>b\<in>set s. printable b \<or> survives t b"
  then show "ticonv_utf16_to_nonusb t (ticonv_nonusb_to_utf16 t (Some s)) = Some s"
    using printable_survives by (blast intro: nonusb_roundtrip)
next
  assume "\<forall>b\<in>set s. printable b \<or> survives83p b"
  then show "ticonv_utf16_to_ti83p (ticonv_ti83p_to_utf16 (Some s)) = Some s"
    using printable_survives83p by (blast intro: ti83p_roundtrip)
qed

lemma charset_roundtrip_witness:
  "ticonv_utf16_to_nonusb ti83_charset (ticonv_nonusb_to_utf16 ti83_charset (Some [83, 111, 49])) = Some [83, 111, 49]
   \<and> ticonv_utf16_to_ti83p (ticonv_ti83p_to_utf16 (Some [83, 181])) = Some [83, 181]"
proof
  have p: "printable 83" "printable 111" "printable 49" by (simp_all add: printable_def)
  then show "ticonv_utf16_to_nonusb ti83_charset (ticonv_nonusb_to_utf16 ti83_charset (Some [83, 111, 49])) = Some [83, 111, 49]"
    using charset_roundtrip [of ti83_charset "[83, 111, 49]"] by (simp add: nonusb_tables_def)
  have "survives83p 181" by code_simp
  then show "ticonv_utf16_to_ti83p (ticonv_ti83p_to_utf16 (Some [83, 181])) = Some [83, 181]"
    using p charset_roundtrip [of ti83_charset "[83, 181]"] by simp
qed

text \<open>
  Three signs of the TI-83 Plus set, the dollar and the two means, have no way back: its loop does
  not know them, though the table has their codes.
\<close>

lemma ti83p_signs_lost:
  "ticonv_utf16_to_ti83p (ticonv_ti83p_to_utf16 (Some [0xF2])) = Some [63]"
  "ticonv_utf16_to_ti83p (ticonv_ti83p_to_utf16 (Some [0xCB])) = Some [120, 63]"
  "ticonv_utf16_to_ti83p (ticonv_ti83p_to_utf16 (Some [0xCC])) = Some [121, 63]"
  by code_simp+

end
