(* ===== verification/Ticonv.thy ===== *)
theory Ticonv
  imports Charset Ti_Types
begin

text \<open>
  Names of variables and of models (\<open>libticonv\<close>): the tokens of \<open>tokens.cc\<close>, the dispatch by model
  and the predicates of \<open>ticonv.cc\<close>, and the model names of \<open>type2str.cc\<close>.  A name is the content of
  a character buffer; a character read behind it is NUL.  \<open>utf16_to_utf8\<close> and \<open>utf8_to_utf16\<close> are
  the conversions of GLib, parameters here.
\<close>

section \<open>Token tables\<close>

definition matrix_names :: "(byte \<times> string) list" where
  "matrix_names = [
    (0x00, [CHR 0xC1] @ ''A]''), (0x01, [CHR 0xC1] @ ''B]''), (0x02, [CHR 0xC1] @ ''C]''),
    (0x03, [CHR 0xC1] @ ''D]''), (0x04, [CHR 0xC1] @ ''E]''), (0x05, [CHR 0xC1] @ ''F]''),
    (0x06, [CHR 0xC1] @ ''G]''), (0x07, [CHR 0xC1] @ ''H]''), (0x08, [CHR 0xC1] @ ''I]''),
    (0x09, [CHR 0xC1] @ ''J]'')]"

definition list_names :: "(byte \<times> string) list" where
  "list_names = [
    (0x00, ''L'' @ [CHR 0x81]), (0x01, ''L'' @ [CHR 0x82]), (0x02, ''L'' @ [CHR 0x83]),
    (0x03, ''L'' @ [CHR 0x84]), (0x04, ''L'' @ [CHR 0x85]), (0x05, ''L'' @ [CHR 0x86]),
    (0x06, ''L'' @ [CHR 0x87]), (0x07, ''L'' @ [CHR 0x88]), (0x08, ''L'' @ [CHR 0x89]),
    (0x09, ''L'' @ [CHR 0x80]), (0x40, ''IDList'')]"

definition equation_names :: "(byte \<times> string) list" where
  "equation_names = [
    (0x10, ''Y'' @ [CHR 0x81]), (0x11, ''Y'' @ [CHR 0x82]), (0x12, ''Y'' @ [CHR 0x83]),
    (0x13, ''Y'' @ [CHR 0x84]), (0x14, ''Y'' @ [CHR 0x85]), (0x15, ''Y'' @ [CHR 0x86]),
    (0x16, ''Y'' @ [CHR 0x87]), (0x17, ''Y'' @ [CHR 0x88]), (0x18, ''Y'' @ [CHR 0x89]),
    (0x19, ''Y'' @ [CHR 0x80]), (0x20, ''X'' @ [CHR 0x81] @ [CHR 0x0D]),
    (0x21, ''Y'' @ [CHR 0x81] @ [CHR 0x0D]), (0x22, ''X'' @ [CHR 0x82] @ [CHR 0x0D]),
    (0x23, ''Y'' @ [CHR 0x82] @ [CHR 0x0D]), (0x24, ''X'' @ [CHR 0x83] @ [CHR 0x0D]),
    (0x25, ''Y'' @ [CHR 0x83] @ [CHR 0x0D]), (0x26, ''X'' @ [CHR 0x84] @ [CHR 0x0D]),
    (0x27, ''Y'' @ [CHR 0x84] @ [CHR 0x0D]), (0x28, ''X'' @ [CHR 0x85] @ [CHR 0x0D]),
    (0x29, ''Y'' @ [CHR 0x85] @ [CHR 0x0D]), (0x2A, ''X'' @ [CHR 0x86] @ [CHR 0x0D]),
    (0x2B, ''Y'' @ [CHR 0x86] @ [CHR 0x0D]), (0x40, ''r'' @ [CHR 0x81]), (0x41, ''r'' @ [CHR 0x82]),
    (0x42, ''r'' @ [CHR 0x83]), (0x43, ''r'' @ [CHR 0x84]), (0x44, ''r'' @ [CHR 0x85]),
    (0x45, ''r'' @ [CHR 0x86])]"

definition variable_names :: "(byte \<times> string) list" where
  "variable_names = [
    (0x01, ''ReqEq''), (0x02, ''n''), (0x03, [CHR 0xCB]), (0x04, [CHR 0xC6] @ ''x''),
    (0x05, [CHR 0xC6] @ ''x'' @ [CHR 0x12]), (0x06, ''Sx''), (0x07, [CHR 0xC7] @ ''x''),
    (0x08, ''minX''), (0x09, ''maxX''), (0x0A, ''minY''), (0x0B, ''maxY''), (0x0C, [CHR 0xCC]),
    (0x0D, [CHR 0xC6] @ ''y''), (0x0E, [CHR 0xC6] @ ''y'' @ [CHR 0x12]), (0x0F, ''Sy''),
    (0x10, [CHR 0xC7] @ ''y''), (0x11, [CHR 0xC6] @ ''xy''), (0x12, ''r''), (0x13, ''Med''),
    (0x14, ''Q'' @ [CHR 0x81]), (0x15, ''Q'' @ [CHR 0x83]), (0x16, ''a''), (0x17, ''b''),
    (0x18, ''c''), (0x19, ''d''), (0x1A, ''e''), (0x1B, ''x'' @ [CHR 0x81]),
    (0x1C, ''x'' @ [CHR 0x82]), (0x1D, ''x'' @ [CHR 0x83]), (0x1E, ''y'' @ [CHR 0x81]),
    (0x1F, ''y'' @ [CHR 0x82]), (0x20, ''y'' @ [CHR 0x83]), (0x21, [CHR 0xD7]), (0x22, ''p''),
    (0x23, ''z''), (0x24, ''t''), (0x25, [CHR 0xD9] @ [CHR 0x12]), (0x26, [CHR 0xDA]),
    (0x27, ''df''), (0x28, [CHR 0xD8]), (0x29, [CHR 0xD8] @ [CHR 0x81]),
    (0x2A, [CHR 0xD8] @ [CHR 0x82]), (0x2B, [CHR 0xD8] @ [CHR 0x81]), (0x2C, ''Sx'' @ [CHR 0x81]),
    (0x2D, ''n'' @ [CHR 0x81]), (0x2E, [CHR 0xCB] @ [CHR 0x82]), (0x2F, ''Sx'' @ [CHR 0x82]),
    (0x30, ''n'' @ [CHR 0x82]), (0x31, ''Sxp''), (0x32, ''lower''), (0x33, ''upper''), (0x34, ''s''),
    (0x35, ''r'' @ [CHR 0x12]), (0x36, ''R'' @ [CHR 0x12]), (0x37, ''df''), (0x38, ''SS''),
    (0x39, ''MS''), (0x3A, ''df''), (0x3B, ''SS''), (0x3C, ''MS'')]"

definition window_names :: "(byte \<times> string) list" where
  "window_names = [
    (0x00, ''ZXscl''), (0x01, ''ZYscl''), (0x02, ''Xscl''), (0x03, ''Yscl''),
    (0x04, ''U'' @ [CHR 0xD7] @ ''Start''), (0x05, ''V'' @ [CHR 0xD7] @ ''Start''),
    (0x06, ''U'' @ [CHR 0xD7] @ ''-'' @ [CHR 0x81]), (0x07, ''V'' @ [CHR 0xD7] @ ''-'' @ [CHR 0x81]),
    (0x08, ''ZU'' @ [CHR 0xD7] @ ''Start''), (0x09, ''ZV'' @ [CHR 0xD7] @ ''Start''),
    (0x0A, ''Xmin''), (0x0B, ''Xmax''), (0x0C, ''Ymin''), (0x0D, ''Ymax''), (0x0E, ''Tmin''),
    (0x0F, ''Tmax''), (0x10, ''[min''), (0x11, ''[max''), (0x12, ''ZXmin''), (0x13, ''ZXmax''),
    (0x14, ''ZYmin''), (0x15, ''ZYmax''), (0x16, ''Z[min''), (0x17, ''Z[max''), (0x18, ''ZTmin''),
    (0x19, ''ZTmax''), (0x1A, ''TblMin''), (0x1B, [CHR 0xD7] @ ''Min''),
    (0x1C, ''Z'' @ [CHR 0xD7] @ ''Min''), (0x1D, [CHR 0xD7] @ ''Max''),
    (0x1E, ''Z'' @ [CHR 0xD7] @ ''Max''), (0x1F, [CHR 0xD7] @ ''Start''),
    (0x20, ''Z'' @ [CHR 0xD7] @ ''Start''), (0x21, [CHR 0xBE] @ ''Tbl''), (0x22, ''Tstep''),
    (0x23, ''[step''), (0x24, ''ZTstep''), (0x25, ''Z[step''), (0x26, [CHR 0xBE] @ ''X''),
    (0x27, [CHR 0xBE] @ ''Y''), (0x28, ''XFact''), (0x29, ''YFact''), (0x2A, ''TblInput''),
    (0x2B, ''N''), (0x2C, ''I%''), (0x2D, ''PV''), (0x2E, ''PMT''), (0x2F, ''FV''), (0x30, ''Xres''),
    (0x31, ''ZXres'')]"

section \<open>From tokens to names\<close>

definition char_at :: "string \<Rightarrow> nat \<Rightarrow> char" where
  "char_at s i = (if i < length s then s ! i else NUL)"

definition byte_at :: "string \<Rightarrow> nat \<Rightarrow> byte" where
  "byte_at s i = byte_of_char (char_at s i)"

text \<open>\<open>TI83_family\<close> stands for the case labels shared by the TI-83 and its successors.\<close>

definition TI83_family :: "CalcModel \<Rightarrow> bool" where
  "TI83_family m \<longleftrightarrow> m \<in> {CALC_TI83, CALC_TI83P, CALC_TI84P, CALC_TI84PC, CALC_TI84P_USB, CALC_TI84PC_USB,
     CALC_TI83PCE_USB, CALC_TI84PCE_USB, CALC_TI82A_USB, CALC_TI84PT_USB}"

definition detokenize_vartype :: "CalcModel \<Rightarrow> string \<Rightarrow> byte \<Rightarrow> string option" where
  "detokenize_vartype model src ty =
     (if model = CALC_TI73 then
        (if ty = 0x0F then Some ''Window''
         else if ty = 0x11 then Some ''TblSet''
         else None)
      else if model = CALC_TI82 then
        (if ty = 0x0B then Some ''Window''
         else if ty = 0x0C then Some ''RclWin''
         else if ty = 0x0D then Some ''TblSet''
         else None)
      else if TI83_family model then
        (if ty = 0x0F then Some ''Window''
         else if ty = 0x10 then Some ''RclWin''
         else if ty = 0x11 then Some ''TblSet''
         else None)
      else if model = CALC_TI85 \<or> model = CALC_TI86 then
        (if ty = 0x17 then Some ''Func''
         else if ty = 0x18 then Some ''Pol''
         else if ty = 0x19 then Some ''Param''
         else if ty = 0x1A then Some ''DifEq''
         else if ty = 0x1B then Some ''ZRCL''
         else None)
      else None)"

definition name_of :: "(byte \<times> string) list \<Rightarrow> byte \<Rightarrow> string \<Rightarrow> string" where
  "name_of table tok otherwise = (case map_of table tok of Some s \<Rightarrow> s | None \<Rightarrow> otherwise)"

text \<open>\<open>Pic\<close>, \<open>GDB\<close> and \<open>Str\<close>: the token counts from 1 and wraps to 0, on the TI-73 it is the digit.\<close>

definition numbered :: "CalcModel \<Rightarrow> string \<Rightarrow> byte \<Rightarrow> string" where
  "numbered model stem tok2 =
     (if model = CALC_TI73 then stem @ decimal (unat tok2)
      else if tok2 \<noteq> 0x09 then stem @ decimal (unat tok2 + 1)
      else stem @ ''0'')"

definition detokenize_varname :: "CalcModel \<Rightarrow> string \<Rightarrow> byte \<Rightarrow> string" where
  "detokenize_varname model src ty =
     (let tok1 = byte_at src 0; tok2 = byte_at src 1
      in if tok1 = 0x3C then
           (if ty = 0x1A then
              (if tok2 \<noteq> 0x09 then ''Image'' @ decimal (unat tok2 + 1) else ''Image0'')
            else c_string (take 8 src))
         else if tok1 = 0x5C then name_of matrix_names tok2 (CHR 0xC1 # ''?]'')
         else if tok1 = 0x5D then
           (if model = CALC_TI73 then [CHR ''L'', char_of_byte (tok2 + 0x80)]
            else name_of list_names tok2 (c_string (map (\<lambda>i. char_at src (i + 1)) [0..<7])))
         else if tok1 = 0x5E then
           (if tok2 = 0x80 then
              (if model = CALC_TI82 then ''U'' @ [CHR 0xD7]
               else if model = CALC_TI73 then ''C'' @ [CHR 0x81]
               else ''u'')
            else if tok2 = 0x81 then
              (if model = CALC_TI82 then ''V'' @ [CHR 0xD7]
               else if model = CALC_TI73 then ''C'' @ [CHR 0x82]
               else ''v'')
            else if tok2 = 0x82 then
              (if model = CALC_TI82 then ''W'' @ [CHR 0xD7]
               else if model = CALC_TI73 then ''C'' @ [CHR 0x83]
               else ''w'')
            else if tok2 = 0x83 then
              (if model = CALC_TI73 then ''C'' @ [CHR 0x84] else ''?'')
            else name_of equation_names tok2 ''?'')
         else if tok1 = 0x60 then numbered model ''Pic'' tok2
         else if tok1 = 0x61 then numbered model ''GDB'' tok2
         else if tok1 = 0x62 then name_of variable_names tok2 ''_''
         else if tok1 = 0x63 then name_of window_names tok2 ''_''
         else if tok1 = 0xAA then numbered model ''Str'' tok2
         else c_string (take 8 src))"

definition ticonv_varname_detokenize :: "CalcModel \<Rightarrow> string option \<Rightarrow> byte \<Rightarrow> string" where
  "ticonv_varname_detokenize model src ty =
     (case src of
        None \<Rightarrow> ''________''
      | Some s \<Rightarrow>
          if model \<in> {CALC_TI73, CALC_TI82, CALC_TI83, CALC_TI83P, CALC_TI84P, CALC_TI84PC} then
            (case detokenize_vartype model s ty of
               Some dst \<Rightarrow> dst
             | None \<Rightarrow> detokenize_varname model s ty)
          else if model = CALC_TI85 \<or> model = CALC_TI86 then
            (case detokenize_vartype model s ty of Some dst \<Rightarrow> dst | None \<Rightarrow> c_string s)
          else if model \<in> {CALC_TI89, CALC_TI89T, CALC_TI92, CALC_TI92P, CALC_V200} then c_string s
          else if model \<in> {CALC_TI84P_USB, CALC_TI84PC_USB, CALC_TI83PCE_USB, CALC_TI84PCE_USB, CALC_TI82A_USB,
            CALC_TI84PT_USB, CALC_TI89T_USB} then c_string s
          else if model = CALC_NSPIRE then c_string s
          else ''________'')"

section \<open>From names to tokens\<close>

definition token_shift :: "byte \<Rightarrow> byte" where
  "token_shift v = (if v = 0 then 9 else v - 1)"

text \<open>The names that a type, or the name itself, makes empty.\<close>

definition system_name :: "CalcModel \<Rightarrow> string \<Rightarrow> byte \<Rightarrow> bool" where
  "system_name model src ty \<longleftrightarrow>
     (if model = CALC_TI73 then
        same_string ''Window'' src \<or> ty = 0x0F \<or> same_string ''TblSet'' src \<or> ty = 0x11
      else if model = CALC_TI82 then
        same_string ''Window'' src \<or> ty = 0x0B \<or> same_string ''RclWin'' src \<or> ty = 0x0C
        \<or> same_string ''TblSet'' src \<or> ty = 0x0D
      else if model \<in> {CALC_TI83, CALC_TI83P, CALC_TI84P, CALC_TI84PC} then
        same_string ''Window'' src \<or> ty = 0x0F \<or> same_string ''RclWin'' src \<or> ty = 0x10
        \<or> same_string ''TblSet'' src \<or> ty = 0x11
      else if model = CALC_TI85 \<or> model = CALC_TI86 then
        same_string ''Func'' src \<or> ty = 0x17 \<or> same_string ''Pol'' src \<or> ty = 0x18
        \<or> same_string ''Param'' src \<or> ty = 0x19 \<or> same_string ''DifEq'' src \<or> ty = 0x1A
        \<or> same_string ''ZRCL'' src \<or> ty = 0x1B
      else False)"

abbreviation is_digit :: "byte \<Rightarrow> bool" where
  "is_digit b \<equiv> 0x30 \<le> b \<and> b \<le> 0x39"

abbreviation token :: "byte \<Rightarrow> byte \<Rightarrow> string option" where
  "token a b \<equiv> Some [char_of_byte a, char_of_byte b]"

definition ticonv_varname_tokenize :: "CalcModel \<Rightarrow> string option \<Rightarrow> byte \<Rightarrow> string option" where
  "ticonv_varname_tokenize model src_ptr ty =
     (case src_ptr of
        None \<Rightarrow> None
      | Some buf \<Rightarrow>
          (let s = c_string buf; strlen = length s; src = byte_at s; ch = char_at s
           in if system_name model s ty then Some []
              else if ty = 0x01 \<and> (model = CALC_TI83P \<or> model = CALC_TI84P \<or> model = CALC_TI84PC) then
                Some (CHR 0x5D # take 7 s)
              else if ch 0 = CHR ''['' \<and> ch 2 = CHR '']'' \<and> strlen = 3 then token 0x5C (src 1 - 0x41)
              else if ch 0 = CHR ''L'' \<and> 128 \<le> src 1 \<and> src 1 \<le> 137 \<and> strlen = 2 then
                token 0x5D (if model = CALC_TI73 then src 1 - 0x80 else token_shift (src 1 - 0x80))
              else if ch 0 = CHR ''Y'' \<and> 128 \<le> src 1 \<and> src 1 \<le> 137 \<and> strlen = 2 then
                token 0x5E (0x10 + token_shift (src 1 - 0x80))
              else if ch 0 = CHR ''X'' \<and> 128 \<le> src 1 \<and> src 1 \<le> 133 \<and> strlen = 3 then
                token 0x5E (0x20 + 2 * (src 1 - 0x81) + 0)
              else if ch 0 = CHR ''Y'' \<and> 128 \<le> src 1 \<and> src 1 \<le> 133 \<and> strlen = 3 then
                token 0x5E (0x20 + 2 * (src 1 - 0x81) + 1)
              else if ch 0 = CHR ''r'' \<and> 128 \<le> src 1 \<and> src 1 \<le> 133 \<and> strlen = 2 then
                token 0x5E (0x40 + (src 1 - 0x81))
              else if model = CALC_TI73 \<and> ch 0 = CHR ''C'' \<and> 128 \<le> src 1 \<and> src 1 \<le> 131 \<and> strlen = 2 then
                token 0x5E (0x80 + token_shift (src 1 - 0x80))
              else if src 0 = 2 \<and> strlen = 1 then token 0x5E 0x80
              else if src 0 = 3 \<and> strlen = 1 then token 0x5E 0x81
              else if src 0 = 4 \<and> strlen = 1 then token 0x5E 0x82
              else if ch 0 = CHR ''P'' \<and> ch 1 = CHR ''i'' \<and> ch 2 = CHR ''c'' \<and> is_digit (src 3) \<and> strlen = 4 then
                token 0x60 (if model = CALC_TI73 then src 3 - 0x30 else token_shift (src 3 - 0x30))
              else if ch 0 = CHR ''G'' \<and> ch 1 = CHR ''D'' \<and> ch 2 = CHR ''B'' \<and> is_digit (src 3) \<and> strlen = 4 then
                token 0x61 (if model = CALC_TI73 then src 3 - 0x30 else token_shift (src 3 - 0x30))
              else if ch 0 = CHR ''S'' \<and> ch 1 = CHR ''t'' \<and> ch 2 = CHR ''r'' \<and> is_digit (src 3) \<and> strlen = 4 then
                token 0xAA (if model = CALC_TI73 then src 3 - 0x30 else token_shift (src 3 - 0x30))
              else if ty = 0x1A \<and> take 5 s = ''Image'' \<and> is_digit (src 5) then
                token 0x3C (token_shift (src 5 - 0x30))
              else Some s))"

section \<open>Names that survive\<close>

definition digit_char :: "nat \<Rightarrow> char" where
  "digit_char n = char_of_byte (0x30 + of_nat n)"

lemma byte_of_char_of_byte [simp]: "byte_of_char (char_of_byte b) = b"
proof -
  have "unat b < 2 ^ LENGTH(8)" by (rule unsigned_less)
  then have "(of_char (char_of (unat b)) :: nat) = unat b" by simp
  then show ?thesis by (simp add: byte_of_char_def char_of_byte_def)
qed

lemma char_of_byte_inject [simp]: "char_of_byte a = char_of_byte b \<longleftrightarrow> a = b"
  by (metis byte_of_char_of_byte)

lemma small_byte:
  assumes "n < 10"
  shows "unat (of_nat n :: byte) = n" "unat (0x30 + of_nat n :: byte) = 48 + n" "unat (0x80 + of_nat n :: byte) = 128 + n"
proof -
  show u: "unat (of_nat n :: byte) = n" using assms by (simp add: unat_of_nat take_bit_nat_eq_self)
  have "(0x30 + of_nat n :: byte) = of_nat (48 + n)" "(0x80 + of_nat n :: byte) = of_nat (128 + n)" by simp_all
  then show "unat (0x30 + of_nat n :: byte) = 48 + n" "unat (0x80 + of_nat n :: byte) = 128 + n"
    using assms by (simp_all add: unat_of_nat take_bit_nat_eq_self del: of_nat_add)
qed

lemma digit_byte:
  assumes "n < 10"
  shows "is_digit (byte_of_char (digit_char n))" "byte_of_char (digit_char n) - 0x30 = of_nat n"
    "byte_of_char (digit_char n) = 0x30 + of_nat n" "digit_char n \<noteq> NUL"
proof -
  show b: "byte_of_char (digit_char n) = 0x30 + of_nat n" by (simp add: digit_char_def)
  show "is_digit (byte_of_char (digit_char n))" using assms by (simp add: b word_le_nat_alt small_byte)
  show "byte_of_char (digit_char n) - 0x30 = of_nat n" by (simp add: b)
  have "byte_of_char NUL = 0" by (simp add: byte_of_char_def)
  moreover have "(0x30 + of_nat n :: byte) \<noteq> 0" using small_byte(2) [OF assms] by (metis add_is_0 unsigned_0 zero_neq_numeral)
  ultimately have "byte_of_char (digit_char n) \<noteq> byte_of_char NUL" by (simp add: b)
  then show "digit_char n \<noteq> NUL" by auto
qed

lemma decimal_digit:
  assumes "n < 10"
  shows "decimal n = [digit_char n]"
proof -
  have "char_of (48 + n) = digit_char n"
    using small_byte(2) [OF assms] by (simp add: digit_char_def char_of_byte_def)
  moreover have "n \<noteq> 0 \<Longrightarrow> digits_of 10 n = [n]"
    using assms digits_of.simps [of 10 n] digits_of.simps [of 10 0] by simp
  moreover have "n = 0 \<Longrightarrow> digit_char n = CHR ''0''" by (simp, code_simp)
  ultimately show ?thesis by (auto simp: decimal_def)
qed

text \<open>The calculators whose names are tokens, and the types that leave a name to be spelt.\<close>

definition token_models :: "CalcModel set" where
  "token_models = {CALC_TI73, CALC_TI82, CALC_TI83, CALC_TI83P, CALC_TI84P, CALC_TI84PC}"

definition spelt_type :: "CalcModel \<Rightarrow> byte \<Rightarrow> bool" where
  "spelt_type model ty \<longleftrightarrow> detokenize_vartype model [] ty = None
     \<and> \<not> (ty = 0x01 \<and> (model = CALC_TI83P \<or> model = CALC_TI84P \<or> model = CALC_TI84PC))"

lemma detokenize_vartype_src: "detokenize_vartype model src ty = detokenize_vartype model [] ty"
  by (simp add: detokenize_vartype_def)

lemma not_system:
  assumes "spelt_type model ty" "model \<in> token_models"
    and "\<not> same_string ''Window'' s" "\<not> same_string ''RclWin'' s" "\<not> same_string ''TblSet'' s"
  shows "\<not> system_name model s ty"
  using assms by (auto simp: spelt_type_def token_models_def system_name_def detokenize_vartype_def TI83_family_def split: if_splits)

text \<open>A digit of a name and the byte of its token.\<close>

definition digit_token :: "CalcModel \<Rightarrow> nat \<Rightarrow> byte" where
  "digit_token model n = (if model = CALC_TI73 then of_nat n else token_shift (of_nat n))"

lemma numbered_token:
  assumes "n < 10"
  shows "numbered model stem (digit_token model n) = stem @ [digit_char n]"
proof (cases "model = CALC_TI73")
  case True
  then show ?thesis using assms by (simp add: numbered_def digit_token_def small_byte decimal_digit)
next
  case False
  show ?thesis
  proof (cases "n = 0")
    case True
    then show ?thesis using False decimal_digit [of 0] by (simp add: numbered_def digit_token_def token_shift_def decimal_def)
  next
    case n: False
    then obtain m where m: "n = Suc m" "m < 9" using assms by (cases n) auto
    have "of_nat n \<noteq> (0 :: byte)" using n small_byte(1) [OF assms] by (metis unsigned_0)
    moreover have "(of_nat n :: byte) - 1 = of_nat m" by (simp add: m)
    moreover have "of_nat m \<noteq> (9 :: byte)"
    proof
      assume "of_nat m = (9 :: byte)"
      then have "unat (of_nat m :: byte) = unat (9 :: byte)" by (rule arg_cong)
      then show False using m small_byte(1) [of m] by simp
    qed
    moreover have "unat (of_nat m :: byte) = m" using m by (simp add: small_byte)
    moreover have "decimal (m + 1) = [digit_char n]" using decimal_digit [OF assms] m by simp
    ultimately show ?thesis using False by (simp add: numbered_def digit_token_def token_shift_def)
  qed
qed

lemma tokenize_four:
  assumes "c_string s = s" "length s = 4" "\<not> system_name model s ty"
    and "\<not> (ty = 0x01 \<and> (model = CALC_TI83P \<or> model = CALC_TI84P \<or> model = CALC_TI84PC))"
    and d: "is_digit (byte_at s 3)"
  defines "tok \<equiv> \<lambda>a. token a (if model = CALC_TI73 then byte_at s 3 - 0x30 else token_shift (byte_at s 3 - 0x30))"
  shows "char_at s 0 = CHR ''S'' \<Longrightarrow> char_at s 1 = CHR ''t'' \<Longrightarrow> char_at s 2 = CHR ''r'' \<Longrightarrow>
      ticonv_varname_tokenize model (Some s) ty = tok 0xAA"
    and "char_at s 0 = CHR ''P'' \<Longrightarrow> char_at s 1 = CHR ''i'' \<Longrightarrow> char_at s 2 = CHR ''c'' \<Longrightarrow>
      ticonv_varname_tokenize model (Some s) ty = tok 0x60"
    and "char_at s 0 = CHR ''G'' \<Longrightarrow> char_at s 1 = CHR ''D'' \<Longrightarrow> char_at s 2 = CHR ''B'' \<Longrightarrow>
      ticonv_varname_tokenize model (Some s) ty = tok 0x61"
  unfolding ticonv_varname_tokenize_def Let_def option.case tok_def
  using assms(1-4) conjunct1 [OF d] conjunct2 [OF d] by (simp_all, blast+)

lemma tokenize_numbered:
  assumes "model \<in> token_models" "spelt_type model ty" "n < 10"
  shows "ticonv_varname_tokenize model (Some (''Str'' @ [digit_char n])) ty = token 0xAA (digit_token model n)"
    "ticonv_varname_tokenize model (Some (''Pic'' @ [digit_char n])) ty = token 0x60 (digit_token model n)"
    "ticonv_varname_tokenize model (Some (''GDB'' @ [digit_char n])) ty = token 0x61 (digit_token model n)"
proof -
  have nn: "NUL \<notin> set (stem @ [digit_char n])" if "NUL \<notin> set stem" for stem
    using that digit_byte(4) [OF assms(3)] by simp
  have ty: "\<not> (ty = 0x01 \<and> (model = CALC_TI83P \<or> model = CALC_TI84P \<or> model = CALC_TI84PC))"
    using assms(2) by (simp add: spelt_type_def)
  have sys: "\<not> system_name model (stem @ [digit_char n]) ty" if "stem = ''Str'' \<or> stem = ''Pic'' \<or> stem = ''GDB''" for stem
    using that by (intro not_system [OF assms(2,1)]) (auto simp: same_string_def c_string_def digit_byte(4) [OF assms(3)])
  note four = tokenize_four [OF c_string_plain _ sys ty]
  have dig: "is_digit (0x30 + of_nat n :: byte)" "NUL \<noteq> digit_char n"
    using digit_byte [OF assms(3)] by auto
  note facts = nn char_at_def byte_at_def digit_byte(2,3,4) [OF assms(3)] dig digit_token_def
  show "ticonv_varname_tokenize model (Some (''Str'' @ [digit_char n])) ty = token 0xAA (digit_token model n)"
    by (subst four(1)) (simp_all add: facts)
  show "ticonv_varname_tokenize model (Some (''Pic'' @ [digit_char n])) ty = token 0x60 (digit_token model n)"
    by (subst four(2)) (simp_all add: facts)
  show "ticonv_varname_tokenize model (Some (''GDB'' @ [digit_char n])) ty = token 0x61 (digit_token model n)"
    by (subst four(3)) (simp_all add: facts)
qed

lemma detokenize_numbered:
  assumes "model \<in> token_models" "spelt_type model ty"
  shows "ticonv_varname_detokenize model (Some [char_of_byte 0xAA, char_of_byte b]) ty = numbered model ''Str'' b"
    "ticonv_varname_detokenize model (Some [char_of_byte 0x60, char_of_byte b]) ty = numbered model ''Pic'' b"
    "ticonv_varname_detokenize model (Some [char_of_byte 0x61, char_of_byte b]) ty = numbered model ''GDB'' b"
  using assms
  by (auto simp: ticonv_varname_detokenize_def detokenize_varname_def byte_at_def char_at_def token_models_def
      spelt_type_def detokenize_vartype_src [of _ "_ # _"])

text \<open>
  Tokens that do not come back: the bracket of a matrix is 0xC1 in the calculator's set and the
  search is for the ASCII bracket; the sixth parametric and polar equations are outside the range
  the search accepts, which begins one too early.
\<close>

lemma char_of_facts: "char_of (94 :: nat) = CHR 0x5E" "char_of (63 :: nat) = CHR 0x3F"
  by code_simp+

lemma tokens_lost:
  "ticonv_varname_tokenize CALC_TI83P (Some (ticonv_varname_detokenize CALC_TI83P (Some [CHR 0x5C, NUL]) 2)) 2
     = Some [CHR 0xC1, CHR ''A'', CHR '']'']"
  "ticonv_varname_tokenize CALC_TI83P (Some (ticonv_varname_detokenize CALC_TI83P (Some [CHR 0x5E, CHR 0x45]) 3)) 3
     = Some [CHR ''r'', CHR 0x86]"
  "ticonv_varname_tokenize CALC_TI83P (Some [CHR ''r'', CHR 0x80]) 3 = Some [CHR 0x5E, CHR 0x3F]"
  using char_of_facts by (simp_all add: ticonv_varname_tokenize_def ticonv_varname_detokenize_def detokenize_varname_def detokenize_vartype_def
      system_name_def name_of_def matrix_names_def equation_names_def byte_at_def char_at_def same_string_def c_string_def
      byte_of_char_def TI83_family_def Let_def char_of_byte_def)

section \<open>Kinds of calculators\<close>

definition ticonv_model_uses_utf8 :: "CalcModel \<Rightarrow> bool" where
  "ticonv_model_uses_utf8 model \<longleftrightarrow> model \<notin> {CALC_NONE, CALC_TI73, CALC_TI82, CALC_TI83, CALC_TI83P, CALC_TI84P, CALC_TI85, CALC_TI86, CALC_TI89, CALC_TI89T, CALC_TI92, CALC_TI92P, CALC_V200, CALC_TI80, CALC_TI84PC}"

definition ticonv_model_is_tiz80 :: "CalcModel \<Rightarrow> bool" where
  "ticonv_model_is_tiz80 model \<longleftrightarrow> model \<in> {CALC_TI73, CALC_TI82, CALC_TI83, CALC_TI83P, CALC_TI84P, CALC_TI85, CALC_TI86, CALC_TI84P_USB, CALC_TI84PC, CALC_TI84PC_USB, CALC_TI82A_USB, CALC_TI84PT_USB}"

definition ticonv_model_is_tiez80 :: "CalcModel \<Rightarrow> bool" where
  "ticonv_model_is_tiez80 model \<longleftrightarrow> model \<in> {CALC_TI83PCE_USB, CALC_TI84PCE_USB}"

definition ticonv_model_is_ti68k :: "CalcModel \<Rightarrow> bool" where
  "ticonv_model_is_ti68k model \<longleftrightarrow> model \<in> {CALC_TI89, CALC_TI89T, CALC_TI92, CALC_TI92P, CALC_V200, CALC_TI89T_USB}"

definition ticonv_model_is_tinspire :: "CalcModel \<Rightarrow> bool" where
  "ticonv_model_is_tinspire model \<longleftrightarrow> model \<in> {CALC_NSPIRE}"

definition ticonv_model_has_legacy_ioport :: "CalcModel \<Rightarrow> bool" where
  "ticonv_model_has_legacy_ioport model \<longleftrightarrow> model \<in> {CALC_TI73, CALC_TI82, CALC_TI83, CALC_TI83P, CALC_TI84P, CALC_TI85, CALC_TI86, CALC_TI89, CALC_TI89T, CALC_TI92, CALC_TI92P, CALC_V200, CALC_TI80, CALC_TI84PC}"

definition ticonv_model_has_usb_ioport :: "CalcModel \<Rightarrow> bool" where
  "ticonv_model_has_usb_ioport model \<longleftrightarrow> model \<in> {CALC_TI84P_USB, CALC_TI89T_USB, CALC_NSPIRE, CALC_TI84PC_USB, CALC_TI83PCE_USB, CALC_TI84PCE_USB, CALC_TI82A_USB, CALC_TI84PT_USB}"

definition ticonv_model_has_flash_memory :: "CalcModel \<Rightarrow> bool" where
  "ticonv_model_has_flash_memory model \<longleftrightarrow> model \<notin> {CALC_NONE, CALC_TI82, CALC_TI83, CALC_TI85, CALC_TI86, CALC_TI92, CALC_TI80}"

definition ticonv_model_has_monochrome_screen :: "CalcModel \<Rightarrow> bool" where
  "ticonv_model_has_monochrome_screen model \<longleftrightarrow> model \<in> {CALC_TI73, CALC_TI82, CALC_TI83, CALC_TI83P, CALC_TI84P, CALC_TI85, CALC_TI86, CALC_TI89, CALC_TI89T, CALC_TI92, CALC_TI92P, CALC_V200, CALC_TI84P_USB, CALC_TI89T_USB, CALC_NSPIRE, CALC_TI80, CALC_TI82A_USB, CALC_TI84PT_USB}"

definition ticonv_model_has_color_screen :: "CalcModel \<Rightarrow> bool" where
  "ticonv_model_has_color_screen model \<longleftrightarrow> model \<in> {CALC_NSPIRE, CALC_TI84PC, CALC_TI84PC_USB, CALC_TI83PCE_USB, CALC_TI84PCE_USB}"

section \<open>Names of models\<close>

definition ticonv_model_to_string :: "CalcModel \<Rightarrow> string" where
  "ticonv_model_to_string model =
     (case model of
       CALC_NONE \<Rightarrow> ''none''
     | CALC_TI73 \<Rightarrow> ''TI73''
     | CALC_TI82 \<Rightarrow> ''TI82''
     | CALC_TI83 \<Rightarrow> ''TI83''
     | CALC_TI83P \<Rightarrow> ''TI83+''
     | CALC_TI84P \<Rightarrow> ''TI84+''
     | CALC_TI85 \<Rightarrow> ''TI85''
     | CALC_TI86 \<Rightarrow> ''TI86''
     | CALC_TI89 \<Rightarrow> ''TI89''
     | CALC_TI89T \<Rightarrow> ''TI89T''
     | CALC_TI92 \<Rightarrow> ''TI92''
     | CALC_TI92P \<Rightarrow> ''TI92+''
     | CALC_V200 \<Rightarrow> ''V200''
     | CALC_TI84P_USB \<Rightarrow> ''TI84+ USB''
     | CALC_TI89T_USB \<Rightarrow> ''TI89T USB''
     | CALC_NSPIRE \<Rightarrow> ''Nspire''
     | CALC_TI80 \<Rightarrow> ''TI80''
     | CALC_TI84PC \<Rightarrow> ''TI84+CSE''
     | CALC_TI84PC_USB \<Rightarrow> ''TI84+CSE USB''
     | CALC_TI83PCE_USB \<Rightarrow> ''TI83PCE USB''
     | CALC_TI84PCE_USB \<Rightarrow> ''TI84+CE USB''
     | CALC_TI82A_USB \<Rightarrow> ''TI82A USB''
     | CALC_TI84PT_USB \<Rightarrow> ''TI84+T USB'')"

definition any_name :: "string \<Rightarrow> string list \<Rightarrow> bool" where
  "any_name str names \<longleftrightarrow> list_ex (same_string_nocase str) names"

definition ticonv_string_to_model :: "string option \<Rightarrow> CalcModel" where
  "ticonv_string_to_model str_ptr =
     (case str_ptr of
        None \<Rightarrow> CALC_NONE
      | Some buf \<Rightarrow>
          (let str = c_string buf in
           if any_name str [''TI-73'', ''TI73'', ''73'']
           then CALC_TI73
           else if any_name str [''TI-82'', ''TI82'', ''82'']
           then CALC_TI82
           else if any_name str [''TI-83'', ''TI83'', ''83'']
           then CALC_TI83
           else if any_name str [''TI-83+'', ''TI-83p'', ''TI83+'', ''TI83p'', ''83+'', ''83p'']
           then CALC_TI83P
           else if any_name str [''TI-84+'', ''TI-84p'', ''TI84+'', ''TI84p'', ''84+'', ''84p'']
           then CALC_TI84P
           else if any_name str [''TI-85'', ''TI85'', ''85'']
           then CALC_TI85
           else if any_name str [''TI-86'', ''TI86'', ''86'']
           then CALC_TI86
           else if any_name str [''TI-89'', ''TI89'', ''89'']
           then CALC_TI89
           else if any_name str [''TI-89T'', ''TI89T'', ''89T'']
           then CALC_TI89T
           else if any_name str [''TI-92'', ''TI-92II'', ''TI92'', ''TI92II'', ''92'', ''92II'']
           then CALC_TI92
           else if any_name str [''TI-92+'', ''TI-92P'', ''TI92+'', ''TI92P'', ''92+'', ''92P'']
           then CALC_TI92P
           else if any_name str [''TI-V200'', ''TIV200'', ''V200'']
           then CALC_V200
           else if any_name str [''TI-84+ USB'', ''TI-84p USB'', ''TI84+ USB'', ''TI84p USB'', ''84+ USB'', ''84p USB'']
           then CALC_TI84P_USB
           else if any_name str [''TI-89T USB'', ''TI89T USB'', ''89T USB'']
           then CALC_TI89T_USB
           else if same_string_nocase (take 9 str) ''TI-Nspire'' \<or> same_string_nocase (take 9 str) ''TI Nspire'' \<or> same_string_nocase (take 6 str) ''Nspire'' \<or> same_string_nocase (take 3 str) ''Nsp''
           then CALC_NSPIRE
           else if any_name str [''TI-80'', ''TI80'', ''80'']
           then CALC_TI80
           else if any_name str [''TI-84+CSE'', ''TI-84PCSE'', ''TI84+CSE'', ''TI84PCSE'', ''84+CSE'', ''84PCSE'']
           then CALC_TI84PC
           else if any_name str [''TI-84+CSE USB'', ''TI-84PCSE USB'', ''TI84+CSE USB'', ''TI84PCSE USB'', ''84+CSE USB'', ''84PCSE USB'']
           then CALC_TI84PC_USB
           else if any_name str [''TI-83PCE USB'', ''TI83PCE USB'', ''TI-83PCE'', ''TI83PCE'', ''83PCE USB'', ''83PCE'']
           then CALC_TI83PCE_USB
           else if any_name str [''TI-84+CE USB'', ''TI-84PCE USB'', ''TI84+CE USB'', ''TI84PCE USB'', ''TI-84+CE'', ''TI-84PCE'', ''TI84+CE'', ''TI84PCE'', ''84+CE USB'', ''84PCE USB'', ''84+CE'', ''84PCE'']
           then CALC_TI84PCE_USB
           else if any_name str [''TI-82A USB'', ''TI82A USB'', ''TI-82A'', ''TI82A'', ''82A USB'', ''82A'']
           then CALC_TI82A_USB
           else if any_name str [''TI-84+T USB'', ''TI-84PT USB'', ''TI84+T USB'', ''TI84PT USB'', ''TI-84+T'', ''TI-84PT'', ''TI84+T'', ''TI84PT'', ''84+T USB'', ''84PT USB'', ''84+T'', ''84PT'']
           then CALC_TI84PT_USB
           else CALC_NONE))"

section \<open>Conversions by model\<close>

text \<open>
  \<open>g_utf16_to_utf8\<close> and \<open>g_utf8_to_utf16\<close> give null for text they cannot convert.  A result \<open>None\<close>
  below is the null pointer the code returns, or its read of a null pointer where it does not look.
\<close>

type_synonym to_utf8 = "utf16 \<Rightarrow> bytes option"
type_synonym to_utf16 = "bytes \<Rightarrow> utf16 option"

definition ticonv_utf16_strlen :: "utf16 option \<Rightarrow> nat" where
  "ticonv_utf16_strlen str_ptr = (case str_ptr of None \<Rightarrow> 0 | Some p \<Rightarrow> length (takeWhile (\<lambda>c. c \<noteq> 0) p))"

definition ticonv_utf8_to_utf16 :: "to_utf16 \<Rightarrow> bytes option \<Rightarrow> utf16 option" where
  "ticonv_utf8_to_utf16 g_utf8_to_utf16 str_ptr = (case str_ptr of None \<Rightarrow> None | Some s \<Rightarrow> g_utf8_to_utf16 s)"

definition ticonv_utf16_to_utf8 :: "to_utf8 \<Rightarrow> utf16 option \<Rightarrow> bytes option" where
  "ticonv_utf16_to_utf8 g_utf16_to_utf8 str_ptr = (case str_ptr of None \<Rightarrow> None | Some s \<Rightarrow> g_utf16_to_utf8 s)"

definition ticonv_usb_to_utf16 :: "to_utf16 \<Rightarrow> bytes option \<Rightarrow> utf16 option" where
  "ticonv_usb_to_utf16 g16 ti =
     (case ticonv_utf8_to_utf16 g16 ti of
        None \<Rightarrow> None
      | Some tmp \<Rightarrow> Some (take (ticonv_utf16_strlen (Some tmp)) tmp))"

definition ticonv_utf16_to_usb :: "to_utf8 \<Rightarrow> utf16 option \<Rightarrow> bytes option" where
  "ticonv_utf16_to_usb g8 utf16 = ticonv_utf16_to_utf8 g8 utf16"

definition ticonv_charset_utf16_to_ti_s :: "to_utf8 \<Rightarrow> CalcModel \<Rightarrow> utf16 option \<Rightarrow> bytes option" where
  "ticonv_charset_utf16_to_ti_s g8 model utf16 =
     (case utf16 of
        None \<Rightarrow> None
      | Some _ \<Rightarrow>
          (if model = CALC_TI73 then ticonv_utf16_to_ti73 utf16
           else if model = CALC_TI80 then ticonv_utf16_to_ti80 utf16
           else if model = CALC_TI82 then ticonv_utf16_to_ti82 utf16
           else if model = CALC_TI83 then ticonv_utf16_to_ti83 utf16
           else if model \<in> {CALC_TI83P, CALC_TI84P, CALC_TI84PC} then ticonv_utf16_to_ti83p utf16
           else if model = CALC_TI85 then ticonv_utf16_to_ti85 utf16
           else if model = CALC_TI86 then ticonv_utf16_to_ti86 utf16
           else if model \<in> {CALC_TI89, CALC_TI89T, CALC_TI92, CALC_TI92P, CALC_V200} then ticonv_utf16_to_ti9x utf16
           else if model \<in> {CALC_TI84P_USB, CALC_TI84PC_USB, CALC_TI83PCE_USB, CALC_TI84PCE_USB, CALC_TI82A_USB,
             CALC_TI84PT_USB, CALC_TI89T_USB} then ticonv_utf16_to_usb g8 utf16
           else if model = CALC_NSPIRE then ticonv_utf16_to_utf8 g8 utf16
           else Some []))"

definition ticonv_charset_utf16_to_ti :: "to_utf8 \<Rightarrow> CalcModel \<Rightarrow> utf16 option \<Rightarrow> bytes option" where
  "ticonv_charset_utf16_to_ti g8 model utf16 = ticonv_charset_utf16_to_ti_s g8 model utf16"

definition ticonv_charset_ti_to_utf16_s :: "to_utf16 \<Rightarrow> CalcModel \<Rightarrow> bytes option \<Rightarrow> utf16 option" where
  "ticonv_charset_ti_to_utf16_s g16 model ti =
     (case ti of
        None \<Rightarrow> None
      | Some _ \<Rightarrow>
          (if model = CALC_TI73 then ticonv_ti73_to_utf16 ti
           else if model = CALC_TI80 then ticonv_ti80_to_utf16 ti
           else if model = CALC_TI82 then ticonv_ti82_to_utf16 ti
           else if model = CALC_TI83 then ticonv_ti83_to_utf16 ti
           else if model \<in> {CALC_TI83P, CALC_TI84P, CALC_TI84PC} then ticonv_ti83p_to_utf16 ti
           else if model = CALC_TI85 then ticonv_ti85_to_utf16 ti
           else if model = CALC_TI86 then ticonv_ti86_to_utf16 ti
           else if model \<in> {CALC_TI89, CALC_TI89T, CALC_TI92, CALC_TI92P, CALC_V200} then ticonv_ti9x_to_utf16 ti
           else if model \<in> {CALC_TI84P_USB, CALC_TI84PC_USB, CALC_TI83PCE_USB, CALC_TI84PCE_USB, CALC_TI82A_USB,
             CALC_TI84PT_USB, CALC_TI89T_USB} then ticonv_usb_to_utf16 g16 ti
           else if model = CALC_NSPIRE then ticonv_usb_to_utf16 g16 ti
           else Some []))"

definition ticonv_charset_ti_to_utf16 :: "to_utf16 \<Rightarrow> CalcModel \<Rightarrow> bytes option \<Rightarrow> utf16 option" where
  "ticonv_charset_ti_to_utf16 g16 model ti = ticonv_charset_ti_to_utf16_s g16 model ti"

text \<open>The casts between \<open>char *\<close> and \<open>unsigned char *\<close>.\<close>

definition bytes_of :: "string \<Rightarrow> bytes" where "bytes_of s = map byte_of_char s"
definition chars_of :: "bytes \<Rightarrow> string" where "chars_of b = map char_of_byte b"

definition ticonv_varname_to_utf16 :: "to_utf16 \<Rightarrow> CalcModel \<Rightarrow> string option \<Rightarrow> byte \<Rightarrow> utf16 option" where
  "ticonv_varname_to_utf16 g16 model src ty =
     (case src of
        None \<Rightarrow> None
      | Some _ \<Rightarrow> ticonv_charset_ti_to_utf16 g16 model (Some (bytes_of (ticonv_varname_detokenize model src ty))))"

definition ticonv_varname_to_utf8 :: "to_utf16 \<Rightarrow> to_utf8 \<Rightarrow> CalcModel \<Rightarrow> string option \<Rightarrow> byte \<Rightarrow> bytes option" where
  "ticonv_varname_to_utf8 g16 g8 model src ty =
     (case src of None \<Rightarrow> None | Some _ \<Rightarrow> ticonv_utf16_to_utf8 g8 (ticonv_varname_to_utf16 g16 model src ty))"

text \<open>The copy into a buffer of \<open>maxlen\<close> characters that the functions ending in \<open>_sn\<close> share.\<close>

definition copy_sn :: "nat \<Rightarrow> bytes option \<Rightarrow> bytes option" where
  "copy_sn maxlen tmp = (case tmp of None \<Rightarrow> None | Some t \<Rightarrow> Some (take (maxlen - 1) (takeWhile (\<lambda>b. b \<noteq> 0) t)))"

definition ticonv_varname_to_utf8_sn ::
    "to_utf16 \<Rightarrow> to_utf8 \<Rightarrow> CalcModel \<Rightarrow> string option \<Rightarrow> nat \<Rightarrow> byte \<Rightarrow> bytes option" where
  "ticonv_varname_to_utf8_sn g16 g8 model src maxlen ty =
     (if src \<noteq> None \<and> maxlen \<ge> 1 then copy_sn maxlen (ticonv_varname_to_utf8 g16 g8 model src ty) else None)"

text \<open>To the name in a file, and from it.\<close>

definition ticonv_varname_to_tifile :: "to_utf16 \<Rightarrow> to_utf8 \<Rightarrow> CalcModel \<Rightarrow> string option \<Rightarrow> byte \<Rightarrow> string option" where
  "ticonv_varname_to_tifile g16 g8 model src ty =
     (case src of
        None \<Rightarrow> None
      | Some s \<Rightarrow>
          (let by_way = (\<lambda>usb plain.
                 ticonv_charset_utf16_to_ti g8 plain (ticonv_charset_ti_to_utf16 g16 usb (Some (bytes_of s))))
           in if model \<in> {CALC_TI84P_USB, CALC_TI82A_USB, CALC_TI84PT_USB} then
                ticonv_varname_tokenize CALC_TI84P (map_option chars_of (by_way CALC_TI84P_USB CALC_TI84P)) ty
              else if model \<in> {CALC_TI84PC_USB, CALC_TI83PCE_USB, CALC_TI84PCE_USB} then
                ticonv_varname_tokenize CALC_TI84PC (map_option chars_of (by_way CALC_TI84PC_USB CALC_TI84PC)) ty
              else if model = CALC_TI89T_USB then map_option chars_of (by_way CALC_TI89T_USB CALC_TI89T)
              else Some (c_string s)))"

definition ticonv_varname_to_tifile_sn ::
    "to_utf16 \<Rightarrow> to_utf8 \<Rightarrow> CalcModel \<Rightarrow> string option \<Rightarrow> nat \<Rightarrow> byte \<Rightarrow> string option" where
  "ticonv_varname_to_tifile_sn g16 g8 model src maxlen ty =
     (if src \<noteq> None \<and> maxlen \<ge> 1
      then map_option (\<lambda>t. take (maxlen - 1) (c_string t)) (ticonv_varname_to_tifile g16 g8 model src ty) else None)"

definition ticonv_varname_from_tifile :: "to_utf16 \<Rightarrow> to_utf8 \<Rightarrow> CalcModel \<Rightarrow> string option \<Rightarrow> byte \<Rightarrow> bytes option" where
  "ticonv_varname_from_tifile g16 g8 model src ty =
     (case src of
        None \<Rightarrow> None
      | Some s \<Rightarrow>
          (if model \<in> {CALC_TI84P_USB, CALC_TI82A_USB, CALC_TI84PT_USB} then
             ticonv_charset_utf16_to_ti g8 CALC_TI84P_USB
               (ticonv_charset_ti_to_utf16 g16 CALC_TI84P (Some (bytes_of (ticonv_varname_detokenize CALC_TI84P src ty))))
           else if model \<in> {CALC_TI84PC_USB, CALC_TI83PCE_USB, CALC_TI84PCE_USB} then
             ticonv_charset_utf16_to_ti g8 CALC_TI84PC_USB
               (ticonv_charset_ti_to_utf16 g16 CALC_TI84PC (Some (bytes_of (ticonv_varname_detokenize CALC_TI84PC src ty))))
           else if model = CALC_TI89T_USB then
             ticonv_charset_utf16_to_ti g8 CALC_TI89T_USB (ticonv_charset_ti_to_utf16 g16 CALC_TI89T (Some (bytes_of s)))
           else Some (bytes_of (c_string s))))"

definition ticonv_varname_from_tifile_sn ::
    "to_utf16 \<Rightarrow> to_utf8 \<Rightarrow> CalcModel \<Rightarrow> string option \<Rightarrow> nat \<Rightarrow> byte \<Rightarrow> bytes option" where
  "ticonv_varname_from_tifile_sn g16 g8 model src maxlen ty =
     (if src \<noteq> None \<and> maxlen \<ge> 1 then copy_sn maxlen (ticonv_varname_from_tifile g16 g8 model src ty) else None)"

section \<open>File names\<close>

definition greek_names :: "(16 word \<times> string) list" where
  "greek_names = [
    (0x03BC, ''_mu_''), (0x03B1, ''_alpha_''), (0x03B2, ''_beta_''), (0x0393, ''_GAMMA_''),
    (0x03B3, ''_gamma_''), (0x0394, ''_DELTA_''), (0x03B4, ''_delta_''), (0x03B5, ''_epsilon_''),
    (0x03B6, ''_zeta_''), (0x03B8, ''_theta_''), (0x03BB, ''_lambda_''), (0x03BE, ''_ksi_''),
    (0x03A0, ''_PI_''), (0x03C0, ''_pi_''), (0x03C1, ''_rho_''), (0x03A3, ''_SIGMA_''),
    (0x03C3, ''_sigma_''), (0x03C4, ''_tau_''), (0x03D5, ''_PHI_''), (0x03A8, ''_PSI_''),
    (0x03A9, ''_OMEGA_''), (0x03C9, ''_omega_'')]"

text \<open>The text a Greek letter stands for is ASCII, so its UTF-16 units are its bytes.\<close>

definition ascii_units :: "string \<Rightarrow> utf16" where
  "ascii_units s = map (\<lambda>c. of_nat (of_char c)) s"

definition greek_units :: "16 word \<Rightarrow> utf16" where
  "greek_units c = ascii_units (case map_of greek_names c of Some s \<Rightarrow> s | None \<Rightarrow> [])"

definition gfe_68k :: "16 word \<Rightarrow> utf16" where
  "gfe_68k c = (if c AND 0xff00 = 0 then [c AND 0xff] else greek_units c)"

definition gfe_z80 :: "16 word \<Rightarrow> utf16" where
  "gfe_z80 c =
     (if c AND 0xff00 = 0 then [c AND 0xff]
      else if 0x2080 \<le> c \<and> c \<le> 0x2089 then [(c - 0x2080) + 0x30]
      else greek_units c)"

text \<open>The buffer \<open>utf16_dst\<close> before it is converted: letters spelt out, slashes replaced.\<close>

definition gfe_units :: "bool \<Rightarrow> CalcModel \<Rightarrow> utf16 \<Rightarrow> utf16" where
  "gfe_units is_utf8 model src =
     (let p = takeWhile (\<lambda>c. c \<noteq> 0) src;
          q = (if ticonv_model_is_ti68k model \<and> \<not> is_utf8 then concat (map gfe_68k p)
               else if (ticonv_model_is_tiz80 model \<or> ticonv_model_is_tiez80 model) \<and> \<not> is_utf8
               then concat (map gfe_z80 p)
               else p)
      in map (\<lambda>c. if c = 0x2F then 0x5F else c) q)"

definition ticonv_utf16_to_gfe ::
    "bool \<Rightarrow> to_utf8 \<Rightarrow> (bytes option \<Rightarrow> bytes option) \<Rightarrow> CalcModel \<Rightarrow> utf16 option \<Rightarrow> bytes option" where
  "ticonv_utf16_to_gfe is_utf8 g8 g_filename_from_utf8 model src =
     (case src of None \<Rightarrow> None | Some s \<Rightarrow> g_filename_from_utf8 (g8 (gfe_units is_utf8 model s)))"

definition ticonv_varname_to_filename ::
    "bool \<Rightarrow> to_utf16 \<Rightarrow> to_utf8 \<Rightarrow> (bytes option \<Rightarrow> bytes option) \<Rightarrow> CalcModel \<Rightarrow> string option \<Rightarrow> byte \<Rightarrow> bytes option" where
  "ticonv_varname_to_filename is_utf8 g16 g8 g_filename_from_utf8 model src ty =
     (case src of
        None \<Rightarrow> None
      | Some _ \<Rightarrow> ticonv_utf16_to_gfe is_utf8 g8 g_filename_from_utf8 model (ticonv_varname_to_utf16 g16 model src ty))"

definition zfe_names :: "(byte \<times> string) list" where
  "zfe_names = [
    (0xBC, ''_mu_''), (0xB1, ''_alpha_''), (0xB2, ''_beta_''), (0x93, ''_GAMMA_''),
    (0xB3, ''_gamma_''), (0x94, ''_DELTA_''), (0xB4, ''_delta_''), (0xB5, ''_epsilon_''),
    (0xB6, ''_zeta_''), (0xB8, ''_theta_''), (0xBB, ''_lambda_''), (0xBE, ''_ksi_''),
    (0xA0, ''_PI_''), (0xC0, ''_pi_''), (0xC1, ''_rho_''), (0xA3, ''_SIGMA_''), (0xC3, ''_sigma_''),
    (0xC4, ''_tau_''), (0xD5, ''_PHI_''), (0xA8, ''_PSI_''), (0xA9, ''_OMEGA_''),
    (0xC9, ''_omega_'')]"

fun zfe_loop :: "bytes \<Rightarrow> bytes option" where
  "zfe_loop [] = Some []"
| "zfe_loop (b # p) =
     (if b = 0xCE then
        (case p of
           [] \<Rightarrow> None
         | c # p \<Rightarrow>
             map_option ((@) (case map_of zfe_names c of Some s \<Rightarrow> bytes_of s | None \<Rightarrow> [])) (zfe_loop p))
      else map_option ((#) b) (zfe_loop p))"

definition ticonv_gfe_to_zfe :: "bool \<Rightarrow> CalcModel \<Rightarrow> bytes option \<Rightarrow> bytes option" where
  "ticonv_gfe_to_zfe has_utf8_filenames model src =
     (case src of
        None \<Rightarrow> Some []
      | Some s \<Rightarrow>
          (let s = takeWhile (\<lambda>b. b \<noteq> 0) s in if \<not> has_utf8_filenames then Some s else zfe_loop s))"

section \<open>What the names keep\<close>

text \<open>
  The letters from pi to omega have the lead byte 0xCF in UTF-8.  The switch looks for them behind
  0xCE, so they stay as they are, while alpha is spelt out.
\<close>

lemma pi_not_spelt:
  "ticonv_gfe_to_zfe True model (Some [0xCF, 0x80]) = Some [0xCF, 0x80]"
  "ticonv_gfe_to_zfe True model (Some [0xCE, 0xB1]) = Some (bytes_of ''_alpha_'')"
  by (simp_all add: ticonv_gfe_to_zfe_def zfe_names_def)

lemma lower_chars:
  "g_ascii_tolower (CHR ''T'') = CHR ''t''" "g_ascii_tolower (CHR ''I'') = CHR ''i''"
  "g_ascii_tolower (CHR ''U'') = CHR ''u''" "g_ascii_tolower (CHR ''S'') = CHR ''s''"
  "g_ascii_tolower (CHR ''B'') = CHR ''b''" "g_ascii_tolower (CHR ''C'') = CHR ''c''"
  "g_ascii_tolower (CHR ''E'') = CHR ''e''" "g_ascii_tolower (CHR ''A'') = CHR ''a''"
  "g_ascii_tolower (CHR ''N'') = CHR ''n''" "g_ascii_tolower (CHR ''V'') = CHR ''v''"
  "g_ascii_tolower (CHR ''P'') = CHR ''p''" "g_ascii_tolower (CHR ''0'') = CHR ''0''"
  "g_ascii_tolower (CHR ''1'') = CHR ''1''" "g_ascii_tolower (CHR ''2'') = CHR ''2''"
  "g_ascii_tolower (CHR ''3'') = CHR ''3''" "g_ascii_tolower (CHR ''4'') = CHR ''4''"
  "g_ascii_tolower (CHR ''5'') = CHR ''5''" "g_ascii_tolower (CHR ''6'') = CHR ''6''"
  "g_ascii_tolower (CHR ''7'') = CHR ''7''" "g_ascii_tolower (CHR ''8'') = CHR ''8''"
  "g_ascii_tolower (CHR ''9'') = CHR ''9''" "g_ascii_tolower (CHR ''+'') = CHR ''+''"
  "g_ascii_tolower (CHR ''-'') = CHR ''-''" "g_ascii_tolower (CHR '' '') = CHR '' ''"
  "g_ascii_tolower (CHR ''t'') = CHR ''t''" "g_ascii_tolower (CHR ''i'') = CHR ''i''"
  "g_ascii_tolower (CHR ''u'') = CHR ''u''" "g_ascii_tolower (CHR ''s'') = CHR ''s''"
  "g_ascii_tolower (CHR ''b'') = CHR ''b''" "g_ascii_tolower (CHR ''c'') = CHR ''c''"
  "g_ascii_tolower (CHR ''e'') = CHR ''e''" "g_ascii_tolower (CHR ''a'') = CHR ''a''"
  "g_ascii_tolower (CHR ''n'') = CHR ''n''" "g_ascii_tolower (CHR ''v'') = CHR ''v''"
  "g_ascii_tolower (CHR ''p'') = CHR ''p''" "g_ascii_tolower (CHR ''r'') = CHR ''r''"
  by code_simp+

lemma model_name_back: "ticonv_string_to_model (Some (ticonv_model_to_string m)) = m"
  by (cases m; simp add: ticonv_string_to_model_def ticonv_model_to_string_def any_name_def same_string_nocase_def
      lower_chars c_string_def)

text \<open>
  Names of string, picture and database variables survive the way to their tokens and back on
  every calculator with tokens, for every type that does not replace the name; and the name of
  every model is read back as that model.
\<close>

theorem names_roundtrip:
  "(model \<in> token_models \<and> spelt_type model ty \<and> n < 10 \<and> stem \<in> {''Str'', ''Pic'', ''GDB''} \<longrightarrow>
      (\<exists>t. ticonv_varname_tokenize model (Some (stem @ [digit_char n])) ty = Some t
         \<and> length t = 2 \<and> ticonv_varname_detokenize model (Some t) ty = stem @ [digit_char n]))
   \<and> ticonv_string_to_model (Some (ticonv_model_to_string m)) = m"
proof -
  have "\<exists>t. ticonv_varname_tokenize model (Some (stem @ [digit_char n])) ty = Some t
         \<and> length t = 2 \<and> ticonv_varname_detokenize model (Some t) ty = stem @ [digit_char n]"
    if a: "model \<in> token_models" "spelt_type model ty" "n < 10" and s: "stem \<in> {''Str'', ''Pic'', ''GDB''}"
    using s tokenize_numbered [OF a] detokenize_numbered [OF a(1,2)] numbered_token [OF a(3), of model]
    by (auto simp del: append.simps)
  then show ?thesis using model_name_back by blast
qed

lemma names_roundtrip_witness:
  "(\<exists>t. ticonv_varname_tokenize CALC_TI83P (Some ''Str1'') 4 = Some t
         \<and> length t = 2 \<and> ticonv_varname_detokenize CALC_TI83P (Some t) 4 = ''Str1'')
   \<and> ticonv_string_to_model (Some ''TI83+'') = CALC_TI83P"
proof -
  have "spelt_type CALC_TI83P 4" by (simp add: spelt_type_def detokenize_vartype_def TI83_family_def)
  moreover have "digit_char 1 = CHR ''1''" by code_simp
  ultimately show ?thesis
    using names_roundtrip [of CALC_TI83P 4 1 "''Str''" CALC_TI83P]
    by (simp add: token_models_def ticonv_model_to_string_def)
qed

end
