(* ===== verification/Calc_Store.thy ===== *)
theory Calc_Store
  imports Ticonv "HOL-Library.Multiset"
begin

text \<open>
  \<open>calc_string_store.c\<close>: strings and binary blobs kept in the string variables of the calculator,
  with the file contents of \<open>libtifiles\<close> (\<open>filesxx.cc\<close>, \<open>ve_fp.cc\<close>) they are sent in.  Every block
  the code allocates is an event, so that ownership can be followed; what the calculator, GLib
  and the allocators answer is the record \<open>store_env\<close>.
\<close>

section \<open>Entries and contents\<close>

abbreviation VARNAME_MAX :: nat where "VARNAME_MAX \<equiv> 1024"

text \<open>The buffers for names and the comment hold C strings; \<open>folder\<close> stays empty and is left out.\<close>

record VarEntry =
  ve_name :: string
  ve_type :: byte
  ve_attr :: byte
  ve_version :: byte
  ve_size :: u32
  ve_data :: "bytes option"
  ve_action :: int

record FileContent =
  fc_model :: CalcModel
  fc_comment :: string
  num_entries :: nat
  fc_entries :: "VarEntry option list option"
  model_dst :: CalcModel

datatype store_res = S_data | S_entry | S_array | S_content | S_name | S_utf16 | S_text | S_message

datatype store_event = Got store_res | Freed store_res | Sent handle FileContent | Asked handle VarEntry

text \<open>
  The answers: the conversions of GLib, whether each allocation succeeds, the text of the clock,
  the result of sending, whether a message for an error is available, and the result of receiving
  with what the calculator put into the content.
\<close>

record store_env =
  g_utf8_to_utf16 :: to_utf16
  g_utf16_to_utf8 :: to_utf8
  data_ok :: bool
  content_ok :: bool
  entry_ok :: bool
  array_ok :: bool
  text_ok :: bool
  time_text :: string
  send_var :: "handle \<Rightarrow> FileContent \<Rightarrow> int"
  error_text :: "int \<Rightarrow> bool"
  recv_var :: "handle \<Rightarrow> FileContent \<Rightarrow> VarEntry \<Rightarrow> int \<times> FileContent"

definition tifiles_content_create_regular :: "store_env \<Rightarrow> CalcModel \<Rightarrow> FileContent option" where
  "tifiles_content_create_regular env model =
     (if content_ok env
      then Some \<lparr>fc_model = model, fc_comment = take 40 (''Single file dated '' @ time_text env), num_entries = 0,
             fc_entries = None, model_dst = model\<rparr>
      else None)"

text \<open>What a content holds besides its own block, in the order the deletion frees it.\<close>

definition entry_parts :: "VarEntry option \<Rightarrow> store_res list" where
  "entry_parts e = (case e of None \<Rightarrow> [] | Some v \<Rightarrow> (if ve_data v = None then [] else [S_data]) @ [S_entry])"

definition content_parts :: "FileContent \<Rightarrow> store_res list" where
  "content_parts c =
     (case fc_entries c of
        None \<Rightarrow> []
      | Some es \<Rightarrow> concat (map entry_parts (take (num_entries c) es)) @ [S_array])"

definition tifiles_content_delete_regular :: "FileContent option \<Rightarrow> store_event list" where
  "tifiles_content_delete_regular content =
     (case content of None \<Rightarrow> [] | Some c \<Rightarrow> map Freed (content_parts c) @ [Freed S_content])"

definition tifiles_ve_create :: "store_env \<Rightarrow> VarEntry option" where
  "tifiles_ve_create env =
     (if entry_ok env
      then Some \<lparr>ve_name = [], ve_type = 0, ve_attr = 0, ve_version = 0, ve_size = 0, ve_data = None, ve_action = 0\<rparr>
      else None)"

definition tifiles_ve_delete :: "VarEntry option \<Rightarrow> store_event list" where
  "tifiles_ve_delete ve = map Freed (entry_parts ve)"

definition tifiles_ve_alloc_data :: "store_env \<Rightarrow> nat \<Rightarrow> bytes option" where
  "tifiles_ve_alloc_data env n = (if data_ok env then Some (replicate (n + 1) 0) else None)"

definition tifiles_ve_create_array :: "store_env \<Rightarrow> nat \<Rightarrow> VarEntry option list option" where
  "tifiles_ve_create_array env nelts = (if array_ok env then Some (replicate nelts None) else None)"

section \<open>Building a content\<close>

definition string_name :: "string \<Rightarrow> bool" where
  "string_name var_name \<longleftrightarrow>
     (let s = c_string var_name in take 3 s = ''Str'' \<and> length s = 4 \<and> is_digit (byte_of_char (s ! 3)))"

text \<open>
  The part both builders share, from the allocation of the data to the clean-up after an error:
  the data is a length byte and the payload, and the content holds the one entry.
\<close>

definition build_content ::
    "store_env \<Rightarrow> CalcModel \<Rightarrow> byte \<Rightarrow> string \<Rightarrow> bytes \<Rightarrow> app_status \<times> FileContent option \<times> store_event list" where
  "build_content env model string_type tokenized_name payload =
     (let entry_size = length payload + 1
      in case tifiles_ve_alloc_data env entry_size of
           None \<Rightarrow> (APP_ERR_ALLOC, None, [])
         | Some data \<Rightarrow>
             (let data = data[0 := of_nat (length payload)];
                  data = write_at data 1 payload
              in case tifiles_content_create_regular env model of
                   None \<Rightarrow> (APP_ERR_ALLOC, None, [Got S_data, Freed S_data])
                 | Some content \<Rightarrow>
                     (case tifiles_ve_create env of
                        None \<Rightarrow> (APP_ERR_ALLOC, None,
                          [Got S_data, Got S_content] @ tifiles_content_delete_regular (Some content))
                      | Some entry \<Rightarrow>
                          (let entry = \<lparr>ve_name = take (VARNAME_MAX - 1) (c_string tokenized_name),
                                 ve_type = string_type, ve_attr = 0, ve_version = 0, ve_size = of_nat entry_size,
                                 ve_data = Some data, ve_action = 0\<rparr>;
                               content = content\<lparr>fc_model := model, model_dst := model,
                                 fc_comment := ''Pushed from c_wallet''\<rparr>
                           in case tifiles_ve_create_array env 1 of
                                None \<Rightarrow> (APP_ERR_ALLOC, None,
                                  [Got S_data, Got S_content, Got S_entry] @ tifiles_content_delete_regular (Some content))
                              | Some entries \<Rightarrow>
                                  (APP_OK, Some (content\<lparr>fc_entries := Some (entries[0 := Some entry]), num_entries := 1\<rparr>),
                                   [Got S_data, Got S_content, Got S_entry, Got S_array])))))"

definition build_binary_entry ::
    "store_env \<Rightarrow> CalcSession option \<Rightarrow> string option \<Rightarrow> bytes option \<Rightarrow> nat \<Rightarrow> FileContent option option
     \<Rightarrow> app_status \<times> FileContent option option \<times> store_event list" where
  "build_binary_entry env session var_name payload payload_len out_content =
     (case out_content of
        None \<Rightarrow> (APP_ERR_IO, None, [])
      | Some _ \<Rightarrow>
          (case session of
             None \<Rightarrow> (APP_ERR_NO_CALC, Some None, [])
           | Some s \<Rightarrow>
               if calc s = None then (APP_ERR_NO_CALC, Some None, [])
               else (case (var_name, payload) of
                       (Some name, Some p) \<Rightarrow>
                         if payload_len > 255 then (APP_ERR_IO, Some None, [])
                         else (let string_type = tifiles_string2vartype (calc_model s) (Some ''String'')
                               in if string_type = 0 then (APP_ERR_IO, Some None, [])
                                  else if \<not> string_name name then (APP_ERR_IO, Some None, [])
                                  else (case ticonv_varname_tokenize (calc_model s) (Some name) string_type of
                                          None \<Rightarrow> (APP_ERR_IO, Some None, [])
                                        | Some tokenized_name \<Rightarrow>
                                            (let (status, content, ev) =
                                                   build_content env (calc_model s) string_type tokenized_name
                                                     (take payload_len p)
                                             in (status, Some content, Got S_name # ev @ [Freed S_name]))))
                     | _ \<Rightarrow> (APP_ERR_IO, Some None, []))))"

definition build_string_entry ::
    "store_env \<Rightarrow> CalcSession option \<Rightarrow> string option \<Rightarrow> string option \<Rightarrow> FileContent option option
     \<Rightarrow> app_status \<times> FileContent option option \<times> store_event list" where
  "build_string_entry env session var_name payload out_content =
     (case out_content of
        None \<Rightarrow> (APP_ERR_IO, None, [])
      | Some _ \<Rightarrow>
          (case session of
             None \<Rightarrow> (APP_ERR_NO_CALC, Some None, [])
           | Some s \<Rightarrow>
               if calc s = None then (APP_ERR_NO_CALC, Some None, [])
               else (case (var_name, payload) of
                       (Some name, Some p) \<Rightarrow>
                         (let string_type = tifiles_string2vartype (calc_model s) (Some ''String'')
                          in if string_type = 0 then (APP_ERR_IO, Some None, [])
                             else if \<not> string_name name then (APP_ERR_IO, Some None, [])
                             else (case ticonv_varname_tokenize (calc_model s) (Some name) string_type of
                                     None \<Rightarrow> (APP_ERR_IO, Some None, [])
                                   | Some tokenized_name \<Rightarrow>
                                       (let (status, content, ev) =
                                              (case ticonv_utf8_to_utf16 (g_utf8_to_utf16 env) (Some (bytes_of (c_string p))) of
                                                 None \<Rightarrow> (APP_ERR_ALLOC, None, [])
                                               | Some utf16 \<Rightarrow>
                                                   (let (status, content, ev) =
                                                          (if \<not> text_ok env then (APP_ERR_ALLOC, None, [])
                                                           else (case ticonv_charset_utf16_to_ti_s (g_utf16_to_utf8 env)
                                                                        (calc_model s) (Some utf16) of
                                                                   None \<Rightarrow> (APP_ERR_IO, None, [Got S_text, Freed S_text])
                                                                 | Some ti \<Rightarrow>
                                                                     (let ti = takeWhile (\<lambda>b. b \<noteq> 0) ti;
                                                                          ti_length = length ti;
                                                                          (status, content, ev) =
                                                                            (if ti_length = 0 then (APP_ERR_IO, None, [])
                                                                             else if ti_length > 255 then (APP_ERR_IO, None, [])
                                                                             else build_content env (calc_model s) string_type
                                                                                    tokenized_name ti)
                                                                      in (status, content, Got S_text # ev @ [Freed S_text]))))
                                                    in (status, content, Got S_utf16 # ev @ [Freed S_utf16])))
                                        in (status, Some content, Got S_name # ev @ [Freed S_name]))))
                     | _ \<Rightarrow> (APP_ERR_IO, Some None, []))))"

section \<open>Storing and fetching\<close>

text \<open>Sending a built content, with the message for an error; both stores share it.\<close>

definition send_content :: "store_env \<Rightarrow> handle \<Rightarrow> FileContent \<Rightarrow> app_status \<times> store_event list" where
  "send_content env h content =
     (let transfer_result = send_var env h content
      in if transfer_result \<noteq> 0
         then (APP_ERR_IO, Sent h content # (if error_text env transfer_result then [Got S_message, Freed S_message] else []))
         else (APP_OK, [Sent h content]))"

definition send_built ::
    "store_env \<Rightarrow> handle \<Rightarrow> app_status \<times> FileContent option option \<times> store_event list
     \<Rightarrow> app_status \<times> FileContent option \<times> store_event list" where
  "send_built env h built =
     (let (status, out, ev) = built;
          content = (case out of Some c \<Rightarrow> c | None \<Rightarrow> None)
      in if status = APP_OK
         then (let (status, ev') = send_content env h (the content) in (status, content, ev @ ev'))
         else (status, content, ev))"

definition calc_store_persistent_string ::
    "store_env \<Rightarrow> CalcSession option \<Rightarrow> string option \<Rightarrow> string option \<Rightarrow> app_status \<times> store_event list" where
  "calc_store_persistent_string env session var_name payload =
     (let (status, content, ev) =
            (case session of
               None \<Rightarrow> (APP_ERR_NO_CALC, None, [])
             | Some s \<Rightarrow>
                 (case calc s of
                    None \<Rightarrow> (APP_ERR_NO_CALC, None, [])
                  | Some h \<Rightarrow>
                      if var_name \<noteq> None \<and> payload \<noteq> None then
                        send_built env h (build_string_entry env session var_name payload (Some None))
                      else (APP_ERR_IO, None, [])))
      in (status, ev @ tifiles_content_delete_regular content))"

definition calc_store_binary_string ::
    "store_env \<Rightarrow> CalcSession option \<Rightarrow> string option \<Rightarrow> bytes option \<Rightarrow> nat \<Rightarrow> app_status \<times> store_event list" where
  "calc_store_binary_string env session var_name payload payload_len =
     (let (status, content, ev) =
            (case session of
               None \<Rightarrow> (APP_ERR_NO_CALC, None, [])
             | Some s \<Rightarrow>
                 (case calc s of
                    None \<Rightarrow> (APP_ERR_NO_CALC, None, [])
                  | Some h \<Rightarrow>
                      if var_name \<noteq> None \<and> payload \<noteq> None then
                        send_built env h (build_binary_entry env session var_name payload payload_len (Some None))
                      else (APP_ERR_IO, None, [])))
      in (status, ev @ tifiles_content_delete_regular content))"

text \<open>What the library allocates while it receives belongs to the content: \<open>content_parts\<close>.\<close>

definition calc_fetch_string ::
    "store_env \<Rightarrow> CalcSession option \<Rightarrow> string option \<Rightarrow> FileContent option option
     \<Rightarrow> app_status \<times> FileContent option option \<times> store_event list" where
  "calc_fetch_string env session var_name out_content =
     (case session of
        None \<Rightarrow> (APP_ERR_NO_CALC, out_content, [])
      | Some s \<Rightarrow>
          (case calc s of
             None \<Rightarrow> (APP_ERR_NO_CALC, out_content, [])
           | Some h \<Rightarrow>
               (case (var_name, out_content) of
                  (Some name, Some _) \<Rightarrow>
                    (let string_type = tifiles_string2vartype (calc_model s) (Some ''String'')
                     in if string_type \<noteq> 0 then
                          (case ticonv_varname_tokenize (calc_model s) (Some name) string_type of
                             None \<Rightarrow> (APP_ERR_IO, Some None, [])
                           | Some tokenized_name \<Rightarrow>
                               (case tifiles_content_create_regular env (calc_model s) of
                                  None \<Rightarrow> (APP_ERR_ALLOC, Some None, [Got S_name, Freed S_name])
                                | Some content \<Rightarrow>
                                    (let request = \<lparr>ve_name = take (VARNAME_MAX - 1) (c_string tokenized_name),
                                           ve_type = string_type, ve_attr = 0, ve_version = 0, ve_size = 0,
                                           ve_data = None, ve_action = 0\<rparr>;
                                         (result, content) = recv_var env h content request;
                                         ev = [Got S_name, Got S_content, Asked h request] @ map Got (content_parts content)
                                     in if result = 0 then (APP_OK, Some (Some content), ev @ [Freed S_name])
                                        else (APP_ERR_IO, Some None,
                                              ev @ tifiles_content_delete_regular (Some content) @ [Freed S_name]))))
                        else (APP_ERR_IO, Some None, []))
                | _ \<Rightarrow> (APP_ERR_IO, out_content, []))))"

text \<open>
  The result: the status, the bytes written to \<open>out_data\<close> and \<open>*out_len\<close>, each where the caller
  gave a pointer.
\<close>

definition calc_fetch_binary_string ::
    "store_env \<Rightarrow> CalcSession option \<Rightarrow> string option \<Rightarrow> bytes option \<Rightarrow> nat \<Rightarrow> nat option
     \<Rightarrow> app_status \<times> bytes option \<times> nat option \<times> store_event list" where
  "calc_fetch_binary_string env session var_name out_data out_size out_len =
     (if session = None \<or> var_name = None \<or> out_data = None \<or> out_len = None
      then (APP_ERR_IO, out_data, out_len, [])
      else (let (status, out, ev) = calc_fetch_string env session var_name (Some None)
            in if status \<noteq> APP_OK then (status, out_data, Some 0, ev)
               else (let content = the out;
                         (status, data, len) =
                           (case content of
                              None \<Rightarrow> (APP_ERR_IO, the out_data, 0)
                            | Some c \<Rightarrow>
                                (case fc_entries c of
                                   None \<Rightarrow> (APP_ERR_IO, the out_data, 0)
                                 | Some es \<Rightarrow>
                                     if num_entries c = 0 \<or> es ! 0 = None then (APP_ERR_IO, the out_data, 0)
                                     else (let entry = the (es ! 0)
                                           in case ve_data entry of
                                                None \<Rightarrow> (APP_ERR_IO, the out_data, 0)
                                              | Some d \<Rightarrow>
                                                  if ve_size entry < 1 then (APP_ERR_IO, the out_data, 0)
                                                  else (let payload_length = d ! 0
                                                        in if ucast payload_length > ve_size entry - 1
                                                             \<or> unat payload_length > out_size
                                                           then (APP_ERR_IO, the out_data, 0)
                                                           else (APP_OK,
                                                                 write_at (the out_data) 0 (take (unat payload_length) (drop 1 d)),
                                                                 unat payload_length)))))
                     in (status, Some data, Some len, ev @ tifiles_content_delete_regular content))))"

section \<open>Who owns what\<close>

text \<open>The blocks held after a run of events; \<open>None\<close> when one is freed that is not held.\<close>

fun holds :: "store_event list \<Rightarrow> store_res multiset \<Rightarrow> store_res multiset option" where
  "holds [] h = Some h"
| "holds (Got r # es) h = holds es (add_mset r h)"
| "holds (Freed r # es) h = (if r \<in># h then holds es (h - {#r#}) else None)"
| "holds (Sent d c # es) h = holds es h"
| "holds (Asked d v # es) h = holds es h"

lemma holds_append [simp]: "holds (xs @ ys) h = (case holds xs h of None \<Rightarrow> None | Some h' \<Rightarrow> holds ys h')"
  by (induction xs h rule: holds.induct) auto

lemma holds_got [simp]: "holds (map Got rs) h = Some (h + mset rs)"
  by (induction rs arbitrary: h) simp_all

lemma holds_freed: "holds (map Freed rs) (h + mset rs) = Some h"
  by (induction rs arbitrary: h) simp_all

definition content_held :: "FileContent option \<Rightarrow> store_res multiset" where
  "content_held content = (case content of None \<Rightarrow> {#} | Some c \<Rightarrow> add_mset S_content (mset (content_parts c)))"

lemma content_held_simps [simp]:
  "content_held None = {#}" "content_held (Some c) = add_mset S_content (mset (content_parts c))"
  by (simp_all add: content_held_def)

lemma holds_delete [simp]:
  "holds (tifiles_content_delete_regular content) (h + content_held content) = Some h"
proof (cases content)
  case (Some c)
  have "holds (map Freed (content_parts c)) (add_mset S_content h + mset (content_parts c)) = Some (add_mset S_content h)"
    by (rule holds_freed)
  then show ?thesis using Some by (simp add: tifiles_content_delete_regular_def)
qed (simp add: tifiles_content_delete_regular_def)

lemma holds_delete_Some [simp]:
  "holds (tifiles_content_delete_regular (Some c)) (add_mset S_content (h + mset (content_parts c))) = Some h"
  using holds_delete [of "Some c" h] by simp

text \<open>\<open>g_malloc0\<close> does not return after a failure.\<close>

definition glib_allocates :: "store_env \<Rightarrow> bool" where
  "glib_allocates env \<longleftrightarrow> content_ok env \<and> entry_ok env \<and> array_ok env"

lemmas build_content_defs = build_content_def tifiles_ve_alloc_data_def tifiles_content_create_regular_def
  tifiles_ve_create_def tifiles_ve_create_array_def

lemma build_content_result:
  assumes "build_content env m ty name p = (st, c, ev)"
  shows "glib_allocates env \<Longrightarrow> holds ev h = Some (h + content_held c)" "st = APP_OK \<longleftrightarrow> c \<noteq> None"
  using assms
  by (auto simp: build_content_defs glib_allocates_def content_parts_def entry_parts_def Let_def split: if_splits)

lemma build_binary_result:
  assumes b: "build_binary_entry env session name p n (Some None) = (st, out, ev)" and g: "glib_allocates env"
  shows "\<exists>c. out = Some c \<and> holds ev h = Some (h + content_held c) \<and> (st = APP_OK \<longleftrightarrow> c \<noteq> None)"
proof -
  have "holds (Got S_name # e @ [Freed S_name]) h = Some (h + content_held c)"
    if "build_content env m ty t q = (st', c, e)" for m ty t q st' c e
    using build_content_result(1) [OF that g, of "add_mset S_name h"] by simp
  then show ?thesis
    using b build_content_result(2)
    by (auto simp: build_binary_entry_def Let_def split: option.splits if_splits prod.splits)
qed

lemma build_binary_status:
  "build_binary_entry env session name p n (Some None) = (st, out, ev) \<Longrightarrow> \<exists>c. out = Some c \<and> (st = APP_OK \<longleftrightarrow> c \<noteq> None)"
  using build_content_result(2)
  by (auto simp: build_binary_entry_def Let_def split: option.splits if_splits prod.splits)

text \<open>The converted text, and the content built from it, without the events.\<close>

lemma build_string_result:
  assumes b: "build_string_entry env session name p (Some None) = (st, out, ev)" and g: "glib_allocates env"
  shows "\<exists>c. out = Some c \<and> holds ev h = Some (h + content_held c) \<and> (st = APP_OK \<longleftrightarrow> c \<noteq> None)"
proof -
  have "holds (Got S_name # Got S_utf16 # Got S_text # e @ [Freed S_text, Freed S_utf16, Freed S_name]) h
      = Some (h + content_held c)"
    if "build_content env m ty t q = (st', c, e)" for m ty t q st' c e
    using build_content_result(1) [OF that g, of "add_mset S_text (add_mset S_utf16 (add_mset S_name h))"] by simp
  then show ?thesis
    using b build_content_result(2)
    by (auto simp: build_string_entry_def Let_def split: option.splits if_splits prod.splits)
qed

lemma holds_send: "send_content env d c = (st, ev) \<Longrightarrow> holds ev h = Some h"
  by (auto simp: send_content_def Let_def split: if_splits)

lemma send_built_holds:
  assumes "send_built env d (st, Some c, ev) = (st', c', ev')" "holds ev h = Some (h + content_held c)"
  shows "holds (ev' @ tifiles_content_delete_regular c') h = Some h"
  using assms holds_send by (auto simp: send_built_def Let_def split: if_splits prod.splits)

lemma stores_hold_nothing:
  assumes g: "glib_allocates env"
  shows "calc_store_binary_string env session name p n = (st, ev) \<Longrightarrow> holds ev h = Some h"
    and "calc_store_persistent_string env session name s = (st, ev) \<Longrightarrow> holds ev h = Some h"
proof -
  have none: "tifiles_content_delete_regular None = []" by (simp add: tifiles_content_delete_regular_def)
  obtain st1 out ev1 where b: "build_binary_entry env session name p n (Some None) = (st1, out, ev1)" by (cases rule: prod_cases3)
  from build_binary_result [OF b g, of h] obtain c where c: "out = Some c" "holds ev1 h = Some (h + content_held c)" by blast
  show "calc_store_binary_string env session name p n = (st, ev) \<Longrightarrow> holds ev h = Some h"
    using send_built_holds [OF _ c(2)] b c(1)
    by (auto simp: calc_store_binary_string_def none simp del: holds_append split: option.splits if_splits prod.splits)
  obtain st2 out2 ev2 where b2: "build_string_entry env session name s (Some None) = (st2, out2, ev2)" by (cases rule: prod_cases3)
  from build_string_result [OF b2 g, of h] obtain c2 where c2: "out2 = Some c2" "holds ev2 h = Some (h + content_held c2)" by blast
  show "calc_store_persistent_string env session name s = (st, ev) \<Longrightarrow> holds ev h = Some h"
    using send_built_holds [OF _ c2(2)] b2 c2(1)
    by (auto simp: calc_store_persistent_string_def none simp del: holds_append split: option.splits if_splits prod.splits)
qed

lemma fetch_string_holds:
  assumes "calc_fetch_string env session name (Some None) = (st, out, ev)"
  shows "\<exists>c. out = Some c \<and> holds ev h = Some (h + content_held c) \<and> (st = APP_OK \<longleftrightarrow> c \<noteq> None)"
proof -
  have "holds (map Got (content_parts c) @ tifiles_content_delete_regular (Some c) @ [Freed S_name])
      (add_mset S_content (add_mset S_name h)) = Some h" for c
    using holds_delete [of "Some c" "add_mset S_name h"] by simp
  then show ?thesis
    using assms by (auto simp: calc_fetch_string_def Let_def split: option.splits if_splits prod.splits)
qed

lemma fetch_binary_holds:
  assumes "calc_fetch_binary_string env session name out n len = (st, out', len', ev)"
  shows "holds ev h = Some h"
proof -
  obtain st1 c1 ev1 where f: "calc_fetch_string env session name (Some None) = (st1, c1, ev1)" by (cases rule: prod_cases3)
  from fetch_string_holds [OF f, of h] obtain c where
    c: "c1 = Some c" "holds ev1 h = Some (h + content_held c)" "st1 = APP_OK \<longleftrightarrow> c \<noteq> None" by blast
  have "ev = [] \<or> ev = ev1 \<and> st1 \<noteq> APP_OK \<or> ev = ev1 @ tifiles_content_delete_regular c"
    using assms by (auto simp: calc_fetch_binary_string_def f c(1) Let_def split: if_splits prod.splits)
  then show ?thesis using c(2,3) by auto
qed

text \<open>
  C29: The string store keeps nothing and frees nothing twice.  Whatever the calculator answers and
  whichever argument is missing, storing a string or a blob and fetching a blob end holding the
  blocks they began with; fetching a content hands the caller exactly the blocks of the content it
  reports with APP_OK, and none otherwise.
\<close>

theorem store_frees_everything:
  assumes "glib_allocates env"
  shows "(\<forall>st ev. calc_store_binary_string env session name p n = (st, ev) \<longrightarrow> holds ev h = Some h)
    \<and> (\<forall>st ev. calc_store_persistent_string env session name s = (st, ev) \<longrightarrow> holds ev h = Some h)
    \<and> (\<forall>st out' len' ev. calc_fetch_binary_string env session name out n len = (st, out', len', ev) \<longrightarrow> holds ev h = Some h)
    \<and> (\<forall>st out' ev. calc_fetch_string env session name (Some None) = (st, out', ev) \<longrightarrow>
         (\<exists>c. out' = Some c \<and> holds ev h = Some (h + content_held c) \<and> (st = APP_OK \<longleftrightarrow> c \<noteq> None)))"
  by (intro conjI allI impI; rule stores_hold_nothing(1) [OF assms] stores_hold_nothing(2) [OF assms]
      fetch_binary_holds fetch_string_holds; assumption)

lemma store_frees_everything_witness:
  "\<exists>st ev. calc_store_binary_string
       \<lparr>g_utf8_to_utf16 = \<lambda>_. None, g_utf16_to_utf8 = \<lambda>_. None, data_ok = True, content_ok = True, entry_ok = True,
        array_ok = True, text_ok = True, time_text = [], send_var = \<lambda>_ _. 1, error_text = \<lambda>_. True,
        recv_var = \<lambda>_ c _. (1, c)\<rparr> (Some (demo_session\<lparr>calc_model := CALC_TI83P\<rparr>)) (Some ''Str1'') (Some [7]) 1 = (st, ev)
     \<and> holds ev {#} = Some {#}"
  using store_frees_everything [where env = "\<lparr>g_utf8_to_utf16 = \<lambda>_. None, g_utf16_to_utf8 = \<lambda>_. None, data_ok = True,
        content_ok = True, entry_ok = True, array_ok = True, text_ok = True, time_text = [], send_var = \<lambda>_ _. 1,
        error_text = \<lambda>_. True, recv_var = \<lambda>_ c _. (1, c)\<rparr>"
      and session = "Some (demo_session\<lparr>calc_model := CALC_TI83P\<rparr>)" and name = "Some ''Str1''" and p = "Some [7]" and n = 1
      and h = "{#}"]
  by (simp add: glib_allocates_def) (metis surj_pair)

section \<open>What is stored and what comes back\<close>

definition sent_contents :: "store_event list \<Rightarrow> FileContent list" where
  "sent_contents ev = concat (map (\<lambda>e. case e of Sent d c \<Rightarrow> [c] | _ \<Rightarrow> []) ev)"

lemma sent_contents_simps [simp]:
  "sent_contents [] = []" "sent_contents (xs @ ys) = sent_contents xs @ sent_contents ys"
  "sent_contents (Got r # ev) = sent_contents ev" "sent_contents (Freed r # ev) = sent_contents ev"
  "sent_contents (Sent d c # ev) = c # sent_contents ev" "sent_contents (map Freed rs) = []"
  by (simp_all add: sent_contents_def o_def)

lemma sent_delete [simp]: "sent_contents (tifiles_content_delete_regular c) = []"
  by (simp add: tifiles_content_delete_regular_def split: option.split)

text \<open>The one entry of a content the builders make.\<close>

definition stored_entry :: "CalcModel \<Rightarrow> string \<Rightarrow> bytes \<Rightarrow> VarEntry" where
  "stored_entry model name q =
     \<lparr>ve_name = take (VARNAME_MAX - 1)
        (c_string (the (ticonv_varname_tokenize model (Some name) (tifiles_string2vartype model (Some ''String''))))),
      ve_type = tifiles_string2vartype model (Some ''String''), ve_attr = 0, ve_version = 0, ve_size = of_nat (length q + 1),
      ve_data = Some (of_nat (length q) # q @ [0]), ve_action = 0\<rparr>"

definition holds_entry :: "FileContent \<Rightarrow> CalcModel \<Rightarrow> string \<Rightarrow> bytes \<Rightarrow> bool" where
  "holds_entry c model name q \<longleftrightarrow> fc_entries c = Some [Some (stored_entry model name q)] \<and> num_entries c = 1"

lemma length_byte_data: "write_at (x # 0 # replicate (length q) 0) (Suc 0) q = x # q @ [0 :: byte]"
proof -
  have "drop (length q) (replicate (Suc (length q)) 0) = [0 :: byte]" by (simp only: drop_replicate) simp
  then show ?thesis by (simp add: write_at_def)
qed

lemma build_content_entry:
  assumes "build_content env m ty t q = (st, c, ev)"
    and "ticonv_varname_tokenize m (Some name) ty = Some t" "ty = tifiles_string2vartype m (Some ''String'')"
  shows "sent_contents ev = []" "c \<noteq> None \<Longrightarrow> holds_entry (the c) m name q"
proof -
  show "sent_contents ev = []" "c \<noteq> None \<Longrightarrow> holds_entry (the c) m name q"
    using assms
    by (auto simp: build_content_defs holds_entry_def stored_entry_def Let_def length_byte_data split: if_splits)
qed

lemma build_binary_entry_sends:
  assumes "build_binary_entry env session name p n (Some None) = (st, out, ev)"
  shows "sent_contents ev = []"
    and "out = Some (Some c) \<Longrightarrow> \<exists>s nm q. session = Some s \<and> calc s \<noteq> None \<and> name = Some nm \<and> p = Some q \<and> n \<le> 255
      \<and> string_name nm \<and> holds_entry c (calc_model s) nm (take n q)"
proof -
  note b = build_content_entry
  show "sent_contents ev = []"
    using assms b(1) by (auto simp: build_binary_entry_def Let_def split: option.splits if_splits prod.splits)
  show "\<exists>s nm q. session = Some s \<and> calc s \<noteq> None \<and> name = Some nm \<and> p = Some q \<and> n \<le> 255
      \<and> string_name nm \<and> holds_entry c (calc_model s) nm (take n q)" if "out = Some (Some c)"
    using assms that b(2)
    by (fastforce simp: build_binary_entry_def Let_def split: option.splits if_splits prod.splits)
qed

lemma build_string_entry_sends:
  assumes "build_string_entry env session name p (Some None) = (st, out, ev)"
  shows "sent_contents ev = []"
    and "out = Some (Some c) \<Longrightarrow> \<exists>s nm pl u ti. session = Some s \<and> calc s \<noteq> None \<and> name = Some nm \<and> p = Some pl
      \<and> string_name nm \<and> g_utf8_to_utf16 env (bytes_of (c_string pl)) = Some u
      \<and> ticonv_charset_utf16_to_ti_s (g_utf16_to_utf8 env) (calc_model s) (Some u) = Some ti
      \<and> takeWhile (\<lambda>b. b \<noteq> 0) ti \<noteq> [] \<and> length (takeWhile (\<lambda>b. b \<noteq> 0) ti) \<le> 255
      \<and> holds_entry c (calc_model s) nm (takeWhile (\<lambda>b. b \<noteq> 0) ti)"
proof -
  note b = build_content_entry
  show "sent_contents ev = []"
    using assms b(1) by (auto simp: build_string_entry_def Let_def split: option.splits if_splits prod.splits)
  show "\<exists>s nm pl u ti. session = Some s \<and> calc s \<noteq> None \<and> name = Some nm \<and> p = Some pl
      \<and> string_name nm \<and> g_utf8_to_utf16 env (bytes_of (c_string pl)) = Some u
      \<and> ticonv_charset_utf16_to_ti_s (g_utf16_to_utf8 env) (calc_model s) (Some u) = Some ti
      \<and> takeWhile (\<lambda>b. b \<noteq> 0) ti \<noteq> [] \<and> length (takeWhile (\<lambda>b. b \<noteq> 0) ti) \<le> 255
      \<and> holds_entry c (calc_model s) nm (takeWhile (\<lambda>b. b \<noteq> 0) ti)" if "out = Some (Some c)"
    using assms that b(2)
    by (fastforce simp: build_string_entry_def ticonv_utf8_to_utf16_def Let_def split: option.splits if_splits prod.splits)
qed

lemma send_built_sends:
  assumes "send_built env d (st, out, ev) = (st', c', ev')" "sent_contents ev = []"
  shows "sent_contents (ev' @ tifiles_content_delete_regular x) = (if st = APP_OK then [the (the out)] else [])
      \<or> out = None"
  using assms by (auto simp: send_built_def send_content_def Let_def split: if_splits prod.splits option.splits)

text \<open>A calculator that answers a request for the entry of a content with that entry.\<close>

definition keeps :: "store_env \<Rightarrow> handle \<Rightarrow> FileContent \<Rightarrow> bool" where
  "keeps env d c \<longleftrightarrow>
     (\<forall>content request e. fc_entries c = Some [Some e] \<and> ve_name request = ve_name e \<and> ve_type request = ve_type e
        \<and> ve_action request = ve_action e \<longrightarrow>
        (\<exists>content'. recv_var env d content request = (0, content')
           \<and> fc_entries content' = fc_entries c \<and> num_entries content' = num_entries c))"

lemma tokenize_not_None: "ticonv_varname_tokenize model (Some name) ty \<noteq> None"
  by (simp add: ticonv_varname_tokenize_def Let_def)

lemma fetch_string_kept:
  assumes k: "keeps env d c" and c: "holds_entry c (calc_model s) name q" and "calc s = Some d" and "content_ok env"
    and ty: "tifiles_string2vartype (calc_model s) (Some ''String'') \<noteq> 0"
  shows "\<exists>content ev. calc_fetch_string env (Some s) (Some name) (Some None) = (APP_OK, Some (Some content), ev)
    \<and> fc_entries content = fc_entries c \<and> num_entries content = num_entries c"
proof -
  let ?ty = "tifiles_string2vartype (calc_model s) (Some ''String'')"
  obtain tok where tok: "ticonv_varname_tokenize (calc_model s) (Some name) ?ty = Some tok"
    using tokenize_not_None by blast
  let ?req = "\<lparr>ve_name = take (VARNAME_MAX - 1) (c_string tok), ve_type = ?ty, ve_attr = 0, ve_version = 0, ve_size = 0,
     ve_data = None, ve_action = 0\<rparr>"
  have r: "\<exists>content'. recv_var env d content ?req = (0, content') \<and> fc_entries content' = fc_entries c
      \<and> num_entries content' = num_entries c" for content
    using k c tok unfolding keeps_def holds_entry_def stored_entry_def by simp
  obtain content where content: "tifiles_content_create_regular env (calc_model s) = Some content"
    using assms(4) by (simp add: tifiles_content_create_regular_def)
  moreover obtain content' where "recv_var env d content ?req = (0, content')" "fc_entries content' = fc_entries c"
      "num_entries content' = num_entries c"
    using r by blast
  ultimately show ?thesis
    using assms(3) ty by (simp add: calc_fetch_string_def Let_def tok)
qed

lemma length_bytes_fit:
  assumes "n \<le> 255"
  shows "unat (of_nat n :: byte) = n" and "\<not> (ucast (of_nat n :: byte) :: u32) > of_nat n" and "\<not> (1 + of_nat n :: u32) < 1"
proof -
  show u: "unat (of_nat n :: byte) = n" using assms by (simp add: unat_of_nat take_bit_nat_eq_self)
  have "unat (ucast (of_nat n :: byte) :: u32) = n" "unat (of_nat n :: u32) = n"
    using assms u by (simp_all add: unsigned_ucast_eq take_bit_nat_eq_self unat_of_nat)
  then show "\<not> (ucast (of_nat n :: byte) :: u32) > of_nat n" by (simp add: word_less_nat_alt)
  have "(1 + of_nat n :: u32) = of_nat (n + 1)" by simp
  then have "unat (1 + of_nat n :: u32) = n + 1"
    using assms by (simp add: unat_of_nat take_bit_nat_eq_self del: of_nat_add of_nat_Suc)
  then show "\<not> (1 + of_nat n :: u32) < 1" by (simp add: word_less_nat_alt)
qed

lemma fetch_kept:
  assumes "keeps env d c" and c: "holds_entry c (calc_model s) name q" and "calc s = Some d"
    and l: "length q \<le> 255" "length q \<le> n" and "content_ok env"
    and ty: "tifiles_string2vartype (calc_model s) (Some ''String'') \<noteq> 0"
  shows "\<exists>ev. calc_fetch_binary_string env (Some s) (Some name) (Some out) n (Some l)
     = (APP_OK, Some (write_at out 0 q), Some (length q), ev)"
proof -
  obtain content ev where f: "calc_fetch_string env (Some s) (Some name) (Some None) = (APP_OK, Some (Some content), ev)"
      "fc_entries content = fc_entries c" "num_entries content = num_entries c"
    using fetch_string_kept [OF assms(1,2,3,6) ty] by blast
  show ?thesis
    using c l length_bytes_fit [OF l(1)]
    by (simp add: calc_fetch_binary_string_def f holds_entry_def stored_entry_def Let_def)
qed

text \<open>What a store sends, for both kinds of payload.\<close>

lemma store_binary_sends:
  assumes "calc_store_binary_string env session name p n = (st, ev)"
  shows "(sent_contents ev = [] \<and> st \<noteq> APP_OK)
    \<or> (\<exists>s nm q d c. session = Some s \<and> calc s = Some d \<and> name = Some nm \<and> p = Some q \<and> n \<le> 255 \<and> string_name nm
        \<and> sent_contents ev = [c] \<and> holds_entry c (calc_model s) nm (take n q)
        \<and> (st = APP_OK \<longleftrightarrow> send_var env d c = 0) \<and> tifiles_string2vartype (calc_model s) (Some ''String'') \<noteq> 0)"
proof -
  obtain st1 out ev1 where b: "build_binary_entry env session name p n (Some None) = (st1, out, ev1)" by (cases rule: prod_cases3)
  obtain c where c: "out = Some c" "st1 = APP_OK \<longleftrightarrow> c \<noteq> None" using build_binary_status [OF b] by blast
  show ?thesis
  proof (cases "\<exists>s d. session = Some s \<and> calc s = Some d \<and> name \<noteq> None \<and> p \<noteq> None \<and> c \<noteq> None")
    case False
    then show ?thesis using assms b c build_binary_entry_sends(1) [OF b]
      by (auto simp: calc_store_binary_string_def send_built_def split: option.splits if_splits)
  next
    case True
    then obtain s d c' where s: "session = Some s" "calc s = Some d" "c = Some c'" by blast
    from build_binary_entry_sends(2) [OF b] c s obtain nm q where
      *: "name = Some nm" "p = Some q" "n \<le> 255" "string_name nm" "holds_entry c' (calc_model s) nm (take n q)" by auto
    have "tifiles_string2vartype (calc_model s) (Some ''String'') \<noteq> 0"
      using b c s * by (auto simp: build_binary_entry_def Let_def split: if_splits)
    moreover have "sent_contents ev = [c'] \<and> (st = APP_OK \<longleftrightarrow> send_var env d c' = 0)"
      using assms b c s * build_binary_entry_sends(1) [OF b]
      by (auto simp: calc_store_binary_string_def send_built_def send_content_def Let_def split: if_splits)
    ultimately show ?thesis using s * by blast
  qed
qed

text \<open>
  C28: A blob stored in a string variable comes back.  If storing \<open>n\<close> bytes reports success, one
  content was sent, \<open>n\<close> is at most 255, and against any calculator that keeps the entry of that
  content, fetching the same variable into a buffer of at least \<open>n\<close> bytes succeeds, writes exactly
  those bytes and reports their number.
\<close>

theorem store_fetch_roundtrip:
  assumes "calc_store_binary_string env (Some s) (Some name) (Some p) n = (APP_OK, ev)" "n \<le> length p"
  shows "\<exists>c d. calc s = Some d \<and> sent_contents ev = [c] \<and> n \<le> 255
    \<and> (\<forall>env' out k l. keeps env' d c \<and> content_ok env' \<and> n \<le> k \<longrightarrow>
         (\<exists>ev'. calc_fetch_binary_string env' (Some s) (Some name) (Some out) k (Some l)
            = (APP_OK, Some (write_at out 0 (take n p)), Some n, ev')))"
proof -
  from store_binary_sends [OF assms(1)] obtain d c where
    *: "calc s = Some d" "n \<le> 255" "sent_contents ev = [c]" "holds_entry c (calc_model s) name (take n p)"
      "tifiles_string2vartype (calc_model s) (Some ''String'') \<noteq> 0" by auto
  have "length (take n p) = n" using assms(2) by simp
  then show ?thesis
    using * fetch_kept [OF _ *(4,1) _ _ _ *(5)] by (intro exI [of _ c] exI [of _ d]) auto
qed

definition demo_store :: store_env where
  "demo_store = \<lparr>g_utf8_to_utf16 = \<lambda>_. None, g_utf16_to_utf8 = \<lambda>_. None, data_ok = True, content_ok = True,
     entry_ok = True, array_ok = True, text_ok = True, time_text = [], send_var = \<lambda>_ _. 0, error_text = \<lambda>_. True,
     recv_var = \<lambda>_ c _. (1, c)\<rparr>"

definition demo_calc :: CalcSession where
  "demo_calc = demo_session\<lparr>calc := Some 2, calc_model := CALC_TI83P\<rparr>"

lemma demo_string_type: "tifiles_string2vartype CALC_TI83P (Some ''String'') = 48"
  using no_String_type [of CALC_TI83P] by simp

lemma demo_stores:
  assumes "n \<le> 255"
  shows "\<exists>ev. calc_store_binary_string demo_store (Some demo_calc) (Some ''Str1'') (Some p) n = (APP_OK, ev)"
proof -
  have t: "ticonv_varname_tokenize CALC_TI83P (Some ''Str1'') 48 = Some [CHR 0xAA, NUL]"
  proof -
    have "spelt_type CALC_TI83P 48" by (simp add: spelt_type_def detokenize_vartype_def TI83_family_def)
    moreover have "digit_char 1 = CHR ''1''" "[char_of_byte 0xAA, char_of_byte (digit_token CALC_TI83P 1)] = [CHR 0xAA, NUL]"
      by code_simp+
    ultimately show ?thesis using tokenize_numbered(1) [of CALC_TI83P 48 1] by (simp add: token_models_def)
  qed
  have "string_name ''Str1''" by (simp add: string_name_def c_string_def byte_of_char_def)
  then show ?thesis using assms
    by (simp add: calc_store_binary_string_def build_binary_entry_def demo_calc_def demo_string_type t build_content_defs
        send_built_def send_content_def demo_store_def Let_def)
qed

lemma store_fetch_roundtrip_witness:
  "\<exists>c. \<forall>env' out l. keeps env' 2 c \<and> content_ok env' \<longrightarrow>
     (\<exists>ev'. calc_fetch_binary_string env' (Some demo_calc) (Some ''Str1'') (Some out) 255 (Some l)
        = (APP_OK, Some (write_at out 0 [7, 9]), Some 2, ev'))"
proof -
  obtain ev where e: "calc_store_binary_string demo_store (Some demo_calc) (Some ''Str1'') (Some [7, 9]) 2 = (APP_OK, ev)"
    using demo_stores [of 2] by auto
  have "calc demo_calc = Some 2" by (simp add: demo_calc_def)
  with store_fetch_roundtrip [OF e] obtain c where
    "\<forall>env' out k l. keeps env' 2 c \<and> content_ok env' \<and> 2 \<le> k \<longrightarrow>
         (\<exists>ev'. calc_fetch_binary_string env' (Some demo_calc) (Some ''Str1'') (Some out) k (Some l)
            = (APP_OK, Some (write_at out 0 [7, 9]), Some 2, ev'))"
    by auto
  then show ?thesis by (metis numeral_le_iff semiring_norm(68,69,71,72,76))
qed

lemma family_String_type:
  "tifiles_calctype2signature m = Some ''**TI83F*'' \<Longrightarrow> tifiles_string2vartype m (Some ''String'') = 48"
  using no_String_type [of m] by (cases m) (simp_all add: tifiles_calctype2signature_def)

text \<open>
  A store sends one well-formed entry or nothing.  Either nothing is sent and an error is
  reported; or there is a session with a calculator, a name of the form \<open>Str0\<close> to \<open>Str9\<close> and a
  payload of at most 255 bytes, and one content with one entry goes out, whose data is the length
  byte and the payload and whose size counts both, and APP_OK is reported exactly if the calculator
  took it.  On the TI-83 Plus family that entry carries the type 48, which is not the type of strings.
\<close>

theorem store_sends_one_entry:
  assumes "calc_store_binary_string env session name p n = (st, ev)"
  shows "(sent_contents ev = [] \<and> st \<noteq> APP_OK)
    \<or> (\<exists>s nm q d c e. session = Some s \<and> calc s = Some d \<and> name = Some nm \<and> string_name nm \<and> p = Some q \<and> n \<le> 255
        \<and> sent_contents ev = [c] \<and> fc_entries c = Some [Some e] \<and> num_entries c = 1
        \<and> ve_data e = Some (of_nat (length (take n q)) # take n q @ [0]) \<and> ve_size e = of_nat (length (take n q) + 1)
        \<and> (st = APP_OK \<longleftrightarrow> send_var env d c = 0)
        \<and> (tifiles_calctype2signature (calc_model s) = Some ''**TI83F*'' \<longrightarrow> ve_type e = 48))"
  using store_binary_sends [OF assms]
proof (elim disjE exE conjE)
  fix s nm q d c
  assume *: "session = Some s" "calc s = Some d" "name = Some nm" "p = Some q" "n \<le> 255" "string_name nm"
    "sent_contents ev = [c]" "holds_entry c (calc_model s) nm (take n q)" "(st = APP_OK) = (send_var env d c = 0)"
  let ?e = "stored_entry (calc_model s) nm (take n q)"
  have "tifiles_calctype2signature (calc_model s) = Some ''**TI83F*'' \<Longrightarrow> ve_type ?e = 48"
    using family_String_type [of "calc_model s"] by (simp add: stored_entry_def)
  then show ?thesis
    using * unfolding holds_entry_def
    by (intro disjI2 exI [of _ s] exI [of _ nm] exI [of _ q] exI [of _ d] exI [of _ c] exI [of _ ?e])
      (simp add: stored_entry_def)
qed simp

lemma store_sends_one_entry_witness:
  "\<exists>st ev. calc_store_binary_string demo_store (Some demo_calc) (Some ''Key'') (Some [7]) 1 = (st, ev)
     \<and> sent_contents ev = [] \<and> st \<noteq> APP_OK"
proof -
  obtain st ev where e: "calc_store_binary_string demo_store (Some demo_calc) (Some ''Key'') (Some [7]) 1 = (st, ev)"
    by (cases "calc_store_binary_string demo_store (Some demo_calc) (Some ''Key'') (Some [7]) 1")
  have "\<not> string_name ''Key''" by (simp add: string_name_def c_string_def)
  then show ?thesis using store_sends_one_entry [OF e] e by auto
qed
end
