(* ===== verification/C_Text.thy ===== *)
theory C_Text
  imports Prelude "HOL-Library.Sublist"
begin

text \<open>
  The functions of the C library on text that \<open>main.c\<close> uses.  A C string is the list of its
  characters before the terminator, and a pointer into it is the suffix that begins there.
  Standard input is the list of the characters still to be read.
\<close>

section \<open>Searching\<close>

fun strstr :: "string \<Rightarrow> string \<Rightarrow> string option" where
  "strstr needle s =
     (if take (length needle) s = needle then Some s
      else (case s of [] \<Rightarrow> None | _ # s' \<Rightarrow> strstr needle s'))"

declare strstr.simps [simp del]

definition strchr :: "char \<Rightarrow> string \<Rightarrow> string option" where
  "strchr c s = (case dropWhile (\<lambda>d. d \<noteq> c) s of [] \<Rightarrow> None | t \<Rightarrow> Some t)"

text \<open>\<open>strncmp (s, p, strlen (p)) == 0\<close>.\<close>

definition begins :: "string \<Rightarrow> string \<Rightarrow> bool" where
  "begins p s \<longleftrightarrow> take (length p) s = p"

lemma begins_prefix: "begins p s \<longleftrightarrow> prefix p s"
  by (metis append_eq_conv_conj append_take_drop_id begins_def prefix_def)

lemma strstr_begins: "begins needle s \<Longrightarrow> strstr needle s = Some s"
  by (simp add: begins_def strstr.simps [of needle s])

lemma strstr_Cons: "\<not> begins needle (c # s) \<Longrightarrow> strstr needle (c # s) = strstr needle s"
  by (simp add: begins_def strstr.simps [of needle "c # s"])

lemma strstr_Nil: "needle \<noteq> [] \<Longrightarrow> strstr needle [] = None"
  by (simp add: strstr.simps [of needle "[]"])

text \<open>The suffix found is the one of the first occurrence.\<close>

lemma strstr_skip:
  "(\<And>k. k < length pre \<Longrightarrow> \<not> begins needle (drop k (pre @ s))) \<Longrightarrow> strstr needle (pre @ s) = strstr needle s"
proof (induction pre)
  case (Cons c pre)
  have "\<not> begins needle (c # pre @ s)" using Cons.prems [of 0] by simp
  moreover have "\<not> begins needle (drop k (pre @ s))" if "k < length pre" for k
    using Cons.prems [of "Suc k"] that by simp
  ultimately show ?case using Cons.IH by (simp add: strstr_Cons)
qed simp

lemma strstr_Some:
  "strstr needle s = Some t \<Longrightarrow>
   \<exists>pre. s = pre @ t \<and> begins needle t \<and> (\<forall>k < length pre. \<not> begins needle (drop k s))"
proof (induction needle s rule: strstr.induct)
  case (1 needle s)
  show ?case
  proof (cases "begins needle s")
    case True
    then show ?thesis using 1(2) by (simp add: strstr_begins)
  next
    case nb: False
    show ?thesis
    proof (cases s)
      case Nil
      then show ?thesis using nb 1(2) by (simp add: strstr.simps [of needle "[]"] begins_def)
    next
      case (Cons c s')
      then have "strstr needle s' = Some t" using nb 1(2) by (simp add: strstr_Cons)
      moreover have "\<not> take (length needle) s = needle" using nb by (simp add: begins_def)
      ultimately obtain pre where p: "s' = pre @ t" "begins needle t" "\<forall>k < length pre. \<not> begins needle (drop k s')"
        using 1(1) Cons by blast
      have "\<not> begins needle (drop k s)" if "k < length (c # pre)" for k
        using that nb p(3) Cons by (cases k) auto
      then show ?thesis using p Cons by (intro exI [of _ "c # pre"]) auto
    qed
  qed
qed

lemma strstr_None: "strstr needle s = None \<Longrightarrow> k \<le> length s \<Longrightarrow> \<not> begins needle (drop k s)"
proof (induction needle s arbitrary: k rule: strstr.induct)
  case (1 needle s)
  have nb: "\<not> begins needle s" using 1(2) by (auto simp: strstr_begins)
  show ?case
  proof (cases k)
    case (Suc k')
    then obtain c s' where s: "s = c # s'" using 1(3) by (cases s) auto
    have "\<not> take (length needle) s = needle" using nb by (simp add: begins_def)
    then show ?thesis using 1(1) [of c s' k'] 1(2,3) nb s Suc by (simp add: strstr_Cons)
  qed (use nb in simp)
qed

lemma strchr_append: "c \<notin> set s \<Longrightarrow> strchr c (s @ c # t) = Some (c # t)"
  unfolding strchr_def by (induction s) auto

lemma strchr_Some: "strchr c s = Some t \<Longrightarrow> \<exists>v rest. s = v @ c # rest \<and> t = c # rest \<and> c \<notin> set v"
proof -
  assume a: "strchr c s = Some t"
  define v where "v = takeWhile (\<lambda>d. d \<noteq> c) s"
  have d: "dropWhile (\<lambda>d. d \<noteq> c) s = t" "t \<noteq> []" using a by (auto simp: strchr_def split: list.splits)
  then obtain rest where "t = c # rest" using hd_dropWhile [of "\<lambda>d. d \<noteq> c" s] by (cases t) auto
  moreover have "s = v @ t" using d(1) by (simp add: v_def takeWhile_dropWhile_id flip: d(1))
  moreover have "c \<notin> set v" unfolding v_def by (auto dest: set_takeWhileD)
  ultimately show ?thesis by blast
qed

section \<open>Spaces and numbers\<close>

definition isspace :: "char \<Rightarrow> bool" where
  "isspace c \<longleftrightarrow> c \<in> {CHR 0x20, CHR 0x09, CHR 0x0A, CHR 0x0B, CHR 0x0C, CHR 0x0D}"

definition tolower :: "char \<Rightarrow> char" where
  "tolower c = (if 65 \<le> (of_char c :: nat) \<and> (of_char c :: nat) \<le> 90 then char_of (of_char c + 32 :: nat) else c)"

definition skip_spaces :: "string \<Rightarrow> string" where
  "skip_spaces s = dropWhile isspace s"

definition is_decimal :: "char \<Rightarrow> bool" where
  "is_decimal c \<longleftrightarrow> 48 \<le> (of_char c :: nat) \<and> (of_char c :: nat) \<le> 57"

definition decimal_digit :: "char \<Rightarrow> nat" where
  "decimal_digit c = of_char c - 48"

text \<open>
  What \<open>strtol\<close> and \<open>strtoull\<close> read in base ten: spaces, a sign, digits.  The result is the sign, the
  magnitude and the suffix after the last digit, or \<open>None\<close> when there is no digit.
\<close>

definition scan_decimal :: "string \<Rightarrow> (bool \<times> nat \<times> string) option" where
  "scan_decimal s =
     (let s = skip_spaces s;
          negative = (s \<noteq> [] \<and> hd s = CHR ''-'');
          s = (if s \<noteq> [] \<and> hd s \<in> {CHR ''-'', CHR ''+''} then tl s else s);
          digits = takeWhile is_decimal s
      in if digits = [] then None
         else Some (negative, be_val 10 (map decimal_digit digits), dropWhile is_decimal s))"

text \<open>
  \<open>errno\<close> after the call (true for ERANGE), the value, and \<open>*endptr\<close>, which is the whole input when
  nothing was read.  \<open>strtoull\<close> negates a value with a sign modulo \<open>2 ^ 64\<close>.
\<close>

definition strtoull :: "string \<Rightarrow> bool \<times> u64 \<times> string" where
  "strtoull s =
     (case scan_decimal s of
        None \<Rightarrow> (False, 0, s)
      | Some (negative, n, rest) \<Rightarrow>
          if n < 2 ^ 64 then (False, if negative then - of_nat n else of_nat n, rest)
          else (True, -1, rest))"

definition strtol :: "string \<Rightarrow> bool \<times> int \<times> string" where
  "strtol s =
     (case scan_decimal s of
        None \<Rightarrow> (False, 0, s)
      | Some (negative, n, rest) \<Rightarrow>
          if negative then (if n \<le> 2 ^ 63 then (False, - int n, rest) else (True, - (2 ^ 63), rest))
          else (if n < 2 ^ 63 then (False, int n, rest) else (True, 2 ^ 63 - 1, rest)))"

lemma scan_shorter: "scan_decimal s = Some (neg, n, rest) \<Longrightarrow> length rest < length s"
proof -
  assume a: "scan_decimal s = Some (neg, n, rest)"
  let ?t = "skip_spaces s"
  let ?u = "if ?t \<noteq> [] \<and> hd ?t \<in> {CHR ''-'', CHR ''+''} then tl ?t else ?t"
  have d: "takeWhile is_decimal ?u \<noteq> []" "rest = dropWhile is_decimal ?u"
    using a by (auto simp: scan_decimal_def Let_def split: if_splits)
  have "length (takeWhile is_decimal ?u) + length rest = length ?u"
    using d(2) by (metis length_append takeWhile_dropWhile_id)
  moreover have "length ?u \<le> length ?t" by simp
  moreover have "length ?t \<le> length s" by (simp add: skip_spaces_def length_dropWhile_le)
  ultimately show ?thesis using d(1) by (cases "takeWhile is_decimal ?u") auto
qed

text \<open>A number written by \<open>printf\<close> is read back.\<close>

lemma digit_chars: "d < 10 \<Longrightarrow> is_decimal (char_of (48 + d)) \<and> decimal_digit (char_of (48 + d)) = d"
  by (simp add: is_decimal_def decimal_digit_def)

lemma decimal_chars: "c \<in> set (decimal n) \<Longrightarrow> is_decimal c"
proof -
  have "\<forall>d \<in> set (digits_of 10 n). d < 10" by (rule digits_of_less) simp
  moreover have "is_decimal (CHR ''0'')" by (simp add: is_decimal_def)
  ultimately show "c \<in> set (decimal n) \<Longrightarrow> is_decimal c"
    using digit_chars by (auto simp: decimal_def split: if_splits)
qed

lemma decimal_nonempty: "decimal n \<noteq> []"
  by (simp add: decimal_def)

lemma decimal_value: "be_val 10 (map decimal_digit (decimal n)) = n"
proof (cases "n = 0")
  case False
  have "\<forall>d \<in> set (digits_of 10 n). d < 10" by (rule digits_of_less) simp
  then have "map decimal_digit (decimal n) = digits_of 10 n"
    using False digit_chars by (simp add: decimal_def map_idI)
  then show ?thesis by simp
qed (simp add: decimal_def decimal_digit_def)

lemma decimal_plain: "is_decimal c \<Longrightarrow> \<not> isspace c \<and> c \<noteq> CHR ''-'' \<and> c \<noteq> CHR ''+''"
  by (auto simp: is_decimal_def isspace_def)

lemma scan_decimal_spaces: "list_all isspace ws \<Longrightarrow> scan_decimal (ws @ s) = scan_decimal s"
  by (induction ws) (simp_all add: scan_decimal_def skip_spaces_def)

lemma scan_decimal_printed:
  assumes "rest = [] \<or> \<not> is_decimal (hd rest)"
  shows "scan_decimal (decimal n @ rest) = Some (False, n, rest)"
proof -
  obtain c cs where c: "decimal n = c # cs" using decimal_nonempty [of n] by (cases "decimal n") auto
  then have p: "\<not> isspace c" "c \<noteq> CHR ''-''" "c \<noteq> CHR ''+''" using decimal_chars [of c n] decimal_plain by auto
  have tw: "takeWhile is_decimal (decimal n @ rest) = decimal n"
    using assms decimal_chars by (cases rest) (auto simp: takeWhile_append)
  have dw: "dropWhile is_decimal (decimal n @ rest) = rest"
    using assms decimal_chars by (cases rest) (auto simp: dropWhile_append3 dropWhile_append)
  have "skip_spaces (decimal n @ rest) = decimal n @ rest" using c p by (simp add: skip_spaces_def)
  then show ?thesis
    using tw dw c p decimal_value [of n] by (simp add: scan_decimal_def Let_def)
qed

section \<open>Lines of input\<close>

text \<open>
  \<open>fgets (buffer, size, stdin)\<close>: at most \<open>size - 1\<close> characters, up to and with a newline.  \<open>None\<close> is a
  NULL result: the input has ended.
\<close>

definition fgets :: "nat \<Rightarrow> string \<Rightarrow> (string \<times> string) option" where
  "fgets n stdin =
     (if stdin = [] then None
      else (let body = takeWhile (\<lambda>c. c \<noteq> CHR 0x0A) (take (n - 1) stdin);
                line = take (n - 1) (take (length body + 1) stdin)
            in Some (line, drop (length line) stdin)))"

lemma fgets_shorter: "fgets n stdin = Some (line, rest) \<Longrightarrow> 2 \<le> n \<Longrightarrow> length rest < length stdin"
  by (auto simp: fgets_def Let_def split: if_splits)

lemma fgets_fits:
  assumes "fgets n stdin = Some (line, rest)"
  shows "length line \<le> n - 1 \<and> stdin = line @ rest"
proof -
  obtain k where "line = take (n - 1) (take k stdin)" "rest = drop (length line) stdin"
    using assms by (auto simp: fgets_def Let_def split: if_splits)
  then have "line = take (length line) stdin" "rest = drop (length line) stdin" "length line \<le> n - 1"
    by (auto simp: min_def)
  then show ?thesis by (metis append_take_drop_id)
qed

text \<open>A whole line that fits is read with its newline.\<close>

lemma fgets_line:
  assumes "CHR 0x0A \<notin> set s" "length s + 2 \<le> n"
  shows "fgets n (s @ CHR 0x0A # rest) = Some (s @ [CHR 0x0A], rest)"
proof -
  have t: "take (n - 1) (s @ CHR 0x0A # rest) = s @ CHR 0x0A # take (n - 1 - length s - 1) rest"
    using assms(2) by (cases "n - 1 - length s") auto
  have "takeWhile (\<lambda>c. c \<noteq> CHR 0x0A) (s @ CHR 0x0A # xs) = s" for xs
    using assms(1) by (induction s) auto
  then have "takeWhile (\<lambda>c. c \<noteq> CHR 0x0A) (take (n - 1) (s @ CHR 0x0A # rest)) = s" using t by simp
  then show ?thesis using assms(2) by (simp add: fgets_def Let_def)
qed

end
