(* ===== verification/C_Double.thy ===== *)
theory C_Double
  imports C_Text "HOL-Library.Log_Nat"
begin

text \<open>
  The \<open>double\<close> arithmetic \<open>main.c\<close> uses on amounts: IEEE 754 binary64, rounding to nearest with ties
  to even.  A finite value is the rational number it stands for, \<open>to_double\<close> rounds a rational, and
  \<open>strtod\<close> rounds the exact value of the text it reads.
\<close>

section \<open>Rounding\<close>

text \<open>The exponent of the leading binary digit.\<close>

definition binary_exponent :: "rat \<Rightarrow> int" where
  "binary_exponent q =
     (let (a, b) = quotient_of q; d = bitlen \<bar>a\<bar> - bitlen b
      in if 2 powi d \<le> \<bar>q\<bar> then d else d - 1)"

definition round_even :: "rat \<Rightarrow> int" where
  "round_even r =
     (let f = \<lfloor>r\<rfloor>; d = r - of_int f
      in if d < 1 / 2 then f else if 1 / 2 < d then f + 1 else if even f then f else f + 1)"

definition to_double :: "rat \<Rightarrow> rat" where
  "to_double q =
     (if q = 0 then 0
      else (let ulp = 2 powi (max (binary_exponent q) (- 1022) - 52)
            in of_int (round_even (q / ulp)) * ulp))"

lemma bitlen_range: "0 < (a :: int) \<Longrightarrow> 2 powi (bitlen a - 1) \<le> (of_int a :: rat) \<and> (of_int a :: rat) < 2 powi bitlen a"
proof -
  assume a: "0 < a"
  have b: "0 < bitlen a" using a by (metis bitlen_eq_zero_iff bitlen_nonneg less_le not_le)
  have i: "2 ^ nat (bitlen a - 1) \<le> a" "a < 2 ^ nat (bitlen a)" using bitlen_bounds [OF a] by auto
  have "(2 :: rat) powi (bitlen a - 1) = of_int (2 ^ nat (bitlen a - 1))" "(2 :: rat) powi bitlen a = of_int (2 ^ nat (bitlen a))"
    using b by (simp_all add: power_int_def)
  then show ?thesis using i by (metis of_int_le_iff of_int_less_iff)
qed

lemma binary_exponent: "0 < q \<Longrightarrow> 2 powi binary_exponent q \<le> q \<and> q < 2 powi (binary_exponent q + 1)"
proof -
  assume q: "0 < q"
  obtain a b where ab: "quotient_of q = (a, b)" by (cases "quotient_of q")
  have b: "0 < b" using quotient_of_denom_pos [OF ab] .
  have qab: "q = of_int a / of_int b" using quotient_of_div [OF ab] .
  then have a: "0 < a" using q b by (simp add: zero_less_divide_iff)
  let ?d = "bitlen a - bitlen b"
  note A = bitlen_range [OF a] and B = bitlen_range [OF b]
  have pos: "(0 :: rat) < of_int b" "(0 :: rat) < 2 powi x" for x using b by simp_all
  have "of_int a < 2 powi (?d + 1) * (of_int b :: rat)"
  proof -
    have "(of_int a :: rat) < 2 powi bitlen a" using A by blast
    also have "\<dots> = 2 powi (?d + 1) * 2 powi (bitlen b - 1)" by (simp flip: power_int_add)
    also have "\<dots> \<le> 2 powi (?d + 1) * of_int b" using B pos(2) by (intro mult_left_mono) auto
    finally show ?thesis .
  qed
  then have up: "q < 2 powi (?d + 1)" using pos(1) by (simp add: qab divide_simps)
  have "2 powi (?d - 1) * (of_int b :: rat) \<le> of_int a"
  proof -
    have "2 powi (?d - 1) * (of_int b :: rat) \<le> 2 powi (?d - 1) * 2 powi bitlen b"
      using B pos(2) by (intro mult_left_mono) (auto simp: less_imp_le)
    also have "\<dots> = 2 powi (bitlen a - 1)" by (simp flip: power_int_add)
    also have "\<dots> \<le> of_int a" using A by blast
    finally show ?thesis .
  qed
  then have low: "2 powi (?d - 1) \<le> q" using pos(1) by (simp add: qab divide_simps)
  show ?thesis using ab a q up low by (auto simp: binary_exponent_def Let_def not_le)
qed

lemma round_even_error: "\<bar>of_int (round_even r) - r\<bar> \<le> 1 / 2"
proof -
  have "of_int \<lfloor>r\<rfloor> \<le> r" "r < of_int \<lfloor>r\<rfloor> + 1" by linarith+
  then show ?thesis by (auto simp: round_even_def Let_def)
qed

lemma round_even_int [simp]: "round_even (of_int i) = i"
  by (simp add: round_even_def)

text \<open>The relative error of a rounding, away from the subnormal numbers.\<close>

lemma to_double_error: "2 powi (- 1022) \<le> q \<Longrightarrow> \<bar>to_double q - q\<bar> \<le> q / 2 ^ 53"
proof -
  assume q: "2 powi (- 1022) \<le> q"
  have "(0 :: rat) < 2 powi (- 1022)" by simp
  then have "0 < q" using q by linarith
  note e = binary_exponent [OF \<open>0 < q\<close>]
  have "- 1022 \<le> binary_exponent q"
  proof (rule ccontr)
    assume "\<not> - 1022 \<le> binary_exponent q"
    then have "2 powi (binary_exponent q + 1) \<le> (2 :: rat) powi (- 1022)" by (intro power_int_increasing) auto
    then show False using e q by linarith
  qed
  define ulp :: rat where "ulp = 2 powi (binary_exponent q - 52)"
  have u: "0 < ulp" by (simp add: ulp_def)
  have d: "to_double q = of_int (round_even (q / ulp)) * ulp"
    using \<open>0 < q\<close> \<open>- 1022 \<le> binary_exponent q\<close> by (simp add: to_double_def ulp_def Let_def max_def)
  have "to_double q - q = (of_int (round_even (q / ulp)) - q / ulp) * ulp"
    using u by (simp add: d left_diff_distrib)
  then have "\<bar>to_double q - q\<bar> = \<bar>of_int (round_even (q / ulp)) - q / ulp\<bar> * ulp"
    using u by (simp add: abs_mult)
  also have "\<dots> \<le> 1 / 2 * ulp" using u by (intro mult_right_mono round_even_error) simp
  also have "\<dots> = 2 powi binary_exponent q / 2 ^ 53" by (simp add: ulp_def power_int_diff)
  also have "\<dots> \<le> q / 2 ^ 53" using e by (intro divide_right_mono) simp_all
  finally show ?thesis .
qed

lemma to_double_between: "2 powi (- 1022) \<le> q \<Longrightarrow> q - q / 2 ^ 53 \<le> to_double q \<and> to_double q \<le> q + q / 2 ^ 53"
  using to_double_error [of q] by linarith

lemma powi_less: "2 powi a < (2 :: rat) powi b \<Longrightarrow> a < b"
  by (metis not_le one_le_numeral power_int_increasing)

lemma binary_exponent_unique: "2 powi e \<le> q \<Longrightarrow> q < 2 powi (e + 1) \<Longrightarrow> binary_exponent q = e"
proof -
  assume q: "2 powi e \<le> q" "q < 2 powi (e + 1)"
  have "(0 :: rat) < 2 powi e" by simp
  then have "0 < q" using q by linarith
  note b = binary_exponent [OF this]
  have "(2 :: rat) powi e < 2 powi (binary_exponent q + 1)" "(2 :: rat) powi binary_exponent q < 2 powi (e + 1)" using b q by linarith+
  from this [THEN powi_less] have "e < binary_exponent q + 1" "binary_exponent q < e + 1" .
  then show ?thesis by simp
qed

section \<open>Reading a number\<close>

datatype double = Finite rat | Infinite bool | Not_a_number

definition is_hex :: "char \<Rightarrow> bool" where
  "is_hex c \<longleftrightarrow> is_decimal c \<or> (97 \<le> (of_char (tolower c) :: nat) \<and> (of_char (tolower c) :: nat) \<le> 102)"

definition hex_digit :: "char \<Rightarrow> nat" where
  "hex_digit c = (if is_decimal c then decimal_digit c else of_char (tolower c) - 87)"

text \<open>Digits with at most one point among them: their value, how many follow the point, and the rest.\<close>

definition scan_mantissa :: "(char \<Rightarrow> bool) \<Rightarrow> (char \<Rightarrow> nat) \<Rightarrow> nat \<Rightarrow> string \<Rightarrow> (nat \<times> nat \<times> string) option" where
  "scan_mantissa digit val base s =
     (let whole = takeWhile digit s;
          s = dropWhile digit s;
          (fraction, s) = (if s \<noteq> [] \<and> hd s = CHR ''.'' then (takeWhile digit (tl s), dropWhile digit (tl s)) else ([], s))
      in if whole @ fraction = [] then None
         else Some (be_val base (map val (whole @ fraction)), length fraction, s))"

definition scan_exponent :: "char \<Rightarrow> string \<Rightarrow> int" where
  "scan_exponent mark s =
     (if s \<noteq> [] \<and> tolower (hd s) = mark then
        (let t = tl s;
             negative = (t \<noteq> [] \<and> hd t = CHR ''-'');
             t = (if t \<noteq> [] \<and> hd t \<in> {CHR ''-'', CHR ''+''} then tl t else t);
             e = int (be_val 10 (map decimal_digit (takeWhile is_decimal t)))
         in if negative then - e else e)
      else 0)"

text \<open>The rounded result of a reading, with \<open>errno\<close> (true for ERANGE): overflow, or an inexact subnormal.\<close>

definition rounded :: "bool \<Rightarrow> rat \<Rightarrow> bool \<times> double" where
  "rounded negative q =
     (let d = to_double q
      in if 2 powi 1024 \<le> d then (True, Infinite negative)
         else (0 < q \<and> q < 2 powi (- 1022) \<and> d \<noteq> q, Finite (if negative then - d else d)))"

text \<open>\<open>None\<close> when nothing is read, which the code sees as \<open>endptr == input_ptr\<close>.\<close>

definition strtod :: "string \<Rightarrow> (bool \<times> double) option" where
  "strtod s =
     (let s = skip_spaces s;
          negative = (s \<noteq> [] \<and> hd s = CHR ''-'');
          s = (if s \<noteq> [] \<and> hd s \<in> {CHR ''-'', CHR ''+''} then tl s else s)
      in if map tolower (take 3 s) = ''inf'' then Some (False, Infinite negative)
         else if map tolower (take 3 s) = ''nan'' then Some (False, Not_a_number)
         else (case (if map tolower (take 2 s) = ''0x'' then scan_mantissa is_hex hex_digit 16 (drop 2 s) else None) of
                 Some (m, k, rest) \<Rightarrow>
                   Some (rounded negative (of_nat m * 2 powi (scan_exponent (CHR ''p'') rest - 4 * int k)))
               | None \<Rightarrow>
                   (case scan_mantissa is_decimal decimal_digit 10 s of
                      None \<Rightarrow> None
                    | Some (m, k, rest) \<Rightarrow>
                        Some (rounded negative (of_nat m * 10 powi (scan_exponent (CHR ''e'') rest - int k))))))"

text \<open>The text of a decimal fraction has the value it says.\<close>

lemma scan_mantissa_fraction:
  assumes "\<forall>d \<in> set f. d < 10"
  shows "scan_mantissa is_decimal decimal_digit 10 (decimal a @ CHR ''.'' # map (\<lambda>d. char_of (48 + d)) f)
    = Some (a * 10 ^ length f + be_val 10 f, length f, [])"
proof -
  define g :: string where "g = map (\<lambda>d. char_of (48 + d)) f"
  have dg: "\<forall>c \<in> set g. is_decimal c" using assms digit_chars by (auto simp: g_def)
  have nd: "\<not> is_decimal (CHR ''.'')" by (simp add: is_decimal_def)
  have g: "takeWhile is_decimal g = g" "dropWhile is_decimal g = []"
    using dg by (simp_all add: takeWhile_eq_all_conv dropWhile_eq_Nil_conv)
  have a: "takeWhile is_decimal (decimal a @ CHR ''.'' # g) = decimal a"
    "dropWhile is_decimal (decimal a @ CHR ''.'' # g) = CHR ''.'' # g"
    using decimal_chars nd by (simp_all add: takeWhile_append2 dropWhile_append2)
  have "map decimal_digit g = f" "length g = length f" using assms digit_chars by (simp_all add: g_def map_idI)
  then show ?thesis
    unfolding g_def [symmetric] using a decimal_nonempty [of a] decimal_value [of a]
    by (simp add: scan_mantissa_def Let_def be_val_append g)
qed

lemma tolower_decimal: "is_decimal c \<Longrightarrow> tolower c = c"
  by (simp add: is_decimal_def tolower_def)

lemma strtod_fraction:
  assumes "\<forall>d \<in> set f. d < 10"
  shows "strtod (decimal a @ CHR ''.'' # map (\<lambda>d. char_of (48 + d)) f)
    = Some (rounded False ((of_nat a * 10 ^ length f + of_nat (be_val 10 f)) / 10 ^ length f))"
proof -
  define s :: string where "s = decimal a @ CHR ''.'' # map (\<lambda>d. char_of (48 + d)) f"
  obtain c cs where c: "decimal a = c # cs" using decimal_nonempty [of a] by (cases "decimal a") auto
  have d: "is_decimal x" if "x \<in> set (c # cs)" for x using that decimal_chars [of x a] c by simp
  have plain: "\<not> isspace c" "c \<noteq> CHR ''-''" "c \<noteq> CHR ''+''" "tolower c = c" "c \<noteq> CHR ''i''" "c \<noteq> CHR ''n''"
    using d [of c] decimal_plain [of c] tolower_decimal [of c] by (auto simp: is_decimal_def)
  have "map tolower (take 2 s) \<noteq> ''0x''"
  proof (cases cs)
    case (Cons d' ds)
    then have "is_decimal d'" using d by simp
    then have "tolower d' \<noteq> CHR ''x''" using tolower_decimal [of d'] by (auto simp: is_decimal_def)
    then show ?thesis using c Cons by (simp add: s_def)
  qed (simp add: c s_def tolower_def)
  moreover have "scan_mantissa is_decimal decimal_digit 10 s = Some (a * 10 ^ length f + be_val 10 f, length f, [])"
    unfolding s_def by (rule scan_mantissa_fraction [OF assms])
  moreover have "skip_spaces s = s" "s \<noteq> []" "hd s = c" using c plain by (simp_all add: skip_spaces_def s_def)
  moreover from this have "map tolower (take 3 s) \<noteq> ''inf''" "map tolower (take 3 s) \<noteq> ''nan''"
    using plain by (auto simp: neq_Nil_conv)
  ultimately show ?thesis
    unfolding s_def [symmetric] using plain
    by (simp add: strtod_def scan_exponent_def Let_def power_int_minus divide_inverse)
qed

end
