(* ===== verification/Prompts.thy ===== *)
theory Prompts
  imports C_Double Base58
begin

text \<open>
  The prompts of \<open>main.c\<close>.  Each takes what is left of standard input and returns its answer with
  what is left then; fixed messages on the terminal are not part of the model.  Every loop reads at
  least one character a round, which is why the prompts end.
\<close>

section \<open>A line\<close>

text \<open>\<open>None\<close> is status 0: no buffer, or no input.\<close>

definition read_line :: "nat \<Rightarrow> string \<Rightarrow> (string \<times> string) option" where
  "read_line n stdin =
     (if n = 0 then None
      else (case fgets n stdin of
              None \<Rightarrow> None
            | Some (line, stdin) \<Rightarrow>
                (let s = c_string line
                 in Some (if s \<noteq> [] \<and> last s = CHR 0x0A then butlast s else s, stdin))))"

lemma read_line_shorter: "read_line n stdin = Some (s, rest) \<Longrightarrow> 2 \<le> n \<Longrightarrow> length rest < length stdin"
  using fgets_shorter by (auto simp: read_line_def Let_def split: if_splits option.splits)

lemma read_line_length: "read_line n stdin = Some (s, rest) \<Longrightarrow> length s < n"
proof -
  assume a: "read_line n stdin = Some (s, rest)"
  then obtain line where l: "fgets n stdin = Some (line, rest)" "0 < n"
    and s: "s = (if c_string line \<noteq> [] \<and> last (c_string line) = CHR 0x0A then butlast (c_string line) else c_string line)"
    by (auto simp: read_line_def Let_def split: option.splits if_splits)
  have "length s \<le> length (c_string line)" using s by simp
  also have "\<dots> \<le> length line" by (simp add: c_string_def length_takeWhile_le)
  also have "\<dots> \<le> n - 1" using fgets_fits [OF l(1)] by simp
  finally show ?thesis using l(2) by simp
qed

text \<open>A line of text that fits is read as typed.\<close>

lemma read_line_typed:
  assumes "CHR 0x0A \<notin> set s" "NUL \<notin> set s" "length s + 2 \<le> n"
  shows "read_line n (s @ CHR 0x0A # rest) = Some (s, rest)"
proof -
  have "c_string (s @ [CHR 0x0A]) = s @ [CHR 0x0A]"
    using assms(2) unfolding c_string_def by (auto simp: takeWhile_append2)
  then show ?thesis using fgets_line [OF assms(1,3)] assms(3) by (simp add: read_line_def)
qed

section \<open>The string slot\<close>

definition slot_name :: "int \<Rightarrow> string" where
  "slot_name choice = ''Str'' @ decimal (nat (choice - 1))"

function slot_loop :: "string \<Rightarrow> string option \<times> string" where
  "slot_loop stdin =
     (case read_line 32 stdin of
        None \<Rightarrow> (None, stdin)
      | Some (input_buffer, stdin') \<Rightarrow>
          (let (range_error, choice, endptr) = strtol input_buffer
           in if range_error \<or> length endptr = length input_buffer then slot_loop stdin'
              else if choice = 0 then (None, stdin')
              else if 1 \<le> choice \<and> choice \<le> 10 then (Some (slot_name choice), stdin')
              else slot_loop stdin'))"
  by pat_completeness auto
termination by (relation "measure length") (use read_line_shorter in auto)

declare slot_loop.simps [simp del]

text \<open>The name is written into \<open>out_name\<close>, which holds it when the buffer has room for five characters.\<close>

definition prompt_string_slot :: "nat \<Rightarrow> string \<Rightarrow> string option \<times> string" where
  "prompt_string_slot n stdin = (if n \<ge> 5 then slot_loop stdin else (None, stdin))"

section \<open>Passwords\<close>

text \<open>
  The terminal loop: \<open>typed\<close> is the buffer up to \<open>length\<close>.  At the end of the input the length is
  reset.  \<open>tty\<close> says whether the terminal modes can be read and set.
\<close>

fun password_loop :: "nat \<Rightarrow> string \<Rightarrow> string \<Rightarrow> string \<times> string" where
  "password_loop n typed [] = ([], [])"
| "password_loop n typed (ch # stdin) =
     (if ch \<in> {CHR 0x0D, CHR 0x0A} then (typed, stdin)
      else if ch \<in> {CHR 0x7F, CHR 0x08} then password_loop n (butlast typed) stdin
      else if 32 \<le> (of_char ch :: nat) \<and> (of_char ch :: nat) \<le> 126
      then password_loop n (if length typed < n - 1 then typed @ [ch] else typed) stdin
      else password_loop n typed stdin)"

text \<open>
  The bytes of the buffer from \<open>length\<close> on: a character typed takes the place of the first of them, and one
  taken back leaves a NUL.
\<close>

fun password_past :: "nat \<Rightarrow> string \<Rightarrow> string \<Rightarrow> string \<Rightarrow> string" where
  "password_past n typed past [] = typed @ past"
| "password_past n typed past (ch # stdin) =
     (if ch \<in> {CHR 0x0D, CHR 0x0A} then past
      else if ch \<in> {CHR 0x7F, CHR 0x08} then password_past n (butlast typed) (if typed = [] then past else NUL # past) stdin
      else if 32 \<le> (of_char ch :: nat) \<and> (of_char ch :: nat) \<le> 126
      then (if length typed < n - 1 then password_past n (typed @ [ch]) (tl past) stdin else password_past n typed past stdin)
      else password_past n typed past stdin)"

text \<open>The result is the length, the buffer and the rest; without a terminal the buffer stays.\<close>

definition read_password_input :: "bool \<Rightarrow> string \<Rightarrow> nat \<Rightarrow> string \<Rightarrow> int \<times> string \<times> string" where
  "read_password_input tty buffer n stdin =
     (if n = 0 \<or> \<not> tty then (0, buffer, stdin)
      else (let past = password_past n [] buffer stdin; (typed, stdin) = password_loop n [] stdin
            in (c_int (length typed), write_at (typed @ past) 0 (typed @ [NUL]), stdin)))"

lemma password_loop_shorter: "stdin \<noteq> [] \<Longrightarrow> length (snd (password_loop n typed stdin)) < length stdin"
proof (induction n typed stdin rule: password_loop.induct)
  case (2 n typed ch stdin)
  have "length (snd (password_loop n t stdin)) < Suc (length stdin)"
    if "stdin \<noteq> [] \<Longrightarrow> length (snd (password_loop n t stdin)) < length stdin" for t
    using that by (cases "stdin = []") auto
  then show ?case using 2 by simp
qed simp

function prompt_password :: "bool \<Rightarrow> string \<Rightarrow> nat \<Rightarrow> string \<Rightarrow> int \<times> string \<times> string" where
  "prompt_password tty buffer n stdin =
     (if n > 0 then
        (let (len, buffer', stdin') = read_password_input tty buffer n stdin
         in if len = 0 then (0, buffer', stdin')
            else if buffer' ! 0 = NUL then prompt_password tty buffer' n stdin'
            else (1, buffer', stdin'))
      else (0, buffer, stdin))"
  by pat_completeness auto
termination
proof (relation "measure (\<lambda>(_, _, _, stdin). length stdin)", goal_cases)
  case (2 tty buffer n stdin x len y buffer' stdin')
  have "password_loop n [] [] = ([], [])" by simp
  then have "stdin \<noteq> [] \<and> tty" using 2 by (auto simp: read_password_input_def c_int_def split: if_splits)
  then show ?case using 2 password_loop_shorter [of stdin n "[]"]
    by (auto simp: read_password_input_def split: prod.splits if_splits)
qed simp

declare prompt_password.simps [simp del]

section \<open>Yes or no\<close>

definition prompt_yes_no :: "string option \<Rightarrow> string \<Rightarrow> int \<times> string" where
  "prompt_yes_no prompt stdin =
     (case prompt of
        None \<Rightarrow> (0, stdin)
      | Some _ \<Rightarrow>
          (case read_line 8 stdin of
             None \<Rightarrow> (0, stdin)
           | Some (input_buffer, stdin) \<Rightarrow>
               (if input_buffer \<noteq> [] \<and> tolower (hd input_buffer) \<in> {CHR ''y'', CHR ''1''} then 1 else 0, stdin)))"

section \<open>Amounts\<close>

text \<open>
  What the target decides: whether the product and the sum are fused into one rounding, and what
  a conversion to \<open>unsigned long long\<close> yields for a value that does not fit (undefined in C).
\<close>

record fp_target =
  fused :: bool
  too_large :: u64

definition trim_spaces :: "string \<Rightarrow> string" where
  "trim_spaces s = rev (dropWhile isspace (rev s))"

definition SOLANA_LAMPORTS_PER_SOL :: rat where "SOLANA_LAMPORTS_PER_SOL = 1000000000"

definition max_sol :: rat where
  "max_sol = to_double (to_double (2 ^ 64 - 1) / to_double SOLANA_LAMPORTS_PER_SOL)"

definition sol_to_lamports :: "fp_target \<Rightarrow> rat \<Rightarrow> u64" where
  "sol_to_lamports fp parsed_double =
     (let product = parsed_double * to_double SOLANA_LAMPORTS_PER_SOL;
          sum = to_double ((if fused fp then product else to_double product) + 1 / 2)
      in if sum < 2 ^ 64 then of_int \<lfloor>sum\<rfloor> else too_large fp)"

text \<open>One line of input: the amount, or \<open>None\<close> when the prompt is repeated.\<close>

definition parse_amount :: "fp_target \<Rightarrow> string \<Rightarrow> u64 option" where
  "parse_amount fp input_buffer =
     (let input = trim_spaces (skip_spaces input_buffer);
          len = length input
      in if len = 0 then None
         else
           (let sol_suffix = (len \<ge> 3 \<and> map tolower (drop (len - 3) input) = ''sol'');
                input = (if sol_suffix then trim_spaces (take (len - 3) input) else input);
                treat_as_sol = (sol_suffix \<or> (\<exists>c \<in> set input. c \<in> {CHR ''.'', CHR ''e'', CHR ''E''}))
            in if treat_as_sol then
                 (case strtod input of
                    None \<Rightarrow> None
                  | Some (range_error, d) \<Rightarrow>
                      if range_error then None
                      else (case d of
                              Finite parsed_double \<Rightarrow>
                                if parsed_double \<le> 0 then None
                                else if parsed_double > max_sol then None
                                else (let parsed_value = sol_to_lamports fp parsed_double
                                      in if parsed_value = 0 then None else Some parsed_value)
                            | _ \<Rightarrow> None))
               else
                 (let (range_error, parsed_value, endptr) = strtoull input
                  in if range_error \<or> length endptr = length input \<or> endptr \<noteq> [] then None
                     else if parsed_value = 0 then None
                     else Some parsed_value)))"

function lamports_loop :: "fp_target \<Rightarrow> string \<Rightarrow> u64 option \<times> string" where
  "lamports_loop fp stdin =
     (case read_line 64 stdin of
        None \<Rightarrow> (None, stdin)
      | Some (input_buffer, stdin') \<Rightarrow>
          (case parse_amount fp input_buffer of
             None \<Rightarrow> lamports_loop fp stdin'
           | Some v \<Rightarrow> (Some v, stdin')))"
  by pat_completeness auto
termination by (relation "measure (\<lambda>(_, stdin). length stdin)") (use read_line_shorter in auto)

declare lamports_loop.simps [simp del]

text \<open>The status and \<open>*out_lamports\<close>.\<close>

definition prompt_lamports :: "fp_target \<Rightarrow> u64 option \<Rightarrow> string \<Rightarrow> int \<times> u64 option \<times> string" where
  "prompt_lamports fp out_lamports stdin =
     (case out_lamports of
        None \<Rightarrow> (0, None, stdin)
      | Some _ \<Rightarrow>
          (case lamports_loop fp stdin of
             (None, stdin) \<Rightarrow> (0, out_lamports, stdin)
           | (Some v, stdin) \<Rightarrow> (1, Some v, stdin)))"

section \<open>A public key\<close>

text \<open>The status, the text, the bytes and the rest; a decoder that refuses may have written some bytes.\<close>

function key_loop ::
    "(nat \<Rightarrow> bool) \<Rightarrow> string \<Rightarrow> nat \<Rightarrow> bytes option \<Rightarrow> nat \<Rightarrow> string \<Rightarrow> int \<times> string \<times> bytes option \<times> string" where
  "key_loop calloc out_base58 base58_size out_bytes bytes_len stdin =
     (case read_line 128 stdin of
        None \<Rightarrow> (0, out_base58, out_bytes, stdin)
      | Some (input_buffer, stdin') \<Rightarrow>
          if length input_buffer \<ge> base58_size then key_loop calloc out_base58 base58_size out_bytes bytes_len stdin'
          else (let (decoded_length, out_bytes') = solana_base58_decode calloc (Some input_buffer) out_bytes bytes_len
                in if decoded_length \<le> 0 \<or> nat decoded_length \<noteq> bytes_len
                   then key_loop calloc out_base58 base58_size out_bytes' bytes_len stdin'
                   else (1, write_at out_base58 0 (input_buffer @ replicate (base58_size - length input_buffer) NUL),
                         out_bytes', stdin')))"
  by pat_completeness auto
termination by (relation "measure (\<lambda>(_, _, _, _, _, stdin). length stdin)") (use read_line_shorter in auto)

declare key_loop.simps [simp del]

definition prompt_base58_public_key ::
    "(nat \<Rightarrow> bool) \<Rightarrow> string option \<Rightarrow> string option \<Rightarrow> nat \<Rightarrow> bytes option \<Rightarrow> nat \<Rightarrow> string
     \<Rightarrow> int \<times> string option \<times> bytes option \<times> string" where
  "prompt_base58_public_key calloc prompt out_base58 base58_size out_bytes bytes_len stdin =
     (case (prompt, out_base58, out_bytes) of
        (Some _, Some text58, Some _) \<Rightarrow>
          if base58_size = 0 then (0, out_base58, out_bytes, stdin)
          else (let (status, text58, out_bytes, stdin) = key_loop calloc text58 base58_size out_bytes bytes_len stdin
                in (status, Some text58, out_bytes, stdin))
      | _ \<Rightarrow> (0, out_base58, out_bytes, stdin))"

section \<open>The memo\<close>

definition SOLANA_DEFAULT_MEMO :: string where "SOLANA_DEFAULT_MEMO = ''sent from my ti83+''"

text \<open>
  The memo loop of \<open>send_sol_transaction\<close>: the buffer is the memo's limit of 120 and 16 more, the
  default stays when the input has ended or the line is empty.
\<close>

function memo_loop :: "string \<Rightarrow> string \<Rightarrow> string \<times> string" where
  "memo_loop memo stdin =
     (case read_line (120 + 16) stdin of
        None \<Rightarrow> (memo, stdin)
      | Some (input_buffer, stdin') \<Rightarrow>
          (let input_len = length input_buffer
           in if input_len = 0 then (memo, stdin')
              else if input_len > 120 then memo_loop memo stdin'
              else if \<not> list_all (\<lambda>c. 32 \<le> (of_char c :: nat) \<and> (of_char c :: nat) \<le> 126) input_buffer
              then memo_loop memo stdin'
              else (input_buffer, stdin')))"
  by pat_completeness auto
termination by (relation "measure (\<lambda>(_, stdin). length stdin)") (use read_line_shorter in auto)

declare memo_loop.simps [simp del]

section \<open>Prompts consume input\<close>

named_theorems consumes \<open>what is left of the input after a prompt is no longer than it was\<close>

lemma read_line_consumes: "read_line n stdin = Some (s, rest) \<Longrightarrow> length rest \<le> length stdin"
  using fgets_fits by (fastforce simp: read_line_def Let_def split: if_splits option.splits)

lemma slot_loop_consumes: "length (snd (slot_loop stdin)) \<le> length stdin"
proof (induction stdin rule: slot_loop.induct)
  case (1 stdin)
  show ?case
  proof (cases "read_line 32 stdin")
    case (Some a)
    obtain line stdin' range_error choice endptr where l: "a = (line, stdin')" "strtol line = (range_error, choice, endptr)"
      by (metis prod_cases3 surj_pair)
    note IH = 1(1) [OF Some l(1) [symmetric] refl l(2) [symmetric] refl] 1(2) [OF Some l(1) [symmetric] refl l(2) [symmetric] refl]
    have "length stdin' \<le> length stdin" using Some l(1) by (intro read_line_consumes) simp
    then show ?thesis using Some l IH by (subst slot_loop.simps) (auto intro: order_trans)
  qed (simp add: slot_loop.simps [of stdin])
qed

lemma prompt_string_slot_consumes [consumes]: "length (snd (prompt_string_slot n stdin)) \<le> length stdin"
  by (simp add: prompt_string_slot_def slot_loop_consumes)

lemma read_password_consumes: "length (snd (snd (read_password_input tty buffer n stdin))) \<le> length stdin"
proof -
  have "length (snd (password_loop n [] stdin)) \<le> length stdin"
    using password_loop_shorter [of stdin n "[]"] by (cases "stdin = []") auto
  then show ?thesis by (cases "password_loop n [] stdin") (auto simp: read_password_input_def)
qed

lemma prompt_password_consumes [consumes]: "length (snd (snd (prompt_password tty buffer n stdin))) \<le> length stdin"
proof (induction tty buffer n stdin rule: prompt_password.induct)
  case (1 tty buffer n stdin)
  obtain len buffer' stdin' where r: "read_password_input tty buffer n stdin = (len, buffer', stdin')" by (metis prod_cases3)
  have "length stdin' \<le> length stdin" using read_password_consumes [of tty buffer n stdin] r by simp
  then show ?case using 1 [OF _ r [symmetric] refl] r by (subst prompt_password.simps) (auto intro: order_trans)
qed

lemma prompt_yes_no_consumes [consumes]: "length (snd (prompt_yes_no prompt stdin)) \<le> length stdin"
  using read_line_consumes by (auto simp: prompt_yes_no_def split: option.splits)

lemma lamports_loop_consumes: "length (snd (lamports_loop fp stdin)) \<le> length stdin"
proof (induction fp stdin rule: lamports_loop.induct)
  case (1 fp stdin)
  show ?case
  proof (cases "read_line 64 stdin")
    case (Some a)
    obtain line stdin' where l: "a = (line, stdin')" by fastforce
    have "length stdin' \<le> length stdin" using Some l by (intro read_line_consumes) simp
    then show ?thesis using Some l 1 [OF Some l [symmetric]]
      by (subst lamports_loop.simps) (auto intro: order_trans split: option.splits)
  qed (simp add: lamports_loop.simps [of fp stdin])
qed

lemma prompt_lamports_consumes [consumes]: "length (snd (snd (prompt_lamports fp out stdin))) \<le> length stdin"
  using lamports_loop_consumes [of fp stdin] by (auto simp: prompt_lamports_def split: option.splits prod.splits)

lemma key_loop_consumes: "length (snd (snd (snd (key_loop calloc text58 n out k stdin)))) \<le> length stdin"
proof (induction calloc text58 n out k stdin rule: key_loop.induct)
  case (1 calloc text58 n out k stdin)
  show ?case
  proof (cases "read_line 128 stdin")
    case (Some a)
    obtain line stdin' d out2 where l: "a = (line, stdin')" "solana_base58_decode calloc (Some line) out k = (d, out2)"
      by (metis surj_pair)
    have "length stdin' \<le> length stdin" using Some l by (intro read_line_consumes) simp
    then show ?thesis
      using Some l 1(1) [OF Some l(1) [symmetric]] 1(2) [OF Some l(1) [symmetric] _ l(2) [symmetric]]
      by (subst key_loop.simps) (auto intro: order_trans)
  qed (simp add: key_loop.simps [of _ _ _ _ _ stdin])
qed

lemma prompt_key_consumes [consumes]:
  "length (snd (snd (snd (prompt_base58_public_key calloc prompt text58 n out k stdin)))) \<le> length stdin"
  using key_loop_consumes [of calloc "the text58" n out k stdin]
  by (cases "key_loop calloc (the text58) n out k stdin" rule: prod_cases4)
    (auto simp: prompt_base58_public_key_def split: option.splits)

lemma memo_loop_consumes [consumes]: "length (snd (memo_loop memo stdin)) \<le> length stdin"
proof (induction memo stdin rule: memo_loop.induct)
  case (1 memo stdin)
  show ?case
  proof (cases "read_line (120 + 16) stdin")
    case (Some a)
    obtain line stdin' where l: "a = (line, stdin')" by fastforce
    have "length stdin' \<le> length stdin" using Some l by (intro read_line_consumes) simp
    then show ?thesis using Some l 1 [OF Some l [symmetric] refl]
      by (subst memo_loop.simps) (auto simp: Let_def intro: order_trans)
  qed (simp add: memo_loop.simps [of memo stdin])
qed

section \<open>Output\<close>

definition hex_text :: "byte \<Rightarrow> string" where
  "hex_text b = [''0123456789abcdef'' ! (unat b div 16), ''0123456789abcdef'' ! (unat b mod 16)]"

definition print_hex :: "string \<Rightarrow> bytes option \<Rightarrow> nat \<Rightarrow> string" where
  "print_hex label data n =
     label @ (case data of None \<Rightarrow> [] | Some d \<Rightarrow> concat (map hex_text (take n d))) @ [CHR 0x0A]"

definition print_base58 :: "(nat \<Rightarrow> bool) \<Rightarrow> string \<Rightarrow> bytes \<Rightarrow> string" where
  "print_base58 calloc label data =
     (let (encoded, buffer) = solana_base58_encode calloc (Some data) (Some (replicate 96 NUL)) 96
      in if encoded > 0 then label @ c_string (the buffer) @ [CHR 0x0A]
         else print_hex label (Some data) (length data))"

section \<open>Amounts are exact\<close>

text \<open>Below \<open>2 ^ 49\<close> lamports the three roundings move the value by less than half a lamport.\<close>

lemma to_double_near:
  assumes "2 powi (- 1022) \<le> q" "q \<le> 2 ^ 50"
  shows "q - 1 / 8 \<le> to_double q" "to_double q \<le> q + 1 / 8"
proof -
  have "q / 2 ^ 53 \<le> 2 ^ 50 / 2 ^ 53" using assms(2) by (intro divide_right_mono) simp_all
  then have "q / 2 ^ 53 \<le> 1 / 8" by simp
  then show "q - 1 / 8 \<le> to_double q" "to_double q \<le> q + 1 / 8" using to_double_between [OF assms(1)] by linarith+
qed

lemma tiny: "q \<ge> 1 / 2 ^ 40 \<Longrightarrow> (2 :: rat) powi (- 1022) \<le> q"
proof -
  have "(2 :: rat) powi (- 1022) \<le> 2 powi (- 40)" by (intro power_int_increasing) auto
  then show "q \<ge> 1 / 2 ^ 40 \<Longrightarrow> (2 :: rat) powi (- 1022) \<le> q" by (simp add: power_int_minus inverse_eq_divide)
qed

lemma to_double_small_int: "0 \<le> i \<Longrightarrow> i < 2 ^ 53 \<Longrightarrow> to_double (of_int i) = of_int i"
proof (cases "i = 0")
  case False
  assume i: "0 \<le> i" "i < 2 ^ 53"
  then have q: "(0 :: rat) < of_int i" "(1 :: rat) \<le> of_int i" using False by auto
  note e = binary_exponent [OF q(1)]
  have "(2 :: rat) powi binary_exponent (of_int i) < 2 powi 53"
    using e i(2) by (metis le_less_trans of_int_less_iff of_int_numeral of_int_power power_int_numeral)
  then have u: "binary_exponent (of_int i) \<le> 52" using powi_less by fastforce
  have "(2 :: rat) powi 0 < 2 powi (binary_exponent (of_int i) + 1)" using e q(2) by simp
  then have l: "0 \<le> binary_exponent (of_int i)" using powi_less by fastforce
  define k where "k = nat (52 - binary_exponent (of_int i))"
  have ulp: "(2 :: rat) powi (binary_exponent (of_int i) - 52) = 1 / 2 ^ k"
    using u by (simp add: k_def power_int_def inverse_eq_divide power_one_over)
  have "(of_int i :: rat) / (1 / 2 ^ k) = of_int (i * 2 ^ k)" by simp
  then show ?thesis using q l ulp by (simp add: to_double_def Let_def max_def del: of_int_mult of_int_power)
      (simp add: field_simps)
qed (simp add: to_double_def)

lemma billion: "to_double SOLANA_LAMPORTS_PER_SOL = 1000000000"
  using to_double_small_int [of 1000000000] by (simp add: SOLANA_LAMPORTS_PER_SOL_def)

lemma max_sol_large: "2 ^ 30 \<le> max_sol"
proof -
  define m where "m = to_double (2 ^ 64 - 1)"
  have "(2 :: rat) powi (- 1022) \<le> 2 ^ 64 - 1" by (rule tiny) simp
  from to_double_between [OF this] have "2 ^ 63 \<le> m" unfolding m_def by simp
  then have q: "2 ^ 31 \<le> m / 1000000000" by simp
  then have "(2 :: rat) powi (- 1022) \<le> m / 1000000000" by (intro tiny) simp
  from to_double_between [OF this] have "m / 1000000000 - m / 1000000000 / 2 ^ 53 \<le> max_sol"
    by (simp add: max_sol_def billion m_def)
  moreover have "m / 1000000000 / 2 ^ 53 \<le> m / 1000000000 / 2" using q by simp
  moreover have "(2 :: rat) ^ 31 = 2 * 2 ^ 30" by simp
  ultimately show ?thesis using q by linarith
qed

lemma sol_exact:
  assumes "0 < k" "k < 2 ^ 49"
  defines "p \<equiv> to_double (of_nat k / 10 ^ 9)"
  shows "0 < p" "p \<le> max_sol" "sol_to_lamports fp p = of_nat k"
proof -
  define K :: rat where "K = of_nat k"
  have k: "1 \<le> K" "K \<le> 2 ^ 49"
    using of_nat_mono [of 1 k, where 'a = rat] of_nat_mono [of k "2 ^ 49", where 'a = rat] assms(1,2)
    unfolding K_def by simp_all
  define x where "x = K / 10 ^ 9"
  have "2 powi (- 1022) \<le> x" unfolding x_def using k by (intro tiny) simp
  then have err: "x - x / 2 ^ 53 \<le> p" "p \<le> x + x / 2 ^ 53"
    using to_double_between unfolding p_def x_def K_def by blast+
  have xs: "0 < x" "x \<le> 2 ^ 20" using k by (simp_all add: x_def)
  have half: "x / 2 ^ 53 \<le> x / 2" using xs by simp
  show "0 < p" using err(1) half xs by linarith
  have "(2 :: rat) ^ 21 = 2 * 2 ^ 20" by simp
  then have "p \<le> 2 ^ 21" using err(2) half xs by linarith
  then show "p \<le> max_sol" using max_sol_large by simp
  have X: "x * 1000000000 = K" by (simp add: x_def)
  have "x / 2 ^ 53 * 1000000000 = K / 2 ^ 53" by (simp flip: X)
  then have "x / 2 ^ 53 * 1000000000 \<le> 1 / 8" using k by simp
  moreover have "(x - x / 2 ^ 53) * 1000000000 \<le> p * 1000000000" "p * 1000000000 \<le> (x + x / 2 ^ 53) * 1000000000"
    using err by (intro mult_right_mono; simp)+
  ultimately have w: "K - 1 / 8 \<le> p * 1000000000" "p * 1000000000 \<le> K + 1 / 8"
    using X by (simp_all only: left_diff_distrib distrib_right)
  define product where "product = (if fused fp then p * 1000000000 else to_double (p * 1000000000))"
  have "2 powi (- 1022) \<le> p * 1000000000" using w k by (intro tiny) simp
  from to_double_near [OF this] have pr: "K - 1 / 4 \<le> product" "product \<le> K + 1 / 4"
    using w k by (simp_all add: product_def)
  define total where "total = to_double (product + 1 / 2)"
  have "2 powi (- 1022) \<le> product + 1 / 2" using pr k by (intro tiny) simp
  from to_double_near [OF this] have s: "K \<le> total" "total < K + 1" using pr k by (simp_all add: total_def)
  then have "\<lfloor>total\<rfloor> = int k" by (simp add: floor_eq_iff K_def)
  moreover have "total < 2 ^ 64" using s(2) k by simp
  ultimately show "sol_to_lamports fp p = of_nat k"
    by (simp add: sol_to_lamports_def billion Let_def flip: product_def total_def)
qed

lemma not_sol: "is_decimal (last s) \<or> last s = CHR ''.'' \<Longrightarrow> s \<noteq> [] \<Longrightarrow> map tolower (drop (length s - 3) s) \<noteq> ''sol''"
proof
  assume l: "is_decimal (last s) \<or> last s = CHR ''.''" "s \<noteq> []" and m: "map tolower (drop (length s - 3) s) = ''sol''"
  then have "drop (length s - 3) s \<noteq> []" by auto
  then have "tolower (last s) = CHR ''l''" using m by (metis last_drop last_map last_ConsL last_ConsR drop_eq_Nil not_less list.distinct(1))
  then show False using l by (auto simp: is_decimal_def tolower_def)
qed

lemma trim_none:
  assumes "s \<noteq> []" "\<not> isspace (hd s)" "\<not> isspace (last s)"
  shows "trim_spaces (skip_spaces s) = s"
proof -
  have "skip_spaces s = s" using assms(1,2) by (cases s) (auto simp: skip_spaces_def)
  moreover have "dropWhile isspace (rev s) = rev s" using assms(1,3) by (cases "rev s") (auto simp: last_rev hd_rev rev_swap)
  ultimately show ?thesis by (simp add: trim_spaces_def)
qed

lemma dot_plain: "\<not> isspace (CHR ''.'')" "tolower (CHR ''.'') = CHR ''.''"
  by (simp_all add: isspace_def tolower_def)

lemma of_nat_u64_pos: "0 < k \<Longrightarrow> k < 2 ^ 64 \<Longrightarrow> (of_nat k :: u64) \<noteq> 0"
proof -
  assume k: "0 < k" "k < 2 ^ 64"
  then have "unat (of_nat k :: u64) = k" by (simp add: unat_of_nat)
  then show "(of_nat k :: u64) \<noteq> 0" using k(1) by auto
qed

lemma lamports_parsed:
  assumes "0 < n" "n < 2 ^ 64"
  shows "parse_amount fp (decimal n) = Some (of_nat n)"
proof -
  have ne: "decimal n \<noteq> []" by (rule decimal_nonempty)
  note d = decimal_chars [OF hd_in_set [OF ne]] decimal_chars [OF last_in_set [OF ne]]
  have t: "trim_spaces (skip_spaces (decimal n)) = decimal n"
    using ne d decimal_plain by (intro trim_none) auto
  have dots: "\<not> (\<exists>c \<in> set (decimal n). c \<in> {CHR ''.'', CHR ''e'', CHR ''E''})"
    by (auto dest!: decimal_chars simp: is_decimal_def)
  have "strtoull (decimal n) = (False, of_nat n, [])"
    using scan_decimal_printed [of "[]" n] assms(2) by (simp add: strtoull_def)
  moreover have "(of_nat n :: u64) \<noteq> 0" using assms by (rule of_nat_u64_pos)
  ultimately show ?thesis
    using ne not_sol [of "decimal n"] d dots unfolding parse_amount_def t by (simp add: Let_def)
qed

lemma sol_parsed:
  assumes "\<forall>d \<in> set f. d < 10" "length f \<le> 9" "k = a * 10 ^ 9 + be_val 10 f * 10 ^ (9 - length f)" "0 < k" "k < 2 ^ 49"
  shows "parse_amount fp (decimal a @ CHR ''.'' # map (\<lambda>d. char_of (48 + d)) f) = Some (of_nat k)"
proof -
  define g :: string where "g = map (\<lambda>d. char_of (48 + d)) f"
  define s where "s = decimal a @ CHR ''.'' # g"
  have dg: "\<forall>c \<in> set g. is_decimal c" using assms(1) digit_chars by (auto simp: g_def)
  have ne: "decimal a \<noteq> []" "s \<noteq> []" by (simp_all add: decimal_nonempty s_def)
  have h: "is_decimal (hd s)" using decimal_chars [of "hd (decimal a)" a] ne(1) by (simp add: s_def)
  have l: "is_decimal (last s) \<or> last s = CHR ''.''" using dg by (cases "g = []") (auto simp: s_def)
  have t: "trim_spaces (skip_spaces s) = s"
    using h l ne(2) decimal_plain dot_plain by (intro trim_none) auto
  have q: "((of_nat a * 10 ^ length f + of_nat (be_val 10 f)) / 10 ^ length f :: rat) = of_nat k / 10 ^ 9"
  proof -
    have "(10 :: rat) ^ 9 = 10 ^ length f * 10 ^ (9 - length f)" using assms(2) by (simp flip: power_add)
    then show ?thesis by (simp add: assms(3) field_simps)
  qed
  have "strtod s = Some (rounded False (of_nat k / 10 ^ 9))"
    using strtod_fraction [OF assms(1), of a] unfolding s_def g_def q .
  moreover have "rounded False (of_nat k / 10 ^ 9) = (False, Finite (to_double (of_nat k / 10 ^ 9)))"
  proof -
    have "(1 :: rat) \<le> of_nat k" using assms(4) of_nat_mono [of 1 k, where 'a = rat] by simp
    then have "(2 :: rat) powi (- 1022) \<le> of_nat k / 10 ^ 9" by (intro tiny) simp
    moreover have "to_double (of_nat k / 10 ^ 9) < 2 powi 1024"
    proof -
      have "to_double (of_nat k / 10 ^ 9) \<le> of_nat k / 10 ^ 9 + 1 / 8"
        using of_nat_mono [of k "2 ^ 49", where 'a = rat] assms(5) \<open>2 powi (- 1022) \<le> of_nat k / 10 ^ 9\<close> by (intro to_double_near) simp_all
      also have "\<dots> < 2 powi 50" using of_nat_mono [of k "2 ^ 49", where 'a = rat] assms(5) by simp
      also have "(2 :: rat) powi 50 \<le> 2 powi 1024" by (intro power_int_increasing) auto
      finally show ?thesis .
    qed
    ultimately show ?thesis by (auto simp: rounded_def Let_def)
  qed
  moreover have "(of_nat k :: u64) \<noteq> 0" using assms(4,5) by (intro of_nat_u64_pos) simp_all
  moreover have "\<exists>c \<in> set s. c \<in> {CHR ''.'', CHR ''e'', CHR ''E''}" by (auto simp: s_def)
  ultimately show ?thesis
    using ne(2) not_sol [OF l ne(2)] sol_exact [OF assms(4,5)]
    unfolding s_def [symmetric] g_def [symmetric] parse_amount_def t by (simp add: Let_def not_less)
qed

section \<open>Passwords as typed\<close>

definition printable_ascii :: "char \<Rightarrow> bool" where
  "printable_ascii c \<longleftrightarrow> 32 \<le> (of_char c :: nat) \<and> (of_char c :: nat) \<le> 126"

lemma password_loop_printable: "list_all printable_ascii typed \<Longrightarrow> list_all printable_ascii (fst (password_loop n typed stdin))"
proof (induction n typed stdin rule: password_loop.induct)
  case (2 n typed ch stdin)
  have "list_all printable_ascii (butlast typed)" using 2(4) by (auto simp: list_all_iff dest: in_set_butlastD)
  moreover have "list_all printable_ascii (typed @ [ch])" if "32 \<le> (of_char ch :: nat)" "(of_char ch :: nat) \<le> 126"
    using 2(4) that by (simp add: printable_ascii_def [of ch])
  ultimately show ?case using 2 by simp
qed simp

lemma password_loop_fits: "length typed \<le> n - 1 \<Longrightarrow> length (fst (password_loop n typed stdin)) \<le> n - 1"
  by (induction n typed stdin rule: password_loop.induct) auto

lemma password_past_length:
  "length typed \<le> n - 1 \<Longrightarrow> n \<le> length typed + length past \<Longrightarrow> 0 < n \<Longrightarrow>
   length (fst (password_loop n typed stdin)) + length (password_past n typed past stdin) = length typed + length past"
proof (induction n typed past stdin rule: password_past.induct)
  case (2 n typed past ch stdin)
  consider (line) "ch \<in> {CHR 0x0D, CHR 0x0A}" | (erase) "ch \<notin> {CHR 0x0D, CHR 0x0A}" "ch \<in> {CHR 0x7F, CHR 0x08}"
    | (other) "ch \<notin> {CHR 0x0D, CHR 0x0A}" "ch \<notin> {CHR 0x7F, CHR 0x08}" by blast
  then show ?case
  proof cases
    case erase
    with 2(1) [OF erase] 2(5-7) show ?thesis by (cases typed rule: rev_cases) auto
  next
    case other
    then show ?thesis using 2(2-4) [OF other] 2(5-7) by (cases past) auto
  qed (use 2 in auto)
qed simp

lemma password_past_typed:
  "list_all printable_ascii p \<Longrightarrow> length typed + length p \<le> n - 1 \<Longrightarrow>
   password_past n typed past (p @ CHR 0x0A # rest) = drop (length p) past"
proof (induction p arbitrary: typed past)
  case (Cons c p)
  have c: "32 \<le> (of_char c :: nat)" "(of_char c :: nat) \<le> 126" using Cons.prems(1) by (simp_all add: printable_ascii_def)
  have "c \<notin> {CHR 0x0D, CHR 0x0A}" "c \<notin> {CHR 0x7F, CHR 0x08}" using c by auto
  moreover have "password_past n (typed @ [c]) (tl past) (p @ CHR 0x0A # rest) = drop (length p) (tl past)"
    using Cons.prems by (intro Cons.IH) simp_all
  ultimately show ?case using c Cons.prems(2) by (simp add: drop_Suc)
qed simp

lemma password_loop_typed:
  "list_all printable_ascii p \<Longrightarrow> length typed + length p \<le> n - 1 \<Longrightarrow>
   password_loop n typed (p @ CHR 0x0A # rest) = (typed @ p, rest)"
proof (induction p arbitrary: typed)
  case (Cons c p)
  have c: "32 \<le> (of_char c :: nat)" "(of_char c :: nat) \<le> 126" using Cons.prems(1) by (simp_all add: printable_ascii_def)
  have "c \<notin> {CHR 0x0D, CHR 0x0A}" "c \<notin> {CHR 0x7F, CHR 0x08}" using c by auto
  moreover have "password_loop n (typed @ [c]) (p @ CHR 0x0A # rest) = ((typed @ [c]) @ p, rest)"
    using Cons.prems by (intro Cons.IH) simp_all
  ultimately show ?case using c Cons.prems(2) by simp
qed simp

text \<open>One reading decides: the test for an empty password behind it never repeats the prompt.\<close>

lemma password_one_round:
  assumes "0 < n" "n \<le> length buffer" "n < 2 ^ 31"
  shows "prompt_password tty buffer n stdin =
    (let (len, buffer', stdin') = read_password_input tty buffer n stdin in (if len = 0 then 0 else 1, buffer', stdin'))"
proof (cases tty)
  case True
  obtain typed rest where p: "password_loop n [] stdin = (typed, rest)" by fastforce
  have pr: "list_all printable_ascii typed" using password_loop_printable [of "[]" n stdin] p by simp
  have len: "length typed \<le> n - 1" using password_loop_fits [of "[]" n stdin] p by simp
  have "write_at (typed @ past) 0 (typed @ [NUL]) ! 0 \<noteq> NUL" if "typed \<noteq> []" for past
  proof -
    have "printable_ascii (hd typed)" using pr that by (auto simp: list_all_iff)
    then show ?thesis using that by (cases typed) (auto simp: printable_ascii_def)
  qed
  moreover have "c_int (length typed) = int (length typed)" using len assms by (intro c_int_id) simp
  ultimately show ?thesis
    using assms(1) True p by (subst prompt_password.simps) (auto simp: read_password_input_def)
next
  case False
  then show ?thesis using assms(1) by (subst prompt_password.simps) (simp add: read_password_input_def)
qed

lemma password_typed:
  assumes "list_all printable_ascii p" "p \<noteq> []" "length p < n" "n \<le> length buffer" "n < 2 ^ 31"
  shows "prompt_password True buffer n (p @ CHR 0x0A # rest) = (1, write_at buffer 0 (p @ [NUL]), rest)"
proof -
  have "password_loop n [] (p @ CHR 0x0A # rest) = (p, rest)"
    using password_loop_typed [OF assms(1), of "[]" n rest] assms(3) by simp
  moreover have "password_past n [] buffer (p @ CHR 0x0A # rest) = drop (length p) buffer"
    using password_past_typed [OF assms(1), of "[]" n buffer rest] assms(3) by simp
  moreover have "c_int (length p) = int (length p)" using assms by (intro c_int_id) simp
  ultimately show ?thesis
    using assms by (subst password_one_round) (simp_all add: read_password_input_def)
qed

section \<open>Oddities of the amount prompt\<close>

lemma negative_amount: "parse_amount fp ''-5'' = Some (- 5)"
  by (simp add: parse_amount_def trim_spaces_def skip_spaces_def isspace_def tolower_def strtoull_def scan_decimal_def
      is_decimal_def decimal_digit_def Let_def)

text \<open>
  The largest amount that passes the check converts to \<open>2 ^ 64\<close>, which does not fit: \<open>max_sol\<close> is a
  double, and what the program takes for it is up to the target.
\<close>

lemma rounding:
  "2 powi e \<le> q \<Longrightarrow> q < 2 powi (e + 1) \<Longrightarrow> - 1022 \<le> e \<Longrightarrow> to_double q = of_int (round_even (q / 2 powi (e - 52))) * 2 powi (e - 52)"
proof -
  assume e: "2 powi e \<le> q" "q < 2 powi (e + 1)" "- 1022 \<le> e"
  have "(0 :: rat) < 2 powi e" by simp
  then have "q \<noteq> 0" using e(1) by linarith
  then show ?thesis using binary_exponent_unique [OF e(1,2)] e(3) by (simp add: to_double_def Let_def max_def)
qed

lemma round_even_near: "of_int f - 1 / 2 < r \<Longrightarrow> r < of_int f + 1 / 2 \<Longrightarrow> round_even r = f"
proof -
  assume r: "of_int f - 1 / 2 < r" "r < of_int f + 1 / 2"
  then consider "\<lfloor>r\<rfloor> = f" | "\<lfloor>r\<rfloor> = f - 1" by linarith
  then show ?thesis using r by cases (auto simp: round_even_def Let_def)
qed

lemma rounds_to:
  assumes "2 powi e \<le> q" "q < 2 powi (e + 1)" "- 1022 \<le> e"
    and "of_int f - 1 / 2 < q / 2 powi (e - 52)" "q / 2 powi (e - 52) < of_int f + 1 / 2"
  shows "to_double q = of_int f * 2 powi (e - 52)"
  using rounding [OF assms(1-3)] round_even_near [OF assms(4,5)] by simp

lemma max_sol_value: "max_sol = 4835703278458517 / 2 ^ 18"
proof -
  have "to_double (2 ^ 64 - 1) = 2 ^ 64" by (subst rounds_to [of 63 _ "2 ^ 53"]) simp_all
  moreover have "to_double (2 ^ 64 / 1000000000) = 4835703278458517 / 2 ^ 18"
    by (subst rounds_to [of 34 _ 4835703278458517]) (simp_all add: power_int_def power_divide)
  ultimately show ?thesis by (simp add: max_sol_def billion)
qed

lemma largest_amount_overflows: "sol_to_lamports fp max_sol = too_large fp"
proof -
  have "to_double (max_sol * 1000000000) = 2 ^ 64" "to_double (max_sol * 1000000000 + 1 / 2) = 2 ^ 64" "to_double (2 ^ 64 + 1 / 2) = 2 ^ 64"
    unfolding max_sol_value by (subst rounds_to [of 64 _ "2 ^ 52"]; simp)+
  then show ?thesis by (simp add: sol_to_lamports_def billion Let_def)
qed

section \<open>What the prompts answer\<close>

definition slot_names :: "string set" where
  "slot_names = {''Str0'', ''Str1'', ''Str2'', ''Str3'', ''Str4'', ''Str5'', ''Str6'', ''Str7'', ''Str8'', ''Str9''}"

lemma decimal_below_10: "d < 10 \<Longrightarrow> decimal d = [char_of (48 + d)]"
  by (cases "d = 0") (simp_all add: decimal_def digits_of.simps [of 10 d] char_of_def bit_simps)

lemma slot_name_range: "1 \<le> choice \<Longrightarrow> choice \<le> 10 \<Longrightarrow> slot_name choice \<in> slot_names"
proof -
  assume "1 \<le> choice" "choice \<le> 10"
  then have "choice = 1 \<or> choice = 2 \<or> choice = 3 \<or> choice = 4 \<or> choice = 5 \<or> choice = 6 \<or> choice = 7 \<or> choice = 8
     \<or> choice = 9 \<or> choice = 10" by presburger
  then show ?thesis unfolding slot_name_def slot_names_def by (auto simp: decimal_below_10 char_of_def bit_simps)
qed

lemma slot_loop_name: "slot_loop stdin = (Some name, rest) \<Longrightarrow> name \<in> slot_names"
proof (induction stdin rule: slot_loop.induct)
  case (1 stdin)
  show ?case
  proof (cases "read_line 32 stdin")
    case None
    then show ?thesis using 1(3) by (simp add: slot_loop.simps [of stdin])
  next
    case (Some a)
    obtain line stdin' range_error choice endptr where l: "a = (line, stdin')" "strtol line = (range_error, choice, endptr)"
      by (metis prod_cases3 surj_pair)
    have *: "slot_loop stdin = (if range_error \<or> length endptr = length line then slot_loop stdin'
              else if choice = 0 then (None, stdin')
              else if 1 \<le> choice \<and> choice \<le> 10 then (Some (slot_name choice), stdin') else slot_loop stdin')"
      using Some l by (simp add: slot_loop.simps [of stdin])
    note IH = 1(1) [OF Some l(1) [symmetric] refl l(2) [symmetric] refl] 1(2) [OF Some l(1) [symmetric] refl l(2) [symmetric] refl]
    show ?thesis using 1(3) IH slot_name_range unfolding * by (auto split: if_splits)
  qed
qed

lemma key_loop_key:
  assumes "key_loop calloc text58 n out k stdin = (1, text58', out', rest)" "out = Some bs" "length bs = k" "0 < k" "k < 2 ^ 31"
  shows "\<exists>s bs'. NUL \<notin> set s \<and> s \<noteq> [] \<and> length s < n \<and> text58' = write_at text58 0 (s @ replicate (n - length s) NUL)
     \<and> base58_bytes s = Some bs' \<and> length bs' = k \<and> out' = Some bs'"
  using assms
proof (induction calloc text58 n out k stdin arbitrary: bs rule: key_loop.induct)
  case (1 calloc text58 n out k stdin)
  obtain line stdin' where l: "read_line 128 stdin = Some (line, stdin')"
    using 1(3) by (cases "read_line 128 stdin") (auto simp: key_loop.simps [of _ _ _ _ _ stdin])
  obtain d out2 where d: "solana_base58_decode calloc (Some line) out k = (d, out2)" by fastforce
  note dc = decode_characterised [OF 1(7), of calloc line bs, folded 1(4), unfolded d]
  have *: "key_loop calloc text58 n out k stdin =
      (if length line \<ge> n then key_loop calloc text58 n out k stdin'
       else if d \<le> 0 \<or> nat d \<noteq> k then key_loop calloc text58 n out2 k stdin'
       else (1, write_at text58 0 (line @ replicate (n - length line) NUL), out2, stdin'))"
    using l d by (simp add: key_loop.simps [of _ _ _ _ _ stdin])
  have out2: "\<exists>bs2. out2 = Some bs2 \<and> length bs2 = k" using dc 1(4,5) by (auto split: option.splits if_splits)
  consider "length line \<ge> n" | "length line < n" "d \<le> 0 \<or> nat d \<noteq> k" | "length line < n" "0 < d" "nat d = k" by linarith
  then show ?case
  proof cases
    case 1
    then show ?thesis using "1.IH"(1) [OF l refl] "1.prems" * by simp
  next
    case 2
    then show ?thesis using "1.IH"(2) [OF l refl _ d [symmetric] refl] "1.prems" * out2 by (auto simp: not_le)
  next
    case 3
    then have b: "base58_bytes line = Some (the (base58_bytes line))" "line \<noteq> []" "d = int (length (the (base58_bytes line)))"
      "out2 = Some (write_at bs 0 (the (base58_bytes line)))" using dc by (auto split: option.splits if_splits)
    then have "length (the (base58_bytes line)) = k" using 3 by simp
    moreover have "NUL \<notin> set line"
      using l c_string_no_NUL by (auto simp: read_line_def Let_def split: option.splits if_splits dest!: in_set_butlastD)
    ultimately show ?thesis using b 3 "1.prems" * by (intro exI [of _ line] exI [of _ "the (base58_bytes line)"]) auto
  qed
qed

lemma memo_loop_memo:
  "memo_loop memo stdin = (m, rest) \<Longrightarrow> m = memo \<or> m \<noteq> [] \<and> length m \<le> 120 \<and> list_all printable_ascii m"
proof (induction memo stdin rule: memo_loop.induct)
  case (1 memo stdin)
  show ?case
  proof (cases "read_line (120 + 16) stdin")
    case None
    then show ?thesis using 1(3) by (simp add: memo_loop.simps [of memo stdin])
  next
    case (Some a)
    obtain line stdin' where l: "a = (line, stdin')" by fastforce
    have *: "memo_loop memo stdin = (if length line = 0 then (memo, stdin') else if length line > 120 then memo_loop memo stdin'
        else if \<not> list_all printable_ascii line then memo_loop memo stdin' else (line, stdin'))"
      using Some l by (simp add: memo_loop.simps [of memo stdin] printable_ascii_def [abs_def] Let_def)
    have "m = memo \<or> m \<noteq> [] \<and> length m \<le> 120 \<and> list_all printable_ascii m"
      if "memo_loop memo stdin' = (m, rest)" "length line > 120 \<or> \<not> list_all printable_ascii line" "line \<noteq> []"
      using 1(1,2) [OF Some l [symmetric] refl] that by (auto simp: printable_ascii_def [abs_def])
    then show ?thesis using 1(3) unfolding * by (auto split: if_splits)
  qed
qed

section \<open>Properties\<close>

text \<open>
  C17: The amount a user types is the amount that is sent, to the lamport.  A number of lamports is
  taken as it is; a number of SOL with a point and at most nine decimals below \<open>2 ^ 49\<close> lamports is
  taken exactly, although it goes through two or three roundings of a double, and whether or not the
  target fuses the multiplication with the addition.
\<close>

theorem amounts_exact:
  "(0 < n \<and> n < 2 ^ 64 \<longrightarrow> parse_amount fp (decimal n) = Some (of_nat n))
   \<and> ((\<forall>d \<in> set f. d < 10) \<and> length f \<le> 9 \<and> k = a * 10 ^ 9 + be_val 10 f * 10 ^ (9 - length f) \<and> 0 < k \<and> k < 2 ^ 49 \<longrightarrow>
      parse_amount fp (decimal a @ CHR ''.'' # map (\<lambda>d. char_of (48 + d)) f) = Some (of_nat k))"
proof (intro conjI impI; elim conjE)
  show "0 < n \<Longrightarrow> n < 2 ^ 64 \<Longrightarrow> parse_amount fp (decimal n) = Some (of_nat n)" by (rule lamports_parsed)
next
  assume "\<forall>d \<in> set f. d < 10" "length f \<le> 9" "k = a * 10 ^ 9 + be_val 10 f * 10 ^ (9 - length f)" "0 < k" "k < 2 ^ 49"
  then show "parse_amount fp (decimal a @ CHR ''.'' # map (\<lambda>d. char_of (48 + d)) f) = Some (of_nat k)" by (rule sol_parsed)
qed

lemma amounts_exact_witness:
  "\<forall>fp. parse_amount fp (decimal 7) = Some 7
   \<and> parse_amount fp (decimal 0 @ CHR ''.'' # map (\<lambda>d. char_of (48 + d)) [0, 0, 0, 2 :: nat]) = Some 200000"
proof
  fix fp show "parse_amount fp (decimal 7) = Some 7
   \<and> parse_amount fp (decimal 0 @ CHR ''.'' # map (\<lambda>d. char_of (48 + d)) [0, 0, 0, 2 :: nat]) = Some 200000"
    using amounts_exact [of 7 fp "[0, 0, 0, 2]" 200000 0] by simp
qed

text \<open>
  C20: Every answer a prompt accepts has the form the callers rely on.  A slot is one of \<open>Str0\<close> to
  \<open>Str9\<close>; an accepted password is non-empty printable text, terminated inside its buffer, whose size
  stays; an accepted public key is base 58 text for exactly the bytes returned with it; and a memo
  is the default or printable text of one to 120 characters.
\<close>

theorem prompts_well_formed:
  shows "(prompt_string_slot n stdin = (Some name, rest) \<longrightarrow> name \<in> slot_names)
   \<and> (prompt_password tty buffer n stdin = (1, buffer', rest) \<and> n \<le> length buffer \<and> n < 2 ^ 31 \<longrightarrow>
        length buffer' = length buffer \<and> c_string buffer' \<noteq> [] \<and> length (c_string buffer') < n
        \<and> list_all printable_ascii (c_string buffer'))
   \<and> (prompt_base58_public_key calloc prompt (Some text58) n (Some bs) 32 stdin = (1, Some text58', out, rest) \<and> length bs = 32 \<longrightarrow>
        (\<exists>key. out = Some key \<and> length key = 32 \<and> base58_bytes (c_string text58') = Some key \<and> length (c_string text58') < n))
   \<and> (memo_loop SOLANA_DEFAULT_MEMO stdin = (memo, rest) \<longrightarrow>
        memo \<noteq> [] \<and> length memo \<le> 120 \<and> list_all printable_ascii memo)"
proof (intro conjI impI; (elim conjE)?)
  assume "prompt_string_slot n stdin = (Some name, rest)"
  then show "name \<in> slot_names" using slot_loop_name by (auto simp: prompt_string_slot_def split: if_splits)
next
  assume p: "prompt_password tty buffer n stdin = (1, buffer', rest)" "n \<le> length buffer" "n < 2 ^ 31"
  then have "0 < n" by (cases n) (simp_all add: prompt_password.simps)
  note p(1) [unfolded password_one_round [OF this p(2,3)]]
  then have t: "buffer' = write_at (fst (password_loop n [] stdin) @ password_past n [] buffer stdin) 0 (fst (password_loop n [] stdin) @ [NUL])"
      "fst (password_loop n [] stdin) \<noteq> []"
    by (auto simp: read_password_input_def c_int_def split: if_splits prod.splits)
  define typed where "typed = fst (password_loop n [] stdin)"
  note t = t [folded typed_def]
  have w: "list_all printable_ascii typed" "length typed \<le> n - 1"
    using password_loop_printable [of "[]" n stdin] password_loop_fits [of "[]" n stdin] by (simp_all add: typed_def)
  then have "NUL \<notin> set typed" by (auto simp: list_all_iff printable_ascii_def)
  then have "c_string buffer' = typed" unfolding t(1) by (rule c_string_write_at_0)
  moreover have "length (typed @ password_past n [] buffer stdin) = length buffer"
    using password_past_length [of "[]" n buffer stdin] p(2) \<open>0 < n\<close> by (simp add: typed_def)
  then have "length buffer' = length buffer"
    unfolding t(1) using w(2) p(2) \<open>0 < n\<close> by (subst length_write_at) simp_all
  ultimately show "length buffer' = length buffer" "c_string buffer' \<noteq> []" "length (c_string buffer') < n"
      "list_all printable_ascii (c_string buffer')"
    using w t(2) \<open>0 < n\<close> by auto
next
  assume "prompt_base58_public_key calloc prompt (Some text58) n (Some bs) 32 stdin = (1, Some text58', out, rest)" "length bs = 32"
  then have "key_loop calloc text58 n (Some bs) 32 stdin = (1, text58', out, rest)"
    by (auto simp: prompt_base58_public_key_def split: option.splits if_splits prod.splits)
  from key_loop_key [OF this refl \<open>length bs = 32\<close>] obtain s key where s: "NUL \<notin> set s" "s \<noteq> []" "length s < n"
    "text58' = write_at text58 0 (s @ replicate (n - length s) NUL)" "base58_bytes s = Some key" "length key = 32" "out = Some key"
    by auto
  then have "c_string text58' = s" by (cases "n - length s") (simp_all add: c_string_terminated)
  then show "\<exists>key. out = Some key \<and> length key = 32 \<and> base58_bytes (c_string text58') = Some key \<and> length (c_string text58') < n"
    using s by auto
next
  assume m: "memo_loop SOLANA_DEFAULT_MEMO stdin = (memo, rest)"
  have "list_all printable_ascii SOLANA_DEFAULT_MEMO" by (simp add: SOLANA_DEFAULT_MEMO_def printable_ascii_def)
  then show "memo \<noteq> []" "length memo \<le> 120" "list_all printable_ascii memo"
    using memo_loop_memo [OF m] by (auto simp: SOLANA_DEFAULT_MEMO_def)
qed

lemma prompts_well_formed_witness:
  "list_all printable_ascii (c_string (write_at (replicate 8 NUL) 0 (''pw'' @ [NUL])))"
proof -
  have "prompt_password True (replicate 8 NUL) 8 (''pw'' @ CHR 0x0A # []) = (1, write_at (replicate 8 NUL) 0 (''pw'' @ [NUL]), [])"
    by (intro password_typed) (simp_all add: printable_ascii_def)
  with prompts_well_formed [of 8 "''pw'' @ CHR 0x0A # []" "[]" "[]" True "replicate 8 NUL"]
  show ?thesis by simp
qed

end
