(* ===== verification/Rpc_Json.thy ===== *)
theory Rpc_Json
  imports C_Text Solana_Client
begin

text \<open>
  The part of \<open>main.c\<close> that reads RPC answers: the endpoint, the two field readers, the verdict on a
  signature, the confirmation loop and the explorer link.  The answers of the server to the
  attempts of the loop are \<open>envs 0\<close>, \<open>envs 1\<close>, and so on.
\<close>

section \<open>Endpoint and link\<close>

definition SOLANA_DEFAULT_RPC_URL :: string where
  "SOLANA_DEFAULT_RPC_URL = ''https://api.devnet.solana.com''"

definition solana_resolve_rpc_url :: "string option \<Rightarrow> string" where
  "solana_resolve_rpc_url env_value =
     (let url = (case env_value of
                       None \<Rightarrow> SOLANA_DEFAULT_RPC_URL
                     | Some u \<Rightarrow> if c_string u = [] then SOLANA_DEFAULT_RPC_URL else c_string u)
      in if \<not> begins ''https://'' url then SOLANA_DEFAULT_RPC_URL else url)"

text \<open>The line printed, \<open>None\<close> for no line.\<close>

definition print_solscan_link :: "string option \<Rightarrow> string option \<Rightarrow> string option" where
  "print_solscan_link signature url =
     (case signature of
        None \<Rightarrow> None
      | Some sig \<Rightarrow>
          (let cluster =
                 (case url of
                    Some u \<Rightarrow>
                      if strstr ''devnet'' u \<noteq> None then Some ''devnet''
                      else if strstr ''testnet'' u \<noteq> None then Some ''testnet''
                      else if strstr ''mainnet'' u \<noteq> None then None
                      else Some ''custom''
                  | None \<Rightarrow> Some ''devnet'')
           in Some (''View on Solscan: https://solscan.io/tx/'' @ sig
                @ (case cluster of None \<Rightarrow> [] | Some c \<Rightarrow> ''?cluster='' @ c) @ [CHR 0x0A])))"

section \<open>Reading fields\<close>

definition field_pattern :: "string \<Rightarrow> string" where
  \<open>field_pattern field = ''"'' @ field @ ''":"''\<close>

text \<open>The status and \<open>out_value\<close>; \<open>snprintf\<close> truncates at 64 bytes but reports the whole length.\<close>

definition parse_json_string_field ::
    "string option \<Rightarrow> string option \<Rightarrow> string option \<Rightarrow> nat \<Rightarrow> int \<times> string option" where
  "parse_json_string_field json field out_value out_size =
     (case (json, field, out_value) of
        (Some json, Some field, Some out) \<Rightarrow>
          if out_size > 0 then
            (let pattern = field_pattern field; written = length pattern
             in if written > 0 \<and> written < 64 then
                  (case strstr pattern json of
                     Some start \<Rightarrow>
                       (let value_start = drop written start
                        in case strchr (CHR 0x22) value_start of
                             Some value_end \<Rightarrow>
                               (let copy_len = length value_start - length value_end
                                in if copy_len > 0 \<and> copy_len < out_size
                                   then (1, Some (write_at out 0 (take copy_len value_start @ [NUL])))
                                   else (0, out_value))
                           | None \<Rightarrow> (0, out_value))
                   | None \<Rightarrow> (0, out_value))
                else (0, out_value))
          else (0, out_value)
      | _ \<Rightarrow> (0, out_value))"

definition parse_balance_response :: "string option \<Rightarrow> u64 option \<Rightarrow> int \<times> u64 option" where
  \<open>parse_balance_response json lamports =
     (case (json, lamports) of
        (Some json, Some _) \<Rightarrow>
          (case strstr ''"value"'' json of
             Some value_ptr \<Rightarrow>
               (case strchr (CHR '':'') value_ptr of
                  Some value_ptr \<Rightarrow>
                    (let value_ptr = skip_spaces (tl value_ptr);
                         (range_error, parsed, endptr) = strtoull value_ptr
                     in if \<not> range_error \<and> length endptr \<noteq> length value_ptr then (1, Some parsed)
                        else (0, lamports))
                | None \<Rightarrow> (0, lamports))
           | None \<Rightarrow> (0, lamports))
      | _ \<Rightarrow> (0, lamports))\<close>

section \<open>The verdict on a signature\<close>

definition is_signature_error :: "string option \<Rightarrow> int" where
  \<open>is_signature_error json =
     (case json of
        None \<Rightarrow> 0
      | Some json \<Rightarrow>
          (case strstr ''"err":'' json of
             Some err_ptr \<Rightarrow> if \<not> begins ''null'' (skip_spaces (drop 6 err_ptr)) then 1 else 0
           | None \<Rightarrow> 0))\<close>

definition is_signature_finalized :: "string option \<Rightarrow> int" where
  \<open>is_signature_finalized json =
     (case json of
        None \<Rightarrow> 0
      | Some json \<Rightarrow>
          if strstr ''"confirmationStatus":"finalized"'' json \<noteq> None then 1
          else if strstr ''"confirmationStatus":"confirmed"'' json \<noteq> None then 1
          else if strstr ''"confirmationStatus"'' json = None
               \<and> strstr ''"confirmations":null'' json \<noteq> None \<and> strstr ''"err":null'' json \<noteq> None then 1
          else 0)\<close>

section \<open>Waiting for confirmation\<close>

definition SOLANA_SIGNATURE_POLL_INTERVAL_MS :: u32 where "SOLANA_SIGNATURE_POLL_INTERVAL_MS = 1000"

datatype app_event = Rpc client_event | Sleep u32

definition confirmation_attempts :: "u32 \<Rightarrow> u32" where
  "confirmation_attempts timeout_seconds =
     (if timeout_seconds > 0 then
        (let total_ms = timeout_seconds * 1000;
             max_attempts = total_ms div SOLANA_SIGNATURE_POLL_INTERVAL_MS;
             max_attempts = (if total_ms mod SOLANA_SIGNATURE_POLL_INTERVAL_MS \<noteq> 0 then max_attempts + 1 else max_attempts)
         in if max_attempts = 0 then 1 else max_attempts)
      else 1)"

text \<open>\<open>attempt\<close> stays below \<open>max_attempts\<close>, so it does not wrap.\<close>

function confirmation_loop ::
    "(nat \<Rightarrow> http_env) \<Rightarrow> solana_client option \<Rightarrow> string \<Rightarrow> u32 \<Rightarrow> nat \<Rightarrow> nat
     \<Rightarrow> int \<times> solana_client option \<times> app_event list" where
  "confirmation_loop envs client signature timeout_seconds max_attempts attempt =
     (if attempt < max_attempts then
        (let (rpc_status, client, out, ev) =
               solana_client_get_signature_status (envs attempt) client (Some signature) (Some None);
             status_response = (case out of Some r \<Rightarrow> r | None \<Rightarrow> None);
             ev = map Rpc (ev @ (if status_response \<noteq> None then [Release R_response] else []))
         in if rpc_status = SOLANA_OK \<and> status_response \<noteq> None \<and> is_signature_error (map_option c_string status_response) \<noteq> 0
            then (-1, client, ev)
            else if rpc_status = SOLANA_OK \<and> status_response \<noteq> None \<and> is_signature_finalized (map_option c_string status_response) \<noteq> 0
            then (1, client, ev)
            else if timeout_seconds = 0 \<or> attempt + 1 \<ge> max_attempts then (0, client, ev)
            else (let (result, client, ev') =
                        confirmation_loop envs client signature timeout_seconds max_attempts (attempt + 1)
                  in (result, client, ev @ Sleep SOLANA_SIGNATURE_POLL_INTERVAL_MS # ev')))
      else (0, client, []))"
  by pat_completeness auto
termination by (relation "measure (\<lambda>(_, _, _, _, max_attempts, attempt). max_attempts - attempt)") auto

declare confirmation_loop.simps [simp del]

definition wait_for_signature_confirmation ::
    "(nat \<Rightarrow> http_env) \<Rightarrow> solana_client option \<Rightarrow> string option \<Rightarrow> u32
     \<Rightarrow> int \<times> solana_client option \<times> app_event list" where
  "wait_for_signature_confirmation envs client signature timeout_seconds =
     (case (client, signature) of
        (Some _, Some sig) \<Rightarrow>
          if c_string sig = [] then (-1, client, [])
          else confirmation_loop envs client (c_string sig) timeout_seconds
                 (unat (confirmation_attempts timeout_seconds)) 0
      | _ \<Rightarrow> (-1, client, []))"

section \<open>What one request posts\<close>

lemma posts_simps [simp]:
  "posts [] = []" "posts (Acquire r # es) = posts es" "posts (Release r # es) = posts es"
  "posts (Post u t p # es) = Post u t p # posts es" "posts (xs @ ys) = posts xs @ posts ys"
  by (simp_all add: posts_def)

text \<open>At most one message, the request, to the client's URL with its timeout; the URL and the timeout stay.\<close>

definition posts_once :: "solana_client option \<Rightarrow> string \<Rightarrow> string \<Rightarrow> client_event list \<Rightarrow> solana_client option \<Rightarrow> bool" where
  "posts_once client verb params ev client' \<longleftrightarrow>
     map_option rpc_url client' = map_option rpc_url client \<and> map_option timeout_ms client' = map_option timeout_ms client
     \<and> (posts ev = [] \<or> (\<exists>c u. client = Some c \<and> rpc_url c = Some u
          \<and> posts ev = [Post u (timeout_ms c) (rpc_payload (next_request_id c) verb params)]))"

lemma transfer_posts:
  "rpc_transfer env c payload st0 = (st, data, ev) \<Longrightarrow> posts ev = [] \<or> posts ev = [Post (the (rpc_url c)) (timeout_ms c) payload]"
  by (auto simp: rpc_transfer_def Let_def split: if_splits prod.splits)

definition sent_params :: "string option \<Rightarrow> string" where
  "sent_params p = (case p of Some p \<Rightarrow> if c_string p \<noteq> [] then c_string p else ''[]'' | None \<Rightarrow> ''[]'')"

lemma rpc_posts:
  assumes "solana_client_rpc_request env client m p (Some None) = (st, client', out, ev)"
  shows "posts_once client (c_string (the m)) (sent_params p) ev client'"
proof (cases "\<exists>c m'. client = Some c \<and> m = Some m' \<and> rpc_url c \<noteq> None \<and> c_string m' \<noteq> []")
  case False
  then show ?thesis
    using assms by (auto simp: solana_client_rpc_request_def posts_once_def split: option.splits if_splits)
next
  case True
  then obtain c m' u where c: "client = Some c" "m = Some m'" "rpc_url c = Some u" "c_string m' \<noteq> []" by blast
  define c1 where "c1 = c\<lparr>next_request_id := next_request_id c + 1\<rparr>"
  have same: "rpc_url c1 = Some u" "timeout_ms c1 = timeout_ms c" using c by (simp_all add: c1_def)
  define pay where "pay = rpc_payload (next_request_id c) (c_string m') (sent_params p)"
  define st0 where "st0 = (if \<not> payload_alloc env then SOLANA_ERROR_ALLOCATION_FAILED
    else if \<not> printed_ok pay then SOLANA_ERROR_CURL else SOLANA_OK)"
  obtain st1 data ev1 where t: "rpc_transfer env c1 pay st0 = (st1, data, ev1)" by (metis prod_cases3)
  have "solana_client_rpc_request env client m p (Some None) =
     (let (status, data, ev) = rpc_transfer env c1 pay st0;
          ev = (if payload_alloc env then [Acquire R_payload] else []) @ ev
            @ (if payload_alloc env then [Release R_payload] else [])
      in if status = SOLANA_OK \<or> status = SOLANA_ERROR_HTTP_STATUS then (status, Some c1, Some data, ev)
         else (status, Some c1, Some None, ev @ (if data \<noteq> None then [Release R_response] else [])))"
    unfolding solana_client_rpc_request_def c c1_def pay_def st0_def Let_def sent_params_def by (simp add: c(3,4))
  then have "posts ev = posts ev1 \<and> client' = Some c1" using assms t by (auto simp: Let_def split: if_splits)
  then show ?thesis using transfer_posts [OF t] c same by (auto simp: posts_once_def pay_def)
qed

lemma params_posts:
  assumes "request_with_params env client arg template verb (Some o0) = (st, client', out, ev)"
  shows "posts_once client (c_string verb) (sent_params (Some (template (c_string (the arg))))) ev client'"
proof (cases "\<exists>c a. client = Some c \<and> arg = Some a \<and> c_string a \<noteq> [] \<and> params_alloc env \<and> printed_ok (template (c_string a))")
  case False
  then show ?thesis
    using assms by (auto simp: request_with_params_def posts_once_def Let_def split: option.splits if_splits)
next
  case True
  then obtain a where a: "arg = Some a" "c_string a \<noteq> []" "params_alloc env" "printed_ok (template (c_string a))" by blast
  obtain st1 c1 o1 ev1 where r: "solana_client_rpc_request env client (Some verb) (Some (template (c_string a))) (Some None)
      = (st1, c1, o1, ev1)" by (metis prod_cases4)
  then have "client' = c1" "posts ev = posts ev1"
    using assms a True by (auto simp: request_with_params_def)
  then show ?thesis using rpc_posts [OF r] a(1) by (simp add: posts_once_def)
qed

definition status_params :: "string \<Rightarrow> string" where
  \<open>status_params sig = ''[["'' @ sig @ ''"],{"searchTransactionHistory":true}]''\<close>

lemma c_string_idem [simp]: "c_string (c_string s) = c_string s"
  by (rule c_string_NUL_free) (rule c_string_no_NUL)

lemma sent_params_id: "NUL \<notin> set p \<Longrightarrow> p \<noteq> [] \<Longrightarrow> sent_params (Some p) = p"
  by (simp add: sent_params_def c_string_NUL_free)

lemma status_posts:
  "solana_client_get_signature_status env client (Some sig) (Some None) = (st, client', out, ev) \<Longrightarrow>
   posts_once client ''getSignatureStatuses'' (status_params (c_string sig)) ev client'"
proof -
  have "NUL \<notin> set (status_params (c_string sig))" using c_string_no_NUL [of sig] by (simp add: status_params_def)
  then have "sent_params (Some (status_params (c_string sig))) = status_params (c_string sig)"
    by (intro sent_params_id) (simp_all add: status_params_def)
  moreover have "c_string ''getSignatureStatuses'' = ''getSignatureStatuses''" by (simp add: c_string_def)
  ultimately show "solana_client_get_signature_status env client (Some sig) (Some None) = (st, client', out, ev) \<Longrightarrow>
     posts_once client ''getSignatureStatuses'' (status_params (c_string sig)) ev client'"
    unfolding solana_client_get_signature_status_def status_params_def using params_posts by fastforce
qed

section \<open>The loop on any server\<close>

definition rpc_events :: "app_event list \<Rightarrow> client_event list" where
  "rpc_events es = concat (map (\<lambda>e. case e of Rpc c \<Rightarrow> [c] | _ \<Rightarrow> []) es)"

lemma rpc_events_simps [simp]:
  "rpc_events [] = []" "rpc_events (Rpc c # es) = c # rpc_events es" "rpc_events (Sleep n # es) = rpc_events es"
  "rpc_events (xs @ ys) = rpc_events xs @ rpc_events ys" "rpc_events (map Rpc cs) = cs"
  by (simp_all add: rpc_events_def concat_map_singleton [of "\<lambda>x. x", simplified] o_def)

lemma status_frees:
  assumes "solana_client_get_signature_status env client signature (Some None) = (st, client', out, ev)"
  shows "\<exists>r. out = Some r \<and> own (ev @ (if r \<noteq> None then [Release R_response] else [])) {} = Some {}"
proof -
  obtain r where r: "out = Some r"
    using assms by (cases out) (auto simp: solana_client_get_signature_status_def request_with_params_def
        solana_client_rpc_request_def Let_def split: option.splits if_splits prod.splits)
  then show ?thesis
    using params_own [OF assms [unfolded solana_client_get_signature_status_def r]] by (auto simp: own_append)
qed

lemma confirmation_loop_bounds:
  assumes "confirmation_loop envs client sig t n k = (result, client', ev)"
  shows "own (rpc_events ev) {} = Some {} \<and> length (posts (rpc_events ev)) \<le> n - k \<and> result \<in> {-1, 0, 1}"
  using assms
proof (induction envs client sig t n k arbitrary: result client' ev rule: confirmation_loop.induct)
  case (1 envs client sig t n k)
  show ?case
  proof (cases "k < n")
    case True
    obtain st c1 out ev1 where s: "solana_client_get_signature_status (envs k) client (Some sig) (Some None) = (st, c1, out, ev1)"
      by (metis prod_cases4)
    obtain r where r: "out = Some r" "own (ev1 @ (if r \<noteq> None then [Release R_response] else [])) {} = Some {}"
      using status_frees [OF s] by blast
    define evr where "evr = ev1 @ (if r \<noteq> None then [Release R_response] else [])"
    have p: "length (posts evr) \<le> 1" "own evr {} = Some {}" using r(2) unfolding evr_def using status_posts [OF s] by (auto simp: posts_once_def)
    obtain result2 c2 ev2 where l: "confirmation_loop envs c1 sig t n (k + 1) = (result2, c2, ev2)" by (metis prod_cases3)
    consider "ev = map Rpc evr" "result \<in> {-1, 0, 1}"
      | "ev = map Rpc evr @ Sleep SOLANA_SIGNATURE_POLL_INTERVAL_MS # ev2" "result = result2" "k + 1 < n" "t \<noteq> 0"
          "\<not> (st = SOLANA_OK \<and> r \<noteq> None \<and> is_signature_error (map_option c_string r) \<noteq> 0)"
          "\<not> (st = SOLANA_OK \<and> r \<noteq> None \<and> is_signature_finalized (map_option c_string r) \<noteq> 0)"
      using 1(2) True s r(1) l
      by (subst (asm) confirmation_loop.simps) (auto simp: Let_def evr_def split: if_splits)
    then show ?thesis
    proof cases
      case 1
      then show ?thesis using p True by simp
    next
      case 2
      have "own (rpc_events ev2) {} = Some {} \<and> length (posts (rpc_events ev2)) \<le> n - (k + 1) \<and> result2 \<in> {-1, 0, 1}"
        by (rule 1(1) [OF True s [symmetric] refl refl refl refl refl _ _ _ l]) (use r(1) 2 in auto)
      then show ?thesis using 2 p True by (simp add: own_append) arith
    qed
  next
    case False
    then show ?thesis using 1(2) by (subst (asm) confirmation_loop.simps) simp
  qed
qed

text \<open>All the loop posts are requests for the status of the signature, to the client's URL.\<close>

definition asks :: "solana_client option \<Rightarrow> string \<Rightarrow> string \<Rightarrow> client_event \<Rightarrow> bool" where
  "asks client verb params e \<longleftrightarrow>
     (\<exists>c u k. client = Some c \<and> rpc_url c = Some u \<and> e = Post u (timeout_ms c) (rpc_payload k verb params))"

lemma posts_once_asks:
  "posts_once client verb params ev client' \<Longrightarrow> \<forall>e \<in> set (posts ev). asks client verb params e"
  by (auto simp: posts_once_def asks_def)

lemma asks_cong:
  "map_option rpc_url client' = map_option rpc_url client \<Longrightarrow> map_option timeout_ms client' = map_option timeout_ms client \<Longrightarrow>
   asks client' = asks client"
  by (cases client; cases client') (auto simp: asks_def fun_eq_iff)

lemma confirmation_loop_asks:
  "confirmation_loop envs client sig t n k = (result, client', ev) \<Longrightarrow>
   \<forall>e \<in> set (posts (rpc_events ev)). asks client ''getSignatureStatuses'' (status_params (c_string sig)) e"
proof (induction envs client sig t n k arbitrary: result client' ev rule: confirmation_loop.induct)
  case (1 envs client sig t n k)
  show ?case
  proof (cases "k < n")
    case True
    obtain st c1 out ev1 where s: "solana_client_get_signature_status (envs k) client (Some sig) (Some None) = (st, c1, out, ev1)"
      by (metis prod_cases4)
    obtain r where r: "out = Some r" using status_frees [OF s] by blast
    note po = status_posts [OF s]
    define evr where "evr = ev1 @ (if r \<noteq> None then [Release R_response] else [])"
    have p: "\<forall>e \<in> set (posts evr). asks client ''getSignatureStatuses'' (status_params (c_string sig)) e"
      using posts_once_asks [OF po] by (auto simp: evr_def)
    obtain result2 c2 ev2 where l: "confirmation_loop envs c1 sig t n (k + 1) = (result2, c2, ev2)" by (metis prod_cases3)
    have "asks c1 = asks client" by (rule asks_cong) (use po in \<open>auto simp: posts_once_def\<close>)
    consider "ev = map Rpc evr"
      | "ev = map Rpc evr @ Sleep SOLANA_SIGNATURE_POLL_INTERVAL_MS # ev2" "\<not> (t = 0 \<or> k + 1 \<ge> n)"
          "\<not> (st = SOLANA_OK \<and> r \<noteq> None \<and> is_signature_error (map_option c_string r) \<noteq> 0)"
          "\<not> (st = SOLANA_OK \<and> r \<noteq> None \<and> is_signature_finalized (map_option c_string r) \<noteq> 0)"
      using 1(2) True s r l
      by (subst (asm) confirmation_loop.simps) (auto simp: Let_def evr_def split: if_splits)
    then show ?thesis
    proof cases
      case 2
      have "\<forall>e \<in> set (posts (rpc_events ev2)). asks c1 ''getSignatureStatuses'' (status_params (c_string sig)) e"
        by (rule 1(1) [OF True s [symmetric] refl refl refl refl refl _ _ _ l]) (use r 2 in auto)
      then show ?thesis using 2 p \<open>asks c1 = asks client\<close> by auto
    qed (use p in simp)
  next
    case False
    then show ?thesis using 1(2) by (subst (asm) confirmation_loop.simps) simp
  qed
qed

lemma wait_asks:
  "wait_for_signature_confirmation envs client (Some sig) t = (result, client', ev) \<Longrightarrow>
   \<forall>e \<in> set (posts (rpc_events ev)). asks client ''getSignatureStatuses'' (status_params (c_string sig)) e"
  using confirmation_loop_asks [of envs client "c_string sig"]
  by (auto simp: wait_for_signature_confirmation_def split: option.splits if_splits)

section \<open>The loop on a server that answers\<close>

definition verdict :: "int \<Rightarrow> string \<Rightarrow> int" where
  "verdict http response =
     (if 200 \<le> http \<and> http < 300
      then (if is_signature_error (Some (c_string response)) \<noteq> 0 then -1
            else if is_signature_finalized (Some (c_string response)) \<noteq> 0 then 1 else 0)
      else 0)"

lemma status_answers:
  assumes "answers env response http" "rpc_url c = Some url" "NUL \<notin> set sig" "sig \<noteq> []" "length sig < 2 ^ 30"
  shows "\<exists>ev. solana_client_get_signature_status env (Some c) (Some sig) (Some None)
      = (http_result http, Some (c\<lparr>next_request_id := next_request_id c + 1\<rparr>), Some (Some response), ev)
    \<and> length (posts ev) = 1"
proof -
  have *: "c_string sig = sig" "NUL \<notin> set (status_params sig)" "length (status_params sig) < 2 ^ 30 + 60"
    using assms(3,5) by (auto simp: status_params_def c_string_NUL_free)
  then have "c_string (status_params sig) = status_params sig" "status_params sig \<noteq> []" "printed_ok (status_params sig)"
    by (auto simp: status_params_def intro: c_string_NUL_free printed_ok_small)
  moreover have "c_string ''getSignatureStatuses'' = ''getSignatureStatuses''" by (simp add: c_string_def)
  moreover have "printed_ok (rpc_payload (next_request_id c) ''getSignatureStatuses'' (status_params sig))"
    using *(3) length_decimal_u64 [of "next_request_id c"] by (intro printed_ok_small) (simp add: rpc_payload_def)
  ultimately show ?thesis
    using params_answers [OF assms(1,2), of sig "''getSignatureStatuses''" status_params None] assms(4) *(1)
    by (auto simp: solana_client_get_signature_status_def status_params_def [abs_def])
qed

lemma http_result_OK: "http_result http = SOLANA_OK \<longleftrightarrow> 200 \<le> http \<and> http < 300"
  by (simp add: http_result_def solana_status_defs)

lemma confirmation_loop_verdict:
  assumes "\<forall>i. k \<le> i \<and> i < n \<longrightarrow> answers (envs i) (resp i) (http i)" "k < n" "t \<noteq> 0 \<or> n = k + 1"
    and "rpc_url c = Some url" "NUL \<notin> set sig" "sig \<noteq> []" "length sig < 2 ^ 30"
  shows "\<exists>c' ev. case find (\<lambda>i. verdict (http i) (resp i) \<noteq> 0) [k..<n] of
      None \<Rightarrow> confirmation_loop envs (Some c) sig t n k = (0, c', ev) \<and> length (posts (rpc_events ev)) = n - k
    | Some i \<Rightarrow> confirmation_loop envs (Some c) sig t n k = (verdict (http i) (resp i), c', ev)
        \<and> length (posts (rpc_events ev)) = i - k + 1"
  using assms
proof (induction "n - k" arbitrary: k c)
  case 0
  then show ?case by simp
next
  case (Suc d)
  define c1 where "c1 = c\<lparr>next_request_id := next_request_id c + 1\<rparr>"
  obtain ev1 where s: "solana_client_get_signature_status (envs k) (Some c) (Some sig) (Some None)
      = (http_result (http k), Some c1, Some (Some (resp k)), ev1)" "length (posts ev1) = 1"
    using status_answers [of "envs k" "resp k" "http k" c] Suc.prems unfolding c1_def by (metis le_refl)
  have up: "[k..<n] = k # [Suc k..<n]" using Suc.prems(2) by (simp add: upt_conv_Cons)
  have loop: "confirmation_loop envs (Some c) sig t n k =
      (if verdict (http k) (resp k) \<noteq> 0 then (verdict (http k) (resp k), Some c1, map Rpc (ev1 @ [Release R_response]))
       else if t = 0 \<or> k + 1 \<ge> n then (0, Some c1, map Rpc (ev1 @ [Release R_response]))
       else (let (result, client, ev') = confirmation_loop envs (Some c1) sig t n (k + 1)
             in (result, client, map Rpc (ev1 @ [Release R_response]) @ Sleep SOLANA_SIGNATURE_POLL_INTERVAL_MS # ev')))"
    using Suc.prems(2) s(1) by (subst confirmation_loop.simps) (simp add: verdict_def http_result_OK Let_def)
  show ?case
  proof (cases "verdict (http k) (resp k) \<noteq> 0 \<or> k + 1 \<ge> n")
    case True
    then show ?thesis using loop up s(2) Suc.prems(2) by (auto simp: Let_def)
  next
    case False
    have "\<exists>c' ev. case find (\<lambda>i. verdict (http i) (resp i) \<noteq> 0) [Suc k..<n] of
      None \<Rightarrow> confirmation_loop envs (Some c1) sig t n (Suc k) = (0, c', ev) \<and> length (posts (rpc_events ev)) = n - Suc k
    | Some i \<Rightarrow> confirmation_loop envs (Some c1) sig t n (Suc k) = (verdict (http i) (resp i), c', ev)
        \<and> length (posts (rpc_events ev)) = i - Suc k + 1"
      by (rule Suc.hyps(1)) (use Suc.hyps(2) Suc.prems False in \<open>auto simp: c1_def\<close>)
    moreover have "k < i" if "find (\<lambda>i. verdict (http i) (resp i) \<noteq> 0) [Suc k..<n] = Some i" for i
      using that by (auto simp: find_Some_iff)
    ultimately show ?thesis
      using loop up s(2) False Suc.prems(2,3) by (fastforce simp: Let_def split: option.splits)
  qed
qed

lemma attempts_le: "unat (confirmation_attempts t) \<le> max 1 (unat t)"
proof (cases "t = 0")
  case False
  define total where "total = unat t * 1000 mod 2 ^ 32"
  have t: "0 < unat t" "unat t < 2 ^ 32" using False unsigned_less [of t, where 'a = nat] by (auto simp: unat_gt_0)
  have u: "unat (t * 1000) = total" by (simp add: total_def unat_word_ariths)
  have "total < 2 ^ 32" by (simp add: total_def)
  have le: "total div 1000 + (if total mod 1000 \<noteq> 0 then 1 else 0) \<le> unat t"
  proof (cases "unat t * 1000 < 2 ^ 32")
    case True
    then show ?thesis by (simp add: total_def)
  next
    case False
    have "total div 1000 \<le> (2 ^ 32 - 1) div 1000" using \<open>total < 2 ^ 32\<close> by (intro div_le_mono) simp
    then show ?thesis using False by simp
  qed
  then have "unat ((t * 1000) div 1000 + (if (t * 1000) mod 1000 \<noteq> 0 then 1 else 0)) \<le> unat t"
    using u t by (auto simp: unat_word_ariths unat_div unat_mod word_unat_eq_iff)
  moreover have "0 < t" using False by (simp add: word_neq_0_conv)
  ultimately show ?thesis using t
    by (auto simp: confirmation_attempts_def SOLANA_SIGNATURE_POLL_INTERVAL_MS_def Let_def split: if_splits)
qed (simp add: confirmation_attempts_def)

lemma attempts_eq: "unat t \<le> 4294967 \<Longrightarrow> unat (confirmation_attempts t) = max 1 (unat t)"
proof (cases "t = 0")
  case False
  assume a: "unat t \<le> 4294967"
  then have "unat (t * 1000) = unat t * 1000" by (simp add: unat_word_ariths)
  then have "unat ((t * 1000) div 1000) = unat t" "(t * 1000) mod 1000 = 0"
    by (simp_all add: unat_div word_unat_eq_iff unat_mod)
  moreover have "0 < unat t" "0 < t" using False by (simp_all add: unat_gt_0 word_neq_0_conv)
  moreover from this have "t * 1000 div 1000 \<noteq> 0" using calculation(1) by (metis less_irrefl unat_0)
  ultimately show ?thesis
    by (simp add: confirmation_attempts_def SOLANA_SIGNATURE_POLL_INTERVAL_MS_def Let_def)
qed (simp add: confirmation_attempts_def)

section \<open>Readers\<close>

lemma field_start:
  assumes "json = pre @ field_pattern field @ v @ CHR 0x22 # rest" "CHR 0x22 \<notin> set v"
    and "\<forall>k < length pre. \<not> begins (field_pattern field) (drop k json)" "length field < 60" "0 < n"
  shows "parse_json_string_field (Some json) (Some field) (Some out) n =
    (if v \<noteq> [] \<and> length v < n then (1, Some (write_at out 0 (v @ [NUL]))) else (0, Some out))"
proof -
  have "strstr (field_pattern field) json = Some (field_pattern field @ v @ CHR 0x22 # rest)"
    using assms(1,3) strstr_skip [of pre "field_pattern field"] by (simp add: strstr_begins begins_def)
  moreover have "strchr (CHR 0x22) (v @ CHR 0x22 # rest) = Some (CHR 0x22 # rest)" by (rule strchr_append [OF assms(2)])
  ultimately show ?thesis using assms(4,5) by (simp add: parse_json_string_field_def field_pattern_def Let_def)
qed

lemma field_found:
  assumes "parse_json_string_field (Some json) (Some field) (Some out) n = (st, out')"
  shows "st = 0 \<and> out' = Some out \<or>
    (\<exists>pre v rest. json = pre @ field_pattern field @ v @ CHR 0x22 # rest \<and> CHR 0x22 \<notin> set v
      \<and> (\<forall>k < length pre. \<not> begins (field_pattern field) (drop k json)) \<and> v \<noteq> [] \<and> length v < n
      \<and> st = 1 \<and> out' = Some (write_at out 0 (v @ [NUL])))"
proof (cases "0 < n \<and> length (field_pattern field) < 64 \<and> (\<exists>t. strstr (field_pattern field) json = Some t)")
  case True
  then obtain t where t: "strstr (field_pattern field) json = Some t" "0 < n" "length (field_pattern field) < 64" by blast
  from strstr_Some [OF t(1)] obtain pre where p: "json = pre @ t" "begins (field_pattern field) t"
    "\<forall>k < length pre. \<not> begins (field_pattern field) (drop k json)" by blast
  then obtain u where u: "t = field_pattern field @ u" by (auto simp: begins_prefix prefix_def)
  show ?thesis
  proof (cases "strchr (CHR 0x22) u")
    case None
    then show ?thesis using assms t u by (simp add: parse_json_string_field_def field_pattern_def Let_def)
  next
    case (Some e)
    then obtain v rest where v: "u = v @ CHR 0x22 # rest" "e = CHR 0x22 # rest" "CHR 0x22 \<notin> set v"
      using strchr_Some by blast
    have "(st, out') = (if v \<noteq> [] \<and> length v < n then (1, Some (write_at out 0 (v @ [NUL]))) else (0, Some out))"
      using field_start [of json pre field v rest n out] assms p u v t(2,3) by (simp add: field_pattern_def)
    moreover have "json = pre @ field_pattern field @ v @ CHR 0x22 # rest" using p(1) u v(1) by simp
    ultimately show ?thesis using p(3) v(3) by (cases "v \<noteq> [] \<and> length v < n") (metis Pair_inject)+
  qed
next
  case False
  then consider "n = 0" | "64 \<le> length (field_pattern field)" | "strstr (field_pattern field) json = None" by fastforce
  then have "parse_json_string_field (Some json) (Some field) (Some out) n = (0, Some out)"
    by cases (simp_all add: parse_json_string_field_def Let_def)
  then show ?thesis using assms by simp
qed

lemma balance_value:
  assumes "json = pre @ ''\"value\"'' @ mid @ CHR '':'' # ws @ decimal n @ rest" "CHR '':'' \<notin> set mid"
    and "\<forall>k < length pre. \<not> begins ''\"value\"'' (drop k json)" "list_all isspace ws" "rest = [] \<or> \<not> is_decimal (hd rest)"
  shows "parse_balance_response (Some json) (Some l) = (if n < 2 ^ 64 then (1, Some (of_nat n)) else (0, Some l))"
proof -
  have "strstr ''\"value\"'' json = Some (''\"value\"'' @ mid @ CHR '':'' # ws @ decimal n @ rest)"
    using assms(1,3) strstr_skip [of pre "''\"value\"''"] by (simp add: strstr_begins begins_def)
  moreover have "strchr (CHR '':'') (''\"value\"'' @ mid @ CHR '':'' # ws @ decimal n @ rest)
      = Some (CHR '':'' # ws @ decimal n @ rest)"
    using strchr_append [of "CHR '':''" "''\"value\"'' @ mid"] assms(2) by simp
  moreover have "skip_spaces (ws @ decimal n @ rest) = decimal n @ rest"
  proof -
    obtain c cs where "decimal n = c # cs" using decimal_nonempty [of n] by (cases "decimal n") auto
    moreover from this have "\<not> isspace c" using decimal_chars [of c n] decimal_plain by auto
    ultimately show ?thesis using assms(4) by (induction ws) (simp_all add: skip_spaces_def)
  qed
  moreover have "decimal n \<noteq> []" by (rule decimal_nonempty)
  ultimately show ?thesis
    using scan_decimal_printed [OF assms(5), of n] by (simp add: parse_balance_response_def strtoull_def Let_def)
qed

section \<open>Properties\<close>

text \<open>
  C22: Reading a string field of an answer is exact, for field names of fewer than 60 characters, which the
  pattern has room for.  The reader succeeds if and only if the field's first occurrence is followed by a
  closing quote with something between that fits the buffer, and then the buffer holds just that; in every
  other case it reports failure and leaves the buffer.
\<close>

theorem json_field_exact:
  assumes "length field < 60"
  shows "(\<exists>pre v rest. json = pre @ field_pattern field @ v @ CHR 0x22 # rest \<and> CHR 0x22 \<notin> set v
      \<and> (\<forall>k < length pre. \<not> begins (field_pattern field) (drop k json)) \<and> v \<noteq> [] \<and> length v < n
      \<and> parse_json_string_field (Some json) (Some field) (Some out) n = (1, Some (write_at out 0 (v @ [NUL]))))
   \<or> ((\<nexists>pre v rest. json = pre @ field_pattern field @ v @ CHR 0x22 # rest \<and> CHR 0x22 \<notin> set v
      \<and> (\<forall>k < length pre. \<not> begins (field_pattern field) (drop k json)) \<and> v \<noteq> [] \<and> length v < n)
      \<and> parse_json_string_field (Some json) (Some field) (Some out) n = (0, Some out))"
proof (cases "\<exists>pre v rest. json = pre @ field_pattern field @ v @ CHR 0x22 # rest \<and> CHR 0x22 \<notin> set v
      \<and> (\<forall>k < length pre. \<not> begins (field_pattern field) (drop k json)) \<and> v \<noteq> [] \<and> length v < n")
  case True
  then obtain pre v rest where *: "json = pre @ field_pattern field @ v @ CHR 0x22 # rest" "CHR 0x22 \<notin> set v"
    "\<forall>k < length pre. \<not> begins (field_pattern field) (drop k json)" "v \<noteq> []" "length v < n" by blast
  then have "parse_json_string_field (Some json) (Some field) (Some out) n = (1, Some (write_at out 0 (v @ [NUL])))"
    using field_start [OF *(1-3) assms, of n out] by simp
  then show ?thesis using * by blast
next
  case False
  obtain st out' where p: "parse_json_string_field (Some json) (Some field) (Some out) n = (st, out')" by fastforce
  with field_found [OF p] False show ?thesis by blast
qed

lemma json_field_exact_witness:
  \<open>\<exists>v. parse_json_string_field (Some ''{"id":1,"result":"5Kd"}'') (Some ''result'') (Some (replicate 8 NUL)) 8
      = (1, Some (write_at (replicate 8 NUL) 0 (v @ [NUL]))) \<and> v = ''5Kd''\<close>
proof -
  have \<open>parse_json_string_field (Some ''{"id":1,"result":"5Kd"}'') (Some ''result'') (Some (replicate 8 NUL)) 8
      = (1, Some (''5Kd'' @ replicate 5 NUL))\<close> by code_simp
  then show ?thesis
    using json_field_exact [of "''result''" \<open>''{"id":1,"result":"5Kd"}''\<close> 8 "replicate 8 NUL"]
    by (auto simp: numeral_eq_Suc)
qed

text \<open>
  C21: The balance shown is the balance answered: the number after the first colon behind the first
  \<open>"value"\<close> is read exactly, whatever spaces precede it, and a number that does not fit 64 bits is
  refused instead of truncated.
\<close>

theorem balance_exact:
  assumes "json = pre @ ''\"value\"'' @ mid @ CHR '':'' # ws @ decimal n @ rest" "CHR '':'' \<notin> set mid"
    and "\<forall>k < length pre. \<not> begins ''\"value\"'' (drop k json)" "list_all isspace ws" "rest = [] \<or> \<not> is_decimal (hd rest)"
  shows "parse_balance_response (Some json) (Some l) = (if n < 2 ^ 64 then (1, Some (of_nat n)) else (0, Some l))"
  by (rule balance_value [OF assms])

lemma balance_exact_witness:
  "parse_balance_response (Some (''{'' @ ''\"value\"'' @ [] @ CHR '':'' # '' '' @ decimal 7 @ ''}'')) (Some 0) = (1, Some 7)"
proof -
  have "\<forall>k < length ''{''. \<not> begins ''\"value\"'' (drop k (''{'' @ ''\"value\"'' @ [] @ CHR '':'' # '' '' @ decimal 7 @ ''}''))"
    by (simp add: begins_def)
  then show ?thesis
    using balance_exact [OF refl, of "[]" "''{''" "'' ''" 7 "''}''" 0] by (simp add: isspace_def is_decimal_def)
qed

text \<open>
  C19: Waiting ends, and cleans up, on any server.  Whatever each request meets, the wait makes at most
  as many requests as it was given seconds (one for zero seconds), also where the product with
  1000 wraps; it answers confirmed, failed or timed out; and it releases all it acquired.
\<close>

theorem confirmation_ends:
  assumes "wait_for_signature_confirmation envs client signature t = (result, client', ev)"
  shows "length (posts (rpc_events ev)) \<le> max 1 (unat t) \<and> result \<in> {-1, 0, 1} \<and> own (rpc_events ev) {} = Some {}"
proof (cases "\<exists>c sig. client = Some c \<and> signature = Some sig \<and> c_string sig \<noteq> []")
  case True
  then obtain c sig where "client = Some c" "signature = Some sig" "c_string sig \<noteq> []" by blast
  then show ?thesis
    using assms confirmation_loop_bounds [of envs client "c_string sig" t "unat (confirmation_attempts t)" 0] attempts_le [of t]
    by (simp add: wait_for_signature_confirmation_def)
next
  case False
  then show ?thesis
    using assms by (auto simp: wait_for_signature_confirmation_def split: option.splits if_splits)
qed

definition deaf_server :: http_env where
  "deaf_server = \<lparr>params_alloc = True, payload_alloc = True, easy_init = False, slist_append = True,
     chunks = [], transfer_ok = False, http_status = 0, empty_alloc = True\<rparr>"

lemma confirmation_ends_witness:
  "\<exists>result client' ev. wait_for_signature_confirmation (\<lambda>_. deaf_server)
      (Some \<lparr>rpc_url = Some ''u'', timeout_ms = 1, next_request_id = 1\<rparr>) (Some ''s'') 3 = (result, client', ev)
    \<and> length (posts (rpc_events ev)) \<le> 3"
proof -
  obtain result client' ev where e: "wait_for_signature_confirmation (\<lambda>_. deaf_server)
      (Some \<lparr>rpc_url = Some ''u'', timeout_ms = 1, next_request_id = 1\<rparr>) (Some ''s'') 3 = (result, client', ev)"
    by (metis prod_cases3)
  then show ?thesis using confirmation_ends [OF e] by auto
qed

text \<open>
  C18: On a server that answers, waiting \<open>t\<close> seconds, at most 4294967 so that the milliseconds fit 32 bits,
  gives the first decisive verdict among the first \<open>t\<close> answers (the first one for zero seconds), asks no
  further, and times out after exactly that many requests when none is decisive.
\<close>

theorem confirmation_first_verdict:
  assumes "\<forall>i < max 1 (unat t). answers (envs i) (resp i) (http i)" "unat t \<le> 4294967"
    and "rpc_url c = Some url" "NUL \<notin> set sig" "sig \<noteq> []" "length sig < 2 ^ 30"
  shows "\<exists>c' ev. case find (\<lambda>i. verdict (http i) (resp i) \<noteq> 0) [0..<max 1 (unat t)] of
      None \<Rightarrow> wait_for_signature_confirmation envs (Some c) (Some sig) t = (0, c', ev)
        \<and> length (posts (rpc_events ev)) = max 1 (unat t)
    | Some i \<Rightarrow> wait_for_signature_confirmation envs (Some c) (Some sig) t = (verdict (http i) (resp i), c', ev)
        \<and> length (posts (rpc_events ev)) = i + 1"
proof -
  have "c_string sig = sig" using assms(4) by (rule c_string_NUL_free)
  then have w: "wait_for_signature_confirmation envs (Some c) (Some sig) t
      = confirmation_loop envs (Some c) sig t (max 1 (unat t)) 0"
    using assms(5) attempts_eq [OF assms(2)] by (simp add: wait_for_signature_confirmation_def)
  have *: "0 < max 1 (unat t)" "t \<noteq> 0 \<or> max 1 (unat t) = 0 + 1" by auto
  have "\<forall>i. 0 \<le> i \<and> i < max 1 (unat t) \<longrightarrow> answers (envs i) (resp i) (http i)" using assms(1) by blast
  from confirmation_loop_verdict [OF this * assms(3-6)] show ?thesis unfolding w by (simp only: diff_zero)
qed

definition serving :: "string \<Rightarrow> http_env" where
  "serving response = \<lparr>params_alloc = True, payload_alloc = True, easy_init = True, slist_append = True,
     chunks = [(response, True)], transfer_ok = True, http_status = 200, empty_alloc = True\<rparr>"

lemma serving_answers: "response \<noteq> [] \<Longrightarrow> answers (serving response) response 200"
  by (simp add: answers_def serving_def)

lemma confirmation_first_verdict_witness:
  \<open>\<exists>c' ev. wait_for_signature_confirmation
      (\<lambda>i. serving (if i = 1 then ''{"confirmationStatus":"finalized"}'' else ''{}''))
      (Some \<lparr>rpc_url = Some ''u'', timeout_ms = 1, next_request_id = 1\<rparr>) (Some ''s'') 3 = (1, c', ev)
    \<and> length (posts (rpc_events ev)) = 2\<close>
proof -
  let ?resp = \<open>\<lambda>i :: nat. if i = 1 then ''{"confirmationStatus":"finalized"}'' else ''{}''\<close>
  have v: \<open>verdict 200 ''{}'' = 0\<close> \<open>verdict 200 ''{"confirmationStatus":"finalized"}'' = 1\<close> by code_simp+
  have "[0..<max 1 (unat (3 :: u32))] = [0, 1, 2]" by (simp add: upt_rec)
  then have f: "find (\<lambda>i. verdict 200 (?resp i) \<noteq> 0) [0..<max 1 (unat (3 :: u32))] = Some 1" using v by simp
  have a: "\<forall>i < max 1 (unat (3 :: u32)). answers (serving (?resp i)) (?resp i) 200"
    by (intro allI impI serving_answers) simp
  show ?thesis
    using confirmation_first_verdict [OF a, of "\<lparr>rpc_url = Some ''u'', timeout_ms = 1, next_request_id = 1\<rparr>" "''u''" "''s''"]
      f v by (simp del: One_nat_def)
qed

end
