(* ===== verification/Dbus_Packet.thy ===== *)
theory Dbus_Packet
  imports Calc_Session "HOL-Library.State_Monad"
begin

text \<open>
  The packets of the link port (\<open>libticalcs\<close>, \<open>dbus_pkt.cc\<close>).  The state is the part of \<open>CalcHandle\<close>
  the packet layer reads and writes, with the history of what was done to the cable; operations are
  programs of the state monad, so that they read like the code.  The cable driver, the event hook and
  the cancel button answer through \<open>link_env\<close>, each as a function of the history.

  Out-parameters are results; an operation that may leave one alone takes its old value.  The rate shown
  to the user and the log are left out.
\<close>

section \<open>Constants\<close>

text \<open>Errors of \<open>error.h\<close>, machine, command and rejection bytes of \<open>dbus_pkt.h\<close>.\<close>

type_synonym u16 = "16 word"

abbreviation (input) ERR_ABORT :: int where "ERR_ABORT \<equiv> 256"
abbreviation (input) ERR_NOT_READY :: int where "ERR_NOT_READY \<equiv> 257"
abbreviation (input) ERR_CHECKSUM :: int where "ERR_CHECKSUM \<equiv> 258"
abbreviation (input) ERR_INVALID_HOST :: int where "ERR_INVALID_HOST \<equiv> 259"
abbreviation (input) ERR_INVALID_TARGET :: int where "ERR_INVALID_TARGET \<equiv> 260"
abbreviation (input) ERR_INVALID_CMD :: int where "ERR_INVALID_CMD \<equiv> 261"
abbreviation (input) ERR_EOT :: int where "ERR_EOT \<equiv> 262"
abbreviation (input) ERR_VAR_REJECTED :: int where "ERR_VAR_REJECTED \<equiv> 263"
abbreviation (input) ERR_CTS_ERROR :: int where "ERR_CTS_ERROR \<equiv> 264"
abbreviation (input) ERR_NACK :: int where "ERR_NACK \<equiv> 265"
abbreviation (input) ERR_INVALID_PACKET :: int where "ERR_INVALID_PACKET \<equiv> 266"
abbreviation (input) ERR_MALLOC :: int where "ERR_MALLOC \<equiv> 267"
abbreviation (input) ERR_NO_CABLE :: int where "ERR_NO_CABLE \<equiv> 268"
abbreviation (input) ERR_BUSY :: int where "ERR_BUSY \<equiv> 269"
abbreviation (input) ERR_FILE_OPEN :: int where "ERR_FILE_OPEN \<equiv> 270"
abbreviation (input) ERR_UNSUPPORTED :: int where "ERR_UNSUPPORTED \<equiv> 271"
abbreviation (input) ERR_VOID_FUNCTION :: int where "ERR_VOID_FUNCTION \<equiv> 272"
abbreviation (input) ERR_OUT_OF_MEMORY :: int where "ERR_OUT_OF_MEMORY \<equiv> 273"
abbreviation (input) ERR_OPEN_FILE :: int where "ERR_OPEN_FILE \<equiv> 274"
abbreviation (input) ERR_SAVE_FILE :: int where "ERR_SAVE_FILE \<equiv> 275"
abbreviation (input) ERR_PENDING_TRANSFER :: int where "ERR_PENDING_TRANSFER \<equiv> 276"
abbreviation (input) ERR_FATAL_ERROR :: int where "ERR_FATAL_ERROR \<equiv> 277"
abbreviation (input) ERR_MISSING_VAR :: int where "ERR_MISSING_VAR \<equiv> 278"
abbreviation (input) ERR_NO_VARS :: int where "ERR_NO_VARS \<equiv> 279"
abbreviation (input) ERR_ROM_ERROR :: int where "ERR_ROM_ERROR \<equiv> 280"
abbreviation (input) ERR_NO_CALC :: int where "ERR_NO_CALC \<equiv> 281"
abbreviation (input) ERR_INVALID_HANDLE :: int where "ERR_INVALID_HANDLE \<equiv> 282"
abbreviation (input) ERR_INVALID_PARAMETER :: int where "ERR_INVALID_PARAMETER \<equiv> 283"
abbreviation (input) ERR_INVALID_SCREENSHOT :: int where "ERR_INVALID_SCREENSHOT \<equiv> 284"
abbreviation (input) ERR_VAR_VERSION :: int where "ERR_VAR_VERSION \<equiv> 285"

abbreviation (input) DBUS_MID_PC_TIXX :: byte where "DBUS_MID_PC_TIXX \<equiv> 0x00"
abbreviation (input) DBUS_MID_PC_TI73 :: byte where "DBUS_MID_PC_TI73 \<equiv> 0x07"
abbreviation (input) DBUS_MID_TI73_PC :: byte where "DBUS_MID_TI73_PC \<equiv> 0x74"
abbreviation (input) DBUS_MID_CBL_TI73 :: byte where "DBUS_MID_CBL_TI73 \<equiv> 0x12"
abbreviation (input) DBUS_MID_TI73_CBL :: byte where "DBUS_MID_TI73_CBL \<equiv> 0x95"
abbreviation (input) DBUS_MID_PC_TI80 :: byte where "DBUS_MID_PC_TI80 \<equiv> 0x00"
abbreviation (input) DBUS_MID_TI80_PC :: byte where "DBUS_MID_TI80_PC \<equiv> 0x80"
abbreviation (input) DBUS_MID_PC_TI82 :: byte where "DBUS_MID_PC_TI82 \<equiv> 0x02"
abbreviation (input) DBUS_MID_TI82_PC :: byte where "DBUS_MID_TI82_PC \<equiv> 0x82"
abbreviation (input) DBUS_MID_CBL_TI82 :: byte where "DBUS_MID_CBL_TI82 \<equiv> 0x12"
abbreviation (input) DBUS_MID_TI82_CBL :: byte where "DBUS_MID_TI82_CBL \<equiv> 0x82"
abbreviation (input) DBUS_MID_PC_TI83 :: byte where "DBUS_MID_PC_TI83 \<equiv> 0x03"
abbreviation (input) DBUS_MID_TI83_PC :: byte where "DBUS_MID_TI83_PC \<equiv> 0x83"
abbreviation (input) DBUS_MID_CBL_TI83 :: byte where "DBUS_MID_CBL_TI83 \<equiv> 0x12"
abbreviation (input) DBUS_MID_TI83_CBL :: byte where "DBUS_MID_TI83_CBL \<equiv> 0x95"
abbreviation (input) DBUS_MID_PC_TI83p :: byte where "DBUS_MID_PC_TI83p \<equiv> 0x23"
abbreviation (input) DBUS_MID_TI83p_PC :: byte where "DBUS_MID_TI83p_PC \<equiv> 0x73"
abbreviation (input) DBUS_MID_CBL_TI83p :: byte where "DBUS_MID_CBL_TI83p \<equiv> 0x12"
abbreviation (input) DBUS_MID_TI83p_CBL :: byte where "DBUS_MID_TI83p_CBL \<equiv> 0x95"
abbreviation (input) DBUS_MID_PC_TI84p :: byte where "DBUS_MID_PC_TI84p \<equiv> 0x23"
abbreviation (input) DBUS_MID_TI84p_PC :: byte where "DBUS_MID_TI84p_PC \<equiv> 0x73"
abbreviation (input) DBUS_MID_CBL_TI84p :: byte where "DBUS_MID_CBL_TI84p \<equiv> 0x12"
abbreviation (input) DBUS_MID_TI84p_CBL :: byte where "DBUS_MID_TI84p_CBL \<equiv> 0x95"
abbreviation (input) DBUS_MID_PC_TI85 :: byte where "DBUS_MID_PC_TI85 \<equiv> 0x05"
abbreviation (input) DBUS_MID_TI85_PC :: byte where "DBUS_MID_TI85_PC \<equiv> 0x85"
abbreviation (input) DBUS_MID_CBL_TI85 :: byte where "DBUS_MID_CBL_TI85 \<equiv> 0x15"
abbreviation (input) DBUS_MID_TI85_CBL :: byte where "DBUS_MID_TI85_CBL \<equiv> 0x85"
abbreviation (input) DBUS_MID_PC_TI86 :: byte where "DBUS_MID_PC_TI86 \<equiv> 0x06"
abbreviation (input) DBUS_MID_TI86_PC :: byte where "DBUS_MID_TI86_PC \<equiv> 0x86"
abbreviation (input) DBUS_MID_CBL_TI86 :: byte where "DBUS_MID_CBL_TI86 \<equiv> 0x15"
abbreviation (input) DBUS_MID_TI86_CBL :: byte where "DBUS_MID_TI86_CBL \<equiv> 0x85"
abbreviation (input) DBUS_MID_PC_TI89 :: byte where "DBUS_MID_PC_TI89 \<equiv> 0x08"
abbreviation (input) DBUS_MID_TI89_PC :: byte where "DBUS_MID_TI89_PC \<equiv> 0x98"
abbreviation (input) DBUS_MID_CBL_TI89 :: byte where "DBUS_MID_CBL_TI89 \<equiv> 0x19"
abbreviation (input) DBUS_MID_TI89_CBL :: byte where "DBUS_MID_TI89_CBL \<equiv> 0x89"
abbreviation (input) DBUS_MID_PC_TI89t :: byte where "DBUS_MID_PC_TI89t \<equiv> 0x08"
abbreviation (input) DBUS_MID_TI89t_PC :: byte where "DBUS_MID_TI89t_PC \<equiv> 0x98"
abbreviation (input) DBUS_MID_CBL_TI89t :: byte where "DBUS_MID_CBL_TI89t \<equiv> 0x19"
abbreviation (input) DBUS_MID_TI89t_CBL :: byte where "DBUS_MID_TI89t_CBL \<equiv> 0x89"
abbreviation (input) DBUS_MID_PC_TI92 :: byte where "DBUS_MID_PC_TI92 \<equiv> 0x09"
abbreviation (input) DBUS_MID_TI92_PC :: byte where "DBUS_MID_TI92_PC \<equiv> 0x89"
abbreviation (input) DBUS_MID_CBL_TI92 :: byte where "DBUS_MID_CBL_TI92 \<equiv> 0x19"
abbreviation (input) DBUS_MID_TI92_CBL :: byte where "DBUS_MID_TI92_CBL \<equiv> 0x89"
abbreviation (input) DBUS_MID_PC_TI92p :: byte where "DBUS_MID_PC_TI92p \<equiv> 0x08"
abbreviation (input) DBUS_MID_TI92p_PC :: byte where "DBUS_MID_TI92p_PC \<equiv> 0x88"
abbreviation (input) DBUS_MID_CBL_TI92p :: byte where "DBUS_MID_CBL_TI92p \<equiv> 0x19"
abbreviation (input) DBUS_MID_TI92p_CBL :: byte where "DBUS_MID_TI92p_CBL \<equiv> 0x89"
abbreviation (input) DBUS_MID_PC_V200 :: byte where "DBUS_MID_PC_V200 \<equiv> 0x08"
abbreviation (input) DBUS_MID_V200_PC :: byte where "DBUS_MID_V200_PC \<equiv> 0x88"
abbreviation (input) DBUS_MID_CBL_V200 :: byte where "DBUS_MID_CBL_V200 \<equiv> 0x19"
abbreviation (input) DBUS_MID_V200_CBL :: byte where "DBUS_MID_V200_CBL \<equiv> 0x89"
abbreviation (input) DBUS_CMD_VAR :: byte where "DBUS_CMD_VAR \<equiv> 0x06"
abbreviation (input) DBUS_CMD_CTS :: byte where "DBUS_CMD_CTS \<equiv> 0x09"
abbreviation (input) DBUS_CMD_XDP :: byte where "DBUS_CMD_XDP \<equiv> 0x15"
abbreviation (input) DBUS_CMD_ELD :: byte where "DBUS_CMD_ELD \<equiv> 0x29"
abbreviation (input) DBUS_CMD_DLD :: byte where "DBUS_CMD_DLD \<equiv> 0x2A"
abbreviation (input) DBUS_CMD_EKE :: byte where "DBUS_CMD_EKE \<equiv> 0x2B"
abbreviation (input) DBUS_CMD_DKE :: byte where "DBUS_CMD_DKE \<equiv> 0x2C"
abbreviation (input) DBUS_CMD_VER :: byte where "DBUS_CMD_VER \<equiv> 0x2D"
abbreviation (input) DBUS_CMD_SKP :: byte where "DBUS_CMD_SKP \<equiv> 0x36"
abbreviation (input) DBUS_CMD_SID :: byte where "DBUS_CMD_SID \<equiv> 0x47"
abbreviation (input) DBUS_CMD_ACK :: byte where "DBUS_CMD_ACK \<equiv> 0x56"
abbreviation (input) DBUS_CMD_ERR :: byte where "DBUS_CMD_ERR \<equiv> 0x5A"
abbreviation (input) DBUS_CMD_RDY :: byte where "DBUS_CMD_RDY \<equiv> 0x68"
abbreviation (input) DBUS_CMD_SCR :: byte where "DBUS_CMD_SCR \<equiv> 0x6D"
abbreviation (input) DBUS_CMD_GID :: byte where "DBUS_CMD_GID \<equiv> 0x6E"
abbreviation (input) DBUS_CMD_DMP :: byte where "DBUS_CMD_DMP \<equiv> 0x6F"
abbreviation (input) DBUS_CMD_TG2 :: byte where "DBUS_CMD_TG2 \<equiv> 0x70"
abbreviation (input) DBUS_CMD_RID :: byte where "DBUS_CMD_RID \<equiv> 0x74"
abbreviation (input) DBUS_CMD_CNT :: byte where "DBUS_CMD_CNT \<equiv> 0x78"
abbreviation (input) DBUS_CMD_KEY :: byte where "DBUS_CMD_KEY \<equiv> 0x87"
abbreviation (input) DBUS_CMD_DEL :: byte where "DBUS_CMD_DEL \<equiv> 0x88"
abbreviation (input) DBUS_CMD_RUN :: byte where "DBUS_CMD_RUN \<equiv> 0x89"
abbreviation (input) DBUS_CMD_EOT :: byte where "DBUS_CMD_EOT \<equiv> 0x92"
abbreviation (input) DBUS_CMD_REQ :: byte where "DBUS_CMD_REQ \<equiv> 0xA2"
abbreviation (input) DBUS_CMD_ERR2 :: byte where "DBUS_CMD_ERR2 \<equiv> 0xB4"
abbreviation (input) DBUS_CMD_IND :: byte where "DBUS_CMD_IND \<equiv> 0xB7"
abbreviation (input) DBUS_CMD_RTS :: byte where "DBUS_CMD_RTS \<equiv> 0xC9"
abbreviation (input) DBUS_CMD_RSE :: byte where "DBUS_CMD_RSE \<equiv> 0xCA"

abbreviation (input) DBUS_REJ_EXIT :: byte where "DBUS_REJ_EXIT \<equiv> 1"
abbreviation (input) DBUS_REJ_SKIP :: byte where "DBUS_REJ_SKIP \<equiv> 2"
abbreviation (input) DBUS_REJ_MEMORY :: byte where "DBUS_REJ_MEMORY \<equiv> 3"
abbreviation (input) DBUS_REJ_VERSION :: byte where "DBUS_REJ_VERSION \<equiv> 4"

section \<open>Tables\<close>

text \<open>Rows of the commands: id, whether data follows, three names.\<close>

definition cmd_types :: "(byte \<times> int \<times> string \<times> string \<times> string) list" where
  "cmd_types =
     [(DBUS_CMD_VAR, 1, ''VAR'', ''RTS'', ''Variable header''),
      (DBUS_CMD_CTS, 0, ''CTS'', ''RDY'', ''Continue To Send''),
      (DBUS_CMD_XDP, 1, ''XDP'', ''XDP'', ''Data Packet''),
      (DBUS_CMD_ELD, 0, ''ELD'', ''EBL'', ''Enable LockDown''),
      (DBUS_CMD_DLD, 0, ''DLD'', ''DBL'', ''Disable LockDown''),
      (DBUS_CMD_EKE, 0, ''EKE'', ''EKE'', ''Enable Key Echo''),
      (DBUS_CMD_DKE, 0, ''DKE'', ''DKE'', ''Disable Key Echo''),
      (DBUS_CMD_VER, 0, ''VER'', ''RDI'', ''Request version''),
      (DBUS_CMD_SKP, 1, ''SKP'', ''EOR'', ''Skip/Exit''),
      (DBUS_CMD_SID, 1, ''SID'', ''SIOA'', ''Send calc ID''),
      (DBUS_CMD_ACK, 0, ''ACK'', ''ACK'', ''Acknowledge''),
      (DBUS_CMD_ERR, 1, ''ERR'', ''CHK'', ''Checksum error''),
      (DBUS_CMD_RDY, 0, ''RDY'', ''RDC'', ''Test calculator ready''),
      (DBUS_CMD_SCR, 0, ''SCR'', ''REQ'', ''Request screenshot''),
      (DBUS_CMD_GID, 0, ''GID'', ''???'', ''Get calculator ID (from cert)''),
      (DBUS_CMD_DMP, 1, ''DMP'', ''???'', ''Request memory page dump''),
      (DBUS_CMD_TG2, 1, ''TG2'', ''???'', ''TestGuard 2 packet''),
      (DBUS_CMD_RID, 0, ''RID'', ''RIOA'', ''Request calc ID''),
      (DBUS_CMD_CNT, 0, ''CNT'', ''RTC'', ''Continue''),
      (DBUS_CMD_KEY, 0, ''KEY'', ''SKY'', ''Send key''),
      (DBUS_CMD_DEL, 1, ''DEL'', ''DVL'', ''Delete variable / app''),
      (DBUS_CMD_RUN, 1, ''RUN'', ''EPL'', ''Run variable / app''),
      (DBUS_CMD_EOT, 0, ''EOT'', ''DONE'', ''End Of Transmission''),
      (DBUS_CMD_REQ, 1, ''REQ'', ''GET'', ''Request variable''),
      (DBUS_CMD_ERR2, 1, ''ERR2'', ''???'', ''Checksum error''),
      (DBUS_CMD_IND, 1, ''IND'', ''GTE'', ''Request variable index''),
      (DBUS_CMD_RTS, 1, ''RTS'', ''SEND'', ''Request To Send''),
      (DBUS_CMD_RSE, 1, ''RSE'', ''SETP'', ''Request to Send and Execute'')]"

definition machine_types :: "(byte \<times> string) list" where
  "machine_types =
     [(DBUS_MID_PC_TIXX, ''PC>TI''),
      (DBUS_MID_PC_TI82, ''PC>TI''),
      (DBUS_MID_PC_TI83, ''PC>TI''),
      (DBUS_MID_PC_TI85, ''PC>TI''),
      (DBUS_MID_PC_TI86, ''PC>TI''),
      (DBUS_MID_PC_TI73, ''PC>TI''),
      (DBUS_MID_PC_TI89, ''PC>TI''),
      (DBUS_MID_PC_TI92, ''PC>TI''),
      (DBUS_MID_CBL_TI73, ''CBL>TI''),
      (DBUS_MID_CBL_TI85, ''CBL>TI''),
      (DBUS_MID_CBL_TI89, ''CBL>TI''),
      (DBUS_MID_PC_TI83p, ''PC>TI''),
      (DBUS_MID_TI83p_PC, ''TI>PC''),
      (DBUS_MID_TI73_PC, ''TI>PC''),
      (DBUS_MID_TI80_PC, ''TI>PC''),
      (DBUS_MID_TI82_PC, ''TI>PC|TI_CBL''),
      (DBUS_MID_TI83_PC, ''TI>PC''),
      (DBUS_MID_TI85_PC, ''TI>PC|TI>CBL''),
      (DBUS_MID_TI86_PC, ''TI>PC''),
      (DBUS_MID_TI92p_PC, ''TI>PC''),
      (DBUS_MID_TI92_PC, ''TI>PC|TI>CBL''),
      (DBUS_MID_TI73_CBL, ''TI>CBL''),
      (DBUS_MID_TI89_PC, ''TI>PC'')]"

fun dbus_lookup :: "(byte \<times> 'a) list \<Rightarrow> ('a \<Rightarrow> string) \<Rightarrow> byte \<Rightarrow> string" where
  "dbus_lookup [] field i = ''''"
| "dbus_lookup ((k, row) # rows) field i = (if i = k then field row else dbus_lookup rows field i)"

definition dbus_cmd2name :: "byte \<Rightarrow> string" where
  "dbus_cmd2name = dbus_lookup cmd_types (\<lambda>(has_data, name, official, description). name)"

definition dbus_cmd2officialname :: "byte \<Rightarrow> string" where
  "dbus_cmd2officialname = dbus_lookup cmd_types (\<lambda>(has_data, name, official, description). official)"

definition dbus_cmd2desc :: "byte \<Rightarrow> string" where
  "dbus_cmd2desc = dbus_lookup cmd_types (\<lambda>(has_data, name, official, description). description)"

definition dbus_mid2direction :: "byte \<Rightarrow> string" where
  "dbus_mid2direction = dbus_lookup machine_types (\<lambda>direction. direction)"

section \<open>The handle and the wire\<close>

text \<open>The operations of a calculator, as the events name them; the last one stands for none.\<close>

datatype CalcFnctsIdx =
  FNCT_IS_READY | FNCT_SEND_KEY | FNCT_EXECUTE | FNCT_RECV_SCREEN | FNCT_GET_DIRLIST | FNCT_GET_MEMFREE
| FNCT_SEND_BACKUP | FNCT_RECV_BACKUP | FNCT_SEND_VAR | FNCT_RECV_VAR | FNCT_SEND_VAR_NS | FNCT_RECV_VAR_NS
| FNCT_SEND_APP | FNCT_RECV_APP | FNCT_SEND_OS | FNCT_RECV_IDLIST | FNCT_DUMP_ROM1 | FNCT_DUMP_ROM2
| FNCT_SET_CLOCK | FNCT_GET_CLOCK | FNCT_DEL_VAR | FNCT_NEW_FOLDER | FNCT_GET_VERSION | FNCT_SEND_CERT | FNCT_RECV_CERT
| FNCT_RENAME | FNCT_CHATTR | FNCT_SEND_ALL_VARS_BACKUP | FNCT_RECV_ALL_VARS_BACKUP | CALC_FNCT_LAST

datatype event_type =
  BEFORE_CABLE_ATTACH | AFTER_CABLE_ATTACH | BEFORE_CABLE_DETACH | AFTER_CABLE_DETACH
| BEFORE_GENERIC_OPERATION | AFTER_GENERIC_OPERATION
| BEFORE_SEND_DBUS_PKT | AFTER_SEND_DBUS_PKT
| BEFORE_RECV_DBUS_PKT_HEADER | AFTER_RECV_DBUS_PKT_HEADER
| BEFORE_RECV_DBUS_PKT_DATA | AFTER_RECV_DBUS_PKT_DATA
| BEFORE_SEND_DUSB_RPKT | AFTER_SEND_DUSB_RPKT | BEFORE_RECV_DUSB_RPKT | AFTER_RECV_DUSB_RPKT
| BEFORE_SEND_DUSB_VPKT | AFTER_SEND_DUSB_VPKT | BEFORE_RECV_DUSB_VPKT | AFTER_RECV_DUSB_VPKT

text \<open>
  What an event is about: an operation, or a packet of the link port, a raw or a virtual one of the USB
  port.  The pointer to the operation's argument, which an event carries too, is left out.
\<close>

datatype event_packet =
  Operation CalcFnctsIdx
| Dbus_pkt u16 byte byte "bytes option"
| Dusb_rpkt u32 byte bytes
| Dusb_vpkt u32 u16 "bytes option"

record link_event_data =
  ev_type :: event_type
  ev_retval :: int
  ev_packet :: event_packet

text \<open>
  What was done, latest first; \<open>Overread\<close> is a read past the end of the caller's array, \<open>Overrun\<close> a
  write, \<open>Zero_division\<close> a division by zero, and \<open>Unfinished\<close> a loop that has used up its rounds: what
  follows one of these means nothing.
\<close>

datatype link_event = Put bytes | Ask nat | Hooked link_event_data | Overread nat | Overrun nat | Zero_division | Unfinished
  | Progress_bar | Refresh | Label string | Pause nat

text \<open>\<open>rounds\<close> bounds the loops that only the calculator ends.\<close>

record link_env =
  send_answer :: "link_event list \<Rightarrow> bytes \<Rightarrow> int"
  recv_answer :: "link_event list \<Rightarrow> nat \<Rightarrow> int \<times> (nat \<Rightarrow> byte)"
  event_hook :: "(link_event list \<Rightarrow> link_event_data \<Rightarrow> int) option"
  cancelled :: "link_event list \<Rightarrow> bool"
  past_end :: "nat \<Rightarrow> byte"
  rounds :: nat

record link =
  no_handle :: bool
  is_attached :: bool
  is_open :: bool
  link_model :: CalcModel
  link_cable :: CableModel
  pkt_buffer :: "bytes option"
  pkt_buffer2 :: bytes
  in_use :: bool
  blk_size :: nat
  min_size :: nat
  max1 :: nat
  cnt1 :: nat
  max2 :: nat
  cnt2 :: nat
  send_refs :: nat
  recv_refs :: nat
  rpkt_maxlen :: u32
  history :: "link_event list"

definition record_event :: "link_event \<Rightarrow> (link, unit) state" where
  "record_event e = State_Monad.update (\<lambda>h. h\<lparr>history := e # history h\<rparr>)"

definition cable_send :: "link_env \<Rightarrow> bytes \<Rightarrow> (link, int) state" where
  "cable_send env bs = do {
     h \<leftarrow> State_Monad.get;
     record_event (Put bs);
     State_Monad.return (send_answer env (history h) bs) }"

text \<open>The cable fills all \<open>n\<close> bytes asked for, when it returns 0.\<close>

definition cable_recv :: "link_env \<Rightarrow> nat \<Rightarrow> (link, int \<times> bytes) state" where
  "cable_recv env n = do {
     h \<leftarrow> State_Monad.get;
     record_event (Ask n);
     State_Monad.return (fst (recv_answer env (history h) n), map (snd (recv_answer env (history h) n)) [0..<n]) }"

definition fire_event :: "link_env \<Rightarrow> event_type \<Rightarrow> int \<Rightarrow> event_packet \<Rightarrow> (link, int) state" where
  "fire_event env ty retval pkt =
     (case event_hook env of
        None \<Rightarrow> State_Monad.return retval
      | Some hook \<Rightarrow> do {
          h \<leftarrow> State_Monad.get;
          let ev = \<lparr>ev_type = ty, ev_retval = retval, ev_packet = pkt\<rparr>;
          record_event (Hooked ev);
          State_Monad.return (hook (history h) ev) })"

definition send_event :: "link_env \<Rightarrow> event_type \<Rightarrow> int \<Rightarrow> u16 \<Rightarrow> byte \<Rightarrow> byte \<Rightarrow> bytes option \<Rightarrow> (link, int) state" where
  "send_event env ty retval len target cmd data = fire_event env ty retval (Dbus_pkt len target cmd data)"

definition is_cancelled :: "link_env \<Rightarrow> (link, bool) state" where
  "is_cancelled env = do { h \<leftarrow> State_Monad.get; State_Monad.return (cancelled env (history h)) }"

text \<open>\<open>SET_HANDLE_BUSY_IF_NECESSARY\<close>, which remembers what it found, and \<open>CLEAR_HANDLE_BUSY_IF_NECESSARY\<close>.\<close>

definition set_busy_if_necessary :: "(link, bool) state" where
  "set_busy_if_necessary = do {
     h \<leftarrow> State_Monad.get;
     let was_busy = in_use h;
     State_Monad.update (\<lambda>h. if was_busy then h else h\<lparr>in_use := True\<rparr>);
     State_Monad.return was_busy }"

definition clear_busy_if_necessary :: "bool \<Rightarrow> (link, unit) state" where
  "clear_busy_if_necessary was_busy = State_Monad.update (\<lambda>h. if was_busy then h else h\<lparr>in_use := False\<rparr>)"

definition pbar :: "(link, unit) state" where
  "pbar = record_event Progress_bar"

text \<open>\<open>n\<close> bytes of an array: past its end comes whatever memory holds.\<close>

definition read_array :: "link_env \<Rightarrow> nat \<Rightarrow> bytes \<Rightarrow> (link, bytes) state" where
  "read_array env n d =
     (if n \<le> length d then State_Monad.return (take n d)
      else do { record_event (Overread (n - length d)); State_Monad.return (d @ map (past_end env) [length d..<n]) })"

section \<open>Words\<close>

definition LSB :: "u16 \<Rightarrow> byte" where "LSB w = ucast (w AND 0x00FF)"

definition MSB :: "u16 \<Rightarrow> byte" where "MSB w = ucast (drop_bit 8 (w AND 0xFF00))"

definition word_16 :: "byte \<Rightarrow> byte \<Rightarrow> u16" where
  "word_16 lo hi = ucast lo OR push_bit 8 (ucast hi)"

definition tifiles_checksum :: "bytes \<Rightarrow> u16" where
  "tifiles_checksum buffer = foldl (\<lambda>c b. c + ucast b) 0 buffer"

section \<open>Sending\<close>

text \<open>The full chunks: \<open>n\<close> of them from the chunk \<open>i\<close> on.\<close>

fun send_chunks :: "link_env \<Rightarrow> bytes \<Rightarrow> nat \<Rightarrow> nat \<Rightarrow> nat \<Rightarrow> (link, int) state" where
  "send_chunks env buf len i 0 = State_Monad.return 0"
| "send_chunks env buf len i (Suc n) = do {
     h \<leftarrow> State_Monad.get;
     ret \<leftarrow> cable_send env (take (blk_size h) (drop (i * blk_size h) buf));
     if ret \<noteq> 0 then State_Monad.return ret
     else do {
       State_Monad.update (\<lambda>h. h\<lparr>cnt1 := cnt1 h + blk_size h\<rparr>);
       (if len > min_size h then pbar else State_Monad.return ());
       cancel \<leftarrow> is_cancelled env;
       if cancel then State_Monad.return ERR_ABORT else send_chunks env buf len (i + 1) n } }"

definition dbus_send_short :: "link_env \<Rightarrow> byte \<Rightarrow> byte \<Rightarrow> (link, int) state" where
  "dbus_send_short env target cmd = do {
     State_Monad.update (\<lambda>h. h\<lparr>pkt_buffer := map_option (\<lambda>buf. write_at buf 0 [target, cmd, 0x00, 0x00]) (pkt_buffer h)\<rparr>);
     cable_send env (take (if target = DBUS_MID_PC_TI80 then 2 else 4) [target, cmd, 0x00, 0x00]) }"

definition dbus_frame :: "byte \<Rightarrow> byte \<Rightarrow> nat \<Rightarrow> bytes \<Rightarrow> bytes" where
  "dbus_frame target cmd len d =
     [target, cmd, LSB (of_nat len), MSB (of_nat len)] @ d @ [LSB (tifiles_checksum d), MSB (tifiles_checksum d)]"

definition set_chunks :: "nat \<Rightarrow> nat \<Rightarrow> (link, unit) state" where
  "set_chunks whole blk = State_Monad.update (\<lambda>h. h\<lparr>min_size := (if link_cable h = CABLE_GRY then 512 else 2048),
     blk_size := blk, max1 := whole, cnt1 := 0\<rparr>)"

definition send_blk_size :: "nat \<Rightarrow> nat" where
  "send_blk_size len =
     (let blk = (len + 6) div 20;
          blk = (if blk = 0 then len + 6 else blk)
      in if blk < 32 then 128 else blk)"

definition dbus_send_std :: "link_env \<Rightarrow> byte \<Rightarrow> byte \<Rightarrow> nat \<Rightarrow> bytes \<Rightarrow> (link, int) state" where
  "dbus_send_std env target cmd len data = do {
     d \<leftarrow> read_array env len data;
     let frame = dbus_frame target cmd len d;
     State_Monad.update (\<lambda>h. h\<lparr>pkt_buffer := map_option (\<lambda>buf. write_at buf 0 frame) (pkt_buffer h)\<rparr>);
     let blk = send_blk_size len;
     let q = (len + 6) div blk;
     let r = (len + 6) mod blk;
     set_chunks (len + 6) blk;
     ret \<leftarrow> send_chunks env frame len 0 q;
     if ret \<noteq> 0 then State_Monad.return ret
     else do {
       ret \<leftarrow> cable_send env (take r (drop (q * blk) frame));
       if ret \<noteq> 0 then State_Monad.return ret
       else do {
         h \<leftarrow> State_Monad.get;
         State_Monad.update (\<lambda>h. h\<lparr>cnt1 := cnt1 h + 1\<rparr>);
         (if len > min_size h then pbar else State_Monad.return ());
         cancel \<leftarrow> is_cancelled env;
         State_Monad.return (if cancel then ERR_ABORT else 0) } } }"

text \<open>Every fourth success refreshes the display: \<open>!ret && !(ref++ % 4)\<close>.\<close>

definition send_refresh :: "int \<Rightarrow> (link, unit) state" where
  "send_refresh ret = State_Monad.update (\<lambda>h.
     if ret \<noteq> 0 then h
     else h\<lparr>send_refs := send_refs h + 1, history := (if send_refs h mod 4 = 0 then [Refresh] else []) @ history h\<rparr>)"

definition dbus_send :: "link_env \<Rightarrow> byte \<Rightarrow> byte \<Rightarrow> u16 \<Rightarrow> bytes option \<Rightarrow> (link, int) state" where
  "dbus_send env target cmd len data = do {
     h \<leftarrow> State_Monad.get;
     if no_handle h then State_Monad.return ERR_INVALID_HANDLE
     else if pkt_buffer h = None then State_Monad.return ERR_INVALID_HANDLE
     else do {
       let n = (if len = 0x0000 then 65536 else unat len);
       was_busy \<leftarrow> set_busy_if_necessary;
       ret \<leftarrow> send_event env BEFORE_SEND_DBUS_PKT 0 (of_nat n) target cmd data;
       ret \<leftarrow> (if ret \<noteq> 0 then State_Monad.return ret
         else do {
           ret \<leftarrow> (case data of None \<Rightarrow> dbus_send_short env target cmd | Some d \<Rightarrow> dbus_send_std env target cmd n d);
           send_refresh ret;
           State_Monad.return ret });
       ret \<leftarrow> send_event env AFTER_SEND_DBUS_PKT ret (of_nat n) target cmd data;
       clear_busy_if_necessary was_busy;
       State_Monad.return ret } }"

section \<open>Receiving\<close>

type_synonym dbus_header = "byte \<times> byte \<times> u16"

text \<open>Host, command and length, as they were when the calculator did not send them.\<close>

definition read_header :: "link_env \<Rightarrow> dbus_header \<Rightarrow> (link, int \<times> dbus_header) state" where
  "read_header env old = do {
     (ret, buf) \<leftarrow> cable_recv env 2;
     if ret \<noteq> 0 then State_Monad.return (ret, old)
     else do {
       let host = buf ! 0;
       let cmd = buf ! 1;
       if host \<noteq> DBUS_MID_TI80_PC \<or> cmd = DBUS_CMD_XDP
       then do {
         (ret, buf) \<leftarrow> cable_recv env 2;
         State_Monad.return (ret, host, cmd, if ret = 0 then word_16 (buf ! 0) (buf ! 1) else snd (snd old)) }
       else State_Monad.return (0, host, cmd, 0) } }"

definition dbus_recv_header :: "link_env \<Rightarrow> dbus_header \<Rightarrow> (link, int \<times> dbus_header) state" where
  "dbus_recv_header env old = do {
     h \<leftarrow> State_Monad.get;
     if no_handle h then State_Monad.return (ERR_INVALID_HANDLE, old)
     else do {
       was_busy \<leftarrow> set_busy_if_necessary;
       ret \<leftarrow> send_event env BEFORE_RECV_DBUS_PKT_HEADER 0 0 0 0 None;
       (ret, host, cmd, len) \<leftarrow> (if ret \<noteq> 0 then State_Monad.return (ret, old) else read_header env old);
       ret \<leftarrow> send_event env AFTER_RECV_DBUS_PKT_HEADER ret len host cmd None;
       clear_busy_if_necessary was_busy;
       State_Monad.return (ret, host, cmd, len) } }"

fun recv_chunks :: "link_env \<Rightarrow> nat \<Rightarrow> nat \<Rightarrow> (link, int \<times> bytes) state" where
  "recv_chunks env len 0 = State_Monad.return (0, [])"
| "recv_chunks env len (Suc n) = do {
     h \<leftarrow> State_Monad.get;
     (ret, d) \<leftarrow> cable_recv env (blk_size h);
     if ret \<noteq> 0 then State_Monad.return (ret, [])
     else do {
       State_Monad.update (\<lambda>h. h\<lparr>cnt1 := cnt1 h + blk_size h\<rparr>);
       (if len > min_size h then pbar else State_Monad.return ());
       cancel \<leftarrow> is_cancelled env;
       if cancel then State_Monad.return (ERR_ABORT, d)
       else do {
         (ret, ds) \<leftarrow> recv_chunks env len n;
         State_Monad.return (ret, d @ ds) } } }"

definition recv_blk_size :: "nat \<Rightarrow> nat" where
  "recv_blk_size len = (let blk = len div 20 in if blk = 0 then 1 else blk)"

text \<open>The data and then the two bytes of the checksum; what was read before an error is returned too.\<close>

definition recv_body :: "link_env \<Rightarrow> nat \<Rightarrow> (link, int \<times> bytes) state" where
  "recv_body env len = do {
     let blk = recv_blk_size len;
     let q = len div blk;
     let r = len mod blk;
     set_chunks len blk;
     (ret, ds) \<leftarrow> recv_chunks env len q;
     if ret \<noteq> 0 then State_Monad.return (ret, ds)
     else do {
       (ret, d) \<leftarrow> cable_recv env r;
       if ret \<noteq> 0 then State_Monad.return (ret, ds)
       else do {
         (ret, buf) \<leftarrow> cable_recv env 2;
         if ret \<noteq> 0 then State_Monad.return (ret, ds @ d)
         else do {
           h \<leftarrow> State_Monad.get;
           State_Monad.update (\<lambda>h. h\<lparr>cnt1 := cnt1 h + 1\<rparr>);
           (if len > min_size h then pbar else State_Monad.return ());
           cancel \<leftarrow> is_cancelled env;
           if cancel then State_Monad.return (ERR_ABORT, ds @ d)
           else State_Monad.return
             (if word_16 (buf ! 0) (buf ! 1) \<noteq> tifiles_checksum (ds @ d) then ERR_CHECKSUM else 0, ds @ d) } } } }"

text \<open>The bytes returned are written to the caller's array, which must be large enough; \<open>null\<close> is a NULL array.\<close>

definition dbus_recv_data :: "link_env \<Rightarrow> u16 \<Rightarrow> bool \<Rightarrow> (link, int \<times> bytes) state" where
  "dbus_recv_data env len null = do {
     h \<leftarrow> State_Monad.get;
     if no_handle h then State_Monad.return (ERR_INVALID_HANDLE, [])
     else if null then State_Monad.return (ERR_INVALID_PARAMETER, [])
     else do {
       was_busy \<leftarrow> set_busy_if_necessary;
       ret \<leftarrow> send_event env BEFORE_RECV_DBUS_PKT_DATA 0 len 0 0 None;
       (ret, d) \<leftarrow> (if ret \<noteq> 0 then State_Monad.return (ret, []) else recv_body env (unat len));
       ret \<leftarrow> send_event env AFTER_RECV_DBUS_PKT_DATA ret len 0 0 (Some d);
       clear_busy_if_necessary was_busy;
       State_Monad.return (ret, d) } }"

definition recv_refresh :: "int \<Rightarrow> (link, unit) state" where
  "recv_refresh ret = State_Monad.update (\<lambda>h.
     if ret \<noteq> 0 then h
     else h\<lparr>recv_refs := recv_refs h + 1, history := (if recv_refs h mod 4 = 0 then [Refresh] else []) @ history h\<rparr>)"

definition data_commands :: "byte list" where
  "data_commands = [DBUS_CMD_VAR, DBUS_CMD_XDP, DBUS_CMD_SKP, DBUS_CMD_SID, DBUS_CMD_REQ, DBUS_CMD_IND, DBUS_CMD_RTS]"

definition short_commands :: "byte list" where
  "short_commands = [DBUS_CMD_CTS, DBUS_CMD_ACK, DBUS_CMD_ERR, DBUS_CMD_ERR2, DBUS_CMD_RDY, DBUS_CMD_SCR, DBUS_CMD_RID,
     DBUS_CMD_KEY, DBUS_CMD_EOT, DBUS_CMD_CNT]"

text \<open>
  The command decides what follows.  On one of neither list the function returns at once, without
  clearing the busy flag.
\<close>

definition recv_by_command :: "link_env \<Rightarrow> bool \<Rightarrow> bool \<Rightarrow> dbus_header \<Rightarrow> (link, int \<times> dbus_header \<times> bytes) state" where
  "recv_by_command env null was_busy header =
     (let cmd = fst (snd header) in
      if cmd = DBUS_CMD_ERR \<or> cmd = DBUS_CMD_ERR2
      then do { clear_busy_if_necessary was_busy; State_Monad.return (ERR_CHECKSUM, header, []) }
      else if cmd \<in> set data_commands
      then do {
        (ret, d) \<leftarrow> dbus_recv_data env (snd (snd header)) null;
        recv_refresh ret;
        clear_busy_if_necessary was_busy;
        State_Monad.return (ret, header, d) }
      else if cmd \<in> set short_commands
      then do {
        recv_refresh 0;
        clear_busy_if_necessary was_busy;
        State_Monad.return (0, header, []) }
      else State_Monad.return (ERR_INVALID_CMD, header, []))"

definition dbus_recv :: "link_env \<Rightarrow> dbus_header \<Rightarrow> bool \<Rightarrow> (link, int \<times> dbus_header \<times> bytes) state" where
  "dbus_recv env old null = do {
     h \<leftarrow> State_Monad.get;
     if no_handle h then State_Monad.return (ERR_INVALID_HANDLE, old, [])
     else do {
       was_busy \<leftarrow> set_busy_if_necessary;
       (ret, header) \<leftarrow> dbus_recv_header env old;
       if ret \<noteq> 0 then do { clear_busy_if_necessary was_busy; State_Monad.return (ret, header, []) }
       else recv_by_command env null was_busy header } }"

section \<open>Printing a packet\<close>

text \<open>\<open>%0nX\<close>: \<open>n\<close> hexadecimal digits of a number that has no more.\<close>

definition hex_digits :: "nat \<Rightarrow> nat \<Rightarrow> string" where
  "hex_digits n v = map (\<lambda>i. ''0123456789ABCDEF'' ! (v div 16 ^ i mod 16)) (rev [0..<n])"

text \<open>The length the packet implies, or \<open>None\<close> where the code refuses it before comparing.\<close>

definition dissect_length :: "byte \<Rightarrow> byte \<Rightarrow> nat \<Rightarrow> nat \<Rightarrow> nat option" where
  "dissect_length mid cmd len data_len =
     (let read_length = (if data_len = 0 then 4 else 6 + data_len)
      in if mid = DBUS_MID_PC_TI80
         then (if cmd = DBUS_CMD_SCR then (if len = 2 then Some 2 else Some read_length) else Some read_length)
         else if mid = DBUS_MID_TI80_PC
         then (if cmd = DBUS_CMD_ACK then (if len \<noteq> 2 then None else Some 2)
               else if cmd = DBUS_CMD_XDP then Some read_length
               else None)
         else Some read_length)"

text \<open>Sixteen bytes on a line; a new line begins after each sixteenth.\<close>

fun dissect_bytes :: "nat \<Rightarrow> bytes \<Rightarrow> string" where
  "dissect_bytes i [] = []"
| "dissect_bytes i (b # bs) =
     hex_digits 2 (unat b) @ '' '' @ (if (i + 1) mod 16 = 0 then [CHR 0x0A, CHR 0x09, CHR 0x09] else []) @ dissect_bytes (i + 1) bs"

text \<open>Result and printed text; \<open>f\<close> tells whether the stream is not NULL.\<close>

definition dbus_dissect :: "bool \<Rightarrow> bytes option \<Rightarrow> int \<times> string" where
  "dbus_dissect f data =
     (case data of None \<Rightarrow> (ERR_INVALID_PARAMETER, [])
      | Some d \<Rightarrow>
        if \<not> f then (ERR_INVALID_PARAMETER, [])
        else if length d < 2 \<or> length d = 3 \<or> length d > 65536 + 6 then (ERR_INVALID_PACKET, [])
        else
          let mid = d ! 0;
              cmd = d ! 1;
              pc80 = mid = DBUS_MID_PC_TI80 \<and> cmd = DBUS_CMD_SCR \<and> length d = 2;
              ack80 = mid = DBUS_MID_TI80_PC \<and> cmd = DBUS_CMD_ACK;
              data_len = (if \<not> pc80 \<and> \<not> ack80 \<and> length d \<ge> 4 then unat (word_16 (d ! 2) (d ! 3)) else 0)
          in if dissect_length mid cmd (length d) data_len \<noteq> Some (length d) then (ERR_INVALID_PACKET, [])
             else
               (0, hex_digits 8 data_len @ '' '' @ hex_digits 2 (unat mid) @ '' '' @ hex_digits 2 (unat cmd)
                 @ [CHR 0x09] @ ''| '' @ dbus_mid2direction mid @ '': '' @ dbus_cmd2name cmd @ '' ('' @ dbus_cmd2desc cmd @ '')''
                 @ (if length d > 4
                    then (if word_16 (d ! (4 + data_len)) (d ! (4 + data_len + 1)) \<noteq> tifiles_checksum (take data_len (drop 4 d))
                          then '' (Checksum mismatch)'' else [])
                       @ [CHR 0x0A, CHR 0x09, CHR 0x09] @ dissect_bytes 0 (drop 4 d) @ [CHR 0x0A]
                    else [])))"

end
