(* ===== verification/Dbus_Wire.thy ===== *)
theory Dbus_Wire
  imports Dbus_Packet
begin

text \<open>
  What the packet layer puts on the wire and takes from it.  \<open>does\<close> says of a program what it returns,
  which bytes it sends and how many it takes, in a composable way; the chunks the code cuts a packet
  into disappear.  \<open>keeps_busy\<close> is the discipline of the busy flag, whatever the cable answers.
\<close>

section \<open>The wire\<close>

fun wire_bytes :: "link_event list \<Rightarrow> bytes" where
  "wire_bytes [] = []"
| "wire_bytes (Put bs # es) = wire_bytes es @ bs"
| "wire_bytes (e # es) = wire_bytes es"

fun asked :: "link_event list \<Rightarrow> nat" where
  "asked [] = 0"
| "asked (Ask n # es) = asked es + n"
| "asked (e # es) = asked es"

text \<open>
  A cable that works, delivering the bytes \<open>w\<close>; nobody cancels, and who listens to the events hands back
  the status they carry, as the hook every handle has at first.
\<close>

definition transparent :: "(link_event list \<Rightarrow> link_event_data \<Rightarrow> int) option \<Rightarrow> bool" where
  "transparent hook \<longleftrightarrow> (\<forall>f es ev. hook = Some f \<longrightarrow> f es ev = ev_retval ev)"

definition working :: "link_env \<Rightarrow> (nat \<Rightarrow> byte) \<Rightarrow> bool" where
  "working env w \<longleftrightarrow> transparent (event_hook env) \<and> (\<forall>es. \<not> cancelled env es) \<and> (\<forall>es bs. send_answer env es bs = 0)
     \<and> (\<forall>es n. fst (recv_answer env es n) = 0 \<and> (\<forall>i<n. snd (recv_answer env es n) i = w (asked es + i)))"

definition open_link :: "link \<Rightarrow> bool" where
  "open_link h \<longleftrightarrow> \<not> no_handle h \<and> pkt_buffer h \<noteq> None"

text \<open>Events after which the behaviour is not defined.\<close>

fun faulty :: "link_event \<Rightarrow> bool" where
  "faulty (Overread n) = True"
| "faulty (Overrun n) = True"
| "faulty Zero_division = True"
| "faulty Unfinished = True"
| "faulty e = False"

text \<open>
  From \<open>h\<close> to \<open>h'\<close> the bytes \<open>out\<close> have been sent and \<open>k\<close> taken, nothing undefined has happened, and
  the handle is as open as it was.
\<close>

definition advances :: "link \<Rightarrow> link \<Rightarrow> bytes \<Rightarrow> nat \<Rightarrow> bool" where
  "advances h h' out k \<longleftrightarrow> (open_link h' \<longleftrightarrow> open_link h) \<and> (no_handle h' \<longleftrightarrow> no_handle h) \<and> link_model h' = link_model h
     \<and> rpkt_maxlen h' = rpkt_maxlen h \<and> filter faulty (history h') = filter faulty (history h)
     \<and> wire_bytes (history h') = wire_bytes (history h) @ out \<and> asked (history h') = asked (history h) + k"

lemma advances_refl [simp]: "advances h h [] 0"
  by (simp add: advances_def)

lemma advances_trans: "advances h h1 out k \<Longrightarrow> advances h1 h2 out' k' \<Longrightarrow> advances h h2 (out @ out') (k + k')"
  by (simp add: advances_def)

lemma advancesD:
  assumes "advances h h' out k"
  shows "open_link h' = open_link h" "no_handle h' = no_handle h" "link_model h' = link_model h"
    "wire_bytes (history h') = wire_bytes (history h) @ out" "asked (history h') = asked (history h) + k"
    "rpkt_maxlen h' = rpkt_maxlen h" "filter faulty (history h') = filter faulty (history h)"
  using assms by (simp_all add: advances_def)

text \<open>\<open>does p h r out k\<close>: run from \<open>h\<close>, the program returns \<open>r\<close>, sends \<open>out\<close> and takes \<open>k\<close> bytes.\<close>

definition does :: "(link, 'a) state \<Rightarrow> link \<Rightarrow> 'a \<Rightarrow> bytes \<Rightarrow> nat \<Rightarrow> bool" where
  "does p h r out k \<longleftrightarrow> (\<exists>h'. run_state p h = (r, h') \<and> advances h h' out k)"

lemma does_return [simp]: "does (State_Monad.return r) h r' out k \<longleftrightarrow> r' = r \<and> advances h h out k"
  by (auto simp: does_def)

lemma advances_same [simp]: "advances h h out k \<longleftrightarrow> out = [] \<and> k = 0"
  by (auto simp: advances_def)

lemma does_bind:
  assumes "does p h r out k" and "\<And>h'. advances h h' out k \<Longrightarrow> does (f r) h' r' out' k'"
  shows "does (State_Monad.bind p f) h r' (out @ out') (k + k')"
proof -
  obtain h' where h': "run_state p h = (r, h')" "advances h h' out k" using assms(1) by (auto simp: does_def)
  from assms(2) [OF h'(2)] obtain h'' where "run_state (f r) h' = (r', h'')" "advances h' h'' out' k'" by (auto simp: does_def)
  then show ?thesis using h' advances_trans by (auto simp: does_def)
qed

lemma does_get: "does (f h) h r out k \<Longrightarrow> does (State_Monad.bind State_Monad.get f) h r out k"
  by (simp add: does_def)

lemma does_update: "advances h (g h) out k \<Longrightarrow> does (State_Monad.update g) h () out k"
  by (simp add: does_def State_Monad.update_def)

lemma does_then:
  assumes "does p h r out k" and "\<And>h'. advances h h' out k \<Longrightarrow> does (f r) h' r' out' k'" and "o' = out @ out'" "n = k + k'"
  shows "does (State_Monad.bind p f) h r' o' n"
  unfolding assms(3,4) by (rule does_bind) (fact assms)+

lemma does_quietly: "does p h r [] 0 \<Longrightarrow> (\<And>h'. advances h h' [] 0 \<Longrightarrow> does (f r) h' r' out k) \<Longrightarrow> does (State_Monad.bind p f) h r' out k"
  by (rule does_then, assumption, assumption) simp_all

lemma does_puts:
  "does p h r out 0 \<Longrightarrow> (\<And>h'. advances h h' out 0 \<Longrightarrow> does (f r) h' r' out' k) \<Longrightarrow> o' = out @ out' \<Longrightarrow> does (State_Monad.bind p f) h r' o' k"
  by (rule does_then, assumption, assumption) simp_all

lemma does_takes:
  "does p h r [] k \<Longrightarrow> (\<And>h'. advances h h' [] k \<Longrightarrow> does (f r) h' r' out k') \<Longrightarrow> n = k + k' \<Longrightarrow> does (State_Monad.bind p f) h r' out n"
  by (rule does_then, assumption, assumption) simp_all

text \<open>The \<open>n\<close> bytes that come at the place \<open>p\<close> of the stream.\<close>

definition bytes_taken :: "(nat \<Rightarrow> byte) \<Rightarrow> nat \<Rightarrow> nat \<Rightarrow> bytes" where
  "bytes_taken w p n = map (\<lambda>i. w (p + i)) [0..<n]"

lemma length_taken [simp]: "length (bytes_taken w p n) = n"
  by (simp add: bytes_taken_def)

lemma taken_nth [simp]: "i < n \<Longrightarrow> bytes_taken w p n ! i = w (p + i)"
  by (simp add: bytes_taken_def)

lemma taken_add: "bytes_taken w p (m + n) = bytes_taken w p m @ bytes_taken w (p + m) n"
  by (rule nth_equalityI) (auto simp: nth_append add.assoc)

section \<open>The primitives\<close>

lemma does_send: "working env w \<Longrightarrow> does (cable_send env bs) h 0 bs 0"
  by (simp add: does_def cable_send_def record_event_def State_Monad.update_def advances_def open_link_def working_def)

lemma does_recv: "working env w \<Longrightarrow> does (cable_recv env n) h (0, bytes_taken w (asked (history h)) n) [] n"
  by (auto simp: bytes_taken_def does_def cable_recv_def record_event_def State_Monad.update_def advances_def open_link_def working_def)

lemma does_fire: "working env w \<Longrightarrow> does (fire_event env ty r pkt) h r [] 0"
  by (cases "event_hook env")
    (auto simp: fire_event_def working_def transparent_def record_event_def State_Monad.update_def does_def advances_def open_link_def)

lemma does_event: "working env w \<Longrightarrow> does (send_event env ty r len target cmd data) h r [] 0"
  by (simp add: send_event_def does_fire)

lemma does_cancel: "working env w \<Longrightarrow> does (is_cancelled env) h False [] 0"
  by (auto simp: does_def is_cancelled_def working_def)

lemma does_pbar [simp]: "does pbar h () [] 0"
  by (simp add: pbar_def record_event_def does_update advances_def open_link_def)

lemma does_progress:
  "does (State_Monad.update (\<lambda>h. h\<lparr>cnt1 := f h\<rparr>)) h () [] 0"
  "does (if b then pbar else State_Monad.return ()) h () [] 0"
  "does (set_chunks n blk) h () [] 0"
  by (simp_all add: does_update advances_def open_link_def set_chunks_def)

lemma does_refresh: "does (send_refresh r) h () [] 0" "does (recv_refresh r) h () [] 0"
  by (auto simp: send_refresh_def recv_refresh_def advances_def open_link_def intro!: does_update)

lemma does_read: "n = length d \<Longrightarrow> does (read_array env n d) h d [] 0"
  by (simp add: read_array_def)

lemma does_busy:
  "does set_busy_if_necessary h (in_use h) [] 0" "does (clear_busy_if_necessary b) h () [] 0"
  by (simp_all add: does_def set_busy_if_necessary_def clear_busy_if_necessary_def State_Monad.update_def advances_def open_link_def Let_def)

lemma does_put_buffer: "does (State_Monad.update (\<lambda>h. h\<lparr>pkt_buffer := map_option f (pkt_buffer h)\<rparr>)) h () [] 0"
  by (rule does_update) (simp add: advances_def open_link_def)

section \<open>Sending a packet\<close>

lemma take_add_drop: "take (a + b) (drop c xs) = take a (drop c xs) @ take b (drop (c + a) xs)"
  by (simp add: take_add add.commute)

lemma link_commute: "h\<lparr>history := a, cnt1 := b\<rparr> = h\<lparr>cnt1 := b, history := a\<rparr>"
  by simp

lemma run_send_chunks:
  assumes "working env w"
  shows "\<exists>h'. run_state (send_chunks env buf len i n) h = (0, h')
    \<and> advances h h' (take (n * blk_size h) (drop (i * blk_size h) buf)) 0"
proof (induction n arbitrary: i h)
  case (Suc n)
  let ?bs = "take (blk_size h) (drop (i * blk_size h) buf)"
  define h1 where "h1 = h\<lparr>cnt1 := cnt1 h + blk_size h, history := (if len > min_size h then [Progress_bar] else []) @ Put ?bs # history h\<rparr>"
  have r: "run_state (send_chunks env buf len i (Suc n)) h = run_state (send_chunks env buf len (i + 1) n) h1"
    using assms by (simp add: cable_send_def record_event_def State_Monad.update_def pbar_def is_cancelled_def working_def h1_def split_beta link_commute)
  have b: "blk_size h1 = blk_size h" and a: "advances h h1 ?bs 0"
    by (simp_all add: h1_def advances_def open_link_def)
  obtain h' where h': "run_state (send_chunks env buf len (i + 1) n) h1 = (0, h')"
    "advances h1 h' (take (n * blk_size h) (drop ((i + 1) * blk_size h) buf)) 0"
    using Suc.IH [of "i + 1" h1] b by auto
  have "take (Suc n * blk_size h) (drop (i * blk_size h) buf) = ?bs @ take (n * blk_size h) (drop ((i + 1) * blk_size h) buf)"
    using take_add_drop [of "blk_size h" "n * blk_size h" "i * blk_size h" buf] by (simp add: add.commute)
  with r h' show ?case using advances_trans [OF a h'(2)] by auto
qed simp

lemma does_send_chunks:
  "working env w \<Longrightarrow> blk_size h = blk \<Longrightarrow> does (send_chunks env buf len 0 q) h 0 (take (q * blk) buf) 0"
  using run_send_chunks [of env w buf len 0 q h] by (simp add: does_def)

lemma take_whole: "length xs = n \<Longrightarrow> take (n div b * b) xs @ take (n mod b) (drop (n div b * b) xs) = xs"
  using append_take_drop_id [of "n div b * b" xs] by (simp add: minus_mult_div_eq_mod mult.commute)

lemma length_dbus_frame [simp]: "length (dbus_frame target cmd len d) = length d + 6"
  by (simp add: dbus_frame_def)

lemma does_set_chunks:
  assumes "\<And>h'. advances h h' [] 0 \<Longrightarrow> blk_size h' = blk \<Longrightarrow> does (f ()) h' r out k"
  shows "does (State_Monad.bind (set_chunks n blk) f) h r out k"
proof -
  let ?h = "h\<lparr>min_size := (if link_cable h = CABLE_GRY then 512 else 2048), blk_size := blk, max1 := n, cnt1 := 0\<rparr>"
  have "run_state (set_chunks n blk) h = ((), ?h)" by (simp add: set_chunks_def State_Monad.update_def)
  moreover have "advances h ?h [] 0" "blk_size ?h = blk" by (simp_all add: advances_def open_link_def)
  ultimately show ?thesis using assms [of ?h] advances_trans [of h ?h "[]" 0] by (auto simp: does_def)
qed

lemma does_send_std:
  assumes w: "working env w"
  shows "does (dbus_send_std env target cmd (length d) d) h 0 (dbus_frame target cmd (length d) d) 0"
proof -
  let ?f = "dbus_frame target cmd (length d) d" and ?blk = "send_blk_size (length d)"
  let ?q = "(length d + 6) div ?blk" and ?r = "(length d + 6) mod ?blk"
  have split: "?f = take (?q * ?blk) ?f @ take ?r (drop (?q * ?blk) ?f)"
    by (rule take_whole [symmetric]) simp
  show ?thesis
    unfolding dbus_send_std_def Let_def
    apply (rule does_quietly [OF does_read [OF refl]])
    apply (rule does_quietly [OF does_put_buffer])
    apply (rule does_set_chunks)
    apply (rule does_puts [OF does_send_chunks [OF w]], assumption)
     prefer 2 apply (rule split)
    apply simp
    apply (rule does_puts [OF does_send [OF w], where out' = "[]"])
     apply simp
     apply (rule does_get)
     apply (rule does_quietly [OF does_progress(1)])
     apply (rule does_quietly [OF does_progress(2)])
     apply (rule does_quietly [OF does_cancel [OF w]])
     apply simp
    apply simp
    done
qed

lemma does_send_short:
  assumes w: "working env w"
  shows "does (dbus_send_short env target cmd) h 0 (take (if target = DBUS_MID_PC_TI80 then 2 else 4) [target, cmd, 0, 0]) 0"
  unfolding dbus_send_short_def
  by (rule does_quietly [OF does_put_buffer]) (rule does_send [OF w])

text \<open>The bytes of a packet: its header, and with data also the data and the checksum.\<close>

definition packet_bytes :: "byte \<Rightarrow> byte \<Rightarrow> bytes option \<Rightarrow> bytes" where
  "packet_bytes target cmd data =
     (case data of None \<Rightarrow> take (if target = DBUS_MID_PC_TI80 then 2 else 4) [target, cmd, 0, 0]
      | Some d \<Rightarrow> dbus_frame target cmd (length d) d)"

text \<open>A length field for the data: 65536 bytes are announced as 0.\<close>

definition fits_length :: "u16 \<Rightarrow> bytes option \<Rightarrow> bool" where
  "fits_length len data = (case data of None \<Rightarrow> True | Some d \<Rightarrow> length d = (if len = 0 then 65536 else unat len))"

text \<open>Of longer data the bytes the length announces are sent.\<close>

lemma does_dbus_send_prefix:
  assumes w: "working env w" and h: "open_link h" and n: "n = (if len = 0x0000 then 65536 else unat len)"
    and f: "\<And>d. data = Some d \<Longrightarrow> n \<le> length d"
  shows "does (dbus_send env target cmd len data) h 0 (packet_bytes target cmd (map_option (take n) data)) 0"
proof -
  have nz: "\<not> no_handle h" "pkt_buffer h \<noteq> None" using h by (auto simp: open_link_def)
  have body: "does (case data of None \<Rightarrow> dbus_send_short env target cmd | Some d \<Rightarrow> dbus_send_std env target cmd n d) h' 0
      (packet_bytes target cmd (map_option (take n) data)) 0" for h'
  proof (cases data)
    case None
    then show ?thesis using does_send_short [OF w] by (simp add: packet_bytes_def)
  next
    case (Some d)
    have "dbus_send_std env target cmd n d = dbus_send_std env target cmd n (take n d)"
      using f [OF Some] by (simp add: dbus_send_std_def read_array_def min_absorb2)
    moreover have "n = length (take n d)" using f [OF Some] by simp
    ultimately show ?thesis using Some does_send_std [OF w, of target cmd "take n d"] by (simp add: packet_bytes_def)
  qed
  show ?thesis
    unfolding dbus_send_def Let_def n [symmetric]
    apply (rule does_get)
    apply (simp only: nz if_False)
    apply (rule does_quietly [OF does_busy(1)])
    apply (rule does_quietly [OF does_event [OF w]])
    apply (rule does_puts [where out' = "[]"])
      apply (simp only: refl not_True_eq_False if_False)
      apply (rule does_puts [OF body, where out' = "[]"])
       apply (rule does_quietly [OF does_refresh(1)])
       apply simp
      apply simp
     apply (rule does_quietly [OF does_event [OF w]])
     apply (rule does_quietly [OF does_busy(2)])
     apply simp
    apply simp
    done
qed

lemma does_dbus_send:
  assumes w: "working env w" and h: "open_link h" and f: "fits_length len data"
  shows "does (dbus_send env target cmd len data) h 0 (packet_bytes target cmd data) 0"
proof -
  have same: "map_option (take (if len = 0x0000 then 65536 else unat len)) data = data"
    using f by (cases data) (simp_all add: fits_length_def)
  have "does (dbus_send env target cmd len data) h 0
      (packet_bytes target cmd (map_option (take (if len = 0x0000 then 65536 else unat len)) data)) 0"
    by (rule does_dbus_send_prefix [OF w h refl]) (use f in \<open>simp add: fits_length_def\<close>)
  then show ?thesis unfolding same .
qed

section \<open>Receiving a packet\<close>

lemma low_byte: "ucast (x AND 0x00FF) = (ucast x :: byte)" for x :: u16
proof -
  have m: "(0x00FF :: u16) = mask 8" by (simp add: mask_eq_exp_minus_1)
  show ?thesis unfolding m by (rule bit_word_eqI) (auto simp: bit_simps)
qed

lemma LSB_ucast: "LSB x = ucast x"
  by (simp add: LSB_def low_byte)

lemma MSB_ucast: "MSB x = ucast (drop_bit 8 x)"
  by (simp add: MSB_def drop_bit_and low_byte)

lemma word_16_bytes: "word_16 (LSB x) (MSB x) = x"
  unfolding LSB_ucast MSB_ucast word_16_def by (rule bit_word_eqI) (auto simp: bit_simps)

lemma run_recv_chunks:
  assumes w: "working env w"
  shows "\<exists>h'. run_state (recv_chunks env len n) h = ((0, bytes_taken w (asked (history h)) (n * blk_size h)), h')
    \<and> advances h h' [] (n * blk_size h)"
proof (induction n arbitrary: h)
  case 0
  show ?case by (simp add: bytes_taken_def)
next
  case (Suc n)
  let ?b = "blk_size h" and ?a = "asked (history h)"
  define h1 where "h1 = h\<lparr>cnt1 := cnt1 h + ?b, history := (if len > min_size h then [Progress_bar] else []) @ Ask ?b # history h\<rparr>"
  have b: "blk_size h1 = ?b" and a: "advances h h1 [] ?b" by (simp_all add: h1_def advances_def open_link_def)
  obtain h' where h': "run_state (recv_chunks env len n) h1 = ((0, bytes_taken w (?a + ?b) (n * ?b)), h')"
    "advances h1 h' [] (n * ?b)"
    using Suc.IH [of h1] b advancesD(5) [OF a] by auto
  have chunk: "map (snd (recv_answer env (history h) ?b)) [0..<?b] = bytes_taken w ?a ?b"
    using w by (simp add: working_def bytes_taken_def)
  have "run_state (recv_chunks env len (Suc n)) h
      = (case run_state (recv_chunks env len n) h1 of ((ret, ds), h') \<Rightarrow> ((ret, bytes_taken w ?a ?b @ ds), h'))"
    using w by (simp add: cable_recv_def record_event_def State_Monad.update_def pbar_def is_cancelled_def working_def h1_def
        split_beta link_commute chunk)
  then show ?case using h' advances_trans [OF a h'(2)] by (auto simp: taken_add)
qed

lemma does_recv_chunks:
  "working env w \<Longrightarrow> blk_size h = blk \<Longrightarrow>
   does (recv_chunks env len q) h (0, bytes_taken w (asked (history h)) (q * blk)) [] (q * blk)"
  using run_recv_chunks [of env w len q h] by (simp add: does_def)

text \<open>What the two bytes after the data say.\<close>

definition checked :: "(nat \<Rightarrow> byte) \<Rightarrow> nat \<Rightarrow> nat \<Rightarrow> int" where
  "checked w p n = (if word_16 (w (p + n)) (w (p + n + 1)) \<noteq> tifiles_checksum (bytes_taken w p n) then ERR_CHECKSUM else 0)"

lemma does_recv_body:
  assumes w: "working env w"
  shows "does (recv_body env n) h (checked w (asked (history h)) n, bytes_taken w (asked (history h)) n) [] (n + 2)"
proof -
  let ?p = "asked (history h)" and ?blk = "recv_blk_size n"
  let ?q = "n div ?blk" and ?r = "n mod ?blk"
  have n: "?q * ?blk + ?r = n" by simp
  have d: "bytes_taken w ?p (?q * ?blk) @ bytes_taken w (?p + ?q * ?blk) ?r = bytes_taken w ?p n"
    unfolding taken_add [symmetric] n ..
  show ?thesis
    unfolding recv_body_def Let_def
    apply (rule does_set_chunks)
    apply (rule does_takes [OF does_recv_chunks [OF w]], assumption)
     prefer 2 apply (rule n [THEN arg_cong [where f = "\<lambda>n. n + 2"], symmetric, unfolded add.assoc])
    apply (simp only: prod.case not_True_eq_False simp_thms if_False)
    apply (rule does_takes [OF does_recv [OF w], OF _ refl])
    apply (simp only: prod.case not_True_eq_False simp_thms if_False)
    apply (rule does_takes [OF does_recv [OF w], where k' = 0])
     apply (simp only: prod.case not_True_eq_False simp_thms if_False)
     apply (rule does_get)
     apply (rule does_quietly [OF does_progress(1)])
     apply (rule does_quietly [OF does_progress(2)])
     apply (rule does_quietly [OF does_cancel [OF w]])
     apply (use n in \<open>simp add: advancesD(5) d checked_def add.assoc\<close>)
    apply simp
    done
qed

lemma does_recv_data:
  assumes w: "working env w" and h: "open_link h"
  shows "does (dbus_recv_data env len False) h
    (checked w (asked (history h)) (unat len), bytes_taken w (asked (history h)) (unat len)) [] (unat len + 2)"
proof -
  have nz: "\<not> no_handle h" using h by (simp add: open_link_def)
  show ?thesis
    unfolding dbus_recv_data_def
    apply (rule does_get)
    apply (simp only: nz if_False)
    apply (rule does_quietly [OF does_busy(1)])
    apply (rule does_quietly [OF does_event [OF w]])
    apply (rule does_takes [where k' = 0])
      apply (simp only: not_True_eq_False simp_thms if_False)
      apply (rule does_recv_body [OF w])
     apply (simp only: prod.case)
     apply (rule does_quietly [OF does_event [OF w]])
     apply (rule does_quietly [OF does_busy(2)])
     apply (simp add: advancesD(5))
    apply simp
    done
qed

text \<open>The header that comes at a place of the stream, and how many bytes it has.\<close>

definition has_length :: "byte \<Rightarrow> byte \<Rightarrow> bool" where
  "has_length host cmd \<longleftrightarrow> host \<noteq> DBUS_MID_TI80_PC \<or> cmd = DBUS_CMD_XDP"

definition header_at :: "(nat \<Rightarrow> byte) \<Rightarrow> nat \<Rightarrow> dbus_header" where
  "header_at w p = (w p, w (p + 1), if has_length (w p) (w (p + 1)) then word_16 (w (p + 2)) (w (p + 3)) else 0)"

definition header_size :: "(nat \<Rightarrow> byte) \<Rightarrow> nat \<Rightarrow> nat" where
  "header_size w p = (if has_length (w p) (w (p + 1)) then 4 else 2)"

lemma does_read_header:
  assumes w: "working env w"
  shows "does (read_header env old) h (0, header_at w (asked (history h))) [] (header_size w (asked (history h)))"
proof -
  let ?p = "asked (history h)"
  have short: "bytes_taken w ?p 2 ! 0 = w ?p" "bytes_taken w ?p 2 ! 1 = w (?p + 1)" by simp_all
  have rest: "does (cable_recv env 2 \<bind> (\<lambda>(ret, buf). State_Monad.return
        (ret, w ?p, w (?p + 1), if ret = 0 then word_16 (buf ! 0) (buf ! 1) else snd (snd old)))) h'
      (0, w ?p, w (?p + 1), word_16 (w (?p + 2)) (w (?p + 3))) [] 2" if "advances h h' [] 2" for h'
    by (rule does_takes [OF does_recv [OF w]]) (simp_all add: advancesD(5) [OF that] numeral_3_eq_3)
  show ?thesis
    unfolding read_header_def
    apply (rule does_takes [OF does_recv [OF w], where k' = "if has_length (w ?p) (w (?p + 1)) then 2 else 0"])
     apply (simp only: prod.case not_True_eq_False simp_thms if_False Let_def short has_length_def [symmetric])
     apply (cases "has_length (w ?p) (w (?p + 1))")
      apply (simp only: if_True header_at_def)
      apply (erule rest)
     apply (simp add: header_at_def)
    apply (simp add: header_size_def)
    done
qed

lemma does_recv_header:
  assumes w: "working env w" and h: "open_link h"
  shows "does (dbus_recv_header env old) h (0, header_at w (asked (history h))) [] (header_size w (asked (history h)))"
proof -
  have nz: "\<not> no_handle h" using h by (simp add: open_link_def)
  let ?p = "asked (history h)"
  show ?thesis
    unfolding dbus_recv_header_def
    apply (rule does_get)
    apply (simp only: nz if_False)
    apply (rule does_quietly [OF does_busy(1)])
    apply (rule does_quietly [OF does_event [OF w]])
    apply (rule does_takes [where k' = 0])
      apply (simp only: not_True_eq_False simp_thms if_False)
      apply (rule does_read_header [OF w])
     apply (simp only: prod.case header_at_def)
     apply (rule does_quietly [OF does_event [OF w]])
     apply (rule does_quietly [OF does_busy(2)])
     apply (simp add: advancesD(5))
    apply (simp add: advancesD(5))
    done
qed

text \<open>What \<open>dbus_recv\<close> makes of the packet at a place of the stream, and how many bytes it takes.\<close>

definition packet_at :: "(nat \<Rightarrow> byte) \<Rightarrow> nat \<Rightarrow> int \<times> dbus_header \<times> bytes" where
  "packet_at w p =
     (let (host, cmd, len) = header_at w p; d = p + header_size w p
      in if cmd = DBUS_CMD_ERR \<or> cmd = DBUS_CMD_ERR2 then (ERR_CHECKSUM, (host, cmd, len), [])
         else if cmd \<in> set data_commands then (checked w d (unat len), (host, cmd, len), bytes_taken w d (unat len))
         else if cmd \<in> set short_commands then (0, (host, cmd, len), [])
         else (ERR_INVALID_CMD, (host, cmd, len), []))"

definition packet_size :: "(nat \<Rightarrow> byte) \<Rightarrow> nat \<Rightarrow> nat" where
  "packet_size w p = header_size w p + (if w (p + 1) \<in> set data_commands then unat (snd (snd (header_at w p))) + 2 else 0)"

lemma no_data_errors [simp]: "DBUS_CMD_ERR \<notin> set data_commands" "DBUS_CMD_ERR2 \<notin> set data_commands"
  by (simp_all add: data_commands_def)

lemma does_by_command:
  assumes w: "working env w" and h: "open_link h" and hd: "header_at w p = (host, cmd, len)" and p: "asked (history h) = p + header_size w p"
  shows "does (recv_by_command env False was_busy (host, cmd, len)) h (packet_at w p) [] (if cmd \<in> set data_commands then unat len + 2 else 0)"
proof -
  note data = does_recv_data [OF w h, of len, unfolded p]
  show ?thesis
  proof (cases "cmd \<in> set data_commands")
    case True
    then have "cmd \<noteq> DBUS_CMD_ERR" "cmd \<noteq> DBUS_CMD_ERR2" using no_data_errors by metis+
    moreover have "does (dbus_recv_data env len False \<bind> (\<lambda>(ret, d). recv_refresh ret \<bind> (\<lambda>_. clear_busy_if_necessary was_busy \<bind>
        (\<lambda>_. State_Monad.return (ret, (host, cmd, len), d))))) h
      (checked w (p + header_size w p) (unat len), (host, cmd, len), bytes_taken w (p + header_size w p) (unat len)) [] (unat len + 2)"
      by (rule does_takes [OF data, where k' = 0])
        (auto intro!: does_quietly [OF does_refresh(2)] does_quietly [OF does_busy(2)])
    ultimately show ?thesis using True by (simp add: recv_by_command_def packet_at_def hd Let_def)
  next
    case False
    then show ?thesis
      by (auto simp: recv_by_command_def packet_at_def hd intro!: does_quietly [OF does_refresh(2)] does_quietly [OF does_busy(2)])
  qed
qed

lemma does_dbus_recv:
  assumes w: "working env w" and h: "open_link h"
  shows "does (dbus_recv env old False) h (packet_at w (asked (history h))) [] (packet_size w (asked (history h)))"
proof -
  have nz: "\<not> no_handle h" using h by (simp add: open_link_def)
  let ?p = "asked (history h)"
  obtain host cmd len where hd: "header_at w ?p = (host, cmd, len)" and c: "w (?p + 1) = cmd" by (auto simp: header_at_def)
  have size: "packet_size w ?p = header_size w ?p + (if cmd \<in> set data_commands then unat len + 2 else 0)"
    using hd c by (simp add: packet_size_def)
  show ?thesis
    unfolding dbus_recv_def size
    apply (rule does_get)
    apply (simp only: nz if_False)
    apply (rule does_quietly [OF does_busy(1)])
    apply (rule does_takes [OF does_recv_header [OF w], where k' = "if cmd \<in> set data_commands then unat len + 2 else 0"])
      apply (simp add: advancesD(1) h)
     apply (simp only: advancesD(5) add_0_right hd prod.case not_True_eq_False simp_thms if_False)
     apply (rule does_by_command [OF w _ hd])
      apply (simp add: advancesD(1) h)
     apply (simp add: advancesD(5))
    apply (simp add: advancesD(5))
    done
qed

section \<open>Round trips\<close>

definition carries :: "(nat \<Rightarrow> byte) \<Rightarrow> nat \<Rightarrow> bytes \<Rightarrow> bool" where
  "carries w p bs \<longleftrightarrow> bytes_taken w p (length bs) = bs"

lemma carries_nth: "carries w p bs \<Longrightarrow> i < length bs \<Longrightarrow> w (p + i) = bs ! i"
  unfolding carries_def by (metis taken_nth)

lemma carries_append: "carries w p (xs @ ys) \<longleftrightarrow> carries w p xs \<and> carries w (p + length xs) ys"
  by (auto simp: carries_def taken_add)

lemma frame_parts:
  assumes "carries w p (dbus_frame target cmd n d)"
  shows "w p = target" "w (p + 1) = cmd" "w (p + 2) = LSB (of_nat n)" "w (p + 3) = MSB (of_nat n)"
    "bytes_taken w (p + 4) (length d) = d"
    "w (p + 4 + length d) = LSB (tifiles_checksum d)" "w (p + 4 + length d + 1) = MSB (tifiles_checksum d)"
proof -
  have c: "carries w p [target, cmd, LSB (of_nat n), MSB (of_nat n)]" "carries w (p + 4) d"
    "carries w (p + 4 + length d) [LSB (tifiles_checksum d), MSB (tifiles_checksum d)]"
    using assms unfolding dbus_frame_def carries_append by (simp_all add: eval_nat_numeral)
  show "w p = target" "w (p + 1) = cmd" "w (p + 2) = LSB (of_nat n)" "w (p + 3) = MSB (of_nat n)"
    using carries_nth [OF c(1), of 0] carries_nth [OF c(1), of 1] carries_nth [OF c(1), of 2] carries_nth [OF c(1), of 3]
    by simp_all
  show "bytes_taken w (p + 4) (length d) = d" using c(2) by (simp add: carries_def)
  show "w (p + 4 + length d) = LSB (tifiles_checksum d)" "w (p + 4 + length d + 1) = MSB (tifiles_checksum d)"
    using carries_nth [OF c(3), of 0] carries_nth [OF c(3), of 1] by simp_all
qed

text \<open>A packet with data, as the reader takes it apart: only the checksum decides.\<close>

lemma packet_at_frame:
  assumes "cmd \<in> set data_commands" "has_length target cmd" "length d < 65536"
    and w: "w p = target" "w (p + 1) = cmd" "w (p + 2) = LSB (of_nat (length d))" "w (p + 3) = MSB (of_nat (length d))"
    and d: "bytes_taken w (p + 4) (length d) = d" and sum: "w (p + 4 + length d) = LSB s" "w (p + 4 + length d + 1) = MSB s"
  shows "packet_at w p = (if s = tifiles_checksum d then 0 else ERR_CHECKSUM, (target, cmd, of_nat (length d)), d)"
    and "packet_size w p = length d + 6"
proof -
  have "unat (of_nat (length d) :: u16) = length d" using assms(3) by (simp add: unat_of_nat)
  moreover have "header_at w p = (target, cmd, of_nat (length d))" "header_size w p = 4"
    unfolding header_at_def header_size_def w using assms(2) by (simp_all add: word_16_bytes)
  moreover have "cmd \<noteq> DBUS_CMD_ERR" "cmd \<noteq> DBUS_CMD_ERR2" using assms(1) no_data_errors by metis+
  moreover have "checked w (p + 4) (length d) = (if s = tifiles_checksum d then 0 else ERR_CHECKSUM)"
    unfolding checked_def sum word_16_bytes d by simp
  ultimately show "packet_at w p = (if s = tifiles_checksum d then 0 else ERR_CHECKSUM, (target, cmd, of_nat (length d)), d)"
    "packet_size w p = length d + 6"
    using assms(1) w(2) d unfolding packet_at_def packet_size_def Let_def by simp_all
qed

lemma packet_round:
  assumes "cmd \<in> set data_commands" "has_length target cmd" "length d < 65536"
    and "carries w p (packet_bytes target cmd (Some d))"
  shows "packet_at w p = (0, (target, cmd, of_nat (length d)), d)" "packet_size w p = length (packet_bytes target cmd (Some d))"
proof -
  have c: "carries w p (dbus_frame target cmd (length d) d)" using assms(4) by (simp add: packet_bytes_def)
  note P = packet_at_frame [OF assms(1-3) frame_parts [OF c]]
  show "packet_at w p = (0, (target, cmd, of_nat (length d)), d)" "packet_size w p = length (packet_bytes target cmd (Some d))"
    using P by (simp_all add: packet_bytes_def)
qed

lemma short_round:
  assumes "cmd \<in> set short_commands" "cmd \<noteq> DBUS_CMD_ERR" "cmd \<noteq> DBUS_CMD_ERR2" "target \<noteq> DBUS_MID_PC_TI80" "has_length target cmd"
    and "carries w p (packet_bytes target cmd None)"
  shows "packet_at w p = (0, (target, cmd, 0), [])" "packet_size w p = 4"
proof -
  have c: "carries w p [target, cmd, 0, 0]" using assms(4,6) by (simp add: packet_bytes_def)
  have w: "w p = target" "w (p + 1) = cmd" "w (p + 2) = 0" "w (p + 3) = 0"
    using carries_nth [OF c, of 0] carries_nth [OF c, of 1] carries_nth [OF c, of 2] carries_nth [OF c, of 3] by simp_all
  have "word_16 0 0 = 0" by (simp add: word_16_def)
  then have "header_at w p = (target, cmd, 0)" "header_size w p = 4"
    unfolding header_at_def header_size_def w using assms(5) by simp_all
  moreover have "cmd \<notin> set data_commands" using assms(1) by (auto simp: data_commands_def short_commands_def)
  ultimately show "packet_at w p = (0, (target, cmd, 0), [])" "packet_size w p = 4"
    using assms(1-3) w(2) unfolding packet_at_def packet_size_def Let_def by simp_all
qed

lemma checksum_sum: "tifiles_checksum d = sum_list (map ucast d)"
proof -
  have "foldl (\<lambda>c b. c + ucast b) c d = c + sum_list (map ucast d)" for c :: u16
    by (induction d arbitrary: c) (simp_all add: add.assoc)
  then show ?thesis by (simp add: tifiles_checksum_def)
qed

lemma checksum_update:
  assumes "i < length d" "b \<noteq> d ! i"
  shows "tifiles_checksum (d[i := b]) \<noteq> tifiles_checksum d"
proof
  have d: "d = take i d @ d ! i # drop (Suc i) d" using assms(1) by (simp add: id_take_nth_drop)
  have u: "d[i := b] = take i d @ b # drop (Suc i) d" using assms(1) by (simp add: upd_conv_take_nth_drop)
  assume "tifiles_checksum (d[i := b]) = tifiles_checksum d"
  then have "sum_list (map ucast (take i d @ b # drop (Suc i) d)) = (sum_list (map ucast (take i d @ d ! i # drop (Suc i) d)) :: u16)"
    unfolding checksum_sum u using d by metis
  then have "ucast b = (ucast (d ! i) :: u16)" by simp
  then have "unat (ucast b :: u16) = unat (ucast (d ! i) :: u16)" by simp
  moreover have "unat (ucast x :: u16) = unat x" for x :: byte
  proof -
    have "unat x < 2 ^ 8" by (rule order_less_le_trans [OF unsigned_less]) simp
    then show ?thesis by (simp add: unsigned_ucast_eq take_bit_nat_eq_self)
  qed
  ultimately show False using assms(2) by (simp add: word_unat_eq_iff)
qed

lemma corrupted_packet:
  assumes "cmd \<in> set data_commands" "target \<noteq> DBUS_MID_TI80_PC" "length d < 65536" and i: "i < length d" "b \<noteq> d ! i"
    and c: "carries w p ((dbus_frame target cmd (length d) d)[4 + i := b])"
  shows "packet_at w p = (ERR_CHECKSUM, (target, cmd, of_nat (length d)), d[i := b])" "packet_size w p = length d + 6"
proof -
  let ?e = "d[i := b]" and ?s = "tifiles_checksum d"
  have f: "(dbus_frame target cmd (length d) d)[4 + i := b]
      = [target, cmd, LSB (of_nat (length d)), MSB (of_nat (length d))] @ ?e @ [LSB ?s, MSB ?s]"
    using i(1) by (simp add: dbus_frame_def list_update_append eval_nat_numeral)
  have c': "carries w p [target, cmd, LSB (of_nat (length d)), MSB (of_nat (length d))]" "carries w (p + 4) ?e"
    "carries w (p + 4 + length d) [LSB ?s, MSB ?s]"
    using c unfolding f carries_append by (simp_all add: eval_nat_numeral)
  have w: "w p = target" "w (p + 1) = cmd" "w (p + 2) = LSB (of_nat (length ?e))" "w (p + 3) = MSB (of_nat (length ?e))"
    "bytes_taken w (p + 4) (length ?e) = ?e" "w (p + 4 + length ?e) = LSB ?s" "w (p + 4 + length ?e + 1) = MSB ?s"
    using carries_nth [OF c'(1), of 0] carries_nth [OF c'(1), of 1] carries_nth [OF c'(1), of 2] carries_nth [OF c'(1), of 3]
      carries_nth [OF c'(3), of 0] carries_nth [OF c'(3), of 1] c'(2) by (simp_all add: carries_def)
  have "has_length target cmd" "length ?e < 65536" using assms(2,3) by (simp_all add: has_length_def)
  note P = packet_at_frame [OF assms(1) this w]
  show "packet_at w p = (ERR_CHECKSUM, (target, cmd, of_nat (length d)), ?e)" "packet_size w p = length d + 6"
    using P checksum_update [OF i] by simp_all
qed

section \<open>The busy flag\<close>

text \<open>Programs that leave the flag as it is, and programs that end with it set back to \<open>b\<close>.\<close>

definition stays :: "(link, 'a) state \<Rightarrow> bool" where
  "stays p \<longleftrightarrow> state_io_rel (\<lambda>h h'. in_use h' = in_use h) p"

definition ends :: "(link, 'a) state \<Rightarrow> bool \<Rightarrow> bool" where
  "ends p b \<longleftrightarrow> (\<forall>h. in_use h \<longrightarrow> in_use (snd (run_state p h)) = b)"

named_theorems stays_rules

lemma stays_bind [stays_rules]: "stays p \<Longrightarrow> (\<And>a. stays (f a)) \<Longrightarrow> stays (State_Monad.bind p f)"
  by (simp add: stays_def state_io_rel_def split_beta)

lemma stays_basic [stays_rules]:
  "stays (State_Monad.return r)" "stays State_Monad.get"
  by (simp_all add: stays_def state_io_rel_def)

lemma stays_update [stays_rules]: "(\<And>h. in_use (g h) = in_use h) \<Longrightarrow> stays (State_Monad.update g)"
  by (simp add: stays_def state_io_rel_def State_Monad.update_def)

lemma stays_if [stays_rules]: "stays p \<Longrightarrow> stays q \<Longrightarrow> stays (if c then p else q)"
  by simp

lemma stays_split [stays_rules]: "(\<And>a b. stays (f a b)) \<Longrightarrow> stays (case x of (a, b) \<Rightarrow> f a b)"
  by (simp add: split_beta)

lemma stays_option [stays_rules]: "stays p \<Longrightarrow> (\<And>a. stays (f a)) \<Longrightarrow> stays (case x of None \<Rightarrow> p | Some a \<Rightarrow> f a)"
  by (cases x) simp_all

lemma stays_primitives [stays_rules]:
  "stays (record_event e)" "stays pbar" "stays (set_chunks n blk)" "stays (send_refresh r)" "stays (recv_refresh r)"
  by (simp_all add: record_event_def pbar_def set_chunks_def send_refresh_def recv_refresh_def stays_update)

lemma stays_cable [stays_rules]:
  "stays (cable_send env bs)" "stays (cable_recv env n)" "stays (fire_event env ty r pkt)"
  "stays (send_event env ty r len target cmd data)" "stays (is_cancelled env)" "stays (read_array env n d)"
  unfolding cable_send_def cable_recv_def send_event_def fire_event_def is_cancelled_def read_array_def Let_def
  by (intro stays_rules)+

lemma stays_chunks [stays_rules]: "stays (send_chunks env buf len i n)" "stays (recv_chunks env len n)"
proof -
  show "stays (send_chunks env buf len i n)"
    by (induction n arbitrary: i) (auto intro!: stays_rules)
  show "stays (recv_chunks env len n)"
    by (induction n) (auto intro!: stays_rules)
qed

lemma stays_parts [stays_rules]:
  "stays (dbus_send_short env target cmd)" "stays (dbus_send_std env target cmd n d)" "stays (recv_body env n)" "stays (read_header env old)"
  unfolding dbus_send_short_def dbus_send_std_def recv_body_def read_header_def Let_def
  by (intro stays_rules; simp)+

lemma stays_bracket: "(\<And>b. ends (f b) b) \<Longrightarrow> stays (State_Monad.bind set_busy_if_necessary f)"
proof -
  assume f: "\<And>b. ends (f b) b"
  have "in_use (snd (run_state (f (in_use h)) (if in_use h then h else h\<lparr>in_use := True\<rparr>))) = in_use h" for h
    using f [of "in_use h"] by (auto simp: ends_def)
  then show ?thesis
    by (simp add: stays_def state_io_rel_def set_busy_if_necessary_def Let_def State_Monad.update_def)
qed

lemma ends_bind: "stays p \<Longrightarrow> (\<And>a. ends (f a) b) \<Longrightarrow> ends (State_Monad.bind p f) b"
  by (simp add: ends_def stays_def state_io_rel_def split_beta)

lemma ends_split: "(\<And>a b. ends (f a b) c) \<Longrightarrow> ends (case x of (a, b) \<Rightarrow> f a b) c"
  by (simp add: split_beta)

lemma ends_clear: "ends (State_Monad.bind (clear_busy_if_necessary b) (\<lambda>_. State_Monad.return r)) b"
  by (simp add: ends_def clear_busy_if_necessary_def State_Monad.update_def)

lemmas ends_rules = ends_clear ends_bind ends_split

lemma stays_send: "stays (dbus_send env target cmd len data)"
  unfolding dbus_send_def Let_def
  by (intro stays_rules stays_bracket ends_rules)

lemma stays_recv_parts [stays_rules]: "stays (dbus_recv_header env old)" "stays (dbus_recv_data env len null)"
  unfolding dbus_recv_header_def dbus_recv_data_def
  by (intro stays_rules stays_bracket ends_rules)+

definition known_command :: "byte \<Rightarrow> bool" where
  "known_command cmd \<longleftrightarrow> cmd = DBUS_CMD_ERR \<or> cmd = DBUS_CMD_ERR2 \<or> cmd \<in> set data_commands \<or> cmd \<in> set short_commands"

lemma ends_by_command: "known_command (fst (snd header)) \<Longrightarrow> ends (recv_by_command env null b header) b"
  unfolding recv_by_command_def Let_def known_command_def
  by (auto intro!: stays_rules ends_rules)

lemma run_unknown: "\<not> known_command cmd \<Longrightarrow> run_state (recv_by_command env null b (host, cmd, len)) h = ((ERR_INVALID_CMD, (host, cmd, len), []), h)"
  by (simp add: recv_by_command_def known_command_def Let_def)

text \<open>What \<open>dbus_recv\<close> does with the flag: it comes back as it was, unless the command is unknown.\<close>

lemma recv_busy:
  assumes "run_state (dbus_recv env old null) h = ((ret, (host, cmd, len), d), h')"
  shows "in_use h' = in_use h \<or> in_use h' \<and> ret = ERR_INVALID_CMD \<and> \<not> known_command cmd"
proof (cases "no_handle h")
  case True
  then show ?thesis using assms by (simp add: dbus_recv_def)
next
  case False
  define h0 where "h0 = (if in_use h then h else h\<lparr>in_use := True\<rparr>)"
  obtain r header h1 where r: "run_state (dbus_recv_header env old) h0 = ((r, header), h1)" by (metis prod.exhaust)
  have "in_use h0" by (simp add: h0_def)
  moreover have "in_use h1 = in_use h0"
    using state_io_relD [OF stays_recv_parts(1) [unfolded stays_def] r] .
  ultimately have u: "in_use h0" "in_use h1" by simp_all
  have run: "run_state (dbus_recv env old null) h =
      run_state (if r \<noteq> 0 then clear_busy_if_necessary (in_use h) \<bind> (\<lambda>_. State_Monad.return (r, header, []))
        else recv_by_command env null (in_use h) header) h1"
    using False r by (simp add: dbus_recv_def set_busy_if_necessary_def Let_def State_Monad.update_def h0_def)
  show ?thesis
  proof (cases "r \<noteq> 0 \<or> known_command (fst (snd header))")
    case True
    then have "in_use (snd (run_state (dbus_recv env old null) h)) = in_use h"
      unfolding run using u(2) ends_by_command [of header env null "in_use h"] ends_clear [of "in_use h" "(r, header, [])"]
      by (auto simp: ends_def)
    then show ?thesis using assms by simp
  next
    case False
    moreover obtain a b c where "header = (a, b, c)" by (metis prod.exhaust)
    ultimately show ?thesis using run run_unknown [of b env null "in_use h" a c h1] assms u(2) by auto
  qed
qed

lemma unknown_busy:
  assumes w: "working env w" and h: "open_link h" and c: "\<not> known_command (w (asked (history h) + 1))"
  shows "in_use (snd (run_state (dbus_recv env old False) h))"
proof -
  let ?h = "if in_use h then h else h\<lparr>in_use := True\<rparr>" and ?p = "asked (history h)"
  have "open_link ?h" "asked (history ?h) = ?p" "in_use ?h" using h by (simp_all add: open_link_def)
  then obtain h1 where r: "run_state (dbus_recv_header env old) ?h = ((0, header_at w ?p), h1)"
    using does_recv_header [OF w, of ?h old] by (auto simp: does_def)
  have "in_use h1" using state_io_relD [OF stays_recv_parts(1) [unfolded stays_def] r] \<open>in_use ?h\<close> by simp
  moreover obtain host cmd n where hd: "header_at w ?p = (host, cmd, n)" "cmd = w (?p + 1)" by (simp add: header_at_def)
  moreover have "run_state (dbus_recv env old False) h = run_state (recv_by_command env False (in_use h) (header_at w ?p)) h1"
    using h r by (simp add: open_link_def dbus_recv_def set_busy_if_necessary_def Let_def State_Monad.update_def)
  ultimately show ?thesis using run_unknown c by simp
qed

lemma recv_busy_exact:
  assumes w: "working env w" and h: "open_link h"
  shows "in_use (snd (run_state (dbus_recv env old False) h)) \<longleftrightarrow> in_use h \<or> \<not> known_command (w (asked (history h) + 1))"
proof -
  obtain r host cmd n d h' where run: "run_state (dbus_recv env old False) h = ((r, (host, cmd, n), d), h')" by (metis prod.exhaust)
  then have "packet_at w (asked (history h)) = (r, (host, cmd, n), d)"
    using does_dbus_recv [OF w h, of old] by (auto simp: does_def)
  then have "cmd = w (asked (history h) + 1)" by (auto simp: packet_at_def header_at_def Let_def split: if_splits)
  then show ?thesis using recv_busy [OF run] unknown_busy [OF w h, of old] run by auto
qed

text \<open>A packet that was laid out here is printed without a complaint.\<close>

lemma dissect_frame:
  assumes "target \<noteq> DBUS_MID_PC_TI80" "target \<noteq> DBUS_MID_TI80_PC" "0 < length d" "length d < 65536"
  shows "dbus_dissect True (Some (dbus_frame target cmd (length d) d)) =
    (0, hex_digits 8 (length d) @ '' '' @ hex_digits 2 (unat target) @ '' '' @ hex_digits 2 (unat cmd)
      @ [CHR 0x09] @ ''| '' @ dbus_mid2direction target @ '': '' @ dbus_cmd2name cmd @ '' ('' @ dbus_cmd2desc cmd @ '')''
      @ [CHR 0x0A, CHR 0x09, CHR 0x09]
      @ dissect_bytes 0 (d @ [LSB (tifiles_checksum d), MSB (tifiles_checksum d)]) @ [CHR 0x0A])"
proof -
  let ?f = "dbus_frame target cmd (length d) d"
  have len: "unat (word_16 (?f ! 2) (?f ! 3)) = length d"
    using assms(4) by (simp add: dbus_frame_def word_16_bytes unat_of_nat)
  have parts: "?f ! 0 = target" "?f ! 1 = cmd" "length ?f = length d + 6"
    "drop 4 ?f = d @ [LSB (tifiles_checksum d), MSB (tifiles_checksum d)]"
    by (simp_all add: dbus_frame_def)
  have sum: "?f ! (4 + length d) = LSB (tifiles_checksum d)" "?f ! (4 + length d + 1) = MSB (tifiles_checksum d)"
    by (simp_all add: dbus_frame_def nth_append)
  show ?thesis
    unfolding dbus_dissect_def option.case Let_def parts len
    using assms sum by (simp add: dissect_length_def len parts word_16_bytes)
qed

text \<open>A cable for examples: it accepts everything and delivers a given stream.\<close>

definition stream_env :: "bytes \<Rightarrow> link_env" where
  "stream_env bs = \<lparr>send_answer = \<lambda>es bs. 0, recv_answer = \<lambda>es n. (0, \<lambda>i. if asked es + i < length bs then bs ! (asked es + i) else 0),
     event_hook = None, cancelled = \<lambda>es. False, past_end = \<lambda>i. 0, rounds = length bs\<rparr>"

definition example_link :: link where
  "example_link = \<lparr>no_handle = False, is_attached = True, is_open = True, link_model = CALC_TI83P, link_cable = CABLE_SLV, pkt_buffer = Some (replicate 65542 0),
     pkt_buffer2 = [], in_use = False, blk_size = 0, min_size = 0, max1 = 0, cnt1 = 0, max2 = 0, cnt2 = 0, send_refs = 0,
     recv_refs = 0, rpkt_maxlen = 1023, history = []\<rparr>"

lemma stream_works: "working (stream_env bs) (\<lambda>i. if i < length bs then bs ! i else 0)"
  by (simp add: working_def transparent_def stream_env_def)

lemma example_open [simp]: "open_link example_link" "history example_link = []" "in_use example_link = False"
  "link_model example_link = CALC_TI83P"
  by (simp_all add: open_link_def example_link_def)

lemma stream_carries: "carries (\<lambda>i. if i < length bs then bs ! i else 0) 0 bs"
  unfolding carries_def by (rule nth_equalityI) simp_all

section \<open>Properties\<close>

text \<open>
  C33: A packet with data sent is the packet received, for the seven commands \<open>dbus_recv\<close> takes data with
  (\<open>data_commands\<close>), 1 to 65535 bytes of data and every machine but the TI-80.  Whatever chunks \<open>dbus_send\<close>
  cuts it into, on a working cable exactly the header, the data and the checksum go out, once each; and
  whenever these bytes come in on any working cable, in the different chunks of \<open>dbus_recv\<close>, it returns 0
  with the same machine, command, length and data, having taken exactly the bytes of the packet.
\<close>

theorem packet_roundtrip:
  assumes "working env w" "open_link h" "working env' w'" "open_link h'"
    and "cmd \<in> set data_commands" "target \<noteq> DBUS_MID_TI80_PC" "0 < length d" "length d < 65536"
  shows "\<exists>h1 out. run_state (dbus_send env target cmd (of_nat (length d)) (Some d)) h = (0, h1)
    \<and> wire_bytes (history h1) = wire_bytes (history h) @ out \<and> out = dbus_frame target cmd (length d) d
    \<and> (carries w' (asked (history h')) out \<longrightarrow>
       (\<exists>h2. run_state (dbus_recv env' old False) h' = ((0, (target, cmd, of_nat (length d)), d), h2)
          \<and> asked (history h2) = asked (history h') + length out))"
proof -
  have len: "unat (of_nat (length d) :: u16) = length d" using assms(8) by (simp add: unat_of_nat)
  have "(of_nat (length d) :: u16) \<noteq> 0" using len assms(7) by (metis less_numeral_extra(3) unsigned_0)
  then have f: "fits_length (of_nat (length d)) (Some d)" by (simp add: fits_length_def len)
  have b: "packet_bytes target cmd (Some d) = dbus_frame target cmd (length d) d" by (simp add: packet_bytes_def)
  obtain h1 where "run_state (dbus_send env target cmd (of_nat (length d)) (Some d)) h = (0, h1)"
    "wire_bytes (history h1) = wire_bytes (history h) @ dbus_frame target cmd (length d) d"
    using does_dbus_send [OF assms(1,2) f, of target cmd] by (auto simp: does_def advances_def b)
  moreover have "\<exists>h2. run_state (dbus_recv env' old False) h' = ((0, (target, cmd, of_nat (length d)), d), h2)
      \<and> asked (history h2) = asked (history h') + length (dbus_frame target cmd (length d) d)"
    if "carries w' (asked (history h')) (dbus_frame target cmd (length d) d)"
    using does_dbus_recv [OF assms(3,4), of old] packet_round [of cmd target d w' "asked (history h')"] that assms(5,6,8)
    by (auto simp: does_def advances_def b has_length_def)
  ultimately show ?thesis by blast
qed

lemma packet_roundtrip_witness:
  "\<exists>h1 h2. run_state (dbus_send (stream_env []) DBUS_MID_PC_TI83p DBUS_CMD_XDP 3 (Some [1, 2, 255])) example_link = (0, h1)
    \<and> wire_bytes (history h1) = [0x23, 0x15, 3, 0, 1, 2, 255, 2, 1]
    \<and> run_state (dbus_recv (stream_env [0x23, 0x15, 3, 0, 1, 2, 255, 2, 1]) (0, 0, 0) False) example_link
      = ((0, (0x23, 0x15, 3), [1, 2, 255]), h2)"
proof -
  let ?d = "[1, 2, 255] :: bytes" and ?bs = "[0x23, 0x15, 3, 0, 1, 2, 255, 2, 1] :: bytes"
  have f: "dbus_frame DBUS_MID_PC_TI83p DBUS_CMD_XDP (length ?d) ?d = ?bs"
    by (simp add: dbus_frame_def LSB_def MSB_def tifiles_checksum_def)
  have c: "carries (\<lambda>i. if i < length ?bs then ?bs ! i else 0) (asked (history example_link)) ?bs"
    using stream_carries [of ?bs] by (simp del: length_Cons list.size)
  have "DBUS_CMD_XDP \<in> set data_commands" by (simp add: data_commands_def)
  from packet_roundtrip [OF stream_works example_open(1) stream_works example_open(1) this, of DBUS_MID_PC_TI83p ?d "[]" ?bs "(0, 0, 0)", unfolded f]
  have "\<exists>h1 out. run_state (dbus_send (stream_env []) DBUS_MID_PC_TI83p DBUS_CMD_XDP (of_nat (length ?d)) (Some ?d)) example_link = (0, h1)
    \<and> wire_bytes (history h1) = wire_bytes (history example_link) @ out \<and> out = ?bs
    \<and> (carries (\<lambda>i. if i < length ?bs then ?bs ! i else 0) (asked (history example_link)) out \<longrightarrow>
       (\<exists>h2. run_state (dbus_recv (stream_env ?bs) (0, 0, 0) False) example_link
          = ((0, (DBUS_MID_PC_TI83p, DBUS_CMD_XDP, of_nat (length ?d)), ?d), h2)
          \<and> asked (history h2) = asked (history example_link) + length out))" by simp
  then show ?thesis using c by auto
qed

text \<open>
  C37: A corrupted byte is noticed.  When one byte of the data of a packet, with one of the seven commands
  \<open>dbus_recv\<close> takes data with and fewer than 65536 bytes, from a machine other than the TI-80, arrives
  changed, whatever it is changed to, \<open>dbus_recv\<close> takes the whole packet, returns \<open>ERR_CHECKSUM\<close> and hands
  over the header and the data as they came.
\<close>

theorem corruption_detected:
  assumes "working env w" "open_link h" "cmd \<in> set data_commands" "target \<noteq> DBUS_MID_TI80_PC" "length d < 65536"
    and "i < length d" "b \<noteq> d ! i"
    and "carries w (asked (history h)) ((dbus_frame target cmd (length d) d)[4 + i := b])"
  shows "\<exists>h'. run_state (dbus_recv env old False) h = ((ERR_CHECKSUM, (target, cmd, of_nat (length d)), d[i := b]), h')
    \<and> asked (history h') = asked (history h) + length d + 6"
  using does_dbus_recv [OF assms(1,2), of old] corrupted_packet [OF assms(3-8)] by (auto simp: does_def advances_def)

lemma corruption_detected_witness:
  "\<exists>h'. run_state (dbus_recv (stream_env [0x73, 0x15, 3, 0, 1, 7, 255, 2, 1]) (0, 0, 0) False) example_link
    = ((ERR_CHECKSUM, (0x73, 0x15, 3), [1, 7, 255]), h')"
proof -
  let ?d = "[1, 2, 255] :: bytes" and ?bs = "[0x73, 0x15, 3, 0, 1, 7, 255, 2, 1] :: bytes"
  have "(dbus_frame 0x73 DBUS_CMD_XDP (length ?d) ?d)[4 + 1 := 7] = ?bs"
    by (simp add: dbus_frame_def LSB_def MSB_def tifiles_checksum_def)
  then have c: "carries (\<lambda>i. if i < length ?bs then ?bs ! i else 0) (asked (history example_link))
      ((dbus_frame 0x73 DBUS_CMD_XDP (length ?d) ?d)[4 + 1 := 7])"
    using stream_carries [of ?bs] by (simp del: length_Cons list.size)
  have x: "DBUS_CMD_XDP \<in> set data_commands" by (simp add: data_commands_def)
  show ?thesis using corruption_detected [OF stream_works example_open(1) x _ _ _ _ c, of "(0, 0, 0)"] by auto
qed

text \<open>
  C39: The busy flag and the command that leaks it.  Sending a packet and receiving a header or data
  leave the flag of the handle as they found it, whatever the cable, the hook and the user do.
  \<open>dbus_recv\<close> does not: on a working cable it leaves the flag set, though it was clear, exactly when
  the calculator sends a command outside its list, because that branch returns before the release.
\<close>

theorem busy_flag_leaks:
  assumes "working env w" "open_link h"
  shows "(\<forall>env target cmd len data h. in_use (snd (run_state (dbus_send env target cmd len data) h)) = in_use h)
    \<and> (\<forall>env old h. in_use (snd (run_state (dbus_recv_header env old) h)) = in_use h)
    \<and> (\<forall>env len null h. in_use (snd (run_state (dbus_recv_data env len null) h)) = in_use h)
    \<and> (in_use (snd (run_state (dbus_recv env old False) h)) \<longleftrightarrow> in_use h \<or> \<not> known_command (w (asked (history h) + 1)))"
  using recv_busy_exact [OF assms] stays_send stays_recv_parts by (auto simp: stays_def state_io_rel_def)

lemma busy_flag_leaks_witness:
  "in_use (snd (run_state (dbus_recv (stream_env [0x73, DBUS_CMD_VER, 0, 0]) (0, 0, 0) False) example_link))"
  using busy_flag_leaks [OF stream_works example_open(1), of "[0x73, DBUS_CMD_VER, 0, 0]"]
  by (simp add: known_command_def data_commands_def short_commands_def)

end
