(* ===== verification/Link_Program.thy ===== *)
theory Link_Program
  imports Dbus_Packet
begin

text \<open>
  The shapes the operations of the calculators are written in: calls in a row that end with the first
  failure, the progress shown to the user, and what is received into an array.
\<close>

section \<open>Calls in a row\<close>

primrec steps :: "(link, int) state list \<Rightarrow> (link, int) state" where
  "steps [] = State_Monad.return 0"
| "steps (p # ps) = do { ret \<leftarrow> p; if ret \<noteq> 0 then State_Monad.return ret else steps ps }"

text \<open>A call whose other results are not used.\<close>

definition only_status :: "(link, int \<times> 'a) state \<Rightarrow> (link, int) state" where
  "only_status p = do { (ret, x) \<leftarrow> p; State_Monad.return ret }"

text \<open>A call that yields a value, and what is done with it if the call has succeeded.\<close>

definition yielding :: "(link, int \<times> 'a) state \<Rightarrow> 'b \<Rightarrow> ('a \<Rightarrow> (link, int \<times> 'b) state) \<Rightarrow> (link, int \<times> 'b) state" where
  "yielding p b f = do { (ret, x) \<leftarrow> p; if ret \<noteq> 0 then State_Monad.return (ret, b) else f x }"

definition also_status :: "(link, int) state \<Rightarrow> 'b \<Rightarrow> (link, int \<times> 'b) state" where
  "also_status p b = do { ret \<leftarrow> p; State_Monad.return (ret, b) }"

definition progress :: "nat \<Rightarrow> (link, unit) state" where
  "progress n = do { State_Monad.update (\<lambda>h. h\<lparr>cnt2 := n\<rparr>); pbar }"

definition start_progress :: "nat \<Rightarrow> nat \<Rightarrow> (link, unit) state" where
  "start_progress n m = State_Monad.update (\<lambda>h. h\<lparr>cnt2 := n, max2 := m\<rparr>)"

text \<open>Data received into an array of \<open>n\<close> bytes.\<close>

definition received_into :: "nat \<Rightarrow> bytes \<Rightarrow> (link, unit) state" where
  "received_into n d = (if length d > n then record_event (Overrun (length d - n)) else State_Monad.return ())"

definition set_buffer2 :: "bytes \<Rightarrow> (link, unit) state" where
  "set_buffer2 d = State_Monad.update (\<lambda>h. h\<lparr>pkt_buffer2 := write_at (pkt_buffer2 h) 0 d\<rparr>)"

end
