(* ===== verification/Conversation.thy ===== *)
theory Conversation
  imports Dbus_Wire Link_Program
begin

text \<open>
  Conversations with a calculator.  \<open>converses_in P w p r out inp\<close>: from every state with \<open>P\<close> in which the
  calculator sends the bytes \<open>inp\<close> next, the program \<open>p\<close> returns \<open>r\<close>, sends \<open>out\<close>, takes exactly \<open>inp\<close>
  and does nothing undefined.  The rules compose for every \<open>P\<close> a program does not change by talking.
\<close>

definition converses_in :: "(link \<Rightarrow> bool) \<Rightarrow> (nat \<Rightarrow> byte) \<Rightarrow> (link, 'a) state \<Rightarrow> 'a \<Rightarrow> bytes \<Rightarrow> bytes \<Rightarrow> bool" where
  "converses_in P w p r out inp \<longleftrightarrow> (\<forall>h. P h \<and> carries w (asked (history h)) inp \<longrightarrow> does p h r out (length inp))"

locale conversation =
  fixes P :: "link \<Rightarrow> bool"
  assumes stable: "advances h h' out k \<Longrightarrow> P h \<Longrightarrow> P h'"
begin

lemma converses_bind:
  assumes "converses_in P w p r out inp" "converses_in P w (f r) r' out' inp'"
  shows "converses_in P w (State_Monad.bind p f) r' (out @ out') (inp @ inp')"
  unfolding converses_in_def length_append
proof (intro allI impI, elim conjE)
  fix h
  assume h: "P h" "carries w (asked (history h)) (inp @ inp')"
  show "does (State_Monad.bind p f) h r' (out @ out') (length inp + length inp')"
  proof (rule does_bind)
    show "does p h r out (length inp)" using assms(1) h by (auto simp: converses_in_def carries_append)
    show "does (f r) h' r' out' (length inp')" if "advances h h' out (length inp)" for h'
      using assms(2) h stable [OF that h(1)] advancesD(5) [OF that] by (auto simp: converses_in_def carries_append)
  qed
qed

lemma converses_then:
  "converses_in P w p r out inp \<Longrightarrow> converses_in P w (f r) r' out' inp' \<Longrightarrow> o' = out @ out' \<Longrightarrow> i' = inp @ inp'
    \<Longrightarrow> converses_in P w (State_Monad.bind p f) r' o' i'"
  by (simp only: converses_bind)

lemma converses_quietly:
  "converses_in P w p r [] [] \<Longrightarrow> converses_in P w (f r) r' out inp \<Longrightarrow> converses_in P w (State_Monad.bind p f) r' out inp"
  using converses_bind by fastforce

lemma converses_return [simp]: "converses_in P w (State_Monad.return r) r [] []"
  by (simp add: converses_in_def)

lemma converses_get:
  assumes "\<And>h. P h \<Longrightarrow> converses_in P w (f h) r out inp"
  shows "converses_in P w (State_Monad.bind State_Monad.get f) r out inp"
  using assms by (auto simp: converses_in_def intro!: does_get)

lemma converses_update: "(\<And>h. advances h (g h) [] 0) \<Longrightarrow> converses_in P w (State_Monad.update g) () [] []"
  by (auto simp: converses_in_def intro!: does_update)

lemma converses_pbar [simp]: "converses_in P w pbar () [] []"
  by (simp add: converses_in_def)

lemma converses_event:
  "\<not> faulty e \<Longrightarrow> (\<And>es. wire_bytes (e # es) = wire_bytes es \<and> asked (e # es) = asked es) \<Longrightarrow> converses_in P w (record_event e) () [] []"
  unfolding record_event_def by (rule converses_update) (simp add: advances_def open_link_def)

lemma converses_label [simp]: "converses_in P w (record_event (Label s)) () [] []"
  by (rule converses_event) simp_all

lemma converses_start_progress [simp]: "converses_in P w (start_progress a b) () [] []"
  unfolding start_progress_def by (rule converses_update) (simp add: advances_def open_link_def)

lemma converses_steps_Nil [simp]: "converses_in P w (steps []) 0 [] []"
  by simp

lemma converses_steps:
  "converses_in P w p 0 out inp \<Longrightarrow> converses_in P w (steps ps) r out' inp' \<Longrightarrow> o' = out @ out' \<Longrightarrow> i' = inp @ inp'
    \<Longrightarrow> converses_in P w (steps (p # ps)) r o' i'"
  by (auto intro!: converses_bind)

lemma converses_only_status: "converses_in P w p (r, x) out inp \<Longrightarrow> converses_in P w (only_status p) r out inp"
  unfolding only_status_def by (erule converses_then [where out' = "[]" and inp' = "[]"]) simp_all

lemma converses_also_status: "converses_in P w p r out inp \<Longrightarrow> converses_in P w (also_status p b) (r, b) out inp"
  unfolding also_status_def by (erule converses_then [where out' = "[]" and inp' = "[]"]) simp_all

lemma converses_yielding:
  "converses_in P w p (0, x) out inp \<Longrightarrow> converses_in P w (f x) r out' inp' \<Longrightarrow> o' = out @ out' \<Longrightarrow> i' = inp @ inp'
    \<Longrightarrow> converses_in P w (yielding p b f) r o' i'"
  unfolding yielding_def by (erule converses_then [where out' = out' and inp' = inp']) simp_all

lemma converses_does: "(\<And>h. does p h r out 0) \<Longrightarrow> converses_in P w p r out []"
  by (simp add: converses_in_def)

lemma converses_cable:
  assumes "working env w"
  shows "converses_in P w (cable_send env bs) 0 bs []"
    and "length inp = n \<Longrightarrow> converses_in P w (cable_recv env n) (0, inp) [] inp"
    and "converses_in P w (fire_event env ty r pkt) r [] []"
    and "converses_in P w (is_cancelled env) False [] []"
proof -
  show "converses_in P w (cable_recv env n) (0, inp) [] inp" if "length inp = n"
    using does_recv [OF assms, of n] that unfolding converses_in_def carries_def by metis
qed (rule converses_does does_send does_fire does_cancel assms)+

text \<open>Between taking the busy flag and giving it back.\<close>

lemma converses_busy:
  assumes "\<And>b. converses_in P w (f b) r out inp"
  shows "converses_in P w (State_Monad.bind set_busy_if_necessary f) r out inp"
  unfolding set_busy_if_necessary_def Let_def bind_assoc
  by (rule converses_get, rule converses_quietly)
    (auto intro!: converses_update simp: advances_def open_link_def assms)

lemma converses_clear: "converses_in P w (clear_busy_if_necessary b) () [] []"
  by (rule converses_does) (rule does_busy)

lemma converses_runs:
  assumes "converses_in P w p r out inp" "P h" "carries w (asked (history h)) inp"
  shows "\<exists>h'. run_state p h = (r, h') \<and> advances h h' out (length inp)"
  using assms by (auto simp: converses_in_def does_def)

end

end
