(* ===== verification/Cmd_Z80.thy ===== *)
theory Cmd_Z80
  imports Dbus_Packet
begin

text \<open>
  The commands of the Z80 calculators (\<open>libticalcs\<close>, \<open>cmdz80.cc\<close>, \<open>cmdz80.h\<close>): how each is laid out as a
  packet, and what each expected answer is checked for.  A name is an array of bytes; the functions
  that receive one take the old array and return the new one with the other results, or \<open>None\<close> when they
  fail before writing them.  The log, and the names converted for it, are left out.
\<close>

section \<open>Machines and sizes\<close>

abbreviation (input) TI83p_APPL :: byte where "TI83p_APPL \<equiv> 0x24"
abbreviation (input) TI83p_IDLIST :: byte where "TI83p_IDLIST \<equiv> 0x26"
abbreviation (input) TI83p_GETCERT :: byte where "TI83p_GETCERT \<equiv> 0x27"
abbreviation (input) TI86_DIR :: byte where "TI86_DIR \<equiv> 0x15"
abbreviation (input) TI86_ZRCL :: byte where "TI86_ZRCL \<equiv> 0x1B"
abbreviation (input) TI86_BKUP :: byte where "TI86_BKUP \<equiv> 0x1D"
abbreviation (input) ATTRB_NONE :: byte where "ATTRB_NONE \<equiv> 0"
abbreviation (input) ATTRB_ARCHIVED :: byte where "ATTRB_ARCHIVED \<equiv> 3"

definition TI7383p_BKUP :: "CalcModel \<Rightarrow> byte" where
  "TI7383p_BKUP m = (if m = CALC_TI73 then 0x13 else 0x13)"

definition EXTRAS :: "CalcModel \<Rightarrow> u16" where
  "EXTRAS m = (if m = CALC_TI73 then 0 else 2)"

definition TI8283_BKUP :: "CalcModel \<Rightarrow> byte" where
  "TI8283_BKUP m = (if m = CALC_TI82 then 0x0F else 0x13)"

definition TI8586_BKUP :: "CalcModel \<Rightarrow> byte" where
  "TI8586_BKUP m = (if m = CALC_TI85 then 0x1D else 0x1D)"

definition tiz80_handle_to_dbus_mid :: "link \<Rightarrow> byte" where
  "tiz80_handle_to_dbus_mid h =
     (if no_handle h then 0
      else case link_model h of
        CALC_TI73 \<Rightarrow> DBUS_MID_PC_TI73
      | CALC_TI82 \<Rightarrow> DBUS_MID_PC_TI82
      | CALC_TI83 \<Rightarrow> DBUS_MID_PC_TI83
      | CALC_TI83P \<Rightarrow> DBUS_MID_PC_TI83p
      | CALC_TI84P \<Rightarrow> DBUS_MID_PC_TI83p
      | CALC_TI84PC \<Rightarrow> DBUS_MID_PC_TI83p
      | CALC_TI85 \<Rightarrow> DBUS_MID_PC_TI85
      | CALC_TI86 \<Rightarrow> DBUS_MID_PC_TI86
      | _ \<Rightarrow> DBUS_MID_PC_TIXX)"

definition tiz80_handle_to_dbus_mid_7383p :: "link \<Rightarrow> byte" where
  "tiz80_handle_to_dbus_mid_7383p h =
     (if \<not> no_handle h then (if link_model h = CALC_TI73 then DBUS_MID_PC_TI73 else DBUS_MID_PC_TI83p) else 0)"

definition tiz80_handle_to_dbus_mid_8283 :: "link \<Rightarrow> byte" where
  "tiz80_handle_to_dbus_mid_8283 h =
     (if \<not> no_handle h then (if link_model h = CALC_TI82 then DBUS_MID_PC_TI82 else DBUS_MID_PC_TI83) else 0)"

definition tiz80_handle_to_dbus_mid_8586 :: "link \<Rightarrow> byte" where
  "tiz80_handle_to_dbus_mid_8586 h =
     (if \<not> no_handle h then (if link_model h = CALC_TI85 then DBUS_MID_PC_TI85 else DBUS_MID_PC_TI86) else 0)"

text \<open>\<open>VALIDATE_HANDLE\<close>, and \<open>VALIDATE_NONNULL\<close> of a pointer to the argument.\<close>

definition with_handle :: "'a \<Rightarrow> (link \<Rightarrow> (link, 'a) state) \<Rightarrow> (link, 'a) state" where
  "with_handle failure p = do { h \<leftarrow> State_Monad.get; if no_handle h then State_Monad.return failure else p h }"

definition with_nonnull :: "'b option \<Rightarrow> ('b \<Rightarrow> (link, int) state) \<Rightarrow> (link, int) state" where
  "with_nonnull x p = (case x of None \<Rightarrow> State_Monad.return ERR_INVALID_PARAMETER | Some a \<Rightarrow> p a)"

section \<open>Sending\<close>

definition tiz80_send_simple_cmd :: "link_env \<Rightarrow> byte \<Rightarrow> byte \<Rightarrow> u16 \<Rightarrow> bytes option \<Rightarrow> (link, int) state" where
  "tiz80_send_simple_cmd env target cmd len data = with_handle ERR_INVALID_HANDLE (\<lambda>h. dbus_send env target cmd len data)"

definition tiz80_send_bkup_VAR :: "link_env \<Rightarrow> bytes \<Rightarrow> bytes \<Rightarrow> byte \<Rightarrow> (link, int) state" where
  "tiz80_send_bkup_VAR env buffer varname target = do {
     name \<leftarrow> read_array env 6 varname;
     dbus_send env target DBUS_CMD_VAR 9 (Some (buffer @ name)) }"

text \<open>The start of a variable header, and the two bytes after the name.\<close>

definition var_start :: "u16 \<Rightarrow> byte \<Rightarrow> bytes" where
  "var_start varsize vartype = [LSB varsize, MSB varsize, vartype]"

definition var_extras :: "byte \<Rightarrow> byte \<Rightarrow> bytes" where
  "var_extras varattr version = [version, if varattr = ATTRB_ARCHIVED then 0x80 else 0x00]"

definition ti73_send_VAR :: "link_env \<Rightarrow> u16 \<Rightarrow> byte \<Rightarrow> bytes option \<Rightarrow> byte \<Rightarrow> byte \<Rightarrow> (link, int) state" where
  "ti73_send_VAR env varsize vartype varname varattr version =
     with_handle ERR_INVALID_HANDLE (\<lambda>h. with_nonnull varname (\<lambda>varname.
       if vartype \<noteq> TI7383p_BKUP (link_model h) \<or> version \<noteq> 0
       then do {
         name \<leftarrow> read_array env 8 varname;
         dbus_send env (tiz80_handle_to_dbus_mid_7383p h) DBUS_CMD_VAR (11 + EXTRAS (link_model h))
           (Some (var_start varsize vartype @ name @ var_extras varattr version)) }
       else tiz80_send_bkup_VAR env (var_start varsize vartype) varname (tiz80_handle_to_dbus_mid_7383p h)))"

definition ti82_send_VAR :: "link_env \<Rightarrow> u16 \<Rightarrow> byte \<Rightarrow> bytes option \<Rightarrow> (link, int) state" where
  "ti82_send_VAR env varsize vartype varname =
     with_handle ERR_INVALID_HANDLE (\<lambda>h. with_nonnull varname (\<lambda>varname.
       if vartype \<noteq> TI8283_BKUP (link_model h)
       then do {
         name \<leftarrow> read_array env 8 varname;
         dbus_send env (tiz80_handle_to_dbus_mid_8283 h) DBUS_CMD_VAR 11 (Some (var_start varsize vartype @ name)) }
       else tiz80_send_bkup_VAR env (var_start varsize vartype) varname (tiz80_handle_to_dbus_mid_8283 h)))"

text \<open>\<open>strlen\<close> clamped to 8, for the models whose names have a length byte.\<close>

definition name_8 :: "bytes \<Rightarrow> bytes" where
  "name_8 varname = take 8 (takeWhile (\<lambda>b. b \<noteq> 0) varname)"

definition ti85_send_VAR :: "link_env \<Rightarrow> u16 \<Rightarrow> byte \<Rightarrow> bytes option \<Rightarrow> (link, int) state" where
  "ti85_send_VAR env varsize vartype varname =
     with_handle ERR_INVALID_HANDLE (\<lambda>h. with_nonnull varname (\<lambda>varname.
       if vartype \<noteq> TI8586_BKUP (link_model h)
       then dbus_send env (tiz80_handle_to_dbus_mid_8586 h) DBUS_CMD_VAR (4 + of_nat (length (name_8 varname)))
         (Some (var_start varsize vartype @ [of_nat (length (name_8 varname))] @ name_8 varname))
       else tiz80_send_bkup_VAR env (var_start varsize vartype) varname (tiz80_handle_to_dbus_mid_8586 h)))"

definition LSW :: "u32 \<Rightarrow> u16" where "LSW l = ucast (l AND 0x0000FFFF)"

definition MSW :: "u32 \<Rightarrow> u16" where "MSW l = ucast (drop_bit 16 (l AND 0xFFFF0000))"

definition ti73_send_VAR2 :: "link_env \<Rightarrow> u32 \<Rightarrow> byte \<Rightarrow> byte \<Rightarrow> u16 \<Rightarrow> u16 \<Rightarrow> (link, int) state" where
  "ti73_send_VAR2 env len ty flag offset page =
     with_handle ERR_INVALID_HANDLE (\<lambda>h.
       dbus_send env (tiz80_handle_to_dbus_mid_7383p h) DBUS_CMD_VAR 10
         (Some [LSB (LSW len), MSB (LSW len), ty, LSB (MSW len), MSB (MSW len), flag,
                LSB offset, MSB offset, LSB page, MSB page]))"

definition tiz80_send_CTS :: "link_env \<Rightarrow> byte \<Rightarrow> (link, int) state" where
  "tiz80_send_CTS env target = tiz80_send_simple_cmd env target DBUS_CMD_CTS 0 None"

definition tiz80_send_XDP :: "link_env \<Rightarrow> u16 \<Rightarrow> bytes option \<Rightarrow> byte \<Rightarrow> (link, int) state" where
  "tiz80_send_XDP env len data target = with_handle ERR_INVALID_HANDLE (\<lambda>h. dbus_send env target DBUS_CMD_XDP len data)"

definition tiz80_send_SKP :: "link_env \<Rightarrow> byte \<Rightarrow> byte \<Rightarrow> (link, int) state" where
  "tiz80_send_SKP env rej_code target = with_handle ERR_INVALID_HANDLE (\<lambda>h. dbus_send env target DBUS_CMD_SKP 1 (Some [rej_code]))"

definition tiz80_send_ACK :: "link_env \<Rightarrow> byte \<Rightarrow> (link, int) state" where
  "tiz80_send_ACK env target = tiz80_send_simple_cmd env target DBUS_CMD_ACK 2 None"

definition tiz80_send_ERR :: "link_env \<Rightarrow> byte \<Rightarrow> (link, int) state" where
  "tiz80_send_ERR env target = tiz80_send_simple_cmd env target DBUS_CMD_ERR 2 None"

definition ti73_send_RDY :: "link_env \<Rightarrow> (link, int) state" where
  "ti73_send_RDY env = with_handle ERR_INVALID_HANDLE (\<lambda>h. tiz80_send_simple_cmd env (tiz80_handle_to_dbus_mid_7383p h) DBUS_CMD_RDY 2 None)"

definition tiz80_send_SCR :: "link_env \<Rightarrow> byte \<Rightarrow> (link, int) state" where
  "tiz80_send_SCR env target = tiz80_send_simple_cmd env target DBUS_CMD_SCR 2 None"

definition ti80_send_SCR :: "link_env \<Rightarrow> (link, int) state" where
  "ti80_send_SCR env = tiz80_send_simple_cmd env DBUS_MID_PC_TI80 DBUS_CMD_SCR 0 None"

text \<open>A key is a packet of four bytes with the code in the place of the length.\<close>

definition tiz80_send_KEY :: "link_env \<Rightarrow> u16 \<Rightarrow> byte \<Rightarrow> (link, int) state" where
  "tiz80_send_KEY env scancode target = with_handle ERR_INVALID_HANDLE (\<lambda>h. do {
     was_busy \<leftarrow> set_busy_if_necessary;
     ret \<leftarrow> send_event env BEFORE_SEND_DBUS_PKT 0 scancode target DBUS_CMD_KEY None;
     ret \<leftarrow> (if ret = 0 then cable_send env [target, DBUS_CMD_KEY, LSB scancode, MSB scancode] else State_Monad.return ret);
     ret \<leftarrow> send_event env AFTER_SEND_DBUS_PKT ret scancode target DBUS_CMD_KEY None;
     clear_busy_if_necessary was_busy;
     State_Monad.return ret })"

definition tiz80_send_EOT :: "link_env \<Rightarrow> byte \<Rightarrow> (link, int) state" where
  "tiz80_send_EOT env target = tiz80_send_simple_cmd env target DBUS_CMD_EOT 2 None"

definition ti73_send_REQ :: "link_env \<Rightarrow> u16 \<Rightarrow> byte \<Rightarrow> bytes option \<Rightarrow> byte \<Rightarrow> byte \<Rightarrow> (link, int) state" where
  "ti73_send_REQ env varsize vartype varname varattr version =
     with_handle ERR_INVALID_HANDLE (\<lambda>h. with_nonnull varname (\<lambda>varname. do {
       name \<leftarrow> read_array env 8 varname;
       let buffer = var_start varsize vartype @ name @ var_extras varattr version;
       if vartype \<noteq> TI83p_IDLIST \<and> vartype \<noteq> TI83p_GETCERT
       then dbus_send env (tiz80_handle_to_dbus_mid_7383p h) DBUS_CMD_REQ (11 + EXTRAS (link_model h)) (Some buffer)
       else if vartype \<noteq> TI83p_GETCERT \<and> link_model h \<noteq> CALC_TI73
       then dbus_send env (tiz80_handle_to_dbus_mid_7383p h) DBUS_CMD_REQ 11 (Some buffer)
       else dbus_send env DBUS_MID_PC_TI73 DBUS_CMD_REQ 3 (Some buffer) }))"

definition ti82_send_REQ :: "link_env \<Rightarrow> u16 \<Rightarrow> byte \<Rightarrow> bytes option \<Rightarrow> (link, int) state" where
  "ti82_send_REQ env varsize vartype varname =
     with_handle ERR_INVALID_HANDLE (\<lambda>h. with_nonnull varname (\<lambda>varname. do {
       name \<leftarrow> read_array env 8 varname;
       dbus_send env (tiz80_handle_to_dbus_mid_8283 h) DBUS_CMD_REQ 11 (Some (var_start varsize vartype @ name)) }))"

definition ti85_send_REQ :: "link_env \<Rightarrow> u16 \<Rightarrow> byte \<Rightarrow> bytes option \<Rightarrow> (link, int) state" where
  "ti85_send_REQ env varsize vartype varname =
     with_handle ERR_INVALID_HANDLE (\<lambda>h. with_nonnull varname (\<lambda>varname.
       if link_model h = CALC_TI86 \<and> vartype \<ge> TI86_DIR \<and> vartype \<le> TI86_ZRCL
       then dbus_send env DBUS_MID_PC_TI86 DBUS_CMD_REQ 5 (Some [0, 0, vartype, 0, 0, 0])
       else if link_model h = CALC_TI86 \<and> vartype = TI86_BKUP
       then dbus_send env DBUS_MID_PC_TI86 DBUS_CMD_REQ 11 (Some ([0, 0, vartype] @ replicate 9 0))
       else dbus_send env (tiz80_handle_to_dbus_mid_8586 h) DBUS_CMD_REQ (4 + of_nat (length (name_8 varname)))
         (Some (var_start varsize vartype @ [of_nat (length (name_8 varname))] @ name_8 varname))))"

definition ti73_send_REQ2 :: "link_env \<Rightarrow> u16 \<Rightarrow> byte \<Rightarrow> bytes option \<Rightarrow> byte \<Rightarrow> (link, int) state" where
  "ti73_send_REQ2 env appsize apptype appname appattr =
     with_handle ERR_INVALID_HANDLE (\<lambda>h. with_nonnull appname (\<lambda>appname. do {
       name \<leftarrow> read_array env 8 appname;
       dbus_send env (tiz80_handle_to_dbus_mid_7383p h) DBUS_CMD_REQ 11 (Some (var_start appsize apptype @ name)) }))"

definition ti73_send_RTS :: "link_env \<Rightarrow> u16 \<Rightarrow> byte \<Rightarrow> bytes option \<Rightarrow> byte \<Rightarrow> byte \<Rightarrow> (link, int) state" where
  "ti73_send_RTS env varsize vartype varname varattr version =
     with_handle ERR_INVALID_HANDLE (\<lambda>h. with_nonnull varname (\<lambda>varname. do {
       name \<leftarrow> read_array env 8 varname;
       let buffer = var_start varsize vartype @ name @ var_extras varattr version;
       if vartype \<noteq> TI7383p_BKUP (link_model h) \<or> version \<noteq> 0
       then dbus_send env (tiz80_handle_to_dbus_mid_7383p h) DBUS_CMD_RTS (11 + EXTRAS (link_model h)) (Some buffer)
       else dbus_send env (tiz80_handle_to_dbus_mid_7383p h) DBUS_CMD_RTS 9 (Some buffer) }))"

definition ti82_send_RTS :: "link_env \<Rightarrow> u16 \<Rightarrow> byte \<Rightarrow> bytes option \<Rightarrow> (link, int) state" where
  "ti82_send_RTS env varsize vartype varname =
     with_handle ERR_INVALID_HANDLE (\<lambda>h. with_nonnull varname (\<lambda>varname. do {
       name \<leftarrow> read_array env 8 varname;
       dbus_send env (tiz80_handle_to_dbus_mid_8283 h) DBUS_CMD_RTS (if vartype \<noteq> TI8283_BKUP (link_model h) then 11 else 9)
         (Some (var_start varsize vartype @ name)) }))"

definition ti85_send_RTS :: "link_env \<Rightarrow> u16 \<Rightarrow> byte \<Rightarrow> bytes option \<Rightarrow> (link, int) state" where
  "ti85_send_RTS env varsize vartype varname =
     with_handle ERR_INVALID_HANDLE (\<lambda>h. with_nonnull varname (\<lambda>varname.
       dbus_send env (tiz80_handle_to_dbus_mid_8586 h) DBUS_CMD_RTS 12
         (Some (var_start varsize vartype @ [of_nat (length (name_8 varname))]
           @ name_8 varname @ replicate (8 - length (name_8 varname)) 0x20))))"

text \<open>
  The packet of \<open>ti82_send_asm_exec\<close>: its last two bytes are a wrong checksum, the rest is laid out to
  be executed.  \<open>program_size\<close> is \<open>var->size\<close>, \<open>first\<close> the first byte of the name.
\<close>

definition asm_exec_packet :: "CalcModel \<Rightarrow> u32 \<Rightarrow> byte \<Rightarrow> bytes" where
  "asm_exec_packet m program_size first =
     (let ioData = (if m = CALC_TI82 then 0x81fd else 0x831e);
          errSP = (if m = CALC_TI82 then 0x821a else 0x8338);
          onSP = (if m = CALC_TI82 then 0x8143 else 0x81bc);
          tempMem = (if m = CALC_TI82 then 0x8d0a else 0x8bdd);
          fpBase = (if m = CALC_TI82 then 0x8d0c else 0x8bdf);
          len = errSP + 2 - ioData :: u16;
          buffer = [if m = CALC_TI82 then DBUS_MID_PC_TI82 else DBUS_MID_PC_TI85, DBUS_CMD_VAR, LSB len, MSB len]
            @ replicate (unat len) 0;
          endptr = (if first = 0x24 then fpBase else tempMem);
          offset = ucast (- (program_size - 2)) :: u16;
          buffer = write_at buffer 4 [0xed, 0x7b, LSB onSP, MSB onSP, 0x2a, LSB endptr, MSB endptr,
            0x11, LSB offset, MSB offset, 0x19, 0xe9];
          es = unat (4 + errSP - ioData);
          buffer = write_at buffer es [LSB (errSP - 11), MSB (errSP - 11)];
          buffer = write_at buffer (es - 4) [if m = CALC_TI82 then 0x88 else 0, LSB ioData, MSB ioData];
          sum = tifiles_checksum (take (unat len) (drop 4 buffer)) + 0x5555
      in buffer @ [LSB sum, MSB sum])"

definition ti82_send_asm_exec :: "link_env \<Rightarrow> (u32 \<times> byte) option \<Rightarrow> (link, int) state" where
  "ti82_send_asm_exec env var = with_handle ERR_INVALID_HANDLE (\<lambda>h. with_nonnull var (\<lambda>(program_size, first).
     if link_model h \<noteq> CALC_TI82 \<and> link_model h \<noteq> CALC_TI85 then State_Monad.return ERR_UNSUPPORTED
     else do {
       let buffer = asm_exec_packet (link_model h) program_size first;
       let len = of_nat (length buffer - 6);
       was_busy \<leftarrow> set_busy_if_necessary;
       ret \<leftarrow> send_event env BEFORE_SEND_DBUS_PKT 0 len (buffer ! 0) DBUS_CMD_VAR (Some (drop 4 buffer));
       ret \<leftarrow> (if ret = 0 then cable_send env buffer else State_Monad.return ret);
       ret \<leftarrow> send_event env AFTER_SEND_DBUS_PKT ret len (buffer ! 0) DBUS_CMD_VAR (Some (drop 4 buffer));
       clear_busy_if_necessary was_busy;
       State_Monad.return ret }))"

definition ti73_send_VER :: "link_env \<Rightarrow> (link, int) state" where
  "ti73_send_VER env = with_handle ERR_INVALID_HANDLE (\<lambda>h. tiz80_send_simple_cmd env (tiz80_handle_to_dbus_mid_7383p h) DBUS_CMD_VER 2 None)"

definition ti73_send_DEL :: "link_env \<Rightarrow> u16 \<Rightarrow> byte \<Rightarrow> bytes option \<Rightarrow> byte \<Rightarrow> (link, int) state" where
  "ti73_send_DEL env varsize vartype varname varattr =
     with_handle ERR_INVALID_HANDLE (\<lambda>h. with_nonnull varname (\<lambda>varname. do {
       name \<leftarrow> read_array env 8 varname;
       dbus_send env (tiz80_handle_to_dbus_mid_7383p h) DBUS_CMD_DEL 11
         (Some (var_start varsize (if vartype = TI83p_APPL then 0x14 else vartype) @ name)) }))"

definition ti73_send_DUMP :: "link_env \<Rightarrow> u16 \<Rightarrow> (link, int) state" where
  "ti73_send_DUMP env page = with_handle ERR_INVALID_HANDLE (\<lambda>h.
     dbus_send env DBUS_MID_PC_TI83p DBUS_CMD_DMP 8 (Some [ucast page, 0x00, 0x00, 0x40, 0x00, 0x40, 0x0C, 0x00]))"

definition ti73_send_EKE :: "link_env \<Rightarrow> (link, int) state" where
  "ti73_send_EKE env = with_handle ERR_INVALID_HANDLE (\<lambda>h. tiz80_send_simple_cmd env (tiz80_handle_to_dbus_mid_7383p h) DBUS_CMD_EKE 2 None)"

definition ti73_send_DKE :: "link_env \<Rightarrow> (link, int) state" where
  "ti73_send_DKE env = with_handle ERR_INVALID_HANDLE (\<lambda>h. tiz80_send_simple_cmd env (tiz80_handle_to_dbus_mid_7383p h) DBUS_CMD_DKE 2 None)"

definition ti73_send_ELD :: "link_env \<Rightarrow> (link, int) state" where
  "ti73_send_ELD env = with_handle ERR_INVALID_HANDLE (\<lambda>h. tiz80_send_simple_cmd env (tiz80_handle_to_dbus_mid_7383p h) DBUS_CMD_ELD 2 None)"

definition ti73_send_DLD :: "link_env \<Rightarrow> (link, int) state" where
  "ti73_send_DLD env = with_handle ERR_INVALID_HANDLE (\<lambda>h. tiz80_send_simple_cmd env (tiz80_handle_to_dbus_mid_7383p h) DBUS_CMD_DLD 2 None)"

definition ti73_send_GID :: "link_env \<Rightarrow> (link, int) state" where
  "ti73_send_GID env = with_handle ERR_INVALID_HANDLE (\<lambda>h. tiz80_send_simple_cmd env (tiz80_handle_to_dbus_mid_7383p h) DBUS_CMD_GID 2 None)"

definition ti73_send_RID :: "link_env \<Rightarrow> (link, int) state" where
  "ti73_send_RID env = with_handle ERR_INVALID_HANDLE (\<lambda>h. tiz80_send_simple_cmd env (tiz80_handle_to_dbus_mid_7383p h) DBUS_CMD_RID 2 None)"

definition ti73_send_SID :: "link_env \<Rightarrow> bytes option \<Rightarrow> (link, int) state" where
  "ti73_send_SID env data = with_handle ERR_INVALID_HANDLE (\<lambda>h. tiz80_send_simple_cmd env (tiz80_handle_to_dbus_mid_7383p h) DBUS_CMD_SID 32 data)"

text \<open>The same for the families of models, by the machine byte of the handle.\<close>

definition ti73_send_CTS :: "link_env \<Rightarrow> (link, int) state" where
  "ti73_send_CTS env = do { h \<leftarrow> State_Monad.get; tiz80_send_CTS env (tiz80_handle_to_dbus_mid_7383p h) }"

definition ti73_send_XDP :: "link_env \<Rightarrow> u16 \<Rightarrow> bytes option \<Rightarrow> (link, int) state" where
  "ti73_send_XDP env len data = do { h \<leftarrow> State_Monad.get; tiz80_send_XDP env len data (tiz80_handle_to_dbus_mid_7383p h) }"

definition ti73_send_SKP :: "link_env \<Rightarrow> byte \<Rightarrow> (link, int) state" where
  "ti73_send_SKP env rej_code = do { h \<leftarrow> State_Monad.get; tiz80_send_SKP env rej_code (tiz80_handle_to_dbus_mid_7383p h) }"

definition ti73_send_ACK :: "link_env \<Rightarrow> (link, int) state" where
  "ti73_send_ACK env = do { h \<leftarrow> State_Monad.get; tiz80_send_ACK env (tiz80_handle_to_dbus_mid_7383p h) }"

definition ti73_send_ERR :: "link_env \<Rightarrow> (link, int) state" where
  "ti73_send_ERR env = do { h \<leftarrow> State_Monad.get; tiz80_send_ERR env (tiz80_handle_to_dbus_mid_7383p h) }"

definition ti73_send_SCR :: "link_env \<Rightarrow> (link, int) state" where
  "ti73_send_SCR env = do { h \<leftarrow> State_Monad.get; tiz80_send_SCR env (tiz80_handle_to_dbus_mid_7383p h) }"

definition ti73_send_KEY :: "link_env \<Rightarrow> u16 \<Rightarrow> (link, int) state" where
  "ti73_send_KEY env scancode = do { h \<leftarrow> State_Monad.get; tiz80_send_KEY env scancode (tiz80_handle_to_dbus_mid_7383p h) }"

definition ti73_send_EOT :: "link_env \<Rightarrow> (link, int) state" where
  "ti73_send_EOT env = do { h \<leftarrow> State_Monad.get; tiz80_send_EOT env (tiz80_handle_to_dbus_mid_7383p h) }"

definition ti82_send_CTS :: "link_env \<Rightarrow> (link, int) state" where
  "ti82_send_CTS env = do { h \<leftarrow> State_Monad.get; tiz80_send_CTS env (tiz80_handle_to_dbus_mid_8283 h) }"

definition ti82_send_XDP :: "link_env \<Rightarrow> u16 \<Rightarrow> bytes option \<Rightarrow> (link, int) state" where
  "ti82_send_XDP env len data = do { h \<leftarrow> State_Monad.get; tiz80_send_XDP env len data (tiz80_handle_to_dbus_mid_8283 h) }"

definition ti82_send_SKP :: "link_env \<Rightarrow> byte \<Rightarrow> (link, int) state" where
  "ti82_send_SKP env rej_code = do { h \<leftarrow> State_Monad.get; tiz80_send_SKP env rej_code (tiz80_handle_to_dbus_mid_8283 h) }"

definition ti82_send_ACK :: "link_env \<Rightarrow> (link, int) state" where
  "ti82_send_ACK env = do { h \<leftarrow> State_Monad.get; tiz80_send_ACK env (tiz80_handle_to_dbus_mid_8283 h) }"

definition ti82_send_ERR :: "link_env \<Rightarrow> (link, int) state" where
  "ti82_send_ERR env = do { h \<leftarrow> State_Monad.get; tiz80_send_ERR env (tiz80_handle_to_dbus_mid_8283 h) }"

definition ti82_send_SCR :: "link_env \<Rightarrow> (link, int) state" where
  "ti82_send_SCR env = do { h \<leftarrow> State_Monad.get; tiz80_send_SCR env (tiz80_handle_to_dbus_mid_8283 h) }"

definition ti82_send_KEY :: "link_env \<Rightarrow> u16 \<Rightarrow> (link, int) state" where
  "ti82_send_KEY env scancode = do { h \<leftarrow> State_Monad.get; tiz80_send_KEY env scancode (tiz80_handle_to_dbus_mid_8283 h) }"

definition ti82_send_EOT :: "link_env \<Rightarrow> (link, int) state" where
  "ti82_send_EOT env = do { h \<leftarrow> State_Monad.get; tiz80_send_EOT env (tiz80_handle_to_dbus_mid_8283 h) }"

definition ti85_send_CTS :: "link_env \<Rightarrow> (link, int) state" where
  "ti85_send_CTS env = do { h \<leftarrow> State_Monad.get; tiz80_send_CTS env (tiz80_handle_to_dbus_mid_8586 h) }"

definition ti85_send_XDP :: "link_env \<Rightarrow> u16 \<Rightarrow> bytes option \<Rightarrow> (link, int) state" where
  "ti85_send_XDP env len data = do { h \<leftarrow> State_Monad.get; tiz80_send_XDP env len data (tiz80_handle_to_dbus_mid_8586 h) }"

definition ti85_send_SKP :: "link_env \<Rightarrow> byte \<Rightarrow> (link, int) state" where
  "ti85_send_SKP env rej_code = do { h \<leftarrow> State_Monad.get; tiz80_send_SKP env rej_code (tiz80_handle_to_dbus_mid_8586 h) }"

definition ti85_send_ACK :: "link_env \<Rightarrow> (link, int) state" where
  "ti85_send_ACK env = do { h \<leftarrow> State_Monad.get; tiz80_send_ACK env (tiz80_handle_to_dbus_mid_8586 h) }"

definition ti85_send_ERR :: "link_env \<Rightarrow> (link, int) state" where
  "ti85_send_ERR env = do { h \<leftarrow> State_Monad.get; tiz80_send_ERR env (tiz80_handle_to_dbus_mid_8586 h) }"

definition ti85_send_SCR :: "link_env \<Rightarrow> (link, int) state" where
  "ti85_send_SCR env = do { h \<leftarrow> State_Monad.get; tiz80_send_SCR env (tiz80_handle_to_dbus_mid_8586 h) }"

definition ti85_send_KEY :: "link_env \<Rightarrow> u16 \<Rightarrow> (link, int) state" where
  "ti85_send_KEY env scancode = do { h \<leftarrow> State_Monad.get; tiz80_send_KEY env scancode (tiz80_handle_to_dbus_mid_8586 h) }"

definition ti85_send_EOT :: "link_env \<Rightarrow> (link, int) state" where
  "ti85_send_EOT env = do { h \<leftarrow> State_Monad.get; tiz80_send_EOT env (tiz80_handle_to_dbus_mid_8586 h) }"

section \<open>Receiving\<close>

text \<open>A packet into \<open>handle->buffer\<close>: its command and length.\<close>

definition recv_to_buffer :: "link_env \<Rightarrow> u16 \<Rightarrow> (link, int \<times> byte \<times> u16) state" where
  "recv_to_buffer env len = do {
     h \<leftarrow> State_Monad.get;
     (ret, (host, cmd, len), d) \<leftarrow> dbus_recv env (0, 0, len) (pkt_buffer h = None);
     State_Monad.update (\<lambda>h. h\<lparr>pkt_buffer := map_option (\<lambda>buf. write_at buf 0 d) (pkt_buffer h)\<rparr>);
     State_Monad.return (ret, cmd, len) }"

definition get_buffer :: "(link, bytes) state" where
  "get_buffer = do { h \<leftarrow> State_Monad.get; State_Monad.return (case pkt_buffer h of None \<Rightarrow> [] | Some buf \<Rightarrow> buf) }"

definition clear_buffer :: "nat \<Rightarrow> (link, unit) state" where
  "clear_buffer n = State_Monad.update (\<lambda>h. h\<lparr>pkt_buffer := map_option (\<lambda>buf. write_at buf 0 (replicate n 0)) (pkt_buffer h)\<rparr>)"

text \<open>Size, type, name, attribute and version of a variable header.\<close>

type_synonym var_header = "u16 \<times> byte \<times> bytes \<times> byte \<times> byte"

definition var_header_73 :: "bytes \<Rightarrow> bytes \<Rightarrow> var_header" where
  "var_header_73 buffer varname =
     (word_16 (buffer ! 0) (buffer ! 1), buffer ! 2, write_at varname 0 (take 8 (drop 3 buffer) @ [0]),
      if buffer ! 12 AND 0x80 \<noteq> 0 then ATTRB_ARCHIVED else ATTRB_NONE, buffer ! 11)"

definition var_header_82 :: "bytes \<Rightarrow> bytes \<Rightarrow> u16 \<times> byte \<times> bytes" where
  "var_header_82 buffer varname =
     (word_16 (buffer ! 0) (buffer ! 1), buffer ! 2, write_at varname 0 (take 8 (drop 3 buffer) @ [0]))"

text \<open>The name of the TI-85 family has a length byte; what lies between it and the ninth byte stays.\<close>

definition var_header_85 :: "bool \<Rightarrow> bytes \<Rightarrow> bytes \<Rightarrow> u16 \<times> byte \<times> bytes" where
  "var_header_85 backup buffer varname =
     (word_16 (buffer ! 0) (buffer ! 1), buffer ! 2,
      if backup then write_at varname 0 (take 8 (drop 3 buffer))
      else write_at (write_at varname 0 (take (min 8 (unat (buffer ! 3))) (drop 4 buffer))) 8 [0])"

definition ti73_recv_VAR :: "link_env \<Rightarrow> bytes \<Rightarrow> (link, int \<times> var_header option) state" where
  "ti73_recv_VAR env varname = with_handle (ERR_INVALID_HANDLE, None) (\<lambda>h. do {
     clear_buffer 13;
     (ret, cmd, len) \<leftarrow> recv_to_buffer env 0;
     buffer \<leftarrow> get_buffer;
     State_Monad.return
       (if ret \<noteq> 0 then (ret, None)
        else if cmd = DBUS_CMD_EOT then (ERR_EOT, None)
        else if cmd = DBUS_CMD_SKP then (ERR_VAR_REJECTED, None)
        else if cmd \<noteq> DBUS_CMD_VAR then (ERR_INVALID_CMD, None)
        else if len < 9 \<or> len > 13 then (ERR_INVALID_PACKET, None)
        else (0, Some (var_header_73 buffer varname))) })"

definition ti82_recv_VAR :: "link_env \<Rightarrow> bytes \<Rightarrow> (link, int \<times> (u16 \<times> byte \<times> bytes) option) state" where
  "ti82_recv_VAR env varname = with_handle (ERR_INVALID_HANDLE, None) (\<lambda>h. do {
     (ret, cmd, len) \<leftarrow> recv_to_buffer env 0;
     buffer \<leftarrow> get_buffer;
     State_Monad.return
       (if ret \<noteq> 0 then (ret, None)
        else if cmd = DBUS_CMD_EOT then (ERR_EOT, None)
        else if cmd = DBUS_CMD_SKP then (ERR_VAR_REJECTED, None)
        else if cmd \<noteq> DBUS_CMD_VAR then (ERR_INVALID_CMD, None)
        else if len \<noteq> 11 \<and> len \<noteq> 9 then (ERR_INVALID_PACKET, None)
        else (0, Some (var_header_82 buffer varname))) })"

definition ti85_recv_VAR :: "link_env \<Rightarrow> bytes \<Rightarrow> (link, int \<times> (u16 \<times> byte \<times> bytes) option) state" where
  "ti85_recv_VAR env varname = with_handle (ERR_INVALID_HANDLE, None) (\<lambda>h. do {
     (ret, cmd, len) \<leftarrow> recv_to_buffer env 0;
     buffer \<leftarrow> get_buffer;
     State_Monad.return
       (if ret \<noteq> 0 then (ret, None)
        else if cmd = DBUS_CMD_EOT then (ERR_EOT, None)
        else if cmd = DBUS_CMD_SKP then (ERR_VAR_REJECTED, None)
        else if cmd \<noteq> DBUS_CMD_VAR then (ERR_INVALID_CMD, None)
        else (0, Some (var_header_85 (buffer ! 2 = TI8586_BKUP (link_model h)) buffer varname))) })"

text \<open>Length, type, three letters of the name, offset and page of a block of flash memory.\<close>

definition ti73_recv_VAR2 :: "link_env \<Rightarrow> bytes \<Rightarrow> (link, int \<times> (u16 \<times> byte \<times> bytes \<times> u16 \<times> u16) option) state" where
  "ti73_recv_VAR2 env name = with_handle (ERR_INVALID_HANDLE, None) (\<lambda>h. do {
     (ret, cmd, len) \<leftarrow> recv_to_buffer env 0;
     buffer \<leftarrow> get_buffer;
     State_Monad.return
       (if ret \<noteq> 0 then (ret, None)
        else if cmd = DBUS_CMD_EOT then (ERR_EOT, None)
        else if cmd = DBUS_CMD_SKP then (ERR_VAR_REJECTED, None)
        else if cmd \<noteq> DBUS_CMD_VAR then (ERR_INVALID_CMD, None)
        else if len \<noteq> 10 then (ERR_INVALID_PACKET, None)
        else (0, Some (word_16 (buffer ! 0) (buffer ! 1), buffer ! 2, write_at name 0 (take 3 (drop 3 buffer) @ [0]),
          word_16 (buffer ! 6) (buffer ! 7), word_16 (buffer ! 8) (buffer ! 9) AND 0xff))) })"

definition tiz80_recv_CTS :: "link_env \<Rightarrow> u16 \<Rightarrow> (link, int) state" where
  "tiz80_recv_CTS env len = with_handle ERR_INVALID_HANDLE (\<lambda>h. do {
     (ret, cmd, n) \<leftarrow> recv_to_buffer env 0;
     State_Monad.return
       (if ret \<noteq> 0 then ret
        else if cmd = DBUS_CMD_SKP then ERR_VAR_REJECTED
        else if cmd \<noteq> DBUS_CMD_CTS then ERR_INVALID_CMD
        else if len \<noteq> n then ERR_CTS_ERROR else 0) })"

text \<open>The result and the rejection code, which is 0 for a CTS.\<close>

definition tiz80_recv_SKP :: "link_env \<Rightarrow> (link, int \<times> byte) state" where
  "tiz80_recv_SKP env = with_handle (ERR_INVALID_HANDLE, 0) (\<lambda>h. do {
     (ret, cmd, len) \<leftarrow> recv_to_buffer env 0;
     buffer \<leftarrow> get_buffer;
     State_Monad.return
       (if ret \<noteq> 0 then (ret, 0)
        else if cmd = DBUS_CMD_CTS then (0, 0)
        else if cmd \<noteq> DBUS_CMD_SKP then (ERR_INVALID_CMD, 0)
        else (0, buffer ! 0)) })"

text \<open>The data comes into the caller's array; length and data are there also after an error.\<close>

definition tiz80_recv_XDP :: "link_env \<Rightarrow> u16 \<Rightarrow> bool \<Rightarrow> (link, int \<times> u16 \<times> bytes) state" where
  "tiz80_recv_XDP env len is_73 = with_handle (ERR_INVALID_HANDLE, len, []) (\<lambda>h. do {
     (ret, (host, cmd, len), d) \<leftarrow> dbus_recv env (0, 0, len) False;
     State_Monad.return
       (if ret \<noteq> 0 then ret else if is_73 \<and> cmd = DBUS_CMD_EOT then ERR_EOT
        else if cmd \<noteq> DBUS_CMD_XDP then ERR_INVALID_CMD else 0, len, d) })"

definition ti73_recv_XDP :: "link_env \<Rightarrow> u16 \<Rightarrow> (link, int \<times> u16 \<times> bytes) state" where
  "ti73_recv_XDP env len = tiz80_recv_XDP env len True"

definition ti82_recv_XDP :: "link_env \<Rightarrow> u16 \<Rightarrow> (link, int \<times> u16 \<times> bytes) state" where
  "ti82_recv_XDP env len = tiz80_recv_XDP env len False"

definition ti85_recv_XDP :: "link_env \<Rightarrow> u16 \<Rightarrow> (link, int \<times> u16 \<times> bytes) state" where
  "ti85_recv_XDP env len = tiz80_recv_XDP env len False"

definition ti80_recv_XDP :: "link_env \<Rightarrow> u16 \<Rightarrow> (link, int \<times> u16 \<times> bytes) state" where
  "ti80_recv_XDP env len = tiz80_recv_XDP env len False"

definition ti73_recv_SID :: "link_env \<Rightarrow> u16 \<Rightarrow> (link, int \<times> u16 \<times> bytes) state" where
  "ti73_recv_SID env len = do {
     (ret, (host, cmd, len), d) \<leftarrow> dbus_recv env (0, 0, len) False;
     State_Monad.return
       (if ret \<noteq> 0 then ret else if cmd = DBUS_CMD_EOT then ERR_EOT else if cmd \<noteq> DBUS_CMD_SID then ERR_INVALID_CMD else 0,
        len, d) }"

text \<open>With a place for the status the length is handed over; without one it must be 0.\<close>

definition tiz80_recv_ACK :: "link_env \<Rightarrow> bool \<Rightarrow> (link, int \<times> u16) state" where
  "tiz80_recv_ACK env with_status = with_handle (ERR_INVALID_HANDLE, 0) (\<lambda>h. do {
     (ret, cmd, len) \<leftarrow> recv_to_buffer env 0;
     State_Monad.return
       (if ret \<noteq> 0 then ret
        else if \<not> with_status \<and> len \<noteq> 0x0000 then ERR_NACK
        else if cmd \<noteq> DBUS_CMD_ACK then ERR_INVALID_CMD else 0, len) })"

definition ti82_recv_ERR :: "link_env \<Rightarrow> (link, int \<times> u16) state" where
  "ti82_recv_ERR env = with_handle (ERR_INVALID_HANDLE, 0) (\<lambda>h. do {
     (ret, (host, cmd, sts), d) \<leftarrow> dbus_recv env (0, 0, 0) True;
     State_Monad.return
       (if ret \<noteq> 0 \<and> ret \<noteq> ERR_CHECKSUM then ret else if cmd \<noteq> DBUS_CMD_ERR then ERR_INVALID_CMD else 0, sts) })"

definition ti73_recv_RTS :: "link_env \<Rightarrow> u16 \<Rightarrow> bytes \<Rightarrow> (link, int \<times> var_header option) state" where
  "ti73_recv_RTS env varsize varname = with_handle (ERR_INVALID_HANDLE, None) (\<lambda>h. do {
     clear_buffer 13;
     (ret, cmd, len) \<leftarrow> recv_to_buffer env varsize;
     buffer \<leftarrow> get_buffer;
     State_Monad.return
       (if ret \<noteq> 0 then (ret, None)
        else if cmd \<noteq> DBUS_CMD_RTS then (ERR_INVALID_CMD, None)
        else if len < 13 then (ERR_INVALID_PACKET, None)
        else (0, Some (var_header_73 buffer varname))) })"

definition ti82_recv_RTS :: "link_env \<Rightarrow> u16 \<Rightarrow> bytes \<Rightarrow> (link, int \<times> (u16 \<times> byte \<times> bytes) option) state" where
  "ti82_recv_RTS env varsize varname = with_handle (ERR_INVALID_HANDLE, None) (\<lambda>h. do {
     (ret, cmd, len) \<leftarrow> recv_to_buffer env varsize;
     buffer \<leftarrow> get_buffer;
     State_Monad.return
       (if ret \<noteq> 0 then (ret, None)
        else if cmd \<noteq> DBUS_CMD_RTS then (ERR_INVALID_CMD, None)
        else (0, Some (var_header_82 buffer varname))) })"

definition ti85_recv_RTS :: "link_env \<Rightarrow> u16 \<Rightarrow> bytes \<Rightarrow> (link, int \<times> (u16 \<times> byte \<times> bytes) option) state" where
  "ti85_recv_RTS env varsize varname = with_handle (ERR_INVALID_HANDLE, None) (\<lambda>h. do {
     (ret, cmd, len) \<leftarrow> recv_to_buffer env varsize;
     buffer \<leftarrow> get_buffer;
     State_Monad.return
       (if ret \<noteq> 0 then (ret, None)
        else if cmd \<noteq> DBUS_CMD_RTS then (ERR_INVALID_CMD, None)
        else (0, Some (var_header_85 False buffer varname))) })"

end
