(* ===== verification/Key_Tables.thy ===== *)
theory Key_Tables
  imports Calc_Session
begin

text \<open>
  The keys of the calculators (\<open>libticalcs\<close>, \<open>keys73.cc\<close>, \<open>keys83.cc\<close>, \<open>keys83p.cc\<close>, \<open>keys86.cc\<close>,
  \<open>keys89.cc\<close>, \<open>keys92p.cc\<close>, \<open>tikeys.cc\<close>): for each code the key's name and the scan codes of its
  layers.  The names are the bytes the C compiler makes of the literals, whose numeric escapes are octal.
  The tables have 144 or 352 rows; \<open>None\<close> is an access past the end.
\<close>

type_synonym KeyPair = "string \<times> u32"

text \<open>Name, normal, shift, second, diamond and alpha.\<close>

type_synonym CalcKey = "string \<times> KeyPair \<times> KeyPair \<times> KeyPair \<times> KeyPair \<times> KeyPair"

definition no_key :: "string \<Rightarrow> CalcKey" where
  "no_key name = (name, ([], 0), ([], 0), ([], 0), ([], 0), ([], 0))"

definition key_at :: "CalcKey list \<Rightarrow> byte \<Rightarrow> CalcKey option" where
  "key_at table code = (if unat code < length table then Some (table ! unat code) else None)"

definition key_normal :: "CalcKey \<Rightarrow> u32" where
  "key_normal ck = (case ck of (name, normal, layers) \<Rightarrow> snd normal)"

definition TI73_KEYS_0 :: "CalcKey list" where
  "TI73_KEYS_0 =
     [no_key '''',
      no_key '''',
      no_key '''',
      no_key '''',
      no_key '''',
      no_key '''',
      no_key '''',
      no_key '''',
      no_key '''',
      no_key '''',
      no_key '''',
      no_key '''',
      no_key '''',
      (''Enter'', (''Enter'', 5), ('''', 0), ('''', 0), ('''', 0), ('''', 0)),
      no_key '''',
      no_key '''',
      no_key '''',
      no_key '''',
      no_key '''',
      no_key '''',
      no_key '''',
      no_key '''',
      no_key '''',
      no_key '''',
      no_key '''',
      no_key '''',
      no_key '''',
      (''ESC'', (''Quit'', 64), ('''', 0), ('''', 0), ('''', 0), ('''', 0)),
      no_key '''',
      no_key '''',
      no_key '''',
      no_key '''',
      ('' '', (''Space'', 153), ('''', 0), ('''', 0), ('''', 0), ('''', 0)),
      no_key ''!'',
      no_key [CHR 0x22],
      no_key ''#'',
      no_key ''$'',
      no_key ''%'',
      no_key ''&'',
      no_key [CHR 0x27],
      (''('', (''LParen'', 133), ('''', 0), ('''', 0), ('''', 0), ('''', 0)),
      ('')'', (''RParen'', 134), ('''', 0), ('''', 0), ('''', 0), ('''', 0)),
      (''*'', (''Mul'', 130), ('''', 0), ('''', 0), ('''', 0), ('''', 0)),
      (''+'', (''Add'', 128), ('''', 0), ('''', 0), ('''', 0), ('''', 0)),
      ('','', (''Comma'', 139), ('''', 0), ('''', 0), ('''', 0), ('''', 0)),
      (''-'', (''Sub'', 129), ('''', 0), ('''', 0), ('''', 0), ('''', 0)),
      no_key ''.'',
      (''/'', (''Div'', 131), ('''', 0), ('''', 0), ('''', 0), ('''', 0)),
      (''0'', (''0'', 142), ('''', 0), ('''', 0), ('''', 0), ('''', 0)),
      (''1'', (''1'', 143), ('''', 0), ('''', 0), ('''', 0), ('''', 0)),
      (''2'', (''2'', 144), ('''', 0), ('''', 0), ('''', 0), ('''', 0)),
      (''3'', (''3'', 145), ('''', 0), ('''', 0), ('''', 0), ('''', 0)),
      (''4'', (''4'', 146), ('''', 0), ('''', 0), ('''', 0), ('''', 0)),
      (''5'', (''5'', 147), ('''', 0), ('''', 0), ('''', 0), ('''', 0)),
      (''6'', (''6'', 148), ('''', 0), ('''', 0), ('''', 0), ('''', 0)),
      (''7'', (''7'', 149), ('''', 0), ('''', 0), ('''', 0), ('''', 0)),
      (''8'', (''8'', 150), ('''', 0), ('''', 0), ('''', 0), ('''', 0)),
      (''9'', (''9'', 151), ('''', 0), ('''', 0), ('''', 0), ('''', 0)),
      no_key '':'',
      no_key '';'',
      no_key ''<'',
      no_key ''='',
      no_key ''>'',
      no_key ''?'',
      (''@'', (''@'', 0), ('''', 0), ('''', 0), ('''', 0), ('''', 0)),
      (''A'', (''A'', 154), ('''', 0), ('''', 0), ('''', 0), ('''', 0)),
      (''B'', (''B'', 155), ('''', 0), ('''', 0), ('''', 0), ('''', 0)),
      (''C'', (''C'', 156), ('''', 0), ('''', 0), ('''', 0), ('''', 0)),
      (''D'', (''D'', 157), ('''', 0), ('''', 0), ('''', 0), ('''', 0)),
      (''E'', (''E'', 158), ('''', 0), ('''', 0), ('''', 0), ('''', 0)),
      (''F'', (''F'', 159), ('''', 0), ('''', 0), ('''', 0), ('''', 0)),
      (''G'', (''G'', 160), ('''', 0), ('''', 0), ('''', 0), ('''', 0))]"

definition TI73_KEYS_1 :: "CalcKey list" where
  "TI73_KEYS_1 =
     [(''H'', (''H'', 161), ('''', 0), ('''', 0), ('''', 0), ('''', 0)),
      (''I'', (''I'', 162), ('''', 0), ('''', 0), ('''', 0), ('''', 0)),
      (''J'', (''J'', 163), ('''', 0), ('''', 0), ('''', 0), ('''', 0)),
      (''K'', (''K'', 164), ('''', 0), ('''', 0), ('''', 0), ('''', 0)),
      (''L'', (''L'', 165), ('''', 0), ('''', 0), ('''', 0), ('''', 0)),
      (''M'', (''M'', 166), ('''', 0), ('''', 0), ('''', 0), ('''', 0)),
      (''N'', (''N'', 167), ('''', 0), ('''', 0), ('''', 0), ('''', 0)),
      (''O'', (''O'', 168), ('''', 0), ('''', 0), ('''', 0), ('''', 0)),
      (''P'', (''P'', 169), ('''', 0), ('''', 0), ('''', 0), ('''', 0)),
      (''Q'', (''Q'', 170), ('''', 0), ('''', 0), ('''', 0), ('''', 0)),
      (''R'', (''R'', 171), ('''', 0), ('''', 0), ('''', 0), ('''', 0)),
      (''S'', (''S'', 172), ('''', 0), ('''', 0), ('''', 0), ('''', 0)),
      (''T'', (''T'', 173), ('''', 0), ('''', 0), ('''', 0), ('''', 0)),
      (''U'', (''U'', 174), ('''', 0), ('''', 0), ('''', 0), ('''', 0)),
      (''V'', (''V'', 175), ('''', 0), ('''', 0), ('''', 0), ('''', 0)),
      (''W'', (''W'', 176), ('''', 0), ('''', 0), ('''', 0), ('''', 0)),
      (''X'', (''X'', 177), ('''', 0), ('''', 0), ('''', 0), ('''', 0)),
      (''Y'', (''Y'', 178), ('''', 0), ('''', 0), ('''', 0), ('''', 0)),
      (''Z'', (''Z'', 179), ('''', 0), ('''', 0), ('''', 0), ('''', 0)),
      (''['', (''LBrack'', 135), ('''', 0), ('''', 0), ('''', 0), ('''', 0)),
      no_key [CHR 0x5C],
      ('']'', (''RBrack'', 136), ('''', 0), ('''', 0), ('''', 0), ('''', 0)),
      no_key ''^'',
      no_key ''_'',
      no_key '''',
      no_key ''a'',
      no_key ''b'',
      no_key ''c'',
      no_key ''d'',
      no_key ''e'',
      no_key ''f'',
      no_key ''g'',
      no_key ''h'',
      no_key ''i'',
      no_key ''j'',
      no_key ''k'',
      no_key ''l'',
      no_key ''m'',
      no_key ''n'',
      no_key ''o'',
      no_key ''p'',
      no_key ''q'',
      no_key ''r'',
      no_key ''s'',
      no_key ''t'',
      no_key ''u'',
      no_key ''v'',
      no_key ''w'',
      no_key ''x'',
      no_key ''y'',
      no_key ''z'',
      no_key ''{'',
      no_key ''|'',
      no_key ''}'',
      no_key ''~'',
      no_key '''',
      no_key '''',
      no_key '''',
      no_key '''',
      no_key '''',
      no_key '''',
      no_key '''',
      no_key '''',
      no_key '''',
      no_key '''',
      (''{'', (''Ans'', 197), (''{'', 173), (''ANS'', 4372), ('''', 8365), ('''', 0)),
      no_key '''',
      no_key '''',
      no_key '''',
      no_key '''',
      no_key '''',
      no_key '''']"

definition TI73_KEYS :: "CalcKey list" where
  "TI73_KEYS = TI73_KEYS_0 @ TI73_KEYS_1"

definition TI83_KEYS_0 :: "CalcKey list" where
  "TI83_KEYS_0 =
     [no_key '''',
      no_key '''',
      no_key '''',
      no_key '''',
      no_key '''',
      no_key '''',
      no_key '''',
      no_key '''',
      no_key '''',
      no_key '''',
      no_key '''',
      no_key '''',
      no_key '''',
      (''Enter'', (''Enter'', 5), ('''', 0), ('''', 0), ('''', 0), ('''', 0)),
      no_key '''',
      no_key '''',
      no_key '''',
      no_key '''',
      no_key '''',
      no_key '''',
      no_key '''',
      no_key '''',
      no_key '''',
      no_key '''',
      no_key '''',
      no_key '''',
      no_key '''',
      (''ESC'', (''Quit'', 64), ('''', 0), ('''', 0), ('''', 0), ('''', 0)),
      no_key '''',
      no_key '''',
      no_key '''',
      no_key '''',
      ('' '', (''Space'', 153), ('''', 0), ('''', 0), ('''', 0), ('''', 0)),
      no_key ''!'',
      no_key [CHR 0x22],
      no_key ''#'',
      no_key ''$'',
      no_key ''%'',
      no_key ''&'',
      no_key [CHR 0x27],
      (''('', (''LParen'', 133), ('''', 0), ('''', 0), ('''', 0), ('''', 0)),
      ('')'', (''RParen'', 134), ('''', 0), ('''', 0), ('''', 0), ('''', 0)),
      (''*'', (''Mul'', 130), ('''', 0), ('''', 0), ('''', 0), ('''', 0)),
      (''+'', (''Add'', 128), ('''', 0), ('''', 0), ('''', 0), ('''', 0)),
      ('','', (''Comma'', 139), ('''', 0), ('''', 0), ('''', 0), ('''', 0)),
      (''-'', (''Sub'', 129), ('''', 0), ('''', 0), ('''', 0), ('''', 0)),
      no_key ''.'',
      (''/'', (''Div'', 131), ('''', 0), ('''', 0), ('''', 0), ('''', 0)),
      (''0'', (''0'', 142), ('''', 0), ('''', 0), ('''', 0), ('''', 0)),
      (''1'', (''1'', 143), ('''', 0), ('''', 0), ('''', 0), ('''', 0)),
      (''2'', (''2'', 144), ('''', 0), ('''', 0), ('''', 0), ('''', 0)),
      (''3'', (''3'', 145), ('''', 0), ('''', 0), ('''', 0), ('''', 0)),
      (''4'', (''4'', 146), ('''', 0), ('''', 0), ('''', 0), ('''', 0)),
      (''5'', (''5'', 147), ('''', 0), ('''', 0), ('''', 0), ('''', 0)),
      (''6'', (''6'', 148), ('''', 0), ('''', 0), ('''', 0), ('''', 0)),
      (''7'', (''7'', 149), ('''', 0), ('''', 0), ('''', 0), ('''', 0)),
      (''8'', (''8'', 150), ('''', 0), ('''', 0), ('''', 0), ('''', 0)),
      (''9'', (''9'', 151), ('''', 0), ('''', 0), ('''', 0), ('''', 0)),
      no_key '':'',
      no_key '';'',
      no_key ''<'',
      no_key ''='',
      no_key ''>'',
      no_key ''?'',
      (''@'', (''@'', 0), ('''', 0), ('''', 0), ('''', 0), ('''', 0)),
      (''A'', (''A'', 154), ('''', 0), ('''', 0), ('''', 0), ('''', 0)),
      (''B'', (''B'', 155), ('''', 0), ('''', 0), ('''', 0), ('''', 0)),
      (''C'', (''C'', 156), ('''', 0), ('''', 0), ('''', 0), ('''', 0)),
      (''D'', (''D'', 157), ('''', 0), ('''', 0), ('''', 0), ('''', 0)),
      (''E'', (''E'', 158), ('''', 0), ('''', 0), ('''', 0), ('''', 0)),
      (''F'', (''F'', 159), ('''', 0), ('''', 0), ('''', 0), ('''', 0)),
      (''G'', (''G'', 160), ('''', 0), ('''', 0), ('''', 0), ('''', 0))]"

definition TI83_KEYS_1 :: "CalcKey list" where
  "TI83_KEYS_1 =
     [(''H'', (''H'', 161), ('''', 0), ('''', 0), ('''', 0), ('''', 0)),
      (''I'', (''I'', 162), ('''', 0), ('''', 0), ('''', 0), ('''', 0)),
      (''J'', (''J'', 163), ('''', 0), ('''', 0), ('''', 0), ('''', 0)),
      (''K'', (''K'', 164), ('''', 0), ('''', 0), ('''', 0), ('''', 0)),
      (''L'', (''L'', 165), ('''', 0), ('''', 0), ('''', 0), ('''', 0)),
      (''M'', (''M'', 166), ('''', 0), ('''', 0), ('''', 0), ('''', 0)),
      (''N'', (''N'', 167), ('''', 0), ('''', 0), ('''', 0), ('''', 0)),
      (''O'', (''O'', 168), ('''', 0), ('''', 0), ('''', 0), ('''', 0)),
      (''P'', (''P'', 169), ('''', 0), ('''', 0), ('''', 0), ('''', 0)),
      (''Q'', (''Q'', 170), ('''', 0), ('''', 0), ('''', 0), ('''', 0)),
      (''R'', (''R'', 171), ('''', 0), ('''', 0), ('''', 0), ('''', 0)),
      (''S'', (''S'', 172), ('''', 0), ('''', 0), ('''', 0), ('''', 0)),
      (''T'', (''T'', 173), ('''', 0), ('''', 0), ('''', 0), ('''', 0)),
      (''U'', (''U'', 174), ('''', 0), ('''', 0), ('''', 0), ('''', 0)),
      (''V'', (''V'', 175), ('''', 0), ('''', 0), ('''', 0), ('''', 0)),
      (''W'', (''W'', 176), ('''', 0), ('''', 0), ('''', 0), ('''', 0)),
      (''X'', (''X'', 177), ('''', 0), ('''', 0), ('''', 0), ('''', 0)),
      (''Y'', (''Y'', 178), ('''', 0), ('''', 0), ('''', 0), ('''', 0)),
      (''Z'', (''Z'', 179), ('''', 0), ('''', 0), ('''', 0), ('''', 0)),
      (''['', (''LBrack'', 135), ('''', 0), ('''', 0), ('''', 0), ('''', 0)),
      no_key [CHR 0x5C],
      ('']'', (''RBrack'', 136), ('''', 0), ('''', 0), ('''', 0), ('''', 0)),
      no_key ''^'',
      no_key ''_'',
      no_key '''',
      no_key ''a'',
      no_key ''b'',
      no_key ''c'',
      no_key ''d'',
      no_key ''e'',
      no_key ''f'',
      no_key ''g'',
      no_key ''h'',
      no_key ''i'',
      no_key ''j'',
      no_key ''k'',
      no_key ''l'',
      no_key ''m'',
      no_key ''n'',
      no_key ''o'',
      no_key ''p'',
      no_key ''q'',
      no_key ''r'',
      no_key ''s'',
      no_key ''t'',
      no_key ''u'',
      no_key ''v'',
      no_key ''w'',
      no_key ''x'',
      no_key ''y'',
      no_key ''z'',
      no_key ''{'',
      no_key ''|'',
      no_key ''}'',
      no_key ''~'',
      no_key '''',
      no_key '''',
      no_key '''',
      no_key '''',
      no_key '''',
      no_key '''',
      no_key '''',
      no_key '''',
      no_key '''',
      no_key '''',
      (''{'', (''Ans'', 197), (''{'', 173), (''ANS'', 4372), ('''', 8365), ('''', 0)),
      no_key '''',
      no_key '''',
      no_key '''',
      no_key '''',
      no_key '''',
      no_key '''']"

definition TI83_KEYS :: "CalcKey list" where
  "TI83_KEYS = TI83_KEYS_0 @ TI83_KEYS_1"

definition TI83P_KEYS_0 :: "CalcKey list" where
  "TI83P_KEYS_0 =
     [no_key '''',
      no_key '''',
      no_key '''',
      no_key '''',
      no_key '''',
      no_key '''',
      no_key '''',
      no_key '''',
      no_key '''',
      no_key '''',
      no_key '''',
      no_key '''',
      no_key '''',
      (''Enter'', (''Enter'', 5), ('''', 0), ('''', 0), ('''', 0), ('''', 0)),
      no_key '''',
      no_key '''',
      no_key '''',
      no_key '''',
      no_key '''',
      no_key '''',
      no_key '''',
      no_key '''',
      no_key '''',
      no_key '''',
      no_key '''',
      no_key '''',
      no_key '''',
      (''ESC'', (''Quit'', 64), ('''', 0), ('''', 0), ('''', 0), ('''', 0)),
      no_key '''',
      no_key '''',
      no_key '''',
      no_key '''',
      ('' '', (''Space'', 153), ('''', 0), ('''', 0), ('''', 0), ('''', 0)),
      no_key ''!'',
      no_key [CHR 0x22],
      no_key ''#'',
      no_key ''$'',
      no_key ''%'',
      no_key ''&'',
      no_key [CHR 0x27],
      (''('', (''LParen'', 133), ('''', 0), ('''', 0), ('''', 0), ('''', 0)),
      ('')'', (''RParen'', 134), ('''', 0), ('''', 0), ('''', 0), ('''', 0)),
      (''*'', (''Mul'', 130), ('''', 0), ('''', 0), ('''', 0), ('''', 0)),
      (''+'', (''Add'', 128), ('''', 0), ('''', 0), ('''', 0), ('''', 0)),
      ('','', (''Comma'', 139), ('''', 0), ('''', 0), ('''', 0), ('''', 0)),
      (''-'', (''Sub'', 129), ('''', 0), ('''', 0), ('''', 0), ('''', 0)),
      no_key ''.'',
      (''/'', (''Div'', 131), ('''', 0), ('''', 0), ('''', 0), ('''', 0)),
      (''0'', (''0'', 142), ('''', 0), ('''', 0), ('''', 0), ('''', 0)),
      (''1'', (''1'', 143), ('''', 0), ('''', 0), ('''', 0), ('''', 0)),
      (''2'', (''2'', 144), ('''', 0), ('''', 0), ('''', 0), ('''', 0)),
      (''3'', (''3'', 145), ('''', 0), ('''', 0), ('''', 0), ('''', 0)),
      (''4'', (''4'', 146), ('''', 0), ('''', 0), ('''', 0), ('''', 0)),
      (''5'', (''5'', 147), ('''', 0), ('''', 0), ('''', 0), ('''', 0)),
      (''6'', (''6'', 148), ('''', 0), ('''', 0), ('''', 0), ('''', 0)),
      (''7'', (''7'', 149), ('''', 0), ('''', 0), ('''', 0), ('''', 0)),
      (''8'', (''8'', 150), ('''', 0), ('''', 0), ('''', 0), ('''', 0)),
      (''9'', (''9'', 151), ('''', 0), ('''', 0), ('''', 0), ('''', 0)),
      no_key '':'',
      no_key '';'',
      no_key ''<'',
      no_key ''='',
      no_key ''>'',
      no_key ''?'',
      (''@'', (''@'', 0), ('''', 0), ('''', 0), ('''', 0), ('''', 0)),
      (''A'', (''A'', 154), ('''', 0), ('''', 0), ('''', 0), ('''', 0)),
      (''B'', (''B'', 155), ('''', 0), ('''', 0), ('''', 0), ('''', 0)),
      (''C'', (''C'', 156), ('''', 0), ('''', 0), ('''', 0), ('''', 0)),
      (''D'', (''D'', 157), ('''', 0), ('''', 0), ('''', 0), ('''', 0)),
      (''E'', (''E'', 158), ('''', 0), ('''', 0), ('''', 0), ('''', 0)),
      (''F'', (''F'', 159), ('''', 0), ('''', 0), ('''', 0), ('''', 0)),
      (''G'', (''G'', 160), ('''', 0), ('''', 0), ('''', 0), ('''', 0))]"

definition TI83P_KEYS_1 :: "CalcKey list" where
  "TI83P_KEYS_1 =
     [(''H'', (''H'', 161), ('''', 0), ('''', 0), ('''', 0), ('''', 0)),
      (''I'', (''I'', 162), ('''', 0), ('''', 0), ('''', 0), ('''', 0)),
      (''J'', (''J'', 163), ('''', 0), ('''', 0), ('''', 0), ('''', 0)),
      (''K'', (''K'', 164), ('''', 0), ('''', 0), ('''', 0), ('''', 0)),
      (''L'', (''L'', 165), ('''', 0), ('''', 0), ('''', 0), ('''', 0)),
      (''M'', (''M'', 166), ('''', 0), ('''', 0), ('''', 0), ('''', 0)),
      (''N'', (''N'', 167), ('''', 0), ('''', 0), ('''', 0), ('''', 0)),
      (''O'', (''O'', 168), ('''', 0), ('''', 0), ('''', 0), ('''', 0)),
      (''P'', (''P'', 169), ('''', 0), ('''', 0), ('''', 0), ('''', 0)),
      (''Q'', (''Q'', 170), ('''', 0), ('''', 0), ('''', 0), ('''', 0)),
      (''R'', (''R'', 171), ('''', 0), ('''', 0), ('''', 0), ('''', 0)),
      (''S'', (''S'', 172), ('''', 0), ('''', 0), ('''', 0), ('''', 0)),
      (''T'', (''T'', 173), ('''', 0), ('''', 0), ('''', 0), ('''', 0)),
      (''U'', (''U'', 174), ('''', 0), ('''', 0), ('''', 0), ('''', 0)),
      (''V'', (''V'', 175), ('''', 0), ('''', 0), ('''', 0), ('''', 0)),
      (''W'', (''W'', 176), ('''', 0), ('''', 0), ('''', 0), ('''', 0)),
      (''X'', (''X'', 177), ('''', 0), ('''', 0), ('''', 0), ('''', 0)),
      (''Y'', (''Y'', 178), ('''', 0), ('''', 0), ('''', 0), ('''', 0)),
      (''Z'', (''Z'', 179), ('''', 0), ('''', 0), ('''', 0), ('''', 0)),
      (''['', (''LBrack'', 135), ('''', 0), ('''', 0), ('''', 0), ('''', 0)),
      no_key [CHR 0x5C],
      ('']'', (''RBrack'', 136), ('''', 0), ('''', 0), ('''', 0), ('''', 0)),
      no_key ''^'',
      no_key ''_'',
      no_key '''',
      no_key ''a'',
      no_key ''b'',
      no_key ''c'',
      no_key ''d'',
      no_key ''e'',
      no_key ''f'',
      no_key ''g'',
      no_key ''h'',
      no_key ''i'',
      no_key ''j'',
      no_key ''k'',
      no_key ''l'',
      no_key ''m'',
      no_key ''n'',
      no_key ''o'',
      no_key ''p'',
      no_key ''q'',
      no_key ''r'',
      no_key ''s'',
      no_key ''t'',
      no_key ''u'',
      no_key ''v'',
      no_key ''w'',
      no_key ''x'',
      no_key ''y'',
      no_key ''z'',
      no_key ''{'',
      no_key ''|'',
      no_key ''}'',
      no_key ''~'',
      no_key '''',
      no_key '''',
      no_key '''',
      no_key '''',
      no_key '''',
      no_key '''',
      no_key '''',
      no_key '''',
      no_key '''',
      no_key '''',
      (''{'', (''Ans'', 197), (''{'', 173), (''ANS'', 4372), ('''', 8365), ('''', 0)),
      no_key '''',
      no_key '''',
      no_key '''',
      no_key '''',
      no_key '''',
      no_key '''']"

definition TI83P_KEYS :: "CalcKey list" where
  "TI83P_KEYS = TI83P_KEYS_0 @ TI83P_KEYS_1"

definition TI86_KEYS_0 :: "CalcKey list" where
  "TI86_KEYS_0 =
     [no_key '''',
      no_key '''',
      no_key '''',
      no_key '''',
      no_key '''',
      no_key '''',
      no_key '''',
      no_key '''',
      no_key '''',
      no_key '''',
      no_key '''',
      no_key '''',
      no_key '''',
      (''Enter'', (''Enter'', 6), ('''', 0), ('''', 0), ('''', 0), ('''', 0)),
      no_key '''',
      no_key '''',
      no_key '''',
      no_key '''',
      no_key '''',
      no_key '''',
      no_key '''',
      no_key '''',
      no_key '''',
      no_key '''',
      no_key '''',
      no_key '''',
      no_key '''',
      (''ESC'', (''Exit'', 7), ('''', 0), ('''', 0), ('''', 0), ('''', 0)),
      no_key '''',
      no_key '''',
      no_key '''',
      no_key '''',
      ('' '', (''Space'', 39), ('''', 0), ('''', 0), ('''', 0), ('''', 0)),
      no_key ''!'',
      no_key [CHR 0x22],
      no_key ''#'',
      no_key ''$'',
      no_key ''%'',
      no_key ''&'',
      no_key [CHR 0x27],
      (''('', (''LParen'', 17), ('''', 0), ('''', 0), ('''', 0), ('''', 0)),
      ('')'', (''RParen'', 18), ('''', 0), ('''', 0), ('''', 0), ('''', 0)),
      (''*'', (''Mul'', 14), ('''', 0), ('''', 0), ('''', 0), ('''', 0)),
      (''+'', (''Add'', 12), ('''', 0), ('''', 0), ('''', 0), ('''', 0)),
      ('','', (''Comma'', 24), ('''', 0), ('''', 0), ('''', 0), ('''', 0)),
      (''-'', (''Sub'', 13), ('''', 0), ('''', 0), ('''', 0), ('''', 0)),
      no_key ''.'',
      (''/'', (''Div'', 15), ('''', 0), ('''', 0), ('''', 0), ('''', 0)),
      (''0'', (''0'', 28), ('''', 0), ('''', 0), ('''', 0), ('''', 0)),
      (''1'', (''1'', 29), ('''', 0), ('''', 0), ('''', 0), ('''', 0)),
      (''2'', (''2'', 30), ('''', 0), ('''', 0), ('''', 0), ('''', 0)),
      (''3'', (''3'', 31), ('''', 0), ('''', 0), ('''', 0), ('''', 0)),
      (''4'', (''4'', 32), ('''', 0), ('''', 0), ('''', 0), ('''', 0)),
      (''5'', (''5'', 33), ('''', 0), ('''', 0), ('''', 0), ('''', 0)),
      (''6'', (''6'', 34), ('''', 0), ('''', 0), ('''', 0), ('''', 0)),
      (''7'', (''7'', 35), ('''', 0), ('''', 0), ('''', 0), ('''', 0)),
      (''8'', (''8'', 36), ('''', 0), ('''', 0), ('''', 0), ('''', 0)),
      (''9'', (''9'', 37), ('''', 0), ('''', 0), ('''', 0), ('''', 0)),
      no_key '':'',
      no_key '';'',
      no_key ''<'',
      (''='', (''='', 21), ('''', 0), ('''', 0), ('''', 0), ('''', 0)),
      no_key ''>'',
      no_key ''?'',
      (''@'', (''@'', 0), ('''', 0), ('''', 0), ('''', 0), ('''', 0)),
      (''A'', (''A'', 40), ('''', 0), ('''', 0), ('''', 0), ('''', 0)),
      (''B'', (''B'', 41), ('''', 0), ('''', 0), ('''', 0), ('''', 0)),
      (''C'', (''C'', 42), ('''', 0), ('''', 0), ('''', 0), ('''', 0)),
      (''D'', (''D'', 43), ('''', 0), ('''', 0), ('''', 0), ('''', 0)),
      (''E'', (''E'', 44), ('''', 0), ('''', 0), ('''', 0), ('''', 0)),
      (''F'', (''F'', 45), ('''', 0), ('''', 0), ('''', 0), ('''', 0)),
      (''G'', (''G'', 46), ('''', 0), ('''', 0), ('''', 0), ('''', 0))]"

definition TI86_KEYS_1 :: "CalcKey list" where
  "TI86_KEYS_1 =
     [(''H'', (''H'', 47), ('''', 0), ('''', 0), ('''', 0), ('''', 0)),
      (''I'', (''I'', 48), ('''', 0), ('''', 0), ('''', 0), ('''', 0)),
      (''J'', (''J'', 49), ('''', 0), ('''', 0), ('''', 0), ('''', 0)),
      (''K'', (''K'', 50), ('''', 0), ('''', 0), ('''', 0), ('''', 0)),
      (''L'', (''L'', 51), ('''', 0), ('''', 0), ('''', 0), ('''', 0)),
      (''M'', (''M'', 52), ('''', 0), ('''', 0), ('''', 0), ('''', 0)),
      (''N'', (''N'', 53), ('''', 0), ('''', 0), ('''', 0), ('''', 0)),
      (''O'', (''O'', 54), ('''', 0), ('''', 0), ('''', 0), ('''', 0)),
      (''P'', (''P'', 55), ('''', 0), ('''', 0), ('''', 0), ('''', 0)),
      (''Q'', (''Q'', 56), ('''', 0), ('''', 0), ('''', 0), ('''', 0)),
      (''R'', (''R'', 57), ('''', 0), ('''', 0), ('''', 0), ('''', 0)),
      (''S'', (''S'', 58), ('''', 0), ('''', 0), ('''', 0), ('''', 0)),
      (''T'', (''T'', 59), ('''', 0), ('''', 0), ('''', 0), ('''', 0)),
      (''U'', (''U'', 60), ('''', 0), ('''', 0), ('''', 0), ('''', 0)),
      (''V'', (''V'', 61), ('''', 0), ('''', 0), ('''', 0), ('''', 0)),
      (''W'', (''W'', 62), ('''', 0), ('''', 0), ('''', 0), ('''', 0)),
      (''X'', (''X'', 63), ('''', 0), ('''', 0), ('''', 0), ('''', 0)),
      (''Y'', (''Y'', 64), ('''', 0), ('''', 0), ('''', 0), ('''', 0)),
      (''Z'', (''Z'', 65), ('''', 0), ('''', 0), ('''', 0), ('''', 0)),
      (''['', (''LBrack'', 19), ('''', 0), ('''', 0), ('''', 0), ('''', 0)),
      no_key [CHR 0x5C],
      ('']'', (''RBrack'', 20), ('''', 0), ('''', 0), ('''', 0), ('''', 0)),
      no_key ''^'',
      no_key ''_'',
      no_key '''',
      (''a'', (''a'', 66), ('''', 0), ('''', 0), ('''', 0), ('''', 0)),
      (''b'', (''b'', 67), ('''', 0), ('''', 0), ('''', 0), ('''', 0)),
      (''c'', (''c'', 68), ('''', 0), ('''', 0), ('''', 0), ('''', 0)),
      (''d'', (''d'', 69), ('''', 0), ('''', 0), ('''', 0), ('''', 0)),
      (''e'', (''e'', 70), ('''', 0), ('''', 0), ('''', 0), ('''', 0)),
      (''f'', (''f'', 71), ('''', 0), ('''', 0), ('''', 0), ('''', 0)),
      (''g'', (''g'', 72), ('''', 0), ('''', 0), ('''', 0), ('''', 0)),
      (''h'', (''h'', 73), ('''', 0), ('''', 0), ('''', 0), ('''', 0)),
      (''i'', (''i'', 74), ('''', 0), ('''', 0), ('''', 0), ('''', 0)),
      (''j'', (''j'', 75), ('''', 0), ('''', 0), ('''', 0), ('''', 0)),
      (''k'', (''k'', 76), ('''', 0), ('''', 0), ('''', 0), ('''', 0)),
      (''l'', (''l'', 77), ('''', 0), ('''', 0), ('''', 0), ('''', 0)),
      (''m'', (''m'', 78), ('''', 0), ('''', 0), ('''', 0), ('''', 0)),
      (''n'', (''n'', 79), ('''', 0), ('''', 0), ('''', 0), ('''', 0)),
      (''o'', (''o'', 80), ('''', 0), ('''', 0), ('''', 0), ('''', 0)),
      (''p'', (''p'', 81), ('''', 0), ('''', 0), ('''', 0), ('''', 0)),
      (''q'', (''q'', 82), ('''', 0), ('''', 0), ('''', 0), ('''', 0)),
      (''r'', (''r'', 83), ('''', 0), ('''', 0), ('''', 0), ('''', 0)),
      (''s'', (''s'', 84), ('''', 0), ('''', 0), ('''', 0), ('''', 0)),
      (''t'', (''t'', 85), ('''', 0), ('''', 0), ('''', 0), ('''', 0)),
      (''u'', (''u'', 86), ('''', 0), ('''', 0), ('''', 0), ('''', 0)),
      (''v'', (''v'', 87), ('''', 0), ('''', 0), ('''', 0), ('''', 0)),
      (''w'', (''w'', 88), ('''', 0), ('''', 0), ('''', 0), ('''', 0)),
      (''x'', (''x'', 89), ('''', 0), ('''', 0), ('''', 0), ('''', 0)),
      (''y'', (''y'', 90), ('''', 0), ('''', 0), ('''', 0), ('''', 0)),
      (''z'', (''z'', 91), ('''', 0), ('''', 0), ('''', 0), ('''', 0)),
      no_key ''{'',
      no_key ''|'',
      no_key ''}'',
      no_key ''~'',
      no_key '''',
      no_key '''',
      no_key '''',
      no_key '''',
      no_key '''',
      no_key '''',
      no_key '''',
      no_key '''',
      no_key '''',
      no_key '''',
      (''{'', (''Ans'', 93), (''{'', 173), (''ANS'', 4372), ('''', 8365), ('''', 0)),
      no_key '''',
      no_key '''',
      no_key '''',
      no_key '''',
      no_key '''',
      no_key '''']"

definition TI86_KEYS :: "CalcKey list" where
  "TI86_KEYS = TI86_KEYS_0 @ TI86_KEYS_1"

definition TI89_KEYS_0 :: "CalcKey list" where
  "TI89_KEYS_0 =
     [no_key '''',
      no_key '''',
      no_key '''',
      no_key '''',
      no_key '''',
      no_key '''',
      no_key '''',
      no_key '''',
      (''<-'', (''BS'', 257), (''BS'', 257), (''INS'', 4353), (''DEL'', 8449), (''BS'', 257)),
      no_key '''',
      no_key '''',
      no_key '''',
      no_key '''',
      (''ENTER'', (''CR'', 13), (''CR'', 13), (''ENTRY'', 4109), (''APPROX'', 8205), (''CR'', 13)),
      no_key '''',
      no_key '''',
      no_key '''',
      no_key '''',
      no_key '''',
      no_key '''',
      no_key '''',
      no_key '''',
      no_key '''',
      no_key '''',
      no_key '''',
      no_key '''',
      no_key '''',
      (''ESC'', (''ESC'', 264), (''ESC'', 264), (''QUIT'', 4360), ('''', 8456), (''ESC'', 264)),
      no_key '''',
      no_key '''',
      no_key '''',
      no_key '''',
      (''SPACE'', ('''', 32), ('''', 32), ('''', 32), ('''', 8224), (''SPACE'', 32)),
      (''!'', (''!'', 33), ('''', 0), ('''', 0), ('''', 0), ('''', 0)),
      ([CHR 0x22], ([CHR 0x22], 34), ('''', 0), ('''', 0), ('''', 0), ('''', 0)),
      (''#'', (''#'', 35), ('''', 0), ('''', 0), ('''', 0), ('''', 0)),
      (''$'', (''$'', 36), ('''', 0), ('''', 0), ('''', 0), ('''', 0)),
      (''%'', (''%'', 37), ('''', 0), ('''', 0), ('''', 0), ('''', 0)),
      (''&'', (''&'', 38), ('''', 0), ('''', 0), ('''', 0), ('''', 0)),
      ([CHR 0x27], ([CHR 0x27], 39), ('''', 0), ('''', 0), ('''', 0), ('''', 0)),
      (''('', (''('', 40), (''B'', 66), (''{'', 123), (''i'', 0), (''b'', 98)),
      ('')'', ('')'', 41), (''C'', 67), (''}'', 125), (''(c)'', 169), (''c'', 99)),
      (''*'', (''*'', 42), (''J'', 74), (''sqrt'', 4138), (''&'', 38), (''j'', 106)),
      (''+'', (''+'', 43), (''U'', 85), (''CHAR'', 4139), (''Contrast+'', 0), (''u'', 117)),
      ('','', ('','', 44), (''D'', 68), (''['', 91), ('''', 8236), (''d'', 100)),
      (''-'', (''-'', 45), (''O'', 79), (''VAR-LNK'', 4141), (''Contrast-'', 0), (''o'', 111)),
      (''.'', (''.'', 46), (''W'', 87), (''>'', 62), (''>='', 158), (''w'', 119)),
      (''/'', (''/'', 47), (''E'', 69), ('']'', 93), (''!'', 33), (''e'', 101)),
      (''0'', (''0'', 48), (''V'', 86), (''<'', 60), (''<='', 156), (''v'', 118)),
      (''1'', (''1'', 49), (''Q'', 81), ([CHR 0x22], 34), ('''', 8241), (''q'', 113)),
      (''2'', (''2'', 50), (''R'', 82), ([CHR 0x5C], 92), ('''', 8242), (''r'', 114)),
      (''3'', (''3'', 51), (''S'', 83), (''UNITS'', 4147), ('''', 8243), (''s'', 115)),
      (''4'', (''4'', 52), (''L'', 76), ('':'', 58), ('''', 8244), (''l'', 108)),
      (''5'', (''5'', 53), (''M'', 77), (''MATH'', 4149), ('''', 8245), (''m'', 109)),
      (''6'', (''6'', 54), (''N'', 78), (''MEM'', 4150), ('''', 8246), (''n'', 110)),
      (''7'', (''7'', 55), (''G'', 71), (''integrate'', 4151), ('''', 8247), (''g'', 103)),
      (''8'', (''8'', 56), (''H'', 72), (''derivate'', 4152), ('''', 8248), (''h'', 104)),
      (''9'', (''9'', 57), (''I'', 73), ('';'', 4153), ('''', 8249), (''i'', 105)),
      ('':'', ('':'', 58), ('''', 0), ('''', 0), ('''', 0), ('''', 0)),
      ('';'', ('';'', 59), ('''', 0), ('''', 0), ('''', 0), ('''', 0)),
      (''<'', (''<'', 60), ('''', 0), ('''', 0), ('''', 0), ('''', 0)),
      (''='', (''='', 61), (''A'', 65), ([CHR 0x27], 39), (''<>'', 157), (''a'', 97)),
      (''>'', (''>'', 62), ('''', 0), ('''', 0), ('''', 0), ('''', 0)),
      (''?'', (''?'', 63), ('''', 0), ('''', 0), ('''', 0), ('''', 0)),
      (''@'', (''@'', 64), ('''', 0), ('''', 0), ('''', 0), ('''', 0)),
      (''A'', (''A'', 65), (''A'', 65), (''Table3'', 0), ('''', 8257), ('''', 0)),
      (''B'', (''B'', 66), (''B'', 66), ([CHR 0x27], 39), ('''', 8258), ('''', 0)),
      (''C'', (''C'', 67), (''C'', 67), (''Table4'', 0), (''COPY'', 8259), ('''', 0)),
      (''D'', (''D'', 68), (''D'', 68), (''~'', 176), ('''', 8260), ('''', 0)),
      (''E'', (''E'', 69), (''E'', 69), (''Table5'', 0), (''WINDOW'', 8261), ('''', 0)),
      (''F'', (''F'', 70), (''F'', 70), ([CHR 0x10, CHR 0x38], 159), (''FORMAT'', 8262), ('''', 0)),
      (''G'', (''G'', 71), (''G'', 71), (''Table6'', 0), ('''', 8263), ('''', 0)),
      (''H'', (''H'', 72), (''H'', 72), (''&'', 38), ('''', 8264), ('''', 0)),
      (''I'', (''I'', 73), (''I'', 73), (''i'', 151), ('''', 8265), ('''', 0)),
      (''J'', (''J'', 74), (''J'', 74), (''u'', 190), ('''', 8266), ('''', 0)),
      (''K'', (''K'', 75), (''K'', 75), (''|'', 124), ('''', 8267), ('''', 0)),
      (''L'', (''L'', 76), (''L'', 76), ([CHR 0x22], 34), ('''', 8268), ('''', 0)),
      (''M'', (''M'', 77), (''M'', 77), ('';'', 59), ('''', 8269), ('''', 0)),
      (''N'', (''N'', 78), (''N'', 78), (''Table7'', 0), (''NEW'', 8270), ('''', 0)),
      (''O'', (''O'', 79), (''O'', 79), (''Table8'', 0), (''OPEN'', 8271), ('''', 0)),
      (''P'', (''P'', 80), (''P'', 80), (''_'', 95), ('''', 8272), ('''', 0)),
      (''Q'', (''Q'', 81), (''Q'', 81), (''?'', 63), (''HOME'', 8273), ('''', 0)),
      (''R'', (''R'', 82), (''R'', 82), (''@'', 64), (''GRAPH'', 8274), ('''', 0)),
      (''S'', (''S'', 83), (''S'', 83), ([CHR 0x93], 223), (''SAVE'', 8275), ('''', 0)),
      (''T'', (''T'', 84), (''T'', 84), (''#'', 35), (''TblSet'', 8276), ('''', 0)),
      (''U'', (''U'', 85), (''U'', 85), (''Table9'', 0), ('''', 8277), ('''', 0)),
      (''V'', (''V'', 86), (''V'', 86), (''o'', 157), (''PASTE'', 8278), ('''', 0)),
      (''W'', (''W'', 87), (''W'', 87), (''!'', 33), (''Y='', 8279), ('''', 0))]"

definition TI89_KEYS_1 :: "CalcKey list" where
  "TI89_KEYS_1 =
     [(''X'', (''X'', 88), (''X'', 88), ([CHR 0x0E, CHR 0x39], 169), (''CUT'', 8280), ('''', 0)),
      (''Y'', (''Y'', 89), (''Y'', 89), ([CHR 0x01, CHR 0x38], 18), (''TABLE'', 8281), ('''', 0)),
      (''Z'', (''Z'', 90), (''Z'', 90), (''CapsLock'', 0), ('''', 8282), ('''', 0)),
      (''['', (''['', 91), ('''', 0), ('''', 0), ('''', 0), ('''', 0)),
      ([CHR 0x5C], ([CHR 0x5C], 92), ('''', 0), ('''', 0), ('''', 0), ('''', 0)),
      ('']'', ('']'', 93), ('''', 0), ('''', 0), ('''', 0), ('''', 0)),
      (''^'', (''^'', 94), (''^'', 94), ([CHR 0x60], 140), (''THETA'', 136), (''^'', 94)),
      (''_'', (''_'', 95), ('''', 0), ('''', 0), ('''', 0), ('''', 0)),
      no_key '''',
      (''a'', (''a'', 97), (''A'', 65), (''Table3'', 0), ('''', 8257), ('''', 0)),
      (''b'', (''b'', 98), (''B'', 66), ([CHR 0x27], 39), ('''', 8258), ('''', 0)),
      (''c'', (''c'', 99), (''C'', 67), (''Table4'', 0), (''COPY'', 8259), ('''', 0)),
      (''d'', (''d'', 100), (''D'', 68), (''~'', 176), ('''', 8260), ('''', 0)),
      (''e'', (''e'', 101), (''E'', 69), (''Table5'', 0), (''WINDOW'', 8261), ('''', 0)),
      (''f'', (''f'', 102), (''F'', 70), ([CHR 0x10, CHR 0x38], 159), (''FORMAT'', 8262), ('''', 0)),
      (''g'', (''g'', 103), (''G'', 71), (''Table6'', 0), ('''', 8263), ('''', 0)),
      (''h'', (''h'', 104), (''H'', 72), (''&'', 38), ('''', 8264), ('''', 0)),
      (''i'', (''i'', 105), (''I'', 73), (''i'', 151), ('''', 8265), ('''', 0)),
      (''j'', (''j'', 106), (''J'', 74), (''u'', 190), ('''', 8266), ('''', 0)),
      (''k'', (''k'', 107), (''K'', 75), (''|'', 124), ('''', 8267), ('''', 0)),
      (''l'', (''l'', 108), (''L'', 76), ([CHR 0x22], 34), ('''', 8268), ('''', 0)),
      (''m'', (''m'', 109), (''M'', 77), ('';'', 59), ('''', 8269), ('''', 0)),
      (''n'', (''n'', 110), (''N'', 78), (''Table7'', 0), (''NEW'', 8270), ('''', 0)),
      (''o'', (''o'', 111), (''O'', 79), (''Table8'', 0), (''OPEN'', 8271), ('''', 0)),
      (''p'', (''p'', 112), (''P'', 80), (''_'', 95), ('''', 8272), ('''', 0)),
      (''q'', (''q'', 113), (''Q'', 81), (''?'', 63), (''HOME'', 8273), ('''', 0)),
      (''r'', (''r'', 114), (''R'', 82), (''@'', 64), (''GRAPH'', 8274), ('''', 0)),
      (''s'', (''s'', 115), (''S'', 83), ([CHR 0x93], 223), (''SAVE'', 8275), ('''', 0)),
      (''t'', (''t'', 116), (''T'', 84), (''TAN'', 4180), (''TAN-1'', 8276), (''t'', 116)),
      (''u'', (''u'', 117), (''U'', 85), (''Table9'', 0), ('''', 8277), ('''', 0)),
      (''v'', (''v'', 118), (''V'', 86), (''o'', 157), (''PASTE'', 8278), ('''', 0)),
      (''w'', (''w'', 119), (''W'', 87), (''!'', 33), (''Y='', 8279), ('''', 0)),
      (''x'', (''x'', 120), (''X'', 88), (''LN'', 4184), (''e^x'', 8280), (''x'', 120)),
      (''y'', (''y'', 121), (''Y'', 89), (''SIN'', 4185), (''SIN-1'', 8281), (''y'', 121)),
      (''z'', (''z'', 122), (''Z'', 90), (''COS'', 4196), (''COS-1'', 8282), (''z'', 122)),
      (''{'', (''{'', 0), ('''', 0), ('''', 0), ('''', 0), ('''', 0)),
      (''|'', (''|'', 124), (''F'', 70), ([CHR 0xB0], 176), (''d/b'', 8316), (''f'', 102)),
      (''}'', (''}'', 0), ('''', 0), ('''', 0), ('''', 0), ('''', 0)),
      (''~'', (''~'', 126), ('''', 0), ('''', 0), ('''', 0), ('''', 0)),
      no_key '''',
      ([CHR 0x0A, CHR 0x38], ([CHR 0x0A, CHR 0x38], 128), ('''', 0), ('''', 0), ('''', 0), ('''', 0)),
      ([CHR 0x0A, CHR 0x39], ([CHR 0x0A, CHR 0x39], 129), ('''', 0), ('''', 0), ('''', 0), ('''', 0)),
      no_key '''',
      (''Y'', (''Y'', 131), (''X'', 130), ('''', 0), ('''', 0), ('''', 0)),
      no_key '''',
      (''['', (''['', 133), (''Z'', 132), ('''', 0), ('''', 0), ('''', 0)),
      ([CHR 0x5C], ([CHR 0x5C], 134), ('''', 0), ('''', 0), ('''', 0), ('''', 0)),
      ('']'', ('']'', 135), ('''', 0), ('''', 0), ('''', 0), ('''', 0)),
      (''^'', (''^'', 136), (''^'', 136), ('':'', 58), ('''', 8328), ('''', 0)),
      (''_'', (''_'', 137), ('''', 0), ('''', 0), ('''', 0), ('''', 0)),
      ([CHR 0x0B, CHR 0x38], ([CHR 0x0B, CHR 0x38], 138), ('''', 0), ('''', 0), ('''', 0), ('''', 0)),
      no_key '''',
      ([CHR 0x60], ([CHR 0x60], 140), ([CHR 0x0B, CHR 0x39], 139), ('''', 0), ('''', 0), ('''', 0)),
      (''a'', (''a'', 141), ('''', 0), ('''', 0), ('''', 0), ('''', 0)),
      no_key '''',
      (''c'', (''c'', 143), (''b'', 142), ('''', 0), ('''', 0), ('''', 0)),
      (''d'', (''d'', 144), ('''', 0), ('''', 0), ('''', 0), ('''', 0)),
      (''e'', (''e'', 145), ('''', 0), ('''', 0), ('''', 0), ('''', 0)),
      (''f'', (''f'', 146), ('''', 0), ('''', 0), ('''', 0), ('''', 0)),
      no_key '''',
      no_key '''',
      (''EE'', (''EE'', 149), (''K'', 75), (''angl'', 159), (''SYMB'', 8341), (''k'', 107)),
      no_key '''',
      no_key '''',
      no_key '''',
      no_key '''',
      no_key '''',
      no_key '''',
      no_key '''',
      no_key '''',
      no_key '''',
      no_key '''',
      no_key '''',
      no_key '''',
      no_key '''',
      no_key '''',
      no_key '''',
      no_key '''',
      no_key '''',
      no_key '''',
      no_key '''',
      no_key '''',
      no_key '''',
      no_key '''',
      no_key '''',
      (''(-)'', (''(-)'', 173), ('' '', 32), (''ANS'', 4372), ('''', 8365), ('' '', 32)),
      no_key '''',
      no_key '''']"

definition TI89_KEYS_2 :: "CalcKey list" where
  "TI89_KEYS_2 =
     [no_key '''',
      no_key '''',
      no_key '''',
      no_key '''',
      no_key '''',
      no_key '''',
      no_key '''',
      no_key '''',
      no_key '''',
      no_key '''',
      no_key '''',
      no_key '''',
      no_key '''',
      no_key '''',
      no_key '''',
      no_key '''',
      no_key '''',
      no_key '''',
      no_key '''',
      no_key '''',
      no_key '''',
      no_key '''',
      no_key '''',
      no_key '''',
      no_key '''',
      no_key '''',
      no_key '''',
      no_key '''',
      no_key '''',
      no_key '''',
      no_key '''',
      no_key '''',
      no_key '''',
      no_key '''',
      no_key '''',
      no_key '''',
      no_key '''',
      no_key '''',
      no_key '''',
      no_key '''',
      no_key '''',
      no_key '''',
      no_key '''',
      no_key '''',
      no_key '''',
      no_key '''',
      no_key '''',
      no_key '''',
      ([CHR 0xE0], ([CHR 0xE0], 224), ([CHR 0x01, CHR 0x39, CHR 0x32], 192), ('''', 0), ('''', 0), ('''', 0)),
      ([CHR 0x95], ([CHR 0x95], 225), ([CHR 0x01, CHR 0x39, CHR 0x33], 193), ('''', 0), ('''', 0), ('''', 0)),
      ([CHR 0xE2], ([CHR 0xE2], 226), ([CHR 0x01, CHR 0x39, CHR 0x34], 194), ('''', 0), ('''', 0), ('''', 0)),
      no_key '''',
      ([CHR 0xE4], ([CHR 0xE4], 228), ([CHR 0x01, CHR 0x39, CHR 0x36], 196), ('''', 0), ('''', 0), ('''', 0)),
      no_key '''',
      no_key '''',
      ([CHR 0xE7], ([CHR 0xE7], 231), ([CHR 0x01, CHR 0x39, CHR 0x39], 199), ('''', 0), ('''', 0), ('''', 0)),
      ([CHR 0xE8], ([CHR 0xE8], 232), ([CHR 0x80], 200), ('''', 0), ('''', 0), ('''', 0)),
      ([CHR 0xE9], ([CHR 0xE9], 233), ([CHR 0x81], 201), ('''', 0), ('''', 0), ('''', 0)),
      ([CHR 0xEA], ([CHR 0xEA], 234), ([CHR 0x82], 202), ('''', 0), ('''', 0), ('''', 0)),
      ([CHR 0xEB], ([CHR 0xEB], 235), ([CHR 0x83], 203), ('''', 0), ('''', 0), ('''', 0)),
      ([CHR 0x9E], ([CHR 0x9E], 236), ([CHR 0x84], 204), ('''', 0), ('''', 0), ('''', 0)),
      ([CHR 0x9F], ([CHR 0x9F], 237), ([CHR 0x85], 205), ('''', 0), ('''', 0), ('''', 0)),
      ([CHR 0xEE], ([CHR 0xEE], 238), ([CHR 0x86], 206), ('''', 0), ('''', 0), ('''', 0)),
      ([CHR 0xEF], ([CHR 0xEF], 239), ([CHR 0x87], 207), ('''', 0), ('''', 0), ('''', 0)),
      no_key '''',
      ([CHR 0xF1], ([CHR 0xF1], 241), ([CHR 0x10, CHR 0x39], 209), ('''', 0), ('''', 0), ('''', 0)),
      ([CHR 0xA2], ([CHR 0xA2], 242), ([CHR 0x88], 210), ('''', 0), ('''', 0), ('''', 0)),
      ([CHR 0xA3], ([CHR 0xA3], 243), ([CHR 0x89], 211), ('''', 0), ('''', 0), ('''', 0)),
      ([CHR 0xF4], ([CHR 0xF4], 244), ([CHR 0x8A], 212), ('''', 0), ('''', 0), ('''', 0)),
      ([CHR 0xF5], ([CHR 0xF5], 245), ('''', 0), ('''', 0), ('''', 0), ('''', 0)),
      ([CHR 0xF6], ([CHR 0xF6], 246), ([CHR 0x8C], 214), ('''', 0), ('''', 0), ('''', 0)),
      no_key '''',
      no_key '''',
      ([CHR 0xF9], ([CHR 0xF9], 249), ([CHR 0x8F], 217), ('''', 0), ('''', 0), ('''', 0)),
      ([CHR 0xA8], ([CHR 0xA8], 250), ([CHR 0x91], 221), ('''', 0), ('''', 0), ('''', 0)),
      ([CHR 0xFB], ([CHR 0xFB], 251), ([CHR 0x11, CHR 0x39], 219), ('''', 0), ('''', 0), ('''', 0)),
      ([CHR 0xFC], ([CHR 0xFC], 252), ([CHR 0x90], 220), ('''', 0), ('''', 0), ('''', 0)),
      no_key '''',
      no_key '''',
      ([CHR 0xFF], ([CHR 0xFF], 255), ('''', 0), ('''', 0), ('''', 0), ('''', 0)),
      no_key '''',
      (''<-'', (''BS'', 257), (''BS'', 257), (''INS'', 4353), (''DEL'', 8449), ('''', 0)),
      (''STO->'', (''STO->'', 258), (''P'', 80), (''RCL'', 4354), (''@'', 64), (''p'', 112)),
      (''SIN'', (''SIN'', 259), (''SIN'', 259), ([CHR 0x53, CHR 0x49, CHR 0x4E, CHR 0x80], 4355), ('''', 8451), ('''', 0)),
      (''COS'', (''COS'', 260), (''COS'', 260), ([CHR 0x43, CHR 0x4F, CHR 0x53, CHR 0x80], 4356), ('''', 8452), ('''', 0)),
      (''TAN'', (''TAN'', 261), (''TAN'', 261), ([CHR 0x54, CHR 0x41, CHR 0x4E, CHR 0x80], 4357), ('''', 8453), ('''', 0)),
      (''LN'', (''LN'', 262), (''LN'', 262), (''e^x'', 4358), ('''', 8454), ('''', 0)),
      (''CLEAR'', (''CLEAR'', 263), (''CLEAR'', 263), (''CLEAR'', 263), ('''', 8455), ('''', 0))]"

definition TI89_KEYS_3 :: "CalcKey list" where
  "TI89_KEYS_3 =
     [(''ESC'', (''ESC'', 264), (''ESC'', 264), (''QUIT'', 4360), ('''', 8456), ('''', 0)),
      (''APPS'', (''APPS'', 265), (''APPS'', 265), (''SWITCH'', 4361), ('''', 8457), ('''', 0)),
      (''MODE'', (''MODE'', 266), (''MODE'', 266), (''>'', 18), (''_'', 95), (''MODE'', 266)),
      no_key '''',
      (''F1'', (''F1'', 268), (''F1'', 268), (''F1'', 8460), (''F1'', 0), ('''', 0)),
      (''F2'', (''F2'', 269), (''F2'', 269), (''F2'', 8461), (''F2'', 0), ('''', 0)),
      (''F3'', (''F3'', 270), (''F3'', 270), (''F3'', 8462), (''F3'', 0), ('''', 0)),
      (''F4'', (''F4'', 271), (''F4'', 271), (''F4'', 8463), (''F4'', 0), ('''', 0)),
      (''F5'', (''F5'', 272), (''F5'', 272), (''F5'', 8464), (''F5'', 268), ('''', 0)),
      no_key '''',
      no_key '''',
      no_key '''',
      no_key '''',
      (''HOME'', (''HOME'', 277), (''HOME'', 277), (''CUST'', 4373), (''HOME'', 277), (''HOME'', 277)),
      (''CATLG'', (''CATLG'', 278), (''i'', 151), (''infinite'', 190), (''CATLG'', 27), ('''', 0)),
      no_key '''',
      no_key '''',
      no_key '''',
      no_key '''',
      no_key '''',
      no_key '''',
      no_key '''',
      no_key '''',
      no_key '''',
      no_key '''',
      no_key '''',
      no_key '''',
      no_key '''',
      no_key '''',
      no_key '''',
      no_key '''',
      no_key '''',
      no_key '''',
      no_key '''',
      no_key '''',
      no_key '''',
      no_key '''',
      no_key '''',
      no_key '''',
      no_key '''',
      no_key '''',
      no_key '''',
      no_key '''',
      no_key '''',
      no_key '''',
      no_key '''',
      no_key '''',
      no_key '''',
      no_key '''',
      no_key '''',
      no_key '''',
      no_key '''',
      no_key '''',
      no_key '''',
      no_key '''',
      no_key '''',
      no_key '''',
      no_key '''',
      no_key '''',
      no_key '''',
      no_key '''',
      no_key '''',
      no_key '''',
      no_key '''',
      no_key '''',
      no_key '''',
      no_key '''',
      no_key '''',
      no_key '''',
      no_key '''',
      no_key '''',
      no_key '''',
      no_key '''',
      (''LEFT'', (''LEFT'', 337), (''LEFT'', 16721), (''LEFT'', 4433), (''LEFT'', 8529), ('''', 0)),
      (''UP'', (''UP'', 338), (''UP'', 16722), (''UP'', 4434), (''UP'', 8530), ('''', 0)),
      no_key '''',
      (''RIGHT'', (''RIGHT'', 340), (''RIGHT'', 16724), (''RIGHT'', 4436), (''RIGHT'', 8532), ('''', 0)),
      no_key '''',
      no_key '''',
      no_key '''',
      (''DOWN'', (''DOWN'', 344), (''DOWN'', 16728), (''DOWN'', 4440), (''DOWN'', 8536), ('''', 0)),
      no_key '''',
      no_key '''',
      no_key '''',
      no_key '''',
      no_key '''',
      no_key '''',
      no_key '''']"

definition TI89_KEYS :: "CalcKey list" where
  "TI89_KEYS = TI89_KEYS_0 @ TI89_KEYS_1 @ TI89_KEYS_2 @ TI89_KEYS_3"

definition TI92P_KEYS_0 :: "CalcKey list" where
  "TI92P_KEYS_0 =
     [no_key '''',
      no_key '''',
      no_key '''',
      no_key '''',
      no_key '''',
      no_key '''',
      no_key '''',
      no_key '''',
      (''<-'', (''BS'', 257), (''BS'', 257), (''INS'', 4353), (''DEL'', 8449), ('''', 0)),
      no_key '''',
      no_key '''',
      no_key '''',
      no_key '''',
      (''ENTER'', (''CR'', 13), (''CR'', 13), (''APPROX'', 8205), (''ENTRY'', 4109), ('''', 0)),
      no_key '''',
      no_key '''',
      no_key '''',
      no_key '''',
      no_key '''',
      no_key '''',
      no_key '''',
      no_key '''',
      no_key '''',
      no_key '''',
      no_key '''',
      no_key '''',
      no_key '''',
      (''ESC'', (''ESC'', 264), (''ESC'', 264), (''QUIT'', 4360), ('''', 8456), ('''', 0)),
      no_key '''',
      no_key '''',
      no_key '''',
      no_key '''',
      (''SPACE'', ('''', 32), ('''', 32), ('''', 32), ('''', 8224), ('''', 0)),
      (''!'', (''!'', 33), ('''', 0), ('''', 0), ('''', 0), ('''', 0)),
      ([CHR 0x22], ([CHR 0x22], 34), ('''', 0), ('''', 0), ('''', 0), ('''', 0)),
      (''#'', (''#'', 35), ('''', 0), ('''', 0), ('''', 0), ('''', 0)),
      (''$'', (''$'', 36), ('''', 0), ('''', 0), ('''', 0), ('''', 0)),
      (''%'', (''%'', 37), ('''', 0), ('''', 0), ('''', 0), ('''', 0)),
      (''&'', (''&'', 38), ('''', 0), ('''', 0), ('''', 0), ('''', 0)),
      ([CHR 0x27], ([CHR 0x27], 39), ('''', 0), ('''', 0), ('''', 0), ('''', 0)),
      (''('', (''('', 40), (''('', 40), (''{'', 123), ('''', 8232), ('''', 0)),
      ('')'', ('')'', 41), ('')'', 41), (''}'', 125), ('''', 8233), ('''', 0)),
      (''*'', (''*'', 42), (''*'', 42), ([CHR 0x8C], 4138), ('''', 8234), ('''', 0)),
      (''+'', (''+'', 43), (''+'', 43), (''CHAR'', 4139), (''Contrast+'', 0), ('''', 0)),
      ('','', ('','', 44), ('','', 44), (''['', 91), ('''', 8236), ('''', 0)),
      (''-'', (''-'', 45), (''-'', 45), (''VAR-LINK'', 4141), (''Contrast-'', 0), ('''', 0)),
      (''.'', (''.'', 46), (''.'', 46), (''>'', 62), ('''', 8238), ('''', 0)),
      (''/'', (''/'', 47), (''/'', 47), ('']'', 93), ('''', 8239), ('''', 0)),
      (''0'', (''0'', 48), (''0'', 48), (''<'', 60), ('''', 8240), ('''', 0)),
      (''1'', (''1'', 49), (''1'', 49), (''E'', 149), ('''', 8241), ('''', 0)),
      (''2'', (''2'', 50), (''2'', 50), (''CATALOG'', 4146), ('''', 8242), ('''', 0)),
      (''3'', (''3'', 51), (''3'', 51), (''CUSTOM'', 4147), ('''', 8243), ('''', 0)),
      (''4'', (''4'', 52), (''4'', 52), (''Z'', 4148), ('''', 8244), ('''', 0)),
      (''5'', (''5'', 53), (''5'', 53), (''MATH'', 4149), ('''', 8245), ('''', 0)),
      (''6'', (''6'', 54), (''6'', 54), (''MEM'', 4150), ('''', 8246), ('''', 0)),
      (''7'', (''7'', 55), (''7'', 55), (''VAR-LINK'', 4151), ('''', 8247), ('''', 0)),
      (''8'', (''8'', 56), (''8'', 56), ([CHR 0x01, CHR 0x38, CHR 0x39], 4152), ('''', 8248), ('''', 0)),
      (''9'', (''9'', 57), (''9'', 57), (''['', 4153), ('''', 8249), ('''', 0)),
      ('':'', ('':'', 58), ('''', 0), ('''', 0), ('''', 0), ('''', 0)),
      ('';'', ('';'', 59), ('''', 0), ('''', 0), ('''', 0), ('''', 0)),
      (''<'', (''<'', 60), ('''', 0), ('''', 0), ('''', 0), ('''', 0)),
      (''='', (''='', 61), (''='', 61), ([CHR 0x5C], 92), ('''', 8253), ('''', 0)),
      (''>'', (''>'', 62), ('''', 0), ('''', 0), ('''', 0), ('''', 0)),
      (''?'', (''?'', 63), ('''', 0), ('''', 0), ('''', 0), ('''', 0)),
      (''@'', (''@'', 64), ('''', 0), ('''', 0), ('''', 0), ('''', 0)),
      (''A'', (''A'', 65), (''A'', 65), (''Table3'', 0), ('''', 8257), ('''', 0)),
      (''B'', (''B'', 66), (''B'', 66), ([CHR 0x27], 39), ('''', 8258), ('''', 0)),
      (''C'', (''C'', 67), (''C'', 67), (''Table4'', 0), (''COPY'', 8259), ('''', 0)),
      (''D'', (''D'', 68), (''D'', 68), (''~'', 176), ('''', 8260), ('''', 0)),
      (''E'', (''E'', 69), (''E'', 69), (''Table5'', 0), (''WINDOW'', 8261), ('''', 0)),
      (''F'', (''F'', 70), (''F'', 70), ([CHR 0x10, CHR 0x38], 159), (''FORMAT'', 8262), ('''', 0)),
      (''G'', (''G'', 71), (''G'', 71), (''Table6'', 0), ('''', 8263), ('''', 0)),
      (''H'', (''H'', 72), (''H'', 72), (''&'', 38), ('''', 8264), ('''', 0)),
      (''I'', (''I'', 73), (''I'', 73), (''i'', 151), ('''', 8265), ('''', 0)),
      (''J'', (''J'', 74), (''J'', 74), (''u'', 190), ('''', 8266), ('''', 0)),
      (''K'', (''K'', 75), (''K'', 75), (''|'', 124), ('''', 8267), ('''', 0)),
      (''L'', (''L'', 76), (''L'', 76), ([CHR 0x22], 34), ('''', 8268), ('''', 0)),
      (''M'', (''M'', 77), (''M'', 77), ('';'', 59), ('''', 8269), ('''', 0)),
      (''N'', (''N'', 78), (''N'', 78), (''Table7'', 0), (''NEW'', 8270), ('''', 0)),
      (''O'', (''O'', 79), (''O'', 79), (''Table8'', 0), (''OPEN'', 8271), ('''', 0)),
      (''P'', (''P'', 80), (''P'', 80), (''_'', 95), ('''', 8272), ('''', 0)),
      (''Q'', (''Q'', 81), (''Q'', 81), (''?'', 63), (''HOME'', 8273), ('''', 0)),
      (''R'', (''R'', 82), (''R'', 82), (''@'', 64), (''GRAPH'', 8274), ('''', 0)),
      (''S'', (''S'', 83), (''S'', 83), ([CHR 0x93], 223), (''SAVE'', 8275), ('''', 0)),
      (''T'', (''T'', 84), (''T'', 84), (''#'', 35), (''TblSet'', 8276), ('''', 0)),
      (''U'', (''U'', 85), (''U'', 85), (''Table9'', 0), ('''', 8277), ('''', 0)),
      (''V'', (''V'', 86), (''V'', 86), (''o'', 157), (''PASTE'', 8278), ('''', 0)),
      (''W'', (''W'', 87), (''W'', 87), (''!'', 33), (''Y='', 8279), ('''', 0))]"

definition TI92P_KEYS_1 :: "CalcKey list" where
  "TI92P_KEYS_1 =
     [(''X'', (''X'', 88), (''X'', 88), ([CHR 0x0E, CHR 0x39], 169), (''CUT'', 8280), ('''', 0)),
      (''Y'', (''Y'', 89), (''Y'', 89), ([CHR 0x01, CHR 0x38], 18), (''TABLE'', 8281), ('''', 0)),
      (''Z'', (''Z'', 90), (''Z'', 90), (''CapsLock'', 0), ('''', 8282), ('''', 0)),
      (''['', (''['', 91), ('''', 0), ('''', 0), ('''', 0), ('''', 0)),
      ([CHR 0x5C], ([CHR 0x5C], 92), ('''', 0), ('''', 0), ('''', 0), ('''', 0)),
      ('']'', ('']'', 93), ('''', 0), ('''', 0), ('''', 0), ('''', 0)),
      (''^'', (''^'', 94), (''^'', 94), ([CHR 0x60], 140), ('''', 8286), ('''', 0)),
      (''_'', (''_'', 95), ('''', 0), ('''', 0), ('''', 0), ('''', 0)),
      no_key '''',
      (''a'', (''a'', 97), (''A'', 65), (''Table3'', 0), ('''', 8257), ('''', 0)),
      (''b'', (''b'', 98), (''B'', 66), ([CHR 0x27], 39), ('''', 8258), ('''', 0)),
      (''c'', (''c'', 99), (''C'', 67), (''Table4'', 0), (''COPY'', 8259), ('''', 0)),
      (''d'', (''d'', 100), (''D'', 68), (''~'', 176), ('''', 8260), ('''', 0)),
      (''e'', (''e'', 101), (''E'', 69), (''Table5'', 0), (''WINDOW'', 8261), ('''', 0)),
      (''f'', (''f'', 102), (''F'', 70), ([CHR 0x10, CHR 0x38], 159), (''FORMAT'', 8262), ('''', 0)),
      (''g'', (''g'', 103), (''G'', 71), (''Table6'', 0), ('''', 8263), ('''', 0)),
      (''h'', (''h'', 104), (''H'', 72), (''&'', 38), ('''', 8264), ('''', 0)),
      (''i'', (''i'', 105), (''I'', 73), (''i'', 151), ('''', 8265), ('''', 0)),
      (''j'', (''j'', 106), (''J'', 74), (''u'', 190), ('''', 8266), ('''', 0)),
      (''k'', (''k'', 107), (''K'', 75), (''|'', 124), ('''', 8267), ('''', 0)),
      (''l'', (''l'', 108), (''L'', 76), ([CHR 0x22], 34), ('''', 8268), ('''', 0)),
      (''m'', (''m'', 109), (''M'', 77), ('';'', 59), ('''', 8269), ('''', 0)),
      (''n'', (''n'', 110), (''N'', 78), (''Table7'', 0), (''NEW'', 8270), ('''', 0)),
      (''o'', (''o'', 111), (''O'', 79), (''Table8'', 0), (''OPEN'', 8271), ('''', 0)),
      (''p'', (''p'', 112), (''P'', 80), (''_'', 95), ('''', 8272), ('''', 0)),
      (''q'', (''q'', 113), (''Q'', 81), (''?'', 63), (''HOME'', 8273), ('''', 0)),
      (''r'', (''r'', 114), (''R'', 82), (''@'', 64), (''GRAPH'', 8274), ('''', 0)),
      (''s'', (''s'', 115), (''S'', 83), ([CHR 0x93], 223), (''SAVE'', 8275), ('''', 0)),
      (''t'', (''t'', 116), (''T'', 84), (''#'', 35), (''TblSet'', 8276), ('''', 0)),
      (''u'', (''u'', 117), (''U'', 85), (''Table9'', 0), ('''', 8277), ('''', 0)),
      (''v'', (''v'', 118), (''V'', 86), (''o'', 157), (''PASTE'', 8278), ('''', 0)),
      (''w'', (''w'', 119), (''W'', 87), (''!'', 33), (''Y='', 8279), ('''', 0)),
      (''x'', (''x'', 120), (''X'', 88), ([CHR 0x0E, CHR 0x39], 169), (''CUT'', 8280), ('''', 0)),
      (''y'', (''y'', 121), (''Y'', 89), ([CHR 0x01, CHR 0x38], 18), (''TABLE'', 8281), ('''', 0)),
      (''z'', (''z'', 122), (''Z'', 90), (''CapsLock'', 0), ('''', 8282), ('''', 0)),
      (''{'', (''{'', 0), ('''', 0), ('''', 0), ('''', 0), ('''', 0)),
      (''|'', (''|'', 0), ('''', 0), ('''', 0), ('''', 0), ('''', 0)),
      (''}'', (''}'', 0), ('''', 0), ('''', 0), ('''', 0), ('''', 0)),
      (''~'', (''~'', 126), ('''', 0), ('''', 0), ('''', 0), ('''', 0)),
      no_key '''',
      ([CHR 0x0A, CHR 0x38], ([CHR 0x0A, CHR 0x38], 128), ('''', 0), ('''', 0), ('''', 0), ('''', 0)),
      ([CHR 0x0A, CHR 0x39], ([CHR 0x0A, CHR 0x39], 129), ('''', 0), ('''', 0), ('''', 0), ('''', 0)),
      no_key '''',
      (''Y'', (''Y'', 131), (''X'', 130), ('''', 0), ('''', 0), ('''', 0)),
      no_key '''',
      (''['', (''['', 133), (''Z'', 132), ('''', 0), ('''', 0), ('''', 0)),
      ([CHR 0x5C], ([CHR 0x5C], 134), ('''', 0), ('''', 0), ('''', 0), ('''', 0)),
      ('']'', ('']'', 135), ('''', 0), ('''', 0), ('''', 0), ('''', 0)),
      (''^'', (''^'', 136), (''^'', 136), ('':'', 58), ('''', 8328), ('''', 0)),
      (''_'', (''_'', 137), ('''', 0), ('''', 0), ('''', 0), ('''', 0)),
      ([CHR 0x0B, CHR 0x38], ([CHR 0x0B, CHR 0x38], 138), ('''', 0), ('''', 0), ('''', 0), ('''', 0)),
      no_key '''',
      ([CHR 0x60], ([CHR 0x60], 140), ([CHR 0x0B, CHR 0x39], 139), ('''', 0), ('''', 0), ('''', 0)),
      (''a'', (''a'', 141), ('''', 0), ('''', 0), ('''', 0), ('''', 0)),
      no_key '''',
      (''c'', (''c'', 143), (''b'', 142), ('''', 0), ('''', 0), ('''', 0)),
      (''d'', (''d'', 144), ('''', 0), ('''', 0), ('''', 0), ('''', 0)),
      (''e'', (''e'', 145), ('''', 0), ('''', 0), ('''', 0), ('''', 0)),
      (''f'', (''f'', 146), ('''', 0), ('''', 0), ('''', 0), ('''', 0)),
      no_key '''',
      no_key '''',
      no_key '''',
      no_key '''',
      no_key '''',
      no_key '''',
      no_key '''',
      no_key '''',
      no_key '''',
      no_key '''',
      no_key '''',
      no_key '''',
      no_key '''',
      no_key '''',
      no_key '''',
      no_key '''',
      no_key '''',
      no_key '''',
      no_key '''',
      no_key '''',
      no_key '''',
      no_key '''',
      no_key '''',
      no_key '''',
      no_key '''',
      no_key '''',
      (''{'', (''{'', 173), (''{'', 173), (''ANS'', 4372), ('''', 8365), ('''', 0)),
      no_key '''',
      no_key '''']"

definition TI92P_KEYS_2 :: "CalcKey list" where
  "TI92P_KEYS_2 =
     [no_key '''',
      no_key '''',
      no_key '''',
      no_key '''',
      no_key '''',
      no_key '''',
      no_key '''',
      no_key '''',
      no_key '''',
      no_key '''',
      no_key '''',
      no_key '''',
      no_key '''',
      no_key '''',
      no_key '''',
      no_key '''',
      no_key '''',
      no_key '''',
      no_key '''',
      no_key '''',
      no_key '''',
      no_key '''',
      no_key '''',
      no_key '''',
      no_key '''',
      no_key '''',
      no_key '''',
      no_key '''',
      no_key '''',
      no_key '''',
      no_key '''',
      no_key '''',
      no_key '''',
      no_key '''',
      no_key '''',
      no_key '''',
      no_key '''',
      no_key '''',
      no_key '''',
      no_key '''',
      no_key '''',
      no_key '''',
      no_key '''',
      no_key '''',
      no_key '''',
      no_key '''',
      no_key '''',
      no_key '''',
      ([CHR 0xE0], ([CHR 0xE0], 224), ([CHR 0x01, CHR 0x39, CHR 0x32], 192), ('''', 0), ('''', 0), ('''', 0)),
      ([CHR 0x95], ([CHR 0x95], 225), ([CHR 0x01, CHR 0x39, CHR 0x33], 193), ('''', 0), ('''', 0), ('''', 0)),
      ([CHR 0xE2], ([CHR 0xE2], 226), ([CHR 0x01, CHR 0x39, CHR 0x34], 194), ('''', 0), ('''', 0), ('''', 0)),
      no_key '''',
      ([CHR 0xE4], ([CHR 0xE4], 228), ([CHR 0x01, CHR 0x39, CHR 0x36], 196), ('''', 0), ('''', 0), ('''', 0)),
      no_key '''',
      no_key '''',
      ([CHR 0xE7], ([CHR 0xE7], 231), ([CHR 0x01, CHR 0x39, CHR 0x39], 199), ('''', 0), ('''', 0), ('''', 0)),
      ([CHR 0xE8], ([CHR 0xE8], 232), ([CHR 0x80], 200), ('''', 0), ('''', 0), ('''', 0)),
      ([CHR 0xE9], ([CHR 0xE9], 233), ([CHR 0x81], 201), ('''', 0), ('''', 0), ('''', 0)),
      ([CHR 0xEA], ([CHR 0xEA], 234), ([CHR 0x82], 202), ('''', 0), ('''', 0), ('''', 0)),
      ([CHR 0xEB], ([CHR 0xEB], 235), ([CHR 0x83], 203), ('''', 0), ('''', 0), ('''', 0)),
      ([CHR 0x9E], ([CHR 0x9E], 236), ([CHR 0x84], 204), ('''', 0), ('''', 0), ('''', 0)),
      ([CHR 0x9F], ([CHR 0x9F], 237), ([CHR 0x85], 205), ('''', 0), ('''', 0), ('''', 0)),
      ([CHR 0xEE], ([CHR 0xEE], 238), ([CHR 0x86], 206), ('''', 0), ('''', 0), ('''', 0)),
      ([CHR 0xEF], ([CHR 0xEF], 239), ([CHR 0x87], 207), ('''', 0), ('''', 0), ('''', 0)),
      no_key '''',
      ([CHR 0xF1], ([CHR 0xF1], 241), ([CHR 0x10, CHR 0x39], 209), ('''', 0), ('''', 0), ('''', 0)),
      ([CHR 0xA2], ([CHR 0xA2], 242), ([CHR 0x88], 210), ('''', 0), ('''', 0), ('''', 0)),
      ([CHR 0xA3], ([CHR 0xA3], 243), ([CHR 0x89], 211), ('''', 0), ('''', 0), ('''', 0)),
      ([CHR 0xF4], ([CHR 0xF4], 244), ([CHR 0x8A], 212), ('''', 0), ('''', 0), ('''', 0)),
      ([CHR 0xF5], ([CHR 0xF5], 245), ('''', 0), ('''', 0), ('''', 0), ('''', 0)),
      ([CHR 0xF6], ([CHR 0xF6], 246), ([CHR 0x8C], 214), ('''', 0), ('''', 0), ('''', 0)),
      no_key '''',
      no_key '''',
      ([CHR 0xF9], ([CHR 0xF9], 249), ([CHR 0x8F], 217), ('''', 0), ('''', 0), ('''', 0)),
      ([CHR 0xA8], ([CHR 0xA8], 250), ([CHR 0x91], 221), ('''', 0), ('''', 0), ('''', 0)),
      ([CHR 0xFB], ([CHR 0xFB], 251), ([CHR 0x11, CHR 0x39], 219), ('''', 0), ('''', 0), ('''', 0)),
      ([CHR 0xFC], ([CHR 0xFC], 252), ([CHR 0x90], 220), ('''', 0), ('''', 0), ('''', 0)),
      no_key '''',
      no_key '''',
      ([CHR 0xFF], ([CHR 0xFF], 255), ('''', 0), ('''', 0), ('''', 0), ('''', 0)),
      no_key '''',
      (''<-'', (''BS'', 257), (''BS'', 257), (''INS'', 4353), (''DEL'', 8449), ('''', 0)),
      (''STO->'', (''STO->'', 258), (''STO->'', 258), (''RCL'', 4354), ('''', 8450), ('''', 0)),
      (''SIN'', (''SIN'', 259), (''SIN'', 259), ([CHR 0x53, CHR 0x49, CHR 0x4E, CHR 0x80], 4355), ('''', 8451), ('''', 0)),
      (''COS'', (''COS'', 260), (''COS'', 260), ([CHR 0x43, CHR 0x4F, CHR 0x53, CHR 0x80], 4356), ('''', 8452), ('''', 0)),
      (''TAN'', (''TAN'', 261), (''TAN'', 261), ([CHR 0x54, CHR 0x41, CHR 0x4E, CHR 0x80], 4357), ('''', 8453), ('''', 0)),
      (''LN'', (''LN'', 262), (''LN'', 262), (''e^x'', 4358), ('''', 8454), ('''', 0)),
      (''CLEAR'', (''CLEAR'', 263), (''CLEAR'', 263), (''CLEAR'', 263), ('''', 8455), ('''', 0))]"

definition TI92P_KEYS_3 :: "CalcKey list" where
  "TI92P_KEYS_3 =
     [(''ESC'', (''ESC'', 264), (''ESC'', 264), (''QUIT'', 4360), ('''', 8456), ('''', 0)),
      (''APPS'', (''APPS'', 265), (''APPS'', 265), (''SWITCH'', 4361), ('''', 8457), ('''', 0)),
      (''MODE'', (''MODE'', 266), (''MODE'', 266), (''MODE'', 266), ('''', 8458), ('''', 0)),
      (''ON'', (''ON'', 267), (''OFF'', 267), (''OFF'', 267), ('''', 0), ('''', 0)),
      (''F1'', (''F1'', 268), (''F1'', 268), (''F1'', 8460), ('''', 0), ('''', 0)),
      (''F2'', (''F2'', 269), (''F2'', 269), (''F2'', 8461), ('''', 0), ('''', 0)),
      (''F3'', (''F3'', 270), (''F3'', 270), (''F3'', 8462), ('''', 0), ('''', 0)),
      (''F4'', (''F4'', 271), (''F4'', 271), (''F4'', 8463), ('''', 0), ('''', 0)),
      (''F5'', (''F5'', 272), (''F5'', 272), (''F5'', 8464), ('''', 0), ('''', 0)),
      (''F6'', (''F6'', 273), (''F6'', 273), (''F6'', 8465), ('''', 0), ('''', 0)),
      (''F7'', (''F7'', 274), (''F7'', 274), (''F7'', 8466), ('''', 0), ('''', 0)),
      (''F8'', (''F8'', 275), (''F8'', 275), (''F8'', 8467), ('''', 0), ('''', 0)),
      (''CHS?'', (''CHS?'', 276), ('''', 0), ('''', 0), ('''', 0), ('''', 0)),
      no_key '''',
      no_key '''',
      no_key '''',
      no_key '''',
      no_key '''',
      no_key '''',
      no_key '''',
      no_key '''',
      no_key '''',
      no_key '''',
      no_key '''',
      no_key '''',
      no_key '''',
      no_key '''',
      no_key '''',
      no_key '''',
      no_key '''',
      no_key '''',
      no_key '''',
      no_key '''',
      no_key '''',
      no_key '''',
      no_key '''',
      no_key '''',
      no_key '''',
      no_key '''',
      no_key '''',
      no_key '''',
      no_key '''',
      no_key '''',
      no_key '''',
      no_key '''',
      no_key '''',
      no_key '''',
      no_key '''',
      no_key '''',
      no_key '''',
      no_key '''',
      no_key '''',
      no_key '''',
      no_key '''',
      no_key '''',
      no_key '''',
      no_key '''',
      no_key '''',
      no_key '''',
      no_key '''',
      no_key '''',
      no_key '''',
      no_key '''',
      no_key '''',
      no_key '''',
      no_key '''',
      no_key '''',
      no_key '''',
      no_key '''',
      no_key '''',
      no_key '''',
      no_key '''',
      no_key '''',
      (''LEFT'', (''LEFT'', 337), (''LEFT'', 16721), (''LEFT'', 4433), (''LEFT'', 8529), ('''', 0)),
      (''UP'', (''UP'', 338), (''UP'', 16722), (''UP'', 4434), (''UP'', 8530), ('''', 0)),
      (''LEFT-UP'', (''LEFT-UP'', 339), (''LEFT-UP'', 339), (''LEFT-UP'', 339), (''LEFT-UP'', 339), ('''', 0)),
      (''RIGHT'', (''RIGHT'', 340), (''RIGHT'', 16724), (''RIGHT'', 4436), (''RIGHT'', 8532), ('''', 0)),
      no_key '''',
      (''RIGHT-UP'', (''RIGHT-UP'', 342), (''RIGHT-UP'', 0), (''RIGHT-UP'', 0), (''RIGHT-UP'', 0), ('''', 0)),
      no_key '''',
      (''DOWN'', (''DOWN'', 344), (''DOWN'', 16728), (''DOWN'', 4440), (''DOWN'', 8536), ('''', 0)),
      (''LEFT-DOWN'', (''LEFT-DOWN'', 345), (''LEFT-DOWN'', 345), (''LEFT-DOWN'', 345), (''LEFT-DOWN'', 345), ('''', 0)),
      no_key '''',
      no_key '''',
      (''RIGHT-DOWN'', (''RIGHT-DOWN'', 348), (''RIGHT-DOWN'', 348), (''RIGHT-DOWN'', 348), (''RIGHT-DOWN'', 348), ('''', 0)),
      no_key '''',
      no_key '''',
      no_key '''']"

definition TI92P_KEYS :: "CalcKey list" where
  "TI92P_KEYS = TI92P_KEYS_0 @ TI92P_KEYS_1 @ TI92P_KEYS_2 @ TI92P_KEYS_3"

definition ticalcs_keys_73 :: "byte \<Rightarrow> CalcKey option" where
  "ticalcs_keys_73 ascii_code = key_at TI73_KEYS ascii_code"

definition ticalcs_keys_83 :: "byte \<Rightarrow> CalcKey option" where
  "ticalcs_keys_83 ascii_code = key_at TI83_KEYS ascii_code"

definition ticalcs_keys_83p :: "byte \<Rightarrow> CalcKey option" where
  "ticalcs_keys_83p ascii_code = key_at TI83P_KEYS ascii_code"

definition ticalcs_keys_86 :: "byte \<Rightarrow> CalcKey option" where
  "ticalcs_keys_86 ascii_code = key_at TI86_KEYS ascii_code"

definition ticalcs_keys_89 :: "byte \<Rightarrow> CalcKey option" where
  "ticalcs_keys_89 ascii_code = key_at TI89_KEYS ascii_code"

definition ticalcs_keys_92p :: "byte \<Rightarrow> CalcKey option" where
  "ticalcs_keys_92p ascii_code = key_at TI92P_KEYS ascii_code"

section \<open>Which codes the tables answer for\<close>

lemma key_table_lengths:
  "length TI73_KEYS = 144" "length TI83_KEYS = 144" "length TI83P_KEYS = 144" "length TI86_KEYS = 144"
  "length TI89_KEYS = 352" "length TI92P_KEYS = 352"
  by (simp_all add: TI73_KEYS_def TI83_KEYS_def TI83P_KEYS_def TI86_KEYS_def TI89_KEYS_def TI92P_KEYS_def
    TI73_KEYS_0_def TI73_KEYS_1_def TI83_KEYS_0_def TI83_KEYS_1_def TI83P_KEYS_0_def TI83P_KEYS_1_def
    TI86_KEYS_0_def TI86_KEYS_1_def TI89_KEYS_0_def TI89_KEYS_1_def TI89_KEYS_2_def TI89_KEYS_3_def
    TI92P_KEYS_0_def TI92P_KEYS_1_def TI92P_KEYS_2_def TI92P_KEYS_3_def)

lemma keys_out_of_range:
  "ticalcs_keys_83p code = None \<longleftrightarrow> 144 \<le> unat code" "ticalcs_keys_89 code \<noteq> None"
proof -
  have "unat code < 2 ^ 8" by (rule order_less_le_trans [OF unsigned_less]) simp
  then show "ticalcs_keys_83p code = None \<longleftrightarrow> 144 \<le> unat code" "ticalcs_keys_89 code \<noteq> None"
    by (auto simp: ticalcs_keys_83p_def ticalcs_keys_89_def key_at_def key_table_lengths)
qed

end
