(* ===== verification/Screens.thy ===== *)
theory Screens
  imports Dbus_Packet
begin

text \<open>
  Screenshots (\<open>libticalcs\<close>, \<open>screen.cc\<close>): the conversions of the pixel formats to 24-bit colour and the
  decoders of the two compressed formats.  A function returns its status and the bytes it has written
  from the start of \<open>dst\<close>; \<open>None\<close> is a read outside the source.
\<close>

datatype CalcPixelFormat = CALC_PIXFMT_MONO | CALC_PIXFMT_GRAY_4 | CALC_PIXFMT_RGB_565_LE | CALC_PIXFMT_OTHER int

type_synonym screen_result = "(int \<times> bytes) option"

definition screen_args :: "bytes option \<Rightarrow> nat \<Rightarrow> nat \<Rightarrow> bool \<Rightarrow> (bytes \<Rightarrow> screen_result) \<Rightarrow> screen_result" where
  "screen_args src width height dst p =
     (case src of None \<Rightarrow> Some (ERR_INVALID_PARAMETER, [])
      | Some s \<Rightarrow>
          if width > 320 then Some (ERR_INVALID_PARAMETER, [])
          else if height > 240 then Some (ERR_INVALID_PARAMETER, [])
          else if \<not> dst then Some (ERR_INVALID_PARAMETER, [])
          else p s)"

text \<open>Two nested loops that read \<open>stride\<close> bytes at a time: \<open>columns\<close> of them in each of \<open>height\<close> rows.\<close>

definition convert_rows :: "nat \<Rightarrow> nat \<Rightarrow> nat \<Rightarrow> (bytes \<Rightarrow> bytes) \<Rightarrow> bytes \<Rightarrow> screen_result" where
  "convert_rows height columns stride cell s =
     (if length s < height * columns * stride then None
      else Some (0, concat (map (\<lambda>i. concat (map (\<lambda>j. cell (take stride (drop ((i * columns + j) * stride) s))) [0..<columns])) [0..<height])))"

text \<open>The eight pixels of a byte, from the high bit down.\<close>

definition bw_cell :: "bytes \<Rightarrow> bytes \<Rightarrow> bytes \<Rightarrow> bytes" where
  "bw_cell black white s =
     concat (map (\<lambda>k. if s ! 0 AND drop_bit k 0x80 \<noteq> 0 then black else white) [0..<8])"

definition ticalcs_screen_convert_bw_to_rgb888 :: "bytes option \<Rightarrow> nat \<Rightarrow> nat \<Rightarrow> bool \<Rightarrow> screen_result" where
  "ticalcs_screen_convert_bw_to_rgb888 src width height dst = screen_args src width height dst
     (convert_rows height (width div 8) 1 (bw_cell [0x00, 0x00, 0x00] [0xFF, 0xFF, 0xFF]))"

definition ticalcs_screen_convert_bw_to_blurry_rgb888 :: "bytes option \<Rightarrow> nat \<Rightarrow> nat \<Rightarrow> bool \<Rightarrow> screen_result" where
  "ticalcs_screen_convert_bw_to_blurry_rgb888 src width height dst = screen_args src width height dst
     (convert_rows height (width div 8) 1 (bw_cell [0x00, 0x00, 0x34] [0xA8, 0xB4, 0xA8]))"

definition gs4_cell :: "bytes \<Rightarrow> bytes" where
  "gs4_cell s =
     (let hi = drop_bit 4 (s ! 0); lo = s ! 0 AND 0x0f
      in [push_bit 4 hi, push_bit 4 hi, push_bit 4 hi, push_bit 4 lo, push_bit 4 lo, push_bit 4 lo])"

definition ticalcs_screen_convert_gs4_to_rgb888 :: "bytes option \<Rightarrow> nat \<Rightarrow> nat \<Rightarrow> bool \<Rightarrow> screen_result" where
  "ticalcs_screen_convert_gs4_to_rgb888 src width height dst =
     screen_args src width height dst (convert_rows height (width div 2) 1 gs4_cell)"

definition rgb565_cell :: "bytes \<Rightarrow> bytes" where
  "rgb565_cell s =
     (let data = word_16 (s ! 0) (s ! 1)
      in [ucast (push_bit 3 (drop_bit 11 (data AND 0xF800))),
          ucast (push_bit 2 (drop_bit 5 (data AND 0x07E0))),
          ucast (push_bit 3 (drop_bit 0 (data AND 0x001F)))])"

definition ticalcs_screen_convert_rgb565le_to_rgb888 :: "bytes option \<Rightarrow> nat \<Rightarrow> nat \<Rightarrow> bool \<Rightarrow> screen_result" where
  "ticalcs_screen_convert_rgb565le_to_rgb888 src width height dst =
     screen_args src width height dst (convert_rows height width 2 rgb565_cell)"

definition ticalcs_screen_convert_native_to_rgb888 :: "CalcPixelFormat \<Rightarrow> bytes option \<Rightarrow> nat \<Rightarrow> nat \<Rightarrow> bool \<Rightarrow> screen_result" where
  "ticalcs_screen_convert_native_to_rgb888 format src width height dst =
     (if src = None \<or> \<not> dst then Some (ERR_INVALID_PARAMETER, [])
      else case format of
        CALC_PIXFMT_MONO \<Rightarrow> ticalcs_screen_convert_bw_to_rgb888 src width height dst
      | CALC_PIXFMT_GRAY_4 \<Rightarrow> ticalcs_screen_convert_gs4_to_rgb888 src width height dst
      | CALC_PIXFMT_RGB_565_LE \<Rightarrow> ticalcs_screen_convert_rgb565le_to_rgb888 src width height dst
      | CALC_PIXFMT_OTHER n \<Rightarrow> Some (ERR_INVALID_PARAMETER, []))"

section \<open>The compression of the Nspire\<close>

text \<open>
  Blocks of units of \<open>w\<close> bytes (1 or 4): a count of 0 or more repeats one unit, a negative one is
  followed by the units themselves.  \<open>src\<close> is what is left of the input, \<open>left\<close> of the output.
\<close>

function nspire_blocks :: "nat \<Rightarrow> bytes \<Rightarrow> nat \<Rightarrow> screen_result" where
  "nspire_blocks w src left =
     (case src of [] \<Rightarrow> Some (0, [])
      | rec # rest \<Rightarrow>
          if 0 \<le> sint rec
          then let cnt = unat rec + 1 in
               if w = 1 \<and> rest = [] then None
               else if left < cnt * w then Some (ERR_INVALID_SCREENSHOT, [])
               else if length rest < w then None
               else map_option (\<lambda>(ret, out). (ret, concat (replicate cnt (take w rest)) @ out))
                      (nspire_blocks w (drop w rest) (left - cnt * w))
          else let cnt = unat (- rec) + 1 in
               if left < cnt * w then Some (ERR_INVALID_SCREENSHOT, [])
               else if length rest < cnt * w then None
               else map_option (\<lambda>(ret, out). (ret, take (cnt * w) rest @ out))
                      (nspire_blocks w (drop (cnt * w) rest) (left - cnt * w)))"
  by pat_completeness auto

termination by (relation "measure (\<lambda>(w, src, left). length src)") auto

definition ticalcs_screen_nspire_rle_uncompress :: "CalcPixelFormat \<Rightarrow> bytes option \<Rightarrow> bool \<Rightarrow> nat \<Rightarrow> screen_result" where
  "ticalcs_screen_nspire_rle_uncompress format src dst max_output_size =
     (case src of None \<Rightarrow> Some (ERR_INVALID_PARAMETER, [])
      | Some s \<Rightarrow>
        if \<not> dst then Some (ERR_INVALID_PARAMETER, [])
        else case format of
          CALC_PIXFMT_GRAY_4 \<Rightarrow> nspire_blocks 1 s max_output_size
        | CALC_PIXFMT_RGB_565_LE \<Rightarrow> nspire_blocks 4 s max_output_size
        | _ \<Rightarrow> Some (ERR_INVALID_PARAMETER, []))"

section \<open>The compression of the TI-84+CSE\<close>

text \<open>
  Three modes follow each other: half bytes, bytes, words.  The first two name colours of a palette that
  ends the data.  \<open>src\<close> is what is left before the palette, \<open>left\<close> what is left of the output.
\<close>

definition rle_finish :: "nat \<Rightarrow> int \<times> bytes" where
  "rle_finish left = (if left \<noteq> 0 then ERR_INVALID_SCREENSHOT else 0, [])"

definition rle_put :: "bytes \<Rightarrow> int \<times> bytes \<Rightarrow> int \<times> bytes" where
  "rle_put d r = (fst r, d @ snd r)"

abbreviation rle_error :: "int \<times> bytes" where
  "rle_error \<equiv> (ERR_INVALID_SCREENSHOT, [])"

definition rle_colour :: "bytes \<Rightarrow> byte \<Rightarrow> bytes" where
  "rle_colour palette c = take 2 (drop (2 * (unat c - 1)) palette)"

fun rle_words :: "bytes \<Rightarrow> nat \<Rightarrow> int \<times> bytes" where
  "rle_words [] left = rle_finish left"
| "rle_words [x] left = rle_error"
| "rle_words (x # y # rest) left =
     (if x \<noteq> 0x01 \<or> y \<noteq> 0x00
      then (if left < 2 then rle_error else rle_put [x, y] (rle_words rest (left - 2)))
      else (case rest of
              a # b # n # rest' \<Rightarrow>
                (if left < 2 * unat n then rle_error
                 else rle_put (concat (replicate (unat n) [a, b])) (rle_words rest' (left - 2 * unat n)))
            | _ \<Rightarrow> rle_error))"

text \<open>\<open>n\<close> pixels of the colour \<open>c\<close>, if the palette has it and they fit.\<close>

definition rle_run :: "bytes \<Rightarrow> nat \<Rightarrow> byte \<Rightarrow> nat \<Rightarrow> bytes option" where
  "rle_run palette left c n =
     (if unat c > length palette div 2 then None
      else if left < 2 * n then None
      else Some (concat (replicate n (rle_colour palette c))))"

fun rle_bytes :: "bytes \<Rightarrow> bytes \<Rightarrow> nat \<Rightarrow> int \<times> bytes" where
  "rle_bytes palette [] left = rle_finish left"
| "rle_bytes palette (c # rest) left =
     (if c \<noteq> 0
      then (case rle_run palette left c 1 of None \<Rightarrow> rle_error
            | Some d \<Rightarrow> rle_put d (rle_bytes palette rest (left - 2)))
      else (case rest of
              c # n # rest' \<Rightarrow>
                (if c \<noteq> 0
                 then (case rle_run palette left c (unat n) of None \<Rightarrow> rle_error
                       | Some d \<Rightarrow> rle_put d (rle_bytes palette rest' (left - 2 * unat n)))
                 else if n = 0 then rle_words rest' left else rle_error)
            | _ \<Rightarrow> rle_error))"

fun rle_nibbles :: "bytes \<Rightarrow> bytes \<Rightarrow> nat \<Rightarrow> int \<times> bytes" where
  "rle_nibbles palette [] left = rle_finish left"
| "rle_nibbles palette (b # rest) left =
     (if b AND 0xf0 \<noteq> 0
      then (case rle_run palette left (drop_bit 4 b) 1 of None \<Rightarrow> rle_error
            | Some d \<Rightarrow> rle_put d
                (if b AND 0x0f = 0 then rle_nibbles palette rest (left - 2)
                 else case rle_run palette (left - 2) (b AND 0x0f) 1 of None \<Rightarrow> rle_error
                      | Some d' \<Rightarrow> rle_put d' (rle_nibbles palette rest (left - 4))))
      else (case rest of
              n # rest' \<Rightarrow>
                (if b AND 0x0f \<noteq> 0
                 then (case rle_run palette left b (unat n) of None \<Rightarrow> rle_error
                       | Some d \<Rightarrow> rle_put d (rle_nibbles palette rest' (left - 2 * unat n)))
                 else if b = 0 \<and> n = 0 then rle_bytes palette rest' left else rle_error)
            | [] \<Rightarrow> rle_error))"

text \<open>The first byte is 1, the last the number of colours; two bytes per colour come before it.\<close>

definition ticalcs_screen_84pcse_rle_uncompress :: "bytes option \<Rightarrow> bool \<Rightarrow> nat \<Rightarrow> screen_result" where
  "ticalcs_screen_84pcse_rle_uncompress src dst dst_length =
     (case src of None \<Rightarrow> Some (ERR_INVALID_PARAMETER, [])
      | Some s \<Rightarrow>
        if \<not> dst then Some (ERR_INVALID_PARAMETER, [])
        else if s = [] then None
        else if s ! 0 \<noteq> 1 then Some rle_error
        else if length s = 1 then None
        else
          let s = drop 1 s;
              palette_size = unat (last s)
          in if length s \<le> palette_size * 2 + 1 then Some rle_error
             else
               let n = length s - (palette_size * 2 + 1)
               in Some (rle_nibbles (take (palette_size * 2) (drop n s)) (take n s) dst_length))"


section \<open>What the decoders write\<close>

named_theorems rle_fills

lemma rle_put_simps [simp]: "fst (rle_put d r) = fst r" "snd (rle_put d r) = d @ snd r"
  by (simp_all add: rle_put_def)

definition fills :: "nat \<Rightarrow> int \<times> bytes \<Rightarrow> bool" where
  "fills left r \<longleftrightarrow> length (snd r) \<le> left \<and> (fst r = 0 \<longrightarrow> length (snd r) = left)"

lemma fills_finish [rle_fills]: "fills left (rle_finish left)"
  by (simp add: fills_def rle_finish_def)

lemma fills_error [rle_fills]: "fills left rle_error"
  by (simp add: fills_def)

lemma fills_put: "fills (left - length d) r \<Longrightarrow> length d \<le> left \<Longrightarrow> fills left (rle_put d r)"
  by (auto simp: fills_def)

lemma length_concat_replicate: "length (concat (replicate n xs)) = n * length xs"
  by (induction n) auto

lemma fills_put_if: "(\<not> left < length d \<Longrightarrow> fills (left - length d) r) \<Longrightarrow> length d = n
    \<Longrightarrow> fills left (if left < n then rle_error else rle_put d r)"
  by (auto simp: fills_def)

lemma rle_words_fills [rle_fills]: "fills left (rle_words src left)"
proof (induction src left rule: rle_words.induct)
  case (1 left)
  show ?case by (simp add: fills_finish)
next
  case (2 x left)
  show ?case by (simp add: fills_error)
next
  case (3 x y rest left)
  show ?case
  proof (cases "x \<noteq> 0x01 \<or> y \<noteq> 0x00")
    case True
    then have "rle_words (x # y # rest) left
        = (if left < 2 then rle_error else rle_put [x, y] (rle_words rest (left - 2)))"
      by (simp only: rle_words.simps if_True)
    moreover have "fills left \<dots>" by (rule fills_put_if) (use "3.IH"(1) True in \<open>simp_all add: numeral_2_eq_2\<close>)
    ultimately show ?thesis by simp
  next
    case False
    show ?thesis
    proof (cases "\<exists>a b n rest'. rest = a # b # n # rest'")
      case True
      then obtain a b n rest' where rest: "rest = a # b # n # rest'" by blast
      with False have "rle_words (x # y # rest) left = (if left < 2 * unat n then rle_error
          else rle_put (concat (replicate (unat n) [a, b])) (rle_words rest' (left - 2 * unat n)))"
        by (simp only: rle_words.simps if_False list.case)
      moreover have "fills left \<dots>"
        by (rule fills_put_if) (use "3.IH"(2)[OF False] rest in \<open>simp_all add: length_concat_replicate mult.commute flip: mult_2\<close>)
      ultimately show ?thesis by simp
    next
      case short: False
      with False have "rle_words (x # y # rest) left = rle_error"
        by (auto split: list.splits)
      then show ?thesis by (simp add: fills_error)
    qed
  qed
qed

text \<open>The palette has the two bytes of every colour that \<open>rle_run\<close> accepts, colour 0 apart.\<close>

lemma rle_run_length:
  assumes "rle_run palette left c n = Some d" "c \<noteq> 0" "even (length palette)"
  shows "length d = 2 * n" "2 * n \<le> left"
proof -
  from assms have c: "unat c \<le> length palette div 2" "2 * n \<le> left"
      and d: "d = concat (replicate n (rle_colour palette c))"
    by (auto simp: rle_run_def split: if_splits)
  from \<open>c \<noteq> 0\<close> have "0 < unat c" by (simp add: unat_gt_0)
  with c \<open>even (length palette)\<close> have "length (rle_colour palette c) = 2"
    by (auto simp: rle_colour_def elim!: evenE)
  with c d show "length d = 2 * n" "2 * n \<le> left" by (simp_all add: length_concat_replicate)
qed

text \<open>What follows a run, if the run is there.\<close>

lemma fills_run:
  assumes "c \<noteq> 0" "even (length palette)"
    and "\<And>d. rle_run palette left c n = Some d \<Longrightarrow> 2 * n \<le> left \<Longrightarrow> fills (left - 2 * n) (f d)"
  shows "fills left (case rle_run palette left c n of None \<Rightarrow> rle_error | Some d \<Rightarrow> rle_put d (f d))"
proof (cases "rle_run palette left c n")
  case None
  then show ?thesis by (simp add: fills_error)
next
  case (Some d)
  with rle_run_length[OF Some] assms show ?thesis by (simp add: fills_put)
qed

lemma rle_bytes_fills [rle_fills]: "even (length palette) \<Longrightarrow> fills left (rle_bytes palette src left)"
proof (induction palette src left rule: rle_bytes.induct)
  case (1 palette left)
  show ?case by (simp add: fills_finish)
next
  case (2 palette c rest left)
  show ?case
  proof (cases "c = 0")
    case False
    have "fills left (case rle_run palette left c 1 of None \<Rightarrow> rle_error
                      | Some d \<Rightarrow> rle_put d (rle_bytes palette rest (left - 2)))"
      by (rule fills_run) (use "2.IH"(1) "2.prems" False in simp_all)
    with False show ?thesis by simp
  next
    case zero: True
    show ?thesis
    proof (cases "\<exists>c n rest'. rest = c # n # rest'")
      case False
      with zero show ?thesis by (auto simp: fills_error split: list.splits)
    next
      case True
      then obtain c' n rest' where rest: "rest = c' # n # rest'" by blast
      show ?thesis
      proof (cases "c' = 0")
        case False
        have "fills left (case rle_run palette left c' (unat n) of None \<Rightarrow> rle_error
                      | Some d \<Rightarrow> rle_put d (rle_bytes palette rest' (left - 2 * unat n)))"
          by (rule fills_run) (use "2.IH"(2) "2.prems" False zero rest in simp_all)
        with False zero rest show ?thesis by simp
      next
        case True
        with zero rest show ?thesis by (simp add: fills_error rle_words_fills)
      qed
    qed
  qed
qed


lemma high_half_shifted: "b AND 0xf0 = push_bit 4 (drop_bit 4 (b :: byte))"
proof (rule bit_word_eqI)
  fix n
  assume "n < LENGTH(8)"
  then have "n = 0 \<or> n = 1 \<or> n = 2 \<or> n = 3 \<or> n = 4 \<or> n = 5 \<or> n = 6 \<or> n = 7" by auto
  then show "bit (b AND 0xf0) n = bit (push_bit 4 (drop_bit 4 b)) n"
    by (elim disjE) (simp_all add: bit_simps)
qed

lemma high_half: "b AND 0xf0 \<noteq> (0 :: byte) \<Longrightarrow> drop_bit 4 b \<noteq> 0"
  by (auto simp: high_half_shifted)

lemma rle_nibbles_fills [rle_fills]: "even (length palette) \<Longrightarrow> fills left (rle_nibbles palette src left)"
proof (induction palette src left rule: rle_nibbles.induct)
  case (1 palette left)
  show ?case by (simp add: fills_finish)
next
  case (2 palette b rest left)
  show ?case
  proof (cases "b AND 0xf0 = 0")
    case False
    have second: "fills (left - 2) (if b AND 0x0f = 0 then rle_nibbles palette rest (left - 2)
        else case rle_run palette (left - 2) (b AND 0x0f) 1 of None \<Rightarrow> rle_error
             | Some d' \<Rightarrow> rle_put d' (rle_nibbles palette rest (left - 4)))"
      if "rle_run palette left (drop_bit 4 b) 1 = Some d" for d
    proof (cases "b AND 0x0f = 0")
      case True
      with "2.IH"(1)[OF False that] "2.prems" show ?thesis by simp
    next
      case low: False
      have "fills (left - 2) (case rle_run palette (left - 2) (b AND 0x0f) 1 of None \<Rightarrow> rle_error
             | Some d' \<Rightarrow> rle_put d' (rle_nibbles palette rest (left - 4)))"
        by (rule fills_run) (use "2.IH"(2)[OF False that low] "2.prems" low in \<open>simp_all add: numeral_eq_Suc\<close>)
      with low show ?thesis by simp
    qed
    have "fills left (case rle_run palette left (drop_bit 4 b) 1 of None \<Rightarrow> rle_error
       | Some d \<Rightarrow> rle_put d (if b AND 0x0f = 0 then rle_nibbles palette rest (left - 2)
           else case rle_run palette (left - 2) (b AND 0x0f) 1 of None \<Rightarrow> rle_error
                | Some d' \<Rightarrow> rle_put d' (rle_nibbles palette rest (left - 4))))"
      by (rule fills_run) (use second high_half[OF False] "2.prems" in simp_all)
    with False show ?thesis by simp
  next
    case zero: True
    show ?thesis
    proof (cases rest)
      case Nil
      with zero show ?thesis by (simp add: fills_error)
    next
      case (Cons n rest')
      show ?thesis
      proof (cases "b AND 0x0f = 0")
        case False
        have "fills left (case rle_run palette left b (unat n) of None \<Rightarrow> rle_error
                      | Some d \<Rightarrow> rle_put d (rle_nibbles palette rest' (left - 2 * unat n)))"
          by (rule fills_run) (use "2.IH"(3) "2.prems" False zero Cons in auto)
        with False zero Cons show ?thesis by simp
      next
        case True
        with zero Cons "2.prems" show ?thesis by (simp add: fills_error rle_bytes_fills)
      qed
    qed
  qed
qed

declare nspire_blocks.simps [simp del]

text \<open>The bytes a decoder has returned, if it returns.\<close>

definition yields_only :: "(int \<times> bytes \<Rightarrow> bool) \<Rightarrow> screen_result \<Rightarrow> bool" where
  "yields_only P r \<longleftrightarrow> (\<forall>x. r = Some x \<longrightarrow> P x)"

lemma yields_only_None: "yields_only P None" and yields_only_Some: "P x \<Longrightarrow> yields_only P (Some x)"
  by (simp_all add: yields_only_def)

lemma yields_only_if: "(c \<Longrightarrow> yields_only P a) \<Longrightarrow> (\<not> c \<Longrightarrow> yields_only P b) \<Longrightarrow> yields_only P (if c then a else b)"
  by simp

lemma yields_only_map: "yields_only Q r \<Longrightarrow> (\<And>x. Q x \<Longrightarrow> P (f x)) \<Longrightarrow> yields_only P (map_option f r)"
  by (cases r) (simp_all add: yields_only_def)

abbreviation writes_within :: "nat \<Rightarrow> screen_result \<Rightarrow> bool" where
  "writes_within left \<equiv> yields_only (\<lambda>(ret, out). length out \<le> left)"

lemma within_block:
  assumes "\<not> left < n \<Longrightarrow> writes_within (left - n) r" "length d = n" "\<not> left < n"
  shows "writes_within left (map_option (\<lambda>(ret, out). (ret, d @ out)) r)"
  using assms by (auto intro!: yields_only_map[where Q = "\<lambda>(ret, out). length out \<le> left - n"])

lemma nspire_blocks_bounded: "writes_within left (nspire_blocks w src left)"
proof (induction w src left rule: nspire_blocks.induct)
  case (1 w src left)
  show ?case
  proof (cases src)
    case Nil
    then show ?thesis by (simp add: nspire_blocks.simps yields_only_Some)
  next
    case (Cons rec rest)
    show ?thesis
    proof (cases "0 \<le> sint rec")
      case True
      show ?thesis
        unfolding Cons nspire_blocks.simps[of w "rec # rest" left] list.case Let_def if_P[OF True]
        by (intro yields_only_if yields_only_None yields_only_Some within_block[where n = "(unat rec + 1) * w"] "1.IH"(1)[OF Cons True refl])
           (simp_all add: length_concat_replicate)
    next
      case False
      show ?thesis
        unfolding Cons nspire_blocks.simps[of w "rec # rest" left] list.case Let_def if_not_P[OF False]
        by (intro yields_only_if yields_only_None yields_only_Some within_block[where n = "(unat (- rec) + 1) * w"] "1.IH"(2)[OF Cons False refl])
           simp_all
    qed
  qed
qed

lemma nspire_bounded:
  "writes_within max_output_size (ticalcs_screen_nspire_rle_uncompress format src dst max_output_size)"
  unfolding ticalcs_screen_nspire_rle_uncompress_def
  by (auto simp: yields_only_Some nspire_blocks_bounded split: option.splits CalcPixelFormat.splits)

lemma rle_84pcse_fills: "yields_only (fills dst_length) (ticalcs_screen_84pcse_rle_uncompress src dst dst_length)"
proof -
  have "even (min (n - (n - (k * 2 + 1))) (k * 2))" if "\<not> n \<le> k * 2 + 1" for n k :: nat
    using that by (simp add: min_def)
  moreover have "fills dst_length (ERR_INVALID_PARAMETER, [])" by (simp add: fills_def)
  ultimately show ?thesis
    unfolding ticalcs_screen_84pcse_rle_uncompress_def Let_def
    by (cases src) (simp_all only: option.case, (intro yields_only_if yields_only_None yields_only_Some rle_nibbles_fills fills_error; simp only: length_take length_drop)+)
qed

text \<open>
  C38: the decoder of the TI-84+CSE screenshots stays in the screen.  Whatever the calculator sends, in all
  three modes and for every palette, no more than the \<open>dst_length\<close> bytes of the caller's buffer are written;
  and a result of 0 means that the data described the whole screen: every byte of it has been written, so the
  caller never shows uninitialised memory.
\<close>
theorem screenshot_fills_buffer:
  assumes "ticalcs_screen_84pcse_rle_uncompress src dst dst_length = Some (ret, out)"
  shows "length out \<le> dst_length \<and> (ret = 0 \<longrightarrow> length out = dst_length)"
  using rle_84pcse_fills[of dst_length src dst] assms by (simp add: yields_only_def fills_def)

text \<open>All three modes: two pixels of the palette's colour, one by name, and a run of two words.\<close>

theorem screenshot_fills_buffer_witness:
  "\<exists>out. ticalcs_screen_84pcse_rle_uncompress
      (Some [1, 0x10, 0x01, 1, 0, 0, 1, 0, 0, 0, 1, 0, 0xab, 0xcd, 2, 0x12, 0x34, 1]) True 10 = Some (0, out)
    \<and> length out = 10"
proof -
  have "ticalcs_screen_84pcse_rle_uncompress
      (Some [1, 0x10, 0x01, 1, 0, 0, 1, 0, 0, 0, 1, 0, 0xab, 0xcd, 2, 0x12, 0x34, 1]) True 10
    = Some (0, [0x12, 0x34, 0x12, 0x34, 0x12, 0x34, 0xab, 0xcd, 0xab, 0xcd])"
    by code_simp
  from this screenshot_fills_buffer[OF this] show ?thesis by auto
qed

end
