(* ===== verification/Calc_73.thy ===== *)
theory Calc_73
  imports Link_Program Cmd_Z80 Key_Tables Screens Calc_Store
begin

text \<open>
  The operations of the TI-73, TI-83 Plus and TI-84 Plus over the serial link (\<open>libticalcs\<close>,
  \<open>calc_73.cc\<close>), through which the strings of the wallet travel.  Each is a program over the commands
  of Cmd_Z80 and Link_Program.  GLib's allocators do not
  return after a failure.  Labels carry the raw name; the log and the time stamps of comments are left out.
  The loops of the code that wait for the calculator to end them run on fuel; \<open>None\<close> is a loop that has
  not ended.
\<close>

abbreviation (input) TI73_ASM :: byte where "TI73_ASM \<equiv> 0x06"
abbreviation (input) TI73_BKUP :: byte where "TI73_BKUP \<equiv> 0x13"
abbreviation (input) TI73_DIR :: byte where "TI73_DIR \<equiv> 0x19"
abbreviation (input) TI73_APPL :: byte where "TI73_APPL \<equiv> 0x24"
abbreviation (input) TI73_IDLIST :: byte where "TI73_IDLIST \<equiv> 0x26"
abbreviation (input) TI73_CLK :: byte where "TI73_CLK \<equiv> 0x29"
abbreviation (input) TI83p_ASM :: byte where "TI83p_ASM \<equiv> 0x06"
abbreviation (input) TI83p_PIC :: byte where "TI83p_PIC \<equiv> 0x07"
abbreviation (input) TI83p_AMS :: byte where "TI83p_AMS \<equiv> 0x23"
abbreviation (input) TI83p_CERT :: byte where "TI83p_CERT \<equiv> 0x25"
abbreviation (input) TI84p_WINDW :: byte where "TI84p_WINDW \<equiv> 0x0F"
abbreviation (input) TI84p_ZSTO :: byte where "TI84p_ZSTO \<equiv> 0x10"
abbreviation (input) TI84p_TABLE :: byte where "TI84p_TABLE \<equiv> 0x11"
abbreviation (input) KEY83P_Enter :: u32 where "KEY83P_Enter \<equiv> 0x05"
abbreviation (input) KEY83P_Clear :: u32 where "KEY83P_Clear \<equiv> 0x09"
abbreviation (input) KEY83P_Quit :: u32 where "KEY83P_Quit \<equiv> 0x40"
abbreviation (input) KEY83P_Exec :: u32 where "KEY83P_Exec \<equiv> 0xDA"
abbreviation (input) KEY83P_Asm :: u32 where "KEY83P_Asm \<equiv> 0xfc9c"
abbreviation (input) ACT_SKIP :: int where "ACT_SKIP \<equiv> 3"

section \<open>Names\<close>

text \<open>An array for a name, and the name in an array.\<close>

definition name_array :: "string \<Rightarrow> bytes" where
  "name_array s = map byte_of_char s @ replicate (VARNAME_MAX - length s) 0"

definition array_name :: "bytes \<Rightarrow> string" where
  "array_name bs = map char_of_byte (takeWhile (\<lambda>b. b \<noteq> 0) bs)"

section \<open>Keys\<close>

definition is_ready_73 :: "link_env \<Rightarrow> (link, int) state" where
  "is_ready_73 env = do {
     ret \<leftarrow> ti73_send_RDY env;
     if ret \<noteq> 0 then State_Monad.return ret
     else do {
       (ret, status) \<leftarrow> tiz80_recv_ACK env True;
       State_Monad.return (if ret \<noteq> 0 then ret else if MSB status AND 0x01 \<noteq> 0 then ERR_NOT_READY else 0) } }"

definition send_key_73 :: "link_env \<Rightarrow> u32 \<Rightarrow> (link, int) state" where
  "send_key_73 env key =
     steps [ti73_send_KEY env (ucast key), only_status (tiz80_recv_ACK env True), only_status (tiz80_recv_ACK env False)]"

text \<open>The keys of a name; a character without a row of the table is a read past its end: \<open>None\<close>.\<close>

primrec send_name_73 :: "link_env \<Rightarrow> string \<Rightarrow> (link, int option) state" where
  "send_name_73 env [] = State_Monad.return (Some 0)"
| "send_name_73 env (c # cs) =
     (case ticalcs_keys_83p (byte_of_char c) of None \<Rightarrow> State_Monad.return None
      | Some ck \<Rightarrow> do {
          ret \<leftarrow> send_key_73 env (key_normal ck);
          if ret \<noteq> 0 then State_Monad.return (Some ret) else send_name_73 env cs })"

definition execute_73 :: "link_env \<Rightarrow> VarEntry \<Rightarrow> (link, int option) state" where
  "execute_73 env ve = do {
     h \<leftarrow> State_Monad.get;
     if link_model h = CALC_TI73 \<and> ve_type ve = TI73_ASM then State_Monad.return (Some ERR_VOID_FUNCTION)
     else do {
       record_event (Pause 200);
       ret \<leftarrow> steps (map (send_key_73 env) ([KEY83P_Quit, KEY83P_Clear, KEY83P_Clear]
         @ (if ve_type ve = TI83p_ASM then [KEY83P_Asm] else []) @ [KEY83P_Exec]));
       if ret \<noteq> 0 then State_Monad.return (Some ret)
       else do {
         res \<leftarrow> send_name_73 env (ve_name ve);
         if res \<noteq> Some 0 then State_Monad.return res
         else do {
           ret \<leftarrow> send_key_73 env KEY83P_Enter;
           record_event (Pause 200);
           State_Monad.return (Some ret) } } } }"

section \<open>Variables\<close>

text \<open>Sizes are 16 bits on the wire; what is larger is cut.\<close>

definition clamp_size :: "u32 \<Rightarrow> u16" where
  "clamp_size n = (if n \<ge> 65536 then 65535 else ucast n)"

text \<open>What a rejection code makes of the transfer.\<close>

definition rejection :: "byte \<Rightarrow> int" where
  "rejection rej_code =
     (if rej_code = DBUS_REJ_EXIT then ERR_ABORT
      else if rej_code = DBUS_REJ_MEMORY then ERR_OUT_OF_MEMORY
      else if rej_code = DBUS_REJ_VERSION then ERR_VAR_VERSION
      else if rej_code = 0 then 0
      else ERR_VAR_REJECTED)"

text \<open>A variable is offered; the calculator answers with a CTS (code 0) or a rejection.\<close>

definition offer_73 :: "link_env \<Rightarrow> u16 \<Rightarrow> byte \<Rightarrow> bytes \<Rightarrow> byte \<Rightarrow> byte \<Rightarrow> (link, int \<times> byte) state" where
  "offer_73 env sz ty name attr version =
     yielding (also_status (steps [ti73_send_RTS env sz ty (Some name) attr version, only_status (tiz80_recv_ACK env True)]) ()) 0
       (\<lambda>_. yielding (tiz80_recv_SKP env) 0 (\<lambda>rej_code. also_status (ti73_send_ACK env) rej_code))"

fun send_vars_73 :: "link_env \<Rightarrow> nat \<Rightarrow> nat \<Rightarrow> VarEntry option list \<Rightarrow> (link, int) state" where
  "send_vars_73 env n i [] = State_Monad.return 0"
| "send_vars_73 env n i (None # es) = send_vars_73 env n (i + 1) es"
| "send_vars_73 env n i (Some e # es) =
     (if ve_action e = ACT_SKIP then send_vars_73 env n (i + 1) es
      else do {
        (ret, rej_code) \<leftarrow> offer_73 env (clamp_size (ve_size e)) (ve_type e) (name_array (ve_name e)) (ve_attr e) (ve_version e);
        if ret \<noteq> 0 then State_Monad.return ret
        else if rej_code = DBUS_REJ_SKIP then send_vars_73 env n (i + 1) es
        else if rejection rej_code \<noteq> 0 then State_Monad.return (rejection rej_code)
        else do {
          record_event (Label (ve_name e));
          ret \<leftarrow> steps [ti73_send_XDP env (clamp_size (ve_size e)) (ve_data e), only_status (tiz80_recv_ACK env True), ti73_send_EOT env];
          if ret \<noteq> 0 then State_Monad.return ret
          else do {
            start_progress (i + 1) n;
            pbar;
            send_vars_73 env n (i + 1) es } } })"

text \<open>The array of entries has \<open>num_entries\<close> rows.\<close>

definition send_var_73 :: "link_env \<Rightarrow> FileContent \<Rightarrow> (link, int) state" where
  "send_var_73 env content = do {
     start_progress 0 (num_entries content);
     send_vars_73 env (num_entries content) 0
       (case fc_entries content of None \<Rightarrow> [] | Some es \<Rightarrow> take (num_entries content) es) }"

text \<open>The header of the variable the calculator sends, and the permission to go on.\<close>

definition grant_73 :: "link_env \<Rightarrow> (link, int) state" where
  "grant_73 env = steps [ti73_send_ACK env, ti73_send_CTS env, only_status (tiz80_recv_ACK env False)]"

definition entry_of_header :: "VarEntry \<Rightarrow> var_header \<Rightarrow> VarEntry" where
  "entry_of_header ve hdr =
     (case hdr of (sz, ty, name, attr, version) \<Rightarrow>
        ve\<lparr>ve_type := ty, ve_name := array_name name, ve_attr := attr, ve_version := version\<rparr>)"

text \<open>The model of a picture depends on its version.\<close>

definition content_model_73 :: "CalcModel \<Rightarrow> VarEntry \<Rightarrow> CalcModel" where
  "content_model_73 m ve =
     (if m \<noteq> CALC_TI73 \<and> ve_type ve = TI83p_PIC then (if ve_version ve \<ge> 0xA then CALC_TI84PC else CALC_TI83P) else m)"

text \<open>The data arrive in a zeroed block of one byte more than the announced size.\<close>

definition recv_data_73 :: "link_env \<Rightarrow> CalcModel \<Rightarrow> VarEntry \<Rightarrow> (link, int \<times> CalcModel \<times> VarEntry) state" where
  "recv_data_73 env m ve = do {
     let block = replicate (unat (ve_size ve) + 1) 0;
     (ret, sz, d) \<leftarrow> ti73_recv_XDP env (ucast (ve_size ve));
     received_into (length block) d;
     let ve = ve\<lparr>ve_data := Some (write_at block 0 d)\<rparr>;
     if ret \<noteq> 0 then State_Monad.return (ret, m, ve)
     else also_status (ti73_send_ACK env) (content_model_73 m ve, ve\<lparr>ve_size := ucast sz\<rparr>) }"

text \<open>Result, model and the one entry of the content; the entry begins as a copy of the request.\<close>

definition recv_var_73 :: "link_env \<Rightarrow> VarEntry \<Rightarrow> (link, int \<times> CalcModel \<times> VarEntry) state" where
  "recv_var_73 env vr = do {
     h \<leftarrow> State_Monad.get;
     let m = link_model h;
     record_event (Label (ve_name vr));
     ret \<leftarrow> steps [ti73_send_REQ env (ucast (ve_size vr)) (ve_type vr) (Some (name_array (ve_name vr))) (ve_attr vr) (ve_version vr),
              only_status (tiz80_recv_ACK env True)];
     if ret \<noteq> 0 then State_Monad.return (ret, m, vr)
     else do {
       (ret, hdr) \<leftarrow> ti73_recv_VAR env (name_array (ve_name vr));
       case hdr of None \<Rightarrow> State_Monad.return (ret, m, vr)
       | Some hdr \<Rightarrow> do {
           let ve = (entry_of_header vr hdr)\<lparr>ve_size := ucast (fst hdr)\<rparr>;
           ret \<leftarrow> grant_73 env;
           if ret \<noteq> 0 then State_Monad.return (ret, m, ve)
           else recv_data_73 env m ve } } }"

definition del_var_73 :: "link_env \<Rightarrow> VarEntry \<Rightarrow> (link, int) state" where
  "del_var_73 env vr = do {
     record_event (Label (''Deleting '' @ ve_name vr @ ''...''));
     steps [ti73_send_DEL env (ucast (ve_size vr)) (ve_type vr) (Some (name_array (ve_name vr))) (ve_attr vr),
       only_status (tiz80_recv_ACK env False), only_status (tiz80_recv_ACK env False)] }"

section \<open>Memory\<close>

text \<open>The free memory, a word the calculator sends after a request for the directory.\<close>

definition request_memory_73 :: "link_env \<Rightarrow> (link, int) state" where
  "request_memory_73 env = do {
     ret \<leftarrow> steps [ti73_send_REQ env 0x0000 TI73_DIR (Some (replicate 8 0)) 0x00 0x00, only_status (tiz80_recv_ACK env True)];
     if ret \<noteq> 0 then State_Monad.return ret
     else do {
       (ret, n, d) \<leftarrow> ti73_recv_XDP env 0;
       set_buffer2 d;
       State_Monad.return ret } }"

definition memory_word :: "(link, u32) state" where
  "memory_word = do {
     h \<leftarrow> State_Monad.get;
     State_Monad.return (push_bit 8 (ucast (pkt_buffer2 h ! 1)) OR ucast (pkt_buffer2 h ! 0)) }"

text \<open>RAM and flash; what is not known is -1.\<close>

definition get_memfree_73 :: "link_env \<Rightarrow> (link, int \<times> u32 \<times> u32) state" where
  "get_memfree_73 env = do {
     ret \<leftarrow> steps [request_memory_73 env, ti73_send_EOT env];
     if ret \<noteq> 0 then State_Monad.return (ret, -1, -1)
     else do { ram \<leftarrow> memory_word; State_Monad.return (0, ram, -1) } }"

text \<open>An application announces pages of 16 KB in the low byte of its size.\<close>

definition listed_entry_73 :: "var_header \<Rightarrow> VarEntry" where
  "listed_entry_73 hdr =
     (case hdr of (sz, ty, name, attr, version) \<Rightarrow>
        \<lparr>ve_name = array_name name, ve_type = ty, ve_attr = attr, ve_version = version,
         ve_size = (if ty = TI73_APPL then (ucast sz AND 0xff) * 0x4000 else ucast sz),
         ve_data = None, ve_action = 0\<rparr>)"

definition permanent_entries_73 :: "CalcModel \<Rightarrow> VarEntry list" where
  "permanent_entries_73 m =
     map (\<lambda>ty. \<lparr>ve_name = [], ve_type = ty, ve_attr = 0, ve_version = 0, ve_size = 0, ve_data = None, ve_action = 0\<rparr>)
       ([TI84p_WINDW] @ (if m \<noteq> CALC_TI73 then [TI84p_ZSTO] else []) @ [TI84p_TABLE])"

text \<open>Variables and applications in the order they come, each acknowledged; \<open>None\<close> when the fuel has run out.\<close>

primrec list_loop_73 :: "link_env \<Rightarrow> nat \<Rightarrow> VarEntry list \<Rightarrow> VarEntry list \<Rightarrow> (link, (int \<times> VarEntry list \<times> VarEntry list) option) state" where
  "list_loop_73 env 0 vars apps = State_Monad.return None"
| "list_loop_73 env (Suc n) vars apps = do {
     (ret, hdr) \<leftarrow> ti73_recv_VAR env (replicate VARNAME_MAX 0);
     ret2 \<leftarrow> ti73_send_ACK env;
     case hdr of None \<Rightarrow> State_Monad.return (Some (if ret = ERR_EOT then 0 else ret, vars, apps))
     | Some hdr \<Rightarrow>
         if ret2 \<noteq> 0 then State_Monad.return (Some (ret2, vars, apps))
         else do {
           let ve = listed_entry_73 hdr;
           record_event (Label (''Parsing '' @ ve_name ve));
           if ve_type ve \<noteq> TI73_APPL then list_loop_73 env n (vars @ [ve]) apps
           else list_loop_73 env n vars (apps @ [ve]) } }"

text \<open>Free memory, variables and applications.\<close>

definition get_dirlist_73 :: "link_env \<Rightarrow> nat \<Rightarrow> (link, (int \<times> u32 \<times> VarEntry list \<times> VarEntry list) option) state" where
  "get_dirlist_73 env fuel = do {
     h \<leftarrow> State_Monad.get;
     ret \<leftarrow> steps [request_memory_73 env, ti73_send_ACK env];
     if ret \<noteq> 0 then State_Monad.return (Some (ret, 0, [], []))
     else do {
       memory \<leftarrow> memory_word;
       res \<leftarrow> list_loop_73 env fuel (permanent_entries_73 (link_model h)) [];
       State_Monad.return (map_option (\<lambda>(ret, vars, apps). (ret, memory, vars, apps)) res) } }"

section \<open>Screenshots\<close>

record CalcScreenCoord =
  sc_width :: nat
  sc_height :: nat
  clipped_width :: nat
  clipped_height :: nat
  pixel_format :: CalcPixelFormat

definition full_screen :: "nat \<Rightarrow> nat \<Rightarrow> CalcPixelFormat \<Rightarrow> CalcScreenCoord" where
  "full_screen w h fmt = \<lparr>sc_width = w, sc_height = h, clipped_width = w, clipped_height = h, pixel_format = fmt\<rparr>"

definition TI73_ROWS :: nat where "TI73_ROWS = 64"
definition TI73_COLS :: nat where "TI73_COLS = 96"
definition TI84PC_ROWS :: nat where "TI84PC_ROWS = 240"
definition TI84PC_COLS :: nat where "TI84PC_COLS = 320"

text \<open>\<open>n\<close> bytes of a block that was not cleared, after data have been written to its start.\<close>

definition block_with :: "link_env \<Rightarrow> nat \<Rightarrow> bytes \<Rightarrow> bytes" where
  "block_with env n d = take n d @ map (past_end env) [length d..<n]"

text \<open>
  The packets of a compressed screen until the EOT; only an EOT or an acknowledgement that cannot be
  sent ends the loop, any other failure takes the last packet once more.
\<close>

primrec screen_loop_73 :: "link_env \<Rightarrow> nat \<Rightarrow> u16 \<Rightarrow> bytes \<Rightarrow> (link, (int \<times> bytes) option) state" where
  "screen_loop_73 env 0 pktsize data = State_Monad.return None"
| "screen_loop_73 env (Suc n) pktsize data = do {
     (ret, pktsize, d) \<leftarrow> ti73_recv_XDP env pktsize;
     set_buffer2 d;
     if ret = ERR_EOT then do { ret \<leftarrow> ti73_send_ACK env; State_Monad.return (Some (ret, data)) }
     else do {
       h \<leftarrow> State_Monad.get;
       let data = data @ take (unat pktsize) (pkt_buffer2 h);
       ret \<leftarrow> ti73_send_ACK env;
       if ret \<noteq> 0 then State_Monad.return (Some (ret, data))
       else do {
         State_Monad.update (\<lambda>h. h\<lparr>max1 := TI84PC_COLS * TI84PC_ROWS * 2, cnt1 := length data\<rparr>);
         pbar;
         screen_loop_73 env n pktsize data } } }"

text \<open>Both screens; \<open>None\<close> also when the decoder reads outside its source.\<close>

definition recv_screen_73 :: "link_env \<Rightarrow> nat \<Rightarrow> (link, (int \<times> CalcScreenCoord option \<times> bytes option) option) state" where
  "recv_screen_73 env fuel = do {
     ret \<leftarrow> steps [ti73_send_SCR env, only_status (tiz80_recv_ACK env False)];
     if ret \<noteq> 0 then State_Monad.return (Some (ret, None, None))
     else do {
       (ret, pktsize, d) \<leftarrow> ti73_recv_XDP env 0;
       let data = block_with env (unat pktsize) d;
       if ret \<noteq> 0 \<and> ret \<noteq> ERR_CHECKSUM then State_Monad.return (Some (ret, None, None))
       else do {
         ret \<leftarrow> ti73_send_ACK env;
         if ret \<noteq> 0 then State_Monad.return (Some (ret, None, None))
         else if unat pktsize = TI73_COLS * TI73_ROWS div 8
         then State_Monad.return (Some (0, Some (full_screen TI73_COLS TI73_ROWS CALC_PIXFMT_MONO), Some data))
         else do {
           let sc = full_screen TI84PC_COLS TI84PC_ROWS CALC_PIXFMT_RGB_565_LE;
           res \<leftarrow> screen_loop_73 env fuel pktsize data;
           State_Monad.return (case res of None \<Rightarrow> None
             | Some (ret, data) \<Rightarrow>
                 if ret \<noteq> 0 then Some (ret, Some sc, None)
                 else map_option (\<lambda>(ret, out). (ret, Some sc, if ret \<noteq> 0 then None else Some out))
                   (ticalcs_screen_84pcse_rle_uncompress (Some data) True (TI84PC_ROWS * TI84PC_COLS * 2))) } } } }"

section \<open>Backups\<close>

record BackupContent =
  bc_model :: CalcModel
  mem_address :: u16
  bc_type :: byte
  bc_version :: byte
  data_length1 :: u16
  data_part1 :: "bytes option"
  data_length2 :: u16
  data_part2 :: "bytes option"
  data_length3 :: u16
  data_part3 :: "bytes option"

definition count_part :: "(link, int) state" where
  "count_part = do { State_Monad.update (\<lambda>h. h\<lparr>cnt2 := cnt2 h + 1\<rparr>); pbar; State_Monad.return 0 }"

definition send_part_73 :: "link_env \<Rightarrow> u16 \<Rightarrow> bytes option \<Rightarrow> (link, int) state" where
  "send_part_73 env len d = steps [ti73_send_XDP env len d, only_status (tiz80_recv_ACK env True), count_part]"

text \<open>The other lengths and the address travel as the name.\<close>

definition backup_name :: "BackupContent \<Rightarrow> bytes" where
  "backup_name c = [LSB (data_length2 c), MSB (data_length2 c), LSB (data_length3 c), MSB (data_length3 c),
     LSB (mem_address c), MSB (mem_address c), 0, 0, 0]"

definition send_backup_73 :: "link_env \<Rightarrow> BackupContent \<Rightarrow> (link, int) state" where
  "send_backup_73 env c = do {
     (ret, rej_code) \<leftarrow> offer_73 env (data_length1 c) TI73_BKUP (backup_name c) 0x00 (bc_version c);
     if ret \<noteq> 0 then State_Monad.return ret
     else if rej_code = DBUS_REJ_SKIP then State_Monad.return ERR_ABORT
     else if rejection rej_code \<noteq> 0 then State_Monad.return (rejection rej_code)
     else do {
       start_progress 0 3;
       pbar;
       steps [send_part_73 env (data_length1 c) (data_part1 c), send_part_73 env (data_length2 c) (data_part2 c),
         send_part_73 env (data_length3 c) (data_part3 c), ti73_send_ACK env] } }"

text \<open>A part comes into a zeroed block that is large enough for every length.\<close>

definition recv_part_73 :: "link_env \<Rightarrow> u16 \<Rightarrow> (link, int \<times> u16 \<times> bytes option) state" where
  "recv_part_73 env len = do {
     (ret, len, d) \<leftarrow> ti73_recv_XDP env len;
     let block = Some (write_at (replicate 65537 0) 0 d);
     if ret \<noteq> 0 then State_Monad.return (ret, len, block)
     else also_status (steps [ti73_send_ACK env, count_part]) (len, block) }"

definition recv_parts_73 :: "link_env \<Rightarrow> BackupContent \<Rightarrow> (link, int \<times> BackupContent) state" where
  "recv_parts_73 env c = do {
     (ret, len, d) \<leftarrow> recv_part_73 env (data_length1 c);
     let c = c\<lparr>data_length1 := len, data_part1 := d\<rparr>;
     if ret \<noteq> 0 then State_Monad.return (ret, c)
     else do {
       (ret, len, d) \<leftarrow> recv_part_73 env (data_length2 c);
       let c = c\<lparr>data_length2 := len, data_part2 := d\<rparr>;
       if ret \<noteq> 0 then State_Monad.return (ret, c)
       else do {
         (ret, len, d) \<leftarrow> recv_part_73 env (data_length3 c);
         State_Monad.return (ret, c\<lparr>data_length3 := len, data_part3 := d\<rparr>) } } }"

definition recv_backup_73 :: "link_env \<Rightarrow> BackupContent \<Rightarrow> (link, int \<times> BackupContent) state" where
  "recv_backup_73 env c = do {
     h \<leftarrow> State_Monad.get;
     let c = c\<lparr>bc_model := link_model h\<rparr>;
     ret \<leftarrow> steps [ti73_send_REQ env 0x0000 TI73_BKUP (Some (replicate 8 0)) 0x00 0x00, only_status (tiz80_recv_ACK env False)];
     if ret \<noteq> 0 then State_Monad.return (ret, c)
     else do {
       (ret, hdr) \<leftarrow> ti73_recv_VAR env (replicate 9 0);
       case hdr of None \<Rightarrow> State_Monad.return (ret, c)
       | Some (len, ty, name, attr, ver) \<Rightarrow> do {
           let c = c\<lparr>data_length1 := len, bc_type := ty, bc_version := ver, data_length2 := word_16 (name ! 0) (name ! 1),
             data_length3 := word_16 (name ! 2) (name ! 3), mem_address := word_16 (name ! 4) (name ! 5)\<rparr>;
           ret \<leftarrow> grant_73 env;
           if ret \<noteq> 0 then State_Monad.return (ret, c)
           else do {
             start_progress 0 3;
             pbar;
             recv_parts_73 env c } } } }"

section \<open>The version of the operating system\<close>

record CalcInfos =
  os_version :: string
  boot_version :: string
  battery :: bool
  hw_version :: byte
  infos_model :: CalcModel
  language_id :: byte
  sub_lang_id :: byte

definition lower_hex_digit :: "nat \<Rightarrow> char" where
  "lower_hex_digit d = ''0123456789abcdef'' ! (d mod 16)"

text \<open>\<open>%1x\<close>, \<open>%02x\<close>, \<open>%1i\<close> and \<open>%02i\<close> of a byte.\<close>

definition hex_1 :: "byte \<Rightarrow> string" where
  "hex_1 b = (if unat b < 16 then [] else [lower_hex_digit (unat b div 16)]) @ [lower_hex_digit (unat b)]"

definition hex_02 :: "byte \<Rightarrow> string" where
  "hex_02 b = [lower_hex_digit (unat b div 16), lower_hex_digit (unat b)]"

definition dec_02 :: "byte \<Rightarrow> string" where
  "dec_02 b = (if unat b < 10 then ''0'' else []) @ decimal (unat b)"

definition version_text_73 :: "CalcModel \<Rightarrow> byte \<Rightarrow> byte \<Rightarrow> string" where
  "version_text_73 m major minor =
     (if m = CALC_TI73 then hex_1 major @ ''.'' @ hex_02 minor else decimal (unat major) @ ''.'' @ dec_02 minor)"

definition infos_73 :: "CalcModel \<Rightarrow> bytes \<Rightarrow> CalcInfos" where
  "infos_73 m buffer =
     \<lparr>os_version = version_text_73 m (buffer ! 0) (buffer ! 1), boot_version = version_text_73 m (buffer ! 2) (buffer ! 3),
      battery = (buffer ! 4 AND 1 = 0), hw_version = buffer ! 5,
      infos_model =
        (if buffer ! 5 = 0 then CALC_TI83P else if buffer ! 5 = 1 then CALC_TI83P
         else if buffer ! 5 = 2 then CALC_TI84P else if buffer ! 5 = 3 then CALC_TI84P
         else if buffer ! 5 = 5 then CALC_TI84PC else CALC_TI84PC),
      language_id = buffer ! 6, sub_lang_id = buffer ! 7\<rparr>"

definition get_version_73 :: "link_env \<Rightarrow> (link, int \<times> CalcInfos option) state" where
  "get_version_73 env = do {
     ret \<leftarrow> steps [ti73_send_VER env, only_status (tiz80_recv_ACK env False), ti73_send_CTS env, only_status (tiz80_recv_ACK env False)];
     if ret \<noteq> 0 then State_Monad.return (ret, None)
     else do {
       (ret, len, d) \<leftarrow> ti73_recv_XDP env 0;
       set_buffer2 d;
       if ret \<noteq> 0 then State_Monad.return (ret, None)
       else do {
         ret \<leftarrow> ti73_send_ACK env;
         h \<leftarrow> State_Monad.get;
         State_Monad.return (ret, if ret \<noteq> 0 then None else Some (infos_73 (link_model h) (pkt_buffer2 h))) } } }"

section \<open>Flash memory\<close>

record FlashPage =
  fp_addr :: u16
  fp_page :: u16
  fp_flag :: byte
  fp_size :: u16
  fp_data :: bytes

record FlashContent =
  flash_name :: string
  flash_type :: byte
  data_length :: u32
  flash_part :: bytes
  flash_pages :: "FlashPage list"

abbreviation FLASH_PAGE_SIZE :: nat where "FLASH_PAGE_SIZE \<equiv> 16384"

text \<open>One block of a page: \<open>size\<close> bytes from the place \<open>j\<close> on.\<close>

definition send_block_73 :: "link_env \<Rightarrow> byte \<Rightarrow> u16 \<Rightarrow> FlashPage \<Rightarrow> nat \<Rightarrow> (link, int) state" where
  "send_block_73 env ty sz fp j = do {
     h \<leftarrow> State_Monad.get;
     steps [ti73_send_VAR2 env (ucast sz) ty (fp_flag fp) (fp_addr fp + of_nat j) (fp_page fp),
       only_status (tiz80_recv_ACK env False),
       tiz80_recv_CTS env (if link_model h = CALC_TI73 \<and> ty = TI83p_APPL then 0 else 10),
       ti73_send_ACK env,
       ti73_send_XDP env sz (Some (drop j (fp_data fp))),
       only_status (tiz80_recv_ACK env False),
       do { State_Monad.update (\<lambda>h. h\<lparr>cnt2 := cnt2 h + unat sz\<rparr>); pbar; State_Monad.return 0 }] }"

definition send_page_73 :: "link_env \<Rightarrow> byte \<Rightarrow> u16 \<Rightarrow> FlashPage \<Rightarrow> (link, int) state" where
  "send_page_73 env ty sz fp =
     steps (map (\<lambda>k. send_block_73 env ty sz fp (k * unat sz)) [0..<(unat (fp_size fp) + unat sz - 1) div unat sz])"

text \<open>The pauses that an application needs on the slow models; \<open>n\<close> pages, unsigned arithmetic.\<close>

definition page_pause_73 :: "bool \<Rightarrow> byte \<Rightarrow> nat \<Rightarrow> nat \<Rightarrow> (link, int) state" where
  "page_pause_73 fast ty n i = do {
     (if \<not> fast \<and> ty = TI83p_APPL
      then do {
        (if i = 1 then record_event (Pause 1000) else State_Monad.return ());
        (if int i = (int n - 2) mod 2 ^ 32 then record_event (Pause 2500) else State_Monad.return ()) }
      else State_Monad.return ());
     State_Monad.return 0 }"

text \<open>The second page of an operating system is moved to 0x4000.\<close>

definition placed_page_73 :: "byte \<Rightarrow> nat \<Rightarrow> FlashPage \<Rightarrow> FlashPage" where
  "placed_page_73 ty i fp = (if ty = TI83p_AMS \<and> i = 1 then fp\<lparr>fp_addr := 0x4000\<rparr> else fp)"

definition send_pages_73 :: "link_env \<Rightarrow> bool \<Rightarrow> FlashContent \<Rightarrow> (link, int) state" where
  "send_pages_73 env fast c = do {
     record_event (Label (flash_name c));
     start_progress 0 (unat (data_length c));
     let sz = (if flash_type c = TI83p_AMS then 0x100 else 0x80);
     let n = length (flash_pages c);
     steps (concat (map (\<lambda>(i, fp). [send_page_73 env (flash_type c) sz (placed_page_73 (flash_type c) i fp),
         page_pause_73 fast (flash_type c) n i]) (zip [0..<n] (flash_pages c)))
       @ [ti73_send_EOT env, only_status (tiz80_recv_ACK env False)]) }"

text \<open>The contents are a chain; the first system or application of it is sent.\<close>

definition send_flash_73 :: "link_env \<Rightarrow> FlashContent list \<Rightarrow> (link, int) state" where
  "send_flash_73 env contents =
     (case find (\<lambda>c. flash_type c = TI83p_AMS \<or> flash_type c = TI83p_APPL) contents of
        None \<Rightarrow> State_Monad.return (-1)
      | Some c \<Rightarrow> do {
          h \<leftarrow> State_Monad.get;
          if link_model h \<noteq> CALC_TI73 \<and> flash_type c = TI83p_APPL
          then do {
            (ret, infos) \<leftarrow> get_version_73 env;
            case infos of None \<Rightarrow> State_Monad.return ret
            | Some infos \<Rightarrow>
                if \<not> battery infos then State_Monad.return (-1)
                else send_pages_73 env (hw_version infos AND 1 \<noteq> 0) c }
          else send_pages_73 env False c })"

text \<open>
  A page that is being received: its buffer has four bytes more than a page.  What a block writes behind
  the buffer, and what a finished page takes from behind it or writes behind its own data, is recorded.
\<close>

record flash_receive =
  got_pages :: "FlashPage list"
  got_size :: nat
  got_offset :: nat
  page_buffer :: bytes
  old_page :: u16
  page_addr :: u16
  data_addr :: u16
  first_block :: bool

definition close_page :: "flash_receive \<Rightarrow> FlashPage" where
  "close_page r = \<lparr>fp_addr = page_addr r, fp_page = old_page r, fp_flag = 0x80, fp_size = of_nat (got_offset r),
     fp_data = take (got_offset r mod 65536) (page_buffer r)\<rparr>"

definition page_overrun :: "flash_receive \<Rightarrow> (link, unit) state" where
  "page_overrun r = (if got_offset r mod 65536 > FLASH_PAGE_SIZE + 1
     then record_event (Overrun (got_offset r mod 65536 - (FLASH_PAGE_SIZE + 1))) else State_Monad.return ())"

definition next_page :: "u16 \<Rightarrow> u16 \<Rightarrow> flash_receive \<Rightarrow> (link, flash_receive) state" where
  "next_page addr page r =
     (let r = (if first_block r then r\<lparr>old_page := page, page_addr := addr AND 0x4000\<rparr> else r)
      in if old_page r = page then State_Monad.return r
         else do {
           page_overrun r;
           (if length (got_pages r) \<ge> 2048 then record_event (Overrun 1) else State_Monad.return ());
           State_Monad.return (r\<lparr>got_pages := got_pages r @ [close_page (r\<lparr>page_addr := addr AND 0x4000\<rparr>)],
             got_offset := 0, old_page := page, page_addr := 0\<rparr>) })"

text \<open>The size of an application stands in its first block.\<close>

definition announced_size :: "bytes \<Rightarrow> nat option" where
  "announced_size buffer =
     (if buffer ! 0 = 0x80 \<and> buffer ! 1 = 0x0f
      then Some (unat ((push_bit 24 (ucast (buffer ! 2)) OR push_bit 16 (ucast (buffer ! 3)) OR push_bit 8 (ucast (buffer ! 4))
        OR ucast (buffer ! 5) :: u32) + 75))
      else None)"

definition take_block_73 :: "link_env \<Rightarrow> u16 \<Rightarrow> flash_receive \<Rightarrow> (link, int \<times> flash_receive) state" where
  "take_block_73 env len r = do {
     ret \<leftarrow> steps [ti73_send_CTS env, only_status (tiz80_recv_ACK env False)];
     if ret \<noteq> 0 then State_Monad.return (ret, r)
     else do {
       (ret, len, d) \<leftarrow> ti73_recv_XDP env len;
       received_into (FLASH_PAGE_SIZE + 4 - got_offset r) d;
       let r = r\<lparr>page_buffer := write_at (page_buffer r) (got_offset r) d\<rparr>;
       if ret \<noteq> 0 then State_Monad.return (ret, r)
       else do {
         ret \<leftarrow> ti73_send_ACK env;
         if ret \<noteq> 0 then State_Monad.return (ret, r)
         else do {
           State_Monad.update (\<lambda>h. h\<lparr>max2 := (case announced_size (page_buffer r) of
               Some n \<Rightarrow> if first_block r then n else max2 h | None \<Rightarrow> max2 h)\<rparr>);
           let r = r\<lparr>first_block := False, got_size := got_size r + unat len, got_offset := got_offset r + unat len\<rparr>;
           progress (got_size r);
           State_Monad.return (0, r) } } } }"

primrec flash_loop_73 :: "link_env \<Rightarrow> nat \<Rightarrow> flash_receive \<Rightarrow> (link, (int \<times> flash_receive) option) state" where
  "flash_loop_73 env 0 r = State_Monad.return None"
| "flash_loop_73 env (Suc n) r = do {
     (ret, hdr) \<leftarrow> ti73_recv_VAR2 env (replicate 9 0);
     ret2 \<leftarrow> ti73_send_ACK env;
     case hdr of None \<Rightarrow> State_Monad.return (Some (if ret = ERR_EOT then 0 else ret, r))
     | Some (len, ty, name, addr, page) \<Rightarrow>
         if ret2 \<noteq> 0 then State_Monad.return (Some (ret2, r\<lparr>data_addr := addr\<rparr>))
         else do {
           r \<leftarrow> next_page addr page (r\<lparr>data_addr := addr\<rparr>);
           (ret, r) \<leftarrow> take_block_73 env len r;
           if ret \<noteq> 0 then State_Monad.return (Some (ret, r)) else flash_loop_73 env n r } }"

definition recv_flash_73 :: "link_env \<Rightarrow> nat \<Rightarrow> VarEntry \<Rightarrow> (link, (int \<times> FlashPage list) option) state" where
  "recv_flash_73 env fuel vr = do {
     record_event (Label (ve_name vr));
     ret \<leftarrow> steps [ti73_send_REQ2 env 0x00 TI73_APPL (Some (name_array (ve_name vr))) 0x00, only_status (tiz80_recv_ACK env False)];
     if ret \<noteq> 0 then State_Monad.return (Some (ret, []))
     else do {
       start_progress 0 (unat (ve_size vr));
       res \<leftarrow> flash_loop_73 env fuel \<lparr>got_pages = [], got_size = 0, got_offset = 0,
         page_buffer = map (past_end env) [0..<FLASH_PAGE_SIZE + 4], old_page = 0, page_addr = 0,
         data_addr = word_16 (past_end env 0) (past_end env 1), first_block = True\<rparr>;
       case res of None \<Rightarrow> State_Monad.return None
       | Some (ret, r) \<Rightarrow> do {
           page_overrun r;
           State_Monad.return (Some (ret, got_pages r @ [close_page (r\<lparr>page_addr := data_addr r AND 0x4000\<rparr>)])) } } }"


section \<open>The list of identifiers\<close>

text \<open>
  Sixteen bytes on the stack take what the calculator sends; two bytes change places and the rest from
  the fifth on is printed into \<open>idlist\<close>.
\<close>

definition swap_bytes_9 :: "bytes \<Rightarrow> bytes" where
  "swap_bytes_9 d = d[9 := d ! 10, 10 := d ! 9]"

definition id_text :: "string \<Rightarrow> bytes \<Rightarrow> nat \<Rightarrow> string" where
  "id_text idlist d n =
     (let text = concat (map hex_02 (drop 4 (take n d)));
          idlist = (if n \<le> 4 then idlist else write_at idlist 0 (text @ [NUL]))
      in idlist[14 := NUL])"

definition recv_idlist_73 :: "link_env \<Rightarrow> string \<Rightarrow> (link, int \<times> string) state" where
  "recv_idlist_73 env idlist = do {
     record_event (Label ''ID-LIST'');
     ret \<leftarrow> steps [ti73_send_REQ env 0x0000 TI73_IDLIST (Some (replicate 8 0)) 0x00 0x00, only_status (tiz80_recv_ACK env True)];
     if ret \<noteq> 0 then State_Monad.return (ret, idlist)
     else do {
       (ret, hdr) \<leftarrow> ti73_recv_VAR env (replicate 9 0);
       case hdr of None \<Rightarrow> State_Monad.return (ret, idlist)
       | Some hdr \<Rightarrow> do {
           ret \<leftarrow> grant_73 env;
           if ret \<noteq> 0 then State_Monad.return (ret, idlist)
           else do {
             (ret, len, d) \<leftarrow> ti73_recv_XDP env (fst hdr);
             received_into 16 d;
             if ret \<noteq> 0 then State_Monad.return (ret, idlist)
             else do {
               ret \<leftarrow> ti73_send_ACK env;
               if ret \<noteq> 0 then State_Monad.return (ret, idlist)
               else do {
                 (if 2 * (unat len - 4) + 1 > length idlist then record_event (Overrun (2 * (unat len - 4) + 1 - length idlist)) else State_Monad.return ());
                 State_Monad.return (0, id_text idlist (swap_bytes_9 (block_with env (max 16 (unat len)) d)) (unat len)) } } } } } }"

section \<open>The clock\<close>

text \<open>The calendar of the C library, in local time: \<open>mktime\<close>, \<open>localtime\<close> and the current time.\<close>

record tm =
  tm_year :: int
  tm_mon :: int
  tm_mday :: int
  tm_hour :: int
  tm_min :: int
  tm_sec :: int
  tm_isdst :: int

record calendar =
  mktime :: "tm \<Rightarrow> int"
  localtime :: "int \<Rightarrow> tm"
  time_now :: int

record CalcClock =
  clock_year :: u16
  clock_month :: byte
  clock_day :: byte
  clock_hours :: byte
  clock_minutes :: byte
  clock_seconds :: byte
  clock_time_format :: byte
  clock_date_format :: byte

text \<open>The calculator counts seconds from the start of 1997, in the summer time of today.\<close>

definition clock_reference :: "calendar \<Rightarrow> int" where
  "clock_reference cal = mktime cal \<lparr>tm_year = 1997 - 1900, tm_mon = 0, tm_mday = 1, tm_hour = 0, tm_min = 0, tm_sec = 0,
     tm_isdst = tm_isdst (localtime cal (time_now cal))\<rparr>"

definition clock_tm :: "CalcClock \<Rightarrow> tm" where
  "clock_tm c = \<lparr>tm_year = uint (clock_year c) - 1900, tm_mon = uint (clock_month c) - 1, tm_mday = uint (clock_day c),
     tm_hour = uint (clock_hours c), tm_min = uint (clock_minutes c), tm_sec = uint (clock_seconds c), tm_isdst = 1\<rparr>"

text \<open>The difference of the two times, as a 32-bit number, and the formats.\<close>

definition clock_bytes :: "calendar \<Rightarrow> CalcClock \<Rightarrow> bytes" where
  "clock_bytes cal c =
     (let calc_time = word_of_int (mktime cal (clock_tm c) - clock_reference cal) :: u32
      in [0, 0, MSB (MSW calc_time), LSB (MSW calc_time), MSB (LSW calc_time), LSB (LSW calc_time),
          clock_date_format c, clock_time_format c, 0xff])"

definition clock_of_bytes :: "calendar \<Rightarrow> bytes \<Rightarrow> CalcClock" where
  "clock_of_bytes cal buffer =
     (let calc_time = push_bit 24 (ucast (buffer ! 2)) OR push_bit 16 (ucast (buffer ! 3)) OR push_bit 8 (ucast (buffer ! 4))
            OR ucast (buffer ! 5) :: u32;
          cur = localtime cal (clock_reference cal + uint calc_time)
      in \<lparr>clock_year = word_of_int (tm_year cur + 1900), clock_month = word_of_int (tm_mon cur + 1),
          clock_day = word_of_int (tm_mday cur), clock_hours = word_of_int (tm_hour cur),
          clock_minutes = word_of_int (tm_min cur), clock_seconds = word_of_int (tm_sec cur),
          clock_time_format = buffer ! 7, clock_date_format = buffer ! 6\<rparr>)"

text \<open>The name in the code is the string \<open>"\0x08\0\0\0\0\0\0\0"\<close>: a zero, the letters x08 and zeros.\<close>

definition clock_name :: bytes where
  "clock_name = [0, 0x78, 0x30, 0x38, 0, 0, 0, 0, 0, 0, 0, 0]"

definition set_clock_73 :: "link_env \<Rightarrow> calendar \<Rightarrow> CalcClock \<Rightarrow> (link, int) state" where
  "set_clock_73 env cal c = do {
     record_event (Label ''Setting clock...'');
     steps [ti73_send_RTS env 13 TI73_CLK (Some clock_name) 0x00 0x00, only_status (tiz80_recv_ACK env False),
       tiz80_recv_CTS env 13, ti73_send_ACK env, ti73_send_XDP env 9 (Some (clock_bytes cal c)),
       only_status (tiz80_recv_ACK env False), ti73_send_EOT env] }"

definition get_clock_73 :: "link_env \<Rightarrow> calendar \<Rightarrow> (link, int \<times> CalcClock option) state" where
  "get_clock_73 env cal = do {
     record_event (Label ''Getting clock...'');
     ret \<leftarrow> steps [ti73_send_REQ env 0x0000 TI73_CLK (Some clock_name) 0x00 0x00, only_status (tiz80_recv_ACK env False)];
     if ret \<noteq> 0 then State_Monad.return (ret, None)
     else do {
       (ret, hdr) \<leftarrow> ti73_recv_VAR env (replicate 9 0);
       case hdr of None \<Rightarrow> State_Monad.return (ret, None)
       | Some hdr \<Rightarrow> do {
           ret \<leftarrow> grant_73 env;
           if ret \<noteq> 0 then State_Monad.return (ret, None)
           else do {
             (ret, len, d) \<leftarrow> ti73_recv_XDP env (fst hdr);
             set_buffer2 d;
             if ret \<noteq> 0 then State_Monad.return (ret, None)
             else do {
               ret \<leftarrow> ti73_send_ACK env;
               h \<leftarrow> State_Monad.get;
               State_Monad.return (ret, if ret \<noteq> 0 then None else Some (clock_of_bytes cal (pkt_buffer2 h))) } } } } }"

section \<open>Certificates\<close>

text \<open>One block more than the data have: a length that is a multiple of the block reads past their end.\<close>

definition send_cert_73 :: "link_env \<Rightarrow> FlashContent list \<Rightarrow> (link, int) state" where
  "send_cert_73 env contents =
     (case find (\<lambda>c. flash_type c = TI83p_CERT) contents of
        None \<Rightarrow> State_Monad.return 0
      | Some c \<Rightarrow> do {
          let nblocks = unat (data_length c) div 0xE8;
          State_Monad.update (\<lambda>h. h\<lparr>max2 := nblocks\<rparr>);
          steps ([ti73_send_VAR2 env 0xE8 (flash_type c) 0x04 0x4000 0x00, only_status (tiz80_recv_ACK env False),
              tiz80_recv_CTS env 10, ti73_send_ACK env]
            @ concat (map (\<lambda>i. [ti73_send_XDP env 0xE8 (Some (drop (0xE8 * i) (flash_part c))), only_status (tiz80_recv_ACK env False),
                tiz80_recv_CTS env 0xE8, ti73_send_ACK env, do { progress i; State_Monad.return 0 }]) [0..<nblocks + 1])
            @ [ti73_send_EOT env]) })"

text \<open>Every block is written to the start of the data; only an error ends the loop.\<close>

primrec cert_loop_73 :: "link_env \<Rightarrow> nat \<Rightarrow> u32 \<Rightarrow> bytes \<Rightarrow> (link, (int \<times> u32 \<times> bytes) option) state" where
  "cert_loop_73 env 0 total_length data = State_Monad.return None"
| "cert_loop_73 env (Suc n) total_length data = do {
     ret \<leftarrow> steps [ti73_send_CTS env, only_status (tiz80_recv_ACK env False)];
     if ret \<noteq> 0 then State_Monad.return (Some (ret, total_length, data))
     else do {
       (ret, block_size, d) \<leftarrow> ti73_recv_XDP env 0;
       let data = write_at data 0 d;
       if ret \<noteq> 0 then State_Monad.return (Some (ret, total_length, data))
       else do {
         ret \<leftarrow> ti73_send_ACK env;
         if ret \<noteq> 0 then State_Monad.return (Some (ret, total_length, data))
         else do {
           h \<leftarrow> State_Monad.get;
           progress (cnt2 h + unat block_size);
           cert_loop_73 env n (total_length + ucast block_size) data } } } }"

definition CERT_BLOCK :: nat where "CERT_BLOCK = 2 * 1024 * 1024 + 1"

definition recv_cert_73 :: "link_env \<Rightarrow> nat \<Rightarrow> (link, (int \<times> u32 \<times> bytes) option) state" where
  "recv_cert_73 env fuel = do {
     record_event (Label ''Receiving certificate'');
     ret \<leftarrow> steps [ti73_send_REQ2 env 0x00 TI83p_GETCERT (Some (replicate 8 0)) 0x00, only_status (tiz80_recv_ACK env False),
       only_status (cable_recv env 4)];
     if ret \<noteq> 0 then State_Monad.return (Some (ret, 0, replicate CERT_BLOCK 0))
     else do {
       ret \<leftarrow> ti73_send_ACK env;
       if ret \<noteq> 0 then State_Monad.return (Some (ret, 0, replicate CERT_BLOCK 0))
       else cert_loop_73 env fuel 0 (replicate CERT_BLOCK 0) } }"

end
