(* ===== verification/Link_Talk.thy ===== *)
theory Link_Talk
  imports Calc_73 Conversation
begin

text \<open>
  Conversations over the link port: the packets of the operations of Calc_73 and of the calculator's
  answers, for an open link to the model \<open>m\<close>.
\<close>

abbreviation converses :: "(nat \<Rightarrow> byte) \<Rightarrow> CalcModel \<Rightarrow> (link, 'a) state \<Rightarrow> 'a \<Rightarrow> bytes \<Rightarrow> bytes \<Rightarrow> bool" where
  "converses w m \<equiv> converses_in (\<lambda>h. open_link h \<and> link_model h = m) w"

interpretation serial?: conversation "\<lambda>h. open_link h \<and> link_model h = m" for m
  by unfold_locales (auto dest: advancesD)

lemma converses_handle:
  assumes "\<And>h. link_model h = m \<Longrightarrow> open_link h \<Longrightarrow> converses w m (f h) r out inp"
  shows "converses w m (with_handle x f) r out inp"
  unfolding with_handle_def by (rule converses_get) (use assms in \<open>auto simp: open_link_def\<close>)

section \<open>Packets\<close>

text \<open>A packet of the calculator.\<close>

abbreviation reply :: "byte \<Rightarrow> bytes option \<Rightarrow> bytes" where
  "reply \<equiv> packet_bytes DBUS_MID_TI83p_PC"

text \<open>A packet to the calculator.\<close>

abbreviation request :: "byte \<Rightarrow> bytes option \<Rightarrow> bytes" where
  "request \<equiv> packet_bytes DBUS_MID_PC_TI83p"

lemma converses_send:
  assumes w: "working env w" and f: "fits_length len data"
  shows "converses w m (dbus_send env target cmd len data) 0 (packet_bytes target cmd data) []"
  using does_dbus_send [OF w _ f] by (auto simp: converses_in_def)

lemma converses_send_prefix:
  assumes w: "working env w" and n: "len \<noteq> 0" "unat len \<le> length d"
  shows "converses w m (dbus_send env target cmd len (Some d)) 0 (packet_bytes target cmd (Some (take (unat len) d))) []"
  using does_dbus_send_prefix [OF w _ refl, of _ "Some d" len] n by (auto simp: converses_in_def)

lemma mid_83p: "open_link h \<Longrightarrow> link_model h = m \<Longrightarrow> m \<noteq> CALC_TI73 \<Longrightarrow> tiz80_handle_to_dbus_mid_7383p h = DBUS_MID_PC_TI83p"
  by (simp add: tiz80_handle_to_dbus_mid_7383p_def open_link_def)

lemma converses_simple:
  assumes "working env w"
  shows "converses w m (tiz80_send_simple_cmd env target cmd len None) 0 (packet_bytes target cmd None) []"
  unfolding tiz80_send_simple_cmd_def by (rule converses_handle) (simp add: converses_send [OF assms] fits_length_def)

lemma converses_73:
  assumes w: "working env w" and m: "m \<noteq> CALC_TI73"
  shows "converses w m (ti73_send_ACK env) 0 (request DBUS_CMD_ACK None) []"
    "converses w m (ti73_send_CTS env) 0 (request DBUS_CMD_CTS None) []"
    "converses w m (ti73_send_EOT env) 0 (request DBUS_CMD_EOT None) []"
  unfolding ti73_send_ACK_def ti73_send_CTS_def ti73_send_EOT_def tiz80_send_ACK_def tiz80_send_CTS_def tiz80_send_EOT_def
  by (rule converses_get, simp add: mid_83p m converses_simple [OF w])+

lemma converses_XDP:
  assumes w: "working env w" and m: "m \<noteq> CALC_TI73" and n: "len \<noteq> 0" "unat len \<le> length d"
  shows "converses w m (ti73_send_XDP env len (Some d)) 0 (request DBUS_CMD_XDP (Some (take (unat len) d))) []"
  unfolding ti73_send_XDP_def tiz80_send_XDP_def
  by (rule converses_get, rule converses_handle) (simp add: mid_83p m converses_send_prefix [OF w n])

section \<open>Answers\<close>

text \<open>A packet from the calculator as \<open>dbus_recv\<close> hands it over.\<close>

definition hands_over :: "bytes \<Rightarrow> byte \<Rightarrow> u16 \<Rightarrow> bytes \<Rightarrow> bool" where
  "hands_over inp cmd len d \<longleftrightarrow> (\<forall>w p. carries w p inp \<longrightarrow>
     packet_at w p = (0, (DBUS_MID_TI83p_PC, cmd, len), d) \<and> packet_size w p = length inp)"

lemma reply_short:
  assumes "cmd \<in> set short_commands" "cmd \<noteq> DBUS_CMD_ERR" "cmd \<noteq> DBUS_CMD_ERR2"
  shows "hands_over (reply cmd None) cmd 0 []"
  unfolding hands_over_def
proof (intro allI impI)
  fix w p
  assume "carries w p (reply cmd None)"
  from short_round [OF assms _ _ this]
  show "packet_at w p = (0, (DBUS_MID_TI83p_PC, cmd, 0), []) \<and> packet_size w p = length (reply cmd None)"
    by (simp add: has_length_def packet_bytes_def)
qed

lemma reply_data:
  assumes "cmd \<in> set data_commands" "length d < 65536"
  shows "hands_over (reply cmd (Some d)) cmd (of_nat (length d)) d"
  unfolding hands_over_def
proof (intro allI impI)
  fix w p
  assume "carries w p (reply cmd (Some d))"
  from packet_round [OF assms(1) _ assms(2) this]
  show "packet_at w p = (0, (DBUS_MID_TI83p_PC, cmd, of_nat (length d)), d) \<and> packet_size w p = length (reply cmd (Some d))"
    by (simp add: has_length_def)
qed

lemma converses_recv:
  assumes w: "working env w" and inp: "hands_over inp cmd len d"
  shows "converses w m (dbus_recv env old False) (0, (DBUS_MID_TI83p_PC, cmd, len), d) [] inp"
  unfolding converses_in_def
proof (intro allI impI, elim conjE)
  fix h
  assume "open_link h" "carries w (asked (history h)) inp"
  with does_dbus_recv [OF w, of h old] inp
  show "does (dbus_recv env old False) h (0, (DBUS_MID_TI83p_PC, cmd, len), d) [] (length inp)"
    by (simp add: hands_over_def)
qed

lemma converses_set_buffer:
  "converses w m (State_Monad.update (\<lambda>h. h\<lparr>pkt_buffer := map_option f (pkt_buffer h)\<rparr>)) () [] []"
  by (rule converses_update) (simp add: advances_def open_link_def)

lemma converses_to_buffer:
  assumes w: "working env w" and inp: "hands_over inp cmd len d"
  shows "converses w m (recv_to_buffer env old) (0, cmd, len) [] inp"
  unfolding recv_to_buffer_def
proof (rule converses_get)
  fix h
  assume "open_link h \<and> link_model h = m"
  then have null: "(pkt_buffer h = None) = False" by (simp add: open_link_def)
  show "converses w m (dbus_recv env (0, 0, old) (pkt_buffer h = None) \<bind> (\<lambda>(ret, (host, cmd, len), d).
      State_Monad.update (\<lambda>h. h\<lparr>pkt_buffer := map_option (\<lambda>buf. write_at buf 0 d) (pkt_buffer h)\<rparr>) \<bind>
      (\<lambda>_. State_Monad.return (ret, cmd, len)))) (0, cmd, len) [] inp"
    unfolding null
    apply (rule converses_then [OF converses_recv [OF w inp], where out' = "[]" and inp' = "[]"])
      apply (simp only: prod.case)
      apply (rule converses_quietly [OF converses_set_buffer])
      apply simp_all
    done
qed

text \<open>What is then read from the buffer starts with the data.\<close>

lemma does_to_buffer:
  assumes w: "working env w" and inp: "hands_over inp cmd len d"
    and f: "\<And>rest. f 0 cmd len (d @ rest) = r"
  shows "converses w m (State_Monad.bind (recv_to_buffer env old) (\<lambda>(ret, cmd, len). State_Monad.bind get_buffer (\<lambda>buffer. State_Monad.return (f ret cmd len buffer))))
    r [] inp"
  unfolding converses_in_def
proof (intro allI impI, elim conjE)
  fix h
  assume h: "open_link h" "link_model h = m" and c: "carries w (asked (history h)) inp"
  have null: "(pkt_buffer h = None) = False" using h by (simp add: open_link_def)
  obtain h1 where run: "run_state (dbus_recv env (0, 0, old) False) h = ((0, (DBUS_MID_TI83p_PC, cmd, len), d), h1)"
    and adv: "advances h h1 [] (length inp)"
    using converses_recv [OF w inp, of m "(0, 0, old)"] h c by (auto simp: converses_in_def does_def)
  have "open_link h1" using adv h(1) by (simp add: advancesD(1))
  then obtain buf where buf: "pkt_buffer h1 = Some buf" by (auto simp: open_link_def)
  let ?h2 = "h1\<lparr>pkt_buffer := Some (d @ drop (length d) buf)\<rparr>"
  have "advances h ?h2 [] (length inp)"
    using adv h(1) \<open>open_link h1\<close> by (simp add: advances_def open_link_def)
  moreover have "run_state (State_Monad.bind (recv_to_buffer env old) (\<lambda>(ret, cmd, len). State_Monad.bind get_buffer (\<lambda>buffer. State_Monad.return (f ret cmd len buffer)))) h
      = (r, ?h2)"
    using run buf f by (simp add: recv_to_buffer_def get_buffer_def null State_Monad.update_def)
  ultimately show "does (State_Monad.bind (recv_to_buffer env old) (\<lambda>(ret, cmd, len). State_Monad.bind get_buffer (\<lambda>buffer. State_Monad.return (f ret cmd len buffer))))
      h r [] (length inp)"
    by (auto simp: does_def)
qed

lemma short_answers:
  "hands_over (reply DBUS_CMD_ACK None) DBUS_CMD_ACK 0 []" "hands_over (reply DBUS_CMD_CTS None) DBUS_CMD_CTS 0 []"
  "hands_over (reply DBUS_CMD_EOT None) DBUS_CMD_EOT 0 []"
  by (rule reply_short; simp add: short_commands_def)+

lemma converses_recv_ACK:
  assumes w: "working env w"
  shows "converses w m (only_status (tiz80_recv_ACK env b)) 0 [] (reply DBUS_CMD_ACK None)"
  unfolding tiz80_recv_ACK_def
  apply (rule converses_only_status [where x = 0], rule converses_handle)
  apply (rule converses_then [OF converses_to_buffer [OF w short_answers(1)], where out' = "[]" and inp' = "[]"])
    apply simp_all
  done

lemma converses_recv_SKP:
  assumes w: "working env w"
  shows "converses w m (tiz80_recv_SKP env) (0, 0) [] (reply DBUS_CMD_CTS None)"
  unfolding tiz80_recv_SKP_def
  by (rule converses_handle, rule does_to_buffer [OF w short_answers(2)]) simp

text \<open>The header of a variable: thirteen bytes from the 83 Plus family.\<close>

lemma converses_recv_VAR:
  assumes w: "working env w" and d: "length d = 13"
  shows "converses w m (ti73_recv_VAR env name) (0, Some (var_header_73 d name)) [] (reply DBUS_CMD_VAR (Some d))"
proof -
  have inp: "hands_over (reply DBUS_CMD_VAR (Some d)) DBUS_CMD_VAR 13 d"
    using reply_data [of DBUS_CMD_VAR d] d by (simp add: data_commands_def)
  have hdr: "var_header_73 (d @ rest) name = var_header_73 d name" for rest
    using d by (simp add: var_header_73_def nth_append)
  show ?thesis
    unfolding ti73_recv_VAR_def
    apply (rule converses_handle)
    apply (rule converses_quietly)
     apply (simp only: clear_buffer_def)
     apply (rule converses_set_buffer)
    apply (rule does_to_buffer [OF w inp])
    apply (simp add: hdr)
    done
qed

lemma converses_recv_XDP:
  assumes w: "working env w" and d: "length d < 65536"
  shows "converses w m (ti73_recv_XDP env len) (0, of_nat (length d), d) [] (reply DBUS_CMD_XDP (Some d))"
proof -
  have inp: "hands_over (reply DBUS_CMD_XDP (Some d)) DBUS_CMD_XDP (of_nat (length d)) d"
    using reply_data [of DBUS_CMD_XDP d] d by (simp add: data_commands_def)
  show ?thesis
    unfolding ti73_recv_XDP_def tiz80_recv_XDP_def
    apply (rule converses_handle)
    apply (rule converses_then [OF converses_recv [OF w inp], where out' = "[]" and inp' = "[]"])
      apply simp_all
    done
qed

end
