(* ===== verification/Link_Variables.thy ===== *)
theory Link_Variables
  imports Link_Talk
begin

text \<open>
  Variables on the wire: what \<open>send_var\<close> sends, what \<open>recv_var\<close> makes of the same packets coming
  back, and the strings of the wallet through both.  The calculator is of the TI-83 Plus family and
  answers as the protocol asks.
\<close>

section \<open>Sending\<close>

text \<open>The thirteen bytes of a header.\<close>

definition header_bytes :: "VarEntry \<Rightarrow> bytes" where
  "header_bytes e = var_start (clamp_size (ve_size e)) (ve_type e) @ take 8 (name_array (ve_name e)) @ var_extras (ve_attr e) (ve_version e)"

text \<open>An entry that can travel: it has data, is not to be skipped and is no backup.\<close>

definition sendable :: "CalcModel \<Rightarrow> VarEntry \<Rightarrow> bool" where
  "sendable m e \<longleftrightarrow> ve_action e \<noteq> ACT_SKIP \<and> 0 < ve_size e \<and> ve_size e < 65536
     \<and> (ve_type e \<noteq> TI7383p_BKUP m \<or> ve_version e \<noteq> 0)
     \<and> (\<exists>d. ve_data e = Some d \<and> unat (ve_size e) \<le> length d)"

definition entry_data :: "VarEntry \<Rightarrow> bytes" where
  "entry_data e = take (unat (ve_size e)) (the (ve_data e))"

lemma length_name_array: "8 \<le> length (name_array s)"
  by (simp add: name_array_def)

lemma length_header_bytes [simp]: "length (header_bytes e) = 13"
  using length_name_array [of "ve_name e"] by (simp add: header_bytes_def var_start_def var_extras_def)

lemma sendable_size:
  assumes "sendable m e"
  shows "clamp_size (ve_size e) = ucast (ve_size e)" "unat (clamp_size (ve_size e)) = unat (ve_size e)" "clamp_size (ve_size e) \<noteq> 0"
    "unat (ve_size e) < 65536" "length (entry_data e) = unat (ve_size e)"
proof -
  have s: "0 < ve_size e" "ve_size e < 65536" and d: "\<exists>d. ve_data e = Some d \<and> unat (ve_size e) \<le> length d"
    using assms by (simp_all add: sendable_def)
  have n: "unat (ve_size e) < 65536" using s(2) by (simp add: word_less_nat_alt)
  have "\<not> 65536 \<le> ve_size e" using s(2) by (simp only: not_le)
  then show c: "clamp_size (ve_size e) = ucast (ve_size e)" by (simp add: clamp_size_def)
  show u: "unat (clamp_size (ve_size e)) = unat (ve_size e)"
    unfolding c using n by (simp add: unsigned_ucast_eq take_bit_nat_eq_self)
  have "0 < unat (ve_size e)" using s(1) by (simp add: unat_gt_0)
  then show "clamp_size (ve_size e) \<noteq> 0" using u by (metis less_numeral_extra(3) unsigned_0)
  show "unat (ve_size e) < 65536" by fact
  show "length (entry_data e) = unat (ve_size e)" using d by (auto simp: entry_data_def)
qed

lemma converses_RTS:
  assumes w: "working env w" and m: "m \<noteq> CALC_TI73" and e: "sendable m e"
  shows "converses w m (ti73_send_RTS env (clamp_size (ve_size e)) (ve_type e) (Some (name_array (ve_name e))) (ve_attr e) (ve_version e)) 0
    (request DBUS_CMD_RTS (Some (header_bytes e))) []"
  unfolding ti73_send_RTS_def with_nonnull_def option.case
proof (rule converses_handle)
  fix h
  assume h: "link_model h = m" "open_link h"
  have backup: "ve_type e \<noteq> TI7383p_BKUP (link_model h) \<or> ve_version e \<noteq> 0" using e h by (simp add: sendable_def)
  have extras: "11 + EXTRAS (link_model h) = (13 :: u16)" using h m by (simp add: EXTRAS_def)
  have fits: "fits_length 13 (Some (header_bytes e))" by (simp add: fits_length_def)
  show "converses w m (read_array env 8 (name_array (ve_name e)) \<bind> (\<lambda>name.
      let buffer = var_start (clamp_size (ve_size e)) (ve_type e) @ name @ var_extras (ve_attr e) (ve_version e)
      in if ve_type e \<noteq> TI7383p_BKUP (link_model h) \<or> ve_version e \<noteq> 0
         then dbus_send env (tiz80_handle_to_dbus_mid_7383p h) DBUS_CMD_RTS (11 + EXTRAS (link_model h)) (Some buffer)
         else dbus_send env (tiz80_handle_to_dbus_mid_7383p h) DBUS_CMD_RTS 9 (Some buffer))) 0
    (request DBUS_CMD_RTS (Some (header_bytes e))) []"
    unfolding if_P [OF backup] extras mid_83p [OF h(2,1) m]
    using converses_send [OF w fits] length_name_array [of "ve_name e"]
    by (simp add: read_array_def header_bytes_def)
qed

text \<open>The answer to an offer: permission to send, or a rejection with its code.\<close>

definition offer_answer :: "byte \<Rightarrow> bytes" where
  "offer_answer code = (if code = 0 then reply DBUS_CMD_CTS None else reply DBUS_CMD_SKP (Some [code]))"

lemma converses_answer:
  assumes w: "working env w"
  shows "converses w m (tiz80_recv_SKP env) (0, code) [] (offer_answer code)"
proof (cases "code = 0")
  case True
  then show ?thesis using converses_recv_SKP [OF w] by (simp add: offer_answer_def)
next
  case False
  have "hands_over (reply DBUS_CMD_SKP (Some [code])) DBUS_CMD_SKP 1 [code]"
    using reply_data [of DBUS_CMD_SKP "[code]"] by (simp add: data_commands_def)
  note inp = this
  show ?thesis
    unfolding tiz80_recv_SKP_def offer_answer_def if_not_P [OF False]
    by (rule converses_handle, rule does_to_buffer [OF w inp]) simp
qed

definition offer_packets :: "VarEntry \<Rightarrow> bytes" where
  "offer_packets e = request DBUS_CMD_RTS (Some (header_bytes e)) @ request DBUS_CMD_ACK None"

lemma converses_offer:
  assumes w: "working env w" and m: "m \<noteq> CALC_TI73" and e: "sendable m e"
  shows "converses w m (offer_73 env (clamp_size (ve_size e)) (ve_type e) (name_array (ve_name e)) (ve_attr e) (ve_version e)) (0, code)
    (offer_packets e) (reply DBUS_CMD_ACK None @ offer_answer code)"
  unfolding offer_73_def offer_packets_def
  apply (rule converses_yielding)
     apply (rule converses_also_status)
     apply (rule converses_steps [OF converses_RTS [OF w m e]])
       apply (rule converses_steps [OF converses_recv_ACK [OF w] converses_steps_Nil refl refl])
      apply (rule refl)+
    apply (rule converses_yielding [OF converses_answer [OF w] converses_also_status [OF converses_73(1) [OF w m]] refl refl])
   apply simp_all
  done

lemma converses_data:
  assumes w: "working env w" and m: "m \<noteq> CALC_TI73" and e: "sendable m e"
  shows "converses w m (steps [ti73_send_XDP env (clamp_size (ve_size e)) (ve_data e), only_status (tiz80_recv_ACK env True), ti73_send_EOT env]) 0
    (request DBUS_CMD_XDP (Some (entry_data e)) @ request DBUS_CMD_EOT None) (reply DBUS_CMD_ACK None)"
proof -
  obtain d where d: "ve_data e = Some d" "unat (ve_size e) \<le> length d" using e by (auto simp: sendable_def)
  note size = sendable_size [OF e]
  have "unat (clamp_size (ve_size e)) \<le> length d" using d(2) size(2) by simp
  note XDP = converses_XDP [OF w m size(3) this]
  have data: "entry_data e = take (unat (clamp_size (ve_size e))) d" by (simp add: entry_data_def d size(2))
  show ?thesis
    unfolding data d(1)
    apply (rule converses_steps [OF XDP])
      apply (rule converses_steps [OF converses_recv_ACK [OF w]])
        apply (rule converses_steps [OF converses_73(3) [OF w m] converses_steps_Nil refl refl])
       apply (rule refl)+
     apply simp_all
    done
qed

text \<open>The error a code that ends a transfer stands for: 1 exit, 3 no memory, 4 wrong version, any other a refusal.\<close>

definition stop_error :: "byte \<Rightarrow> int" where
  "stop_error code = (if code = 1 then ERR_ABORT else if code = 3 then ERR_OUT_OF_MEMORY
     else if code = 4 then ERR_VAR_VERSION else ERR_VAR_REJECTED)"

text \<open>
  A transfer of several variables: each is offered; the calculator takes it, has it skipped, or ends
  the transfer.  The result, what goes out and what comes in.
\<close>

fun transfer :: "(VarEntry \<times> byte) list \<Rightarrow> int \<times> bytes \<times> bytes" where
  "transfer [] = (0, [], [])"
| "transfer ((e, code) # rest) =
     (let (r, out, inp) = (if code = 0 \<or> code = DBUS_REJ_SKIP then transfer rest else (stop_error code, [], []))
      in if code = 0
         then (r, offer_packets e @ (request DBUS_CMD_XDP (Some (entry_data e)) @ request DBUS_CMD_EOT None) @ out,
               (reply DBUS_CMD_ACK None @ offer_answer 0) @ reply DBUS_CMD_ACK None @ inp)
         else (r, offer_packets e @ out, (reply DBUS_CMD_ACK None @ offer_answer code) @ inp))"

lemma rejection_stops: "code \<noteq> 0 \<Longrightarrow> stop_error code = rejection code"
  by (simp add: rejection_def stop_error_def)

lemma rejection_codes: "rejection 0 = 0" "code \<noteq> 0 \<Longrightarrow> rejection code \<noteq> 0" "(0 :: byte) = DBUS_REJ_SKIP \<longleftrightarrow> False"
  by (simp_all add: rejection_def)

lemma converses_send_vars:
  assumes w: "working env w" and m: "m \<noteq> CALC_TI73" and es: "\<forall>(e, code)\<in>set ts. sendable m e" and t: "transfer ts = (r, out, inp)"
  shows "converses w m (send_vars_73 env n i (map (Some \<circ> fst) ts)) r out inp"
  using es t
proof (induction ts arbitrary: i r out inp)
  case Nil
  then show ?case by simp
next
  case (Cons t ts)
  obtain e code where t: "t = (e, code)" by (metis prod.exhaust)
  obtain r1 out1 inp1 where rest: "transfer ts = (r1, out1, inp1)" by (metis prod.exhaust)
  have e: "sendable m e" and act: "ve_action e \<noteq> ACT_SKIP" using Cons.prems(1) t by (simp_all add: sendable_def)
  note IH = Cons.IH [OF _ rest, of "i + 1"]
  have later: "converses w m (send_vars_73 env n (i + 1) (map (Some \<circ> fst) ts)) r1 out1 inp1"
    by (rule IH) (use Cons.prems(1) in simp)
  note offer = converses_offer [OF w m e, of code]
  consider (taken) "code = 0" | (skipped) "code = DBUS_REJ_SKIP" | (ended) "code \<noteq> 0" "code \<noteq> DBUS_REJ_SKIP" by blast
  then show ?case
  proof cases
    case taken
    then have res: "r = r1" "out = offer_packets e @ (request DBUS_CMD_XDP (Some (entry_data e)) @ request DBUS_CMD_EOT None) @ out1"
        "inp = (reply DBUS_CMD_ACK None @ offer_answer 0) @ reply DBUS_CMD_ACK None @ inp1"
      using Cons.prems(2) by (simp_all add: t rest)
    show ?thesis
      unfolding t list.map o_apply fst_conv send_vars_73.simps if_not_P [OF act] res
      apply (rule converses_bind [OF offer [unfolded taken]])
      apply (simp only: prod.case rejection_codes not_True_eq_False simp_thms if_False zero_neq_numeral)
      apply (rule converses_quietly [OF converses_label])
      apply (rule converses_bind [OF converses_data [OF w m e]])
      apply (simp only: not_True_eq_False simp_thms if_False)
      apply (rule converses_quietly [OF converses_start_progress])
      apply (rule converses_quietly [OF converses_pbar])
      apply (rule later [unfolded o_def])
      done
  next
    case skipped
    then have res: "r = r1" "out = offer_packets e @ out1" "inp = (reply DBUS_CMD_ACK None @ offer_answer DBUS_REJ_SKIP) @ inp1"
      using Cons.prems(2) by (simp_all add: t rest)
    show ?thesis
      unfolding t list.map o_apply fst_conv send_vars_73.simps if_not_P [OF act] res
      apply (rule converses_bind [OF offer [unfolded skipped]])
      apply (simp only: prod.case not_True_eq_False simp_thms if_False if_True)
      apply (rule later [unfolded o_def])
      done
  next
    case ended
    then have res: "r = rejection code" "out = offer_packets e @ []" "inp = (reply DBUS_CMD_ACK None @ offer_answer code) @ []"
      using Cons.prems(2) rejection_stops [OF ended(1)] by (simp_all add: t)
    show ?thesis
      unfolding t list.map o_apply fst_conv send_vars_73.simps if_not_P [OF act] res
      apply (rule converses_bind [OF offer])
      apply (simp only: prod.case ended rejection_codes(2) [OF ended(1)] not_True_eq_False not_False_eq_True simp_thms if_False if_True)
      apply (rule converses_return)
      done
  qed
qed

lemma converses_transfer:
  assumes w: "working env w" and m: "m \<noteq> CALC_TI73" and es: "\<forall>(e, code)\<in>set ts. sendable m e" and t: "transfer ts = (r, out, inp)"
    and c: "num_entries c = length ts" "fc_entries c = Some (map (Some \<circ> fst) ts)"
  shows "converses w m (send_var_73 env c) r out inp"
  unfolding send_var_73_def c option.case
  by (rule converses_quietly [OF converses_start_progress]) (simp add: converses_send_vars [OF w m es t])

section \<open>Receiving\<close>

definition request_bytes :: "VarEntry \<Rightarrow> bytes" where
  "request_bytes vr = var_start (ucast (ve_size vr)) (ve_type vr) @ take 8 (name_array (ve_name vr)) @ var_extras (ve_attr vr) (ve_version vr)"

lemma converses_REQ:
  assumes w: "working env w" and m: "m \<noteq> CALC_TI73" and ty: "ve_type vr \<noteq> TI83p_IDLIST" "ve_type vr \<noteq> TI83p_GETCERT"
  shows "converses w m (ti73_send_REQ env (ucast (ve_size vr)) (ve_type vr) (Some (name_array (ve_name vr))) (ve_attr vr) (ve_version vr)) 0
    (request DBUS_CMD_REQ (Some (request_bytes vr))) []"
  unfolding ti73_send_REQ_def with_nonnull_def option.case
proof (rule converses_handle)
  fix h
  assume h: "link_model h = m" "open_link h"
  have extras: "11 + EXTRAS (link_model h) = (13 :: u16)" using h m by (simp add: EXTRAS_def)
  have fits: "fits_length 13 (Some (request_bytes vr))"
    using length_name_array [of "ve_name vr"] by (simp add: fits_length_def request_bytes_def var_start_def var_extras_def)
  show "converses w m (read_array env 8 (name_array (ve_name vr)) \<bind> (\<lambda>name.
      let buffer = var_start (ucast (ve_size vr)) (ve_type vr) @ name @ var_extras (ve_attr vr) (ve_version vr)
      in if ve_type vr \<noteq> TI83p_IDLIST \<and> ve_type vr \<noteq> TI83p_GETCERT
         then dbus_send env (tiz80_handle_to_dbus_mid_7383p h) DBUS_CMD_REQ (11 + EXTRAS (link_model h)) (Some buffer)
         else if ve_type vr \<noteq> TI83p_GETCERT \<and> link_model h \<noteq> CALC_TI73
         then dbus_send env (tiz80_handle_to_dbus_mid_7383p h) DBUS_CMD_REQ 11 (Some buffer)
         else dbus_send env DBUS_MID_PC_TI73 DBUS_CMD_REQ 3 (Some buffer))) 0
    (request DBUS_CMD_REQ (Some (request_bytes vr))) []"
    unfolding extras mid_83p [OF h(2,1) m]
    using converses_send [OF w fits] length_name_array [of "ve_name vr"] ty
    by (simp add: read_array_def request_bytes_def)
qed

lemma converses_grant:
  assumes w: "working env w" and m: "m \<noteq> CALC_TI73"
  shows "converses w m (grant_73 env) 0 (request DBUS_CMD_ACK None @ request DBUS_CMD_CTS None) (reply DBUS_CMD_ACK None)"
  unfolding grant_73_def
  apply (rule converses_steps [OF converses_73(1) [OF w m]])
    apply (rule converses_steps [OF converses_73(2) [OF w m]])
      apply (rule converses_steps [OF converses_recv_ACK [OF w] converses_steps_Nil refl refl])
     apply (rule refl)+
   apply simp_all
  done

text \<open>What the calculator sends for a request: header and data.\<close>

definition delivery :: "bytes \<Rightarrow> bytes \<Rightarrow> bytes" where
  "delivery hdr d = reply DBUS_CMD_ACK None @ reply DBUS_CMD_VAR (Some hdr) @ reply DBUS_CMD_ACK None @ reply DBUS_CMD_XDP (Some d)"

definition request_packets :: "VarEntry \<Rightarrow> bytes" where
  "request_packets vr = request DBUS_CMD_REQ (Some (request_bytes vr)) @ request DBUS_CMD_ACK None @ request DBUS_CMD_CTS None @ request DBUS_CMD_ACK None"

definition received_entry :: "VarEntry \<Rightarrow> var_header \<Rightarrow> bytes \<Rightarrow> VarEntry" where
  "received_entry vr hdr d = (entry_of_header vr hdr)\<lparr>ve_size := of_nat (length d), ve_data := Some (d @ [0])\<rparr>"

lemma ucast_16_32: "n < 65536 \<Longrightarrow> ucast (of_nat n :: u16) = (of_nat n :: u32)"
  by (simp add: word_unat_eq_iff unat_of_nat unsigned_ucast_eq take_bit_nat_eq_self)

lemma converses_recv_data:
  assumes w: "working env w" and m: "m \<noteq> CALC_TI73" and d: "length d < 65536" and size: "ve_size ve = of_nat (length d)"
  shows "converses w m (recv_data_73 env m ve) (0, content_model_73 m ve, ve\<lparr>ve_data := Some (d @ [0]), ve_size := of_nat (length d)\<rparr>)
    (request DBUS_CMD_ACK None) (reply DBUS_CMD_XDP (Some d))"
proof -
  have u: "unat (of_nat (length d) :: u32) = length d" "unat (of_nat (length d) :: u16) = length d" using d by (simp_all add: unat_of_nat)
  note c = ucast_16_32 [OF d]
  have model: "content_model_73 m (ve\<lparr>ve_data := x\<rparr>) = content_model_73 m ve" for x by (simp add: content_model_73_def)
  have block: "write_at (replicate (length d + 1) 0) 0 d = d @ [0 :: byte]" by (simp only: write_at_0 drop_replicate) simp
  have fits: "received_into (length (replicate (length d + 1) (0 :: byte))) d = State_Monad.return ()" by (simp add: received_into_def)
  show ?thesis
    unfolding recv_data_73_def size u Let_def
    apply (rule converses_then [OF converses_recv_XDP [OF w d], where out' = "request DBUS_CMD_ACK None" and inp' = "[]"])
      apply (simp only: prod.case fits block)
      apply (rule converses_quietly [OF converses_return])
      apply (simp only: not_True_eq_False simp_thms if_False c)
      apply (simp only: model)
      apply (rule converses_also_status [OF converses_73(1) [OF w m]])
     apply simp_all
    done
qed

lemma converses_recv_var:
  assumes w: "working env w" and m: "m \<noteq> CALC_TI73" and ty: "ve_type vr \<noteq> TI83p_IDLIST" "ve_type vr \<noteq> TI83p_GETCERT"
    and hdr: "length hdr = 13" "word_16 (hdr ! 0) (hdr ! 1) = of_nat (length d)" and d: "length d < 65536"
  shows "converses w m (recv_var_73 env vr)
    (0, content_model_73 m (received_entry vr (var_header_73 hdr (name_array (ve_name vr))) d),
     received_entry vr (var_header_73 hdr (name_array (ve_name vr))) d)
    (request_packets vr) (delivery hdr d)"
proof -
  let ?hdr = "var_header_73 hdr (name_array (ve_name vr))"
  let ?ve = "(entry_of_header vr ?hdr)\<lparr>ve_size := of_nat (length d)\<rparr>"
  have "fst ?hdr = of_nat (length d)" by (simp only: var_header_73_def fst_conv hdr(2))
  then have size: "ucast (fst ?hdr) = (of_nat (length d) :: u32)" by (simp only: ucast_16_32 [OF d])
  have data: "converses w m (recv_data_73 env m ?ve) (0, content_model_73 m (received_entry vr ?hdr d), received_entry vr ?hdr d)
      (request DBUS_CMD_ACK None) (reply DBUS_CMD_XDP (Some d))"
  proof -
    have "received_entry vr ?hdr d = ?ve\<lparr>ve_data := Some (d @ [0]), ve_size := of_nat (length d)\<rparr>" by (simp add: received_entry_def)
    moreover have "content_model_73 m (received_entry vr ?hdr d) = content_model_73 m ?ve" by (simp add: received_entry_def content_model_73_def)
    moreover have "ve_size ?ve = of_nat (length d)" by simp
    ultimately show ?thesis using converses_recv_data [OF w m d, of ?ve] by (simp only:)
  qed
  have req: "converses w m (steps [ti73_send_REQ env (ucast (ve_size vr)) (ve_type vr) (Some (name_array (ve_name vr))) (ve_attr vr) (ve_version vr),
      only_status (tiz80_recv_ACK env True)]) 0 (request DBUS_CMD_REQ (Some (request_bytes vr))) (reply DBUS_CMD_ACK None)"
    apply (rule converses_steps [OF converses_REQ [OF w m ty]])
      apply (rule converses_steps [OF converses_recv_ACK [OF w] converses_steps_Nil refl refl])
     apply simp_all
    done
  show ?thesis
    unfolding recv_var_73_def Let_def
    apply (rule converses_get)
    apply (simp only:)
    apply (rule converses_quietly [OF converses_label])
    apply (rule converses_then [OF req])
      apply (simp only: not_True_eq_False simp_thms if_False)
      apply (rule converses_then [OF converses_recv_VAR [OF w hdr(1)]])
        apply (simp only: prod.case option.case size)
        apply (rule converses_then [OF converses_grant [OF w m]])
          apply (simp only: not_True_eq_False simp_thms if_False)
          apply (rule data)
         apply (rule refl)+
     apply (simp_all add: request_packets_def delivery_def)
    done
qed


section \<open>The same entry comes back\<close>

lemma array_name_map: "NUL \<notin> set s \<Longrightarrow> array_name (map byte_of_char s @ 0 # rest) = s"
proof -
  assume "NUL \<notin> set s"
  moreover have "byte_of_char c = 0 \<Longrightarrow> c = NUL" for c
  proof -
    assume 0: "byte_of_char c = 0"
    have "c = char_of_byte (byte_of_char c)" by (simp only: char_of_byte_of_char)
    also have "\<dots> = char_of_byte 0" by (simp only: 0)
    also have "\<dots> = NUL" by code_simp
    finally show "c = NUL" .
  qed
  ultimately have "\<forall>b\<in>set (map byte_of_char s). b \<noteq> 0" by auto
  then have "takeWhile (\<lambda>b. b \<noteq> 0) (map byte_of_char s @ 0 # rest) = map byte_of_char s"
    by (subst takeWhile_append2) auto
  then show ?thesis by (simp add: array_name_def o_def)
qed

lemma name_comes_back:
  assumes "NUL \<notin> set s" "length s \<le> 8"
  shows "array_name (take 8 (name_array s) @ [0]) = s"
proof -
  have "take 8 (name_array s) @ [0] = map byte_of_char s @ replicate (8 - length s) 0 @ [0]"
    using assms(2) by (simp add: name_array_def take_map)
  also have "\<dots> = map byte_of_char s @ 0 # replicate (8 - length s) 0"
    by (simp only: replicate_append_same)
  finally show ?thesis by (simp only: array_name_map [OF assms(1)])
qed

lemma header_size: "word_16 (header_bytes e ! 0) (header_bytes e ! 1) = clamp_size (ve_size e)"
  by (simp add: header_bytes_def var_start_def word_16_bytes)

lemma header_back:
  assumes "NUL \<notin> set (ve_name e)" "length (ve_name e) \<le> 8"
  shows "entry_of_header vr (var_header_73 (header_bytes e) (name_array nm))
    = vr\<lparr>ve_type := ve_type e, ve_name := ve_name e, ve_attr := (if ve_attr e = ATTRB_ARCHIVED then ATTRB_ARCHIVED else ATTRB_NONE),
        ve_version := ve_version e\<rparr>"
proof -
  let ?n = "take 8 (name_array (ve_name e))"
  have n: "length ?n = 8" using length_name_array [of "ve_name e"] by simp
  have h: "header_bytes e = var_start (clamp_size (ve_size e)) (ve_type e) @ ?n @ var_extras (ve_attr e) (ve_version e)"
    by (simp only: header_bytes_def)
  have at: "header_bytes e ! 2 = ve_type e" "header_bytes e ! 11 = ve_version e"
    "header_bytes e ! 12 = (if ve_attr e = ATTRB_ARCHIVED then 0x80 else 0x00)" "take 8 (drop 3 (header_bytes e)) = ?n"
    using n by (simp_all add: h var_start_def var_extras_def nth_append)
  have "array_name (write_at (name_array nm) 0 (?n @ [0])) = ve_name e"
  proof -
    have "takeWhile (\<lambda>b. b \<noteq> 0) ((?n @ [0]) @ rest) = takeWhile (\<lambda>b. b \<noteq> 0) (?n @ [0])" for rest
      by (rule takeWhile_append1 [where x = 0]) simp_all
    then have "array_name (write_at (name_array nm) 0 (?n @ [0])) = array_name (?n @ [0])"
      by (simp only: array_name_def write_at_0)
    then show ?thesis by (simp only: name_comes_back [OF assms])
  qed
  then show ?thesis
    by (simp add: entry_of_header_def var_header_73_def at)
qed

lemma entry_comes_back:
  assumes e: "sendable m e" and name: "NUL \<notin> set (ve_name e)" "length (ve_name e) \<le> 8"
    and "ve_action vr = ve_action e" "ve_attr e = ATTRB_NONE" "ve_data e = Some (entry_data e @ [0])"
  shows "received_entry vr (var_header_73 (header_bytes e) (name_array nm)) (entry_data e) = e"
proof -
  have "of_nat (length (entry_data e)) = ve_size e" by (simp add: sendable_size(5) [OF e])
  then show ?thesis using assms by (simp add: received_entry_def header_back [OF name])
qed

lemma converses_wire:
  assumes "converses w m p r out inp" "open_link h" "link_model h = m" "carries w (asked (history h)) inp"
  shows "\<exists>h'. run_state p h = (r, h') \<and> wire_bytes (history h') = wire_bytes (history h) @ out"
  using assms by (auto simp: converses_in_def does_def advances_def)

section \<open>The string store over the link\<close>

text \<open>The transfers the string store asks for, done by the operations of the link layer.\<close>

definition link_send_var :: "link_env \<Rightarrow> link \<Rightarrow> handle \<Rightarrow> FileContent \<Rightarrow> int" where
  "link_send_var env h d content = fst (run_state (send_var_73 env content) h)"

definition link_recv_var :: "link_env \<Rightarrow> link \<Rightarrow> handle \<Rightarrow> FileContent \<Rightarrow> VarEntry \<Rightarrow> int \<times> FileContent" where
  "link_recv_var env h d content vr =
     (case fst (run_state (recv_var_73 env vr) h) of
        (ret, m, ve) \<Rightarrow> (ret, content\<lparr>fc_model := m, num_entries := 1, fc_entries := Some [Some ve]\<rparr>))"

text \<open>A calculator that delivers the header and the data of an entry keeps the content with this entry.\<close>

lemma link_keeps:
  assumes w: "working env w" and h: "open_link h" "link_model h = m" "m \<noteq> CALC_TI73"
    and e: "sendable m e" "NUL \<notin> set (ve_name e)" "length (ve_name e) \<le> 8" "ve_attr e = ATTRB_NONE"
      "ve_data e = Some (entry_data e @ [0])" "ve_type e \<noteq> TI83p_IDLIST" "ve_type e \<noteq> TI83p_GETCERT"
    and c: "fc_entries c = Some [Some e]" "num_entries c = 1"
    and inp: "carries w (asked (history h)) (delivery (header_bytes e) (entry_data e))"
    and env': "recv_var senv = link_recv_var env h"
  shows "keeps senv d c"
  unfolding keeps_def
proof (intro allI impI, elim conjE)
  fix content :: FileContent and vr e' :: VarEntry
  assume *: "fc_entries c = Some [Some e']" "ve_name vr = ve_name e'" "ve_type vr = ve_type e'" "ve_action vr = ve_action e'"
  then have e': "e' = e" using c by simp
  have ty: "ve_type vr \<noteq> TI83p_IDLIST" "ve_type vr \<noteq> TI83p_GETCERT" using * e' e(6,7) by simp_all
  have len: "length (entry_data e) < 65536" using sendable_size(4,5) [OF e(1)] by simp
  have size: "word_16 (header_bytes e ! 0) (header_bytes e ! 1) = of_nat (length (entry_data e))"
  proof -
    have "(of_nat (unat (clamp_size (ve_size e))) :: u16) = clamp_size (ve_size e)" by (simp add: of_nat_unat ucast_id)
    then show ?thesis unfolding header_size using sendable_size(2,5) [OF e(1)] by simp
  qed
  have same: "received_entry vr (var_header_73 (header_bytes e) (name_array (ve_name vr))) (entry_data e) = e"
    using entry_comes_back [OF e(1-3) _ e(4,5)] * e' by simp
  from converses_wire [OF converses_recv_var [OF w h(3) ty length_header_bytes size len] h(1,2) inp]
  obtain h' where "run_state (recv_var_73 env vr) h = ((0, content_model_73 m e, e), h')" unfolding same by blast
  then show "\<exists>content'. recv_var senv d content vr = (0, content') \<and> fc_entries content' = fc_entries c \<and> num_entries content' = num_entries c"
    by (simp add: env' link_recv_var_def c)
qed


text \<open>The entry the wallet stores under a name \<open>Str0\<close> to \<open>Str9\<close>.\<close>

lemma stored_entry_facts:
  assumes m: "m \<in> {CALC_TI83P, CALC_TI84P}" and k: "k < 10" and n: "length q \<le> 255"
  defines "e \<equiv> stored_entry m (''Str'' @ [digit_char k]) q"
  shows "sendable m e" "NUL \<notin> set (ve_name e)" "length (ve_name e) \<le> 8" "ve_attr e = ATTRB_NONE" "ve_action e = 0"
    "entry_data e = of_nat (length q) # q" "ve_data e = Some (entry_data e @ [0])" "ve_type e = 48"
    "tifiles_string2vartype m (Some ''String'') = 48"
    "ticonv_varname_tokenize m (Some (''Str'' @ [digit_char k])) 48 \<noteq> None"
proof -
  have "tifiles_calctype2signature m = Some ''**TI83F*''" using m by (auto simp: tifiles_calctype2signature_def)
  then show ty: "tifiles_string2vartype m (Some ''String'') = 48" by (rule family_String_type)
  have "spelt_type m 48" "m \<in> token_models"
    using m by (auto simp: spelt_type_def detokenize_vartype_def TI83_family_def token_models_def)
  then have tok: "ticonv_varname_tokenize m (Some (''Str'' @ [digit_char k])) 48 = Some [char_of_byte 0xAA, char_of_byte (digit_token m k)]"
    using tokenize_numbered(1) k by blast
  then show "ticonv_varname_tokenize m (Some (''Str'' @ [digit_char k])) 48 \<noteq> None" by simp
  let ?s = "c_string [char_of_byte 0xAA, char_of_byte (digit_token m k)]"
  have e: "e = \<lparr>ve_name = take 1023 ?s, ve_type = 48, ve_attr = 0, ve_version = 0, ve_size = of_nat (length q + 1),
      ve_data = Some (of_nat (length q) # q @ [0]), ve_action = 0\<rparr>"
    by (simp add: e_def stored_entry_def ty tok [simplified])
  have "length ?s \<le> 2" unfolding c_string_def by (rule order_trans [OF length_takeWhile_le]) simp
  then show "NUL \<notin> set (ve_name e)" "length (ve_name e) \<le> 8"
    using c_string_no_NUL by (auto simp: e dest: in_set_takeD)
  show "ve_attr e = ATTRB_NONE" "ve_action e = 0" "ve_type e = 48" by (simp_all add: e)
  have u: "unat (of_nat (length q + 1) :: u32) = length q + 1" using n by (simp add: unat_of_nat take_bit_nat_eq_self del: of_nat_add of_nat_Suc)
  then show d: "entry_data e = of_nat (length q) # q" by (simp add: e entry_data_def del: of_nat_add of_nat_Suc)
  show "ve_data e = Some (entry_data e @ [0])" unfolding d by (simp add: e)
  have "0 < ve_size e" "ve_size e < 65536"
    using u n by (simp_all add: e word_less_nat_alt del: of_nat_add of_nat_Suc)
  then show "sendable m e" using u by (simp add: sendable_def e TI7383p_BKUP_def del: of_nat_add of_nat_Suc)
qed

text \<open>The answers of a calculator that takes the one variable it is offered.\<close>

definition acceptance :: bytes where
  "acceptance = reply DBUS_CMD_ACK None @ offer_answer 0 @ reply DBUS_CMD_ACK None"

text \<open>With memory for the blocks the store succeeds exactly as the transfer does.\<close>

lemma store_binary_transfers:
  assumes "calc s = Some d" "string_name name" "n \<le> 255" "glib_allocates senv" "data_ok senv"
    and ty: "tifiles_string2vartype (calc_model s) (Some ''String'') \<noteq> 0"
  shows "\<exists>st ev c. calc_store_binary_string senv (Some s) (Some name) (Some p) n = (st, ev) \<and> sent_contents ev = [c]
    \<and> holds_entry c (calc_model s) name (take n p) \<and> (st = APP_OK \<longleftrightarrow> send_var senv d c = 0)"
proof -
  obtain st ev where run: "calc_store_binary_string senv (Some s) (Some name) (Some p) n = (st, ev)" by (metis prod.exhaust)
  obtain tok where tok: "ticonv_varname_tokenize (calc_model s) (Some name) (tifiles_string2vartype (calc_model s) (Some ''String'')) = Some tok"
    using tokenize_not_None by blast
  have "sent_contents ev \<noteq> []"
    using run assms
    by (auto simp: calc_store_binary_string_def build_binary_entry_def tok glib_allocates_def build_content_defs
        send_built_def send_content_def Let_def split: if_splits)
  then show ?thesis using store_binary_sends [OF run] run assms(1) by auto
qed



lemma string_store_ready: "glib_allocates demo_store" "data_ok demo_store" "content_ok demo_store"
  by (simp_all add: glib_allocates_def demo_store_def)



text \<open>
  C32: A transfer of variables follows the calculator's answers.  The model is not the TI-73, and every
  variable has 1 to 65535 bytes, all of them there, is not marked to be skipped and is no backup.  Then
  \<open>send_var\<close> offers one variable after the other; it sends the data and the end of the transmission exactly
  for those the calculator permits, goes on to the next when it is told to skip (code 2), and on any other
  rejection stops without sending a byte more, with the error that belongs to the code: 1 aborted, 3 out of
  memory, 4 wrong version, any other rejected.  It takes exactly the answers the calculator owes it, and on
  the way no array is read or written past its end.
\<close>

theorem transfer_on_the_wire:
  assumes "working env w" "open_link h" "link_model h \<noteq> CALC_TI73"
    and "num_entries c = length ts" "fc_entries c = Some (map (Some \<circ> fst) ts)"
    and "\<forall>(e, code)\<in>set ts. sendable (link_model h) e"
    and "transfer ts = (r, out, inp)" "carries w (asked (history h)) inp"
  shows "\<exists>h'. run_state (send_var_73 env c) h = (r, h') \<and> wire_bytes (history h') = wire_bytes (history h) @ out
    \<and> asked (history h') = asked (history h) + length inp \<and> filter faulty (history h') = filter faulty (history h)"
  using converses_transfer [OF assms(1,3,6,7,4,5)] assms(2,8) by (auto simp: converses_in_def does_def advances_def)

text \<open>Three variables: the first is skipped, the second taken; there is no memory for the third.\<close>

definition example_entry :: "string \<Rightarrow> bytes \<Rightarrow> VarEntry" where
  "example_entry name d = \<lparr>ve_name = name, ve_type = 4, ve_attr = 0, ve_version = 0, ve_size = of_nat (length d), ve_data = Some d, ve_action = 0\<rparr>"

definition example_transfer :: "(VarEntry \<times> byte) list" where
  "example_transfer = [(example_entry ''A'' [1], DBUS_REJ_SKIP), (example_entry ''B'' [2, 3], 0), (example_entry ''C'' [4], DBUS_REJ_MEMORY)]"

definition example_content :: FileContent where
  "example_content = \<lparr>fc_model = CALC_TI83P, fc_comment = [], num_entries = 3,
     fc_entries = Some (map (Some \<circ> fst) example_transfer), model_dst = CALC_TI83P\<rparr>"

lemma transfer_on_the_wire_witness:
  "\<exists>h'. run_state (send_var_73 (stream_env (snd (snd (transfer example_transfer)))) example_content) example_link = (ERR_OUT_OF_MEMORY, h')
    \<and> wire_bytes (history h') = offer_packets (example_entry ''A'' [1])
        @ offer_packets (example_entry ''B'' [2, 3]) @ request DBUS_CMD_XDP (Some [2, 3]) @ request DBUS_CMD_EOT None
        @ offer_packets (example_entry ''C'' [4])"
proof -
  obtain inp where t: "transfer example_transfer = (ERR_OUT_OF_MEMORY, offer_packets (example_entry ''A'' [1])
        @ offer_packets (example_entry ''B'' [2, 3]) @ request DBUS_CMD_XDP (Some [2, 3]) @ request DBUS_CMD_EOT None
        @ offer_packets (example_entry ''C'' [4]), inp)"
    by (simp add: example_transfer_def stop_error_def entry_data_def example_entry_def)
  have "\<forall>(e, code)\<in>set example_transfer. sendable (link_model example_link) e"
    by (simp add: example_transfer_def sendable_def example_entry_def TI7383p_BKUP_def)
  moreover have "link_model example_link \<noteq> CALC_TI73" "num_entries example_content = length example_transfer"
    "fc_entries example_content = Some (map (Some \<circ> fst) example_transfer)"
    by (simp_all add: example_content_def example_transfer_def)
  moreover have "carries (\<lambda>i. if i < length inp then inp ! i else 0) (asked (history example_link)) inp"
    using stream_carries by simp
  ultimately show ?thesis
    using transfer_on_the_wire [OF stream_works [of inp] example_open(1) _ _ _ _ t, of example_content] unfolding t by simp blast
qed

end
