(* ===== verification/Dusb_Packet.thy ===== *)
theory Dusb_Packet
  imports Cmd_Z80
begin

text \<open>
  The packets of the USB port (\<open>libticalcs\<close>): raw packets (\<open>dusb_rpkt.cc\<close>) and the virtual packets
  that are cut into them and acknowledged piece by piece (\<open>dusb_vpkt.cc\<close>).  State, cable, event hook and
  conventions are those of Dbus_Packet.  A raw packet is the C structure with its array of 1023 bytes;
  what is copied past that array is recorded as \<open>Overrun\<close> and dropped.  GLib's allocators do not return
  after a failure; the log, the rates and the printing of packets are left out.
\<close>

section \<open>Raw packets\<close>

abbreviation (input) DUSB_RPKT_BUF_SIZE_REQ :: byte where "DUSB_RPKT_BUF_SIZE_REQ \<equiv> 1"
abbreviation (input) DUSB_RPKT_BUF_SIZE_ALLOC :: byte where "DUSB_RPKT_BUF_SIZE_ALLOC \<equiv> 2"
abbreviation (input) DUSB_RPKT_VIRT_DATA :: byte where "DUSB_RPKT_VIRT_DATA \<equiv> 3"
abbreviation (input) DUSB_RPKT_VIRT_DATA_LAST :: byte where "DUSB_RPKT_VIRT_DATA_LAST \<equiv> 4"
abbreviation (input) DUSB_RPKT_VIRT_DATA_ACK :: byte where "DUSB_RPKT_VIRT_DATA_ACK \<equiv> 5"

text \<open>Rows of the raw packets: identifier, whether data have a header, least size of the data, name.\<close>

definition dusbrawpackets :: "(byte \<times> nat \<times> nat \<times> string) list" where
  "dusbrawpackets =
     [(DUSB_RPKT_BUF_SIZE_REQ, 0, 4, ''Buffer Size Request''),
      (DUSB_RPKT_BUF_SIZE_ALLOC, 0, 4, ''Buffer Size Allocation''),
      (DUSB_RPKT_VIRT_DATA, 1, 6, ''Virtual Packet Data with Continuation''),
      (DUSB_RPKT_VIRT_DATA_LAST, 1, 6, ''Virtual Packet Data Final''),
      (DUSB_RPKT_VIRT_DATA_ACK, 0, 2, ''Virtual Packet Data Acknowledgement'')]"

definition dusb_rpkt_type2name :: "byte \<Rightarrow> string" where
  "dusb_rpkt_type2name = dbus_lookup dusbrawpackets (\<lambda>(data_hdr, data, name). name)"

definition DUSB_DATA_SIZE :: nat where "DUSB_DATA_SIZE = 1023"

record raw_packet =
  raw_size :: u32
  raw_type :: byte
  raw_data :: bytes

definition zero_raw :: raw_packet where
  "zero_raw = \<lparr>raw_size = 0, raw_type = 0, raw_data = replicate DUSB_DATA_SIZE 0\<rparr>"

text \<open>Four bytes of a word, the most significant first, and back.\<close>

definition size_bytes :: "u32 \<Rightarrow> bytes" where
  "size_bytes w = [MSB (MSW w), LSB (MSW w), MSB (LSW w), LSB (LSW w)]"

definition be_word :: "bytes \<Rightarrow> u32" where
  "be_word bs = push_bit 24 (ucast (bs ! 0)) OR push_bit 16 (ucast (bs ! 1)) OR push_bit 8 (ucast (bs ! 2)) OR ucast (bs ! 3)"

text \<open>The size is cut to that of the array.\<close>

definition dusb_send_raw :: "link_env \<Rightarrow> raw_packet \<Rightarrow> (link, int) state" where
  "dusb_send_raw env pkt = do {
     let sz = min (unat (raw_size pkt)) DUSB_DATA_SIZE;
     ret \<leftarrow> cable_send env (size_bytes (of_nat sz) @ [raw_type pkt] @ take sz (raw_data pkt));
     if ret \<noteq> 0 then State_Monad.return ret
     else do {
       cancel \<leftarrow> is_cancelled env;
       State_Monad.return (if cancel then ERR_ABORT else 0) } }"

definition dusb_send :: "link_env \<Rightarrow> raw_packet \<Rightarrow> (link, int) state" where
  "dusb_send env pkt = do {
     h \<leftarrow> State_Monad.get;
     if no_handle h then State_Monad.return ERR_INVALID_HANDLE
     else do {
       was_busy \<leftarrow> set_busy_if_necessary;
       ret \<leftarrow> fire_event env BEFORE_SEND_DUSB_RPKT 0 (Dusb_rpkt (raw_size pkt) (raw_type pkt) (raw_data pkt));
       ret \<leftarrow> (if ret \<noteq> 0 then State_Monad.return ret else dusb_send_raw env pkt);
       ret \<leftarrow> fire_event env AFTER_SEND_DUSB_RPKT ret (Dusb_rpkt (raw_size pkt) (raw_type pkt) (raw_data pkt));
       clear_busy_if_necessary was_busy;
       State_Monad.return ret } }"

text \<open>The header of five bytes, then the data, whose size must fit the array.\<close>

definition dusb_recv_raw :: "link_env \<Rightarrow> raw_packet \<Rightarrow> (link, int \<times> raw_packet) state" where
  "dusb_recv_raw env pkt = do {
     (ret, buf) \<leftarrow> cable_recv env 5;
     if ret \<noteq> 0 then State_Monad.return (ret, pkt)
     else do {
       let pkt = pkt\<lparr>raw_size := be_word buf, raw_type := buf ! 4\<rparr>;
       if unat (raw_size pkt) > DUSB_DATA_SIZE then State_Monad.return (ERR_INVALID_PACKET, pkt)
       else do {
         (ret, d) \<leftarrow> cable_recv env (unat (raw_size pkt));
         let pkt = pkt\<lparr>raw_data := write_at (raw_data pkt) 0 d\<rparr>;
         if ret \<noteq> 0 then State_Monad.return (ret, pkt)
         else do {
           cancel \<leftarrow> is_cancelled env;
           State_Monad.return (if cancel then ERR_ABORT else 0, pkt) } } } }"

definition dusb_recv :: "link_env \<Rightarrow> raw_packet \<Rightarrow> (link, int \<times> raw_packet) state" where
  "dusb_recv env pkt = do {
     h \<leftarrow> State_Monad.get;
     if no_handle h then State_Monad.return (ERR_INVALID_HANDLE, pkt)
     else do {
       was_busy \<leftarrow> set_busy_if_necessary;
       ret \<leftarrow> fire_event env BEFORE_RECV_DUSB_RPKT 0 (Dusb_rpkt 0 0 (raw_data pkt));
       (ret, pkt) \<leftarrow> (if ret \<noteq> 0 then State_Monad.return (ret, pkt) else dusb_recv_raw env pkt);
       ret \<leftarrow> fire_event env AFTER_RECV_DUSB_RPKT ret (Dusb_rpkt (raw_size pkt) (raw_type pkt) (raw_data pkt));
       clear_busy_if_necessary was_busy;
       State_Monad.return (ret, pkt) } }"

section \<open>The size of the buffers\<close>

text \<open>A packet of four bytes that hold a size, at most one more than the array has.\<close>

definition size_packet :: "byte \<Rightarrow> u32 \<Rightarrow> raw_packet" where
  "size_packet ty sz = zero_raw\<lparr>raw_size := 4, raw_type := ty, raw_data := write_at (raw_data zero_raw) 0
     [ucast (drop_bit 24 sz AND 0xFF), ucast (drop_bit 16 sz AND 0xFF), ucast (drop_bit 8 sz AND 0xFF), ucast (sz AND 0xFF)]\<rparr>"

definition clamp_buf_size :: "u32 \<Rightarrow> u32" where
  "clamp_buf_size sz = (if sz > of_nat (DUSB_DATA_SIZE + 1) then of_nat (DUSB_DATA_SIZE + 1) else sz)"

definition dusb_send_buf_size_request :: "link_env \<Rightarrow> u32 \<Rightarrow> (link, int) state" where
  "dusb_send_buf_size_request env sz = do {
     h \<leftarrow> State_Monad.get;
     if no_handle h then State_Monad.return ERR_INVALID_HANDLE
     else dusb_send env (size_packet DUSB_RPKT_BUF_SIZE_REQ (clamp_buf_size sz)) }"

text \<open>The size the calculator grants, which is remembered; the models with the ez80 get less.\<close>

definition granted_size :: "CalcModel \<Rightarrow> u32 \<Rightarrow> u32" where
  "granted_size m tmp =
     (let tmp = (if tmp > of_nat DUSB_DATA_SIZE then of_nat DUSB_DATA_SIZE else tmp)
      in if (m = CALC_TI83PCE_USB \<or> m = CALC_TI84PCE_USB) \<and> tmp > 1018 then 1018 else tmp)"

definition dusb_recv_buf_size_alloc :: "link_env \<Rightarrow> u32 \<Rightarrow> (link, int \<times> u32) state" where
  "dusb_recv_buf_size_alloc env old = do {
     h \<leftarrow> State_Monad.get;
     if no_handle h then State_Monad.return (ERR_INVALID_HANDLE, old)
     else do {
       (ret, raw) \<leftarrow> dusb_recv env zero_raw;
       if ret \<noteq> 0 then State_Monad.return (ret, old)
       else if raw_size raw \<noteq> 4 \<or> raw_type raw \<noteq> DUSB_RPKT_BUF_SIZE_ALLOC then State_Monad.return (ERR_INVALID_PACKET, old)
       else do {
         let sz = granted_size (link_model h) (be_word (raw_data raw));
         State_Monad.update (\<lambda>h. h\<lparr>rpkt_maxlen := sz\<rparr>);
         State_Monad.return (0, sz) } } }"

text \<open>A packet of another kind is an error, but its first bytes are taken for the size all the same.\<close>

definition dusb_recv_buf_size_request :: "link_env \<Rightarrow> u32 \<Rightarrow> (link, int \<times> u32) state" where
  "dusb_recv_buf_size_request env old = do {
     h \<leftarrow> State_Monad.get;
     if no_handle h then State_Monad.return (ERR_INVALID_HANDLE, old)
     else do {
       (ret, raw) \<leftarrow> dusb_recv env zero_raw;
       if ret \<noteq> 0 then State_Monad.return (ret, old)
       else State_Monad.return
         (if raw_size raw \<noteq> 4 \<or> raw_type raw \<noteq> DUSB_RPKT_BUF_SIZE_REQ then ERR_INVALID_PACKET else 0, be_word (raw_data raw)) } }"

definition dusb_send_buf_size_alloc :: "link_env \<Rightarrow> u32 \<Rightarrow> (link, int) state" where
  "dusb_send_buf_size_alloc env sz = do {
     h \<leftarrow> State_Monad.get;
     if no_handle h then State_Monad.return ERR_INVALID_HANDLE
     else do {
       ret \<leftarrow> dusb_send env (size_packet DUSB_RPKT_BUF_SIZE_ALLOC (clamp_buf_size sz));
       State_Monad.update (\<lambda>h. h\<lparr>rpkt_maxlen := clamp_buf_size sz\<rparr>);
       State_Monad.return ret } }"

definition dusb_get_buf_size :: "(link, int \<times> u32 option) state" where
  "dusb_get_buf_size = do {
     h \<leftarrow> State_Monad.get;
     State_Monad.return (if no_handle h then (ERR_INVALID_HANDLE, None) else (0, Some (rpkt_maxlen h))) }"

definition dusb_set_buf_size :: "u32 \<Rightarrow> (link, int) state" where
  "dusb_set_buf_size sz = do {
     h \<leftarrow> State_Monad.get;
     if no_handle h then State_Monad.return ERR_INVALID_HANDLE
     else do {
       State_Monad.update (\<lambda>h. h\<lparr>rpkt_maxlen := clamp_buf_size sz\<rparr>);
       State_Monad.return 0 } }"

section \<open>Acknowledgements\<close>

definition ack_packet :: raw_packet where
  "ack_packet = zero_raw\<lparr>raw_size := 2, raw_type := DUSB_RPKT_VIRT_DATA_ACK, raw_data := write_at (raw_data zero_raw) 0 [0xE0, 0x00]\<rparr>"

definition dusb_send_acknowledge :: "link_env \<Rightarrow> (link, int) state" where
  "dusb_send_acknowledge env = do {
     h \<leftarrow> State_Monad.get;
     if no_handle h then State_Monad.return ERR_INVALID_HANDLE else dusb_send env ack_packet }"

definition check_ack :: "raw_packet \<Rightarrow> int" where
  "check_ack raw =
     (if raw_type raw \<noteq> DUSB_RPKT_VIRT_DATA_ACK then ERR_INVALID_PACKET
      else if raw_data raw ! 0 \<noteq> 0xE0 \<and> raw_data raw ! 1 \<noteq> 0x00 then ERR_INVALID_PACKET
      else 0)"

text \<open>Instead of the acknowledgement the calculator may ask for another size first.\<close>

definition dusb_recv_ack_body :: "link_env \<Rightarrow> (link, int) state" where
  "dusb_recv_ack_body env = do {
     (ret, raw) \<leftarrow> dusb_recv env zero_raw;
     if ret \<noteq> 0 then State_Monad.return ret
     else if raw_size raw \<noteq> 2 \<and> raw_size raw \<noteq> 4 then State_Monad.return ERR_INVALID_PACKET
     else if raw_type raw = DUSB_RPKT_BUF_SIZE_REQ
     then (if raw_size raw \<noteq> 4 then State_Monad.return ERR_INVALID_PACKET
       else do {
         ret \<leftarrow> dusb_send_buf_size_alloc env (be_word (raw_data raw));
         if ret \<noteq> 0 then State_Monad.return ret
         else do {
           (ret, raw) \<leftarrow> dusb_recv env raw;
           State_Monad.return (if ret \<noteq> 0 then ret else check_ack raw) } })
     else State_Monad.return (check_ack raw) }"

definition dusb_recv_acknowledge :: "link_env \<Rightarrow> (link, int) state" where
  "dusb_recv_acknowledge env = do {
     h \<leftarrow> State_Monad.get;
     if no_handle h then State_Monad.return ERR_INVALID_HANDLE
     else do {
       was_busy \<leftarrow> set_busy_if_necessary;
       ret \<leftarrow> dusb_recv_ack_body env;
       clear_busy_if_necessary was_busy;
       State_Monad.return ret } }"

section \<open>Virtual packets\<close>

abbreviation (input) DUSB_VPKT_PING :: u16 where "DUSB_VPKT_PING \<equiv> 0x0001"
abbreviation (input) DUSB_VPKT_OS_BEGIN :: u16 where "DUSB_VPKT_OS_BEGIN \<equiv> 0x0002"
abbreviation (input) DUSB_VPKT_OS_ACK :: u16 where "DUSB_VPKT_OS_ACK \<equiv> 0x0003"
abbreviation (input) DUSB_VPKT_OS_HEADER :: u16 where "DUSB_VPKT_OS_HEADER \<equiv> 0x0004"
abbreviation (input) DUSB_VPKT_OS_DATA :: u16 where "DUSB_VPKT_OS_DATA \<equiv> 0x0005"
abbreviation (input) DUSB_VPKT_EOT_ACK :: u16 where "DUSB_VPKT_EOT_ACK \<equiv> 0x0006"
abbreviation (input) DUSB_VPKT_PARM_REQ :: u16 where "DUSB_VPKT_PARM_REQ \<equiv> 0x0007"
abbreviation (input) DUSB_VPKT_PARM_DATA :: u16 where "DUSB_VPKT_PARM_DATA \<equiv> 0x0008"
abbreviation (input) DUSB_VPKT_DIR_REQ :: u16 where "DUSB_VPKT_DIR_REQ \<equiv> 0x0009"
abbreviation (input) DUSB_VPKT_VAR_HDR :: u16 where "DUSB_VPKT_VAR_HDR \<equiv> 0x000A"
abbreviation (input) DUSB_VPKT_RTS :: u16 where "DUSB_VPKT_RTS \<equiv> 0x000B"
abbreviation (input) DUSB_VPKT_VAR_REQ :: u16 where "DUSB_VPKT_VAR_REQ \<equiv> 0x000C"
abbreviation (input) DUSB_VPKT_VAR_CNTS :: u16 where "DUSB_VPKT_VAR_CNTS \<equiv> 0x000D"
abbreviation (input) DUSB_VPKT_PARM_SET :: u16 where "DUSB_VPKT_PARM_SET \<equiv> 0x000E"
abbreviation (input) DUSB_VPKT_MODIF_VAR :: u16 where "DUSB_VPKT_MODIF_VAR \<equiv> 0x0010"
abbreviation (input) DUSB_VPKT_EXECUTE :: u16 where "DUSB_VPKT_EXECUTE \<equiv> 0x0011"
abbreviation (input) DUSB_VPKT_MODE_SET :: u16 where "DUSB_VPKT_MODE_SET \<equiv> 0x0012"
abbreviation (input) DUSB_VPKT_DATA_ACK :: u16 where "DUSB_VPKT_DATA_ACK \<equiv> 0xAA00"
abbreviation (input) DUSB_VPKT_DELAY_ACK :: u16 where "DUSB_VPKT_DELAY_ACK \<equiv> 0xBB00"
abbreviation (input) DUSB_VPKT_EOT :: u16 where "DUSB_VPKT_EOT \<equiv> 0xDD00"
abbreviation (input) DUSB_VPKT_ERROR :: u16 where "DUSB_VPKT_ERROR \<equiv> 0xEE00"

definition vpkt_types :: "(u16 \<times> string) list" where
  "vpkt_types =
     [(0x0000, ''''), (DUSB_VPKT_PING, ''Ping / Set Mode''), (DUSB_VPKT_OS_BEGIN, ''Begin OS Transfer''),
      (DUSB_VPKT_OS_ACK, ''Acknowledgement of OS Transfer''), (DUSB_VPKT_OS_HEADER, ''OS Header''), (DUSB_VPKT_OS_DATA, ''OS Data''),
      (DUSB_VPKT_EOT_ACK, ''Acknowledgement of EOT''), (DUSB_VPKT_PARM_REQ, ''Parameter Request''),
      (DUSB_VPKT_PARM_DATA, ''Parameter Data''), (DUSB_VPKT_DIR_REQ, ''Request Directory Listing''),
      (DUSB_VPKT_VAR_HDR, ''Variable Header''), (DUSB_VPKT_RTS, ''Request to Send''), (DUSB_VPKT_VAR_REQ, ''Request Variable''),
      (DUSB_VPKT_VAR_CNTS, ''Variable Contents''), (DUSB_VPKT_PARM_SET, ''Parameter Set''), (0x000F, ''''),
      (DUSB_VPKT_MODIF_VAR, ''Modify Variable''), (DUSB_VPKT_EXECUTE, ''Remote Control''),
      (DUSB_VPKT_MODE_SET, ''Acknowledgement of Mode Setting''), (DUSB_VPKT_DATA_ACK, ''Acknowledgement of Data''),
      (DUSB_VPKT_DELAY_ACK, ''Delay Acknowledgment''), (DUSB_VPKT_EOT, ''End of Transmission''), (DUSB_VPKT_ERROR, ''Error'')]"

definition dusb_vpkt_type2name :: "u16 \<Rightarrow> string" where
  "dusb_vpkt_type2name i = (case map_of vpkt_types i of Some name \<Rightarrow> name | None \<Rightarrow> ''unknown: not listed'')"

record virtual_packet =
  vp_size :: u32
  vp_type :: u16
  vp_data :: "bytes option"

definition packet_data :: "virtual_packet \<Rightarrow> bytes" where
  "packet_data v = (case vp_data v of None \<Rightarrow> [] | Some d \<Rightarrow> d)"

definition DUSB_DH_SIZE :: nat where "DUSB_DH_SIZE = 6"

text \<open>Making packets; without a handle there is none.\<close>

definition dusb_vtl_pkt_new_ex :: "link \<Rightarrow> u32 \<Rightarrow> u16 \<Rightarrow> bytes option \<Rightarrow> virtual_packet option" where
  "dusb_vtl_pkt_new_ex h sz ty d = (if no_handle h then None else Some \<lparr>vp_size = sz, vp_type = ty, vp_data = d\<rparr>)"

definition dusb_vtl_pkt_new :: "link \<Rightarrow> virtual_packet option" where
  "dusb_vtl_pkt_new h = dusb_vtl_pkt_new_ex h 0 0 None"

definition dusb_vtl_pkt_fill :: "virtual_packet option \<Rightarrow> u32 \<Rightarrow> u16 \<Rightarrow> bytes option \<Rightarrow> virtual_packet option" where
  "dusb_vtl_pkt_fill vtl sz ty d = map_option (\<lambda>v. v\<lparr>vp_size := sz, vp_type := ty, vp_data := d\<rparr>) vtl"

definition dusb_vtl_pkt_alloc_data :: "nat \<Rightarrow> bytes" where
  "dusb_vtl_pkt_alloc_data sz = replicate (sz + DUSB_DH_SIZE) 0"

section \<open>Sending virtual packets\<close>

text \<open>Bytes are copied into the array of a raw packet from the place \<open>off\<close> on.\<close>

definition copy_to_raw :: "raw_packet \<Rightarrow> nat \<Rightarrow> bytes \<Rightarrow> (link, raw_packet) state" where
  "copy_to_raw raw off d = do {
     (if off + length d > DUSB_DATA_SIZE then record_event (Overrun (off + length d - DUSB_DATA_SIZE)) else State_Monad.return ());
     State_Monad.return (raw\<lparr>raw_data := take DUSB_DATA_SIZE (write_at (raw_data raw) off d)\<rparr>) }"

text \<open>\<open>n\<close> bytes of the packet's data from the place \<open>off\<close> on; a packet without data has none to copy.\<close>

definition data_part :: "link_env \<Rightarrow> virtual_packet \<Rightarrow> nat \<Rightarrow> nat \<Rightarrow> (link, bytes) state" where
  "data_part env vtl off n =
     (case vp_data vtl of None \<Rightarrow> State_Monad.return []
      | Some d \<Rightarrow>
          if n = 0 \<or> off + n \<le> length d then State_Monad.return (take n (drop off d))
          else do {
            record_event (Overread (off + n - max off (length d)));
            State_Monad.return (map (\<lambda>i. if i < length d then d ! i else past_end env i) [off..<off + n]) })"

definition data_header :: "virtual_packet \<Rightarrow> bytes" where
  "data_header vtl = size_bytes (vp_size vtl) @ [MSB (vp_type vtl), LSB (vp_type vtl)]"

text \<open>Some models want an empty transfer after the last raw packet; its result is not looked at.\<close>

definition CALC_TI84P_family :: "CalcModel \<Rightarrow> bool" where
  "CALC_TI84P_family m \<longleftrightarrow> m = CALC_TI84P_USB \<or> m = CALC_TI84PC_USB \<or> m = CALC_TI82A_USB \<or> m = CALC_TI84PT_USB"

definition workaround_send :: "link_env \<Rightarrow> raw_packet \<Rightarrow> virtual_packet \<Rightarrow> (link, unit) state" where
  "workaround_send env raw vtl = do {
     h \<leftarrow> State_Monad.get;
     let m = link_model h;
     let extra = (if m = CALC_TI89T_USB then vp_size vtl > 1076 \<and> (raw_size raw + 5) mod 64 = 0
       else if CALC_TI84P_family m then raw_type raw = DUSB_RPKT_VIRT_DATA_LAST \<and> vp_size vtl > 244 \<and> vp_size vtl mod 250 = 244
       else if m = CALC_TI83PCE_USB \<or> m = CALC_TI84PCE_USB
       then raw_type raw = DUSB_RPKT_VIRT_DATA_LAST \<and> (raw_size raw + 5) mod 64 = 0
       else False);
     if extra then do { ret \<leftarrow> cable_send env []; State_Monad.return () } else State_Monad.return () }"

text \<open>A raw packet and its acknowledgement.\<close>

definition send_acknowledged :: "link_env \<Rightarrow> raw_packet \<Rightarrow> (link, unit) state \<Rightarrow> (link, int) state" where
  "send_acknowledged env raw between = do {
     ret \<leftarrow> dusb_send env raw;
     if ret \<noteq> 0 then State_Monad.return ret
     else do { between; dusb_recv_acknowledge env } }"

definition send_single :: "link_env \<Rightarrow> virtual_packet \<Rightarrow> (link, int) state" where
  "send_single env vtl = do {
     d \<leftarrow> data_part env vtl 0 (unat (vp_size vtl));
     raw \<leftarrow> copy_to_raw (zero_raw\<lparr>raw_size := vp_size vtl + of_nat DUSB_DH_SIZE, raw_type := DUSB_RPKT_VIRT_DATA_LAST\<rparr>) 0 (data_header vtl @ d);
     send_acknowledged env raw (workaround_send env raw vtl) }"

text \<open>
  The full pieces without a header: \<open>n\<close> of them, from the place \<open>off\<close> on.  The size of a piece is looked
  up again for each, since an acknowledgement may have changed it.
\<close>

primrec send_pieces :: "link_env \<Rightarrow> virtual_packet \<Rightarrow> nat \<Rightarrow> nat \<Rightarrow> raw_packet \<Rightarrow> (link, int \<times> nat \<times> raw_packet) state" where
  "send_pieces env vtl 0 off raw = State_Monad.return (0, off, raw)"
| "send_pieces env vtl (Suc n) off raw = do {
     h \<leftarrow> State_Monad.get;
     let len = unat (rpkt_maxlen h);
     d \<leftarrow> data_part env vtl off len;
     raw \<leftarrow> copy_to_raw (raw\<lparr>raw_size := rpkt_maxlen h, raw_type := DUSB_RPKT_VIRT_DATA\<rparr>) 0 d;
     ret \<leftarrow> send_acknowledged env raw (State_Monad.return ());
     if ret \<noteq> 0 then State_Monad.return (ret, off + len, raw)
     else do {
       State_Monad.update (\<lambda>h. h\<lparr>max1 := unat (vp_size vtl), cnt1 := cnt1 h + unat (rpkt_maxlen h)\<rparr>);
       pbar;
       send_pieces env vtl n (off + len) raw } }"

definition send_last :: "link_env \<Rightarrow> virtual_packet \<Rightarrow> nat \<Rightarrow> nat \<Rightarrow> raw_packet \<Rightarrow> (link, int) state" where
  "send_last env vtl off r raw = do {
     h \<leftarrow> State_Monad.get;
     d \<leftarrow> data_part env vtl off r;
     raw \<leftarrow> copy_to_raw (raw\<lparr>raw_size := of_nat r, raw_type := DUSB_RPKT_VIRT_DATA_LAST\<rparr>) 0 d;
     send_acknowledged env raw (if CALC_TI84P_family (link_model h) then State_Monad.return () else workaround_send env raw vtl) }"

text \<open>The first piece has the header; the number of pieces left is reckoned after its acknowledgement.\<close>

definition send_fragments :: "link_env \<Rightarrow> virtual_packet \<Rightarrow> (link, int) state" where
  "send_fragments env vtl = do {
     h \<leftarrow> State_Monad.get;
     let off = unat (rpkt_maxlen h - of_nat DUSB_DH_SIZE);
     d \<leftarrow> data_part env vtl 0 off;
     raw \<leftarrow> copy_to_raw (zero_raw\<lparr>raw_size := rpkt_maxlen h, raw_type := DUSB_RPKT_VIRT_DATA\<rparr>) 0 (data_header vtl @ d);
     ret \<leftarrow> send_acknowledged env raw (State_Monad.return ());
     if ret \<noteq> 0 then State_Monad.return ret
     else do {
       h \<leftarrow> State_Monad.get;
       let len = unat (rpkt_maxlen h);
       (if len = 0 then record_event Zero_division else State_Monad.return ());
       let left = unat (vp_size vtl) - off;
       (ret, off, raw) \<leftarrow> send_pieces env vtl (left div len) off raw;
       if ret \<noteq> 0 then State_Monad.return ret else send_last env vtl off (left mod len) raw } }"

definition dusb_send_data :: "link_env \<Rightarrow> virtual_packet \<Rightarrow> (link, int) state" where
  "dusb_send_data env vtl = do {
     h \<leftarrow> State_Monad.get;
     if no_handle h then State_Monad.return ERR_INVALID_HANDLE
     else if vp_size vtl \<noteq> 0 \<and> vp_data vtl = None then State_Monad.return ERR_INVALID_PARAMETER
     else do {
       was_busy \<leftarrow> set_busy_if_necessary;
       ret \<leftarrow> fire_event env BEFORE_SEND_DUSB_VPKT 0 (Dusb_vpkt (vp_size vtl) (vp_type vtl) (vp_data vtl));
       ret \<leftarrow> (if ret \<noteq> 0 then State_Monad.return ret
         else if vp_size vtl \<le> rpkt_maxlen h - of_nat DUSB_DH_SIZE then send_single env vtl
         else send_fragments env vtl);
       ret \<leftarrow> fire_event env AFTER_SEND_DUSB_VPKT ret (Dusb_vpkt (vp_size vtl) (vp_type vtl) (vp_data vtl));
       clear_busy_if_necessary was_busy;
       State_Monad.return ret } }"

section \<open>Receiving virtual packets\<close>

definition workaround_recv :: "link_env \<Rightarrow> raw_packet \<Rightarrow> (link, unit) state" where
  "workaround_recv env raw = do {
     h \<leftarrow> State_Monad.get;
     let m = link_model h;
     let extra = (if m = CALC_TI89T_USB then raw_size raw mod 64 = 0
       else if CALC_TI84P_family m then (raw_size raw + 5) mod 64 = 0
       else False);
     if extra then do { x \<leftarrow> cable_recv env 0; State_Monad.return () } else State_Monad.return () }"

text \<open>What has come so far: the packet, the size of its block, and the size its header declared.\<close>

record reassembly =
  got_packet :: virtual_packet
  alloc_size :: nat
  declared_size :: u32

definition first_piece :: "raw_packet \<Rightarrow> reassembly \<Rightarrow> int \<times> reassembly" where
  "first_piece raw r =
     (if unat (raw_size raw) < DUSB_DH_SIZE then (ERR_INVALID_PACKET, r)
      else if unat (raw_size raw) > DUSB_DATA_SIZE then (ERR_INVALID_PACKET, r)
      else
        let declared = be_word (raw_data raw);
            n = unat (raw_size raw) - DUSB_DH_SIZE;
            alloc = max (if declared > 10000 then 10000 else unat declared) n
        in (0, \<lparr>got_packet = \<lparr>vp_size = of_nat n, vp_type = word_16 (raw_data raw ! 5) (raw_data raw ! 4),
                  vp_data = (if alloc = 0 then None else Some (take n (drop DUSB_DH_SIZE (raw_data raw))))\<rparr>,
                alloc_size = alloc, declared_size = declared\<rparr>))"

text \<open>Sizes are added modulo \<open>2\<^sup>3\<^sup>2\<close>; a block that has become too small by that is overrun.\<close>

definition grown_size :: "u32 \<Rightarrow> u32 \<Rightarrow> nat \<Rightarrow> nat" where
  "grown_size whole est alloc = (if unat whole > alloc then (if whole \<le> est then unat est else unat (whole * 2)) else alloc)"

definition next_piece :: "u32 \<Rightarrow> raw_packet \<Rightarrow> reassembly \<Rightarrow> (link, reassembly) state" where
  "next_piece est raw r = do {
     let v = got_packet r;
     let whole = vp_size v + raw_size raw;
     let alloc = grown_size whole est (alloc_size r);
     let need = unat (vp_size v) + unat (raw_size raw);
     (if need > alloc then record_event (Overrun (need - alloc)) else State_Monad.return ());
     let d = packet_data v @ take (unat (raw_size raw)) (raw_data raw);
     State_Monad.update (\<lambda>h. h\<lparr>max1 := unat (if raw_type raw = DUSB_RPKT_VIRT_DATA_LAST then whole
       else if whole < declared_size r then declared_size r
       else if whole < est then est
       else whole + raw_size raw)\<rparr>);
     State_Monad.return (r\<lparr>got_packet := v\<lparr>vp_size := whole, vp_data := (if alloc = 0 then None else Some d)\<rparr>, alloc_size := alloc\<rparr>) }"

text \<open>Pieces until the last one, each acknowledged.\<close>

primrec recv_pieces :: "link_env \<Rightarrow> u32 \<Rightarrow> nat \<Rightarrow> bool \<Rightarrow> raw_packet \<Rightarrow> reassembly \<Rightarrow> (link, int \<times> reassembly) state" where
  "recv_pieces env est 0 first raw r = do { record_event Unfinished; State_Monad.return (-1, r) }"
| "recv_pieces env est (Suc n) first raw r = do {
     (ret, raw) \<leftarrow> dusb_recv env raw;
     if ret \<noteq> 0 then State_Monad.return (ret, r)
     else if raw_type raw \<noteq> DUSB_RPKT_VIRT_DATA \<and> raw_type raw \<noteq> DUSB_RPKT_VIRT_DATA_LAST
     then State_Monad.return (ERR_INVALID_PACKET, r)
     else do {
       (ret, r) \<leftarrow> (if first then State_Monad.return (first_piece raw r)
         else do { r \<leftarrow> next_piece est raw r; State_Monad.return (0, r) });
       if ret \<noteq> 0 then State_Monad.return (ret, r)
       else do {
         workaround_recv env raw;
         ret \<leftarrow> dusb_send_acknowledge env;
         if ret \<noteq> 0 then State_Monad.return (ret, r)
         else if raw_type raw = DUSB_RPKT_VIRT_DATA_LAST then State_Monad.return (0, r)
         else recv_pieces env est n False raw r } } }"

text \<open>Result, packet and declared size; packet and declared size may be left as they were.\<close>

definition dusb_recv_data_varsize :: "link_env \<Rightarrow> virtual_packet \<Rightarrow> u32 \<Rightarrow> u32 \<Rightarrow> (link, int \<times> virtual_packet \<times> u32) state" where
  "dusb_recv_data_varsize env vtl old est = do {
     h \<leftarrow> State_Monad.get;
     if no_handle h then State_Monad.return (ERR_INVALID_HANDLE, vtl, old)
     else do {
       was_busy \<leftarrow> set_busy_if_necessary;
       ret \<leftarrow> fire_event env BEFORE_RECV_DUSB_VPKT 0 (Dusb_vpkt 0 0 None);
       (ret, r) \<leftarrow> (if ret \<noteq> 0 then State_Monad.return (ret, \<lparr>got_packet = vtl, alloc_size = 0, declared_size = old\<rparr>)
         else recv_pieces env est (rounds env) True zero_raw \<lparr>got_packet = vtl, alloc_size = 0, declared_size = old\<rparr>);
       let v = got_packet r;
       ret \<leftarrow> fire_event env AFTER_RECV_DUSB_VPKT ret (Dusb_vpkt (vp_size v) (vp_type v) (vp_data v));
       clear_busy_if_necessary was_busy;
       State_Monad.return (ret, v, declared_size r) } }"

definition dusb_recv_data :: "link_env \<Rightarrow> virtual_packet \<Rightarrow> (link, int \<times> virtual_packet) state" where
  "dusb_recv_data env vtl = do {
     (ret, v, declared) \<leftarrow> dusb_recv_data_varsize env vtl (be_word (map (past_end env) [0..<4])) 0;
     State_Monad.return (if ret = 0 \<and> declared \<noteq> vp_size v then ERR_INVALID_PACKET else ret, v) }"

end
