(* ===== verification/Dusb_Wire.thy ===== *)
theory Dusb_Wire
  imports Conversation Dusb_Packet
begin

text \<open>
  Virtual packets on the wire: the pieces a packet is cut into, what sending and receiving say, and that a
  packet sent is the packet received.
\<close>

section \<open>Words and raw packets\<close>

lemma word_bytes: "LSB (LSW w) = ucast w" "MSB (LSW w) = ucast (drop_bit 8 w)"
  "LSB (MSW w) = ucast (drop_bit 16 w)" "MSB (MSW w) = ucast (drop_bit 24 w)"
proof -
  have m: "(0x0000FFFF :: u32) = mask 16" "(0xFFFF0000 :: u32) = push_bit 16 (mask 16)"
    by (simp_all add: mask_eq_exp_minus_1)
  show "LSB (LSW w) = ucast w" "MSB (LSW w) = ucast (drop_bit 8 w)"
    "LSB (MSW w) = ucast (drop_bit 16 w)" "MSB (MSW w) = ucast (drop_bit 24 w)"
    unfolding LSB_ucast MSB_ucast LSW_def MSW_def m by (rule bit_word_eqI, auto simp: bit_simps)+
qed

lemma be_word_bytes: "be_word (size_bytes w @ rest) = w"
proof (rule bit_word_eqI)
  fix i
  assume "i < LENGTH(32)"
  then consider "i < 8" | "8 \<le> i" "i < 16" | "16 \<le> i" "i < 24" | "24 \<le> i" "i < 32" by fastforce
  then show "bit (be_word (size_bytes w @ rest)) i = bit w i"
    by cases (simp add: be_word_def size_bytes_def word_bytes bit_simps; linarith?; auto)+
qed

lemma size_bytes_are_four [simp]: "length (size_bytes w) = 4"
  by (simp add: size_bytes_def)

text \<open>A raw packet on the wire.\<close>

definition raw_bytes :: "byte \<Rightarrow> bytes \<Rightarrow> bytes" where
  "raw_bytes ty d = size_bytes (of_nat (length d)) @ [ty] @ d"

abbreviation ack_bytes :: bytes where
  "ack_bytes \<equiv> raw_bytes DUSB_RPKT_VIRT_DATA_ACK [0xE0, 0x00]"

text \<open>The talk over the USB port: the size of the pieces is part of the state.\<close>

abbreviation usb_talk :: "CalcModel \<Rightarrow> u32 \<Rightarrow> (nat \<Rightarrow> byte) \<Rightarrow> (link, 'a) state \<Rightarrow> 'a \<Rightarrow> bytes \<Rightarrow> bytes \<Rightarrow> bool" where
  "usb_talk m n \<equiv> converses_in (\<lambda>h. \<not> no_handle h \<and> link_model h = m \<and> rpkt_maxlen h = n)"

interpretation usb: conversation "\<lambda>h. \<not> no_handle h \<and> link_model h = m \<and> rpkt_maxlen h = n" for m n
  by unfold_locales (auto dest: advancesD)

lemma array_size [simp]: "unat (raw_size raw) \<le> DUSB_DATA_SIZE \<Longrightarrow> min (unat (raw_size raw)) DUSB_DATA_SIZE = unat (raw_size raw)"
  by simp

lemma talk_send:
  assumes w: "working env w" and n: "unat (raw_size raw) \<le> DUSB_DATA_SIZE" "length (raw_data raw) = DUSB_DATA_SIZE"
    and d: "d = take (unat (raw_size raw)) (raw_data raw)"
  shows "usb_talk m n w (dusb_send env raw) 0 (raw_bytes (raw_type raw) d) []"
proof -
  have len: "of_nat (length d) = raw_size raw" "raw_bytes (raw_type raw) d = size_bytes (raw_size raw) @ [raw_type raw] @ d"
    using n by (simp_all add: d raw_bytes_def min_absorb2)
  have raw: "usb_talk m n w (dusb_send_raw env raw) 0 (raw_bytes (raw_type raw) d) []"
    unfolding dusb_send_raw_def Let_def len(2) array_size [OF n(1)]
    apply (rule usb.converses_then [OF usb.converses_cable(1) [OF w], where out' = "[]" and inp' = "[]"])
      apply simp
      apply (rule usb.converses_quietly [OF usb.converses_cable(4) [OF w]])
      apply (simp_all add: d)
    done
  show ?thesis
    unfolding dusb_send_def
    apply (rule usb.converses_get)
    apply simp
    apply (rule usb.converses_busy)
    apply (rule usb.converses_quietly [OF usb.converses_cable(3) [OF w]])
    apply simp
    apply (rule usb.converses_then [OF raw, where out' = "[]" and inp' = "[]"])
      apply (rule usb.converses_quietly [OF usb.converses_cable(3) [OF w]])
      apply (rule usb.converses_quietly [OF usb.converses_clear])
      apply simp_all
    done
qed

lemma talk_recv:
  assumes w: "working env w" and d: "length d \<le> DUSB_DATA_SIZE"
  shows "usb_talk m n w (dusb_recv env raw)
    (0, \<lparr>raw_size = of_nat (length d), raw_type = ty, raw_data = write_at (raw_data raw) 0 d\<rparr>) [] (raw_bytes ty d)"
proof -
  let ?hdr = "size_bytes (of_nat (length d)) @ [ty]"
  obtain s0 t0 a where raw_is: "raw = \<lparr>raw_size = s0, raw_type = t0, raw_data = a\<rparr>" by (cases raw)
  have sz: "unat (of_nat (length d) :: u32) = length d" using d by (simp add: DUSB_DATA_SIZE_def unat_of_nat take_bit_nat_eq_self)
  have hdr: "be_word ?hdr = of_nat (length d)" "?hdr ! 4 = ty" by (simp add: be_word_bytes) (simp add: size_bytes_def)
  have fits: "(DUSB_DATA_SIZE < length d) = False" using d by simp
  have raw: "usb_talk m n w (dusb_recv_raw env raw)
      (0, \<lparr>raw_size = of_nat (length d), raw_type = ty, raw_data = write_at (raw_data raw) 0 d\<rparr>) [] (raw_bytes ty d)"
    unfolding dusb_recv_raw_def Let_def raw_is
    apply (rule usb.converses_then [OF usb.converses_cable(2) [OF w, of ?hdr 5], where out' = "[]" and inp' = d])
       apply simp
      apply (simp only: prod.case refl not_True_eq_False if_False hdr fits raw_packet.simps sz)
      apply (rule usb.converses_then [OF usb.converses_cable(2) [OF w refl, of _ _ d], where out' = "[]" and inp' = "[]"])
        apply (simp only: prod.case refl not_True_eq_False if_False)
        apply (rule usb.converses_quietly [OF usb.converses_cable(4) [OF w]])
        apply (simp_all add: raw_bytes_def)
    done
  show ?thesis
    unfolding dusb_recv_def
    apply (rule usb.converses_get)
    apply simp
    apply (rule usb.converses_busy)
    apply (rule usb.converses_quietly [OF usb.converses_cable(3) [OF w]])
    apply simp
    apply (rule usb.converses_then [OF raw, where out' = "[]" and inp' = "[]"])
      apply simp
      apply (rule usb.converses_quietly [OF usb.converses_cable(3) [OF w]])
      apply (rule usb.converses_quietly [OF usb.converses_clear])
      apply simp_all
    done
qed

section \<open>Acknowledgements\<close>

lemma zero_raw_data [simp]: "length (raw_data zero_raw) = DUSB_DATA_SIZE"
  by (simp add: zero_raw_def)

lemma array_holds [simp]: "2 \<le> DUSB_DATA_SIZE" "4 \<le> DUSB_DATA_SIZE"
  by (simp_all add: DUSB_DATA_SIZE_def)

lemma two_bytes: "length (write_at (raw_data zero_raw) 0 [a, b]) = DUSB_DATA_SIZE" "take 2 (write_at x 0 [a, b]) = [a, b]"
  by (simp add: write_at_def) (simp_all add: DUSB_DATA_SIZE_def write_at_def)

lemma ack_received [simp]: "check_ack \<lparr>raw_size = sz, raw_type = DUSB_RPKT_VIRT_DATA_ACK, raw_data = 0xE0 # 0x00 # rest\<rparr> = 0"
  by (simp add: check_ack_def)

lemma ack_packet_parts: "unat (raw_size ack_packet) = 2" "raw_type ack_packet = DUSB_RPKT_VIRT_DATA_ACK"
  "raw_data ack_packet = write_at (raw_data zero_raw) 0 [0xE0, 0x00]"
  by (simp_all add: ack_packet_def)

lemma talk_send_ack:
  assumes w: "working env w"
  shows "usb_talk m n w (dusb_send_acknowledge env) 0 ack_bytes []"
proof -
  have "usb_talk m n w (dusb_send env ack_packet) 0 (raw_bytes (raw_type ack_packet) [0xE0, 0x00]) []"
    by (rule talk_send [OF w]) (simp_all only: ack_packet_parts two_bytes array_holds)
  then show ?thesis
    unfolding dusb_send_acknowledge_def ack_packet_parts by (intro usb.converses_get) simp
qed

lemma talk_recv_ack:
  assumes w: "working env w"
  shows "usb_talk m n w (dusb_recv_acknowledge env) 0 [] ack_bytes"
proof -
  have body: "usb_talk m n w (dusb_recv_ack_body env) 0 [] ack_bytes"
    unfolding dusb_recv_ack_body_def
    apply (rule usb.converses_then [OF talk_recv [OF w, of "[0xE0, 0x00]"], where out' = "[]" and inp' = "[]"])
       apply (simp add: DUSB_DATA_SIZE_def)
      apply (simp only: prod.case refl not_True_eq_False if_False raw_packet.simps)
     apply simp_all
    done
  show ?thesis
    unfolding dusb_recv_acknowledge_def
    apply (rule usb.converses_get)
    apply simp
    apply (rule usb.converses_busy)
    apply (rule usb.converses_then [OF body, where out' = "[]" and inp' = "[]"])
      apply (rule usb.converses_quietly [OF usb.converses_clear])
      apply simp_all
    done
qed

lemma talk_send_acknowledged:
  assumes w: "working env w" and raw: "unat (raw_size raw) \<le> DUSB_DATA_SIZE" "length (raw_data raw) = DUSB_DATA_SIZE"
    "d = take (unat (raw_size raw)) (raw_data raw)" and b: "usb_talk m n w between () [] []"
  shows "usb_talk m n w (send_acknowledged env raw between) 0 (raw_bytes (raw_type raw) d) ack_bytes"
  unfolding send_acknowledged_def
  apply (rule usb.converses_then [OF talk_send [OF w raw], where out' = "[]" and inp' = ack_bytes])
    apply simp
    apply (rule usb.converses_quietly [OF b])
    apply (simp_all add: talk_recv_ack [OF w])
  done

section \<open>The pieces of a packet\<close>

text \<open>What is left is cut into full pieces and a last one that is shorter, possibly empty.\<close>

function cut :: "nat \<Rightarrow> bytes \<Rightarrow> (byte \<times> bytes) list" where
  "cut n d = (if n = 0 \<or> length d < n then [(DUSB_RPKT_VIRT_DATA_LAST, d)]
     else (DUSB_RPKT_VIRT_DATA, take n d) # cut n (drop n d))"
  by pat_completeness auto

termination
  by (relation "measure (\<lambda>(n, d). length d)") auto

declare cut.simps [simp del]

text \<open>The first piece is alone if all fits into it.\<close>

definition pieces_of :: "nat \<Rightarrow> bytes \<Rightarrow> (byte \<times> bytes) list" where
  "pieces_of n full = (if length full \<le> n then [(DUSB_RPKT_VIRT_DATA_LAST, full)]
     else (DUSB_RPKT_VIRT_DATA, take n full) # cut n (drop n full))"

definition piece_bytes :: "(byte \<times> bytes) list \<Rightarrow> bytes" where
  "piece_bytes ps = concat (map (\<lambda>(ty, d). raw_bytes ty d) ps)"

definition acks :: "nat \<Rightarrow> bytes" where
  "acks k = concat (replicate k ack_bytes)"

lemma piece_bytes_simps [simp]: "piece_bytes [] = []" "piece_bytes ((ty, d) # ps) = raw_bytes ty d @ piece_bytes ps"
  by (simp_all add: piece_bytes_def)

lemma acks_simps [simp]: "acks 0 = []" "acks (Suc k) = ack_bytes @ acks k"
  by (simp_all add: acks_def)

section \<open>Sending\<close>

lemma be_size: "unat (of_nat k :: u32) = k" if "k < 2 ^ 32"
  using that by (simp add: unat_of_nat take_bit_nat_eq_self)

lemma talk_data_part:
  assumes "vp_data vtl = Some d" "off + k \<le> length d"
  shows "usb_talk m n w (data_part env vtl off k) (take k (drop off d)) [] []"
  using assms by (simp add: data_part_def)

lemma talk_copy:
  assumes "off + length d \<le> DUSB_DATA_SIZE"
  shows "usb_talk m n w (copy_to_raw raw off d) (raw\<lparr>raw_data := take DUSB_DATA_SIZE (write_at (raw_data raw) off d)\<rparr>) [] []"
  using assms by (simp add: copy_to_raw_def not_less)

lemma talk_workaround_send:
  assumes w: "working env w"
  shows "usb_talk m n w (workaround_send env raw vtl) () [] []"
  unfolding workaround_send_def Let_def
  apply (rule usb.converses_get)
  apply (rule if_split [THEN iffD2], intro conjI impI)
   apply (rule usb.converses_quietly [OF usb.converses_cable(1) [OF w]])
   apply simp_all
  done

text \<open>The array of a raw packet with data at its start.\<close>

definition filled :: "bytes \<Rightarrow> bytes \<Rightarrow> bytes" where
  "filled a d = take DUSB_DATA_SIZE (write_at a 0 d)"

lemma filled_simps:
  assumes "length a = DUSB_DATA_SIZE" "length d \<le> DUSB_DATA_SIZE"
  shows "length (filled a d) = DUSB_DATA_SIZE" "take (length d) (filled a d) = d"
  using assms by (simp_all add: filled_def write_at_def)

text \<open>A piece filled with the data and sent.\<close>

lemma talk_piece:
  assumes w: "working env w" and a: "length (raw_data raw) = DUSB_DATA_SIZE" and d: "length d \<le> DUSB_DATA_SIZE"
    and sz: "unat sz = length d" and b: "\<And>raw. usb_talk m n w (between raw) () [] []"
    and f: "usb_talk m n w (f 0 (raw\<lparr>raw_size := sz, raw_type := ty, raw_data := filled (raw_data raw) d\<rparr>)) r out inp"
  shows "usb_talk m n w (do { raw \<leftarrow> copy_to_raw (raw\<lparr>raw_size := sz, raw_type := ty\<rparr>) 0 d;
      ret \<leftarrow> send_acknowledged env raw (between raw); f ret raw }) r (raw_bytes ty d @ out) (ack_bytes @ inp)"
proof -
  let ?raw = "raw\<lparr>raw_size := sz, raw_type := ty, raw_data := filled (raw_data raw) d\<rparr>"
  have copy: "usb_talk m n w (copy_to_raw (raw\<lparr>raw_size := sz, raw_type := ty\<rparr>) 0 d) ?raw [] []"
    using talk_copy [of 0 d m n w "raw\<lparr>raw_size := sz, raw_type := ty\<rparr>"] d by (simp add: filled_def)
  have "usb_talk m n w (send_acknowledged env ?raw (between ?raw)) 0 (raw_bytes ty d) ack_bytes"
    using talk_send_acknowledged [OF w, of ?raw d m n "between ?raw"] filled_simps [OF a d] sz d b by simp
  then show ?thesis
    by (rule usb.converses_quietly [OF copy usb.converses_then]) (use f in simp_all)
qed

lemma length_data_header [simp]: "length (data_header vtl) = DUSB_DH_SIZE"
  by (simp add: data_header_def DUSB_DH_SIZE_def)

lemma talk_single:
  assumes w: "working env w" and d: "unat (vp_size vtl) \<le> length (packet_data vtl)"
    and n: "unat (vp_size vtl) + DUSB_DH_SIZE \<le> DUSB_DATA_SIZE"
  shows "usb_talk m n w (send_single env vtl) 0
    (raw_bytes DUSB_RPKT_VIRT_DATA_LAST (data_header vtl @ take (unat (vp_size vtl)) (packet_data vtl))) ack_bytes"
proof -
  let ?k = "unat (vp_size vtl)" and ?d = "packet_data vtl"
  have data: "usb_talk m n w (data_part env vtl 0 ?k) (take ?k ?d) [] []"
    using d by (auto simp: data_part_def packet_data_def split: option.splits)
  have sz: "unat (vp_size vtl + of_nat DUSB_DH_SIZE) = ?k + DUSB_DH_SIZE"
    using n by (simp add: DUSB_DH_SIZE_def DUSB_DATA_SIZE_def unat_word_ariths take_bit_nat_eq_self)
  show ?thesis
    unfolding send_single_def
    apply (rule usb.converses_quietly [OF data])
    using talk_piece [OF w, of zero_raw "data_header vtl @ take ?k ?d" "vp_size vtl + of_nat DUSB_DH_SIZE" m n
      "\<lambda>raw. workaround_send env raw vtl" "\<lambda>ret raw. State_Monad.return ret" DUSB_RPKT_VIRT_DATA_LAST 0 "[]" "[]"]
      d n sz talk_workaround_send [OF w]
    apply (simp add: min_absorb2 add.commute)
    done
qed

text \<open>The array of the raw packet is used again for every piece.\<close>

lemma talk_pieces:
  assumes w: "working env w" and d: "vp_data vtl = Some d" and len: "unat n \<le> DUSB_DATA_SIZE"
    and a: "length (raw_data raw) = DUSB_DATA_SIZE" and off: "off + q * unat n \<le> length d"
  shows "\<exists>raw'. length (raw_data raw') = DUSB_DATA_SIZE \<and>
    usb_talk m n w (send_pieces env vtl q off raw) (0, off + q * unat n, raw')
      (piece_bytes (map (\<lambda>i. (DUSB_RPKT_VIRT_DATA, take (unat n) (drop (off + i * unat n) d))) [0..<q])) (acks q)"
  using a off
proof (induction q arbitrary: off raw)
  case 0
  then show ?case by auto
next
  case (Suc q)
  let ?p = "take (unat n) (drop off d)"
  let ?raw = "raw\<lparr>raw_size := n, raw_type := DUSB_RPKT_VIRT_DATA, raw_data := filled (raw_data raw) ?p\<rparr>"
  have p: "length ?p = unat n" using Suc.prems(2) by simp
  have "length (raw_data ?raw) = DUSB_DATA_SIZE" using filled_simps [OF Suc.prems(1), of ?p] p len by simp
  moreover have "off + unat n + q * unat n \<le> length d" using Suc.prems(2) by simp
  ultimately obtain raw' where raw': "length (raw_data raw') = DUSB_DATA_SIZE"
    "usb_talk m n w (send_pieces env vtl q (off + unat n) ?raw) (0, off + unat n + q * unat n, raw')
      (piece_bytes (map (\<lambda>i. (DUSB_RPKT_VIRT_DATA, take (unat n) (drop (off + unat n + i * unat n) d))) [0..<q])) (acks q)"
    using Suc.IH by blast
  have "usb_talk m n w (send_pieces env vtl (Suc q) off raw) (0, off + Suc q * unat n, raw')
      (raw_bytes DUSB_RPKT_VIRT_DATA ?p
        @ piece_bytes (map (\<lambda>i. (DUSB_RPKT_VIRT_DATA, take (unat n) (drop (off + unat n + i * unat n) d))) [0..<q])) (ack_bytes @ acks q)"
    unfolding send_pieces.simps Let_def
  proof (rule usb.converses_get)
    fix h
    assume h: "\<not> no_handle h \<and> link_model h = m \<and> rpkt_maxlen h = n"
    then have n: "rpkt_maxlen h = n" by simp
    show "usb_talk m n w (do { d \<leftarrow> data_part env vtl off (unat (rpkt_maxlen h));
        raw \<leftarrow> copy_to_raw (raw\<lparr>raw_size := rpkt_maxlen h, raw_type := DUSB_RPKT_VIRT_DATA\<rparr>) 0 d;
        ret \<leftarrow> send_acknowledged env raw (State_Monad.return ());
        if ret \<noteq> 0 then State_Monad.return (ret, off + unat (rpkt_maxlen h), raw)
        else do {
          State_Monad.update (\<lambda>h. h\<lparr>max1 := unat (vp_size vtl), cnt1 := cnt1 h + unat (rpkt_maxlen h)\<rparr>);
          pbar;
          send_pieces env vtl q (off + unat (rpkt_maxlen h)) raw } }) (0, off + Suc q * unat n, raw')
      (raw_bytes DUSB_RPKT_VIRT_DATA ?p
        @ piece_bytes (map (\<lambda>i. (DUSB_RPKT_VIRT_DATA, take (unat n) (drop (off + unat n + i * unat n) d))) [0..<q])) (ack_bytes @ acks q)"
      unfolding n
      apply (rule usb.converses_quietly [OF talk_data_part [OF d]])
      using Suc.prems(2) apply simp
      apply (rule talk_piece [OF w Suc.prems(1)])
      using p len apply simp
      using p apply simp
       apply simp
      apply simp
      apply (rule usb.converses_quietly [OF usb.converses_update])
       apply (simp add: advances_def open_link_def)
      apply (rule usb.converses_quietly [OF usb.converses_pbar])
      using raw'(2) apply (simp add: add.assoc)
      done
  qed
  then show ?case using raw'(1) by (intro exI [of _ raw']) (simp add: upt_conv_Cons map_Suc_upt [symmetric] comp_def algebra_simps del: upt_Suc)
qed

lemma talk_last:
  assumes w: "working env w" and d: "vp_data vtl = Some d" "off + r \<le> length d" and r: "r \<le> DUSB_DATA_SIZE"
    and a: "length (raw_data raw) = DUSB_DATA_SIZE"
  shows "usb_talk m n w (send_last env vtl off r raw) 0 (raw_bytes DUSB_RPKT_VIRT_DATA_LAST (take r (drop off d))) ack_bytes"
proof -
  let ?d = "take r (drop off d)"
  have sz: "length ?d = r" "unat (of_nat r :: u32) = r" using r d(2) by (simp_all add: DUSB_DATA_SIZE_def be_size)
  have piece: "usb_talk m n w (do { raw \<leftarrow> copy_to_raw (raw\<lparr>raw_size := of_nat r, raw_type := DUSB_RPKT_VIRT_DATA_LAST\<rparr>) 0 ?d;
      send_acknowledged env raw (if b then State_Monad.return () else workaround_send env raw vtl) }) 0
      (raw_bytes DUSB_RPKT_VIRT_DATA_LAST ?d) ack_bytes" for b
    using talk_piece [OF w a, of ?d "of_nat r" m n "\<lambda>raw. if b then State_Monad.return () else workaround_send env raw vtl"
        "\<lambda>ret raw. State_Monad.return ret" DUSB_RPKT_VIRT_DATA_LAST 0 "[]" "[]"] sz r talk_workaround_send [OF w]
    by (cases b) simp_all
  show ?thesis
    unfolding send_last_def by (rule usb.converses_get, rule usb.converses_quietly, rule talk_data_part [OF d], rule piece)
qed

lemma cut_pieces:
  "length e = q * n + r \<Longrightarrow> r < n \<Longrightarrow>
    cut n e = map (\<lambda>i. (DUSB_RPKT_VIRT_DATA, take n (drop (i * n) e))) [0..<q] @ [(DUSB_RPKT_VIRT_DATA_LAST, drop (q * n) e)]"
proof (induction q arbitrary: e)
  case (Suc q)
  have "cut n e = (DUSB_RPKT_VIRT_DATA, take n e) # cut n (drop n e)" using Suc.prems by (subst cut.simps) simp
  also have "cut n (drop n e) = map (\<lambda>i. (DUSB_RPKT_VIRT_DATA, take n (drop (i * n) (drop n e)))) [0..<q]
      @ [(DUSB_RPKT_VIRT_DATA_LAST, drop (q * n) (drop n e))]"
    using Suc.prems by (intro Suc.IH) simp_all
  finally show ?case by (simp add: upt_conv_Cons map_Suc_upt [symmetric] comp_def add.commute del: upt_Suc)
qed (simp add: cut.simps)

text \<open>What \<open>dusb_send_data\<close> says: the pieces of the header and the data.\<close>

definition virtual_pieces :: "nat \<Rightarrow> virtual_packet \<Rightarrow> (byte \<times> bytes) list" where
  "virtual_pieces n vtl =
     pieces_of n (data_header vtl @ take (unat (vp_size vtl)) (packet_data vtl))"

lemma piece_bytes_append [simp]: "piece_bytes (ps @ qs) = piece_bytes ps @ piece_bytes qs"
  by (simp add: piece_bytes_def)

lemma acks_commute: "acks k @ ack_bytes = ack_bytes @ acks k"
  by (induction k) simp_all

text \<open>The pieces of a packet that does not fit into one.\<close>

lemma many_pieces:
  assumes d: "vp_data vtl = Some d" "sz \<le> length d" "sz = unat (vp_size vtl)" and n: "DUSB_DH_SIZE \<le> n" "n < sz + DUSB_DH_SIZE"
    and split: "off = n - DUSB_DH_SIZE" "sz = off + (q * n + r)" "r < n"
  shows "virtual_pieces n vtl = (DUSB_RPKT_VIRT_DATA, data_header vtl @ take off d)
      # map (\<lambda>i. (DUSB_RPKT_VIRT_DATA, take n (drop (off + i * n) d))) [0..<q]
      @ [(DUSB_RPKT_VIRT_DATA_LAST, take r (drop (off + q * n) d))]"
proof -
  let ?full = "data_header vtl @ take sz d"
  have len: "\<not> length ?full \<le> n" "length (drop n ?full) = q * n + r" using d(2) n split by simp_all
  have full: "take n ?full = data_header vtl @ take off d" "drop n ?full = drop off (take sz d)"
    using n split by (simp_all add: min_def)
  have "take n (drop (i * n) (drop n ?full)) = take n (drop (off + i * n) d)" if "i < q" for i
  proof -
    have "Suc i * n \<le> q * n" using that by (intro mult_le_mono1) simp
    then show ?thesis unfolding full(2) using split(2) by (simp add: drop_take add.commute min_def)
  qed
  then have ms: "map (\<lambda>i. (DUSB_RPKT_VIRT_DATA, take n (drop (i * n) (drop n ?full)))) [0..<q]
      = map (\<lambda>i. (DUSB_RPKT_VIRT_DATA, take n (drop (off + i * n) d))) [0..<q]" by (intro map_cong) simp_all
  have last: "drop (q * n) (drop n ?full) = take r (drop (off + q * n) d)"
    unfolding full(2) using split(2) by (simp add: drop_take add.commute)
  have "virtual_pieces n vtl = (DUSB_RPKT_VIRT_DATA, take n ?full) # cut n (drop n ?full)"
    using len(1) d by (simp add: virtual_pieces_def pieces_of_def packet_data_def)
  then show ?thesis unfolding cut_pieces [OF len(2) split(3)] full(1) ms last .
qed

lemma talk_fragments:
  assumes w: "working env w" and d: "vp_data vtl = Some d" "unat (vp_size vtl) \<le> length d"
    and n: "DUSB_DH_SIZE \<le> unat n" "unat n \<le> DUSB_DATA_SIZE" "unat n < unat (vp_size vtl) + DUSB_DH_SIZE"
  shows "usb_talk m n w (send_fragments env vtl) 0 (piece_bytes (virtual_pieces (unat n) vtl)) (acks (length (virtual_pieces (unat n) vtl)))"
proof -
  let ?n = "unat n" and ?off = "unat n - DUSB_DH_SIZE" and ?size = "unat (vp_size vtl)"
  let ?q = "(?size - ?off) div ?n" and ?r = "(?size - ?off) mod ?n"
  let ?first = "data_header vtl @ take ?off d"
  let ?raw = "zero_raw\<lparr>raw_size := n, raw_type := DUSB_RPKT_VIRT_DATA, raw_data := filled (raw_data zero_raw) ?first\<rparr>"
  have pos: "0 < ?n" using n(1) by (simp add: DUSB_DH_SIZE_def)
  have off: "unat (n - of_nat DUSB_DH_SIZE) = ?off" "?off \<le> ?size"
    using n by (simp_all add: DUSB_DH_SIZE_def unat_sub word_le_nat_alt)
  have split: "?size = ?off + (?q * ?n + ?r)" using off(2) by simp
  have first: "length ?first = ?n" using n off(2) d(2) by simp
  have raw: "length (raw_data ?raw) = DUSB_DATA_SIZE" using filled_simps [of "raw_data zero_raw" ?first] first n(2) by simp
  have room: "?off + ?q * ?n \<le> length d" "?off + ?q * ?n + ?r \<le> length d" using split d(2) by linarith+
  obtain raw' where raw': "length (raw_data raw') = DUSB_DATA_SIZE"
    "usb_talk m n w (send_pieces env vtl ?q ?off ?raw) (0, ?off + ?q * ?n, raw')
      (piece_bytes (map (\<lambda>i. (DUSB_RPKT_VIRT_DATA, take ?n (drop (?off + i * ?n) d))) [0..<?q])) (acks ?q)"
    using talk_pieces [OF w d(1) n(2) raw room(1)] by blast
  have r: "?r \<le> DUSB_DATA_SIZE" using pos n(2) by (meson mod_less_divisor less_imp_le le_trans)
  have nz: "(?n = 0) = False" using pos by simp
  have rest: "usb_talk m n w (do {
      h \<leftarrow> State_Monad.get;
      let len = unat (rpkt_maxlen h);
      (if len = 0 then record_event Zero_division else State_Monad.return ());
      let left = ?size - ?off;
      (ret, off, raw) \<leftarrow> send_pieces env vtl (left div len) ?off ?raw;
      if ret \<noteq> 0 then State_Monad.return ret else send_last env vtl off (left mod len) raw }) 0
    (piece_bytes (map (\<lambda>i. (DUSB_RPKT_VIRT_DATA, take ?n (drop (?off + i * ?n) d))) [0..<?q])
      @ raw_bytes DUSB_RPKT_VIRT_DATA_LAST (take ?r (drop (?off + ?q * ?n) d))) (acks ?q @ ack_bytes)"
    apply (rule usb.converses_get, elim conjE)
    apply (simp only: Let_def nz if_False)
    apply (rule usb.converses_quietly [OF usb.converses_return])
    apply (rule usb.converses_then [OF raw'(2), where inp' = ack_bytes])
      apply (simp only: prod.case refl not_True_eq_False if_False)
      apply (rule talk_last [OF w d(1) room(2) r raw'(1)])
     apply (rule refl)+
    done
  have data: "usb_talk m n w (data_part env vtl 0 ?off) (take ?off d) [] []"
    using talk_data_part [OF d(1), of 0 ?off] room(1) by simp
  have first': "length ?first \<le> DUSB_DATA_SIZE" "unat n = length ?first" using first n(2) by simp_all
  have "usb_talk m n w (send_fragments env vtl) 0 (raw_bytes DUSB_RPKT_VIRT_DATA ?first
      @ piece_bytes (map (\<lambda>i. (DUSB_RPKT_VIRT_DATA, take ?n (drop (?off + i * ?n) d))) [0..<?q])
      @ raw_bytes DUSB_RPKT_VIRT_DATA_LAST (take ?r (drop (?off + ?q * ?n) d))) (ack_bytes @ acks ?q @ ack_bytes)"
    unfolding send_fragments_def
    apply (rule usb.converses_get, elim conjE)
    apply (simp only: Let_def off(1))
    apply (rule usb.converses_quietly [OF data])
    apply (rule talk_piece [OF w zero_raw_data first'])
     apply (rule usb.converses_return)
    using rest apply (simp only: Let_def refl not_True_eq_False if_False)
    done
  then show ?thesis
    unfolding many_pieces [OF d refl n(1,3) refl split mod_less_divisor [OF pos]]
    by (simp add: acks_commute)
qed

text \<open>Every packet, in one piece or in many.\<close>

lemma talk_send_data:
  assumes w: "working env w" and d: "unat (vp_size vtl) \<le> length (packet_data vtl)"
    and n: "DUSB_DH_SIZE \<le> unat n" "unat n \<le> DUSB_DATA_SIZE"
  shows "usb_talk m n w (dusb_send_data env vtl) 0 (piece_bytes (virtual_pieces (unat n) vtl)) (acks (length (virtual_pieces (unat n) vtl)))"
proof -
  have fits: "vp_size vtl \<le> n - of_nat DUSB_DH_SIZE \<longleftrightarrow> unat (vp_size vtl) + DUSB_DH_SIZE \<le> unat n"
    using n by (auto simp add: DUSB_DH_SIZE_def unat_sub word_le_nat_alt)
  have valid: "(vp_size vtl \<noteq> 0 \<and> vp_data vtl = None) = False"
    using d by (auto simp: packet_data_def unsigned_eq_0_iff split: option.splits)
  have body: "usb_talk m n w (if vp_size vtl \<le> n - of_nat DUSB_DH_SIZE then send_single env vtl else send_fragments env vtl) 0
      (piece_bytes (virtual_pieces (unat n) vtl)) (acks (length (virtual_pieces (unat n) vtl)))"
  proof (cases "unat (vp_size vtl) + DUSB_DH_SIZE \<le> unat n")
    case True
    then have "virtual_pieces (unat n) vtl = [(DUSB_RPKT_VIRT_DATA_LAST, data_header vtl @ take (unat (vp_size vtl)) (packet_data vtl))]"
      using d by (simp add: virtual_pieces_def pieces_of_def min_absorb2)
    then show ?thesis using True fits talk_single [OF w d, of m n] n(2) by simp
  next
    case False
    then obtain d' where d': "vp_data vtl = Some d'" "unat (vp_size vtl) \<le> length d'"
      using d n(1) by (cases "vp_data vtl") (auto simp: packet_data_def)
    show ?thesis using False fits talk_fragments [OF w d' n] by simp
  qed
  show ?thesis
    unfolding dusb_send_data_def
    apply (rule usb.converses_get, elim conjE)
    apply (simp only: if_False valid)
    apply (rule usb.converses_busy)
    apply (rule usb.converses_quietly [OF usb.converses_cable(3) [OF w]])
    apply (simp only: refl not_True_eq_False if_False)
    apply (rule usb.converses_then [OF body, where out' = "[]" and inp' = "[]"])
      apply (rule usb.converses_quietly [OF usb.converses_cable(3) [OF w]])
      apply (rule usb.converses_quietly [OF usb.converses_clear])
      apply simp_all
    done
qed

section \<open>Receiving\<close>

text \<open>What has been put together: the data \<open>d\<close>, in a block that is large enough.\<close>

definition assembled :: "u16 \<Rightarrow> u32 \<Rightarrow> bytes \<Rightarrow> reassembly \<Rightarrow> bool" where
  "assembled ty declared d r \<longleftrightarrow> (\<exists>a. length d \<le> a \<and>
     r = \<lparr>got_packet = \<lparr>vp_size = of_nat (length d), vp_type = ty, vp_data = (if a = 0 then None else Some d)\<rparr>,
          alloc_size = a, declared_size = declared\<rparr>)"

lemma header_bytes_back:
  "be_word (data_header vtl @ d) = vp_size vtl"
  "word_16 ((data_header vtl @ d) ! 5) ((data_header vtl @ d) ! 4) = vp_type vtl"
  using be_word_bytes [of "vp_size vtl" "[MSB (vp_type vtl), LSB (vp_type vtl)] @ d"]
  by (simp_all add: data_header_def size_bytes_def word_16_bytes)

lemma first_assembled:
  assumes "length (data_header vtl @ d) \<le> DUSB_DATA_SIZE"
  shows "\<exists>r'. first_piece \<lparr>raw_size = of_nat (length (data_header vtl @ d)), raw_type = ty, raw_data = (data_header vtl @ d) @ rest\<rparr> r = (0, r')
    \<and> assembled (vp_type vtl) (vp_size vtl) d r'"
proof -
  have sz: "unat (of_nat (DUSB_DH_SIZE + length d) :: u32) = DUSB_DH_SIZE + length d"
    using assms by (intro be_size) (simp add: DUSB_DATA_SIZE_def)
  show ?thesis
    using assms header_bytes_back [of vtl "d @ rest"] sz
    by (auto simp: first_piece_def assembled_def Let_def simp del: of_nat_add intro: exI)
qed

lemma grown_enough:
  assumes "length d \<le> a" "length d + length p < 2 ^ 31"
  shows "length d + length p \<le> grown_size (of_nat (length d) + of_nat (length p)) est a"
proof -
  let ?s = "of_nat (length d) + of_nat (length p) :: u32"
  have s: "unat ?s = length d + length p"
    using be_size [of "length d + length p"] assms(2) by simp
  have "unat (x * 2) = 2 * unat x" if "unat x < 2 ^ 31" for x :: u32
    using that by (simp add: unat_word_ariths take_bit_nat_eq_self)
  then have "unat (?s * 2) = 2 * (length d + length p)" using s assms(2) by metis
  then show ?thesis using s assms(1) by (auto simp: grown_size_def word_le_nat_alt)
qed

lemma talk_next_piece:
  assumes r: "assembled ty declared d r" and p: "length p \<le> DUSB_DATA_SIZE" and len: "length d + length p < 2 ^ 31"
  shows "\<exists>r'. assembled ty declared (d @ p) r' \<and>
    usb_talk m n w (next_piece est \<lparr>raw_size = of_nat (length p), raw_type = t, raw_data = p @ rest\<rparr> r) r' [] []"
proof -
  obtain a where a: "length d \<le> a"
    "r = \<lparr>got_packet = \<lparr>vp_size = of_nat (length d), vp_type = ty, vp_data = (if a = 0 then None else Some d)\<rparr>,
          alloc_size = a, declared_size = declared\<rparr>"
    using r by (auto simp: assembled_def)
  let ?a = "grown_size (of_nat (length d) + of_nat (length p)) est a"
  let ?r = "\<lparr>got_packet = \<lparr>vp_size = of_nat (length (d @ p)), vp_type = ty, vp_data = (if ?a = 0 then None else Some (d @ p))\<rparr>,
          alloc_size = ?a, declared_size = declared\<rparr>"
  have sizes: "unat (of_nat (length d) :: u32) = length d" "unat (of_nat (length p) :: u32) = length p"
    using len by (simp_all add: be_size)
  have room: "length d + length p \<le> ?a" by (rule grown_enough [OF a(1) len])
  have fits: "(?a < length d + length p) = False" using room by simp
  have old: "(case if a = 0 then None else Some d of None \<Rightarrow> [] | Some d \<Rightarrow> d) = d" using a(1) by (cases d) auto
  have "usb_talk m n w (next_piece est \<lparr>raw_size = of_nat (length p), raw_type = t, raw_data = p @ rest\<rparr> r) ?r [] []"
    unfolding next_piece_def Let_def packet_data_def a(2)
    apply (simp only: raw_packet.simps reassembly.simps virtual_packet.simps sizes old fits if_False)
    apply (rule usb.converses_quietly [OF usb.converses_return])
    apply (rule usb.converses_quietly [OF usb.converses_update])
     apply (simp add: advances_def open_link_def)
    apply simp
    done
  moreover have "assembled ty declared (d @ p) ?r" using room by (auto simp: assembled_def)
  ultimately show ?thesis by blast
qed

text \<open>The pieces of one packet: the last one is marked, and each fits the array.\<close>

definition whole_packet :: "(byte \<times> bytes) list \<Rightarrow> bool" where
  "whole_packet ps \<longleftrightarrow> ps \<noteq> [] \<and> fst (last ps) = DUSB_RPKT_VIRT_DATA_LAST
     \<and> (\<forall>p\<in>set (butlast ps). fst p = DUSB_RPKT_VIRT_DATA) \<and> (\<forall>p\<in>set ps. length (snd p) \<le> DUSB_DATA_SIZE)"

lemma whole_packet_Cons:
  "whole_packet (p # ps) \<longleftrightarrow> length (snd p) \<le> DUSB_DATA_SIZE
     \<and> (if ps = [] then fst p = DUSB_RPKT_VIRT_DATA_LAST else fst p = DUSB_RPKT_VIRT_DATA \<and> whole_packet ps)"
  by (auto simp: whole_packet_def)

lemma talk_workaround_recv:
  assumes w: "working env w"
  shows "usb_talk m n w (workaround_recv env raw) () [] []"
  unfolding workaround_recv_def Let_def
  apply (rule usb.converses_get)
  apply (rule if_split [THEN iffD2], intro conjI impI)
   apply (rule usb.converses_quietly [OF usb.converses_cable(2) [OF w, of "[]"]])
    apply simp_all
  done

text \<open>A round of the loop, after the piece has been put in its place.\<close>

lemma talk_round:
  assumes w: "working env w"
    and more: "ty \<noteq> DUSB_RPKT_VIRT_DATA_LAST \<Longrightarrow> usb_talk m n w (recv_pieces env est k False raw r) res out inp"
    and last: "ty = DUSB_RPKT_VIRT_DATA_LAST \<Longrightarrow> res = (0, r) \<and> out = [] \<and> inp = []"
  shows "usb_talk m n w (do {
      workaround_recv env raw;
      ret \<leftarrow> dusb_send_acknowledge env;
      if ret \<noteq> 0 then State_Monad.return (ret, r)
      else if ty = DUSB_RPKT_VIRT_DATA_LAST then State_Monad.return (0, r)
      else recv_pieces env est k False raw r }) res (ack_bytes @ out) inp"
  apply (rule usb.converses_quietly [OF talk_workaround_recv [OF w]])
  apply (rule usb.converses_then [OF talk_send_ack [OF w], where out' = out and inp' = inp])
    apply (cases "ty = DUSB_RPKT_VIRT_DATA_LAST")
  using more last apply simp_all
  done

text \<open>What a raw packet with the data \<open>x\<close> becomes in the array of the packet before.\<close>

abbreviation held :: "raw_packet \<Rightarrow> byte \<Rightarrow> bytes \<Rightarrow> raw_packet" where
  "held raw t x \<equiv> \<lparr>raw_size = of_nat (length x), raw_type = t, raw_data = x @ drop (length x) (raw_data raw)\<rparr>"

lemma talk_step:
  assumes w: "working env w" and x: "length x \<le> DUSB_DATA_SIZE" and t: "t = DUSB_RPKT_VIRT_DATA \<or> t = DUSB_RPKT_VIRT_DATA_LAST"
    and place: "usb_talk m n w (if first then State_Monad.return (first_piece (held raw t x) r)
      else do { r \<leftarrow> next_piece est (held raw t x) r; State_Monad.return (0, r) }) (0, r1) [] []"
    and more: "t \<noteq> DUSB_RPKT_VIRT_DATA_LAST \<Longrightarrow> usb_talk m n w (recv_pieces env est k False (held raw t x) r1) (0, r') out inp"
    and last: "t = DUSB_RPKT_VIRT_DATA_LAST \<Longrightarrow> r' = r1 \<and> out = [] \<and> inp = []"
  shows "usb_talk m n w (recv_pieces env est (Suc k) first raw r) (0, r') (ack_bytes @ out) (raw_bytes t x @ inp)"
proof -
  have recv: "usb_talk m n w (dusb_recv env raw) (0, held raw t x) [] (raw_bytes t x)"
    using talk_recv [OF w x, of m n raw t] by (simp add: write_at_def)
  have known: "(t \<noteq> DUSB_RPKT_VIRT_DATA \<and> t \<noteq> DUSB_RPKT_VIRT_DATA_LAST) = False" using t by blast
  show ?thesis
    unfolding recv_pieces.simps
    apply (rule usb.converses_then [OF recv, where inp' = inp])
      prefer 2 apply (rule append_Nil [symmetric])
     apply (simp only: prod.case refl not_True_eq_False if_False raw_packet.simps known)
     apply (rule usb.converses_quietly [OF place])
     apply (simp only: prod.case refl not_True_eq_False if_False)
     apply (rule talk_round [OF w])
      apply (rule more, assumption)
     apply (drule last, simp)
    apply (rule refl)
    done
qed

lemma talk_recv_pieces:
  assumes w: "working env w"
  shows "whole_packet ps \<Longrightarrow> length ps \<le> k \<Longrightarrow> length (raw_data raw) = DUSB_DATA_SIZE \<Longrightarrow> assembled ty declared d r
    \<Longrightarrow> length d + length (concat (map snd ps)) < 2 ^ 31
    \<Longrightarrow> \<exists>r'. assembled ty declared (d @ concat (map snd ps)) r' \<and>
      usb_talk m n w (recv_pieces env est k False raw r) (0, r') (acks (length ps)) (piece_bytes ps)"
proof (induction ps arbitrary: k raw d r)
  case Nil
  then show ?case by (simp add: whole_packet_def)
next
  case (Cons p ps)
  obtain t x where p: "p = (t, x)" by (cases p)
  obtain k' where k: "k = Suc k'" using Cons.prems(2) by (cases k) auto
  have t: "length x \<le> DUSB_DATA_SIZE" "t = DUSB_RPKT_VIRT_DATA \<or> t = DUSB_RPKT_VIRT_DATA_LAST"
    using Cons.prems(1) by (auto simp: whole_packet_Cons p split: if_splits)
  obtain r1 where r1: "assembled ty declared (d @ x) r1" "usb_talk m n w (next_piece est (held raw t x) r) r1 [] []"
    using talk_next_piece [OF Cons.prems(4) t(1), of m n w est t "drop (length x) (raw_data raw)"] Cons.prems(5) p by auto
  have place: "usb_talk m n w (if False then State_Monad.return (first_piece (held raw t x) r)
      else do { r \<leftarrow> next_piece est (held raw t x) r; State_Monad.return (0, r) }) (0, r1) [] []"
    unfolding if_False by (rule usb.converses_quietly, rule r1(2)) simp
  show ?case
  proof (cases "ps = []")
    case True
    then have "t = DUSB_RPKT_VIRT_DATA_LAST" using Cons.prems(1) by (simp add: whole_packet_Cons p)
    then have "usb_talk m n w (recv_pieces env est (Suc k') False raw r) (0, r1) (ack_bytes @ []) (raw_bytes t x @ [])"
      by (intro talk_step [OF w t place]) simp_all
    then show ?thesis using True r1(1) by (auto simp: p k)
  next
    case False
    then have ps: "whole_packet ps" "t = DUSB_RPKT_VIRT_DATA" using Cons.prems(1) by (simp_all add: whole_packet_Cons p)
    obtain r' where r': "assembled ty declared ((d @ x) @ concat (map snd ps)) r'"
      "usb_talk m n w (recv_pieces env est k' False (held raw t x) r1) (0, r') (acks (length ps)) (piece_bytes ps)"
      using Cons.IH [OF ps(1) _ _ r1(1), of k' "held raw t x"] Cons.prems(2,3,5) k t(1) by (auto simp: p)
    have "usb_talk m n w (recv_pieces env est (Suc k') False raw r) (0, r') (ack_bytes @ acks (length ps)) (raw_bytes t x @ piece_bytes ps)"
      by (rule talk_step [OF w t place]) (use r'(2) ps(2) in simp_all)
    then show ?thesis using r'(1) by (auto simp: p k)
  qed
qed

text \<open>The first piece has the header.\<close>

lemma talk_recv_first:
  assumes w: "working env w" and ps: "whole_packet ((t, data_header vtl @ x) # ps)" "length ps < k"
    and len: "length x + length (concat (map snd ps)) < 2 ^ 31"
  shows "\<exists>r'. assembled (vp_type vtl) (vp_size vtl) (x @ concat (map snd ps)) r' \<and>
    usb_talk m n w (recv_pieces env est k True zero_raw r) (0, r') (acks (Suc (length ps))) (piece_bytes ((t, data_header vtl @ x) # ps))"
proof -
  let ?x = "data_header vtl @ x"
  obtain k' where k: "k = Suc k'" using ps(2) by (cases k) auto
  have t: "length ?x \<le> DUSB_DATA_SIZE" "t = DUSB_RPKT_VIRT_DATA \<or> t = DUSB_RPKT_VIRT_DATA_LAST"
    using ps(1) by (auto simp: whole_packet_Cons split: if_splits)
  obtain r1 where r1: "assembled (vp_type vtl) (vp_size vtl) x r1" "first_piece (held zero_raw t ?x) r = (0, r1)"
    using first_assembled [OF t(1)] by blast
  have place: "usb_talk m n w (if True then State_Monad.return (first_piece (held zero_raw t ?x) r)
      else do { r \<leftarrow> next_piece est (held zero_raw t ?x) r; State_Monad.return (0, r) }) (0, r1) [] []"
    unfolding if_True r1(2) by (rule usb.converses_return)
  show ?thesis
  proof (cases "ps = []")
    case True
    then have "t = DUSB_RPKT_VIRT_DATA_LAST" using ps(1) by (simp add: whole_packet_Cons)
    then have "usb_talk m n w (recv_pieces env est (Suc k') True zero_raw r) (0, r1) (ack_bytes @ []) (raw_bytes t ?x @ [])"
      by (intro talk_step [OF w t place]) simp_all
    then show ?thesis using True r1(1) by (auto simp: k)
  next
    case False
    then have more: "whole_packet ps" "t = DUSB_RPKT_VIRT_DATA" using ps(1) by (simp_all add: whole_packet_Cons)
    obtain r' where r': "assembled (vp_type vtl) (vp_size vtl) (x @ concat (map snd ps)) r'"
      "usb_talk m n w (recv_pieces env est k' False (held zero_raw t ?x) r1) (0, r') (acks (length ps)) (piece_bytes ps)"
      using talk_recv_pieces [OF w more(1) _ _ r1(1) len, of k' "held zero_raw t ?x" m n est] ps(2) k t(1) by auto
    have "usb_talk m n w (recv_pieces env est (Suc k') True zero_raw r) (0, r') (ack_bytes @ acks (length ps)) (raw_bytes t ?x @ piece_bytes ps)"
      by (rule talk_step [OF w t place]) (use r'(2) more(2) in simp_all)
    then show ?thesis using r'(1) by (auto simp: k)
  qed
qed

text \<open>The pieces a packet is cut into make it up again.\<close>

lemma cut_whole: "0 < n \<Longrightarrow> n \<le> DUSB_DATA_SIZE \<Longrightarrow> whole_packet (cut n e) \<and> concat (map snd (cut n e)) = e"
proof (induction n e rule: cut.induct)
  case (1 n d)
  show ?case
  proof (cases "length d < n")
    case True
    then show ?thesis using 1 by (simp add: cut.simps [of n d] whole_packet_def)
  next
    case False
    have "cut n (drop n d) \<noteq> []" by (subst cut.simps) simp
    then show ?thesis using 1 False by (simp add: cut.simps [of n d] whole_packet_Cons)
  qed
qed

lemma virtual_whole:
  assumes "DUSB_DH_SIZE \<le> n" "n \<le> DUSB_DATA_SIZE"
  shows "\<exists>t x ps. virtual_pieces n vtl = (t, data_header vtl @ x) # ps \<and> whole_packet ((t, data_header vtl @ x) # ps)
    \<and> x @ concat (map snd ps) = take (unat (vp_size vtl)) (packet_data vtl)"
proof -
  let ?d = "take (unat (vp_size vtl)) (packet_data vtl)"
  let ?full = "data_header vtl @ ?d"
  show ?thesis
  proof (cases "length ?full \<le> n")
    case True
    then show ?thesis using assms by (auto simp: virtual_pieces_def pieces_of_def whole_packet_def)
  next
    case False
    have "0 < n" using assms(1) by (simp add: DUSB_DH_SIZE_def)
    note cut = cut_whole [OF this assms(2), of "drop n ?full"]
    have "virtual_pieces n vtl = (DUSB_RPKT_VIRT_DATA, take n ?full) # cut n (drop n ?full)"
      using False by (simp only: virtual_pieces_def pieces_of_def if_False)
    moreover have "take n ?full = data_header vtl @ take (n - DUSB_DH_SIZE) ?d" "drop n ?full = drop (n - DUSB_DH_SIZE) ?d"
      using assms(1) by simp_all
    moreover have "cut n (drop n ?full) \<noteq> []" by (subst cut.simps) simp
    ultimately show ?thesis using cut assms
      by (intro exI [of _ DUSB_RPKT_VIRT_DATA] exI [of _ "take (n - DUSB_DH_SIZE) ?d"] exI [of _ "cut n (drop n ?full)"])
        (simp add: whole_packet_Cons del: take_take)
  qed
qed

text \<open>The same size, type and data; a packet without data may have no block.\<close>

definition same_packet :: "virtual_packet \<Rightarrow> virtual_packet \<Rightarrow> bool" where
  "same_packet v vtl \<longleftrightarrow> vp_size v = vp_size vtl \<and> vp_type v = vp_type vtl
     \<and> packet_data v = take (unat (vp_size vtl)) (packet_data vtl)"

lemma talk_recv_varsize:
  assumes w: "working env w" and d: "unat (vp_size vtl) \<le> length (packet_data vtl)" "unat (vp_size vtl) < 2 ^ 31"
    and k: "DUSB_DH_SIZE \<le> k" "k \<le> DUSB_DATA_SIZE" "length (virtual_pieces k vtl) \<le> rounds env"
  shows "\<exists>v. same_packet v vtl \<and> usb_talk m n w (dusb_recv_data_varsize env v0 old est) (0, v, vp_size vtl)
    (acks (length (virtual_pieces k vtl))) (piece_bytes (virtual_pieces k vtl))"
proof -
  let ?d = "take (unat (vp_size vtl)) (packet_data vtl)"
  obtain t x ps where ps: "virtual_pieces k vtl = (t, data_header vtl @ x) # ps" "whole_packet ((t, data_header vtl @ x) # ps)"
    "x @ concat (map snd ps) = ?d"
    using virtual_whole [OF k(1,2)] by blast
  have len: "length x + length (concat (map snd ps)) = unat (vp_size vtl)"
    using arg_cong [OF ps(3), of length] d(1) by simp
  obtain r where r: "assembled (vp_type vtl) (vp_size vtl) ?d r"
    "usb_talk m n w (recv_pieces env est (rounds env) True zero_raw \<lparr>got_packet = v0, alloc_size = 0, declared_size = old\<rparr>) (0, r)
      (acks (length (virtual_pieces k vtl))) (piece_bytes (virtual_pieces k vtl))"
    using talk_recv_first [OF w ps(2), of "rounds env" m n est] k(3) len d(2) ps(1,3) by auto
  have parts: "declared_size r = vp_size vtl" "same_packet (got_packet r) vtl"
    using r(1) d(1) by (auto simp: assembled_def same_packet_def packet_data_def)
  have "usb_talk m n w (dusb_recv_data_varsize env v0 old est) (0, got_packet r, declared_size r)
    (acks (length (virtual_pieces k vtl))) (piece_bytes (virtual_pieces k vtl))"
    unfolding dusb_recv_data_varsize_def Let_def
    apply (rule usb.converses_get, elim conjE)
    apply (simp only: if_False)
    apply (rule usb.converses_busy)
    apply (rule usb.converses_quietly [OF usb.converses_cable(3) [OF w]])
    apply (simp only: refl not_True_eq_False if_False)
    apply (rule usb.converses_then [OF r(2), where out' = "[]" and inp' = "[]"])
      apply (simp only: prod.case)
      apply (rule usb.converses_quietly [OF usb.converses_cable(3) [OF w]])
      apply (rule usb.converses_quietly [OF usb.converses_clear])
      apply simp_all
    done
  then show ?thesis using parts by auto
qed

lemma talk_recv_data:
  assumes w: "working env w" and d: "unat (vp_size vtl) \<le> length (packet_data vtl)" "unat (vp_size vtl) < 2 ^ 31"
    and k: "DUSB_DH_SIZE \<le> k" "k \<le> DUSB_DATA_SIZE" "length (virtual_pieces k vtl) \<le> rounds env"
  shows "\<exists>v. same_packet v vtl \<and> usb_talk m n w (dusb_recv_data env v0) (0, v)
    (acks (length (virtual_pieces k vtl))) (piece_bytes (virtual_pieces k vtl))"
proof -
  obtain v where v: "same_packet v vtl" "usb_talk m n w
      (dusb_recv_data_varsize env v0 (be_word (map (past_end env) [0..<4])) 0) (0, v, vp_size vtl)
      (acks (length (virtual_pieces k vtl))) (piece_bytes (virtual_pieces k vtl))"
    using talk_recv_varsize [OF assms] by blast
  have "usb_talk m n w (dusb_recv_data env v0) (0, v) (acks (length (virtual_pieces k vtl))) (piece_bytes (virtual_pieces k vtl))"
    unfolding dusb_recv_data_def
    apply (rule usb.converses_then [OF v(2), where out' = "[]" and inp' = "[]"])
    using v(1) apply (simp_all add: same_packet_def)
    done
  then show ?thesis using v(1) by blast
qed

section \<open>Properties\<close>

text \<open>
  C34: A virtual packet sent over USB is the packet received, when the size agreed on for the pieces is 6 to
  1023 bytes and the packet has fewer than \<open>2^31\<close> bytes, all of them there.  \<open>dusb_send_data\<close> cuts header
  and data into pieces of that size, waits for the acknowledgement of each and returns 0; and wherever these
  bytes come in, \<open>dusb_recv_data\<close> puts them together to a packet of the same size, type and data, sends
  exactly these acknowledgements, and takes exactly the bytes sent.  Under these conditions neither reads or
  writes past an array, divides by zero or fails to end.
\<close>

theorem usb_packet_roundtrip:
  assumes "working env w" "\<not> no_handle h" "DUSB_DH_SIZE \<le> unat (rpkt_maxlen h)" "unat (rpkt_maxlen h) \<le> DUSB_DATA_SIZE"
    and "unat (vp_size vtl) \<le> length (packet_data vtl)" "unat (vp_size vtl) < 2 ^ 31"
    and "k = length (virtual_pieces (unat (rpkt_maxlen h)) vtl)" "carries w (asked (history h)) (acks k)"
  shows "\<exists>h1 out. run_state (dusb_send_data env vtl) h = (0, h1)
    \<and> out = piece_bytes (virtual_pieces (unat (rpkt_maxlen h)) vtl)
    \<and> wire_bytes (history h1) = wire_bytes (history h) @ out \<and> asked (history h1) = asked (history h) + length (acks k)
    \<and> filter faulty (history h1) = filter faulty (history h)
    \<and> (\<forall>env' w' h'. working env' w' \<and> \<not> no_handle h' \<and> k \<le> rounds env' \<and> carries w' (asked (history h')) out \<longrightarrow>
        (\<exists>v h2. run_state (dusb_recv_data env' v0) h' = ((0, v), h2) \<and> same_packet v vtl
          \<and> wire_bytes (history h2) = wire_bytes (history h') @ acks k \<and> asked (history h2) = asked (history h') + length out
          \<and> filter faulty (history h2) = filter faulty (history h')))"
proof -
  let ?n = "rpkt_maxlen h"
  let ?out = "piece_bytes (virtual_pieces (unat ?n) vtl)"
  have "\<not> no_handle h \<and> link_model h = link_model h \<and> rpkt_maxlen h = ?n" using assms(2) by simp
  from usb.converses_runs [OF talk_send_data [OF assms(1,5,3,4)] this] assms(7,8)
  obtain h1 where h1: "run_state (dusb_send_data env vtl) h = (0, h1)" "advances h h1 ?out (length (acks k))" by auto
  have received: "\<exists>v h2. run_state (dusb_recv_data env' v0) h' = ((0, v), h2) \<and> same_packet v vtl
      \<and> wire_bytes (history h2) = wire_bytes (history h') @ acks k \<and> asked (history h2) = asked (history h') + length ?out
      \<and> filter faulty (history h2) = filter faulty (history h')"
    if w': "working env' w'" "\<not> no_handle h'" "k \<le> rounds env'" "carries w' (asked (history h')) ?out" for env' w' h'
  proof -
    obtain v where v: "same_packet v vtl"
      "usb_talk (link_model h') (rpkt_maxlen h') w' (dusb_recv_data env' v0) (0, v) (acks k) ?out"
      using talk_recv_data [OF w'(1) assms(5,6,3,4)] w'(3) assms(7) by blast
    have "\<not> no_handle h' \<and> link_model h' = link_model h' \<and> rpkt_maxlen h' = rpkt_maxlen h'" using w'(2) by simp
    from usb.converses_runs [OF v(2) this w'(4)] v(1) show ?thesis by (auto simp: advances_def)
  qed
  show ?thesis
  proof (intro exI [of _ h1] exI [of _ ?out] conjI allI impI, goal_cases)
    case (6 env' w' h')
    then show ?case using received by blast
  qed (use h1 in \<open>simp_all add: advances_def\<close>)
qed

text \<open>Five bytes in pieces of eight: the second piece is the last one.\<close>

definition example_usb :: link where
  "example_usb = example_link\<lparr>link_model := CALC_TI84P_USB, rpkt_maxlen := 8\<rparr>"

definition example_packet :: virtual_packet where
  "example_packet = \<lparr>vp_size = 5, vp_type = DUSB_VPKT_VAR_CNTS, vp_data = Some [1, 2, 3, 4, 5]\<rparr>"

lemma usb_packet_roundtrip_witness:
  "\<exists>h1 v h2. run_state (dusb_send_data (stream_env (acks 2)) example_packet) example_usb = (0, h1)
    \<and> wire_bytes (history h1) = [0, 0, 0, 8, 3, 0, 0, 0, 5, 0, 13, 1, 2, 0, 0, 0, 3, 4, 3, 4, 5]
    \<and> run_state (dusb_recv_data (stream_env [0, 0, 0, 8, 3, 0, 0, 0, 5, 0, 13, 1, 2, 0, 0, 0, 3, 4, 3, 4, 5])
        \<lparr>vp_size = 0, vp_type = 0, vp_data = None\<rparr>) example_usb = ((0, v), h2)
    \<and> same_packet v example_packet \<and> wire_bytes (history h2) = acks 2"
proof -
  let ?bs = "[0, 0, 0, 8, 3, 0, 0, 0, 5, 0, 13, 1, 2, 0, 0, 0, 3, 4, 3, 4, 5] :: bytes"
  have u: "\<not> no_handle example_usb" "rpkt_maxlen example_usb = 8" "history example_usb = []"
    by (simp_all add: example_usb_def example_link_def)
  have e: "unat (vp_size example_packet) = 5" "length (packet_data example_packet) = 5"
    by (simp_all add: example_packet_def packet_data_def)
  have word_numeral: "unat (8 :: u32) = 8" by simp
  have p: "virtual_pieces 8 example_packet = [(DUSB_RPKT_VIRT_DATA, [0, 0, 0, 5, 0, 13, 1, 2]), (DUSB_RPKT_VIRT_DATA_LAST, [3, 4, 5])]"
    by code_simp
  have bs: "piece_bytes (virtual_pieces 8 example_packet) = ?bs" unfolding p by code_simp
  have k: "length (virtual_pieces (unat (rpkt_maxlen example_usb)) example_packet) = 2" unfolding u(2) by (simp add: p)
  have carried: "carries (\<lambda>i. if i < length (acks 2) then acks 2 ! i else 0) (asked (history example_usb)) (acks 2)"
    using stream_carries by (simp add: u)
  have pre: "DUSB_DH_SIZE \<le> unat (rpkt_maxlen example_usb)" "unat (rpkt_maxlen example_usb) \<le> DUSB_DATA_SIZE"
    "unat (vp_size example_packet) \<le> length (packet_data example_packet)" "unat (vp_size example_packet) < 2 ^ 31"
    by (simp_all add: u e DUSB_DH_SIZE_def DUSB_DATA_SIZE_def)
  let ?v0 = "\<lparr>vp_size = 0, vp_type = 0, vp_data = None\<rparr>"
  obtain h1 where h1: "run_state (dusb_send_data (stream_env (acks 2)) example_packet) example_usb = (0, h1)" "wire_bytes (history h1) = ?bs"
    and rest: "\<forall>env' w' h'. working env' w' \<and> \<not> no_handle h' \<and> 2 \<le> rounds env' \<and> carries w' (asked (history h')) ?bs \<longrightarrow>
      (\<exists>v h2. run_state (dusb_recv_data env' ?v0) h' = ((0, v), h2) \<and> same_packet v example_packet
        \<and> wire_bytes (history h2) = wire_bytes (history h') @ acks 2 \<and> asked (history h2) = asked (history h') + length ?bs
        \<and> filter faulty (history h2) = filter faulty (history h'))"
    using usb_packet_roundtrip [OF stream_works u(1) pre k [symmetric] carried, of ?v0] unfolding u(2,3) word_numeral bs
    by auto
  have "carries (\<lambda>i. if i < length ?bs then ?bs ! i else 0) (asked (history example_usb)) ?bs"
    unfolding u(3) asked.simps by (rule stream_carries)
  with rest stream_works [of ?bs] u(1) have "\<exists>v h2. run_state (dusb_recv_data (stream_env ?bs) \<lparr>vp_size = 0, vp_type = 0, vp_data = None\<rparr>) example_usb
      = ((0, v), h2) \<and> same_packet v example_packet \<and> wire_bytes (history h2) = acks 2"
    by (fastforce simp: u stream_env_def)
  then show ?thesis using h1(1,2) by blast
qed

end
