(* ===== verification/Dusb_Cmd.thy ===== *)
theory Dusb_Cmd
  imports Dusb_Packet Link_Program
begin

text \<open>
  The commands of the USB port (\<open>libticalcs\<close>, \<open>dusb_cmd.cc\<close>): each sends one virtual packet or receives
  one and takes it apart.  Strings are byte lists without their terminator; an array and its number of
  elements are one list, and neither these nor results to be filled in are NULL.  Data are read where
  the code reads them: a byte behind what was received is recorded as \<open>Overread\<close>.  The log, the printing
  of packets and the functions that only free or grow a block are left out.
\<close>

section \<open>Constants\<close>

abbreviation (input) DUSB_PID_PRODUCT_NUMBER :: u16 where "DUSB_PID_PRODUCT_NUMBER \<equiv> 0x0001"
abbreviation (input) DUSB_PID_PRODUCT_NAME :: u16 where "DUSB_PID_PRODUCT_NAME \<equiv> 0x0002"
abbreviation (input) DUSB_PID_MAIN_PART_ID :: u16 where "DUSB_PID_MAIN_PART_ID \<equiv> 0x0003"
abbreviation (input) DUSB_PID_HW_VERSION :: u16 where "DUSB_PID_HW_VERSION \<equiv> 0x0004"
abbreviation (input) DUSB_PID_FULL_ID :: u16 where "DUSB_PID_FULL_ID \<equiv> 0x0005"
abbreviation (input) DUSB_PID_LANGUAGE_ID :: u16 where "DUSB_PID_LANGUAGE_ID \<equiv> 0x0006"
abbreviation (input) DUSB_PID_SUBLANG_ID :: u16 where "DUSB_PID_SUBLANG_ID \<equiv> 0x0007"
abbreviation (input) DUSB_PID_DEVICE_TYPE :: u16 where "DUSB_PID_DEVICE_TYPE \<equiv> 0x0008"
abbreviation (input) DUSB_PID_BOOT_VERSION :: u16 where "DUSB_PID_BOOT_VERSION \<equiv> 0x0009"
abbreviation (input) DUSB_PID_OS_MODE :: u16 where "DUSB_PID_OS_MODE \<equiv> 0x000A"
abbreviation (input) DUSB_PID_OS_VERSION :: u16 where "DUSB_PID_OS_VERSION \<equiv> 0x000B"
abbreviation (input) DUSB_PID_PHYS_RAM :: u16 where "DUSB_PID_PHYS_RAM \<equiv> 0x000C"
abbreviation (input) DUSB_PID_USER_RAM :: u16 where "DUSB_PID_USER_RAM \<equiv> 0x000D"
abbreviation (input) DUSB_PID_FREE_RAM :: u16 where "DUSB_PID_FREE_RAM \<equiv> 0x000E"
abbreviation (input) DUSB_PID_PHYS_FLASH :: u16 where "DUSB_PID_PHYS_FLASH \<equiv> 0x000F"
abbreviation (input) DUSB_PID_USER_FLASH :: u16 where "DUSB_PID_USER_FLASH \<equiv> 0x0010"
abbreviation (input) DUSB_PID_FREE_FLASH :: u16 where "DUSB_PID_FREE_FLASH \<equiv> 0x0011"
abbreviation (input) DUSB_PID_USER_PAGES :: u16 where "DUSB_PID_USER_PAGES \<equiv> 0x0012"
abbreviation (input) DUSB_PID_FREE_PAGES :: u16 where "DUSB_PID_FREE_PAGES \<equiv> 0x0013"
abbreviation (input) DUSB_PID_HAS_SCREEN :: u16 where "DUSB_PID_HAS_SCREEN \<equiv> 0x0019"
abbreviation (input) DUSB_PID_COLOR_AVAILABLE :: u16 where "DUSB_PID_COLOR_AVAILABLE \<equiv> 0x001B"
abbreviation (input) DUSB_PID_COLOR_DEPTH :: u16 where "DUSB_PID_COLOR_DEPTH \<equiv> 0x001C"
abbreviation (input) DUSB_PID_BITS_PER_PIXEL :: u16 where "DUSB_PID_BITS_PER_PIXEL \<equiv> 0x001D"
abbreviation (input) DUSB_PID_LCD_WIDTH :: u16 where "DUSB_PID_LCD_WIDTH \<equiv> 0x001E"
abbreviation (input) DUSB_PID_LCD_HEIGHT :: u16 where "DUSB_PID_LCD_HEIGHT \<equiv> 0x001F"
abbreviation (input) DUSB_PID_SCREENSHOT :: u16 where "DUSB_PID_SCREENSHOT \<equiv> 0x0022"
abbreviation (input) DUSB_PID_CLASSIC_CLK_SUPPORT :: u16 where "DUSB_PID_CLASSIC_CLK_SUPPORT \<equiv> 0x0023"
abbreviation (input) DUSB_PID_CLK_ON :: u16 where "DUSB_PID_CLK_ON \<equiv> 0x0024"
abbreviation (input) DUSB_PID_CLK_SEC_SINCE_1997 :: u16 where "DUSB_PID_CLK_SEC_SINCE_1997 \<equiv> 0x0025"
abbreviation (input) DUSB_PID_CLK_TZ :: u16 where "DUSB_PID_CLK_TZ \<equiv> 0x0026"
abbreviation (input) DUSB_PID_CLK_DATE_FMT :: u16 where "DUSB_PID_CLK_DATE_FMT \<equiv> 0x0027"
abbreviation (input) DUSB_PID_CLK_TIME_FMT :: u16 where "DUSB_PID_CLK_TIME_FMT \<equiv> 0x0028"
abbreviation (input) DUSB_PID_BATTERY_ENOUGH :: u16 where "DUSB_PID_BATTERY_ENOUGH \<equiv> 0x002D"
abbreviation (input) DUSB_PID_BATTERY_LEVEL :: u16 where "DUSB_PID_BATTERY_LEVEL \<equiv> 0x002E"
abbreviation (input) DUSB_PID_HAS_EXTERNAL_POWER :: u16 where "DUSB_PID_HAS_EXTERNAL_POWER \<equiv> 0x002F"
abbreviation (input) DUSB_PID_USER_DATA_1 :: u16 where "DUSB_PID_USER_DATA_1 \<equiv> 0x0030"
abbreviation (input) DUSB_PID_FLASHAPPS :: u16 where "DUSB_PID_FLASHAPPS \<equiv> 0x0031"
abbreviation (input) DUSB_PID_USER_DATA_2 :: u16 where "DUSB_PID_USER_DATA_2 \<equiv> 0x0035"
abbreviation (input) DUSB_PID_MAIN_PART_ID_STRING :: u16 where "DUSB_PID_MAIN_PART_ID_STRING \<equiv> 0x0036"
abbreviation (input) DUSB_PID_HOMESCREEN :: u16 where "DUSB_PID_HOMESCREEN \<equiv> 0x0037"
abbreviation (input) DUSB_PID_BUSY :: u16 where "DUSB_PID_BUSY \<equiv> 0x0038"
abbreviation (input) DUSB_PID_SCREEN_SPLIT :: u16 where "DUSB_PID_SCREEN_SPLIT \<equiv> 0x0039"
abbreviation (input) DUSB_PID_NEW_CLK_SUPPORT :: u16 where "DUSB_PID_NEW_CLK_SUPPORT \<equiv> 0x003A"
abbreviation (input) DUSB_PID_CLK_SECONDS :: u16 where "DUSB_PID_CLK_SECONDS \<equiv> 0x003B"
abbreviation (input) DUSB_PID_CLK_MINUTES :: u16 where "DUSB_PID_CLK_MINUTES \<equiv> 0x003C"
abbreviation (input) DUSB_PID_CLK_HOURS :: u16 where "DUSB_PID_CLK_HOURS \<equiv> 0x003D"
abbreviation (input) DUSB_PID_CLK_DAY :: u16 where "DUSB_PID_CLK_DAY \<equiv> 0x003E"
abbreviation (input) DUSB_PID_CLK_MONTH :: u16 where "DUSB_PID_CLK_MONTH \<equiv> 0x003F"
abbreviation (input) DUSB_PID_CLK_YEAR :: u16 where "DUSB_PID_CLK_YEAR \<equiv> 0x0040"
abbreviation (input) DUSB_PID_ANS_TYPE :: u16 where "DUSB_PID_ANS_TYPE \<equiv> 0x0045"
abbreviation (input) DUSB_PID_ANS :: u16 where "DUSB_PID_ANS \<equiv> 0x0046"
abbreviation (input) DUSB_PID_OS_BUILD_NUMBER :: u16 where "DUSB_PID_OS_BUILD_NUMBER \<equiv> 0x0048"
abbreviation (input) DUSB_PID_BOOT_BUILD_NUMBER :: u16 where "DUSB_PID_BOOT_BUILD_NUMBER \<equiv> 0x0049"
abbreviation (input) DUSB_PID_LAST_ERROR_CODE :: u16 where "DUSB_PID_LAST_ERROR_CODE \<equiv> 0x004A"
abbreviation (input) DUSB_PID_MATH_CAPABILITIES :: u16 where "DUSB_PID_MATH_CAPABILITIES \<equiv> 0x004B"
abbreviation (input) DUSB_PID_BOOT_HASH :: u16 where "DUSB_PID_BOOT_HASH \<equiv> 0x004C"
abbreviation (input) DUSB_PID_OS_HASH :: u16 where "DUSB_PID_OS_HASH \<equiv> 0x004D"
abbreviation (input) DUSB_PID_PTT_MODE_SET :: u16 where "DUSB_PID_PTT_MODE_SET \<equiv> 0x004F"
abbreviation (input) DUSB_PID_OS_VERSION_STRING :: u16 where "DUSB_PID_OS_VERSION_STRING \<equiv> 0x0052"
abbreviation (input) DUSB_PID_BOOT_VERSION_STRING :: u16 where "DUSB_PID_BOOT_VERSION_STRING \<equiv> 0x0053"
abbreviation (input) DUSB_PID_PTT_MODE_STATE :: u16 where "DUSB_PID_PTT_MODE_STATE \<equiv> 0x0054"
abbreviation (input) DUSB_PID_PTT_MODE_FEATURES :: u16 where "DUSB_PID_PTT_MODE_FEATURES \<equiv> 0x0055"
abbreviation (input) DUSB_PID_STOPWATCH_START :: u16 where "DUSB_PID_STOPWATCH_START \<equiv> 0x0059"
abbreviation (input) DUSB_PID_STOPWATCH_VALUE1 :: u16 where "DUSB_PID_STOPWATCH_VALUE1 \<equiv> 0x005B"
abbreviation (input) DUSB_PID_STOPWATCH_VALUE2 :: u16 where "DUSB_PID_STOPWATCH_VALUE2 \<equiv> 0x005C"
abbreviation (input) DUSB_PID_PYTHON_ON_BOARD :: u16 where "DUSB_PID_PYTHON_ON_BOARD \<equiv> 0x005D"
abbreviation (input) DUSB_AID_VAR_SIZE :: u16 where "DUSB_AID_VAR_SIZE \<equiv> 0x01"
abbreviation (input) DUSB_AID_VAR_TYPE :: u16 where "DUSB_AID_VAR_TYPE \<equiv> 0x02"
abbreviation (input) DUSB_AID_ARCHIVED :: u16 where "DUSB_AID_ARCHIVED \<equiv> 0x03"
abbreviation (input) DUSB_AID_UNKNOWN_04 :: u16 where "DUSB_AID_UNKNOWN_04 \<equiv> 0x04"
abbreviation (input) DUSB_AID_4APPVAR :: u16 where "DUSB_AID_4APPVAR \<equiv> 0x05"
abbreviation (input) DUSB_AID_VAR_VERSION :: u16 where "DUSB_AID_VAR_VERSION \<equiv> 0x08"
abbreviation (input) DUSB_AID_VAR_TYPE2 :: u16 where "DUSB_AID_VAR_TYPE2 \<equiv> 0x11"
abbreviation (input) DUSB_AID_ARCHIVED2 :: u16 where "DUSB_AID_ARCHIVED2 \<equiv> 0x13"
abbreviation (input) DUSB_AID_LOCKED :: u16 where "DUSB_AID_LOCKED \<equiv> 0x41"
abbreviation (input) DUSB_AID_UNKNOWN_42 :: u16 where "DUSB_AID_UNKNOWN_42 \<equiv> 0x42"
abbreviation (input) DUSB_AID_BACKUP_HEADER :: u16 where "DUSB_AID_BACKUP_HEADER \<equiv> 0xFFFE"
abbreviation (input) DUSB_EID_PRGM :: byte where "DUSB_EID_PRGM \<equiv> 0x00"
abbreviation (input) DUSB_EID_ASM :: byte where "DUSB_EID_ASM \<equiv> 0x01"
abbreviation (input) DUSB_EID_APP :: byte where "DUSB_EID_APP \<equiv> 0x02"
abbreviation (input) DUSB_EID_KEY :: byte where "DUSB_EID_KEY \<equiv> 0x03"
abbreviation (input) DUSB_EID_UNKNOWN :: byte where "DUSB_EID_UNKNOWN \<equiv> 0x04"

definition param_types :: "(u16 \<times> string) list" where
  "param_types =
     [(0x0000, ''''),
      (DUSB_PID_PRODUCT_NUMBER, ''Product number''),
      (DUSB_PID_PRODUCT_NAME, ''Product name''),
      (DUSB_PID_MAIN_PART_ID, ''Main part ID''),
      (DUSB_PID_HW_VERSION, ''Hardware version''),
      (DUSB_PID_FULL_ID, ''Full ID''),
      (DUSB_PID_LANGUAGE_ID, ''Language ID''),
      (DUSB_PID_SUBLANG_ID, ''Sub-language ID''),
      (DUSB_PID_DEVICE_TYPE, ''Device type''),
      (DUSB_PID_BOOT_VERSION, ''Boot version''),
      (DUSB_PID_OS_MODE, ''OS mode''),
      (DUSB_PID_OS_VERSION, ''OS version''),
      (DUSB_PID_PHYS_RAM, ''Physical RAM''),
      (DUSB_PID_USER_RAM, ''User RAM''),
      (DUSB_PID_FREE_RAM, ''Free RAM''),
      (DUSB_PID_PHYS_FLASH, ''Physical Flash''),
      (DUSB_PID_USER_FLASH, ''User Flash''),
      (DUSB_PID_FREE_FLASH, ''Free Flash''),
      (DUSB_PID_USER_PAGES, ''User pages''),
      (DUSB_PID_FREE_PAGES, ''Free pages''),
      (DUSB_PID_HAS_SCREEN, ''Has screen''),
      (DUSB_PID_COLOR_AVAILABLE, ''Color is available''),
      (DUSB_PID_COLOR_DEPTH, ''Color depth''),
      (DUSB_PID_BITS_PER_PIXEL, ''Bits per pixel''),
      (DUSB_PID_LCD_WIDTH, ''LCD width''),
      (DUSB_PID_LCD_HEIGHT, ''LCD height''),
      (DUSB_PID_SCREENSHOT, ''Screenshot''),
      (DUSB_PID_CLASSIC_CLK_SUPPORT, ''Classic clock supported''),
      (DUSB_PID_CLK_ON, ''Clock ON''),
      (DUSB_PID_CLK_SEC_SINCE_1997, ''Clock sec since 1997''),
      (DUSB_PID_CLK_TZ, ''Clock timezone''),
      (DUSB_PID_CLK_DATE_FMT, ''Clock date format''),
      (DUSB_PID_CLK_TIME_FMT, ''Clock time format''),
      (DUSB_PID_BATTERY_ENOUGH, ''Has enough battery for flash operations''),
      (DUSB_PID_BATTERY_LEVEL, ''Battery level''),
      (DUSB_PID_HAS_EXTERNAL_POWER, ''Has external power''),
      (DUSB_PID_USER_DATA_1, ''User data area 1''),
      (DUSB_PID_FLASHAPPS, ''FlashApps''),
      (DUSB_PID_USER_DATA_2, ''User data area 2''),
      (DUSB_PID_MAIN_PART_ID_STRING, ''Main part ID (as string)''),
      (DUSB_PID_HOMESCREEN, ''Home screen''),
      (DUSB_PID_BUSY, ''Busy''),
      (DUSB_PID_SCREEN_SPLIT, ''Screen split mode''),
      (DUSB_PID_NEW_CLK_SUPPORT, ''New clock supported''),
      (DUSB_PID_CLK_SECONDS, ''Clock seconds''),
      (DUSB_PID_CLK_MINUTES, ''Clock minutes''),
      (DUSB_PID_CLK_HOURS, ''Clock hours''),
      (DUSB_PID_CLK_DAY, ''Clock day''),
      (DUSB_PID_CLK_MONTH, ''Clock month''),
      (DUSB_PID_CLK_YEAR, ''Clock year''),
      (DUSB_PID_ANS_TYPE, ''Ans type''),
      (DUSB_PID_ANS, ''Ans contents''),
      (DUSB_PID_OS_BUILD_NUMBER, ''OS build number''),
      (DUSB_PID_BOOT_BUILD_NUMBER, ''Boot build number''),
      (DUSB_PID_LAST_ERROR_CODE, ''Last error code''),
      (DUSB_PID_MATH_CAPABILITIES, ''Math engine capabilities''),
      (DUSB_PID_BOOT_HASH, ''Boot hash''),
      (DUSB_PID_OS_HASH, ''OS hash''),
      (DUSB_PID_PTT_MODE_SET, ''PTT mode set''),
      (DUSB_PID_OS_VERSION_STRING, ''OS version (as string)''),
      (DUSB_PID_BOOT_VERSION_STRING, ''Boot version (as string)''),
      (DUSB_PID_PTT_MODE_STATE, ''PTT mode state''),
      (DUSB_PID_PTT_MODE_FEATURES, ''PTT mode features''),
      (DUSB_PID_STOPWATCH_START, ''Stopwatch start''),
      (DUSB_PID_STOPWATCH_VALUE1, ''Stopwatch value 1''),
      (DUSB_PID_STOPWATCH_VALUE2, ''Stopwatch value 2''),
      (DUSB_PID_PYTHON_ON_BOARD, ''Python On Board'')]"

definition dusb_cmd_param_type2name :: "u16 \<Rightarrow> string" where
  "dusb_cmd_param_type2name i = (case map_of param_types i of Some name \<Rightarrow> name | None \<Rightarrow> ''unknown: not listed'')"

section \<open>Parameters and attributes\<close>

text \<open>The two structures have the same fields; a block of no bytes is NULL.\<close>

record calc_param =
  cp_id :: u16
  cp_ok :: bool
  cp_size :: u16
  cp_data :: bytes

definition dusb_cp_new_ex :: "link \<Rightarrow> u16 \<Rightarrow> u16 \<Rightarrow> bytes \<Rightarrow> calc_param option" where
  "dusb_cp_new_ex h i sz d = (if no_handle h then None else Some \<lparr>cp_id = i, cp_ok = False, cp_size = sz, cp_data = d\<rparr>)"

definition dusb_cp_new :: "link \<Rightarrow> u16 \<Rightarrow> u16 \<Rightarrow> calc_param option" where
  "dusb_cp_new h i sz = dusb_cp_new_ex h i sz (replicate (unat sz) 0)"

definition dusb_cp_fill :: "calc_param option \<Rightarrow> u16 \<Rightarrow> u16 \<Rightarrow> bytes \<Rightarrow> calc_param option" where
  "dusb_cp_fill cp i sz d = map_option (\<lambda>cp. cp\<lparr>cp_id := i, cp_ok := False, cp_size := sz, cp_data := d\<rparr>) cp"

definition dusb_ca_new_ex :: "link \<Rightarrow> u16 \<Rightarrow> u16 \<Rightarrow> bytes \<Rightarrow> calc_param option" where
  "dusb_ca_new_ex h i sz d = (if no_handle h then None else Some \<lparr>cp_id = i, cp_ok = False, cp_size = sz, cp_data = d\<rparr>)"

definition dusb_ca_new :: "link \<Rightarrow> u16 \<Rightarrow> u16 \<Rightarrow> calc_param option" where
  "dusb_ca_new h i sz = dusb_ca_new_ex h i sz (replicate (unat sz) 0)"

definition dusb_ca_fill :: "calc_param option \<Rightarrow> u16 \<Rightarrow> u16 \<Rightarrow> bytes \<Rightarrow> calc_param option" where
  "dusb_ca_fill ca i sz d = map_option (\<lambda>ca. ca\<lparr>cp_id := i, cp_ok := False, cp_size := sz, cp_data := d\<rparr>) ca"

text \<open>An attribute of a valid handle, made and filled with as many bytes as it was made for.\<close>

definition attribute :: "u16 \<Rightarrow> bytes \<Rightarrow> calc_param" where
  "attribute i d = \<lparr>cp_id = i, cp_ok = False, cp_size = of_nat (length d), cp_data = d\<rparr>"

section \<open>Error codes\<close>

definition usb_errors :: "u16 list" where
  "usb_errors =
     [0x0004, 0x0006, 0x0008, 0x0009, 0x000c, 0x000d, 0x000e, 0x0011,
      0x0012, 0x001b, 0x001c, 0x001d, 0x0021, 0x0022, 0x0023, 0x0027,
      0x0029, 0x002b, 0x002c, 0x002d, 0x002e, 0x002f, 0x0030, 0x0034]"

fun err_code_from :: "nat \<Rightarrow> u16 list \<Rightarrow> u16 \<Rightarrow> int" where
  "err_code_from i [] code = 0"
| "err_code_from i (e # es) code = (if e = code then int i + 1 else err_code_from (i + 1) es code)"

definition err_code :: "u16 \<Rightarrow> int" where
  "err_code = err_code_from 0 usb_errors"

abbreviation (input) ERR_CALC_ERROR2 :: int where "ERR_CALC_ERROR2 \<equiv> 300"

text \<open>\<open>n\<close> bytes of a packet received, from the place \<open>off\<close> on.\<close>

definition read_at :: "link_env \<Rightarrow> virtual_packet \<Rightarrow> nat \<Rightarrow> nat \<Rightarrow> (link, bytes) state" where
  "read_at env v off n =
     (let d = packet_data v in
      if n = 0 \<or> off + n \<le> length d then State_Monad.return (take n (drop off d))
      else do {
        record_event (Overread (off + n - max off (length d)));
        State_Monad.return (map (\<lambda>i. if i < length d then d ! i else past_end env i) [off..<off + n]) })"

definition read_word :: "link_env \<Rightarrow> virtual_packet \<Rightarrow> nat \<Rightarrow> (link, u16) state" where
  "read_word env v off = do { bs \<leftarrow> read_at env v off 2; State_Monad.return (word_16 (bs ! 1) (bs ! 0)) }"

definition err_code_pkt :: "link_env \<Rightarrow> virtual_packet \<Rightarrow> (link, int) state" where
  "err_code_pkt env v = do { code \<leftarrow> read_word env v 0; State_Monad.return (err_code code) }"

section \<open>The check of a packet's data\<close>

text \<open>The parameters of a packet from the place \<open>p\<close> on; \<open>None\<close> is a read behind the data.\<close>

fun check_params :: "bytes \<Rightarrow> nat \<Rightarrow> nat \<Rightarrow> nat \<Rightarrow> nat \<Rightarrow> int option" where
  "check_params d n 0 extra p = Some (if length d = 2 + 3 * n + extra then 0 else ERR_INVALID_PACKET)"
| "check_params d n (Suc k) extra p =
     (if length d \<le> p + 2 then None
      else if d ! (p + 2) \<noteq> 0
      then (if length d < 2 + 3 * n + extra then Some ERR_INVALID_PACKET else check_params d n k extra (p + 3))
      else if length d \<le> p + 4 then None
      else
        let sz = unat (word_16 (d ! (p + 4)) (d ! (p + 3))); extra = extra + sz + 2
        in if length d < 2 + 3 * n + extra then Some ERR_INVALID_PACKET else check_params d n k extra (p + sz + 5))"

definition dusb_check_cmd_data :: "CalcModel \<Rightarrow> bytes \<Rightarrow> u16 \<Rightarrow> int option" where
  "dusb_check_cmd_data m d ty =
     (let valid = (\<lambda>b. Some (if b then 0 else ERR_INVALID_PACKET)); n = length d
      in if ty = DUSB_VPKT_PING then valid (n = 10)
      else if ty = DUSB_VPKT_PARM_REQ then valid (n \<ge> 2 \<and> n = 2 + 2 * unat (word_16 (d ! 1) (d ! 0)))
      else if ty = DUSB_VPKT_PARM_DATA
      then (let k = unat (word_16 (d ! 1) (d ! 0))
            in if n \<ge> 2 \<and> n \<ge> 2 + 3 * k then check_params d k k 0 2 else valid False)
      else if ty = DUSB_VPKT_PARM_SET then valid (n > 4 \<and> n = 4 + unat (word_16 (d ! 3) (d ! 2)))
      else if ty = DUSB_VPKT_OS_BEGIN then valid (n = 11)
      else if ty = DUSB_VPKT_OS_ACK then valid (n \<ge> 4)
      else if ty = DUSB_VPKT_OS_HEADER \<or> ty = DUSB_VPKT_OS_DATA then valid (if m = CALC_TI89T_USB then n > 0 else n > 4)
      else if ty = DUSB_VPKT_DELAY_ACK then valid (n = 4)
      else if ty = DUSB_VPKT_ERROR then valid (n = 2)
      else valid (ty \<in> {DUSB_VPKT_VAR_CNTS, DUSB_VPKT_MODE_SET, DUSB_VPKT_EOT_ACK, DUSB_VPKT_DATA_ACK, DUSB_VPKT_EOT,
        DUSB_VPKT_DIR_REQ, DUSB_VPKT_VAR_HDR, DUSB_VPKT_RTS, DUSB_VPKT_VAR_REQ, DUSB_VPKT_MODIF_VAR, DUSB_VPKT_EXECUTE}))"

text \<open>The size of a parameter is read although nothing is left of the data.\<close>

lemma size_read_past_end: "dusb_check_cmd_data m [0, 1, 0, 5, 0] DUSB_VPKT_PARM_DATA = None"
  by code_simp

section \<open>Sending and receiving commands\<close>

text \<open>A packet with the bytes \<open>d\<close>, in a block that has room for a header more.\<close>

definition send_packet :: "link_env \<Rightarrow> u16 \<Rightarrow> bytes \<Rightarrow> (link, int) state" where
  "send_packet env ty d = dusb_send_data env
     \<lparr>vp_size = of_nat (length d), vp_type = ty, vp_data = Some (write_at (dusb_vtl_pkt_alloc_data (length d)) 0 d)\<rparr>"

definition empty_packet :: virtual_packet where
  "empty_packet = \<lparr>vp_size = 0, vp_type = 0, vp_data = None\<rparr>"

text \<open>A request for a delay, cut to 400 ms, is granted once; the packet after it is the answer.\<close>

definition catch_delay :: "link_env \<Rightarrow> (virtual_packet \<Rightarrow> (link, int \<times> virtual_packet) state) \<Rightarrow> virtual_packet
    \<Rightarrow> (link, int \<times> virtual_packet) state" where
  "catch_delay env recv v =
     (if vp_type v = DUSB_VPKT_DELAY_ACK
      then do {
        bs \<leftarrow> read_at env v 0 4;
        record_event (Pause (min (unat (be_word bs)) 400000 div 1000));
        recv empty_packet }
      else State_Monad.return (0, v))"

definition recv_command :: "link_env \<Rightarrow> (virtual_packet \<Rightarrow> (link, int \<times> virtual_packet) state) \<Rightarrow> (link, int \<times> virtual_packet) state" where
  "recv_command env recv = do {
     (ret, v) \<leftarrow> recv empty_packet;
     if ret \<noteq> 0 then State_Monad.return (ret, v) else catch_delay env recv v }"

definition expect_type :: "link_env \<Rightarrow> u16 \<Rightarrow> virtual_packet \<Rightarrow> (link, int) state" where
  "expect_type env ty v =
     (if vp_type v = DUSB_VPKT_ERROR then do { e \<leftarrow> err_code_pkt env v; State_Monad.return (ERR_CALC_ERROR2 + e) }
      else State_Monad.return (if vp_type v \<noteq> ty then ERR_INVALID_PACKET else 0))"

definition recv_packet :: "link_env \<Rightarrow> u16 \<Rightarrow> (link, int \<times> virtual_packet) state" where
  "recv_packet env ty = do {
     (ret, v) \<leftarrow> recv_command env (dusb_recv_data env);
     if ret \<noteq> 0 then State_Monad.return (ret, v)
     else do { ret \<leftarrow> expect_type env ty v; State_Monad.return (ret, v) } }"

definition recv_answer_packet :: "link_env \<Rightarrow> u16 \<Rightarrow> (link, int) state" where
  "recv_answer_packet env ty = with_handle ERR_INVALID_HANDLE (\<lambda>h. only_status (recv_packet env ty))"

definition word_bytes :: "u16 \<Rightarrow> bytes" where
  "word_bytes w = [MSB w, LSB w]"

section \<open>Modes and operating system\<close>

record mode_set =
  arg1 :: u16
  arg2 :: u16
  arg3 :: u16
  arg4 :: u16
  arg5 :: u16

definition DUSB_MODE_NORMAL :: mode_set where
  "DUSB_MODE_NORMAL = \<lparr>arg1 = 3, arg2 = 1, arg3 = 0, arg4 = 0, arg5 = 0x07d0\<rparr>"

definition DUSB_MODE_BASIC :: mode_set where
  "DUSB_MODE_BASIC = \<lparr>arg1 = 2, arg2 = 1, arg3 = 0, arg4 = 0, arg5 = 0x07d0\<rparr>"

definition DUSB_MODE_STARTUP :: mode_set where
  "DUSB_MODE_STARTUP = \<lparr>arg1 = 1, arg2 = 1, arg3 = 0, arg4 = 0, arg5 = 0x07d0\<rparr>"

definition DUSB_DFL_BUF_SIZE :: u32 where "DUSB_DFL_BUF_SIZE = 1024"

definition dusb_cmd_s_mode_set :: "link_env \<Rightarrow> mode_set \<Rightarrow> (link, int) state" where
  "dusb_cmd_s_mode_set env mode = with_handle ERR_INVALID_HANDLE (\<lambda>h.
     steps [dusb_send_buf_size_request env DUSB_DFL_BUF_SIZE, only_status (dusb_recv_buf_size_alloc env 0),
       send_packet env DUSB_VPKT_PING
         (word_bytes (arg1 mode) @ word_bytes (arg2 mode) @ word_bytes (arg3 mode) @ word_bytes (arg4 mode) @ word_bytes (arg5 mode))])"

definition dusb_cmd_s_os_begin :: "link_env \<Rightarrow> u32 \<Rightarrow> (link, int) state" where
  "dusb_cmd_s_os_begin env sz = with_handle ERR_INVALID_HANDLE (\<lambda>h.
     send_packet env DUSB_VPKT_OS_BEGIN (replicate 7 0 @ size_bytes sz))"

definition dusb_cmd_r_os_ack :: "link_env \<Rightarrow> u32 \<Rightarrow> (link, int \<times> u32) state" where
  "dusb_cmd_r_os_ack env old = with_handle (ERR_INVALID_HANDLE, old) (\<lambda>h.
     yielding (recv_packet env DUSB_VPKT_OS_ACK) old (\<lambda>v. do {
       bs \<leftarrow> read_at env v 0 4;
       State_Monad.return (0, be_word bs) }))"

text \<open>Data of \<open>sz\<close> bytes behind a head.\<close>

definition send_with_head :: "link_env \<Rightarrow> u16 \<Rightarrow> bytes \<Rightarrow> u32 \<Rightarrow> bytes option \<Rightarrow> (link, int) state" where
  "send_with_head env ty head sz data = with_handle ERR_INVALID_HANDLE (\<lambda>h. with_nonnull data (\<lambda>data. do {
     d \<leftarrow> read_array env (unat sz) data;
     send_packet env ty (head @ d) }))"

definition s_os :: "u16 \<Rightarrow> link_env \<Rightarrow> u16 \<Rightarrow> byte \<Rightarrow> byte \<Rightarrow> u32 \<Rightarrow> bytes option \<Rightarrow> (link, int) state" where
  "s_os ty env addr page flag = send_with_head env ty (word_bytes addr @ [page, flag])"

definition dusb_cmd_s_os_header :: "link_env \<Rightarrow> u16 \<Rightarrow> byte \<Rightarrow> byte \<Rightarrow> u32 \<Rightarrow> bytes option \<Rightarrow> (link, int) state" where
  "dusb_cmd_s_os_header = s_os DUSB_VPKT_OS_HEADER"

definition dusb_cmd_s_os_data :: "link_env \<Rightarrow> u16 \<Rightarrow> byte \<Rightarrow> byte \<Rightarrow> u32 \<Rightarrow> bytes option \<Rightarrow> (link, int) state" where
  "dusb_cmd_s_os_data = s_os DUSB_VPKT_OS_DATA"

definition dusb_cmd_s_os_header_89 :: "link_env \<Rightarrow> u32 \<Rightarrow> bytes option \<Rightarrow> (link, int) state" where
  "dusb_cmd_s_os_header_89 env = send_with_head env DUSB_VPKT_OS_HEADER []"

definition dusb_cmd_s_os_data_89 :: "link_env \<Rightarrow> u32 \<Rightarrow> bytes option \<Rightarrow> (link, int) state" where
  "dusb_cmd_s_os_data_89 env = send_with_head env DUSB_VPKT_OS_DATA []"

definition dusb_cmd_s_os_data_834pce :: "link_env \<Rightarrow> u32 \<Rightarrow> u32 \<Rightarrow> bytes option \<Rightarrow> (link, int) state" where
  "dusb_cmd_s_os_data_834pce env addr = send_with_head env DUSB_VPKT_OS_DATA
     [ucast (addr AND 0xFF), ucast (drop_bit 8 addr AND 0xFF), ucast (drop_bit 16 addr AND 0xFF), ucast (drop_bit 24 addr AND 0xFF)]"

definition dusb_cmd_r_eot_ack :: "link_env \<Rightarrow> (link, int) state" where
  "dusb_cmd_r_eot_ack env = recv_answer_packet env DUSB_VPKT_EOT_ACK"

section \<open>Parameters\<close>

definition dusb_cmd_s_param_request :: "link_env \<Rightarrow> u16 list \<Rightarrow> (link, int) state" where
  "dusb_cmd_s_param_request env pids = with_handle ERR_INVALID_HANDLE (\<lambda>h.
     send_packet env DUSB_VPKT_PARM_REQ (word_bytes (of_nat (length pids)) @ concat (map word_bytes pids)))"

text \<open>A parameter or attribute as the calculator sends it, at the place \<open>j\<close>; the place behind it.\<close>

definition read_param :: "link_env \<Rightarrow> virtual_packet \<Rightarrow> nat \<Rightarrow> (link, calc_param \<times> nat) state" where
  "read_param env v j = do {
     i \<leftarrow> read_word env v j;
     ok \<leftarrow> read_at env v (j + 2) 1;
     if ok ! 0 \<noteq> 0 then State_Monad.return (\<lparr>cp_id = i, cp_ok = False, cp_size = 0, cp_data = []\<rparr>, j + 3)
     else do {
       sz \<leftarrow> read_word env v (j + 3);
       d \<leftarrow> read_at env v (j + 5) (unat sz);
       State_Monad.return (\<lparr>cp_id = i, cp_ok = True, cp_size = sz, cp_data = d\<rparr>, j + 5 + unat sz) } }"

primrec read_params :: "link_env \<Rightarrow> virtual_packet \<Rightarrow> nat \<Rightarrow> nat \<Rightarrow> (link, calc_param list) state" where
  "read_params env v 0 j = State_Monad.return []"
| "read_params env v (Suc n) j = do {
     (s, j) \<leftarrow> read_param env v j;
     ss \<leftarrow> read_params env v n j;
     State_Monad.return (s # ss) }"

definition dusb_cmd_r_param_data :: "link_env \<Rightarrow> nat \<Rightarrow> (link, int \<times> calc_param list) state" where
  "dusb_cmd_r_param_data env nparams = with_handle (ERR_INVALID_HANDLE, []) (\<lambda>h.
     yielding (recv_packet env DUSB_VPKT_PARM_DATA) [] (\<lambda>v. do {
       n \<leftarrow> read_word env v 0;
       if unat n \<noteq> nparams then State_Monad.return (ERR_INVALID_PACKET, [])
       else do { params \<leftarrow> read_params env v nparams 2; State_Monad.return (0, params) } }))"

text \<open>A screenshot comes as the one parameter of a packet that may be longer than declared.\<close>

definition recv_varsize :: "link_env \<Rightarrow> u32 \<Rightarrow> virtual_packet \<Rightarrow> (link, int \<times> virtual_packet) state" where
  "recv_varsize env est v = do {
     (ret, v, declared) \<leftarrow> dusb_recv_data_varsize env v 0 est;
     State_Monad.return (ret, v) }"

definition is_screenshot :: "link_env \<Rightarrow> virtual_packet \<Rightarrow> (link, bool) state" where
  "is_screenshot env v = do {
     n \<leftarrow> read_word env v 0;
     if n \<noteq> 1 then State_Monad.return False
     else do {
       pid \<leftarrow> read_word env v 2;
       if pid \<noteq> DUSB_PID_SCREENSHOT then State_Monad.return False
       else do { ok \<leftarrow> read_at env v 4 1; State_Monad.return (ok ! 0 = 0) } } }"

definition dusb_cmd_r_screenshot :: "link_env \<Rightarrow> (link, int \<times> u32 \<times> bytes) state" where
  "dusb_cmd_r_screenshot env = with_handle (ERR_INVALID_HANDLE, 0, []) (\<lambda>h.
     yielding (recv_command env (recv_varsize env 153600)) (0, []) (\<lambda>v. do {
       ret \<leftarrow> expect_type env DUSB_VPKT_PARM_DATA v;
       if ret \<noteq> 0 then State_Monad.return (ret, 0, [])
       else do {
         ok \<leftarrow> is_screenshot env v;
         if \<not> ok then State_Monad.return (ERR_INVALID_PACKET, 0, [])
         else do {
           d \<leftarrow> read_at env v 7 (unat (vp_size v - 7));
           State_Monad.return (0, vp_size v - 7, d) } } }))"

definition dusb_cmd_s_param_set :: "link_env \<Rightarrow> calc_param \<Rightarrow> (link, int) state" where
  "dusb_cmd_s_param_set env param = with_handle ERR_INVALID_HANDLE (\<lambda>h. do {
     d \<leftarrow> read_array env (unat (cp_size param)) (cp_data param);
     send_packet env DUSB_VPKT_PARM_SET (word_bytes (cp_id param) @ word_bytes (cp_size param) @ d) })"

section \<open>Variables\<close>

text \<open>An empty folder is the length 0 alone; a name always has its terminator.\<close>

definition named :: "bytes \<Rightarrow> bytes" where
  "named s = of_nat (length s) # s @ [0]"

definition named_if_any :: "bytes \<Rightarrow> bytes" where
  "named_if_any s = (if s = [] then [0] else named s)"

primrec attr_bytes :: "link_env \<Rightarrow> calc_param list \<Rightarrow> (link, bytes) state" where
  "attr_bytes env [] = State_Monad.return []"
| "attr_bytes env (a # as) = do {
     d \<leftarrow> read_array env (unat (cp_size a)) (cp_data a);
     rest \<leftarrow> attr_bytes env as;
     State_Monad.return (word_bytes (cp_id a) @ word_bytes (cp_size a) @ d @ rest) }"

definition attr_list :: "link_env \<Rightarrow> calc_param list \<Rightarrow> (link, bytes) state" where
  "attr_list env as = do { bs \<leftarrow> attr_bytes env as; State_Monad.return (word_bytes (of_nat (length as)) @ bs) }"

definition dusb_cmd_s_dirlist_request :: "link_env \<Rightarrow> u16 list \<Rightarrow> (link, int) state" where
  "dusb_cmd_s_dirlist_request env aids = with_handle ERR_INVALID_HANDLE (\<lambda>h.
     send_packet env DUSB_VPKT_DIR_REQ
       (size_bytes (of_nat (length aids)) @ concat (map word_bytes aids) @ [0x00, 0x01, 0x00, 0x01, 0x00, 0x01, 0x01]))"

text \<open>A name is copied with its terminator into an array of \<open>room\<close> bytes; its bytes and the place behind it.\<close>

definition read_name :: "link_env \<Rightarrow> virtual_packet \<Rightarrow> nat \<Rightarrow> nat \<Rightarrow> (link, bytes \<times> nat) state" where
  "read_name env v room j = do {
     n \<leftarrow> read_at env v j 1;
     if n ! 0 = 0 then State_Monad.return ([0], j + 1)
     else do {
       d \<leftarrow> read_at env v (j + 1) (unat (n ! 0) + 1);
       received_into room d;
       State_Monad.return (d, j + 2 + unat (n ! 0)) } }"

text \<open>
  Folder, name and attributes.  The number of attributes is the calculator's; the caller's array has room
  for \<open>attr_room\<close> pointers of eight bytes.
\<close>

definition dusb_cmd_r_var_header :: "link_env \<Rightarrow> nat \<Rightarrow> nat \<Rightarrow> (link, int \<times> bytes \<times> bytes \<times> calc_param list) state" where
  "dusb_cmd_r_var_header env room attr_room = with_handle (ERR_INVALID_HANDLE, [], [], []) (\<lambda>h.
     yielding (recv_command env (dusb_recv_data env)) ([0], [0], []) (\<lambda>v.
       if vp_type v = DUSB_VPKT_EOT then State_Monad.return (ERR_EOT, [0], [0], [])
       else do {
         ret \<leftarrow> expect_type env DUSB_VPKT_VAR_HDR v;
         if ret \<noteq> 0 then State_Monad.return (ret, [0], [0], [])
         else do {
           (folder, j) \<leftarrow> read_name env v room 0;
           (name, j) \<leftarrow> read_name env v room j;
           nattr \<leftarrow> read_word env v j;
           (if unat nattr > attr_room then record_event (Overrun (8 * (unat nattr - attr_room))) else State_Monad.return ());
           attrs \<leftarrow> read_params env v (unat nattr) (j + 2);
           State_Monad.return (0, folder, name, attrs) } }))"

definition dusb_cmd_s_rts2 :: "link_env \<Rightarrow> bytes \<Rightarrow> bytes \<Rightarrow> u32 \<Rightarrow> calc_param list \<Rightarrow> byte \<Rightarrow> (link, int) state" where
  "dusb_cmd_s_rts2 env folder name sz attrs modeflag = with_handle ERR_INVALID_HANDLE (\<lambda>h. do {
     as \<leftarrow> attr_list env attrs;
     send_packet env DUSB_VPKT_RTS (named_if_any folder @ named name @ size_bytes sz @ [modeflag] @ as) })"

definition dusb_cmd_s_rts :: "link_env \<Rightarrow> bytes \<Rightarrow> bytes \<Rightarrow> u32 \<Rightarrow> calc_param list \<Rightarrow> (link, int) state" where
  "dusb_cmd_s_rts env folder name sz attrs = dusb_cmd_s_rts2 env folder name sz attrs 0x01"

definition dusb_cmd_s_rts_ns :: "link_env \<Rightarrow> bytes \<Rightarrow> bytes \<Rightarrow> u32 \<Rightarrow> calc_param list \<Rightarrow> (link, int) state" where
  "dusb_cmd_s_rts_ns env folder name sz attrs = dusb_cmd_s_rts2 env folder name sz attrs 0x02"

definition dusb_cmd_s_var_request :: "link_env \<Rightarrow> bytes \<Rightarrow> bytes \<Rightarrow> u16 list \<Rightarrow> calc_param list \<Rightarrow> (link, int) state" where
  "dusb_cmd_s_var_request env folder name aids attrs = with_handle ERR_INVALID_HANDLE (\<lambda>h. do {
     as \<leftarrow> attr_list env attrs;
     send_packet env DUSB_VPKT_VAR_REQ
       (named_if_any folder @ named name @ [0x01, 0xFF, 0xFF, 0xFF, 0xFF]
        @ word_bytes (of_nat (length aids)) @ concat (map word_bytes aids) @ as @ [0x00, 0x00]) })"

text \<open>The contents, copied out of the packet, and their size.\<close>

definition dusb_cmd_r_var_content :: "link_env \<Rightarrow> (link, int \<times> u32 \<times> bytes) state" where
  "dusb_cmd_r_var_content env = with_handle (ERR_INVALID_HANDLE, 0, []) (\<lambda>h.
     yielding (recv_packet env DUSB_VPKT_VAR_CNTS) (0, []) (\<lambda>v. do {
       d \<leftarrow> read_at env v 0 (unat (vp_size v));
       State_Monad.return (0, vp_size v, d) }))"

definition dusb_cmd_s_var_content :: "link_env \<Rightarrow> u32 \<Rightarrow> bytes option \<Rightarrow> (link, int) state" where
  "dusb_cmd_s_var_content env = send_with_head env DUSB_VPKT_VAR_CNTS []"

text \<open>The size reckoned beforehand is compared with the number of bytes written.\<close>

definition attrs_size :: "calc_param list \<Rightarrow> nat" where
  "attrs_size attrs = sum_list (map (\<lambda>a. 4 + unat (cp_size a)) attrs)"

definition modify_size :: "bytes \<Rightarrow> bytes \<Rightarrow> calc_param list \<Rightarrow> bytes \<Rightarrow> bytes \<Rightarrow> calc_param list \<Rightarrow> nat" where
  "modify_size src_folder src_name src_attrs dst_folder dst_name dst_attrs =
     2 + length src_name + 1 + 2 + (if src_folder \<noteq> [] then length src_folder + 1 else 0) + attrs_size src_attrs
     + 5 + (if dst_folder \<noteq> [] then length dst_folder + 1 else 0) + (if dst_name \<noteq> [] then length dst_name + 1 else 0)
     + attrs_size dst_attrs"

definition dusb_cmd_s_var_modify :: "link_env \<Rightarrow> bytes \<Rightarrow> bytes \<Rightarrow> calc_param list \<Rightarrow> bytes \<Rightarrow> bytes \<Rightarrow> calc_param list \<Rightarrow> (link, int) state" where
  "dusb_cmd_s_var_modify env src_folder src_name src_attrs dst_folder dst_name dst_attrs = with_handle ERR_INVALID_HANDLE (\<lambda>h. do {
     src \<leftarrow> attr_list env src_attrs;
     dst \<leftarrow> attr_list env dst_attrs;
     let d = named_if_any src_folder @ named src_name @ src @ [0x01] @ named_if_any dst_folder @ named_if_any dst_name @ dst;
     if length d = modify_size src_folder src_name src_attrs dst_folder dst_name dst_attrs
     then send_packet env DUSB_VPKT_MODIF_VAR d
     else State_Monad.return ERR_INVALID_PACKET })"

definition dusb_cmd_s_var_delete :: "link_env \<Rightarrow> bytes \<Rightarrow> bytes \<Rightarrow> calc_param list \<Rightarrow> (link, int) state" where
  "dusb_cmd_s_var_delete env folder name attrs = dusb_cmd_s_var_modify env folder name attrs [] [] []"

section \<open>Remote control, acknowledgements and ends\<close>

text \<open>The arguments stand behind the action; a key is written to the same place.\<close>

definition execute_head :: "CalcModel \<Rightarrow> bytes \<Rightarrow> bytes \<Rightarrow> byte \<Rightarrow> bytes" where
  "execute_head m folder name action =
     [of_nat (length folder)] @ (if m = CALC_TI89T_USB \<and> folder \<noteq> [] then folder @ [0] else [])
     @ [of_nat (length name)] @ (if name \<noteq> [] then name @ [0] else []) @ [action]"

definition key_bytes :: "CalcModel \<Rightarrow> u16 \<Rightarrow> bytes" where
  "key_bytes m code = (if m = CALC_TI89T_USB \<or> MSB code = 0 then [MSB code, LSB code] else [LSB code, MSB code])"

definition execute_bytes :: "CalcModel \<Rightarrow> bytes \<Rightarrow> bytes \<Rightarrow> byte \<Rightarrow> bytes option \<Rightarrow> u16 \<Rightarrow> bytes" where
  "execute_bytes m folder name action args code =
     (let head = execute_head m folder name action;
          args = (case args of None \<Rightarrow> [] | Some args \<Rightarrow> args);
          key = (if action = DUSB_EID_KEY then key_bytes m code else []);
          block = head @ replicate (length args + length key) 0
      in write_at (write_at block (length head) args) (length head) key)"

definition dusb_cmd_s_execute :: "link_env \<Rightarrow> bytes \<Rightarrow> bytes \<Rightarrow> byte \<Rightarrow> bytes option \<Rightarrow> u16 \<Rightarrow> (link, int) state" where
  "dusb_cmd_s_execute env folder name action args code = with_handle ERR_INVALID_HANDLE (\<lambda>h.
     send_packet env DUSB_VPKT_EXECUTE (execute_bytes (link_model h) folder name action args code))"

definition dusb_cmd_r_mode_ack :: "link_env \<Rightarrow> (link, int) state" where
  "dusb_cmd_r_mode_ack env = recv_answer_packet env DUSB_VPKT_MODE_SET"

definition dusb_cmd_r_data_ack :: "link_env \<Rightarrow> (link, int) state" where
  "dusb_cmd_r_data_ack env = recv_answer_packet env DUSB_VPKT_DATA_ACK"

text \<open>Here the delay is the answer.\<close>

definition dusb_cmd_r_delay_ack :: "link_env \<Rightarrow> (link, int) state" where
  "dusb_cmd_r_delay_ack env = with_handle ERR_INVALID_HANDLE (\<lambda>h. do {
     (ret, v) \<leftarrow> dusb_recv_data env empty_packet;
     ret \<leftarrow> (if ret \<noteq> 0 then State_Monad.return ret else expect_type env DUSB_VPKT_DELAY_ACK v);
     record_event (Pause 100);
     State_Monad.return ret })"

definition dusb_cmd_s_eot :: "link_env \<Rightarrow> (link, int) state" where
  "dusb_cmd_s_eot env = with_handle ERR_INVALID_HANDLE (\<lambda>h. dusb_send_data env \<lparr>vp_size = 0, vp_type = DUSB_VPKT_EOT, vp_data = None\<rparr>)"

definition dusb_cmd_r_eot :: "link_env \<Rightarrow> (link, int) state" where
  "dusb_cmd_r_eot env = recv_answer_packet env DUSB_VPKT_EOT"

definition dusb_cmd_s_error :: "link_env \<Rightarrow> u16 \<Rightarrow> (link, int) state" where
  "dusb_cmd_s_error env code = with_handle ERR_INVALID_HANDLE (\<lambda>h. send_packet env DUSB_VPKT_ERROR (word_bytes code))"

definition dusb_cmd_s_param_set_r_data_ack :: "link_env \<Rightarrow> u16 \<Rightarrow> u16 \<Rightarrow> bytes option \<Rightarrow> (link, int) state" where
  "dusb_cmd_s_param_set_r_data_ack env i sz data = with_handle ERR_INVALID_HANDLE (\<lambda>h.
     if sz > 0 \<and> data = None then State_Monad.return ERR_INVALID_PARAMETER
     else do {
       d \<leftarrow> read_array env (unat sz) (case data of None \<Rightarrow> [] | Some d \<Rightarrow> d);
       steps [dusb_cmd_s_param_set env \<lparr>cp_id = i, cp_ok = False, cp_size = sz, cp_data = d\<rparr>, dusb_cmd_r_data_ack env] })"

end
