(* ===== verification/Calc_84p.thy ===== *)
theory Calc_84p
  imports Dusb_Cmd Calc_73
begin

text \<open>
  The operations of the TI-84 Plus family over USB (\<open>libticalcs\<close>, \<open>calc_84p.cc\<close>): the other way the strings
  of the wallet travel.  Each is a program over the commands of Dusb_Cmd.  GLib's allocators do not return
  after a failure.  Labels carry the raw name; trees of the directory are lists; what a receiving
  operation fills in is its result, \<open>None\<close> where it is left alone.  Pages or data that are NULL have no
  elements.  The log, the comments with time stamps and the dump of the ROM, which runs a program from
  generated headers, are left out.
\<close>

abbreviation (input) TI84p_ASM :: byte where "TI84p_ASM \<equiv> 0x06"
abbreviation (input) TI84p_APPL :: byte where "TI84p_APPL \<equiv> 0x24"
abbreviation (input) TI84p_BKUP :: byte where "TI84p_BKUP \<equiv> 0x13"
abbreviation (input) KEY83P_Right :: u32 where "KEY83P_Right \<equiv> 0x01"
abbreviation (input) KEY83P_LinkIO :: u32 where "KEY83P_LinkIO \<equiv> 0x41"
abbreviation (input) KEY83P_1 :: u32 where "KEY83P_1 \<equiv> 0x8F"

section \<open>Strings, types and attributes\<close>

text \<open>The bytes of a string up to its terminator.\<close>

definition name_bytes :: "string \<Rightarrow> bytes" where
  "name_bytes s = takeWhile (\<lambda>b. b \<noteq> 0) (map byte_of_char s)"

text \<open>A string copied out of an array; one that was not terminated is read on behind its bytes.\<close>

definition string_in :: "bytes \<Rightarrow> (link, string) state" where
  "string_in bs = do {
     (if 0 \<in> set bs then State_Monad.return () else record_event (Overread 1));
     State_Monad.return (array_name bs) }"

text \<open>The attribute of a type: four bytes, the second depends on the model or the operation.\<close>

definition type_attr :: "u16 \<Rightarrow> byte \<Rightarrow> byte \<Rightarrow> calc_param" where
  "type_attr aid b ty = attribute aid [0xF0, b, 0x00, ty]"

text \<open>The entry \<open>i\<close> of an array of attributes; the ones not received are NULL.\<close>

definition attr_at :: "calc_param list \<Rightarrow> nat \<Rightarrow> (link, calc_param) state" where
  "attr_at attrs i =
     (if i < length attrs then State_Monad.return (attrs ! i)
      else do { record_event (Overread 1); State_Monad.return \<lparr>cp_id = 0, cp_ok = False, cp_size = 0, cp_data = []\<rparr> })"

definition attr_data :: "link_env \<Rightarrow> calc_param list \<Rightarrow> nat \<Rightarrow> nat \<Rightarrow> (link, bytes) state" where
  "attr_data env attrs i n = do { a \<leftarrow> attr_at attrs i; read_array env n (cp_data a) }"

text \<open>The arrays for folders and names have 40 bytes, those for \<open>n\<close> attributes one pointer more.\<close>

definition recv_header_84p :: "link_env \<Rightarrow> nat \<Rightarrow> (link, int \<times> bytes \<times> bytes \<times> calc_param list) state" where
  "recv_header_84p env n = dusb_cmd_r_var_header env 40 (n + 1)"

section \<open>Keys and programs\<close>

definition is_ready_84p :: "link_env \<Rightarrow> (link, int) state" where
  "is_ready_84p env = steps [dusb_cmd_s_mode_set env DUSB_MODE_NORMAL, dusb_cmd_r_mode_ack env]"

definition send_key_noack_84p :: "link_env \<Rightarrow> u32 \<Rightarrow> (link, int) state" where
  "send_key_noack_84p env key =
     steps [dusb_cmd_s_execute env [] [] DUSB_EID_KEY (Some []) (ucast key), dusb_cmd_r_delay_ack env]"

definition send_key_84p :: "link_env \<Rightarrow> u32 \<Rightarrow> (link, int) state" where
  "send_key_84p env key = steps [send_key_noack_84p env key, dusb_cmd_r_data_ack env]"

text \<open>The folder of the entry and the arguments come beside it.\<close>

definition execute_84p :: "link_env \<Rightarrow> string \<Rightarrow> VarEntry \<Rightarrow> bytes option \<Rightarrow> (link, int) state" where
  "execute_84p env folder ve args = steps
     [dusb_cmd_s_execute env (name_bytes folder) (name_bytes (ve_name ve))
        (if ve_type ve = TI84p_ASM then DUSB_EID_ASM else if ve_type ve = TI84p_APPL then DUSB_EID_APP else DUSB_EID_PRGM) args 0,
      dusb_cmd_r_data_ack env]"

section \<open>Screenshots\<close>

definition TI84P_ROWS :: nat where "TI84P_ROWS = 64"
definition TI84P_COLS :: nat where "TI84P_COLS = 96"

text \<open>
  What the screen data are on each model; \<open>None\<close> also when the decoder reads outside its source.  The
  decoder is given four bytes less than came, modulo \<open>2\<^sup>3\<^sup>2\<close>.
\<close>

definition screen_of_84p :: "link_env \<Rightarrow> CalcModel \<Rightarrow> u32 \<Rightarrow> bytes \<Rightarrow> (link, (int \<times> CalcScreenCoord option \<times> bytes option) option) state" where
  "screen_of_84p env m sz data =
     (let invalid = Some (ERR_INVALID_SCREENSHOT, None, None)
      in if m = CALC_TI84P_USB \<or> m = CALC_TI82A_USB
      then State_Monad.return (if unat sz = TI84P_ROWS * TI84P_COLS div 8
        then Some (0, Some (full_screen TI84P_COLS TI84P_ROWS CALC_PIXFMT_MONO), Some data) else invalid)
      else if m = CALC_TI84PC_USB
      then do {
        src \<leftarrow> read_array env (unat (sz - 4)) data;
        State_Monad.return (case ticalcs_screen_84pcse_rle_uncompress (if data = [] then None else Some src) True (TI84PC_ROWS * TI84PC_COLS * 2) of
          None \<Rightarrow> None
        | Some (ret, out) \<Rightarrow> if ret \<noteq> 0 then invalid
            else Some (0, Some (full_screen TI84PC_COLS TI84PC_ROWS CALC_PIXFMT_RGB_565_LE), Some out)) }
      else if (m = CALC_TI83PCE_USB \<or> m = CALC_TI84PCE_USB) \<and> unat sz = TI84PC_ROWS * TI84PC_COLS * 2
      then State_Monad.return (Some (0, Some (full_screen TI84PC_COLS TI84PC_ROWS CALC_PIXFMT_RGB_565_LE), Some data))
      else State_Monad.return invalid)"

definition recv_screen_84p :: "link_env \<Rightarrow> (link, (int \<times> CalcScreenCoord option \<times> bytes option) option) state" where
  "recv_screen_84p env = do {
     h \<leftarrow> State_Monad.get;
     ret \<leftarrow> dusb_cmd_s_param_request env [DUSB_PID_SCREENSHOT];
     if ret \<noteq> 0 then State_Monad.return (Some (ret, None, None))
     else do {
       (ret, sz, data) \<leftarrow> dusb_cmd_r_screenshot env;
       if ret \<noteq> 0 then State_Monad.return (Some (ret, None, None)) else screen_of_84p env (link_model h) sz data } }"

section \<open>Directory and memory\<close>

definition blank_entry :: VarEntry where
  "blank_entry = \<lparr>ve_name = [], ve_type = 0, ve_attr = 0, ve_version = 0, ve_size = 0, ve_data = None, ve_action = 0\<rparr>"

definition permanent_entries_84p :: "CalcModel \<Rightarrow> VarEntry list" where
  "permanent_entries_84p m =
     [blank_entry\<lparr>ve_name := ''Window'', ve_type := TI84p_WINDW\<rparr>,
      blank_entry\<lparr>ve_name := (if m = CALC_TI84PC_USB \<or> m = CALC_TI83PCE_USB \<or> m = CALC_TI84PCE_USB then ''RclWindw'' else ''RclWin''),
        ve_type := TI84p_ZSTO\<rparr>,
      blank_entry\<lparr>ve_name := ''TblSet'', ve_type := TI84p_TABLE\<rparr>]"

definition listed_entry_84p :: "link_env \<Rightarrow> bytes \<Rightarrow> calc_param list \<Rightarrow> (link, VarEntry) state" where
  "listed_entry_84p env name attrs = do {
     s \<leftarrow> string_in name;
     sz \<leftarrow> attr_data env attrs 0 4;
     ty \<leftarrow> attr_data env attrs 1 4;
     archived \<leftarrow> attr_data env attrs 2 1;
     State_Monad.return (blank_entry\<lparr>ve_name := s, ve_size := be_word sz, ve_type := ty ! 3,
       ve_attr := (if archived ! 0 \<noteq> 0 then ATTRB_ARCHIVED else ATTRB_NONE)\<rparr>) }"

text \<open>Headers until the end of the transmission.\<close>

primrec list_loop_84p :: "link_env \<Rightarrow> nat \<Rightarrow> VarEntry list \<Rightarrow> VarEntry list \<Rightarrow> (link, int \<times> VarEntry list \<times> VarEntry list) state" where
  "list_loop_84p env 0 vars apps = do { record_event Unfinished; State_Monad.return (-1, vars, apps) }"
| "list_loop_84p env (Suc n) vars apps = do {
     (ret, folder, name, attrs) \<leftarrow> recv_header_84p env 3;
     if ret \<noteq> 0 then State_Monad.return (if ret = ERR_EOT then 0 else ret, vars, apps)
     else do {
       ve \<leftarrow> listed_entry_84p env name attrs;
       record_event (Label (''Parsing '' @ ve_name ve));
       if ve_type ve \<noteq> TI73_APPL then list_loop_84p env n (vars @ [ve]) apps
       else list_loop_84p env n vars (apps @ [ve]) } }"

definition get_dirlist_84p :: "link_env \<Rightarrow> (link, int \<times> VarEntry list \<times> VarEntry list) state" where
  "get_dirlist_84p env = do {
     h \<leftarrow> State_Monad.get;
     let vars = permanent_entries_84p (link_model h);
     ret \<leftarrow> dusb_cmd_s_dirlist_request env [DUSB_AID_VAR_SIZE, DUSB_AID_VAR_TYPE, DUSB_AID_ARCHIVED];
     if ret \<noteq> 0 then State_Monad.return (ret, vars, []) else list_loop_84p env (rounds env) vars [] }"

text \<open>Bytes 4 to 7 of the two parameters.\<close>

definition get_memfree_84p :: "link_env \<Rightarrow> (link, int \<times> (u32 \<times> u32) option) state" where
  "get_memfree_84p env = do {
     ret \<leftarrow> dusb_cmd_s_param_request env [DUSB_PID_FREE_RAM, DUSB_PID_FREE_FLASH];
     if ret \<noteq> 0 then State_Monad.return (ret, None)
     else do {
       (ret, params) \<leftarrow> dusb_cmd_r_param_data env 2;
       if ret \<noteq> 0 then State_Monad.return (ret, None)
       else do {
         ram \<leftarrow> attr_data env params 0 8;
         flash \<leftarrow> attr_data env params 1 8;
         State_Monad.return (0, Some (be_word (drop 4 ram), be_word (drop 4 flash))) } } }"

section \<open>Variables\<close>

text \<open>Announcement, contents and end, the first two acknowledged.\<close>

definition transfer_84p :: "link_env \<Rightarrow> string \<Rightarrow> u32 \<Rightarrow> calc_param list \<Rightarrow> bytes option \<Rightarrow> (link, int) state" where
  "transfer_84p env name sz attrs data = steps
     [dusb_cmd_s_rts env [] (name_bytes name) sz attrs, dusb_cmd_r_data_ack env,
      dusb_cmd_s_var_content env sz data, dusb_cmd_r_data_ack env, dusb_cmd_s_eot env]"

definition get_var_type_attr_header_byte :: "CalcModel \<Rightarrow> byte" where
  "get_var_type_attr_header_byte m =
     (if m = CALC_TI83PCE_USB \<or> m = CALC_TI84PCE_USB then 0x0F
      else if m = CALC_TI84P_USB \<or> m = CALC_TI82A_USB \<or> m = CALC_TI84PT_USB \<or> m = CALC_TI84PC_USB then 0x0B
      else 0x07)"

definition var_attrs_84p :: "CalcModel \<Rightarrow> VarEntry \<Rightarrow> calc_param list" where
  "var_attrs_84p m e =
     [type_attr DUSB_AID_VAR_TYPE (get_var_type_attr_header_byte m) (ve_type e),
      attribute DUSB_AID_ARCHIVED [if ve_attr e = ATTRB_ARCHIVED then 1 else 0],
      attribute DUSB_AID_VAR_VERSION [0, 0, 0, ve_version e]]"

primrec send_vars_84p :: "link_env \<Rightarrow> nat \<Rightarrow> nat \<Rightarrow> VarEntry option list \<Rightarrow> (link, int) state" where
  "send_vars_84p env n i [] = State_Monad.return 0"
| "send_vars_84p env n i (x # es) =
     (case x of None \<Rightarrow> send_vars_84p env n (i + 1) es
      | Some e \<Rightarrow>
          if ve_action e = ACT_SKIP then send_vars_84p env n (i + 1) es
          else do {
            h \<leftarrow> State_Monad.get;
            record_event (Label (ve_name e));
            ret \<leftarrow> transfer_84p env (ve_name e) (ve_size e) (var_attrs_84p (link_model h) e) (ve_data e);
            if ret \<noteq> 0 then State_Monad.return ret
            else do {
              start_progress (i + 1) n;
              pbar;
              record_event (Pause 50);
              send_vars_84p env n (i + 1) es } })"

definition send_var_84p :: "link_env \<Rightarrow> FileContent \<Rightarrow> (link, int) state" where
  "send_var_84p env content = send_vars_84p env (num_entries content) 0
     (case fc_entries content of None \<Rightarrow> [] | Some es \<Rightarrow> take (num_entries content) es)"

definition send_all_vars_backup_84p :: "link_env \<Rightarrow> FileContent \<Rightarrow> (link, int) state" where
  "send_all_vars_backup_84p = send_var_84p"

text \<open>The model of a picture depends on its version.\<close>

definition content_model_84p :: "CalcModel \<Rightarrow> VarEntry \<Rightarrow> CalcModel" where
  "content_model_84p m ve =
     (if ve_type ve = TI83p_PIC then (if ve_version ve \<ge> 0xa then CALC_TI84PC_USB else CALC_TI84P_USB) else m)"

text \<open>
  The entry: the request with the attributes that came.  Its block is as long as the size attribute says,
  and as many bytes are copied into it from the contents.
\<close>

definition entry_of_attrs :: "link_env \<Rightarrow> CalcModel \<Rightarrow> VarEntry \<Rightarrow> calc_param list \<Rightarrow> bytes \<Rightarrow> (link, CalcModel \<times> VarEntry) state" where
  "entry_of_attrs env m vr attrs data = do {
     sz \<leftarrow> attr_data env attrs 2 4;
     let ve = vr\<lparr>ve_size := be_word sz\<rparr>;
     archived \<leftarrow> attr_at attrs 0;
     let ve = (if cp_size archived = 1 then ve\<lparr>ve_attr := (if cp_data archived ! 0 \<noteq> 0 then ATTRB_ARCHIVED else 0)\<rparr> else ve);
     version \<leftarrow> attr_at attrs 1;
     let ve = (if cp_size version = 4 then ve\<lparr>ve_version := cp_data version ! 3\<rparr> else ve);
     d \<leftarrow> read_array env (unat (ve_size ve)) data;
     State_Monad.return (content_model_84p m ve, ve\<lparr>ve_data := Some (write_at (replicate (unat (ve_size ve) + 1) 0) 0 d)\<rparr>) }"

text \<open>A variable is asked for by name and type; header and contents follow.\<close>

definition request_84p :: "link_env \<Rightarrow> byte \<Rightarrow> string \<Rightarrow> byte \<Rightarrow> u16 list \<Rightarrow> (link, int \<times> calc_param list \<times> u32 \<times> bytes) state" where
  "request_84p env b name ty aids = do {
     ret \<leftarrow> dusb_cmd_s_var_request env [] (name_bytes name) aids [type_attr DUSB_AID_VAR_TYPE2 b ty];
     if ret \<noteq> 0 then State_Monad.return (ret, [], 0, [])
     else do {
       (ret, folder, varname, attrs) \<leftarrow> recv_header_84p env (length aids);
       if ret \<noteq> 0 then State_Monad.return (ret, [], 0, [])
       else do {
         (ret, sz, data) \<leftarrow> dusb_cmd_r_var_content env;
         State_Monad.return (ret, attrs, sz, data) } } }"

text \<open>The model of the content and its one entry.\<close>

definition recv_var_84p :: "link_env \<Rightarrow> VarEntry \<Rightarrow> (link, int \<times> (CalcModel \<times> VarEntry) option) state" where
  "recv_var_84p env vr = do {
     h \<leftarrow> State_Monad.get;
     record_event (Label (ve_name vr));
     (ret, attrs, sz, data) \<leftarrow> request_84p env 0x07 (ve_name vr) (ve_type vr) [DUSB_AID_ARCHIVED, DUSB_AID_VAR_VERSION, DUSB_AID_VAR_SIZE];
     if ret \<noteq> 0 then State_Monad.return (ret, None)
     else do {
       content \<leftarrow> entry_of_attrs env (link_model h) vr attrs data;
       State_Monad.return (0, Some content) } }"

definition del_var_84p :: "link_env \<Rightarrow> VarEntry \<Rightarrow> (link, int) state" where
  "del_var_84p env vr = do {
     record_event (Label (''Deleting '' @ ve_name vr @ ''...''));
     steps [dusb_cmd_s_var_delete env [] (name_bytes (ve_name vr)) [type_attr DUSB_AID_VAR_TYPE2 0x0B (ve_type vr)], dusb_cmd_r_data_ack env] }"

definition rename_var_84p :: "link_env \<Rightarrow> VarEntry \<Rightarrow> VarEntry \<Rightarrow> (link, int) state" where
  "rename_var_84p env oldname newname = steps
     [dusb_cmd_s_var_modify env [] (name_bytes (ve_name oldname)) [type_attr DUSB_AID_VAR_TYPE2 0x07 (ve_type oldname)]
        [] (name_bytes (ve_name newname)) [],
      dusb_cmd_r_data_ack env]"

definition change_attr_84p :: "link_env \<Rightarrow> VarEntry \<Rightarrow> byte \<Rightarrow> (link, int) state" where
  "change_attr_84p env vr attr = steps
     [dusb_cmd_s_var_modify env [] (name_bytes (ve_name vr)) [type_attr DUSB_AID_VAR_TYPE2 0x07 (ve_type vr)]
        [] (name_bytes (ve_name vr)) [attribute DUSB_AID_ARCHIVED [if attr = ATTRB_ARCHIVED then 0xff else 0x00]],
      dusb_cmd_r_data_ack env]"

section \<open>Backups\<close>

definition part_bytes :: "link_env \<Rightarrow> u16 \<Rightarrow> bytes option \<Rightarrow> (link, bytes) state" where
  "part_bytes env n part = read_array env (unat n) (case part of None \<Rightarrow> [] | Some d \<Rightarrow> d)"

definition backup_attrs_84p :: "BackupContent \<Rightarrow> calc_param list" where
  "backup_attrs_84p c =
     [type_attr DUSB_AID_VAR_TYPE 0x07 TI84p_BKUP,
      attribute DUSB_AID_VAR_VERSION [0x00, 0x00, 0x00, bc_version c],
      attribute DUSB_AID_BACKUP_HEADER
        (word_bytes (data_length1 c) @ word_bytes (data_length2 c) @ word_bytes (data_length3 c) @ word_bytes (mem_address c))]"

text \<open>The calculator is brought to its link menu by keys; the last key and the header wait for it to be ready.\<close>

definition send_backup_84p :: "link_env \<Rightarrow> BackupContent \<Rightarrow> (link, int) state" where
  "send_backup_84p env c = do {
     d1 \<leftarrow> part_bytes env (data_length1 c) (data_part1 c);
     d2 \<leftarrow> part_bytes env (data_length2 c) (data_part2 c);
     d3 \<leftarrow> part_bytes env (data_length3 c) (data_part3 c);
     let data = d1 @ d2 @ d3;
     steps (map (send_key_84p env) [KEY83P_Quit, KEY83P_LinkIO, KEY83P_Right]
       @ [send_key_noack_84p env KEY83P_1,
          dusb_cmd_s_rts_ns env [] (name_bytes ''!'') (of_nat (length data)) (backup_attrs_84p c), dusb_cmd_r_delay_ack env,
          send_key_noack_84p env KEY83P_1, dusb_cmd_r_data_ack env,
          dusb_cmd_s_var_content env (of_nat (length data)) (Some data), dusb_cmd_r_data_ack env, dusb_cmd_s_eot env]) }"

section \<open>Flash applications\<close>

text \<open>The first system or application of the chain.\<close>

definition flash_of_chain :: "FlashContent list \<Rightarrow> FlashContent option" where
  "flash_of_chain = find (\<lambda>c. flash_type c = TI83p_AMS \<or> flash_type c = TI83p_APPL)"

text \<open>A whole page is taken of each block.\<close>

primrec join_pages :: "link_env \<Rightarrow> nat \<Rightarrow> FlashPage list \<Rightarrow> (link, bytes) state" where
  "join_pages env i [] = State_Monad.return []"
| "join_pages env i (fp # fps) = do {
     d \<leftarrow> read_array env FLASH_PAGE_SIZE (fp_data fp);
     progress i;
     rest \<leftarrow> join_pages env (i + 1) fps;
     State_Monad.return (d @ rest) }"

text \<open>
  The last page is cleared behind its end: \<open>memset\<close> with the bytes left of the page, a negative number for a
  size above that of a page.
\<close>

definition clear_tail :: "FlashPage list \<Rightarrow> bytes \<Rightarrow> (link, bytes) state" where
  "clear_tail fps data = do {
     let sz = unat (fp_size (last fps));
     let start = (length fps - 1) * FLASH_PAGE_SIZE + sz;
     (if sz > FLASH_PAGE_SIZE then record_event (Overrun (2 ^ 64 - (sz - FLASH_PAGE_SIZE))) else State_Monad.return ());
     progress (length fps - 1);
     State_Monad.return (take (length data) (take start data @ replicate (FLASH_PAGE_SIZE - sz) 0 @ drop (start + (FLASH_PAGE_SIZE - sz)) data)) }"

definition flash_attrs_84p :: "byte \<Rightarrow> byte \<Rightarrow> byte \<Rightarrow> calc_param list" where
  "flash_attrs_84p b ty archived = [type_attr DUSB_AID_VAR_TYPE b ty, attribute DUSB_AID_ARCHIVED [archived]]"

definition send_flash_84p :: "link_env \<Rightarrow> FlashContent list \<Rightarrow> (link, int) state" where
  "send_flash_84p env contents =
     (case flash_of_chain contents of None \<Rightarrow> State_Monad.return ERR_INVALID_PARAMETER
      | Some c \<Rightarrow>
          if flash_type c \<noteq> TI83p_APPL \<or> flash_pages c = [] then State_Monad.return ERR_INVALID_PARAMETER
          else do {
            let n = length (flash_pages c);
            start_progress 0 n;
            data \<leftarrow> join_pages env 0 (flash_pages c);
            data \<leftarrow> clear_tail (flash_pages c) data;
            record_event (Label (flash_name c));
            transfer_84p env (flash_name c) (of_nat (n * FLASH_PAGE_SIZE)) (flash_attrs_84p 0x07 (flash_type c) 0) (Some data) })"

definition send_flash_834pce :: "link_env \<Rightarrow> FlashContent list \<Rightarrow> (link, int) state" where
  "send_flash_834pce env contents =
     (case flash_of_chain contents of None \<Rightarrow> State_Monad.return ERR_INVALID_PARAMETER
      | Some c \<Rightarrow>
          if flash_type c \<noteq> TI83p_APPL \<or> flash_part c = [] then State_Monad.return ERR_INVALID_PARAMETER
          else do {
            start_progress 0 0;
            record_event (Label (flash_name c));
            transfer_84p env (flash_name c) (data_length c) (flash_attrs_84p 0x0F (flash_type c) 1) (Some (flash_part c)) })"

text \<open>A page of what was received, in a block filled with 0xFF and a zero behind it.\<close>

definition page_84p :: "bytes \<Rightarrow> nat \<Rightarrow> nat \<Rightarrow> FlashPage" where
  "page_84p data i sz = \<lparr>fp_addr = 0x4000, fp_page = of_nat i, fp_flag = 0x80, fp_size = of_nat sz,
     fp_data = write_at (replicate FLASH_PAGE_SIZE 0xFF @ [0]) 0 (take sz (drop (i * FLASH_PAGE_SIZE) data))\<rparr>"

definition pages_84p :: "bytes \<Rightarrow> FlashPage list" where
  "pages_84p data =
     (let q = length data div FLASH_PAGE_SIZE
      in map (\<lambda>i. page_84p data i FLASH_PAGE_SIZE) [0..<q] @ [page_84p data q (length data mod FLASH_PAGE_SIZE)])"

primrec count_pages :: "nat list \<Rightarrow> (link, unit) state" where
  "count_pages [] = State_Monad.return ()"
| "count_pages (i # is) = do { progress i; count_pages is }"

text \<open>Name, type, pages or data of the content; its model is that of the handle.\<close>

definition recv_flash_84p :: "link_env \<Rightarrow> VarEntry \<Rightarrow> (link, int \<times> FlashContent option) state" where
  "recv_flash_84p env vr = do {
     record_event (Label (ve_name vr));
     (ret, attrs, sz, data) \<leftarrow> request_84p env 0x07 (ve_name vr) (ve_type vr) [DUSB_AID_ARCHIVED, DUSB_AID_VAR_VERSION];
     if ret \<noteq> 0 then State_Monad.return (ret, None)
     else do {
       let pages = pages_84p data;
       start_progress 0 (length pages - 1);
       count_pages [0..<length pages];
       State_Monad.return (0, Some \<lparr>flash_name = ve_name vr, flash_type = ve_type vr, data_length = 0, flash_part = [], flash_pages = pages\<rparr>) } }"

definition recv_flash_834pce :: "link_env \<Rightarrow> VarEntry \<Rightarrow> (link, int \<times> FlashContent option) state" where
  "recv_flash_834pce env vr = do {
     record_event (Label (ve_name vr));
     (ret, attrs, sz, data) \<leftarrow> request_84p env 0x0F (ve_name vr) (ve_type vr) [DUSB_AID_ARCHIVED, DUSB_AID_VAR_VERSION];
     State_Monad.return (ret, if ret \<noteq> 0 then None
       else Some \<lparr>flash_name = ve_name vr, flash_type = ve_type vr, data_length = sz, flash_part = data, flash_pages = []\<rparr>) }"

section \<open>Operating systems\<close>

definition os_mode :: mode_set where
  "os_mode = \<lparr>arg1 = 2, arg2 = 1, arg3 = 0, arg4 = 0, arg5 = 0x0fa0\<rparr>"

text \<open>Each block of 256 bytes gets four bytes of address; the number of blocks is reckoned with 260.\<close>

definition os_size_84p :: "FlashContent \<Rightarrow> u32" where
  "os_size_84p c = of_nat (sum_list (map (\<lambda>fp. if unat (fp_size fp) < 256 then 4 else 4 * (unat (fp_size fp) div 260)) (flash_pages c)))
     + data_length c"

text \<open>Data sent and acknowledged; \<open>sz\<close> is the size the calculator wants less four.\<close>

definition os_block :: "link_env \<Rightarrow> u16 \<Rightarrow> byte \<Rightarrow> byte \<Rightarrow> u32 \<Rightarrow> bytes \<Rightarrow> (link, int) state" where
  "os_block env addr page flag sz data = steps [dusb_cmd_s_os_data env addr page flag sz (Some data), dusb_cmd_r_data_ack env]"

definition os_page :: "link_env \<Rightarrow> u32 \<Rightarrow> nat \<Rightarrow> nat \<Rightarrow> FlashPage \<Rightarrow> (link, int) state" where
  "os_page env sz n i fp = steps
     [if i = 0 then os_block env 0x4000 0x7A 0x80 sz (fp_data fp)
      else if i = n - 1 then os_block env 0x4100 0x7A 0x80 sz (fp_data fp)
      else steps (map (\<lambda>k. os_block env (0x4000 + of_nat (256 * k)) (ucast (fp_page fp)) (fp_flag fp) sz (drop (256 * k) (fp_data fp)))
        [0..<(unat (fp_size fp) + 255) div 256]),
      do { progress i; State_Monad.return 0 }]"

text \<open>Whether the calculator is in its boot code: one parameter.\<close>

definition boot_mode :: "link_env \<Rightarrow> (link, int \<times> bool) state" where
  "boot_mode env = do {
     ret \<leftarrow> dusb_cmd_s_param_request env [DUSB_PID_OS_MODE];
     if ret \<noteq> 0 then State_Monad.return (ret, False)
     else do {
       (ret, params) \<leftarrow> dusb_cmd_r_param_data env 1;
       if ret \<noteq> 0 then State_Monad.return (ret, False)
       else do { d \<leftarrow> attr_data env params 0 1; State_Monad.return (0, d ! 0 = 0) } } }"

text \<open>The size of the buffer, which only the running system asks for.\<close>

definition os_buffer :: "link_env \<Rightarrow> bool \<Rightarrow> u32 \<Rightarrow> (link, int \<times> u32) state" where
  "os_buffer env boot old =
     (if boot then State_Monad.return (0, old)
      else yielding (dusb_recv_buf_size_request env old) old (\<lambda>sz. also_status (dusb_send_buf_size_alloc env sz) sz))"

definition end_os :: "link_env \<Rightarrow> (link, int) state" where
  "end_os env = steps [dusb_cmd_s_eot env, do { record_event (Pause 500); dusb_cmd_r_eot_ack env }]"

definition send_os_84p :: "link_env \<Rightarrow> FlashContent list \<Rightarrow> (link, int) state" where
  "send_os_84p env contents =
     (case flash_of_chain contents of None \<Rightarrow> State_Monad.return ERR_INVALID_PARAMETER
      | Some c \<Rightarrow>
          if flash_type c \<noteq> TI83p_AMS \<or> flash_pages c = [] then State_Monad.return ERR_INVALID_PARAMETER
          else do {
            ret \<leftarrow> steps [dusb_cmd_s_mode_set env os_mode, dusb_cmd_r_mode_ack env];
            if ret \<noteq> 0 then State_Monad.return ret
            else do {
              (ret, boot) \<leftarrow> boot_mode env;
              if ret \<noteq> 0 then State_Monad.return ret
              else do {
                ret \<leftarrow> dusb_cmd_s_os_begin env (os_size_84p c);
                if ret \<noteq> 0 then State_Monad.return ret
                else do {
                  (ret, sz) \<leftarrow> os_buffer env boot 266;
                  if ret \<noteq> 0 then State_Monad.return ret
                  else do {
                    (ret, sz) \<leftarrow> dusb_cmd_r_os_ack env sz;
                    if ret \<noteq> 0 then State_Monad.return ret
                    else do {
                      ret \<leftarrow> dusb_cmd_s_os_header env 0x4000 0x7A 0x80 (sz - 4) (Some (fp_data (hd (flash_pages c))));
                      if ret \<noteq> 0 then State_Monad.return ret
                      else do {
                        (ret, sz) \<leftarrow> dusb_cmd_r_os_ack env sz;
                        if ret \<noteq> 0 then State_Monad.return ret
                        else do {
                          let n = length (flash_pages c);
                          start_progress 0 n;
                          steps (map (\<lambda>(i, fp). os_page env (sz - 4) n i fp) (zip [0..<n] (flash_pages c)) @ [end_os env]) } } } } } } } })"

text \<open>The header of the system ends at the first four bytes 0xFF; \<open>None\<close> is a search past the end.\<close>

fun header_length :: "bytes \<Rightarrow> nat option" where
  "header_length (a # b # c # d # bs) =
     (if a = 0xFF \<and> b = 0xFF \<and> c = 0xFF \<and> d = 0xFF then Some 0 else map_option Suc (header_length (b # c # d # bs)))"
| "header_length bs = None"

definition find_header :: "bytes \<Rightarrow> (link, nat) state" where
  "find_header d =
     (case header_length d of Some n \<Rightarrow> State_Monad.return n
      | None \<Rightarrow> do { record_event (Overread 1); State_Monad.return (length d) })"

definition os_block_834pce :: "link_env \<Rightarrow> FlashContent \<Rightarrow> u32 \<Rightarrow> u32 \<Rightarrow> nat \<Rightarrow> (link, int) state" where
  "os_block_834pce env c step_size sz i = steps
     [dusb_cmd_s_os_data_834pce env (0x30000 + of_nat i * step_size) sz (Some (drop (i * unat step_size) (flash_part c))),
      dusb_cmd_r_data_ack env, do { progress i; State_Monad.return 0 }]"

definition send_os_834pce :: "link_env \<Rightarrow> FlashContent list \<Rightarrow> (link, int) state" where
  "send_os_834pce env contents =
     (case flash_of_chain contents of None \<Rightarrow> State_Monad.return ERR_INVALID_PARAMETER
      | Some c \<Rightarrow>
          if flash_type c \<noteq> TI83p_AMS \<or> flash_part c = [] then State_Monad.return ERR_INVALID_PARAMETER
          else do {
            n \<leftarrow> find_header (flash_part c);
            ret \<leftarrow> steps [dusb_cmd_s_mode_set env os_mode, dusb_cmd_r_mode_ack env, dusb_cmd_s_os_begin env (data_length c)];
            if ret \<noteq> 0 then State_Monad.return ret
            else do {
              (ret, sz) \<leftarrow> dusb_cmd_r_os_ack env 0x3ff;
              if ret \<noteq> 0 then State_Monad.return ret
              else do {
                ret \<leftarrow> dusb_cmd_s_os_header_89 env (of_nat n) (Some (flash_part c));
                if ret \<noteq> 0 then State_Monad.return ret
                else do {
                  (ret, sz) \<leftarrow> dusb_cmd_r_os_ack env sz;
                  if ret \<noteq> 0 then State_Monad.return ret
                  else do {
                    (if sz = 4 then record_event Zero_division else State_Monad.return ());
                    let q = unat (data_length c) div unat (sz - 4);
                    start_progress 0 q;
                    steps (map (os_block_834pce env c (sz - 4) (sz - 4)) [0..<q]
                      @ [os_block_834pce env c (sz - 4) (of_nat (unat (data_length c) mod unat (sz - 4))) q, end_os env]) } } } } })"

section \<open>The list of identifiers\<close>

text \<open>
  Two bytes of what came change places, whatever its size, and bytes 4 to 15 are printed into the caller's
  array.
\<close>

definition recv_idlist_84p :: "link_env \<Rightarrow> string \<Rightarrow> (link, int \<times> string) state" where
  "recv_idlist_84p env idlist = do {
     record_event (Label ''ID-LIST'');
     (ret, attrs, sz, data) \<leftarrow> request_84p env 0x07 ''IDList'' TI83p_IDLIST [DUSB_AID_ARCHIVED, DUSB_AID_VAR_VERSION];
     if ret \<noteq> 0 then State_Monad.return (ret, idlist)
     else do {
       d \<leftarrow> read_array env (max 11 (length data)) data;
       (if length data < 11 then record_event (Overrun (11 - length data)) else State_Monad.return ());
       let n = min (length data) 16;
       let room = max 15 (2 * (n - 4) + 1);
       (if room > length idlist then record_event (Overrun (room - length idlist)) else State_Monad.return ());
       State_Monad.return (0, id_text idlist (swap_bytes_9 d) n) } }"

section \<open>The clock\<close>

record usb_clock = CalcClock +
  clock_state :: int

definition set_param :: "link_env \<Rightarrow> u16 \<Rightarrow> bytes \<Rightarrow> (link, int) state" where
  "set_param env i d = dusb_cmd_s_param_set_r_data_ack env i (of_nat (length d)) (Some d)"

definition clock_seconds_84p :: "calendar \<Rightarrow> usb_clock \<Rightarrow> u32" where
  "clock_seconds_84p cal c = word_of_int (mktime cal (clock_tm (CalcClock.truncate c)) - clock_reference cal)"

definition date_format_byte :: "usb_clock \<Rightarrow> byte" where
  "date_format_byte c = (if clock_date_format c = 3 then 0 else clock_date_format c)"

definition set_classic_clock :: "link_env \<Rightarrow> calendar \<Rightarrow> usb_clock \<Rightarrow> (link, int) state" where
  "set_classic_clock env cal c = steps
     [set_param env DUSB_PID_CLK_SEC_SINCE_1997 (size_bytes (clock_seconds_84p cal c)),
      set_param env DUSB_PID_CLK_DATE_FMT [date_format_byte c],
      set_param env DUSB_PID_CLK_TIME_FMT [if clock_time_format c = 24 then 1 else 0],
      set_param env DUSB_PID_CLK_ON [word_of_int (clock_state c)]]"

definition set_new_clock :: "link_env \<Rightarrow> usb_clock \<Rightarrow> (link, int) state" where
  "set_new_clock env c = steps
     [set_param env DUSB_PID_CLK_DATE_FMT [date_format_byte c],
      set_param env DUSB_PID_CLK_TIME_FMT [if clock_time_format c = 24 then 0x81 else 0x80],
      set_param env DUSB_PID_CLK_YEAR [ucast (drop_bit 8 (clock_year c)), ucast (clock_year c AND 0xFF)],
      set_param env DUSB_PID_CLK_MONTH [clock_month c],
      set_param env DUSB_PID_CLK_DAY [clock_day c],
      set_param env DUSB_PID_CLK_HOURS [clock_hours c],
      set_param env DUSB_PID_CLK_MINUTES [clock_minutes c],
      set_param env DUSB_PID_CLK_SECONDS [clock_seconds c],
      set_param env DUSB_PID_CLK_ON [word_of_int (clock_state c)]]"

text \<open>Parameters requested and received.\<close>

definition ask_params :: "link_env \<Rightarrow> u16 list \<Rightarrow> (link, int \<times> calc_param list) state" where
  "ask_params env pids = do {
     ret \<leftarrow> dusb_cmd_s_param_request env pids;
     if ret \<noteq> 0 then State_Monad.return (ret, []) else dusb_cmd_r_param_data env (length pids) }"

text \<open>A calculator with both kinds of clock, or none, is left alone without an error.\<close>

definition set_clock_84p :: "link_env \<Rightarrow> calendar \<Rightarrow> usb_clock \<Rightarrow> (link, int) state" where
  "set_clock_84p env cal c = do {
     record_event (Label ''Getting clock...'');
     (ret, params) \<leftarrow> ask_params env [DUSB_PID_CLASSIC_CLK_SUPPORT, DUSB_PID_NEW_CLK_SUPPORT];
     if ret \<noteq> 0 then State_Monad.return ret
     else if cp_ok (params ! 0) = cp_ok (params ! 1) then State_Monad.return 0
     else do {
       record_event (Label ''Setting clock...'');
       if cp_ok (params ! 0) then set_classic_clock env cal c else set_new_clock env c } }"

definition given :: "calc_param \<Rightarrow> nat \<Rightarrow> bool" where
  "given p n \<longleftrightarrow> cp_ok p \<and> unat (cp_size p) = n"

definition classic_clock_84p :: "calendar \<Rightarrow> calc_param list \<Rightarrow> usb_clock option" where
  "classic_clock_84p cal ps =
     (if given (ps ! 2) 1 \<and> given (ps ! 3) 4 \<and> given (ps ! 4) 1 \<and> given (ps ! 5) 1
      then (let cur = localtime cal (clock_reference cal + uint (be_word (cp_data (ps ! 3))))
            in Some \<lparr>clock_year = word_of_int (tm_year cur + 1900), clock_month = word_of_int (tm_mon cur + 1),
                 clock_day = word_of_int (tm_mday cur), clock_hours = word_of_int (tm_hour cur),
                 clock_minutes = word_of_int (tm_min cur), clock_seconds = word_of_int (tm_sec cur),
                 clock_time_format = (if cp_data (ps ! 5) ! 0 \<noteq> 0 then 24 else 12),
                 clock_date_format = (if cp_data (ps ! 4) ! 0 = 0 then 3 else cp_data (ps ! 4) ! 0),
                 clock_state = uint (cp_data (ps ! 2) ! 0)\<rparr>)
      else None)"

definition new_clock_84p :: "calc_param list \<Rightarrow> usb_clock option" where
  "new_clock_84p ps =
     (if given (ps ! 2) 1 \<and> (\<forall>i\<in>set [4..<11]. given (ps ! i) 1) \<and> given (ps ! 11) 2
      then Some \<lparr>clock_year = word_16 (cp_data (ps ! 11) ! 1) (cp_data (ps ! 11) ! 0), clock_month = cp_data (ps ! 10) ! 0,
        clock_day = cp_data (ps ! 9) ! 0, clock_hours = cp_data (ps ! 8) ! 0,
        clock_minutes = cp_data (ps ! 7) ! 0, clock_seconds = cp_data (ps ! 6) ! 0,
        clock_time_format = (if cp_data (ps ! 5) ! 0 = 0x80 then 12 else 24),
        clock_date_format = (if cp_data (ps ! 4) ! 0 = 0 then 3 else cp_data (ps ! 4) ! 0),
        clock_state = uint (cp_data (ps ! 2) ! 0)\<rparr>
      else None)"

definition get_clock_84p :: "link_env \<Rightarrow> calendar \<Rightarrow> (link, int \<times> usb_clock option) state" where
  "get_clock_84p env cal = do {
     record_event (Label ''Getting clock...'');
     (ret, ps) \<leftarrow> ask_params env [DUSB_PID_CLASSIC_CLK_SUPPORT, DUSB_PID_NEW_CLK_SUPPORT, DUSB_PID_CLK_ON, DUSB_PID_CLK_SEC_SINCE_1997,
       DUSB_PID_CLK_DATE_FMT, DUSB_PID_CLK_TIME_FMT, DUSB_PID_CLK_SECONDS, DUSB_PID_CLK_MINUTES, DUSB_PID_CLK_HOURS,
       DUSB_PID_CLK_DAY, DUSB_PID_CLK_MONTH, DUSB_PID_CLK_YEAR];
     State_Monad.return (ret,
       if ret \<noteq> 0 \<or> cp_ok (ps ! 0) = cp_ok (ps ! 1) then None
       else if cp_ok (ps ! 0) then classic_clock_84p cal ps else new_clock_84p ps) }"

section \<open>The version of the operating system\<close>

text \<open>The fields of the description that are filled in here; all others are zero.\<close>

record usb_infos =
  ui_model :: CalcModel
  ui_mask :: u32
  ui_product_name :: string
  ui_product_id :: string
  ui_main_calc_id :: string
  ui_hw_version :: u16
  ui_language_id :: byte
  ui_sub_lang_id :: byte
  ui_device_type :: u16
  ui_boot_version :: string
  ui_os_version :: string
  ram_phys :: u64
  ram_user :: u64
  ram_free :: u64
  flash_phys :: u64
  flash_user :: u64
  flash_free :: u64
  lcd_width :: u16
  lcd_height :: u16
  ui_battery :: byte
  run_level :: byte
  bits_per_pixel :: u16
  exact_math :: byte
  color_screen :: byte
  python_on_board :: byte

definition version_pids :: "u16 list" where
  "version_pids =
     [DUSB_PID_OS_MODE, DUSB_PID_DEVICE_TYPE, DUSB_PID_PRODUCT_NUMBER, DUSB_PID_PRODUCT_NAME, DUSB_PID_MAIN_PART_ID,
      DUSB_PID_HW_VERSION, DUSB_PID_LANGUAGE_ID, DUSB_PID_SUBLANG_ID,
      DUSB_PID_BOOT_BUILD_NUMBER, DUSB_PID_BOOT_VERSION, DUSB_PID_OS_BUILD_NUMBER, DUSB_PID_OS_VERSION,
      DUSB_PID_PHYS_RAM, DUSB_PID_USER_RAM, DUSB_PID_FREE_RAM,
      DUSB_PID_PHYS_FLASH, DUSB_PID_USER_FLASH, DUSB_PID_FREE_FLASH,
      DUSB_PID_LCD_WIDTH, DUSB_PID_LCD_HEIGHT, DUSB_PID_BITS_PER_PIXEL, DUSB_PID_COLOR_AVAILABLE,
      DUSB_PID_BATTERY_ENOUGH, DUSB_PID_MATH_CAPABILITIES, DUSB_PID_PYTHON_ON_BOARD, DUSB_PID_CLASSIC_CLK_SUPPORT]"

text \<open>A value the calculator gave with the right size, and 0 without it.\<close>

definition param_byte :: "calc_param \<Rightarrow> byte" where
  "param_byte p = (if given p 1 then cp_data p ! 0 else 0)"

definition param_word :: "calc_param \<Rightarrow> u16" where
  "param_word p = (if given p 2 then word_16 (cp_data p ! 1) (cp_data p ! 0) else 0)"

definition param_u64 :: "calc_param \<Rightarrow> u64" where
  "param_u64 p = (if given p 8
     then push_bit 56 (ucast (cp_data p ! 0)) OR push_bit 48 (ucast (cp_data p ! 1)) OR push_bit 40 (ucast (cp_data p ! 2))
       OR push_bit 32 (ucast (cp_data p ! 3)) OR push_bit 24 (ucast (cp_data p ! 4)) OR push_bit 16 (ucast (cp_data p ! 5))
       OR push_bit 8 (ucast (cp_data p ! 6)) OR ucast (cp_data p ! 7)
     else 0)"

definition product_number :: "calc_param \<Rightarrow> byte" where
  "product_number p = (if given p 4 then cp_data p ! 3 else 0)"

text \<open>At most 63 bytes of a name are kept.\<close>

definition product_name_84p :: "calc_param \<Rightarrow> string" where
  "product_name_84p p = (if cp_ok p then array_name (take (min (unat (cp_size p)) 63) (cp_data p)) else [])"

definition hex_digit_upper :: "nat \<Rightarrow> char" where
  "hex_digit_upper d = ''0123456789ABCDEF'' ! (d mod 16)"

definition hex_upper_02 :: "byte \<Rightarrow> string" where
  "hex_upper_02 b = [hex_digit_upper (unat b div 16), hex_digit_upper (unat b)]"

text \<open>The identifier has the product number for its first byte, whatever came there.\<close>

definition calc_id_84p :: "byte \<Rightarrow> calc_param \<Rightarrow> string" where
  "calc_id_84p product p = (if given p 5 then concat (map hex_upper_02 (product # take 4 (drop 1 (cp_data p)))) else [])"

definition dec_04 :: "u16 \<Rightarrow> string" where
  "dec_04 w = replicate (4 - length (decimal (unat w))) CHR ''0'' @ decimal (unat w)"

text \<open>A version has two numbers, or four if the calculator gave the number of the build.\<close>

definition version_known :: "calc_param \<Rightarrow> calc_param \<Rightarrow> bool" where
  "version_known build p \<longleftrightarrow> cp_ok p \<and> unat (cp_size p) \<ge> 3 \<and> (\<not> given build 2 \<or> unat (cp_size p) = 4)"

definition version_84p :: "calc_param \<Rightarrow> calc_param \<Rightarrow> string" where
  "version_84p build p =
     (let d = cp_data p
      in if \<not> version_known build p then []
         else if \<not> given build 2 then decimal (unat (d ! 1)) @ ''.'' @ dec_02 (d ! 2)
         else decimal (unat (d ! 1)) @ ''.'' @ decimal (unat (d ! 2)) @ ''.'' @ decimal (unat (d ! 3)) @ ''.'' @ dec_04 (param_word build))"

definition model_of_product :: "byte \<Rightarrow> byte \<Rightarrow> CalcModel" where
  "model_of_product product math =
     (if product = 0x0A then CALC_TI84P_USB
      else if product = 0x0B then CALC_TI82A_USB
      else if product = 0x0F then CALC_TI84PC_USB
      else if product = 0x13 then (if math \<noteq> 0 then CALC_TI83PCE_USB else CALC_TI84PCE_USB)
      else CALC_TI84P_USB)"

text \<open>Which fields are known: the bits of the mask.\<close>

primrec mask_bits :: "(bool \<times> nat) list \<Rightarrow> u32" where
  "mask_bits [] = 0"
| "mask_bits (x # xs) = (if fst x then push_bit (snd x) 1 else 0) OR mask_bits xs"

definition infos_mask_84p :: "calc_param list \<Rightarrow> u32" where
  "infos_mask_84p ps = mask_bits
     [(given (ps ! 0) 1, 19), (given (ps ! 1) 2, 6), (given (ps ! 2) 4, 22), (cp_ok (ps ! 3), 1), (given (ps ! 4) 5, 2),
      (given (ps ! 4) 5, 22), (given (ps ! 5) 2, 3), (given (ps ! 6) 1, 4), (given (ps ! 7) 1, 5),
      (version_known (ps ! 8) (ps ! 9), 7), (version_known (ps ! 10) (ps ! 11), 8),
      (given (ps ! 12) 8, 9), (given (ps ! 13) 8, 10), (given (ps ! 14) 8, 11),
      (given (ps ! 15) 8, 12), (given (ps ! 16) 8, 13), (given (ps ! 17) 8, 14),
      (given (ps ! 18) 2, 15), (given (ps ! 19) 2, 16), (given (ps ! 20) 1, 20), (given (ps ! 21) 1, 25),
      (given (ps ! 22) 1, 17), (given (ps ! 23) 1, 23), (given (ps ! 24) 1, 26), (True, 31)]"

definition infos_84p :: "calc_param list \<Rightarrow> usb_infos" where
  "infos_84p ps =
     \<lparr>ui_model = model_of_product (product_number (ps ! 2)) (param_byte (ps ! 23)), ui_mask = infos_mask_84p ps,
      ui_product_name = product_name_84p (ps ! 3),
      ui_product_id = calc_id_84p (product_number (ps ! 2)) (ps ! 4), ui_main_calc_id = calc_id_84p (product_number (ps ! 2)) (ps ! 4),
      ui_hw_version = param_word (ps ! 5), ui_language_id = param_byte (ps ! 6), ui_sub_lang_id = param_byte (ps ! 7),
      ui_device_type = (if given (ps ! 1) 2 then ucast (cp_data (ps ! 1) ! 1) else 0),
      ui_boot_version = version_84p (ps ! 8) (ps ! 9), ui_os_version = version_84p (ps ! 10) (ps ! 11),
      ram_phys = param_u64 (ps ! 12), ram_user = param_u64 (ps ! 13), ram_free = param_u64 (ps ! 14),
      flash_phys = param_u64 (ps ! 15), flash_user = param_u64 (ps ! 16), flash_free = param_u64 (ps ! 17),
      lcd_width = param_word (ps ! 18), lcd_height = param_word (ps ! 19),
      ui_battery = param_byte (ps ! 22), run_level = param_byte (ps ! 0), bits_per_pixel = ucast (param_byte (ps ! 20)),
      exact_math = param_byte (ps ! 23), color_screen = param_byte (ps ! 21), python_on_board = param_byte (ps ! 24)\<rparr>"

definition get_version_84p :: "link_env \<Rightarrow> (link, int \<times> usb_infos option) state" where
  "get_version_84p env = do {
     record_event (Label ''Getting version...'');
     (ret, ps) \<leftarrow> ask_params env version_pids;
     State_Monad.return (ret, if ret \<noteq> 0 then None else Some (infos_84p ps)) }"

end
