(* ===== verification/Dusb_Talk.thy ===== *)
theory Dusb_Talk
  imports Dusb_Wire Dusb_Cmd
begin

text \<open>
  What the commands of the USB port say and hear: messages cut into pieces, answers that may be preceded by
  a request for a delay, and the parameters and attributes in them.
\<close>

section \<open>Messages\<close>

abbreviation packet_of :: "u16 \<Rightarrow> bytes \<Rightarrow> virtual_packet" where
  "packet_of ty d \<equiv> \<lparr>vp_size = of_nat (length d), vp_type = ty, vp_data = Some d\<rparr>"

text \<open>A packet in pieces of at most \<open>k\<close> bytes, and the acknowledgements of the pieces.\<close>

definition message :: "nat \<Rightarrow> u16 \<Rightarrow> bytes \<Rightarrow> bytes" where
  "message k ty d = piece_bytes (virtual_pieces k (packet_of ty d))"

definition message_acks :: "nat \<Rightarrow> u16 \<Rightarrow> bytes \<Rightarrow> bytes" where
  "message_acks k ty d = acks (length (virtual_pieces k (packet_of ty d)))"

text \<open>An answer, after a packet that asks for a delay of \<open>us\<close> microseconds.\<close>

definition answer :: "nat \<Rightarrow> u32 option \<Rightarrow> u16 \<Rightarrow> bytes \<Rightarrow> bytes" where
  "answer k dl ty d = (case dl of None \<Rightarrow> [] | Some us \<Rightarrow> message k DUSB_VPKT_DELAY_ACK (size_bytes us)) @ message k ty d"

definition answer_acks :: "nat \<Rightarrow> u32 option \<Rightarrow> u16 \<Rightarrow> bytes \<Rightarrow> bytes" where
  "answer_acks k dl ty d =
     (case dl of None \<Rightarrow> [] | Some us \<Rightarrow> message_acks k DUSB_VPKT_DELAY_ACK (size_bytes us)) @ message_acks k ty d"

lemma cut_length: "0 < n \<Longrightarrow> length (cut n e) \<le> length e + 1"
proof (induction n e rule: cut.induct)
  case (1 n d)
  then show ?case by (cases "length d < n") (simp_all add: cut.simps [of n d])
qed

lemma pieces_bound:
  assumes "DUSB_DH_SIZE \<le> k"
  shows "length (virtual_pieces k (packet_of ty d)) \<le> length d + 2"
proof -
  let ?full = "data_header (packet_of ty d) @ take (unat (of_nat (length d) :: u32)) d"
  have "length (cut k (drop k ?full)) \<le> length (drop k ?full) + 1"
    using assms by (intro cut_length) (simp add: DUSB_DH_SIZE_def)
  moreover have "length (drop k ?full) \<le> length d" using assms by simp
  ultimately show ?thesis by (simp add: virtual_pieces_def pieces_of_def packet_data_def)
qed

lemma same_packet_parts:
  assumes "same_packet v (packet_of ty d)" "length d < 2 ^ 31"
  shows "vp_type v = ty" "packet_data v = d" "vp_size v = of_nat (length d)"
proof -
  have "unat (of_nat (length d) :: u32) = length d" using assms(2) by (intro be_size) simp
  then show "vp_type v = ty" "packet_data v = d" "vp_size v = of_nat (length d)"
    using assms(1) by (simp_all add: same_packet_def packet_data_def)
qed

lemma pieces_same:
  assumes "vp_size v = vp_size v'" "vp_type v = vp_type v'" "take (unat (vp_size v)) (packet_data v) = take (unat (vp_size v')) (packet_data v')"
  shows "virtual_pieces k v = virtual_pieces k v'"
  using assms by (simp add: virtual_pieces_def data_header_def)

lemma talk_send_packet:
  assumes w: "working env w" and d: "length d < 2 ^ 31" and n: "DUSB_DH_SIZE \<le> unat n" "unat n \<le> DUSB_DATA_SIZE"
  shows "usb_talk m n w (send_packet env ty d) 0 (message (unat n) ty d) (message_acks (unat n) ty d)"
proof -
  let ?v = "\<lparr>vp_size = of_nat (length d), vp_type = ty, vp_data = Some (write_at (dusb_vtl_pkt_alloc_data (length d)) 0 d)\<rparr>"
  have u: "unat (of_nat (length d) :: u32) = length d" using d by (intro be_size) simp
  have data: "length (write_at (dusb_vtl_pkt_alloc_data (length d)) 0 d) = length d + DUSB_DH_SIZE"
    "take (length d) (write_at (dusb_vtl_pkt_alloc_data (length d)) 0 d) = d"
    by (simp_all add: write_at_def dusb_vtl_pkt_alloc_data_def)
  have "virtual_pieces (unat n) ?v = virtual_pieces (unat n) (packet_of ty d)"
    by (rule pieces_same) (simp_all add: packet_data_def u data)
  moreover have "unat (vp_size ?v) \<le> length (packet_data ?v)" by (simp add: packet_data_def u data)
  ultimately show ?thesis
    using talk_send_data [OF w _ n, of ?v m] by (simp add: send_packet_def message_def message_acks_def)
qed

section \<open>Receiving commands\<close>

text \<open>Rounds for the pieces of a packet with data \<open>d\<close> and of a delay.\<close>

definition rounds_for :: "link_env \<Rightarrow> bytes \<Rightarrow> bool" where
  "rounds_for env d \<longleftrightarrow> length d + 6 \<le> rounds env"

lemma talk_recv_message:
  assumes w: "working env w" and d: "length d < 2 ^ 31" and k: "DUSB_DH_SIZE \<le> k" "k \<le> DUSB_DATA_SIZE" "length d + 2 \<le> rounds env"
  shows "\<exists>v. vp_type v = ty \<and> packet_data v = d \<and> vp_size v = of_nat (length d)
    \<and> usb_talk m n w (dusb_recv_data env v0) (0, v) (message_acks k ty d) (message k ty d)"
proof -
  have u: "unat (of_nat (length d) :: u32) = length d" using d by (intro be_size) simp
  have "length (virtual_pieces k (packet_of ty d)) \<le> rounds env" using pieces_bound [OF k(1)] k(3) order_trans by blast
  then obtain v where v: "same_packet v (packet_of ty d)"
    "usb_talk m n w (dusb_recv_data env v0) (0, v) (message_acks k ty d) (message k ty d)"
    using talk_recv_data [OF w, of "packet_of ty d" k m n v0] d k u by (auto simp: packet_data_def message_def message_acks_def)
  then show ?thesis using same_packet_parts [OF v(1) d] by blast
qed

lemma talk_read_at:
  "off + k \<le> length (packet_data v) \<Longrightarrow> usb_talk m n w (read_at env v off k) (take k (drop off (packet_data v))) [] []"
  by (simp add: read_at_def Let_def)

text \<open>The answer, with or without a delay before it.\<close>

lemma talk_recv_command:
  assumes w: "working env w" and d: "length d < 2 ^ 31" and k: "DUSB_DH_SIZE \<le> k" "k \<le> DUSB_DATA_SIZE" and r: "rounds_for env d"
    and ty: "dl = None \<longrightarrow> ty \<noteq> DUSB_VPKT_DELAY_ACK"
  shows "\<exists>v. vp_type v = ty \<and> packet_data v = d \<and> vp_size v = of_nat (length d)
    \<and> usb_talk m n w (recv_command env (dusb_recv_data env)) (0, v) (answer_acks k dl ty d) (answer k dl ty d)"
proof -
  have rounds: "length d + 2 \<le> rounds env" "length (size_bytes us) + 2 \<le> rounds env" for us
    using r by (simp_all add: rounds_for_def)
  obtain v where v: "vp_type v = ty" "packet_data v = d" "vp_size v = of_nat (length d)"
    "usb_talk m n w (dusb_recv_data env empty_packet) (0, v) (message_acks k ty d) (message k ty d)"
    using talk_recv_message [OF w d k rounds(1)] by blast
  have "usb_talk m n w (recv_command env (dusb_recv_data env)) (0, v) (answer_acks k dl ty d) (answer k dl ty d)"
  proof (cases dl)
    case None
    then have "vp_type v \<noteq> DUSB_VPKT_DELAY_ACK" using ty v(1) by simp
    then have "usb_talk m n w (catch_delay env (dusb_recv_data env) v) (0, v) [] []" by (simp add: catch_delay_def)
    then show ?thesis
      unfolding recv_command_def None answer_def answer_acks_def option.case
      by (intro usb.converses_then [OF v(4), where out' = "[]" and inp' = "[]"]) simp_all
  next
    case (Some us)
    have four: "length (size_bytes us) < 2 ^ 31" by simp
    obtain v' where v': "vp_type v' = DUSB_VPKT_DELAY_ACK" "packet_data v' = size_bytes us"
      "usb_talk m n w (dusb_recv_data env empty_packet) (0, v') (message_acks k DUSB_VPKT_DELAY_ACK (size_bytes us))
        (message k DUSB_VPKT_DELAY_ACK (size_bytes us))"
      using talk_recv_message [OF w four k rounds(2)] by blast
    have "usb_talk m n w (catch_delay env (dusb_recv_data env) v') (0, v) (message_acks k ty d) (message k ty d)"
      unfolding catch_delay_def v'(1)
      apply (simp only: simp_thms if_True)
      apply (rule usb.converses_quietly [OF talk_read_at])
       apply (simp add: v'(2))
      apply (rule usb.converses_quietly [OF usb.converses_event])
        apply simp_all
      apply (rule v(4))
      done
    then show ?thesis
      unfolding recv_command_def Some answer_def answer_acks_def option.case
      by (intro usb.converses_then [OF v'(3), where out' = "message_acks k ty d" and inp' = "message k ty d"]) simp_all
  qed
  then show ?thesis using v by blast
qed

text \<open>The answer that is wanted is taken; an error is reported as its code, anything else as invalid.\<close>

definition outcome :: "u16 \<Rightarrow> u16 \<Rightarrow> bytes \<Rightarrow> int" where
  "outcome want ty d =
     (if ty = DUSB_VPKT_ERROR then ERR_CALC_ERROR2 + err_code (word_16 (d ! 1) (d ! 0))
      else if ty \<noteq> want then ERR_INVALID_PACKET else 0)"

lemma talk_read_word:
  "off + 2 \<le> length (packet_data v) \<Longrightarrow>
    usb_talk m n w (read_word env v off) (word_16 (packet_data v ! (off + 1)) (packet_data v ! off)) [] []"
  unfolding read_word_def by (rule usb.converses_quietly, rule talk_read_at) simp_all

lemma talk_expect_type:
  assumes "vp_type v = DUSB_VPKT_ERROR \<longrightarrow> 2 \<le> length (packet_data v)"
  shows "usb_talk m n w (expect_type env ty v) (outcome ty (vp_type v) (packet_data v)) [] []"
proof (cases "vp_type v = DUSB_VPKT_ERROR")
  case True
  have "usb_talk m n w (read_word env v 0) (word_16 (packet_data v ! 1) (packet_data v ! 0)) [] []"
    using talk_read_word [of 0 v m n w env] assms True by simp
  then have "usb_talk m n w (err_code_pkt env v) (err_code (word_16 (packet_data v ! 1) (packet_data v ! 0))) [] []"
    unfolding err_code_pkt_def by (rule usb.converses_quietly) (rule usb.converses_return)
  then have "usb_talk m n w (do { e \<leftarrow> err_code_pkt env v; State_Monad.return (ERR_CALC_ERROR2 + e) })
      (ERR_CALC_ERROR2 + err_code (word_16 (packet_data v ! 1) (packet_data v ! 0))) [] []"
    by (rule usb.converses_quietly) (rule usb.converses_return)
  then show ?thesis by (simp only: expect_type_def outcome_def True simp_thms if_True)
next
  case False
  then show ?thesis by (simp only: expect_type_def outcome_def simp_thms if_False) (rule usb.converses_return)
qed

text \<open>What a calculator may answer: no delay instead of the answer, and errors with their code.\<close>

definition proper_answer :: "link_env \<Rightarrow> u32 option \<Rightarrow> u16 \<Rightarrow> bytes \<Rightarrow> bool" where
  "proper_answer env dl ty d \<longleftrightarrow> length d < 2 ^ 31 \<and> rounds_for env d \<and> (dl = None \<longrightarrow> ty \<noteq> DUSB_VPKT_DELAY_ACK)
     \<and> (ty = DUSB_VPKT_ERROR \<longrightarrow> 2 \<le> length d)"

lemma talk_recv_packet:
  assumes w: "working env w" and k: "DUSB_DH_SIZE \<le> k" "k \<le> DUSB_DATA_SIZE" and a: "proper_answer env dl ty d"
  shows "\<exists>v. vp_type v = ty \<and> packet_data v = d \<and> vp_size v = of_nat (length d)
    \<and> usb_talk m n w (recv_packet env want) (outcome want ty d, v) (answer_acks k dl ty d) (answer k dl ty d)"
proof -
  have d: "length d < 2 ^ 31" and r: "rounds_for env d" and ty: "dl = None \<longrightarrow> ty \<noteq> DUSB_VPKT_DELAY_ACK"
    using a unfolding proper_answer_def by blast+
  obtain v where v: "vp_type v = ty" "packet_data v = d" "vp_size v = of_nat (length d)"
    "usb_talk m n w (recv_command env (dusb_recv_data env)) (0, v) (answer_acks k dl ty d) (answer k dl ty d)"
    using talk_recv_command [OF w d k r ty] by blast
  have e: "usb_talk m n w (expect_type env want v) (outcome want ty d) [] []"
    using talk_expect_type [of v m n w env want] a by (simp add: v proper_answer_def)
  have "usb_talk m n w (recv_packet env want) (outcome want ty d, v) (answer_acks k dl ty d) (answer k dl ty d)"
    unfolding recv_packet_def
    apply (rule usb.converses_then [OF v(4), where out' = "[]" and inp' = "[]"])
      apply (simp only: prod.case refl not_True_eq_False if_False)
      apply (rule usb.converses_quietly [OF e])
      apply simp_all
    done
  then show ?thesis using v by blast
qed

lemma talk_with_handle:
  assumes "\<And>h. link_model h = m \<Longrightarrow> usb_talk m n w (f h) r out inp"
  shows "usb_talk m n w (with_handle failure f) r out inp"
  unfolding with_handle_def by (rule usb.converses_get) (use assms in auto)

lemma talk_answer:
  assumes "working env w" "DUSB_DH_SIZE \<le> k" "k \<le> DUSB_DATA_SIZE" "proper_answer env dl ty d"
  shows "usb_talk m n w (recv_answer_packet env want) (outcome want ty d) (answer_acks k dl ty d) (answer k dl ty d)"
proof -
  obtain v where "usb_talk m n w (recv_packet env want) (outcome want ty d, v) (answer_acks k dl ty d) (answer k dl ty d)"
    using talk_recv_packet [OF assms] by blast
  then show ?thesis
    unfolding recv_answer_packet_def by (intro talk_with_handle usb.converses_only_status)
qed

section \<open>Parameters and attributes\<close>

text \<open>A parameter on the wire; one that is not available has no value.\<close>

definition param_bytes :: "calc_param \<Rightarrow> bytes" where
  "param_bytes p = word_bytes (cp_id p) @ (if cp_ok p then [0] @ word_bytes (cp_size p) @ cp_data p else [1])"

definition proper_param :: "calc_param \<Rightarrow> bool" where
  "proper_param p \<longleftrightarrow> unat (cp_size p) = length (cp_data p) \<and> (\<not> cp_ok p \<longrightarrow> cp_data p = [])"

lemma word_16_back: "word_16 (word_bytes i ! 1) (word_bytes i ! 0) = i"
  by (simp add: word_bytes_def word_16_bytes)

lemma length_word_bytes [simp]: "length (word_bytes i) = 2"
  by (simp add: word_bytes_def)

lemma talk_word:
  assumes "packet_data v = pre @ word_bytes i @ post" "j = length pre"
  shows "usb_talk m n w (read_word env v j) i [] []"
proof -
  have "packet_data v ! (j + 1) = word_bytes i ! 1" "packet_data v ! j = word_bytes i ! 0" "j + 2 \<le> length (packet_data v)"
    using assms by (simp_all add: nth_append)
  then show ?thesis using talk_read_word [of j v m n w env] by (simp only: word_16_back)
qed

lemma talk_bytes:
  assumes "packet_data v = pre @ d @ post" "j = length pre" "k = length d"
  shows "usb_talk m n w (read_at env v j k) d [] []"
  using talk_read_at [of j k v m n w env] assms by simp

lemma talk_read_param:
  assumes v: "packet_data v = pre @ param_bytes p @ post" and j: "j = length pre" and p: "proper_param p"
  shows "usb_talk m n w (read_param env v j) (p, j + length (param_bytes p)) [] []"
proof -
  obtain i ok sz d where p_is: "p = \<lparr>cp_id = i, cp_ok = ok, cp_size = sz, cp_data = d\<rparr>" by (cases p)
  have sz: "unat sz = length d" "\<not> ok \<Longrightarrow> d = []" "\<not> ok \<Longrightarrow> sz = 0"
    using p by (auto simp: p_is proper_param_def unsigned_eq_0_iff)
  show ?thesis
  proof (cases ok)
    case True
    have v': "packet_data v = pre @ word_bytes i @ [0] @ word_bytes sz @ d @ post" using v True by (simp add: p_is param_bytes_def)
    show ?thesis
      unfolding read_param_def
      apply (rule usb.converses_quietly [OF talk_word [where pre = pre and i = i and post = "[0] @ word_bytes sz @ d @ post"]])
        apply (simp add: v')
       apply (rule j)
      apply (rule usb.converses_quietly [OF talk_bytes [where pre = "pre @ word_bytes i" and d = "[0]" and post = "word_bytes sz @ d @ post"]])
         apply (simp add: v')
        apply (simp add: j)
       apply simp
      apply (simp only: nth_Cons_0 simp_thms if_False)
      apply (rule usb.converses_quietly [OF talk_word [where pre = "pre @ word_bytes i @ [0]" and i = sz and post = "d @ post"]])
        apply (simp add: v')
       apply (simp add: j)
      apply (rule usb.converses_quietly [OF talk_bytes [where pre = "pre @ word_bytes i @ [0] @ word_bytes sz" and d = d and post = post]])
         apply (simp add: v')
        apply (simp add: j)
       apply (rule sz(1))
      apply (simp add: p_is True param_bytes_def sz(1) eval_nat_numeral)
      done
  next
    case False
    have v': "packet_data v = pre @ word_bytes i @ [1] @ post" using v False by (simp add: p_is param_bytes_def)
    show ?thesis
      unfolding read_param_def
      apply (rule usb.converses_quietly [OF talk_word [where pre = pre and i = i and post = "[1] @ post"]])
        apply (simp add: v')
       apply (rule j)
      apply (rule usb.converses_quietly [OF talk_bytes [where pre = "pre @ word_bytes i" and d = "[1]" and post = post]])
         apply (simp add: v')
        apply (simp add: j)
       apply simp
      using sz False apply (simp add: p_is param_bytes_def)
      done
  qed
qed

lemma talk_read_params:
  assumes "packet_data v = pre @ concat (map param_bytes ps) @ post" "j = length pre" "\<forall>p\<in>set ps. proper_param p"
  shows "usb_talk m n w (read_params env v (length ps) j) ps [] []"
  using assms
proof (induction ps arbitrary: pre j)
  case (Cons p ps)
  have one: "usb_talk m n w (read_param env v j) (p, j + length (param_bytes p)) [] []"
    using Cons.prems by (intro talk_read_param [where post = "concat (map param_bytes ps) @ post" and pre = pre]) simp_all
  have rest: "usb_talk m n w (read_params env v (length ps) (j + length (param_bytes p))) ps [] []"
    using Cons.prems by (intro Cons.IH [where pre = "pre @ param_bytes p"]) simp_all
  show ?case
    unfolding length_Cons read_params.simps
    by (rule usb.converses_quietly [OF one]) (simp only: prod.case, rule usb.converses_quietly [OF rest], rule usb.converses_return)
qed simp

text \<open>Attributes as they are sent.\<close>

definition sent_attr :: "calc_param \<Rightarrow> bytes" where
  "sent_attr a = word_bytes (cp_id a) @ word_bytes (cp_size a) @ cp_data a"

definition sent_attrs :: "calc_param list \<Rightarrow> bytes" where
  "sent_attrs as = word_bytes (of_nat (length as)) @ concat (map sent_attr as)"

lemma talk_read_array: "k \<le> length d \<Longrightarrow> usb_talk m n w (read_array env k d) (take k d) [] []"
  by (simp add: read_array_def)

lemma talk_attr_bytes:
  "\<forall>a\<in>set as. unat (cp_size a) = length (cp_data a) \<Longrightarrow> usb_talk m n w (attr_bytes env as) (concat (map sent_attr as)) [] []"
proof (induction as)
  case (Cons a as)
  have d: "usb_talk m n w (read_array env (unat (cp_size a)) (cp_data a)) (cp_data a) [] []"
    using talk_read_array [of "unat (cp_size a)" "cp_data a" m n w env] Cons.prems by simp
  have one: "sent_attr a = word_bytes (cp_id a) @ word_bytes (cp_size a) @ cp_data a" by (rule sent_attr_def)
  have rest: "usb_talk m n w (attr_bytes env as) (concat (map sent_attr as)) [] []" using Cons by simp
  show ?case
    unfolding attr_bytes.simps
    by (rule usb.converses_quietly [OF d], rule usb.converses_quietly [OF rest]) (simp add: one)
qed simp

lemma talk_attr_list:
  assumes "\<forall>a\<in>set as. unat (cp_size a) = length (cp_data a)"
  shows "usb_talk m n w (attr_list env as) (sent_attrs as) [] []"
  unfolding attr_list_def
  by (rule usb.converses_quietly [OF talk_attr_bytes [OF assms]]) (simp add: sent_attrs_def)

lemma attribute_size: "length d < 65536 \<Longrightarrow> unat (cp_size (attribute i d)) = length (cp_data (attribute i d))"
  by (simp add: attribute_def unat_of_nat take_bit_nat_eq_self)

section \<open>Commands\<close>

text \<open>A working cable and a size of the pieces that fits the array.\<close>

definition agreed :: "link_env \<Rightarrow> (nat \<Rightarrow> byte) \<Rightarrow> u32 \<Rightarrow> bool" where
  "agreed env w n \<longleftrightarrow> working env w \<and> DUSB_DH_SIZE \<le> unat n \<and> unat n \<le> DUSB_DATA_SIZE"

lemma agreedD: "agreed env w n \<Longrightarrow> working env w" "agreed env w n \<Longrightarrow> DUSB_DH_SIZE \<le> unat n" "agreed env w n \<Longrightarrow> unat n \<le> DUSB_DATA_SIZE"
  by (simp_all only: agreed_def)

text \<open>What is said and heard when a packet is sent, or an answer received.\<close>

abbreviation tells :: "CalcModel \<Rightarrow> u32 \<Rightarrow> (nat \<Rightarrow> byte) \<Rightarrow> (link, int) state \<Rightarrow> u16 \<Rightarrow> bytes \<Rightarrow> bool" where
  "tells m n w p ty d \<equiv> usb_talk m n w p 0 (message (unat n) ty d) (message_acks (unat n) ty d)"

abbreviation hears :: "CalcModel \<Rightarrow> u32 \<Rightarrow> (nat \<Rightarrow> byte) \<Rightarrow> (link, 'a) state \<Rightarrow> 'a \<Rightarrow> u32 option \<Rightarrow> u16 \<Rightarrow> bytes \<Rightarrow> bool" where
  "hears m n w p r dl ty d \<equiv> usb_talk m n w p r (answer_acks (unat n) dl ty d) (answer (unat n) dl ty d)"

lemma tells_packet: "agreed env w n \<Longrightarrow> length d < 2 ^ 31 \<Longrightarrow> tells m n w (send_packet env ty d) ty d"
  by (rule talk_send_packet) (simp_all only: agreed_def)

lemma hears_answer:
  "agreed env w n \<Longrightarrow> proper_answer env dl ty d \<Longrightarrow> hears m n w (recv_answer_packet env want) (outcome want ty d) dl ty d"
  by (rule talk_answer) (simp_all only: agreed_def)

lemma hears_ack:
  "agreed env w n \<Longrightarrow> proper_answer env dl ty d \<Longrightarrow> hears m n w (dusb_cmd_r_data_ack env) (outcome DUSB_VPKT_DATA_ACK ty d) dl ty d"
  unfolding dusb_cmd_r_data_ack_def by (rule hears_answer)

lemma tells_eot:
  assumes "agreed env w n"
  shows "tells m n w (dusb_cmd_s_eot env) DUSB_VPKT_EOT []"
proof -
  let ?v = "\<lparr>vp_size = 0, vp_type = DUSB_VPKT_EOT, vp_data = None\<rparr>"
  have "virtual_pieces (unat n) ?v = virtual_pieces (unat n) (packet_of DUSB_VPKT_EOT [])"
    by (rule pieces_same) (simp_all add: packet_data_def)
  then show ?thesis
    using talk_send_data [OF agreedD(1) [OF assms] _ agreedD(2,3) [OF assms], of ?v m]
    unfolding dusb_cmd_s_eot_def message_def message_acks_def by (intro talk_with_handle) (simp add: packet_data_def)
qed

lemma tells_data:
  assumes a: "agreed env w n" and "unat sz \<le> length d" "unat sz + length head < 2 ^ 31"
  shows "tells m n w (send_with_head env ty head sz (Some d)) ty (head @ take (unat sz) d)"
  unfolding send_with_head_def with_nonnull_def option.case
  by (rule talk_with_handle, rule usb.converses_quietly, rule talk_read_array [OF assms(2)], rule tells_packet [OF a])
    (use assms in simp)

lemma tells_content:
  assumes "agreed env w n" "unat sz \<le> length d" "unat sz < 2 ^ 31"
  shows "tells m n w (dusb_cmd_s_var_content env sz (Some d)) DUSB_VPKT_VAR_CNTS (take (unat sz) d)"
  using tells_data [OF assms(1,2), of "[]"] assms(3) unfolding dusb_cmd_s_var_content_def by simp

text \<open>Attributes that hold as many bytes as they say.\<close>

definition full_attrs :: "calc_param list \<Rightarrow> bool" where
  "full_attrs as \<longleftrightarrow> (\<forall>a\<in>set as. unat (cp_size a) = length (cp_data a))"

definition rts_bytes :: "bytes \<Rightarrow> u32 \<Rightarrow> calc_param list \<Rightarrow> bytes" where
  "rts_bytes name sz attrs = [0] @ named name @ size_bytes sz @ [1] @ sent_attrs attrs"

lemma tells_rts:
  assumes a: "agreed env w n" and attrs: "full_attrs attrs" and len: "length (rts_bytes name sz attrs) < 2 ^ 31"
  shows "tells m n w (dusb_cmd_s_rts env [] name sz attrs) DUSB_VPKT_RTS (rts_bytes name sz attrs)"
proof -
  have d: "named_if_any [] @ named name @ size_bytes sz @ [1] @ sent_attrs attrs = rts_bytes name sz attrs"
    by (simp add: rts_bytes_def named_if_any_def)
  show ?thesis
    unfolding dusb_cmd_s_rts_def dusb_cmd_s_rts2_def
    by (rule talk_with_handle, rule usb.converses_quietly, rule talk_attr_list [OF attrs [unfolded full_attrs_def]])
      (simp only: d, rule tells_packet [OF a len])
qed

definition var_request_bytes :: "bytes \<Rightarrow> u16 list \<Rightarrow> calc_param list \<Rightarrow> bytes" where
  "var_request_bytes name aids attrs =
     [0] @ named name @ [0x01, 0xFF, 0xFF, 0xFF, 0xFF] @ word_bytes (of_nat (length aids)) @ concat (map word_bytes aids)
       @ sent_attrs attrs @ [0x00, 0x00]"

lemma tells_var_request:
  assumes a: "agreed env w n" and attrs: "full_attrs attrs" and len: "length (var_request_bytes name aids attrs) < 2 ^ 31"
  shows "tells m n w (dusb_cmd_s_var_request env [] name aids attrs) DUSB_VPKT_VAR_REQ (var_request_bytes name aids attrs)"
proof -
  have d: "named_if_any [] @ named name @ [0x01, 0xFF, 0xFF, 0xFF, 0xFF] @ word_bytes (of_nat (length aids)) @ concat (map word_bytes aids)
      @ sent_attrs attrs @ [0x00, 0x00] = var_request_bytes name aids attrs"
    by (simp add: var_request_bytes_def named_if_any_def)
  show ?thesis
    unfolding dusb_cmd_s_var_request_def
    by (rule talk_with_handle, rule usb.converses_quietly, rule talk_attr_list [OF attrs [unfolded full_attrs_def]])
      (simp only: d, rule tells_packet [OF a len])
qed

section \<open>Headers, contents and parameters received\<close>

lemma hears_packet:
  assumes a: "agreed env w n" and p: "proper_answer env dl ty d"
    and f: "\<And>v. vp_type v = ty \<Longrightarrow> packet_data v = d \<Longrightarrow> vp_size v = of_nat (length d) \<Longrightarrow> usb_talk m n w (f v) r [] []"
    and ok: "outcome ty ty d = 0"
  shows "hears m n w (yielding (recv_packet env ty) b f) r dl ty d"
proof -
  obtain v where v: "vp_type v = ty" "packet_data v = d" "vp_size v = of_nat (length d)"
    "hears m n w (recv_packet env ty) (outcome ty ty d, v) dl ty d"
    using talk_recv_packet [OF agreedD [OF a] p] by blast
  show ?thesis
    by (rule usb.converses_yielding [OF v(4) [unfolded ok]], rule f [OF v(1-3)]) simp_all
qed

lemma hears_content:
  assumes a: "agreed env w n" and p: "proper_answer env dl DUSB_VPKT_VAR_CNTS d"
  shows "hears m n w (dusb_cmd_r_var_content env) (0, of_nat (length d), d) dl DUSB_VPKT_VAR_CNTS d"
  unfolding dusb_cmd_r_var_content_def
proof (rule talk_with_handle, rule hears_packet [OF a p])
  fix v
  assume v: "packet_data v = d" "vp_size v = of_nat (length d)"
  have "length d < 2 ^ 31" using p by (simp add: proper_answer_def)
  then have "unat (vp_size v) = length d" unfolding v(2) by (intro be_size) simp
  then show "usb_talk m n w (do { d \<leftarrow> read_at env v 0 (unat (vp_size v)); State_Monad.return (0, vp_size v, d) }) (0, of_nat (length d), d) [] []"
    unfolding v(2) [symmetric]
    by (intro usb.converses_quietly [OF talk_bytes [where pre = "[]" and post = "[]" and d = d]]) (simp_all add: v(1))
qed (simp add: outcome_def)

lemma hears_params:
  assumes a: "agreed env w n" and ps: "\<forall>p\<in>set ps. proper_param p" "length ps < 65536"
    and p: "proper_answer env dl DUSB_VPKT_PARM_DATA d" and d: "d = word_bytes (of_nat (length ps)) @ concat (map param_bytes ps)"
  shows "hears m n w (dusb_cmd_r_param_data env (length ps)) (0, ps) dl DUSB_VPKT_PARM_DATA d"
  unfolding dusb_cmd_r_param_data_def
proof (rule talk_with_handle, rule hears_packet [OF a p])
  fix v
  assume v: "packet_data v = d"
  have u: "unat (of_nat (length ps) :: u16) = length ps" using ps(2) by (simp add: unat_of_nat take_bit_nat_eq_self)
  show "usb_talk m n w (do { k \<leftarrow> read_word env v 0;
      if unat k \<noteq> length ps then State_Monad.return (ERR_INVALID_PACKET, [])
      else do { params \<leftarrow> read_params env v (length ps) 2; State_Monad.return (0, params) } }) (0, ps) [] []"
    apply (rule usb.converses_quietly [OF talk_word [where pre = "[]" and i = "of_nat (length ps)" and post = "concat (map param_bytes ps)"]])
      apply (simp add: v d)
     apply simp
    apply (simp only: u refl not_True_eq_False if_False)
    apply (rule usb.converses_quietly [OF talk_read_params [where pre = "word_bytes (of_nat (length ps))" and post = "[]"]])
       apply (simp add: v d)
      apply simp
     apply (rule ps(1))
    apply (rule usb.converses_return)
    done
qed (simp add: outcome_def)

text \<open>Folder, name and attributes of a variable; a name is received with its terminator.\<close>

definition header_of :: "bytes \<Rightarrow> bytes \<Rightarrow> calc_param list \<Rightarrow> bytes" where
  "header_of folder name attrs =
     named_if_any folder @ named_if_any name @ word_bytes (of_nat (length attrs)) @ concat (map param_bytes attrs)"

definition got_name :: "bytes \<Rightarrow> bytes" where
  "got_name s = (if s = [] then [0] else s @ [0])"

lemma talk_read_name:
  assumes v: "packet_data v = pre @ named_if_any s @ post" and j: "j = length pre" and s: "length s < room" "length s < 256"
  shows "usb_talk m n w (read_name env v room j) (got_name s, j + length (named_if_any s)) [] []"
proof (cases "s = []")
  case True
  show ?thesis
    unfolding read_name_def
    apply (rule usb.converses_quietly [OF talk_bytes [where pre = pre and d = "[0]" and post = post]])
    using v j True by (simp_all add: named_if_any_def got_name_def)
next
  case False
  let ?n = "of_nat (length s) :: byte"
  have n: "unat ?n = length s" using s(2) by (simp add: unat_of_nat take_bit_nat_eq_self)
  then have nz: "(?n = 0) = False" using False by (metis length_0_conv unsigned_0)
  have v': "packet_data v = pre @ [?n] @ (s @ [0]) @ post" using v False by (simp add: named_if_any_def named_def)
  have room: "usb_talk m n w (received_into room (s @ [0])) () [] []" for m n w
    using s(1) by (simp add: received_into_def not_less)
  show ?thesis
    unfolding read_name_def
    apply (rule usb.converses_quietly [OF talk_bytes [where pre = pre and d = "[?n]" and post = "(s @ [0]) @ post"]])
       apply (rule v')
      apply (rule j)
     apply simp
    apply (simp only: nth_Cons_0 nz if_False n)
    apply (rule usb.converses_quietly [OF talk_bytes [where pre = "pre @ [?n]" and d = "s @ [0]" and post = post]])
       apply (simp add: v')
      apply (simp add: j)
     apply simp
    apply (rule usb.converses_quietly [OF room])
    using False apply (simp add: got_name_def named_if_any_def named_def)
    done
qed

lemma hears_header:
  assumes a: "agreed env w n" and p: "proper_answer env dl DUSB_VPKT_VAR_HDR d" and d: "d = header_of folder name attrs"
    and names: "length folder < room" "length name < room" "room \<le> 256"
    and attrs: "\<forall>p\<in>set attrs. proper_param p" "length attrs \<le> attr_room" "length attrs < 65536"
  shows "hears m n w (dusb_cmd_r_var_header env room attr_room) (0, got_name folder, got_name name, attrs) dl DUSB_VPKT_VAR_HDR d"
proof -
  have u: "unat (of_nat (length attrs) :: u16) = length attrs" using attrs(3) by (simp add: unat_of_nat take_bit_nat_eq_self)
  obtain v where v: "vp_type v = DUSB_VPKT_VAR_HDR" "packet_data v = d"
    "hears m n w (recv_command env (dusb_recv_data env)) (0, v) dl DUSB_VPKT_VAR_HDR d"
    using talk_recv_command [OF agreedD(1) [OF a] _ agreedD(2,3) [OF a], of d dl DUSB_VPKT_VAR_HDR m] p unfolding proper_answer_def by blast
  have e: "usb_talk m n w (expect_type env DUSB_VPKT_VAR_HDR v) 0 [] []"
    using talk_expect_type [of v m n w env DUSB_VPKT_VAR_HDR] by (simp add: v(1) outcome_def)
  let ?tail = "word_bytes (of_nat (length attrs)) @ concat (map param_bytes attrs)"
  have "usb_talk m n w (if vp_type v = DUSB_VPKT_EOT then State_Monad.return (ERR_EOT, [0], [0], [])
       else do {
         ret \<leftarrow> expect_type env DUSB_VPKT_VAR_HDR v;
         if ret \<noteq> 0 then State_Monad.return (ret, [0], [0], [])
         else do {
           (folder, j) \<leftarrow> read_name env v room 0;
           (name, j) \<leftarrow> read_name env v room j;
           nattr \<leftarrow> read_word env v j;
           (if unat nattr > attr_room then record_event (Overrun (8 * (unat nattr - attr_room))) else State_Monad.return ());
           attrs \<leftarrow> read_params env v (unat nattr) (j + 2);
           State_Monad.return (0, folder, name, attrs) } }) (0, got_name folder, got_name name, attrs) [] []"
  proof -
    have no_eot: "(vp_type v = DUSB_VPKT_EOT) = False" by (simp add: v(1))
    have fits: "(attr_room < length attrs) = False" using attrs(2) by simp
    show ?thesis
      apply (simp only: no_eot if_False)
      apply (rule usb.converses_quietly [OF e])
      apply (simp only: refl not_True_eq_False if_False)
      apply (rule usb.converses_quietly [OF talk_read_name [where pre = "[]" and s = folder and post = "named_if_any name @ ?tail"]])
          apply (simp add: v(2) d header_of_def)
         apply simp
        apply (rule names(1))
      using names apply simp
      apply (simp only: prod.case)
      apply (rule usb.converses_quietly [OF talk_read_name [where pre = "named_if_any folder" and s = name and post = ?tail]])
          apply (simp add: v(2) d header_of_def)
         apply simp
        apply (rule names(2))
      using names apply simp
      apply (simp only: prod.case)
      apply (rule usb.converses_quietly [OF talk_word [where pre = "named_if_any folder @ named_if_any name"
            and i = "of_nat (length attrs)" and post = "concat (map param_bytes attrs)"]])
        apply (simp add: v(2) d header_of_def)
       apply simp
      apply (simp only: u fits if_False)
      apply (rule usb.converses_quietly [OF usb.converses_return])
      apply (rule usb.converses_quietly [OF talk_read_params [where post = "[]"
            and pre = "named_if_any folder @ named_if_any name @ word_bytes (of_nat (length attrs))"]])
         apply (simp add: v(2) d header_of_def)
        apply simp
       apply (rule attrs(1))
      apply (rule usb.converses_return)
      done
  qed
  then show ?thesis
    unfolding dusb_cmd_r_var_header_def
    by (intro talk_with_handle usb.converses_yielding [OF v(3)]) simp_all
qed

end
