(* ===== verification/Usb_Variables.thy ===== *)
theory Usb_Variables
  imports Dusb_Talk Calc_84p Link_Variables
begin

text \<open>
  Variables over USB: what the transfer of a variable says and hears, and that a string of the wallet comes
  back from a TI-84 Plus as it was stored.
\<close>

section \<open>Sending a variable\<close>

text \<open>An answer of the calculator: delay before it, type and data.\<close>

type_synonym usb_answer = "u32 option \<times> u16 \<times> bytes"

definition says :: "nat \<Rightarrow> usb_answer \<Rightarrow> bytes" where
  "says k a = (case a of (dl, ty, d) \<Rightarrow> answer k dl ty d)"

definition says_acks :: "nat \<Rightarrow> usb_answer \<Rightarrow> bytes" where
  "says_acks k a = (case a of (dl, ty, d) \<Rightarrow> answer_acks k dl ty d)"

definition proper :: "link_env \<Rightarrow> usb_answer \<Rightarrow> bool" where
  "proper env a \<longleftrightarrow> (case a of (dl, ty, d) \<Rightarrow> proper_answer env dl ty d)"

text \<open>What an acknowledgement of data means for the transfer.\<close>

definition verdict :: "usb_answer \<Rightarrow> int" where
  "verdict a = (case a of (dl, ty, d) \<Rightarrow> outcome DUSB_VPKT_DATA_ACK ty d)"

lemma hears_verdict:
  assumes "agreed env w n" "proper env a"
  shows "usb_talk m n w (dusb_cmd_r_data_ack env) (verdict a) (says_acks (unat n) a) (says (unat n) a)"
proof -
  obtain dl ty d where a: "a = (dl, ty, d)" by (cases a)
  then show ?thesis using hears_ack [OF assms(1), of dl ty d m] assms(2) by (simp add: verdict_def says_def says_acks_def proper_def)
qed

text \<open>
  The transfer as the protocol has it: announcement, contents and end; it stops with the error of the first
  answer that is not an acknowledgement.  Result, bytes sent and bytes taken.
\<close>

definition usb_transfer :: "nat \<Rightarrow> bytes \<Rightarrow> bytes \<Rightarrow> usb_answer \<Rightarrow> usb_answer \<Rightarrow> int \<times> bytes \<times> bytes" where
  "usb_transfer k rts d a1 a2 =
     (let out1 = message k DUSB_VPKT_RTS rts @ says_acks k a1; in1 = message_acks k DUSB_VPKT_RTS rts @ says k a1;
          out2 = message k DUSB_VPKT_VAR_CNTS d @ says_acks k a2; in2 = message_acks k DUSB_VPKT_VAR_CNTS d @ says k a2
      in if verdict a1 \<noteq> 0 then (verdict a1, out1, in1)
         else if verdict a2 \<noteq> 0 then (verdict a2, out1 @ out2, in1 @ in2)
         else (0, out1 @ out2 @ message k DUSB_VPKT_EOT [], in1 @ in2 @ message_acks k DUSB_VPKT_EOT []))"

lemma steps_end: "usb_talk m n w p r out inp \<Longrightarrow> r \<noteq> 0 \<Longrightarrow> usb_talk m n w (steps (p # ps)) r out inp"
  by (simp only: steps.simps, erule usb.converses_then [where out' = "[]" and inp' = "[]"]) simp_all

lemma steps_next:
  "usb_talk m n w p 0 out inp \<Longrightarrow> usb_talk m n w (steps ps) r out' inp' \<Longrightarrow> usb_talk m n w (steps (p # ps)) r (out @ out') (inp @ inp')"
  by (rule usb.converses_steps) simp_all

lemma tells_transfer:
  assumes a: "agreed env w n" and attrs: "full_attrs attrs" and rts: "rts = rts_bytes (name_bytes name) sz attrs" "length rts < 2 ^ 31"
    and d: "unat sz \<le> length d" "unat sz < 2 ^ 31" and answers: "proper env a1" "proper env a2"
    and t: "usb_transfer (unat n) rts (take (unat sz) d) a1 a2 = (r, out, inp)"
  shows "usb_talk m n w (transfer_84p env name sz attrs (Some d)) r out inp"
proof -
  note announce = tells_rts [OF a attrs rts(2) [unfolded rts(1)], of m, folded rts(1)]
  note contents = tells_content [OF a d, of m]
  note ack1 = hears_verdict [OF a answers(1), of m] and ack2 = hears_verdict [OF a answers(2), of m]
  show ?thesis
  proof (cases "verdict a1 = 0")
    case False
    then show ?thesis
      using t steps_next [OF announce steps_end [OF ack1]] by (auto simp: usb_transfer_def Let_def transfer_84p_def)
  next
    case v1: True
    show ?thesis
    proof (cases "verdict a2 = 0")
      case False
      then show ?thesis
        using t v1 steps_next [OF announce steps_next [OF ack1 [unfolded v1] steps_next [OF contents steps_end [OF ack2]]]]
        by (auto simp: usb_transfer_def Let_def transfer_84p_def)
    next
      case True
      have eot: "usb_talk m n w (steps [dusb_cmd_s_eot env]) 0 (message (unat n) DUSB_VPKT_EOT []) (message_acks (unat n) DUSB_VPKT_EOT [])"
        using steps_next [OF tells_eot [OF a] usb.converses_steps_Nil, of m] by simp
      show ?thesis
        using t v1 True steps_next [OF announce steps_next [OF ack1 [unfolded v1] steps_next [OF contents steps_next [OF ack2 [unfolded True] eot]]]]
        by (auto simp: usb_transfer_def Let_def transfer_84p_def)
    qed
  qed
qed

text \<open>A variable whose data are as long as its size says.\<close>

definition usb_sendable :: "VarEntry \<Rightarrow> bool" where
  "usb_sendable e \<longleftrightarrow> ve_action e \<noteq> ACT_SKIP \<and> unat (ve_size e) < 2 ^ 31 \<and> length (ve_name e) < 2 ^ 16
     \<and> (\<exists>d. ve_data e = Some d \<and> unat (ve_size e) \<le> length d)"

definition usb_rts :: "CalcModel \<Rightarrow> VarEntry \<Rightarrow> bytes" where
  "usb_rts m e = rts_bytes (name_bytes (ve_name e)) (ve_size e) (var_attrs_84p m e)"

lemma attrs_full: "full_attrs (var_attrs_84p m e)" "full_attrs [type_attr i b ty]"
  by (simp_all add: full_attrs_def var_attrs_84p_def type_attr_def attribute_def)

lemma length_name_bytes: "length (name_bytes s) \<le> length s"
  unfolding name_bytes_def by (rule order_trans [OF length_takeWhile_le]) simp

lemma length_usb_rts: "length (ve_name e) < 2 ^ 16 \<Longrightarrow> length (usb_rts m e) < 2 ^ 31"
  using length_name_bytes [of "ve_name e"]
  by (simp add: usb_rts_def rts_bytes_def named_def sent_attrs_def sent_attr_def var_attrs_84p_def type_attr_def attribute_def)

text \<open>Variables one after the other, with the two answers to each; the first error ends the transfer.\<close>

primrec usb_transfers :: "nat \<Rightarrow> CalcModel \<Rightarrow> (VarEntry \<times> usb_answer \<times> usb_answer) list \<Rightarrow> int \<times> bytes \<times> bytes" where
  "usb_transfers k m [] = (0, [], [])"
| "usb_transfers k m (t # ts) =
     (case t of (e, a1, a2) \<Rightarrow>
        (case usb_transfer k (usb_rts m e) (entry_data e) a1 a2 of (r, out, inp) \<Rightarrow>
           if r \<noteq> 0 then (r, out, inp)
           else (case usb_transfers k m ts of (r', out', inp') \<Rightarrow> (r', out @ out', inp @ inp'))))"

lemma tells_one:
  assumes a: "agreed env w n" and e: "usb_sendable e" and answers: "proper env a1" "proper env a2"
    and t: "usb_transfer (unat n) (usb_rts m e) (entry_data e) a1 a2 = (r, out, inp)"
  shows "usb_talk m n w (transfer_84p env (ve_name e) (ve_size e) (var_attrs_84p m e) (ve_data e)) r out inp"
proof -
  obtain d where d: "ve_data e = Some d" "unat (ve_size e) \<le> length d" using e by (auto simp: usb_sendable_def)
  have size: "unat (ve_size e) < 2 ^ 31" "length (ve_name e) < 2 ^ 16" using e by (simp_all add: usb_sendable_def)
  have data: "entry_data e = take (unat (ve_size e)) d" by (simp add: entry_data_def d)
  show ?thesis
    unfolding d(1)
    by (rule tells_transfer [OF a attrs_full(1) usb_rts_def length_usb_rts [OF size(2)] d(2) size(1) answers t [unfolded data]])
qed

lemma quiet_progress:
  "usb_talk m n w p r out inp \<Longrightarrow> usb_talk m n w (do { start_progress i k; pbar; record_event (Pause us); p }) r out inp"
  by (auto intro!: usb.converses_quietly [OF usb.converses_start_progress]
      usb.converses_quietly [OF usb.converses_pbar] usb.converses_quietly [OF usb.converses_event])

lemma tells_variables:
  assumes a: "agreed env w n" and ts: "\<forall>(e, a1, a2)\<in>set ts. usb_sendable e \<and> proper env a1 \<and> proper env a2"
    and t: "usb_transfers (unat n) m ts = (r, out, inp)"
  shows "usb_talk m n w (send_vars_84p env k i (map (Some \<circ> fst) ts)) r out inp"
  using ts t
proof (induction ts arbitrary: i r out inp)
  case Nil
  then show ?case by simp
next
  case (Cons x ts)
  obtain e a1 a2 where x: "x = (e, a1, a2)" by (cases x)
  have e: "usb_sendable e" "proper env a1" "proper env a2" using Cons.prems(1) by (auto simp: x)
  then have act: "(ve_action e = ACT_SKIP) = False" by (simp add: usb_sendable_def)
  obtain r1 out1 in1 where one: "usb_transfer (unat n) (usb_rts m e) (entry_data e) a1 a2 = (r1, out1, in1)" by (metis prod.exhaust)
  obtain r2 out2 in2 where rest: "usb_transfers (unat n) m ts = (r2, out2, in2)" by (metis prod.exhaust)
  note send = tells_one [OF a e one]
  have more: "usb_talk m n w (send_vars_84p env k (i + 1) (map (Some \<circ> fst) ts)) r2 out2 in2"
    by (rule Cons.IH [OF _ rest]) (use Cons.prems(1) in simp)
  have after: "usb_talk m n w (if r1 \<noteq> 0 then State_Monad.return r1
      else do { start_progress (i + 1) k; pbar; record_event (Pause 50); send_vars_84p env k (i + 1) (map (Some \<circ> fst) ts) })
      (if r1 \<noteq> 0 then r1 else r2) (if r1 \<noteq> 0 then [] else out2) (if r1 \<noteq> 0 then [] else in2)"
    using quiet_progress [OF more] by simp
  have shape: "map (Some \<circ> fst) (x # ts) = Some e # map (Some \<circ> fst) ts" by (simp add: x)
  have result: "r = (if r1 \<noteq> 0 then r1 else r2)" "out = out1 @ (if r1 \<noteq> 0 then [] else out2)" "inp = in1 @ (if r1 \<noteq> 0 then [] else in2)"
    using Cons.prems(2) by (auto simp: x one rest split: if_splits)
  show ?case
    unfolding shape send_vars_84p.simps option.case act if_False
    apply (rule usb.converses_get, elim conjE)
    apply (simp only:)
    apply (rule usb.converses_quietly [OF usb.converses_label])
    apply (rule usb.converses_then [OF send _ result(2,3)])
    apply (simp only: result(1))
    apply (rule after)
    done
qed

lemma tells_content_84p:
  assumes "agreed env w n" "\<forall>(e, a1, a2)\<in>set ts. usb_sendable e \<and> proper env a1 \<and> proper env a2"
    and "usb_transfers (unat n) m ts = (r, out, inp)" "fc_entries c = Some (map (Some \<circ> fst) ts)" "num_entries c = length ts"
  shows "usb_talk m n w (send_var_84p env c) r out inp"
  using tells_variables [OF assms(1-3)] by (simp add: send_var_84p_def assms(4,5))

section \<open>Receiving a variable\<close>

text \<open>The three attributes a calculator gives with a variable.\<close>

definition given_attr :: "u16 \<Rightarrow> bytes \<Rightarrow> calc_param" where
  "given_attr aid d = \<lparr>cp_id = aid, cp_ok = True, cp_size = of_nat (length d), cp_data = d\<rparr>"

definition given_attrs :: "byte \<Rightarrow> byte \<Rightarrow> u32 \<Rightarrow> calc_param list" where
  "given_attrs a v sz =
     [given_attr DUSB_AID_ARCHIVED [a], given_attr DUSB_AID_VAR_VERSION [0, 0, 0, v], given_attr DUSB_AID_VAR_SIZE (size_bytes sz)]"

lemma given_attrs_proper: "\<forall>p\<in>set (given_attrs a v sz). proper_param p" "length (given_attrs a v sz) = 3"
  by (simp_all add: given_attrs_def proper_param_def given_attr_def)

definition usb_request :: "VarEntry \<Rightarrow> bytes" where
  "usb_request vr = var_request_bytes (name_bytes (ve_name vr)) [DUSB_AID_ARCHIVED, DUSB_AID_VAR_VERSION, DUSB_AID_VAR_SIZE]
     [type_attr DUSB_AID_VAR_TYPE2 0x07 (ve_type vr)]"

lemma length_usb_request: "length (ve_name vr) < 2 ^ 16 \<Longrightarrow> length (usb_request vr) < 2 ^ 31"
  using length_name_bytes [of "ve_name vr"]
  by (simp add: usb_request_def var_request_bytes_def named_def sent_attrs_def sent_attr_def type_attr_def attribute_def)

text \<open>The entry made of the request, the attributes and the contents.\<close>

definition usb_entry :: "VarEntry \<Rightarrow> byte \<Rightarrow> byte \<Rightarrow> bytes \<Rightarrow> VarEntry" where
  "usb_entry vr a v d = vr\<lparr>ve_size := of_nat (length d), ve_attr := (if a \<noteq> 0 then ATTRB_ARCHIVED else 0), ve_version := v,
     ve_data := Some (d @ [0])\<rparr>"

lemma talk_entry_of_attrs:
  assumes d: "length d < 2 ^ 31"
  shows "usb_talk m n w (entry_of_attrs env m' vr (given_attrs a v (of_nat (length d))) d)
    (content_model_84p m' (usb_entry vr a v d), usb_entry vr a v d) [] []"
proof -
  have u: "unat (of_nat (length d) :: u32) = length d" using d by (intro be_size) simp
  have at: "usb_talk m n w (attr_at (given_attrs a v sz) i) (given_attrs a v sz ! i) [] []" if "i < 3" for i sz
    using that by (simp add: attr_at_def given_attrs_proper)
  have data: "usb_talk m n w (attr_data env (given_attrs a v (of_nat (length d))) 2 4) (size_bytes (of_nat (length d))) [] []"
    unfolding attr_data_def
    by (rule usb.converses_quietly [OF at])
      (use talk_read_array [of 4 "size_bytes (of_nat (length d))" m n w env] in \<open>simp_all add: given_attrs_def given_attr_def\<close>)
  have size: "be_word (size_bytes (of_nat (length d))) = of_nat (length d)" using be_word_bytes [of _ "[]"] by simp
  have got: "given_attrs a v sz ! 0 = given_attr DUSB_AID_ARCHIVED [a]" "given_attrs a v sz ! 1 = given_attr DUSB_AID_VAR_VERSION [0, 0, 0, v]" for sz
    by (simp_all add: given_attrs_def)
  have sizes: "cp_size (given_attr DUSB_AID_ARCHIVED [a]) = 1" "cp_size (given_attr DUSB_AID_VAR_VERSION [0, 0, 0, v]) = 4"
    by (simp_all add: given_attr_def)
  have one: "cp_data (given_attr DUSB_AID_ARCHIVED [a]) ! 0 = a" "cp_data (given_attr DUSB_AID_VAR_VERSION [0, 0, 0, v]) ! 3 = v"
    by (simp_all add: given_attr_def)
  have kept: "ve_size (vr\<lparr>ve_size := x, ve_attr := y, ve_version := z\<rparr>) = x" for x y z by simp
  have block: "write_at (replicate (length d + 1) 0) 0 d = d @ [0]" for d :: bytes
  proof -
    have "drop (length d) (replicate (length d + 1) (0 :: byte)) = [0]" by (simp only: drop_replicate) simp
    then show ?thesis by (simp add: write_at_def)
  qed
  show ?thesis
    unfolding entry_of_attrs_def
    apply (rule usb.converses_quietly [OF data])
    apply (simp only: Let_def size)
    apply (rule usb.converses_quietly [OF at])
     apply simp
    apply (simp only: got sizes one refl if_True)
    apply (rule usb.converses_quietly [OF at])
     apply simp
    apply (simp only: got sizes one refl if_True)
    apply (rule usb.converses_quietly [OF talk_read_array])
     apply (simp add: u)
    apply (simp only: kept u take_all [OF order_refl] block)
    apply (simp add: usb_entry_def content_model_84p_def)
    done
qed

lemma hears_variable:
  assumes a: "agreed env w n" and vr: "length (ve_name vr) < 2 ^ 16"
    and hdr: "proper_answer env dl1 DUSB_VPKT_VAR_HDR hdr" "hdr = header_of folder name (given_attrs at v (of_nat (length d)))"
    and names: "length folder < 40" "length name < 40" and d: "proper_answer env dl2 DUSB_VPKT_VAR_CNTS d"
  shows "usb_talk m n w (recv_var_84p env vr) (0, Some (content_model_84p m (usb_entry vr at v d), usb_entry vr at v d))
    (message (unat n) DUSB_VPKT_VAR_REQ (usb_request vr) @ answer_acks (unat n) dl1 DUSB_VPKT_VAR_HDR hdr @ answer_acks (unat n) dl2 DUSB_VPKT_VAR_CNTS d)
    (message_acks (unat n) DUSB_VPKT_VAR_REQ (usb_request vr) @ answer (unat n) dl1 DUSB_VPKT_VAR_HDR hdr @ answer (unat n) dl2 DUSB_VPKT_VAR_CNTS d)"
proof -
  let ?attrs = "given_attrs at v (of_nat (length d))"
  let ?aids = "[DUSB_AID_ARCHIVED, DUSB_AID_VAR_VERSION, DUSB_AID_VAR_SIZE]"
  have len: "length d < 2 ^ 31" using d by (simp add: proper_answer_def)
  note asks = tells_var_request [OF a attrs_full(2) length_usb_request [OF vr, unfolded usb_request_def], of m, folded usb_request_def]
  have header: "hears m n w (recv_header_84p env (length ?aids)) (0, got_name folder, got_name name, ?attrs) dl1 DUSB_VPKT_VAR_HDR hdr"
    unfolding recv_header_84p_def by (rule hears_header [OF a hdr names]) (simp_all add: given_attrs_proper)
  have content: "usb_talk m n w (do { (ret, sz, data) \<leftarrow> dusb_cmd_r_var_content env; State_Monad.return (ret, ?attrs, sz, data) })
      (0, ?attrs, of_nat (length d), d) (answer_acks (unat n) dl2 DUSB_VPKT_VAR_CNTS d) (answer (unat n) dl2 DUSB_VPKT_VAR_CNTS d)"
    by (rule usb.converses_then [OF hears_content [OF a d], where out' = "[]" and inp' = "[]"]) simp_all
  have request: "usb_talk m n w (request_84p env 0x07 (ve_name vr) (ve_type vr) ?aids) (0, ?attrs, of_nat (length d), d)
    (message (unat n) DUSB_VPKT_VAR_REQ (usb_request vr) @ answer_acks (unat n) dl1 DUSB_VPKT_VAR_HDR hdr @ answer_acks (unat n) dl2 DUSB_VPKT_VAR_CNTS d)
    (message_acks (unat n) DUSB_VPKT_VAR_REQ (usb_request vr) @ answer (unat n) dl1 DUSB_VPKT_VAR_HDR hdr @ answer (unat n) dl2 DUSB_VPKT_VAR_CNTS d)"
    unfolding request_84p_def
    apply (rule usb.converses_then [OF asks _ refl refl])
    apply (simp only: refl not_True_eq_False if_False)
    apply (rule usb.converses_then [OF header _ refl refl])
    apply (simp only: prod.case refl not_True_eq_False if_False)
    apply (rule content)
    done
  show ?thesis
    unfolding recv_var_84p_def
    apply (rule usb.converses_get, elim conjE)
    apply (rule usb.converses_quietly [OF usb.converses_label])
    apply (rule usb.converses_then [OF request, where out' = "[]" and inp' = "[]"])
      apply (simp only: prod.case refl not_True_eq_False if_False)
      apply (rule usb.converses_quietly [OF talk_entry_of_attrs [OF len]])
      apply simp_all
    done
qed

section \<open>The string store over USB\<close>

definition usb_send_var :: "link_env \<Rightarrow> link \<Rightarrow> handle \<Rightarrow> FileContent \<Rightarrow> int" where
  "usb_send_var env h d content = fst (run_state (send_var_84p env content) h)"

definition usb_recv_var :: "link_env \<Rightarrow> link \<Rightarrow> handle \<Rightarrow> FileContent \<Rightarrow> VarEntry \<Rightarrow> int \<times> FileContent" where
  "usb_recv_var env h d content vr =
     (case fst (run_state (recv_var_84p env vr) h) of
        (ret, None) \<Rightarrow> (ret, content)
      | (ret, Some (m, ve)) \<Rightarrow> (ret, content\<lparr>fc_model := m, num_entries := 1, fc_entries := Some [Some ve]\<rparr>))"

text \<open>A handle on a cable over which pieces of size \<open>n\<close> were agreed, and what the calculator says from now on.\<close>

definition usb_ready :: "link_env \<Rightarrow> (nat \<Rightarrow> byte) \<Rightarrow> link \<Rightarrow> CalcModel \<Rightarrow> u32 \<Rightarrow> bytes \<Rightarrow> bool" where
  "usb_ready env w h m n inp \<longleftrightarrow> agreed env w n \<and> \<not> no_handle h \<and> link_model h = m \<and> rpkt_maxlen h = n
     \<and> carries w (asked (history h)) inp"

lemma usb_runs:
  assumes "usb_talk m n w p r out inp" "usb_ready env w h m n inp"
  shows "\<exists>h'. run_state p h = (r, h') \<and> wire_bytes (history h') = wire_bytes (history h) @ out
    \<and> asked (history h') = asked (history h) + length inp \<and> filter faulty (history h') = filter faulty (history h)"
  using assms by (auto simp: usb_ready_def converses_in_def does_def advances_def)

text \<open>A calculator that delivers an entry: acknowledgement of the request, header and contents.\<close>

definition usb_delivery :: "nat \<Rightarrow> VarEntry \<Rightarrow> u32 option \<Rightarrow> bytes \<Rightarrow> u32 option \<Rightarrow> bytes" where
  "usb_delivery k e dl1 hdr dl2 = message_acks k DUSB_VPKT_VAR_REQ (usb_request e)
     @ answer k dl1 DUSB_VPKT_VAR_HDR hdr @ answer k dl2 DUSB_VPKT_VAR_CNTS (entry_data e)"

lemma usb_keeps:
  assumes ready: "usb_ready env w h m n (usb_delivery (unat n) e dl1 hdr dl2)"
    and hdr: "proper_answer env dl1 DUSB_VPKT_VAR_HDR hdr" "hdr = header_of folder name (given_attrs 0 0 (of_nat (length (entry_data e))))"
    and names: "length folder < 40" "length name < 40" and d: "proper_answer env dl2 DUSB_VPKT_VAR_CNTS (entry_data e)"
    and e: "ve_size e = of_nat (length (entry_data e))" "ve_attr e = 0" "ve_version e = 0" "ve_data e = Some (entry_data e @ [0])"
      "length (ve_name e) < 2 ^ 16"
    and c: "fc_entries c = Some [Some e]" "num_entries c = 1"
    and env': "recv_var senv = usb_recv_var env h"
  shows "keeps senv d' c"
  unfolding keeps_def
proof (intro allI impI, elim conjE)
  fix content :: FileContent and vr e' :: VarEntry
  assume *: "fc_entries c = Some [Some e']" "ve_name vr = ve_name e'" "ve_type vr = ve_type e'" "ve_action vr = ve_action e'"
  then have e': "e' = e" using c by simp
  have vr: "length (ve_name vr) < 2 ^ 16" "usb_request vr = usb_request e" using * e' e(5) by (simp_all add: usb_request_def)
  have same: "usb_entry vr 0 0 (entry_data e) = e" using * e' e by (simp add: usb_entry_def)
  have a: "agreed env w n" using ready by (simp only: usb_ready_def)
  obtain h' where "run_state (recv_var_84p env vr) h = ((0, Some (content_model_84p m e, e)), h')"
    using usb_runs [OF hears_variable [OF a vr(1) hdr names d, unfolded vr(2) same] ready [unfolded usb_delivery_def]] by blast
  then show "\<exists>content'. recv_var senv d' content vr = (0, content') \<and> fc_entries content' = fc_entries c \<and> num_entries content' = num_entries c"
    by (simp add: env' usb_recv_var_def c)
qed

text \<open>The entry of a string: sendable, and as it comes back.\<close>

lemma stored_string:
  fixes name :: string
  assumes "tifiles_calctype2signature m = Some ''**TI83F*''" "length q \<le> 255"
  defines "e \<equiv> stored_entry m name q"
  shows "usb_sendable e" "entry_data e = of_nat (length q) # q" "ve_data e = Some (entry_data e @ [0])" "ve_attr e = 0" "ve_version e = 0"
    "ve_size e = of_nat (length (entry_data e))" "length (ve_name e) < 2 ^ 16"
proof -
  have u: "unat (ve_size e) = length q + 1" using assms(2)
    by (simp add: e_def stored_entry_def unat_of_nat take_bit_nat_eq_self del: of_nat_add of_nat_Suc)
  have d: "ve_data e = Some (of_nat (length q) # q @ [0])" by (simp add: e_def stored_entry_def)
  show data: "entry_data e = of_nat (length q) # q" by (simp add: entry_data_def d u)
  show "ve_data e = Some (entry_data e @ [0])" "ve_attr e = 0" "ve_version e = 0" "ve_size e = of_nat (length (entry_data e))"
    unfolding data by (simp_all add: e_def stored_entry_def)
  show n: "length (ve_name e) < 2 ^ 16" by (simp add: e_def stored_entry_def)
  show "usb_sendable e"
    using u d n assms(2) by (simp add: usb_sendable_def) (simp add: e_def stored_entry_def)
qed

text \<open>The models whose \<open>send_var\<close> and \<open>recv_var\<close> these are, and what one of them says that takes a variable.\<close>

definition usb_family :: "CalcModel set" where
  "usb_family = {CALC_TI84P_USB, CALC_TI84PC_USB, CALC_TI83PCE_USB, CALC_TI84PCE_USB, CALC_TI82A_USB, CALC_TI84PT_USB}"

definition usb_acceptance :: "nat \<Rightarrow> bytes \<Rightarrow> bytes \<Rightarrow> usb_answer \<Rightarrow> usb_answer \<Rightarrow> bytes" where
  "usb_acceptance k rts d a1 a2 = message_acks k DUSB_VPKT_RTS rts @ says k a1
     @ message_acks k DUSB_VPKT_VAR_CNTS d @ says k a2 @ message_acks k DUSB_VPKT_EOT []"

definition accepting :: "link_env \<Rightarrow> usb_answer \<Rightarrow> bool" where
  "accepting env a \<longleftrightarrow> proper env a \<and> verdict a = 0"

text \<open>
  C35: A string of the wallet over USB and back.  Storing up to 255 bytes under a name \<open>Str0\<close> to \<open>Str9\<close>
  on a calculator of the TI-84 Plus family that has agreed on pieces of 6 to 1023 bytes, acknowledges each
  piece and answers the announcement and the contents with an acknowledgement - with or without asking for
  a delay first - succeeds and puts on the wire exactly the announcement with name, size and attributes, the
  length byte with the bytes, the end of the transmission, and the acknowledgements the calculator is owed,
  all in pieces of the size that was agreed.  And whenever a calculator of the model answers the request for
  this entry with its attributes and contents, under any folder and name of fewer than 40 bytes each, which
  the arrays of \<open>recv_var\<close> hold, fetching it gives the same bytes.
\<close>

theorem string_survives_usb:
  fixes p :: bytes and k len :: nat and m :: CalcModel
  defines "e \<equiv> stored_entry m (''Str'' @ [digit_char k]) (take len p)" and "d \<equiv> of_nat len # take len p"
  assumes "m \<in> usb_family" "calc s = Some handle" "calc_model s = m" "k < 10" "len \<le> length p" "len \<le> 255"
    and "accepting env a1" "accepting env a2" "usb_ready env w h m n (usb_acceptance (unat n) (usb_rts m e) d a1 a2)"
    and "glib_allocates senv" "data_ok senv" "send_var senv = usb_send_var env h"
  shows "\<exists>ev c. calc_store_binary_string senv (Some s) (Some (''Str'' @ [digit_char k])) (Some p) len = (APP_OK, ev)
    \<and> sent_contents ev = [c]
    \<and> wire_bytes (history (snd (run_state (send_var_84p env c) h))) = wire_bytes (history h)
        @ message (unat n) DUSB_VPKT_RTS (usb_rts m e) @ says_acks (unat n) a1
        @ message (unat n) DUSB_VPKT_VAR_CNTS d @ says_acks (unat n) a2 @ message (unat n) DUSB_VPKT_EOT []
    \<and> (\<forall>env' w' h' n' senv' dl1 dl2 folder name hdr out l1 l2.
        usb_ready env' w' h' m n' (usb_delivery (unat n') e dl1 hdr dl2)
          \<and> hdr = header_of folder name (given_attrs 0 0 (of_nat (len + 1))) \<and> length folder < 40 \<and> length name < 40
          \<and> proper_answer env' dl1 DUSB_VPKT_VAR_HDR hdr \<and> proper_answer env' dl2 DUSB_VPKT_VAR_CNTS d
          \<and> recv_var senv' = usb_recv_var env' h' \<and> content_ok senv' \<and> len \<le> l1 \<longrightarrow>
        (\<exists>ev'. calc_fetch_binary_string senv' (Some s) (Some (''Str'' @ [digit_char k])) (Some out) l1 (Some l2)
           = (APP_OK, Some (write_at out 0 (take len p)), Some len, ev')))"
proof -
  let ?name = "''Str'' @ [digit_char k]" and ?q = "take len p"
  have q: "length ?q = len" "length ?q \<le> 255" using assms(7,8) by simp_all
  have sig: "tifiles_calctype2signature m = Some ''**TI83F*''"
    using assms(3) by (auto simp: usb_family_def tifiles_calctype2signature_def)
  note facts = stored_string [OF sig q(2), of ?name, folded e_def]
  have d: "entry_data e = d" using facts(2) by (simp only: q(1) d_def)
  have name: "string_name ?name"
    using digit_byte [OF assms(6)] by (simp add: string_name_def c_string_def numeral_3_eq_3)
  have ty: "tifiles_string2vartype (calc_model s) (Some ''String'') \<noteq> 0" using family_String_type [OF sig] assms(5) by simp
  obtain st ev c where store: "calc_store_binary_string senv (Some s) (Some ?name) (Some p) len = (st, ev)" "sent_contents ev = [c]"
      "holds_entry c (calc_model s) ?name ?q" "st = APP_OK \<longleftrightarrow> send_var senv handle c = 0"
    using store_binary_transfers [OF assms(4) name assms(8,12,13) ty] by blast
  have c: "fc_entries c = Some [Some e]" "num_entries c = 1"
    using store(3) assms(5) by (simp_all add: holds_entry_def e_def)
  let ?out = "message (unat n) DUSB_VPKT_RTS (usb_rts m e) @ says_acks (unat n) a1
    @ message (unat n) DUSB_VPKT_VAR_CNTS d @ says_acks (unat n) a2 @ message (unat n) DUSB_VPKT_EOT []"
  have answers: "proper env a1" "proper env a2" "verdict a1 = 0" "verdict a2 = 0" using assms(9,10) by (simp_all add: accepting_def)
  have a: "agreed env w n" using assms(11) by (simp only: usb_ready_def)
  have "usb_transfers (unat n) m [(e, a1, a2)] = (0, ?out, usb_acceptance (unat n) (usb_rts m e) d a1 a2)"
    using answers(3,4) by (simp add: usb_transfer_def Let_def d usb_acceptance_def)
  then have "usb_talk m n w (send_var_84p env c) 0 ?out (usb_acceptance (unat n) (usb_rts m e) d a1 a2)"
    using tells_content_84p [OF a, of "[(e, a1, a2)]" m 0 ?out _ c] facts(1) answers(1,2) c by simp
  from usb_runs [OF this assms(11)] obtain h1 where h1: "run_state (send_var_84p env c) h = (0, h1)"
    "wire_bytes (history h1) = wire_bytes (history h) @ ?out" by blast
  then have ok: "st = APP_OK" using store(4) by (simp add: assms(14) usb_send_var_def)
  have fetch: "\<exists>ev'. calc_fetch_binary_string senv' (Some s) (Some ?name) (Some out) l1 (Some l2) = (APP_OK, Some (write_at out 0 ?q), Some len, ev')"
    if "usb_ready env' w' h' m n' (usb_delivery (unat n') e dl1 hdr dl2)"
      "hdr = header_of folder name (given_attrs 0 0 (of_nat (len + 1)))" "length folder < 40" "length name < 40"
      "proper_answer env' dl1 DUSB_VPKT_VAR_HDR hdr" "proper_answer env' dl2 DUSB_VPKT_VAR_CNTS d"
      "recv_var senv' = usb_recv_var env' h'" "content_ok senv'" "len \<le> l1" for env' w' h' n' senv' dl1 dl2 folder name hdr out l1 l2
  proof -
    have l: "length d = len + 1" using q(1) by (simp add: d_def)
    have "keeps senv' handle c"
      by (rule usb_keeps [OF that(1,5) _ that(3,4) _ facts(6,4,5,3,7) c that(7)]) (simp_all only: d l that(2,6))
    from fetch_kept [OF this store(3) assms(4) q(2) _ that(8) ty, of l1 out l2] show ?thesis
      using that(9) q(1) by simp
  qed
  show ?thesis
  proof (rule exI [of _ ev], rule exI [of _ c], intro conjI allI impI)
    show "calc_store_binary_string senv (Some s) (Some ?name) (Some p) len = (APP_OK, ev)" using store(1) ok by simp
    show "sent_contents ev = [c]" by fact
    show "wire_bytes (history (snd (run_state (send_var_84p env c) h))) = wire_bytes (history h) @ ?out"
      using h1 by simp
  qed (elim conjE, rule fetch)
qed

text \<open>Two bytes under \<open>Str1\<close> to a TI-84 Plus that asks for a delay before its first answer.\<close>

definition usb_stream :: "bytes \<Rightarrow> link_env" where
  "usb_stream bs = (stream_env bs)\<lparr>rounds := 100\<rparr>"

definition example_string :: VarEntry where
  "example_string = stored_entry CALC_TI84P_USB ''Str1'' [7, 9]"

definition example_ack :: "u32 option \<Rightarrow> usb_answer" where
  "example_ack dl = (dl, DUSB_VPKT_DATA_ACK, [])"

definition example_taken :: bytes where
  "example_taken = usb_acceptance 8 (usb_rts CALC_TI84P_USB example_string) [2, 7, 9] (example_ack (Some 150000)) (example_ack None)"

definition example_delivered :: bytes where
  "example_delivered = usb_delivery 8 example_string None (header_of [] [0xAA] (given_attrs 0 0 3)) (Some 150000)"

definition usb_calc :: CalcSession where
  "usb_calc = demo_calc\<lparr>calc_model := CALC_TI84P_USB\<rparr>"

lemma usb_stream_ready: "usb_ready (usb_stream bs) (\<lambda>i. if i < length bs then bs ! i else 0) example_usb CALC_TI84P_USB 8 bs"
proof -
  have "working (usb_stream bs) (\<lambda>i. if i < length bs then bs ! i else 0)" by (simp add: working_def transparent_def usb_stream_def stream_env_def)
  then show ?thesis
    using stream_carries [of bs]
    by (simp add: usb_ready_def agreed_def example_usb_def example_link_def DUSB_DH_SIZE_def DUSB_DATA_SIZE_def)
qed

lemma string_survives_usb_witness:
  "\<exists>ev c ev'. calc_store_binary_string (demo_store\<lparr>send_var := usb_send_var (usb_stream example_taken) example_usb\<rparr>)
      (Some usb_calc) (Some ''Str1'') (Some [7, 9]) 2 = (APP_OK, ev)
    \<and> wire_bytes (history (snd (run_state (send_var_84p (usb_stream example_taken) c) example_usb)))
      = message 8 DUSB_VPKT_RTS (usb_rts CALC_TI84P_USB example_string) @ says_acks 8 (example_ack (Some 150000))
        @ message 8 DUSB_VPKT_VAR_CNTS [2, 7, 9] @ says_acks 8 (example_ack None) @ message 8 DUSB_VPKT_EOT []
    \<and> calc_fetch_binary_string (demo_store\<lparr>recv_var := usb_recv_var (usb_stream example_delivered) example_usb\<rparr>)
        (Some usb_calc) (Some ''Str1'') (Some [0, 0, 0]) 3 (Some 0) = (APP_OK, Some [7, 9, 0], Some 2, ev')"
proof -
  let ?env = "demo_store\<lparr>send_var := usb_send_var (usb_stream example_taken) example_usb\<rparr>"
  let ?again = "demo_store\<lparr>recv_var := usb_recv_var (usb_stream example_delivered) example_usb\<rparr>"
  have name: "''Str'' @ [digit_char 1] = ''Str1''" by code_simp
  have calc: "CALC_TI84P_USB \<in> usb_family" "calc usb_calc = Some 2" "calc_model usb_calc = CALC_TI84P_USB"
    by (simp_all add: usb_calc_def demo_calc_def usb_family_def)
  have env: "glib_allocates ?env" "data_ok ?env" "send_var ?env = usb_send_var (usb_stream example_taken) example_usb"
    using string_store_ready by (simp_all add: glib_allocates_def)
  have accept: "accepting (usb_stream bs) (example_ack dl)" for bs dl
    by (simp add: accepting_def proper_def verdict_def example_ack_def proper_answer_def rounds_for_def usb_stream_def outcome_def)
  have d: "of_nat 2 = (2 :: byte)" "take 2 [7, 9] = ([7, 9] :: bytes)" by simp_all
  have e: "stored_entry CALC_TI84P_USB ''Str1'' [7, 9] = example_string" by (simp only: example_string_def)
  have eight: "unat (8 :: u32) = 8" and history: "history example_usb = []" by (simp_all add: example_usb_def example_link_def)
  have stream: "usb_ready (usb_stream example_taken) (\<lambda>i. if i < length example_taken then example_taken ! i else 0) example_usb CALC_TI84P_USB 8
      (usb_acceptance (unat (8 :: u32)) (usb_rts CALC_TI84P_USB example_string) [2, 7, 9] (example_ack (Some 150000)) (example_ack None))"
    using usb_stream_ready [of example_taken] by (simp only: eight example_taken_def)
  have two: "1 < (10 :: nat)" "2 \<le> length [7 :: byte, 9]" "2 \<le> (255 :: nat)" by simp_all
  from string_survives_usb [where m = CALC_TI84P_USB and k = 1 and p = "[7, 9]" and len = 2, unfolded name d e, OF calc two accept accept stream env, unfolded eight history]
  obtain ev c where sent: "calc_store_binary_string ?env (Some usb_calc) (Some ''Str1'') (Some [7, 9]) 2 = (APP_OK, ev)"
    "wire_bytes (history (snd (run_state (send_var_84p (usb_stream example_taken) c) example_usb)))
      = wire_bytes [] @ message 8 DUSB_VPKT_RTS (usb_rts CALC_TI84P_USB example_string) @ says_acks 8 (example_ack (Some 150000))
        @ message 8 DUSB_VPKT_VAR_CNTS [2, 7, 9] @ says_acks 8 (example_ack None) @ message 8 DUSB_VPKT_EOT []"
    and fetch: "\<And>env' w' h' n' senv' dl1 dl2 folder name hdr out l1 l2.
        usb_ready env' w' h' CALC_TI84P_USB n' (usb_delivery (unat n') example_string dl1 hdr dl2)
          \<and> hdr = header_of folder name (given_attrs 0 0 (of_nat (2 + 1))) \<and> length folder < 40 \<and> length name < 40
          \<and> proper_answer env' dl1 DUSB_VPKT_VAR_HDR hdr \<and> proper_answer env' dl2 DUSB_VPKT_VAR_CNTS [2, 7, 9]
          \<and> recv_var senv' = usb_recv_var env' h' \<and> content_ok senv' \<and> 2 \<le> l1 \<Longrightarrow>
        \<exists>ev'. calc_fetch_binary_string senv' (Some usb_calc) (Some ''Str1'') (Some out) l1 (Some l2)
           = (APP_OK, Some (write_at out 0 [7, 9]), Some 2, ev')"
    by blast
  let ?hdr = "header_of [] [0xAA] (given_attrs 0 0 3)"
  have hdr: "length ?hdr = 30"
    by (simp add: header_of_def named_if_any_def named_def given_attrs_def given_attr_def param_bytes_def word_bytes_def)
  have "\<exists>ev'. calc_fetch_binary_string ?again (Some usb_calc) (Some ''Str1'') (Some [0, 0, 0]) 3 (Some 0)
      = (APP_OK, Some (write_at [0, 0, 0] 0 [7, 9]), Some 2, ev')"
  proof (rule fetch [of "usb_stream example_delivered" _ example_usb 8 None ?hdr "Some 150000" "[]" "[0xAA]"], intro conjI)
    show "usb_ready (usb_stream example_delivered) (\<lambda>i. if i < length example_delivered then example_delivered ! i else 0) example_usb
        CALC_TI84P_USB 8 (usb_delivery (unat (8 :: u32)) example_string None ?hdr (Some 150000))"
      using usb_stream_ready [of example_delivered] by (simp only: eight example_delivered_def)
    show "proper_answer (usb_stream example_delivered) None DUSB_VPKT_VAR_HDR ?hdr"
      by (simp add: proper_answer_def rounds_for_def usb_stream_def hdr)
    show "proper_answer (usb_stream example_delivered) (Some 150000) DUSB_VPKT_VAR_CNTS [2, 7, 9]"
      by (simp add: proper_answer_def rounds_for_def usb_stream_def)
  qed (use string_store_ready in simp_all)
  moreover have "write_at [0, 0, 0] 0 [7, 9] = ([7, 9, 0] :: bytes)" by (simp add: write_at_def)
  ultimately show ?thesis using sent by (simp del: append_assoc) blast
qed

text \<open>
  C36: A transfer of variables over USB follows the calculator's answers.  The pieces are of 6 to 1023 bytes;
  every variable has fewer than \<open>2^31\<close> bytes, all of them there, a name of fewer than \<open>2^16\<close>, and is not
  marked to be skipped; an answer has fewer than \<open>2^31\<close> bytes, and one that reports an error has its code.
  Then \<open>send_var\<close> announces one variable after the other and sends the contents only after the announcement
  was acknowledged, the end of the transmission only after the contents were; at the first answer that is not
  an acknowledgement it stops without announcing another variable, with 300 plus the number \<open>err_code\<close> gives
  the code of an error, and with \<open>ERR_INVALID_PACKET\<close> for anything else.  It takes exactly the
  acknowledgements and answers the calculator owes it, and on the way no array is read or written past its end.
\<close>

theorem usb_transfer_on_the_wire:
  assumes "usb_ready env w h m n inp" "\<forall>(e, a1, a2)\<in>set ts. usb_sendable e \<and> proper env a1 \<and> proper env a2"
    and "num_entries c = length ts" "fc_entries c = Some (map (Some \<circ> fst) ts)" "usb_transfers (unat n) m ts = (r, out, inp)"
  shows "\<exists>h'. run_state (send_var_84p env c) h = (r, h') \<and> wire_bytes (history h') = wire_bytes (history h) @ out
    \<and> asked (history h') = asked (history h) + length inp \<and> filter faulty (history h') = filter faulty (history h)"
proof -
  have a: "agreed env w n" using assms(1) by (simp only: usb_ready_def)
  show ?thesis by (rule usb_runs [OF tells_content_84p [OF a assms(2,5,4,3)] assms(1)])
qed

text \<open>Two variables; there is no memory for the contents of the second.\<close>

definition example_usb_transfer :: "(VarEntry \<times> usb_answer \<times> usb_answer) list" where
  "example_usb_transfer = [(example_entry ''A'' [1], example_ack None, example_ack (Some 100)),
     (example_entry ''B'' [2, 3], example_ack None, (None, DUSB_VPKT_ERROR, [0x00, 0x0E]))]"

definition example_usb_content :: FileContent where
  "example_usb_content = \<lparr>fc_model = CALC_TI84P_USB, fc_comment = [], num_entries = 2,
     fc_entries = Some (map (Some \<circ> fst) example_usb_transfer), model_dst = CALC_TI84P_USB\<rparr>"

lemma usb_transfer_on_the_wire_witness:
  "\<exists>h'. run_state (send_var_84p (usb_stream (snd (snd (usb_transfers 8 CALC_TI84P_USB example_usb_transfer)))) example_usb_content) example_usb
      = (ERR_CALC_ERROR2 + err_code 0x000E, h')
    \<and> wire_bytes (history h') = message 8 DUSB_VPKT_RTS (usb_rts CALC_TI84P_USB (example_entry ''A'' [1])) @ says_acks 8 (example_ack None)
        @ message 8 DUSB_VPKT_VAR_CNTS [1] @ says_acks 8 (example_ack (Some 100)) @ message 8 DUSB_VPKT_EOT []
        @ message 8 DUSB_VPKT_RTS (usb_rts CALC_TI84P_USB (example_entry ''B'' [2, 3])) @ says_acks 8 (example_ack None)
        @ message 8 DUSB_VPKT_VAR_CNTS [2, 3] @ says_acks 8 (None, DUSB_VPKT_ERROR, [0x00, 0x0E])"
proof -
  have verdicts: "verdict (example_ack dl) = 0" "verdict (None, DUSB_VPKT_ERROR, [0x00, 0x0E]) = ERR_CALC_ERROR2 + err_code 0x000E" for dl
    by (simp_all add: verdict_def example_ack_def outcome_def word_16_def)
  have bad: "ERR_CALC_ERROR2 + err_code 0x000E \<noteq> 0" by code_simp
  have data: "entry_data (example_entry ''A'' [1]) = [1]" "entry_data (example_entry ''B'' [2, 3]) = [2, 3]"
    by (simp_all add: entry_data_def example_entry_def)
  let ?out = "message 8 DUSB_VPKT_RTS (usb_rts CALC_TI84P_USB (example_entry ''A'' [1])) @ says_acks 8 (example_ack None)
        @ message 8 DUSB_VPKT_VAR_CNTS [1] @ says_acks 8 (example_ack (Some 100)) @ message 8 DUSB_VPKT_EOT []
        @ message 8 DUSB_VPKT_RTS (usb_rts CALC_TI84P_USB (example_entry ''B'' [2, 3])) @ says_acks 8 (example_ack None)
        @ message 8 DUSB_VPKT_VAR_CNTS [2, 3] @ says_acks 8 (None, DUSB_VPKT_ERROR, [0x00, 0x0E])"
  obtain inp where t: "usb_transfers 8 CALC_TI84P_USB example_usb_transfer = (ERR_CALC_ERROR2 + err_code 0x000E, ?out, inp)"
    using bad by (simp add: example_usb_transfer_def usb_transfer_def Let_def verdicts data)
  have eight: "unat (8 :: u32) = 8" and history: "wire_bytes (history example_usb) = []" by (simp_all add: example_usb_def example_link_def)
  have "\<forall>(e, a1, a2)\<in>set example_usb_transfer. usb_sendable e \<and> proper (usb_stream inp) a1 \<and> proper (usb_stream inp) a2"
    by (simp add: example_usb_transfer_def usb_sendable_def example_entry_def proper_def example_ack_def proper_answer_def rounds_for_def usb_stream_def)
  moreover have "num_entries example_usb_content = length example_usb_transfer"
    "fc_entries example_usb_content = Some (map (Some \<circ> fst) example_usb_transfer)"
    by (simp_all add: example_usb_content_def example_usb_transfer_def)
  ultimately show ?thesis
    using usb_transfer_on_the_wire [OF usb_stream_ready [of inp] _ _ _ t [folded eight], of example_usb_content]
    unfolding t eight history by simp blast
qed

text \<open>The free memory is what the calculator gives, less what does not fit 32 bits.\<close>

lemma hears_memfree:
  assumes a: "agreed env w n" and p: "proper_answer env dl DUSB_VPKT_PARM_DATA d"
    and d: "d = word_bytes 2 @ param_bytes (given_attr DUSB_PID_FREE_RAM (size_bytes hi1 @ size_bytes ram))
      @ param_bytes (given_attr DUSB_PID_FREE_FLASH (size_bytes hi2 @ size_bytes flash))"
  defines "ask \<equiv> word_bytes 2 @ word_bytes DUSB_PID_FREE_RAM @ word_bytes DUSB_PID_FREE_FLASH"
  shows "usb_talk m n w (get_memfree_84p env) (0, Some (ram, flash))
    (message (unat n) DUSB_VPKT_PARM_REQ ask @ answer_acks (unat n) dl DUSB_VPKT_PARM_DATA d)
    (message_acks (unat n) DUSB_VPKT_PARM_REQ ask @ answer (unat n) dl DUSB_VPKT_PARM_DATA d)"
proof -
  let ?ps = "[given_attr DUSB_PID_FREE_RAM (size_bytes hi1 @ size_bytes ram), given_attr DUSB_PID_FREE_FLASH (size_bytes hi2 @ size_bytes flash)]"
  have ask: "tells m n w (dusb_cmd_s_param_request env [DUSB_PID_FREE_RAM, DUSB_PID_FREE_FLASH]) DUSB_VPKT_PARM_REQ ask"
    unfolding dusb_cmd_s_param_request_def
    by (rule talk_with_handle) (use tells_packet [OF a, of ask m DUSB_VPKT_PARM_REQ] in \<open>simp add: ask_def\<close>)
  have params: "hears m n w (dusb_cmd_r_param_data env 2) (0, ?ps) dl DUSB_VPKT_PARM_DATA d"
  proof -
    have ok: "\<forall>p\<in>set ?ps. proper_param p" by (simp add: proper_param_def given_attr_def)
    have l: "length ?ps = 2" "length ?ps < 65536" by simp_all
    have "d = word_bytes (of_nat (length ?ps)) @ concat (map param_bytes ?ps)" using d by simp
    from hears_params [OF a ok l(2) p this, of m] show ?thesis unfolding l(1) .
  qed
  have at: "usb_talk m n w (attr_data env ?ps i 8) (cp_data (?ps ! i)) [] []" if "i < 2" for i
  proof -
    have "length (cp_data (?ps ! i)) = 8" using that by (cases i) (simp_all add: given_attr_def)
    then show ?thesis
      unfolding attr_data_def attr_at_def using that talk_read_array [of 8 "cp_data (?ps ! i)" m n w env] by simp
  qed
  have word: "be_word (drop 4 (cp_data (given_attr i (size_bytes hi @ size_bytes x)))) = x" for i hi x
    using be_word_bytes [of x "[]"] by (simp add: given_attr_def)
  show ?thesis
    unfolding get_memfree_84p_def
    apply (rule usb.converses_then [OF ask _ refl refl])
    apply (simp only: refl not_True_eq_False if_False)
    apply (rule usb.converses_then [OF params, where out' = "[]" and inp' = "[]"])
      apply (simp only: prod.case refl not_True_eq_False if_False)
      apply (rule usb.converses_quietly [OF at])
       apply simp
      apply (rule usb.converses_quietly [OF at])
       apply (simp_all add: word)
    done
qed

end
