(* ===== verification/Dirlist.thy ===== *)
theory Dirlist
  imports Calc_Store
begin

text \<open>
  The directory of a calculator (\<open>libticalcs\<close>, \<open>dirlist.cc\<close>): a tree with a description at its root,
  folders below it and entries below these.  A folder is \<open>None\<close> where the model has no folders.  Names are
  strings without their terminator; GLib does not fail to allocate; the printing of a tree is left out.
\<close>

section \<open>The tree\<close>

record TreeInfo =
  tree_model :: CalcModel
  tree_type :: string
  mem_mask :: u32
  mem_used :: u32
  mem_free :: u32

text \<open>An entry with the name of its folder.\<close>

record FolderEntry = VarEntry +
  ve_folder :: string

type_synonym 'a folder = "'a VarEntry_scheme option \<times> 'a VarEntry_scheme list"
type_synonym 'a dir_tree = "TreeInfo option \<times> 'a folder list"

abbreviation VAR_NODE_NAME :: string where "VAR_NODE_NAME \<equiv> ''Variables''"
abbreviation APP_NODE_NAME :: string where "APP_NODE_NAME \<equiv> ''Applications''"
abbreviation (input) ATTRB_ARCHIVED' :: byte where "ATTRB_ARCHIVED' \<equiv> 3"

definition tifiles_has_folder :: "CalcModel \<Rightarrow> bool" where
  "tifiles_has_folder m \<longleftrightarrow> m \<in> {CALC_TI89, CALC_TI89T, CALC_TI92, CALC_TI92P, CALC_V200, CALC_TI89T_USB, CALC_NSPIRE}"

text \<open>A tree as a calculator without folders gives it.\<close>

definition flat_tree :: "TreeInfo \<Rightarrow> 'a VarEntry_scheme list \<Rightarrow> 'a dir_tree" where
  "flat_tree info es = (Some info, [(None, es)])"

text \<open>What the functions ask of the root; \<open>NULL\<close> is no tree.\<close>

definition root_is :: "string list \<Rightarrow> 'a dir_tree option \<Rightarrow> bool" where
  "root_is types tree = (case tree of Some (Some i, fs) \<Rightarrow> tree_type i \<in> set types | _ \<Rightarrow> False)"

definition folders_of :: "'a dir_tree option \<Rightarrow> 'a folder list" where
  "folders_of tree = (case tree of None \<Rightarrow> [] | Some (i, fs) \<Rightarrow> fs)"

definition entries_of :: "'a dir_tree option \<Rightarrow> 'a VarEntry_scheme list" where
  "entries_of tree = concat (map snd (folders_of tree))"

section \<open>Counting\<close>

definition ticalcs_dirlist_ve_count :: "'a dir_tree option \<Rightarrow> nat" where
  "ticalcs_dirlist_ve_count tree =
     (if root_is [VAR_NODE_NAME, APP_NODE_NAME] tree then sum_list (map (\<lambda>(f, es). length es) (folders_of tree)) else 0)"

definition entries_size :: "('a VarEntry_scheme \<Rightarrow> bool) \<Rightarrow> 'a VarEntry_scheme list \<Rightarrow> u32" where
  "entries_size p es = sum_list (map ve_size (filter p es))"

definition ticalcs_dirlist_ram_used :: "'a dir_tree option \<Rightarrow> u32" where
  "ticalcs_dirlist_ram_used tree =
     (if root_is [VAR_NODE_NAME] tree
      then sum_list (map (\<lambda>(f, es). entries_size (\<lambda>e. ve_attr e \<noteq> ATTRB_ARCHIVED') es) (folders_of tree)) else 0)"

text \<open>
  Of the variables the archived ones count.  Of the applications under the folder \<open>i\<close> the code takes the one with the number of the folder, once for
  every application; there may be none.
\<close>

definition apps_size :: "nat \<Rightarrow> 'a folder \<Rightarrow> u32 option" where
  "apps_size i f =
     (if snd f = [] then Some 0
      else if i < length (snd f) then Some (of_nat (length (snd f)) * ve_size (snd f ! i))
      else None)"

definition ticalcs_dirlist_flash_used :: "'a dir_tree option \<Rightarrow> 'a dir_tree option \<Rightarrow> u32 option" where
  "ticalcs_dirlist_flash_used vars apps =
     (case (vars, apps) of
        (Some (Some i1, fs1), Some (Some i2, fs2)) \<Rightarrow>
          (let archived = (if tree_type i1 = VAR_NODE_NAME
                 then sum_list (map (\<lambda>(f, es). entries_size (\<lambda>e. ve_attr e = ATTRB_ARCHIVED') es) fs1) else 0);
               sizes = (if tree_type i2 = APP_NODE_NAME then map (\<lambda>i. apps_size i (fs2 ! i)) [0..<length fs2] else [])
           in if None \<in> set sizes then None else Some (archived + sum_list (map the sizes)))
      | _ \<Rightarrow> Some 0)"

section \<open>Looking up\<close>

text \<open>On the models whose names do not determine the type it is compared too, with one exception.\<close>

definition type_matters :: "CalcModel \<Rightarrow> bool" where
  "type_matters m \<longleftrightarrow> m \<in> {CALC_TI73, CALC_TI82, CALC_TI83, CALC_TI83P, CALC_TI84P}
     \<or> m = CALC_TI84P_USB \<or> m = CALC_TI83PCE_USB \<or> m = CALC_TI84PCE_USB \<or> m = CALC_TI82A_USB"

definition entry_matches :: "CalcModel \<Rightarrow> FolderEntry \<Rightarrow> FolderEntry \<Rightarrow> bool" where
  "entry_matches m s e \<longleftrightarrow> ve_name e = ve_name s \<and> (\<not> type_matters m \<or> m = CALC_TI84PT_USB \<or> ve_type e = ve_type s)"

definition ticalcs_dirlist_ve_exist :: "\<lparr>ve_folder :: string\<rparr> dir_tree option \<Rightarrow> FolderEntry option \<Rightarrow> FolderEntry option" where
  "ticalcs_dirlist_ve_exist tree s =
     (case (tree, s) of
        (Some (Some i, fs), Some s) \<Rightarrow>
          if tree_type i \<noteq> VAR_NODE_NAME \<and> tree_type i \<noteq> APP_NODE_NAME then None
          else find (entry_matches (tree_model i) s)
            (concat (map snd (filter (\<lambda>(f, es). case f of None \<Rightarrow> True | Some fe \<Rightarrow> ve_name fe = ve_folder s) fs)))
      | _ \<Rightarrow> None)"

section \<open>Adding and removing\<close>

text \<open>
  The search for a folder: it ends at the first one without an entry.  The number of the last folder looked
  at, its entry, and whether it has the name.
\<close>

fun find_folder :: "nat \<Rightarrow> string \<Rightarrow> 'a folder list \<Rightarrow> nat \<times> 'a VarEntry_scheme option \<times> bool" where
  "find_folder i name [] = (i, None, False)"
| "find_folder i name ((None, es) # fs) = (i, None, False)"
| "find_folder i name [(Some fe, es)] = (i, Some fe, ve_name fe = name)"
| "find_folder i name ((Some fe, es) # f # fs) = (if ve_name fe = name then (i, Some fe, True) else find_folder (i + 1) name (f # fs))"

definition wanted_folder :: "CalcModel \<Rightarrow> FolderEntry \<Rightarrow> string" where
  "wanted_folder m e = (if ve_folder e = [] \<and> tifiles_has_folder m then ''main'' else ve_folder e)"

definition folder_entry :: "string \<Rightarrow> FolderEntry" where
  "folder_entry name = \<lparr>ve_name = take (VARNAME_MAX - 1) name, ve_type = 0x1F, ve_attr = 0, ve_version = 0, ve_size = 0,
     ve_data = None, ve_action = 0, ve_folder = []\<rparr>"

text \<open>The folders after the search, the number of the folder to add to, and its entry.\<close>

definition place_folder :: "CalcModel \<Rightarrow> FolderEntry \<Rightarrow> \<lparr>ve_folder :: string\<rparr> folder list
    \<Rightarrow> \<lparr>ve_folder :: string\<rparr> folder list \<times> nat \<times> FolderEntry option" where
  "place_folder m e fs =
     (let fs = (if fs = [] \<and> \<not> tifiles_has_folder m then [(None, [])] else fs);
          (i, fe, found) = find_folder 0 (wanted_folder m e) fs
      in if (\<not> found \<and> fe \<noteq> None) \<or> (fs = [] \<and> tifiles_has_folder m)
         then (fs @ [(Some (folder_entry (ve_folder e)), [])], length fs, Some (folder_entry (ve_folder e)))
         else (fs, i, fe))"

definition resize_folder :: "(u32 \<Rightarrow> u32) \<Rightarrow> FolderEntry option \<Rightarrow> FolderEntry option" where
  "resize_folder g fe = map_option (\<lambda>fe. fe\<lparr>ve_size := g (ve_size fe)\<rparr>) fe"

definition ticalcs_dirlist_ve_add :: "\<lparr>ve_folder :: string\<rparr> dir_tree \<Rightarrow> FolderEntry \<Rightarrow> \<lparr>ve_folder :: string\<rparr> dir_tree" where
  "ticalcs_dirlist_ve_add tree e =
     (case fst tree of None \<Rightarrow> tree
      | Some info \<Rightarrow>
          if tree_type info \<noteq> VAR_NODE_NAME \<and> tree_type info \<noteq> APP_NODE_NAME then tree
          else
            let (fs, i, fe) = place_folder (tree_model info) e (snd tree)
            in if ve_name e = [] then (Some info, fs)
               else
                 let es = snd (fs ! i); found = (\<exists>v\<in>set es. ve_name v = ve_name e)
                 in (Some info, fs[i := (if found then (resize_folder (\<lambda>s. s + 1) fe, es) else (fe, es @ [e]))]))"

text \<open>
  The first entry of the name is removed; a folder of another name at the end stops the search.  \<open>None\<close> is
  a count of the children of no node at all, which GLib reports as an error.
\<close>

fun remove_named :: "string \<Rightarrow> 'a VarEntry_scheme list \<Rightarrow> 'a VarEntry_scheme list" where
  "remove_named s [] = []"
| "remove_named s (e # es) = (if ve_name e = s then es else e # remove_named s es)"

definition ticalcs_dirlist_ve_del :: "\<lparr>ve_folder :: string\<rparr> dir_tree \<Rightarrow> FolderEntry \<Rightarrow> \<lparr>ve_folder :: string\<rparr> dir_tree option" where
  "ticalcs_dirlist_ve_del tree e =
     (case fst tree of None \<Rightarrow> Some tree
      | Some info \<Rightarrow>
          if tree_type info \<noteq> VAR_NODE_NAME then Some tree
          else
            let (i, fe, found) = find_folder 0 (wanted_folder (tree_model info) e) (snd tree)
            in if \<not> found \<and> fe \<noteq> None then Some tree
               else if snd tree = [] then None
               else
                 let es = snd (snd tree ! i); found = (\<exists>v\<in>set es. ve_name v = ve_name e)
                 in Some (Some info, (snd tree)[i := (if found then (resize_folder (\<lambda>s. s - 1) fe, remove_named (ve_name e) es) else (fe, es))]))"


section \<open>What the tree says after an addition\<close>

text \<open>The tree of a model without folders: one pseudo-folder, or nothing yet.\<close>

definition plain_tree :: "\<lparr>ve_folder :: string\<rparr> dir_tree \<Rightarrow> TreeInfo \<Rightarrow> FolderEntry list \<Rightarrow> bool" where
  "plain_tree tree info es \<longleftrightarrow> (tree = flat_tree info es \<or> (tree = (Some info, []) \<and> es = []))
     \<and> tree_type info = VAR_NODE_NAME \<and> \<not> tifiles_has_folder (tree_model info)"

lemma plain_place:
  "\<not> tifiles_has_folder m \<Longrightarrow> place_folder m e [(None, es)] = ([(None, es)], 0, None)"
  "\<not> tifiles_has_folder m \<Longrightarrow> place_folder m e [] = ([(None, [])], 0, None)"
  by (simp_all add: place_folder_def)

lemma plain_add:
  assumes "plain_tree tree info es" "ve_name e \<noteq> []"
  shows "ticalcs_dirlist_ve_add tree e = flat_tree info (if \<exists>v\<in>set es. ve_name v = ve_name e then es else es @ [e])"
  using assms by (auto simp: plain_tree_def ticalcs_dirlist_ve_add_def flat_tree_def plain_place resize_folder_def)

lemma find_append_new: "(\<And>x. x \<in> set xs \<Longrightarrow> \<not> P x) \<Longrightarrow> P y \<Longrightarrow> find P (xs @ [y]) = Some y"
  by (induction xs) auto

lemma remove_named_new: "\<not> (\<exists>v\<in>set es. ve_name v = ve_name e) \<Longrightarrow> remove_named (ve_name e) (es @ [e]) = es"
  by (induction es) auto

lemma entries_size_Nil [simp]: "entries_size p [] = 0"
  by (simp add: entries_size_def)

lemma entries_size_append: "entries_size p (es @ [e]) = entries_size p es + (if p e then ve_size e else 0)"
  by (simp add: entries_size_def)

lemma dirlist_addition:
  assumes t: "plain_tree tree info es" and n: "ve_name e \<noteq> []" and new: "\<forall>v\<in>set es. ve_name v \<noteq> ve_name e"
  shows "ticalcs_dirlist_ve_exist (Some (ticalcs_dirlist_ve_add tree e)) (Some e) = Some e"
    and "ticalcs_dirlist_ve_count (Some (ticalcs_dirlist_ve_add tree e)) = ticalcs_dirlist_ve_count (Some tree) + 1"
    and "ticalcs_dirlist_ram_used (Some (ticalcs_dirlist_ve_add tree e))
      = ticalcs_dirlist_ram_used (Some tree) + (if ve_attr e = ATTRB_ARCHIVED' then 0 else ve_size e)"
    and "ticalcs_dirlist_ve_del (ticalcs_dirlist_ve_add tree e) e = Some (flat_tree info es)"
proof -
  have fresh: "\<not> (\<exists>v\<in>set es. ve_name v = ve_name e)" using new by blast
  have add: "ticalcs_dirlist_ve_add tree e = flat_tree info (es @ [e])"
    unfolding plain_add [OF t n] if_not_P [OF fresh] ..
  have ty: "tree_type info = VAR_NODE_NAME" "\<not> tifiles_has_folder (tree_model info)" using t by (simp_all add: plain_tree_def)
  have "find (entry_matches (tree_model info) e) (es @ [e]) = Some e"
    by (rule find_append_new) (use new in \<open>auto simp: entry_matches_def\<close>)
  then show "ticalcs_dirlist_ve_exist (Some (ticalcs_dirlist_ve_add tree e)) (Some e) = Some e"
    by (simp add: add ticalcs_dirlist_ve_exist_def flat_tree_def ty)
  show "ticalcs_dirlist_ve_count (Some (ticalcs_dirlist_ve_add tree e)) = ticalcs_dirlist_ve_count (Some tree) + 1"
    using t by (auto simp: add plain_tree_def ticalcs_dirlist_ve_count_def root_is_def folders_of_def flat_tree_def)
  show "ticalcs_dirlist_ram_used (Some (ticalcs_dirlist_ve_add tree e))
      = ticalcs_dirlist_ram_used (Some tree) + (if ve_attr e = ATTRB_ARCHIVED' then 0 else ve_size e)"
    using t by (auto simp: add plain_tree_def ticalcs_dirlist_ram_used_def root_is_def folders_of_def flat_tree_def
        entries_size_append)
  show "ticalcs_dirlist_ve_del (ticalcs_dirlist_ve_add tree e) e = Some (flat_tree info es)"
    by (simp add: add ticalcs_dirlist_ve_del_def flat_tree_def ty resize_folder_def remove_named_new [OF fresh])
qed

text \<open>The first application stands for all of them in the flash memory in use.\<close>

lemma flash_used_first_app:
  assumes "tree_type iv = VAR_NODE_NAME" "tree_type ia = APP_NODE_NAME"
  shows "ticalcs_dirlist_flash_used (Some (flat_tree iv es)) (Some (flat_tree ia (a # as)))
    = Some (entries_size (\<lambda>e. ve_attr e = ATTRB_ARCHIVED') es + of_nat (length (a # as)) * ve_size a)"
  using assms by (simp add: ticalcs_dirlist_flash_used_def flat_tree_def apps_size_def)

text \<open>In a folder the count of its entries goes down with a removal, but not up with an addition.\<close>

lemma folder_size_drifts:
  assumes "tree_type info = VAR_NODE_NAME" "ve_name fe = wanted_folder (tree_model info) e"
    "ve_name e \<noteq> []" "\<forall>v\<in>set es. ve_name v \<noteq> ve_name e"
  shows "ticalcs_dirlist_ve_del (ticalcs_dirlist_ve_add (Some info, [(Some fe, es)]) e) e
    = Some (Some info, [(Some (fe\<lparr>ve_size := ve_size fe - 1\<rparr>), es)])"
proof -
  have fresh: "\<not> (\<exists>v\<in>set es. ve_name v = ve_name e)" using assms(4) by blast
  have add: "ticalcs_dirlist_ve_add (Some info, [(Some fe, es)]) e = (Some info, [(Some fe, es @ [e])])"
    using assms(1-3) fresh by (simp add: ticalcs_dirlist_ve_add_def place_folder_def)
  show ?thesis
    using assms(1,2) by (simp add: add ticalcs_dirlist_ve_del_def resize_folder_def remove_named_new [OF fresh])
qed

end
