(* ===== verification/Calc_Api.thy ===== *)
theory Calc_Api
  imports Link_Variables Usb_Variables Dirlist Screens
begin

text \<open>
  The operations of a handle (\<open>libticalcs\<close>, \<open>calc_xx.cc\<close>) and its cable (\<open>ticalcs.cc\<close>): the checks before
  an operation, the busy flag and the events around it.  What an operation does is in the table of functions
  the handle points to, an argument here.  An argument that is a pointer may be \<open>None\<close>, for \<open>NULL\<close>; what an
  operation writes to is passed in with its old contents and returned.  Where the code takes two pointers to
  write to, they are one pair, \<open>None\<close> if either is \<open>NULL\<close>: the checks do not tell them apart.  The functions
  that read or write files (those whose names end in 2) and the messages of the log are left out.
\<close>

section \<open>The table of functions\<close>

type_synonym CalcMode = u32
type_synonym CalcTree = "\<lparr>ve_folder :: string\<rparr> dir_tree"

text \<open>The operations a model may have; \<open>None\<close> is one it does not have.\<close>

record CalcFncts =
  features :: u32
  fn_is_ready :: "(link, int) state option"
  fn_send_key :: "(u32 \<Rightarrow> (link, int) state) option"
  fn_execute :: "(VarEntry \<Rightarrow> string option \<Rightarrow> (link, int) state) option"
  fn_recv_screen :: "((CalcScreenCoord \<times> bytes option) \<Rightarrow> (link, int \<times> (CalcScreenCoord \<times> bytes option)) state) option"
  fn_get_dirlist :: "(link, int \<times> CalcTree option \<times> CalcTree option) state option"
  fn_get_memfree :: "((u32 \<times> u32) \<Rightarrow> (link, int \<times> (u32 \<times> u32)) state) option"
  fn_send_backup :: "(BackupContent \<Rightarrow> (link, int) state) option"
  fn_recv_backup :: "(BackupContent \<Rightarrow> (link, int \<times> BackupContent) state) option"
  fn_send_var :: "(CalcMode \<Rightarrow> FileContent \<Rightarrow> (link, int) state) option"
  fn_recv_var :: "(CalcMode \<Rightarrow> VarEntry \<Rightarrow> FileContent \<Rightarrow> (link, int \<times> FileContent) state) option"
  fn_send_var_ns :: "(CalcMode \<Rightarrow> FileContent \<Rightarrow> (link, int) state) option"
  fn_recv_var_ns :: "(CalcMode \<Rightarrow> (FileContent \<times> VarEntry option) \<Rightarrow> (link, int \<times> (FileContent \<times> VarEntry option)) state) option"
  fn_send_app :: "(FlashContent list \<Rightarrow> (link, int) state) option"
  fn_recv_app :: "(VarEntry \<Rightarrow> FlashContent list \<Rightarrow> (link, int \<times> (FlashContent list)) state) option"
  fn_send_os :: "(FlashContent list \<Rightarrow> (link, int) state) option"
  fn_recv_idlist :: "(string \<Rightarrow> (link, int \<times> string) state) option"
  fn_dump_rom_1 :: "(link, int) state option"
  fn_dump_rom_2 :: "(int \<Rightarrow> string \<Rightarrow> (link, int) state) option"
  fn_set_clock :: "(CalcClock \<Rightarrow> (link, int) state) option"
  fn_get_clock :: "(CalcClock \<Rightarrow> (link, int \<times> CalcClock) state) option"
  fn_del_var :: "(VarEntry \<Rightarrow> (link, int) state) option"
  fn_new_fld :: "(VarEntry \<Rightarrow> (link, int) state) option"
  fn_get_version :: "(CalcInfos \<Rightarrow> (link, int \<times> CalcInfos) state) option"
  fn_send_cert :: "(FlashContent list \<Rightarrow> (link, int) state) option"
  fn_recv_cert :: "(FlashContent list \<Rightarrow> (link, int \<times> (FlashContent list)) state) option"
  fn_rename_var :: "(VarEntry \<Rightarrow> VarEntry \<Rightarrow> (link, int) state) option"
  fn_change_attr :: "(VarEntry \<Rightarrow> byte \<Rightarrow> (link, int) state) option"
  fn_send_all_vars_backup :: "(FileContent \<Rightarrow> (link, int) state) option"
  fn_recv_all_vars_backup :: "(FileContent \<Rightarrow> (link, int \<times> FileContent) state) option"

definition ticalcs_calc_features :: "link \<Rightarrow> CalcFncts option \<Rightarrow> u32" where
  "ticalcs_calc_features h table = (if no_handle h then 0 else case table of None \<Rightarrow> 0 | Some c \<Rightarrow> features c)"

section \<open>What an operation is wrapped in\<close>

text \<open>Why an operation is refused; 0 if it is not.  \<open>wired\<close> says whether an attached cable is asked for.\<close>

definition refusal :: "bool \<Rightarrow> bool \<Rightarrow> 'c option \<Rightarrow> link \<Rightarrow> int" where
  "refusal wired args table h =
     (if no_handle h then ERR_INVALID_HANDLE
      else if \<not> args then ERR_INVALID_PARAMETER
      else if Option.is_none table then ERR_INVALID_HANDLE
      else if wired \<and> \<not> is_attached h then ERR_NO_CABLE
      else if \<not> is_open h then ERR_NO_CABLE
      else if in_use h then ERR_BUSY else 0)"

definition set_busy :: "bool \<Rightarrow> (link, unit) state" where
  "set_busy b = State_Monad.update (\<lambda>h. h\<lparr>in_use := b\<rparr>)"

text \<open>
  Who listens to the events may forbid the operation before it and has the last word on its result after it.
  An operation the model does not have succeeds.
\<close>

definition with_events :: "link_env \<Rightarrow> CalcFnctsIdx \<Rightarrow> (link, int \<times> 'r) state option \<Rightarrow> 'r \<Rightarrow> (link, int \<times> 'r) state" where
  "with_events env idx fn old =
     (case fn of None \<Rightarrow> State_Monad.return (0, old)
      | Some p \<Rightarrow> do {
          ret \<leftarrow> fire_event env BEFORE_GENERIC_OPERATION 0 (Operation idx);
          (ret, r) \<leftarrow> (if ret = 0 then p else State_Monad.return (ret, old));
          ret \<leftarrow> fire_event env AFTER_GENERIC_OPERATION ret (Operation idx);
          State_Monad.return (ret, r) })"

definition call :: "link_env \<Rightarrow> bool \<Rightarrow> bool \<Rightarrow> CalcFncts option \<Rightarrow> CalcFnctsIdx
    \<Rightarrow> (CalcFncts \<Rightarrow> (link, int \<times> 'r) state option) \<Rightarrow> 'r \<Rightarrow> (link, int \<times> 'r) state" where
  "call env wired args table idx fn old = do {
     h \<leftarrow> State_Monad.get;
     (if refusal wired args table h \<noteq> 0 then State_Monad.return (refusal wired args table h, old)
      else do {
        set_busy True;
        (ret, r) \<leftarrow> with_events env idx (fn (the table)) old;
        set_busy False;
        State_Monad.return (ret, r) }) }"

text \<open>An operation that writes to nothing, and one that writes to what it is given.\<close>

definition simple_call :: "link_env \<Rightarrow> bool \<Rightarrow> CalcFncts option \<Rightarrow> CalcFnctsIdx
    \<Rightarrow> (CalcFncts \<Rightarrow> (link, int) state option) \<Rightarrow> (link, int) state" where
  "simple_call env args table idx fn =
     only_status (call env True args table idx (\<lambda>c. map_option (\<lambda>p. also_status p ()) (fn c)) ())"

definition into :: "(link, int \<times> 'r) state \<Rightarrow> (link, int \<times> 'r option) state" where
  "into p = do { (ret, r) \<leftarrow> p; State_Monad.return (ret, Some r) }"

definition fetch_call :: "link_env \<Rightarrow> bool \<Rightarrow> bool \<Rightarrow> CalcFncts option \<Rightarrow> CalcFnctsIdx
    \<Rightarrow> (CalcFncts \<Rightarrow> (link, int \<times> 'r) state option) \<Rightarrow> 'r option \<Rightarrow> (link, int \<times> 'r option) state" where
  "fetch_call env wired args table idx fn old = call env wired args table idx (\<lambda>c. map_option into (fn c)) old"

text \<open>The entries of a content are there if it has any.\<close>

definition entries_there :: "FileContent \<Rightarrow> bool" where
  "entries_there c \<longleftrightarrow> num_entries c = 0 \<or> fc_entries c \<noteq> None"

section \<open>The operations\<close>

definition ticalcs_calc_isready :: "link_env \<Rightarrow> CalcFncts option \<Rightarrow> (link, int) state" where
  "ticalcs_calc_isready env table =
     simple_call env True table FNCT_IS_READY fn_is_ready"

definition ticalcs_calc_send_key :: "link_env \<Rightarrow> CalcFncts option \<Rightarrow> u32 \<Rightarrow> (link, int) state" where
  "ticalcs_calc_send_key env table key =
     simple_call env True table FNCT_SEND_KEY (\<lambda>c. map_option (\<lambda>f. f key) (fn_send_key c))"

definition ticalcs_calc_execute :: "link_env \<Rightarrow> CalcFncts option \<Rightarrow> VarEntry option \<Rightarrow> string option \<Rightarrow> (link, int) state" where
  "ticalcs_calc_execute env table ve args =
     simple_call env (ve \<noteq> None) table FNCT_EXECUTE (\<lambda>c. map_option (\<lambda>f. f (the ve) args) (fn_execute c))"

definition ticalcs_calc_recv_screen :: "link_env \<Rightarrow> CalcFncts option \<Rightarrow> (CalcScreenCoord \<times> bytes option) option \<Rightarrow> (link, int \<times> (CalcScreenCoord \<times> bytes option) option) state" where
  "ticalcs_calc_recv_screen env table old =
     fetch_call env True (old \<noteq> None) table FNCT_RECV_SCREEN (\<lambda>c. map_option (\<lambda>f. f (the old)) (fn_recv_screen c)) old"

definition ticalcs_calc_get_memfree :: "link_env \<Rightarrow> CalcFncts option \<Rightarrow> (u32 \<times> u32) option \<Rightarrow> (link, int \<times> (u32 \<times> u32) option) state" where
  "ticalcs_calc_get_memfree env table old =
     fetch_call env True (old \<noteq> None) table FNCT_GET_MEMFREE (\<lambda>c. map_option (\<lambda>f. f (the old)) (fn_get_memfree c)) old"

definition ticalcs_calc_send_backup :: "link_env \<Rightarrow> CalcFncts option \<Rightarrow> BackupContent option \<Rightarrow> (link, int) state" where
  "ticalcs_calc_send_backup env table content =
     simple_call env (content \<noteq> None) table FNCT_SEND_BACKUP (\<lambda>c. map_option (\<lambda>f. f (the content)) (fn_send_backup c))"

definition ticalcs_calc_recv_backup :: "link_env \<Rightarrow> CalcFncts option \<Rightarrow> BackupContent option \<Rightarrow> (link, int \<times> BackupContent option) state" where
  "ticalcs_calc_recv_backup env table old =
     fetch_call env True (old \<noteq> None) table FNCT_RECV_BACKUP (\<lambda>c. map_option (\<lambda>f. f (the old)) (fn_recv_backup c)) old"

definition ticalcs_calc_recv_var :: "link_env \<Rightarrow> CalcFncts option \<Rightarrow> CalcMode \<Rightarrow> VarEntry option \<Rightarrow> FileContent option \<Rightarrow> (link, int \<times> FileContent option) state" where
  "ticalcs_calc_recv_var env table mode vr old =
     fetch_call env True (old \<noteq> None \<and> vr \<noteq> None) table FNCT_RECV_VAR (\<lambda>c. map_option (\<lambda>f. f mode (the vr) (the old)) (fn_recv_var c)) old"

definition ticalcs_calc_send_var_ns :: "link_env \<Rightarrow> CalcFncts option \<Rightarrow> CalcMode \<Rightarrow> FileContent option \<Rightarrow> (link, int) state" where
  "ticalcs_calc_send_var_ns env table mode content =
     simple_call env (content \<noteq> None \<and> entries_there (the content)) table FNCT_SEND_VAR_NS (\<lambda>c. map_option (\<lambda>f. f mode (the content)) (fn_send_var_ns c))"

definition ticalcs_calc_recv_var_ns :: "link_env \<Rightarrow> CalcFncts option \<Rightarrow> CalcMode \<Rightarrow> (FileContent \<times> VarEntry option) option \<Rightarrow> (link, int \<times> (FileContent \<times> VarEntry option) option) state" where
  "ticalcs_calc_recv_var_ns env table mode old =
     fetch_call env True (old \<noteq> None) table FNCT_RECV_VAR_NS (\<lambda>c. map_option (\<lambda>f. f mode (the old)) (fn_recv_var_ns c)) old"

definition ticalcs_calc_send_app :: "link_env \<Rightarrow> CalcFncts option \<Rightarrow> (FlashContent list) option \<Rightarrow> (link, int) state" where
  "ticalcs_calc_send_app env table content =
     simple_call env (content \<noteq> None) table FNCT_SEND_APP (\<lambda>c. map_option (\<lambda>f. f (the content)) (fn_send_app c))"

definition ticalcs_calc_recv_app :: "link_env \<Rightarrow> CalcFncts option \<Rightarrow> VarEntry option \<Rightarrow> (FlashContent list) option \<Rightarrow> (link, int \<times> (FlashContent list) option) state" where
  "ticalcs_calc_recv_app env table vr old =
     fetch_call env True (old \<noteq> None \<and> vr \<noteq> None) table FNCT_RECV_APP (\<lambda>c. map_option (\<lambda>f. f (the vr) (the old)) (fn_recv_app c)) old"

definition ticalcs_calc_send_os :: "link_env \<Rightarrow> CalcFncts option \<Rightarrow> (FlashContent list) option \<Rightarrow> (link, int) state" where
  "ticalcs_calc_send_os env table content =
     simple_call env (content \<noteq> None) table FNCT_SEND_OS (\<lambda>c. map_option (\<lambda>f. f (the content)) (fn_send_os c))"

definition ticalcs_calc_recv_idlist :: "link_env \<Rightarrow> CalcFncts option \<Rightarrow> string option \<Rightarrow> (link, int \<times> string option) state" where
  "ticalcs_calc_recv_idlist env table old =
     fetch_call env True (old \<noteq> None) table FNCT_RECV_IDLIST (\<lambda>c. map_option (\<lambda>f. f (the old)) (fn_recv_idlist c)) old"

definition ticalcs_calc_dump_rom_1 :: "link_env \<Rightarrow> CalcFncts option \<Rightarrow> (link, int) state" where
  "ticalcs_calc_dump_rom_1 env table =
     simple_call env True table FNCT_DUMP_ROM1 fn_dump_rom_1"

definition ticalcs_calc_dump_rom_2 :: "link_env \<Rightarrow> CalcFncts option \<Rightarrow> int \<Rightarrow> string option \<Rightarrow> (link, int) state" where
  "ticalcs_calc_dump_rom_2 env table sz filename =
     simple_call env (filename \<noteq> None) table FNCT_DUMP_ROM2 (\<lambda>c. map_option (\<lambda>f. f sz (the filename)) (fn_dump_rom_2 c))"

definition ticalcs_calc_set_clock :: "link_env \<Rightarrow> CalcFncts option \<Rightarrow> CalcClock option \<Rightarrow> (link, int) state" where
  "ticalcs_calc_set_clock env table clock =
     simple_call env (clock \<noteq> None) table FNCT_SET_CLOCK (\<lambda>c. map_option (\<lambda>f. f (the clock)) (fn_set_clock c))"

definition ticalcs_calc_get_clock :: "link_env \<Rightarrow> CalcFncts option \<Rightarrow> CalcClock option \<Rightarrow> (link, int \<times> CalcClock option) state" where
  "ticalcs_calc_get_clock env table old =
     fetch_call env True (old \<noteq> None) table FNCT_GET_CLOCK (\<lambda>c. map_option (\<lambda>f. f (the old)) (fn_get_clock c)) old"

definition ticalcs_calc_del_var :: "link_env \<Rightarrow> CalcFncts option \<Rightarrow> VarEntry option \<Rightarrow> (link, int) state" where
  "ticalcs_calc_del_var env table vr =
     simple_call env (vr \<noteq> None) table FNCT_DEL_VAR (\<lambda>c. map_option (\<lambda>f. f (the vr)) (fn_del_var c))"

definition ticalcs_calc_new_fld :: "link_env \<Rightarrow> CalcFncts option \<Rightarrow> VarEntry option \<Rightarrow> (link, int) state" where
  "ticalcs_calc_new_fld env table vr =
     simple_call env (vr \<noteq> None) table FNCT_NEW_FOLDER (\<lambda>c. map_option (\<lambda>f. f (the vr)) (fn_new_fld c))"

definition ticalcs_calc_get_version :: "link_env \<Rightarrow> CalcFncts option \<Rightarrow> CalcInfos option \<Rightarrow> (link, int \<times> CalcInfos option) state" where
  "ticalcs_calc_get_version env table old =
     fetch_call env False (old \<noteq> None) table FNCT_GET_VERSION (\<lambda>c. map_option (\<lambda>f. f (the old)) (fn_get_version c)) old"

definition ticalcs_calc_send_cert :: "link_env \<Rightarrow> CalcFncts option \<Rightarrow> (FlashContent list) option \<Rightarrow> (link, int) state" where
  "ticalcs_calc_send_cert env table content =
     simple_call env (content \<noteq> None) table FNCT_SEND_CERT (\<lambda>c. map_option (\<lambda>f. f (the content)) (fn_send_cert c))"

definition ticalcs_calc_recv_cert :: "link_env \<Rightarrow> CalcFncts option \<Rightarrow> (FlashContent list) option \<Rightarrow> (link, int \<times> (FlashContent list) option) state" where
  "ticalcs_calc_recv_cert env table old =
     fetch_call env True (old \<noteq> None) table FNCT_RECV_CERT (\<lambda>c. map_option (\<lambda>f. f (the old)) (fn_recv_cert c)) old"

definition ticalcs_calc_rename_var :: "link_env \<Rightarrow> CalcFncts option \<Rightarrow> VarEntry option \<Rightarrow> VarEntry option \<Rightarrow> (link, int) state" where
  "ticalcs_calc_rename_var env table oldname newname =
     simple_call env (oldname \<noteq> None \<and> newname \<noteq> None) table FNCT_RENAME (\<lambda>c. map_option (\<lambda>f. f (the oldname) (the newname)) (fn_rename_var c))"

definition ticalcs_calc_change_attr :: "link_env \<Rightarrow> CalcFncts option \<Rightarrow> VarEntry option \<Rightarrow> byte \<Rightarrow> (link, int) state" where
  "ticalcs_calc_change_attr env table vr attr =
     simple_call env (vr \<noteq> None) table FNCT_CHATTR (\<lambda>c. map_option (\<lambda>f. f (the vr) attr) (fn_change_attr c))"

definition ticalcs_calc_send_all_vars_backup :: "link_env \<Rightarrow> CalcFncts option \<Rightarrow> FileContent option \<Rightarrow> (link, int) state" where
  "ticalcs_calc_send_all_vars_backup env table content =
     simple_call env (content \<noteq> None \<and> entries_there (the content)) table FNCT_SEND_ALL_VARS_BACKUP (\<lambda>c. map_option (\<lambda>f. f (the content)) (fn_send_all_vars_backup c))"

definition ticalcs_calc_recv_all_vars_backup :: "link_env \<Rightarrow> CalcFncts option \<Rightarrow> FileContent option \<Rightarrow> (link, int \<times> FileContent option) state" where
  "ticalcs_calc_recv_all_vars_backup env table old =
     fetch_call env True (old \<noteq> None) table FNCT_RECV_ALL_VARS_BACKUP (\<lambda>c. map_option (\<lambda>f. f (the old)) (fn_recv_all_vars_backup c)) old"

text \<open>
  The sending of variables may also be asked for by an operation that has the handle already; then the flag
  is neither looked at nor changed.
\<close>

definition send_var_with :: "link_env \<Rightarrow> CalcFncts option \<Rightarrow> CalcMode \<Rightarrow> FileContent option \<Rightarrow> bool \<Rightarrow> (link, int) state" where
  "send_var_with env table mode content take_busy = do {
     h \<leftarrow> State_Monad.get;
     let args = (content \<noteq> None \<and> entries_there (the content));
     let e = refusal True args table (if take_busy then h else h\<lparr>in_use := False\<rparr>);
     let send = (\<lambda>c. map_option (\<lambda>f. also_status (f mode (the content)) ()) (fn_send_var c));
     (if e \<noteq> 0 then State_Monad.return e
      else do {
        (if take_busy then set_busy True else State_Monad.return ());
        ret \<leftarrow> only_status (with_events env FNCT_SEND_VAR (send (the table)) ());
        (if take_busy then set_busy False else State_Monad.return ());
        State_Monad.return ret }) }"

definition ticalcs_calc_send_var :: "link_env \<Rightarrow> CalcFncts option \<Rightarrow> CalcMode \<Rightarrow> FileContent option \<Rightarrow> (link, int) state" where
  "ticalcs_calc_send_var env table mode content = send_var_with env table mode content True"

text \<open>
  The memory in use is filled in for both trees; \<open>None\<close> for the result is a read past the applications of a
  folder (\<open>ticalcs_dirlist_flash_used\<close>).  The pointers to the trees are there.
\<close>

definition note_used :: "(CalcTree \<Rightarrow> u32) \<Rightarrow> CalcTree option \<Rightarrow> CalcTree option" where
  "note_used used tree = map_option (\<lambda>t. (map_option (\<lambda>i. i\<lparr>mem_mask := mem_mask i OR 2, mem_used := used t\<rparr>) (fst t), snd t)) tree"

definition with_memory :: "CalcTree option \<Rightarrow> CalcTree option \<Rightarrow> (CalcTree option \<times> CalcTree option) option" where
  "with_memory vars apps =
     (let vars = note_used (\<lambda>t. ticalcs_dirlist_ram_used (Some t)) vars
      in if apps = None then Some (vars, None)
         else map_option (\<lambda>used. (vars, note_used (\<lambda>_. used) apps)) (ticalcs_dirlist_flash_used vars apps))"

definition ticalcs_calc_get_dirlist :: "link_env \<Rightarrow> CalcFncts option \<Rightarrow> CalcTree option \<times> CalcTree option
    \<Rightarrow> (link, (int \<times> CalcTree option \<times> CalcTree option) option) state" where
  "ticalcs_calc_get_dirlist env table old = do {
     h \<leftarrow> State_Monad.get;
     (if refusal True True table h \<noteq> 0 then State_Monad.return (Some (refusal True True table h, old))
      else do {
        (ret, vars, apps) \<leftarrow> call env True True table FNCT_GET_DIRLIST fn_get_dirlist (None, None);
        State_Monad.return (if ret \<noteq> 0 then Some (ret, vars, apps)
          else map_option (\<lambda>trees. (0, trees)) (with_memory vars apps)) }) }"

text \<open>
  A screen in 24 bits a pixel: the size, and the picture if there is one.  Screens wider than 320 or higher
  than 240 pixels are refused.  The outer \<open>None\<close> is a read past the picture the model gave.
\<close>

definition converted :: "CalcScreenCoord \<times> bytes option \<Rightarrow> (int \<times> bytes option) option" where
  "converted s =
     (if sc_width (fst s) > 320 \<or> sc_height (fst s) > 240 then Some (ERR_INVALID_PARAMETER, None)
      else case ticalcs_screen_convert_native_to_rgb888 (pixel_format (fst s)) (snd s) (sc_width (fst s)) (sc_height (fst s)) True of
        None \<Rightarrow> None
      | Some (ret, picture) \<Rightarrow> Some (ret, if ret = 0 then Some picture else None))"

definition ticalcs_calc_recv_screen_rgb888 :: "link_env \<Rightarrow> CalcFncts option \<Rightarrow> (CalcScreenCoord \<times> bytes option) option
    \<Rightarrow> (link, (int \<times> (CalcScreenCoord \<times> bytes option) option) option) state" where
  "ticalcs_calc_recv_screen_rgb888 env table old = do {
     (ret, s) \<leftarrow> ticalcs_calc_recv_screen env table old;
     State_Monad.return (case (ret, s) of
         (_, None) \<Rightarrow> Some (ret, None)
       | (_, Some s) \<Rightarrow>
           if ret \<noteq> 0 then Some (ret, Some s)
           else map_option (\<lambda>(ret, picture). (ret, Some (fst s, picture))) (converted s)) }"

section \<open>The cable\<close>

text \<open>
  \<open>opened\<close> and \<open>closed\<close> are the results of \<open>ticables_cable_open\<close> and \<open>ticables_cable_close\<close>.
\<close>

definition ticalcs_cable_attach :: "link_env \<Rightarrow> int \<Rightarrow> (link, int) state" where
  "ticalcs_cable_attach env opened = do {
     h \<leftarrow> State_Monad.get;
     (if no_handle h then State_Monad.return ERR_INVALID_HANDLE
      else do {
        ret \<leftarrow> fire_event env BEFORE_CABLE_ATTACH 0 (Operation CALC_FNCT_LAST);
        ret \<leftarrow> (if ret \<noteq> 0 then State_Monad.return ret
          else do {
            State_Monad.update (\<lambda>h. h\<lparr>is_attached := True\<rparr>);
            (if opened = 0 then State_Monad.update (\<lambda>h. h\<lparr>is_open := True\<rparr>) else State_Monad.return ());
            State_Monad.return opened });
        fire_event env AFTER_CABLE_ATTACH ret (Operation CALC_FNCT_LAST) }) }"

definition ticalcs_cable_detach :: "link_env \<Rightarrow> int \<Rightarrow> (link, int) state" where
  "ticalcs_cable_detach env closed = do {
     h \<leftarrow> State_Monad.get;
     (if no_handle h then State_Monad.return ERR_INVALID_HANDLE
      else do {
        ret \<leftarrow> fire_event env BEFORE_CABLE_DETACH 0 (Operation CALC_FNCT_LAST);
        ret \<leftarrow> (if ret \<noteq> 0 then State_Monad.return ret
          else do {
            (if closed = 0 then State_Monad.update (\<lambda>h. h\<lparr>is_open := False, is_attached := False\<rparr>) else State_Monad.return ());
            State_Monad.return closed });
        fire_event env AFTER_CABLE_DETACH ret (Operation CALC_FNCT_LAST) }) }"

text \<open>The hook a handle has at first hands the status back; what it prints is left out.\<close>

definition default_event_hook :: "link_event list \<Rightarrow> link_event_data \<Rightarrow> int" where
  "default_event_hook es ev = ev_retval ev"

section \<open>What every operation keeps to\<close>

lemma busy_refused:
  assumes "\<not> no_handle h" "args" "table \<noteq> None" "wired \<longrightarrow> is_attached h" "is_open h" "in_use h"
  shows "run_state (call env wired args table idx fn old) h = ((ERR_BUSY, old), h)"
  using assms by (simp add: call_def refusal_def Option.is_none_def)

lemma refused_unchanged:
  "refusal wired args table h \<noteq> 0 \<Longrightarrow> run_state (call env wired args table idx fn old) h = ((refusal wired args table h, old), h)"
  by (simp add: call_def)

lemma refusal_not_busy: "refusal wired args table h = 0 \<Longrightarrow> \<not> in_use h"
  by (simp add: refusal_def split: if_splits)

text \<open>The flag is clear after an operation of a handle that was not in use, whatever the operation did to it.\<close>

lemma call_releases:
  assumes "\<not> in_use h"
  shows "\<not> in_use (snd (run_state (call env wired args table idx fn old) h))"
  using assms by (simp add: call_def set_busy_def State_Monad.update_def split_beta)

lemma flag_released:
  assumes "\<not> in_use h"
  shows "\<not> in_use (snd (run_state (simple_call env args table idx fn) h))"
    and "\<not> in_use (snd (run_state (fetch_call env wired args table idx fn' old) h))"
  using call_releases [OF assms] by (simp_all add: simple_call_def fetch_call_def only_status_def split_beta)

lemma missing_succeeds:
  assumes "refusal wired args table h = 0" "fn (the table) = None"
  shows "run_state (call env wired args table idx fn old) h = ((0, old), h)"
  using assms refusal_not_busy [OF assms(1)] by (simp add: call_def with_events_def set_busy_def State_Monad.update_def)

section \<open>An operation on a working cable\<close>

lemma does_set_busy: "does (set_busy b) h () [] 0"
  by (simp add: set_busy_def does_update advances_def open_link_def)

text \<open>Between the events the operation says and hears what it does on its own.\<close>

lemma does_with_events:
  assumes w: "working env w" and p: "\<And>h'. advances h h' [] 0 \<Longrightarrow> does p h' (ret, r) out k"
  shows "does (with_events env idx (Some p) old) h (ret, r) out k"
  unfolding with_events_def option.case
proof (rule does_quietly [OF does_fire [OF w]])
  fix h1
  assume h1: "advances h h1 [] 0"
  show "does (do { (ret, r) \<leftarrow> (if (0 :: int) = 0 then p else State_Monad.return (0, old));
      ret \<leftarrow> fire_event env AFTER_GENERIC_OPERATION ret (Operation idx); State_Monad.return (ret, r) }) h1 (ret, r) out k"
  proof (rule does_then [where out' = "[]" and k' = 0])
    show "does (if (0 :: int) = 0 then p else State_Monad.return (0, old)) h1 (ret, r) out k" using p [OF h1] by simp
  next
    fix h2
    show "does (case (ret, r) of (ret, r) \<Rightarrow>
        do { ret \<leftarrow> fire_event env AFTER_GENERIC_OPERATION ret (Operation idx); State_Monad.return (ret, r) }) h2 (ret, r) [] 0"
      by (simp only: prod.case) (rule does_quietly [OF does_fire [OF w]], simp)
  qed simp_all
qed

lemma does_call:
  assumes w: "working env w" and ok: "refusal wired args table h = 0" and p: "fn (the table) = Some p"
    and does: "\<And>h'. advances h h' [] 0 \<Longrightarrow> does p h' (ret, r) out k"
  shows "does (call env wired args table idx fn old) h (ret, r) out k"
  unfolding call_def p
  apply (rule does_get)
  apply (simp only: ok refl not_True_eq_False if_False)
  apply (rule does_quietly [OF does_set_busy])
  apply (rule does_then [where out' = "[]" and k' = 0])
     apply (rule does_with_events [OF w], rule does)
     apply (drule (1) advances_trans, simp)
    apply (simp only: prod.case)
    apply (rule does_quietly [OF does_set_busy])
    apply simp_all
  done

lemma does_only_status: "does p h (ret, r) out k \<Longrightarrow> does (only_status p) h ret out k"
  unfolding only_status_def by (rule does_then [where out' = "[]" and k' = 0], assumption, simp only: prod.case, simp_all)

lemma does_also_status: "does p h ret out k \<Longrightarrow> does (also_status p r) h (ret, r) out k"
  unfolding also_status_def by (rule does_then [where out' = "[]" and k' = 0], assumption, simp_all)

lemma does_into: "does p h (ret, r) out k \<Longrightarrow> does (into p) h (ret, Some r) out k"
  unfolding into_def by (rule does_then [where out' = "[]" and k' = 0], assumption, simp only: prod.case, simp_all)

lemma does_simple_call:
  assumes "working env w" "refusal True args table h = 0" "fn (the table) = Some p"
    and "\<And>h'. advances h h' [] 0 \<Longrightarrow> does p h' ret out k"
  shows "does (simple_call env args table idx fn) h ret out k"
  unfolding simple_call_def
  by (rule does_only_status, rule does_call [OF assms(1,2)]) (auto simp: assms(3) intro: does_also_status assms(4))

lemma does_fetch_call:
  assumes "working env w" "refusal wired args table h = 0" "fn (the table) = Some p"
    and "\<And>h'. advances h h' [] 0 \<Longrightarrow> does p h' (ret, r) out k"
  shows "does (fetch_call env wired args table idx fn old) h (ret, Some r) out k"
  unfolding fetch_call_def
  by (rule does_call [OF assms(1,2)]) (auto simp: assms(3) intro: does_into assms(4))

lemma send_var_is_call:
  "ticalcs_calc_send_var env table mode content =
     simple_call env (content \<noteq> None \<and> entries_there (the content)) table FNCT_SEND_VAR
       (\<lambda>c. map_option (\<lambda>f. f mode (the content)) (fn_send_var c))"
  by (rule state.expand, rule ext)
    (simp add: ticalcs_calc_send_var_def send_var_with_def simple_call_def call_def only_status_def Let_def split_beta
      option.map_comp comp_def)

text \<open>
  The transfers of the link port and of USB, through the operation of a handle: the same packets, the same
  answers, the same result as from \<open>send_var\<close> itself.
\<close>

definition at_rest :: "link \<Rightarrow> bool" where
  "at_rest h \<longleftrightarrow> \<not> no_handle h \<and> is_attached h \<and> is_open h \<and> \<not> in_use h"

lemma at_rest_accepts: "at_rest h \<Longrightarrow> args \<Longrightarrow> refusal wired args (Some c) h = 0"
  by (simp add: at_rest_def refusal_def)

lemma api_sends_over_link:
  assumes w: "working env w" "open_link h" "at_rest h" "link_model h \<noteq> CALC_TI73"
    and c: "num_entries content = length ts" "fc_entries content = Some (map (Some \<circ> fst) ts)"
      "\<forall>(e, code)\<in>set ts. sendable (link_model h) e"
    and t: "transfer ts = (r, out, inp)" "carries w (asked (history h)) inp"
    and f: "fn_send_var c = Some (\<lambda>mode. send_var_73 env)"
  shows "does (ticalcs_calc_send_var env (Some c) mode (Some content)) h r out (length inp)"
proof -
  note conv = converses_transfer [OF w(1,4) c(3) t(1) c(1,2)]
  have run: "does (send_var_73 env content) h' r out (length inp)" if "advances h h' [] 0" for h'
    using conv [unfolded converses_in_def, rule_format, of h'] w(2) t(2) advancesD [OF that] by simp
  show ?thesis
    unfolding send_var_is_call
    by (rule does_simple_call [OF w(1) at_rest_accepts [OF w(3)] _ run]) (simp_all add: f entries_there_def c(2))
qed

lemma api_sends_over_usb:
  assumes u: "usb_ready env w h m n inp" "at_rest h"
    and c: "\<forall>(e, a1, a2)\<in>set ts. usb_sendable e \<and> proper env a1 \<and> proper env a2"
      "num_entries content = length ts" "fc_entries content = Some (map (Some \<circ> fst) ts)"
    and t: "usb_transfers (unat n) m ts = (r, out, inp)"
    and f: "fn_send_var c = Some (\<lambda>mode. send_var_84p env)"
  shows "does (ticalcs_calc_send_var env (Some c) mode (Some content)) h r out (length inp)"
proof -
  have a: "agreed env w n" using u(1) by (simp only: usb_ready_def)
  note w = agreedD(1) [OF a] and talk = tells_content_84p [OF a c(1) t c(3,2)]
  have run: "does (send_var_84p env content) h' r out (length inp)" if "advances h h' [] 0" for h'
    using talk [unfolded converses_in_def, rule_format, of h'] u(1) advancesD [OF that] by (simp add: usb_ready_def)
  show ?thesis
    unfolding send_var_is_call
    by (rule does_simple_call [OF w at_rest_accepts [OF u(2)] _ run]) (simp_all add: f entries_there_def c(3))
qed

section \<open>The cable of a handle\<close>

text \<open>A cable that cannot be opened leaves the handle attached, but not open: every operation is refused.\<close>

lemma attach_fails:
  assumes "transparent (event_hook env)" "\<not> no_handle h" "\<not> is_open h" "opened \<noteq> 0" "args"
  shows "fst (run_state (ticalcs_cable_attach env opened) h) = opened"
    and "is_attached (snd (run_state (ticalcs_cable_attach env opened) h))"
    and "refusal wired args (Some c) (snd (run_state (ticalcs_cable_attach env opened) h)) = ERR_NO_CABLE"
  using assms
  by (auto simp: ticalcs_cable_attach_def fire_event_def transparent_def record_event_def State_Monad.update_def refusal_def
      split: option.splits)

lemma attach_opens:
  assumes "transparent (event_hook env)" "\<not> no_handle h" "\<not> in_use h"
  shows "fst (run_state (ticalcs_cable_attach env 0) h) = 0" "at_rest (snd (run_state (ticalcs_cable_attach env 0) h))"
  using assms
  by (auto simp: ticalcs_cable_attach_def fire_event_def transparent_def record_event_def State_Monad.update_def at_rest_def
      split: option.splits)

lemma detach_closes:
  assumes "transparent (event_hook env)" "\<not> no_handle h"
  shows "fst (run_state (ticalcs_cable_detach env closed) h) = closed"
    and "closed = 0 \<Longrightarrow> \<not> is_attached (snd (run_state (ticalcs_cable_detach env closed) h))
      \<and> \<not> is_open (snd (run_state (ticalcs_cable_detach env closed) h))"
  using assms
  by (auto simp: ticalcs_cable_detach_def fire_event_def transparent_def record_event_def State_Monad.update_def split: option.splits)

lemma default_hook_transparent: "transparent (Some default_event_hook)"
  by (simp add: transparent_def default_event_hook_def)

end
