(* ===== verification/Calc_Tables.thy ===== *)
theory Calc_Tables
  imports Calc_Api
begin

text \<open>
  The models \<open>libticalcs\<close> knows: the tables \<open>CalcFncts\<close> of \<open>calc_00.cc\<close>, \<open>calc_73.cc\<close>, \<open>calc_8x.cc\<close>,
  \<open>calc_84p.cc\<close>, \<open>calc_89t.cc\<close>, \<open>calc_9x.cc\<close> and \<open>calc_nsp.cc\<close>, their list in \<open>ticalcs.cc\<close>, and the making of a
  handle.  The functions of a table are given by their names in its file; those whose names begin with
  \<open>noop\<close> do nothing and report success.
\<close>

section \<open>The tables\<close>

abbreviation (input) OPS_ISREADY :: u32 where "OPS_ISREADY \<equiv> 0x1"
abbreviation (input) OPS_KEYS :: u32 where "OPS_KEYS \<equiv> 0x2"
abbreviation (input) OPS_SCREEN :: u32 where "OPS_SCREEN \<equiv> 0x4"
abbreviation (input) OPS_DIRLIST :: u32 where "OPS_DIRLIST \<equiv> 0x8"
abbreviation (input) OPS_BACKUP :: u32 where "OPS_BACKUP \<equiv> 0x10"
abbreviation (input) OPS_VARS :: u32 where "OPS_VARS \<equiv> 0x20"
abbreviation (input) OPS_FLASH :: u32 where "OPS_FLASH \<equiv> 0x40"
abbreviation (input) OPS_IDLIST :: u32 where "OPS_IDLIST \<equiv> 0x80"
abbreviation (input) OPS_CLOCK :: u32 where "OPS_CLOCK \<equiv> 0x100"
abbreviation (input) OPS_ROMDUMP :: u32 where "OPS_ROMDUMP \<equiv> 0x200"
abbreviation (input) OPS_VERSION :: u32 where "OPS_VERSION \<equiv> 0x400"
abbreviation (input) OPS_NEWFLD :: u32 where "OPS_NEWFLD \<equiv> 0x800"
abbreviation (input) OPS_DELVAR :: u32 where "OPS_DELVAR \<equiv> 0x1000"
abbreviation (input) OPS_OS :: u32 where "OPS_OS \<equiv> 0x2000"
abbreviation (input) OPS_RENAME :: u32 where "OPS_RENAME \<equiv> 0x4000"
abbreviation (input) OPS_CHATTR :: u32 where "OPS_CHATTR \<equiv> 0x200000"
abbreviation (input) FTS_SILENT :: u32 where "FTS_SILENT \<equiv> 0x8000"
abbreviation (input) FTS_FOLDER :: u32 where "FTS_FOLDER \<equiv> 0x10000"
abbreviation (input) FTS_MEMFREE :: u32 where "FTS_MEMFREE \<equiv> 0x20000"
abbreviation (input) FTS_FLASH :: u32 where "FTS_FLASH \<equiv> 0x40000"
abbreviation (input) FTS_CERT :: u32 where "FTS_CERT \<equiv> 0x80000"
abbreviation (input) FTS_BACKUP :: u32 where "FTS_BACKUP \<equiv> 0x100000"
abbreviation (input) FTS_NONSILENT :: u32 where "FTS_NONSILENT \<equiv> 0x400000"

abbreviation (input) PRODUCT_ID_NONE :: nat where "PRODUCT_ID_NONE \<equiv> 0x00"
abbreviation (input) PRODUCT_ID_TI92P :: nat where "PRODUCT_ID_TI92P \<equiv> 0x01"
abbreviation (input) PRODUCT_ID_TI73 :: nat where "PRODUCT_ID_TI73 \<equiv> 0x02"
abbreviation (input) PRODUCT_ID_TI89 :: nat where "PRODUCT_ID_TI89 \<equiv> 0x03"
abbreviation (input) PRODUCT_ID_TI83P :: nat where "PRODUCT_ID_TI83P \<equiv> 0x04"
abbreviation (input) PRODUCT_ID_TIV200 :: nat where "PRODUCT_ID_TIV200 \<equiv> 0x08"
abbreviation (input) PRODUCT_ID_TI89T :: nat where "PRODUCT_ID_TI89T \<equiv> 0x09"
abbreviation (input) PRODUCT_ID_TI84P :: nat where "PRODUCT_ID_TI84P \<equiv> 0x0A"
abbreviation (input) PRODUCT_ID_TI82A :: nat where "PRODUCT_ID_TI82A \<equiv> 0x0B"
abbreviation (input) PRODUCT_ID_TI84PCSE :: nat where "PRODUCT_ID_TI84PCSE \<equiv> 0x0F"
abbreviation (input) PRODUCT_ID_TI83PCE :: nat where "PRODUCT_ID_TI83PCE \<equiv> 0x13"
abbreviation (input) PRODUCT_ID_TI84PCE :: nat where "PRODUCT_ID_TI84PCE \<equiv> 0x13"
abbreviation (input) PRODUCT_ID_TI84PT :: nat where "PRODUCT_ID_TI84PT \<equiv> 0x1B"
abbreviation (input) PRODUCT_ID_NSPIRE_CAS :: nat where "PRODUCT_ID_NSPIRE_CAS \<equiv> 0x0C"

text \<open>The counters and the functions are in the order of \<open>CalcFnctsIdx\<close>.\<close>

record CalcTable =
  tb_model :: CalcModel
  tb_name :: string
  tb_fullname :: string
  tb_description :: string
  tb_features :: u32
  tb_product_id :: nat
  tb_counters :: "string list"
  tb_functions :: "string list"

definition calc_00 :: CalcTable where
  "calc_00 = \<lparr>tb_model = CALC_NONE, tb_name = ''NONE'', tb_fullname = ''Dummy hand-held'',
     tb_description = ''Dummy hand-held used when no calc is set'',
     tb_features = 0,
     tb_product_id = PRODUCT_ID_NONE,
     tb_counters = ['''', '''', '''', '''', '''', '''', '''', '''', '''', '''', '''', '''', '''', '''', '''', '''', '''', '''',
       '''', '''', '''', '''', '''', '''', '''', '''', '''', '''', ''''],
     tb_functions = [''noop_is_ready'', ''noop_send_key'', ''noop_execute'', ''noop_recv_screen'', ''noop_get_dirlist'',
       ''noop_get_memfree'', ''noop_send_backup'', ''noop_recv_backup'', ''noop_send_var'', ''noop_recv_var'',
       ''noop_send_var_ns'', ''noop_recv_var_ns'', ''noop_send_flash'', ''noop_recv_flash'', ''noop_send_os'',
       ''noop_recv_idlist'', ''noop_dump_rom_1'', ''noop_dump_rom_2'', ''noop_set_clock'', ''noop_get_clock'',
       ''noop_del_var'', ''noop_new_folder'', ''noop_get_version'', ''noop_send_cert'', ''noop_recv_cert'',
       ''noop_rename_var'', ''noop_change_attr'', ''noop_send_all_vars_backup'', ''noop_recv_all_vars_backup'']\<rparr>"

definition calc_73 :: CalcTable where
  "calc_73 = \<lparr>tb_model = CALC_TI73, tb_name = ''TI73'', tb_fullname = ''TI-73'',
     tb_description = ''TI-73'',
     tb_features = OPS_ISREADY OR OPS_KEYS OR OPS_SCREEN OR OPS_DIRLIST OR OPS_BACKUP OR OPS_VARS OR OPS_FLASH OR OPS_IDLIST OR
       OPS_ROMDUMP OR OPS_VERSION OR OPS_OS OR FTS_SILENT OR FTS_MEMFREE OR FTS_FLASH OR FTS_BACKUP,
     tb_product_id = PRODUCT_ID_TI73,
     tb_counters = ['''', '''', '''', ''1P'', ''1L'', '''', ''2P'', ''2P'', ''2P1L'', ''1P1L'', ''2P1L'', ''1P1L'', ''2P1L'',
       ''2P1L'', ''2P'', ''1L'', ''2P'', ''2P'', '''', '''', ''1L'', ''1L'', '''', ''1L'', ''1L'', '''', '''', '''',
       ''''],
     tb_functions = [''is_ready'', ''send_key'', ''execute'', ''recv_screen'', ''get_dirlist'', ''get_memfree'', ''send_backup'',
       ''recv_backup'', ''send_var'', ''recv_var'', ''noop_send_var_ns'', ''noop_recv_var_ns'', ''send_flash'',
       ''recv_flash'', ''send_flash'', ''recv_idlist'', ''dump_rom_1'', ''dump_rom_2'', ''set_clock'',
       ''get_clock'', ''del_var'', ''noop_new_folder'', ''get_version'', ''send_cert'', ''recv_cert'',
       ''noop_rename_var'', ''noop_change_attr'', ''noop_send_all_vars_backup'', ''noop_recv_all_vars_backup'']\<rparr>"

definition calc_83p :: CalcTable where
  "calc_83p = \<lparr>tb_model = CALC_TI83P, tb_name = ''TI83+'', tb_fullname = ''TI-83 Plus'',
     tb_description = ''TI-83 Plus'',
     tb_features = OPS_ISREADY OR OPS_KEYS OR OPS_SCREEN OR OPS_DIRLIST OR OPS_BACKUP OR OPS_VARS OR OPS_FLASH OR OPS_IDLIST OR
       OPS_ROMDUMP OR OPS_DELVAR OR OPS_VERSION OR OPS_OS OR FTS_SILENT OR FTS_MEMFREE OR FTS_FLASH OR FTS_CERT OR
       FTS_BACKUP,
     tb_product_id = PRODUCT_ID_TI83P,
     tb_counters = ['''', '''', '''', ''1P'', ''1L'', '''', ''2P'', ''2P'', ''2P1L'', ''1P1L'', ''2P1L'', ''1P1L'', ''2P1L'',
       ''2P1L'', ''2P'', ''1L'', ''2P'', ''2P'', '''', '''', ''1L'', ''1L'', '''', ''1L'', ''1L'', '''', '''', '''',
       ''''],
     tb_functions = [''is_ready'', ''send_key'', ''execute'', ''recv_screen'', ''get_dirlist'', ''get_memfree'', ''send_backup'',
       ''recv_backup'', ''send_var'', ''recv_var'', ''noop_send_var_ns'', ''noop_recv_var_ns'', ''send_flash'',
       ''recv_flash'', ''send_flash'', ''recv_idlist'', ''dump_rom_1'', ''dump_rom_2'', ''set_clock'',
       ''get_clock'', ''del_var'', ''noop_new_folder'', ''get_version'', ''send_cert'', ''recv_cert'',
       ''noop_rename_var'', ''noop_change_attr'', ''noop_send_all_vars_backup'', ''noop_recv_all_vars_backup'']\<rparr>"

definition calc_84p :: CalcTable where
  "calc_84p = \<lparr>tb_model = CALC_TI84P, tb_name = ''TI84+'', tb_fullname = ''TI-84 Plus'',
     tb_description = ''TI-84 Plus'',
     tb_features = OPS_ISREADY OR OPS_KEYS OR OPS_SCREEN OR OPS_DIRLIST OR OPS_BACKUP OR OPS_VARS OR OPS_FLASH OR OPS_IDLIST OR
       OPS_ROMDUMP OR OPS_CLOCK OR OPS_DELVAR OR OPS_VERSION OR OPS_OS OR FTS_SILENT OR FTS_MEMFREE OR FTS_FLASH OR
       FTS_CERT OR FTS_BACKUP,
     tb_product_id = PRODUCT_ID_TI84P,
     tb_counters = ['''', '''', '''', ''1P'', ''1L'', '''', ''2P'', ''2P'', ''2P1L'', ''1P1L'', ''2P1L'', ''1P1L'', ''2P1L'',
       ''2P1L'', ''2P'', ''1L'', ''2P'', ''2P'', '''', '''', ''1L'', ''1L'', '''', ''1L'', ''1L'', '''', '''', '''',
       ''''],
     tb_functions = [''is_ready'', ''send_key'', ''execute'', ''recv_screen'', ''get_dirlist'', ''get_memfree'', ''send_backup'',
       ''recv_backup'', ''send_var'', ''recv_var'', ''noop_send_var_ns'', ''noop_recv_var_ns'', ''send_flash'',
       ''recv_flash'', ''send_flash'', ''recv_idlist'', ''dump_rom_1'', ''dump_rom_2'', ''set_clock'',
       ''get_clock'', ''del_var'', ''noop_new_folder'', ''get_version'', ''send_cert'', ''recv_cert'',
       ''noop_rename_var'', ''noop_change_attr'', ''noop_send_all_vars_backup'', ''noop_recv_all_vars_backup'']\<rparr>"

definition calc_84pcse :: CalcTable where
  "calc_84pcse = \<lparr>tb_model = CALC_TI84PC, tb_name = ''TI84+CSE'', tb_fullname = ''TI-84 Plus Color Silver Edition'',
     tb_description = ''TI-84 Plus Color Silver Edition'',
     tb_features = OPS_ISREADY OR OPS_KEYS OR OPS_SCREEN OR OPS_DIRLIST OR OPS_BACKUP OR OPS_VARS OR OPS_FLASH OR OPS_IDLIST OR
       OPS_ROMDUMP OR OPS_CLOCK OR OPS_DELVAR OR OPS_VERSION OR OPS_OS OR FTS_SILENT OR FTS_MEMFREE OR FTS_FLASH OR
       FTS_CERT OR FTS_BACKUP,
     tb_product_id = PRODUCT_ID_TI84PCSE,
     tb_counters = ['''', '''', '''', ''1P'', ''1L'', '''', ''2P'', ''2P'', ''2P1L'', ''1P1L'', ''2P1L'', ''1P1L'', ''2P1L'',
       ''2P1L'', ''2P'', ''1L'', ''2P'', ''2P'', '''', '''', ''1L'', ''1L'', '''', ''1L'', ''1L'', '''', '''', '''',
       ''''],
     tb_functions = [''is_ready'', ''send_key'', ''execute'', ''recv_screen'', ''get_dirlist'', ''get_memfree'', ''send_backup'',
       ''recv_backup'', ''send_var'', ''recv_var'', ''noop_send_var_ns'', ''noop_recv_var_ns'', ''send_flash'',
       ''recv_flash'', ''send_flash'', ''recv_idlist'', ''dump_rom_1'', ''dump_rom_2'', ''set_clock'',
       ''get_clock'', ''del_var'', ''noop_new_folder'', ''get_version'', ''send_cert'', ''recv_cert'',
       ''noop_rename_var'', ''noop_change_attr'', ''noop_send_all_vars_backup'', ''noop_recv_all_vars_backup'']\<rparr>"

definition calc_80 :: CalcTable where
  "calc_80 = \<lparr>tb_model = CALC_TI80, tb_name = ''TI80'', tb_fullname = ''TI-80'',
     tb_description = ''TI-80 ViewScreen'',
     tb_features = OPS_SCREEN,
     tb_product_id = PRODUCT_ID_NONE,
     tb_counters = ['''', '''', '''', ''1P'', '''', '''', '''', '''', '''', '''', '''', '''', '''', '''', '''', '''', '''', '''',
       '''', '''', '''', '''', '''', '''', '''', '''', '''', '''', ''''],
     tb_functions = [''noop_is_ready'', ''noop_send_key'', ''noop_execute'', ''recv_screen_80'', ''noop_get_dirlist'',
       ''noop_get_memfree'', ''noop_send_backup'', ''noop_recv_backup'', ''noop_send_var'', ''noop_recv_var'',
       ''noop_send_var_ns'', ''noop_recv_var_ns'', ''noop_send_flash'', ''noop_recv_flash'', ''noop_send_flash'',
       ''noop_recv_idlist'', ''noop_dump_rom_1'', ''noop_dump_rom_2'', ''noop_set_clock'', ''noop_get_clock'',
       ''noop_del_var'', ''noop_new_folder'', ''noop_get_version'', ''noop_send_cert'', ''noop_recv_cert'',
       ''noop_rename_var'', ''noop_change_attr'', ''noop_send_all_vars_backup'', ''noop_recv_all_vars_backup'']\<rparr>"

definition calc_82 :: CalcTable where
  "calc_82 = \<lparr>tb_model = CALC_TI82, tb_name = ''TI82'', tb_fullname = ''TI-82'',
     tb_description = ''TI-82'',
     tb_features = OPS_SCREEN OR OPS_BACKUP OR OPS_VARS OR OPS_ROMDUMP OR FTS_BACKUP OR FTS_NONSILENT,
     tb_product_id = PRODUCT_ID_NONE,
     tb_counters = ['''', '''', '''', ''1P'', '''', '''', ''2P1L'', ''2P1L'', '''', '''', ''2P1L'', ''1P1L'', '''', '''', '''',
       '''', ''2P'', ''2P'', '''', '''', '''', '''', '''', '''', '''', '''', '''', '''', ''''],
     tb_functions = [''noop_is_ready'', ''noop_send_key'', ''noop_execute'', ''recv_screen'', ''noop_get_dirlist'',
       ''get_memfree'', ''send_backup'', ''recv_backup'', ''send_var_8285'', ''noop_recv_var'', ''send_var_ns'',
       ''recv_var_ns'', ''noop_send_flash'', ''noop_recv_flash'', ''noop_send_os'', ''noop_recv_idlist'',
       ''dump_rom_1'', ''dump_rom_2'', ''noop_set_clock'', ''noop_get_clock'', ''noop_del_var'',
       ''noop_new_folder'', ''noop_get_version'', ''noop_send_cert'', ''noop_recv_cert'', ''noop_rename_var'',
       ''noop_change_attr'', ''noop_send_all_vars_backup'', ''noop_recv_all_vars_backup'']\<rparr>"

definition calc_83 :: CalcTable where
  "calc_83 = \<lparr>tb_model = CALC_TI83, tb_name = ''TI83'', tb_fullname = ''TI-83'',
     tb_description = ''TI-83'',
     tb_features = OPS_KEYS OR OPS_SCREEN OR OPS_DIRLIST OR OPS_BACKUP OR OPS_VARS OR OPS_ROMDUMP OR OPS_DELVAR OR FTS_SILENT OR
       FTS_MEMFREE OR FTS_BACKUP,
     tb_product_id = PRODUCT_ID_NONE,
     tb_counters = ['''', '''', '''', ''1P'', ''1L'', '''', ''2P'', ''2P'', ''2P1L'', ''1P1L'', ''2P1L'', ''1P1L'', '''', '''',
       '''', '''', ''2P'', ''2P'', '''', '''', ''1L'', '''', '''', '''', '''', '''', '''', '''', ''''],
     tb_functions = [''noop_is_ready'', ''send_key'', ''execute'', ''recv_screen'', ''get_dirlist'', ''get_memfree'',
       ''send_backup'', ''recv_backup'', ''send_var_8386'', ''recv_var'', ''noop_send_var_ns'',
       ''noop_recv_var_ns'', ''noop_send_flash'', ''noop_recv_flash'', ''noop_send_os'', ''noop_recv_idlist'',
       ''dump_rom_1'', ''dump_rom_2'', ''noop_set_clock'', ''noop_get_clock'', ''del_var'', ''noop_new_folder'',
       ''noop_get_version'', ''noop_send_cert'', ''noop_recv_cert'', ''noop_rename_var'', ''noop_change_attr'',
       ''noop_send_all_vars_backup'', ''noop_recv_all_vars_backup'']\<rparr>"

definition calc_85 :: CalcTable where
  "calc_85 = \<lparr>tb_model = CALC_TI85, tb_name = ''TI85'', tb_fullname = ''TI-85'',
     tb_description = ''TI-85'',
     tb_features = OPS_SCREEN OR OPS_BACKUP OR OPS_VARS OR OPS_ROMDUMP OR FTS_BACKUP OR FTS_NONSILENT,
     tb_product_id = PRODUCT_ID_NONE,
     tb_counters = ['''', '''', '''', ''1P'', '''', '''', ''2P1L'', ''2P1L'', '''', '''', ''2P1L'', ''1P1L'', '''', '''', '''',
       '''', ''2P'', ''2P'', '''', '''', '''', '''', '''', '''', '''', '''', '''', '''', ''''],
     tb_functions = [''noop_is_ready'', ''noop_send_key'', ''noop_execute'', ''recv_screen'', ''noop_get_dirlist'',
       ''get_memfree'', ''send_backup'', ''recv_backup'', ''send_var_8285'', ''noop_recv_var'', ''send_var_ns'',
       ''recv_var_ns'', ''noop_send_flash'', ''noop_recv_flash'', ''noop_send_os'', ''noop_recv_idlist'',
       ''dump_rom_1'', ''dump_rom_2'', ''noop_set_clock'', ''noop_get_clock'', ''noop_del_var'',
       ''noop_new_folder'', ''noop_get_version'', ''noop_send_cert'', ''noop_recv_cert'', ''noop_rename_var'',
       ''noop_change_attr'', ''noop_send_all_vars_backup'', ''noop_recv_all_vars_backup'']\<rparr>"

definition calc_86 :: CalcTable where
  "calc_86 = \<lparr>tb_model = CALC_TI86, tb_name = ''TI86'', tb_fullname = ''TI-86'',
     tb_description = ''TI-86'',
     tb_features = OPS_KEYS OR OPS_SCREEN OR OPS_DIRLIST OR OPS_BACKUP OR OPS_VARS OR OPS_ROMDUMP OR FTS_SILENT OR
       FTS_MEMFREE OR FTS_BACKUP,
     tb_product_id = PRODUCT_ID_NONE,
     tb_counters = ['''', '''', '''', ''1P'', ''1L'', '''', ''2P1L'', ''2P1L'', ''2P1L'', ''1P1L'', ''2P1L'', ''1P1L'', '''',
       '''', '''', '''', ''2P'', ''2P'', '''', '''', '''', '''', '''', '''', '''', '''', '''', '''', ''''],
     tb_functions = [''noop_is_ready'', ''send_key'', ''noop_execute'', ''recv_screen'', ''get_dirlist'', ''get_memfree'',
       ''send_backup'', ''recv_backup'', ''send_var_8386'', ''recv_var'', ''noop_send_var_ns'',
       ''noop_recv_var_ns'', ''noop_send_flash'', ''noop_recv_flash'', ''noop_send_os'', ''noop_recv_idlist'',
       ''dump_rom_1'', ''dump_rom_2'', ''noop_set_clock'', ''noop_get_clock'', ''noop_del_var'',
       ''noop_new_folder'', ''noop_get_version'', ''noop_send_cert'', ''noop_recv_cert'', ''noop_rename_var'',
       ''noop_change_attr'', ''noop_send_all_vars_backup'', ''noop_recv_all_vars_backup'']\<rparr>"

definition calc_84p_usb :: CalcTable where
  "calc_84p_usb = \<lparr>tb_model = CALC_TI84P_USB, tb_name = ''TI84+'', tb_fullname = ''TI-84 Plus'',
     tb_description = ''TI-84 Plus thru DirectLink'',
     tb_features = OPS_ISREADY OR OPS_SCREEN OR OPS_DIRLIST OR OPS_VARS OR OPS_FLASH OR OPS_OS OR OPS_IDLIST OR OPS_ROMDUMP OR
       OPS_CLOCK OR OPS_DELVAR OR OPS_VERSION OR OPS_BACKUP OR OPS_KEYS OR OPS_RENAME OR OPS_CHATTR OR FTS_SILENT OR
       FTS_MEMFREE OR FTS_FLASH,
     tb_product_id = PRODUCT_ID_TI84P,
     tb_counters = ['''', '''', '''', ''1P'', ''1L'', '''', ''1P'', '''', ''2P1L'', ''1P1L'', '''', '''', ''2P1L'', ''2P1L'',
       ''2P'', ''1L'', ''2P'', ''2P'', '''', '''', ''1L'', ''1L'', '''', ''1L'', ''1L'', '''', '''', ''2P'', ''2P''],
     tb_functions = [''is_ready'', ''send_key'', ''execute'', ''recv_screen'', ''get_dirlist'', ''get_memfree'', ''send_backup'',
       ''noop_recv_backup'', ''send_var'', ''recv_var'', ''noop_send_var_ns'', ''noop_recv_var_ns'', ''send_flash'',
       ''recv_flash'', ''send_os'', ''recv_idlist'', ''dump_rom_1'', ''dump_rom_2'', ''set_clock'', ''get_clock'',
       ''del_var'', ''noop_new_folder'', ''get_version'', ''noop_send_cert'', ''noop_recv_cert'', ''rename_var'',
       ''change_attr'', ''send_all_vars_backup'', ''tixx_recv_all_vars_backup'']\<rparr>"

definition calc_84pcse_usb :: CalcTable where
  "calc_84pcse_usb = \<lparr>tb_model = CALC_TI84PC_USB, tb_name = ''TI84+CSE'', tb_fullname = ''TI-84 Plus C Silver Edition'',
     tb_description = ''TI-84 Plus C Silver Edition thru DirectLink'',
     tb_features = OPS_ISREADY OR OPS_SCREEN OR OPS_DIRLIST OR OPS_VARS OR OPS_FLASH OR OPS_OS OR OPS_IDLIST OR OPS_ROMDUMP OR
       OPS_CLOCK OR OPS_DELVAR OR OPS_VERSION OR OPS_BACKUP OR OPS_KEYS OR OPS_RENAME OR OPS_CHATTR OR FTS_SILENT OR
       FTS_MEMFREE OR FTS_FLASH,
     tb_product_id = PRODUCT_ID_TI84PCSE,
     tb_counters = ['''', '''', '''', ''1P'', ''1L'', '''', ''1P'', '''', ''2P1L'', ''1P1L'', '''', '''', ''2P1L'', ''2P1L'',
       ''2P'', ''1L'', ''2P'', ''2P'', '''', '''', ''1L'', ''1L'', '''', ''1L'', ''1L'', '''', '''', ''2P'', ''2P''],
     tb_functions = [''is_ready'', ''send_key'', ''execute'', ''recv_screen'', ''get_dirlist'', ''get_memfree'', ''send_backup'',
       ''noop_recv_backup'', ''send_var'', ''recv_var'', ''noop_send_var_ns'', ''noop_recv_var_ns'', ''send_flash'',
       ''recv_flash'', ''send_os'', ''recv_idlist'', ''dump_rom_1'', ''dump_rom_2'', ''set_clock'', ''get_clock'',
       ''del_var'', ''noop_new_folder'', ''get_version'', ''noop_send_cert'', ''noop_recv_cert'', ''rename_var'',
       ''change_attr'', ''send_all_vars_backup'', ''tixx_recv_all_vars_backup'']\<rparr>"

definition calc_83pce_usb :: CalcTable where
  "calc_83pce_usb = \<lparr>tb_model = CALC_TI83PCE_USB, tb_name = ''TI83PCE'', tb_fullname = ''TI-83 Premium CE'',
     tb_description = ''TI-83 Premium CE thru DirectLink'',
     tb_features = OPS_ISREADY OR OPS_SCREEN OR OPS_DIRLIST OR OPS_VARS OR OPS_FLASH OR OPS_OS OR OPS_ROMDUMP OR OPS_CLOCK OR
       OPS_DELVAR OR OPS_VERSION OR OPS_BACKUP OR OPS_KEYS OR OPS_RENAME OR OPS_CHATTR OR FTS_SILENT OR
       FTS_MEMFREE OR FTS_FLASH,
     tb_product_id = PRODUCT_ID_TI83PCE,
     tb_counters = ['''', '''', '''', ''1P'', ''1L'', '''', '''', '''', ''2P1L'', ''1P1L'', '''', '''', ''2P1L'', ''2P1L'',
       ''2P'', ''1L'', ''2P'', ''2P'', '''', '''', ''1L'', ''1L'', '''', ''1L'', ''1L'', '''', '''', ''2P'', ''2P''],
     tb_functions = [''is_ready'', ''send_key'', ''execute'', ''recv_screen'', ''get_dirlist'', ''get_memfree'',
       ''noop_send_backup'', ''noop_recv_backup'', ''send_var'', ''recv_var'', ''noop_send_var_ns'',
       ''noop_recv_var_ns'', ''send_flash_834pce'', ''recv_flash_834pce'', ''send_os_834pce'', ''recv_idlist'',
       ''dump_rom_1'', ''dump_rom_2'', ''set_clock'', ''get_clock'', ''del_var'', ''noop_new_folder'',
       ''get_version'', ''noop_send_cert'', ''noop_recv_cert'', ''rename_var'', ''change_attr'',
       ''send_all_vars_backup'', ''tixx_recv_all_vars_backup'']\<rparr>"

definition calc_84pce_usb :: CalcTable where
  "calc_84pce_usb = \<lparr>tb_model = CALC_TI84PCE_USB, tb_name = ''TI84+CE'', tb_fullname = ''TI-84 Plus CE'',
     tb_description = ''TI-84 Plus CE thru DirectLink'',
     tb_features = OPS_ISREADY OR OPS_SCREEN OR OPS_DIRLIST OR OPS_VARS OR OPS_FLASH OR OPS_OS OR OPS_ROMDUMP OR OPS_CLOCK OR
       OPS_DELVAR OR OPS_VERSION OR OPS_BACKUP OR OPS_KEYS OR OPS_RENAME OR OPS_CHATTR OR FTS_SILENT OR
       FTS_MEMFREE OR FTS_FLASH,
     tb_product_id = PRODUCT_ID_TI84PCE,
     tb_counters = ['''', '''', '''', ''1P'', ''1L'', '''', '''', '''', ''2P1L'', ''1P1L'', '''', '''', ''2P1L'', ''2P1L'',
       ''2P'', ''1L'', ''2P'', ''2P'', '''', '''', ''1L'', ''1L'', '''', ''1L'', ''1L'', '''', '''', ''2P'', ''2P''],
     tb_functions = [''is_ready'', ''send_key'', ''execute'', ''recv_screen'', ''get_dirlist'', ''get_memfree'',
       ''noop_send_backup'', ''noop_recv_backup'', ''send_var'', ''recv_var'', ''noop_send_var_ns'',
       ''noop_recv_var_ns'', ''send_flash_834pce'', ''recv_flash_834pce'', ''send_os_834pce'', ''recv_idlist'',
       ''dump_rom_1'', ''dump_rom_2'', ''set_clock'', ''get_clock'', ''del_var'', ''noop_new_folder'',
       ''get_version'', ''noop_send_cert'', ''noop_recv_cert'', ''rename_var'', ''change_attr'',
       ''send_all_vars_backup'', ''tixx_recv_all_vars_backup'']\<rparr>"

definition calc_82a_usb :: CalcTable where
  "calc_82a_usb = \<lparr>tb_model = CALC_TI82A_USB, tb_name = ''TI82A'', tb_fullname = ''TI-82 Advanced'',
     tb_description = ''TI-82 Advanced thru DirectLink'',
     tb_features = OPS_ISREADY OR OPS_SCREEN OR OPS_DIRLIST OR OPS_VARS OR OPS_OS OR OPS_IDLIST OR OPS_CLOCK OR OPS_DELVAR OR
       OPS_VERSION OR OPS_BACKUP OR OPS_KEYS OR OPS_RENAME OR OPS_CHATTR OR FTS_SILENT OR FTS_MEMFREE OR FTS_FLASH,
     tb_product_id = PRODUCT_ID_TI82A,
     tb_counters = ['''', '''', '''', ''1P'', ''1L'', '''', ''1P'', '''', ''2P1L'', ''1P1L'', '''', '''', ''2P1L'', ''2P1L'',
       ''2P'', ''1L'', ''2P'', ''2P'', '''', '''', ''1L'', ''1L'', '''', ''1L'', ''1L'', '''', '''', ''2P'', ''2P''],
     tb_functions = [''is_ready'', ''send_key'', ''execute'', ''recv_screen'', ''get_dirlist'', ''get_memfree'', ''send_backup'',
       ''noop_recv_backup'', ''send_var'', ''recv_var'', ''noop_send_var_ns'', ''noop_recv_var_ns'', ''send_flash'',
       ''recv_flash'', ''send_os'', ''recv_idlist'', ''dump_rom_1'', ''dump_rom_2'', ''set_clock'', ''get_clock'',
       ''del_var'', ''noop_new_folder'', ''get_version'', ''noop_send_cert'', ''noop_recv_cert'', ''rename_var'',
       ''change_attr'', ''send_all_vars_backup'', ''tixx_recv_all_vars_backup'']\<rparr>"

definition calc_84pt_usb :: CalcTable where
  "calc_84pt_usb = \<lparr>tb_model = CALC_TI84PT_USB, tb_name = ''TI84PT'', tb_fullname = ''TI-84 Plus T'',
     tb_description = ''TI-84 Plus T thru DirectLink'',
     tb_features = OPS_ISREADY OR OPS_SCREEN OR OPS_DIRLIST OR OPS_VARS OR OPS_OS OR OPS_IDLIST OR OPS_CLOCK OR OPS_DELVAR OR
       OPS_VERSION OR OPS_BACKUP OR OPS_KEYS OR OPS_RENAME OR OPS_CHATTR OR FTS_SILENT OR FTS_MEMFREE OR FTS_FLASH,
     tb_product_id = PRODUCT_ID_TI84PT,
     tb_counters = ['''', '''', '''', ''1P'', ''1L'', '''', ''1P'', '''', ''2P1L'', ''1P1L'', '''', '''', ''2P1L'', ''2P1L'',
       ''2P'', ''1L'', ''2P'', ''2P'', '''', '''', ''1L'', ''1L'', '''', ''1L'', ''1L'', '''', '''', ''2P'', ''2P''],
     tb_functions = [''is_ready'', ''send_key'', ''execute'', ''recv_screen'', ''get_dirlist'', ''get_memfree'', ''send_backup'',
       ''noop_recv_backup'', ''send_var'', ''recv_var'', ''noop_send_var_ns'', ''noop_recv_var_ns'', ''send_flash'',
       ''recv_flash'', ''send_os'', ''recv_idlist'', ''dump_rom_1'', ''dump_rom_2'', ''set_clock'', ''get_clock'',
       ''del_var'', ''noop_new_folder'', ''get_version'', ''noop_send_cert'', ''noop_recv_cert'', ''rename_var'',
       ''change_attr'', ''send_all_vars_backup'', ''tixx_recv_all_vars_backup'']\<rparr>"

definition calc_89t_usb :: CalcTable where
  "calc_89t_usb = \<lparr>tb_model = CALC_TI89T_USB, tb_name = ''Titanium'', tb_fullname = ''TI-89 Titanium'',
     tb_description = ''TI-89 Titanium thru DirectLink'',
     tb_features = OPS_ISREADY OR OPS_SCREEN OR OPS_DIRLIST OR OPS_VARS OR OPS_FLASH OR OPS_OS OR OPS_ROMDUMP OR OPS_IDLIST OR
       OPS_CLOCK OR OPS_DELVAR OR OPS_NEWFLD OR OPS_VERSION OR OPS_BACKUP OR OPS_KEYS OR OPS_RENAME OR OPS_CHATTR OR
       FTS_SILENT OR FTS_MEMFREE OR FTS_FLASH OR FTS_FOLDER,
     tb_product_id = PRODUCT_ID_TI89T,
     tb_counters = ['''', '''', '''', ''1P'', ''1L'', '''', ''2P1L'', ''2P1L'', ''2P1L'', ''1P1L'', ''2P1L'', ''1P1L'', ''2P1L'',
       ''2P1L'', ''2P'', ''1L'', ''2P'', ''2P'', '''', '''', ''1L'', ''1L'', '''', ''1L'', ''1L'', '''', '''',
       ''2P1L'', ''2P1L''],
     tb_functions = [''is_ready'', ''send_key'', ''execute'', ''recv_screen'', ''get_dirlist'', ''get_memfree'',
       ''noop_send_backup'', ''noop_recv_backup'', ''send_var'', ''recv_var'', ''noop_send_var_ns'',
       ''noop_recv_var_ns'', ''send_flash'', ''recv_flash'', ''send_os'', ''recv_idlist'', ''dump_rom_1'',
       ''dump_rom_2'', ''set_clock'', ''get_clock'', ''del_var'', ''new_folder'', ''get_version'',
       ''noop_send_cert'', ''noop_recv_cert'', ''rename_var'', ''change_attr'', ''send_all_vars_backup'',
       ''tixx_recv_all_vars_backup'']\<rparr>"

definition calc_89 :: CalcTable where
  "calc_89 = \<lparr>tb_model = CALC_TI89, tb_name = ''TI89'', tb_fullname = ''TI-89'',
     tb_description = ''TI-89'',
     tb_features = OPS_ISREADY OR OPS_KEYS OR OPS_SCREEN OR OPS_DIRLIST OR OPS_BACKUP OR OPS_VARS OR OPS_FLASH OR OPS_IDLIST OR
       OPS_CLOCK OR OPS_ROMDUMP OR OPS_DELVAR OR OPS_NEWFLD OR OPS_VERSION OR FTS_SILENT OR FTS_FOLDER OR
       FTS_FLASH OR FTS_CERT OR FTS_NONSILENT,
     tb_product_id = PRODUCT_ID_TI89,
     tb_counters = ['''', '''', '''', ''1P'', ''1L'', '''', '''', '''', ''2P1L'', ''1P1L'', ''2P1L'', ''1P1L'', ''2P1L'',
       ''2P1L'', ''2P'', ''1L'', ''2P'', ''2P'', '''', '''', ''1L'', ''1L'', '''', ''1L'', ''1L'', '''', '''',
       ''2P1L'', ''2P1L''],
     tb_functions = [''is_ready'', ''send_key'', ''execute'', ''recv_screen'', ''get_dirlist'', ''get_memfree'',
       ''noop_send_backup'', ''noop_recv_backup'', ''send_var'', ''recv_var'', ''send_var_ns'', ''recv_var_ns'',
       ''send_flash'', ''recv_flash'', ''send_flash'', ''recv_idlist'', ''dump_rom_1'', ''dump_rom_2'',
       ''set_clock'', ''get_clock'', ''del_var'', ''new_folder'', ''get_version'', ''send_cert'', ''recv_cert'',
       ''noop_rename_var'', ''noop_change_attr'', ''send_all_vars_backup'', ''tixx_recv_all_vars_backup'']\<rparr>"

definition calc_92p :: CalcTable where
  "calc_92p = \<lparr>tb_model = CALC_TI92P, tb_name = ''TI92+'', tb_fullname = ''TI-92 Plus'',
     tb_description = ''TI-92 Plus'',
     tb_features = OPS_ISREADY OR OPS_KEYS OR OPS_SCREEN OR OPS_DIRLIST OR OPS_BACKUP OR OPS_VARS OR OPS_FLASH OR OPS_IDLIST OR
       OPS_CLOCK OR OPS_ROMDUMP OR OPS_DELVAR OR OPS_NEWFLD OR OPS_VERSION OR OPS_OS OR FTS_SILENT OR FTS_FOLDER OR
       FTS_FLASH OR FTS_CERT OR FTS_NONSILENT,
     tb_product_id = PRODUCT_ID_TI92P,
     tb_counters = ['''', '''', '''', ''1P'', ''1L'', '''', '''', '''', ''2P1L'', ''1P1L'', ''2P1L'', ''1P1L'', ''2P1L'',
       ''2P1L'', ''2P'', ''1L'', ''2P'', ''2P'', '''', '''', ''1L'', ''1L'', '''', ''1L'', ''1L'', '''', '''',
       ''2P1L'', ''2P1L''],
     tb_functions = [''is_ready'', ''send_key'', ''execute'', ''recv_screen'', ''get_dirlist'', ''get_memfree'',
       ''noop_send_backup'', ''noop_recv_backup'', ''send_var'', ''recv_var'', ''send_var_ns'', ''recv_var_ns'',
       ''send_flash'', ''recv_flash'', ''send_flash'', ''recv_idlist'', ''dump_rom_1'', ''dump_rom_2'',
       ''set_clock'', ''get_clock'', ''del_var'', ''new_folder'', ''get_version'', ''send_cert'', ''recv_cert'',
       ''noop_rename_var'', ''noop_change_attr'', ''send_all_vars_backup'', ''tixx_recv_all_vars_backup'']\<rparr>"

definition calc_89t :: CalcTable where
  "calc_89t = \<lparr>tb_model = CALC_TI89T, tb_name = ''Titanium'', tb_fullname = ''TI-89 Titanium'',
     tb_description = ''TI-89 Titanium'',
     tb_features = OPS_ISREADY OR OPS_KEYS OR OPS_SCREEN OR OPS_DIRLIST OR OPS_BACKUP OR OPS_VARS OR OPS_FLASH OR OPS_IDLIST OR
       OPS_CLOCK OR OPS_ROMDUMP OR OPS_DELVAR OR OPS_NEWFLD OR OPS_VERSION OR OPS_OS OR FTS_SILENT OR FTS_FOLDER OR
       FTS_FLASH OR FTS_CERT OR FTS_NONSILENT,
     tb_product_id = PRODUCT_ID_TI89T,
     tb_counters = ['''', '''', '''', ''1P'', ''1L'', '''', '''', '''', ''2P1L'', ''1P1L'', ''2P1L'', ''1P1L'', ''2P1L'',
       ''2P1L'', ''2P'', ''1L'', ''2P'', ''2P'', '''', '''', ''1L'', ''1L'', '''', ''1L'', ''1L'', '''', '''',
       ''2P1L'', ''2P1L''],
     tb_functions = [''is_ready'', ''send_key'', ''execute'', ''recv_screen'', ''get_dirlist'', ''get_memfree'',
       ''noop_send_backup'', ''noop_recv_backup'', ''send_var'', ''recv_var'', ''send_var_ns'', ''recv_var_ns'',
       ''send_flash'', ''recv_flash'', ''send_flash'', ''recv_idlist'', ''dump_rom_1'', ''dump_rom_2'',
       ''set_clock'', ''get_clock'', ''del_var'', ''new_folder'', ''get_version'', ''send_cert'', ''recv_cert'',
       ''noop_rename_var'', ''noop_change_attr'', ''send_all_vars_backup'', ''tixx_recv_all_vars_backup'']\<rparr>"

definition calc_v2 :: CalcTable where
  "calc_v2 = \<lparr>tb_model = CALC_V200, tb_name = ''V200'', tb_fullname = ''V200PLT'',
     tb_description = ''V200 Personal Learning Tool'',
     tb_features = OPS_ISREADY OR OPS_KEYS OR OPS_SCREEN OR OPS_DIRLIST OR OPS_BACKUP OR OPS_VARS OR OPS_FLASH OR OPS_IDLIST OR
       OPS_CLOCK OR OPS_ROMDUMP OR OPS_DELVAR OR OPS_NEWFLD OR OPS_VERSION OR OPS_OS OR FTS_SILENT OR FTS_FOLDER OR
       FTS_FLASH OR FTS_CERT OR FTS_NONSILENT,
     tb_product_id = PRODUCT_ID_TIV200,
     tb_counters = ['''', '''', '''', ''1P'', ''1L'', '''', '''', '''', ''2P1L'', ''1P1L'', ''2P1L'', ''1P1L'', ''2P1L'',
       ''2P1L'', ''2P'', ''1L'', ''2P'', ''2P'', '''', '''', ''1L'', ''1L'', '''', ''1L'', ''1L'', '''', '''',
       ''2P1L'', ''2P1L''],
     tb_functions = [''is_ready'', ''send_key'', ''execute'', ''recv_screen'', ''get_dirlist'', ''get_memfree'',
       ''noop_send_backup'', ''noop_recv_backup'', ''send_var'', ''recv_var'', ''send_var_ns'', ''recv_var_ns'',
       ''send_flash'', ''recv_flash'', ''send_flash'', ''recv_idlist'', ''dump_rom_1'', ''dump_rom_2'',
       ''set_clock'', ''get_clock'', ''del_var'', ''new_folder'', ''get_version'', ''send_cert'', ''recv_cert'',
       ''noop_rename_var'', ''noop_change_attr'', ''send_all_vars_backup'', ''tixx_recv_all_vars_backup'']\<rparr>"

definition calc_92 :: CalcTable where
  "calc_92 = \<lparr>tb_model = CALC_TI92, tb_name = ''TI92'', tb_fullname = ''TI-92'',
     tb_description = ''TI-92'',
     tb_features = OPS_ISREADY OR OPS_KEYS OR OPS_SCREEN OR OPS_DIRLIST OR OPS_BACKUP OR OPS_VARS OR OPS_ROMDUMP OR
       OPS_DELVAR OR OPS_NEWFLD OR OPS_VERSION OR FTS_SILENT OR FTS_FOLDER OR FTS_BACKUP OR FTS_NONSILENT,
     tb_product_id = PRODUCT_ID_NONE,
     tb_counters = ['''', '''', '''', ''1P'', ''1L'', '''', ''2P'', ''1P1L'', ''2P1L'', ''1P1L'', ''2P1L'', ''1P1L'', '''', '''',
       '''', '''', ''2P'', ''2P'', '''', '''', ''1L'', ''1L'', '''', '''', '''', '''', '''', '''', ''''],
     tb_functions = [''is_ready'', ''send_key'', ''execute'', ''recv_screen'', ''get_dirlist_92'', ''get_memfree'',
       ''send_backup'', ''recv_backup'', ''send_var_ns'', ''recv_var'', ''send_var_ns'', ''recv_var_ns'',
       ''noop_send_flash'', ''noop_recv_flash'', ''noop_send_os'', ''noop_recv_idlist'', ''dump_rom_1'',
       ''dump_rom_2'', ''noop_set_clock'', ''noop_get_clock'', ''del_var_92'', ''new_folder'', ''get_version_92'',
       ''noop_send_cert'', ''noop_recv_cert'', ''noop_rename_var'', ''noop_change_attr'',
       ''noop_send_all_vars_backup'', ''noop_recv_all_vars_backup'']\<rparr>"

definition calc_nsp :: CalcTable where
  "calc_nsp = \<lparr>tb_model = CALC_NSPIRE, tb_name = ''Nspire'', tb_fullname = ''Nspire handheld'',
     tb_description = ''Nspire thru DirectLink'',
     tb_features = OPS_ISREADY OR OPS_VERSION OR OPS_SCREEN OR OPS_IDLIST OR OPS_DIRLIST OR OPS_VARS OR OPS_OS OR OPS_ROMDUMP OR
       OPS_NEWFLD OR OPS_DELVAR OR OPS_RENAME OR FTS_SILENT OR FTS_MEMFREE OR FTS_FOLDER,
     tb_product_id = PRODUCT_ID_NSPIRE_CAS,
     tb_counters = ['''', '''', '''', ''1P'', ''1L'', '''', '''', '''', ''2P1L'', ''1P1L'', ''2P1L'', ''1P1L'', ''2P1L'',
       ''2P1L'', ''2P'', ''1L'', ''2P'', ''2P'', '''', '''', ''1L'', ''1L'', '''', ''1L'', ''1L'', '''', '''',
       ''2P1L'', ''2P1L''],
     tb_functions = [''is_ready'', ''send_key'', ''noop_execute'', ''recv_screen'', ''get_dirlist'', ''get_memfree'',
       ''noop_send_backup'', ''noop_recv_backup'', ''send_var'', ''recv_var'', ''noop_send_var_ns'',
       ''noop_recv_var_ns'', ''noop_send_flash'', ''noop_recv_flash'', ''send_os'', ''recv_idlist'', ''dump_rom_1'',
       ''dump_rom_2'', ''noop_set_clock'', ''noop_get_clock'', ''del_var'', ''new_folder'', ''get_version'',
       ''noop_send_cert'', ''noop_recv_cert'', ''rename_var'', ''noop_change_attr'', ''noop_send_all_vars_backup'',
       ''tixx_recv_all_vars_backup'']\<rparr>"

definition calcs :: "CalcTable list" where
  "calcs = [calc_00, calc_73, calc_82, calc_83, calc_83p, calc_84p, calc_85, calc_86, calc_89, calc_89t, calc_92,
     calc_92p, calc_v2, calc_84p_usb, calc_89t_usb, calc_nsp, calc_80, calc_84pcse, calc_84pcse_usb,
     calc_83pce_usb, calc_84pce_usb, calc_82a_usb, calc_84pt_usb]"

lemmas table_defs = calc_00_def calc_73_def calc_82_def calc_83_def calc_83p_def calc_84p_def calc_85_def calc_86_def calc_89_def
    calc_89t_def calc_92_def calc_92p_def calc_v2_def calc_84p_usb_def calc_89t_usb_def calc_nsp_def calc_80_def
    calc_84pcse_def calc_84pcse_usb_def calc_83pce_usb_def calc_84pce_usb_def calc_82a_usb_def calc_84pt_usb_def

section \<open>A new handle\<close>

definition find_table :: "CalcModel \<Rightarrow> CalcTable option" where
  "find_table m = find (\<lambda>t. tb_model t = m) calcs"

text \<open>
  The handle of a model: not attached, not in use, with the table and two buffers of 65542 bytes, which hold
  whatever the memory held.  GLib does not fail to allocate.
\<close>

definition ticalcs_handle_new :: "CalcModel \<Rightarrow> bytes \<Rightarrow> bytes \<Rightarrow> (link \<times> CalcTable) option" where
  "ticalcs_handle_new m buffer buffer2 =
     map_option (\<lambda>t. (\<lparr>no_handle = False, is_attached = False, is_open = False, link_model = m, link_cable = CABLE_NUL,
       pkt_buffer = Some buffer, pkt_buffer2 = buffer2, in_use = False, blk_size = 0, min_size = 0, max1 = 0, cnt1 = 0,
       max2 = 0, cnt2 = 0, send_refs = 0, recv_refs = 0, rpkt_maxlen = 0, history = []\<rparr>, t)) (find_table m)"

text \<open>Which models speak which protocol, and which take applications.\<close>

definition ticalcs_model_supports_dbus :: "CalcModel \<Rightarrow> bool" where
  "ticalcs_model_supports_dbus = ticonv_model_has_legacy_ioport"

definition ticalcs_model_supports_dusb :: "CalcModel \<Rightarrow> bool" where
  "ticalcs_model_supports_dusb m \<longleftrightarrow> m \<in> {CALC_TI84P_USB, CALC_TI89T_USB, CALC_TI84PC_USB, CALC_TI83PCE_USB,
     CALC_TI84PCE_USB, CALC_TI82A_USB, CALC_TI84PT_USB}"

definition ticalcs_model_supports_nsp :: "CalcModel \<Rightarrow> bool" where
  "ticalcs_model_supports_nsp m \<longleftrightarrow> m = CALC_NSPIRE"

definition ticalcs_model_supports_installing_flashapps :: "CalcModel \<Rightarrow> bool" where
  "ticalcs_model_supports_installing_flashapps m \<longleftrightarrow> ticonv_model_has_flash_memory m
     \<and> m \<notin> {CALC_NSPIRE, CALC_TI82A_USB, CALC_TI84PT_USB}"

text \<open>Every model has a handle of its own, and a calculator speaks exactly one of the protocols.\<close>

lemma find_table_model: "\<exists>t. find_table m = Some t \<and> tb_model t = m"
  by (cases m) (simp_all add: find_table_def calcs_def table_defs)

lemma one_protocol:
  "m \<noteq> CALC_NONE \<Longrightarrow>
    length (filter (\<lambda>p. p m) [ticalcs_model_supports_dbus, ticalcs_model_supports_dusb, ticalcs_model_supports_nsp]) = 1"
  by (cases m) (simp_all add: ticalcs_model_supports_dbus_def ticonv_model_has_legacy_ioport_def ticalcs_model_supports_dusb_def
      ticalcs_model_supports_nsp_def)

text \<open>A new handle with a cable that opens accepts operations.\<close>

lemma new_handle_accepts:
  assumes "transparent (event_hook env)" "ticalcs_handle_new m buffer buffer2 = Some (h, t)"
  shows "at_rest (snd (run_state (ticalcs_cable_attach env 0) h))" "link_model h = m" "tb_model t = m" "open_link h"
proof -
  have h: "\<not> no_handle h" "\<not> in_use h" "link_model h = m" "pkt_buffer h \<noteq> None" "find_table m = Some t"
    using assms(2) by (auto simp: ticalcs_handle_new_def)
  show "at_rest (snd (run_state (ticalcs_cable_attach env 0) h))" by (rule attach_opens(2) [OF assms(1) h(1,2)])
  show "link_model h = m" "open_link h" using h by (simp_all add: open_link_def)
  show "tb_model t = m" using find_table_model [of m] h(5) by simp
qed

section \<open>What the features promise\<close>

definition fncts :: "CalcFnctsIdx list" where
  "fncts = [FNCT_IS_READY, FNCT_SEND_KEY, FNCT_EXECUTE, FNCT_RECV_SCREEN, FNCT_GET_DIRLIST, FNCT_GET_MEMFREE,
     FNCT_SEND_BACKUP, FNCT_RECV_BACKUP, FNCT_SEND_VAR, FNCT_RECV_VAR, FNCT_SEND_VAR_NS, FNCT_RECV_VAR_NS,
     FNCT_SEND_APP, FNCT_RECV_APP, FNCT_SEND_OS, FNCT_RECV_IDLIST, FNCT_DUMP_ROM1, FNCT_DUMP_ROM2,
     FNCT_SET_CLOCK, FNCT_GET_CLOCK, FNCT_DEL_VAR, FNCT_NEW_FOLDER, FNCT_GET_VERSION, FNCT_SEND_CERT, FNCT_RECV_CERT,
     FNCT_RENAME, FNCT_CHATTR, FNCT_SEND_ALL_VARS_BACKUP, FNCT_RECV_ALL_VARS_BACKUP]"

definition performs :: "CalcTable \<Rightarrow> CalcFnctsIdx \<Rightarrow> bool" where
  "performs t f \<longleftrightarrow> (case map_of (zip fncts (tb_functions t)) f of None \<Rightarrow> False | Some s \<Rightarrow> take 5 s \<noteq> ''noop_'')"

definition has_feature :: "CalcTable \<Rightarrow> u32 \<Rightarrow> bool" where
  "has_feature t f \<longleftrightarrow> tb_features t AND f \<noteq> 0"

definition promised :: "(u32 \<times> CalcFnctsIdx list) list" where
  "promised = [(OPS_ISREADY, [FNCT_IS_READY]), (OPS_KEYS, [FNCT_SEND_KEY]), (OPS_SCREEN, [FNCT_RECV_SCREEN]),
     (OPS_DIRLIST, [FNCT_GET_DIRLIST]), (OPS_FLASH, [FNCT_SEND_APP, FNCT_RECV_APP]), (OPS_IDLIST, [FNCT_RECV_IDLIST]),
     (OPS_CLOCK, [FNCT_SET_CLOCK, FNCT_GET_CLOCK]), (OPS_ROMDUMP, [FNCT_DUMP_ROM1, FNCT_DUMP_ROM2]),
     (OPS_VERSION, [FNCT_GET_VERSION]), (OPS_NEWFLD, [FNCT_NEW_FOLDER]), (OPS_DELVAR, [FNCT_DEL_VAR]), (OPS_OS, [FNCT_SEND_OS]),
     (OPS_RENAME, [FNCT_RENAME]), (OPS_CHATTR, [FNCT_CHATTR]), (FTS_MEMFREE, [FNCT_GET_MEMFREE]),
     (FTS_CERT, [FNCT_SEND_CERT, FNCT_RECV_CERT]), (FTS_NONSILENT, [FNCT_SEND_VAR_NS, FNCT_RECV_VAR_NS])]"

text \<open>Variables come in silently or not; a backup is a true one, or all variables together.\<close>

definition keeps_promises :: "CalcTable \<Rightarrow> bool" where
  "keeps_promises t \<longleftrightarrow> list_all (\<lambda>(f, ops). has_feature t f \<longrightarrow> list_all (performs t) ops) promised
     \<and> (has_feature t OPS_VARS \<longrightarrow> performs t FNCT_SEND_VAR \<and> (performs t FNCT_RECV_VAR \<or> performs t FNCT_RECV_VAR_NS))
     \<and> (has_feature t OPS_BACKUP \<longrightarrow>
         (if has_feature t FTS_BACKUP then performs t FNCT_SEND_BACKUP \<and> performs t FNCT_RECV_BACKUP
          else performs t FNCT_SEND_ALL_VARS_BACKUP \<and> performs t FNCT_RECV_ALL_VARS_BACKUP))"

lemma features_kept: "list_all keeps_promises calcs"
  by code_simp

text \<open>The other way round it does not hold: the TI-89 takes an operating system without saying so.\<close>

lemma unannounced: "performs calc_89 FNCT_SEND_OS \<and> \<not> has_feature calc_89 OPS_OS"
  by code_simp

end
