(* ===== verification/Wallet_App.thy ===== *)
theory Wallet_App
  imports Prompts Rpc_Json Calc_Store Wallet_Crypto Transaction
begin

text \<open>
  The flows of \<open>main.c\<close> and its menu: creating, loading and using the wallet kept in a string variable
  of the calculator.  What the outside answers is the record \<open>app_env\<close>; what a flow leaves for the
  next one is \<open>app_state\<close>; what it does is a list of events.  A stage runs only after the ones
  before it succeeded, so a failed stage is the end of the flow but for its clean-up.  Local buffers
  are wiped before a flow returns and are not part of its result.
\<close>

section \<open>The world of a flow\<close>

text \<open>
  \<open>server k\<close> answers the \<open>k\<close>-th request of the flow; \<open>stale_seed\<close> and \<open>stale_key\<close> are what the
  uninitialised arrays of 32 and 64 bytes on the stack hold.
\<close>

record app_env =
  terminal :: bool
  fp_mode :: fp_target
  url_variable :: "string option"
  allocates :: "nat \<Rightarrow> bool"
  device :: store_env
  server :: "nat \<Rightarrow> http_env"
  curl_starts :: bool
  url_copied :: bool
  stale_seed :: bytes
  stale_key :: bytes

record app_state =
  console :: string
  random_source :: "urandom list"
  curl_state :: curl_global

text \<open>
  \<open>Shown\<close> is a line with data of the wallet; \<open>Amount_shown\<close> a line with an amount in lamports and, to nine
  decimals, in SOL.  Messages that are fixed text are left out.
\<close>

datatype flow_event = Store store_event | Net app_event | Shown string | Amount_shown u64 | Wiped nat

definition WALLET_PUBLIC_KEY_LEN :: nat where "WALLET_PUBLIC_KEY_LEN = 32"

definition STORED_KEY_PAYLOAD_LEN :: nat where
  "STORED_KEY_PAYLOAD_LEN = WALLET_PUBLIC_KEY_LEN + WALLET_BLOB_LEN"

definition PASSWORD_BUFFER_LENGTH :: nat where "PASSWORD_BUFFER_LENGTH = 256"

definition SOLANA_AIRDROP_TIMEOUT_SECONDS :: u32 where "SOLANA_AIRDROP_TIMEOUT_SECONDS = 30"

definition SOLANA_TRANSFER_TIMEOUT_SECONDS :: u32 where "SOLANA_TRANSFER_TIMEOUT_SECONDS = 60"

lemmas app_lens = WALLET_PUBLIC_KEY_LEN_def STORED_KEY_PAYLOAD_LEN_def PASSWORD_BUFFER_LENGTH_def wallet_lens

section \<open>Fetching the wallet\<close>

text \<open>From the content received: the status, the entry looked at, and the two buffers.\<close>

definition read_wallet_entry ::
    "FileContent option \<Rightarrow> bytes \<Rightarrow> bytes \<Rightarrow> app_status \<times> VarEntry option \<times> bytes \<times> bytes" where
  "read_wallet_entry content public_key blob =
     (case content of
        None \<Rightarrow> (APP_ERR_IO, None, public_key, blob)
      | Some c \<Rightarrow>
          if num_entries c = 0 \<or> the (fc_entries c) ! 0 = None then (APP_ERR_IO, None, public_key, blob)
          else
            (let entry = the (the (fc_entries c) ! 0)
             in case ve_data entry of
                  None \<Rightarrow> (APP_ERR_IO, Some entry, public_key, blob)
                | Some d \<Rightarrow>
                    if unat (ve_size entry) < STORED_KEY_PAYLOAD_LEN + 1 then (APP_ERR_IO, Some entry, public_key, blob)
                    else (let payload_length = d ! 0
                          in if unat payload_length \<noteq> STORED_KEY_PAYLOAD_LEN \<or> ucast payload_length > ve_size entry - 1
                             then (APP_ERR_IO, Some entry, public_key, blob)
                             else (APP_OK, Some entry,
                                   write_at public_key 0 (take WALLET_PUBLIC_KEY_LEN (drop 1 d)),
                                   write_at blob 0 (take WALLET_BLOB_LEN (drop (1 + WALLET_PUBLIC_KEY_LEN) d))))))"

definition fetch_wallet_payload ::
    "app_env \<Rightarrow> app_state \<Rightarrow> CalcSession option \<Rightarrow> string option \<Rightarrow> nat \<Rightarrow> bytes option \<Rightarrow> bytes option \<Rightarrow> nat
     \<Rightarrow> app_status \<times> string option \<times> bytes option \<times> bytes option \<times> app_state \<times> flow_event list" where
  "fetch_wallet_payload env st session var_buffer var_buffer_len public_key blob blob_len =
     (case (session, var_buffer, public_key, blob) of
        (Some s, Some _, Some pk, Some b) \<Rightarrow>
          if var_buffer_len < 5 \<or> blob_len < WALLET_BLOB_LEN then (APP_ERR_IO, var_buffer, public_key, blob, st, [])
          else
            (let (slot, rest) = prompt_string_slot var_buffer_len (console st);
                 st = st\<lparr>console := rest\<rparr>
             in case slot of
                  None \<Rightarrow> (APP_ERR_IO, Some [], public_key, blob, st, [])
                | Some name \<Rightarrow>
                    (let (status, out, ev) = calc_fetch_string (device env) session (Some name) (Some None);
                         content = (case out of Some c \<Rightarrow> c | None \<Rightarrow> None);
                         (status, entry, pk, b) =
                           (if status = APP_OK then read_wallet_entry content pk b else (status, None, pk, b));
                         (pk, b) =
                           (if status \<noteq> APP_OK \<or> entry = None
                            then (the (wallet_secure_zero (Some pk) WALLET_PUBLIC_KEY_LEN),
                                  the (wallet_secure_zero (Some b) blob_len))
                            else (pk, b));
                         wiped = (case entry of
                                    Some e \<Rightarrow> if ve_data e \<noteq> None \<and> ve_size e > 0 then [Wiped (unat (ve_size e))] else []
                                  | None \<Rightarrow> [])
                     in (status, Some name, Some pk, Some b, st,
                         map Store ev @ wiped @ map Store (tifiles_content_delete_regular content))))
      | _ \<Rightarrow> (APP_ERR_IO, var_buffer, public_key, blob, st, []))"

section \<open>Creating and loading\<close>

definition ask_password :: "app_env \<Rightarrow> app_state \<Rightarrow> int \<times> string \<times> app_state" where
  "ask_password env st =
     (let (ok, password, rest) =
            prompt_password (terminal env) (replicate PASSWORD_BUFFER_LENGTH NUL) PASSWORD_BUFFER_LENGTH (console st)
      in (ok, password, st\<lparr>console := rest\<rparr>))"

text \<open>Only the first 32 bytes of \<open>private_key\<close> are written before all 64 are sealed.\<close>

definition create_encrypted_keypair ::
    "app_env \<Rightarrow> app_state \<Rightarrow> CalcSession option \<Rightarrow> app_status \<times> app_state \<times> flow_event list" where
  "create_encrypted_keypair env st session =
     (case session of
        None \<Rightarrow> (APP_ERR_NO_CALC, st, [])
      | Some s \<Rightarrow>
          (let (slot, rest) = prompt_string_slot 5 (console st);
               st = st\<lparr>console := rest\<rparr>
           in case slot of
                None \<Rightarrow> (APP_ERR_IO, st, [])
              | Some name \<Rightarrow>
                  (let (ok, password, st) = ask_password env st
                   in if ok = 0 then (APP_ERR_IO, st, [])
                      else
                        (let (ok, password_confirm, st) = ask_password env st
                         in if ok = 0 then (APP_ERR_IO, st, [])
                            else if c_string password \<noteq> c_string password_confirm then (APP_ERR_IO, st, [])
                            else
                              (let (ret, seed, random) = ed25519_create_seed (random_source st) (stale_seed env);
                                   st = st\<lparr>random_source := random\<rparr>
                               in if ret \<noteq> 0 then (APP_ERR_CRYPTO, st, [])
                                  else
                                    (let (public_key, private_key) =
                                           ed25519_create_keypair (replicate WALLET_PUBLIC_KEY_LEN 0) (Some (stale_key env)) seed;
                                         (status, blob, random) =
                                           wallet_encrypt_private_key (stale_seed env) (random_source st) (Some password)
                                             private_key WALLET_PRIVATE_KEY_LEN (Some (replicate WALLET_BLOB_LEN 0)) WALLET_BLOB_LEN;
                                         st = st\<lparr>random_source := random\<rparr>
                                     in if status \<noteq> APP_OK then (status, st, [])
                                        else
                                          (let storage_payload = public_key @ the blob;
                                               (status, ev) = calc_store_binary_string (device env) session (Some name)
                                                 (Some storage_payload) STORED_KEY_PAYLOAD_LEN
                                           in if status \<noteq> APP_OK then (status, st, map Store ev)
                                              else (APP_OK, st, map Store ev
                                                @ [Shown (print_base58 (allocates env) ''Public key (base58): '' public_key)]))))))))"

text \<open>
  A key that does not belong to the stored public key is shown, and the flow still succeeds: the
  only difference is the line with the derived key.
\<close>

definition load_encrypted_keypair ::
    "app_env \<Rightarrow> app_state \<Rightarrow> CalcSession option \<Rightarrow> app_status \<times> app_state \<times> flow_event list" where
  "load_encrypted_keypair env st session =
     (case session of
        None \<Rightarrow> (APP_ERR_NO_CALC, st, [])
      | Some s \<Rightarrow>
          (let (status, name, public_key, blob, st, ev) =
                 fetch_wallet_payload env st session (Some (replicate 5 NUL)) 5
                   (Some (replicate WALLET_PUBLIC_KEY_LEN 0)) (Some (replicate WALLET_BLOB_LEN 0)) WALLET_BLOB_LEN
           in if status \<noteq> APP_OK then (status, st, ev)
              else
                (let ev = ev @ [Shown (print_base58 (allocates env) ''Stored public key (base58): '' (the public_key))];
                     (answer, rest) = prompt_yes_no (Some ''Decrypt private key for verification? (y/N): '') (console st);
                     st = st\<lparr>console := rest\<rparr>
                 in if answer \<noteq> 1 then (APP_OK, st, ev)
                    else
                      (let (ok, password, st) = ask_password env st
                       in if ok = 0 then (APP_ERR_IO, st, ev)
                          else
                            (let (status, private_key) =
                                   wallet_decrypt_private_key (Some password) blob WALLET_BLOB_LEN (Some (stale_key env))
                                     WALLET_PRIVATE_KEY_LEN
                             in if status \<noteq> APP_OK then (status, st, ev)
                                else
                                  (let derived = ed25519_derive_public_key (replicate WALLET_PUBLIC_KEY_LEN 0) (the private_key)
                                   in (APP_OK, st,
                                       if derived \<noteq> the public_key
                                       then ev @ [Shown (print_base58 (allocates env) ''Derived public key (base58 mismatch): '' derived)]
                                       else ev)))))))"

section \<open>Using the wallet\<close>

text \<open>What the three flows that use the network begin with: the wallet, and its public key as text.\<close>

definition open_wallet ::
    "string \<Rightarrow> app_env \<Rightarrow> app_state \<Rightarrow> CalcSession option
     \<Rightarrow> app_status \<times> bytes \<times> bytes \<times> string \<times> app_state \<times> flow_event list" where
  "open_wallet label env st session =
     (let (status, name, public_key, blob, st, ev) =
            fetch_wallet_payload env st session (Some (replicate 5 NUL)) 5
              (Some (replicate WALLET_PUBLIC_KEY_LEN 0)) (Some (replicate WALLET_BLOB_LEN 0)) WALLET_BLOB_LEN
      in if status \<noteq> APP_OK then (status, the public_key, the blob, [], st, ev)
         else
           (let (n, text58) = solana_base58_encode (allocates env) public_key (Some (replicate 96 NUL)) 96
            in if n \<le> 0 then (APP_ERR_CRYPTO, the public_key, the blob, [], st, ev)
               else (APP_OK, the public_key, the blob, c_string (the text58), st,
                     ev @ [Shown (''Using wallet stored in '' @ the name @ ''.''), Shown (label @ c_string (the text58))])))"

definition connect :: "app_env \<Rightarrow> app_state \<Rightarrow> int \<times> solana_client option \<times> app_state" where
  "connect env st =
     (let (status, client, g) =
            solana_client_init (curl_starts env) (url_copied env) (curl_state st)
              (Some \<lparr>rpc_url = None, timeout_ms = 0, next_request_id = 0\<rparr>) (Some (solana_resolve_rpc_url (url_variable env)))
      in (status, client, st\<lparr>curl_state := g\<rparr>))"

definition free_response :: "string option option \<Rightarrow> flow_event list" where
  "free_response out = (if out \<noteq> None \<and> the out \<noteq> None then [Net (Rpc (Release R_response))] else [])"

definition response_text :: "string option option \<Rightarrow> string option" where
  "response_text out = (case out of Some (Some r) \<Rightarrow> Some (c_string r) | _ \<Rightarrow> None)"

definition show_public_key_balance ::
    "app_env \<Rightarrow> app_state \<Rightarrow> CalcSession option \<Rightarrow> app_status \<times> app_state \<times> flow_event list" where
  "show_public_key_balance env st session =
     (case session of
        None \<Rightarrow> (APP_ERR_NO_CALC, st, [])
      | Some s \<Rightarrow>
          (let (status, public_key, blob, key58, st, ev) = open_wallet ''Public key: '' env st session
           in if status \<noteq> APP_OK then (status, st, ev)
              else
                (let (started, client, st) = connect env st
                 in if started \<noteq> SOLANA_OK then (APP_ERR_IO, st, ev)
                    else
                      (let (rpc, client, out, rev) = solana_client_get_balance (server env 0) client (Some key58) (Some None);
                           ev = ev @ map (\<lambda>e. Net (Rpc e)) rev
                       in if rpc \<noteq> SOLANA_OK then (APP_ERR_IO, st, ev @ free_response out)
                          else
                            (case response_text out of
                               None \<Rightarrow> (APP_OK, st, ev)
                             | Some response \<Rightarrow>
                                 (let (ok, lamports) = parse_balance_response (Some response) (Some 0)
                                  in (APP_OK, st, ev @ [if ok = 1 then Amount_shown (the lamports) else Shown response]
                                        @ free_response out)))))))"

definition airdrop_to_public_key ::
    "app_env \<Rightarrow> app_state \<Rightarrow> CalcSession option \<Rightarrow> app_status \<times> app_state \<times> flow_event list" where
  "airdrop_to_public_key env st session =
     (case session of
        None \<Rightarrow> (APP_ERR_NO_CALC, st, [])
      | Some s \<Rightarrow>
          (let (status, public_key, blob, key58, st, ev) = open_wallet ''Public key: '' env st session
           in if status \<noteq> APP_OK then (status, st, ev)
              else
                (let (ok, lamports, rest) = prompt_lamports (fp_mode env) (Some 0) (console st);
                     st = st\<lparr>console := rest\<rparr>
                 in if ok = 0 then (APP_ERR_IO, st, ev)
                    else
                      (let (started, client, st) = connect env st
                       in if started \<noteq> SOLANA_OK then (APP_ERR_IO, st, ev)
                          else
                            (let (rpc, client, out, rev) =
                                   solana_client_request_airdrop (server env 0) client (Some key58) (the lamports) (Some None);
                                 ev = ev @ map (\<lambda>e. Net (Rpc e)) rev
                             in if rpc \<noteq> SOLANA_OK then (APP_ERR_IO, st, ev @ free_response out)
                                else
                                  (let ev = ev @ [Amount_shown (the lamports)];
                                       (ok, signature) =
                                         parse_json_string_field (response_text out) (Some ''result'') (Some (replicate 192 NUL)) 192
                                   in if ok = 0 then (APP_ERR_IO, st, ev @ free_response out)
                                      else
                                        (let signature = c_string (the signature);
                                             ev = ev @ [Shown (''Transaction signature: '' @ signature)] @ free_response out;
                                             (confirmation, client, cev) =
                                               wait_for_signature_confirmation (\<lambda>k. server env (1 + k)) client (Some signature)
                                                 SOLANA_AIRDROP_TIMEOUT_SECONDS;
                                             ev = ev @ map Net cev
                                         in if confirmation = 1
                                            then (APP_OK, st, ev @
                                              (case print_solscan_link (Some signature) (Some (solana_resolve_rpc_url (url_variable env))) of
                                                 Some l \<Rightarrow> [Shown l] | None \<Rightarrow> []))
                                            else (APP_ERR_IO, st, ev))))))))"

text \<open>
  From the point where the wallet is decrypted: the client, the blockhash, the transaction, its
  submission and its confirmation.  Both responses are freed at the end, the one of the
  submission first.
\<close>

definition submit_transfer ::
    "app_env \<Rightarrow> app_state \<Rightarrow> bytes \<Rightarrow> bytes \<Rightarrow> u64 \<Rightarrow> string \<Rightarrow> bytes \<Rightarrow> app_status \<times> app_state \<times> flow_event list" where
  "submit_transfer env st public_key recipient lamports memo private_key =
     (let (started, client, st) = connect env st
      in if started \<noteq> SOLANA_OK then (APP_ERR_IO, st, [])
         else
           (let (rpc, client, bh_out, rev) = solana_client_get_latest_blockhash (server env 0) client (Some None);
                ev = map (\<lambda>e. Net (Rpc e)) rev
            in if rpc \<noteq> SOLANA_OK then (APP_ERR_IO, st, ev @ free_response bh_out)
               else
                 (let (ok, bh58) = parse_json_string_field (response_text bh_out) (Some ''blockhash'') (Some (replicate 96 NUL)) 96;
                      (n, blockhash) =
                        (if ok = 0 then (0, None)
                         else solana_base58_decode (allocates env) (Some (c_string (the bh58))) (Some (replicate 32 0)) 32)
                  in if ok = 0 \<or> n \<noteq> 32 then (APP_ERR_IO, st, ev @ free_response bh_out)
                     else
                       (let (status, transaction, signature) =
                              solana_build_transfer_transaction (allocates env) (Some public_key) (Some recipient) lamports
                                blockhash (Some private_key) (if memo \<noteq> [] then Some memo else None) (length memo)
                                (Some (replicate 512 NUL)) 512 (Some (replicate 128 NUL)) 128
                        in if status \<noteq> APP_OK then (status, st, ev @ free_response bh_out)
                           else
                             (let signature = c_string (the signature);
                                  (rpc, client, out, rev) =
                                    solana_client_send_transaction (server env 1) client (Some (c_string (the transaction))) (Some None);
                                  ev = ev @ map (\<lambda>e. Net (Rpc e)) rev
                              in if rpc \<noteq> SOLANA_OK then (APP_ERR_IO, st, ev @ free_response out @ free_response bh_out)
                                 else
                                   (let ev = ev @ [Shown (''Transaction submitted. Signature: '' @ signature)]
                                          @ (case print_solscan_link (Some signature) (Some (solana_resolve_rpc_url (url_variable env))) of
                                               Some l \<Rightarrow> [Shown l] | None \<Rightarrow> []);
                                        (confirmation, client, cev) =
                                          wait_for_signature_confirmation (\<lambda>k. server env (2 + k)) client (Some signature)
                                            SOLANA_TRANSFER_TIMEOUT_SECONDS
                                    in (if confirmation = 1 then APP_OK else APP_ERR_IO, st,
                                        ev @ map Net cev @ free_response out @ free_response bh_out)))))))"

definition send_sol_transaction ::
    "app_env \<Rightarrow> app_state \<Rightarrow> CalcSession option \<Rightarrow> app_status \<times> app_state \<times> flow_event list" where
  "send_sol_transaction env st session =
     (case session of
        None \<Rightarrow> (APP_ERR_NO_CALC, st, [])
      | Some s \<Rightarrow>
          (let (status, public_key, blob, key58, st, ev) = open_wallet ''Sender public key: '' env st session
           in if status \<noteq> APP_OK then (status, st, ev)
              else
                (let (ok, lamports, rest) = prompt_lamports (fp_mode env) (Some 0) (console st);
                     st = st\<lparr>console := rest\<rparr>
                 in if ok = 0 then (APP_ERR_IO, st, ev)
                    else
                      (let (ok, recipient58, recipient, rest) =
                             prompt_base58_public_key (allocates env) (Some ''Enter recipient public key: '') (Some (replicate 96 NUL)) 96
                               (Some (replicate 32 0)) 32 (console st);
                           st = st\<lparr>console := rest\<rparr>
                       in if ok = 0 then (APP_ERR_IO, st, ev)
                          else
                            (let (memo, rest) = memo_loop SOLANA_DEFAULT_MEMO (console st);
                                 (ok, password, st) = ask_password env (st\<lparr>console := rest\<rparr>)
                             in if ok = 0 then (APP_ERR_IO, st, ev)
                                else
                                  (let (status, private_key) =
                                         wallet_decrypt_private_key (Some password) (Some blob) WALLET_BLOB_LEN (Some (replicate 64 0))
                                           WALLET_PRIVATE_KEY_LEN
                                   in if status \<noteq> APP_OK then (status, st, ev)
                                      else
                                        (let (status, st, tev) =
                                               submit_transfer env st public_key (the recipient) (the lamports) memo (the private_key)
                                         in (status, st, ev @ tev))))))))"

section \<open>The menu\<close>

lemma ask_password_console: "length (console (snd (snd (ask_password env st)))) \<le> length (console st)"
  using prompt_password_consumes [of "terminal env" "replicate PASSWORD_BUFFER_LENGTH NUL" PASSWORD_BUFFER_LENGTH "console st"]
  by (cases "prompt_password (terminal env) (replicate PASSWORD_BUFFER_LENGTH NUL) PASSWORD_BUFFER_LENGTH (console st)"
      rule: prod_cases3) (simp add: ask_password_def)

lemma fetch_console:
  "fetch_wallet_payload env st session v n pk b k = (status, name, pk', b', st', ev) \<Longrightarrow> length (console st') \<le> length (console st)"
  using prompt_string_slot_consumes [of n "console st"]
  by (auto simp: fetch_wallet_payload_def Let_def split: option.splits if_splits prod.splits)

lemma open_wallet_console:
  "open_wallet label env st session = (status, pk, b, t, st', ev) \<Longrightarrow> length (console st') \<le> length (console st)"
  by (auto simp: open_wallet_def split: if_splits prod.splits dest: fetch_console)

lemma connect_console: "connect env st = (status, client, st') \<Longrightarrow> console st' = console st"
  by (auto simp: connect_def split: prod.splits)

lemma ask_password_consumes: "ask_password env st = (ok, pw, st') \<Longrightarrow> length (console st') \<le> length (console st)"
  using ask_password_console [of env st] by simp

lemma create_console: "create_encrypted_keypair env st session = (status, st', ev) \<Longrightarrow> length (console st') \<le> length (console st)"
proof -
  assume c: "create_encrypted_keypair env st session = (status, st', ev)"
  obtain slot rest where s: "prompt_string_slot 5 (console st) = (slot, rest)" by fastforce
  have r: "length rest \<le> length (console st)" using prompt_string_slot_consumes [of 5 "console st"] s by simp
  obtain ok1 p1 st1 where a1: "ask_password env (st\<lparr>console := rest\<rparr>) = (ok1, p1, st1)" by (metis prod_cases3)
  obtain ok2 p2 st2 where a2: "ask_password env st1 = (ok2, p2, st2)" by (metis prod_cases3)
  have "length (console st1) \<le> length rest" "length (console st2) \<le> length (console st1)"
    using ask_password_consumes [OF a1] ask_password_consumes [OF a2] by simp_all
  moreover have "console st' \<in> {console st, rest, console st1, console st2}"
    using c s a1 a2 by (auto simp: create_encrypted_keypair_def Let_def split: option.splits if_splits prod.splits)
  ultimately show ?thesis using r by auto
qed

lemma load_console: "load_encrypted_keypair env st session = (status, st', ev) \<Longrightarrow> length (console st') \<le> length (console st)"
proof (cases session)
  case (Some s)
  assume c: "load_encrypted_keypair env st session = (status, st', ev)"
  obtain st0 name pk b st1 ev1 where f: "fetch_wallet_payload env st session (Some (replicate 5 NUL)) 5
      (Some (replicate WALLET_PUBLIC_KEY_LEN 0)) (Some (replicate WALLET_BLOB_LEN 0)) WALLET_BLOB_LEN = (st0, name, pk, b, st1, ev1)"
    by (metis prod_cases6)
  obtain answer rest where y: "prompt_yes_no (Some ''Decrypt private key for verification? (y/N): '') (console st1) = (answer, rest)"
    by fastforce
  obtain ok2 p2 st2 where a: "ask_password env (st1\<lparr>console := rest\<rparr>) = (ok2, p2, st2)" by (metis prod_cases3)
  have "length rest \<le> length (console st1)"
    using prompt_yes_no_consumes [of "Some ''Decrypt private key for verification? (y/N): ''" "console st1"] y by simp
  moreover have "console st' \<in> {console st1, rest, console st2}"
    using c Some f y a by (auto simp: load_encrypted_keypair_def Let_def split: if_splits prod.splits)
  ultimately show ?thesis using fetch_console [OF f] ask_password_consumes [OF a] by auto
qed (simp add: load_encrypted_keypair_def)

lemma balance_console: "show_public_key_balance env st session = (status, st', ev) \<Longrightarrow> length (console st') \<le> length (console st)"
proof (cases session)
  case (Some s)
  assume c: "show_public_key_balance env st session = (status, st', ev)"
  obtain st0 pk b t st1 ev1 where f: "open_wallet ''Public key: '' env st session = (st0, pk, b, t, st1, ev1)" by (metis prod_cases6)
  have "console st' = console st1"
    using c Some f connect_console [of env st1]
    by (auto simp: show_public_key_balance_def Let_def split: if_splits prod.splits option.splits)
  then show ?thesis using open_wallet_console [OF f] by simp
qed (simp add: show_public_key_balance_def)

lemma airdrop_console: "airdrop_to_public_key env st session = (status, st', ev) \<Longrightarrow> length (console st') \<le> length (console st)"
proof (cases session)
  case (Some s)
  assume c: "airdrop_to_public_key env st session = (status, st', ev)"
  obtain st0 pk b t st1 ev1 where f: "open_wallet ''Public key: '' env st session = (st0, pk, b, t, st1, ev1)" by (metis prod_cases6)
  obtain ok lamports rest where l: "prompt_lamports (fp_mode env) (Some 0) (console st1) = (ok, lamports, rest)" by (metis prod_cases3)
  have "length rest \<le> length (console st1)" using prompt_lamports_consumes [of "fp_mode env" "Some 0" "console st1"] l by simp
  moreover have "console st' \<in> {console st1, rest}"
    using c Some f l connect_console [of env "st1\<lparr>console := rest\<rparr>"]
    by (auto simp: airdrop_to_public_key_def Let_def split: if_splits prod.splits option.splits)
  ultimately show ?thesis using open_wallet_console [OF f] by auto
qed (simp add: airdrop_to_public_key_def)

lemma submit_console: "submit_transfer env st pk r l m k = (status, st', ev) \<Longrightarrow> console st' = console st"
  using connect_console [of env st] by (auto simp: submit_transfer_def Let_def split: if_splits prod.splits option.splits)

lemma send_console: "send_sol_transaction env st session = (status, st', ev) \<Longrightarrow> length (console st') \<le> length (console st)"
proof (cases session)
  case (Some s)
  assume c: "send_sol_transaction env st session = (status, st', ev)"
  obtain st0 pk b t st1 ev1 where f: "open_wallet ''Sender public key: '' env st session = (st0, pk, b, t, st1, ev1)" by (metis prod_cases6)
  obtain ok lamports r1 where l: "prompt_lamports (fp_mode env) (Some 0) (console st1) = (ok, lamports, r1)" by (metis prod_cases3)
  obtain ok2 t58 key r2 where k: "prompt_base58_public_key (allocates env) (Some ''Enter recipient public key: '')
      (Some (replicate 96 NUL)) 96 (Some (replicate 32 0)) 32 r1 = (ok2, t58, key, r2)" by (metis prod_cases4)
  obtain memo r3 where m: "memo_loop SOLANA_DEFAULT_MEMO r2 = (memo, r3)" by fastforce
  obtain ok4 pw st4 where a: "ask_password env (st1\<lparr>console := r3\<rparr>) = (ok4, pw, st4)" by (metis prod_cases3)
  have "length r1 \<le> length (console st1)" "length r2 \<le> length r1" "length r3 \<le> length r2"
    using prompt_lamports_consumes [of "fp_mode env" "Some 0" "console st1"] l
      prompt_key_consumes [of "allocates env" "Some ''Enter recipient public key: ''" "Some (replicate 96 NUL)" 96 "Some (replicate 32 0)" 32 r1] k
      memo_loop_consumes [of SOLANA_DEFAULT_MEMO r2] m by simp_all
  moreover have "console st' \<in> {console st1, r1, r2, r3, console st4}"
    using c Some f l k m a submit_console [of env st4]
    by (auto simp: send_sol_transaction_def Let_def split: if_splits prod.splits option.splits)
  ultimately show ?thesis using open_wallet_console [OF f] ask_password_consumes [OF a] by auto
qed (simp add: send_sol_transaction_def)

definition run_option ::
    "app_env \<Rightarrow> app_state \<Rightarrow> CalcSession option \<Rightarrow> int \<Rightarrow> app_status \<times> app_state \<times> flow_event list" where
  "run_option env st session choice =
     (if choice = 1 then create_encrypted_keypair env st session
      else if choice = 2 then load_encrypted_keypair env st session
      else if choice = 3 then airdrop_to_public_key env st session
      else if choice = 4 then show_public_key_balance env st session
      else send_sol_transaction env st session)"

lemma run_option_console: "run_option env st session choice = (status, st', ev) \<Longrightarrow> length (console st') \<le> length (console st)"
  by (auto simp: run_option_def split: if_splits
      dest: create_console load_console airdrop_console balance_console send_console)

text \<open>
  The menu reads a line of at most 31 characters and runs the option; \<open>world k\<close> is the world of the
  \<open>k\<close>-th flow.  A status is reported and the menu goes on; the end of the input and option 0 end it.
  The result is the runs in order, each with its option, status and events.
\<close>

type_synonym menu_run = "int \<times> app_status \<times> flow_event list"

function menu_loop ::
    "(nat \<Rightarrow> app_env) \<Rightarrow> nat \<Rightarrow> app_state \<Rightarrow> CalcSession option \<Rightarrow> app_state \<times> menu_run list" where
  "menu_loop world k st session =
     (case read_line 32 (console st) of
        None \<Rightarrow> (st, [])
      | Some (input_buffer, rest) \<Rightarrow>
          (let st = st\<lparr>console := rest\<rparr>;
               (range_error, choice, endptr) = strtol input_buffer
           in if range_error \<or> endptr = input_buffer then menu_loop world k st session
              else if choice = 0 then (st, [])
              else if 1 \<le> choice \<and> choice \<le> 5 then
                (let (status, st, ev) = run_option (world k) st session choice;
                     (st, runs) = menu_loop world (k + 1) st session
                 in (st, (choice, status, ev) # runs))
              else menu_loop world k st session))"
  by pat_completeness auto

termination
proof (relation "measure (\<lambda>(world, k, st, session). length (console st))", goal_cases)
  case 1 show ?case by simp
next
  case (2 world k st session a line rest)
  then show ?case using read_line_shorter [of 32 "console st" line rest] by auto
next
  case (3 world k st session a line rest)
  then show ?case by (auto dest!: run_option_console [OF sym] read_line_shorter)
next
  case (4 world k st session a line rest)
  then show ?case using read_line_shorter [of 32 "console st" line rest] by auto
qed

text \<open>
  \<open>main\<close>: the answers of the libraries are \<open>libs\<close>, whether the thread starts, and \<open>ready\<close>, what
  \<open>ticalcs_calc_isready\<close> returns.  The interleavings of the polling thread with this code are the
  step relation of theory Calc_Session.  \<open>PORT_1\<close> is 1, the zeroed models are the first of their types.
\<close>

definition zeroed_session :: CalcSession where
  "zeroed_session = \<lparr>cable = None, calc = None, cable_model = CABLE_NUL, calc_model = CALC_NONE, port_number = 1,
     poll_interval_ms = 0, poll_active = 0, poll_thread_started = 0\<rparr>"

definition wallet_main ::
    "ti_env \<Rightarrow> bool \<Rightarrow> int \<Rightarrow> (nat \<Rightarrow> app_env) \<Rightarrow> app_state
     \<Rightarrow> app_status \<times> app_state \<times> menu_run list \<times> lib_event list \<times> CalcSession option" where
  "wallet_main libs thread_ok ready world st =
     (let (err, session, ev) = calc_session_open libs (Some zeroed_session);
          (err, session, st, runs) =
            (if err = APP_OK then
               (let (err, session) = calc_session_start_polling thread_ok session 1000
                in if err = APP_OK then
                     (if ready = 0 then
                        (let (session, joined) = calc_session_stop_polling session;
                             (st, runs) = menu_loop world 0 st session
                         in (err, session, st, runs))
                      else (APP_ERR_NOT_READY, session, st, []))
                   else (err, session, st, []))
             else (err, session, st, []));
          (session, joined) = calc_session_stop_polling session;
          (session, ev') = calc_session_cleanup session
      in (err, st, runs, ev @ ev', session))"

end
