(* ===== verification/Wallet_Flows.thy ===== *)
theory Wallet_Flows
  imports Wallet_App
begin

text \<open>
  What the flows of the wallet promise together: a created wallet can be loaded, and what reaches the
  network.  The flows are those of theory Wallet_App; the facts used are those of the components.
\<close>

section \<open>A created wallet\<close>

definition stores :: "flow_event list \<Rightarrow> store_event list" where
  "stores ev = concat (map (\<lambda>e. case e of Store s \<Rightarrow> [s] | _ \<Rightarrow> []) ev)"

definition shown :: "flow_event list \<Rightarrow> string list" where
  "shown ev = concat (map (\<lambda>e. case e of Shown s \<Rightarrow> [s] | _ \<Rightarrow> []) ev)"

lemma stores_simps [simp]:
  "stores [] = []" "stores (xs @ ys) = stores xs @ stores ys" "stores (Store e # ev) = e # stores ev"
  "stores (Shown s # ev) = stores ev" "stores (map Store es) = es"
  by (simp_all add: stores_def o_def)

lemma shown_simps [simp]:
  "shown [] = []" "shown (xs @ ys) = shown xs @ shown ys" "shown (Store e # ev) = shown ev"
  "shown (Shown s # ev) = s # shown ev" "shown (Wiped n # ev) = shown ev" "shown (map Store es) = []"
  by (simp_all add: shown_def o_def)

text \<open>The answers to the prompts of a flow of creation and of a flow that loads and verifies.\<close>

definition creation_prompts :: "app_env \<Rightarrow> app_state \<Rightarrow> string \<Rightarrow> string \<Rightarrow> bool" where
  "creation_prompts env st name password \<longleftrightarrow>
     (\<exists>rest st1. prompt_string_slot 5 (console st) = (Some name, rest)
        \<and> ask_password env (st\<lparr>console := rest\<rparr>) = (1, password, st1))"

definition loading_prompts :: "app_env \<Rightarrow> app_state \<Rightarrow> string \<Rightarrow> string \<Rightarrow> app_state \<Rightarrow> bool" where
  "loading_prompts env st name password st' \<longleftrightarrow>
     (\<exists>r1 r2. prompt_string_slot 5 (console st) = (Some name, r1)
        \<and> prompt_yes_no (Some ''Decrypt private key for verification? (y/N): '') r1 = (1, r2)
        \<and> ask_password env (st\<lparr>console := r2\<rparr>) = (1, password, st'))"

lemma ask_password_result:
  "ask_password env st = (ok, password, st') \<Longrightarrow>
   length (c_string password) < 2 ^ 60 \<and> (ok \<noteq> 0 \<longrightarrow> ok = 1)"
proof -
  assume a: "ask_password env st = (ok, password, st')"
  obtain rest where p: "prompt_password (terminal env) (replicate PASSWORD_BUFFER_LENGTH NUL) PASSWORD_BUFFER_LENGTH (console st)
      = (ok, password, rest)"
    using a by (auto simp: ask_password_def split: prod.splits)
  then have "length password \<le> 256 \<and> (ok \<noteq> 0 \<longrightarrow> ok = 1)"
    using password_loop_fits [of "[]" 256 "console st"] password_past_length [of "[]" 256 "replicate 256 NUL" "console st"]
    by (subst (asm) password_one_round)
      (auto simp: PASSWORD_BUFFER_LENGTH_def read_password_input_def split: prod.splits if_splits)
  moreover have "length (c_string password) \<le> length password" by (simp add: c_string_def length_takeWhile_le)
  ultimately show ?thesis by simp
qed

text \<open>What a successful creation computed and stored.\<close>

lemma create_ok_inv:
  assumes c: "create_encrypted_keypair env st (Some s) = (APP_OK, st', ev)"
    and stale: "length (stale_seed env) = 32" "length (stale_key env) = 64"
  obtains name password seed private_key public_key blob sev random st1 where
    "creation_prompts env st name password"
    and "length (c_string password) < 2 ^ 60"
    and "ed25519_create_keypair (replicate 32 0) (Some (stale_key env)) seed = (public_key, Some private_key)"
    and "length seed = 32" "length private_key = 64" "length blob = 125"
    and "wallet_encrypt_private_key (stale_seed env) random (Some password) (Some private_key) WALLET_PRIVATE_KEY_LEN
       (Some (replicate 125 0)) 125 = (APP_OK, Some blob, st1)"
    and "calc_store_binary_string (device env) (Some s) (Some name) (Some (public_key @ blob)) 157 = (APP_OK, sev)"
    and "ev = map Store sev @ [Shown (print_base58 (allocates env) ''Public key (base58): '' public_key)]"
proof -
  obtain slot rest where s: "prompt_string_slot 5 (console st) = (slot, rest)" by fastforce
  obtain name where n: "slot = Some name" using c s by (cases slot) (simp_all add: create_encrypted_keypair_def)
  obtain ok1 p1 st1 where a1: "ask_password env (st\<lparr>console := rest\<rparr>) = (ok1, p1, st1)" by (metis prod_cases3)
  obtain ok2 p2 st2 where a2: "ask_password env st1 = (ok2, p2, st2)" by (metis prod_cases3)
  obtain ret seed random where e: "ed25519_create_seed (random_source st2) (stale_seed env) = (ret, seed, random)"
    by (metis prod_cases3)
  obtain pk sk where k: "ed25519_create_keypair (replicate 32 0) (Some (stale_key env)) seed = (pk, Some sk)"
    by (simp add: ed25519_create_keypair_def Let_def)
  have seed: "length seed = 32" using seed_length [OF stale(1) e] .
  then have sk: "length sk = 64" using k stale(2) by (auto simp: ed25519_create_keypair_def Let_def)
  obtain est blob r2 where w: "wallet_encrypt_private_key (stale_seed env) random (Some p1) (Some sk) WALLET_PRIVATE_KEY_LEN
       (Some (replicate WALLET_BLOB_LEN 0)) WALLET_BLOB_LEN = (est, blob, r2)" by (metis prod_cases3)
  obtain sst sev where b: "calc_store_binary_string (device env) (Some s) (Some name) (Some (pk @ the blob)) STORED_KEY_PAYLOAD_LEN
      = (sst, sev)" by fastforce
  note c' = c [unfolded create_encrypted_keypair_def option.case Let_def s n prod.case a1 a2 app_lens(1) e]
  have ok: "ok1 \<noteq> 0" using c' by (auto split: if_splits)
  have "est = APP_OK \<and> sst = APP_OK
      \<and> ev = map Store sev @ [Shown (print_base58 (allocates env) ''Public key (base58): '' pk)]"
    using c' k w b by (auto simp: Let_def split: if_splits)
  then have ok': "est = APP_OK" "sst = APP_OK"
      "ev = map Store sev @ [Shown (print_base58 (allocates env) ''Public key (base58): '' pk)]" by auto
  have pw: "length (c_string p1) < 2 ^ 60" and one: "ok1 = 1" using ask_password_result [OF a1] ok by auto
  have w': "wallet_encrypt_private_key (stale_seed env) random (Some p1) (Some sk) WALLET_PRIVATE_KEY_LEN
       (Some (replicate 125 0)) 125 = (APP_OK, blob, r2)" using w ok' by (simp add: wallet_lens)
  obtain salt nonce where "length salt = 16" "length nonce = 12"
    and bl: "blob = Some (seal (map byte_of_char (c_string p1)) salt nonce sk)"
    using encrypt_ok_inv [OF stale(1) pw sk _ w'] by auto
  then have "length (the blob) = 125" using length_seal [of salt nonce sk] sk by simp
  moreover have "creation_prompts env st name p1" using s n a1 one by (auto simp: creation_prompts_def)
  ultimately show ?thesis
    using that [OF _ pw k seed sk, of name "the blob" random r2 sev] w' bl b ok' by (simp add: app_lens)
qed

text \<open>A password counts by its characters up to the terminator.\<close>

lemma wallet_opens:
  assumes "length stale = 32" "length (c_string pw) < 2 ^ 60" "length key = 64" "length blob = blob_len" "length out = 64"
    and w: "wallet_encrypt_private_key stale e (Some pw) (Some key) WALLET_PRIVATE_KEY_LEN (Some blob) blob_len
       = (APP_OK, Some blob', e')" and "c_string pw2 = c_string pw"
  shows "wallet_decrypt_private_key (Some pw2) (Some blob') blob_len (Some out) WALLET_PRIVATE_KEY_LEN = (APP_OK, Some key)"
proof -
  obtain salt nonce where len: "length salt = 16" "length nonce = 12" and pw: "c_string pw \<noteq> []" "125 \<le> blob_len"
    and blob': "blob' = seal (map byte_of_char (c_string pw)) salt nonce key @ drop 125 blob"
    using encrypt_ok_inv [OF assms(1,2,3,4) w] by auto
  have l: "length blob' = blob_len" using length_seal [OF len assms(3)] assms(4) pw(2) by (simp add: blob')
  have "blob' ! 0 = WALLET_BLOB_VERSION" by (simp add: blob' seal_def)
  then show ?thesis
    using decrypt_computes [of pw2 blob' out] assms(2,3,5,7) pw l len
    by (simp add: blob' seal_parts cipher_twice)
qed

lemma keypair_public:
  assumes "ed25519_create_keypair (replicate 32 0) (Some old) seed = (public_key, Some private_key)" "length seed = 32"
  shows "length public_key = 32" and "ed25519_derive_public_key (replicate 32 0) private_key = public_key"
  using assms by (auto simp: ed25519_create_keypair_def ed25519_derive_public_key_def ed25519_expand_seed_def Let_def)

lemma read_stored_wallet:
  assumes "fc_entries content = Some [Some e]" "num_entries content = 1"
    and e: "ve_data e = Some (of_nat (length q) # q @ [0])" "ve_size e = of_nat (length q + 1)"
    and q: "q = public_key @ blob" "length public_key = 32" "length blob = 125"
  shows "read_wallet_entry (Some content) (replicate 32 0) (replicate 125 0) = (APP_OK, Some e, public_key, blob)"
proof -
  have l: "length q = 157" using q by simp
  have size: "ve_size e = 158" using e(2) l by simp
  have len: "(of_nat (length q) :: byte) = 157" using l by simp
  show ?thesis
    using assms(1,2) q by (simp add: read_wallet_entry_def app_lens e(1) [unfolded len] size Let_def)
qed

lemma fetch_stored_wallet:
  assumes k: "keeps (device env) d c" and c: "holds_entry c (calc_model s) name (public_key @ blob)" and d: "calc s = Some d"
    and ok: "content_ok (device env)" and ty: "tifiles_string2vartype (calc_model s) (Some ''String'') \<noteq> 0"
    and q: "length public_key = 32" "length blob = 125"
    and slot: "prompt_string_slot 5 (console st) = (Some name, rest)"
  shows "\<exists>ev. fetch_wallet_payload env st (Some s) (Some (replicate 5 NUL)) 5 (Some (replicate WALLET_PUBLIC_KEY_LEN 0))
      (Some (replicate WALLET_BLOB_LEN 0)) WALLET_BLOB_LEN
    = (APP_OK, Some name, Some public_key, Some blob, st\<lparr>console := rest\<rparr>, ev) \<and> shown ev = []"
proof -
  obtain content sev where f: "calc_fetch_string (device env) (Some s) (Some name) (Some None) = (APP_OK, Some (Some content), sev)"
      "fc_entries content = fc_entries c" "num_entries content = num_entries c"
    using fetch_string_kept [OF k c d ok ty] by blast
  let ?e = "stored_entry (calc_model s) name (public_key @ blob)"
  have r: "read_wallet_entry (Some content) (replicate 32 0) (replicate 125 0) = (APP_OK, Some ?e, public_key, blob)"
    using c f q by (intro read_stored_wallet) (simp_all add: holds_entry_def stored_entry_def)
  show ?thesis
    unfolding fetch_wallet_payload_def prod.case option.case slot Let_def f(1)
    by (simp add: app_lens r)
qed

lemma load_created:
  assumes "keeps (device env) d c" "holds_entry c (calc_model s) name (public_key @ blob)" "calc s = Some d"
    and "content_ok (device env)" "tifiles_string2vartype (calc_model s) (Some ''String'') \<noteq> 0"
    and q: "length public_key = 32" "length blob = 125"
    and prompts: "loading_prompts env st name password st'"
    and opened: "wallet_decrypt_private_key (Some password) (Some blob) 125 (Some (stale_key env)) WALLET_PRIVATE_KEY_LEN
       = (APP_OK, Some private_key)"
    and derived: "ed25519_derive_public_key (replicate 32 0) private_key = public_key"
  shows "\<exists>ev. load_encrypted_keypair env st (Some s) = (APP_OK, st', ev)
    \<and> shown ev = [print_base58 (allocates env) ''Stored public key (base58): '' public_key]"
proof -
  obtain r1 r2 where p: "prompt_string_slot 5 (console st) = (Some name, r1)"
      "prompt_yes_no (Some ''Decrypt private key for verification? (y/N): '') r1 = (1, r2)"
      "ask_password env (st\<lparr>console := r2\<rparr>) = (1, password, st')"
    using prompts by (auto simp: loading_prompts_def)
  obtain ev where f: "fetch_wallet_payload env st (Some s) (Some (replicate 5 NUL)) 5 (Some (replicate WALLET_PUBLIC_KEY_LEN 0))
      (Some (replicate WALLET_BLOB_LEN 0)) WALLET_BLOB_LEN
    = (APP_OK, Some name, Some public_key, Some blob, st\<lparr>console := r1\<rparr>, ev)" "shown ev = []"
    using fetch_stored_wallet [OF assms(1-7) p(1)] by blast
  have o: "wallet_decrypt_private_key (Some password) (Some blob) WALLET_BLOB_LEN (Some (stale_key env)) WALLET_PRIVATE_KEY_LEN
       = (APP_OK, Some private_key)" using opened by (simp add: wallet_lens)
  show ?thesis
    unfolding load_encrypted_keypair_def option.case f(1) Let_def prod.case
    using p(2,3) o f(2) derived by (simp add: app_lens(1))
qed

text \<open>
  C4: A wallet that was created can be loaded.  If \<open>create_encrypted_keypair\<close> succeeds, it sent one
  content to the calculator and showed a public key; and whenever a calculator that keeps this content
  is asked again, for the same slot and with a password of the same characters, the flow that loads
  and verifies succeeds: it shows that public key and no line about a mismatch, so the private key
  opened from the blob belongs to it.
\<close>

theorem created_wallet_loads:
  assumes "create_encrypted_keypair env st (Some s) = (APP_OK, st', ev)"
    and "length (stale_seed env) = 32" "length (stale_key env) = 64"
  shows "\<exists>name password public_key c d. creation_prompts env st name password \<and> calc s = Some d
    \<and> sent_contents (stores ev) = [c] \<and> length public_key = 32
    \<and> shown ev = [print_base58 (allocates env) ''Public key (base58): '' public_key]
    \<and> (\<forall>env2 st2 password2 st3. keeps (device env2) d c \<and> content_ok (device env2) \<and> length (stale_key env2) = 64
        \<and> loading_prompts env2 st2 name password2 st3 \<and> c_string password2 = c_string password \<longrightarrow>
          (\<exists>ev2. load_encrypted_keypair env2 st2 (Some s) = (APP_OK, st3, ev2)
            \<and> shown ev2 = [print_base58 (allocates env2) ''Stored public key (base58): '' public_key]))"
proof -
  obtain name password seed private_key public_key blob sev random st1 where
    p: "creation_prompts env st name password" "length (c_string password) < 2 ^ 60"
    and k: "ed25519_create_keypair (replicate 32 0) (Some (stale_key env)) seed = (public_key, Some private_key)"
      "length seed = 32" "length private_key = 64" "length blob = 125"
    and w: "wallet_encrypt_private_key (stale_seed env) random (Some password) (Some private_key) WALLET_PRIVATE_KEY_LEN
       (Some (replicate 125 0)) 125 = (APP_OK, Some blob, st1)"
    and b: "calc_store_binary_string (device env) (Some s) (Some name) (Some (public_key @ blob)) 157 = (APP_OK, sev)"
    and ev: "ev = map Store sev @ [Shown (print_base58 (allocates env) ''Public key (base58): '' public_key)]"
    by (rule create_ok_inv [OF assms]) (rule that; assumption)
  note pk = keypair_public [OF k(1,2)]
  have "take 157 (public_key @ blob) = public_key @ blob" using pk(1) k(4) by simp
  then obtain d c where
    c: "calc s = Some d" "sent_contents sev = [c]" "holds_entry c (calc_model s) name (public_key @ blob)"
      "tifiles_string2vartype (calc_model s) (Some ''String'') \<noteq> 0"
    using store_binary_sends [OF b] by (elim disjE exE conjE) (simp_all only: option.inject simp_thms)
  have opened: "wallet_decrypt_private_key (Some password2) (Some blob) 125 (Some out) WALLET_PRIVATE_KEY_LEN = (APP_OK, Some private_key)"
    if "c_string password2 = c_string password" "length out = 64" for password2 :: string and out
    using wallet_opens [OF assms(2) p(2) k(3) _ that(2) w that(1)] by simp
  have "\<exists>ev2. load_encrypted_keypair env2 st2 (Some s) = (APP_OK, st3, ev2)
      \<and> shown ev2 = [print_base58 (allocates env2) ''Stored public key (base58): '' public_key]"
    if "keeps (device env2) d c" "content_ok (device env2)" "length (stale_key env2) = 64"
      "loading_prompts env2 st2 name password2 st3" "c_string password2 = c_string password" for env2 st2 password2 st3
    by (rule load_created [OF that(1) c(3,1) that(2) c(4) pk(1) k(4) that(4) opened [OF that(5,3)] pk(2)])
  moreover have "sent_contents (stores ev) = [c]" "shown ev = [print_base58 (allocates env) ''Public key (base58): '' public_key]"
    using c(2) ev by simp_all
  ultimately show ?thesis using p(1) c(1) pk(1) by blast
qed

text \<open>A run that creates a wallet in slot 2 with the password \<open>pw\<close>.\<close>

definition demo_world :: app_env where
  "demo_world = \<lparr>terminal = True, fp_mode = undefined, url_variable = None, allocates = (\<lambda>_. True), device = demo_store,
     server = undefined, curl_starts = True, url_copied = True, stale_seed = replicate 32 9, stale_key = replicate 64 5\<rparr>"

definition demo_state :: app_state where
  "demo_state = \<lparr>console = [CHR ''2'', CHR 0x0A] @ ''pw'' @ [CHR 0x0A] @ ''pw'' @ [CHR 0x0A],
     random_source = [Read (replicate 32 0), Read (replicate 32 1), Read (replicate 32 2)], curl_state = undefined\<rparr>"

lemma demo_slot: "prompt_string_slot 5 (CHR ''2'' # CHR 0x0A # rest) = (Some ''Str1'', rest)"
  by (simp add: prompt_string_slot_def slot_loop.simps [of "CHR ''2'' # CHR 0x0A # rest"] read_line_def fgets_def c_string_def
      strtol_def scan_decimal_def skip_spaces_def Let_def
      isspace_def is_decimal_def decimal_digit_def slot_name_def decimal_below_10 char_of_def bit_simps)

lemma demo_password: "ask_password demo_world st = (1, write_at (replicate 256 NUL) 0 (''pw'' @ [NUL]), st\<lparr>console := rest\<rparr>)"
  if "console st = ''pw'' @ CHR 0x0A # rest"
  using password_typed [of "''pw''" 256 "replicate 256 NUL" rest] that
  by (simp add: ask_password_def demo_world_def PASSWORD_BUFFER_LENGTH_def printable_ascii_def)

lemma demo_creates: "\<exists>st' ev. create_encrypted_keypair demo_world demo_state (Some demo_calc) = (APP_OK, st', ev)"
proof -
  let ?pw = "write_at (replicate 256 NUL) 0 (''pw'' @ [NUL])"
  have pw: "c_string ?pw = ''pw''" by (rule c_string_write_at_0) simp
  obtain pk sk where k: "ed25519_create_keypair (replicate 32 0) (Some (replicate 64 5)) (replicate 32 0) = (pk, Some sk)"
      "length sk = 64" by (simp add: ed25519_create_keypair_def Let_def)
  obtain blob where b: "wallet_encrypt_private_key (replicate 32 9) [Read (replicate 32 1), Read (replicate 32 2)]
     (Some ?pw) (Some sk) WALLET_PRIVATE_KEY_LEN (Some (replicate 125 0)) 125 = (APP_OK, Some blob, [])"
    using encrypt_demo [of "replicate 32 9" sk, OF _ k(2) pw] by auto
  obtain sev where s: "calc_store_binary_string demo_store (Some demo_calc) (Some ''Str1'') (Some (pk @ blob)) 157 = (APP_OK, sev)"
    using demo_stores [of 157] by auto
  have c: "console demo_state = CHR ''2'' # CHR 0x0A # ''pw'' @ CHR 0x0A # ''pw'' @ [CHR 0x0A]"
    by (simp add: demo_state_def)
  define st1 where "st1 = demo_state\<lparr>console := ''pw'' @ CHR 0x0A # ''pw'' @ [CHR 0x0A]\<rparr>"
  have p1: "ask_password demo_world st1 = (1, ?pw, st1\<lparr>console := ''pw'' @ [CHR 0x0A]\<rparr>)"
    by (rule demo_password) (simp add: st1_def)
  have p2: "ask_password demo_world (st1\<lparr>console := ''pw'' @ [CHR 0x0A]\<rparr>) = (1, ?pw, st1\<lparr>console := []\<rparr>)"
    using demo_password [of "st1\<lparr>console := ''pw'' @ [CHR 0x0A]\<rparr>" "[]"] by simp
  have r: "random_source st1 = [Read (replicate 32 0), Read (replicate 32 1), Read (replicate 32 2)]"
    by (simp add: st1_def demo_state_def)
  have seed: "ed25519_create_seed [Read (replicate 32 0), Read (replicate 32 1), Read (replicate 32 2)] (replicate 32 9)
      = (0, replicate 32 0, [Read (replicate 32 1), Read (replicate 32 2)])"
    by (simp add: ed25519_create_seed_def)
  show ?thesis
    unfolding create_encrypted_keypair_def option.case c demo_slot prod.case Let_def st1_def [symmetric] p1 p2
    using k b s seed r by (simp add: app_lens demo_world_def)
qed

text \<open>The same calculator later, with the content it was sent, and the prompts of loading.\<close>

definition demo_kept :: "FileContent \<Rightarrow> app_env" where
  "demo_kept c = demo_world\<lparr>device := demo_store\<lparr>recv_var := \<lambda>_ content _.
     (0, content\<lparr>fc_entries := fc_entries c, num_entries := num_entries c\<rparr>)\<rparr>\<rparr>"

definition demo_later :: app_state where
  "demo_later = demo_state\<lparr>console := CHR ''2'' # CHR 0x0A # CHR ''y'' # CHR 0x0A # ''pw'' @ [CHR 0x0A]\<rparr>"

lemma demo_created_prompts:
  "creation_prompts demo_world demo_state name password \<Longrightarrow> name = ''Str1'' \<and> c_string password = ''pw''"
proof -
  have c: "console demo_state = CHR ''2'' # CHR 0x0A # ''pw'' @ CHR 0x0A # ''pw'' @ [CHR 0x0A]"
    by (simp add: demo_state_def)
  have p: "ask_password demo_world (demo_state\<lparr>console := ''pw'' @ CHR 0x0A # ''pw'' @ [CHR 0x0A]\<rparr>)
      = (1, write_at (replicate 256 NUL) 0 (''pw'' @ [NUL]), demo_state\<lparr>console := ''pw'' @ [CHR 0x0A]\<rparr>)"
    using demo_password [of "demo_state\<lparr>console := ''pw'' @ CHR 0x0A # ''pw'' @ [CHR 0x0A]\<rparr>" "''pw'' @ [CHR 0x0A]"] by simp
  assume "creation_prompts demo_world demo_state name password"
  then have "name = ''Str1''" "password = write_at (replicate 256 NUL) 0 (''pw'' @ [NUL])"
    unfolding creation_prompts_def c demo_slot using p by auto
  moreover have "c_string (write_at (replicate 256 NUL) 0 (''pw'' @ [NUL])) = ''pw''" by (rule c_string_write_at_0) simp
  ultimately show ?thesis by simp
qed

lemma demo_loading_prompts:
  "loading_prompts (demo_kept c) demo_later ''Str1'' (write_at (replicate 256 NUL) 0 (''pw'' @ [NUL])) (demo_later\<lparr>console := []\<rparr>)"
proof -
  have y: "prompt_yes_no (Some ''Decrypt private key for verification? (y/N): '') (CHR ''y'' # CHR 0x0A # rest) = (1, rest)" for rest
    by (simp add: prompt_yes_no_def read_line_def fgets_def c_string_def tolower_def)
  have a: "ask_password (demo_kept c) st = ask_password demo_world st" for st
    by (simp add: ask_password_def demo_kept_def demo_world_def)
  have p: "ask_password demo_world (demo_later\<lparr>console := ''pw'' @ [CHR 0x0A]\<rparr>)
      = (1, write_at (replicate 256 NUL) 0 (''pw'' @ [NUL]), demo_later\<lparr>console := []\<rparr>)"
    using demo_password [of "demo_later\<lparr>console := ''pw'' @ [CHR 0x0A]\<rparr>" "[]"] by simp
  show ?thesis
    unfolding loading_prompts_def
  proof (intro exI conjI)
    show "prompt_string_slot 5 (console demo_later) = (Some ''Str1'', CHR ''y'' # CHR 0x0A # ''pw'' @ [CHR 0x0A])"
      by (simp add: demo_later_def demo_slot)
    show "prompt_yes_no (Some ''Decrypt private key for verification? (y/N): '') (CHR ''y'' # CHR 0x0A # ''pw'' @ [CHR 0x0A])
      = (1, ''pw'' @ [CHR 0x0A])" by (rule y)
    show "ask_password (demo_kept c) (demo_later\<lparr>console := ''pw'' @ [CHR 0x0A]\<rparr>)
      = (1, write_at (replicate 256 NUL) 0 (''pw'' @ [NUL]), demo_later\<lparr>console := []\<rparr>)" unfolding a by (rule p)
  qed
qed

lemma created_wallet_loads_witness:
  "\<exists>st' ev c st3 ev2 public_key. create_encrypted_keypair demo_world demo_state (Some demo_calc) = (APP_OK, st', ev)
     \<and> sent_contents (stores ev) = [c] \<and> load_encrypted_keypair (demo_kept c) demo_later (Some demo_calc) = (APP_OK, st3, ev2)
     \<and> shown ev2 = [print_base58 (allocates (demo_kept c)) ''Stored public key (base58): '' public_key]"
proof -
  obtain st' ev where e: "create_encrypted_keypair demo_world demo_state (Some demo_calc) = (APP_OK, st', ev)"
    using demo_creates by blast
  have l: "length (stale_seed demo_world) = 32" "length (stale_key demo_world) = 64" by (simp_all add: demo_world_def)
  obtain name password public_key c d where *: "creation_prompts demo_world demo_state name password"
      "sent_contents (stores ev) = [c]"
      "\<forall>env2 st2 password2 st3. keeps (device env2) d c \<and> content_ok (device env2) \<and> length (stale_key env2) = 64
        \<and> loading_prompts env2 st2 name password2 st3 \<and> c_string password2 = c_string password \<longrightarrow>
          (\<exists>ev2. load_encrypted_keypair env2 st2 (Some demo_calc) = (APP_OK, st3, ev2)
            \<and> shown ev2 = [print_base58 (allocates env2) ''Stored public key (base58): '' public_key])"
    using created_wallet_loads [OF e l] by blast
  have "keeps (device (demo_kept c)) d c" "content_ok (device (demo_kept c))" "length (stale_key (demo_kept c)) = 64"
    by (simp_all add: keeps_def demo_kept_def demo_world_def demo_store_def)
  moreover have "c_string (write_at (replicate 256 NUL) 0 (''pw'' @ [NUL])) = c_string password"
    using demo_created_prompts [OF *(1)] by (simp add: c_string_def)
  ultimately show ?thesis
    using * e demo_created_prompts [OF *(1)] demo_loading_prompts [of c] by blast
qed

end
