(* ===== verification/Wallet_Network.thy ===== *)
theory Wallet_Network
  imports Wallet_Flows
begin

text \<open>
  What the flows of the wallet send over the network: to which server, which requests, and what the
  transaction is that a transfer submits.  The requests of each flow are collected from its events.
\<close>

section \<open>The requests of a flow\<close>

definition nets :: "flow_event list \<Rightarrow> client_event list" where
  "nets ev = rpc_events (concat (map (\<lambda>e. case e of Net n \<Rightarrow> [n] | _ \<Rightarrow> []) ev))"

definition sent :: "flow_event list \<Rightarrow> client_event list" where
  "sent ev = posts (nets ev)"

lemma nets_simps [simp]:
  "nets [] = []" "nets (xs @ ys) = nets xs @ nets ys" "nets (Store s # ev) = nets ev" "nets (Shown t # ev) = nets ev"
  "nets (Amount_shown a # ev) = nets ev" "nets (Wiped n # ev) = nets ev" "nets (map Store ss) = []"
  "nets (map (\<lambda>e. Net (Rpc e)) cs) = cs" "nets (map Net es) = rpc_events es" "nets (Net (Rpc e) # ev) = e # nets ev"
  by (simp_all add: nets_def o_def)
    (simp add: rpc_events_def concat_map_singleton [of "\<lambda>x. x", simplified] o_def)

lemma sent_simps [simp]:
  "sent [] = []" "sent (xs @ ys) = sent xs @ sent ys" "sent (Store s # ev) = sent ev" "sent (Shown t # ev) = sent ev"
  "sent (Amount_shown a # ev) = sent ev" "sent (Wiped n # ev) = sent ev" "sent (map Store ss) = []"
  "sent (map (\<lambda>e. Net (Rpc e)) cs) = posts cs" "sent (map Net es) = posts (rpc_events es)" "sent (free_response out) = []"
  by (simp_all add: sent_def free_response_def)

text \<open>A request to the server the URL variable names.\<close>

definition asks_server :: "app_env \<Rightarrow> string \<Rightarrow> string \<Rightarrow> client_event \<Rightarrow> bool" where
  "asks_server env verb params e \<longleftrightarrow>
     (\<exists>k. e = Post (solana_resolve_rpc_url (url_variable env)) SOLANA_DEFAULT_TIMEOUT_MS (rpc_payload k verb params))"

definition connected :: "app_env \<Rightarrow> solana_client option \<Rightarrow> bool" where
  "connected env client \<longleftrightarrow>
     (\<exists>c. client = Some c \<and> rpc_url c = Some (solana_resolve_rpc_url (url_variable env)) \<and> timeout_ms c = SOLANA_DEFAULT_TIMEOUT_MS)"

lemma resolve_https: "begins ''https://'' (solana_resolve_rpc_url u)"
  by (simp add: solana_resolve_rpc_url_def Let_def SOLANA_DEFAULT_RPC_URL_def begins_def split: option.split)

lemma resolve_no_NUL: "c_string (solana_resolve_rpc_url u) = solana_resolve_rpc_url u"
proof -
  have "c_string SOLANA_DEFAULT_RPC_URL = SOLANA_DEFAULT_RPC_URL" by (simp add: SOLANA_DEFAULT_RPC_URL_def c_string_def)
  then show ?thesis by (simp add: solana_resolve_rpc_url_def Let_def split: option.split)
qed

lemma connect_ok: "connect env st = (SOLANA_OK, client, st') \<Longrightarrow> connected env client"
  using resolve_no_NUL [of "url_variable env"]
  by (auto simp: connect_def solana_client_init_def connected_def Let_def solana_status_defs split: if_splits prod.splits)

lemma connected_posts:
  assumes "connected env client" "posts_once client verb params ev client'"
  shows "connected env client'" and "\<forall>e \<in> set (posts ev). asks_server env verb params e"
proof -
  obtain c where c: "client = Some c" "rpc_url c = Some (solana_resolve_rpc_url (url_variable env))"
      "timeout_ms c = SOLANA_DEFAULT_TIMEOUT_MS" using assms(1) by (auto simp: connected_def)
  show "connected env client'" using assms(2) c by (cases client') (auto simp: posts_once_def connected_def)
  show "\<forall>e \<in> set (posts ev). asks_server env verb params e" using assms(2) c by (auto simp: posts_once_def asks_server_def)
qed

lemma connected_asks: "connected env client \<Longrightarrow> asks client verb params e \<Longrightarrow> asks_server env verb params e"
  by (auto simp: connected_def asks_def asks_server_def)

lemma wait_asks_server:
  "wait_for_signature_confirmation envs client (Some sig) t = (result, client', ev) \<Longrightarrow> connected env client \<Longrightarrow>
   \<forall>e \<in> set (posts (rpc_events ev)). asks_server env ''getSignatureStatuses'' (status_params (c_string sig)) e"
  using wait_asks connected_asks by blast


section \<open>The flows that do not transfer\<close>

lemma fetch_sends:
  "fetch_wallet_payload env st session v n pk b k = (status, name, pk', b', st', ev) \<Longrightarrow> sent ev = []"
  by (auto simp: fetch_wallet_payload_def Let_def split: option.splits if_splits prod.splits)

lemma open_wallet_sends: "open_wallet label env st session = (status, pk, b, t, st', ev) \<Longrightarrow> sent ev = []"
  by (auto simp: open_wallet_def split: if_splits prod.splits dest: fetch_sends)

lemma create_sends: "create_encrypted_keypair env st session = (status, st', ev) \<Longrightarrow> sent ev = []"
  by (auto simp: create_encrypted_keypair_def Let_def split: option.splits if_splits prod.splits)

lemma load_sends: "load_encrypted_keypair env st session = (status, st', ev) \<Longrightarrow> sent ev = []"
  by (auto simp: load_encrypted_keypair_def Let_def split: option.splits if_splits prod.splits dest: fetch_sends)

lemma balance_sends:
  assumes "show_public_key_balance env st session = (status, st', ev)"
  shows "\<forall>e \<in> set (sent ev). \<exists>p. asks_server env ''getBalance'' p e"
proof (cases session)
  case (Some s)
  obtain st0 pk b t st1 ev1 where o: "open_wallet ''Public key: '' env st session = (st0, pk, b, t, st1, ev1)" by (metis prod_cases6)
  obtain started client st2 where c: "connect env st1 = (started, client, st2)" by (metis prod_cases3)
  obtain rpc client' out rev where g: "solana_client_get_balance (server env 0) client (Some t) (Some None) = (rpc, client', out, rev)"
    by (metis prod_cases4)
  have "set (sent ev) \<subseteq> (if started = SOLANA_OK then set (posts rev) else {})"
    using assms Some o c g open_wallet_sends [OF o]
    by (auto simp: show_public_key_balance_def Let_def split: if_splits option.splits prod.splits)
  moreover have "\<exists>p. asks_server env ''getBalance'' p e" if "started = SOLANA_OK" "e \<in> set (posts rev)" for e
    using connected_posts(2) [OF connect_ok [OF c [unfolded that(1)]] params_posts [OF g [unfolded solana_client_get_balance_def]]]
      that(2) by (auto simp: c_string_def)
  ultimately show ?thesis by (auto split: if_splits)
qed (use assms in \<open>simp add: show_public_key_balance_def\<close>)

lemma airdrop_sends:
  assumes "airdrop_to_public_key env st session = (status, st', ev)"
  shows "\<forall>e \<in> set (sent ev). \<exists>verb p. asks_server env verb p e \<and> verb \<in> {''requestAirdrop'', ''getSignatureStatuses''}"
proof (cases session)
  case (Some s)
  obtain st0 pk b t st1 ev1 where o: "open_wallet ''Public key: '' env st session = (st0, pk, b, t, st1, ev1)" by (metis prod_cases6)
  obtain ok lamports rest where l: "prompt_lamports (fp_mode env) (Some 0) (console st1) = (ok, lamports, rest)" by (metis prod_cases3)
  obtain started client st2 where c: "connect env (st1\<lparr>console := rest\<rparr>) = (started, client, st2)" by (metis prod_cases3)
  obtain rpc client' out rev where g: "solana_client_request_airdrop (server env 0) client (Some t) (the lamports) (Some None)
      = (rpc, client', out, rev)" by (metis prod_cases4)
  obtain ok2 sig where p: "parse_json_string_field (response_text out) (Some ''result'') (Some (replicate 192 NUL)) 192 = (ok2, sig)"
    by fastforce
  obtain confirmation client2 cev where w: "wait_for_signature_confirmation (\<lambda>k. server env (1 + k)) client' (Some (c_string (the sig)))
      SOLANA_AIRDROP_TIMEOUT_SECONDS = (confirmation, client2, cev)" by (metis prod_cases3)
  have "set (sent ev) \<subseteq> (if started = SOLANA_OK then set (posts rev) \<union> set (posts (rpc_events cev)) else {})"
    using assms Some o l c g p w open_wallet_sends [OF o]
    by (auto simp: airdrop_to_public_key_def Let_def split: if_splits option.splits prod.splits)
  moreover have "\<exists>verb p. asks_server env verb p e \<and> verb \<in> {''requestAirdrop'', ''getSignatureStatuses''}"
    if s: "started = SOLANA_OK" and e: "e \<in> set (posts rev) \<union> set (posts (rpc_events cev))" for e
  proof -
    note po = params_posts [OF g [unfolded solana_client_request_airdrop_def]]
    note on = connect_ok [OF c [unfolded s]]
    have "c_string ''requestAirdrop'' = ''requestAirdrop''" by (simp add: c_string_def)
    then show ?thesis
      using e connected_posts(2) [OF on po] wait_asks_server [OF w connected_posts(1) [OF on po]] by auto
  qed
  ultimately show ?thesis by (auto split: if_splits)
qed (use assms in \<open>simp add: airdrop_to_public_key_def\<close>)

section \<open>The transfer\<close>

text \<open>The base 64 text of the transfer asked for, signed with \<open>key\<close>, on some blockhash.\<close>

definition signed_transfer_text :: "bytes \<Rightarrow> bytes \<Rightarrow> bytes \<Rightarrow> u64 \<Rightarrow> string \<Rightarrow> string \<Rightarrow> bool" where
  "signed_transfer_text public_key recipient key lamports memo tx \<longleftrightarrow>
     (\<exists>blockhash msg. length blockhash = 32
        \<and> base64_decode tx = Some (1 # ed25519_sign (replicate 64 0) msg public_key key @ msg)
        \<and> parse_message msg = Some (transfer_message public_key recipient blockhash (unat lamports)
            (if memo = [] then None else Some (map byte_of_char memo)) memo_program))"

definition transaction_params :: "string \<Rightarrow> string" where
  \<open>transaction_params tx = ''["'' @ tx @ ''",{"encoding":"base64"}]''\<close>

lemma built_transfer:
  assumes b: "solana_build_transfer_transaction calloc (Some public_key) (Some recipient) lamports (Some blockhash) (Some key)
      (if memo \<noteq> [] then Some memo else None) (length memo) (Some (replicate 512 NUL)) 512 (Some (replicate 128 NUL)) 128
      = (APP_OK, tx, sig)"
    and "length public_key = 32" "length recipient = 32" "length blockhash = 32" "\<And>n. calloc n" "length memo \<le> 120"
  shows "signed_transfer_text public_key recipient key lamports memo (c_string (the tx))"
proof -
  let ?m = "if memo = [] then None else Some (map byte_of_char memo)"
  let ?msg = "message_bytes public_key recipient blockhash lamports ?m memo_program"
  let ?sg = "ed25519_sign (replicate 64 0) ?msg public_key key"
  have m: "length memo = 0 \<and> ?m = None \<or> 0 < length memo \<and> (\<exists>s. (if memo \<noteq> [] then Some memo else None) = Some s
      \<and> length memo \<le> length s \<and> ?m = Some (map byte_of_char (take (length memo) s)))" by auto
  have "length ?msg \<le> 305"
    using length_message_bytes [OF assms(2-4), of lamports ?m] assms(6) by auto
  then have "base64_encoded_len (65 + length ?msg) < 512" by (simp add: base64_encoded_len_def)
  from build_computes [where calloc = calloc and out = "replicate 512 NUL" and sig_out = "replicate 128 NUL" and priv = key
      and sig_size = 128, OF assms(2-4) assms(5,6) m this]
  have "tx = Some (write_at (replicate 512 NUL) 0 (base64_loop (1 # ?sg @ ?msg) @ [NUL]))" using b by simp
  then have "c_string (the tx) = base64_loop (1 # ?sg @ ?msg)"
    by (simp add: c_string_write_at_0 [OF base64_loop_no_NUL] del: write_at_0)
  moreover have "parse_message ?msg = Some (transfer_message public_key recipient blockhash (unat lamports) ?m memo_program)"
    by (rule parse_message_bytes [OF assms(2-4)]) (use assms(6) in auto)
  ultimately show ?thesis
    using assms(4) base64_decode_loop [of "1 # ?sg @ ?msg"] unfolding signed_transfer_text_def by metis
qed

definition transfer_request :: "app_env \<Rightarrow> bytes \<Rightarrow> bytes \<Rightarrow> bytes \<Rightarrow> u64 \<Rightarrow> string \<Rightarrow> client_event \<Rightarrow> bool" where
  "transfer_request env public_key recipient key lamports memo e \<longleftrightarrow>
     (\<exists>p. asks_server env ''getLatestBlockhash'' p e)
     \<or> (\<exists>p. asks_server env ''getSignatureStatuses'' p e)
     \<or> (\<exists>tx. asks_server env ''sendTransaction'' (transaction_params tx) e
          \<and> signed_transfer_text public_key recipient key lamports memo tx)"

lemma decoded_blockhash:
  "solana_base58_decode calloc (Some s) (Some (replicate 32 0)) 32 = (32, out) \<Longrightarrow> \<exists>bh. out = Some bh \<and> length bh = 32"
  using decode_characterised [of 32 calloc s "replicate 32 0"] by (auto split: option.splits if_splits)

lemma transaction_params_sent: "NUL \<notin> set tx \<Longrightarrow> sent_params (Some (transaction_params tx)) = transaction_params tx"
  by (rule sent_params_id) (simp_all add: transaction_params_def)

lemma latest_blockhash_posts:
  \<open>solana_client_get_latest_blockhash env client (Some None) = (rpc, client', out, ev) \<Longrightarrow>
   posts_once client ''getLatestBlockhash'' (sent_params (Some ''[{"commitment":"finalized"}]'')) ev client'\<close>
  using rpc_posts [of env client "Some ''getLatestBlockhash''"]
  by (fastforce simp: solana_client_get_latest_blockhash_def c_string_def [of "''getLatestBlockhash''"])

lemma submit_requests:
  assumes sub: "submit_transfer env st public_key recipient lamports memo key = (status, st', ev)"
  shows "\<forall>e \<in> set (sent ev). (\<exists>p. asks_server env ''getLatestBlockhash'' p e) \<or> (\<exists>p. asks_server env ''getSignatureStatuses'' p e)
     \<or> (\<exists>blockhash tx sig. asks_server env ''sendTransaction'' (transaction_params (c_string (the tx))) e \<and> length blockhash = 32
        \<and> solana_build_transfer_transaction (allocates env) (Some public_key) (Some recipient) lamports (Some blockhash) (Some key)
            (if memo \<noteq> [] then Some memo else None) (length memo) (Some (replicate 512 NUL)) 512 (Some (replicate 128 NUL)) 128
            = (APP_OK, tx, sig))"
proof -
  obtain started client st2 where c: "connect env st = (started, client, st2)" by (metis prod_cases3)
  obtain rpc c1 bh_out rev where g: "solana_client_get_latest_blockhash (server env 0) client (Some None) = (rpc, c1, bh_out, rev)"
    by (metis prod_cases4)
  obtain ok bh58 where p: "parse_json_string_field (response_text bh_out) (Some ''blockhash'') (Some (replicate 96 NUL)) 96 = (ok, bh58)"
    by fastforce
  obtain n bh where d: "solana_base58_decode (allocates env) (Some (c_string (the bh58))) (Some (replicate 32 0)) 32 = (n, bh)"
    by fastforce
  obtain bst tx sig where b: "solana_build_transfer_transaction (allocates env) (Some public_key) (Some recipient) lamports bh (Some key)
      (if memo \<noteq> [] then Some memo else None) (length memo) (Some (replicate 512 NUL)) 512 (Some (replicate 128 NUL)) 128
      = (bst, tx, sig)" by (metis prod_cases3)
  obtain rpc2 c2 out2 rev2 where t: "solana_client_send_transaction (server env 1) c1 (Some (c_string (the tx))) (Some None)
      = (rpc2, c2, out2, rev2)" by (metis prod_cases4)
  obtain confirmation c3 cev where w: "wait_for_signature_confirmation (\<lambda>k. server env (2 + k)) c2 (Some (c_string (the sig)))
      SOLANA_TRANSFER_TIMEOUT_SECONDS = (confirmation, c3, cev)" by (metis prod_cases3)
  note run = sub [unfolded submit_transfer_def Let_def c prod.case g p d]
  have "sent ev = [] \<or> started = SOLANA_OK \<and> sent ev = posts rev
    \<or> started = SOLANA_OK \<and> n = 32 \<and> bst = APP_OK
      \<and> set (sent ev) \<subseteq> set (posts rev) \<union> set (posts rev2) \<union> set (posts (rpc_events cev))"
    using run b t w by (cases "ok = 0") (auto split: if_splits option.splits)
  then consider "sent ev = []" | "started = SOLANA_OK" "sent ev = posts rev"
    | "started = SOLANA_OK" "n = 32" "bst = APP_OK"
      "set (sent ev) \<subseteq> set (posts rev) \<union> set (posts rev2) \<union> set (posts (rpc_events cev))" by blast
  then show ?thesis
  proof cases
    case 1
    then show ?thesis by simp
  next
    case 2
    note on = connect_ok [OF c [unfolded 2(1)]]
    note po = latest_blockhash_posts [OF g]
    show ?thesis using connected_posts(2) [OF on po] 2(2) by auto
  next
    case 3
    note on = connect_ok [OF c [unfolded 3(1)]]
    note po = latest_blockhash_posts [OF g]
    note on1 = connected_posts(1) [OF on po]
    let ?tx = "c_string (the tx)"
    have po2: "posts_once c1 ''sendTransaction'' (transaction_params ?tx) rev2 c2"
      using params_posts [OF t [unfolded solana_client_send_transaction_def]] transaction_params_sent [OF c_string_no_NUL]
      by (simp add: c_string_def [of "''sendTransaction''"] transaction_params_def)
    note on2 = connected_posts(1) [OF on1 po2]
    obtain blockhash where bh: "bh = Some blockhash" "length blockhash = 32" using decoded_blockhash [OF d [unfolded 3(2)]] by blast
    then show ?thesis
      using 3(3,4) b connected_posts(2) [OF on po] connected_posts(2) [OF on1 po2] wait_asks_server [OF w on2] by blast
  qed
qed

lemma submit_sends:
  assumes "submit_transfer env st public_key recipient lamports memo key = (status, st', ev)"
    and len: "length public_key = 32" "length recipient = 32" "\<And>n. allocates env n" "length memo \<le> 120"
  shows "\<forall>e \<in> set (sent ev). transfer_request env public_key recipient key lamports memo e"
  using submit_requests [OF assms(1)] built_transfer [where calloc = "allocates env", OF _ len(1,2) _ len(3,4)]
  unfolding transfer_request_def by blast

lemma fetched_key_length:
  "fetch_wallet_payload env st session v n (Some pk) b k = (status, name, pk', b', st', ev) \<Longrightarrow> length pk = 32 \<Longrightarrow>
   \<exists>q. pk' = Some q \<and> length q = 32"
  by (auto simp: fetch_wallet_payload_def read_wallet_entry_def wallet_secure_zero_def app_lens Let_def
      split: option.splits if_splits prod.splits)

lemma opened_key_length:
  "open_wallet label env st session = (status, public_key, b, t, st', ev) \<Longrightarrow> length public_key = 32"
  using fetched_key_length [of env st session "Some (replicate 5 NUL)" 5 "replicate WALLET_PUBLIC_KEY_LEN 0"]
  by (fastforce simp: open_wallet_def app_lens(1) split: if_splits prod.splits)

lemma key_loop_answer: "fst (key_loop calloc text58 n out k stdin) \<in> {0, 1}"
  by (induction calloc text58 n out k stdin rule: key_loop.induct)
    (subst key_loop.simps, auto simp: Let_def split: option.splits prod.splits)

text \<open>What the prompts of a transfer gave: the amount, the recipient, the memo and the password.\<close>

definition transfer_prompts ::
    "app_env \<Rightarrow> app_state \<Rightarrow> u64 \<Rightarrow> bytes \<Rightarrow> string \<Rightarrow> string \<Rightarrow> bool" where
  "transfer_prompts env st lamports recipient memo password \<longleftrightarrow>
     (\<exists>r1 text58 r2 r3 st'. prompt_lamports (fp_mode env) (Some 0) (console st) = (1, Some lamports, r1)
        \<and> prompt_base58_public_key (allocates env) (Some ''Enter recipient public key: '') (Some (replicate 96 NUL)) 96
            (Some (replicate 32 0)) 32 r1 = (1, text58, Some recipient, r2)
        \<and> memo_loop SOLANA_DEFAULT_MEMO r2 = (memo, r3)
        \<and> ask_password env (st\<lparr>console := r3\<rparr>) = (1, password, st'))"

lemma prompt_lamports_answer:
  "prompt_lamports fp (Some v0) stdin = (ok, v, rest) \<Longrightarrow> ok \<noteq> 0 \<Longrightarrow> ok = 1 \<and> (\<exists>x. v = Some x)"
  by (auto simp: prompt_lamports_def split: prod.splits option.splits)

lemma prompt_key_answer:
  "prompt_base58_public_key calloc (Some p) (Some text58) n (Some bs) 32 stdin = (ok, t, out, rest) \<Longrightarrow> ok \<noteq> 0 \<Longrightarrow> length bs = 32 \<Longrightarrow>
   ok = 1 \<and> (\<exists>key. out = Some key \<and> length key = 32)"
proof -
  assume p: "prompt_base58_public_key calloc (Some p) (Some text58) n (Some bs) 32 stdin = (ok, t, out, rest)" "ok \<noteq> 0" "length bs = 32"
  then obtain t' where k: "key_loop calloc text58 n (Some bs) 32 stdin = (ok, t', out, rest)"
    by (auto simp: prompt_base58_public_key_def split: if_splits prod.splits)
  moreover from this have "ok = 1" using key_loop_answer [of calloc text58 n "Some bs" 32 stdin] p(2) by auto
  ultimately show ?thesis using key_loop_key [of calloc text58 n "Some bs" 32 stdin t' out rest bs] p(3) by auto
qed

lemma memo_length: "memo_loop SOLANA_DEFAULT_MEMO stdin = (memo, rest) \<Longrightarrow> length memo \<le> 120"
  using memo_loop_memo [of SOLANA_DEFAULT_MEMO stdin memo rest] by (auto simp: SOLANA_DEFAULT_MEMO_def)

lemma send_requests:
  assumes "send_sol_transaction env st (Some s) = (status, st', ev)" "sent ev \<noteq> []"
  obtains public_key blob t st1 ev1 lamports recipient memo password key st2 status2 ev2 where
    "open_wallet ''Sender public key: '' env st (Some s) = (APP_OK, public_key, blob, t, st1, ev1)"
    and "transfer_prompts env st1 lamports recipient memo password"
    and "wallet_decrypt_private_key (Some password) (Some blob) WALLET_BLOB_LEN (Some (replicate 64 0)) WALLET_PRIVATE_KEY_LEN
       = (APP_OK, Some key)"
    and "length public_key = 32" "length recipient = 32" "length memo \<le> 120"
    and "submit_transfer env st2 public_key recipient lamports memo key = (status2, st', ev2)" "sent ev = sent ev2"
proof -
  obtain st0 public_key blob t st1 ev1 where o: "open_wallet ''Sender public key: '' env st (Some s) = (st0, public_key, blob, t, st1, ev1)"
    by (metis prod_cases6)
  obtain ok lamports r1 where l: "prompt_lamports (fp_mode env) (Some 0) (console st1) = (ok, lamports, r1)" by (metis prod_cases3)
  obtain ok2 text58 recipient r2 where k: "prompt_base58_public_key (allocates env) (Some ''Enter recipient public key: '')
      (Some (replicate 96 NUL)) 96 (Some (replicate 32 0)) 32 r1 = (ok2, text58, recipient, r2)" by (metis prod_cases4)
  obtain memo r3 where m: "memo_loop SOLANA_DEFAULT_MEMO r2 = (memo, r3)" by fastforce
  obtain ok3 password st2 where a: "ask_password env (st1\<lparr>console := r3\<rparr>) = (ok3, password, st2)" by (metis prod_cases3)
  obtain dst key where w: "wallet_decrypt_private_key (Some password) (Some blob) WALLET_BLOB_LEN (Some (replicate 64 0))
      WALLET_PRIVATE_KEY_LEN = (dst, key)" by fastforce
  obtain status2 st3 ev2 where sub: "submit_transfer env st2 public_key (the recipient) (the lamports) memo (the key)
      = (status2, st3, ev2)" by (metis prod_cases3)
  have none: "sent ev1 = []" by (rule open_wallet_sends [OF o])
  have ok: "st0 = APP_OK \<and> ok \<noteq> 0 \<and> ok2 \<noteq> 0 \<and> ok3 \<noteq> 0 \<and> dst = APP_OK \<and> st' = st3 \<and> sent ev = sent ev2"
    using assms none o l k m a w sub by (simp add: send_sol_transaction_def Let_def split: if_splits) auto
  obtain x where x: "ok = 1" "lamports = Some x" using prompt_lamports_answer [OF l] ok by blast
  obtain r where r: "ok2 = 1" "recipient = Some r" "length r = 32" using prompt_key_answer [OF k] ok by auto
  have p: "ok3 = 1" using ask_password_result [OF a] ok by blast
  obtain d where d: "key = Some d"
    using w by (cases key) (auto simp: wallet_decrypt_private_key_def wallet_secure_zero_def decrypt_body_def Let_def
        split: option.splits if_splits prod.splits)
  show ?thesis
  proof (rule that)
    show "open_wallet ''Sender public key: '' env st (Some s) = (APP_OK, public_key, blob, t, st1, ev1)" using o ok by simp
    show "transfer_prompts env st1 x r memo password"
      unfolding transfer_prompts_def using l [unfolded x] k [unfolded r(1,2)] m a [unfolded p] by blast
    show "wallet_decrypt_private_key (Some password) (Some blob) WALLET_BLOB_LEN (Some (replicate 64 0)) WALLET_PRIVATE_KEY_LEN
       = (APP_OK, Some d)" using w d ok by simp
    show "submit_transfer env st2 public_key r x memo d = (status2, st', ev2)" using sub ok x(2) r(2) d by simp
  qed (use opened_key_length [OF o] r(3) memo_length [OF m] ok in auto)
qed

text \<open>The requests each option of the menu makes.\<close>

definition option_requests :: "int \<Rightarrow> string set" where
  "option_requests choice =
     (if choice = 3 then {''requestAirdrop'', ''getSignatureStatuses''}
      else if choice = 4 then {''getBalance''}
      else if choice = 5 then {''getLatestBlockhash'', ''sendTransaction'', ''getSignatureStatuses''}
      else {})"

lemma send_verbs:
  assumes "send_sol_transaction env st session = (status, st', ev)"
  shows "\<forall>e \<in> set (sent ev). \<exists>verb p. asks_server env verb p e \<and> verb \<in> option_requests 5"
proof (cases "\<exists>s. session = Some s \<and> sent ev \<noteq> []")
  case True
  then obtain s where s: "session = Some s" "sent ev \<noteq> []" by blast
  show ?thesis
    by (rule send_requests [OF assms [unfolded s(1)] s(2)]) (use submit_requests in \<open>fastforce simp: option_requests_def\<close>)
qed (use assms in \<open>cases session; simp add: send_sol_transaction_def\<close>)

section \<open>A run that reaches the network\<close>

definition busy_server :: http_env where
  "busy_server = \<lparr>params_alloc = True, payload_alloc = True, easy_init = True, slist_append = True,
     chunks = [], transfer_ok = True, http_status = 503, empty_alloc = True\<rparr>"

definition demo_content :: "bytes \<Rightarrow> FileContent" where
  "demo_content q = \<lparr>fc_model = CALC_TI83P, fc_comment = [], num_entries = 1,
     fc_entries = Some [Some (stored_entry CALC_TI83P ''Str1'' q)], model_dst = CALC_TI83P\<rparr>"

definition demo_network :: "bytes \<Rightarrow> app_env" where
  "demo_network blob = (demo_kept (demo_content (replicate 32 3 @ blob)))\<lparr>server := \<lambda>_. busy_server\<rparr>"

definition demo_rest :: string where
  "demo_rest = decimal 5000 @ CHR 0x0A # replicate 32 (CHR ''1'') @ CHR 0x0A # [] @ CHR 0x0A # ''pw'' @ [CHR 0x0A]"

definition demo_sending :: app_state where
  "demo_sending = demo_state\<lparr>console := CHR ''2'' # CHR 0x0A # demo_rest,
     curl_state := \<lparr>initialized = True, init_status = SOLANA_OK\<rparr>\<rparr>"

lemma demo_opens:
  assumes "length blob = 125"
  shows "\<exists>t ev. open_wallet label (demo_network blob) demo_sending (Some demo_calc)
    = (APP_OK, replicate 32 3, blob, t, demo_sending\<lparr>console := demo_rest\<rparr>, ev) \<and> c_string t = t \<and> t \<noteq> []"
proof -
  let ?env = "demo_network blob"
  have k: "keeps (device ?env) d (demo_content (replicate 32 3 @ blob))" for d
    by (simp add: keeps_def demo_network_def demo_kept_def demo_world_def demo_store_def)
  have h: "holds_entry (demo_content (replicate 32 3 @ blob)) (calc_model demo_calc) ''Str1'' (replicate 32 3 @ blob)"
    by (simp add: holds_entry_def demo_content_def demo_calc_def)
  have ok: "content_ok (device ?env)" "calc demo_calc = Some 2"
    by (simp_all add: demo_network_def demo_kept_def demo_world_def demo_store_def demo_calc_def)
  have ty: "tifiles_string2vartype (calc_model demo_calc) (Some ''String'') \<noteq> 0"
    by (simp add: demo_calc_def demo_string_type)
  have slot: "prompt_string_slot 5 (console demo_sending) = (Some ''Str1'', demo_rest)"
    by (simp add: demo_sending_def demo_slot)
  obtain ev where f: "fetch_wallet_payload ?env demo_sending (Some demo_calc) (Some (replicate 5 NUL)) 5
      (Some (replicate WALLET_PUBLIC_KEY_LEN 0)) (Some (replicate WALLET_BLOB_LEN 0)) WALLET_BLOB_LEN
    = (APP_OK, Some ''Str1'', Some (replicate 32 3), Some blob, demo_sending\<lparr>console := demo_rest\<rparr>, ev)"
    using fetch_stored_wallet [OF k h ok(2,1) ty _ assms slot] by auto
  let ?t = "base58_text (replicate 32 3)"
  have "length ?t < 96" "?t \<noteq> []" using length_base58_text [of "replicate 32 3"] base58_text_nonempty [of "replicate 32 3"] by auto
  then have e: "solana_base58_encode (\<lambda>_. True) (Some (replicate 32 3)) (Some (replicate 96 NUL)) 96
      = (int (length ?t), Some (write_at (replicate 96 NUL) 0 (?t @ [NUL])))"
    by (subst encode_characterised) simp_all
  have a: "allocates ?env = (\<lambda>_. True)" by (simp add: demo_network_def demo_kept_def demo_world_def)
  have c: "c_string (write_at (replicate 96 NUL) 0 (?t @ [NUL])) = ?t" by (rule c_string_write_at_0 [OF base58_text_no_NUL])
  show ?thesis
    unfolding open_wallet_def f prod.case Let_def a e option.sel c
    using \<open>?t \<noteq> []\<close> c_string_NUL_free [OF base58_text_no_NUL] by simp
qed

lemma zero_key: "base58_bytes (replicate 32 (CHR ''1'')) = Some (replicate 32 0)"
proof -
  have v: "solana_base58_value (CHR ''1'') = 0" using value_of_alphabet [of 0] by (simp add: b58_char_0)
  have "CHR ''1'' \<in> set solana_base58_alphabet" by (simp add: solana_base58_alphabet_def)
  then show ?thesis by (simp add: base58_bytes_def v map_replicate_const list_all_iff)
qed

lemma demo_prompts:
  "prompt_lamports fp (Some 0) demo_rest = (1, Some 5000, drop 5 demo_rest)"
  "\<exists>text58. prompt_base58_public_key (\<lambda>_. True) (Some p) (Some (replicate 96 NUL)) 96 (Some (replicate 32 0)) 32 (drop 5 demo_rest)
     = (1, text58, Some (replicate 32 0), CHR 0x0A # ''pw'' @ [CHR 0x0A])"
  "memo_loop SOLANA_DEFAULT_MEMO (CHR 0x0A # ''pw'' @ [CHR 0x0A]) = (SOLANA_DEFAULT_MEMO, ''pw'' @ [CHR 0x0A])"
proof -
  have five: "decimal 5000 = ''5000''"
    by (simp add: decimal_def digits_of.simps [of 10] char_of_def bit_simps)
  have r: "demo_rest = ''5000'' @ CHR 0x0A # replicate 32 (CHR ''1'') @ CHR 0x0A # CHR 0x0A # ''pw'' @ [CHR 0x0A]"
    unfolding demo_rest_def five by simp
  have d: "drop 5 demo_rest = replicate 32 (CHR ''1'') @ CHR 0x0A # CHR 0x0A # ''pw'' @ [CHR 0x0A]"
    unfolding r by simp
  have l1: "read_line 64 demo_rest = Some (''5000'', drop 5 demo_rest)"
    unfolding d unfolding r by (rule read_line_typed) simp_all
  have "parse_amount fp ''5000'' = Some 5000" using lamports_parsed [of 5000 fp] unfolding five by simp
  then show "prompt_lamports fp (Some 0) demo_rest = (1, Some 5000, drop 5 demo_rest)"
    by (simp add: prompt_lamports_def lamports_loop.simps [of fp demo_rest] l1)
  have l2: "read_line 128 (drop 5 demo_rest) = Some (replicate 32 (CHR ''1''), CHR 0x0A # ''pw'' @ [CHR 0x0A])"
    unfolding d by (rule read_line_typed) simp_all
  have dec: "solana_base58_decode (\<lambda>_. True) (Some (replicate 32 (CHR ''1''))) (Some (replicate 32 0)) 32 = (32, Some (replicate 32 0))"
    by (subst decode_characterised) (simp_all add: zero_key)
  show "\<exists>text58. prompt_base58_public_key (\<lambda>_. True) (Some p) (Some (replicate 96 NUL)) 96 (Some (replicate 32 0)) 32 (drop 5 demo_rest)
     = (1, text58, Some (replicate 32 0), CHR 0x0A # ''pw'' @ [CHR 0x0A])"
    unfolding prompt_base58_public_key_def key_loop.simps [of _ _ _ _ _ "drop 5 demo_rest"] l2 by (simp add: dec)
  have "read_line 136 ([] @ CHR 0x0A # ''pw'' @ [CHR 0x0A]) = Some ([], ''pw'' @ [CHR 0x0A])"
    by (rule read_line_typed) simp_all
  then show "memo_loop SOLANA_DEFAULT_MEMO (CHR 0x0A # ''pw'' @ [CHR 0x0A]) = (SOLANA_DEFAULT_MEMO, ''pw'' @ [CHR 0x0A])"
    by (subst memo_loop.simps) simp
qed

lemma demo_wallet_blob: "\<exists>blob. length blob = 125
  \<and> wallet_decrypt_private_key (Some (write_at (replicate 256 NUL) 0 (''pw'' @ [NUL]))) (Some blob) WALLET_BLOB_LEN
      (Some (replicate 64 0)) WALLET_PRIVATE_KEY_LEN = (APP_OK, Some (replicate 64 7))"
proof -
  have "c_string (write_at (replicate 256 NUL) 0 (''pw'' @ [NUL])) = ''pw''" by (rule c_string_write_at_0) simp
  moreover have "c_string ''pw'' = ''pw''" by (simp add: c_string_def)
  ultimately have pw: "c_string ''pw'' = ''pw''" "c_string (write_at (replicate 256 NUL) 0 (''pw'' @ [NUL])) = ''pw''" by auto
  obtain salt nonce where e: "wallet_encrypt_private_key (replicate 32 9) [Read (replicate 32 1), Read (replicate 32 2)] (Some ''pw'')
     (Some (replicate 64 7)) WALLET_PRIVATE_KEY_LEN (Some (replicate 125 0)) 125
     = (APP_OK, Some (seal (map byte_of_char ''pw'') salt nonce (replicate 64 7)), [])"
    using encrypt_demo [of "replicate 32 9" "replicate 64 7", OF _ _ pw(1)] by auto
  obtain blob where b: "Some blob = Some (seal (map byte_of_char ''pw'') salt nonce (replicate 64 7))" "length blob = 125"
    using encrypt_ok_inv [OF _ _ _ _ e] length_seal pw by fastforce
  have "wallet_decrypt_private_key (Some (write_at (replicate 256 NUL) 0 (''pw'' @ [NUL]))) (Some blob) 125
      (Some (replicate 64 0)) WALLET_PRIVATE_KEY_LEN = (APP_OK, Some (replicate 64 7))"
    by (rule wallet_opens [OF _ _ _ _ _ e [folded b(1)]]) (use pw in simp_all)
  then show ?thesis using b(2) by (intro exI [of _ blob]) (simp add: wallet_lens)
qed

text \<open>The server answers 503 to the first request, and the flow ends there.\<close>

lemma demo_sends:
  "\<exists>blob status st' ev. send_sol_transaction (demo_network blob) demo_sending (Some demo_calc) = (status, st', ev) \<and> sent ev \<noteq> []"
proof -
  let ?pw = "write_at (replicate 256 NUL) 0 (''pw'' @ [NUL])"
  obtain blob where b: "length blob = 125"
      "wallet_decrypt_private_key (Some ?pw) (Some blob) WALLET_BLOB_LEN (Some (replicate 64 0)) WALLET_PRIVATE_KEY_LEN
      = (APP_OK, Some (replicate 64 7))" using demo_wallet_blob by blast
  let ?env = "demo_network blob"
  obtain t ev1 where o: "open_wallet ''Sender public key: '' ?env demo_sending (Some demo_calc)
      = (APP_OK, replicate 32 3, blob, t, demo_sending\<lparr>console := demo_rest\<rparr>, ev1)" using demo_opens [OF b(1)] by blast
  obtain text58 where k: "prompt_base58_public_key (\<lambda>_. True) (Some ''Enter recipient public key: '') (Some (replicate 96 NUL)) 96
      (Some (replicate 32 0)) 32 (drop 5 demo_rest) = (1, text58, Some (replicate 32 0), CHR 0x0A # ''pw'' @ [CHR 0x0A])"
    using demo_prompts(2) by blast
  have a: "ask_password ?env st = ask_password demo_world st" for st
    by (simp add: ask_password_def demo_network_def demo_kept_def demo_world_def)
  define st4 where "st4 = demo_sending\<lparr>console := []\<rparr>"
  obtain r3 pw where r3: "r3 = ''pw'' @ [CHR 0x0A]" and pw: "pw = ?pw" by simp
  have p: "ask_password ?env (demo_sending\<lparr>console := ''pw'' @ [CHR 0x0A]\<rparr>) = (1, ?pw, st4)"
    unfolding a using demo_password [of "demo_sending\<lparr>console := ''pw'' @ [CHR 0x0A]\<rparr>" "[]"] by (simp add: st4_def)
  have m: "allocates ?env = (\<lambda>_. True)" "curl_starts ?env" "url_copied ?env" "server ?env 0 = busy_server" "url_variable ?env = None"
    by (simp_all add: demo_network_def demo_kept_def demo_world_def)
  obtain client st5 where c: "connect ?env st4 = (SOLANA_OK, client, st5)" "client \<noteq> None" "rpc_url (the client) \<noteq> None"
    using resolve_no_NUL [of None] m
    by (auto simp: connect_def solana_client_init_def solana_ensure_curl_initialized_def st4_def demo_sending_def
        solana_resolve_rpc_url_def SOLANA_DEFAULT_RPC_URL_def solana_status_defs begins_def)
  obtain cl u where cl: "client = Some cl" "rpc_url cl = Some u" using c(2,3) by auto
  have an: "answers busy_server [] 503" by (simp add: answers_def busy_server_def)
  obtain client' ev where g: "solana_client_get_latest_blockhash busy_server client (Some None)
      = (SOLANA_ERROR_HTTP_STATUS, client', Some (Some []), ev)" "posts ev \<noteq> []"
  proof -
    let ?p = \<open>''[{"commitment":"finalized"}]''\<close>
    have "c_string ''getLatestBlockhash'' = ''getLatestBlockhash''" "c_string ?p = ?p" by (simp_all add: c_string_def)
    moreover have "printed_ok (rpc_payload (next_request_id cl) ''getLatestBlockhash'' ?p)"
      using length_decimal_u64 [of "next_request_id cl"] by (intro printed_ok_small) (simp add: rpc_payload_def)
    ultimately show ?thesis
      using rpc_answers [OF an cl(2), of "''getLatestBlockhash''" ?p None] that cl(1)
      by (auto simp: solana_client_get_latest_blockhash_def http_result_def)
  qed
  have s: "submit_transfer ?env st4 (replicate 32 3) (replicate 32 0) 5000 SOLANA_DEFAULT_MEMO (replicate 64 7)
      = (APP_ERR_IO, st5, map (\<lambda>e. Net (Rpc e)) ev @ free_response (Some (Some [])))"
    unfolding submit_transfer_def c(1) prod.case Let_def m(4) g(1) by (simp add: solana_status_defs)
  have "\<exists>ev. send_sol_transaction ?env demo_sending (Some demo_calc) = (APP_ERR_IO, st5, ev) \<and> sent ev \<noteq> []"
    unfolding send_sol_transaction_def option.case o prod.case Let_def m(1)
    using g(2) by (simp add: demo_prompts(1) demo_prompts(3) [folded r3] k [folded r3] p [folded r3 pw] b(2) [folded pw] s)
  then show ?thesis by blast
qed

section \<open>Properties\<close>

text \<open>
  C16: The wallet talks to one server, over https, and only to say what the option is about.  Every
  message of a flow goes to the URL resolved from the environment, which begins with \<open>https://\<close>
  whatever the variable holds, with the default timeout; creating and loading send nothing; the
  balance, the airdrop and the transfer send only their own requests.
\<close>

theorem network_discipline:
  assumes "run_option env st session choice = (status, st', ev)" "1 \<le> choice" "choice \<le> 5"
  shows "begins ''https://'' (solana_resolve_rpc_url (url_variable env))
    \<and> (\<forall>e \<in> set (sent ev). \<exists>verb p k. verb \<in> option_requests choice
        \<and> e = Post (solana_resolve_rpc_url (url_variable env)) SOLANA_DEFAULT_TIMEOUT_MS (rpc_payload k verb p))"
proof -
  have "choice = 1 \<or> choice = 2 \<or> choice = 3 \<or> choice = 4 \<or> choice = 5" using assms(2,3) by presburger
  then have "\<forall>e \<in> set (sent ev). \<exists>verb p. asks_server env verb p e \<and> verb \<in> option_requests choice"
    using assms(1) create_sends load_sends airdrop_sends balance_sends send_verbs
    by (elim disjE) (fastforce simp: run_option_def option_requests_def)+
  then show ?thesis using resolve_https unfolding asks_server_def by blast
qed

lemma network_discipline_witness:
  "\<exists>blob status st' ev. send_sol_transaction (demo_network blob) demo_sending (Some demo_calc) = (status, st', ev) \<and> sent ev \<noteq> []
     \<and> (\<forall>e \<in> set (sent ev). \<exists>verb p k. verb \<in> option_requests 5
        \<and> e = Post SOLANA_DEFAULT_RPC_URL SOLANA_DEFAULT_TIMEOUT_MS (rpc_payload k verb p))"
proof -
  obtain blob status st' ev where s: "send_sol_transaction (demo_network blob) demo_sending (Some demo_calc) = (status, st', ev)"
      "sent ev \<noteq> []" using demo_sends by blast
  then have "run_option (demo_network blob) demo_sending (Some demo_calc) 5 = (status, st', ev)" by (simp add: run_option_def)
  from network_discipline [OF this]
  have "\<forall>e \<in> set (sent ev). \<exists>verb p k. verb \<in> option_requests 5
        \<and> e = Post (solana_resolve_rpc_url (url_variable (demo_network blob))) SOLANA_DEFAULT_TIMEOUT_MS (rpc_payload k verb p)" by simp
  moreover have "solana_resolve_rpc_url (url_variable (demo_network blob)) = SOLANA_DEFAULT_RPC_URL"
    by (simp add: demo_network_def demo_kept_def demo_world_def solana_resolve_rpc_url_def Let_def)
  ultimately show ?thesis using s by auto
qed

text \<open>
  C3: A transfer sends what was asked for, signed with the key the password opened.  When memory can be
  allocated and the flow that sends lamports sends anything at all, then the wallet was read, the prompts
  gave an amount, a recipient, a memo and a password, and the password opened the stored private key; and
  every message is a request for a blockhash or for the status of a signature, or submits the signed
  transfer of exactly this amount from the wallet's account to this recipient with this memo.
\<close>

theorem transfer_as_prompted:
  assumes "send_sol_transaction env st (Some s) = (status, st', ev)" "sent ev \<noteq> []" "\<And>n. allocates env n"
  shows "\<exists>public_key blob t st1 ev1 lamports recipient memo password key.
    open_wallet ''Sender public key: '' env st (Some s) = (APP_OK, public_key, blob, t, st1, ev1)
    \<and> transfer_prompts env st1 lamports recipient memo password
    \<and> wallet_decrypt_private_key (Some password) (Some blob) WALLET_BLOB_LEN (Some (replicate 64 0)) WALLET_PRIVATE_KEY_LEN
       = (APP_OK, Some key)
    \<and> (\<forall>e \<in> set (sent ev). transfer_request env public_key recipient key lamports memo e)"
proof (rule send_requests [OF assms(1,2)], goal_cases)
  case (1 public_key blob t st1 ev1 lamports recipient memo password key st2 status2 ev2)
  have "\<forall>e \<in> set (sent ev). transfer_request env public_key recipient key lamports memo e"
    using submit_sends [OF 1(7) 1(4,5) assms(3) 1(6)] 1(8) by simp
  with 1(1-3) show ?case by blast
qed

lemma transfer_as_prompted_witness:
  "\<exists>blob status st' ev public_key lamports recipient memo key.
     send_sol_transaction (demo_network blob) demo_sending (Some demo_calc) = (status, st', ev) \<and> sent ev \<noteq> []
     \<and> (\<forall>e \<in> set (sent ev). transfer_request (demo_network blob) public_key recipient key lamports memo e)"
proof -
  obtain blob status st' ev where s: "send_sol_transaction (demo_network blob) demo_sending (Some demo_calc) = (status, st', ev)"
      "sent ev \<noteq> []" using demo_sends by blast
  have "allocates (demo_network blob) n" for n by (simp add: demo_network_def demo_kept_def demo_world_def)
  from transfer_as_prompted [OF s this] s show ?thesis by blast
qed

end
