(* ===== verification/Spec2Isabelle.thy ===== *)
theory Spec2Isabelle
  imports Prelude Base58 Base64 Sha512 Calc_Session Wallet_Crypto Limbs Limb_Range Little_Endian Field Field_Value
    Scalar Scalar_Value Precomp Group Ed25519 Signature Transaction Solana_Client Ti_Types Charset Ticonv Calc_Store C_Text C_Double Prompts
    Rpc_Json Dbus_Packet Dbus_Wire Link_Program Conversation Cmd_Z80 Key_Tables Screens Calc_73 Link_Talk Link_Variables
    Dusb_Packet Dusb_Wire Dusb_Cmd Calc_84p Dusb_Talk Usb_Variables Dirlist Calc_Api Calc_Tables
    Wallet_App Wallet_Flows Wallet_Network
begin

text \<open>
  A verification development for the TI-83+ Solana wallet (\<open>src/\<close>): a desktop program in C that keeps a
  Solana key pair, encrypted under a password, in a string variable of a TI calculator, and signs and
  submits transfers with it.

  \<^bold>\<open>The program.\<close>  \<open>main.c\<close> opens the calculator (\<open>calc_session.c\<close>, over the vendored \<open>tilibs/\<close>), starts
  a polling thread, checks the calculator once, stops the thread and runs a menu.  Its five flows read
  answers from the terminal, store and fetch variables (\<open>calc_string_store.c\<close>), seal and open the key
  (\<open>wallet_crypto.c\<close>), derive and sign (\<open>keypair/\<close>), build the transaction (\<open>main.c\<close>), encode it
  (\<open>solana_encoding.c\<close>), and talk to a JSON-RPC server over libcurl (\<open>solana_client.c\<close>), waiting for the
  confirmation.  All of it is sequential but for the polling thread.

  \<^bold>\<open>Conventions.\<close>  A function of the code is a function of its arguments and of the state it changes,
  returning the result and the new state; a buffer it fills is passed in with its old contents and
  returned (\<open>write_at\<close>, theory Prelude); a failing call returns the code's status.  Machine integers are
  words (\<open>byte\<close>, \<open>u64\<close>), or integers where the code's arithmetic is shown not to leave its type.
  What lies outside - operating system, libcurl, GLib, allocators, calculator, server, terminal - answers
  through the records \<open>ti_env\<close>, \<open>store_env\<close>, \<open>http_env\<close>, \<open>app_env\<close>, \<open>link_env\<close>, about which nothing is assumed
  unless a theorem says so.  Effects are lists of events: blocks acquired and released, requests sent.

  \<^bold>\<open>Theories, with the code they model and what they show.\<close>
  \<^item> Prelude: machine types, C strings in buffers, bounded writes, values of digit strings, the
    collections of rewrite rules.
  \<^item> Base58, Base64: \<open>solana/solana_encoding.c\<close>.  Both digit loops are interpretations of one locale of
    base conversion; the functions compute the canonical digits, succeed exactly when buffer and
    allocation suffice, and encode and decode are inverse.
  \<^item> Sha512: \<open>keypair/sha512.c\<close>.  The streaming context is a locale interpreted for the code; every cut of
    a message into pieces gives the FIPS 180-4 digest, which is defined separately.
  \<^item> Wallet_Crypto: \<open>wallet_crypto.c\<close>, \<open>keypair/seed.c\<close>.  HMAC equals RFC 2104, PBKDF2 equals RFC 8018; a
    sealed key opens with its password; a blob opens exactly if version and tag match, and a refusal zeroes
    the 64 bytes of the key.
  \<^item> Limbs, Limb_Range, Little_Endian: carry and spread steps on limb vectors, intervals that pass through
    them, the locale \<open>limb_value\<close> of the number they stand for; when all intermediate values fit in 64
    bits; numbers of byte arrays.
  \<^item> Field, Field_Value: \<open>keypair/fe.c\<close>.  Products and squares are right modulo \<open>2 ^ 255 - 19\<close> and stay in
    range; inversion and root exponents are the powers of the addition chains.
  \<^item> Scalar, Scalar_Value: \<open>keypair/sc.c\<close>.  The straight-line reductions give the one residue below the
    group order, for every input, without overflow.
  \<^item> Precomp, Group: \<open>keypair/precomp_data.h\<close> and \<open>ge.c\<close>, every function and every table entry.
  \<^item> Ed25519, Signature: \<open>keypair.c\<close>, \<open>sign.c\<close>, \<open>verify.c\<close>, \<open>key_exchange.c\<close>, \<open>add_scalar.c\<close>; signing refines
    the equation of EdDSA over integers.
  \<^item> Calc_Session: \<open>calc_session.c\<close> and the part of \<open>main\<close> around it.  Open and cleanup own their resources
    on every path; the interleavings of \<open>main\<close> and the polling thread are a step relation, with invariants
    by rule induction: no use after cleanup, no deadlock at shutdown, and the race of the ready check.
  \<^item> Calc_Store: \<open>calc_string_store.c\<close> with the contents and entries of \<open>libtifiles\<close> it builds
    (\<open>filesxx.cc\<close>, \<open>ve_fp.cc\<close>).  What is stored is fetched back; every block allocated is freed once.
  \<^item> Ti_Types: the type tables and searches of \<open>libtifiles\<close>.  Charset, Ticonv: character sets, tokens and
    names of \<open>libticonv\<close>.  Look-ups and conversions with their inverses and the defects found.
  \<^item> Transaction: the builder of \<open>main.c\<close>.  A reference parser reads back the intended transfer.
  \<^item> Solana_Client: \<open>solana_client.c\<close>.  The bytes of each request, and the ownership of every block.
  \<^item> C_Text, C_Double: the text functions of the C library the code calls, and the binary64 arithmetic of
    amounts, defined from the standards.
  \<^item> Prompts, Rpc_Json: the prompts and the JSON readers of \<open>main.c\<close>, the confirmation loop.
  \<^item> Dbus_Packet, Dbus_Wire: \<open>libticalcs/dbus_pkt.cc\<close>, the packets of the link port, as programs of the
    state monad over the handle; cable, event hook and cancel button answer through \<open>link_env\<close>.  A packet
    sent is received as it was, damaged data are reported, and one error path leaks the busy flag.
  \<^item> Cmd_Z80, Key_Tables, Screens: the commands of \<open>cmdz80.cc\<close>, the tables of \<open>keys*.cc\<close> and
    \<open>tikeys.cc\<close>, and the conversions of \<open>screen.cc\<close>; a decoder never writes outside its buffer.
  \<^item> Link_Program, Conversation: the shapes the operations of \<open>libticalcs\<close> are written in, and a calculus
    of what they say and hear: \<open>converses_in\<close> composes the bytes written with the bytes taken.  Its rules
    are a locale over what stays the same while talking, interpreted for the link port (\<open>serial\<close>, in
    Link_Talk) and for USB (\<open>usb\<close>, in Dusb_Wire).
  \<^item> Calc_73: the operations of \<open>calc_73.cc\<close> (TI-73, TI-83 Plus and TI-84 Plus over the link port).
  \<^item> Link_Talk, Link_Variables: the transfer of variables is the exchange of packets of the protocol, and a
    string stored by \<open>calc_store_binary_string\<close> and fetched again comes back over the wire, from the
    functions of the wallet down to the bytes.
  \<^item> Dusb_Packet, Dusb_Wire: \<open>dusb_rpkt.cc\<close> and \<open>dusb_vpkt.cc\<close>, the packets of the USB port.  A packet cut
    into pieces of 6 to 1023 bytes, each acknowledged, is put together as it was.
  \<^item> Dusb_Cmd, Calc_84p: the commands of \<open>dusb_cmd.cc\<close> and the operations of \<open>calc_84p.cc\<close> (TI-84 Plus
    family over USB).
  \<^item> Dusb_Talk, Usb_Variables: what commands, parameters, headers and transfers say and hear over USB; a
    string of the wallet comes back over USB as over the link port.
  \<^item> Dirlist: \<open>dirlist.cc\<close>, the tree of folders and entries; where its counts are right and where not.
  \<^item> Calc_Api, Calc_Tables: the operations of a handle (\<open>calc_xx.cc\<close>, and the cable in \<open>ticalcs.cc\<close>) and the
    tables of all models.  A handle in use refuses, one that was not in use is not in use afterwards, the
    transfers above say and hear the same when they are asked for through a handle, and no model promises
    an operation its table does not have.
  \<^item> Wallet_App, Wallet_Flows, Wallet_Network: the flows, the menu and \<open>main\<close>, and what they promise
    together: a wallet created loads again, and what reaches the network is what was prompted.

  \<^bold>\<open>Bounds and termination.\<close>  Loops over data recurse on the data.  The polling loop counts to
  \<open>CALC_SESSION_MAX_POLL_CYCLES\<close>, the confirmation loop to its number of attempts, as in the code.  The
  prompts and the menu loop until an answer is accepted: they end because each round consumes a line of
  standard input and the end of input cancels.  The decoding and encoding loops recurse on the text left.
  The loops of Calc_73 that wait for the calculator to end them (the directory, a screen in packets, a
  flash application, a certificate) run on fuel and answer \<open>None\<close> when it is used up; they consume one
  packet in a round, so that the number of packets is enough.  On the USB port such a loop runs
  \<open>rounds env\<close> times and then records \<open>Unfinished\<close>; the theorems say how many rounds are enough and that
  no such event occurs, nor a read or write past an array (\<open>Overread\<close>, \<open>Overrun\<close>) or \<open>Zero_division\<close>.

  \<^bold>\<open>Not modelled.\<close>  \<open>libticables\<close>, the protocols of \<open>libticalcs\<close> other than those named, and the file
  formats of \<open>libtifiles\<close> (drivers, protocols and on-disk formats of vendored code: the wallet sees only
  the answers of \<open>ti_env\<close> and \<open>store_env\<close>); the two operations of \<open>calc_73.cc\<close> and
  of \<open>calc_84p.cc\<close> that dump the ROM, the operations of \<open>calc_xx.cc\<close> on files and on groups, and the printing
  of USB packets and of directories; the Rust front end \<open>ui/\<close> (another language, presentation and bindings);
  build files and \<open>examples.c\<close> (comments only); the wording of messages and the layout of the menu; timing
  other than the order of steps.  The group law of the curve is not related to the point operations: the statements on
  signing leave \<open>ge_scalarmult_base\<close> as the code has it.
\<close>

end
